(* ===== verification/Rust_Prelude.thy ===== *)
theory Rust_Prelude
  imports Main "HOL-Library.Word"
begin

text \<open>
  The part of Rust and of its standard library that the modelled crates use: fixed width
  integers, the three ways a call can end (\<open>Ok\<close>, \<open>Err\<close>, a panic), the \<open>?\<close> operator with and
  without a mutable argument, little-endian byte encodings and the slicing of byte buffers.
  Unchecked integer arithmetic wraps around, as it does in the release profile the README
  builds; indexing out of range, \<open>unwrap\<close> on \<open>None\<close> and division by zero panic in every profile.
\<close>

section \<open>Collections of facts\<close>

named_theorems result_simps \<open>inversion of the result monad\<close>
named_theorems no_panic \<open>introduction rules for the absence of panics\<close>
named_theorems byte_simps \<open>slicing and splicing of byte buffers\<close>

section \<open>Integers\<close>

type_synonym u8 = "8 word"
type_synonym u16 = "16 word"
type_synonym u32 = "32 word"
type_synonym u64 = "64 word"
type_synonym u128 = "128 word"
type_synonym bytes = "u8 list"
type_synonym usize = nat

text \<open>A public key of Solana is a byte array of length 32.\<close>

type_synonym pubkey = "u8 list"

definition usize_modulus :: nat where
  "usize_modulus = 2 ^ 64"

text \<open>The subtraction \<open>a - b\<close> on \<open>usize\<close> values as the release profile computes it.\<close>

definition usize_sub :: "usize \<Rightarrow> usize \<Rightarrow> usize" where
  "usize_sub a b = (if b \<le> a then a - b else a + usize_modulus - b)"

lemma usize_sub_le [simp]: "b \<le> a \<Longrightarrow> usize_sub a b = a - b"
  by (simp add: usize_sub_def)

section \<open>Results\<close>

text \<open>
  The error constants of \<open>solana_program::program_error::ProgramError\<close> that the modelled
  sources mention; \<open>Custom\<close> carries the code of a \<open>FarmError\<close>.
\<close>

datatype ProgramError =
    Custom u32
  | InvalidArgument
  | InvalidInstructionData
  | InvalidAccountData
  | AccountDataTooSmall
  | InsufficientFunds
  | IncorrectProgramId
  | MissingRequiredSignature
  | AccountAlreadyInitialized
  | UninitializedAccount
  | NotEnoughAccountKeys
  | InvalidSeeds
  | IllegalOwner
  | UnsupportedSysvar

datatype 'a result = Ok 'a | Err ProgramError | Panic

primrec bind :: "'a result \<Rightarrow> ('a \<Rightarrow> 'b result) \<Rightarrow> 'b result" where
  "bind (Ok x) f = f x"
| "bind (Err e) f = Err e"
| "bind Panic f = Panic"

text \<open>\<open>bind m (\<lambda>x. \<dots>)\<close> is \<open>let x = m?; \<dots>\<close>.\<close>

lemma bind_Ok_iff [result_simps]: "bind m f = Ok y \<longleftrightarrow> (\<exists>x. m = Ok x \<and> f x = Ok y)"
  by (cases m) auto

lemma bind_Err_iff [result_simps]:
  "bind m f = Err e \<longleftrightarrow> m = Err e \<or> (\<exists>x. m = Ok x \<and> f x = Err e)"
  by (cases m) auto

lemma bind_Panic_iff [result_simps]:
  "bind m f = Panic \<longleftrightarrow> m = Panic \<or> (\<exists>x. m = Ok x \<and> f x = Panic)"
  by (cases m) auto

lemma bind_no_panic [no_panic]:
  "m \<noteq> Panic \<Longrightarrow> (\<And>x. m = Ok x \<Longrightarrow> f x \<noteq> Panic) \<Longrightarrow> bind m f \<noteq> Panic"
  by (cases m) auto

lemma bind_assoc [simp]: "bind (bind m f) g = bind m (\<lambda>x. bind (f x) g)"
  by (cases m) auto

lemma bind_Ok_right [simp]: "bind m Ok = m"
  by (cases m) auto

text \<open>\<open>m.or(Err(e))\<close> for a failing conversion given as an option.\<close>

definition ok_or :: "'a option \<Rightarrow> ProgramError \<Rightarrow> 'a result" where
  "ok_or v e = (case v of None \<Rightarrow> Err e | Some x \<Rightarrow> Ok x)"

lemma ok_or_simps [simp]: "ok_or None e = Err e" "ok_or (Some x) e = Ok x"
  by (simp_all add: ok_or_def)

lemma ok_or_iff [result_simps]:
  "ok_or v e = Ok x \<longleftrightarrow> v = Some x"
  "ok_or v e = Err e' \<longleftrightarrow> v = None \<and> e' = e"
  "ok_or v e \<noteq> Panic"
  by (auto simp: ok_or_def split: option.splits)

text \<open>
  A function with a mutable argument keeps the changes made before an error: the state is
  part of every outcome. \<open>seq\<close> is \<open>?\<close> in such a function, and \<open>pure_in s m\<close> runs a function
  that only reads the state.
\<close>

type_synonym ('a, 's) effect = "'a result \<times> 's"

definition seq :: "('a, 's) effect \<Rightarrow> ('a \<Rightarrow> 's \<Rightarrow> ('b, 's) effect) \<Rightarrow> ('b, 's) effect" where
  "seq m f = (case m of (r, s) \<Rightarrow>
     (case r of Ok x \<Rightarrow> f x s | Err e \<Rightarrow> (Err e, s) | Panic \<Rightarrow> (Panic, s)))"

abbreviation pure_in :: "'s \<Rightarrow> 'a result \<Rightarrow> ('a, 's) effect" where
  "pure_in s m \<equiv> (m, s)"

lemma seq_simps [simp]:
  "seq (Ok x, s) f = f x s"
  "seq (Err e, s) f = (Err e, s)"
  "seq (Panic, s) f = (Panic, s)"
  by (simp_all add: seq_def)

lemma seq_Ok_iff [result_simps]:
  "seq m f = (Ok y, t) \<longleftrightarrow> (\<exists>x s. m = (Ok x, s) \<and> f x s = (Ok y, t))"
  by (auto simp: seq_def split: prod.splits result.splits)

lemma if_no_panic [no_panic]:
  "(P \<Longrightarrow> a \<noteq> Panic) \<Longrightarrow> (\<not> P \<Longrightarrow> b \<noteq> Panic) \<Longrightarrow> (if P then a else b) \<noteq> Panic"
  "(P \<Longrightarrow> fst c \<noteq> Panic) \<Longrightarrow> (\<not> P \<Longrightarrow> fst d \<noteq> Panic) \<Longrightarrow> fst (if P then c else d) \<noteq> Panic"
  by simp_all

lemma prod_no_panic [no_panic]:
  "(\<And>a b. x = (a, b) \<Longrightarrow> fst (f a b s) \<noteq> Panic) \<Longrightarrow> fst ((case x of (a, b) \<Rightarrow> f a b) s) \<noteq> Panic"
  by (cases x) simp

lemma seq_no_panic [no_panic]:
  "fst m \<noteq> Panic \<Longrightarrow> (\<And>x s. m = (Ok x, s) \<Longrightarrow> fst (f x s) \<noteq> Panic) \<Longrightarrow> fst (seq m f) \<noteq> Panic"
  by (cases m; cases "fst m") auto

section \<open>Byte buffers\<close>

text \<open>Offsets are numerals: keep the simplifier from turning \<open>0 + 2\<close> into successors.\<close>

declare add_2_eq_Suc [simp del] add_2_eq_Suc' [simp del]

definition slice :: "nat \<Rightarrow> nat \<Rightarrow> 'a list \<Rightarrow> 'a list" where
  "slice off n xs = take n (drop off xs)"

text \<open>\<open>splice off ys xs\<close> overwrites the elements of \<open>xs\<close> from index \<open>off\<close> on by \<open>ys\<close>.\<close>

definition splice :: "nat \<Rightarrow> 'a list \<Rightarrow> 'a list \<Rightarrow> 'a list" where
  "splice off ys xs = take off xs @ ys @ drop (off + length ys) xs"

lemma length_slice [simp]: "length (slice off n xs) = min n (length xs - off)"
  by (simp add: slice_def)

lemma length_splice [simp]:
  "off + length ys \<le> length xs \<Longrightarrow> length (splice off ys xs) = length xs"
  by (simp add: splice_def)

lemma slice_nth: "i < n \<Longrightarrow> off + i < length xs \<Longrightarrow> slice off n xs ! i = xs ! (off + i)"
  by (simp add: slice_def)

lemma splice_nth:
  assumes "off + length ys \<le> length xs" and "i < length xs"
  shows "splice off ys xs ! i =
    (if off \<le> i \<and> i < off + length ys then ys ! (i - off) else xs ! i)"
  using assms by (auto simp: splice_def nth_append min_def)

lemma slice_splice_same [byte_simps]:
  "off + length ys \<le> length xs \<Longrightarrow> n = length ys \<Longrightarrow> slice off n (splice off ys xs) = ys"
  by (simp add: slice_def splice_def)

lemma slice_splice_before [byte_simps]:
  "o1 + n \<le> o2 \<Longrightarrow> o2 + length ys \<le> length xs \<Longrightarrow> slice o1 n (splice o2 ys xs) = slice o1 n xs"
  by (rule nth_equalityI) (auto simp: slice_nth splice_nth)

lemma slice_splice_after [byte_simps]:
  "o2 + length ys \<le> o1 \<Longrightarrow> o2 + length ys \<le> length xs \<Longrightarrow>
    slice o1 n (splice o2 ys xs) = slice o1 n xs"
  by (rule nth_equalityI) (auto simp: slice_nth splice_nth)

lemma slice_splice_inside [byte_simps]:
  assumes "o2 \<le> o1" and "o1 + n \<le> o2 + length ys" and "o2 + length ys \<le> length xs"
  shows "slice o1 n (splice o2 ys xs) = slice (o1 - o2) n ys"
proof (rule nth_equalityI)
  show "length (slice o1 n (splice o2 ys xs)) = length (slice (o1 - o2) n ys)"
    using assms by simp
  fix i assume "i < length (slice o1 n (splice o2 ys xs))"
  with assms have i: "i < n" "o1 + i < length xs" by auto
  have "slice o1 n (splice o2 ys xs) ! i = ys ! (o1 + i - o2)"
    using assms i by (simp add: slice_nth splice_nth)
  moreover have "slice (o1 - o2) n ys ! i = ys ! (o1 - o2 + i)"
    using assms i by (intro slice_nth) auto
  ultimately show "slice o1 n (splice o2 ys xs) ! i = slice (o1 - o2) n ys ! i"
    using assms(1) by simp
qed

lemma slice_slice [byte_simps]:
  "i + m \<le> n \<Longrightarrow> slice i m (slice off n xs) = slice (off + i) m xs"
  by (rule nth_equalityI) (auto simp: slice_nth add.assoc)

lemma slice_0_all [simp]: "length xs \<le> n \<Longrightarrow> slice 0 n xs = xs"
  by (simp add: slice_def)

lemma slice_append_left [byte_simps]:
  "off + n \<le> length xs \<Longrightarrow> slice off n (xs @ ys) = slice off n xs"
  by (simp add: slice_def)

lemma slice_append_right [byte_simps]:
  "length xs \<le> off \<Longrightarrow> slice off n (xs @ ys) = slice (off - length xs) n ys"
  by (simp add: slice_def)

lemma take_eq_slice: "take n xs = slice 0 n xs"
  by (simp add: slice_def)

text \<open>
  \<open>array_ref!\<close> and \<open>array_mut_ref!\<close> of the crate \<open>arrayref\<close> take a fixed window of a slice and
  panic when it does not fit; \<open>&data[off..]\<close> panics when \<open>off\<close> is past the end.
\<close>

definition array_ref :: "bytes \<Rightarrow> nat \<Rightarrow> nat \<Rightarrow> bytes result" where
  "array_ref xs off n = (if off + n \<le> length xs then Ok (slice off n xs) else Panic)"

definition array_set :: "bytes \<Rightarrow> nat \<Rightarrow> bytes \<Rightarrow> bytes result" where
  "array_set xs off ys = (if off + length ys \<le> length xs then Ok (splice off ys xs) else Panic)"

definition slice_from :: "bytes \<Rightarrow> nat \<Rightarrow> bytes result" where
  "slice_from xs off = (if off \<le> length xs then Ok (drop off xs) else Panic)"

lemma array_ref_Ok [simp]: "off + n \<le> length xs \<Longrightarrow> array_ref xs off n = Ok (slice off n xs)"
  by (simp add: array_ref_def)

lemma array_set_Ok [simp]:
  "off + length ys \<le> length xs \<Longrightarrow> array_set xs off ys = Ok (splice off ys xs)"
  by (simp add: array_set_def)

lemma slice_from_Ok [simp]: "off \<le> length xs \<Longrightarrow> slice_from xs off = Ok (drop off xs)"
  by (simp add: slice_from_def)

lemma slice_drop [byte_simps]: "slice off n (drop k xs) = slice (k + off) n xs"
  by (simp add: slice_def ac_simps)

section \<open>Little-endian encodings\<close>

fun le_nat :: "bytes \<Rightarrow> nat" where
  "le_nat [] = 0"
| "le_nat (b # bs) = unat b + 256 * le_nat bs"

fun le_bytes :: "nat \<Rightarrow> nat \<Rightarrow> bytes" where
  "le_bytes 0 v = []"
| "le_bytes (Suc k) v = of_nat (v mod 256) # le_bytes k (v div 256)"

text \<open>\<open>from_le_bytes\<close> and \<open>to_le_bytes\<close> at the width of the word type.\<close>

definition from_le_bytes :: "bytes \<Rightarrow> 'a::len word" where
  "from_le_bytes bs = of_nat (le_nat bs)"

definition to_le_bytes :: "'a::len word \<Rightarrow> bytes" where
  "to_le_bytes w = le_bytes (LENGTH('a) div 8) (unat w)"

lemma length_le_bytes [simp]: "length (le_bytes k v) = k"
  by (induction k arbitrary: v) auto

lemma length_to_le_bytes [simp]: "length (to_le_bytes (w :: 'a::len word)) = LENGTH('a) div 8"
  by (simp add: to_le_bytes_def)

lemma le_nat_bound: "le_nat bs < 256 ^ length bs"
proof (induction bs)
  case (Cons b bs)
  have "unat b < 256" using unsigned_less [of b] by simp
  with Cons show ?case by (simp add: Suc_le_eq [symmetric])
qed simp

lemma le_nat_le_bytes: "le_nat (le_bytes k v) = v mod 256 ^ k"
proof (induction k arbitrary: v)
  case (Suc k)
  have "unat (of_nat (v mod 256) :: u8) = v mod 256" by (simp add: unat_of_nat)
  with Suc show ?case by (simp add: mod_mult2_eq)
qed simp

lemma le_bytes_le_nat: "le_bytes (length bs) (le_nat bs) = bs"
proof (induction bs)
  case (Cons b bs)
  have b: "unat b < 256" using unsigned_less [of b] by simp
  then have "(unat b + 256 * le_nat bs) mod 256 = unat b"
    and "(unat b + 256 * le_nat bs) div 256 = le_nat bs" by simp_all
  with Cons show ?case by simp
qed simp

lemma pow256: "(256::nat) ^ k = 2 ^ (8 * k)"
  by (simp add: power_mult)

lemma from_to_le_bytes:
  assumes "8 * (LENGTH('a::len) div 8) = LENGTH('a)"
  shows "from_le_bytes (to_le_bytes w) = (w :: 'a word)"
proof -
  have "unat w < 2 ^ LENGTH('a)" by simp
  with assms show ?thesis
    by (simp add: from_le_bytes_def to_le_bytes_def le_nat_le_bytes pow256)
qed

lemma to_from_le_bytes:
  assumes "8 * length bs = LENGTH('a::len)"
  shows "to_le_bytes (from_le_bytes bs :: 'a word) = bs"
proof -
  have "le_nat bs < 2 ^ LENGTH('a)" using le_nat_bound [of bs] assms by (simp add: pow256)
  then have "unat (of_nat (le_nat bs) :: 'a word) = le_nat bs" by (simp add: unat_of_nat)
  moreover have "LENGTH('a) div 8 = length bs" using assms by (simp flip: assms)
  ultimately show ?thesis
    by (simp add: from_le_bytes_def to_le_bytes_def le_bytes_le_nat)
qed

lemma le_round_trips [simp]:
  "from_le_bytes (to_le_bytes (a :: u8)) = a"
  "from_le_bytes (to_le_bytes (b :: u16)) = b"
  "from_le_bytes (to_le_bytes (c :: u32)) = c"
  "from_le_bytes (to_le_bytes (d :: u64)) = d"
  "from_le_bytes (to_le_bytes (e :: u128)) = e"
  by (rule from_to_le_bytes; simp)+

lemma from_le_bytes_zeros [simp]: "from_le_bytes (replicate n 0) = 0"
proof -
  have "le_nat (replicate n 0) = 0" by (induction n) auto
  then show ?thesis by (simp add: from_le_bytes_def)
qed

end
