(* ===== verification/Farm_Math.thy ===== *)
theory Farm_Math
  imports Rust_Prelude
begin

text \<open>
  The error codes of \<open>crates/solana_farm_sdk/src/error.rs\<close> and the checked integer routines of
  \<open>math.rs\<close>; its floating point routines are in \<open>Decimals\<close>. \<open>num_traits::checked_pow\<close> and the SHA-256 hasher are third-party code and are
  arguments of the definitions that call them.
\<close>

section \<open>Error codes\<close>

datatype FarmError =
    MathOverflow
  | InvalidValue
  | InvalidRefdbRecord
  | RefdbTooLarge
  | RefdbRecordCounterMismatch
  | RefdbRecordNameMismatch
  | RefdbRecordTypeMismatch
  | RefdbRecordNotFound
  | UnexpectedBalanceDecrease
  | UnexpectedBalanceIncrease
  | ProgramOverspent
  | ProgramInsufficientTransfer
  | EmptyPool
  | OracleInvalidAccount
  | OracleInvalidState
  | OracleStalePrice
  | OracleInvalidPrice
  | IncorrectAccountAddress
  | AccountNotAuthorized
  | AlreadySigned
  | AlreadyExecuted
  | TooEarly

text \<open>The discriminant \<open>e as u32\<close> of a field-less enum is the position of the variant.\<close>

primrec farm_error_index :: "FarmError \<Rightarrow> u32" where
  "farm_error_index MathOverflow = 0"
| "farm_error_index InvalidValue = 1"
| "farm_error_index InvalidRefdbRecord = 2"
| "farm_error_index RefdbTooLarge = 3"
| "farm_error_index RefdbRecordCounterMismatch = 4"
| "farm_error_index RefdbRecordNameMismatch = 5"
| "farm_error_index RefdbRecordTypeMismatch = 6"
| "farm_error_index RefdbRecordNotFound = 7"
| "farm_error_index UnexpectedBalanceDecrease = 8"
| "farm_error_index UnexpectedBalanceIncrease = 9"
| "farm_error_index ProgramOverspent = 10"
| "farm_error_index ProgramInsufficientTransfer = 11"
| "farm_error_index EmptyPool = 12"
| "farm_error_index OracleInvalidAccount = 13"
| "farm_error_index OracleInvalidState = 14"
| "farm_error_index OracleStalePrice = 15"
| "farm_error_index OracleInvalidPrice = 16"
| "farm_error_index IncorrectAccountAddress = 17"
| "farm_error_index AccountNotAuthorized = 18"
| "farm_error_index AlreadySigned = 19"
| "farm_error_index AlreadyExecuted = 20"
| "farm_error_index TooEarly = 21"

definition farm_error :: "FarmError \<Rightarrow> ProgramError" where
  "farm_error e = Custom (1000 + farm_error_index e)"

section \<open>Checked integer arithmetic\<close>

definition checked_add :: "'a::len word \<Rightarrow> 'a word \<Rightarrow> 'a word result" where
  "checked_add arg1 arg2 =
     (if unat arg1 + unat arg2 < 2 ^ LENGTH('a) then Ok (arg1 + arg2)
      else Err (farm_error MathOverflow))"

definition checked_sub :: "'a::len word \<Rightarrow> 'a word \<Rightarrow> 'a word result" where
  "checked_sub arg1 arg2 =
     (if arg2 \<le> arg1 then Ok (arg1 - arg2) else Err (farm_error MathOverflow))"

definition checked_div :: "'a::len word \<Rightarrow> 'a word \<Rightarrow> 'a word result" where
  "checked_div arg1 arg2 =
     (if arg2 = 0 then Err (farm_error MathOverflow) else Ok (arg1 div arg2))"

definition checked_mul :: "'a::len word \<Rightarrow> 'a word \<Rightarrow> 'a word result" where
  "checked_mul arg1 arg2 =
     (if unat arg1 * unat arg2 < 2 ^ LENGTH('a) then Ok (arg1 * arg2)
      else Err (farm_error MathOverflow))"

definition checked_pow ::
  "('a::len word \<Rightarrow> nat \<Rightarrow> 'a word option) \<Rightarrow> 'a word \<Rightarrow> nat \<Rightarrow> 'a word result" where
  "checked_pow num_checked_pow arg exp = ok_or (num_checked_pow arg exp) (farm_error MathOverflow)"

text \<open>What \<open>num_traits\<close> documents for its \<open>checked_pow\<close>.\<close>

definition num_checked_pow_law :: "('a::len word \<Rightarrow> nat \<Rightarrow> 'a word option) \<Rightarrow> bool" where
  "num_checked_pow_law p \<longleftrightarrow>
     (\<forall>b e. p b e = (if unat b ^ e < 2 ^ LENGTH('a) then Some (b ^ e) else None))"

definition checked_as_u64 :: "'a::len word \<Rightarrow> u64 result" where
  "checked_as_u64 arg =
     (if unat arg < 2 ^ 64 then Ok (ucast arg) else Err (farm_error MathOverflow))"

definition checked_as_u128 :: "'a::len word \<Rightarrow> u128 result" where
  "checked_as_u128 arg =
     (if unat arg < 2 ^ 128 then Ok (ucast arg) else Err (farm_error MathOverflow))"

text \<open>
  \<open>checked_as_u64(checked_div(checked_mul(a as u128, b as u128)?, c as u128)?)?\<close>, the pattern
  every amount computation of the crate is built from.
\<close>

definition mul_div_u64 :: "u64 \<Rightarrow> u64 \<Rightarrow> u64 \<Rightarrow> u64 result" where
  "mul_div_u64 a b c =
     bind (checked_mul (ucast a :: u128) (ucast b)) (\<lambda>p.
     bind (checked_div p (ucast c)) checked_as_u64)"

definition get_no_fee_amount :: "u64 \<Rightarrow> u64 \<Rightarrow> u64 \<Rightarrow> u64 result" where
  "get_no_fee_amount amount fee_numerator fee_denominator =
     (if amount = 0 then Ok 0
      else bind (mul_div_u64 amount fee_numerator fee_denominator)
             (\<lambda>fee. checked_sub amount (max fee 1)))"

definition hash_address :: "(bytes \<Rightarrow> bytes) \<Rightarrow> u64 \<Rightarrow> pubkey \<Rightarrow> u64 result" where
  "hash_address hasher current_hash address =
     (let input = (if current_hash \<noteq> 0 then to_le_bytes current_hash @ address else address)
      in bind (array_ref (hasher input) 0 8) (\<lambda>h. Ok (from_le_bytes h)))"

section \<open>What the checked operations compute\<close>

lemma unat_u64_less: "unat (a :: u64) < 18446744073709551616"
  using unsigned_less [of a] by simp

lemma unat_ucast_u128 [simp]: "unat (ucast (a :: u64) :: u128) = unat a"
proof -
  have "unat a < 2 ^ 128" using unat_u64_less [of a] by simp
  then show ?thesis by (simp add: unsigned_ucast_eq take_bit_nat_eq_self)
qed

lemma mult_u64_less: "unat (a :: u64) * unat (b :: u64) < 340282366920938463463374607431768211456"
proof -
  have "unat a \<le> 18446744073709551615" "unat b \<le> 18446744073709551615"
    using unat_u64_less [of a] unat_u64_less [of b] by linarith+
  then have "unat a * unat b \<le> 18446744073709551615 * 18446744073709551615"
    by (rule mult_le_mono)
  then show ?thesis by simp
qed

lemma unat_mult_u128 [simp]: "unat (ucast (a :: u64) * ucast (b :: u64) :: u128) = unat a * unat b"
  using mult_u64_less [of a b] by (simp add: unat_mult_lem [THEN iffD1])

lemma ucast_u64_u128_eq_0 [simp]: "(ucast (c :: u64) :: u128) = 0 \<longleftrightarrow> c = 0"
  by (metis unat_ucast_u128 unat_eq_zero)

lemma mul_div_u64_eq:
  "mul_div_u64 a b c =
     (if c = 0 \<or> 2 ^ 64 \<le> unat a * unat b div unat c then Err (farm_error MathOverflow)
      else Ok (of_nat (unat a * unat b div unat c)))"
proof -
  have "unat ((ucast a * ucast b :: u128) div ucast c) = unat a * unat b div unat c"
    by (simp add: unat_div)
  moreover have "ucast ((ucast a * ucast b :: u128) div ucast c) =
      (of_nat (unat a * unat b div unat c) :: u64)"
    by (simp flip: calculation)
  ultimately show ?thesis
    using mult_u64_less [of a b]
    by (simp add: mul_div_u64_def checked_mul_def checked_div_def checked_as_u64_def not_le)
qed

lemma mul_div_u64_Ok_iff [result_simps]:
  "mul_div_u64 a b c = Ok r \<longleftrightarrow> c \<noteq> 0 \<and> unat r = unat a * unat b div unat c"
proof -
  have "unat (of_nat n :: u64) = n" if "n < 18446744073709551616" for n
    using that by (simp add: unat_of_nat)
  then show ?thesis
    using unat_u64_less [of r]
    by (auto simp: mul_div_u64_eq not_le word_unat_eq_iff not_less [symmetric] split: if_splits)
qed

lemma mul_div_u64_no_panic [simp]: "mul_div_u64 a b c \<noteq> Panic"
  by (simp add: mul_div_u64_eq)

lemma checked_sub_Ok_iff [result_simps]:
  "checked_sub a b = Ok r \<longleftrightarrow> b \<le> a \<and> unat r = unat a - unat b"
  by (auto simp: checked_sub_def unat_sub word_unat_eq_iff)

lemma checked_add_Ok_iff [result_simps]:
  "checked_add a (b :: 'a::len word) = Ok r \<longleftrightarrow>
     unat a + unat b < 2 ^ LENGTH('a) \<and> unat r = unat a + unat b"
  by (auto simp: checked_add_def unat_add_lem [THEN iffD1] word_unat_eq_iff)

lemma checked_mul_Ok_iff [result_simps]:
  "checked_mul a (b :: 'a::len word) = Ok r \<longleftrightarrow>
     unat a * unat b < 2 ^ LENGTH('a) \<and> unat r = unat a * unat b"
  by (auto simp: checked_mul_def unat_mult_lem [THEN iffD1] word_unat_eq_iff)

lemma checked_div_Ok_iff [result_simps]:
  "checked_div a b = Ok r \<longleftrightarrow> b \<noteq> 0 \<and> unat r = unat a div unat b"
  by (auto simp: checked_div_def word_unat_eq_iff unat_div)

lemma unat_max_1: "unat (max (f :: u64) 1) = max 1 (unat f)"
  by (auto simp: max_def word_le_nat_alt)

lemma get_no_fee_amount_Ok_iff [result_simps]:
  "get_no_fee_amount a n d = Ok r \<longleftrightarrow>
     (if a = 0 then r = 0
      else d \<noteq> 0 \<and> max 1 (unat a * unat n div unat d) \<le> unat a \<and>
           unat r = unat a - max 1 (unat a * unat n div unat d))"
proof (cases "a = 0")
  case True
  then show ?thesis by (auto simp: get_no_fee_amount_def)
next
  case False
  let ?f = "unat a * unat n div unat d"
  have "(\<exists>fee. mul_div_u64 a n d = Ok fee \<and> checked_sub a (max fee 1) = Ok r) \<longleftrightarrow>
      d \<noteq> 0 \<and> max 1 ?f \<le> unat a \<and> unat r = unat a - max 1 ?f" (is "?L \<longleftrightarrow> ?R")
  proof
    assume ?L
    then show ?R by (auto simp: result_simps word_le_nat_alt unat_max_1)
  next
    assume R: ?R
    then have "?f \<le> unat a" by simp
    then have "?f < 18446744073709551616" using unat_u64_less [of a] by (rule le_less_trans)
    then have u: "unat (of_nat ?f :: u64) = ?f" by (simp add: unat_of_nat)
    with R have "mul_div_u64 a n d = Ok (of_nat ?f)" by (simp add: mul_div_u64_Ok_iff)
    moreover from R u have "checked_sub a (max (of_nat ?f) 1) = Ok r"
      by (simp add: checked_sub_Ok_iff word_le_nat_alt unat_max_1)
    ultimately show ?L by blast
  qed
  with False show ?thesis by (simp add: get_no_fee_amount_def bind_Ok_iff)
qed

end
