(* ===== verification/Farm_Pack.thy ===== *)
theory Farm_Pack
  imports Farm_Math
begin

text \<open>
  The packing primitives of \<open>crates/solana_farm_sdk/src/pack.rs\<close> and the contract of the trait
  \<open>Packed\<close> of \<open>traits.rs\<close> as a locale. An \<open>ArrayString64\<close> is modelled by the bytes it holds. The
  crate \<open>arraystring\<close> is third-party: whether its \<open>try_from_utf8\<close> accepts some bytes is the
  argument \<open>utf8\<close> of every definition that decodes a name. The serde helpers of the file are
  glue to a serialisation library and are not modelled.
\<close>

type_synonym ArrayString64 = bytes

definition check_data_len :: "bytes \<Rightarrow> nat \<Rightarrow> unit result" where
  "check_data_len data min_len =
     (if length data < min_len then Err AccountDataTooSmall else Ok ())"

lemma check_data_len_simps [simp]:
  "min_len \<le> length data \<Longrightarrow> check_data_len data min_len = Ok ()"
  "length data < min_len \<Longrightarrow> check_data_len data min_len = Err AccountDataTooSmall"
  by (auto simp: check_data_len_def)

lemma check_data_len_iff [result_simps]:
  "check_data_len data n = Ok u \<longleftrightarrow> n \<le> length data"
  "check_data_len data n = Err e \<longleftrightarrow> length data < n \<and> e = AccountDataTooSmall"
  "check_data_len data n \<noteq> Panic"
  by (auto simp: check_data_len_def)

section \<open>Scalars and options\<close>

definition pack_bool :: "bool \<Rightarrow> bytes \<Rightarrow> bytes" where
  "pack_bool input output = splice 0 [if input then 1 else 0] output"

definition unpack_bool :: "bytes \<Rightarrow> bool result" where
  "unpack_bool input =
     (if input = [0] then Ok False else if input = [1] then Ok True else Err InvalidAccountData)"

definition pack_option_key :: "pubkey option \<Rightarrow> bytes \<Rightarrow> bytes" where
  "pack_option_key input output =
     (case input of
        Some key \<Rightarrow> splice 1 key (splice 0 [1] output)
      | None \<Rightarrow> splice 0 [0] output)"

definition unpack_option_key :: "bytes \<Rightarrow> pubkey option result" where
  "unpack_option_key input =
     (let tag = slice 0 1 input; data = slice 1 32 input
      in if tag = [0] then Ok None else if tag = [1] then Ok (Some data)
         else Err InvalidAccountData)"

definition pack_option_u32 :: "u32 option \<Rightarrow> bytes \<Rightarrow> bytes" where
  "pack_option_u32 input output =
     (case input of
        Some val \<Rightarrow> splice 1 (to_le_bytes val) (splice 0 [1] output)
      | None \<Rightarrow> splice 0 [0] output)"

definition unpack_option_u32 :: "bytes \<Rightarrow> u32 option result" where
  "unpack_option_u32 input =
     (let tag = slice 0 1 input; data = slice 1 4 input
      in if tag = [0] then Ok None else if tag = [1] then Ok (Some (from_le_bytes data))
         else Err InvalidAccountData)"

section \<open>Fixed size strings\<close>

definition try_from_utf8 :: "(bytes \<Rightarrow> bool) \<Rightarrow> bytes \<Rightarrow> ArrayString64 option" where
  "try_from_utf8 utf8 bs = (if utf8 bs then Some bs else None)"

text \<open>The loop over the zipped iterators overwrites the bytes the name covers and no others.\<close>

definition pack_array_string64 :: "ArrayString64 \<Rightarrow> bytes \<Rightarrow> bytes" where
  "pack_array_string64 input output =
     (if input \<noteq> [] then splice 0 (take (length output) input) output
      else splice 0 [0] output)"

text \<open>\<open>input.iter().position(|x| *x == 0)\<close>\<close>

definition position_zero :: "bytes \<Rightarrow> nat option" where
  "position_zero input =
     (if 0 \<in> set input then Some (length (takeWhile (\<lambda>x. x \<noteq> 0) input)) else None)"

definition unpack_array_string64 :: "(bytes \<Rightarrow> bool) \<Rightarrow> bytes \<Rightarrow> ArrayString64 result" where
  "unpack_array_string64 utf8 input =
     (case position_zero input of
        Some i \<Rightarrow> ok_or (try_from_utf8 utf8 (take i input)) InvalidAccountData
      | None \<Rightarrow> ok_or (try_from_utf8 utf8 input) InvalidAccountData)"

text \<open>The names that survive packing: no NUL byte, and not longer than the field.\<close>

definition packable_name :: "(bytes \<Rightarrow> bool) \<Rightarrow> ArrayString64 \<Rightarrow> bool" where
  "packable_name utf8 nm \<longleftrightarrow> length nm \<le> 64 \<and> 0 \<notin> set nm \<and> utf8 nm"

lemma length_pack_array_string64 [simp]:
  "output \<noteq> [] \<Longrightarrow> length (pack_array_string64 nm output) = length output"
  by (cases "output") (auto simp: pack_array_string64_def)

lemma unpack_array_string64_eq:
  "unpack_array_string64 utf8 input =
     (let nm = takeWhile (\<lambda>x. x \<noteq> 0) input in if utf8 nm then Ok nm else Err InvalidAccountData)"
proof (cases "0 \<in> set input")
  case True
  then show ?thesis
    by (simp add: unpack_array_string64_def position_zero_def try_from_utf8_def Let_def
        takeWhile_eq_take [symmetric])
next
  case False
  then have "takeWhile (\<lambda>x. x \<noteq> 0) input = input" by (auto simp: takeWhile_eq_all_conv)
  with False show ?thesis
    by (simp only: Let_def unpack_array_string64_def position_zero_def try_from_utf8_def) simp
qed

lemma unpack_array_string64_no_panic [simp]: "unpack_array_string64 utf8 input \<noteq> Panic"
  by (simp add: unpack_array_string64_eq Let_def)

text \<open>
  What is read back after packing: the name followed by whatever non-zero bytes the buffer
  held behind it. The name alone comes back when the byte behind it is zero.
\<close>

lemma takeWhile_pack_array_string64:
  assumes "length output = 64" and "packable_name utf8 nm" and "nm \<noteq> []"
  shows "takeWhile (\<lambda>x. x \<noteq> 0) (pack_array_string64 nm output) =
    nm @ takeWhile (\<lambda>x. x \<noteq> 0) (drop (length nm) output)"
proof -
  have "pack_array_string64 nm output = nm @ drop (length nm) output"
    using assms by (simp add: pack_array_string64_def packable_name_def splice_def)
  moreover have "x \<in> set nm \<Longrightarrow> x \<noteq> 0" for x
    using assms(2) by (auto simp: packable_name_def)
  ultimately show ?thesis by (auto simp: takeWhile_append2)
qed

lemma pack_array_string64_empty_name:
  "length output = 64 \<Longrightarrow> takeWhile (\<lambda>x. x \<noteq> 0) (pack_array_string64 [] output) = []"
  by (cases "output") (auto simp: pack_array_string64_def splice_def)

definition clean_after :: "ArrayString64 \<Rightarrow> bytes \<Rightarrow> bool" where
  "clean_after nm output \<longleftrightarrow> nm = [] \<or> takeWhile (\<lambda>x. x \<noteq> 0) (drop (length nm) output) = []"

lemma clean_after_zeros [simp]: "clean_after nm (replicate n 0)"
  by (cases "n - length nm") (simp_all add: clean_after_def)

lemma name_round_trip:
  assumes "length output = 64" and "packable_name utf8 nm" and "clean_after nm output"
  shows "unpack_array_string64 utf8 (pack_array_string64 nm output) = Ok nm"
proof (cases "nm = []")
  case True
  with assms show ?thesis
    by (simp add: unpack_array_string64_eq pack_array_string64_empty_name packable_name_def)
next
  case False
  with assms show ?thesis
    by (auto simp: unpack_array_string64_eq takeWhile_pack_array_string64 clean_after_def
        packable_name_def)
qed

lemma unpack_array_string64_zeros:
  "unpack_array_string64 utf8 (replicate n 0) = (if utf8 [] then Ok [] else Err InvalidAccountData)"
  by (cases n) (simp_all add: unpack_array_string64_eq)

lemma unpack_array_string64_packable:
  assumes "unpack_array_string64 utf8 input = Ok nm" and "length input = 64"
  shows "packable_name utf8 nm"
proof -
  from assms have nm: "nm = takeWhile (\<lambda>x. x \<noteq> 0) input" and u: "utf8 nm"
    by (auto simp: unpack_array_string64_eq Let_def split: if_splits)
  have "length nm \<le> 64" using length_takeWhile_le [of "\<lambda>x. x \<noteq> 0" input] assms(2) nm by simp
  moreover have "0 \<notin> set nm" using set_takeWhileD nm by fastforce
  ultimately show ?thesis using u by (simp add: packable_name_def)
qed

section \<open>The trait \<open>Packed\<close>\<close>

text \<open>\<open>to_vec\<close> packs into a zeroed buffer; every implementation has the same body.\<close>

definition packed_to_vec ::
  "nat \<Rightarrow> ('a \<Rightarrow> bytes \<Rightarrow> (nat, bytes) effect) \<Rightarrow> 'a \<Rightarrow> bytes result" where
  "packed_to_vec buf_len pack x =
     (case pack x (replicate buf_len 0) of
        (Ok len, output) \<Rightarrow> (if len \<le> length output then Ok (take len output) else Panic)
      | (Err _, _) \<Rightarrow> Err InvalidAccountData
      | (Panic, _) \<Rightarrow> Panic)"

text \<open>
  The contract of an implementation with fixed length \<open>LEN\<close>: buffers that are too short are
  refused and left alone, only the first \<open>LEN\<close> bytes are read, and what is packed into a
  zeroed buffer is read back.
\<close>

locale packed =
  fixes LEN :: nat
    and pack :: "'a \<Rightarrow> bytes \<Rightarrow> (nat, bytes) effect"
    and unpack :: "bytes \<Rightarrow> 'a result"
    and valid :: "'a \<Rightarrow> bool"
  assumes pack_short:
      "valid x \<Longrightarrow> length output < LEN \<Longrightarrow> pack x output = (Err AccountDataTooSmall, output)"
    and unpack_short: "length input < LEN \<Longrightarrow> unpack input = Err AccountDataTooSmall"
    and unpack_take: "LEN \<le> length input \<Longrightarrow> unpack input = unpack (take LEN input)"
    and pack_zeros: "valid x \<Longrightarrow> LEN \<le> n \<Longrightarrow> \<exists>output. pack x (replicate n 0) = (Ok LEN, output) \<and>
      length output = n \<and> unpack output = Ok x"
begin

lemma to_vec_Ok:
  assumes "valid x" and "LEN \<le> n"
  shows "\<exists>v. packed_to_vec n pack x = Ok v \<and> length v = LEN \<and> unpack v = Ok x"
proof -
  from pack_zeros [OF assms] obtain out where
    o: "pack x (replicate n 0) = (Ok LEN, out)" "length out = n" "unpack out = Ok x" by blast
  with assms(2) unpack_take [of out] have "unpack (take LEN out) = Ok x" by simp
  with o assms(2) show ?thesis by (simp add: packed_to_vec_def)
qed

lemma to_vec_round_trip:
  assumes "valid x" and "LEN \<le> n"
  shows "bind (packed_to_vec n pack x) unpack = Ok x"
  using to_vec_Ok [OF assms] by auto

lemma to_vec_inj:
  assumes "valid x" and "valid y" and "LEN \<le> n"
    and "packed_to_vec n pack x = packed_to_vec n pack y"
  shows "x = y"
proof -
  have "Ok x = bind (packed_to_vec n pack y) unpack"
    using to_vec_round_trip [OF assms(1,3)] unfolding assms(4) by (rule sym)
  also have "\<dots> = Ok y" by (rule to_vec_round_trip [OF assms(2,3)])
  finally show ?thesis by simp
qed

lemma unpack_append:
  assumes "valid x" and "LEN \<le> n" and "packed_to_vec n pack x = Ok v"
  shows "unpack (v @ rest) = Ok x"
proof -
  from to_vec_Ok [OF assms(1,2)] assms(3) have "length v = LEN" and u: "unpack v = Ok x" by auto
  then show ?thesis by (subst unpack_take) simp_all
qed

end

end
