(* ===== verification/RefDB_Layout.thy ===== *)
theory RefDB_Layout
  imports Farm_Pack
begin

text \<open>
  The on-chain layout of the reference database, \<open>crates/solana_farm_sdk/src/refdb.rs\<close>: the
  storage header, references and their types, storage types and records, with their packing
  and unpacking. The address derivations at the top of the file call into the Solana program
  library and are not modelled. A floating point reference is its bit pattern, since
  \<open>f64::to_le_bytes\<close> and \<open>f64::from_le_bytes\<close> only move bits.
\<close>

section \<open>Reference types and references\<close>

datatype ReferenceType = TPubkey | TU8 | TU16 | TU32 | TU64 | TF64 | TEmpty

datatype Reference =
    RPubkey pubkey
  | RU8 u8
  | RU16 u16
  | RU32 u32
  | RU64 u64
  | RF64 u64
  | REmpty

primrec Reference_get_type :: "Reference \<Rightarrow> ReferenceType" where
  "Reference_get_type (RPubkey _) = TPubkey"
| "Reference_get_type (RU8 _) = TU8"
| "Reference_get_type (RU16 _) = TU16"
| "Reference_get_type (RU32 _) = TU32"
| "Reference_get_type (RU64 _) = TU64"
| "Reference_get_type (RF64 _) = TF64"
| "Reference_get_type REmpty = TEmpty"

primrec ReferenceType_get_size :: "ReferenceType \<Rightarrow> usize" where
  "ReferenceType_get_size TPubkey = 32"
| "ReferenceType_get_size TU8 = 1"
| "ReferenceType_get_size TU16 = 2"
| "ReferenceType_get_size TU32 = 4"
| "ReferenceType_get_size TU64 = 8"
| "ReferenceType_get_size TF64 = 8"
| "ReferenceType_get_size TEmpty = 0"

primrec ReferenceType_as_u8 :: "ReferenceType \<Rightarrow> u8" where
  "ReferenceType_as_u8 TPubkey = 0"
| "ReferenceType_as_u8 TU8 = 1"
| "ReferenceType_as_u8 TU16 = 2"
| "ReferenceType_as_u8 TU32 = 3"
| "ReferenceType_as_u8 TU64 = 4"
| "ReferenceType_as_u8 TF64 = 5"
| "ReferenceType_as_u8 TEmpty = 6"

definition ReferenceType_try_from_primitive :: "u8 \<Rightarrow> ReferenceType option" where
  "ReferenceType_try_from_primitive b =
     (if b = 0 then Some TPubkey else if b = 1 then Some TU8 else if b = 2 then Some TU16
      else if b = 3 then Some TU32 else if b = 4 then Some TU64 else if b = 5 then Some TF64
      else if b = 6 then Some TEmpty else None)"

definition ReferenceType_fmt :: "ReferenceType \<Rightarrow> string" where
  "ReferenceType_fmt t = (case t of TPubkey \<Rightarrow> ''Pubkey'' | TU8 \<Rightarrow> ''U8'' | TU16 \<Rightarrow> ''U16''
     | TU32 \<Rightarrow> ''U32'' | TU64 \<Rightarrow> ''U64'' | TF64 \<Rightarrow> ''F64'' | TEmpty \<Rightarrow> ''Empty'')"

lemma ReferenceType_as_u8_round_trip [simp]:
  "ReferenceType_try_from_primitive (ReferenceType_as_u8 t) = Some t"
  by (cases t) (simp_all add: ReferenceType_try_from_primitive_def)

lemma ReferenceType_get_size_le: "ReferenceType_get_size t \<le> 32"
  by (cases t) simp_all

section \<open>Storage header\<close>

record Header =
  hdr_counter :: u32
  hdr_active_records :: u32
  hdr_reference_type :: ReferenceType
  hdr_name :: ArrayString64

definition Header_LEN :: usize where "Header_LEN = 73"
definition REF_TYPE_OFFSET :: usize where "REF_TYPE_OFFSET = 8"
definition NAME_OFFSET :: usize where "NAME_OFFSET = 9"

definition Header_pack :: "Header \<Rightarrow> bytes \<Rightarrow> (usize, bytes) effect" where
  "Header_pack self output =
     seq (pure_in output (check_data_len output Header_LEN)) (\<lambda>_ out0.
       (let out1 = splice 0 (to_le_bytes (hdr_counter self)) out0;
            out2 = splice 4 (to_le_bytes (hdr_active_records self)) out1;
            out3 = splice 8 [ReferenceType_as_u8 (hdr_reference_type self)] out2;
            out4 = splice 9 (pack_array_string64 (hdr_name self) (slice 9 64 out3)) out3
        in (Ok Header_LEN, out4)))"

definition Header_to_vec :: "Header \<Rightarrow> bytes result" where
  "Header_to_vec = packed_to_vec Header_LEN Header_pack"

definition Header_unpack :: "(bytes \<Rightarrow> bool) \<Rightarrow> bytes \<Rightarrow> Header result" where
  "Header_unpack utf8 input0 =
     bind (check_data_len input0 Header_LEN) (\<lambda>_.
     bind (array_ref input0 0 Header_LEN) (\<lambda>input.
     bind (ok_or (ReferenceType_try_from_primitive (slice 8 1 input ! 0)) InvalidAccountData) (\<lambda>rt.
     bind (unpack_array_string64 utf8 (slice 9 64 input)) (\<lambda>nm.
       Ok \<lparr> hdr_counter = from_le_bytes (slice 0 4 input),
            hdr_active_records = from_le_bytes (slice 4 4 input),
            hdr_reference_type = rt,
            hdr_name = nm \<rparr>))))"

section \<open>Records\<close>

record Record =
  rec_index :: "u32 option"
  rec_counter :: u16
  rec_tag :: u16
  rec_name :: ArrayString64
  rec_reference :: Reference

definition NO_REF_LEN :: usize where "NO_REF_LEN = 68"

text \<open>\<open>size_of::<Reference>()\<close>: a tag byte and a 32-byte payload, rounded up to the alignment 8.\<close>

definition Reference_MAX_LEN :: usize where "Reference_MAX_LEN = 40"
definition Record_MAX_LEN :: usize where "Record_MAX_LEN = NO_REF_LEN + Reference_MAX_LEN"

definition Record_get_size :: "Record \<Rightarrow> usize" where
  "Record_get_size self =
     (case rec_reference self of
        RPubkey _ \<Rightarrow> NO_REF_LEN + 32
      | RU8 _ \<Rightarrow> NO_REF_LEN + 1
      | RU16 _ \<Rightarrow> NO_REF_LEN + 2
      | RU32 _ \<Rightarrow> NO_REF_LEN + 4
      | RU64 _ \<Rightarrow> NO_REF_LEN + 8
      | RF64 _ \<Rightarrow> NO_REF_LEN + 8
      | REmpty \<Rightarrow> NO_REF_LEN)"

definition get_size_with_reference :: "ReferenceType \<Rightarrow> usize" where
  "get_size_with_reference reference_type = NO_REF_LEN + ReferenceType_get_size reference_type"

text \<open>The four assignments that the \<open>pack_with_\<dots>\<close> functions share, for given reference bytes.\<close>

definition pack_with :: "Record \<Rightarrow> bytes \<Rightarrow> bytes \<Rightarrow> bytes" where
  "pack_with self out0 data =
     (let out1 = splice 0 (to_le_bytes (rec_counter self)) out0;
          out2 = splice 2 (to_le_bytes (rec_tag self)) out1;
          out3 = splice 4 (pack_array_string64 (rec_name self) (slice 4 64 out2)) out2
      in splice 68 data out3)"

definition pack_with_pubkey :: "Record \<Rightarrow> bytes \<Rightarrow> pubkey \<Rightarrow> bytes" where
  "pack_with_pubkey self out data = pack_with self out data"
definition pack_with_u8 :: "Record \<Rightarrow> bytes \<Rightarrow> u8 \<Rightarrow> bytes" where
  "pack_with_u8 self out data = pack_with self out (to_le_bytes data)"
definition pack_with_u16 :: "Record \<Rightarrow> bytes \<Rightarrow> u16 \<Rightarrow> bytes" where
  "pack_with_u16 self out data = pack_with self out (to_le_bytes data)"
definition pack_with_u32 :: "Record \<Rightarrow> bytes \<Rightarrow> u32 \<Rightarrow> bytes" where
  "pack_with_u32 self out data = pack_with self out (to_le_bytes data)"
definition pack_with_u64 :: "Record \<Rightarrow> bytes \<Rightarrow> u64 \<Rightarrow> bytes" where
  "pack_with_u64 self out data = pack_with self out (to_le_bytes data)"
definition pack_with_f64 :: "Record \<Rightarrow> bytes \<Rightarrow> u64 \<Rightarrow> bytes" where
  "pack_with_f64 self out data = pack_with self out (to_le_bytes data)"
definition pack_with_empty :: "Record \<Rightarrow> bytes \<Rightarrow> bytes" where
  "pack_with_empty self out = pack_with self out []"

definition Record_pack :: "Record \<Rightarrow> bytes \<Rightarrow> (usize, bytes) effect" where
  "Record_pack self output =
     seq (pure_in output (check_data_len output (Record_get_size self))) (\<lambda>_ out.
       (Ok (Record_get_size self),
        (case rec_reference self of
           RPubkey data \<Rightarrow> pack_with_pubkey self out data
         | RU8 data \<Rightarrow> pack_with_u8 self out data
         | RU16 data \<Rightarrow> pack_with_u16 self out data
         | RU32 data \<Rightarrow> pack_with_u32 self out data
         | RU64 data \<Rightarrow> pack_with_u64 self out data
         | RF64 data \<Rightarrow> pack_with_f64 self out data
         | REmpty \<Rightarrow> pack_with_empty self out)))"

definition Record_to_vec :: "Record \<Rightarrow> bytes result" where
  "Record_to_vec = packed_to_vec Record_MAX_LEN Record_pack"

text \<open>The common shape of the \<open>unpack_with_\<dots>\<close> functions: a window of \<open>68 + k\<close> bytes.\<close>

definition unpack_with ::
  "(bytes \<Rightarrow> bool) \<Rightarrow> bytes \<Rightarrow> u32 option \<Rightarrow> nat \<Rightarrow> (bytes \<Rightarrow> Reference) \<Rightarrow> Record result" where
  "unpack_with utf8 input0 index k reference =
     bind (array_ref input0 0 (NO_REF_LEN + k)) (\<lambda>input.
     bind (unpack_array_string64 utf8 (slice 4 64 input)) (\<lambda>nm.
       Ok \<lparr> rec_index = index,
            rec_counter = from_le_bytes (slice 0 2 input),
            rec_tag = from_le_bytes (slice 2 2 input),
            rec_name = nm,
            rec_reference = reference (slice 68 k input) \<rparr>))"

definition unpack_with_pubkey where
  "unpack_with_pubkey utf8 input index = unpack_with utf8 input index 32 RPubkey"
definition unpack_with_u8 where
  "unpack_with_u8 utf8 input index = unpack_with utf8 input index 1 (\<lambda>d. RU8 (d ! 0))"
definition unpack_with_u16 where
  "unpack_with_u16 utf8 input index = unpack_with utf8 input index 2 (\<lambda>d. RU16 (from_le_bytes d))"
definition unpack_with_u32 where
  "unpack_with_u32 utf8 input index = unpack_with utf8 input index 4 (\<lambda>d. RU32 (from_le_bytes d))"
definition unpack_with_u64 where
  "unpack_with_u64 utf8 input index = unpack_with utf8 input index 8 (\<lambda>d. RU64 (from_le_bytes d))"
definition unpack_with_f64 where
  "unpack_with_f64 utf8 input index = unpack_with utf8 input index 8 (\<lambda>d. RF64 (from_le_bytes d))"
definition unpack_with_empty where
  "unpack_with_empty utf8 input index = unpack_with utf8 input index 0 (\<lambda>_. REmpty)"

definition Record_unpack ::
  "(bytes \<Rightarrow> bool) \<Rightarrow> bytes \<Rightarrow> ReferenceType \<Rightarrow> u32 option \<Rightarrow> Record result" where
  "Record_unpack utf8 input reference_type index =
     bind (check_data_len input (NO_REF_LEN + ReferenceType_get_size reference_type)) (\<lambda>_.
       (case reference_type of
          TPubkey \<Rightarrow> unpack_with_pubkey utf8 input index
        | TU8 \<Rightarrow> unpack_with_u8 utf8 input index
        | TU16 \<Rightarrow> unpack_with_u16 utf8 input index
        | TU32 \<Rightarrow> unpack_with_u32 utf8 input index
        | TU64 \<Rightarrow> unpack_with_u64 utf8 input index
        | TF64 \<Rightarrow> unpack_with_f64 utf8 input index
        | TEmpty \<Rightarrow> unpack_with_empty utf8 input index))"

definition unpack_counter :: "bytes \<Rightarrow> usize result" where
  "unpack_counter input =
     bind (check_data_len input NO_REF_LEN) (\<lambda>_.
     bind (array_ref input 0 2) (\<lambda>counter.
       Ok (unat (from_le_bytes counter :: u16))))"

definition unpack_counter_and_name ::
  "(bytes \<Rightarrow> bool) \<Rightarrow> bytes \<Rightarrow> (usize \<times> ArrayString64) result" where
  "unpack_counter_and_name utf8 input =
     bind (check_data_len input NO_REF_LEN) (\<lambda>_.
     bind (array_ref input 0 2) (\<lambda>counter.
     bind (array_ref input 4 64) (\<lambda>name.
     bind (unpack_array_string64 utf8 name) (\<lambda>nm.
       Ok (unat (from_le_bytes counter :: u16), nm)))))"

section \<open>Storage types\<close>

datatype StorageType = SProgram | SVault | SPool | SFarm | SToken | SFund | SOther

definition get_default_size :: "StorageType \<Rightarrow> usize" where
  "get_default_size storage_type =
     (case storage_type of SProgram \<Rightarrow> 25000 | SFund \<Rightarrow> 10000 | SVault \<Rightarrow> 50000 | SPool \<Rightarrow> 50000
      | SFarm \<Rightarrow> 50000 | SToken \<Rightarrow> 500000 | SOther \<Rightarrow> 0)"

definition get_default_max_records :: "StorageType \<Rightarrow> ReferenceType \<Rightarrow> usize" where
  "get_default_max_records storage_type reference_type =
     usize_sub (get_default_size storage_type) Header_LEN div get_size_with_reference reference_type"

definition get_storage_size_for_records :: "ReferenceType \<Rightarrow> usize \<Rightarrow> usize" where
  "get_storage_size_for_records reference_type records_num =
     (if records_num > 2 ^ 32 - 1 then 0
      else records_num * get_size_with_reference reference_type + Header_LEN)"

definition get_storage_size_for_max_records :: "StorageType \<Rightarrow> ReferenceType \<Rightarrow> usize" where
  "get_storage_size_for_max_records storage_type reference_type =
     get_storage_size_for_records reference_type
       (get_default_max_records storage_type reference_type)"

definition StorageType_fmt :: "StorageType \<Rightarrow> string" where
  "StorageType_fmt t = (case t of SProgram \<Rightarrow> ''Program'' | SFund \<Rightarrow> ''Fund'' | SVault \<Rightarrow> ''Vault''
     | SPool \<Rightarrow> ''Pool'' | SFarm \<Rightarrow> ''Farm'' | SToken \<Rightarrow> ''Token'' | SOther \<Rightarrow> ''Other'')"

text \<open>\<open>str::to_lowercase\<close> follows the Unicode tables and is an argument.\<close>

definition StorageType_from_str :: "(string \<Rightarrow> string) \<Rightarrow> string \<Rightarrow> StorageType result" where
  "StorageType_from_str to_lowercase s =
     (let l = to_lowercase s in
      if l = ''program'' then Ok SProgram else if l = ''fund'' then Ok SFund
      else if l = ''vault'' then Ok SVault else if l = ''pool'' then Ok SPool
      else if l = ''farm'' then Ok SFarm else if l = ''token'' then Ok SToken
      else if l = ''other'' then Ok SOther else Err InvalidArgument)"

section \<open>Packing a reference\<close>

fun ref_bytes :: "Reference \<Rightarrow> bytes" where
  "ref_bytes (RPubkey k) = k"
| "ref_bytes (RU8 d) = to_le_bytes d"
| "ref_bytes (RU16 d) = to_le_bytes d"
| "ref_bytes (RU32 d) = to_le_bytes d"
| "ref_bytes (RU64 d) = to_le_bytes d"
| "ref_bytes (RF64 d) = to_le_bytes d"
| "ref_bytes REmpty = []"

fun decode_ref :: "ReferenceType \<Rightarrow> bytes \<Rightarrow> Reference" where
  "decode_ref TPubkey d = RPubkey d"
| "decode_ref TU8 d = RU8 (d ! 0)"
| "decode_ref TU16 d = RU16 (from_le_bytes d)"
| "decode_ref TU32 d = RU32 (from_le_bytes d)"
| "decode_ref TU64 d = RU64 (from_le_bytes d)"
| "decode_ref TF64 d = RF64 (from_le_bytes d)"
| "decode_ref TEmpty d = REmpty"

text \<open>A public key is an array of 32 bytes.\<close>

fun wf_reference :: "Reference \<Rightarrow> bool" where
  "wf_reference (RPubkey k) \<longleftrightarrow> length k = 32"
| "wf_reference _ \<longleftrightarrow> True"

lemma length_ref_bytes [simp]:
  "wf_reference r \<Longrightarrow> length (ref_bytes r) = ReferenceType_get_size (Reference_get_type r)"
  by (cases r) simp_all

lemma to_le_bytes_u8_nth [simp]: "to_le_bytes (d :: u8) ! 0 = d"
proof -
  have "unat d < 256" using unsigned_less [of d] by simp
  then show ?thesis by (simp add: to_le_bytes_def)
qed

lemma decode_ref_bytes [simp]:
  "decode_ref (Reference_get_type r) (ref_bytes r) = r"
  by (cases r) simp_all

lemma get_type_decode_ref [simp]: "Reference_get_type (decode_ref t d) = t"
  by (cases t) simp_all

lemma wf_decode_ref [simp]: "length d = ReferenceType_get_size t \<Longrightarrow> wf_reference (decode_ref t d)"
  by (cases t) simp_all

lemma Record_get_size_eq:
  "Record_get_size r = NO_REF_LEN + ReferenceType_get_size (Reference_get_type (rec_reference r))"
  by (cases "rec_reference r") (simp_all add: Record_get_size_def)

lemma Record_pack_eq:
  "Record_pack r out =
     (if length out < Record_get_size r then (Err AccountDataTooSmall, out)
      else (Ok (Record_get_size r), pack_with r out (ref_bytes (rec_reference r))))"
  by (cases "rec_reference r")
    (simp_all add: Record_pack_def pack_with_pubkey_def pack_with_u8_def pack_with_u16_def
      pack_with_u32_def pack_with_u64_def pack_with_f64_def pack_with_empty_def)

lemma Record_unpack_eq:
  "Record_unpack utf8 input t index =
     (if length input < NO_REF_LEN + ReferenceType_get_size t then Err AccountDataTooSmall
      else bind (unpack_array_string64 utf8 (slice 4 64 input)) (\<lambda>nm.
        Ok \<lparr> rec_index = index,
             rec_counter = from_le_bytes (slice 0 2 input),
             rec_tag = from_le_bytes (slice 2 2 input),
             rec_name = nm,
             rec_reference = decode_ref t (slice 68 (ReferenceType_get_size t) input) \<rparr>))"
  by (cases t)
    (simp_all add: Record_unpack_def unpack_with_def NO_REF_LEN_def unpack_with_pubkey_def
      unpack_with_u8_def unpack_with_u16_def unpack_with_u32_def unpack_with_u64_def
      unpack_with_f64_def unpack_with_empty_def slice_slice slice_nth)

text \<open>The four fields of a packed record, and the bytes behind it.\<close>

lemma pack_with_fields:
  assumes "68 + length d \<le> length out"
  shows "length (pack_with r out d) = length out"
    and "slice 0 2 (pack_with r out d) = to_le_bytes (rec_counter r)"
    and "slice 2 2 (pack_with r out d) = to_le_bytes (rec_tag r)"
    and "slice 4 64 (pack_with r out d) = pack_array_string64 (rec_name r) (slice 4 64 out)"
    and "slice 68 (length d) (pack_with r out d) = d"
    and "68 + length d \<le> off \<Longrightarrow> slice off n (pack_with r out d) = slice off n out"
proof -
  have ne: "slice 4 64 out \<noteq> []" using assms by (simp add: slice_def)
  then have [simp]: "length (pack_array_string64 (rec_name r) (slice 4 64 out)) = 64"
    using assms by simp
  show "length (pack_with r out d) = length out"
    and "slice 0 2 (pack_with r out d) = to_le_bytes (rec_counter r)"
    and "slice 2 2 (pack_with r out d) = to_le_bytes (rec_tag r)"
    and "slice 4 64 (pack_with r out d) = pack_array_string64 (rec_name r) (slice 4 64 out)"
    and "slice 68 (length d) (pack_with r out d) = d"
    and "68 + length d \<le> off \<Longrightarrow> slice off n (pack_with r out d) = slice off n out"
    using assms by (simp_all add: pack_with_def Let_def byte_simps)
qed

lemma Record_unpack_pack_with:
  assumes "68 + ReferenceType_get_size (Reference_get_type (rec_reference r)) \<le> length out"
    and "wf_reference (rec_reference r)" and "packable_name utf8 (rec_name r)"
    and "clean_after (rec_name r) (slice 4 64 out)"
  shows "Record_unpack utf8 (pack_with r out (ref_bytes (rec_reference r)))
      (Reference_get_type (rec_reference r)) index = Ok (r\<lparr>rec_index := index\<rparr>)"
proof -
  let ?d = "ref_bytes (rec_reference r)"
  have d: "68 + length ?d \<le> length out" using assms by simp
  note f = pack_with_fields [OF d, where r = r]
  have "length (slice 4 64 out) = 64" using d by simp
  with assms have "unpack_array_string64 utf8 (slice 4 64 (pack_with r out ?d)) = Ok (rec_name r)"
    by (simp add: f name_round_trip)
  with f assms show ?thesis by (simp add: Record_unpack_eq NO_REF_LEN_def)
qed

lemma Header_pack_fields:
  assumes "Header_LEN \<le> length out"
  shows "\<exists>out'. Header_pack h out = (Ok Header_LEN, out') \<and> length out' = length out \<and>
    slice 0 4 out' = to_le_bytes (hdr_counter h) \<and>
    slice 4 4 out' = to_le_bytes (hdr_active_records h) \<and>
    slice 8 1 out' = [ReferenceType_as_u8 (hdr_reference_type h)] \<and>
    slice 9 64 out' = pack_array_string64 (hdr_name h) (slice 9 64 out) \<and>
    (\<forall>off n. Header_LEN \<le> off \<longrightarrow> slice off n out' = slice off n out)"
proof -
  have "slice 9 64 out \<noteq> []" using assms by (simp add: slice_def Header_LEN_def)
  then have [simp]: "length (pack_array_string64 (hdr_name h) (slice 9 64 out)) = 64"
    using assms by (simp add: Header_LEN_def)
  show ?thesis
    using assms by (simp add: Header_pack_def Let_def Header_LEN_def byte_simps)
qed

lemma Header_unpack_eq:
  assumes "Header_LEN \<le> length input"
  shows "Header_unpack utf8 input =
     bind (ok_or (ReferenceType_try_from_primitive (input ! 8)) InvalidAccountData) (\<lambda>rt.
     bind (unpack_array_string64 utf8 (slice 9 64 input)) (\<lambda>nm.
       Ok \<lparr> hdr_counter = from_le_bytes (slice 0 4 input),
            hdr_active_records = from_le_bytes (slice 4 4 input),
            hdr_reference_type = rt,
            hdr_name = nm \<rparr>))"
  using assms by (simp add: Header_unpack_def Header_LEN_def slice_slice slice_nth)

section \<open>Instances of the \<open>Packed\<close> contract\<close>

interpretation header: packed Header_LEN Header_pack "Header_unpack utf8"
  "\<lambda>h. packable_name utf8 (hdr_name h)" for utf8
proof unfold_locales
  fix h :: Header and out :: bytes
  assume "length out < Header_LEN"
  then show "Header_pack h out = (Err AccountDataTooSmall, out)" by (simp add: Header_pack_def)
next
  fix input :: bytes
  assume "length input < Header_LEN"
  then show "Header_unpack utf8 input = Err AccountDataTooSmall" by (simp add: Header_unpack_def)
next
  fix input :: bytes
  assume "Header_LEN \<le> length input"
  then show "Header_unpack utf8 input = Header_unpack utf8 (take Header_LEN input)"
    by (simp add: Header_unpack_eq take_eq_slice slice_slice slice_nth) (simp add: Header_LEN_def slice_slice slice_nth)
next
  fix h :: Header and n :: nat
  assume h: "packable_name utf8 (hdr_name h)" and n: "Header_LEN \<le> n"
  then obtain out where o: "Header_pack h (replicate n 0) = (Ok Header_LEN, out)" "length out = n"
    "slice 0 4 out = to_le_bytes (hdr_counter h)"
    "slice 4 4 out = to_le_bytes (hdr_active_records h)"
    "slice 8 1 out = [ReferenceType_as_u8 (hdr_reference_type h)]"
    "slice 9 64 out = pack_array_string64 (hdr_name h) (slice 9 64 (replicate n 0))"
    using Header_pack_fields [of "replicate n 0" h] by auto
  have "slice 9 64 (replicate n 0) = (replicate 64 0 :: bytes)"
    using n by (simp add: slice_def Header_LEN_def)
  then have "unpack_array_string64 utf8 (slice 9 64 out) = Ok (hdr_name h)"
    using h o(6) by (simp add: name_round_trip)
  moreover have "out ! 8 = ReferenceType_as_u8 (hdr_reference_type h)"
    using o(2,5) n slice_nth [of 0 1 8 out] by (simp add: Header_LEN_def)
  ultimately have "Header_unpack utf8 out = Ok h"
    using n o(2,3,4) by (simp add: Header_unpack_eq)
  with o(1,2) show "\<exists>out. Header_pack h (replicate n 0) = (Ok Header_LEN, out) \<and> length out = n \<and>
      Header_unpack utf8 out = Ok h" by blast
qed

text \<open>Records of one reference type; the index is not stored.\<close>

definition valid_record :: "(bytes \<Rightarrow> bool) \<Rightarrow> ReferenceType \<Rightarrow> u32 option \<Rightarrow> Record \<Rightarrow> bool" where
  "valid_record utf8 t index r \<longleftrightarrow> packable_name utf8 (rec_name r) \<and>
     wf_reference (rec_reference r) \<and> Reference_get_type (rec_reference r) = t \<and> rec_index r = index"

interpretation stored_record: packed "get_size_with_reference t" Record_pack
  "\<lambda>input. Record_unpack utf8 input t index" "valid_record utf8 t index" for t utf8 index
proof unfold_locales
  fix r :: Record and out :: bytes
  assume "valid_record utf8 t index r" and "length out < get_size_with_reference t"
  then show "Record_pack r out = (Err AccountDataTooSmall, out)"
    by (simp add: Record_pack_eq Record_get_size_eq valid_record_def get_size_with_reference_def)
next
  fix input :: bytes
  assume "length input < get_size_with_reference t"
  then show "Record_unpack utf8 input t index = Err AccountDataTooSmall"
    by (simp add: Record_unpack_eq get_size_with_reference_def)
next
  fix input :: bytes
  assume "get_size_with_reference t \<le> length input"
  then show "Record_unpack utf8 input t index =
      Record_unpack utf8 (take (get_size_with_reference t) input) t index"
    by (simp add: Record_unpack_eq take_eq_slice slice_slice get_size_with_reference_def NO_REF_LEN_def)
next
  fix r :: Record and n :: nat
  assume r: "valid_record utf8 t index r" and n: "get_size_with_reference t \<le> n"
  let ?z = "replicate n 0 :: bytes" and ?p = "pack_with r (replicate n 0) (ref_bytes (rec_reference r))"
  have t: "Reference_get_type (rec_reference r) = t" and i: "rec_index r = index"
    using r by (simp_all add: valid_record_def)
  have len: "68 + ReferenceType_get_size (Reference_get_type (rec_reference r)) \<le> length ?z"
    using n t by (simp add: get_size_with_reference_def NO_REF_LEN_def)
  have "slice 4 64 ?z = replicate 64 0" using len by (simp add: slice_def)
  then have "Record_unpack utf8 ?p t index = Ok (r\<lparr>rec_index := index\<rparr>)"
    using Record_unpack_pack_with [OF len, of utf8 index] r t by (simp add: valid_record_def)
  moreover have "Record_pack r ?z = (Ok (get_size_with_reference t), ?p)"
    using n t by (simp add: Record_pack_eq Record_get_size_eq get_size_with_reference_def)
  moreover have "length ?p = n" using pack_with_fields(1) [of "ref_bytes (rec_reference r)" ?z r] len r
    by (simp add: valid_record_def)
  ultimately show "\<exists>out. Record_pack r ?z = (Ok (get_size_with_reference t), out) \<and>
      length out = n \<and> Record_unpack utf8 out t index = Ok r"
    using i by auto
qed

end
