(* ===== verification/RefDB_Store.thy ===== *)
theory RefDB_Store
  imports RefDB_Layout
begin

text \<open>
  The operations of \<open>RefDB\<close> in \<open>crates/solana_farm_sdk/src/refdb.rs\<close>, in the order of the source.
  The storage is the byte buffer of the account; an operation that writes returns it with its
  outcome, so that what an operation leaves behind when it fails is visible. The \<open>for\<close> loops
  over the slots are recursions on the number of slots left.
\<close>

section \<open>Header fields and sizes\<close>

definition RefDB_get_reference_type :: "bytes \<Rightarrow> ReferenceType result" where
  "RefDB_get_reference_type data =
     bind (check_data_len data Header_LEN) (\<lambda>_.
       ok_or (ReferenceType_try_from_primitive (data ! REF_TYPE_OFFSET)) InvalidAccountData)"

definition RefDB_get_record_size :: "bytes \<Rightarrow> usize result" where
  "RefDB_get_record_size data =
     bind (RefDB_get_reference_type data) (\<lambda>t. Ok (NO_REF_LEN + ReferenceType_get_size t))"

definition RefDB_is_initialized :: "(bytes \<Rightarrow> bool) \<Rightarrow> bytes \<Rightarrow> bool" where
  "RefDB_is_initialized utf8 data =
     (case Header_unpack utf8 data of
        Ok header \<Rightarrow>
          (case RefDB_get_record_size data of
             Ok rec_size \<Rightarrow> hdr_counter header > 0 \<and>
               unat (hdr_active_records header) \<le> usize_sub (length data) Header_LEN div rec_size
           | _ \<Rightarrow> False)
      | _ \<Rightarrow> False)"

definition RefDB_init ::
  "(bytes \<Rightarrow> bool) \<Rightarrow> bytes \<Rightarrow> ArrayString64 \<Rightarrow> ReferenceType \<Rightarrow> (unit, bytes) effect" where
  "RefDB_init utf8 data name reference_type =
     (if RefDB_is_initialized utf8 data then (Err AccountAlreadyInitialized, data)
      else
        seq (pure_in data (check_data_len data
               (Header_LEN + (NO_REF_LEN + ReferenceType_get_size reference_type)))) (\<lambda>_ data.
        seq (Header_pack \<lparr> hdr_counter = 1, hdr_active_records = 0,
               hdr_reference_type = reference_type, hdr_name = name \<rparr> data) (\<lambda>_ data.
          (Ok (), data))))"

definition RefDB_drop :: "bytes \<Rightarrow> (usize, bytes) effect" where
  "RefDB_drop data =
     seq (pure_in data (check_data_len data Header_LEN)) (\<lambda>_ data.
       if length data > 2000 then (Err (farm_error RefdbTooLarge), data)
       else (Ok (length data), replicate (length data) 0))"

definition RefDB_get_storage_header :: "(bytes \<Rightarrow> bool) \<Rightarrow> bytes \<Rightarrow> Header result" where
  "RefDB_get_storage_header utf8 data = Header_unpack utf8 data"

definition RefDB_get_storage_counter :: "bytes \<Rightarrow> usize result" where
  "RefDB_get_storage_counter data =
     bind (check_data_len data Header_LEN) (\<lambda>_.
     bind (array_ref data 0 4) (\<lambda>b.
       (let counter = unat (from_le_bytes b :: u32)
        in if counter > 0 then Ok counter else Err UninitializedAccount)))"

definition RefDB_set_storage_counter :: "bytes \<Rightarrow> usize \<Rightarrow> (usize, bytes) effect" where
  "RefDB_set_storage_counter data counter =
     (if counter = 0 then (Err InvalidArgument, data)
      else
        seq (pure_in data (check_data_len data Header_LEN)) (\<lambda>_ data.
        (case array_set data 0 (to_le_bytes (of_nat counter :: u32)) of
           Ok data' \<Rightarrow> (Ok counter, data') | Err e \<Rightarrow> (Err e, data) | Panic \<Rightarrow> (Panic, data))))"

definition RefDB_get_active_records :: "bytes \<Rightarrow> usize result" where
  "RefDB_get_active_records data =
     bind (check_data_len data Header_LEN) (\<lambda>_.
     bind (array_ref data 4 4) (\<lambda>b. Ok (unat (from_le_bytes b :: u32))))"

definition RefDB_set_active_records :: "bytes \<Rightarrow> usize \<Rightarrow> (usize, bytes) effect" where
  "RefDB_set_active_records data records =
     seq (pure_in data (check_data_len data Header_LEN)) (\<lambda>_ data.
     (case array_set data 4 (to_le_bytes (of_nat records :: u32)) of
        Ok data' \<Rightarrow> (Ok records, data') | Err e \<Rightarrow> (Err e, data) | Panic \<Rightarrow> (Panic, data)))"

definition RefDB_get_free_records :: "bytes \<Rightarrow> usize result" where
  "RefDB_get_free_records data =
     bind (RefDB_get_record_size data) (\<lambda>rec_size.
     bind (RefDB_get_active_records data) (\<lambda>active.
       Ok (usize_sub (usize_sub (length data) (active * rec_size)) Header_LEN div rec_size)))"

definition RefDB_get_total_records :: "bytes \<Rightarrow> usize result" where
  "RefDB_get_total_records data =
     bind (RefDB_get_record_size data) (\<lambda>rec_size.
       Ok (usize_sub (length data) Header_LEN div rec_size))"

definition RefDB_is_empty :: "bytes \<Rightarrow> bool result" where
  "RefDB_is_empty data = bind (RefDB_get_active_records data) (\<lambda>n. Ok (n = 0))"

definition RefDB_is_full :: "bytes \<Rightarrow> bool result" where
  "RefDB_is_full data = bind (RefDB_get_free_records data) (\<lambda>n. Ok (n = 0))"

definition RefDB_is_updated :: "bytes \<Rightarrow> usize \<Rightarrow> bool result" where
  "RefDB_is_updated data last_counter =
     bind (RefDB_get_storage_counter data) (\<lambda>c. Ok (c > last_counter))"

definition RefDB_get_name :: "(bytes \<Rightarrow> bool) \<Rightarrow> bytes \<Rightarrow> ArrayString64 result" where
  "RefDB_get_name utf8 data =
     bind (check_data_len data Header_LEN) (\<lambda>_.
     bind (array_ref data NAME_OFFSET 64) (\<lambda>name. unpack_array_string64 utf8 name))"

section \<open>Slots\<close>

text \<open>Offsets are computed with wrapping \<open>usize\<close> arithmetic.\<close>

definition RefDB_get_offset :: "bytes \<Rightarrow> usize \<Rightarrow> usize result" where
  "RefDB_get_offset data index =
     bind (RefDB_get_record_size data) (\<lambda>rec_size.
       (let offset = (Header_LEN + index * rec_size) mod usize_modulus
        in bind (check_data_len data offset) (\<lambda>_. Ok offset)))"

definition get_record_counter :: "bytes \<Rightarrow> usize \<Rightarrow> usize result" where
  "get_record_counter data offset = bind (slice_from data offset) unpack_counter"

definition set_record_counter :: "bytes \<Rightarrow> usize \<Rightarrow> usize \<Rightarrow> (unit, bytes) effect" where
  "set_record_counter data offset counter =
     (if counter = 0 then (Ok (), data)
      else (case array_set data offset (to_le_bytes (of_nat counter :: u16)) of
              Ok data' \<Rightarrow> (Ok (), data') | Err e \<Rightarrow> (Err e, data) | Panic \<Rightarrow> (Panic, data)))"

definition get_record_counter_and_name ::
  "(bytes \<Rightarrow> bool) \<Rightarrow> bytes \<Rightarrow> usize \<Rightarrow> (usize \<times> ArrayString64) result" where
  "get_record_counter_and_name utf8 data offset =
     bind (slice_from data offset) (unpack_counter_and_name utf8)"

text \<open>\<open>find_index\<close>: the loop and the function around it.\<close>

fun find_index_loop ::
  "(bytes \<Rightarrow> bool) \<Rightarrow> bytes \<Rightarrow> ArrayString64 \<Rightarrow> usize \<Rightarrow> usize \<Rightarrow> nat \<Rightarrow> usize \<Rightarrow> usize \<Rightarrow> usize
     \<Rightarrow> usize option result" where
  "find_index_loop utf8 data name rec_active rec_size 0 index offset checked = Ok None"
| "find_index_loop utf8 data name rec_active rec_size (Suc n) index offset checked =
     bind (get_record_counter_and_name utf8 data offset) (\<lambda>(counter, rec_name).
       if counter > 0 then
         (if rec_name = name then Ok (Some index)
          else if checked + 1 = rec_active then Ok None
          else find_index_loop utf8 data name rec_active rec_size n (index + 1)
                 (offset + rec_size) (checked + 1))
       else find_index_loop utf8 data name rec_active rec_size n (index + 1)
              (offset + rec_size) checked)"

definition RefDB_find_index ::
  "(bytes \<Rightarrow> bool) \<Rightarrow> bytes \<Rightarrow> ArrayString64 \<Rightarrow> usize option result" where
  "RefDB_find_index utf8 data name =
     bind (RefDB_get_active_records data) (\<lambda>rec_active.
       if rec_active = 0 then Ok None
       else
         bind (RefDB_get_total_records data) (\<lambda>rec_num.
         bind (RefDB_get_record_size data) (\<lambda>rec_size.
           find_index_loop utf8 data name rec_active rec_size rec_num 0 Header_LEN 0)))"

fun find_last_index_loop ::
  "bytes \<Rightarrow> usize \<Rightarrow> usize \<Rightarrow> nat \<Rightarrow> usize \<Rightarrow> usize \<Rightarrow> usize \<Rightarrow> u32 result" where
  "find_last_index_loop data rec_active rec_size 0 index offset checked = Err InvalidAccountData"
| "find_last_index_loop data rec_active rec_size (Suc n) index offset checked =
     bind (get_record_counter data offset) (\<lambda>counter.
       if counter > 0 then
         (if checked + 1 = rec_active then Ok (of_nat (index + 1))
          else find_last_index_loop data rec_active rec_size n (index + 1)
                 (offset + rec_size) (checked + 1))
       else find_last_index_loop data rec_active rec_size n (index + 1)
              (offset + rec_size) checked)"

definition RefDB_find_last_index :: "bytes \<Rightarrow> u32 result" where
  "RefDB_find_last_index data =
     bind (RefDB_get_active_records data) (\<lambda>rec_active.
       if rec_active = 0 then Ok 0
       else
         bind (RefDB_get_total_records data) (\<lambda>rec_num.
         bind (RefDB_get_record_size data) (\<lambda>rec_size.
           find_last_index_loop data rec_active rec_size rec_num 0 Header_LEN 0)))"

fun find_next_index_loop ::
  "bytes \<Rightarrow> usize \<Rightarrow> usize \<Rightarrow> nat \<Rightarrow> usize \<Rightarrow> usize \<Rightarrow> usize \<Rightarrow> u32 result" where
  "find_next_index_loop data rec_active rec_size 0 index offset checked = Err InvalidAccountData"
| "find_next_index_loop data rec_active rec_size (Suc n) index offset checked =
     bind (get_record_counter data offset) (\<lambda>counter.
       if counter = 0 then Ok (of_nat index)
       else if checked + 1 = rec_active then Ok (of_nat (index + 1))
       else find_next_index_loop data rec_active rec_size n (index + 1)
              (offset + rec_size) (checked + 1))"

definition RefDB_find_next_index :: "bytes \<Rightarrow> u32 result" where
  "RefDB_find_next_index data =
     bind (RefDB_get_active_records data) (\<lambda>rec_active.
       if rec_active = 0 then Ok 0
       else
         bind (RefDB_get_total_records data) (\<lambda>rec_num.
         bind (RefDB_get_record_size data) (\<lambda>rec_size.
           find_next_index_loop data rec_active rec_size rec_num 0 Header_LEN 0)))"

text \<open>
  \<open>find_write_offset\<close>: the loop leaves either with the offset of the record of that name
  (\<open>Inl\<close>, an early return) or with the final values of \<open>offset\<close> and \<open>free_slot\<close> (\<open>Inr\<close>).
\<close>

fun find_write_offset_loop ::
  "(bytes \<Rightarrow> bool) \<Rightarrow> bytes \<Rightarrow> ArrayString64 \<Rightarrow> usize \<Rightarrow> usize \<Rightarrow> nat \<Rightarrow> usize \<Rightarrow> usize \<Rightarrow> usize
     \<Rightarrow> (usize + usize \<times> usize) result" where
  "find_write_offset_loop utf8 data name rec_active rec_size 0 offset checked free_slot =
     Ok (Inr (offset, free_slot))"
| "find_write_offset_loop utf8 data name rec_active rec_size (Suc n) offset checked free_slot =
     bind (get_record_counter_and_name utf8 data offset) (\<lambda>(counter, rec_name).
       if counter > 0 then
         (if rec_name = name then Ok (Inl offset)
          else if checked + 1 = rec_active then Ok (Inr (offset + rec_size, free_slot))
          else find_write_offset_loop utf8 data name rec_active rec_size n
                 (offset + rec_size) (checked + 1) free_slot)
       else find_write_offset_loop utf8 data name rec_active rec_size n
              (offset + rec_size) checked (if free_slot = 0 then offset else free_slot))"

definition find_write_offset :: "(bytes \<Rightarrow> bool) \<Rightarrow> bytes \<Rightarrow> ArrayString64 \<Rightarrow> usize result" where
  "find_write_offset utf8 data name =
     bind (RefDB_get_active_records data) (\<lambda>rec_active.
       if rec_active = 0 then Ok Header_LEN
       else
         bind (RefDB_get_total_records data) (\<lambda>rec_num.
         bind (RefDB_get_record_size data) (\<lambda>rec_size.
         bind (find_write_offset_loop utf8 data name rec_active rec_size rec_num Header_LEN 0 0)
           (\<lambda>out. case out of
              Inl offset \<Rightarrow> Ok offset
            | Inr (offset, free_slot) \<Rightarrow> Ok (if free_slot > 0 then free_slot else offset)))))"

section \<open>Reading\<close>

definition RefDB_read_at :: "(bytes \<Rightarrow> bool) \<Rightarrow> bytes \<Rightarrow> usize \<Rightarrow> Record option result" where
  "RefDB_read_at utf8 data index =
     bind (RefDB_get_offset data index) (\<lambda>offset.
     bind (RefDB_get_reference_type data) (\<lambda>ref_type.
     bind (slice_from data offset) (\<lambda>sub.
     bind (Record_unpack utf8 sub ref_type (Some (of_nat index))) (\<lambda>record.
       if rec_counter record > 0 then Ok (Some record) else Ok None))))"

definition RefDB_read :: "(bytes \<Rightarrow> bool) \<Rightarrow> bytes \<Rightarrow> ArrayString64 \<Rightarrow> Record option result" where
  "RefDB_read utf8 data name =
     bind (RefDB_find_index utf8 data name) (\<lambda>found. case found of
       Some index \<Rightarrow> RefDB_read_at utf8 data index
     | None \<Rightarrow> Ok None)"

definition RefDB_read_at_if_changed ::
  "(bytes \<Rightarrow> bool) \<Rightarrow> bytes \<Rightarrow> usize \<Rightarrow> usize \<Rightarrow> Record option result" where
  "RefDB_read_at_if_changed utf8 data index last_counter =
     bind (RefDB_get_offset data index) (\<lambda>offset.
     bind (get_record_counter data offset) (\<lambda>counter.
       if counter > last_counter then RefDB_read_at utf8 data index else Ok None))"

definition RefDB_read_if_changed ::
  "(bytes \<Rightarrow> bool) \<Rightarrow> bytes \<Rightarrow> ArrayString64 \<Rightarrow> usize \<Rightarrow> Record option result" where
  "RefDB_read_if_changed utf8 data name last_counter =
     bind (RefDB_find_index utf8 data name) (\<lambda>found. case found of
       Some index \<Rightarrow> RefDB_read_at_if_changed utf8 data index last_counter
     | None \<Rightarrow> Ok None)"

fun read_all_loop ::
  "(bytes \<Rightarrow> bool) \<Rightarrow> bytes \<Rightarrow> usize \<Rightarrow> nat \<Rightarrow> usize \<Rightarrow> Record list \<Rightarrow> Record list result" where
  "read_all_loop utf8 data active_rec 0 i vec = Err InvalidAccountData"
| "read_all_loop utf8 data active_rec (Suc n) i vec =
     bind (RefDB_read_at utf8 data i) (\<lambda>found. case found of
       Some r \<Rightarrow>
         (let vec' = vec @ [r] in
          if length vec' = active_rec then Ok vec'
          else read_all_loop utf8 data active_rec n (i + 1) vec')
     | None \<Rightarrow> read_all_loop utf8 data active_rec n (i + 1) vec)"

definition RefDB_read_all :: "(bytes \<Rightarrow> bool) \<Rightarrow> bytes \<Rightarrow> Record list result" where
  "RefDB_read_all utf8 data =
     bind (RefDB_get_total_records data) (\<lambda>rec_num.
     bind (RefDB_get_active_records data) (\<lambda>active_rec.
       if active_rec = 0 then Ok []
       else read_all_loop utf8 data active_rec rec_num 0 []))"

definition RefDB_read_all_if_changed ::
  "(bytes \<Rightarrow> bool) \<Rightarrow> bytes \<Rightarrow> usize \<Rightarrow> Record list result" where
  "RefDB_read_all_if_changed utf8 data last_counter =
     bind (RefDB_get_storage_counter data) (\<lambda>c.
       if c > last_counter then RefDB_read_all utf8 data else Ok [])"

section \<open>Writing\<close>

text \<open>The update of the storage counter that \<open>write\<close>, \<open>update_at\<close> and \<open>delete\<close> have in common.\<close>

definition bump_storage_counter :: "bytes \<Rightarrow> (usize, bytes) effect" where
  "bump_storage_counter data =
     seq (pure_in data (RefDB_get_storage_counter data)) (\<lambda>storage_counter data.
       if (of_nat storage_counter :: u32) < 0xFFFFFFFF
       then RefDB_set_storage_counter data (storage_counter + 1)
       else RefDB_set_storage_counter data 1)"

text \<open>\<open>record.pack(&mut data[offset..])\<close>\<close>

definition pack_at :: "Record \<Rightarrow> bytes \<Rightarrow> usize \<Rightarrow> (usize, bytes) effect" where
  "pack_at record data offset =
     seq (pure_in data (slice_from data offset)) (\<lambda>sub data.
       (case Record_pack record sub of (r, sub') \<Rightarrow> (r, take offset data @ sub')))"

definition RefDB_write :: "(bytes \<Rightarrow> bool) \<Rightarrow> bytes \<Rightarrow> Record \<Rightarrow> (usize, bytes) effect" where
  "RefDB_write utf8 data record =
     seq (pure_in data (case rec_index record of
            Some idx \<Rightarrow> RefDB_get_offset data (unat idx)
          | None \<Rightarrow> find_write_offset utf8 data (rec_name record))) (\<lambda>offset data.
     seq (pure_in data (get_record_counter_and_name utf8 data offset))
       (\<lambda>(cur_counter, cur_name) data.
     if cur_counter > 0 \<and> rec_counter record > 0 \<and> cur_counter \<noteq> unat (rec_counter record)
     then (Err (farm_error RefdbRecordCounterMismatch), data)
     else if cur_counter > 0 \<and> rec_index record \<noteq> None \<and> rec_name record \<noteq> cur_name
     then (Err (farm_error RefdbRecordNameMismatch), data)
     else
       seq (pure_in data (RefDB_get_reference_type data)) (\<lambda>t data.
       if t \<noteq> Reference_get_type (rec_reference record)
       then (Err (farm_error RefdbRecordTypeMismatch), data)
       else
         seq (bump_storage_counter data) (\<lambda>_ data.
         seq (if cur_counter = 0
              then seq (pure_in data (RefDB_get_active_records data)) (\<lambda>active_records data.
                     if (of_nat active_records :: u32) < 0xFFFFFFFF
                     then RefDB_set_active_records data (active_records + 1)
                     else (Ok active_records, data))
              else (Ok 0, data)) (\<lambda>_ data.
         (case pack_at record data offset of
            (Panic, data) \<Rightarrow> (Panic, data)
          | (res, data) \<Rightarrow>
              seq (if (of_nat cur_counter :: u16) < 0xFFFF
                   then set_record_counter data offset (cur_counter + 1)
                   else set_record_counter data offset 1) (\<lambda>_ data. (res, data))))))))"

definition RefDB_update_at ::
  "(bytes \<Rightarrow> bool) \<Rightarrow> bytes \<Rightarrow> usize \<Rightarrow> Reference \<Rightarrow> (usize, bytes) effect" where
  "RefDB_update_at utf8 data index reference =
     seq (pure_in data (RefDB_get_offset data index)) (\<lambda>offset data.
     seq (pure_in data (bind (slice_from data offset)
            (\<lambda>sub. Record_unpack utf8 sub (Reference_get_type reference) None))) (\<lambda>cur_record data.
     seq (bump_storage_counter data) (\<lambda>_ data.
     if rec_counter cur_record = 0 then (Err UninitializedAccount, data)
     else
       pack_at (cur_record\<lparr> rec_counter :=
                    (if rec_counter cur_record < 0xFFFF then rec_counter cur_record + 1 else 1),
                  rec_reference := reference \<rparr>) data offset)))"

definition RefDB_update ::
  "(bytes \<Rightarrow> bool) \<Rightarrow> bytes \<Rightarrow> ArrayString64 \<Rightarrow> Reference \<Rightarrow> (usize, bytes) effect" where
  "RefDB_update utf8 data name reference =
     seq (pure_in data (RefDB_find_index utf8 data name)) (\<lambda>found data. case found of
       Some index \<Rightarrow> RefDB_update_at utf8 data index reference
     | None \<Rightarrow> (Err (farm_error RefdbRecordNotFound), data))"

definition RefDB_delete :: "(bytes \<Rightarrow> bool) \<Rightarrow> bytes \<Rightarrow> Record \<Rightarrow> (usize, bytes) effect" where
  "RefDB_delete utf8 data record =
     seq (pure_in data (case rec_index record of
            Some idx \<Rightarrow> RefDB_get_offset data (unat idx)
          | None \<Rightarrow> find_write_offset utf8 data (rec_name record))) (\<lambda>offset data.
     (let data_end = offset + Record_get_size record in
     seq (pure_in data (check_data_len data data_end)) (\<lambda>_ data.
     seq (pure_in data (get_record_counter_and_name utf8 data offset))
       (\<lambda>(stored_counter, stored_name) data.
     if stored_counter = 0 then (Ok 0, data)
     else if rec_counter record > 0 \<and> stored_counter \<noteq> unat (rec_counter record)
     then (Err (farm_error RefdbRecordCounterMismatch), data)
     else if rec_name record \<noteq> stored_name
     then (Err (farm_error RefdbRecordNameMismatch), data)
     else
       seq (bump_storage_counter data) (\<lambda>_ data.
       seq (pure_in data (RefDB_get_active_records data)) (\<lambda>active_records data.
       seq (if active_records > 0 then RefDB_set_active_records data (active_records - 1)
            else (Ok 0, data)) (\<lambda>_ data.
         (Ok (Record_get_size record),
          splice offset (replicate (Record_get_size record) 0) data))))))))"

definition RefDB_delete_with_name ::
  "(bytes \<Rightarrow> bool) \<Rightarrow> bytes \<Rightarrow> ArrayString64 \<Rightarrow> u32 option \<Rightarrow> (usize, bytes) effect" where
  "RefDB_delete_with_name utf8 data name index =
     RefDB_delete utf8 data \<lparr> rec_index = index, rec_counter = 0, rec_tag = 0, rec_name = name,
       rec_reference = REmpty \<rparr>"

end
