(* ===== verification/RefDB_Invariant.thy ===== *)
theory RefDB_Invariant
  imports RefDB_Store
begin

text \<open>
  The slot view of a RefDB storage: which bytes make up slot \<open>i\<close>, when a slot is active, the
  name and the entry it holds, the invariant of a storage and the finite map from names to
  entries it represents. The lemmas say how the map and the invariant change when one slot is
  overwritten, and that writing to the header or to a slot leaves the other slots alone.
\<close>

section \<open>One slot\<close>

record entry =
  ent_counter :: u16
  ent_tag :: u16
  ent_reference :: Reference

definition slot_counter :: "bytes \<Rightarrow> u16" where
  "slot_counter s = from_le_bytes (slice 0 2 s)"

definition slot_active :: "bytes \<Rightarrow> bool" where
  "slot_active s \<longleftrightarrow> slot_counter s > 0"

definition slot_name :: "bytes \<Rightarrow> ArrayString64" where
  "slot_name s = takeWhile (\<lambda>x. x \<noteq> 0) (slice 4 64 s)"

definition slot_entry :: "ReferenceType \<Rightarrow> bytes \<Rightarrow> entry" where
  "slot_entry t s =
     \<lparr> ent_counter = slot_counter s,
       ent_tag = from_le_bytes (slice 2 2 s),
       ent_reference = decode_ref t (slice 68 (ReferenceType_get_size t) s) \<rparr>"

section \<open>A family of slots\<close>

definition active_slots :: "nat \<Rightarrow> (nat \<Rightarrow> bytes) \<Rightarrow> nat list" where
  "active_slots n sl = filter (\<lambda>i. slot_active (sl i)) [0..<n]"

definition slots_ok :: "(bytes \<Rightarrow> bool) \<Rightarrow> nat \<Rightarrow> nat \<Rightarrow> (nat \<Rightarrow> bytes) \<Rightarrow> bool" where
  "slots_ok utf8 n active sl \<longleftrightarrow>
     list_all (\<lambda>i. utf8 (slot_name (sl i))) [0..<n] \<and>
     list_all (\<lambda>i. slot_active (sl i) \<or> slice 4 64 (sl i) = replicate 64 0) [0..<n] \<and>
     length (active_slots n sl) = active \<and>
     distinct (map (\<lambda>i. slot_name (sl i)) (active_slots n sl))"

definition slots_map :: "ReferenceType \<Rightarrow> nat \<Rightarrow> (nat \<Rightarrow> bytes) \<Rightarrow> ArrayString64 \<Rightarrow> entry option" where
  "slots_map t n sl =
     map_of (map (\<lambda>i. (slot_name (sl i), slot_entry t (sl i))) (active_slots n sl))"

lemma set_active_slots [simp]: "set (active_slots n sl) = {i. i < n \<and> slot_active (sl i)}"
  by (auto simp: active_slots_def)

lemma distinct_active_slots [simp]: "distinct (active_slots n sl)"
  by (simp add: active_slots_def)

lemma length_active_slots: "length (active_slots n sl) = card {i. i < n \<and> slot_active (sl i)}"
  using distinct_card [OF distinct_active_slots [of n sl]] by simp

lemma active_slots_le: "length (active_slots n sl) \<le> n"
  by (simp add: active_slots_def) (metis length_filter_le length_upt diff_zero)

lemma slots_ok_iff:
  "slots_ok utf8 n active sl \<longleftrightarrow>
     (\<forall>i<n. utf8 (slot_name (sl i))) \<and>
     (\<forall>i<n. \<not> slot_active (sl i) \<longrightarrow> slice 4 64 (sl i) = replicate 64 0) \<and>
     card {i. i < n \<and> slot_active (sl i)} = active \<and>
     (\<forall>i j. i < n \<longrightarrow> j < n \<longrightarrow> slot_active (sl i) \<longrightarrow> slot_active (sl j) \<longrightarrow>
        slot_name (sl i) = slot_name (sl j) \<longrightarrow> i = j)"
  by (auto simp: slots_ok_def list_all_iff length_active_slots distinct_map inj_on_def)

lemma slots_map_Some_iff:
  assumes "slots_ok utf8 n active sl"
  shows "slots_map t n sl nm = Some e \<longleftrightarrow>
    (\<exists>i<n. slot_active (sl i) \<and> slot_name (sl i) = nm \<and> slot_entry t (sl i) = e)"
proof -
  have "distinct (map fst (map (\<lambda>i. (slot_name (sl i), slot_entry t (sl i))) (active_slots n sl)))"
    using assms by (simp add: slots_ok_def comp_def)
  then show ?thesis by (auto simp: slots_map_def map_of_eq_Some_iff)
qed

lemma slots_map_None_iff:
  "slots_map t n sl nm = None \<longleftrightarrow> (\<forall>i<n. slot_active (sl i) \<longrightarrow> slot_name (sl i) \<noteq> nm)"
  by (auto simp: slots_map_def map_of_eq_None_iff image_image)

lemma card_dom_slots_map:
  assumes "slots_ok utf8 n active sl"
  shows "card (dom (slots_map t n sl)) = active"
proof -
  have "dom (slots_map t n sl) = (\<lambda>i. slot_name (sl i)) ` {i. i < n \<and> slot_active (sl i)}"
    by (simp add: slots_map_def dom_map_of_conv_image_fst image_image)
  moreover have "inj_on (\<lambda>i. slot_name (sl i)) {i. i < n \<and> slot_active (sl i)}"
    using assms by (auto simp: slots_ok_iff inj_on_def)
  ultimately show ?thesis using assms by (simp add: card_image slots_ok_iff)
qed

text \<open>Overwriting slot \<open>i\<close> with a record called \<open>nm\<close>.\<close>

lemma active_set_put:
  assumes "i < n" and "slot_active s"
  shows "{j. j < n \<and> slot_active ((sl(i := s)) j)} = insert i {j. j < n \<and> slot_active (sl j)}"
  using assms by auto

lemma active_set_clear:
  assumes "\<not> slot_active s"
  shows "{j. j < n \<and> slot_active ((sl(i := s)) j)} = {j. j < n \<and> slot_active (sl j)} - {i}"
  using assms by auto

lemma slots_ok_put:
  assumes ok: "slots_ok utf8 n active sl" and i: "i < n"
    and s: "slot_active s" "utf8 (slot_name s)"
    and fresh: "\<And>j. j < n \<Longrightarrow> j \<noteq> i \<Longrightarrow> slot_active (sl j) \<Longrightarrow> slot_name (sl j) \<noteq> slot_name s"
  shows "slots_ok utf8 n (if slot_active (sl i) then active else active + 1) (sl(i := s))"
proof -
  let ?A = "{j. j < n \<and> slot_active (sl j)}"
  have "card (insert i ?A) = (if slot_active (sl i) then active else active + 1)"
  proof (cases "slot_active (sl i)")
    case True
    then have "insert i ?A = ?A" using i by auto
    then show ?thesis using ok True by (simp add: slots_ok_iff)
  next
    case False
    then have "card (insert i ?A) = card ?A + 1" by simp
    then show ?thesis using ok False by (simp add: slots_ok_iff)
  qed
  then have c: "card {j. j < n \<and> slot_active ((sl(i := s)) j)} =
      (if slot_active (sl i) then active else active + 1)"
    using active_set_put [OF i s(1), of sl] by simp
  show ?thesis
    unfolding slots_ok_iff
  proof (intro conjI c allI impI)
    fix j assume "j < n"
    then show "utf8 (slot_name ((sl(i := s)) j))" using ok s(2) by (simp add: slots_ok_iff)
    assume "\<not> slot_active ((sl(i := s)) j)"
    with \<open>j < n\<close> show "slice 4 64 ((sl(i := s)) j) = replicate 64 0"
      using ok s(1) by (auto simp: slots_ok_iff split: if_splits)
  next
    fix j k assume "j < n" "k < n" "slot_active ((sl(i := s)) j)" "slot_active ((sl(i := s)) k)"
      "slot_name ((sl(i := s)) j) = slot_name ((sl(i := s)) k)"
    then show "j = k" using ok fresh
      by (cases "j = i"; cases "k = i") (auto simp: slots_ok_iff dest: fresh)
  qed
qed

lemma slots_map_put:
  assumes ok: "slots_ok utf8 n active sl" and ok': "slots_ok utf8 n active' (sl(i := s))"
    and i: "i < n" and s: "slot_active s" "slot_name s = nm"
    and old: "slot_active (sl i) \<Longrightarrow> slot_name (sl i) = nm"
  shows "slots_map t n (sl(i := s)) = (slots_map t n sl)(nm \<mapsto> slot_entry t s)"
proof
  fix k
  show "slots_map t n (sl(i := s)) k = ((slots_map t n sl)(nm \<mapsto> slot_entry t s)) k"
  proof (cases "k = nm")
    case True
    have "slots_map t n (sl(i := s)) nm = Some (slot_entry t s)"
      unfolding slots_map_Some_iff [OF ok'] using i s by auto
    with True show ?thesis by simp
  next
    case False
    have "slots_map t n (sl(i := s)) k = Some e \<longleftrightarrow> slots_map t n sl k = Some e" for e
      unfolding slots_map_Some_iff [OF ok'] slots_map_Some_iff [OF ok]
      using False s(2) old by (metis fun_upd_apply)
    then have "slots_map t n (sl(i := s)) k = slots_map t n sl k"
      by (metis not_Some_eq)
    with False show ?thesis by simp
  qed
qed

text \<open>Clearing slot \<open>i\<close>.\<close>

lemma slots_ok_clear:
  assumes ok: "slots_ok utf8 n active sl" and i: "i < n" "slot_active (sl i)"
    and s: "\<not> slot_active s" "slice 4 64 s = replicate 64 0" "utf8 []"
  shows "slots_ok utf8 n (active - 1) (sl(i := s))"
proof -
  have "slot_name s = []" using s(2) by (simp add: slot_name_def)
  moreover have "card {j. j < n \<and> slot_active ((sl(i := s)) j)} = active - 1"
    unfolding active_set_clear [OF s(1)] using ok i by (simp add: slots_ok_iff)
  ultimately show ?thesis using ok s unfolding slots_ok_iff by auto
qed

lemma slots_map_clear:
  assumes ok: "slots_ok utf8 n active sl" and ok': "slots_ok utf8 n active' (sl(i := s))"
    and i: "i < n" "slot_active (sl i)" and s: "\<not> slot_active s"
  shows "slots_map t n (sl(i := s)) = (slots_map t n sl)(slot_name (sl i) := None)"
proof
  fix k
  have "slots_map t n (sl(i := s)) k = Some e \<longleftrightarrow>
      ((slots_map t n sl)(slot_name (sl i) := None)) k = Some e" for e
  proof (cases "k = slot_name (sl i)")
    case True
    then show ?thesis
      using ok i s unfolding slots_map_Some_iff [OF ok'] by (auto simp: slots_ok_iff split: if_splits)
  next
    case False
    then show ?thesis
      using s by (simp add: slots_map_Some_iff [OF ok'] slots_map_Some_iff [OF ok])
        (metis fun_upd_apply)
  qed
  then show "slots_map t n (sl(i := s)) k = ((slots_map t n sl)(slot_name (sl i) := None)) k"
    by (metis not_Some_eq)
qed


text \<open>
  The invariant of an initialised storage, the map it represents, and what each reading
  primitive returns on such a storage: header fields, offsets, the search loops.
\<close>

section \<open>Slots of a storage\<close>

definition slot_off :: "ReferenceType \<Rightarrow> nat \<Rightarrow> nat" where
  "slot_off t i = Header_LEN + i * get_size_with_reference t"

definition slot :: "ReferenceType \<Rightarrow> bytes \<Rightarrow> nat \<Rightarrow> bytes" where
  "slot t data i = slice (slot_off t i) (get_size_with_reference t) data"

definition total_slots :: "ReferenceType \<Rightarrow> bytes \<Rightarrow> nat" where
  "total_slots t data = (length data - Header_LEN) div get_size_with_reference t"

definition stored_counter :: "bytes \<Rightarrow> u32" where
  "stored_counter data = from_le_bytes (slice 0 4 data)"

definition stored_active :: "bytes \<Rightarrow> u32" where
  "stored_active data = from_le_bytes (slice 4 4 data)"

text \<open>
  The invariant. The bytes left over behind the last slot must not be long enough to be taken
  for one more record header (68 bytes), which \<open>get_storage_size_for_records\<close> guarantees.
\<close>

definition refdb_inv :: "(bytes \<Rightarrow> bool) \<Rightarrow> ReferenceType \<Rightarrow> bytes \<Rightarrow> bool" where
  "refdb_inv utf8 t data \<longleftrightarrow>
     RefDB_get_reference_type data = Ok t \<and>
     length data < usize_modulus \<and>
     stored_counter data \<noteq> 0 \<and>
     0 < total_slots t data \<and> total_slots t data < 2 ^ 32 \<and>
     (length data - Header_LEN) mod get_size_with_reference t < NO_REF_LEN \<and>
     slots_ok utf8 (total_slots t data) (unat (stored_active data)) (slot t data)"

definition refdb_map :: "ReferenceType \<Rightarrow> bytes \<Rightarrow> ArrayString64 \<Rightarrow> entry option" where
  "refdb_map t data = slots_map t (total_slots t data) (slot t data)"

lemma record_size_pos [simp]: "0 < get_size_with_reference t"
  and record_size_ge: "68 \<le> get_size_with_reference t"
  and record_size_le: "get_size_with_reference t \<le> 100"
  using ReferenceType_get_size_le [of t] by (simp_all add: get_size_with_reference_def NO_REF_LEN_def)

lemma reference_type_OkD:
  "RefDB_get_reference_type data = Ok t \<Longrightarrow> 73 \<le> length data"
  by (simp add: RefDB_get_reference_type_def result_simps Header_LEN_def)

lemma refdb_invD:
  assumes "refdb_inv utf8 t data"
  shows "RefDB_get_reference_type data = Ok t" and "73 \<le> length data"
    and "length data < usize_modulus" and "stored_counter data \<noteq> 0"
    and "0 < total_slots t data" and "total_slots t data < 2 ^ 32"
    and "slots_ok utf8 (total_slots t data) (unat (stored_active data)) (slot t data)"
    and "(length data - Header_LEN) mod get_size_with_reference t < NO_REF_LEN"
  using assms reference_type_OkD [of data t] by (simp_all add: refdb_inv_def)

lemma slot_off_bound:
  assumes "73 \<le> length data" and "i < total_slots t data"
  shows "slot_off t i + get_size_with_reference t \<le> length data"
proof -
  let ?r = "get_size_with_reference t"
  have "(i + 1) * ?r \<le> total_slots t data * ?r" using assms(2) by (intro mult_le_mono1) simp
  also have "\<dots> \<le> length data - Header_LEN" by (simp add: total_slots_def)
  finally show ?thesis using assms(1) by (simp add: slot_off_def Header_LEN_def)
qed

lemma length_slot [simp]:
  "73 \<le> length data \<Longrightarrow> i < total_slots t data \<Longrightarrow> length (slot t data i) = get_size_with_reference t"
  using slot_off_bound [of data i t] by (simp add: slot_def)

lemma slot_off_disjoint:
  "i < j \<Longrightarrow> slot_off t i + get_size_with_reference t \<le> slot_off t j"
proof -
  assume "i < j"
  then have "(i + 1) * get_size_with_reference t \<le> j * get_size_with_reference t"
    by (intro mult_le_mono1) simp
  then show ?thesis by (simp add: slot_off_def)
qed

lemma slot_off_ge: "73 \<le> slot_off t i"
  by (simp add: slot_off_def Header_LEN_def)

text \<open>Frame: what an update of the header or of one slot leaves alone.\<close>

lemma slot_splice_header:
  "off + length ys \<le> 73 \<Longrightarrow> 73 \<le> length data \<Longrightarrow> slot t (splice off ys data) i = slot t data i"
  using slot_off_ge [of t i] by (simp add: slot_def slice_splice_after)

lemma slot_splice_slot:
  assumes "73 \<le> length data" and "i < total_slots t data" and "j < total_slots t data"
    and "length s = get_size_with_reference t"
  shows "slot t (splice (slot_off t i) s data) j = (if j = i then s else slot t data j)"
proof -
  note b = slot_off_bound [OF assms(1,2)]
  consider "j = i" | "j < i" | "i < j" by linarith
  then show ?thesis
  proof cases
    case 1
    then show ?thesis using b assms(4) by (simp add: slot_def slice_splice_same)
  next
    case 2
    then show ?thesis using b assms(4) slot_off_disjoint [OF 2, of t]
      by (simp add: slot_def slice_splice_before)
  next
    case 3
    then show ?thesis using b assms(4) slot_off_disjoint [OF 3, of t]
      by (simp add: slot_def slice_splice_after)
  qed
qed

section \<open>Reading primitives on a storage\<close>

lemma get_record_size_Ok:
  "RefDB_get_reference_type data = Ok t \<Longrightarrow> RefDB_get_record_size data = Ok (get_size_with_reference t)"
  by (simp add: RefDB_get_record_size_def get_size_with_reference_def)

lemma get_total_records_Ok:
  "RefDB_get_reference_type data = Ok t \<Longrightarrow> RefDB_get_total_records data = Ok (total_slots t data)"
  using reference_type_OkD [of data t]
  by (simp add: RefDB_get_total_records_def get_record_size_Ok total_slots_def Header_LEN_def)

lemma get_active_records_Ok:
  "73 \<le> length data \<Longrightarrow> RefDB_get_active_records data = Ok (unat (stored_active data))"
  by (simp add: RefDB_get_active_records_def stored_active_def Header_LEN_def)

lemma get_storage_counter_Ok:
  "73 \<le> length data \<Longrightarrow> stored_counter data \<noteq> 0 \<Longrightarrow>
    RefDB_get_storage_counter data = Ok (unat (stored_counter data))"
  by (simp add: RefDB_get_storage_counter_def stored_counter_def Header_LEN_def Let_def unat_gt_0)

lemma slice_slot_off:
  assumes "o1 + n \<le> get_size_with_reference t"
  shows "slice (slot_off t i + o1) n data = slice o1 n (slot t data i)"
  using assms by (simp add: slot_def slice_slice)

lemma get_record_counter_slot:
  assumes "73 \<le> length data" and "i < total_slots t data"
  shows "get_record_counter data (slot_off t i) = Ok (unat (slot_counter (slot t data i)))"
proof -
  note b = slot_off_bound [OF assms]
  have "slice (slot_off t i) 2 data = slice 0 2 (slot t data i)"
    using slice_slot_off [of 0 2 t i data] record_size_ge [of t] by simp
  moreover have "68 + slot_off t i \<le> length data" using b record_size_ge [of t] by linarith
  ultimately show ?thesis
    by (simp add: get_record_counter_def unpack_counter_def NO_REF_LEN_def slot_counter_def
        slice_drop)
qed

lemma get_record_counter_and_name_slot:
  assumes "73 \<le> length data" and "i < total_slots t data"
    and "utf8 (slot_name (slot t data i))"
  shows "get_record_counter_and_name utf8 data (slot_off t i) =
    Ok (unat (slot_counter (slot t data i)), slot_name (slot t data i))"
proof -
  note b = slot_off_bound [OF assms(1,2)]
  have "slice (slot_off t i) 2 data = slice 0 2 (slot t data i)"
    "slice (slot_off t i + 4) 64 data = slice 4 64 (slot t data i)"
    using slice_slot_off [of 0 2 t i data] slice_slot_off [of 4 64 t i data] record_size_ge [of t]
    by simp_all
  moreover have "68 + slot_off t i \<le> length data" using b record_size_ge [of t] by linarith
  ultimately show ?thesis using assms(3)
    by (simp add: get_record_counter_and_name_def unpack_counter_and_name_def NO_REF_LEN_def
        slot_counter_def slot_name_def slice_drop unpack_array_string64_eq Let_def)
qed

lemma get_offset_slot:
  assumes "RefDB_get_reference_type data = Ok t" and "length data < usize_modulus"
    and "i < total_slots t data"
  shows "RefDB_get_offset data i = Ok (slot_off t i)"
proof -
  have "73 \<le> length data" using assms(1) by (rule reference_type_OkD)
  then have "slot_off t i < usize_modulus" and "slot_off t i \<le> length data"
    using slot_off_bound [of data i t] assms(2,3) by linarith+
  then show ?thesis
    by (simp add: RefDB_get_offset_def get_record_size_Ok [OF assms(1)] slot_off_def Let_def)
qed

lemma slot_active_iff: "slot_active s \<longleftrightarrow> 0 < unat (slot_counter s)"
  by (simp add: slot_active_def unat_gt_0 word_neq_0_conv)

text \<open>The record that \<open>read_at\<close> decodes from slot \<open>i\<close>.\<close>

definition slot_record :: "ReferenceType \<Rightarrow> nat \<Rightarrow> bytes \<Rightarrow> Record" where
  "slot_record t i s =
     \<lparr> rec_index = Some (of_nat i), rec_counter = slot_counter s,
       rec_tag = from_le_bytes (slice 2 2 s), rec_name = slot_name s,
       rec_reference = decode_ref t (slice 68 (ReferenceType_get_size t) s) \<rparr>"

lemma Record_unpack_slot:
  assumes "73 \<le> length data" and "i < total_slots t data"
    and "utf8 (slot_name (slot t data i))"
  shows "Record_unpack utf8 (drop (slot_off t i) data) t idx =
    Ok ((slot_record t i (slot t data i))\<lparr>rec_index := idx\<rparr>)"
proof -
  let ?o = "slot_off t i" and ?k = "ReferenceType_get_size t"
  have k: "68 + ?k = get_size_with_reference t" by (simp add: get_size_with_reference_def NO_REF_LEN_def)
  have "slice ?o 2 data = slice 0 2 (slot t data i)" "slice (?o + 2) 2 data = slice 2 2 (slot t data i)"
    "slice (?o + 4) 64 data = slice 4 64 (slot t data i)"
    "slice (?o + 68) ?k data = slice 68 ?k (slot t data i)"
    using slice_slot_off [of 0 2 t i data] slice_slot_off [of 2 2 t i data]
      slice_slot_off [of 4 64 t i data] slice_slot_off [of 68 ?k t i data] k record_size_ge [of t]
    by simp_all
  moreover have "\<not> length (drop ?o data) < NO_REF_LEN + ?k"
    using slot_off_bound [OF assms(1,2)] k by (simp add: NO_REF_LEN_def)
  ultimately show ?thesis using assms(3)
    by (simp add: Record_unpack_eq slice_drop unpack_array_string64_eq Let_def slot_record_def
        slot_counter_def slot_name_def)
qed

lemma read_at_slot:
  assumes "refdb_inv utf8 t data" and "i < total_slots t data"
  shows "RefDB_read_at utf8 data i =
    Ok (if slot_active (slot t data i) then Some (slot_record t i (slot t data i)) else None)"
proof -
  note d = refdb_invD [OF assms(1)]
  have "utf8 (slot_name (slot t data i))" using d(7) assms(2) by (simp add: slots_ok_iff)
  moreover have "slot_off t i \<le> length data" using slot_off_bound [OF d(2) assms(2)] by simp
  moreover have "rec_counter ((slot_record t i (slot t data i))\<lparr>rec_index := Some (of_nat i)\<rparr>) =
      slot_counter (slot t data i)" by (simp add: slot_record_def)
  moreover have "(slot_record t i (slot t data i))\<lparr>rec_index := Some (of_nat i)\<rparr> =
      slot_record t i (slot t data i)" by (simp add: slot_record_def)
  ultimately show ?thesis
    using get_offset_slot [OF d(1,3) assms(2)] Record_unpack_slot [OF d(2) assms(2), of utf8]
    by (simp add: RefDB_read_at_def d(1) slot_active_def)
qed

end
