(* ===== verification/RefDB_Update.thy ===== *)
theory RefDB_Update
  imports RefDB_Invariant
begin

text \<open>
  The search loops of RefDB against their specification by \<open>find\<close> over the slot indices:
  \<open>find_index\<close>, \<open>find_write_offset\<close>, \<open>find_next_index\<close>, \<open>find_last_index\<close> and \<open>read_all\<close>. The
  loops stop early once they have seen as many active records as the header counts; the
  invariant makes this early exit sound.
\<close>

definition find_slot :: "nat \<Rightarrow> (nat \<Rightarrow> bytes) \<Rightarrow> ArrayString64 \<Rightarrow> nat option" where
  "find_slot n sl nm = find (\<lambda>i. slot_active (sl i) \<and> slot_name (sl i) = nm) [0..<n]"

definition first_free :: "nat \<Rightarrow> (nat \<Rightarrow> bytes) \<Rightarrow> nat" where
  "first_free n sl = (case find (\<lambda>i. \<not> slot_active (sl i)) [0..<n] of Some i \<Rightarrow> i | None \<Rightarrow> n)"

definition write_index :: "nat \<Rightarrow> (nat \<Rightarrow> bytes) \<Rightarrow> ArrayString64 \<Rightarrow> nat" where
  "write_index n sl nm = (case find_slot n sl nm of Some i \<Rightarrow> i | None \<Rightarrow> first_free n sl)"

lemma find_none_if_filter_empty:
  "filter p xs = [] \<Longrightarrow> (\<And>x. q x \<Longrightarrow> p x) \<Longrightarrow> find q xs = None"
  by (auto simp: find_None_iff filter_empty_conv)

lemma slot_off_Suc: "slot_off t i + get_size_with_reference t = slot_off t (i + 1)"
  by (simp add: slot_off_def)

lemma upt_step: "i + Suc n = N \<Longrightarrow> [i..<N] = i # [Suc i..<N]"
  by (simp add: upt_conv_Cons)

lemma counter_and_name_at:
  assumes "refdb_inv utf8 t data" and "i < total_slots t data"
  obtains c where "get_record_counter_and_name utf8 data (slot_off t i) =
      Ok (c, slot_name (slot t data i))"
    and "0 < c \<longleftrightarrow> slot_active (slot t data i)"
proof (rule that)
  show "get_record_counter_and_name utf8 data (slot_off t i) =
      Ok (unat (slot_counter (slot t data i)), slot_name (slot t data i))"
    using refdb_invD [OF assms(1)] assms(2)
    by (intro get_record_counter_and_name_slot) (auto simp: slots_ok_iff)
qed (simp only: slot_active_iff)

lemma counter_at:
  assumes "refdb_inv utf8 t data" and "i < total_slots t data"
  obtains c where "get_record_counter data (slot_off t i) = Ok c"
    and "c = 0 \<longleftrightarrow> \<not> slot_active (slot t data i)"
  using get_record_counter_slot [OF refdb_invD(2) [OF assms(1)] assms(2)] that
  by (auto simp only: slot_active_iff not_gr_zero)

lemma find_index_loop_eq:
  assumes "refdb_inv utf8 t data" and "i + n = total_slots t data"
    and "checked + length (filter (\<lambda>i. slot_active (slot t data i)) [i..<total_slots t data]) = A"
  shows "find_index_loop utf8 data nm A (get_size_with_reference t) n i (slot_off t i) checked =
    Ok (find (\<lambda>i. slot_active (slot t data i) \<and> slot_name (slot t data i) = nm)
      [i..<total_slots t data])"
  using assms(2,3)
proof (induction n arbitrary: i checked)
  case (Suc n)
  let ?N = "total_slots t data" and ?P = "\<lambda>i. slot_active (slot t data i) \<and> slot_name (slot t data i) = nm"
  have upt: "[i..<?N] = i # [Suc i..<?N]" using Suc.prems(1) by (rule upt_step)
  have i: "i < ?N" using Suc.prems(1) by simp
  obtain c where rd: "get_record_counter_and_name utf8 data (slot_off t i) =
      Ok (c, slot_name (slot t data i))" and c: "0 < c \<longleftrightarrow> slot_active (slot t data i)"
    using assms(1) i by (rule counter_and_name_at)
  have IH: "find_index_loop utf8 data nm A (get_size_with_reference t) n (i + 1)
      (slot_off t i + get_size_with_reference t) ch = Ok (find ?P [Suc i..<?N])"
    if "ch + length (filter (\<lambda>i. slot_active (slot t data i)) [Suc i..<?N]) = A" for ch
    using Suc.IH [of "Suc i" ch] Suc.prems(1) that by (simp add: slot_off_Suc)
  show ?case
  proof (cases "slot_active (slot t data i)")
    case False
    then show ?thesis using Suc.prems(2) IH [of checked]
      by (simp add: rd upt c)
  next
    case True
    have last: "find ?P [Suc i..<?N] = None" if "checked + 1 = A"
      using that True Suc.prems(2)
      by (intro find_none_if_filter_empty [where p = "\<lambda>i. slot_active (slot t data i)"])
        (auto simp: upt filter_empty_conv)
    then show ?thesis using True Suc.prems(2) IH [of "checked + 1"]
      by (auto simp: rd upt c)
  qed
qed simp

lemma stored_active_eq:
  "refdb_inv utf8 t data \<Longrightarrow> unat (stored_active data) =
     length (filter (\<lambda>i. slot_active (slot t data i)) [0..<total_slots t data])"
  by (simp add: refdb_inv_def slots_ok_def active_slots_def)

lemma slot_off_0: "slot_off t 0 = Header_LEN"
  by (simp add: slot_off_def)

lemma find_index_eq:
  assumes "refdb_inv utf8 t data"
  shows "RefDB_find_index utf8 data nm = Ok (find_slot (total_slots t data) (slot t data) nm)"
proof -
  note d = refdb_invD [OF assms] and a = stored_active_eq [OF assms]
  have "find_slot (total_slots t data) (slot t data) nm = None" if "unat (stored_active data) = 0"
    unfolding find_slot_def
    by (rule find_none_if_filter_empty [where p = "\<lambda>i. slot_active (slot t data i)"])
      (use a that in auto)
  then show ?thesis
    using find_index_loop_eq [OF assms, of 0 _ 0 "unat (stored_active data)" nm] a
    by (simp add: RefDB_find_index_def get_active_records_Ok d(1,2) get_total_records_Ok
        get_record_size_Ok slot_off_0 find_slot_def)
qed

lemma find_write_offset_loop_eq:
  assumes "refdb_inv utf8 t data" and "i + n = total_slots t data"
    and "checked + length (filter (\<lambda>i. slot_active (slot t data i)) [i..<total_slots t data]) = A"
  shows "bind (find_write_offset_loop utf8 data nm A (get_size_with_reference t) n (slot_off t i)
      checked fs)
      (\<lambda>out. case out of Inl offset \<Rightarrow> Ok offset
        | Inr (offset, free_slot) \<Rightarrow> Ok (if free_slot > 0 then free_slot else offset)) =
    Ok (case find (\<lambda>i. slot_active (slot t data i) \<and> slot_name (slot t data i) = nm)
          [i..<total_slots t data] of
          Some j \<Rightarrow> slot_off t j
        | None \<Rightarrow> if fs > 0 then fs else slot_off t
            (case find (\<lambda>i. \<not> slot_active (slot t data i)) [i..<total_slots t data] of
               Some j \<Rightarrow> j | None \<Rightarrow> total_slots t data))"
  using assms(2,3)
proof (induction n arbitrary: i checked fs)
  case (Suc n)
  let ?N = "total_slots t data" and ?act = "\<lambda>i. slot_active (slot t data i)"
  let ?P = "\<lambda>i. ?act i \<and> slot_name (slot t data i) = nm"
  have upt: "[i..<?N] = i # [Suc i..<?N]" using Suc.prems(1) by (rule upt_step)
  have i: "i < ?N" using Suc.prems(1) by simp
  obtain c where rd: "get_record_counter_and_name utf8 data (slot_off t i) =
      Ok (c, slot_name (slot t data i))" and c: "0 < c \<longleftrightarrow> slot_active (slot t data i)"
    using assms(1) i by (rule counter_and_name_at)
  note IH = Suc.IH [of "Suc i"]
  show ?case
  proof (cases "?act i")
    case False
    then show ?thesis using Suc.prems IH [of checked "if fs = 0 then slot_off t i else fs"]
        slot_off_ge [of t i]
      unfolding upt by (auto simp: rd c slot_off_Suc split: option.split)
  next
    case True
    show ?thesis
    proof (cases "checked + 1 = A")
      case last: True
      have none: "filter ?act [Suc i..<?N] = []" using last True Suc.prems(2) by (auto simp: upt)
      then have "find ?P [Suc i..<?N] = None" by (rule find_none_if_filter_empty) simp
      moreover have "(case find (\<lambda>i. \<not> ?act i) [Suc i..<?N] of Some j \<Rightarrow> j | None \<Rightarrow> ?N) = i + 1"
        using none i by (cases "Suc i < ?N") (auto simp: upt_conv_Cons filter_empty_conv)
      ultimately show ?thesis using last True unfolding upt
        by (auto simp: rd c slot_off_Suc split: option.split)
    next
      case False
      then show ?thesis using True Suc.prems IH [of "checked + 1" fs] unfolding upt
        by (auto simp: rd c slot_off_Suc split: option.split)
    qed
  qed
qed simp

lemma find_write_offset_eq:
  assumes "refdb_inv utf8 t data"
  shows "find_write_offset utf8 data nm =
    Ok (slot_off t (write_index (total_slots t data) (slot t data) nm))"
proof -
  note d = refdb_invD [OF assms] and a = stored_active_eq [OF assms]
  let ?N = "total_slots t data"
  have empty: "write_index ?N (slot t data) nm = 0" if z: "unat (stored_active data) = 0"
  proof -
    have f: "filter (\<lambda>i. slot_active (slot t data i)) [0..<?N] = []" using a z by simp
    then have "find_slot ?N (slot t data) nm = None"
      unfolding find_slot_def by (rule find_none_if_filter_empty) simp
    moreover have "first_free ?N (slot t data) = 0"
      using f d(5) by (auto simp: first_free_def upt_conv_Cons filter_empty_conv)
    ultimately show ?thesis by (simp add: write_index_def)
  qed
  have w: "slot_off t (write_index ?N (slot t data) nm) =
      (case find_slot ?N (slot t data) nm of Some j \<Rightarrow> slot_off t j
        | None \<Rightarrow> slot_off t (first_free ?N (slot t data)))"
    by (simp add: write_index_def split: option.split)
  note get = get_active_records_Ok d(1,2) get_total_records_Ok get_record_size_Ok
  show ?thesis
  proof (cases "unat (stored_active data) = 0")
    case True
    then show ?thesis using empty slot_off_0 [of t] by (simp add: find_write_offset_def get)
  next
    case False
    then have "find_write_offset utf8 data nm =
      bind (find_write_offset_loop utf8 data nm (unat (stored_active data))
        (get_size_with_reference t) ?N (slot_off t 0) 0 0)
      (\<lambda>out. case out of Inl offset \<Rightarrow> Ok offset
        | Inr (offset, free_slot) \<Rightarrow> Ok (if free_slot > 0 then free_slot else offset))"
      by (simp add: find_write_offset_def get slot_off_0)
    also have "\<dots> = Ok (slot_off t (write_index ?N (slot t data) nm))"
      using find_write_offset_loop_eq [OF assms, of 0 ?N 0 "unat (stored_active data)" nm 0] a
      unfolding w find_slot_def first_free_def by simp
    finally show ?thesis .
  qed
qed

section \<open>Free and last slots\<close>

lemma find_next_index_loop_eq:
  assumes "refdb_inv utf8 t data" and "i + n = total_slots t data"
    and "checked + length (filter (\<lambda>i. slot_active (slot t data i)) [i..<total_slots t data]) = A"
    and "checked < A"
  shows "find_next_index_loop data A (get_size_with_reference t) n i (slot_off t i) checked =
    Ok (of_nat (case find (\<lambda>i. \<not> slot_active (slot t data i)) [i..<total_slots t data] of
       Some j \<Rightarrow> j | None \<Rightarrow> total_slots t data))"
  using assms(2-)
proof (induction n arbitrary: i checked)
  case 0
  then show ?case by simp
next
  case (Suc n)
  let ?N = "total_slots t data" and ?act = "\<lambda>i. slot_active (slot t data i)"
  have upt: "[i..<?N] = i # [Suc i..<?N]" using Suc.prems(1) by (rule upt_step)
  have i: "i < ?N" using Suc.prems(1) by simp
  obtain c where rd: "get_record_counter data (slot_off t i) = Ok c"
    and c: "c = 0 \<longleftrightarrow> \<not> slot_active (slot t data i)"
    using assms(1) i by (rule counter_at)
  show ?case
  proof (cases "?act i")
    case False
    then show ?thesis by (simp add: rd upt c)
  next
    case True
    show ?thesis
    proof (cases "checked + 1 = A")
      case last: True
      have "filter ?act [Suc i..<?N] = []" using last True Suc.prems(2) by (auto simp: upt)
      then have "(case find (\<lambda>i. \<not> ?act i) [Suc i..<?N] of Some j \<Rightarrow> j | None \<Rightarrow> ?N) = i + 1"
        using i by (cases "Suc i < ?N") (auto simp: upt_conv_Cons filter_empty_conv)
      then show ?thesis using last True by (simp add: rd upt c)
    next
      case False
      then show ?thesis using True Suc.prems Suc.IH [of "Suc i" "checked + 1"]
        by (simp add: rd upt c slot_off_Suc)
    qed
  qed
qed

lemma find_next_index_eq:
  assumes "refdb_inv utf8 t data"
  shows "RefDB_find_next_index data = Ok (of_nat (first_free (total_slots t data) (slot t data)))"
proof -
  note d = refdb_invD [OF assms] and a = stored_active_eq [OF assms]
  have "first_free (total_slots t data) (slot t data) = 0" if "unat (stored_active data) = 0"
    using a that d(5) by (auto simp: first_free_def upt_conv_Cons filter_empty_conv split: if_splits)
  then show ?thesis
    using find_next_index_loop_eq [OF assms, of 0 "total_slots t data" 0 "unat (stored_active data)"] a
    by (simp add: RefDB_find_next_index_def get_active_records_Ok d(1,2) get_total_records_Ok
        get_record_size_Ok slot_off_0 first_free_def)
qed

section \<open>All records\<close>

lemma read_all_loop_eq:
  assumes "refdb_inv utf8 t data" and "i + n = total_slots t data"
    and "length vec + length (filter (\<lambda>i. slot_active (slot t data i)) [i..<total_slots t data]) = A"
    and "length vec < A"
  shows "read_all_loop utf8 data A n i vec =
    Ok (vec @ map (\<lambda>i. slot_record t i (slot t data i))
      (filter (\<lambda>i. slot_active (slot t data i)) [i..<total_slots t data]))"
  using assms(2-)
proof (induction n arbitrary: i vec)
  case 0
  then show ?case by simp
next
  case (Suc n)
  let ?N = "total_slots t data" and ?act = "\<lambda>i. slot_active (slot t data i)"
  have upt: "[i..<?N] = i # [Suc i..<?N]" using Suc.prems(1) by (rule upt_step)
  have i: "i < ?N" using Suc.prems(1) by simp
  note rd = read_at_slot [OF assms(1) i]
  show ?case
  proof (cases "?act i \<and> length vec + 1 = A")
    case True
    then have "filter ?act [Suc i..<?N] = []" using Suc.prems(2) by (auto simp: upt)
    with True show ?thesis by (simp add: rd upt)
  next
    case False
    then show ?thesis
      using Suc.prems Suc.IH [of "Suc i" vec]
        Suc.IH [of "Suc i" "vec @ [slot_record t i (slot t data i)]"]
      by (auto simp: rd upt)
  qed
qed

lemma read_all_eq:
  assumes "refdb_inv utf8 t data"
  shows "RefDB_read_all utf8 data =
    Ok (map (\<lambda>i. slot_record t i (slot t data i)) (active_slots (total_slots t data) (slot t data)))"
proof -
  note d = refdb_invD [OF assms] and a = stored_active_eq [OF assms]
  show ?thesis
    using read_all_loop_eq [OF assms, of 0 "total_slots t data" "[]" "unat (stored_active data)"] a
    by (auto simp: RefDB_read_all_def get_active_records_Ok d(1,2) get_total_records_Ok
        active_slots_def)
qed


text \<open>
  The writing operations of RefDB, each computed once and for all on a storage that satisfies
  the invariant: an operation replaces one slot and two header fields (\<open>put_slot\<close>), and the
  invariant and the represented map follow from what happens to that slot.
\<close>

section \<open>Overwriting one slot\<close>

definition next_storage_counter :: "u32 \<Rightarrow> u32" where
  "next_storage_counter c = (if c < 0xFFFFFFFF then c + 1 else 1)"

definition next_record_counter :: "u16 \<Rightarrow> u16" where
  "next_record_counter c = (if c < 0xFFFF then c + 1 else 1)"

definition put_header :: "u32 \<Rightarrow> u32 \<Rightarrow> bytes \<Rightarrow> bytes" where
  "put_header counter active data =
     splice 4 (to_le_bytes active) (splice 0 (to_le_bytes counter) data)"

definition put_slot :: "ReferenceType \<Rightarrow> nat \<Rightarrow> bytes \<Rightarrow> bytes \<Rightarrow> bytes" where
  "put_slot t i s data = splice (slot_off t i) s data"

lemma unat_next_storage_counter:
  "unat (next_storage_counter c) = (if unat c < 2 ^ 32 - 1 then unat c + 1 else 1)"
  by (simp add: next_storage_counter_def word_less_nat_alt unat_word_ariths(1))

lemma unat_next_record_counter:
  "unat (next_record_counter c) = (if unat c < 2 ^ 16 - 1 then unat c + 1 else 1)"
  by (simp add: next_record_counter_def word_less_nat_alt unat_word_ariths(1))

lemma next_counter_nonzero [simp]:
  "next_storage_counter c \<noteq> 0" "next_record_counter d \<noteq> 0"
  using unat_next_storage_counter [of c] unat_next_record_counter [of d]
  by (auto simp: word_unat_eq_iff split: if_splits)

lemma map_active_slots_cong:
  assumes "\<And>j. j < n \<Longrightarrow> sl j = sl' j"
  shows "map (\<lambda>i. f (sl i)) (active_slots n sl) = map (\<lambda>i. f (sl' i)) (active_slots n sl')"
proof -
  have "active_slots n sl = active_slots n sl'"
    using assms by (auto simp: active_slots_def intro!: filter_cong)
  then show ?thesis using assms by (intro map_cong) auto
qed

lemma slots_ok_cong:
  assumes "\<And>j. j < n \<Longrightarrow> sl j = sl' j"
  shows "slots_ok utf8 n a sl = slots_ok utf8 n a sl'"
proof -
  have "length (active_slots n sl) = length (active_slots n sl')"
    using arg_cong [OF map_active_slots_cong [of n sl sl' "\<lambda>x. x", OF assms], of length] by simp
  then show ?thesis using map_active_slots_cong [of n sl sl' slot_name, OF assms] assms
    by (simp add: slots_ok_def list_all_iff)
qed

lemma slots_map_cong:
  assumes "\<And>j. j < n \<Longrightarrow> sl j = sl' j"
  shows "slots_map t n sl = slots_map t n sl'"
  using map_active_slots_cong [of n sl sl' "\<lambda>s. (slot_name s, slot_entry t s)", OF assms]
  by (simp add: slots_map_def)

text \<open>Header fields and reference type after the two kinds of overwriting.\<close>

lemma reference_type_cong:
  "length data' = length data \<Longrightarrow> slice 8 1 data' = slice 8 1 data \<Longrightarrow>
    RefDB_get_reference_type data' = RefDB_get_reference_type data"
proof (cases "73 \<le> length data")
  case True
  assume l: "length data' = length data" and s: "slice 8 1 data' = slice 8 1 data"
  have "data' ! 8 = data ! 8"
    using arg_cong [OF s, of "\<lambda>xs. xs ! 0"] True l by (simp add: slice_nth)
  then show ?thesis using l True
    by (simp add: RefDB_get_reference_type_def REF_TYPE_OFFSET_def Header_LEN_def)
qed (simp add: RefDB_get_reference_type_def Header_LEN_def)

lemma length_put_header [simp]: "73 \<le> length data \<Longrightarrow> length (put_header c a data) = length data"
  by (simp add: put_header_def)

lemma put_header_fields:
  assumes "73 \<le> length data"
  shows "stored_counter (put_header c a data) = c" and "stored_active (put_header c a data) = a"
    and "RefDB_get_reference_type (put_header c a data) = RefDB_get_reference_type data"
    and "slot t (put_header c a data) = slot t data"
    and "total_slots t (put_header c a data) = total_slots t data"
  using assms
  by (auto simp: put_header_def stored_counter_def stored_active_def byte_simps
      slot_splice_header total_slots_def intro!: reference_type_cong)

lemma put_slot_fields:
  assumes "73 \<le> length data" and "i < total_slots t data"
    and "length s = get_size_with_reference t"
  shows "length (put_slot t i s data) = length data"
    and "stored_counter (put_slot t i s data) = stored_counter data"
    and "stored_active (put_slot t i s data) = stored_active data"
    and "RefDB_get_reference_type (put_slot t i s data) = RefDB_get_reference_type data"
    and "total_slots t (put_slot t i s data) = total_slots t data"
    and "j < total_slots t data \<Longrightarrow> slot t (put_slot t i s data) j = ((slot t data)(i := s)) j"
  using slot_off_bound [OF assms(1,2)] slot_off_ge [of t i] assms
  by (auto simp: put_slot_def stored_counter_def stored_active_def byte_simps total_slots_def
      slot_splice_slot intro!: reference_type_cong)

lemma put_inv:
  assumes inv: "refdb_inv utf8 t data" and i: "i < total_slots t data"
    and s: "length s = get_size_with_reference t" and c: "c \<noteq> 0"
    and ok: "slots_ok utf8 (total_slots t data) (unat a) ((slot t data)(i := s))"
  defines "data' \<equiv> put_slot t i s (put_header c a data)"
  shows "refdb_inv utf8 t data'"
    and "refdb_map t data' = slots_map t (total_slots t data) ((slot t data)(i := s))"
    and "stored_counter data' = c" and "length data' = length data"
proof -
  note d = refdb_invD [OF inv] and h = put_header_fields [OF refdb_invD(2) [OF inv]]
  have i': "i < total_slots t (put_header c a data)" using i h(5) by simp
  have l: "73 \<le> length (put_header c a data)" using d(2) by simp
  note f = put_slot_fields [OF l i' s, folded data'_def, unfolded h]
  show c': "stored_counter data' = c" and len: "length data' = length data" using f(1,2) d(2) by simp_all
  have eq: "slot t data' j = ((slot t data)(i := s)) j" if "j < total_slots t data" for j
    using f(6) that .
  have "slots_ok utf8 (total_slots t data) (unat a) (slot t data')"
    using ok slots_ok_cong [of "total_slots t data" "slot t data'" "(slot t data)(i := s)", OF eq] by simp
  then show "refdb_inv utf8 t data'"
    using inv c c' len f(3-5) by (simp add: refdb_inv_def)
  show "refdb_map t data' = slots_map t (total_slots t data) ((slot t data)(i := s))"
    using slots_map_cong [of "total_slots t data" "slot t data'" "(slot t data)(i := s)", OF eq] f(5) by (simp add: refdb_map_def)
qed

section \<open>The steps of the writing operations\<close>

lemma splice_append_left:
  "off + length ys \<le> length a \<Longrightarrow> splice off ys (a @ b) = splice off ys a @ b"
  by (simp add: splice_def)

lemma splice_splice:
  "off + length xs \<le> length data \<Longrightarrow> length ys \<le> length xs \<Longrightarrow>
    splice off ys (splice off xs data) = splice off (splice 0 ys xs) data"
  by (simp add: splice_def)

lemma pack_with_append:
  assumes "68 + length d \<le> length a"
  shows "pack_with r (a @ b) d = pack_with r a d @ b"
proof -
  have "slice 4 64 a \<noteq> []" using assms by (simp add: slice_def)
  then have "length (pack_array_string64 (rec_name r) (slice 4 64 a)) = 64" using assms by simp
  then show ?thesis using assms
    by (simp add: pack_with_def Let_def splice_append_left byte_simps)
qed

lemma bump_storage_counter_eq:
  assumes "73 \<le> length data" and "stored_counter data \<noteq> 0"
  shows "bump_storage_counter data =
    (Ok (unat (next_storage_counter (stored_counter data))),
     splice 0 (to_le_bytes (next_storage_counter (stored_counter data))) data)"
  using assms
  by (simp add: bump_storage_counter_def get_storage_counter_Ok RefDB_set_storage_counter_def
      Header_LEN_def next_storage_counter_def unat_next_storage_counter word_less_nat_alt
      unat_word_ariths(1) add.commute)

lemma get_active_after_bump:
  assumes "73 \<le> length data"
  shows "RefDB_get_active_records (splice 0 (to_le_bytes (c :: u32)) data) =
    Ok (unat (stored_active data))"
  using assms by (simp add: get_active_records_Ok stored_active_def byte_simps)

lemma pack_at_slot:
  assumes "73 \<le> length data" and "i < total_slots t data" and "wf_reference (rec_reference r)"
    and "Reference_get_type (rec_reference r) = t"
  shows "pack_at r data (slot_off t i) = (Ok (get_size_with_reference t),
    put_slot t i (pack_with r (slot t data i) (ref_bytes (rec_reference r))) data)"
proof -
  let ?o = "slot_off t i" and ?d = "ref_bytes (rec_reference r)" and ?n = "get_size_with_reference t"
  note b = slot_off_bound [OF assms(1,2)]
  have n: "68 + length ?d = ?n" "Record_get_size r = ?n"
    using assms(3,4) by (simp_all add: Record_get_size_eq get_size_with_reference_def NO_REF_LEN_def)
  have l: "length (slot t data i) = ?n" using assms by simp
  have dec: "drop ?o data = slot t data i @ drop (?o + ?n) data"
    by (simp add: slot_def slice_def flip: drop_drop)
      (metis append_take_drop_id add.commute drop_drop)
  have "pack_with r (drop ?o data) ?d = pack_with r (slot t data i) ?d @ drop (?o + ?n) data"
    unfolding dec using n l by (intro pack_with_append) simp
  moreover have "length (pack_with r (slot t data i) ?d) = ?n"
    using pack_with_fields(1) [of ?d "slot t data i" r] n l by simp
  ultimately show ?thesis using b n
    by (simp add: pack_at_def Record_pack_eq put_slot_def splice_def)
qed

lemma set_record_counter_slot:
  assumes "73 \<le> length data" and "i < total_slots t data" and "0 < c" "c < 2 ^ 16"
    and "length s = get_size_with_reference t"
  shows "set_record_counter (put_slot t i s data) (slot_off t i) c =
    (Ok (), put_slot t i (splice 0 (to_le_bytes (of_nat c :: u16)) s) data)"
proof -
  note b = slot_off_bound [OF assms(1,2)]
  have "slot_off t i + 2 \<le> length (put_slot t i s data)"
    using b put_slot_fields(1) [OF assms(1,2,5)] record_size_ge [of t] by linarith
  then show ?thesis using assms b record_size_ge [of t]
    by (simp add: set_record_counter_def put_slot_def splice_splice)
qed

lemma splice_slice_id: "off + n \<le> length xs \<Longrightarrow> splice off (slice off n xs) xs = xs"
  by (simp add: splice_def slice_def) (metis append_take_drop_id add.commute drop_drop)

lemma put_header_same_active:
  assumes "73 \<le> length data"
  shows "put_header c (stored_active data) data = splice 0 (to_le_bytes c) data"
proof -
  let ?d = "splice 0 (to_le_bytes c) data"
  have "to_le_bytes (stored_active data) = slice 4 4 data"
    unfolding stored_active_def using assms by (intro to_from_le_bytes) simp
  also have "\<dots> = slice 4 4 ?d" using assms by (simp add: byte_simps)
  finally have "put_header c (stored_active data) data = splice 4 (slice 4 4 ?d) ?d"
    by (simp add: put_header_def)
  then show ?thesis using assms by (simp add: splice_slice_id)
qed

section \<open>\<open>write\<close>\<close>

text \<open>The slot that \<open>write\<close> leaves behind.\<close>

definition written_slot :: "Record \<Rightarrow> bytes \<Rightarrow> bytes" where
  "written_slot r s = splice 0 (to_le_bytes (next_record_counter (slot_counter s)))
     (pack_with r s (ref_bytes (rec_reference r)))"

lemma written_slot_fields:
  assumes "length s = get_size_with_reference t" and "wf_reference (rec_reference r)"
    and "Reference_get_type (rec_reference r) = t"
  shows "length (written_slot r s) = get_size_with_reference t"
    and "slot_counter (written_slot r s) = next_record_counter (slot_counter s)"
    and "slice 4 64 (written_slot r s) = pack_array_string64 (rec_name r) (slice 4 64 s)"
    and "slot_entry t (written_slot r s) = \<lparr> ent_counter = next_record_counter (slot_counter s),
      ent_tag = rec_tag r, ent_reference = rec_reference r \<rparr>"
proof -
  let ?d = "ref_bytes (rec_reference r)"
  have d: "68 + length ?d \<le> length s" and n: "ReferenceType_get_size t = length ?d"
    using assms by (simp_all add: get_size_with_reference_def NO_REF_LEN_def)
  note f = pack_with_fields [OF d, where r = r]
  show "length (written_slot r s) = get_size_with_reference t"
    and c: "slot_counter (written_slot r s) = next_record_counter (slot_counter s)"
    and "slice 4 64 (written_slot r s) = pack_array_string64 (rec_name r) (slice 4 64 s)"
    using f(1-4) d assms(1) by (simp_all add: written_slot_def slot_counter_def byte_simps)
  have "from_le_bytes (slice 2 2 (written_slot r s)) = rec_tag r"
    "decode_ref t (slice 68 (ReferenceType_get_size t) (written_slot r s)) = rec_reference r"
    using f d n assms(3) by (auto simp: written_slot_def byte_simps)
  then show "slot_entry t (written_slot r s) = \<lparr> ent_counter = next_record_counter (slot_counter s),
      ent_tag = rec_tag r, ent_reference = rec_reference r \<rparr>"
    by (simp add: slot_entry_def c)
qed

lemma takeWhile_drop_takeWhile:
  "takeWhile P (drop (length (takeWhile P xs)) xs) = []"
  by (induction xs) auto

lemma written_slot_name:
  assumes "length s = get_size_with_reference t" and "wf_reference (rec_reference r)"
    and "Reference_get_type (rec_reference r) = t" and "packable_name utf8 (rec_name r)"
    and "slot_name s = rec_name r \<or> slice 4 64 s = replicate 64 0"
  shows "slot_name (written_slot r s) = rec_name r"
proof -
  have l: "length (slice 4 64 s) = 64" using assms(1) record_size_ge [of t] by simp
  have "clean_after (rec_name r) (slice 4 64 s)"
    using assms(5) takeWhile_drop_takeWhile [of "\<lambda>x. x \<noteq> 0" "slice 4 64 s"]
    by (auto simp: clean_after_def slot_name_def)
  from name_round_trip [OF l assms(4) this] show ?thesis
    using written_slot_fields(3) [OF assms(1-3)]
    by (auto simp: slot_name_def unpack_array_string64_eq Let_def split: if_splits)
qed

text \<open>
  When the record may go to slot \<open>i\<close>: the index given by the caller, or the slot that
  \<open>find_write_offset\<close> chooses; and the guards of \<open>write\<close>.
\<close>

definition write_target :: "ReferenceType \<Rightarrow> bytes \<Rightarrow> Record \<Rightarrow> nat" where
  "write_target t data r = (case rec_index r of
       Some idx \<Rightarrow> unat idx
     | None \<Rightarrow> write_index (total_slots t data) (slot t data) (rec_name r))"

lemma write_offset_eq:
  assumes "refdb_inv utf8 t data" and "write_target t data r < total_slots t data"
  shows "(case rec_index r of
            Some idx \<Rightarrow> RefDB_get_offset data (unat idx)
          | None \<Rightarrow> find_write_offset utf8 data (rec_name r)) =
    Ok (slot_off t (write_target t data r))"
  using assms find_write_offset_eq [OF assms(1)] refdb_invD(1,3) [OF assms(1)]
  by (auto simp: write_target_def get_offset_slot split: option.splits)

lemma room_if_inactive:
  assumes "refdb_inv utf8 t data" and "i < total_slots t data" and "\<not> slot_active (slot t data i)"
  shows "unat (stored_active data) < total_slots t data"
proof -
  let ?A = "{j. j < total_slots t data \<and> slot_active (slot t data j)}"
  have "?A \<subset> {..<total_slots t data}" using assms(2,3) by auto
  then have "card ?A < card {..<total_slots t data}" by (intro psubset_card_mono) auto
  then show ?thesis using refdb_invD(7) [OF assms(1)] by (simp add: slots_ok_iff)
qed

text \<open>The two assignments to the header.\<close>

definition write_header :: "bool \<Rightarrow> bytes \<Rightarrow> bytes" where
  "write_header active data = put_header (next_storage_counter (stored_counter data))
     (if active then stored_active data else stored_active data + 1) data"

lemma write_header_eq:
  assumes inv: "refdb_inv utf8 t data" and i: "i < total_slots t data"
    and c: "c = unat (slot_counter (slot t data i))"
  shows "seq (bump_storage_counter data) (\<lambda>_ data.
      seq (if c = 0
           then seq (pure_in data (RefDB_get_active_records data)) (\<lambda>active_records data.
                  if (of_nat active_records :: u32) < 0xFFFFFFFF
                  then RefDB_set_active_records data (active_records + 1)
                  else (Ok active_records, data))
           else (Ok 0, data)) (\<lambda>_ data. f data)) =
    f (write_header (slot_active (slot t data i)) data)"
proof -
  note d = refdb_invD [OF inv]
  let ?b = "splice 0 (to_le_bytes (next_storage_counter (stored_counter data))) data"
  have a: "slot_active (slot t data i) \<longleftrightarrow> c \<noteq> 0" by (simp add: slot_active_iff c)
  show ?thesis
  proof (cases "c = 0")
    case True
    then have "unat (stored_active data) < 2 ^ 32 - 1"
      using room_if_inactive [OF inv i] a d(6) by simp
    then have "stored_active data < 0xFFFFFFFF" by (simp add: word_less_nat_alt)
    moreover have "73 \<le> length ?b" using d(2) by simp
    ultimately show ?thesis using True a d(2,4) get_active_after_bump [OF d(2)]
      by (simp add: bump_storage_counter_eq RefDB_set_active_records_def Header_LEN_def
          write_header_def put_header_def add.commute)
  next
    case False
    then show ?thesis using a d(2,4)
      by (simp add: bump_storage_counter_eq write_header_def put_header_same_active)
  qed
qed

lemma write_record_eq:
  assumes "73 \<le> length data" and "i < total_slots t data" and "wf_reference (rec_reference r)"
    and "Reference_get_type (rec_reference r) = t"
    and c: "c = unat (slot_counter (slot t data i))"
  shows "(case pack_at r data (slot_off t i) of
            (Panic, data) \<Rightarrow> (Panic, data)
          | (res, data) \<Rightarrow>
              seq (if (of_nat c :: u16) < 0xFFFF
                   then set_record_counter data (slot_off t i) (c + 1)
                   else set_record_counter data (slot_off t i) 1) (\<lambda>_ data. (res, data))) =
    (Ok (get_size_with_reference t), put_slot t i (written_slot r (slot t data i)) data)"
proof -
  let ?s = "slot t data i" and ?d = "ref_bytes (rec_reference r)"
  let ?n = "unat (next_record_counter (slot_counter ?s))"
  have l: "68 + length ?d \<le> length ?s" "length ?s = get_size_with_reference t"
    using assms by (simp_all add: get_size_with_reference_def NO_REF_LEN_def)
  have n: "0 < ?n" "?n < 2 ^ 16" "(if (of_nat c :: u16) < 0xFFFF then c + 1 else 1) = ?n"
    using unsigned_less [of "next_record_counter (slot_counter ?s)"]
    by (simp_all add: unat_next_record_counter c word_less_nat_alt)
  have eq: "(if (of_nat c :: u16) < 0xFFFF then set_record_counter D off (c + 1)
      else set_record_counter D off 1) = set_record_counter D off ?n" for D off
    using n(3) by (simp split: if_splits)
  have "set_record_counter (put_slot t i (pack_with r ?s ?d) data) (slot_off t i) ?n =
      (Ok (), put_slot t i (written_slot r ?s) data)"
    using set_record_counter_slot [OF assms(1,2) n(1,2)] pack_with_fields(1) [OF l(1)] l(2)
    by (simp add: written_slot_def)
  then show ?thesis unfolding eq pack_at_slot [OF assms(1-4)] by simp
qed

lemma write_step:
  assumes inv: "refdb_inv utf8 t data" and i: "write_target t data r = i" "i < total_slots t data"
    and wf: "wf_reference (rec_reference r)"
  defines "s \<equiv> slot t data i"
  shows "RefDB_write utf8 data r =
    (if slot_active s \<and> rec_counter r > 0 \<and> slot_counter s \<noteq> rec_counter r
     then (Err (farm_error RefdbRecordCounterMismatch), data)
     else if slot_active s \<and> rec_index r \<noteq> None \<and> rec_name r \<noteq> slot_name s
     then (Err (farm_error RefdbRecordNameMismatch), data)
     else if t \<noteq> Reference_get_type (rec_reference r)
     then (Err (farm_error RefdbRecordTypeMismatch), data)
     else (Ok (get_size_with_reference t),
       put_slot t i (written_slot r s) (write_header (slot_active s) data)))"
proof -
  note d = refdb_invD [OF inv]
  have off: "(case rec_index r of
            Some idx \<Rightarrow> RefDB_get_offset data (unat idx)
          | None \<Rightarrow> find_write_offset utf8 data (rec_name r)) = Ok (slot_off t i)"
    using write_offset_eq [OF inv, of r] i by simp
  have rd: "get_record_counter_and_name utf8 data (slot_off t i) =
      Ok (unat (slot_counter s), slot_name s)"
    unfolding s_def using d(7) i by (intro get_record_counter_and_name_slot d(2)) (auto simp: slots_ok_iff)
  let ?h = "write_header (slot_active s) data"
  have h: "73 \<le> length ?h" "i < total_slots t ?h" "slot t ?h i = s"
    using d(2) i put_header_fields [OF d(2)] by (simp_all add: write_header_def s_def)
  have c: "unat (slot_counter s) = unat (slot_counter (slot t ?h i))" using h(3) by simp
  have c0: "unat (slot_counter s) = unat (slot_counter (slot t data i))" by (simp add: s_def)
  note eqs = RefDB_write_def off seq_simps rd prod.case d(1) write_header_eq [OF inv i(2) c0]
  have act: "slot_active s \<longleftrightarrow> unat (slot_counter s) > 0"
    and cnt: "unat (slot_counter s) \<noteq> unat (rec_counter r) \<longleftrightarrow> slot_counter s \<noteq> rec_counter r"
    by (simp_all add: slot_active_iff word_unat_eq_iff)
  show ?thesis
  proof (cases "Reference_get_type (rec_reference r) = t")
    case False
    then show ?thesis unfolding eqs act cnt by simp
  next
    case True
    note rec = write_record_eq [OF h(1,2) wf True c, unfolded h(3)]
    show ?thesis unfolding eqs s_def [symmetric] rec unfolding cnt act using True by simp
  qed
qed

text \<open>On a full storage the search ends behind the last slot, where no record header fits.\<close>

lemma end_of_storage:
  assumes "refdb_inv utf8 t data"
  shows "slot_off t (total_slots t data) \<le> length data"
    and "length data < slot_off t (total_slots t data) + NO_REF_LEN"
proof -
  note d = refdb_invD [OF assms]
  let ?r = "get_size_with_reference t"
  have e: "total_slots t data * ?r + (length data - 73) mod ?r = length data - 73"
    unfolding total_slots_def Header_LEN_def by (rule div_mult_mod_eq)
  have m: "(length data - 73) mod ?r < NO_REF_LEN" using d(8) by (simp only: Header_LEN_def)
  show "slot_off t (total_slots t data) \<le> length data"
    and "length data < slot_off t (total_slots t data) + NO_REF_LEN"
    unfolding slot_off_def Header_LEN_def using e m d(2) by linarith+
qed

lemma write_full_step:
  assumes inv: "refdb_inv utf8 t data" and r: "rec_index r = None"
    and full: "write_target t data r = total_slots t data"
  shows "RefDB_write utf8 data r = (Err AccountDataTooSmall, data)"
proof -
  note e = end_of_storage [OF inv]
  have off: "find_write_offset utf8 data (rec_name r) = Ok (slot_off t (total_slots t data))"
    using find_write_offset_eq [OF inv, of "rec_name r"] r full by (simp add: write_target_def)
  have "get_record_counter_and_name utf8 data (slot_off t (total_slots t data)) =
      Err AccountDataTooSmall"
    using e by (simp add: get_record_counter_and_name_def unpack_counter_and_name_def)
  then show ?thesis by (simp add: RefDB_write_def r off)
qed

section \<open>\<open>update_at\<close>\<close>

definition updated_slot :: "ReferenceType \<Rightarrow> Reference \<Rightarrow> bytes \<Rightarrow> bytes" where
  "updated_slot t reference s =
     pack_with ((slot_record t 0 s)\<lparr> rec_counter := next_record_counter (slot_counter s),
       rec_reference := reference \<rparr>) s (ref_bytes reference)"

lemma updated_slot_fields:
  assumes "length s = get_size_with_reference t" and "wf_reference reference"
    and "Reference_get_type reference = t" and "utf8 (slot_name s)"
  shows "length (updated_slot t reference s) = get_size_with_reference t"
    and "slot_counter (updated_slot t reference s) = next_record_counter (slot_counter s)"
    and "slot_name (updated_slot t reference s) = slot_name s"
    and "slot_entry t (updated_slot t reference s) =
      (slot_entry t s)\<lparr> ent_counter := next_record_counter (slot_counter s),
        ent_reference := reference \<rparr>"
proof -
  let ?d = "ref_bytes reference"
  have d: "68 + length ?d \<le> length s" and n: "ReferenceType_get_size t = length ?d"
    using assms by (simp_all add: get_size_with_reference_def NO_REF_LEN_def)
  have l: "length (slice 4 64 s) = 64" using d by simp
  note f = pack_with_fields [OF d]
  show "length (updated_slot t reference s) = get_size_with_reference t"
    and c: "slot_counter (updated_slot t reference s) = next_record_counter (slot_counter s)"
    using f(1,2) assms(1) by (simp_all add: updated_slot_def slot_counter_def)
  have u: "unpack_array_string64 utf8 (slice 4 64 s) = Ok (slot_name s)"
    using assms(4) by (simp add: unpack_array_string64_eq slot_name_def)
  have "clean_after (slot_name s) (slice 4 64 s)"
    using takeWhile_drop_takeWhile [of "\<lambda>x. x \<noteq> 0" "slice 4 64 s"]
    by (simp add: clean_after_def slot_name_def)
  from name_round_trip [OF l unpack_array_string64_packable [OF u l] this]
  show "slot_name (updated_slot t reference s) = slot_name s"
    using f(4) by (auto simp: updated_slot_def slot_record_def slot_name_def
        unpack_array_string64_eq Let_def split: if_splits)
  have "decode_ref t (slice 68 (ReferenceType_get_size t) (updated_slot t reference s)) = reference"
    unfolding updated_slot_def n f(5) using assms(3) by auto
  then show "slot_entry t (updated_slot t reference s) =
      (slot_entry t s)\<lparr> ent_counter := next_record_counter (slot_counter s),
        ent_reference := reference \<rparr>"
    using f(3) c by (simp add: slot_entry_def) (simp add: updated_slot_def slot_record_def)
qed

lemma update_at_step:
  assumes inv: "refdb_inv utf8 t data" and i: "i < total_slots t data"
    and wf: "wf_reference reference" and t: "Reference_get_type reference = t"
  defines "s \<equiv> slot t data i"
  shows "RefDB_update_at utf8 data i reference =
    (if slot_active s
     then (Ok (get_size_with_reference t),
       put_slot t i (updated_slot t reference s)
         (put_header (next_storage_counter (stored_counter data)) (stored_active data) data))
     else (Err UninitializedAccount,
       put_header (next_storage_counter (stored_counter data)) (stored_active data) data))"
proof -
  note d = refdb_invD [OF inv] and b = slot_off_bound [OF refdb_invD(2) [OF inv] i]
  let ?h = "put_header (next_storage_counter (stored_counter data)) (stored_active data) data"
  let ?r = "(slot_record t i s)\<lparr>rec_index := None\<rparr>"
  let ?r' = "?r\<lparr>rec_counter := next_record_counter (slot_counter s), rec_reference := reference\<rparr>"
  have un: "Record_unpack utf8 (drop (slot_off t i) data) t None = Ok ?r"
    unfolding s_def using d(7) i by (intro Record_unpack_slot d(2)) (auto simp: slots_ok_iff)
  have bump: "bump_storage_counter data = (Ok (unat (next_storage_counter (stored_counter data))), ?h)"
    using bump_storage_counter_eq [OF d(2,4)] put_header_same_active [OF d(2)] by simp
  have cnt: "rec_counter ?r = slot_counter s" by (simp add: slot_record_def)
  have h: "73 \<le> length ?h" "i < total_slots t ?h" "slot t ?h i = s"
    using d(2) i put_header_fields [OF d(2)] by (simp_all add: s_def)
  have eq: "pack_with ?r' s (ref_bytes reference) = updated_slot t reference s"
    by (simp add: updated_slot_def pack_with_def slot_record_def)
  have pk: "pack_at ?r' ?h (slot_off t i) = (Ok (get_size_with_reference t),
      put_slot t i (updated_slot t reference s) ?h)"
    using pack_at_slot [OF h(1,2), of ?r'] wf t eq h(3) by simp
  have pre: "RefDB_update_at utf8 data i reference =
     (if slot_counter s = 0 then (Err UninitializedAccount, ?h)
      else pack_at ?r' ?h (slot_off t i))"
    unfolding RefDB_update_at_def get_offset_slot [OF d(1,3) i] seq_simps t
    using b un bump cnt by (simp add: next_record_counter_def)
  have "slot_active s \<longleftrightarrow> slot_counter s \<noteq> 0" by (simp add: slot_active_def word_neq_0_conv)
  then show ?thesis unfolding pre pk by simp
qed

section \<open>\<open>delete\<close>\<close>

text \<open>The slot that \<open>delete\<close> leaves behind; a record with a smaller reference clears less.\<close>

definition cleared_slot :: "Record \<Rightarrow> bytes \<Rightarrow> bytes" where
  "cleared_slot r s = splice 0 (replicate (Record_get_size r) 0) s"

lemma Record_get_size_ge: "68 \<le> Record_get_size r"
  by (simp add: Record_get_size_eq NO_REF_LEN_def)

lemma slice_replicate [byte_simps]: "slice off n (replicate m x) = replicate (min n (m - off)) x"
  by (simp add: slice_def)

lemma cleared_slot_fields:
  assumes "length s = get_size_with_reference t" and "Record_get_size r \<le> get_size_with_reference t"
  shows "length (cleared_slot r s) = get_size_with_reference t"
    and "\<not> slot_active (cleared_slot r s)"
    and "slice 4 64 (cleared_slot r s) = replicate 64 0"
  using assms Record_get_size_ge [of r]
  by (simp_all add: cleared_slot_def slot_active_def slot_counter_def byte_simps)

lemma zero_at_slot:
  assumes "73 \<le> length data" and "i < total_slots t data" and "k \<le> get_size_with_reference t"
  shows "splice (slot_off t i) (replicate k 0) data = put_slot t i (splice 0 (replicate k 0) (slot t data i)) data"
proof -
  note b = slot_off_bound [OF assms(1,2)]
  have "data = put_slot t i (slot t data i) data"
    using b by (simp add: put_slot_def slot_def splice_slice_id)
  then have "splice (slot_off t i) (replicate k 0) data =
      splice (slot_off t i) (replicate k 0) (splice (slot_off t i) (slot t data i) data)"
    by (simp add: put_slot_def)
  also have "\<dots> = put_slot t i (splice 0 (replicate k 0) (slot t data i)) data"
    unfolding put_slot_def using b assms by (intro splice_splice) simp_all
  finally show ?thesis .
qed

lemma clear_at_slot:
  assumes "73 \<le> length data" and "i < total_slots t data"
    and "Record_get_size r \<le> get_size_with_reference t"
  shows "splice (slot_off t i) (replicate (Record_get_size r) 0) data =
    put_slot t i (cleared_slot r (slot t data i)) data"
  unfolding cleared_slot_def by (rule zero_at_slot [OF assms])

lemma active_pos:
  assumes "refdb_inv utf8 t data" and "i < total_slots t data" and "slot_active (slot t data i)"
  shows "0 < unat (stored_active data)"
proof -
  have "i \<in> {j. j < total_slots t data \<and> slot_active (slot t data j)}" using assms by simp
  then have "0 < card {j. j < total_slots t data \<and> slot_active (slot t data j)}"
    by (subst card_gt_0_iff) auto
  then show ?thesis using refdb_invD(7) [OF assms(1)] by (simp add: slots_ok_iff)
qed

lemma delete_header_eq:
  assumes "73 \<le> length data" and "stored_counter data \<noteq> 0" and "0 < unat (stored_active data)"
  shows "seq (bump_storage_counter data) (\<lambda>_ data.
       seq (pure_in data (RefDB_get_active_records data)) (\<lambda>active_records data.
       seq (if active_records > 0 then RefDB_set_active_records data (active_records - 1)
            else (Ok 0, data)) (\<lambda>_ data. f data))) =
    f (put_header (next_storage_counter (stored_counter data)) (stored_active data - 1) data)"
proof -
  let ?b = "splice 0 (to_le_bytes (next_storage_counter (stored_counter data))) data"
  have b: "73 \<le> length ?b" using assms(1) by simp
  have "(of_nat (unat (stored_active data) - 1) :: u32) = stored_active data - 1"
    using assms(3) by (simp add: of_nat_diff)
  then show ?thesis using assms b get_active_after_bump [OF assms(1)]
    by (simp add: bump_storage_counter_eq RefDB_set_active_records_def Header_LEN_def
        put_header_def)
qed

lemma delete_step:
  assumes inv: "refdb_inv utf8 t data" and i: "write_target t data r = i" "i < total_slots t data"
    and sz: "Record_get_size r \<le> get_size_with_reference t"
  defines "s \<equiv> slot t data i"
  shows "RefDB_delete utf8 data r =
    (if \<not> slot_active s then (Ok 0, data)
     else if rec_counter r > 0 \<and> slot_counter s \<noteq> rec_counter r
     then (Err (farm_error RefdbRecordCounterMismatch), data)
     else if rec_name r \<noteq> slot_name s
     then (Err (farm_error RefdbRecordNameMismatch), data)
     else (Ok (Record_get_size r),
       put_slot t i (cleared_slot r s) (put_header (next_storage_counter (stored_counter data))
         (stored_active data - 1) data)))"
proof -
  note d = refdb_invD [OF inv] and b = slot_off_bound [OF refdb_invD(2) [OF inv] i(2)]
  let ?h = "put_header (next_storage_counter (stored_counter data)) (stored_active data - 1) data"
  have off: "(case rec_index r of
            Some idx \<Rightarrow> RefDB_get_offset data (unat idx)
          | None \<Rightarrow> find_write_offset utf8 data (rec_name r)) = Ok (slot_off t i)"
    using write_offset_eq [OF inv, of r] i by simp
  have len: "check_data_len data (slot_off t i + Record_get_size r) = Ok ()" using b sz by simp
  have rd: "get_record_counter_and_name utf8 data (slot_off t i) =
      Ok (unat (slot_counter s), slot_name s)"
    unfolding s_def using d(7) i by (intro get_record_counter_and_name_slot d(2)) (auto simp: slots_ok_iff)
  have h: "73 \<le> length ?h" "i < total_slots t ?h" "slot t ?h i = s"
    using d(2) i put_header_fields [OF d(2)] by (simp_all add: s_def)
  have act: "slot_active s \<longleftrightarrow> unat (slot_counter s) > 0"
    and cnt: "unat (slot_counter s) \<noteq> unat (rec_counter r) \<longleftrightarrow> slot_counter s \<noteq> rec_counter r"
    by (simp_all add: slot_active_iff word_unat_eq_iff)
  show ?thesis
  proof (cases "slot_active s")
    case False
    then show ?thesis using act
      unfolding RefDB_delete_def off seq_simps Let_def len rd prod.case by simp
  next
    case True
    note hdr = delete_header_eq [OF d(2,4) active_pos [OF inv i(2) True [unfolded s_def]]]
    show ?thesis
      unfolding RefDB_delete_def off seq_simps Let_def len rd prod.case hdr cnt
        clear_at_slot [OF h(1,2) sz] h(3)
      using True act by simp
  qed
qed

text \<open>
  A record that is larger than a slot: \<open>delete\<close> clears as many bytes as the record would need, so it clears the slot and
  the beginning of the next one.
\<close>

lemma clear_across_slots:
  assumes "73 \<le> length data" and "i + 1 < total_slots t data" and "k \<le> get_size_with_reference t"
  shows "splice (slot_off t i) (replicate (get_size_with_reference t + k) 0) data =
    put_slot t (i + 1) (splice 0 (replicate k 0) (slot t data (i + 1)))
      (put_slot t i (replicate (get_size_with_reference t) 0) data)"
proof -
  let ?G = "get_size_with_reference t" and ?p = "put_slot t i (replicate (get_size_with_reference t) 0) data"
  note b = slot_off_bound [OF assms(1,2)]
  have i: "i < total_slots t data" using assms(2) by simp
  note f = put_slot_fields [OF assms(1) i, of "replicate ?G 0"]
  have "splice (slot_off t i) (replicate (?G + k) 0) data = splice (slot_off t (i + 1)) (replicate k 0) ?p"
    using b by (simp add: put_slot_def slot_off_def splice_def replicate_add min_def add.assoc add.commute [of k]
        add.commute [of k "_ + _"])
  then show ?thesis using zero_at_slot [of ?p "i + 1" t k] f assms by simp
qed

lemma delete_spills:
  assumes inv: "refdb_inv utf8 t data" and i: "write_target t data r = i" "i + 1 < total_slots t data"
    and size: "Record_get_size r = get_size_with_reference t + k" "k \<le> get_size_with_reference t"
  defines "s \<equiv> slot t data i"
  assumes s: "slot_active s" "slot_name s = rec_name r" "rec_counter r > 0 \<longrightarrow> slot_counter s = rec_counter r"
  obtains data' where "RefDB_delete utf8 data r = (Ok (Record_get_size r), data')" and "length data' = length data"
    and "slot t data' i = replicate (get_size_with_reference t) 0"
    and "slot t data' (i + 1) = replicate k 0 @ drop k (slot t data (i + 1))"
    and "\<And>j. j < total_slots t data \<Longrightarrow> j \<noteq> i \<Longrightarrow> j \<noteq> i + 1 \<Longrightarrow> slot t data' j = slot t data j"
proof -
  let ?G = "get_size_with_reference t"
  note d = refdb_invD [OF inv] and b = slot_off_bound [OF refdb_invD(2) [OF inv], of "i + 1" t, OF i(2)]
  have i': "i < total_slots t data" using i(2) by simp
  let ?h = "put_header (next_storage_counter (stored_counter data)) (stored_active data - 1) data"
  let ?p = "put_slot t i (replicate ?G 0) ?h"
  let ?data' = "put_slot t (i + 1) (splice 0 (replicate k 0) (slot t ?h (i + 1))) ?p"
  note hf = put_header_fields [OF d(2)]
  have off: "(case rec_index r of
            Some idx \<Rightarrow> RefDB_get_offset data (unat idx)
          | None \<Rightarrow> find_write_offset utf8 data (rec_name r)) = Ok (slot_off t i)"
    using write_offset_eq [OF inv, of r] i by simp
  have len: "check_data_len data (slot_off t i + Record_get_size r) = Ok ()"
    using b size by (simp add: slot_off_def)
  have rd: "get_record_counter_and_name utf8 data (slot_off t i) = Ok (unat (slot_counter s), slot_name s)"
    unfolding s_def using d(7) i' by (intro get_record_counter_and_name_slot d(2)) (auto simp: slots_ok_iff)
  have h: "73 \<le> length ?h" "i < total_slots t ?h" "i + 1 < total_slots t ?h" using d(2) i hf by simp_all
  have act: "unat (slot_counter s) > 0" and cnt: "\<not> (rec_counter r > 0 \<and> unat (slot_counter s) \<noteq> unat (rec_counter r))"
    using s by (auto simp: slot_active_iff)
  note hdr = delete_header_eq [OF d(2,4) active_pos [OF inv i' s(1) [unfolded s_def]]]
  have run: "RefDB_delete utf8 data r = (Ok (Record_get_size r), ?data')"
    unfolding RefDB_delete_def off seq_simps Let_def len rd prod.case hdr
    using clear_across_slots [OF h(1,3) size(2)] act cnt s(2) by (simp add: size(1))
  have l: "length (slot t ?h (i + 1)) = ?G" using h slot_off_bound [OF h(1,3)] by (simp add: slot_def)
  note f = put_slot_fields [OF h(1,2), of "replicate ?G 0"]
  have p: "73 \<le> length ?p" "i + 1 < total_slots t ?p" using f h by simp_all
  have l': "length (splice 0 (replicate k 0) (slot t ?h (i + 1))) = ?G" using l size(2) by simp
  note g = put_slot_fields [OF p l']
  have same: "slot t ?data' j = (if j = i + 1 then splice 0 (replicate k 0) (slot t data (i + 1))
      else if j = i then replicate ?G 0 else slot t data j)" if "j < total_slots t data" for j
    using g(6) f(6) hf f(5) that i(2) by simp
  show ?thesis
  proof (rule that)
    show "length ?data' = length data" using g(1) f(1) d(2) by simp
    show "slot t ?data' (i + 1) = replicate k 0 @ drop k (slot t data (i + 1))"
      using same [OF i(2)] size(2) by (simp add: splice_def)
  qed (use run same i' in simp_all)
qed

lemma delete_full_step:
  assumes inv: "refdb_inv utf8 t data" and r: "rec_index r = None"
    and full: "write_target t data r = total_slots t data"
  shows "RefDB_delete utf8 data r = (Err AccountDataTooSmall, data)"
proof -
  have off: "find_write_offset utf8 data (rec_name r) = Ok (slot_off t (total_slots t data))"
    using find_write_offset_eq [OF inv, of "rec_name r"] r full by (simp add: write_target_def)
  have "length data < slot_off t (total_slots t data) + Record_get_size r"
    using end_of_storage(2) [OF inv] Record_get_size_ge [of r] by (simp add: NO_REF_LEN_def)
  then show ?thesis by (simp add: RefDB_delete_def r off)
qed

end
