(* ===== verification/RefDB_Spec.thy ===== *)
theory RefDB_Spec
  imports Rust_Prelude RefDB_Update
begin

text \<open>
  The contract between a store that lives in mutable memory and an abstract one: every
  admissible command that the specification accepts succeeds and commutes with the
  abstraction, every one it rejects fails with that error and changes nothing. What a client
  may conclude for whole histories of commands is proved once, from the contract.
\<close>

text \<open>A history: the outcomes in order and the final state. A failed command is skipped.\<close>

fun run_steps :: "('s \<Rightarrow> 'c \<Rightarrow> ('a, 's) effect) \<Rightarrow> 's \<Rightarrow> 'c list \<Rightarrow> 'a result list \<times> 's" where
  "run_steps step s [] = ([], s)"
| "run_steps step s (c # cs) =
     (case step s c of (r, s') \<Rightarrow>
        (case run_steps step s' cs of (rs, s'') \<Rightarrow> (r # rs, s'')))"

fun spec_steps :: "('m \<Rightarrow> 'c \<Rightarrow> 'm result) \<Rightarrow> 'm \<Rightarrow> 'c list \<Rightarrow> unit result list \<times> 'm" where
  "spec_steps spec m [] = ([], m)"
| "spec_steps spec m (c # cs) =
     (case spec m c of
        Ok m' \<Rightarrow> (case spec_steps spec m' cs of (rs, m'') \<Rightarrow> (Ok () # rs, m''))
      | Err e \<Rightarrow> (case spec_steps spec m cs of (rs, m'') \<Rightarrow> (Err e # rs, m''))
      | Panic \<Rightarrow> (case spec_steps spec m cs of (rs, m'') \<Rightarrow> (Panic # rs, m'')))"

definition outcome :: "'a result \<Rightarrow> unit result" where
  "outcome r = bind r (\<lambda>_. Ok ())"

lemma outcome_simps [simp]:
  "outcome (Ok x) = Ok ()" "outcome (Err e) = Err e" "outcome Panic = Panic"
  by (simp_all add: outcome_def)

locale store_refinement =
  fixes inv :: "'s \<Rightarrow> bool"
    and view :: "'s \<Rightarrow> 'm"
    and step :: "'s \<Rightarrow> 'c \<Rightarrow> ('a, 's) effect"
    and spec :: "'m \<Rightarrow> 'c \<Rightarrow> 'm result"
    and ok :: "'c \<Rightarrow> bool"
  assumes step_Ok: "inv s \<Longrightarrow> ok c \<Longrightarrow> spec (view s) c = Ok m \<Longrightarrow>
      \<exists>n s'. step s c = (Ok n, s') \<and> inv s' \<and> view s' = m"
    and step_Err: "inv s \<Longrightarrow> ok c \<Longrightarrow> spec (view s) c = Err e \<Longrightarrow> step s c = (Err e, s)"
    and spec_no_panic: "spec m c \<noteq> Panic"
begin

lemma step_refines:
  assumes "inv s" and "ok c"
  obtains r s' where "step s c = (r, s')" and "inv s'" and "r \<noteq> Panic"
    and "spec (view s) c = Ok (view s') \<and> outcome r = Ok () \<or>
      (\<exists>e. spec (view s) c = Err e \<and> r = Err e \<and> s' = s)"
proof (cases "spec (view s) c")
  case (Ok m)
  then obtain n s' where "step s c = (Ok n, s')" "inv s'" "view s' = m"
    using step_Ok [OF assms] by blast
  then show ?thesis using that [of "Ok n" s'] Ok by simp
next
  case (Err e)
  then show ?thesis using that [of "Err e" s] step_Err [OF assms] assms(1) by simp
next
  case Panic
  then show ?thesis using spec_no_panic by blast
qed

lemma run_refines:
  assumes "inv s" and "list_all ok cs"
  shows "inv (snd (run_steps step s cs)) \<and>
    view (snd (run_steps step s cs)) = snd (spec_steps spec (view s) cs) \<and>
    map outcome (fst (run_steps step s cs)) = fst (spec_steps spec (view s) cs) \<and>
    Panic \<notin> set (fst (run_steps step s cs))"
  using assms
proof (induction cs arbitrary: s)
  case (Cons c cs)
  from Cons.prems have "inv s" "ok c" by simp_all
  then obtain r s' where st: "step s c = (r, s')" "inv s'" "r \<noteq> Panic"
    and sp: "spec (view s) c = Ok (view s') \<and> outcome r = Ok () \<or>
      (\<exists>e. spec (view s) c = Err e \<and> r = Err e \<and> s' = s)"
    by (rule step_refines)
  have "list_all ok cs" using Cons.prems(2) by simp
  note IH = Cons.IH [OF st(2) this]
  from sp IH st show ?case
    by (auto simp: split_beta)
qed simp

end


text \<open>
  What a RefDB storage promises, stated on finite maps from names to entries, and the proof
  that the byte-level operations implement it: \<open>read\<close>, \<open>read_all\<close>, \<open>write\<close>, \<open>update\<close>, \<open>delete\<close> and
  \<open>init\<close> commute with the abstraction \<open>refdb_map\<close>, keep the invariant, and leave the storage
  untouched when they report an error the specification foresees.
\<close>

section \<open>The abstract store\<close>

definition spec_counter :: "(ArrayString64 \<Rightarrow> entry option) \<Rightarrow> ArrayString64 \<Rightarrow> u16" where
  "spec_counter m nm = (case m nm of Some e \<Rightarrow> ent_counter e | None \<Rightarrow> 0)"

definition spec_put ::
  "(ArrayString64 \<Rightarrow> entry option) \<Rightarrow> Record \<Rightarrow> ArrayString64 \<Rightarrow> entry option" where
  "spec_put m r = m(rec_name r \<mapsto>
     \<lparr> ent_counter = next_record_counter (spec_counter m (rec_name r)),
       ent_tag = rec_tag r, ent_reference = rec_reference r \<rparr>)"

definition stale :: "Record \<Rightarrow> entry \<Rightarrow> bool" where
  "stale r e \<longleftrightarrow> rec_counter r > 0 \<and> ent_counter e \<noteq> rec_counter r"

definition spec_write ::
  "nat \<Rightarrow> ReferenceType \<Rightarrow> (ArrayString64 \<Rightarrow> entry option) \<Rightarrow> Record
     \<Rightarrow> (ArrayString64 \<Rightarrow> entry option) result" where
  "spec_write cap t m r =
     (case m (rec_name r) of
        None \<Rightarrow>
          if card (dom m) = cap then Err AccountDataTooSmall
          else if t \<noteq> Reference_get_type (rec_reference r) then Err (farm_error RefdbRecordTypeMismatch)
          else Ok (spec_put m r)
      | Some e \<Rightarrow>
          if stale r e then Err (farm_error RefdbRecordCounterMismatch)
          else if t \<noteq> Reference_get_type (rec_reference r) then Err (farm_error RefdbRecordTypeMismatch)
          else Ok (spec_put m r))"

definition spec_update ::
  "(ArrayString64 \<Rightarrow> entry option) \<Rightarrow> ArrayString64 \<Rightarrow> Reference
     \<Rightarrow> (ArrayString64 \<Rightarrow> entry option) result" where
  "spec_update m nm reference =
     (case m nm of
        None \<Rightarrow> Err (farm_error RefdbRecordNotFound)
      | Some e \<Rightarrow> Ok (m(nm \<mapsto> e\<lparr> ent_counter := next_record_counter (ent_counter e),
          ent_reference := reference \<rparr>)))"

definition spec_delete ::
  "nat \<Rightarrow> (ArrayString64 \<Rightarrow> entry option) \<Rightarrow> Record \<Rightarrow> (ArrayString64 \<Rightarrow> entry option) result" where
  "spec_delete cap m r =
     (case m (rec_name r) of
        None \<Rightarrow> if card (dom m) = cap then Err AccountDataTooSmall else Ok m
      | Some e \<Rightarrow>
          if stale r e then Err (farm_error RefdbRecordCounterMismatch)
          else Ok (m(rec_name r := None)))"

text \<open>The record that stands for the entry of a name.\<close>

definition entry_record :: "ArrayString64 \<Rightarrow> entry \<Rightarrow> u32 option \<Rightarrow> Record" where
  "entry_record nm e idx = \<lparr> rec_index = idx, rec_counter = ent_counter e, rec_tag = ent_tag e,
     rec_name = nm, rec_reference = ent_reference e \<rparr>"

section \<open>Looking up\<close>

lemma find_slot_Some:
  "find_slot n sl nm = Some i \<Longrightarrow> i < n \<and> slot_active (sl i) \<and> slot_name (sl i) = nm"
  by (auto simp: find_slot_def find_Some_iff)

lemma find_slot_None:
  "find_slot n sl nm = None \<longleftrightarrow> (\<forall>i<n. slot_active (sl i) \<longrightarrow> slot_name (sl i) \<noteq> nm)"
  by (auto simp: find_slot_def find_None_iff)

lemma refdb_map_find:
  assumes "refdb_inv utf8 t data"
  shows "refdb_map t data nm =
    map_option (\<lambda>i. slot_entry t (slot t data i)) (find_slot (total_slots t data) (slot t data) nm)"
proof (cases "find_slot (total_slots t data) (slot t data) nm")
  case None
  then have "slots_map t (total_slots t data) (slot t data) nm = None"
    by (simp only: slots_map_None_iff find_slot_None)
  with None show ?thesis by (simp add: refdb_map_def)
next
  case (Some i)
  then have "slots_map t (total_slots t data) (slot t data) nm = Some (slot_entry t (slot t data i))"
    unfolding slots_map_Some_iff [OF refdb_invD(7) [OF assms]] using find_slot_Some [OF Some] by auto
  with Some show ?thesis by (simp add: refdb_map_def)
qed

lemma card_dom_refdb_map:
  "refdb_inv utf8 t data \<Longrightarrow> card (dom (refdb_map t data)) = unat (stored_active data)"
  using card_dom_slots_map [OF refdb_invD(7)] by (simp add: refdb_map_def)

lemma first_free_less:
  assumes "first_free n sl < n"
  shows "\<not> slot_active (sl (first_free n sl))"
proof (cases "find (\<lambda>i. \<not> slot_active (sl i)) [0..<n]")
  case (Some i)
  then have "first_free n sl = i" by (simp add: first_free_def)
  then show ?thesis using Some by (auto simp: find_Some_iff)
qed (use assms in \<open>simp add: first_free_def\<close>)

lemma first_free_full:
  assumes "refdb_inv utf8 t data"
  shows "first_free (total_slots t data) (slot t data) \<le> total_slots t data"
    and "first_free (total_slots t data) (slot t data) = total_slots t data \<longleftrightarrow>
      card (dom (refdb_map t data)) = total_slots t data"
proof -
  let ?n = "total_slots t data" and ?f = "find (\<lambda>i. \<not> slot_active (slot t data i)) [0..<total_slots t data]"
  show "first_free ?n (slot t data) \<le> ?n"
    by (auto simp: first_free_def find_Some_iff split: option.splits)
  have card: "card (dom (refdb_map t data)) = card {i. i < ?n \<and> slot_active (slot t data i)}"
    using card_dom_refdb_map [OF assms] refdb_invD(7) [OF assms] by (simp add: slots_ok_iff)
  show "first_free ?n (slot t data) = ?n \<longleftrightarrow> card (dom (refdb_map t data)) = ?n"
  proof (cases ?f)
    case None
    then have "{i. i < ?n \<and> slot_active (slot t data i)} = {..<?n}" by (auto simp: find_None_iff)
    with None show ?thesis by (simp add: card first_free_def)
  next
    case (Some i)
    then have i: "i < ?n" "\<not> slot_active (slot t data i)" by (auto simp: find_Some_iff)
    then have "unat (stored_active data) < ?n" by (rule room_if_inactive [OF assms])
    with Some i(1) show ?thesis using card_dom_refdb_map [OF assms] by (simp add: first_free_def)
  qed
qed

text \<open>The three situations of an operation that names a record without an index.\<close>

lemma write_target_cases:
  assumes inv: "refdb_inv utf8 t data" and r: "rec_index r = None"
  obtains
    (hit) i e where "write_target t data r = i" "i < total_slots t data"
      "slot_active (slot t data i)" "slot_name (slot t data i) = rec_name r"
      "refdb_map t data (rec_name r) = Some e" "slot_entry t (slot t data i) = e"
  | (free) i where "write_target t data r = i" "i < total_slots t data"
      "\<not> slot_active (slot t data i)" "refdb_map t data (rec_name r) = None"
      "card (dom (refdb_map t data)) \<noteq> total_slots t data"
  | (full) "write_target t data r = total_slots t data" "refdb_map t data (rec_name r) = None"
      "card (dom (refdb_map t data)) = total_slots t data"
proof (cases "find_slot (total_slots t data) (slot t data) (rec_name r)")
  case None
  let ?f = "first_free (total_slots t data) (slot t data)"
  have m: "refdb_map t data (rec_name r) = None" "write_target t data r = ?f"
    using None r refdb_map_find [OF inv] by (simp_all add: write_target_def write_index_def)
  show ?thesis
  proof (cases "?f = total_slots t data")
    case True
    then show ?thesis using m first_free_full(2) [OF inv] full by simp
  next
    case False
    then have "?f < total_slots t data" using first_free_full(1) [OF inv] by simp
    then show ?thesis using m first_free_less first_free_full(2) [OF inv] False free [of ?f] by blast
  qed
next
  case (Some i)
  then show ?thesis using r refdb_map_find [OF inv, of "rec_name r"] find_slot_Some [OF Some]
      hit [of i "slot_entry t (slot t data i)"]
    by (simp add: write_target_def write_index_def)
qed


section \<open>Refinement\<close>

text \<open>\<open>read\<close> looks the name up.\<close>

lemma read_lookup:
  assumes "refdb_inv utf8 t data"
  shows "case refdb_map t data nm of
      None \<Rightarrow> RefDB_read utf8 data nm = Ok None
    | Some e \<Rightarrow> \<exists>i < total_slots t data.
        RefDB_read utf8 data nm = Ok (Some (entry_record nm e (Some (of_nat i))))"
proof (cases "find_slot (total_slots t data) (slot t data) nm")
  case None
  then show ?thesis using refdb_map_find [OF assms, of nm]
    by (simp add: RefDB_read_def find_index_eq [OF assms])
next
  case (Some i)
  note f = find_slot_Some [OF Some]
  then have "RefDB_read utf8 data nm = Ok (Some (slot_record t i (slot t data i)))"
    by (simp add: RefDB_read_def find_index_eq [OF assms] Some read_at_slot [OF assms])
  moreover have "slot_record t i (slot t data i) =
      entry_record nm (slot_entry t (slot t data i)) (Some (of_nat i))"
    using f by (simp add: slot_record_def entry_record_def slot_entry_def)
  ultimately show ?thesis using f Some refdb_map_find [OF assms, of nm] by auto
qed

text \<open>Writing a record into slot \<open>i\<close>, wherever the slot was chosen.\<close>

lemma put_written:
  assumes inv: "refdb_inv utf8 t data" and i: "i < total_slots t data"
    and r: "packable_name utf8 (rec_name r)" "wf_reference (rec_reference r)"
      "Reference_get_type (rec_reference r) = t"
    and old: "slot_active (slot t data i) \<Longrightarrow> slot_name (slot t data i) = rec_name r"
    and new: "\<not> slot_active (slot t data i) \<Longrightarrow> refdb_map t data (rec_name r) = None"
  defines "data' \<equiv> put_slot t i (written_slot r (slot t data i))
      (write_header (slot_active (slot t data i)) data)"
  shows "refdb_inv utf8 t data'" and "refdb_map t data' = spec_put (refdb_map t data) r"
    and "stored_counter data' = next_storage_counter (stored_counter data)"
    and "length data' = length data"
proof -
  note d = refdb_invD [OF inv]
  let ?s = "slot t data i" and ?n = "total_slots t data"
  let ?w = "written_slot r ?s"
  have l: "length ?s = get_size_with_reference t" using d(2) i by simp
  note f = written_slot_fields [OF l r(2,3)]
  have z: "slot_name ?s = rec_name r \<or> slice 4 64 ?s = replicate 64 0"
    using old d(7) i by (auto simp: slots_ok_iff)
  have nm: "slot_name ?w = rec_name r" using l r(2,3,1) z by (rule written_slot_name)
  have act: "slot_active ?w" using f(2) by (simp add: slot_active_def word_gt_0)
  have fresh: "slot_name (slot t data j) \<noteq> slot_name ?w"
    if "j < ?n" "j \<noteq> i" "slot_active (slot t data j)" for j
  proof (cases "slot_active ?s")
    case True
    then show ?thesis using that d(7) i old nm unfolding slots_ok_iff by metis
  next
    case False
    then show ?thesis using new that nm by (auto simp: refdb_map_def slots_map_None_iff)
  qed
  let ?a = "if slot_active ?s then stored_active data else stored_active data + 1"
  have room: "unat (stored_active data) < 2 ^ 32 - 1" if "\<not> slot_active ?s"
    using room_if_inactive [OF inv i that] d(6) by simp
  then have a: "unat ?a = (if slot_active ?s then unat (stored_active data)
      else unat (stored_active data) + 1)"
    by (simp add: unat_word_ariths(1))
  have u: "utf8 (slot_name ?w)" using nm r(1) by (simp add: packable_name_def)
  have ok: "slots_ok utf8 ?n (unat ?a) ((slot t data)(i := ?w))"
    unfolding a using d(7) i act u fresh by (rule slots_ok_put)
  note p = put_inv [OF inv i f(1) next_counter_nonzero(1) ok]
  show "refdb_inv utf8 t data'" and "length data' = length data"
    and "stored_counter data' = next_storage_counter (stored_counter data)"
    unfolding data'_def write_header_def by (rule p)+
  have "spec_counter (refdb_map t data) (rec_name r) = slot_counter ?s"
  proof (cases "slot_active ?s")
    case True
    then have "refdb_map t data (rec_name r) = Some (slot_entry t ?s)"
      unfolding refdb_map_def slots_map_Some_iff [OF d(7)] using i old by auto
    then show ?thesis by (simp add: spec_counter_def slot_entry_def)
  next
    case False
    then show ?thesis using new by (simp add: spec_counter_def slot_active_def word_gt_0)
  qed
  then have e: "spec_put (refdb_map t data) r = (refdb_map t data)(rec_name r \<mapsto> slot_entry t ?w)"
    by (simp add: spec_put_def f(4))
  show "refdb_map t data' = spec_put (refdb_map t data) r"
    unfolding e unfolding data'_def write_header_def p(2) unfolding refdb_map_def
    using d(7) ok i act nm old by (rule slots_map_put)
qed

lemma write_refines:
  assumes inv: "refdb_inv utf8 t data" and r: "rec_index r = None"
    and wf: "packable_name utf8 (rec_name r)" "wf_reference (rec_reference r)"
  shows "case spec_write (total_slots t data) t (refdb_map t data) r of
      Ok m \<Rightarrow> \<exists>data'. RefDB_write utf8 data r = (Ok (get_size_with_reference t), data') \<and>
        refdb_inv utf8 t data' \<and> refdb_map t data' = m \<and> length data' = length data \<and>
        stored_counter data' = next_storage_counter (stored_counter data)
    | Err e \<Rightarrow> RefDB_write utf8 data r = (Err e, data)
    | Panic \<Rightarrow> False"
  using inv r
proof (cases rule: write_target_cases)
  case (hit i e)
  note p = put_written [OF inv hit(2) wf] hit(3,4)
  have "slot_counter (slot t data i) = ent_counter e" using hit(6) by (auto simp: slot_entry_def)
  then show ?thesis
    using write_step [OF inv hit(1,2) wf(2)] hit r p
    by (auto simp: spec_write_def stale_def)
next
  case (free i)
  then show ?thesis
    using write_step [OF inv free(1,2) wf(2)] put_written [OF inv free(2) wf]
    by (auto simp: spec_write_def)
next
  case full
  then show ?thesis using write_full_step [OF inv r full(1)] by (simp add: spec_write_def)
qed

lemma update_refines:
  assumes inv: "refdb_inv utf8 t data" and wf: "wf_reference reference"
    and t: "Reference_get_type reference = t"
  shows "case spec_update (refdb_map t data) nm reference of
      Ok m \<Rightarrow> \<exists>data'. RefDB_update utf8 data nm reference = (Ok (get_size_with_reference t), data') \<and>
        refdb_inv utf8 t data' \<and> refdb_map t data' = m \<and> length data' = length data \<and>
        stored_counter data' = next_storage_counter (stored_counter data)
    | Err e \<Rightarrow> RefDB_update utf8 data nm reference = (Err e, data)
    | Panic \<Rightarrow> False"
proof (cases "find_slot (total_slots t data) (slot t data) nm")
  case None
  then show ?thesis using refdb_map_find [OF inv, of nm]
    by (simp add: RefDB_update_def find_index_eq [OF inv] spec_update_def)
next
  case (Some i)
  note d = refdb_invD [OF inv] and f = find_slot_Some [OF Some]
  let ?s = "slot t data i" and ?n = "total_slots t data"
  let ?w = "updated_slot t reference ?s"
  have i: "i < ?n" "slot_active ?s" "slot_name ?s = nm" using f by simp_all
  have l: "length ?s = get_size_with_reference t" using d(2) i by simp
  have u: "utf8 (slot_name ?s)" using d(7) i(1) by (simp add: slots_ok_iff)
  note w = updated_slot_fields [of ?s t reference utf8, OF l wf t u]
  have act: "slot_active ?w" using w(2) by (simp add: slot_active_def word_gt_0)
  have fresh: "slot_name (slot t data j) \<noteq> slot_name ?w"
    if "j < ?n" "j \<noteq> i" "slot_active (slot t data j)" for j
    using that d(7) i w(3) unfolding slots_ok_iff by metis
  have ok: "slots_ok utf8 ?n (unat (stored_active data)) ((slot t data)(i := ?w))"
    using slots_ok_put [OF d(7) i(1) act _ fresh] u w(3) i(2) by simp
  note p = put_inv [OF inv i(1) w(1) next_counter_nonzero(1) ok]
  have m: "slots_map t ?n ((slot t data)(i := ?w)) = (refdb_map t data)(nm \<mapsto> slot_entry t ?w)"
    using slots_map_put [OF d(7) ok i(1) act, of nm t] w(3) i by (simp add: refdb_map_def)
  have "refdb_map t data nm = Some (slot_entry t ?s)" using refdb_map_find [OF inv, of nm] Some by simp
  moreover have "slot_entry t ?w = (slot_entry t ?s)\<lparr>ent_counter :=
      next_record_counter (ent_counter (slot_entry t ?s)), ent_reference := reference\<rparr>"
    using w(4) by (simp add: slot_entry_def)
  ultimately have "spec_update (refdb_map t data) nm reference = Ok ((refdb_map t data)(nm \<mapsto> slot_entry t ?w))"
    by (simp add: spec_update_def)
  then show ?thesis
    using update_at_step [OF inv i(1) wf t] i(2) p m
    by (simp add: RefDB_update_def find_index_eq [OF inv] Some)
qed

lemma delete_refines:
  assumes inv: "refdb_inv utf8 t data" and u: "utf8 []" and r: "rec_index r = None"
    and sz: "Record_get_size r \<le> get_size_with_reference t"
  shows "case spec_delete (total_slots t data) (refdb_map t data) r of
      Ok m \<Rightarrow> \<exists>n data'. RefDB_delete utf8 data r = (Ok n, data') \<and>
        refdb_inv utf8 t data' \<and> refdb_map t data' = m \<and> length data' = length data
    | Err e \<Rightarrow> RefDB_delete utf8 data r = (Err e, data)
    | Panic \<Rightarrow> False"
  using inv r
proof (cases rule: write_target_cases)
  case (hit i e)
  note d = refdb_invD [OF inv]
  let ?s = "slot t data i" and ?n = "total_slots t data"
  let ?a = "stored_active data - 1"
  have l: "length ?s = get_size_with_reference t" using d(2) hit(2) by simp
  note w = cleared_slot_fields [OF l sz]
  have a: "unat ?a = unat (stored_active data) - 1"
    using active_pos [OF inv hit(2,3)] by (metis unat_minus_one unat_eq_zero less_irrefl)
  have ok: "slots_ok utf8 ?n (unat ?a) ((slot t data)(i := cleared_slot r ?s))"
    unfolding a using d(7) hit(2,3) w(2,3) u by (rule slots_ok_clear)
  note p = put_inv [OF inv hit(2) w(1) next_counter_nonzero(1) ok]
  have m: "slots_map t ?n ((slot t data)(i := cleared_slot r ?s)) = (refdb_map t data)(rec_name r := None)"
    using slots_map_clear [OF d(7) ok hit(2,3) w(2), of t] hit(4) by (simp add: refdb_map_def)
  have "slot_counter ?s = ent_counter e" using hit(6) by (auto simp: slot_entry_def)
  then show ?thesis
    using delete_step [OF inv hit(1,2) sz] hit p m
    by (auto simp: spec_delete_def stale_def)
next
  case (free i)
  then show ?thesis
    using delete_step [OF inv free(1,2) sz] inv by (auto simp: spec_delete_def)
next
  case full
  then show ?thesis using delete_full_step [OF inv r full(1)] by (simp add: spec_delete_def)
qed

text \<open>A record that needs more space than a slot has; no record needs more than two slots.\<close>

lemma delete_oversized:
  assumes inv: "refdb_inv utf8 t data" and r: "rec_index r = None"
    and sz: "get_size_with_reference t < Record_get_size r"
    and e: "refdb_map t data (rec_name r) = Some e" "\<not> stale r e"
  shows "\<exists>i < total_slots t data. slot_active (slot t data i) \<and> slot_name (slot t data i) = rec_name r \<and>
    (i + 1 < total_slots t data \<longrightarrow>
      (\<exists>data'. RefDB_delete utf8 data r = (Ok (Record_get_size r), data') \<and> length data' = length data \<and>
         slot t data' i = replicate (get_size_with_reference t) 0 \<and>
         slot t data' (i + 1) = replicate (Record_get_size r - get_size_with_reference t) 0 @
           drop (Record_get_size r - get_size_with_reference t) (slot t data (i + 1)) \<and>
         (\<forall>j < total_slots t data. j \<noteq> i \<and> j \<noteq> i + 1 \<longrightarrow> slot t data' j = slot t data j)))"
  using inv r
proof (cases rule: write_target_cases)
  case (hit i e')
  let ?k = "Record_get_size r - get_size_with_reference t"
  have k: "Record_get_size r = get_size_with_reference t + ?k" "?k \<le> get_size_with_reference t"
    using sz record_size_ge [of t] by (cases "rec_reference r"; simp add: Record_get_size_eq NO_REF_LEN_def)+
  have "slot_counter (slot t data i) = ent_counter e" using hit(5,6) e(1) by (auto simp: slot_entry_def)
  then have c: "rec_counter r > 0 \<longrightarrow> slot_counter (slot t data i) = rec_counter r"
    using e(2) by (simp add: stale_def)
  show ?thesis
  proof (cases "i + 1 < total_slots t data")
    case True
    from delete_spills [OF inv hit(1) this k hit(3,4) c] show ?thesis using hit(2,3,4) True by (metis (lifting))
  qed (use hit in auto)
qed (use e in auto)

lemma delete_with_name_fits: "Record_get_size \<lparr> rec_index = index, rec_counter = 0, rec_tag = 0, rec_name = name,
    rec_reference = REmpty \<rparr> \<le> get_size_with_reference t"
  using record_size_ge [of t] by (simp add: Record_get_size_eq NO_REF_LEN_def)

section \<open>\<open>init\<close>\<close>

lemma total_slots_size:
  assumes "length data = get_storage_size_for_records t n" and "n < 2 ^ 32"
  shows "total_slots t data = n" and "(length data - Header_LEN) mod get_size_with_reference t = 0"
    and "length data < usize_modulus"
proof -
  have len: "length data = n * get_size_with_reference t + Header_LEN"
    using assms by (simp add: get_storage_size_for_records_def)
  then show "total_slots t data = n" "(length data - Header_LEN) mod get_size_with_reference t = 0"
    by (simp_all add: total_slots_def)
  have "n * get_size_with_reference t \<le> 2 ^ 32 * 100"
    using assms(2) record_size_le [of t] by (intro mult_le_mono) simp_all
  then show "length data < usize_modulus" by (simp add: len Header_LEN_def usize_modulus_def)
qed

lemma zeros_not_initialized: "\<not> RefDB_is_initialized utf8 (replicate n 0)"
proof (cases "Header_LEN \<le> n")
  case True
  then show ?thesis
    by (auto simp: RefDB_is_initialized_def Header_unpack_eq slice_replicate
        split: result.splits simp: result_simps)
next
  case False
  then show ?thesis by (simp add: RefDB_is_initialized_def Header_unpack_def)
qed

lemma init_step:
  assumes n: "0 < n" "n < 2 ^ 32" and nm: "packable_name utf8 nm" and u: "utf8 []"
  shows "\<exists>data'. RefDB_init utf8 (replicate (get_storage_size_for_records t n) 0) nm t = (Ok (), data') \<and>
    refdb_inv utf8 t data' \<and> refdb_map t data' = Map.empty \<and> total_slots t data' = n \<and>
    stored_counter data' = 1 \<and> RefDB_get_name utf8 data' = Ok nm"
proof -
  let ?L = "get_storage_size_for_records t n"
  let ?h = "\<lparr> hdr_counter = 1, hdr_active_records = 0, hdr_reference_type = t, hdr_name = nm \<rparr>"
  have L: "?L = n * get_size_with_reference t + Header_LEN"
    using n by (simp add: get_storage_size_for_records_def)
  have one: "get_size_with_reference t \<le> n * get_size_with_reference t" using n(1) by simp
  then have L': "Header_LEN + get_size_with_reference t \<le> ?L" using L by simp
  obtain data' where p: "Header_pack ?h (replicate ?L 0) = (Ok Header_LEN, data')"
    and len: "length data' = ?L"
    and f: "slice 0 4 data' = to_le_bytes (1 :: u32)" "slice 4 4 data' = to_le_bytes (0 :: u32)"
      "slice 8 1 data' = [ReferenceType_as_u8 t]"
      "slice 9 64 data' = pack_array_string64 nm (slice 9 64 (replicate ?L 0))"
    and z: "\<And>off k. Header_LEN \<le> off \<Longrightarrow> slice off k data' = slice off k (replicate ?L 0)"
    using Header_pack_fields [of "replicate ?L 0" ?h] L by auto
  note ts = total_slots_size [OF len n(2)]
  have l73: "73 \<le> length data'" using len L by (simp add: Header_LEN_def)
  have "data' ! 8 = ReferenceType_as_u8 t"
    using arg_cong [OF f(3), of "\<lambda>xs. xs ! 0"] l73 by (simp add: slice_nth)
  then have rt: "RefDB_get_reference_type data' = Ok t"
    using l73 by (simp add: RefDB_get_reference_type_def Header_LEN_def REF_TYPE_OFFSET_def)
  have sl: "slot t data' i = replicate (get_size_with_reference t) 0" if "i < n" for i
  proof -
    have b: "slot_off t i + get_size_with_reference t \<le> ?L"
      using slot_off_bound [OF l73, of i t] that ts(1) len by simp
    have "slot t data' i = slice (slot_off t i) (get_size_with_reference t) (replicate ?L 0)"
      unfolding slot_def by (rule z) (simp add: slot_off_def)
    then show ?thesis using b by (simp add: slice_replicate)
  qed
  have na: "\<not> slot_active (slot t data' i)" if "i < n" for i
    using sl [OF that] by (simp add: slot_active_def slot_counter_def slice_replicate)
  have ok: "slots_ok utf8 n 0 (slot t data')"
    using sl na u record_size_ge [of t] by (auto simp: slots_ok_iff slot_name_def slice_replicate)
  have inv: "refdb_inv utf8 t data'"
    using rt ts n ok f(1,2) unfolding refdb_inv_def stored_counter_def stored_active_def
    by (simp add: NO_REF_LEN_def)
  have "RefDB_init utf8 (replicate ?L 0) nm t = (Ok (), data')"
    using L' p by (simp add: RefDB_init_def zeros_not_initialized get_size_with_reference_def)
  moreover have "refdb_map t data' = Map.empty"
    using na ts(1) by (auto simp: refdb_map_def slots_map_None_iff)
  moreover have "RefDB_get_name utf8 data' = Ok nm"
  proof -
    have z9: "slice 9 64 (replicate ?L 0) = replicate 64 0"
      using L by (simp add: slice_replicate Header_LEN_def)
    have "unpack_array_string64 utf8 (slice 9 64 data') = Ok nm"
      unfolding f(4) z9 using nm by (intro name_round_trip) simp_all
    then show ?thesis using l73 by (simp add: RefDB_get_name_def NAME_OFFSET_def Header_LEN_def)
  qed
  ultimately show ?thesis using inv ts(1) f(1) by (auto simp: stored_counter_def)
qed

section \<open>Histories of commands\<close>

datatype db_command =
    DbWrite Record
  | DbUpdate ArrayString64 Reference
  | DbDelete Record

fun db_step :: "(bytes \<Rightarrow> bool) \<Rightarrow> bytes \<Rightarrow> db_command \<Rightarrow> (usize, bytes) effect" where
  "db_step utf8 data (DbWrite r) = RefDB_write utf8 data r"
| "db_step utf8 data (DbUpdate nm reference) = RefDB_update utf8 data nm reference"
| "db_step utf8 data (DbDelete r) = RefDB_delete utf8 data r"

fun db_spec ::
  "ReferenceType \<Rightarrow> nat \<times> (ArrayString64 \<Rightarrow> entry option) \<Rightarrow> db_command
     \<Rightarrow> (nat \<times> (ArrayString64 \<Rightarrow> entry option)) result" where
  "db_spec t (cap, m) (DbWrite r) = bind (spec_write cap t m r) (\<lambda>m'. Ok (cap, m'))"
| "db_spec t (cap, m) (DbUpdate nm reference) = bind (spec_update m nm reference) (\<lambda>m'. Ok (cap, m'))"
| "db_spec t (cap, m) (DbDelete r) = bind (spec_delete cap m r) (\<lambda>m'. Ok (cap, m'))"

text \<open>The commands the contract covers: by name, with names and references that can be stored.\<close>

fun db_ok :: "(bytes \<Rightarrow> bool) \<Rightarrow> ReferenceType \<Rightarrow> db_command \<Rightarrow> bool" where
  "db_ok utf8 t (DbWrite r) \<longleftrightarrow>
     rec_index r = None \<and> packable_name utf8 (rec_name r) \<and> wf_reference (rec_reference r)"
| "db_ok utf8 t (DbUpdate nm reference) \<longleftrightarrow>
     wf_reference reference \<and> Reference_get_type reference = t"
| "db_ok utf8 t (DbDelete r) \<longleftrightarrow>
     rec_index r = None \<and> Record_get_size r \<le> get_size_with_reference t"

definition db_view :: "ReferenceType \<Rightarrow> bytes \<Rightarrow> nat \<times> (ArrayString64 \<Rightarrow> entry option)" where
  "db_view t data = (total_slots t data, refdb_map t data)"

definition db_inv :: "(bytes \<Rightarrow> bool) \<Rightarrow> ReferenceType \<Rightarrow> bytes \<Rightarrow> bool" where
  "db_inv utf8 t data \<longleftrightarrow> utf8 [] \<and> refdb_inv utf8 t data"

lemma db_step_refines:
  assumes "db_inv utf8 t data" and "db_ok utf8 t c"
  shows "case db_spec t (db_view t data) c of
      Ok m \<Rightarrow> \<exists>n data'. db_step utf8 data c = (Ok n, data') \<and> db_inv utf8 t data' \<and> db_view t data' = m
    | Err e \<Rightarrow> db_step utf8 data c = (Err e, data)
    | Panic \<Rightarrow> False"
proof -
  have inv: "refdb_inv utf8 t data" and u: "utf8 []" using assms(1) by (simp_all add: db_inv_def)
  show ?thesis
  proof (cases c)
    case (DbWrite r)
    then show ?thesis using write_refines [OF inv, of r] assms(2) u
      by (cases "spec_write (total_slots t data) t (refdb_map t data) r")
        (auto simp: db_inv_def db_view_def total_slots_def)
  next
    case (DbUpdate nm reference)
    then show ?thesis
      using update_refines [OF inv, of reference nm] assms(2) u
      by (cases "spec_update (refdb_map t data) nm reference") (auto simp: db_inv_def db_view_def total_slots_def)
  next
    case (DbDelete r)
    then show ?thesis using delete_refines [OF inv u, of r] assms(2) u
      by (cases "spec_delete (total_slots t data) (refdb_map t data) r")
        (auto simp: db_inv_def db_view_def total_slots_def)
  qed
qed

lemma db_spec_no_panic: "db_spec t m c \<noteq> Panic"
  by (cases m; cases c)
    (auto simp: spec_write_def spec_update_def spec_delete_def split: option.splits)

interpretation db: store_refinement "db_inv utf8 t" "db_view t" "db_step utf8" "db_spec t"
  "db_ok utf8 t" for utf8 t
proof
  fix data c m e
  assume a: "db_inv utf8 t data" "db_ok utf8 t c"
  show "\<exists>n s'. db_step utf8 data c = (Ok n, s') \<and> db_inv utf8 t s' \<and> db_view t s' = m"
    if "db_spec t (db_view t data) c = Ok m" using db_step_refines [OF a] that by simp
  show "db_step utf8 data c = (Err e, data)" if "db_spec t (db_view t data) c = Err e"
    using db_step_refines [OF a] that by simp
qed (rule db_spec_no_panic)

end
