(* ===== verification/RefDB_Safety.thy ===== *)
theory RefDB_Safety
  imports RefDB_Store
begin

text \<open>
  Absence of panics in RefDB on arbitrary account data, initialised or not: the slicing that
  could panic is always behind a length check, and the loops stay inside the buffer.
\<close>

lemma check_data_len_no_panic [simp]: "check_data_len data n \<noteq> Panic"
  by (simp add: check_data_len_def)

lemma reference_type_no_panic [simp]: "RefDB_get_reference_type data \<noteq> Panic"
  by (auto simp: RefDB_get_reference_type_def result_simps)

lemma record_size_no_panic [simp]: "RefDB_get_record_size data \<noteq> Panic"
  by (auto simp: RefDB_get_record_size_def result_simps)

lemma record_size_OkD:
  "RefDB_get_record_size data = Ok rs \<Longrightarrow> 68 \<le> rs \<and> 73 \<le> length data"
  by (auto simp: RefDB_get_record_size_def RefDB_get_reference_type_def result_simps NO_REF_LEN_def
      Header_LEN_def)

lemma counters_no_panic [simp]:
  "RefDB_get_active_records data \<noteq> Panic" "RefDB_get_storage_counter data \<noteq> Panic"
  "RefDB_get_total_records data \<noteq> Panic"
  by (auto simp: RefDB_get_active_records_def RefDB_get_storage_counter_def
      RefDB_get_total_records_def result_simps Header_LEN_def array_ref_def Let_def
      split: if_splits)

lemma record_counter_no_panic:
  "offset \<le> length data \<Longrightarrow> get_record_counter data offset \<noteq> Panic"
  "offset \<le> length data \<Longrightarrow> get_record_counter_and_name utf8 data offset \<noteq> Panic"
  by (auto simp: get_record_counter_def get_record_counter_and_name_def unpack_counter_def
      unpack_counter_and_name_def result_simps NO_REF_LEN_def array_ref_def)

lemma record_counter_and_name_OkD:
  "get_record_counter_and_name utf8 data offset = Ok x \<Longrightarrow> offset + 68 \<le> length data"
  by (auto simp: get_record_counter_and_name_def unpack_counter_and_name_def result_simps
      NO_REF_LEN_def slice_from_def split: if_splits)

text \<open>The loops: \<open>n\<close> more slots fit behind the current offset.\<close>

lemma find_index_loop_no_panic:
  "offset + n * rs \<le> length data \<Longrightarrow>
    find_index_loop utf8 data nm active rs n i offset checked \<noteq> Panic"
proof (induction n arbitrary: i offset checked)
  case (Suc n)
  then show ?case
    using record_counter_no_panic(2) [of offset data utf8]
    by (auto simp: result_simps split: if_splits)
qed simp

lemma find_write_offset_loop_no_panic:
  "offset + n * rs \<le> length data \<Longrightarrow>
    find_write_offset_loop utf8 data nm active rs n offset checked fs \<noteq> Panic"
proof (induction n arbitrary: offset checked fs)
  case (Suc n)
  then show ?case
    using record_counter_no_panic(2) [of offset data utf8]
    by (auto simp: result_simps split: if_splits)
qed simp

lemma find_write_offset_loop_bound:
  assumes "find_write_offset_loop utf8 data nm active rs n offset checked fs = Ok out"
    and "offset + n * rs \<le> length data" and "fs \<le> length data"
  shows "case out of Inl off \<Rightarrow> off \<le> length data
    | Inr (off, fs') \<Rightarrow> off \<le> length data \<and> fs' \<le> length data"
  using assms
proof (induction n arbitrary: offset checked fs)
  case (Suc n)
  have "offset + rs + n * rs \<le> length data" using Suc.prems(2) by simp
  then show ?case
    using Suc.prems Suc.IH [of "offset + rs"]
    by (fastforce simp: result_simps split: if_splits)
qed (auto)

lemma total_records_bound:
  assumes "RefDB_get_record_size data = Ok rs" and "RefDB_get_total_records data = Ok n"
  shows "Header_LEN + n * rs \<le> length data"
proof -
  have "Header_LEN \<le> length data" using record_size_OkD [OF assms(1)] by (simp add: Header_LEN_def)
  moreover have "n * rs \<le> length data - Header_LEN"
    using assms calculation by (auto simp: RefDB_get_total_records_def)
  ultimately show ?thesis by simp
qed

lemma find_index_no_panic: "RefDB_find_index utf8 data nm \<noteq> Panic"
  unfolding RefDB_find_index_def
  by (intro no_panic find_index_loop_no_panic total_records_bound) simp_all

lemma find_write_offset_no_panic: "find_write_offset utf8 data nm \<noteq> Panic"
  unfolding find_write_offset_def
  by (intro no_panic find_write_offset_loop_no_panic total_records_bound)
    (auto split: sum.splits)

lemma active_records_OkD: "RefDB_get_active_records data = Ok n \<Longrightarrow> Header_LEN \<le> length data"
  by (auto simp: RefDB_get_active_records_def result_simps)

lemma find_write_offset_bound:
  assumes "find_write_offset utf8 data nm = Ok off"
  shows "off \<le> length data"
proof -
  obtain active where a: "RefDB_get_active_records data = Ok active"
    using assms by (auto simp: find_write_offset_def result_simps)
  show ?thesis
  proof (cases "active = 0")
    case True
    then show ?thesis using assms a active_records_OkD [OF a] by (simp add: find_write_offset_def)
  next
    case False
    then obtain n rs out where n: "RefDB_get_total_records data = Ok n"
      and rs: "RefDB_get_record_size data = Ok rs"
      and out: "find_write_offset_loop utf8 data nm active rs n Header_LEN 0 0 = Ok out"
      and off: "(case out of Inl offset \<Rightarrow> Ok offset
            | Inr (offset, free_slot) \<Rightarrow> Ok (if free_slot > 0 then free_slot else offset)) = Ok off"
      using assms a by (auto simp: find_write_offset_def result_simps)
    have "case out of Inl off \<Rightarrow> off \<le> length data
      | Inr (off, fs') \<Rightarrow> off \<le> length data \<and> fs' \<le> length data"
      using find_write_offset_loop_bound [OF out total_records_bound [OF rs n]] by simp
    with off show ?thesis by (auto split: sum.splits prod.splits if_splits)
  qed
qed

lemma get_offset_facts:
  "RefDB_get_offset data i \<noteq> Panic" "RefDB_get_offset data i = Ok off \<Longrightarrow> off \<le> length data"
  by (auto simp: RefDB_get_offset_def result_simps Let_def)

lemma Record_unpack_no_panic: "Record_unpack utf8 input t idx \<noteq> Panic"
  by (auto simp: Record_unpack_eq result_simps)

lemma read_at_no_panic: "RefDB_read_at utf8 data i \<noteq> Panic"
  using get_offset_facts [of data i] Record_unpack_no_panic
  by (auto simp: RefDB_read_at_def result_simps slice_from_def split: if_splits)

lemma bump_storage_counter_no_panic:
  assumes "bump_storage_counter data = (r, data')"
  shows "r \<noteq> Panic" and "length data' = length data"
  using assms
  by (auto simp: bump_storage_counter_def seq_def RefDB_set_storage_counter_def array_set_def
      Header_LEN_def check_data_len_def split: result.splits if_splits)

lemma set_active_records_no_panic:
  assumes "RefDB_set_active_records data n = (r, data')"
  shows "r \<noteq> Panic" and "length data' = length data"
  using assms
  by (auto simp: RefDB_set_active_records_def seq_def array_set_def
      Header_LEN_def check_data_len_def split: result.splits if_splits)

text \<open>
  \<open>write\<close>: the slot header was readable, so the counter can be stored even when packing fails.
\<close>

lemma locate_no_panic:
  "(case idx of Some i \<Rightarrow> RefDB_get_offset data (unat (i :: u32))
     | None \<Rightarrow> find_write_offset utf8 data nm) \<noteq> Panic"
  using get_offset_facts(1) find_write_offset_no_panic by (auto split: option.splits)

lemma locate_bound:
  "(case idx of Some i \<Rightarrow> RefDB_get_offset data (unat (i :: u32))
     | None \<Rightarrow> find_write_offset utf8 data nm) = Ok off \<Longrightarrow> off \<le> length data"
  by (auto split: option.splits dest: get_offset_facts(2) find_write_offset_bound)

lemma length_Record_pack:
  "wf_reference (rec_reference r) \<Longrightarrow> Record_pack r out = (res, out') \<Longrightarrow> length out' = length out"
  by (auto simp: Record_pack_eq Record_get_size_eq NO_REF_LEN_def pack_with_fields
      split: if_splits)

lemma pack_at_no_panic:
  assumes "off \<le> length data" and "wf_reference (rec_reference r)"
    and "pack_at r data off = (res, data')"
  shows "res \<noteq> Panic" and "length data' = length data"
proof -
  obtain res' out' where p: "Record_pack r (drop off data) = (res', out')" by fastforce
  then have "res' \<noteq> Panic" by (auto simp: Record_pack_eq split: if_splits)
  moreover have "length out' = length data - off" using length_Record_pack [OF assms(2) p] by simp
  ultimately show "res \<noteq> Panic" and "length data' = length data"
    using assms(1,3) p by (auto simp: pack_at_def)
qed

lemma set_record_counter_no_panic:
  "off + 2 \<le> length data \<Longrightarrow> fst (set_record_counter data off c) \<noteq> Panic"
  by (simp add: set_record_counter_def)

lemma write_commit_no_panic:
  assumes off: "off + 68 \<le> length data" and wf: "wf_reference (rec_reference r)"
  shows "fst (case pack_at r data off of
            (Panic, data) \<Rightarrow> (Panic, data)
          | (res, data) \<Rightarrow>
              seq (if (of_nat c :: u16) < 0xFFFF then set_record_counter data off (c + 1)
                   else set_record_counter data off 1) (\<lambda>_ data. (res, data))) \<noteq> Panic"
proof -
  obtain res data' where p: "pack_at r data off = (res, data')" by fastforce
  note q = pack_at_no_panic [OF _ wf p]
  have "off + 2 \<le> length data'" using q(2) off by simp
  then have "fst (seq (if (of_nat c :: u16) < 0xFFFF then set_record_counter data' off (c + 1)
      else set_record_counter data' off 1) (\<lambda>_ data. (res, data))) \<noteq> Panic"
    by (intro no_panic set_record_counter_no_panic) (use q off in simp_all)
  then show ?thesis using q(1) off by (cases res) (simp_all add: p)
qed

lemma bump_facts:
  "fst (bump_storage_counter data) \<noteq> Panic"
  "bump_storage_counter data = (r, data') \<Longrightarrow> length data' = length data"
  by (cases "bump_storage_counter data"; use bump_storage_counter_no_panic in fastforce)+

lemma set_active_facts:
  "fst (RefDB_set_active_records data n) \<noteq> Panic"
  "RefDB_set_active_records data n = (r, data') \<Longrightarrow> length data' = length data"
  by (cases "RefDB_set_active_records data n"; use set_active_records_no_panic in fastforce)+

lemma write_active_facts:
  "fst (if c = 0
        then seq (pure_in data (RefDB_get_active_records data)) (\<lambda>active_records data.
               if (of_nat active_records :: u32) < 0xFFFFFFFF
               then RefDB_set_active_records data (active_records + 1)
               else (Ok active_records, data))
        else (Ok 0, data)) \<noteq> Panic"
  "(if c = 0
    then seq (pure_in data (RefDB_get_active_records data)) (\<lambda>active_records data.
           if (of_nat active_records :: u32) < 0xFFFFFFFF
           then RefDB_set_active_records data (active_records + 1)
           else (Ok active_records, data))
    else (Ok 0, data)) = (r, data') \<Longrightarrow> length data' = length data"
  using set_active_facts [of data]
  by (cases "RefDB_get_active_records data"; auto split: if_splits)+

lemma write_no_panic:
  assumes "wf_reference (rec_reference r)"
  shows "fst (RefDB_write utf8 data r) \<noteq> Panic"
  unfolding RefDB_write_def
proof (intro no_panic write_commit_no_panic assms write_active_facts(1) bump_facts(1))
  show "fst (case rec_index r of None \<Rightarrow> find_write_offset utf8 data (rec_name r)
      | Some idx \<Rightarrow> RefDB_get_offset data (unat idx), data) \<noteq> Panic"
    by (simp add: locate_no_panic)
qed (auto simp: record_counter_no_panic set_active_facts(1)
    dest!: locate_bound bump_facts(2) write_active_facts(2)
    dest: record_counter_and_name_OkD)

lemma delete_no_panic: "fst (RefDB_delete utf8 data r) \<noteq> Panic"
  unfolding RefDB_delete_def Let_def
proof (intro no_panic bump_facts(1) set_active_facts(1))
  show "fst (case rec_index r of None \<Rightarrow> find_write_offset utf8 data (rec_name r)
      | Some idx \<Rightarrow> RefDB_get_offset data (unat idx), data) \<noteq> Panic"
    by (simp add: locate_no_panic)
qed (auto simp: record_counter_no_panic dest!: locate_bound)

lemma read_no_panic: "RefDB_read utf8 data nm \<noteq> Panic"
  unfolding RefDB_read_def
  by (intro no_panic find_index_no_panic) (auto split: option.split simp: read_at_no_panic)

lemma fst_pack_at_no_panic:
  "off \<le> length data \<Longrightarrow> wf_reference (rec_reference r) \<Longrightarrow> fst (pack_at r data off) \<noteq> Panic"
  by (cases "pack_at r data off") (simp add: pack_at_no_panic(1))

lemma update_at_no_panic:
  assumes "wf_reference reference"
  shows "fst (RefDB_update_at utf8 data i reference) \<noteq> Panic"
  unfolding RefDB_update_at_def
  by (intro no_panic bump_facts(1))
    (auto simp: get_offset_facts(1) Record_unpack_no_panic assms result_simps slice_from_def
      fst_pack_at_no_panic split: if_splits dest!: bump_facts(2) dest: get_offset_facts(2))

end
