(* ===== verification/RefDB_Properties.thy ===== *)
theory RefDB_Properties
  imports RefDB_Spec RefDB_Safety
begin

text \<open>The properties of the RefDB storage, each applied to a concrete storage of two records.\<close>

section \<open>A concrete storage\<close>

definition example_db :: bytes where
  "example_db = snd (RefDB_init (\<lambda>_. True) (replicate (get_storage_size_for_records TU8 2) 0) [68, 66] TU8)"

definition example_record :: Record where
  "example_record = \<lparr> rec_index = None, rec_counter = 0, rec_tag = 7, rec_name = [65, 66],
     rec_reference = RU8 42 \<rparr>"

lemma example_db_facts:
  "refdb_inv (\<lambda>_. True) TU8 example_db" "refdb_map TU8 example_db = Map.empty"
  "total_slots TU8 example_db = 2" "db_inv (\<lambda>_. True) TU8 example_db"
proof -
  have "packable_name (\<lambda>_. True) [68, 66]" by (simp add: packable_name_def)
  from init_step [of 2 "\<lambda>_. True", OF _ _ this, of TU8]
  show a: "refdb_inv (\<lambda>_. True) TU8 example_db" and "refdb_map TU8 example_db = Map.empty"
    and "total_slots TU8 example_db = 2" by (auto simp: example_db_def)
  show "db_inv (\<lambda>_. True) TU8 example_db" using a by (simp add: db_inv_def)
qed

lemma example_record_facts [simp]:
  "rec_index example_record = None" "rec_name example_record = [65, 66]"
  "rec_reference example_record = RU8 42" "rec_counter example_record = 0"
  "packable_name (\<lambda>_. True) [65, 66]" "rec_tag example_record = 7"
  "Record_get_size example_record = 69" "get_size_with_reference TU8 = 69"
  by (simp_all add: example_record_def packable_name_def Record_get_size_def
      get_size_with_reference_def NO_REF_LEN_def)

section \<open>Properties\<close>

text \<open>C1: a history of admissible \<open>write\<close>, \<open>update\<close> and \<open>delete\<close> calls, run on an initialised
  storage, behaves like the same history on a finite map of bounded size: the storage stays
  well-formed, the represented map and every outcome agree with the specification, and no call
  panics. A call is admissible (\<open>db_ok\<close>) if it goes by name, without a slot index; if a record
  to be written has a name without zero bytes, of at most 64 bytes of UTF-8 as its type has
  it, and a reference of any type, an address being 32 bytes; if the reference of an \<open>update\<close> has the type of the storage; and if the
  record given to \<open>delete\<close> needs no more than one slot, as the records of \<open>delete_with_name\<close> do.
  The code checks neither of the last two: what a \<open>delete\<close> does outside of them is part of C6.\<close>

theorem refdb_history_refines:
  assumes "db_inv utf8 t data" and "list_all (db_ok utf8 t) cs"
  shows "db_inv utf8 t (snd (run_steps (db_step utf8) data cs)) \<and>
    db_view t (snd (run_steps (db_step utf8) data cs)) = snd (spec_steps (db_spec t) (db_view t data) cs) \<and>
    map outcome (fst (run_steps (db_step utf8) data cs)) = fst (spec_steps (db_spec t) (db_view t data) cs) \<and>
    Panic \<notin> set (fst (run_steps (db_step utf8) data cs))"
  using assms by (rule db.run_refines)

theorem refdb_history_refines_witness:
  "map outcome (fst (run_steps (db_step (\<lambda>_. True)) example_db
     [DbWrite example_record, DbUpdate [65, 66] (RU8 9), DbUpdate [67] (RU8 9), DbDelete example_record]))
   = [Ok (), Ok (), Err (farm_error RefdbRecordNotFound), Ok ()]"
  using refdb_history_refines [OF example_db_facts(4),
      of "[DbWrite example_record, DbUpdate [65, 66] (RU8 9), DbUpdate [67] (RU8 9), DbDelete example_record]"]
  by (simp add: db_view_def example_db_facts spec_write_def spec_update_def spec_delete_def
      spec_put_def stale_def del: run_steps.simps)

text \<open>C5: \<open>write\<close> of a record without an index implements the map update: it stores the record
  under its name with the next record counter and advances the storage counter; a stale record
  counter, a reference of the wrong type and a full storage are reported, and the storage is
  then left as it was.\<close>

theorem refdb_write_correct:
  assumes "refdb_inv utf8 t data" and "rec_index r = None"
    and "packable_name utf8 (rec_name r)" and "wf_reference (rec_reference r)"
  shows "case spec_write (total_slots t data) t (refdb_map t data) r of
      Ok m \<Rightarrow> \<exists>data'. RefDB_write utf8 data r = (Ok (get_size_with_reference t), data') \<and>
        refdb_inv utf8 t data' \<and> refdb_map t data' = m \<and> length data' = length data \<and>
        stored_counter data' = next_storage_counter (stored_counter data)
    | Err e \<Rightarrow> RefDB_write utf8 data r = (Err e, data)
    | Panic \<Rightarrow> False"
  using assms by (rule write_refines)

theorem refdb_write_correct_witness:
  "\<exists>data'. RefDB_write (\<lambda>_. True) example_db example_record = (Ok 69, data') \<and>
     refdb_map TU8 data' = [[65, 66] \<mapsto> \<lparr> ent_counter = 1, ent_tag = 7, ent_reference = RU8 42 \<rparr>]"
  using refdb_write_correct [OF example_db_facts(1), of example_record]
  by (auto simp: spec_write_def example_db_facts spec_put_def spec_counter_def
      next_record_counter_def)



text \<open>\<open>update\<close> replaces the reference of an existing record and bumps its counter, keeping
  tag and name; an unknown name is reported and nothing changes.\<close>

theorem refdb_update_correct:
  assumes "refdb_inv utf8 t data" and "wf_reference reference"
    and "Reference_get_type reference = t"
  shows "case spec_update (refdb_map t data) nm reference of
      Ok m \<Rightarrow> \<exists>data'. RefDB_update utf8 data nm reference = (Ok (get_size_with_reference t), data') \<and>
        refdb_inv utf8 t data' \<and> refdb_map t data' = m \<and> length data' = length data \<and>
        stored_counter data' = next_storage_counter (stored_counter data)
    | Err e \<Rightarrow> RefDB_update utf8 data nm reference = (Err e, data)
    | Panic \<Rightarrow> False"
  using assms by (rule update_refines)

theorem refdb_update_correct_witness:
  "RefDB_update (\<lambda>_. True) example_db [65, 66] (RU8 9) =
     (Err (farm_error RefdbRecordNotFound), example_db)"
  using refdb_update_correct [OF example_db_facts(1), of "RU8 9" "[65, 66]"]
  by (simp add: spec_update_def example_db_facts)

text \<open>\<open>read\<close> returns the record of a name exactly when the represented map has an entry for
  it, with that entry's counter, tag and reference and the index of its slot.\<close>

theorem refdb_read_correct:
  assumes "refdb_inv utf8 t data"
  shows "case refdb_map t data nm of
      None \<Rightarrow> RefDB_read utf8 data nm = Ok None
    | Some e \<Rightarrow> \<exists>i < total_slots t data.
        RefDB_read utf8 data nm = Ok (Some (entry_record nm e (Some (of_nat i))))"
  using assms by (rule read_lookup)

theorem refdb_read_correct_witness:
  "RefDB_read (\<lambda>_. True) example_db [65, 66] = Ok None"
  using refdb_read_correct [OF example_db_facts(1), of "[65, 66]"] by (simp add: example_db_facts)

text \<open>\<open>read_all\<close> returns every entry of the map once, in slot order, and nothing else.\<close>

theorem refdb_read_all_correct:
  assumes "refdb_inv utf8 t data"
  shows "\<exists>rs. RefDB_read_all utf8 data = Ok rs \<and> distinct (map rec_name rs) \<and>
    length rs = unat (stored_active data) \<and>
    (\<forall>nm e. refdb_map t data nm = Some e \<longleftrightarrow> (\<exists>idx. entry_record nm e idx \<in> set rs))"
proof (intro exI conjI allI)
  note d = refdb_invD [OF assms]
  let ?A = "active_slots (total_slots t data) (slot t data)"
  let ?rs = "map (\<lambda>i. slot_record t i (slot t data i)) ?A"
  show "RefDB_read_all utf8 data = Ok ?rs" by (rule read_all_eq [OF assms])
  show "distinct (map rec_name ?rs)" "length ?rs = unat (stored_active data)"
    using d(7) by (simp_all add: slots_ok_def slot_record_def comp_def)
  fix nm e
  have "entry_record nm e idx = slot_record t i (slot t data i) \<longleftrightarrow>
      idx = Some (of_nat i) \<and> slot_name (slot t data i) = nm \<and> slot_entry t (slot t data i) = e" for i idx
    by (cases e) (auto simp: entry_record_def slot_record_def slot_entry_def)
  then show "refdb_map t data nm = Some e \<longleftrightarrow> (\<exists>idx. entry_record nm e idx \<in> set ?rs)"
    by (auto simp: refdb_map_def slots_map_Some_iff [OF d(7)])
qed

theorem refdb_read_all_correct_witness: "RefDB_read_all (\<lambda>_. True) example_db = Ok []"
  using refdb_read_all_correct [OF example_db_facts(1)] card_dom_refdb_map [OF example_db_facts(1)]
  by (auto simp: example_db_facts)

text \<open>\<open>init\<close> on a fresh zeroed account of the size computed for \<open>n\<close> records succeeds and gives
  a well-formed empty storage with room for exactly \<open>n\<close> records and the given name.\<close>

theorem refdb_init_correct:
  assumes "0 < n" and "n < 2 ^ 32" and "packable_name utf8 nm" and "utf8 []"
  shows "\<exists>data'. RefDB_init utf8 (replicate (get_storage_size_for_records t n) 0) nm t = (Ok (), data') \<and>
    refdb_inv utf8 t data' \<and> refdb_map t data' = Map.empty \<and> total_slots t data' = n \<and>
    stored_counter data' = 1 \<and> RefDB_get_name utf8 data' = Ok nm"
  using assms by (rule init_step)

theorem refdb_init_correct_witness:
  "\<exists>data'. RefDB_init (\<lambda>_. True) (replicate (get_storage_size_for_records TPubkey 3) 0) [70] TPubkey
     = (Ok (), data') \<and> total_slots TPubkey data' = 3 \<and> RefDB_get_name (\<lambda>_. True) data' = Ok [70]"
  using refdb_init_correct [of 3 "\<lambda>_. True" "[70]" TPubkey] by (auto simp: packable_name_def)

text \<open>\<open>find_next_index\<close> returns the least index whose slot is free, and the number of slots
  when there is none.\<close>

theorem refdb_find_next_index_correct:
  assumes "refdb_inv utf8 t data"
  shows "\<exists>i \<le> total_slots t data. RefDB_find_next_index data = Ok (of_nat i) \<and>
    (\<forall>j<i. RefDB_read_at utf8 data j \<noteq> Ok None) \<and>
    (i < total_slots t data \<longrightarrow> RefDB_read_at utf8 data i = Ok None)"
proof (intro exI conjI allI impI)
  let ?n = "total_slots t data"
  let ?i = "first_free ?n (slot t data)"
  show le: "?i \<le> ?n" by (rule first_free_full(1) [OF assms])
  show "RefDB_find_next_index data = Ok (of_nat ?i)" by (rule find_next_index_eq [OF assms])
  show "RefDB_read_at utf8 data ?i = Ok None" if "?i < ?n"
    using read_at_slot [OF assms that] first_free_less [OF that] by simp
  fix j assume j: "j < ?i"
  then have "slot_active (slot t data j)"
    by (auto simp: first_free_def find_None_iff find_Some_iff split: option.splits)
  then show "RefDB_read_at utf8 data j \<noteq> Ok None"
    using read_at_slot [OF assms, of j] j le by simp
qed

theorem refdb_find_next_index_correct_witness:
  "\<exists>i \<le> 2. RefDB_find_next_index example_db = Ok (of_nat i)"
  using refdb_find_next_index_correct [OF example_db_facts(1)] by (auto simp: example_db_facts)



text \<open>A record packed by \<open>to_vec\<close> is read back unchanged by \<open>unpack\<close>, also when other bytes
  follow it, for every reference type.\<close>

theorem record_round_trip:
  assumes "packable_name utf8 (rec_name r)" and "wf_reference (rec_reference r)"
  shows "\<exists>v. Record_to_vec r = Ok v \<and> length v = Record_get_size r \<and>
    Record_unpack utf8 (v @ rest) (Reference_get_type (rec_reference r)) (rec_index r) = Ok r"
proof -
  let ?t = "Reference_get_type (rec_reference r)"
  have v: "valid_record utf8 ?t (rec_index r) r" using assms by (simp add: valid_record_def)
  have n: "get_size_with_reference ?t \<le> Record_MAX_LEN"
    using ReferenceType_get_size_le [of ?t]
    by (simp add: get_size_with_reference_def Record_MAX_LEN_def Reference_MAX_LEN_def)
  from stored_record.to_vec_Ok [OF v n] stored_record.unpack_append [OF v n] show ?thesis
    by (auto simp: Record_to_vec_def Record_get_size_eq get_size_with_reference_def)
qed

theorem record_round_trip_witness:
  "\<exists>v. Record_to_vec example_record = Ok v \<and> length v = 69 \<and>
    Record_unpack (\<lambda>_. True) (v @ [1, 2]) TU8 None = Ok example_record"
  using record_round_trip [of "\<lambda>_. True" example_record "[1, 2]"] by simp

end
