(* ===== verification/Account.thy ===== *)
theory Account
  imports Farm_Math Farm_Pack
begin

text \<open>
  The account helpers of \<open>crates/solana_farm_sdk/src/program/account.rs\<close>. An account handed to a
  function that only reads it is an \<open>AccountInfo\<close> record; the functions that move lamports work
  on a ledger from keys to accounts, because two arguments may name the same account. The
  runtime's borrow flags are not modelled: no borrow is outstanding when a function is entered,
  and none of the modelled functions takes two overlapping borrows. Calls of other programs
  (\<open>invoke\<close>) go through an argument that stands for the runtime. The oracle readers and the
  conversions on \<open>f64\<close> are not modelled.
\<close>

section \<open>Accounts\<close>

record AccountInfo =
  acc_key :: pubkey
  acc_is_signer :: bool
  acc_lamports :: u64
  acc_data :: bytes
  acc_owner :: pubkey

text \<open>\<open>spl_token::state::Mint::get_packed_len()\<close> and \<open>\<dots>::Account::get_packed_len()\<close>, as the tests of
  the source file have them.\<close>

definition Mint_LEN :: usize where "Mint_LEN = 82"
definition Account_LEN :: usize where "Account_LEN = 165"

section \<open>Fields of token accounts\<close>

definition get_token_supply :: "AccountInfo \<Rightarrow> u64 result" where
  "get_token_supply token_mint =
     bind (check_data_len (acc_data token_mint) Mint_LEN) (\<lambda>_.
     bind (array_ref (acc_data token_mint) 36 8) (\<lambda>supply. Ok (from_le_bytes supply)))"

definition get_token_decimals :: "AccountInfo \<Rightarrow> u8 result" where
  "get_token_decimals token_mint =
     bind (check_data_len (acc_data token_mint) Mint_LEN) (\<lambda>_.
     bind (array_ref (acc_data token_mint) 44 1) (\<lambda>decimals. Ok (decimals ! 0)))"

definition get_token_balance :: "AccountInfo \<Rightarrow> u64 result" where
  "get_token_balance token_account =
     bind (check_data_len (acc_data token_account) Account_LEN) (\<lambda>_.
     bind (array_ref (acc_data token_account) 64 8) (\<lambda>amount. Ok (from_le_bytes amount)))"

definition get_token_account_owner :: "AccountInfo \<Rightarrow> pubkey result" where
  "get_token_account_owner token_account =
     bind (check_data_len (acc_data token_account) Account_LEN) (\<lambda>_.
       array_ref (acc_data token_account) 32 32)"

text \<open>The id of the token program is third-party; \<open>&&\<close> evaluates its second operand only when
  the first one holds.\<close>

definition check_token_account_owner :: "pubkey \<Rightarrow> AccountInfo \<Rightarrow> pubkey \<Rightarrow> bool result" where
  "check_token_account_owner spl_token_id token_account expected_owner =
     (if acc_owner token_account = spl_token_id
      then bind (get_token_account_owner token_account) (\<lambda>owner. Ok (owner = expected_owner))
      else Ok False)"

definition check_token_account_owner_or_zero ::
  "pubkey \<Rightarrow> pubkey \<Rightarrow> AccountInfo \<Rightarrow> pubkey \<Rightarrow> bool result" where
  "check_token_account_owner_or_zero zero_id spl_token_id token_account expected_owner =
     (if acc_key token_account = zero_id then Ok True
      else if acc_owner token_account = spl_token_id
      then bind (get_token_account_owner token_account) (\<lambda>owner. Ok (owner = expected_owner))
      else Ok False)"

definition get_token_account_mint :: "AccountInfo \<Rightarrow> pubkey result" where
  "get_token_account_mint token_account =
     bind (check_data_len (acc_data token_account) Account_LEN) (\<lambda>_.
       array_ref (acc_data token_account) 0 32)"

definition get_mint_authority :: "AccountInfo \<Rightarrow> pubkey option result" where
  "get_mint_authority token_mint =
     bind (check_data_len (acc_data token_mint) Mint_LEN) (\<lambda>_.
     bind (array_ref (acc_data token_mint) 0 36) (\<lambda>data.
       (let tag = slice 0 4 data; authority = slice 4 32 data in
        if tag = [0, 0, 0, 0] then Ok None
        else if tag = [1, 0, 0, 0] then Ok (Some authority)
        else Err InvalidAccountData)))"

definition check_mint_authority :: "pubkey \<Rightarrow> AccountInfo \<Rightarrow> pubkey option \<Rightarrow> bool result" where
  "check_mint_authority spl_token_id mint_account expected_authority =
     (if acc_owner mint_account = spl_token_id
      then bind (get_mint_authority mint_account) (\<lambda>authority. Ok (authority = expected_authority))
      else Ok False)"

definition is_empty :: "AccountInfo \<Rightarrow> bool result" where
  "is_empty account = Ok (acc_data account = [] \<or> acc_lamports account = 0)"

definition account_exists :: "AccountInfo \<Rightarrow> bool result" where
  "account_exists account = Ok (acc_lamports account > 0)"

text \<open>\<open>account::unpack::<T>\<close>: every failure of \<open>T::unpack\<close> becomes \<open>InvalidAccountData\<close>.\<close>

definition account_unpack :: "(bytes \<Rightarrow> 'a result) \<Rightarrow> AccountInfo \<Rightarrow> 'a result" where
  "account_unpack unpack account =
     (case unpack (acc_data account) of
        Ok object \<Rightarrow> Ok object
      | Err _ \<Rightarrow> Err InvalidAccountData
      | Panic \<Rightarrow> Panic)"

section \<open>Changes of a token balance\<close>

definition get_balance_increase :: "AccountInfo \<Rightarrow> u64 \<Rightarrow> u64 result" where
  "get_balance_increase account previous_balance =
     bind (get_token_balance account) (\<lambda>balance.
       if previous_balance \<le> balance then Ok (balance - previous_balance)
       else Err (farm_error UnexpectedBalanceDecrease))"

definition get_balance_decrease :: "AccountInfo \<Rightarrow> u64 \<Rightarrow> u64 result" where
  "get_balance_decrease account previous_balance =
     bind (get_token_balance account) (\<lambda>balance.
       if balance \<le> previous_balance then Ok (previous_balance - balance)
       else Err (farm_error UnexpectedBalanceIncrease))"

definition check_tokens_spent :: "AccountInfo \<Rightarrow> u64 \<Rightarrow> u64 \<Rightarrow> u64 result" where
  "check_tokens_spent account previous_balance max_amount_spent =
     bind (get_balance_decrease account previous_balance) (\<lambda>tokens_spent.
       if tokens_spent > max_amount_spent then Err (farm_error ProgramOverspent)
       else Ok tokens_spent)"

definition check_tokens_received :: "AccountInfo \<Rightarrow> u64 \<Rightarrow> u64 \<Rightarrow> u64 result" where
  "check_tokens_received account previous_balance min_amount_received =
     bind (get_balance_increase account previous_balance) (\<lambda>tokens_received.
       if tokens_received < min_amount_received then Err (farm_error ProgramInsufficientTransfer)
       else Ok tokens_received)"

definition to_amount_with_new_decimals ::
  "(u64 \<Rightarrow> nat \<Rightarrow> u64 option) \<Rightarrow> u64 \<Rightarrow> u8 \<Rightarrow> u8 \<Rightarrow> u64 result" where
  "to_amount_with_new_decimals num_checked_pow amount original_decimals new_decimals =
     (if new_decimals > original_decimals then
        (let exponent = new_decimals - original_decimals in
         bind (checked_pow num_checked_pow 10 (unat exponent)) (\<lambda>p. checked_mul amount p))
      else if new_decimals < original_decimals then
        (let exponent = original_decimals - new_decimals in
         bind (checked_pow num_checked_pow 10 (unat exponent)) (\<lambda>p. checked_div amount p))
      else Ok amount)"

section \<open>Calls of other programs\<close>

text \<open>
  The instructions that third-party constructors build for the calls of \<open>program/account.rs\<close> and
  \<open>program/pda.rs\<close>, by name and arguments. The constructors of \<open>spl_token\<close> fail only for a wrong program id, and the source
  passes \<open>spl_token::id()\<close>.
\<close>

datatype Cpi =
    SplInitializeAccount pubkey pubkey pubkey
  | SplCloseAccount pubkey pubkey pubkey
  | SplTransfer pubkey pubkey pubkey u64
  | SplBurn pubkey pubkey pubkey u64
  | SplApprove pubkey pubkey pubkey u64
  | SplRevoke pubkey pubkey
  | SystemTransfer pubkey pubkey u64
  | SystemCreateAccountWithSeed pubkey pubkey pubkey string u64 u64 pubkey
  | SplInitializeMint pubkey pubkey "pubkey option" u8
  | SplMintTo pubkey pubkey pubkey u64
  | AtaCreate pubkey pubkey pubkey
  | SystemCreateAccount pubkey pubkey u64 u64 pubkey
  | SystemAllocate pubkey u64
  | SystemAssign pubkey pubkey

type_synonym ledger = "pubkey \<Rightarrow> AccountInfo"
type_synonym cpi_invoke = "Cpi \<Rightarrow> pubkey list \<Rightarrow> ledger \<Rightarrow> (unit, ledger) effect"

definition init_system_account ::
  "cpi_invoke \<Rightarrow> (pubkey \<Rightarrow> string \<Rightarrow> pubkey \<Rightarrow> pubkey result) \<Rightarrow> (usize \<Rightarrow> u64) \<Rightarrow> pubkey \<Rightarrow> pubkey
     \<Rightarrow> pubkey \<Rightarrow> string \<Rightarrow> usize \<Rightarrow> ledger \<Rightarrow> (unit, ledger) effect" where
  "init_system_account invoke create_with_seed minimum_balance funding target owner_key seed data_size s =
     (if acc_lamports (s target) > 0 then
        (if acc_owner (s target) \<noteq> owner_key then (Err IllegalOwner, s)
         else if length (acc_data (s target)) \<noteq> data_size then (Err InvalidAccountData, s)
         else (Ok (), s))
      else
        seq (pure_in s (create_with_seed funding seed owner_key)) (\<lambda>derived_account s.
          if target \<noteq> derived_account then (Err InvalidSeeds, s)
          else invoke (SystemCreateAccountWithSeed funding target funding seed
                 (minimum_balance data_size) (of_nat data_size) owner_key) [funding, target] s))"

definition init_token_account ::
  "cpi_invoke \<Rightarrow> (pubkey \<Rightarrow> string \<Rightarrow> pubkey \<Rightarrow> pubkey result) \<Rightarrow> (usize \<Rightarrow> u64) \<Rightarrow> pubkey \<Rightarrow> pubkey
     \<Rightarrow> pubkey \<Rightarrow> pubkey \<Rightarrow> pubkey \<Rightarrow> pubkey \<Rightarrow> string \<Rightarrow> ledger \<Rightarrow> (unit, ledger) effect" where
  "init_token_account invoke create_with_seed minimum_balance spl_token_id funding target mint owner
     rent_program seed s =
     (if acc_lamports (s target) > 0 then
        seq (pure_in s (check_token_account_owner spl_token_id (s target) owner)) (\<lambda>owned s.
          if \<not> owned then (Err IllegalOwner, s)
          else if length (acc_data (s target)) \<noteq> Account_LEN then (Err InvalidAccountData, s)
          else seq (pure_in s (get_token_account_mint (s target))) (\<lambda>m s.
            if mint \<noteq> m then (Err InvalidAccountData, s) else (Ok (), s)))
      else
        seq (init_system_account invoke create_with_seed minimum_balance funding target spl_token_id
               seed Account_LEN s) (\<lambda>_ s.
          invoke (SplInitializeAccount target mint owner) [target, mint, owner, rent_program] s))"

definition close_token_account ::
  "cpi_invoke \<Rightarrow> pubkey \<Rightarrow> pubkey \<Rightarrow> pubkey \<Rightarrow> ledger \<Rightarrow> (unit, ledger) effect" where
  "close_token_account invoke receiving target authority s =
     (if \<not> acc_lamports (s target) > 0 then (Ok (), s)
      else invoke (SplCloseAccount target receiving authority) [target, receiving, authority] s)"

definition transfer_sol_from_owned ::
  "pubkey \<Rightarrow> pubkey \<Rightarrow> u64 \<Rightarrow> ledger \<Rightarrow> (unit, ledger) effect" where
  "transfer_sol_from_owned source dest amount s =
     (if \<not> unat (acc_lamports (s dest)) + unat amount < 2 ^ 64 then (Err InsufficientFunds, s)
      else
        (let s1 = s(dest := (s dest)\<lparr>acc_lamports := acc_lamports (s dest) + amount\<rparr>);
             source_balance = acc_lamports (s1 source)
         in if source_balance < amount then (Err InsufficientFunds, s1)
            else (Ok (), s1(source := (s1 source)\<lparr>acc_lamports := source_balance - amount\<rparr>))))"

definition transfer_sol ::
  "cpi_invoke \<Rightarrow> pubkey \<Rightarrow> pubkey \<Rightarrow> u64 \<Rightarrow> ledger \<Rightarrow> (unit, ledger) effect" where
  "transfer_sol invoke source dest amount s =
     (if acc_lamports (s source) < amount then (Err InsufficientFunds, s)
      else invoke (SystemTransfer source dest amount) [source, dest] s)"

definition transfer_tokens ::
  "cpi_invoke \<Rightarrow> pubkey \<Rightarrow> pubkey \<Rightarrow> pubkey \<Rightarrow> u64 \<Rightarrow> ledger \<Rightarrow> (unit, ledger) effect" where
  "transfer_tokens invoke source dest authority amount s =
     invoke (SplTransfer source dest authority amount) [source, dest, authority] s"

definition burn_tokens ::
  "cpi_invoke \<Rightarrow> pubkey \<Rightarrow> pubkey \<Rightarrow> pubkey \<Rightarrow> u64 \<Rightarrow> ledger \<Rightarrow> (unit, ledger) effect" where
  "burn_tokens invoke from_token mint authority amount s =
     invoke (SplBurn from_token mint authority amount) [from_token, mint, authority] s"

definition approve_delegate ::
  "cpi_invoke \<Rightarrow> pubkey \<Rightarrow> pubkey \<Rightarrow> pubkey \<Rightarrow> u64 \<Rightarrow> ledger \<Rightarrow> (unit, ledger) effect" where
  "approve_delegate invoke source delegate authority amount s =
     invoke (SplApprove source delegate authority amount) [source, delegate, authority] s"

definition revoke_delegate ::
  "cpi_invoke \<Rightarrow> pubkey \<Rightarrow> pubkey \<Rightarrow> ledger \<Rightarrow> (unit, ledger) effect" where
  "revoke_delegate invoke source authority s =
     invoke (SplRevoke source authority) [source, authority] s"

definition close_system_account ::
  "pubkey \<Rightarrow> pubkey \<Rightarrow> pubkey \<Rightarrow> ledger \<Rightarrow> (unit, ledger) effect" where
  "close_system_account receiving target authority s =
     (if acc_owner (s target) \<noteq> authority then (Err IllegalOwner, s)
      else
        (let cur_balance = acc_lamports (s target) in
         seq (transfer_sol_from_owned target receiving cur_balance s) (\<lambda>_ s.
           (let data = acc_data (s target);
                data' = (if length data > 2000 then splice 0 (replicate 2000 0) data
                         else replicate (length data) 0)
            in (Ok (), s(target := (s target)\<lparr>acc_data := data'\<rparr>))))))"

section \<open>Lemmas\<close>

lemma get_token_balance_iff [result_simps]:
  "get_token_balance a = Ok b \<longleftrightarrow>
     Account_LEN \<le> length (acc_data a) \<and> b = from_le_bytes (slice 64 8 (acc_data a))"
  by (auto simp: get_token_balance_def result_simps Account_LEN_def)

lemma get_token_supply_iff [result_simps]:
  "get_token_supply a = Ok b \<longleftrightarrow>
     Mint_LEN \<le> length (acc_data a) \<and> b = from_le_bytes (slice 36 8 (acc_data a))"
  by (auto simp: get_token_supply_def result_simps Mint_LEN_def)

lemma token_getters_no_panic [simp]:
  "get_token_balance a \<noteq> Panic" "get_token_supply a \<noteq> Panic" "get_token_decimals a \<noteq> Panic"
  "get_token_account_owner a \<noteq> Panic" "get_token_account_mint a \<noteq> Panic"
  "get_mint_authority a \<noteq> Panic"
  unfolding get_token_balance_def get_token_supply_def get_token_decimals_def
    get_token_account_owner_def get_token_account_mint_def get_mint_authority_def Let_def
  by (intro no_panic;
      simp add: result_simps Account_LEN_def Mint_LEN_def check_data_len_def array_ref_def
        split: if_splits)+

lemma unat_diff_le: "(a :: 'a::len word) \<le> b \<Longrightarrow> unat (b - a) = unat b - unat a"
  by (rule unat_sub)

lemma check_tokens_spent_iff:
  "check_tokens_spent a prev limit = Ok n \<longleftrightarrow>
     (\<exists>b. get_token_balance a = Ok b \<and> b \<le> prev \<and> n = prev - b \<and> n \<le> limit)"
  by (cases "get_token_balance a")
    (auto simp: check_tokens_spent_def get_balance_decrease_def)

lemma check_tokens_received_iff:
  "check_tokens_received a prev least = Ok n \<longleftrightarrow>
     (\<exists>b. get_token_balance a = Ok b \<and> prev \<le> b \<and> n = b - prev \<and> least \<le> n)"
  by (cases "get_token_balance a")
    (auto simp: check_tokens_received_def get_balance_increase_def)

text \<open>Powers of ten under the law of \<open>num_traits\<close>.\<close>

lemma unat_power:
  "unat (b :: 'a::len word) ^ e < 2 ^ LENGTH('a) \<Longrightarrow> unat (b ^ e) = unat b ^ e"
proof (induction e)
  case (Suc e)
  have "unat b ^ e < 2 ^ LENGTH('a)"
  proof (cases "unat b = 0")
    case True
    then show ?thesis using one_less_power [of "2 :: nat" "LENGTH('a)"] by (cases e) simp_all
  next
    case False
    then have "unat b ^ e \<le> unat b * unat b ^ e" by simp
    also have "\<dots> < 2 ^ LENGTH('a)" using Suc.prems by simp
    finally show ?thesis .
  qed
  then have "unat (b ^ e) = unat b ^ e" by (rule Suc.IH)
  then show ?case using Suc.prems by (simp add: unat_word_ariths(2))
qed simp

lemma checked_pow_10:
  assumes "num_checked_pow_law p"
  shows "checked_pow p (10 :: u64) e =
    (if 10 ^ e < (2 :: nat) ^ 64 then Ok (10 ^ e) else Err (farm_error MathOverflow))"
  using assms by (simp add: checked_pow_def num_checked_pow_law_def)

lemma unat_pow_10: "10 ^ e < (2 :: nat) ^ 64 \<Longrightarrow> unat ((10 :: u64) ^ e) = 10 ^ e"
  using unat_power [of "10 :: u64" e] by simp

lemma to_amount_up:
  assumes law: "num_checked_pow_law p" and d: "original < new"
  shows "to_amount_with_new_decimals p amount original new = Ok r \<longleftrightarrow>
    (10 :: nat) ^ (unat new - unat original) < 2 ^ 64 \<and>
    unat amount * 10 ^ (unat new - unat original) < 2 ^ 64 \<and>
    unat r = unat amount * 10 ^ (unat new - unat original)"
proof -
  have e: "unat (new - original) = unat new - unat original" using d by (simp add: unat_diff_le)
  show ?thesis using d
    by (simp add: to_amount_with_new_decimals_def Let_def checked_pow_10 [OF law] e
        checked_mul_Ok_iff unat_pow_10)
qed

lemma to_amount_down:
  assumes law: "num_checked_pow_law p" and d: "new < original"
  shows "to_amount_with_new_decimals p amount original new = Ok r \<longleftrightarrow>
    (10 :: nat) ^ (unat original - unat new) < 2 ^ 64 \<and>
    unat r = unat amount div 10 ^ (unat original - unat new)"
proof -
  have e: "unat (original - new) = unat original - unat new" using d by (simp add: unat_diff_le)
  have "(10 :: u64) ^ k \<noteq> 0" if "10 ^ k < (2 :: nat) ^ 64" for k
    using unat_pow_10 [OF that] by (metis power_not_zero unat_eq_zero zero_neq_numeral)
  then show ?thesis using d
    by (auto simp: to_amount_with_new_decimals_def Let_def checked_pow_10 [OF law] e
        checked_div_Ok_iff unat_pow_10)
qed

text \<open>Lamports.\<close>

lemma transfer_Ok:
  assumes "transfer_sol_from_owned source dest amount s = (Ok (), s')"
  shows "unat (acc_lamports (s' dest)) + unat (acc_lamports (s' source)) =
      unat (acc_lamports (s dest)) + unat (acc_lamports (s source))"
    and "source \<noteq> dest \<Longrightarrow> unat (acc_lamports (s' dest)) = unat (acc_lamports (s dest)) + unat amount"
    and "k \<notin> {source, dest} \<Longrightarrow> s' k = s k"
    and "acc_data (s' k) = acc_data (s k)" and "acc_owner (s' k) = acc_owner (s k)"
proof -
  let ?d = "acc_lamports (s dest)"
  have ov: "unat ?d + unat amount < 2 ^ 64"
    using assms by (simp add: transfer_sol_from_owned_def Let_def split: if_splits)
  then have d: "unat (?d + amount) = unat ?d + unat amount" by (simp add: unat_word_ariths(1))
  have src: "source \<noteq> dest \<Longrightarrow> amount \<le> acc_lamports (s source)"
    using assms by (auto simp: transfer_sol_from_owned_def Let_def split: if_splits)
  then have u: "source \<noteq> dest \<Longrightarrow> unat (acc_lamports (s source) - amount) =
      unat (acc_lamports (s source)) - unat amount" "source \<noteq> dest \<Longrightarrow> unat amount \<le> unat (acc_lamports (s source))"
    by (simp_all add: unat_diff_le word_le_nat_alt)
  show "unat (acc_lamports (s' dest)) + unat (acc_lamports (s' source)) =
      unat (acc_lamports (s dest)) + unat (acc_lamports (s source))"
    and "source \<noteq> dest \<Longrightarrow> unat (acc_lamports (s' dest)) = unat (acc_lamports (s dest)) + unat amount"
    and "k \<notin> {source, dest} \<Longrightarrow> s' k = s k"
    and "acc_data (s' k) = acc_data (s k)" and "acc_owner (s' k) = acc_owner (s k)"
    using assms ov d u
    by (cases "source = dest"; auto simp: transfer_sol_from_owned_def Let_def split: if_splits)+
qed

section \<open>Properties\<close>

definition example_account :: AccountInfo where
  "example_account = \<lparr> acc_key = [1], acc_is_signer = False, acc_lamports = 500,
     acc_data = replicate 64 0 @ to_le_bytes (70 :: u64) @ replicate 93 0, acc_owner = [9] \<rparr>"

definition example_ledger :: ledger where
  "example_ledger k = (if k = [1] then example_account
     else example_account\<lparr> acc_key := k, acc_lamports := 20 \<rparr>)"

lemma example_balance: "get_token_balance example_account = Ok 70"
  by (simp add: get_token_balance_iff example_account_def Account_LEN_def byte_simps)

text \<open>A successful transfer of lamports conserves their sum, credits exactly the amount to a
  different destination, also when both arguments name the same account, and changes no other
  account, no data and no owner.\<close>

theorem transfer_sol_from_owned_conserves:
  assumes "transfer_sol_from_owned source dest amount s = (Ok (), s')"
  shows "unat (acc_lamports (s' dest)) + unat (acc_lamports (s' source)) =
      unat (acc_lamports (s dest)) + unat (acc_lamports (s source)) \<and>
    (source \<noteq> dest \<longrightarrow> unat (acc_lamports (s' dest)) = unat (acc_lamports (s dest)) + unat amount) \<and>
    (k \<notin> {source, dest} \<longrightarrow> s' k = s k) \<and>
    acc_data (s' k) = acc_data (s k) \<and> acc_owner (s' k) = acc_owner (s k)"
  using transfer_Ok [OF assms] by blast

theorem transfer_sol_from_owned_conserves_witness:
  "\<exists>s'. transfer_sol_from_owned [1] [2] 100 example_ledger = (Ok (), s') \<and>
     unat (acc_lamports (s' [2])) = 120"
proof -
  have "\<exists>s'. transfer_sol_from_owned [1] [2] 100 example_ledger = (Ok (), s')"
    by (simp add: transfer_sol_from_owned_def example_ledger_def example_account_def Let_def)
  then obtain s' where "transfer_sol_from_owned [1] [2] 100 example_ledger = (Ok (), s')" by blast
  from this transfer_sol_from_owned_conserves [OF this, of "[3]"] show ?thesis
    by (auto simp: example_ledger_def example_account_def)
qed

text \<open>Closing an account owned by the given authority into another account, when it does not
  overflow the receiver, moves its whole balance, leaves it with no lamports, and overwrites the
  first 2000 bytes of its data by zeros.\<close>

theorem close_system_account_correct:
  assumes "receiving \<noteq> target" and "acc_owner (s target) = authority"
    and "unat (acc_lamports (s receiving)) + unat (acc_lamports (s target)) < 2 ^ 64"
  shows "\<exists>s'. close_system_account receiving target authority s = (Ok (), s') \<and>
    acc_lamports (s' target) = 0 \<and>
    unat (acc_lamports (s' receiving)) =
      unat (acc_lamports (s receiving)) + unat (acc_lamports (s target)) \<and>
    length (acc_data (s' target)) = length (acc_data (s target)) \<and>
    (\<forall>i < min 2000 (length (acc_data (s target))). acc_data (s' target) ! i = 0) \<and>
    acc_data (s' receiving) = acc_data (s receiving)"
proof -
  let ?t = "acc_lamports (s target)" and ?d = "acc_data (s target)"
  have u: "unat (acc_lamports (s receiving) + ?t) = unat (acc_lamports (s receiving)) + unat ?t"
    using assms(3) by (simp add: unat_word_ariths(1))
  have z: "splice 0 (replicate 2000 0) ?d ! i = 0" if "i < 2000" "2000 < length ?d" for i
    using that by (simp add: splice_nth)
  show ?thesis using assms u z
    by (simp add: close_system_account_def transfer_sol_from_owned_def Let_def)
qed

theorem close_system_account_correct_witness:
  "\<exists>s'. close_system_account [2] [1] [9] example_ledger = (Ok (), s') \<and>
     acc_lamports (s' [1]) = 0 \<and> unat (acc_lamports (s' [2])) = 520"
  using close_system_account_correct [of "[2]" "[1]" example_ledger "[9]"]
  by (auto simp: example_ledger_def example_account_def)

text \<open>The two guards around a call of another program accept exactly the balance changes they
  are meant to: at most the allowed amount spent, at least the required amount received.\<close>

theorem balance_guards_exact:
  "(check_tokens_spent a prev limit = Ok n \<longleftrightarrow>
     (\<exists>b. get_token_balance a = Ok b \<and> unat b \<le> unat prev \<and> unat n = unat prev - unat b \<and>
       unat n \<le> unat limit)) \<and>
   (check_tokens_received a prev least = Ok m \<longleftrightarrow>
     (\<exists>b. get_token_balance a = Ok b \<and> unat prev \<le> unat b \<and> unat m = unat b - unat prev \<and>
       unat least \<le> unat m))"
  by (auto simp: check_tokens_spent_iff check_tokens_received_iff word_le_nat_alt
      word_unat_eq_iff [of n] word_unat_eq_iff [of m] unat_diff_le)

text \<open>Converting an amount to more decimals and back returns the amount, whenever the first
  conversion does not overflow.\<close>

theorem to_amount_with_new_decimals_round_trip:
  assumes "num_checked_pow_law p" and "original < new"
    and "to_amount_with_new_decimals p amount original new = Ok r"
  shows "to_amount_with_new_decimals p r new original = Ok amount"
  using assms to_amount_up [OF assms(1,2)] by (auto simp: to_amount_down [OF assms(1,2)])

definition example_pow :: "u64 \<Rightarrow> nat \<Rightarrow> u64 option" where
  "example_pow b e = (if unat b ^ e < 2 ^ 64 then Some (b ^ e) else None)"

theorem to_amount_with_new_decimals_round_trip_witness:
  "to_amount_with_new_decimals example_pow 7000 9 6 = Ok 7"
proof -
  have law: "num_checked_pow_law example_pow" by (simp add: num_checked_pow_law_def example_pow_def)
  have "to_amount_with_new_decimals example_pow 7 6 9 = Ok 7000"
    by (simp add: to_amount_up [OF law])
  then show ?thesis using to_amount_with_new_decimals_round_trip [OF law, of 6 9 7 7000] by simp
qed

end
