(* ===== verification/Multisig.thy ===== *)
theory Multisig
  imports Account
begin

text \<open>
  The multisignature account of \<open>crates/solana_farm_sdk/src/program/multisig.rs\<close>: its layout
  (\<open>pack\<close>, \<open>unpack\<close>, \<open>to_vec\<close>), the initialisation with a set of signers, the withdrawal of a
  signature and the membership test. The ids \<open>zero::id()\<close> and \<open>main_router_admin::id()\<close> are
  written by the build script and are arguments. A panic aborts the transaction, so the buffer
  contents behind a panic are not tracked. The functions that sign are commented out in the
  source.
\<close>

section \<open>The structure and its layout\<close>

record Multisig =
  ms_num_signers :: u8
  ms_num_signed :: u8
  ms_min_signatures :: u8
  ms_instruction_accounts_len :: u8
  ms_instruction_data_len :: u16
  ms_instruction_hash :: u64
  ms_signers :: "pubkey list"
  ms_signed :: "bool list"

definition MAX_SIGNERS :: usize where "MAX_SIGNERS = 6"
definition Multisig_LEN :: usize where "Multisig_LEN = 14 + MAX_SIGNERS * 33"

definition Multisig_get_size :: "Multisig \<Rightarrow> usize" where
  "Multisig_get_size self = Multisig_LEN"

text \<open>\<open>for idx in 0..self.num_signers\<close>: both windows have \<open>MAX_SIGNERS\<close> entries and are indexed.\<close>

fun pack_signers_loop ::
  "pubkey list \<Rightarrow> bool list \<Rightarrow> nat \<Rightarrow> usize \<Rightarrow> bytes \<Rightarrow> bytes \<Rightarrow> (bytes \<times> bytes) result" where
  "pack_signers_loop signers flags 0 idx signers_out signed_out = Ok (signers_out, signed_out)"
| "pack_signers_loop signers flags (Suc n) idx signers_out signed_out =
     (if idx < length signers \<and> idx < length flags \<and> idx * 32 + 32 \<le> length signers_out \<and>
         idx < length signed_out
      then pack_signers_loop signers flags n (idx + 1)
             (splice (idx * 32) (signers ! idx) signers_out)
             (signed_out[idx := (if flags ! idx then 1 else 0)])
      else Panic)"

definition Multisig_pack :: "Multisig \<Rightarrow> bytes \<Rightarrow> (usize, bytes) effect" where
  "Multisig_pack self output =
     seq (pure_in output (check_data_len output Multisig_LEN)) (\<lambda>_ out.
       (let out1 = splice 0 [ms_num_signers self] out;
            out2 = splice 1 [ms_num_signed self] out1;
            out3 = splice 2 [ms_min_signatures self] out2;
            out4 = splice 3 [ms_instruction_accounts_len self] out3;
            out5 = splice 4 (to_le_bytes (ms_instruction_data_len self)) out4;
            out6 = splice 6 (to_le_bytes (ms_instruction_hash self)) out5
        in (case pack_signers_loop (ms_signers self) (ms_signed self) (unat (ms_num_signers self)) 0
                  (slice 14 (32 * MAX_SIGNERS) out6) (slice (14 + 32 * MAX_SIGNERS) MAX_SIGNERS out6) of
              Ok (signers_out, signed_out) \<Rightarrow>
                (let from_signers = unat (ms_num_signers self * 32);
                     from_signed = unat (ms_num_signers self);
                     signers_out' = take from_signers signers_out
                       @ replicate (length signers_out - from_signers) 0;
                     signed_out' = take from_signed signed_out
                       @ replicate (length signed_out - from_signed) 0
                 in (Ok Multisig_LEN,
                     splice (14 + 32 * MAX_SIGNERS) signed_out' (splice 14 signers_out' out6)))
            | Err e \<Rightarrow> (Err e, out6)
            | Panic \<Rightarrow> (Panic, out6))))"

definition Multisig_to_vec :: "Multisig \<Rightarrow> bytes result" where
  "Multisig_to_vec = packed_to_vec Multisig_LEN Multisig_pack"

fun unpack_signers_loop ::
  "bytes \<Rightarrow> bytes \<Rightarrow> nat \<Rightarrow> usize \<Rightarrow> pubkey list \<Rightarrow> bool list \<Rightarrow> (pubkey list \<times> bool list) result" where
  "unpack_signers_loop signers_ref signed_ref 0 idx signers flags = Ok (signers, flags)"
| "unpack_signers_loop signers_ref signed_ref (Suc n) idx signers flags =
     bind (if signed_ref ! idx = 0 then Ok False
           else if signed_ref ! idx = 1 then Ok True
           else Err InvalidAccountData) (\<lambda>b.
       unpack_signers_loop signers_ref signed_ref n (idx + 1)
         (signers[idx := slice (idx * 32) 32 signers_ref]) (flags[idx := b]))"

text \<open>The second loop clears the entries behind \<open>num_signers\<close>.\<close>

definition clear_signers ::
  "pubkey \<Rightarrow> usize \<Rightarrow> pubkey list \<times> bool list \<Rightarrow> pubkey list \<times> bool list" where
  "clear_signers zero_id n = (\<lambda>(signers, flags).
     (take n signers @ replicate (MAX_SIGNERS - n) zero_id,
      take n flags @ replicate (MAX_SIGNERS - n) False))"

definition Multisig_unpack :: "pubkey \<Rightarrow> bytes \<Rightarrow> Multisig result" where
  "Multisig_unpack zero_id input =
     bind (check_data_len input Multisig_LEN) (\<lambda>_.
       (let num_signers = input ! 0; num_signed = input ! 1; min_signatures = input ! 2;
            signers_ref = slice 14 (32 * MAX_SIGNERS) input;
            signed_ref = slice (14 + 32 * MAX_SIGNERS) MAX_SIGNERS input
        in if unat num_signers > MAX_SIGNERS \<or> num_signed > num_signers \<or>
              min_signatures > num_signers \<or> (num_signers > 0 \<and> min_signatures = 0)
           then Err InvalidAccountData
           else
             bind (unpack_signers_loop signers_ref signed_ref (unat num_signers) 0
                     (replicate MAX_SIGNERS (replicate 32 0)) (replicate MAX_SIGNERS False)) (\<lambda>r.
               (case clear_signers zero_id (unat num_signers) r of (signers, flags) \<Rightarrow>
                  Ok \<lparr> ms_num_signers = num_signers, ms_num_signed = num_signed,
                       ms_min_signatures = min_signatures,
                       ms_instruction_accounts_len = input ! 3,
                       ms_instruction_data_len = from_le_bytes (slice 4 2 input),
                       ms_instruction_hash = from_le_bytes (slice 6 8 input),
                       ms_signers = signers, ms_signed = flags \<rparr>))))"

definition Multisig_default :: "pubkey \<Rightarrow> pubkey \<Rightarrow> Multisig" where
  "Multisig_default zero_id main_router_admin =
     \<lparr> ms_num_signers = 1, ms_num_signed = 0, ms_min_signatures = 1,
       ms_instruction_accounts_len = 0, ms_instruction_data_len = 0, ms_instruction_hash = 0,
       ms_signers = [main_router_admin, zero_id, zero_id, zero_id, zero_id, zero_id],
       ms_signed = [False, False, False, False, False, False] \<rparr>"

section \<open>Operations\<close>

text \<open>\<open>Pubkey::default()\<close> is the array of zeros.\<close>

fun set_signers_loop :: "pubkey list \<Rightarrow> usize \<Rightarrow> pubkey list \<Rightarrow> pubkey list result" where
  "set_signers_loop [] idx signers = Ok signers"
| "set_signers_loop (k # ks) idx signers =
     (if k \<in> set signers then Err (farm_error IncorrectAccountAddress)
      else set_signers_loop ks (idx + 1) (signers[idx := k]))"

definition set_signers ::
  "AccountInfo \<Rightarrow> pubkey list \<Rightarrow> u8 \<Rightarrow> (usize, AccountInfo) effect" where
  "set_signers multisig_account admin_signers min_signatures =
     (if admin_signers = [] \<or> min_signatures = 0 then (Err MissingRequiredSignature, multisig_account)
      else if unat min_signatures > length admin_signers then (Err InvalidArgument, multisig_account)
      else if length admin_signers > MAX_SIGNERS then (Err InvalidArgument, multisig_account)
      else
        seq (pure_in multisig_account
               (set_signers_loop admin_signers 0 (replicate MAX_SIGNERS (replicate 32 0))))
          (\<lambda>signers acc.
            (case Multisig_pack
                    \<lparr> ms_num_signers = of_nat (length admin_signers), ms_num_signed = 0,
                      ms_min_signatures = min_signatures, ms_instruction_accounts_len = 0,
                      ms_instruction_data_len = 0, ms_instruction_hash = 0,
                      ms_signers = signers, ms_signed = replicate MAX_SIGNERS False \<rparr>
                    (acc_data acc) of
               (r, data) \<Rightarrow> (r, acc\<lparr>acc_data := data\<rparr>))))"

fun get_signer_index_loop :: "pubkey list \<Rightarrow> pubkey \<Rightarrow> nat \<Rightarrow> usize \<Rightarrow> usize result" where
  "get_signer_index_loop signers signer 0 i = Err (farm_error AccountNotAuthorized)"
| "get_signer_index_loop signers signer (Suc n) i =
     (if signers ! i = signer then Ok i else get_signer_index_loop signers signer n (i + 1))"

definition get_signer_index :: "Multisig \<Rightarrow> pubkey \<Rightarrow> usize result" where
  "get_signer_index multisig signer = get_signer_index_loop (ms_signers multisig) signer MAX_SIGNERS 0"

definition unsign_multisig ::
  "pubkey \<Rightarrow> AccountInfo \<Rightarrow> AccountInfo \<Rightarrow> (unit, AccountInfo) effect" where
  "unsign_multisig zero_id multisig_account signer_account =
     (if \<not> acc_is_signer signer_account then (Err MissingRequiredSignature, multisig_account)
      else
        seq (pure_in multisig_account (account_exists multisig_account)) (\<lambda>found acc.
        if \<not> found then (Ok (), acc)
        else
          seq (pure_in acc (account_unpack (Multisig_unpack zero_id) acc)) (\<lambda>multisig acc.
          if ms_num_signers multisig \<le> 1 \<or> ms_num_signed multisig = 0 then (Ok (), acc)
          else
            (case get_signer_index multisig (acc_key signer_account) of
               Ok signer_idx \<Rightarrow>
                 if \<not> ms_signed multisig ! signer_idx then (Ok (), acc)
                 else
                   (case Multisig_pack
                           (multisig\<lparr> ms_num_signed := ms_num_signed multisig - 1,
                              ms_signed := (ms_signed multisig)[signer_idx := False] \<rparr>)
                           (acc_data acc) of
                      (r, data) \<Rightarrow>
                        seq (r, acc\<lparr>acc_data := data\<rparr>) (\<lambda>_ acc. (Ok (), acc)))
             | Err _ \<Rightarrow> (Err (farm_error AccountNotAuthorized), acc)
             | Panic \<Rightarrow> (Panic, acc)))))"

definition multisig_is_signer :: "pubkey \<Rightarrow> AccountInfo \<Rightarrow> pubkey \<Rightarrow> pubkey \<Rightarrow> bool result" where
  "multisig_is_signer zero_id multisig_account fallback_admin_account key =
     bind (account_exists multisig_account) (\<lambda>found.
       if \<not> found then Ok (key = fallback_admin_account)
       else
         bind (account_unpack (Multisig_unpack zero_id) multisig_account) (\<lambda>multisig.
           Ok (case get_signer_index multisig key of Ok _ \<Rightarrow> True | _ \<Rightarrow> False)))"

section \<open>Lemmas on the layout\<close>

lemma pack_signers_loop_eq:
  assumes "idx + n \<le> 6" and "length signers = 6" and "length flags = 6"
    and "\<forall>k\<in>set signers. length k = 32" and "length so = 192" and "length sd = 6"
  shows "\<exists>so' sd'. pack_signers_loop signers flags n idx so sd = Ok (so', sd') \<and>
    length so' = 192 \<and> length sd' = 6 \<and>
    (\<forall>j<6. slice (j * 32) 32 so' =
      (if idx \<le> j \<and> j < idx + n then signers ! j else slice (j * 32) 32 so)) \<and>
    (\<forall>j<6. sd' ! j = (if idx \<le> j \<and> j < idx + n then (if flags ! j then 1 else 0) else sd ! j))"
  using assms
proof (induction n arbitrary: idx so sd)
  case (Suc n)
  let ?so = "splice (idx * 32) (signers ! idx) so" and ?sd = "sd[idx := (if flags ! idx then 1 else 0)]"
  have i: "idx < 6" using Suc.prems(1) by simp
  then have k: "length (signers ! idx) = 32" using Suc.prems(2,4) by simp
  have b: "idx * 32 + 32 \<le> length so" using i Suc.prems(5) by simp
  have "length ?so = 192" "length ?sd = 6" using Suc.prems b k by simp_all
  with Suc.IH [of "idx + 1" ?so ?sd] Suc.prems obtain so' sd' where
    r: "pack_signers_loop signers flags n (idx + 1) ?so ?sd = Ok (so', sd')"
      "length so' = 192" "length sd' = 6"
    and so': "\<And>j. j < 6 \<Longrightarrow> slice (j * 32) 32 so' =
      (if idx + 1 \<le> j \<and> j < idx + 1 + n then signers ! j else slice (j * 32) 32 ?so)"
    and sd': "\<And>j. j < 6 \<Longrightarrow> sd' ! j =
      (if idx + 1 \<le> j \<and> j < idx + 1 + n then (if flags ! j then 1 else 0) else ?sd ! j)" by auto
  have "slice (j * 32) 32 ?so = (if j = idx then signers ! idx else slice (j * 32) 32 so)" for j
  proof -
    consider "j = idx" | "j * 32 + 32 \<le> idx * 32" | "idx * 32 + 32 \<le> j * 32" by linarith
    then show ?thesis
      by cases (use b k in \<open>auto simp: slice_splice_same slice_splice_before slice_splice_after\<close>)
  qed
  with so' have s: "slice (j * 32) 32 so' =
      (if idx \<le> j \<and> j < idx + Suc n then signers ! j else slice (j * 32) 32 so)" if "j < 6" for j
    using that by auto
  have d: "sd' ! j = (if idx \<le> j \<and> j < idx + Suc n then (if flags ! j then 1 else 0) else sd ! j)"
    if "j < 6" for j
    using sd' [OF that] that Suc.prems(6) by (cases "j = idx") auto
  have "pack_signers_loop signers flags (Suc n) idx so sd = Ok (so', sd')"
    using r(1) i b Suc.prems by simp
  then show ?case using r(2,3) s d by blast
qed auto

lemma unpack_signers_loop_eq:
  assumes "idx + n \<le> 6" and "length signers = 6" and "length flags = 6" and "length sd = 6"
    and "\<And>j. idx \<le> j \<Longrightarrow> j < idx + n \<Longrightarrow> sd ! j = (if b j then 1 else 0)"
  shows "\<exists>signers' flags'. unpack_signers_loop so sd n idx signers flags = Ok (signers', flags') \<and>
    length signers' = 6 \<and> length flags' = 6 \<and>
    (\<forall>j<6. signers' ! j =
      (if idx \<le> j \<and> j < idx + n then slice (j * 32) 32 so else signers ! j)) \<and>
    (\<forall>j<6. flags' ! j = (if idx \<le> j \<and> j < idx + n then b j else flags ! j))"
  using assms
proof (induction n arbitrary: idx signers flags)
  case (Suc n)
  let ?s = "signers[idx := slice (idx * 32) 32 so]" and ?f = "flags[idx := b idx]"
  have i: "idx < 6" using Suc.prems(1) by simp
  have h: "sd ! idx = (if b idx then 1 else 0)" using Suc.prems(5) by simp
  from Suc.IH [of "idx + 1" ?s ?f] Suc.prems obtain signers' flags' where
    r: "unpack_signers_loop so sd n (idx + 1) ?s ?f = Ok (signers', flags')"
      "length signers' = 6" "length flags' = 6"
    and s': "\<And>j. j < 6 \<Longrightarrow> signers' ! j =
      (if idx + 1 \<le> j \<and> j < idx + 1 + n then slice (j * 32) 32 so else ?s ! j)"
    and f': "\<And>j. j < 6 \<Longrightarrow> flags' ! j = (if idx + 1 \<le> j \<and> j < idx + 1 + n then b j else ?f ! j)"
    by auto
  have "signers' ! j = (if idx \<le> j \<and> j < idx + Suc n then slice (j * 32) 32 so else signers ! j)"
    "flags' ! j = (if idx \<le> j \<and> j < idx + Suc n then b j else flags ! j)" if "j < 6" for j
    using s' [OF that] f' [OF that] that Suc.prems(2,3) by (cases "j = idx"; auto)+
  moreover have "unpack_signers_loop so sd (Suc n) idx signers flags = Ok (signers', flags')"
    using r(1) h by (cases "b idx") simp_all
  ultimately show ?case using r(2,3) by blast
qed auto

text \<open>The multisigs that can be stored and read back.\<close>

definition valid_multisig :: "pubkey \<Rightarrow> Multisig \<Rightarrow> bool" where
  "valid_multisig zero_id m \<longleftrightarrow>
     length (ms_signers m) = MAX_SIGNERS \<and> length (ms_signed m) = MAX_SIGNERS \<and>
     (\<forall>k\<in>set (ms_signers m). length k = 32) \<and>
     unat (ms_num_signers m) \<le> MAX_SIGNERS \<and> ms_num_signed m \<le> ms_num_signers m \<and>
     ms_min_signatures m \<le> ms_num_signers m \<and>
     (ms_num_signers m > 0 \<longrightarrow> ms_min_signatures m \<noteq> 0) \<and>
     (\<forall>i<MAX_SIGNERS. unat (ms_num_signers m) \<le> i \<longrightarrow>
        ms_signers m ! i = zero_id \<and> \<not> ms_signed m ! i)"

definition packed_multisig :: "Multisig \<Rightarrow> bytes \<Rightarrow> bool" where
  "packed_multisig m out \<longleftrightarrow>
     out ! 0 = ms_num_signers m \<and> out ! 1 = ms_num_signed m \<and> out ! 2 = ms_min_signatures m \<and>
     out ! 3 = ms_instruction_accounts_len m \<and>
     slice 4 2 out = to_le_bytes (ms_instruction_data_len m) \<and>
     slice 6 8 out = to_le_bytes (ms_instruction_hash m) \<and>
     (\<forall>j<unat (ms_num_signers m). slice (14 + j * 32) 32 out = ms_signers m ! j \<and>
        out ! (206 + j) = (if ms_signed m ! j then 1 else 0))"

lemma slice_take_le:
  "off + k \<le> n \<Longrightarrow> n \<le> length xs \<Longrightarrow> slice off k (take n xs @ ys) = slice off k xs"
  by (simp add: slice_append_left) (simp add: take_eq_slice slice_slice)

lemma Multisig_pack_fields:
  assumes len: "Multisig_LEN \<le> length out" and n: "unat (ms_num_signers m) \<le> 6"
    and l: "length (ms_signers m) = 6" "length (ms_signed m) = 6" "\<forall>k\<in>set (ms_signers m). length k = 32"
  shows "\<exists>out'. Multisig_pack m out = (Ok Multisig_LEN, out') \<and> length out' = length out \<and>
    packed_multisig m out' \<and> drop Multisig_LEN out' = drop Multisig_LEN out"
proof -
  have L: "212 \<le> length out" using len by (simp add: Multisig_LEN_def MAX_SIGNERS_def)
  then have ne: "out \<noteq> []" by auto
  define hd6 where "hd6 = splice 6 (to_le_bytes (ms_instruction_hash m))
    (splice 4 (to_le_bytes (ms_instruction_data_len m)) (splice 3 [ms_instruction_accounts_len m]
      (splice 2 [ms_min_signatures m] (splice 1 [ms_num_signed m] (splice 0 [ms_num_signers m] out)))))"
  have h: "length hd6 = length out" "slice 0 1 hd6 = [ms_num_signers m]"
    "slice 1 1 hd6 = [ms_num_signed m]" "slice 2 1 hd6 = [ms_min_signatures m]"
    "slice 3 1 hd6 = [ms_instruction_accounts_len m]"
    "slice 4 2 hd6 = to_le_bytes (ms_instruction_data_len m)"
    "slice 6 8 hd6 = to_le_bytes (ms_instruction_hash m)"
    using L by (simp_all add: hd6_def byte_simps)
  have tl: "drop 212 hd6 = drop 212 out" using L by (simp add: hd6_def splice_def)
  let ?n = "unat (ms_num_signers m)"
  have "length (slice 14 192 hd6) = 192" "length (slice 206 6 hd6) = 6" using L h(1) by simp_all
  from pack_signers_loop_eq [of 0 ?n "ms_signers m" "ms_signed m", OF _ l this] n
  obtain so sd where
    lp: "pack_signers_loop (ms_signers m) (ms_signed m) ?n 0 (slice 14 192 hd6) (slice 206 6 hd6) =
      Ok (so, sd)" "length so = 192" "length sd = 6"
    and so: "\<And>j. j < ?n \<Longrightarrow> slice (j * 32) 32 so = ms_signers m ! j"
    and sd: "\<And>j. j < ?n \<Longrightarrow> sd ! j = (if ms_signed m ! j then 1 else 0)" by auto
  have m32: "unat (ms_num_signers m * 32) = ?n * 32" using n by (simp add: unat_word_ariths(2))
  define so' where "so' = take (?n * 32) so @ replicate (192 - ?n * 32) 0"
  define sd' where "sd' = take ?n sd @ replicate (6 - ?n) 0"
  have l': "length so' = 192" "length sd' = 6" using lp n by (simp_all add: so'_def sd'_def)
  have so'_nth: "slice (j * 32) 32 so' = ms_signers m ! j" if "j < ?n" for j
    using so [OF that] that lp(2) n unfolding so'_def by (subst slice_take_le) auto
  have sd'_nth: "sd' ! j = (if ms_signed m ! j then 1 else 0)" if "j < ?n" for j
    using sd [OF that] that lp(3) n by (simp add: sd'_def nth_append)
  define out' where "out' = splice 206 sd' (splice 14 so' hd6)"
  have chk: "check_data_len out Multisig_LEN = Ok ()" using len by simp
  have pk: "Multisig_pack m out = (Ok Multisig_LEN, out')"
    unfolding Multisig_pack_def chk seq_simps Let_def hd6_def [symmetric]
    using len lp m32 by (simp add: MAX_SIGNERS_def out'_def so'_def sd'_def)
  have lo: "length out' = length out" using L l' h(1) by (simp add: out'_def)
  have s: "slice k i out' = slice k i hd6" if "k + i \<le> 14" for k i
    using that L l' h(1) by (simp add: out'_def byte_simps)
  have nth: "out' ! i = hd6 ! i" if "i < 14" for i
    using s [of i 1] slice_nth [of 0 1 i out'] slice_nth [of 0 1 i hd6] that L lo h(1) by simp
  have hn: "hd6 ! 0 = ms_num_signers m" "hd6 ! 1 = ms_num_signed m" "hd6 ! 2 = ms_min_signatures m"
    "hd6 ! 3 = ms_instruction_accounts_len m"
    using h slice_nth [of 0 1 0 hd6] slice_nth [of 0 1 1 hd6] slice_nth [of 0 1 2 hd6]
      slice_nth [of 0 1 3 hd6] L ne by simp_all
  have sl: "slice (14 + j * 32) 32 out' = ms_signers m ! j" if "j < ?n" for j
    using so'_nth [OF that] that n L l' h(1)
    by (simp add: out'_def slice_splice_before slice_splice_inside)
  have sn: "out' ! (206 + j) = (if ms_signed m ! j then 1 else 0)" if "j < ?n" for j
    using sd'_nth [OF that] that n L l' h(1) by (simp add: out'_def splice_nth)
  have "packed_multisig m out'"
    unfolding packed_multisig_def using nth hn s h(6,7) sl sn by simp
  moreover have "drop 212 out' = drop 212 out"
    using tl L l' h(1) by (simp add: out'_def splice_def)
  ultimately show ?thesis using pk lo by (simp add: Multisig_LEN_def MAX_SIGNERS_def)
qed

lemma valid_multisigD:
  assumes "valid_multisig zero_id m"
  shows "unat (ms_num_signers m) \<le> 6" and "length (ms_signers m) = 6" and "length (ms_signed m) = 6"
    and "\<forall>k\<in>set (ms_signers m). length k = 32"
  using assms by (simp_all add: valid_multisig_def MAX_SIGNERS_def)

text \<open>What \<open>unpack\<close> returns is determined by the stored fields.\<close>

lemma Multisig_unpack_packed:
  assumes v: "valid_multisig zero_id m" and len: "Multisig_LEN \<le> length out" and p: "packed_multisig m out"
  shows "Multisig_unpack zero_id out = Ok m"
proof -
  let ?n = "unat (ms_num_signers m)"
  let ?so = "slice 14 192 out" and ?sd = "slice 206 6 out"
  note d = valid_multisigD [OF v]
  have L: "212 \<le> length out" using len by (simp add: Multisig_LEN_def MAX_SIGNERS_def)
  have sd: "?sd ! j = (if ms_signed m ! j then 1 else 0)" if "j < ?n" for j
    using p that d(1) L by (simp add: packed_multisig_def slice_nth)
  obtain signers flags where
    lp: "unpack_signers_loop ?so ?sd ?n 0 (replicate 6 (replicate 32 0)) (replicate 6 False) = Ok (signers, flags)"
    and l: "length signers = 6" "length flags = 6"
    and s: "\<And>j. j < ?n \<Longrightarrow> signers ! j = slice (j * 32) 32 ?so"
    and f: "\<And>j. j < ?n \<Longrightarrow> flags ! j = ms_signed m ! j"
    using unpack_signers_loop_eq [of 0 ?n "replicate 6 (replicate 32 0)" "replicate 6 False" ?sd
        "\<lambda>j. ms_signed m ! j" ?so] d(1) L sd by auto
  have "signers ! j = ms_signers m ! j" if "j < ?n" for j
    using s [OF that] p that d(1) by (simp add: packed_multisig_def slice_slice)
  then have "take ?n signers = take ?n (ms_signers m)" "take ?n flags = take ?n (ms_signed m)"
    using f l d by (auto intro!: nth_equalityI)
  moreover have "drop ?n (ms_signers m) = replicate (6 - ?n) zero_id"
    "drop ?n (ms_signed m) = replicate (6 - ?n) False"
    using v d by (auto intro!: nth_equalityI simp: valid_multisig_def MAX_SIGNERS_def)
  ultimately have "clear_signers zero_id ?n (signers, flags) = (ms_signers m, ms_signed m)"
    by (simp add: clear_signers_def MAX_SIGNERS_def) (metis append_take_drop_id)
  then show ?thesis using p v lp len
    by (auto simp: Multisig_unpack_def Let_def packed_multisig_def valid_multisig_def MAX_SIGNERS_def
        not_less)
qed

interpretation multisig: packed Multisig_LEN Multisig_pack "Multisig_unpack zero_id"
  "valid_multisig zero_id" for zero_id
proof unfold_locales
  fix m :: Multisig and out :: bytes
  assume "length out < Multisig_LEN"
  then show "Multisig_pack m out = (Err AccountDataTooSmall, out)" by (simp add: Multisig_pack_def)
next
  fix input :: bytes
  assume "length input < Multisig_LEN"
  then show "Multisig_unpack zero_id input = Err AccountDataTooSmall" by (simp add: Multisig_unpack_def)
next
  fix input :: bytes
  assume "Multisig_LEN \<le> length input"
  then have "212 \<le> length input" by (simp add: Multisig_LEN_def MAX_SIGNERS_def)
  moreover have "slice a b (take 212 input) = slice a b input" if "a + b \<le> 212" for a b
    using that by (simp add: take_eq_slice slice_slice)
  ultimately show "Multisig_unpack zero_id input = Multisig_unpack zero_id (take Multisig_LEN input)"
    unfolding Multisig_unpack_def Let_def by (simp add: Multisig_LEN_def MAX_SIGNERS_def)
next
  fix m :: Multisig and n :: nat
  assume v: "valid_multisig zero_id m" and n: "Multisig_LEN \<le> n"
  from Multisig_pack_fields [of "replicate n 0" m] valid_multisigD [OF v] n obtain out where
    "Multisig_pack m (replicate n 0) = (Ok Multisig_LEN, out)" "length out = n" "packed_multisig m out"
    by auto
  with Multisig_unpack_packed [OF v, of out] n
  show "\<exists>out. Multisig_pack m (replicate n 0) = (Ok Multisig_LEN, out) \<and> length out = n \<and>
      Multisig_unpack zero_id out = Ok m" by auto
qed

section \<open>Lemmas on the operations\<close>

lemma set_signers_loop_eq:
  assumes "length done + length ks \<le> n" and "idx = length done"
  shows "set_signers_loop ks idx (done @ replicate (n - length done) z) =
    (if distinct ks \<and> set ks \<inter> set done = {} \<and> z \<notin> set ks
     then Ok (done @ ks @ replicate (n - length done - length ks) z)
     else Err (farm_error IncorrectAccountAddress))"
  using assms
proof (induction ks arbitrary: "done" idx)
  case (Cons k ks)
  let ?b = "done @ replicate (n - length done) z"
  have pad: "replicate (n - length done) z = z # replicate (n - length done - 1) z"
    using Cons.prems(1) by (cases "n - length done") simp_all
  have mem: "k \<in> set ?b \<longleftrightarrow> k \<in> set done \<or> k = z" using Cons.prems(1) by auto
  have upd: "?b[idx := k] = (done @ [k]) @ replicate (n - length (done @ [k])) z"
    unfolding pad using Cons.prems(2) by simp
  have "set_signers_loop ks (idx + 1) (?b[idx := k]) =
    (if distinct ks \<and> set ks \<inter> set (done @ [k]) = {} \<and> z \<notin> set ks
     then Ok ((done @ [k]) @ ks @ replicate (n - length (done @ [k]) - length ks) z)
     else Err (farm_error IncorrectAccountAddress))"
    unfolding upd by (rule Cons.IH) (use Cons.prems in simp_all)
  then show ?case using mem by auto
qed simp

lemma get_signer_index_loop_eq:
  assumes "i + n \<le> length signers"
  shows "get_signer_index_loop signers k n i =
    (case find (\<lambda>j. signers ! j = k) [i..<i + n] of
       Some j \<Rightarrow> Ok j | None \<Rightarrow> Err (farm_error AccountNotAuthorized))"
  using assms
proof (induction n arbitrary: i)
  case (Suc n)
  have "[i..<i + Suc n] = i # [Suc i..<Suc i + n]" by (simp add: upt_conv_Cons)
  then show ?case using Suc.IH [of "Suc i"] Suc.prems by simp
qed simp

lemma get_signer_index_cases:
  assumes "length (ms_signers m) = 6"
  shows "get_signer_index m k = Err (farm_error AccountNotAuthorized) \<and> k \<notin> set (ms_signers m) \<or>
    (\<exists>i<6. get_signer_index m k = Ok i \<and> ms_signers m ! i = k)"
  using get_signer_index_loop_eq [of 0 6 "ms_signers m" k] assms
  by (auto simp: get_signer_index_def MAX_SIGNERS_def find_Some_iff find_None_iff in_set_conv_nth
      split: option.splits)

lemma unpack_signers_loop_length:
  "unpack_signers_loop so sd n idx a b = Ok (a', b') \<Longrightarrow> length a' = length a \<and> length b' = length b \<and>
    ((\<forall>k\<in>set a. length k = 32) \<longrightarrow> (idx + n) * 32 \<le> length so \<longrightarrow> (\<forall>k\<in>set a'. length k = 32))"
proof (induction n arbitrary: idx a b)
  case (Suc n)
  then obtain x where r: "unpack_signers_loop so sd n (idx + 1) (a[idx := slice (idx * 32) 32 so]) (b[idx := x])
      = Ok (a', b')" by (auto simp: result_simps)
  from Suc.IH [OF r] show ?case
    using set_update_subset_insert [of a idx "slice (idx * 32) 32 so"] by fastforce
qed simp

text \<open>Whatever \<open>unpack\<close> accepts is valid.\<close>

lemma Multisig_unpack_valid:
  assumes "Multisig_unpack zero_id input = Ok m" and z: "length zero_id = 32"
  shows "valid_multisig zero_id m" and "Multisig_LEN \<le> length input"
proof -
  show len: "Multisig_LEN \<le> length input"
    using assms(1) by (auto simp: Multisig_unpack_def result_simps)
  let ?n = "unat (input ! 0)"
  have n6: "?n \<le> 6" and hdr: "\<not> (input ! 1 > input ! 0 \<or> input ! 2 > input ! 0 \<or> (input ! 0 > 0 \<and> input ! 2 = 0))"
    using assms(1) len by (auto simp: Multisig_unpack_def Let_def MAX_SIGNERS_def split: if_splits)
  obtain a b where lp: "unpack_signers_loop (slice 14 192 input) (slice 206 6 input) ?n 0
      (replicate 6 (replicate 32 0)) (replicate 6 False) = Ok (a, b)"
    and m: "ms_num_signers m = input ! 0" "ms_num_signed m = input ! 1" "ms_min_signatures m = input ! 2"
      "ms_signers m = take ?n a @ replicate (6 - ?n) zero_id" "ms_signed m = take ?n b @ replicate (6 - ?n) False"
  proof -
    have "bind (unpack_signers_loop (slice 14 192 input) (slice 206 6 input) ?n 0
        (replicate 6 (replicate 32 0)) (replicate 6 False)) (\<lambda>r.
      (case clear_signers zero_id ?n r of (signers, flags) \<Rightarrow>
        Ok \<lparr> ms_num_signers = input ! 0, ms_num_signed = input ! 1, ms_min_signatures = input ! 2,
             ms_instruction_accounts_len = input ! 3,
             ms_instruction_data_len = from_le_bytes (slice 4 2 input),
             ms_instruction_hash = from_le_bytes (slice 6 8 input),
             ms_signers = signers, ms_signed = flags \<rparr>)) = Ok m"
      using assms(1) len n6 hdr unfolding Multisig_unpack_def Let_def
      by (simp add: MAX_SIGNERS_def split: if_splits)
    then obtain a b where lp: "unpack_signers_loop (slice 14 192 input) (slice 206 6 input) ?n 0
        (replicate 6 (replicate 32 0)) (replicate 6 False) = Ok (a, b)"
      and m: "m = \<lparr> ms_num_signers = input ! 0, ms_num_signed = input ! 1, ms_min_signatures = input ! 2,
             ms_instruction_accounts_len = input ! 3,
             ms_instruction_data_len = from_le_bytes (slice 4 2 input),
             ms_instruction_hash = from_le_bytes (slice 6 8 input),
             ms_signers = take ?n a @ replicate (6 - ?n) zero_id,
             ms_signed = take ?n b @ replicate (6 - ?n) False \<rparr>"
      unfolding bind_Ok_iff by (auto simp: clear_signers_def MAX_SIGNERS_def)
    show ?thesis by (rule that [OF lp]) (simp_all add: m)
  qed
  have "212 \<le> length input" using len by (simp add: Multisig_LEN_def MAX_SIGNERS_def)
  then have so: "(0 + ?n) * 32 \<le> length (slice 14 192 input)" using n6 by simp
  note ul = unpack_signers_loop_length [OF lp]
  have ab: "length a = 6" "length b = 6" using conjunct1 [OF ul] conjunct2 [OF ul] by simp_all
  have "\<forall>k\<in>set (replicate 6 (replicate 32 (0 :: u8))). length k = 32" by simp
  with ul so have "\<forall>k\<in>set a. length k = 32" by blast
  note ab = ab this
  show "valid_multisig zero_id m"
    using n6 hdr m ab z
    by (auto simp: valid_multisig_def MAX_SIGNERS_def nth_append not_less dest: in_set_takeD)
qed

section \<open>Properties\<close>

text \<open>The storage form of a multisig account, read back by every operation.\<close>

definition multisig_of :: "pubkey \<Rightarrow> AccountInfo \<Rightarrow> Multisig \<Rightarrow> bool" where
  "multisig_of zero_id acc m \<longleftrightarrow>
     acc_lamports acc > 0 \<and> Multisig_unpack zero_id (acc_data acc) = Ok m"

definition signature_count :: "Multisig \<Rightarrow> nat" where
  "signature_count m = length (filter (\<lambda>b. b) (ms_signed m))"

definition example_keys :: "pubkey list" where
  "example_keys = [replicate 32 1, replicate 32 2]"

definition example_multisig_account :: AccountInfo where
  "example_multisig_account = \<lparr> acc_key = replicate 32 5, acc_is_signer = False, acc_lamports = 10,
     acc_data = replicate 212 0, acc_owner = replicate 32 7 \<rparr>"

definition example_zero_id :: pubkey where
  "example_zero_id = [14, 196, 109] @ replicate 29 0"

lemma all_less_6: "(\<forall>i<(6::nat). P i) \<longleftrightarrow> P 0 \<and> P 1 \<and> P 2 \<and> P 3 \<and> P 4 \<and> P 5"
proof -
  have "i < 6 \<longleftrightarrow> i = 0 \<or> i = 1 \<or> i = 2 \<or> i = 3 \<or> i = 4 \<or> i = 5" for i :: nat by arith
  then show ?thesis by auto
qed

text \<open>\<open>to_vec\<close> followed by \<open>unpack\<close> returns the multisig, also when other bytes follow.\<close>

theorem multisig_round_trip:
  assumes "valid_multisig zero_id m"
  shows "\<exists>v. Multisig_to_vec m = Ok v \<and> length v = 212 \<and> Multisig_unpack zero_id (v @ rest) = Ok m"
  using multisig.to_vec_Ok [OF assms order_refl] multisig.unpack_append [OF assms order_refl]
  by (auto simp: Multisig_to_vec_def Multisig_LEN_def MAX_SIGNERS_def)

theorem multisig_round_trip_witness:
  "\<exists>v. Multisig_to_vec (Multisig_default example_zero_id (replicate 32 3)) = Ok v \<and>
     Multisig_unpack example_zero_id (v @ [1]) = Ok (Multisig_default example_zero_id (replicate 32 3))"
proof -
  have "valid_multisig example_zero_id (Multisig_default example_zero_id (replicate 32 3))"
    unfolding valid_multisig_def MAX_SIGNERS_def all_less_6
    by (simp add: Multisig_default_def example_zero_id_def)
  from multisig_round_trip [OF this, of "[1]"] show ?thesis by blast
qed

text \<open>C7: \<open>set_signers\<close> succeeds exactly for one to six distinct signers, none of them the default
  key, with a threshold between one and their number and an account that is large enough; the
  account then holds these signers, in order, and no signature.\<close>

theorem set_signers_correct:
  assumes "\<forall>k\<in>set ks. length k = 32" and "length zero_id = 32" and "acc_lamports acc > 0"
  shows "if ks \<noteq> [] \<and> length ks \<le> 6 \<and> min_sig \<noteq> 0 \<and> unat min_sig \<le> length ks \<and>
           distinct ks \<and> replicate 32 0 \<notin> set ks \<and> 212 \<le> length (acc_data acc)
     then \<exists>acc' m. set_signers acc ks min_sig = (Ok 212, acc') \<and> multisig_of zero_id acc' m \<and>
       take (length ks) (ms_signers m) = ks \<and> unat (ms_num_signers m) = length ks \<and>
       ms_min_signatures m = min_sig \<and> ms_num_signed m = 0 \<and> signature_count m = 0
     else \<exists>e. set_signers acc ks min_sig = (Err e, acc)"
  (is "if ?P then ?Q else ?R")
proof (cases ?P)
  case True
  let ?n = "length ks"
  define m0 where "m0 = \<lparr> ms_num_signers = of_nat ?n, ms_num_signed = 0, ms_min_signatures = min_sig,
    ms_instruction_accounts_len = 0, ms_instruction_data_len = 0, ms_instruction_hash = 0,
    ms_signers = ks @ replicate (6 - ?n) (replicate 32 0), ms_signed = replicate 6 False \<rparr>"
  define m where "m = m0\<lparr> ms_signers := ks @ replicate (6 - ?n) zero_id \<rparr>"
  have n: "unat (of_nat ?n :: u8) = ?n" using True by (simp add: unat_of_nat)
  have len: "Multisig_LEN \<le> length (acc_data acc)" "unat (ms_num_signers m0) \<le> 6"
    "length (ms_signers m0) = 6" "length (ms_signed m0) = 6"
    using True n by (simp_all add: m0_def Multisig_LEN_def MAX_SIGNERS_def)
  have "\<forall>k\<in>set (ms_signers m0). length k = 32" using assms(1) by (auto simp: m0_def)
  from Multisig_pack_fields [OF len this]
  obtain out where pk: "Multisig_pack m0 (acc_data acc) = (Ok Multisig_LEN, out)"
    and out: "length out = length (acc_data acc)" "packed_multisig m0 out" by blast
  have pm: "packed_multisig m out" using out(2) n
    by (simp add: packed_multisig_def m_def m0_def nth_append)
  have v: "valid_multisig zero_id m"
    using True assms(1,2) n
    by (auto simp: valid_multisig_def m_def m0_def MAX_SIGNERS_def nth_append word_le_nat_alt)
  have "Multisig_unpack zero_id out = Ok m"
    using Multisig_unpack_packed [OF v _ pm] out(1) len(1) by simp
  moreover have "set_signers acc ks min_sig = (Ok 212, acc\<lparr>acc_data := out\<rparr>)"
    using True pk set_signers_loop_eq [of "[]" ks 6 0 "replicate 32 0"]
    by (simp add: set_signers_def MAX_SIGNERS_def m0_def Multisig_LEN_def)
  ultimately have ?Q using assms(3) n
    by (auto simp: multisig_of_def m_def m0_def signature_count_def)
  with True show ?thesis by simp
next
  case False
  let ?m = "\<lambda>signers. \<lparr> ms_num_signers = of_nat (length ks), ms_num_signed = 0, ms_min_signatures = min_sig,
    ms_instruction_accounts_len = 0, ms_instruction_data_len = 0, ms_instruction_hash = 0,
    ms_signers = signers, ms_signed = replicate 6 False \<rparr>"
  have "Multisig_pack (?m signers) (acc_data acc) = (Err AccountDataTooSmall, acc_data acc)"
    if "length (acc_data acc) < 212" for signers
    using that by (simp add: Multisig_pack_def Multisig_LEN_def MAX_SIGNERS_def)
  then have ?R using False set_signers_loop_eq [of "[]" ks 6 0 "replicate 32 0"]
    by (auto simp: set_signers_def MAX_SIGNERS_def not_le)
  with False show ?thesis by (simp only: if_False)
qed

theorem set_signers_correct_witness:
  "\<exists>acc' m. set_signers example_multisig_account example_keys 2 = (Ok 212, acc') \<and>
     multisig_of example_zero_id acc' m \<and> take (length example_keys) (ms_signers m) = example_keys"
proof -
  have "replicate 32 (1 :: u8) \<noteq> replicate 32 2" "replicate 32 (0 :: u8) \<noteq> replicate 32 1"
    "replicate 32 (0 :: u8) \<noteq> replicate 32 2" by simp_all
  then have "distinct example_keys" "replicate 32 0 \<notin> set example_keys"
    "\<forall>k\<in>set example_keys. length k = 32" "length example_keys = 2"
    by (simp_all add: example_keys_def)
  moreover have "example_keys \<noteq> []" by (simp add: example_keys_def)
  moreover have "length example_zero_id = 32" "acc_lamports example_multisig_account > 0"
    "212 \<le> length (acc_data example_multisig_account)"
    by (simp_all add: example_zero_id_def example_multisig_account_def)
  ultimately show ?thesis
    using set_signers_correct [of example_keys example_zero_id example_multisig_account 2]
    by (auto simp del: length_0_conv)
qed

lemma signature_count_clear:
  "i < length fs \<Longrightarrow> fs ! i \<Longrightarrow>
    length (filter (\<lambda>b. b) (fs[i := False])) + 1 = length (filter (\<lambda>b. b) fs)"
proof (induction fs arbitrary: i)
  case (Cons f fs)
  then show ?case by (cases i) auto
qed simp

definition unsigned_multisig :: "Multisig \<Rightarrow> nat \<Rightarrow> Multisig" where
  "unsigned_multisig m i = m\<lparr> ms_num_signed := ms_num_signed m - 1, ms_signed := (ms_signed m)[i := False] \<rparr>"

lemma nth_clear: "fs[i := False] ! j \<Longrightarrow> fs ! j"
  by (cases "i < length fs"; cases "i = j") (simp_all add: list_update_beyond)

lemma valid_unsigned:
  assumes "valid_multisig zero_id m" and "ms_num_signed m \<noteq> 0"
  shows "valid_multisig zero_id (unsigned_multisig m i)"
proof -
  have "unat (ms_num_signed m - 1) = unat (ms_num_signed m) - 1" using assms(2) by (rule unat_minus_one)
  then have "ms_num_signed m - 1 \<le> ms_num_signers m"
    using assms(1) by (auto simp: valid_multisig_def word_le_nat_alt)
  then show ?thesis using assms(1)
    by (auto simp: valid_multisig_def unsigned_multisig_def dest: nth_clear)
qed

text \<open>Withdrawing a signature. On an account whose counter agrees with its flags, an account
  that is not a signer is refused, one that has not signed changes nothing, and one that has
  signed has its flag cleared and the counter reduced by one, so that both still agree.\<close>

theorem unsign_multisig_correct:
  assumes "length zero_id = 32" and "multisig_of zero_id acc m" and "acc_is_signer signer"
    and "unat (ms_num_signed m) = signature_count m"
  shows "if ms_num_signers m \<le> 1 \<or> signature_count m = 0
     then unsign_multisig zero_id acc signer = (Ok (), acc)
     else if acc_key signer \<notin> set (ms_signers m)
     then unsign_multisig zero_id acc signer = (Err (farm_error AccountNotAuthorized), acc)
     else \<exists>i<6. ms_signers m ! i = acc_key signer \<and>
       (if \<not> ms_signed m ! i then unsign_multisig zero_id acc signer = (Ok (), acc)
        else \<exists>acc'. unsign_multisig zero_id acc signer = (Ok (), acc') \<and>
          multisig_of zero_id acc' (unsigned_multisig m i) \<and>
          unat (ms_num_signed (unsigned_multisig m i)) = signature_count (unsigned_multisig m i))"
proof -
  have u: "Multisig_unpack zero_id (acc_data acc) = Ok m" and lam: "acc_lamports acc > 0"
    using assms(2) by (simp_all add: multisig_of_def)
  note v = Multisig_unpack_valid [OF u assms(1)]
  note d = valid_multisigD [OF v(1)]
  have z: "signature_count m = 0 \<longleftrightarrow> ms_num_signed m = 0"
    using assms(4) by (metis unat_eq_zero)
  note red = unsign_multisig_def account_exists_def account_unpack_def u
  show ?thesis
  proof (cases "ms_num_signers m \<le> 1 \<or> signature_count m = 0")
    case True
    then show ?thesis using assms(3) lam z by (simp add: red)
  next
    case False
    consider "get_signer_index m (acc_key signer) = Err (farm_error AccountNotAuthorized)"
        "acc_key signer \<notin> set (ms_signers m)"
      | i where "i < 6" "get_signer_index m (acc_key signer) = Ok i" "ms_signers m ! i = acc_key signer"
      using get_signer_index_cases [OF d(2), of "acc_key signer"] by blast
    then show ?thesis
    proof cases
      case 1
      then show ?thesis using False assms(3) lam z by (simp add: red)
    next
      case (2 i)
      let ?m = "unsigned_multisig m i"
      have mem: "acc_key signer \<in> set (ms_signers m)" using 2 d(2) by (metis nth_mem)
      show ?thesis
      proof (cases "ms_signed m ! i")
        case False
        with 2 mem \<open>\<not> (ms_num_signers m \<le> 1 \<or> signature_count m = 0)\<close> show ?thesis
          using assms(3) lam z by (auto simp: red intro!: exI [of _ i])
      next
        case True
        have nz: "ms_num_signed m \<noteq> 0" using False z by simp
        have v': "valid_multisig zero_id ?m" using v(1) nz by (rule valid_unsigned)
        from Multisig_pack_fields [OF v(2) valid_multisigD [OF v']] obtain out where
          pk: "Multisig_pack ?m (acc_data acc) = (Ok Multisig_LEN, out)"
          and out: "length out = length (acc_data acc)" "packed_multisig ?m out" by blast
        have un: "Multisig_unpack zero_id out = Ok ?m"
          using Multisig_unpack_packed [OF v' _ out(2)] out(1) v(2) by simp
        have "unat (ms_num_signed m - 1) = unat (ms_num_signed m) - 1" using nz by (rule unat_minus_one)
        then have cnt: "unat (ms_num_signed ?m) = signature_count ?m"
          using signature_count_clear [of i "ms_signed m"] True 2(1) d(3) assms(4)
          by (simp add: unsigned_multisig_def signature_count_def)
        have "unsign_multisig zero_id acc signer = (Ok (), acc\<lparr>acc_data := out\<rparr>)"
          using False True 2 assms(3) lam z pk by (simp add: red unsigned_multisig_def)
        then show ?thesis using False True 2 mem un cnt lam
          by (auto simp: multisig_of_def intro!: exI [of _ i])
      qed
    qed
  qed
qed

definition example_signed :: Multisig where
  "example_signed = \<lparr> ms_num_signers = 2, ms_num_signed = 1, ms_min_signatures = 2,
     ms_instruction_accounts_len = 3, ms_instruction_data_len = 123, ms_instruction_hash = 123456789,
     ms_signers = example_keys @ replicate 4 example_zero_id,
     ms_signed = [False, True, False, False, False, False] \<rparr>"

definition example_signed_account :: AccountInfo where
  "example_signed_account = example_multisig_account\<lparr> acc_data :=
     (case Multisig_to_vec example_signed of Ok v \<Rightarrow> v | _ \<Rightarrow> []) \<rparr>"

lemma example_signed_stored: "multisig_of example_zero_id example_signed_account example_signed"
proof -
  have "valid_multisig example_zero_id example_signed"
    unfolding valid_multisig_def MAX_SIGNERS_def all_less_6
    by (simp add: example_signed_def example_zero_id_def example_keys_def)
  from multisig.to_vec_Ok [OF this order_refl] show ?thesis
    by (auto simp: multisig_of_def example_signed_account_def Multisig_to_vec_def
        example_multisig_account_def)
qed

lemma example_signed_counts:
  "signature_count example_signed = 1" "unat (ms_num_signed example_signed) = 1"
  "\<not> ms_num_signers example_signed \<le> 1" "length example_zero_id = 32"
  by (simp_all add: example_signed_def signature_count_def example_zero_id_def word_le_nat_alt)

theorem unsign_multisig_correct_witness:
  "unsign_multisig example_zero_id example_signed_account
     (example_multisig_account\<lparr> acc_key := replicate 32 9, acc_is_signer := True \<rparr>) =
   (Err (farm_error AccountNotAuthorized), example_signed_account)"
proof -
  let ?k = "example_multisig_account\<lparr> acc_key := replicate 32 9, acc_is_signer := True \<rparr>"
  have "replicate 32 (9 :: u8) \<noteq> example_zero_id"
  proof
    assume "replicate 32 (9 :: u8) = example_zero_id"
    from arg_cong [OF this, of hd] show False by (simp add: example_zero_id_def)
  qed
  moreover have "replicate 32 (9 :: u8) \<noteq> replicate 32 1" "replicate 32 (9 :: u8) \<noteq> replicate 32 2"
    by simp_all
  ultimately have "replicate 32 9 \<notin> set (ms_signers example_signed)"
    by (simp add: example_signed_def example_keys_def)
  then show ?thesis
    using unsign_multisig_correct [OF _ example_signed_stored, of ?k] example_signed_counts
    by (auto split: if_splits)
qed

text \<open>\<open>is_signer\<close> on an initialised multisig holds for the stored signers, and also, as long as
  there are fewer than six of them, for the placeholder key that pads the array.\<close>

theorem multisig_is_signer_exact:
  assumes "length zero_id = 32" and "multisig_of zero_id acc m"
  shows "multisig_is_signer zero_id acc admin key =
    Ok (key \<in> set (take (unat (ms_num_signers m)) (ms_signers m)) \<or>
        unat (ms_num_signers m) < 6 \<and> key = zero_id)"
proof -
  have u: "Multisig_unpack zero_id (acc_data acc) = Ok m" and lam: "acc_lamports acc > 0"
    using assms(2) by (simp_all add: multisig_of_def)
  note v = Multisig_unpack_valid(1) [OF u assms(1)]
  note d = valid_multisigD [OF v]
  let ?n = "unat (ms_num_signers m)"
  have "drop ?n (ms_signers m) = replicate (6 - ?n) zero_id"
    using v d by (auto intro!: nth_equalityI simp: valid_multisig_def MAX_SIGNERS_def)
  then have "set (ms_signers m) = set (take ?n (ms_signers m)) \<union> set (replicate (6 - ?n) zero_id)"
    by (metis append_take_drop_id set_append)
  then have mem: "key \<in> set (ms_signers m) \<longleftrightarrow>
      key \<in> set (take ?n (ms_signers m)) \<or> ?n < 6 \<and> key = zero_id" by auto
  have "(case get_signer_index m key of Ok _ \<Rightarrow> True | _ \<Rightarrow> False) \<longleftrightarrow> key \<in> set (ms_signers m)"
    using get_signer_index_cases [OF d(2), of key] d(2) by (auto simp: in_set_conv_nth)
  then show ?thesis using mem lam
    by (simp add: multisig_is_signer_def account_exists_def account_unpack_def u)
qed

theorem multisig_is_signer_exact_witness:
  "multisig_is_signer example_zero_id example_signed_account (replicate 32 4) example_zero_id = Ok True"
  using multisig_is_signer_exact [OF _ example_signed_stored, of "replicate 32 4" example_zero_id]
  by (simp add: example_zero_id_def example_signed_def)

end
