(* ===== verification/Pool_Contract.thy ===== *)
theory Pool_Contract
  imports Account
begin

text \<open>
  What a pool of two tokens owes to those who trade with it, independent of the protocol behind it. The
  quotes for swaps, deposits and withdrawals that \<open>program/protocol/raydium.rs\<close> and
  \<open>program/protocol/orca.rs\<close> compute both satisfy the contract, and what follows from it is proved here
  once.
\<close>

section \<open>The constant-product formula\<close>

lemma constant_product:
  fixes x y dx :: nat
  assumes "e = y * dx div (x + dx)"
  shows "x * y \<le> (x + dx) * (y - e)" and "e \<le> y" and "0 < x \<Longrightarrow> 0 < y \<Longrightarrow> e < y"
proof -
  have m: "e * (x + dx) \<le> y * dx" using assms by simp
  also have "\<dots> \<le> y * (x + dx)" by simp
  finally have ye: "e * (x + dx) \<le> y * (x + dx)" .
  show le: "e \<le> y"
  proof (cases "x + dx = 0")
    case False
    then show ?thesis using ye by (metis mult_le_cancel2 neq0_conv)
  qed (simp add: assms)
  have "(x + dx) * (y - e) = (x + dx) * y - (x + dx) * e" by (rule diff_mult_distrib2)
  also have "\<dots> \<ge> (x + dx) * y - y * dx" using m by (simp add: mult.commute diff_le_mono2)
  finally show "x * y \<le> (x + dx) * (y - e)" by (simp add: algebra_simps)
  assume xy: "0 < x" "0 < y"
  have "y * dx < y * (x + dx)" using xy by simp
  then have "e * (x + dx) < y * (x + dx)" using m by linarith
  then show "e < y" by simp
qed

text \<open>\<open>out\<close> is at most what the formula pays for an input of which at most \<open>amount\<close> counts.\<close>

definition cp_out :: "u64 \<Rightarrow> u64 \<Rightarrow> u64 \<Rightarrow> u64 \<Rightarrow> bool" where
  "cp_out x y amount out \<longleftrightarrow>
     (\<exists>(nf :: u64) (e :: u64). unat nf \<le> unat amount \<and> unat e = unat y * unat nf div (unat x + unat nf) \<and> unat out \<le> unat e)"

lemma cp_out_safe:
  assumes "cp_out x y amount out" and "x \<noteq> 0" and "y \<noteq> 0"
  shows "unat out < unat y" and "unat x * unat y \<le> (unat x + unat amount) * (unat y - unat out)"
proof -
  obtain nf e :: u64 where na: "unat nf \<le> unat amount" and re: "unat out \<le> unat e"
    and e: "unat e = unat y * unat nf div (unat x + unat nf)"
    using assms(1) by (auto simp: cp_out_def)
  note c = constant_product [OF e]
  have pos: "0 < unat x" "0 < unat y" using assms(2,3) by (simp_all add: unat_gt_0)
  show "unat out < unat y" using c(3) [OF pos] re by simp
  have "(unat x + unat nf) * (unat y - unat e) \<le> (unat x + unat amount) * (unat y - unat out)"
    using re na by (intro mult_le_mono) simp_all
  then show "unat x * unat y \<le> (unat x + unat amount) * (unat y - unat out)" using c(1) by linarith
qed

section \<open>The quotes\<close>

text \<open>
  The parts both protocols share: the output of a swap for a given fee, where another 3\% is taken from
  the estimate as slippage, and the missing amount of a deposit.
\<close>

definition fee_swap_out :: "u64 \<Rightarrow> u64 \<Rightarrow> u64 \<Rightarrow> u64 \<Rightarrow> u64 \<Rightarrow> u64 result" where
  "fee_swap_out fee_numerator fee_denominator balance_in balance_out amount_in =
     bind (get_no_fee_amount amount_in fee_numerator fee_denominator) (\<lambda>amount_in_no_fee.
     bind (bind (checked_mul (ucast balance_out :: u128) (ucast amount_in_no_fee)) (\<lambda>p.
           bind (checked_add (ucast balance_in) (ucast amount_in_no_fee)) (\<lambda>s.
           bind (checked_div p s) checked_as_u64))) (\<lambda>estimated.
       get_no_fee_amount estimated 3 100))"

lemma no_fee_le: "get_no_fee_amount a n d = Ok r \<Longrightarrow> r \<le> a \<and> (a \<noteq> 0 \<longrightarrow> r < a)"
  by (auto simp: get_no_fee_amount_Ok_iff word_le_nat_alt word_less_nat_alt split: if_splits)

lemma unat_dec: "Suc 0 < unat (x :: u64) \<Longrightarrow> unat (x - 1) = unat x - 1"
  by (rule unat_minus_one) auto

lemma fee_swap_out_cp: "fee_swap_out n d x y amount = Ok r \<Longrightarrow> cp_out x y amount r"
proof -
  assume "fee_swap_out n d x y amount = Ok r"
  then obtain nf p q c e where
    nf: "get_no_fee_amount amount n d = Ok nf"
    and p: "checked_mul (ucast y :: u128) (ucast nf) = Ok p"
    and q: "checked_add (ucast x :: u128) (ucast nf) = Ok q"
    and c: "checked_div p q = Ok c" and e: "checked_as_u64 c = Ok e"
    and r: "get_no_fee_amount e 3 100 = Ok r"
    by (auto simp: fee_swap_out_def bind_Ok_iff)
  have "unat c = unat y * unat nf div (unat x + unat nf)"
    using p q c by (simp add: checked_mul_Ok_iff checked_add_Ok_iff checked_div_Ok_iff)
  moreover have "unat e = unat c"
    using e by (auto simp: checked_as_u64_def unsigned_ucast_eq take_bit_nat_eq_self split: if_splits)
  ultimately have "unat e = unat y * unat nf div (unat x + unat nf)" by simp
  moreover have "unat nf \<le> unat amount" "unat r \<le> unat e"
    using no_fee_le [OF nf] no_fee_le [OF r] by (simp_all add: word_le_nat_alt)
  ultimately show "cp_out x y amount r" unfolding cp_out_def by blast
qed

section \<open>The contract\<close>

locale pool_quotes =
  fixes balances :: "'p \<Rightarrow> (u64 \<times> u64) result"
    and lp_supply :: "'p \<Rightarrow> u64 result"
    and swap :: "'p \<Rightarrow> u64 \<Rightarrow> u64 \<Rightarrow> (u64 \<times> u64) result"
    and deposit :: "'p \<Rightarrow> u64 \<Rightarrow> u64 \<Rightarrow> (u64 \<times> u64 \<times> u64) result"
    and withdrawal :: "'p \<Rightarrow> u64 \<Rightarrow> (u64 \<times> u64) result"
  assumes swap_law: "balances p = Ok (x, y) \<Longrightarrow> swap p a_in b_in = Ok (i, out) \<Longrightarrow>
      x \<noteq> 0 \<and> y \<noteq> 0 \<and> (if a_in = 0 then i = b_in \<and> cp_out y x b_in out else i = a_in \<and> cp_out x y a_in out)"
    and deposit_law: "balances p = Ok (x, y) \<Longrightarrow> x \<noteq> 0 \<Longrightarrow> y \<noteq> 0 \<Longrightarrow> lp_supply p = Ok s \<Longrightarrow>
      deposit p max_a max_b = Ok (lp, a, b) \<Longrightarrow>
      (\<exists>(u :: u64) (v :: u64). unat u = unat a * unat s div unat x \<and> unat v = unat b * unat s div unat y \<and> lp = min u v) \<and>
      (max_a \<noteq> 0 \<longrightarrow> a = max_a) \<and> (max_b \<noteq> 0 \<longrightarrow> b = max_b) \<and>
      (max_b = 0 \<longrightarrow> unat b = unat y * unat a div unat x + 1) \<and>
      (max_a = 0 \<longrightarrow> unat a \<le> unat x * unat b div unat y)"
    and withdrawal_law: "balances p = Ok (x, y) \<Longrightarrow> lp_supply p = Ok s \<Longrightarrow> s \<noteq> 0 \<Longrightarrow>
      withdrawal p lp = Ok (a, b) \<Longrightarrow>
      unat a = unat x * unat lp div unat s \<and> unat b = unat y * unat lp div unat s"
begin

lemma swap_safe:
  assumes "balances p = Ok (x, y)" and "swap p a_in b_in = Ok (i, out)"
  shows "if a_in = 0
     then i = b_in \<and> unat out < unat x \<and> unat y * unat x \<le> (unat y + unat b_in) * (unat x - unat out)
     else i = a_in \<and> unat out < unat y \<and> unat x * unat y \<le> (unat x + unat a_in) * (unat y - unat out)"
  using swap_law [OF assms] cp_out_safe [of x y a_in out] cp_out_safe [of y x b_in out]
  by (simp split: if_splits)

text \<open>Selling what a swap has paid, after the pool has settled, never returns more than was put in.\<close>

lemma swap_back_no_gain:
  assumes "balances p = Ok (x, y)" and "swap p a_in 0 = Ok (i, out)" and "a_in \<noteq> 0"
    and "balances q = Ok (x', y')" and "unat x' = unat x + unat a_in" and "unat y' = unat y - unat out"
    and "swap q 0 out = Ok (j, back)"
  shows "unat back \<le> unat a_in"
proof -
  have 1: "unat out < unat y" "unat x * unat y \<le> unat x' * unat y'"
    using swap_safe [OF assms(1,2)] assms(3,5,6) by simp_all
  have 2: "unat back < unat x'" "unat y' * unat x' \<le> (unat y' + unat out) * (unat x' - unat back)"
    using swap_safe [OF assms(4,7)] by simp_all
  have "unat y' + unat out = unat y" using 1(1) assms(6) by simp
  then have "unat x * unat y \<le> (unat x' - unat back) * unat y"
    using order_trans [OF 1(2) 2(2) [unfolded mult.commute [of "unat y'"]]] by (simp only: mult.commute)
  moreover have "0 < unat y" using 1(1) by simp
  ultimately have "unat x \<le> unat x' - unat back" by simp
  then show ?thesis using assms(5) 2(1) by simp
qed

lemma withdrawal_shares:
  assumes "balances p = Ok (x, y)" and "lp_supply p = Ok s" and "s \<noteq> 0" and "withdrawal p lp = Ok (a, b)"
  shows "unat a = unat x * unat lp div unat s \<and> unat b = unat y * unat lp div unat s \<and>
    (unat lp \<le> unat s \<longrightarrow> unat a \<le> unat x \<and> unat b \<le> unat y)"
proof -
  have "n * unat lp div unat s \<le> n" if "unat lp \<le> unat s" for n :: nat
  proof -
    have "n * unat lp div unat s \<le> n * unat s div unat s"
      using that by (intro div_le_mono mult_le_mono2)
    also have "\<dots> \<le> n" by simp
    finally show ?thesis .
  qed
  with withdrawal_law [OF assms] show ?thesis by simp
qed

lemma deposit_bounds:
  assumes "balances p = Ok (x, y)" and "x \<noteq> 0" and "y \<noteq> 0" and "lp_supply p = Ok s"
    and "deposit p max_a max_b = Ok (lp, a, b)"
  shows "unat lp * unat x \<le> unat a * unat s \<and> unat lp * unat y \<le> unat b * unat s \<and>
    (max_a \<noteq> 0 \<longrightarrow> a = max_a) \<and> (max_b \<noteq> 0 \<longrightarrow> b = max_b) \<and>
    (max_b = 0 \<longrightarrow> unat y * unat a < unat b * unat x) \<and>
    (max_a = 0 \<longrightarrow> unat a * unat y \<le> unat x * unat b)"
proof -
  note law = deposit_law [OF assms]
  then obtain u v :: u64 where uv: "unat u = unat a * unat s div unat x" "unat v = unat b * unat s div unat y"
    and lp: "lp = min u v" by auto
  have "unat lp \<le> unat u" "unat lp \<le> unat v" unfolding lp by (simp_all add: word_le_nat_alt [symmetric])
  then have "unat lp * unat x \<le> unat u * unat x" "unat lp * unat y \<le> unat v * unat y" by simp_all
  then have l: "unat lp * unat x \<le> unat a * unat s" "unat lp * unat y \<le> unat b * unat s"
    unfolding uv using div_times_less_eq_dividend le_trans by blast+
  have "0 < unat x" using assms(2) by (simp add: unat_gt_0)
  then have "unat y * unat a < (unat y * unat a div unat x + 1) * unat x"
    by (metis add.commute dividend_less_div_times mult.commute mult_Suc plus_1_eq_Suc)
  then have g: "max_b = 0 \<longrightarrow> unat y * unat a < unat b * unat x" using law by simp
  have "unat a * unat y \<le> unat x * unat b" if "max_a = 0"
    using law that mult_le_mono1 [of "unat a" "unat x * unat b div unat y" "unat y"]
      div_times_less_eq_dividend [of "unat x * unat b" "unat y"] by linarith
  then show ?thesis using l law g by blast
qed

text \<open>Depositing the quoted amounts and withdrawing the LP tokens again returns at most the deposit.\<close>

lemma deposit_withdrawal_no_gain:
  assumes "balances p = Ok (x, y)" and "x \<noteq> 0" and "y \<noteq> 0" and "lp_supply p = Ok s"
    and "deposit p max_a max_b = Ok (lp, a, b)"
    and "balances q = Ok (x', y')" and "unat x' = unat x + unat a" and "unat y' = unat y + unat b"
    and "lp_supply q = Ok s'" and "unat s' = unat s + unat lp" and "s' \<noteq> 0"
    and "withdrawal q lp = Ok (a', b')"
  shows "unat a' \<le> unat a \<and> unat b' \<le> unat b"
proof -
  have share: "(n + d) * unat lp div unat s' \<le> d" if "unat lp * n \<le> d * unat s" for n d :: nat
  proof -
    have "(n + d) * unat lp \<le> d * unat s'" using that assms(10) by (simp add: algebra_simps)
    then have "(n + d) * unat lp div unat s' \<le> d * unat s' div unat s'" by (rule div_le_mono)
    also have "\<dots> \<le> d" by simp
    finally show ?thesis .
  qed
  have "unat a' = (unat x + unat a) * unat lp div unat s'" "unat b' = (unat y + unat b) * unat lp div unat s'"
    using withdrawal_law [OF assms(6,9,11,12)] assms(7,8) by simp_all
  then show ?thesis using share deposit_bounds [OF assms(1-5)] by simp
qed

end

end
