(* ===== verification/Wire.thy ===== *)
theory Wire
  imports Farm_Pack
begin

text \<open>
  Byte layouts built from consecutive windows, as the macros \<open>mut_array_refs!\<close> and \<open>array_refs!\<close> of
  the crate \<open>arrayref\<close> cut them, and the contract of a self-delimiting codec as the locale \<open>wire\<close>.
  The metadata records and the instructions of the SDK are built this way. An \<open>f32\<close> or \<open>f64\<close> is
  represented by its bits, which is what \<open>to_le_bytes\<close> stores; an \<open>i64\<close> by its 64 bits.
\<close>

type_synonym f32_bits = u32
type_synonym f64_bits = u64
type_synonym i64_bits = u64

section \<open>Windows\<close>

text \<open>A window is a length and what is written into it, given what it held.\<close>

type_synonym window = "nat \<times> (bytes \<Rightarrow> bytes)"

fun mut_array_refs :: "window list \<Rightarrow> bytes \<Rightarrow> bytes" where
  "mut_array_refs [] output = output"
| "mut_array_refs ((n, f) # fs) output = f (take n output) @ mut_array_refs fs (drop n output)"

fun array_refs :: "nat list \<Rightarrow> bytes \<Rightarrow> bytes list" where
  "array_refs [] input = []"
| "array_refs (n # ns) input = take n input # array_refs ns (drop n input)"

text \<open>\<open>*out = bytes\<close>, \<open>out.copy_from_slice(bytes)\<close> and \<open>out[0] = byte\<close> on a window of that length.\<close>

definition put :: "bytes \<Rightarrow> bytes \<Rightarrow> bytes" where
  "put bs = (\<lambda>_. bs)"

definition bool_as_u8 :: "bool \<Rightarrow> u8" where
  "bool_as_u8 b = (if b then 1 else 0)"

text \<open>What the windows leave in a zeroed buffer, when each keeps its length.\<close>

definition encode :: "window list \<Rightarrow> bytes" where
  "encode fs = concat (map (\<lambda>(n, f). f (replicate n 0)) fs)"

definition windows_fit :: "window list \<Rightarrow> bool" where
  "windows_fit fs \<longleftrightarrow> list_all (\<lambda>(n, f). length (f (replicate n 0)) = n) fs"

lemma windows_fit_simps [simp]:
  "windows_fit []"
  "windows_fit ((n, f) # fs) \<longleftrightarrow> length (f (replicate n 0)) = n \<and> windows_fit fs"
  by (simp_all add: windows_fit_def)

lemma encode_simps [simp]:
  "encode [] = []"
  "encode ((n, f) # fs) = f (replicate n 0) @ encode fs"
  by (simp_all add: encode_def)

lemma length_encode: "windows_fit fs \<Longrightarrow> length (encode fs) = sum_list (map fst fs)"
  by (induction fs) auto

lemma mut_array_refs_zeros:
  "windows_fit fs \<Longrightarrow> sum_list (map fst fs) \<le> n \<Longrightarrow>
     mut_array_refs fs (replicate n 0) = encode fs @ replicate (n - sum_list (map fst fs)) 0"
proof (induction fs arbitrary: n)
  case (Cons w fs)
  then show ?case by (cases w) (simp add: min_absorb1 diff_diff_left [symmetric] del: diff_diff_left)
qed simp

lemma array_refs_encode:
  "windows_fit fs \<Longrightarrow> array_refs (map fst fs) (encode fs @ rest) = map (\<lambda>(n, f). f (replicate n 0)) fs"
  by (induction fs) auto

lemma array_refs_take: "sum_list ns \<le> k \<Longrightarrow> array_refs ns (take k xs) = array_refs ns xs"
  by (induction ns arbitrary: k xs) (auto simp: min_absorb1 drop_take)

lemma length_array_refs [simp]: "length (array_refs ns xs) = length ns"
  by (induction ns arbitrary: xs) auto

text \<open>The pieces of a long enough buffer have the lengths of the windows.\<close>

definition shaped :: "nat list \<Rightarrow> bytes list \<Rightarrow> bool" where
  "shaped ns refs \<longleftrightarrow> list_all2 (\<lambda>n r. length r = n) ns refs"

lemma shaped_simps [simp]:
  "shaped [] refs \<longleftrightarrow> refs = []"
  "shaped (n # ns) refs \<longleftrightarrow> (\<exists>r rs. refs = r # rs \<and> length r = n \<and> shaped ns rs)"
  by (auto simp: shaped_def list_all2_Cons1)

lemma shaped_array_refs: "sum_list ns \<le> length xs \<Longrightarrow> shaped ns (array_refs ns xs)"
  by (induction ns arbitrary: xs) auto

text \<open>Writing and reading the windows, from the start of a buffer or behind a tag.\<close>

lemma read_windows:
  assumes "windows_fit fs" and "map fst fs = ns" and "n = sum_list ns"
  shows "bind (array_ref (encode fs @ rest) 0 n) (\<lambda>input. decode (array_refs ns input)) =
      decode (map (\<lambda>(n, f). f (replicate n 0)) fs)"
    and "bind (array_ref (tag # encode fs @ rest) 1 n) (\<lambda>input. decode (array_refs ns input)) =
      decode (map (\<lambda>(n, f). f (replicate n 0)) fs)"
proof -
  have "length (encode fs) = n" using assms length_encode by simp
  then have "array_ref (encode fs @ rest) 0 n = Ok (encode fs)"
    and "array_ref (tag # encode fs @ rest) 1 n = Ok (encode fs)" by (simp_all add: slice_def)
  moreover have "array_refs ns (encode fs) = map (\<lambda>(n, f). f (replicate n 0)) fs"
    using array_refs_encode [OF assms(1), of "[]"] assms(2) by simp
  ultimately show "bind (array_ref (encode fs @ rest) 0 n) (\<lambda>input. decode (array_refs ns input)) =
      decode (map (\<lambda>(n, f). f (replicate n 0)) fs)"
    and "bind (array_ref (tag # encode fs @ rest) 1 n) (\<lambda>input. decode (array_refs ns input)) =
      decode (map (\<lambda>(n, f). f (replicate n 0)) fs)" by simp_all
qed

lemma write_tagged:
  assumes "windows_fit fs" and "n = sum_list (map fst fs) + 1"
  shows "mut_array_refs ((1, put [tag]) # fs) (replicate (m + n) 0) = tag # encode fs @ replicate m 0"
  using mut_array_refs_zeros [OF assms(1), of "m + n - 1"] assms(2) by (simp add: put_def)

section \<open>Fields in a zeroed window\<close>

lemma put_simp [simp]: "put bs w = bs"
  by (simp add: put_def)

lemma set_tag: "mut_array_refs [(Suc 0, put [tag])] (b # bs) = tag # bs"
  by (simp add: put_def)

lemma unpack_bool_as_u8 [simp]: "unpack_bool [bool_as_u8 b] = Ok b"
  by (simp add: unpack_bool_def bool_as_u8_def)

lemma pack_bool_zero [simp]: "pack_bool b [w] = [bool_as_u8 b]"
  by (simp add: pack_bool_def bool_as_u8_def splice_def)

definition valid_key :: "pubkey \<Rightarrow> bool" where
  "valid_key k \<longleftrightarrow> length k = 32"

definition valid_key_opt :: "pubkey option \<Rightarrow> bool" where
  "valid_key_opt k \<longleftrightarrow> (case k of None \<Rightarrow> True | Some x \<Rightarrow> valid_key x)"

lemma option_u32_zeros [simp]:
  "length (pack_option_u32 v (replicate 5 0)) = 5"
  "unpack_option_u32 (pack_option_u32 v (replicate 5 0)) = Ok v"
  by (cases v; simp add: pack_option_u32_def unpack_option_u32_def splice_def slice_def Let_def)+

lemma option_key_zeros [simp]:
  assumes "valid_key_opt v"
  shows "length (pack_option_key v (replicate 33 0)) = 33"
    and "unpack_option_key (pack_option_key v (replicate 33 0)) = Ok v"
  using assms
  by (cases v; simp add: pack_option_key_def unpack_option_key_def splice_def slice_def Let_def
      valid_key_opt_def valid_key_def)+

lemma string64_zeros [simp]:
  "length (pack_array_string64 nm (replicate 64 0)) = 64"
  "packable_name utf8 nm \<Longrightarrow> unpack_array_string64 utf8 (pack_array_string64 nm (replicate 64 0)) = Ok nm"
  using name_round_trip [of "replicate 64 0" utf8 nm] by simp_all

text \<open>The bytes of a string and of an optional number, as a zeroed window ends up with them.\<close>

definition string64_bytes :: "ArrayString64 \<Rightarrow> bytes" where
  "string64_bytes nm = nm @ replicate (64 - length nm) 0"

definition option_u32_bytes :: "u32 option \<Rightarrow> bytes" where
  "option_u32_bytes v = (case v of None \<Rightarrow> replicate 5 0 | Some x \<Rightarrow> 1 # to_le_bytes x)"

lemma pack_array_string64_bytes:
  assumes "packable_name utf8 nm"
  shows "pack_array_string64 nm (replicate 64 0) = string64_bytes nm"
proof -
  have "splice 0 [0] (replicate 64 0) = replicate 64 (0 :: u8)"
    by (rule nth_equalityI) (simp_all add: splice_nth nth_Cons')
  then show ?thesis
    using assms by (simp add: pack_array_string64_def string64_bytes_def packable_name_def splice_def)
qed

lemma string64_bytes_simps [simp]:
  assumes "packable_name utf8 nm"
  shows "length (string64_bytes nm) = 64" and "unpack_array_string64 utf8 (string64_bytes nm) = Ok nm"
  using string64_zeros(1) [of nm] string64_zeros(2) [of utf8 nm] assms by (simp_all add: pack_array_string64_bytes [OF assms])

lemma pack_option_u32_bytes: "pack_option_u32 v (replicate 5 0) = option_u32_bytes v"
proof -
  have "replicate 5 0 = [0, 0, 0, 0, (0 :: u8)]" by (simp add: numeral_eq_Suc)
  then show ?thesis by (cases v) (simp_all add: pack_option_u32_def option_u32_bytes_def splice_def)
qed

lemma option_u32_bytes_simps [simp]:
  "length (option_u32_bytes v) = 5" "unpack_option_u32 (option_u32_bytes v) = Ok v"
  using option_u32_zeros [of v] by (simp_all add: pack_option_u32_bytes)

lemma unpack_option_key_valid:
  "unpack_option_key bs = Ok v \<Longrightarrow> length bs = 33 \<Longrightarrow> valid_key_opt v"
  by (auto simp: unpack_option_key_def Let_def valid_key_opt_def valid_key_def split: if_splits)

lemmas field_valid = unpack_array_string64_packable unpack_option_key_valid

lemma unpack_no_panic [no_panic]:
  "unpack_bool bs \<noteq> Panic" "unpack_option_u32 bs \<noteq> Panic" "unpack_option_key bs \<noteq> Panic"
  "ok_or v e \<noteq> Panic" "Ok x \<noteq> Panic" "Err e \<noteq> Panic" "check_data_len data n \<noteq> Panic"
  "unpack_array_string64 utf8 bs \<noteq> Panic"
  by (simp_all add: unpack_bool_def unpack_option_u32_def unpack_option_key_def Let_def result_simps)

lemma fst_seq_Err: "fst m = Err e \<Longrightarrow> fst (seq m f) = Err e"
  by (cases m) simp

lemma checked_no_panic [no_panic]:
  "(n \<le> length input \<Longrightarrow> f () \<noteq> Panic) \<Longrightarrow> bind (check_data_len input n) f \<noteq> Panic"
  by (simp add: check_data_len_def)

section \<open>Self-delimiting codecs\<close>

text \<open>\<open>x.pack(&mut output[off..])\<close>.\<close>

definition pack_from ::
  "usize \<Rightarrow> ('a \<Rightarrow> bytes \<Rightarrow> (usize, bytes) effect) \<Rightarrow> 'a \<Rightarrow> bytes \<Rightarrow> (usize, bytes) effect" where
  "pack_from off pack x output =
     (if off \<le> length output then
        (case pack x (drop off output) of (r, tail) \<Rightarrow> (r, take off output @ tail))
      else (Panic, output))"

text \<open>\<open>to_vec\<close> packs into a zeroed array and cuts it; a failure becomes the given error.\<close>

definition to_vec_or ::
  "ProgramError \<Rightarrow> usize \<Rightarrow> ('a \<Rightarrow> bytes \<Rightarrow> (usize, bytes) effect) \<Rightarrow> 'a \<Rightarrow> bytes result" where
  "to_vec_or err len pack x =
     (case pack x (replicate len 0) of
        (Ok n, output) \<Rightarrow> (if n \<le> length output then Ok (take n output) else Panic)
      | (Err _, _) \<Rightarrow> Err err
      | (Panic, _) \<Rightarrow> Panic)"

text \<open>
  The contract of a codec with the wire format \<open>enc\<close>: \<open>pack\<close> writes the format to the front of a
  zeroed buffer and refuses one that is too short; \<open>unpack\<close> reads it back whatever follows, gives only
  values that can be packed, and never panics, whatever it is given.
\<close>

locale wire =
  fixes enc :: "'a \<Rightarrow> bytes"
    and pack :: "'a \<Rightarrow> bytes \<Rightarrow> (usize, bytes) effect"
    and unpack :: "bytes \<Rightarrow> 'a result"
    and valid :: "'a \<Rightarrow> bool"
  assumes pack_enc: "valid x \<Longrightarrow> length (enc x) \<le> n \<Longrightarrow>
      pack x (replicate n 0) = (Ok (length (enc x)), enc x @ replicate (n - length (enc x)) 0)"
    and pack_short: "valid x \<Longrightarrow> length output < length (enc x) \<Longrightarrow>
      fst (pack x output) = Err AccountDataTooSmall"
    and unpack_enc: "valid x \<Longrightarrow> unpack (enc x @ rest) = Ok x"
    and unpack_total: "unpack input \<noteq> Panic"
    and unpack_valid: "unpack input = Ok x \<Longrightarrow> valid x"
begin

lemma pack_from_prefix:
  assumes "valid x" and "length (enc x) \<le> n" and "off = length h"
  shows "pack_from off pack x (h @ replicate n 0) =
      (Ok (length (enc x)), h @ enc x @ replicate (n - length (enc x)) 0)"
  using assms by (simp add: pack_from_def pack_enc)

lemma pack_from_enc:
  assumes "valid x" and "length (enc x) \<le> n"
  shows "pack_from 1 pack x (t # replicate n 0) =
      (Ok (length (enc x)), t # enc x @ replicate (n - length (enc x)) 0)"
  using pack_from_prefix [OF assms, of 1 "[t]"] by simp

lemma pack_from_zeros:
  assumes "valid x" and "length (enc x) + 1 \<le> n"
  shows "pack_from 1 pack x (replicate n 0) =
      (Ok (length (enc x)), 0 # enc x @ replicate (n - (length (enc x) + 1)) 0)"
  using pack_from_enc [OF assms(1), of "n - 1" 0] assms(2) by (cases n) simp_all

lemma pack_from_short:
  "valid x \<Longrightarrow> out \<noteq> [] \<Longrightarrow> length out < Suc (length (enc x)) \<Longrightarrow>
     fst (pack_from 1 pack x out) = Err AccountDataTooSmall"
  using pack_short [of x "drop 1 out"]
  by (cases out) (auto simp: pack_from_def split: prod.splits)

lemma unpack_from_total:
  "inp \<noteq> [] \<Longrightarrow> bind (slice_from inp 1) (\<lambda>inp. bind (unpack inp) (\<lambda>x. Ok (c x))) \<noteq> Panic"
  using unpack_total by (cases inp) (simp_all add: bind_Panic_iff)

lemma to_vec_enc: "valid x \<Longrightarrow> length (enc x) \<le> n \<Longrightarrow> to_vec_or e n pack x = Ok (enc x)"
  by (simp add: to_vec_or_def pack_enc)

lemma to_vec_round_trip:
  "valid x \<Longrightarrow> length (enc x) \<le> n \<Longrightarrow> bind (to_vec_or e n pack x) unpack = Ok x"
  using unpack_enc [of x "[]"] by (simp add: to_vec_enc)

text \<open>What was read can be written, and reads the same again.\<close>

lemma reencode: "unpack input = Ok x \<Longrightarrow> length (enc x) \<le> n \<Longrightarrow> bind (to_vec_or e n pack x) unpack = Ok x"
  by (rule to_vec_round_trip [OF unpack_valid])

text \<open>No encoding is a proper prefix of another.\<close>

lemma enc_prefix_free:
  assumes "valid x" and "valid y" and "enc x @ r = enc y @ s"
  shows "x = y \<and> r = s"
proof -
  have "Ok x = Ok y" using unpack_enc assms by metis
  then show ?thesis using assms(3) by simp
qed

lemma to_vec_decodes:
  "valid x \<Longrightarrow> length (enc x) \<le> n \<Longrightarrow>
     \<exists>data. to_vec_or e n pack x = Ok data \<and> length data \<le> n \<and> (\<forall>rest. unpack (data @ rest) = Ok x)"
  by (simp add: to_vec_enc unpack_enc)

lemma to_vec_prefix_free:
  assumes "valid x" and "valid y" and "length (enc x) \<le> n" and "length (enc y) \<le> n"
    and "to_vec_or e n pack x = Ok a" and "to_vec_or e n pack y = Ok b" and "a @ r = b @ s"
  shows "x = y \<and> r = s"
  using enc_prefix_free [OF assms(1,2)] assms by (simp add: to_vec_enc)

lemma to_vec_short:
  "valid x \<Longrightarrow> n < length (enc x) \<Longrightarrow> to_vec_or e n pack x = Err e"
  using pack_short [of x "replicate n 0"] by (auto simp: to_vec_or_def split: prod.splits)

end

text \<open>
  Records whose layout is one row of windows: what \<open>pack\<close> and \<open>unpack\<close> do is determined by the
  windows and by the reading of the fields, and the contract follows from it.
\<close>

locale windowed =
  fixes fields :: "'a \<Rightarrow> window list"
    and LEN :: usize
    and widths :: "nat list"
    and decode :: "bytes list \<Rightarrow> 'a result"
    and pack :: "'a \<Rightarrow> bytes \<Rightarrow> (usize, bytes) effect"
    and unpack :: "bytes \<Rightarrow> 'a result"
    and valid :: "'a \<Rightarrow> bool"
  assumes pack_eq: "pack x out = seq (pure_in out (check_data_len out LEN)) (\<lambda>_ out.
      (Ok LEN, mut_array_refs (fields x) out))"
    and unpack_eq: "unpack inp = bind (check_data_len inp LEN) (\<lambda>_.
      bind (array_ref inp 0 LEN) (\<lambda>inp. decode (array_refs widths inp)))"
    and LEN_eq: "sum_list widths = LEN"
    and fields_widths: "map fst (fields x) = widths"
    and fields_fit: "valid x \<Longrightarrow> windows_fit (fields x)"
    and decode_fields: "valid x \<Longrightarrow> decode (map (\<lambda>(n, f). f (replicate n 0)) (fields x)) = Ok x"
    and decode_total: "decode (array_refs widths inp) \<noteq> Panic"
    and decode_valid: "shaped widths refs \<Longrightarrow> decode refs = Ok x \<Longrightarrow> valid x"
begin

lemma length_fields: "valid x \<Longrightarrow> length (encode (fields x)) = LEN"
  using length_encode [OF fields_fit] by (simp add: fields_widths LEN_eq)

end

sublocale windowed \<subseteq> wire "\<lambda>x. encode (fields x)" pack unpack valid
proof
  fix x n and out inp rest :: bytes
  assume v: "valid x"
  note len = length_fields [OF v]
  show "length (encode (fields x)) \<le> n \<Longrightarrow> pack x (replicate n 0) =
      (Ok (length (encode (fields x))), encode (fields x) @ replicate (n - length (encode (fields x))) 0)"
    using mut_array_refs_zeros [OF fields_fit [OF v]] by (simp add: pack_eq len fields_widths LEN_eq)
  show "length out < length (encode (fields x)) \<Longrightarrow> fst (pack x out) = Err AccountDataTooSmall"
    by (simp add: pack_eq len)
  show "unpack (encode (fields x) @ rest) = Ok x"
    using read_windows(1) [OF fields_fit [OF v] fields_widths LEN_eq [symmetric], of rest decode]
    by (simp add: unpack_eq len decode_fields [OF v])
next
  fix inp :: bytes
  show "unpack inp \<noteq> Panic"
    by (cases "length inp < LEN") (simp_all add: unpack_eq decode_total)
  fix x assume "unpack inp = Ok x"
  then have "LEN \<le> length inp" and d: "decode (array_refs widths (slice 0 LEN inp)) = Ok x"
    by (auto simp: unpack_eq result_simps)
  then have "shaped widths (array_refs widths (slice 0 LEN inp))" by (intro shaped_array_refs) (simp add: LEN_eq)
  from decode_valid [OF this d] show "valid x" .
qed

text \<open>
  The same behind a tag, for the variant of an enumeration: \<open>fields\<close> is \<open>None\<close> for values of another
  variant, which \<open>pack\<close> refuses. Reading does not look at the tag; the caller has done that.
\<close>

locale tagged =
  fixes fields :: "'a \<Rightarrow> window list option"
    and tag :: u8
    and LEN :: usize
    and widths :: "nat list"
    and decode :: "bytes list \<Rightarrow> 'a result"
    and pack :: "'a \<Rightarrow> bytes \<Rightarrow> (usize, bytes) effect"
    and unpack :: "bytes \<Rightarrow> 'a result"
    and valid :: "'a \<Rightarrow> bool"
  assumes pack_eq: "pack x out = seq (pure_in out (check_data_len out LEN)) (\<lambda>_ out.
      (case fields x of
         Some fs \<Rightarrow> (Ok LEN, mut_array_refs ((1, put [tag]) # fs) out)
       | None \<Rightarrow> (Err InvalidAccountData, out)))"
    and unpack_eq: "unpack inp = bind (check_data_len inp LEN) (\<lambda>_.
      bind (array_ref inp 1 (LEN - 1)) (\<lambda>inp. decode (array_refs widths inp)))"
    and LEN_eq: "LEN = sum_list widths + 1"
    and fields_widths: "fields x = Some fs \<Longrightarrow> map fst fs = widths"
    and fields_fit: "valid x \<Longrightarrow> fields x = Some fs \<Longrightarrow> windows_fit fs"
    and decode_fields: "valid x \<Longrightarrow> fields x = Some fs \<Longrightarrow>
      decode (map (\<lambda>(n, f). f (replicate n 0)) fs) = Ok x"
    and decode_total: "decode (array_refs widths inp) \<noteq> Panic"
    and decode_valid: "shaped widths refs \<Longrightarrow> decode refs = Ok x \<Longrightarrow> valid x \<and> fields x \<noteq> None"
begin

lemma unpack_any_tag:
  assumes "valid x" and "fields x = Some fs"
  shows "unpack (t # encode fs @ rest) = Ok x"
  using read_windows(2) [OF fields_fit [OF assms] fields_widths [OF assms(2)], of "LEN - 1" t rest decode]
    length_encode [OF fields_fit [OF assms]] decode_fields [OF assms] fields_widths [OF assms(2)]
  by (simp add: unpack_eq LEN_eq)

end

sublocale tagged \<subseteq> wire "\<lambda>x. tag # encode (the (fields x))" pack unpack "\<lambda>x. valid x \<and> fields x \<noteq> None"
proof
  fix x n and out inp rest :: bytes
  assume "valid x \<and> fields x \<noteq> None"
  then obtain fs where v: "valid x" and fs: "fields x = Some fs" by auto
  note fit = fields_fit [OF v fs] and ws = fields_widths [OF fs]
  have len: "length (tag # encode (the (fields x))) = LEN"
    using length_encode [OF fit] by (simp add: fs ws LEN_eq)
  show "length (tag # encode (the (fields x))) \<le> n \<Longrightarrow> pack x (replicate n 0) =
      (Ok (length (tag # encode (the (fields x)))),
       (tag # encode (the (fields x))) @ replicate (n - length (tag # encode (the (fields x)))) 0)"
    using write_tagged [OF fit, of LEN tag "n - LEN"] unfolding len
    by (simp add: pack_eq fs ws LEN_eq del: mut_array_refs.simps)
  show "length out < length (tag # encode (the (fields x))) \<Longrightarrow> fst (pack x out) = Err AccountDataTooSmall"
    unfolding len by (simp add: pack_eq)
  show "unpack ((tag # encode (the (fields x))) @ rest) = Ok x"
    using unpack_any_tag [OF v fs] by (simp add: fs)
next
  fix inp :: bytes
  show "unpack inp \<noteq> Panic"
    by (cases "length inp < LEN") (simp_all add: unpack_eq decode_total LEN_eq)
  fix x assume "unpack inp = Ok x"
  then have "LEN \<le> length inp" and d: "decode (array_refs widths (slice 1 (LEN - 1) inp)) = Ok x"
    by (auto simp: unpack_eq result_simps LEN_eq)
  then have "shaped widths (array_refs widths (slice 1 (LEN - 1) inp))"
    by (intro shaped_array_refs) (simp add: LEN_eq)
  from decode_valid [OF this d] show "valid x \<and> fields x \<noteq> None" .
qed

end
