(* ===== verification/Orca_Pool.thy ===== *)
theory Orca_Pool
  imports Pool_Contract Wire
begin

text \<open>
  The Orca part of \<open>crates/solana_farm_sdk\<close>: the on-chain structures and the amount computations of
  \<open>program/protocol/orca.rs\<close>. The ids of the programs are the decoded base-58 literals of the source. The
  computations on \<open>f64\<close> (\<open>ORCA_FEE\<close>) have no use in the module.
\<close>

section \<open>Program ids\<close>

definition orca_swap_id :: pubkey where
  "orca_swap_id =
     [126, 84, 119, 26, 87, 166, 241, 76, 169, 228, 2, 213, 74, 238, 69, 247,
      55, 138, 202, 54, 92, 123, 22, 154, 126, 200, 63, 81, 130, 178, 152, 240]"

definition orca_stake_id :: pubkey where
  "orca_stake_id =
     [104, 131, 203, 149, 92, 194, 191, 206, 41, 41, 27, 217, 185, 249, 86, 230,
      249, 58, 188, 91, 17, 5, 45, 85, 22, 6, 96, 238, 76, 187, 186, 121]"

definition orca_check_pool_program_id :: "pubkey \<Rightarrow> bool" where
  "orca_check_pool_program_id program_id \<longleftrightarrow> program_id = orca_swap_id"

definition orca_check_stake_program_id :: "pubkey \<Rightarrow> bool" where
  "orca_check_stake_program_id program_id \<longleftrightarrow> program_id = orca_stake_id"

definition ORCA_FEE_NUMERATOR :: u64 where "ORCA_FEE_NUMERATOR = 3"
definition ORCA_FEE_DENOMINATOR :: u64 where "ORCA_FEE_DENOMINATOR = 1000"

section \<open>Stake and farm accounts\<close>

record OrcaUserStakeInfo =
  osi_is_initialized :: u8
  osi_account_type :: u8
  osi_global_farm :: pubkey
  osi_owner :: pubkey
  osi_base_tokens_converted :: u64
  osi_cumulative_emissions_checkpoint :: bytes

definition OrcaUserStakeInfo_LEN :: usize where "OrcaUserStakeInfo_LEN = 106"

definition OrcaUserStakeInfo_unpack :: "bytes \<Rightarrow> OrcaUserStakeInfo result" where
  "OrcaUserStakeInfo_unpack input =
     bind (check_data_len input OrcaUserStakeInfo_LEN) (\<lambda>_.
     bind (array_ref input 0 OrcaUserStakeInfo_LEN) (\<lambda>input.
       (case array_refs [1, 1, 32, 32, 8, 32] input of
          [is_initialized, account_type, global_farm, owner, base_tokens_converted,
           cumulative_emissions_checkpoint] \<Rightarrow>
            Ok \<lparr> osi_is_initialized = is_initialized ! 0, osi_account_type = account_type ! 0,
                 osi_global_farm = global_farm, osi_owner = owner,
                 osi_base_tokens_converted = from_le_bytes base_tokens_converted,
                 osi_cumulative_emissions_checkpoint = cumulative_emissions_checkpoint \<rparr>
        | _ \<Rightarrow> Panic)))"

record OrcaFarmState =
  ofs_is_initialized :: u8
  ofs_account_type :: u8
  ofs_nonce :: u8
  ofs_token_program :: pubkey
  ofs_emissions_authority :: pubkey
  ofs_remove_rewards_authority :: pubkey
  ofs_base_token_mint :: pubkey
  ofs_base_token_vault :: pubkey
  ofs_reward_token_vault :: pubkey
  ofs_farm_token_mint :: pubkey
  ofs_emissions_per_sec_numerator :: u64
  ofs_emissions_per_sec_denominator :: u64
  ofs_last_updated_timestamp :: u64
  ofs_cumulative_emissions_per_farm_token :: bytes

definition OrcaFarmState_LEN :: usize where "OrcaFarmState_LEN = 283"

definition OrcaFarmState_unpack :: "bytes \<Rightarrow> OrcaFarmState result" where
  "OrcaFarmState_unpack input =
     bind (check_data_len input OrcaFarmState_LEN) (\<lambda>_.
     bind (array_ref input 0 OrcaFarmState_LEN) (\<lambda>input.
       (case array_refs [1, 1, 1, 32, 32, 32, 32, 32, 32, 32, 8, 8, 8, 32] input of
          [is_initialized, account_type, nonce, token_program, emissions_authority, remove_rewards_authority,
           base_token_mint, base_token_vault, reward_token_vault, farm_token_mint,
           emissions_per_sec_numerator, emissions_per_sec_denominator, last_updated_timestamp,
           cumulative_emissions_per_farm_token] \<Rightarrow>
            Ok \<lparr> ofs_is_initialized = is_initialized ! 0, ofs_account_type = account_type ! 0,
                 ofs_nonce = nonce ! 0, ofs_token_program = token_program,
                 ofs_emissions_authority = emissions_authority,
                 ofs_remove_rewards_authority = remove_rewards_authority,
                 ofs_base_token_mint = base_token_mint, ofs_base_token_vault = base_token_vault,
                 ofs_reward_token_vault = reward_token_vault, ofs_farm_token_mint = farm_token_mint,
                 ofs_emissions_per_sec_numerator = from_le_bytes emissions_per_sec_numerator,
                 ofs_emissions_per_sec_denominator = from_le_bytes emissions_per_sec_denominator,
                 ofs_last_updated_timestamp = from_le_bytes last_updated_timestamp,
                 ofs_cumulative_emissions_per_farm_token = cumulative_emissions_per_farm_token \<rparr>
        | _ \<Rightarrow> Panic)))"

definition orca_get_stake_account_balance :: "AccountInfo \<Rightarrow> u64 result" where
  "orca_get_stake_account_balance stake_account =
     bind (OrcaUserStakeInfo_unpack (acc_data stake_account)) (\<lambda>i. Ok (osi_base_tokens_converted i))"

section \<open>Amounts\<close>

definition orca_get_pool_token_balances :: "AccountInfo \<Rightarrow> AccountInfo \<Rightarrow> (u64 \<times> u64) result" where
  "orca_get_pool_token_balances pool_token_a_account pool_token_b_account =
     bind (get_token_balance pool_token_a_account) (\<lambda>a.
     bind (get_token_balance pool_token_b_account) (\<lambda>b. Ok (a, b)))"

definition orca_estimate_lp_tokens_amount :: "AccountInfo \<Rightarrow> u64 \<Rightarrow> u64 \<Rightarrow> u64 \<Rightarrow> u64 \<Rightarrow> u64 result" where
  "orca_estimate_lp_tokens_amount lp_token_mint token_a_deposit token_b_deposit pool_token_a_balance pool_token_b_balance =
     (if pool_token_a_balance \<noteq> 0 \<and> pool_token_b_balance \<noteq> 0 then
        bind (bind (get_token_supply lp_token_mint) (\<lambda>lp_supply.
                mul_div_u64 token_a_deposit lp_supply pool_token_a_balance)) (\<lambda>a.
        bind (bind (get_token_supply lp_token_mint) (\<lambda>lp_supply.
                mul_div_u64 token_b_deposit lp_supply pool_token_b_balance)) (\<lambda>b.
          Ok (min a b)))
      else if pool_token_a_balance \<noteq> 0 then
        bind (get_token_supply lp_token_mint) (\<lambda>lp_supply.
          mul_div_u64 token_a_deposit lp_supply pool_token_a_balance)
      else if pool_token_b_balance \<noteq> 0 then
        bind (get_token_supply lp_token_mint) (\<lambda>lp_supply.
          mul_div_u64 token_b_deposit lp_supply pool_token_b_balance)
      else Ok 0)"

definition orca_get_pool_deposit_amounts ::
  "AccountInfo \<Rightarrow> AccountInfo \<Rightarrow> AccountInfo \<Rightarrow> u64 \<Rightarrow> u64 \<Rightarrow> (u64 \<times> u64 \<times> u64) result" where
  "orca_get_pool_deposit_amounts pool_token_a_account pool_token_b_account lp_token_mint
     max_token_a_amount max_token_b_amount =
     (if max_token_a_amount = 0 \<and> max_token_b_amount = 0 then Err InvalidArgument
      else
        bind (orca_get_pool_token_balances pool_token_a_account pool_token_b_account)
          (\<lambda>(token_a_balance, token_b_balance).
          if token_a_balance = 0 \<or> token_b_balance = 0 then
            (if max_token_a_amount = 0 \<or> max_token_b_amount = 0 then Err InvalidArgument
             else Ok (1, max_token_a_amount, max_token_b_amount))
          else
            bind (if max_token_a_amount = 0 then
                    bind (mul_div_u64 token_a_balance max_token_b_amount token_b_balance)
                      (\<lambda>estimated_coin_amount.
                        Ok (if estimated_coin_amount > 1 then estimated_coin_amount - 1 else 0,
                            max_token_b_amount))
                  else if max_token_b_amount = 0 then
                    bind (bind (mul_div_u64 token_b_balance max_token_a_amount token_a_balance)
                            (\<lambda>e. checked_add e 1)) (\<lambda>token_b_amount.
                      Ok (max_token_a_amount, token_b_amount))
                  else Ok (max_token_a_amount, max_token_b_amount))
              (\<lambda>(token_a_amount, token_b_amount).
                bind (orca_estimate_lp_tokens_amount lp_token_mint token_a_amount token_b_amount
                        token_a_balance token_b_balance) (\<lambda>min_lp_tokens_out.
                  Ok (min_lp_tokens_out, token_a_amount, token_b_amount)))))"

definition orca_get_pool_withdrawal_amounts ::
  "AccountInfo \<Rightarrow> AccountInfo \<Rightarrow> AccountInfo \<Rightarrow> u64 \<Rightarrow> (u64 \<times> u64) result" where
  "orca_get_pool_withdrawal_amounts pool_token_a_account pool_token_b_account lp_token_mint lp_token_amount =
     (if lp_token_amount = 0 then Err InvalidArgument
      else
        bind (orca_get_pool_token_balances pool_token_a_account pool_token_b_account)
          (\<lambda>(token_a_balance, token_b_balance).
          if token_a_balance = 0 \<and> token_b_balance = 0 then Ok (0, 0)
          else
            bind (get_token_supply lp_token_mint) (\<lambda>lp_token_supply.
              if lp_token_supply = 0 then Ok (0, 0)
              else
                bind (mul_div_u64 token_a_balance lp_token_amount lp_token_supply) (\<lambda>a.
                bind (mul_div_u64 token_b_balance lp_token_amount lp_token_supply) (\<lambda>b.
                  Ok (a, b))))))"

text \<open>The two branches of \<open>get_pool_swap_amounts\<close> differ only in the side they read.\<close>

definition orca_swap_out :: "u64 \<Rightarrow> u64 \<Rightarrow> u64 \<Rightarrow> u64 result" where
  "orca_swap_out balance_in balance_out amount_in =
     bind (get_no_fee_amount amount_in ORCA_FEE_NUMERATOR ORCA_FEE_DENOMINATOR) (\<lambda>no_fee.
       (let amount_in_no_fee = ucast no_fee :: u128 in
        bind (checked_mul (ucast balance_out) amount_in_no_fee) (\<lambda>p.
        bind (checked_add (ucast balance_in) amount_in_no_fee) (\<lambda>q.
        bind (checked_div p q) (\<lambda>d.
        bind (checked_as_u64 d) (\<lambda>estimated_amount.
          get_no_fee_amount estimated_amount 3 100))))))"

definition orca_get_pool_swap_amounts ::
  "AccountInfo \<Rightarrow> AccountInfo \<Rightarrow> u64 \<Rightarrow> u64 \<Rightarrow> (u64 \<times> u64) result" where
  "orca_get_pool_swap_amounts pool_token_a_account pool_token_b_account token_a_amount_in token_b_amount_in =
     (if (token_a_amount_in = 0 \<and> token_b_amount_in = 0) \<or>
         (token_a_amount_in > 0 \<and> token_b_amount_in > 0)
      then Err InvalidArgument
      else
        bind (orca_get_pool_token_balances pool_token_a_account pool_token_b_account)
          (\<lambda>(token_a_balance, token_b_balance).
          if token_a_balance = 0 \<or> token_b_balance = 0 then Err (farm_error EmptyPool)
          else if token_a_amount_in = 0 then
            bind (orca_swap_out token_b_balance token_a_balance token_b_amount_in) (\<lambda>a.
              Ok (token_b_amount_in, a))
          else
            bind (orca_swap_out token_a_balance token_b_balance token_a_amount_in) (\<lambda>a.
              Ok (token_a_amount_in, a))))"

section \<open>The contract of the quotes\<close>

lemma orca_swap_out_eq:
  "orca_swap_out x y amount = fee_swap_out ORCA_FEE_NUMERATOR ORCA_FEE_DENOMINATOR x y amount"
  by (simp add: orca_swap_out_def fee_swap_out_def Let_def)

text \<open>A pool is given by \<open>pool_token_a_account\<close>, \<open>pool_token_b_account\<close> and \<open>lp_token_mint\<close>.\<close>

interpretation orca: pool_quotes
  "\<lambda>(a, b, mint). orca_get_pool_token_balances a b"
  "\<lambda>(a, b, mint). get_token_supply mint"
  "\<lambda>(a, b, mint). orca_get_pool_swap_amounts a b"
  "\<lambda>(a, b, mint). orca_get_pool_deposit_amounts a b mint"
  "\<lambda>(a, b, mint). orca_get_pool_withdrawal_amounts a b mint"
proof (unfold_locales, goal_cases)
  case (1 p x y a_in b_in i out)
  then show ?case
    by (cases p) (auto simp: orca_get_pool_swap_amounts_def bind_Ok_iff orca_swap_out_eq
        intro: fee_swap_out_cp split: if_splits)
next
  case (2 p x y s max_a max_b lp a b)
  obtain ta tb mint where p: "p = (ta, tb, mint)" by (cases p)
  with 2 have est: "orca_estimate_lp_tokens_amount mint a b x y = Ok lp"
    and rest: "(max_a \<noteq> 0 \<longrightarrow> a = max_a) \<and> (max_b \<noteq> 0 \<longrightarrow> b = max_b) \<and>
      (max_b = 0 \<longrightarrow> unat b = unat y * unat a div unat x + 1) \<and>
      (max_a = 0 \<longrightarrow> unat a \<le> unat x * unat b div unat y)"
    by (auto simp: orca_get_pool_deposit_amounts_def bind_Ok_iff mul_div_u64_Ok_iff checked_add_Ok_iff
        unat_dec word_less_nat_alt split: if_splits)
  from est 2 p have "\<exists>(u :: u64) (v :: u64). unat u = unat a * unat s div unat x \<and>
      unat v = unat b * unat s div unat y \<and> lp = min u v"
    by (auto simp: orca_estimate_lp_tokens_amount_def bind_Ok_iff mul_div_u64_Ok_iff)
  with rest show ?case by blast
next
  case (3 p x y s lp a b)
  then show ?case
    by (cases p) (auto simp: orca_get_pool_withdrawal_amounts_def bind_Ok_iff mul_div_u64_Ok_iff split: if_splits)
qed

end
