(* ===== verification/Raydium_Pool.thy ===== *)
theory Raydium_Pool
  imports Pool_Contract
begin

text \<open>
  The Raydium part of \<open>crates/solana_farm_sdk\<close>: the on-chain structures and the amount
  computations of \<open>program/protocol/raydium.rs\<close>. The ids of the program are the decoded base-58
  literals of the source.
\<close>

section \<open>Program ids\<close>

definition raydium_v2_id :: pubkey where
  "raydium_v2_id =
     [6, 69, 246, 79, 220, 187, 0, 119, 77, 26, 248, 137, 2, 164, 13, 182,
      80, 212, 12, 41, 218, 185, 4, 86, 201, 187, 11, 142, 46, 167, 60, 207]"

definition raydium_v3_id :: pubkey where
  "raydium_v3_id =
     [16, 147, 14, 90, 177, 4, 111, 9, 208, 119, 49, 181, 250, 32, 64, 112,
      202, 211, 171, 164, 205, 246, 151, 136, 208, 202, 2, 134, 245, 50, 160, 71]"

definition raydium_v4_id :: pubkey where
  "raydium_v4_id =
     [75, 217, 73, 196, 54, 2, 195, 63, 32, 119, 144, 237, 22, 163, 82, 76,
      161, 185, 151, 92, 241, 33, 162, 169, 12, 255, 236, 125, 248, 182, 138, 205]"

definition raydium_stake_id :: pubkey where
  "raydium_stake_id =
     [203, 148, 231, 87, 73, 16, 164, 107, 38, 209, 158, 32, 199, 23, 128, 188,
      97, 204, 33, 114, 251, 42, 172, 229, 110, 76, 254, 1, 216, 214, 190, 247]"

definition raydium_stake_v4_id :: pubkey where
  "raydium_stake_v4_id =
     [2, 221, 182, 176, 119, 214, 236, 246, 174, 217, 69, 35, 153, 26, 133, 219,
      39, 167, 247, 117, 74, 176, 18, 12, 137, 216, 10, 212, 216, 181, 218, 36]"

definition raydium_stake_v5_id :: pubkey where
  "raydium_stake_v5_id =
     [123, 137, 23, 250, 26, 10, 89, 193, 22, 51, 132, 229, 123, 202, 83, 82,
      69, 21, 191, 128, 113, 75, 167, 227, 123, 241, 51, 40, 17, 56, 66, 239]"

definition check_pool_program_id :: "pubkey \<Rightarrow> bool" where
  "check_pool_program_id program_id \<longleftrightarrow>
     program_id = raydium_v2_id \<or> program_id = raydium_v3_id \<or> program_id = raydium_v4_id"

definition check_stake_program_id :: "pubkey \<Rightarrow> bool" where
  "check_stake_program_id program_id \<longleftrightarrow>
     program_id = raydium_stake_id \<or> program_id = raydium_stake_v4_id \<or>
     program_id = raydium_stake_v5_id"

definition RAYDIUM_FEE_NUMERATOR :: u64 where "RAYDIUM_FEE_NUMERATOR = 25"
definition RAYDIUM_FEE_DENOMINATOR :: u64 where "RAYDIUM_FEE_DENOMINATOR = 10000"

section \<open>Stake accounts\<close>

record RaydiumUserStakeInfo =
  si_state :: u64
  si_farm_id :: pubkey
  si_stake_owner :: pubkey
  si_deposit_balance :: u64
  si_reward_debt :: u64

record RaydiumUserStakeInfoV4 =
  si4_state :: u64
  si4_farm_id :: pubkey
  si4_stake_owner :: pubkey
  si4_deposit_balance :: u64
  si4_reward_debt :: u64
  si4_reward_debt_b :: u64

definition RaydiumUserStakeInfo_LEN :: usize where "RaydiumUserStakeInfo_LEN = 88"
definition RaydiumUserStakeInfoV4_LEN :: usize where "RaydiumUserStakeInfoV4_LEN = 96"

definition RaydiumUserStakeInfo_unpack :: "bytes \<Rightarrow> RaydiumUserStakeInfo result" where
  "RaydiumUserStakeInfo_unpack input =
     bind (check_data_len input RaydiumUserStakeInfo_LEN) (\<lambda>_.
     bind (array_ref input 0 RaydiumUserStakeInfo_LEN) (\<lambda>input.
       Ok \<lparr> si_state = from_le_bytes (slice 0 8 input),
            si_farm_id = slice 8 32 input,
            si_stake_owner = slice 40 32 input,
            si_deposit_balance = from_le_bytes (slice 72 8 input),
            si_reward_debt = from_le_bytes (slice 80 8 input) \<rparr>))"

definition RaydiumUserStakeInfoV4_unpack :: "bytes \<Rightarrow> RaydiumUserStakeInfoV4 result" where
  "RaydiumUserStakeInfoV4_unpack input =
     bind (check_data_len input RaydiumUserStakeInfoV4_LEN) (\<lambda>_.
     bind (array_ref input 0 RaydiumUserStakeInfoV4_LEN) (\<lambda>input.
       Ok \<lparr> si4_state = from_le_bytes (slice 0 8 input),
            si4_farm_id = slice 8 32 input,
            si4_stake_owner = slice 40 32 input,
            si4_deposit_balance = from_le_bytes (slice 72 8 input),
            si4_reward_debt = from_le_bytes (slice 80 8 input),
            si4_reward_debt_b = from_le_bytes (slice 88 8 input) \<rparr>))"

definition get_stake_account_balance :: "AccountInfo \<Rightarrow> u64 result" where
  "get_stake_account_balance stake_account =
     (let data = acc_data stake_account in
      if length data = RaydiumUserStakeInfoV4_LEN
      then bind (RaydiumUserStakeInfoV4_unpack data) (\<lambda>i. Ok (si4_deposit_balance i))
      else if length data = RaydiumUserStakeInfo_LEN
      then bind (RaydiumUserStakeInfo_unpack data) (\<lambda>i. Ok (si_deposit_balance i))
      else Err InvalidAccountData)"

section \<open>The pool account\<close>

record AmmInfoV4 =
  ai_status :: u64
  ai_nonce :: u64
  ai_order_num :: u64
  ai_depth :: u64
  ai_coin_decimals :: u64
  ai_pc_decimals :: u64
  ai_state :: u64
  ai_reset_flag :: u64
  ai_min_size :: u64
  ai_vol_max_cut_ratio :: u64
  ai_amount_wave :: u64
  ai_coin_lot_size :: u64
  ai_pc_lot_size :: u64
  ai_min_price_multiplier :: u64
  ai_max_price_multiplier :: u64
  ai_sys_decimal_value :: u64
  ai_min_separate_numerator :: u64
  ai_min_separate_denominator :: u64
  ai_trade_fee_numerator :: u64
  ai_trade_fee_denominator :: u64
  ai_pnl_numerator :: u64
  ai_pnl_denominator :: u64
  ai_swap_fee_numerator :: u64
  ai_swap_fee_denominator :: u64
  ai_need_take_pnl_coin :: u64
  ai_need_take_pnl_pc :: u64
  ai_total_pnl_pc :: u64
  ai_total_pnl_coin :: u64
  ai_pool_total_deposit_pc :: u128
  ai_pool_total_deposit_coin :: u128
  ai_swap_coin_in_amount :: u128
  ai_swap_pc_out_amount :: u128
  ai_swap_coin_to_pc_fee :: u64
  ai_swap_pc_in_amount :: u128
  ai_swap_coin_out_amount :: u128
  ai_swap_pc_to_coin_fee :: u64
  ai_token_coin :: pubkey
  ai_token_pc :: pubkey
  ai_coin_mint :: pubkey
  ai_pc_mint :: pubkey
  ai_lp_mint :: pubkey
  ai_open_orders :: pubkey
  ai_market :: pubkey
  ai_serum_dex :: pubkey
  ai_target_orders :: pubkey
  ai_withdraw_queue :: pubkey
  ai_token_temp_lp :: pubkey
  ai_amm_owner :: pubkey
  ai_pnl_owner :: pubkey

definition AmmInfoV4_LEN :: usize where "AmmInfoV4_LEN = 752"

definition AmmInfoV4_unpack :: "bytes \<Rightarrow> AmmInfoV4 result" where
  "AmmInfoV4_unpack input =
     bind (check_data_len input AmmInfoV4_LEN) (\<lambda>_.
     bind (array_ref input 0 AmmInfoV4_LEN) (\<lambda>input.
       Ok \<lparr>
         ai_status = from_le_bytes (slice 0 8 input),
         ai_nonce = from_le_bytes (slice 8 8 input),
         ai_order_num = from_le_bytes (slice 16 8 input),
         ai_depth = from_le_bytes (slice 24 8 input),
         ai_coin_decimals = from_le_bytes (slice 32 8 input),
         ai_pc_decimals = from_le_bytes (slice 40 8 input),
         ai_state = from_le_bytes (slice 48 8 input),
         ai_reset_flag = from_le_bytes (slice 56 8 input),
         ai_min_size = from_le_bytes (slice 64 8 input),
         ai_vol_max_cut_ratio = from_le_bytes (slice 72 8 input),
         ai_amount_wave = from_le_bytes (slice 80 8 input),
         ai_coin_lot_size = from_le_bytes (slice 88 8 input),
         ai_pc_lot_size = from_le_bytes (slice 96 8 input),
         ai_min_price_multiplier = from_le_bytes (slice 104 8 input),
         ai_max_price_multiplier = from_le_bytes (slice 112 8 input),
         ai_sys_decimal_value = from_le_bytes (slice 120 8 input),
         ai_min_separate_numerator = from_le_bytes (slice 128 8 input),
         ai_min_separate_denominator = from_le_bytes (slice 136 8 input),
         ai_trade_fee_numerator = from_le_bytes (slice 144 8 input),
         ai_trade_fee_denominator = from_le_bytes (slice 152 8 input),
         ai_pnl_numerator = from_le_bytes (slice 160 8 input),
         ai_pnl_denominator = from_le_bytes (slice 168 8 input),
         ai_swap_fee_numerator = from_le_bytes (slice 176 8 input),
         ai_swap_fee_denominator = from_le_bytes (slice 184 8 input),
         ai_need_take_pnl_coin = from_le_bytes (slice 192 8 input),
         ai_need_take_pnl_pc = from_le_bytes (slice 200 8 input),
         ai_total_pnl_pc = from_le_bytes (slice 208 8 input),
         ai_total_pnl_coin = from_le_bytes (slice 216 8 input),
         ai_pool_total_deposit_pc = from_le_bytes (slice 224 16 input),
         ai_pool_total_deposit_coin = from_le_bytes (slice 240 16 input),
         ai_swap_coin_in_amount = from_le_bytes (slice 256 16 input),
         ai_swap_pc_out_amount = from_le_bytes (slice 272 16 input),
         ai_swap_coin_to_pc_fee = from_le_bytes (slice 288 8 input),
         ai_swap_pc_in_amount = from_le_bytes (slice 296 16 input),
         ai_swap_coin_out_amount = from_le_bytes (slice 312 16 input),
         ai_swap_pc_to_coin_fee = from_le_bytes (slice 328 8 input),
         ai_token_coin = slice 336 32 input,
         ai_token_pc = slice 368 32 input,
         ai_coin_mint = slice 400 32 input,
         ai_pc_mint = slice 432 32 input,
         ai_lp_mint = slice 464 32 input,
         ai_open_orders = slice 496 32 input,
         ai_market = slice 528 32 input,
         ai_serum_dex = slice 560 32 input,
         ai_target_orders = slice 592 32 input,
         ai_withdraw_queue = slice 624 32 input,
         ai_token_temp_lp = slice 656 32 input,
         ai_amm_owner = slice 688 32 input,
         ai_pnl_owner = slice 720 32 input \<rparr>))"

section \<open>Amounts\<close>

text \<open>\<open>balance.checked_sub(x)\<close> with zero instead of a failure.\<close>

definition sub_or_zero :: "u64 \<Rightarrow> u64 \<Rightarrow> u64" where
  "sub_or_zero a b = (if b \<le> a then a - b else 0)"

definition get_pool_token_balances ::
  "AccountInfo \<Rightarrow> AccountInfo \<Rightarrow> AccountInfo \<Rightarrow> AccountInfo \<Rightarrow> (u64 \<times> u64) result" where
  "get_pool_token_balances pool_coin_token_account pool_pc_token_account amm_open_orders amm_id =
     bind (get_token_balance pool_coin_token_account) (\<lambda>token_a_balance.
     bind (get_token_balance pool_pc_token_account) (\<lambda>token_b_balance.
     bind (if length (acc_data amm_open_orders) = 3228 then
             bind (array_ref (acc_data amm_open_orders) 85 8) (\<lambda>base_token_total.
             bind (array_ref (acc_data amm_open_orders) 101 8) (\<lambda>quote_token_total.
             bind (checked_add token_a_balance (from_le_bytes base_token_total)) (\<lambda>a.
             bind (checked_add token_b_balance (from_le_bytes quote_token_total)) (\<lambda>b.
               Ok (a, b)))))
           else Ok (token_a_balance, token_b_balance)) (\<lambda>(token_a_balance, token_b_balance).
       (let (pnl_coin_offset, pnl_pc_offset) =
              (if length (acc_data amm_id) = 624 then (136, 144)
               else if length (acc_data amm_id) = 680 then (144, 152)
               else if length (acc_data amm_id) = 752 then (192, 200)
               else (0, 0 :: nat))
        in if pnl_coin_offset > 0 then
             bind (array_ref (acc_data amm_id) pnl_coin_offset 8) (\<lambda>need_take_pnl_coin.
             bind (array_ref (acc_data amm_id) pnl_pc_offset 8) (\<lambda>need_take_pnl_pc.
               Ok (sub_or_zero token_a_balance (from_le_bytes need_take_pnl_coin),
                   sub_or_zero token_b_balance (from_le_bytes need_take_pnl_pc))))
           else Ok (token_a_balance, token_b_balance)))))"

definition estimate_lp_tokens_amount ::
  "AccountInfo \<Rightarrow> u64 \<Rightarrow> u64 \<Rightarrow> u64 \<Rightarrow> u64 \<Rightarrow> u64 result" where
  "estimate_lp_tokens_amount lp_token_mint token_a_deposit token_b_deposit pool_coin_balance pool_pc_balance =
     (if pool_coin_balance \<noteq> 0 \<and> pool_pc_balance \<noteq> 0 then
        bind (bind (get_token_supply lp_token_mint) (\<lambda>supply.
                mul_div_u64 token_a_deposit supply pool_coin_balance)) (\<lambda>a.
        bind (bind (get_token_supply lp_token_mint) (\<lambda>supply.
                mul_div_u64 token_b_deposit supply pool_pc_balance)) (\<lambda>b.
          Ok (min a b)))
      else if pool_coin_balance \<noteq> 0 then
        bind (get_token_supply lp_token_mint) (\<lambda>supply.
          mul_div_u64 token_a_deposit supply pool_coin_balance)
      else if pool_pc_balance \<noteq> 0 then
        bind (get_token_supply lp_token_mint) (\<lambda>supply.
          mul_div_u64 token_b_deposit supply pool_pc_balance)
      else Ok 0)"

definition get_pool_deposit_amounts ::
  "AccountInfo \<Rightarrow> AccountInfo \<Rightarrow> AccountInfo \<Rightarrow> AccountInfo \<Rightarrow> AccountInfo \<Rightarrow> u64 \<Rightarrow> u64
     \<Rightarrow> (u64 \<times> u64 \<times> u64) result" where
  "get_pool_deposit_amounts pool_coin_token_account pool_pc_token_account lp_token_mint
     amm_open_orders amm_id max_coin_token_amount max_pc_token_amount =
     (if max_coin_token_amount = 0 \<and> max_pc_token_amount = 0 then Err InvalidArgument
      else
        bind (get_pool_token_balances pool_coin_token_account pool_pc_token_account
                amm_open_orders amm_id) (\<lambda>(coin_balance, pc_balance).
          if coin_balance = 0 \<or> pc_balance = 0 then
            (if max_coin_token_amount = 0 \<or> max_pc_token_amount = 0 then Err InvalidArgument
             else Ok (1, max_coin_token_amount, max_pc_token_amount))
          else
            bind (if max_coin_token_amount = 0 then
                    bind (mul_div_u64 coin_balance max_pc_token_amount pc_balance)
                      (\<lambda>estimated_coin_amount.
                        Ok (if estimated_coin_amount > 1 then estimated_coin_amount - 1 else 0,
                            max_pc_token_amount))
                  else if max_pc_token_amount = 0 then
                    bind (bind (mul_div_u64 pc_balance max_coin_token_amount coin_balance)
                            (\<lambda>e. checked_add e 1)) (\<lambda>pc_token_amount.
                      Ok (max_coin_token_amount, pc_token_amount))
                  else Ok (max_coin_token_amount, max_pc_token_amount))
              (\<lambda>(coin_token_amount, pc_token_amount).
                bind (estimate_lp_tokens_amount lp_token_mint coin_token_amount pc_token_amount
                        coin_balance pc_balance) (\<lambda>min_lp_tokens_out.
                  Ok (min_lp_tokens_out, coin_token_amount, pc_token_amount)))))"

definition get_pool_withdrawal_amounts ::
  "AccountInfo \<Rightarrow> AccountInfo \<Rightarrow> AccountInfo \<Rightarrow> AccountInfo \<Rightarrow> AccountInfo \<Rightarrow> u64
     \<Rightarrow> (u64 \<times> u64) result" where
  "get_pool_withdrawal_amounts pool_coin_token_account pool_pc_token_account amm_open_orders amm_id
     lp_token_mint lp_token_amount =
     (if lp_token_amount = 0 then Err InvalidArgument
      else
        bind (get_pool_token_balances pool_coin_token_account pool_pc_token_account
                amm_open_orders amm_id) (\<lambda>(coin_balance, pc_balance).
          if coin_balance = 0 \<and> pc_balance = 0 then Ok (0, 0)
          else
            bind (get_token_supply lp_token_mint) (\<lambda>lp_token_supply.
              if lp_token_supply = 0 then Ok (0, 0)
              else
                bind (mul_div_u64 coin_balance lp_token_amount lp_token_supply) (\<lambda>a.
                bind (mul_div_u64 pc_balance lp_token_amount lp_token_supply) (\<lambda>b.
                  Ok (a, b))))))"

text \<open>The two branches of \<open>get_pool_swap_amounts\<close> differ only in the side they read: \<open>reserve_out\<close>
  is the balance of the token received.\<close>

definition swap_out :: "u64 \<Rightarrow> u64 \<Rightarrow> u64 \<Rightarrow> u64 result" where
  "swap_out reserve_in reserve_out amount_in =
     bind (get_no_fee_amount amount_in RAYDIUM_FEE_NUMERATOR RAYDIUM_FEE_DENOMINATOR) (\<lambda>no_fee.
       (let amount_in_no_fee = ucast no_fee :: u128 in
        bind (checked_mul (ucast reserve_out) amount_in_no_fee) (\<lambda>p.
        bind (checked_add (ucast reserve_in) amount_in_no_fee) (\<lambda>q.
        bind (checked_div p q) (\<lambda>d.
        bind (checked_as_u64 d) (\<lambda>estimated_amount.
          get_no_fee_amount estimated_amount 3 100))))))"

definition get_pool_swap_amounts ::
  "AccountInfo \<Rightarrow> AccountInfo \<Rightarrow> AccountInfo \<Rightarrow> AccountInfo \<Rightarrow> u64 \<Rightarrow> u64 \<Rightarrow> (u64 \<times> u64) result" where
  "get_pool_swap_amounts pool_coin_token_account pool_pc_token_account amm_open_orders amm_id
     coin_token_amount_in pc_token_amount_in =
     (if (coin_token_amount_in = 0 \<and> pc_token_amount_in = 0) \<or>
         (coin_token_amount_in > 0 \<and> pc_token_amount_in > 0)
      then Err InvalidArgument
      else
        bind (get_pool_token_balances pool_coin_token_account pool_pc_token_account
                amm_open_orders amm_id) (\<lambda>(coin_balance, pc_balance).
          if coin_balance = 0 \<or> pc_balance = 0 then Err (farm_error EmptyPool)
          else if coin_token_amount_in = 0 then
            bind (swap_out pc_balance coin_balance pc_token_amount_in) (\<lambda>a.
              Ok (pc_token_amount_in, a))
          else
            bind (swap_out coin_balance pc_balance coin_token_amount_in) (\<lambda>a.
              Ok (coin_token_amount_in, a))))"

section \<open>Lemmas\<close>

lemma balances_no_panic [simp]: "get_pool_token_balances c p oo amm \<noteq> Panic"
  unfolding get_pool_token_balances_def
  by (intro no_panic) (auto simp: array_ref_def checked_add_def intro!: no_panic split: prod.splits)

lemma unat_sub_or_zero: "unat (sub_or_zero a b) = unat a - unat b"
  by (simp add: sub_or_zero_def unat_diff_le word_le_nat_alt)

lemma swap_out_eq:
  "swap_out x y amount = fee_swap_out RAYDIUM_FEE_NUMERATOR RAYDIUM_FEE_DENOMINATOR x y amount"
  by (simp add: swap_out_def fee_swap_out_def Let_def bind_assoc)

text \<open>The quotes of the module for a pool given by its accounts, in the order
  \<open>pool_coin_token_account\<close>, \<open>pool_pc_token_account\<close>, \<open>amm_open_orders\<close>, \<open>amm_id\<close>, \<open>lp_token_mint\<close>.\<close>

type_synonym raydium_pool = "AccountInfo \<times> AccountInfo \<times> AccountInfo \<times> AccountInfo \<times> AccountInfo"

interpretation raydium: pool_quotes
  "\<lambda>(coin, pc, orders, amm, mint). get_pool_token_balances coin pc orders amm"
  "\<lambda>(coin, pc, orders, amm, mint). get_token_supply mint"
  "\<lambda>(coin, pc, orders, amm, mint). get_pool_swap_amounts coin pc orders amm"
  "\<lambda>(coin, pc, orders, amm, mint). get_pool_deposit_amounts coin pc mint orders amm"
  "\<lambda>(coin, pc, orders, amm, mint). get_pool_withdrawal_amounts coin pc orders amm mint"
proof (unfold_locales, goal_cases)
  case (1 p x y a_in b_in i out)
  then show ?case
    by (cases p) (auto simp: get_pool_swap_amounts_def bind_Ok_iff swap_out_eq intro: fee_swap_out_cp split: if_splits)
next
  case (2 p x y s max_a max_b lp a b)
  obtain coin pc orders amm mint where p: "p = (coin, pc, orders, amm, mint)" by (cases p)
  with 2 have est: "estimate_lp_tokens_amount mint a b x y = Ok lp"
    and rest: "(max_a \<noteq> 0 \<longrightarrow> a = max_a) \<and> (max_b \<noteq> 0 \<longrightarrow> b = max_b) \<and>
      (max_b = 0 \<longrightarrow> unat b = unat y * unat a div unat x + 1) \<and>
      (max_a = 0 \<longrightarrow> unat a \<le> unat x * unat b div unat y)"
    by (auto simp: get_pool_deposit_amounts_def bind_Ok_iff mul_div_u64_Ok_iff checked_add_Ok_iff
        unat_dec word_less_nat_alt split: if_splits)
  from est 2 p have "\<exists>(u :: u64) (v :: u64). unat u = unat a * unat s div unat x \<and>
      unat v = unat b * unat s div unat y \<and> lp = min u v"
    by (auto simp: estimate_lp_tokens_amount_def bind_Ok_iff mul_div_u64_Ok_iff)
  with rest show ?case by blast
next
  case (3 p x y s lp a b)
  then show ?case
    by (cases p) (auto simp: get_pool_withdrawal_amounts_def bind_Ok_iff mul_div_u64_Ok_iff split: if_splits)
qed

section \<open>Properties\<close>

definition token_account :: "u64 \<Rightarrow> AccountInfo" where
  "token_account n = example_account\<lparr> acc_data := replicate 64 0 @ to_le_bytes n @ replicate 93 0 \<rparr>"

definition mint_account :: "u64 \<Rightarrow> AccountInfo" where
  "mint_account n = example_account\<lparr> acc_data := replicate 36 0 @ to_le_bytes n @ replicate 38 0 \<rparr>"

definition no_data :: AccountInfo where
  "no_data = example_account\<lparr> acc_data := [] \<rparr>"

lemma example_pool_balances: "get_pool_token_balances (token_account a) (token_account b) no_data no_data = Ok (a, b)"
proof -
  have "get_token_balance (token_account n) = Ok n" for n
    by (simp add: get_token_balance_iff token_account_def Account_LEN_def byte_simps)
  then show ?thesis by (simp add: get_pool_token_balances_def no_data_def Let_def)
qed

lemma example_supply: "get_token_supply (mint_account n) = Ok n"
  by (simp add: get_token_supply_iff mint_account_def Mint_LEN_def byte_simps)

text \<open>C8: the output quoted for a swap is smaller than the pool's balance of the token received,
  and paying it for the given input does not decrease the product of the two balances.\<close>

theorem raydium_swap_safe:
  assumes "get_pool_token_balances coin pc orders amm = Ok (c, p)"
    and "get_pool_swap_amounts coin pc orders amm coin_in pc_in = Ok (amount_in, amount_out)"
  shows "if coin_in = 0
     then amount_in = pc_in \<and> unat amount_out < unat c \<and>
       unat p * unat c \<le> (unat p + unat pc_in) * (unat c - unat amount_out)
     else amount_in = coin_in \<and> unat amount_out < unat p \<and>
       unat c * unat p \<le> (unat c + unat coin_in) * (unat p - unat amount_out)"
  by (rule raydium.swap_safe [where p = "(coin, pc, orders, amm, example_account)", unfolded prod.case, OF assms])

lemma example_swap_out: "swap_out 1000000 2000000 10000 = Ok 19160"
proof -
  have "get_no_fee_amount 10000 25 10000 = Ok 9975" "get_no_fee_amount 19752 3 100 = Ok 19160"
    by (simp_all add: get_no_fee_amount_Ok_iff)
  then show ?thesis
    by (simp add: swap_out_def RAYDIUM_FEE_NUMERATOR_def RAYDIUM_FEE_DENOMINATOR_def Let_def
        checked_mul_def checked_add_def checked_div_def checked_as_u64_def)
qed

theorem raydium_swap_safe_witness:
  "get_pool_swap_amounts (token_account 1000000) (token_account 2000000) no_data no_data 10000 0
     = Ok (10000, 19160) \<and>
   (1000000 * 2000000 :: nat) \<le> (1000000 + 10000) * (2000000 - 19160)"
proof -
  have "get_pool_swap_amounts (token_account 1000000) (token_account 2000000) no_data no_data 10000 0
      = Ok (10000, 19160)"
    by (simp add: get_pool_swap_amounts_def example_pool_balances example_swap_out)
  from this raydium_swap_safe [OF example_pool_balances this] show ?thesis by simp
qed

text \<open>The amounts quoted for a withdrawal are the shares of the balances rounded down, and
  never exceed the balances when the LP amount does not exceed the supply.\<close>

theorem raydium_withdrawal_shares:
  assumes "get_pool_token_balances coin pc orders amm = Ok (c, p)"
    and "get_token_supply mint = Ok supply" and "supply \<noteq> 0"
    and "get_pool_withdrawal_amounts coin pc orders amm mint lp = Ok (a, b)"
  shows "unat a = unat c * unat lp div unat supply \<and> unat b = unat p * unat lp div unat supply \<and>
    (unat lp \<le> unat supply \<longrightarrow> unat a \<le> unat c \<and> unat b \<le> unat p)"
  by (rule raydium.withdrawal_shares [where p = "(coin, pc, orders, amm, mint)", unfolded prod.case, OF assms])

theorem raydium_withdrawal_shares_witness:
  "get_pool_withdrawal_amounts (token_account 1000) (token_account 500) no_data no_data
     (mint_account 100) 30 = Ok (300, 150) \<and> unat (300 :: u64) \<le> unat (1000 :: u64)"
proof -
  have "mul_div_u64 1000 30 100 = Ok 300" "mul_div_u64 500 30 100 = Ok 150"
    by (simp_all add: mul_div_u64_Ok_iff)
  then have "get_pool_withdrawal_amounts (token_account 1000) (token_account 500) no_data no_data
      (mint_account 100) 30 = Ok (300, 150)"
    by (simp add: get_pool_withdrawal_amounts_def example_pool_balances example_supply)
  from this raydium_withdrawal_shares [OF example_pool_balances example_supply _ this] show ?thesis by simp
qed

text \<open>The amounts proposed for a deposit into a pool with liquidity keep the amounts the
  caller fixed, derive a missing one from the pool's ratio (strictly more than the exact ratio on
  the pc side, at most it on the coin side), and the minimum LP amount never exceeds the share of
  the supply that either deposit buys.\<close>

theorem raydium_deposit_bounds:
  assumes "get_pool_token_balances coin pc orders amm = Ok (c, p)" and "c \<noteq> 0" and "p \<noteq> 0"
    and "get_token_supply mint = Ok supply"
    and "get_pool_deposit_amounts coin pc mint orders amm max_coin max_pc = Ok (lp, ca, pa)"
  shows "unat lp * unat c \<le> unat ca * unat supply \<and> unat lp * unat p \<le> unat pa * unat supply \<and>
    (max_coin \<noteq> 0 \<longrightarrow> ca = max_coin) \<and> (max_pc \<noteq> 0 \<longrightarrow> pa = max_pc) \<and>
    (max_pc = 0 \<longrightarrow> unat p * unat ca < unat pa * unat c) \<and>
    (max_coin = 0 \<longrightarrow> unat ca * unat p \<le> unat c * unat pa)"
  by (rule raydium.deposit_bounds [where p = "(coin, pc, orders, amm, mint)", unfolded prod.case, OF assms])

theorem raydium_deposit_bounds_witness:
  "get_pool_deposit_amounts (token_account 1000) (token_account 500) (mint_account 100) no_data no_data
     50 0 = Ok (5, 50, 26) \<and> (500 * 50 :: nat) < 26 * 1000"
proof -
  have "mul_div_u64 500 50 1000 = Ok 25" "mul_div_u64 50 100 1000 = Ok 5" "mul_div_u64 26 100 500 = Ok 5"
    by (simp_all add: mul_div_u64_Ok_iff)
  moreover have "checked_add (25 :: u64) 1 = Ok 26" by (simp add: checked_add_Ok_iff)
  ultimately have "get_pool_deposit_amounts (token_account 1000) (token_account 500) (mint_account 100)
      no_data no_data 50 0 = Ok (5, 50, 26)"
    by (simp add: get_pool_deposit_amounts_def example_pool_balances example_supply
        estimate_lp_tokens_amount_def)
  from this raydium_deposit_bounds [OF example_pool_balances _ _ example_supply this] show ?thesis by simp
qed

text \<open>On a version 4 pool account the balances are the token balances, plus the open orders
  when there are any, minus the profit fields that \<open>AmmInfoV4\<close> names, with zero as the lower
  bound: the hard-coded offsets agree with the layout of the structure.\<close>

theorem raydium_balances_v4:
  assumes "get_token_balance coin = Ok a" and "get_token_balance pc = Ok b"
    and "length (acc_data amm) = 752" and "length (acc_data orders) \<noteq> 3228"
  shows "\<exists>info c p. AmmInfoV4_unpack (acc_data amm) = Ok info \<and>
    get_pool_token_balances coin pc orders amm = Ok (c, p) \<and>
    unat c = unat a - unat (ai_need_take_pnl_coin info) \<and>
    unat p = unat b - unat (ai_need_take_pnl_pc info)"
  using assms
  by (simp add: AmmInfoV4_unpack_def AmmInfoV4_LEN_def get_pool_token_balances_def Let_def
      unat_sub_or_zero)

theorem raydium_balances_v4_witness:
  "\<exists>c p. get_pool_token_balances (token_account 9) (token_account 8) no_data
     (no_data\<lparr>acc_data := replicate 752 0\<rparr>) = Ok (c, p)"
proof -
  have "get_token_balance (token_account n) = Ok n" for n
    by (simp add: get_token_balance_iff token_account_def Account_LEN_def byte_simps)
  from raydium_balances_v4 [OF this [of 9] this [of 8], of "no_data\<lparr>acc_data := replicate 752 0\<rparr>" no_data]
  show ?thesis by (auto simp: no_data_def)
qed

end
