(* ===== verification/Solana_Instruction.thy ===== *)
theory Solana_Instruction
  imports Rust_Prelude
begin

text \<open>
  The instructions of the Solana SDK, as the on-chain programs and the off-chain clients build them.
\<close>

record AccountMeta =
  meta_key :: pubkey
  meta_is_signer :: bool
  meta_is_writable :: bool

definition meta_new :: "pubkey \<Rightarrow> bool \<Rightarrow> AccountMeta" where
  "meta_new key signer = \<lparr> meta_key = key, meta_is_signer = signer, meta_is_writable = True \<rparr>"

definition meta_new_readonly :: "pubkey \<Rightarrow> bool \<Rightarrow> AccountMeta" where
  "meta_new_readonly key signer =
     \<lparr> meta_key = key, meta_is_signer = signer, meta_is_writable = False \<rparr>"

record Instruction =
  ins_program_id :: pubkey
  ins_accounts :: "AccountMeta list"
  ins_data :: bytes

text \<open>Who has to sign an instruction.\<close>

definition signers :: "Instruction \<Rightarrow> pubkey list" where
  "signers ix = map meta_key (filter meta_is_signer (ins_accounts ix))"

lemma meta_new_simps [simp]:
  "meta_key (meta_new k s) = k" "meta_is_signer (meta_new k s) = s" "meta_is_writable (meta_new k s)"
  "meta_key (meta_new_readonly k s) = k" "meta_is_signer (meta_new_readonly k s) = s"
  "\<not> meta_is_writable (meta_new_readonly k s)"
  by (simp_all add: meta_new_def meta_new_readonly_def)

end
