(* ===== verification/Raydium_Cpi.thy ===== *)
theory Raydium_Cpi
  imports Raydium_Pool Solana_Instruction
begin

text \<open>
  The Raydium instructions of \<open>crates/solana_farm_sdk/src/instruction/raydium.rs\<close> with their byte
  layout, and the functions of \<open>program/protocol/raydium.rs\<close> that build an instruction from a
  slice of accounts and hand it to the runtime. The runtime (\<open>invoke\<close>, \<open>invoke_signed\<close>) is an
  argument; \<open>invoke\<close> is \<open>invoke_signed\<close> without seeds, as the Solana SDK defines it.
\<close>

section \<open>Instruction data\<close>

text \<open>Every \<open>to_vec\<close> of the file packs into a zeroed array of the fixed length.\<close>

definition instruction_to_vec ::
  "usize \<Rightarrow> ('a \<Rightarrow> bytes \<Rightarrow> (usize, bytes) effect) \<Rightarrow> 'a \<Rightarrow> bytes result" where
  "instruction_to_vec len pack x =
     (case pack x (replicate len 0) of
        (Ok n, output) \<Rightarrow> (if n \<le> length output then Ok (take n output) else Panic)
      | (Err _, _) \<Rightarrow> Err InvalidInstructionData
      | (Panic, _) \<Rightarrow> Panic)"

record RaydiumAddLiquidity =
  al_instruction :: u8
  al_max_coin_token_amount :: u64
  al_max_pc_token_amount :: u64
  al_base_side :: u64

record RaydiumRemoveLiquidity =
  rl_instruction :: u8
  rl_amount :: u64

record RaydiumSwap =
  sw_instruction :: u8
  sw_amount_in :: u64
  sw_min_amount_out :: u64

record RaydiumStake =
  st_instruction :: u8
  st_amount :: u64

record RaydiumUnstake =
  us_instruction :: u8
  us_amount :: u64

record RaydiumHarvest =
  hv_instruction :: u8

definition RaydiumAddLiquidity_LEN :: usize where "RaydiumAddLiquidity_LEN = 25"

definition RaydiumAddLiquidity_pack :: "RaydiumAddLiquidity \<Rightarrow> bytes \<Rightarrow> (usize, bytes) effect" where
  "RaydiumAddLiquidity_pack self output =
     seq (pure_in output (check_data_len output RaydiumAddLiquidity_LEN)) (\<lambda>_ out.
       (let out1 = splice 0 [al_instruction self] out;
            out2 = splice 1 (to_le_bytes (al_max_coin_token_amount self)) out1;
            out3 = splice 9 (to_le_bytes (al_max_pc_token_amount self)) out2;
            out4 = splice 17 (to_le_bytes (al_base_side self)) out3
        in (Ok RaydiumAddLiquidity_LEN, out4)))"

definition RaydiumAddLiquidity_to_vec :: "RaydiumAddLiquidity \<Rightarrow> bytes result" where
  "RaydiumAddLiquidity_to_vec = instruction_to_vec RaydiumAddLiquidity_LEN RaydiumAddLiquidity_pack"

definition RaydiumRemoveLiquidity_LEN :: usize where "RaydiumRemoveLiquidity_LEN = 9"

definition RaydiumRemoveLiquidity_pack :: "RaydiumRemoveLiquidity \<Rightarrow> bytes \<Rightarrow> (usize, bytes) effect" where
  "RaydiumRemoveLiquidity_pack self output =
     seq (pure_in output (check_data_len output RaydiumRemoveLiquidity_LEN)) (\<lambda>_ out.
       (let out1 = splice 0 [rl_instruction self] out;
            out2 = splice 1 (to_le_bytes (rl_amount self)) out1
        in (Ok RaydiumRemoveLiquidity_LEN, out2)))"

definition RaydiumRemoveLiquidity_to_vec :: "RaydiumRemoveLiquidity \<Rightarrow> bytes result" where
  "RaydiumRemoveLiquidity_to_vec = instruction_to_vec RaydiumRemoveLiquidity_LEN RaydiumRemoveLiquidity_pack"

definition RaydiumSwap_LEN :: usize where "RaydiumSwap_LEN = 17"

definition RaydiumSwap_pack :: "RaydiumSwap \<Rightarrow> bytes \<Rightarrow> (usize, bytes) effect" where
  "RaydiumSwap_pack self output =
     seq (pure_in output (check_data_len output RaydiumSwap_LEN)) (\<lambda>_ out.
       (let out1 = splice 0 [sw_instruction self] out;
            out2 = splice 1 (to_le_bytes (sw_amount_in self)) out1;
            out3 = splice 9 (to_le_bytes (sw_min_amount_out self)) out2
        in (Ok RaydiumSwap_LEN, out3)))"

definition RaydiumSwap_to_vec :: "RaydiumSwap \<Rightarrow> bytes result" where
  "RaydiumSwap_to_vec = instruction_to_vec RaydiumSwap_LEN RaydiumSwap_pack"

definition RaydiumStake_LEN :: usize where "RaydiumStake_LEN = 9"

definition RaydiumStake_pack :: "RaydiumStake \<Rightarrow> bytes \<Rightarrow> (usize, bytes) effect" where
  "RaydiumStake_pack self output =
     seq (pure_in output (check_data_len output RaydiumStake_LEN)) (\<lambda>_ out.
       (let out1 = splice 0 [st_instruction self] out;
            out2 = splice 1 (to_le_bytes (st_amount self)) out1
        in (Ok RaydiumStake_LEN, out2)))"

definition RaydiumStake_to_vec :: "RaydiumStake \<Rightarrow> bytes result" where
  "RaydiumStake_to_vec = instruction_to_vec RaydiumStake_LEN RaydiumStake_pack"

definition RaydiumUnstake_LEN :: usize where "RaydiumUnstake_LEN = 9"

definition RaydiumUnstake_pack :: "RaydiumUnstake \<Rightarrow> bytes \<Rightarrow> (usize, bytes) effect" where
  "RaydiumUnstake_pack self output =
     seq (pure_in output (check_data_len output RaydiumUnstake_LEN)) (\<lambda>_ out.
       (let out1 = splice 0 [us_instruction self] out;
            out2 = splice 1 (to_le_bytes (us_amount self)) out1
        in (Ok RaydiumUnstake_LEN, out2)))"

definition RaydiumUnstake_to_vec :: "RaydiumUnstake \<Rightarrow> bytes result" where
  "RaydiumUnstake_to_vec = instruction_to_vec RaydiumUnstake_LEN RaydiumUnstake_pack"

definition RaydiumHarvest_LEN :: usize where "RaydiumHarvest_LEN = 1"

definition RaydiumHarvest_pack :: "RaydiumHarvest \<Rightarrow> bytes \<Rightarrow> (usize, bytes) effect" where
  "RaydiumHarvest_pack self output =
     seq (pure_in output (check_data_len output RaydiumHarvest_LEN)) (\<lambda>_ out.
       (let out1 = splice 0 [hv_instruction self] out
        in (Ok RaydiumHarvest_LEN, out1)))"

definition RaydiumHarvest_to_vec :: "RaydiumHarvest \<Rightarrow> bytes result" where
  "RaydiumHarvest_to_vec = instruction_to_vec RaydiumHarvest_LEN RaydiumHarvest_pack"

section \<open>Instructions\<close>

type_synonym invoke_signed = "Instruction \<Rightarrow> AccountInfo list \<Rightarrow> bytes list list \<Rightarrow> unit result"

text \<open>\<open>if let [a, b, \<dots>] = accounts\<close> matches slices of exactly that length.\<close>

definition add_liquidity ::
  "invoke_signed \<Rightarrow> AccountInfo list \<Rightarrow> u64 \<Rightarrow> u64 \<Rightarrow> unit result" where
  "add_liquidity invoke_signed accounts max_coin_token_amount max_pc_token_amount =
     (if length accounts = 14 then
        (let user_account = accounts ! 0;
             user_token_a_account = accounts ! 1;
             user_token_b_account = accounts ! 2;
             user_lp_token_account = accounts ! 3;
             pool_program_id = accounts ! 4;
             pool_coin_token_account = accounts ! 5;
             pool_pc_token_account = accounts ! 6;
             lp_token_mint = accounts ! 7;
             spl_token_id = accounts ! 8;
             amm_id = accounts ! 9;
             amm_authority = accounts ! 10;
             amm_open_orders = accounts ! 11;
             amm_target = accounts ! 12;
             serum_market = accounts ! 13
         in if \<not> check_pool_program_id (acc_key pool_program_id) then Err IncorrectProgramId
         else
           (let raydium_accounts =
               [meta_new_readonly (acc_key spl_token_id) False,
                meta_new (acc_key amm_id) False,
                meta_new_readonly (acc_key amm_authority) False,
                meta_new_readonly (acc_key amm_open_orders) False,
                meta_new (acc_key amm_target) False,
                meta_new (acc_key lp_token_mint) False,
                meta_new (acc_key pool_coin_token_account) False,
                meta_new (acc_key pool_pc_token_account) False,
                meta_new_readonly (acc_key serum_market) False,
                meta_new (acc_key user_token_a_account) False,
                meta_new (acc_key user_token_b_account) False,
                meta_new (acc_key user_lp_token_account) False,
                meta_new_readonly (acc_key user_account) True]
            in bind (RaydiumAddLiquidity_to_vec \<lparr> al_instruction = 3, al_max_coin_token_amount = max_coin_token_amount, al_max_pc_token_amount = max_pc_token_amount, al_base_side = 0 \<rparr>) (\<lambda>data.
                 invoke_signed \<lparr> ins_program_id = acc_key pool_program_id,
                   ins_accounts = raydium_accounts, ins_data = data \<rparr> accounts [])))
      else Err NotEnoughAccountKeys)"

definition add_liquidity_with_seeds ::
  "invoke_signed \<Rightarrow> AccountInfo list \<Rightarrow> bytes list list \<Rightarrow> u64 \<Rightarrow> u64 \<Rightarrow> unit result" where
  "add_liquidity_with_seeds invoke_signed accounts seeds max_coin_token_amount max_pc_token_amount =
     (if length accounts = 14 then
        (let authority_account = accounts ! 0;
             token_a_custody_account = accounts ! 1;
             token_b_custody_account = accounts ! 2;
             lp_token_custody_account = accounts ! 3;
             pool_program_id = accounts ! 4;
             pool_coin_token_account = accounts ! 5;
             pool_pc_token_account = accounts ! 6;
             lp_token_mint = accounts ! 7;
             spl_token_id = accounts ! 8;
             amm_id = accounts ! 9;
             amm_authority = accounts ! 10;
             amm_open_orders = accounts ! 11;
             amm_target = accounts ! 12;
             serum_market = accounts ! 13
         in if \<not> check_pool_program_id (acc_key pool_program_id) then Err IncorrectProgramId
         else
           (let raydium_accounts =
               [meta_new_readonly (acc_key spl_token_id) False,
                meta_new (acc_key amm_id) False,
                meta_new_readonly (acc_key amm_authority) False,
                meta_new_readonly (acc_key amm_open_orders) False,
                meta_new (acc_key amm_target) False,
                meta_new (acc_key lp_token_mint) False,
                meta_new (acc_key pool_coin_token_account) False,
                meta_new (acc_key pool_pc_token_account) False,
                meta_new_readonly (acc_key serum_market) False,
                meta_new (acc_key token_a_custody_account) False,
                meta_new (acc_key token_b_custody_account) False,
                meta_new (acc_key lp_token_custody_account) False,
                meta_new_readonly (acc_key authority_account) True]
            in bind (RaydiumAddLiquidity_to_vec \<lparr> al_instruction = 3, al_max_coin_token_amount = max_coin_token_amount, al_max_pc_token_amount = max_pc_token_amount, al_base_side = 0 \<rparr>) (\<lambda>data.
                 invoke_signed \<lparr> ins_program_id = acc_key pool_program_id,
                   ins_accounts = raydium_accounts, ins_data = data \<rparr> accounts seeds)))
      else Err NotEnoughAccountKeys)"

definition remove_liquidity_with_seeds ::
  "invoke_signed \<Rightarrow> AccountInfo list \<Rightarrow> bytes list list \<Rightarrow> u64 \<Rightarrow> unit result" where
  "remove_liquidity_with_seeds invoke_signed accounts seeds amount =
     (if length accounts = 23 then
        (let authority_account = accounts ! 0;
             token_a_custody_account = accounts ! 1;
             token_b_custody_account = accounts ! 2;
             lp_token_custody_account = accounts ! 3;
             pool_program_id = accounts ! 4;
             pool_withdraw_queue = accounts ! 5;
             pool_temp_lp_token_account = accounts ! 6;
             pool_coin_token_account = accounts ! 7;
             pool_pc_token_account = accounts ! 8;
             lp_token_mint = accounts ! 9;
             spl_token_id = accounts ! 10;
             amm_id = accounts ! 11;
             amm_authority = accounts ! 12;
             amm_open_orders = accounts ! 13;
             amm_target = accounts ! 14;
             serum_market = accounts ! 15;
             serum_program_id = accounts ! 16;
             serum_bids = accounts ! 17;
             serum_asks = accounts ! 18;
             serum_event_queue = accounts ! 19;
             serum_coin_vault_account = accounts ! 20;
             serum_pc_vault_account = accounts ! 21;
             serum_vault_signer = accounts ! 22
         in if \<not> check_pool_program_id (acc_key pool_program_id) then Err IncorrectProgramId
         else
           (let raydium_accounts =
               [meta_new_readonly (acc_key spl_token_id) False,
                meta_new (acc_key amm_id) False,
                meta_new_readonly (acc_key amm_authority) False,
                meta_new (acc_key amm_open_orders) False,
                meta_new (acc_key amm_target) False,
                meta_new (acc_key lp_token_mint) False,
                meta_new (acc_key pool_coin_token_account) False,
                meta_new (acc_key pool_pc_token_account) False,
                meta_new (acc_key pool_withdraw_queue) False,
                meta_new (acc_key pool_temp_lp_token_account) False,
                meta_new_readonly (acc_key serum_program_id) False,
                meta_new (acc_key serum_market) False,
                meta_new (acc_key serum_coin_vault_account) False,
                meta_new (acc_key serum_pc_vault_account) False,
                meta_new_readonly (acc_key serum_vault_signer) False,
                meta_new (acc_key lp_token_custody_account) False,
                meta_new (acc_key token_a_custody_account) False,
                meta_new (acc_key token_b_custody_account) False,
                meta_new_readonly (acc_key authority_account) True,
                meta_new (acc_key serum_event_queue) False,
                meta_new (acc_key serum_bids) False,
                meta_new (acc_key serum_asks) False]
            in bind (RaydiumRemoveLiquidity_to_vec \<lparr> rl_instruction = 4, rl_amount = amount \<rparr>) (\<lambda>data.
                 invoke_signed \<lparr> ins_program_id = acc_key pool_program_id,
                   ins_accounts = raydium_accounts, ins_data = data \<rparr> accounts seeds)))
      else Err NotEnoughAccountKeys)"

definition stake_with_seeds ::
  "invoke_signed \<Rightarrow> pubkey \<Rightarrow> AccountInfo list \<Rightarrow> bytes list list \<Rightarrow> u64 \<Rightarrow> unit result" where
  "stake_with_seeds invoke_signed zero_id accounts seeds amount =
     (if length accounts = 13 then
        (let authority_account = accounts ! 0;
             stake_info_account = accounts ! 1;
             lp_token_custody_account = accounts ! 2;
             token_a_custody_account = accounts ! 3;
             token_b_custody_account = accounts ! 4;
             pool_program_id = accounts ! 5;
             farm_lp_token_account = accounts ! 6;
             farm_first_reward_token_account = accounts ! 7;
             farm_second_reward_token_account = accounts ! 8;
             clock_id = accounts ! 9;
             spl_token_id = accounts ! 10;
             farm_id = accounts ! 11;
             farm_authority = accounts ! 12
         in if \<not> check_stake_program_id (acc_key pool_program_id) then Err IncorrectProgramId
         else
           (let raydium_accounts =
               [meta_new (acc_key farm_id) False,
                meta_new_readonly (acc_key farm_authority) False,
                meta_new (acc_key stake_info_account) False,
                meta_new_readonly (acc_key authority_account) True,
                meta_new (acc_key lp_token_custody_account) False,
                meta_new (acc_key farm_lp_token_account) False,
                meta_new (acc_key token_a_custody_account) False,
                meta_new (acc_key farm_first_reward_token_account) False,
                meta_new_readonly (acc_key clock_id) False,
                meta_new_readonly (acc_key spl_token_id) False] @
               (if acc_key farm_second_reward_token_account \<noteq> zero_id
                then [meta_new (acc_key token_b_custody_account) False,
                      meta_new (acc_key farm_second_reward_token_account) False]
                else [])
            in bind (RaydiumStake_to_vec \<lparr> st_instruction = 1, st_amount = amount \<rparr>) (\<lambda>data.
                 invoke_signed \<lparr> ins_program_id = acc_key pool_program_id,
                   ins_accounts = raydium_accounts, ins_data = data \<rparr> accounts seeds)))
      else Err NotEnoughAccountKeys)"

definition swap_with_seeds ::
  "invoke_signed \<Rightarrow> AccountInfo list \<Rightarrow> bytes list list \<Rightarrow> u64 \<Rightarrow> u64 \<Rightarrow> unit result" where
  "swap_with_seeds invoke_signed accounts seeds amount_in min_amount_out =
     (if length accounts = 19 then
        (let authority_account = accounts ! 0;
             token_a_custody_account = accounts ! 1;
             token_b_custody_account = accounts ! 2;
             pool_program_id = accounts ! 3;
             pool_coin_token_account = accounts ! 4;
             pool_pc_token_account = accounts ! 5;
             spl_token_id = accounts ! 6;
             amm_id = accounts ! 7;
             amm_authority = accounts ! 8;
             amm_open_orders = accounts ! 9;
             amm_target = accounts ! 10;
             serum_market = accounts ! 11;
             serum_program_id = accounts ! 12;
             serum_bids = accounts ! 13;
             serum_asks = accounts ! 14;
             serum_event_queue = accounts ! 15;
             serum_coin_vault_account = accounts ! 16;
             serum_pc_vault_account = accounts ! 17;
             serum_vault_signer = accounts ! 18
         in if \<not> check_pool_program_id (acc_key pool_program_id) then Err IncorrectProgramId
         else
           (let raydium_accounts =
               [meta_new_readonly (acc_key spl_token_id) False,
                meta_new (acc_key amm_id) False,
                meta_new_readonly (acc_key amm_authority) False,
                meta_new (acc_key amm_open_orders) False,
                meta_new (acc_key amm_target) False,
                meta_new (acc_key pool_coin_token_account) False,
                meta_new (acc_key pool_pc_token_account) False,
                meta_new_readonly (acc_key serum_program_id) False,
                meta_new (acc_key serum_market) False,
                meta_new (acc_key serum_bids) False,
                meta_new (acc_key serum_asks) False,
                meta_new (acc_key serum_event_queue) False,
                meta_new (acc_key serum_coin_vault_account) False,
                meta_new (acc_key serum_pc_vault_account) False,
                meta_new_readonly (acc_key serum_vault_signer) False,
                meta_new (acc_key token_a_custody_account) False,
                meta_new (acc_key token_b_custody_account) False,
                meta_new_readonly (acc_key authority_account) True]
            in bind (RaydiumSwap_to_vec \<lparr> sw_instruction = 9, sw_amount_in = amount_in, sw_min_amount_out = min_amount_out \<rparr>) (\<lambda>data.
                 invoke_signed \<lparr> ins_program_id = acc_key pool_program_id,
                   ins_accounts = raydium_accounts, ins_data = data \<rparr> accounts seeds)))
      else Err NotEnoughAccountKeys)"

definition unstake_with_seeds ::
  "invoke_signed \<Rightarrow> pubkey \<Rightarrow> AccountInfo list \<Rightarrow> bytes list list \<Rightarrow> u64 \<Rightarrow> unit result" where
  "unstake_with_seeds invoke_signed zero_id accounts seeds amount =
     (if length accounts = 13 then
        (let authority_account = accounts ! 0;
             stake_info_account = accounts ! 1;
             lp_token_custody_account = accounts ! 2;
             token_a_custody_account = accounts ! 3;
             token_b_custody_account = accounts ! 4;
             pool_program_id = accounts ! 5;
             farm_lp_token_account = accounts ! 6;
             farm_first_reward_token_account = accounts ! 7;
             farm_second_reward_token_account = accounts ! 8;
             clock_id = accounts ! 9;
             spl_token_id = accounts ! 10;
             farm_id = accounts ! 11;
             farm_authority = accounts ! 12
         in if \<not> check_stake_program_id (acc_key pool_program_id) then Err IncorrectProgramId
         else
           (let raydium_accounts =
               [meta_new (acc_key farm_id) False,
                meta_new_readonly (acc_key farm_authority) False,
                meta_new (acc_key stake_info_account) False,
                meta_new_readonly (acc_key authority_account) True,
                meta_new (acc_key lp_token_custody_account) False,
                meta_new (acc_key farm_lp_token_account) False,
                meta_new (acc_key token_a_custody_account) False,
                meta_new (acc_key farm_first_reward_token_account) False,
                meta_new_readonly (acc_key clock_id) False,
                meta_new_readonly (acc_key spl_token_id) False] @
               (if acc_key farm_second_reward_token_account \<noteq> zero_id
                then [meta_new (acc_key token_b_custody_account) False,
                      meta_new (acc_key farm_second_reward_token_account) False]
                else [])
            in bind (RaydiumUnstake_to_vec \<lparr> us_instruction = 2, us_amount = amount \<rparr>) (\<lambda>data.
                 invoke_signed \<lparr> ins_program_id = acc_key pool_program_id,
                   ins_accounts = raydium_accounts, ins_data = data \<rparr> accounts seeds)))
      else Err NotEnoughAccountKeys)"

section \<open>Layout of the instruction data\<close>

lemma instruction_data:
  "RaydiumAddLiquidity_to_vec a = Ok (al_instruction a # to_le_bytes (al_max_coin_token_amount a) @
     to_le_bytes (al_max_pc_token_amount a) @ to_le_bytes (al_base_side a))"
  "RaydiumRemoveLiquidity_to_vec b = Ok (rl_instruction b # to_le_bytes (rl_amount b))"
  "RaydiumSwap_to_vec c = Ok (sw_instruction c # to_le_bytes (sw_amount_in c) @
     to_le_bytes (sw_min_amount_out c))"
  "RaydiumStake_to_vec d = Ok (st_instruction d # to_le_bytes (st_amount d))"
  "RaydiumUnstake_to_vec e = Ok (us_instruction e # to_le_bytes (us_amount e))"
  "RaydiumHarvest_to_vec f = Ok [hv_instruction f]"
  by (simp_all add: RaydiumAddLiquidity_to_vec_def RaydiumRemoveLiquidity_to_vec_def
      RaydiumSwap_to_vec_def RaydiumStake_to_vec_def RaydiumUnstake_to_vec_def
      RaydiumHarvest_to_vec_def instruction_to_vec_def RaydiumAddLiquidity_pack_def
      RaydiumRemoveLiquidity_pack_def RaydiumSwap_pack_def RaydiumStake_pack_def
      RaydiumUnstake_pack_def RaydiumHarvest_pack_def RaydiumAddLiquidity_LEN_def
      RaydiumRemoveLiquidity_LEN_def RaydiumSwap_LEN_def RaydiumStake_LEN_def
      RaydiumUnstake_LEN_def RaydiumHarvest_LEN_def splice_def)

section \<open>What reaches the runtime\<close>

text \<open>
  An instruction is acceptable for a slice of accounts when it goes to one of the listed
  programs, mentions only accounts of the slice, and asks for exactly one signature, that of the
  first account, without write access to it.
\<close>

definition safe_cpi :: "(pubkey \<Rightarrow> bool) \<Rightarrow> AccountInfo list \<Rightarrow> Instruction \<Rightarrow> bool" where
  "safe_cpi program_ok accounts i \<longleftrightarrow>
     program_ok (ins_program_id i) \<and>
     list_all (\<lambda>m. meta_key m \<in> set (map acc_key accounts)) (ins_accounts i) \<and>
     filter meta_is_signer (ins_accounts i) = [meta_new_readonly (acc_key (accounts ! 0)) True]"

definition only_safe_cpi ::
  "(pubkey \<Rightarrow> bool) \<Rightarrow> invoke_signed \<Rightarrow> AccountInfo list \<Rightarrow> bytes list list \<Rightarrow> bytes \<Rightarrow> unit result \<Rightarrow> bool" where
  "only_safe_cpi program_ok invoke accounts seeds data r \<longleftrightarrow>
     r = Err NotEnoughAccountKeys \<or> r = Err IncorrectProgramId \<or>
     (\<exists>i. r = invoke i accounts seeds \<and> safe_cpi program_ok accounts i \<and> ins_data i = data)"

lemma meta_simps [simp]:
  "meta_is_signer (meta_new k b) = b" "meta_is_signer (meta_new_readonly k b) = b"
  "meta_key (meta_new k b) = k" "meta_key (meta_new_readonly k b) = k"
  by (simp_all add: meta_new_def meta_new_readonly_def)

lemma only_safe_cpiI:
  assumes "safe_cpi program_ok accounts i" and "ins_data i = data"
  shows "only_safe_cpi program_ok invoke accounts seeds data (invoke i accounts seeds)"
  using assms by (auto simp: only_safe_cpi_def)

lemma only_safe_cpi_Err [simp]:
  "only_safe_cpi program_ok invoke accounts seeds data (Err NotEnoughAccountKeys)"
  "only_safe_cpi program_ok invoke accounts seeds data (Err IncorrectProgramId)"
  by (simp_all add: only_safe_cpi_def)

text \<open>Each of the six liquidity, swap and staking calls either reports a malformed slice or a
  foreign program, or makes exactly one call, to a listed Raydium program, with the documented
  instruction tag and the given amounts in little-endian order, naming only accounts of the slice
  and requiring the signature of its first account and of no other.\<close>

theorem raydium_cpi_safe:
  "only_safe_cpi check_pool_program_id runtime accounts [] (3 # to_le_bytes x @ to_le_bytes y @ to_le_bytes (0 :: u64))
     (add_liquidity runtime accounts x y) \<and>
   only_safe_cpi check_pool_program_id runtime accounts seeds (3 # to_le_bytes x @ to_le_bytes y @ to_le_bytes (0 :: u64))
     (add_liquidity_with_seeds runtime accounts seeds x y) \<and>
   only_safe_cpi check_pool_program_id runtime accounts seeds (4 # to_le_bytes x)
     (remove_liquidity_with_seeds runtime accounts seeds x) \<and>
   only_safe_cpi check_pool_program_id runtime accounts seeds (9 # to_le_bytes x @ to_le_bytes y)
     (swap_with_seeds runtime accounts seeds x y) \<and>
   only_safe_cpi check_stake_program_id runtime accounts seeds (1 # to_le_bytes x)
     (stake_with_seeds runtime zero_id accounts seeds x) \<and>
   only_safe_cpi check_stake_program_id runtime accounts seeds (2 # to_le_bytes x)
     (unstake_with_seeds runtime zero_id accounts seeds x)"
  (is "?A \<and> ?B \<and> ?C \<and> ?D \<and> ?E \<and> ?F")
proof (intro conjI)
  show ?A
    by (auto simp: add_liquidity_def Let_def instruction_data safe_cpi_def intro!: only_safe_cpiI)
  show ?B
    by (auto simp: add_liquidity_with_seeds_def Let_def instruction_data safe_cpi_def
        intro!: only_safe_cpiI)
  show ?C
    by (auto simp: remove_liquidity_with_seeds_def Let_def instruction_data safe_cpi_def
        intro!: only_safe_cpiI)
  show ?D
    by (auto simp: swap_with_seeds_def Let_def instruction_data safe_cpi_def
        intro!: only_safe_cpiI)
  show ?E
    by (auto simp: stake_with_seeds_def Let_def instruction_data safe_cpi_def
        intro!: only_safe_cpiI)
  show ?F
    by (auto simp: unstake_with_seeds_def Let_def instruction_data safe_cpi_def
        intro!: only_safe_cpiI)
qed

end
