(* ===== verification/Orca_Cpi.thy ===== *)
theory Orca_Cpi
  imports Orca_Pool Raydium_Cpi
begin

text \<open>
  The Orca farming instructions of \<open>crates/solana_farm_sdk/src/instruction/orca.rs\<close> with their byte layout,
  and the functions of \<open>program/protocol/orca.rs\<close> that call the Orca programs. The runtime is an argument
  as for Raydium. The instructions of the swap program are built by the crate \<open>spl_token_swap\<close>, whose three
  constructors are arguments; \<open>spl_token::id()\<close> is the argument \<open>spl_token_id\<close>.
\<close>

section \<open>Instruction data\<close>

datatype OrcaInstructionType =
    OrcaT_InitGlobalFarm | OrcaT_InitUserFarm | OrcaT_ConvertTokens | OrcaT_RevertTokens | OrcaT_Harvest |
    OrcaT_RemoveRewards | OrcaT_SetEmissionsPerSecond

fun OrcaInstructionType_as_u8 :: "OrcaInstructionType \<Rightarrow> u8" where
  "OrcaInstructionType_as_u8 OrcaT_InitGlobalFarm = 0"
| "OrcaInstructionType_as_u8 OrcaT_InitUserFarm = 1"
| "OrcaInstructionType_as_u8 OrcaT_ConvertTokens = 2"
| "OrcaInstructionType_as_u8 OrcaT_RevertTokens = 3"
| "OrcaInstructionType_as_u8 OrcaT_Harvest = 4"
| "OrcaInstructionType_as_u8 OrcaT_RemoveRewards = 5"
| "OrcaInstructionType_as_u8 OrcaT_SetEmissionsPerSecond = 6"

datatype OrcaUserInit = OrcaUserInit

record OrcaStake =
  os_amount :: u64

record OrcaUnstake =
  ou_amount :: u64

datatype OrcaHarvest = OrcaHarvest

definition OrcaUserInit_LEN :: usize where "OrcaUserInit_LEN = 1"

definition OrcaUserInit_get_size :: "OrcaUserInit \<Rightarrow> usize" where
  "OrcaUserInit_get_size self = OrcaUserInit_LEN"

definition OrcaUserInit_pack :: "OrcaUserInit \<Rightarrow> bytes \<Rightarrow> (usize, bytes) effect" where
  "OrcaUserInit_pack self output =
     seq (pure_in output (check_data_len output OrcaUserInit_LEN)) (\<lambda>_ output.
       (Ok OrcaUserInit_LEN, mut_array_refs [(1, put [OrcaInstructionType_as_u8 OrcaT_InitUserFarm])] output))"

definition OrcaUserInit_to_vec :: "OrcaUserInit \<Rightarrow> bytes result" where
  "OrcaUserInit_to_vec = to_vec_or InvalidInstructionData OrcaUserInit_LEN OrcaUserInit_pack"

definition OrcaStake_LEN :: usize where "OrcaStake_LEN = 9"

definition OrcaStake_get_size :: "OrcaStake \<Rightarrow> usize" where
  "OrcaStake_get_size self = OrcaStake_LEN"

definition OrcaStake_pack :: "OrcaStake \<Rightarrow> bytes \<Rightarrow> (usize, bytes) effect" where
  "OrcaStake_pack self output =
     seq (pure_in output (check_data_len output OrcaStake_LEN)) (\<lambda>_ output.
       (Ok OrcaStake_LEN,
        mut_array_refs [(1, put [OrcaInstructionType_as_u8 OrcaT_ConvertTokens]),
          (8, put (to_le_bytes (os_amount self)))] output))"

definition OrcaStake_to_vec :: "OrcaStake \<Rightarrow> bytes result" where
  "OrcaStake_to_vec = to_vec_or InvalidInstructionData OrcaStake_LEN OrcaStake_pack"

definition OrcaUnstake_LEN :: usize where "OrcaUnstake_LEN = 9"

definition OrcaUnstake_get_size :: "OrcaUnstake \<Rightarrow> usize" where
  "OrcaUnstake_get_size self = OrcaUnstake_LEN"

definition OrcaUnstake_pack :: "OrcaUnstake \<Rightarrow> bytes \<Rightarrow> (usize, bytes) effect" where
  "OrcaUnstake_pack self output =
     seq (pure_in output (check_data_len output OrcaUnstake_LEN)) (\<lambda>_ output.
       (Ok OrcaUnstake_LEN,
        mut_array_refs [(1, put [OrcaInstructionType_as_u8 OrcaT_RevertTokens]),
          (8, put (to_le_bytes (ou_amount self)))] output))"

definition OrcaUnstake_to_vec :: "OrcaUnstake \<Rightarrow> bytes result" where
  "OrcaUnstake_to_vec = to_vec_or InvalidInstructionData OrcaUnstake_LEN OrcaUnstake_pack"

definition OrcaHarvest_LEN :: usize where "OrcaHarvest_LEN = 1"

definition OrcaHarvest_get_size :: "OrcaHarvest \<Rightarrow> usize" where
  "OrcaHarvest_get_size self = OrcaHarvest_LEN"

definition OrcaHarvest_pack :: "OrcaHarvest \<Rightarrow> bytes \<Rightarrow> (usize, bytes) effect" where
  "OrcaHarvest_pack self output =
     seq (pure_in output (check_data_len output OrcaHarvest_LEN)) (\<lambda>_ output.
       (Ok OrcaHarvest_LEN, mut_array_refs [(1, put [OrcaInstructionType_as_u8 OrcaT_Harvest])] output))"

definition OrcaHarvest_to_vec :: "OrcaHarvest \<Rightarrow> bytes result" where
  "OrcaHarvest_to_vec = to_vec_or InvalidInstructionData OrcaHarvest_LEN OrcaHarvest_pack"

section \<open>The constructors of \<open>spl_token_swap\<close>\<close>

record DepositAllTokenTypes =
  dep_pool_token_amount :: u64
  dep_maximum_token_a_amount :: u64
  dep_maximum_token_b_amount :: u64

record WithdrawAllTokenTypes =
  wit_pool_token_amount :: u64
  wit_minimum_token_a_amount :: u64
  wit_minimum_token_b_amount :: u64

record SwapData =
  swp_amount_in :: u64
  swp_minimum_amount_out :: u64

text \<open>Each takes the program id, the id of the token program, the remaining keys in the order of the
  crate's signature, and the data; \<open>swap\<close> also an optional host fee account.\<close>

type_synonym deposit_all_token_types =
  "pubkey \<Rightarrow> pubkey \<Rightarrow> pubkey list \<Rightarrow> DepositAllTokenTypes \<Rightarrow> Instruction result"
type_synonym withdraw_all_token_types =
  "pubkey \<Rightarrow> pubkey \<Rightarrow> pubkey list \<Rightarrow> WithdrawAllTokenTypes \<Rightarrow> Instruction result"
type_synonym token_swap =
  "pubkey \<Rightarrow> pubkey \<Rightarrow> pubkey list \<Rightarrow> pubkey option \<Rightarrow> SwapData \<Rightarrow> Instruction result"

section \<open>Calls of the swap program\<close>

definition orca_add_liquidity ::
  "invoke_signed \<Rightarrow> deposit_all_token_types \<Rightarrow> pubkey \<Rightarrow> AccountInfo list \<Rightarrow> u64 \<Rightarrow> u64 \<Rightarrow> u64 \<Rightarrow> unit result" where
  "orca_add_liquidity invoke_signed deposit_all_token_types spl_token_id accounts
     max_token_a_amount max_token_b_amount min_lp_token_amount =
     (if length accounts = 11 then
        (let user_account = accounts ! 0;
             user_token_a_account = accounts ! 1;
             user_token_b_account = accounts ! 2;
             user_lp_token_account = accounts ! 3;
             pool_program_id = accounts ! 4;
             pool_token_a_account = accounts ! 5;
             pool_token_b_account = accounts ! 6;
             lp_token_mint = accounts ! 7;
             amm_id = accounts ! 9;
             amm_authority = accounts ! 10
         in if \<not> orca_check_pool_program_id (acc_key pool_program_id) then Err IncorrectProgramId
         else
           (let data = \<lparr> dep_pool_token_amount = min_lp_token_amount,
                  dep_maximum_token_a_amount = max_token_a_amount,
                  dep_maximum_token_b_amount = max_token_b_amount \<rparr>
            in bind (deposit_all_token_types (acc_key pool_program_id) spl_token_id
                      [acc_key amm_id, acc_key amm_authority, acc_key user_account,
                       acc_key user_token_a_account, acc_key user_token_b_account,
                       acc_key pool_token_a_account, acc_key pool_token_b_account,
                       acc_key lp_token_mint, acc_key user_lp_token_account] data) (\<lambda>instruction.
                 invoke_signed instruction accounts [])))
      else Err NotEnoughAccountKeys)"

definition orca_add_liquidity_with_seeds ::
  "invoke_signed \<Rightarrow> deposit_all_token_types \<Rightarrow> pubkey \<Rightarrow> AccountInfo list \<Rightarrow> bytes list list \<Rightarrow> u64 \<Rightarrow> u64 \<Rightarrow> u64
     \<Rightarrow> unit result" where
  "orca_add_liquidity_with_seeds invoke_signed deposit_all_token_types spl_token_id accounts seeds
     max_token_a_amount max_token_b_amount min_lp_token_amount =
     (if length accounts = 11 then
        (let authority_account = accounts ! 0;
             token_a_custody_account = accounts ! 1;
             token_b_custody_account = accounts ! 2;
             lp_token_custody_account = accounts ! 3;
             pool_program_id = accounts ! 4;
             pool_token_a_account = accounts ! 5;
             pool_token_b_account = accounts ! 6;
             lp_token_mint = accounts ! 7;
             amm_id = accounts ! 9;
             amm_authority = accounts ! 10
         in if \<not> orca_check_pool_program_id (acc_key pool_program_id) then Err IncorrectProgramId
         else
           (let data = \<lparr> dep_pool_token_amount = min_lp_token_amount,
                  dep_maximum_token_a_amount = max_token_a_amount,
                  dep_maximum_token_b_amount = max_token_b_amount \<rparr>
            in bind (deposit_all_token_types (acc_key pool_program_id) spl_token_id
                      [acc_key amm_id, acc_key amm_authority, acc_key authority_account,
                       acc_key token_a_custody_account, acc_key token_b_custody_account,
                       acc_key pool_token_a_account, acc_key pool_token_b_account,
                       acc_key lp_token_mint, acc_key lp_token_custody_account] data) (\<lambda>instruction.
                 invoke_signed instruction accounts seeds)))
      else Err NotEnoughAccountKeys)"

definition orca_remove_liquidity_with_seeds ::
  "invoke_signed \<Rightarrow> withdraw_all_token_types \<Rightarrow> pubkey \<Rightarrow> AccountInfo list \<Rightarrow> bytes list list \<Rightarrow> u64 \<Rightarrow> u64 \<Rightarrow> u64
     \<Rightarrow> unit result" where
  "orca_remove_liquidity_with_seeds invoke_signed withdraw_all_token_types spl_token_id accounts seeds
     lp_amount min_token_a_amount min_token_b_amount =
     (if length accounts = 12 then
        (let authority_account = accounts ! 0;
             token_a_custody_account = accounts ! 1;
             token_b_custody_account = accounts ! 2;
             lp_token_custody_account = accounts ! 3;
             pool_program_id = accounts ! 4;
             pool_token_a_account = accounts ! 5;
             pool_token_b_account = accounts ! 6;
             lp_token_mint = accounts ! 7;
             amm_id = accounts ! 9;
             amm_authority = accounts ! 10;
             fees_account = accounts ! 11
         in if \<not> orca_check_pool_program_id (acc_key pool_program_id) then Err IncorrectProgramId
         else
           (let data = \<lparr> wit_pool_token_amount = lp_amount,
                  wit_minimum_token_a_amount = min_token_a_amount,
                  wit_minimum_token_b_amount = min_token_b_amount \<rparr>
            in bind (withdraw_all_token_types (acc_key pool_program_id) spl_token_id
                      [acc_key amm_id, acc_key amm_authority, acc_key authority_account,
                       acc_key lp_token_mint, acc_key fees_account, acc_key lp_token_custody_account,
                       acc_key pool_token_a_account, acc_key pool_token_b_account,
                       acc_key token_a_custody_account, acc_key token_b_custody_account] data) (\<lambda>instruction.
                 invoke_signed instruction accounts seeds)))
      else Err NotEnoughAccountKeys)"

definition orca_swap_with_seeds ::
  "invoke_signed \<Rightarrow> token_swap \<Rightarrow> pubkey \<Rightarrow> AccountInfo list \<Rightarrow> bytes list list \<Rightarrow> u64 \<Rightarrow> u64 \<Rightarrow> unit result" where
  "orca_swap_with_seeds invoke_signed token_swap spl_token_id accounts seeds amount_in min_amount_out =
     (if length accounts = 11 then
        (let authority_account = accounts ! 0;
             token_a_custody_account = accounts ! 1;
             token_b_custody_account = accounts ! 2;
             pool_program_id = accounts ! 3;
             pool_token_a_account = accounts ! 4;
             pool_token_b_account = accounts ! 5;
             lp_token_mint = accounts ! 6;
             amm_id = accounts ! 8;
             amm_authority = accounts ! 9;
             fees_account = accounts ! 10
         in if \<not> orca_check_pool_program_id (acc_key pool_program_id) then Err IncorrectProgramId
         else
           (let data = \<lparr> swp_amount_in = amount_in, swp_minimum_amount_out = min_amount_out \<rparr>
            in bind (token_swap (acc_key pool_program_id) spl_token_id
                      [acc_key amm_id, acc_key amm_authority, acc_key authority_account,
                       acc_key token_a_custody_account, acc_key pool_token_a_account,
                       acc_key pool_token_b_account, acc_key token_b_custody_account,
                       acc_key lp_token_mint, acc_key fees_account] None data) (\<lambda>instruction.
                 invoke_signed instruction accounts seeds)))
      else Err NotEnoughAccountKeys)"

section \<open>Calls of the farming program\<close>

definition orca_stake_with_seeds ::
  "invoke_signed \<Rightarrow> pubkey \<Rightarrow> AccountInfo list \<Rightarrow> bytes list list \<Rightarrow> u64 \<Rightarrow> unit result" where
  "orca_stake_with_seeds invoke_signed spl_token_id accounts seeds amount =
     (if length accounts = 12 then
        (let authority_account = accounts ! 0;
             stake_info_account = accounts ! 1;
             lp_token_custody_account = accounts ! 2;
             reward_token_custody_account = accounts ! 3;
             farm_lp_token_custody_account = accounts ! 4;
             farm_lp_token_mint = accounts ! 5;
             farm_program_id = accounts ! 6;
             base_token_vault = accounts ! 7;
             reward_token_vault = accounts ! 8;
             farm_id = accounts ! 10;
             farm_authority = accounts ! 11
         in if \<not> orca_check_stake_program_id (acc_key farm_program_id) then Err IncorrectProgramId
         else
           (let orca_accounts =
               [meta_new_readonly (acc_key authority_account) True,
                meta_new (acc_key lp_token_custody_account) False,
                meta_new (acc_key base_token_vault) False,
                meta_new_readonly (acc_key authority_account) True,
                meta_new (acc_key farm_lp_token_mint) False,
                meta_new (acc_key farm_lp_token_custody_account) False,
                meta_new (acc_key farm_id) False,
                meta_new (acc_key stake_info_account) False,
                meta_new (acc_key reward_token_vault) False,
                meta_new (acc_key reward_token_custody_account) False,
                meta_new_readonly (acc_key farm_authority) False,
                meta_new_readonly spl_token_id False]
            in bind (OrcaStake_to_vec \<lparr> os_amount = amount \<rparr>) (\<lambda>data.
                 invoke_signed \<lparr> ins_program_id = acc_key farm_program_id,
                   ins_accounts = orca_accounts, ins_data = data \<rparr> accounts seeds)))
      else Err NotEnoughAccountKeys)"

definition orca_harvest_with_seeds ::
  "invoke_signed \<Rightarrow> pubkey \<Rightarrow> AccountInfo list \<Rightarrow> bytes list list \<Rightarrow> unit result" where
  "orca_harvest_with_seeds invoke_signed spl_token_id accounts seeds =
     (if length accounts = 9 then
        (let authority_account = accounts ! 0;
             stake_info_account = accounts ! 1;
             reward_token_custody_account = accounts ! 2;
             farm_program_id = accounts ! 3;
             base_token_vault = accounts ! 4;
             reward_token_vault = accounts ! 5;
             farm_id = accounts ! 7;
             farm_authority = accounts ! 8
         in if \<not> orca_check_stake_program_id (acc_key farm_program_id) then Err IncorrectProgramId
         else
           (let orca_accounts =
               [meta_new_readonly (acc_key authority_account) True,
                meta_new (acc_key farm_id) False,
                meta_new (acc_key stake_info_account) False,
                meta_new_readonly (acc_key base_token_vault) False,
                meta_new (acc_key reward_token_vault) False,
                meta_new (acc_key reward_token_custody_account) False,
                meta_new_readonly (acc_key farm_authority) False,
                meta_new_readonly spl_token_id False]
            in bind (OrcaHarvest_to_vec OrcaHarvest) (\<lambda>data.
                 invoke_signed \<lparr> ins_program_id = acc_key farm_program_id,
                   ins_accounts = orca_accounts, ins_data = data \<rparr> accounts seeds)))
      else Err NotEnoughAccountKeys)"

definition orca_unstake_with_seeds ::
  "invoke_signed \<Rightarrow> pubkey \<Rightarrow> AccountInfo list \<Rightarrow> bytes list list \<Rightarrow> u64 \<Rightarrow> unit result" where
  "orca_unstake_with_seeds invoke_signed spl_token_id accounts seeds amount =
     (if length accounts = 12 then
        (let authority_account = accounts ! 0;
             stake_info_account = accounts ! 1;
             lp_token_custody_account = accounts ! 2;
             reward_token_custody_account = accounts ! 3;
             farm_lp_token_custody_account = accounts ! 4;
             farm_lp_token_mint = accounts ! 5;
             farm_program_id = accounts ! 6;
             base_token_vault = accounts ! 7;
             reward_token_vault = accounts ! 8;
             farm_id = accounts ! 10;
             farm_authority = accounts ! 11
         in if \<not> orca_check_stake_program_id (acc_key farm_program_id) then Err IncorrectProgramId
         else
           (let orca_accounts =
               [meta_new_readonly (acc_key authority_account) True,
                meta_new (acc_key lp_token_custody_account) False,
                meta_new (acc_key base_token_vault) False,
                meta_new (acc_key farm_lp_token_mint) False,
                meta_new (acc_key farm_lp_token_custody_account) False,
                meta_new_readonly (acc_key authority_account) True,
                meta_new (acc_key farm_id) False,
                meta_new (acc_key stake_info_account) False,
                meta_new (acc_key reward_token_vault) False,
                meta_new (acc_key reward_token_custody_account) False,
                meta_new_readonly (acc_key farm_authority) False,
                meta_new_readonly spl_token_id False]
            in bind (OrcaUnstake_to_vec \<lparr> ou_amount = amount \<rparr>) (\<lambda>data.
                 invoke_signed \<lparr> ins_program_id = acc_key farm_program_id,
                   ins_accounts = orca_accounts, ins_data = data \<rparr> accounts seeds)))
      else Err NotEnoughAccountKeys)"

section \<open>Layout of the instruction data\<close>

lemma orca_instruction_data:
  "OrcaUserInit_to_vec i = Ok [1]"
  "OrcaStake_to_vec s = Ok (2 # to_le_bytes (os_amount s))"
  "OrcaUnstake_to_vec u = Ok (3 # to_le_bytes (ou_amount u))"
  "OrcaHarvest_to_vec h = Ok [4]"
  by (simp_all add: OrcaUserInit_to_vec_def OrcaStake_to_vec_def OrcaUnstake_to_vec_def OrcaHarvest_to_vec_def
    to_vec_or_def OrcaUserInit_pack_def OrcaStake_pack_def OrcaUnstake_pack_def OrcaHarvest_pack_def
    OrcaUserInit_LEN_def OrcaStake_LEN_def OrcaUnstake_LEN_def OrcaHarvest_LEN_def put_def)

end
