(* ===== verification/Pool_Properties.thy ===== *)
theory Pool_Properties
  imports Orca_Cpi
begin

text \<open>
  What holds for the pools of both protocols, from the contract of \<open>Pool_Contract\<close>, and what the Orca
  calls hand to the runtime.
\<close>

section \<open>Example pools\<close>

lemma example_orca_balances: "orca_get_pool_token_balances (token_account a) (token_account b) = Ok (a, b)"
proof -
  have "get_token_balance (token_account n) = Ok n" for n
    by (simp add: get_token_balance_iff token_account_def Account_LEN_def byte_simps)
  then show ?thesis by (simp add: orca_get_pool_token_balances_def)
qed

lemma example_quotes:
  "swap_out 1980840 1010000 19160 = Ok 9363"
  "orca_swap_out 1000000 2000000 10000 = Ok 19151" "orca_swap_out 1980849 1010000 19151 = Ok 9353"
proof -
  have "get_no_fee_amount 19160 25 10000 = Ok 19113" "get_no_fee_amount 9652 3 100 = Ok 9363"
    "get_no_fee_amount 10000 3 1000 = Ok 9970" "get_no_fee_amount 19743 3 100 = Ok 19151"
    "get_no_fee_amount 19151 3 1000 = Ok 19094" "get_no_fee_amount 9642 3 100 = Ok 9353"
    by (simp_all add: get_no_fee_amount_Ok_iff)
  then show "swap_out 1980840 1010000 19160 = Ok 9363"
    "orca_swap_out 1000000 2000000 10000 = Ok 19151" "orca_swap_out 1980849 1010000 19151 = Ok 9353"
    by (simp_all add: swap_out_def RAYDIUM_FEE_NUMERATOR_def RAYDIUM_FEE_DENOMINATOR_def orca_swap_out_def
      ORCA_FEE_NUMERATOR_def ORCA_FEE_DENOMINATOR_def Let_def checked_mul_def checked_add_def checked_div_def
      checked_as_u64_def)
qed

section \<open>No gain from round trips\<close>

text \<open>
  C31: trading back and forth never pays. If the output quoted for selling an amount of the first token is
  paid out, and the settled pool is asked for a quote to sell that output again, the answer is at most the
  amount that was sold first. This holds for Raydium pools, whatever their open orders and profit fields
  are, and for Orca pools, for the 64-bit integer code with all its roundings.
\<close>

theorem swap_round_trip_no_gain:
  "(get_pool_token_balances coin pc orders amm = Ok (x, y) \<and> a \<noteq> 0 \<and>
    get_pool_swap_amounts coin pc orders amm a 0 = Ok (i, out) \<and>
    get_pool_token_balances coin' pc' orders' amm' = Ok (x', y') \<and>
    unat x' = unat x + unat a \<and> unat y' = unat y - unat out \<and>
    get_pool_swap_amounts coin' pc' orders' amm' 0 out = Ok (j, ret) \<longrightarrow> unat ret \<le> unat a) \<and>
   (orca_get_pool_token_balances ta tb = Ok (x, y) \<and> a \<noteq> 0 \<and>
    orca_get_pool_swap_amounts ta tb a 0 = Ok (i, out) \<and>
    orca_get_pool_token_balances ta' tb' = Ok (x', y') \<and>
    unat x' = unat x + unat a \<and> unat y' = unat y - unat out \<and>
    orca_get_pool_swap_amounts ta' tb' 0 out = Ok (j, ret) \<longrightarrow> unat ret \<le> unat a)"
  using raydium.swap_back_no_gain [where p = "(coin, pc, orders, amm, coin)" and q = "(coin', pc', orders', amm', coin)",
      unfolded prod.case, of x y a i out x' y' j ret]
    orca.swap_back_no_gain [where p = "(ta, tb, ta)" and q = "(ta', tb', ta)", unfolded prod.case,
      of x y a i out x' y' j ret]
  by blast

theorem swap_round_trip_no_gain_witness:
  "(\<exists>out ret. get_pool_swap_amounts (token_account 1000000) (token_account 2000000) no_data no_data 10000 0 = Ok (10000, out) \<and>
     get_pool_swap_amounts (token_account 1010000) (token_account (2000000 - out)) no_data no_data 0 out = Ok (out, ret) \<and>
     unat ret \<le> unat (10000 :: u64)) \<and>
   (\<exists>out ret. orca_get_pool_swap_amounts (token_account 1000000) (token_account 2000000) 10000 0 = Ok (10000, out) \<and>
     orca_get_pool_swap_amounts (token_account 1010000) (token_account (2000000 - out)) 0 out = Ok (out, ret) \<and>
     unat ret \<le> unat (10000 :: u64))"
proof -
  let ?t = token_account
  have r: "get_pool_swap_amounts (?t 1000000) (?t 2000000) no_data no_data 10000 0 = Ok (10000, 19160)"
    "get_pool_swap_amounts (?t 1010000) (?t 1980840) no_data no_data 0 19160 = Ok (19160, 9363)"
    by (simp_all add: get_pool_swap_amounts_def example_pool_balances example_swap_out example_quotes)
  have o: "orca_get_pool_swap_amounts (?t 1000000) (?t 2000000) 10000 0 = Ok (10000, 19151)"
    "orca_get_pool_swap_amounts (?t 1010000) (?t 1980849) 0 19151 = Ok (19151, 9353)"
    by (simp_all add: orca_get_pool_swap_amounts_def example_orca_balances example_quotes)
  have "unat (9363 :: u64) \<le> unat (10000 :: u64)"
    using conjunct1 [OF swap_round_trip_no_gain [of "?t 1000000" "?t 2000000" no_data no_data 1000000 2000000 10000
        10000 19160 "?t 1010000" "?t 1980840" no_data no_data 1010000 1980840 19160 9363]] r
    by (simp add: example_pool_balances)
  moreover have "unat (9353 :: u64) \<le> unat (10000 :: u64)"
    using conjunct2 [OF swap_round_trip_no_gain [of no_data no_data no_data no_data 1000000 2000000 10000
        10000 19151 no_data no_data no_data no_data 1010000 1980849 19151 9353 "?t 1000000" "?t 2000000"
        "?t 1010000" "?t 1980849"]] o
    by (simp add: example_orca_balances)
  ultimately show ?thesis using r o by force
qed

text \<open>
  Depositing the amounts that are quoted for a pool with liquidity and redeeming the quoted minimum of LP
  tokens from the settled pool returns at most the deposit, of either token, for Raydium and for Orca pools.
\<close>

theorem liquidity_round_trip_no_gain:
  assumes "x \<noteq> 0" and "y \<noteq> 0" and "s' \<noteq> 0"
    and "unat x' = unat x + unat a" and "unat y' = unat y + unat b" and "unat s' = unat s + unat lp"
    and "get_token_supply mint = Ok s" and "get_token_supply mint' = Ok s'"
  shows "(get_pool_token_balances coin pc orders amm = Ok (x, y) \<and>
      get_pool_deposit_amounts coin pc mint orders amm max_a max_b = Ok (lp, a, b) \<and>
      get_pool_token_balances coin' pc' orders' amm' = Ok (x', y') \<and>
      get_pool_withdrawal_amounts coin' pc' orders' amm' mint' lp = Ok (a', b') \<longrightarrow>
      unat a' \<le> unat a \<and> unat b' \<le> unat b) \<and>
     (orca_get_pool_token_balances ta tb = Ok (x, y) \<and>
      orca_get_pool_deposit_amounts ta tb mint max_a max_b = Ok (lp, a, b) \<and>
      orca_get_pool_token_balances ta' tb' = Ok (x', y') \<and>
      orca_get_pool_withdrawal_amounts ta' tb' mint' lp = Ok (a', b') \<longrightarrow>
      unat a' \<le> unat a \<and> unat b' \<le> unat b)"
  using raydium.deposit_withdrawal_no_gain [where p = "(coin, pc, orders, amm, mint)"
      and q = "(coin', pc', orders', amm', mint')", unfolded prod.case, OF _ assms(1,2,7) _ _ assms(4,5,8,6,3)]
    orca.deposit_withdrawal_no_gain [where p = "(ta, tb, mint)" and q = "(ta', tb', mint')", unfolded prod.case,
      OF _ assms(1,2,7) _ _ assms(4,5,8,6,3)]
  by blast

lemma example_liquidity:
  "get_pool_deposit_amounts (token_account 1000) (token_account 500) (mint_account 100) no_data no_data 50 0 = Ok (5, 50, 26)"
  "get_pool_withdrawal_amounts (token_account 1050) (token_account 526) no_data no_data (mint_account 105) 5 = Ok (50, 25)"
proof -
  have "mul_div_u64 500 50 1000 = Ok 25" "mul_div_u64 50 100 1000 = Ok 5" "mul_div_u64 26 100 500 = Ok 5"
    "mul_div_u64 1050 5 105 = Ok 50" "mul_div_u64 526 5 105 = Ok 25"
    by (simp_all add: mul_div_u64_Ok_iff)
  moreover have "checked_add (25 :: u64) 1 = Ok 26" by (simp add: checked_add_Ok_iff)
  ultimately show
    "get_pool_deposit_amounts (token_account 1000) (token_account 500) (mint_account 100) no_data no_data 50 0 = Ok (5, 50, 26)"
    "get_pool_withdrawal_amounts (token_account 1050) (token_account 526) no_data no_data (mint_account 105) 5 = Ok (50, 25)"
    by (simp_all add: get_pool_deposit_amounts_def get_pool_withdrawal_amounts_def example_pool_balances
      example_supply estimate_lp_tokens_amount_def)
qed

theorem liquidity_round_trip_no_gain_witness:
  "\<exists>a b. get_pool_withdrawal_amounts (token_account 1050) (token_account 526) no_data no_data (mint_account 105) 5 = Ok (a, b) \<and>
     unat a \<le> unat (50 :: u64) \<and> unat b \<le> unat (26 :: u64)"
  using liquidity_round_trip_no_gain [of 1000 500 105 1050 50 526 26 100 5 "mint_account 100" "mint_account 105"
      "token_account 1000" "token_account 500" no_data no_data 50 0 "token_account 1050" "token_account 526"
      no_data no_data 50 25]
  by (simp add: example_supply example_liquidity example_pool_balances)

section \<open>The Orca calls\<close>

text \<open>What the documentation of \<open>spl_token_swap\<close> says of a constructor: the instruction is for the given
  program and names only the given accounts and the token program.\<close>

definition constructs :: "pubkey \<Rightarrow> pubkey \<Rightarrow> pubkey list \<Rightarrow> Instruction result \<Rightarrow> bool" where
  "constructs program_id token_id keys r \<longleftrightarrow>
     (\<forall>i. r = Ok i \<longrightarrow> ins_program_id i = program_id \<and> list_all (\<lambda>m. meta_key m \<in> set (token_id # keys)) (ins_accounts i))"

definition calls_only :: "pubkey \<Rightarrow> pubkey \<Rightarrow> invoke_signed \<Rightarrow> AccountInfo list \<Rightarrow> bytes list list \<Rightarrow> unit result \<Rightarrow> bool" where
  "calls_only program_id token_id invoke accounts seeds r \<longleftrightarrow>
     r = Err NotEnoughAccountKeys \<or> r = Err IncorrectProgramId \<or>
     (\<exists>b. r = bind b (\<lambda>i. invoke i accounts seeds) \<and> constructs program_id token_id (map acc_key accounts) b)"

lemma constructs_mono: "constructs p t ks r \<Longrightarrow> set ks \<subseteq> set ks' \<Longrightarrow> constructs p t ks' r"
  by (fastforce simp: constructs_def list_all_iff)

lemma calls_onlyI:
  "constructs program_id token_id ks b \<Longrightarrow> set ks \<subseteq> acc_key ` set accounts \<Longrightarrow>
     calls_only program_id token_id invoke accounts seeds (bind b (\<lambda>i. invoke i accounts seeds))"
  unfolding calls_only_def using constructs_mono [of program_id token_id ks b "map acc_key accounts"] by auto

lemma calls_only_Err [simp]:
  "calls_only program_id token_id invoke accounts seeds (Err NotEnoughAccountKeys)"
  "calls_only program_id token_id invoke accounts seeds (Err IncorrectProgramId)"
  by (simp_all add: calls_only_def)

text \<open>
  C0: the Orca pool functions call nothing but the Orca swap program. Each of them reports a slice of the
  wrong length or a foreign program id, or makes exactly one call, to the program with the fixed id, which
  names only accounts of the slice and the token program, provided the constructors of \<open>spl_token_swap\<close>
  keep to the program and the keys they are given.
\<close>

theorem orca_pool_calls_safe:
  assumes "\<And>p t ks d. constructs p t ks (dep p t ks d)" and "\<And>p t ks d. constructs p t ks (wit p t ks d)"
    and "\<And>p t ks h d. constructs p t ks (swp p t ks h d)"
  shows "calls_only orca_swap_id token_id runtime accounts [] (orca_add_liquidity runtime dep token_id accounts x y z) \<and>
    calls_only orca_swap_id token_id runtime accounts seeds (orca_add_liquidity_with_seeds runtime dep token_id accounts seeds x y z) \<and>
    calls_only orca_swap_id token_id runtime accounts seeds (orca_remove_liquidity_with_seeds runtime wit token_id accounts seeds x y z) \<and>
    calls_only orca_swap_id token_id runtime accounts seeds (orca_swap_with_seeds runtime swp token_id accounts seeds x y)"
proof (intro conjI)
  show "calls_only orca_swap_id token_id runtime accounts [] (orca_add_liquidity runtime dep token_id accounts x y z)"
    by (auto simp: orca_add_liquidity_def Let_def orca_check_pool_program_id_def intro!: calls_onlyI assms)
  show "calls_only orca_swap_id token_id runtime accounts seeds
      (orca_add_liquidity_with_seeds runtime dep token_id accounts seeds x y z)"
    by (auto simp: orca_add_liquidity_with_seeds_def Let_def orca_check_pool_program_id_def intro!: calls_onlyI assms)
  show "calls_only orca_swap_id token_id runtime accounts seeds
      (orca_remove_liquidity_with_seeds runtime wit token_id accounts seeds x y z)"
    by (auto simp: orca_remove_liquidity_with_seeds_def Let_def orca_check_pool_program_id_def intro!: calls_onlyI assms)
  show "calls_only orca_swap_id token_id runtime accounts seeds
      (orca_swap_with_seeds runtime swp token_id accounts seeds x y)"
    by (auto simp: orca_swap_with_seeds_def Let_def orca_check_pool_program_id_def intro!: calls_onlyI assms)
qed

definition example_build :: "pubkey \<Rightarrow> pubkey \<Rightarrow> pubkey list \<Rightarrow> 'd \<Rightarrow> Instruction result" where
  "example_build p t ks d = Ok \<lparr> ins_program_id = p, ins_accounts = map (\<lambda>k. meta_new k False) ks, ins_data = [1] \<rparr>"

definition example_slice :: "AccountInfo list" where
  "example_slice = (replicate 11 example_account)[3 := example_account\<lparr> acc_key := orca_swap_id \<rparr>]"

lemma example_build_constructs: "constructs p t ks (example_build p t ks d)"
  by (simp add: constructs_def example_build_def list_all_iff)

theorem orca_pool_calls_safe_witness:
  "orca_swap_with_seeds (\<lambda>_ _ _. Ok ()) (\<lambda>p t ks h. example_build p t ks) [9] example_slice [] 5 4 = Ok () \<and>
   calls_only orca_swap_id [9] (\<lambda>_ _ _. Ok ()) example_slice []
     (orca_swap_with_seeds (\<lambda>_ _ _. Ok ()) (\<lambda>p t ks h. example_build p t ks) [9] example_slice [] 5 4)"
proof
  show "orca_swap_with_seeds (\<lambda>_ _ _. Ok ()) (\<lambda>p t ks h. example_build p t ks) [9] example_slice [] 5 4 = Ok ()"
    by (simp add: orca_swap_with_seeds_def example_slice_def example_build_def orca_check_pool_program_id_def)
  show "calls_only orca_swap_id [9] (\<lambda>_ _ _. Ok ()) example_slice []
     (orca_swap_with_seeds (\<lambda>_ _ _. Ok ()) (\<lambda>p t ks h. example_build p t ks) [9] example_slice [] 5 4)"
    using orca_pool_calls_safe [of example_build example_build "\<lambda>p t ks h. example_build p t ks",
      OF example_build_constructs example_build_constructs example_build_constructs] by blast
qed

text \<open>An instruction for the farming program: the accounts of the slice and the token program, every
  signature that of the first account, read-only.\<close>

definition safe_farm_call :: "pubkey \<Rightarrow> AccountInfo list \<Rightarrow> Instruction \<Rightarrow> bool" where
  "safe_farm_call token_id accounts i \<longleftrightarrow>
     ins_program_id i = orca_stake_id \<and>
     list_all (\<lambda>m. meta_key m \<in> set (token_id # map acc_key accounts)) (ins_accounts i) \<and>
     set (filter meta_is_signer (ins_accounts i)) = {meta_new_readonly (acc_key (accounts ! 0)) True}"

definition farm_call :: "pubkey \<Rightarrow> invoke_signed \<Rightarrow> AccountInfo list \<Rightarrow> bytes list list \<Rightarrow> bytes \<Rightarrow> unit result \<Rightarrow> bool" where
  "farm_call token_id invoke accounts seeds data r \<longleftrightarrow>
     r = Err NotEnoughAccountKeys \<or> r = Err IncorrectProgramId \<or>
     (\<exists>i. r = invoke i accounts seeds \<and> safe_farm_call token_id accounts i \<and> ins_data i = data)"

lemma farm_callI:
  "safe_farm_call token_id accounts i \<Longrightarrow> ins_data i = data \<Longrightarrow>
     farm_call token_id invoke accounts seeds data (invoke i accounts seeds)"
  by (auto simp: farm_call_def)

lemma farm_call_Err [simp]:
  "farm_call token_id invoke accounts seeds data (Err NotEnoughAccountKeys)"
  "farm_call token_id invoke accounts seeds data (Err IncorrectProgramId)"
  by (simp_all add: farm_call_def)

text \<open>
  Staking, unstaking and harvesting on Orca either report a slice of the wrong length or a foreign
  program id, or make exactly one call, to the farming program with the fixed id, with the tag of the
  operation and the amount as data, naming only accounts of the slice and the token program, and asking
  for the signature of the first account and of no other.
\<close>

theorem orca_farm_calls_safe:
  "farm_call token_id runtime accounts seeds (2 # to_le_bytes x) (orca_stake_with_seeds runtime token_id accounts seeds x) \<and>
   farm_call token_id runtime accounts seeds (3 # to_le_bytes x) (orca_unstake_with_seeds runtime token_id accounts seeds x) \<and>
   farm_call token_id runtime accounts seeds [4] (orca_harvest_with_seeds runtime token_id accounts seeds)"
proof (intro conjI)
  show "farm_call token_id runtime accounts seeds (2 # to_le_bytes x) (orca_stake_with_seeds runtime token_id accounts seeds x)"
    by (auto simp: orca_stake_with_seeds_def Let_def orca_instruction_data safe_farm_call_def
      orca_check_stake_program_id_def intro!: farm_callI)
  show "farm_call token_id runtime accounts seeds (3 # to_le_bytes x) (orca_unstake_with_seeds runtime token_id accounts seeds x)"
    by (auto simp: orca_unstake_with_seeds_def Let_def orca_instruction_data safe_farm_call_def
      orca_check_stake_program_id_def intro!: farm_callI)
  show "farm_call token_id runtime accounts seeds [4] (orca_harvest_with_seeds runtime token_id accounts seeds)"
    by (auto simp: orca_harvest_with_seeds_def Let_def orca_instruction_data safe_farm_call_def
      orca_check_stake_program_id_def intro!: farm_callI)
qed

end
