(* ===== verification/Pda.thy ===== *)
theory Pda
  imports Account
begin

text \<open>
  The functions of \<open>crates/solana_farm_sdk/src/program/pda.rs\<close> that act on program derived addresses, of
  \<open>program/clock.rs\<close> and of \<open>program/mod.rs\<close>. They work on the ledger of \<open>Account\<close>. Arguments stand for the
  code of the Solana crates: \<open>invoke_signed\<close> for the runtime (\<open>invoke\<close> is \<open>invoke_signed\<close> without seeds),
  \<open>find_program_address\<close> for the derivation of an address and its bump, \<open>rent\<close> for \<open>Rent::get()\<close>, which
  gives the minimum balance of an account of a given size, and the readers of the system variables.
\<close>

type_synonym pda_invoke = "Cpi \<Rightarrow> pubkey list \<Rightarrow> bytes list list \<Rightarrow> ledger \<Rightarrow> (unit, ledger) effect"
type_synonym find_program_address = "bytes list \<Rightarrow> pubkey \<Rightarrow> pubkey \<times> u8"

section \<open>Creating accounts\<close>

definition pda_init_system_account ::
  "pda_invoke \<Rightarrow> find_program_address \<Rightarrow> (usize \<Rightarrow> u64) result \<Rightarrow> pubkey \<Rightarrow> pubkey \<Rightarrow> pubkey \<Rightarrow> pubkey
     \<Rightarrow> bytes list \<Rightarrow> usize \<Rightarrow> ledger \<Rightarrow> (u8, ledger) effect" where
  "pda_init_system_account invoke_signed find_program_address rent funding target owner_key base_address
     seeds data_size s =
     (if acc_lamports (s target) > 0 then
        (if acc_owner (s target) \<noteq> owner_key then (Err IllegalOwner, s)
         else if length (acc_data (s target)) \<noteq> data_size then (Err InvalidAccountData, s)
         else (Ok (snd (find_program_address seeds base_address)), s))
      else
        (let (key, bump) = find_program_address seeds base_address in
         if target \<noteq> key then (Err InvalidSeeds, s)
         else
           (case rent of
              Ok minimum_balance \<Rightarrow>
                (let min_balance = minimum_balance data_size in
                 seq (invoke_signed (SystemCreateAccount funding target min_balance (of_nat data_size) owner_key)
                        [funding, target] [seeds @ [[bump]]] s) (\<lambda>_ s.
                   (Ok bump, s)))
            | _ \<Rightarrow> (Panic, s))))"

definition pda_init_token_account ::
  "pda_invoke \<Rightarrow> find_program_address \<Rightarrow> (usize \<Rightarrow> u64) result \<Rightarrow> pubkey \<Rightarrow> pubkey \<Rightarrow> pubkey \<Rightarrow> pubkey \<Rightarrow> pubkey
     \<Rightarrow> pubkey \<Rightarrow> pubkey \<Rightarrow> bytes list \<Rightarrow> ledger \<Rightarrow> (unit, ledger) effect" where
  "pda_init_token_account invoke_signed find_program_address rent spl_token_id funding target mint owner
     rent_program base_address seeds s =
     (if acc_lamports (s target) > 0 then
        seq (pure_in s (check_token_account_owner spl_token_id (s target) owner)) (\<lambda>owned s.
          if \<not> owned then (Err IllegalOwner, s)
          else if length (acc_data (s target)) \<noteq> Account_LEN then (Err InvalidAccountData, s)
          else seq (pure_in s (get_token_account_mint (s target))) (\<lambda>m s.
            if mint \<noteq> m then (Err InvalidAccountData, s) else (Ok (), s)))
      else
        seq (pda_init_system_account invoke_signed find_program_address rent funding target spl_token_id
               base_address seeds Account_LEN s) (\<lambda>_ s.
          invoke_signed (SplInitializeAccount target mint owner) [target, mint, owner, rent_program] [] s))"

definition init_associated_token_account ::
  "pda_invoke \<Rightarrow> pubkey \<Rightarrow> pubkey \<Rightarrow> pubkey \<Rightarrow> pubkey \<Rightarrow> pubkey \<Rightarrow> pubkey \<Rightarrow> ledger \<Rightarrow> (unit, ledger) effect" where
  "init_associated_token_account invoke_signed spl_token_id funding wallet target mint rent_program s =
     (if acc_lamports (s target) > 0 then
        seq (pure_in s (check_token_account_owner spl_token_id (s target) wallet)) (\<lambda>owned s.
          if \<not> owned then (Err IllegalOwner, s)
          else if length (acc_data (s target)) \<noteq> Account_LEN then (Err InvalidAccountData, s)
          else seq (pure_in s (get_token_account_mint (s target))) (\<lambda>m s.
            if mint \<noteq> m then (Err InvalidAccountData, s) else (Ok (), s)))
      else invoke_signed (AtaCreate funding wallet mint) [funding, target, wallet, mint, rent_program] [] s)"

definition init_mint ::
  "pda_invoke \<Rightarrow> find_program_address \<Rightarrow> (usize \<Rightarrow> u64) result \<Rightarrow> pubkey \<Rightarrow> pubkey \<Rightarrow> pubkey \<Rightarrow> pubkey
     \<Rightarrow> pubkey \<Rightarrow> pubkey \<Rightarrow> bytes list \<Rightarrow> u8 \<Rightarrow> ledger \<Rightarrow> (unit, ledger) effect" where
  "init_mint invoke_signed find_program_address rent spl_token_id funding mint authority rent_program
     base_address seeds decimals s =
     (if acc_lamports (s mint) > 0 then
        seq (pure_in s (check_mint_authority spl_token_id (s mint) (Some authority))) (\<lambda>owned s.
          if \<not> owned then (Err IllegalOwner, s)
          else if length (acc_data (s mint)) \<noteq> Mint_LEN then (Err InvalidAccountData, s)
          else (Ok (), s))
      else
        seq (pda_init_system_account invoke_signed find_program_address rent funding mint spl_token_id
               base_address seeds Mint_LEN s) (\<lambda>_ s.
          invoke_signed (SplInitializeMint mint authority (Some authority) decimals)
            [mint, authority, rent_program] [] s))"

section \<open>Token operations signed by a derived address\<close>

text \<open>Every operation has a variant that takes the signer seeds and one that derives the bump and appends
  it to the seeds.\<close>

definition with_bump ::
  "find_program_address \<Rightarrow> pubkey \<Rightarrow> bytes list \<Rightarrow> (bytes list list \<Rightarrow> ledger \<Rightarrow> (unit, ledger) effect)
     \<Rightarrow> ledger \<Rightarrow> (u8, ledger) effect" where
  "with_bump find_program_address base_address seeds f s =
     (let (_, bump) = find_program_address seeds base_address in
      seq (f [seeds @ [[bump]]] s) (\<lambda>_ s. (Ok bump, s)))"

definition close_token_account_with_seeds ::
  "pda_invoke \<Rightarrow> pubkey \<Rightarrow> pubkey \<Rightarrow> pubkey \<Rightarrow> bytes list list \<Rightarrow> ledger \<Rightarrow> (unit, ledger) effect" where
  "close_token_account_with_seeds invoke_signed receiving target authority seeds s =
     (if \<not> acc_lamports (s target) > 0 then (Ok (), s)
      else invoke_signed (SplCloseAccount target receiving authority) [target, receiving, authority] seeds s)"

definition pda_close_token_account ::
  "pda_invoke \<Rightarrow> find_program_address \<Rightarrow> pubkey \<Rightarrow> pubkey \<Rightarrow> pubkey \<Rightarrow> pubkey \<Rightarrow> bytes list \<Rightarrow> ledger \<Rightarrow> (u8, ledger) effect" where
  "pda_close_token_account invoke_signed find_program_address receiving target authority base_address seeds =
     with_bump find_program_address base_address seeds
       (close_token_account_with_seeds invoke_signed receiving target authority)"

definition transfer_tokens_with_seeds ::
  "pda_invoke \<Rightarrow> pubkey \<Rightarrow> pubkey \<Rightarrow> pubkey \<Rightarrow> u64 \<Rightarrow> bytes list list \<Rightarrow> ledger \<Rightarrow> (unit, ledger) effect" where
  "transfer_tokens_with_seeds invoke_signed source dest authority amount seeds s =
     (if source = dest then (Err InvalidArgument, s)
      else invoke_signed (SplTransfer source dest authority amount) [source, dest, authority] seeds s)"

definition pda_transfer_tokens ::
  "pda_invoke \<Rightarrow> find_program_address \<Rightarrow> pubkey \<Rightarrow> pubkey \<Rightarrow> pubkey \<Rightarrow> pubkey \<Rightarrow> bytes list \<Rightarrow> u64 \<Rightarrow> ledger
     \<Rightarrow> (u8, ledger) effect" where
  "pda_transfer_tokens invoke_signed find_program_address source dest authority base_address seeds amount =
     with_bump find_program_address base_address seeds
       (transfer_tokens_with_seeds invoke_signed source dest authority amount)"

definition mint_to_with_seeds ::
  "pda_invoke \<Rightarrow> pubkey \<Rightarrow> pubkey \<Rightarrow> pubkey \<Rightarrow> u64 \<Rightarrow> bytes list list \<Rightarrow> ledger \<Rightarrow> (unit, ledger) effect" where
  "mint_to_with_seeds invoke_signed target mint mint_authority amount seeds s =
     invoke_signed (SplMintTo mint target mint_authority amount) [mint, target, mint_authority] seeds s"

definition mint_to ::
  "pda_invoke \<Rightarrow> find_program_address \<Rightarrow> pubkey \<Rightarrow> pubkey \<Rightarrow> pubkey \<Rightarrow> pubkey \<Rightarrow> bytes list \<Rightarrow> u64 \<Rightarrow> ledger
     \<Rightarrow> (u8, ledger) effect" where
  "mint_to invoke_signed find_program_address target mint mint_authority base_address seeds amount =
     with_bump find_program_address base_address seeds
       (mint_to_with_seeds invoke_signed target mint mint_authority amount)"

definition burn_tokens_with_seeds ::
  "pda_invoke \<Rightarrow> pubkey \<Rightarrow> pubkey \<Rightarrow> pubkey \<Rightarrow> u64 \<Rightarrow> bytes list list \<Rightarrow> ledger \<Rightarrow> (unit, ledger) effect" where
  "burn_tokens_with_seeds invoke_signed from_token mint authority amount seeds s =
     invoke_signed (SplBurn from_token mint authority amount) [from_token, mint, authority] seeds s"

definition pda_burn_tokens ::
  "pda_invoke \<Rightarrow> find_program_address \<Rightarrow> pubkey \<Rightarrow> pubkey \<Rightarrow> pubkey \<Rightarrow> pubkey \<Rightarrow> bytes list \<Rightarrow> u64 \<Rightarrow> ledger
     \<Rightarrow> (u8, ledger) effect" where
  "pda_burn_tokens invoke_signed find_program_address from_token mint authority base_address seeds amount =
     with_bump find_program_address base_address seeds
       (burn_tokens_with_seeds invoke_signed from_token mint authority amount)"

definition approve_delegate_with_seeds ::
  "pda_invoke \<Rightarrow> pubkey \<Rightarrow> pubkey \<Rightarrow> pubkey \<Rightarrow> u64 \<Rightarrow> bytes list list \<Rightarrow> ledger \<Rightarrow> (unit, ledger) effect" where
  "approve_delegate_with_seeds invoke_signed source delegate authority amount seeds s =
     invoke_signed (SplApprove source delegate authority amount) [source, delegate, authority] seeds s"

definition pda_approve_delegate ::
  "pda_invoke \<Rightarrow> find_program_address \<Rightarrow> pubkey \<Rightarrow> pubkey \<Rightarrow> pubkey \<Rightarrow> pubkey \<Rightarrow> bytes list \<Rightarrow> u64 \<Rightarrow> ledger
     \<Rightarrow> (u8, ledger) effect" where
  "pda_approve_delegate invoke_signed find_program_address source delegate authority base_address seeds amount =
     with_bump find_program_address base_address seeds
       (approve_delegate_with_seeds invoke_signed source delegate authority amount)"

definition revoke_delegate_with_seeds ::
  "pda_invoke \<Rightarrow> pubkey \<Rightarrow> pubkey \<Rightarrow> bytes list list \<Rightarrow> ledger \<Rightarrow> (unit, ledger) effect" where
  "revoke_delegate_with_seeds invoke_signed source authority seeds s =
     invoke_signed (SplRevoke source authority) [source, authority] seeds s"

definition pda_revoke_delegate ::
  "pda_invoke \<Rightarrow> find_program_address \<Rightarrow> pubkey \<Rightarrow> pubkey \<Rightarrow> pubkey \<Rightarrow> bytes list \<Rightarrow> ledger \<Rightarrow> (u8, ledger) effect" where
  "pda_revoke_delegate invoke_signed find_program_address source authority base_address seeds =
     with_bump find_program_address base_address seeds (revoke_delegate_with_seeds invoke_signed source authority)"

section \<open>Checks that can repair an account\<close>

definition check_pda_data_size ::
  "pda_invoke \<Rightarrow> pubkey \<Rightarrow> bytes list \<Rightarrow> usize \<Rightarrow> bool \<Rightarrow> ledger \<Rightarrow> (unit, ledger) effect" where
  "check_pda_data_size invoke_signed target seeds data_size fix_it s =
     seq (if fix_it \<and> acc_data (s target) = [] then
            invoke_signed (SystemAllocate target (of_nat data_size)) [target] [seeds] s
          else (Ok (), s)) (\<lambda>_ s.
       if length (acc_data (s target)) < data_size then (Err AccountDataTooSmall, s) else (Ok (), s))"

text \<open>\<open>checked_sub(..).unwrap()\<close> panics where the difference is negative.\<close>

definition sub_unwrap :: "u64 \<Rightarrow> u64 \<Rightarrow> u64 result" where
  "sub_unwrap a b = (if b \<le> a then Ok (a - b) else Panic)"

definition check_pda_rent_exempt ::
  "pda_invoke \<Rightarrow> (usize \<Rightarrow> u64) result \<Rightarrow> pubkey \<Rightarrow> pubkey \<Rightarrow> bytes list \<Rightarrow> usize \<Rightarrow> bool \<Rightarrow> ledger
     \<Rightarrow> (unit, ledger) effect" where
  "check_pda_rent_exempt invoke_signed rent signer target seeds data_size fix_it s =
     seq (pure_in s rent) (\<lambda>minimum_balance s.
       (let cur_balance = acc_lamports (s target);
            min_balance = minimum_balance data_size
        in if cur_balance < min_balance then
             (let signer_balance = acc_lamports (s signer);
                  signer_min_balance = minimum_balance (length (acc_data (s signer)))
              in seq (pure_in s
                       (if \<not> fix_it then Ok True
                        else if signer_balance \<le> signer_min_balance then Ok True
                        else bind (sub_unwrap min_balance cur_balance) (\<lambda>needed.
                             bind (sub_unwrap signer_balance signer_min_balance) (\<lambda>available.
                               Ok (needed > available))))) (\<lambda>refuse s.
                   if refuse then (Err InsufficientFunds, s)
                   else
                     seq (pure_in s (sub_unwrap min_balance cur_balance)) (\<lambda>needed s.
                     seq (invoke_signed (SystemTransfer signer target needed) [signer, target] [seeds] s) (\<lambda>_ s.
                       if min_balance \<le> acc_lamports (s target) then (Ok (), s) else (Panic, s)))))
           else (Ok (), s)))"

definition check_pda_owner ::
  "pda_invoke \<Rightarrow> pubkey \<Rightarrow> pubkey \<Rightarrow> bytes list \<Rightarrow> bool \<Rightarrow> ledger \<Rightarrow> (unit, ledger) effect" where
  "check_pda_owner invoke_signed program_id target seeds fix_it s =
     (if acc_owner (s target) \<noteq> program_id then
        (if fix_it then
           seq (invoke_signed (SystemAssign target program_id) [target] [seeds] s) (\<lambda>_ s.
             if acc_owner (s target) = program_id then (Ok (), s) else (Panic, s))
         else (Err IllegalOwner, s))
      else (Ok (), s))"

section \<open>Clock and instruction introspection\<close>

record Clock =
  clk_slot :: u64
  clk_unix_timestamp :: u64

text \<open>\<open>clk_unix_timestamp\<close> holds the bits of an \<open>i64\<close>; its value is \<open>sint\<close>.\<close>

definition get_time :: "Clock result \<Rightarrow> u64 result" where
  "get_time clock = bind clock (\<lambda>c. Ok (clk_unix_timestamp c))"

definition get_time_as_u64 :: "Clock result \<Rightarrow> u64 result" where
  "get_time_as_u64 clock =
     bind clock (\<lambda>c. if 0 \<le> sint (clk_unix_timestamp c) then Ok (clk_unix_timestamp c)
       else Err (farm_error MathOverflow))"

definition get_slot :: "Clock result \<Rightarrow> u64 result" where
  "get_slot clock = bind clock (\<lambda>c. Ok (clk_slot c))"

definition is_single_instruction ::
  "pubkey \<Rightarrow> (AccountInfo \<Rightarrow> u16 result) \<Rightarrow> (usize \<Rightarrow> AccountInfo \<Rightarrow> 'i result) \<Rightarrow> AccountInfo \<Rightarrow> bool result" where
  "is_single_instruction instructions_id load_current_index load_instruction_at sysvar_account =
     (if instructions_id \<noteq> acc_key sysvar_account then Err UnsupportedSysvar
      else
        bind (load_current_index sysvar_account) (\<lambda>i.
          if i = 0 then
            (case load_instruction_at 1 sysvar_account of Ok _ \<Rightarrow> Ok False | Err _ \<Rightarrow> Ok True | Panic \<Rightarrow> Panic)
          else Ok False))"

definition is_first_or_last_instruction ::
  "pubkey \<Rightarrow> (AccountInfo \<Rightarrow> u16 result) \<Rightarrow> (usize \<Rightarrow> AccountInfo \<Rightarrow> 'i result) \<Rightarrow> AccountInfo \<Rightarrow> bool result" where
  "is_first_or_last_instruction instructions_id load_current_index load_instruction_at sysvar_account =
     (if instructions_id \<noteq> acc_key sysvar_account then Err UnsupportedSysvar
      else
        bind (load_current_index sysvar_account) (\<lambda>i.
          if i = 0 then Ok True
          else (case load_instruction_at (unat i + 1) sysvar_account of
                  Ok _ \<Rightarrow> Ok False | Err _ \<Rightarrow> Ok True | Panic \<Rightarrow> Panic)))"

definition is_last_instruction ::
  "pubkey \<Rightarrow> (AccountInfo \<Rightarrow> u16 result) \<Rightarrow> (usize \<Rightarrow> AccountInfo \<Rightarrow> 'i result) \<Rightarrow> AccountInfo \<Rightarrow> bool result" where
  "is_last_instruction instructions_id load_current_index load_instruction_at sysvar_account =
     (if instructions_id \<noteq> acc_key sysvar_account then Err UnsupportedSysvar
      else
        bind (load_current_index sysvar_account) (\<lambda>i.
          (case load_instruction_at (unat i + 1) sysvar_account of
             Ok _ \<Rightarrow> Ok False | Err _ \<Rightarrow> Ok True | Panic \<Rightarrow> Panic)))"

section \<open>Properties\<close>

text \<open>What the system program does with a transfer that it executes: it moves exactly the amount, which the
  source has and which does not overflow the destination, and touches nothing else.\<close>

definition transfer_law :: "pda_invoke \<Rightarrow> bool" where
  "transfer_law invoke \<longleftrightarrow>
     (\<forall>a b n ks seeds s. a \<noteq> b \<longrightarrow>
        (case invoke (SystemTransfer a b n) ks seeds s of
           (Ok _, s') \<Rightarrow> n \<le> acc_lamports (s a) \<and> unat (acc_lamports (s b)) + unat n < 2 ^ 64 \<and>
             s' = s(a := (s a)\<lparr> acc_lamports := acc_lamports (s a) - n \<rparr>,
                    b := (s b)\<lparr> acc_lamports := acc_lamports (s b) + n \<rparr>)
         | (Err _, s') \<Rightarrow> s' = s
         | (Panic, _) \<Rightarrow> False))"

text \<open>
  Topping up an account for rent is exact and safe. Under the law of the system program's transfers,
  \<open>check_pda_rent_exempt\<close> never panics; when it succeeds the account holds at least the minimum balance,
  the signer keeps its own minimum balance if it had to pay, lamports are conserved and no third account
  changes; when it fails nothing has changed and the balance was too low; without \<open>fix\<close> it only checks.
\<close>

theorem check_pda_rent_exempt_correct:
  assumes "transfer_law invoke" and "signer \<noteq> target"
    and "check_pda_rent_exempt invoke (Ok minimum) signer target seeds n fix_it s = (r, s')"
  shows "r \<noteq> Panic \<and>
    (r = Ok () \<longrightarrow> minimum n \<le> acc_lamports (s' target) \<and>
       (s' \<noteq> s \<longrightarrow> fix_it \<and> minimum (length (acc_data (s signer))) \<le> acc_lamports (s' signer)) \<and>
       unat (acc_lamports (s' signer)) + unat (acc_lamports (s' target)) =
         unat (acc_lamports (s signer)) + unat (acc_lamports (s target))) \<and>
    (r \<noteq> Ok () \<longrightarrow> s' = s \<and> acc_lamports (s target) < minimum n) \<and>
    (\<forall>k. k \<noteq> signer \<longrightarrow> k \<noteq> target \<longrightarrow> s' k = s k)"
proof (cases "acc_lamports (s target) < minimum n")
  case False
  then show ?thesis using assms(3) by (auto simp: check_pda_rent_exempt_def Let_def)
next
  case low: True
  let ?b = "acc_lamports (s signer)" and ?m = "minimum (length (acc_data (s signer)))"
  let ?d = "minimum n - acc_lamports (s target)"
  show ?thesis
  proof (cases "\<not> fix_it \<or> ?b \<le> ?m \<or> ?d > ?b - ?m")
    case True
    then show ?thesis using assms(3) low
      by (auto simp: check_pda_rent_exempt_def Let_def sub_unwrap_def split: if_splits)
  next
    case False
    then have pay: "check_pda_rent_exempt invoke (Ok minimum) signer target seeds n fix_it s =
        seq (invoke (SystemTransfer signer target ?d) [signer, target] [seeds] s) (\<lambda>_ s.
          if minimum n \<le> acc_lamports (s target) then (Ok (), s) else (Panic, s))"
      using low by (auto simp: check_pda_rent_exempt_def Let_def sub_unwrap_def)
    have d: "unat ?d = unat (minimum n) - unat (acc_lamports (s target))" "unat (?b - ?m) = unat ?b - unat ?m"
      using low False by (auto simp: unat_sub not_le)
    note law = assms(1) [unfolded transfer_law_def, rule_format, OF assms(2),
      where n = ?d and ks = "[signer, target]" and seeds = "[seeds]" and s = s]
    show ?thesis
    proof (cases "invoke (SystemTransfer signer target ?d) [signer, target] [seeds] s")
      case (Pair res s1)
      then show ?thesis
        using law pay assms(2,3) d low False
        by (cases res) (auto simp: word_le_nat_alt word_less_nat_alt unat_word_ariths(1) unat_sub fun_upd_def)
    qed
  qed
qed

definition example_system :: pda_invoke where
  "example_system c ks seeds s =
     (case c of
        SystemTransfer a b n \<Rightarrow>
          (if n \<le> acc_lamports (s a) \<and> unat (acc_lamports (s b)) + unat n < 2 ^ 64 then
             (Ok (), s(a := (s a)\<lparr> acc_lamports := acc_lamports (s a) - n \<rparr>,
                       b := (s b)\<lparr> acc_lamports := acc_lamports (s b) + n \<rparr>))
           else (Err InsufficientFunds, s))
      | _ \<Rightarrow> (Ok (), s))"

definition example_ledger :: ledger where
  "example_ledger k = example_account\<lparr> acc_key := k, acc_lamports := (if k = [1] then 1000 else 5), acc_data := [] \<rparr>"

lemma example_system_law: "transfer_law example_system"
  by (auto simp: transfer_law_def example_system_def)

theorem check_pda_rent_exempt_correct_witness:
  "\<exists>s'. check_pda_rent_exempt example_system (Ok (\<lambda>n. of_nat n + 100)) [1] [2] [] 50 True example_ledger = (Ok (), s') \<and>
     150 \<le> acc_lamports (s' [2]) \<and> acc_lamports (s' [1]) = 855"
proof -
  let ?c = "check_pda_rent_exempt example_system (Ok (\<lambda>n. of_nat n + 100)) [1] [2] [] 50 True example_ledger"
  have c: "?c = (Ok (), example_ledger([1] := (example_ledger [1])\<lparr> acc_lamports := 855 \<rparr>,
      [2] := (example_ledger [2])\<lparr> acc_lamports := 150 \<rparr>))"
    by (simp add: check_pda_rent_exempt_def sub_unwrap_def example_system_def example_ledger_def Let_def)
  show ?thesis
    using check_pda_rent_exempt_correct [OF example_system_law _ c] c by simp
qed

lemma seq_return_state: "seq m (\<lambda>_. Pair (Ok b)) = (r, s) \<Longrightarrow> s = snd m"
  by (cases m; cases "fst m") auto

text \<open>
  No initialiser touches an account that already exists. If the target holds lamports, creating a
  system account, a token account, an associated token account or a mint at it leaves the ledger as it is
  and succeeds only if the account already is what was asked for: its owner, its size and, for tokens, the
  recorded owner and mint agree. A new system account is only ever created at the derived address, signed
  with the seeds and the bump that is returned.
\<close>

theorem initialisers_keep_existing:
  "(acc_lamports (s t) > 0 \<and> pda_init_system_account invoke fpa rent f t own base seeds n s = (r, s1) \<longrightarrow>
      s1 = s \<and> (r = Ok b \<longrightarrow> acc_owner (s t) = own \<and> length (acc_data (s t)) = n \<and> b = snd (fpa seeds base))) \<and>
   (acc_lamports (s t) > 0 \<and> pda_init_token_account invoke fpa rent tid f t mint own rp base seeds s = (r', s1) \<longrightarrow>
      s1 = s \<and> (r' = Ok () \<longrightarrow> acc_owner (s t) = tid \<and> length (acc_data (s t)) = Account_LEN \<and>
        get_token_account_owner (s t) = Ok own \<and> get_token_account_mint (s t) = Ok mint)) \<and>
   (acc_lamports (s t) > 0 \<and> init_associated_token_account invoke tid f own t mint rp s = (r', s1) \<longrightarrow>
      s1 = s \<and> (r' = Ok () \<longrightarrow> acc_owner (s t) = tid \<and> length (acc_data (s t)) = Account_LEN \<and>
        get_token_account_owner (s t) = Ok own \<and> get_token_account_mint (s t) = Ok mint)) \<and>
   (acc_lamports (s t) > 0 \<and> init_mint invoke fpa rent tid f t own rp base seeds dec s = (r', s1) \<longrightarrow>
      s1 = s \<and> (r' = Ok () \<longrightarrow> acc_owner (s t) = tid \<and> length (acc_data (s t)) = Mint_LEN \<and>
        get_mint_authority (s t) = Ok (Some own))) \<and>
   (acc_lamports (s t) = 0 \<and> pda_init_system_account invoke fpa rent f t own base seeds n s = (r, s1) \<and> s1 \<noteq> s \<longrightarrow>
      t = fst (fpa seeds base) \<and>
      (\<exists>m. rent = Ok m \<and>
        s1 = snd (invoke (SystemCreateAccount f t (m n) (of_nat n) own) [f, t] [seeds @ [[snd (fpa seeds base)]]] s)))"
proof -
  have tok: "seq (pure_in s (check_token_account_owner tid (s t) own)) (\<lambda>owned s.
      if \<not> owned then (Err IllegalOwner, s)
      else if length (acc_data (s t)) \<noteq> Account_LEN then (Err InvalidAccountData, s)
      else seq (pure_in s (get_token_account_mint (s t))) (\<lambda>m s.
        if mint \<noteq> m then (Err InvalidAccountData, s) else (Ok (), s))) = (r', s1) \<longrightarrow>
      s1 = s \<and> (r' = Ok () \<longrightarrow> acc_owner (s t) = tid \<and> length (acc_data (s t)) = Account_LEN \<and>
        get_token_account_owner (s t) = Ok own \<and> get_token_account_mint (s t) = Ok mint)"
    by (cases "get_token_account_owner (s t)"; cases "get_token_account_mint (s t)")
      (auto simp: check_token_account_owner_def)
  have mint: "seq (pure_in s (check_mint_authority tid (s t) (Some own))) (\<lambda>owned s.
      if \<not> owned then (Err IllegalOwner, s)
      else if length (acc_data (s t)) \<noteq> Mint_LEN then (Err InvalidAccountData, s) else (Ok (), s)) = (r', s1) \<longrightarrow>
      s1 = s \<and> (r' = Ok () \<longrightarrow> acc_owner (s t) = tid \<and> length (acc_data (s t)) = Mint_LEN \<and>
        get_mint_authority (s t) = Ok (Some own))"
    by (cases "get_mint_authority (s t)") (auto simp: check_mint_authority_def)
  have new: "acc_lamports (s t) = 0 \<and> pda_init_system_account invoke fpa rent f t own base seeds n s = (r, s1) \<and> s1 \<noteq> s \<longrightarrow>
      t = fst (fpa seeds base) \<and>
      (\<exists>m. rent = Ok m \<and>
        s1 = snd (invoke (SystemCreateAccount f t (m n) (of_nat n) own) [f, t] [seeds @ [[snd (fpa seeds base)]]] s))"
    by (auto simp: pda_init_system_account_def Let_def dest!: seq_return_state split: result.splits prod.splits if_splits)
  show ?thesis
    using tok mint new
    by (auto simp: pda_init_system_account_def pda_init_token_account_def init_associated_token_account_def init_mint_def)
qed

theorem initialisers_keep_existing_witness:
  "\<exists>s1. pda_init_system_account example_system (\<lambda>_ _. ([9], 7)) Panic [1] [2] (acc_owner example_account) [3] [] 0
     example_ledger = (Ok 7, s1) \<and> s1 = example_ledger \<and> acc_owner (example_ledger [2]) = acc_owner example_account"
proof -
  have l: "acc_lamports (example_ledger [2]) > 0" by (simp add: example_ledger_def)
  have c: "pda_init_system_account example_system (\<lambda>_ _. ([9], 7)) Panic [1] [2] (acc_owner example_account) [3] [] 0
      example_ledger = (Ok 7, example_ledger)"
    by (simp add: pda_init_system_account_def example_ledger_def)
  from conjunct1 [OF initialisers_keep_existing [of example_ledger "[2]" example_system "\<lambda>_ _. ([9], 7)" Panic "[1]"
      "acc_owner example_account" "[3]" "[]" 0 "Ok 7" example_ledger 7]] l c
  show ?thesis by simp
qed

end
