(* ===== verification/Bot_Buffers.thy ===== *)
theory Bot_Buffers
  imports Rust_Prelude
begin

text \<open>
  The containers under \<open>src/src/utils\<close>: \<open>CircularBuffer\<close>, \<open>CircularBufferWithLookupByValue\<close>,
  \<open>RollingAverage\<close>, \<open>Percentile\<close> and \<open>FeeMetrics\<close>. A hash map is a HOL map, a deque a list with
  its front first, a \<open>BTreeSet\<close> a sorted list. What the two circular buffers promise to their
  clients, a map that remembers the last \<open>capacity\<close> insertions, is the locale \<open>bounded_fifo\<close>.
  \<open>fee_metrics.rs\<close> has private copies of \<open>RollingAverage\<close> and \<open>Percentile\<close> with the same code as
  \<open>rolling_average.rs\<close> and \<open>percentile.rs\<close>; one model serves both.
\<close>

section \<open>\<open>CircularBuffer\<close>\<close>

record ('k, 'v) CircularBuffer =
  cb_map :: "'k \<Rightarrow> 'v option"
  cb_deque :: "'k list"
  cb_capacity :: usize

definition cb_new :: "usize \<Rightarrow> ('k, 'v) CircularBuffer" where
  "cb_new capacity = \<lparr> cb_map = Map.empty, cb_deque = [], cb_capacity = capacity \<rparr>"

definition cb_insert :: "'k \<Rightarrow> 'v \<Rightarrow> ('k, 'v) CircularBuffer \<Rightarrow> ('k, 'v) CircularBuffer" where
  "cb_insert key value self =
     (let self1 =
            (if length (cb_deque self) = cb_capacity self then
               (case cb_deque self of
                  old_key # rest \<Rightarrow>
                    self\<lparr> cb_deque := rest, cb_map := (cb_map self)(old_key := None) \<rparr>
                | [] \<Rightarrow> self)
             else self)
      in self1\<lparr> cb_deque := cb_deque self1 @ [key], cb_map := (cb_map self1)(key \<mapsto> value) \<rparr>)"

definition cb_contains_key :: "('k, 'v) CircularBuffer \<Rightarrow> 'k \<Rightarrow> bool" where
  "cb_contains_key self key \<longleftrightarrow> cb_map self key \<noteq> None"

definition cb_len :: "('k, 'v) CircularBuffer \<Rightarrow> usize" where
  "cb_len self = length (cb_deque self)"

definition cb_is_empty :: "('k, 'v) CircularBuffer \<Rightarrow> bool" where
  "cb_is_empty self \<longleftrightarrow> cb_deque self = []"

definition cb_get_by_key :: "('k, 'v) CircularBuffer \<Rightarrow> 'k \<Rightarrow> 'v option" where
  "cb_get_by_key self key = cb_map self key"

definition cb_pop_front ::
  "('k, 'v) CircularBuffer \<Rightarrow> ('k \<times> 'v) option \<times> ('k, 'v) CircularBuffer" where
  "cb_pop_front self =
     (case cb_deque self of
        [] \<Rightarrow> (None, self)
      | key # rest \<Rightarrow>
          (case cb_map self key of
             Some value \<Rightarrow>
               (Some (key, value), self\<lparr> cb_deque := rest, cb_map := (cb_map self)(key := None) \<rparr>)
           | None \<Rightarrow> (None, self\<lparr> cb_deque := rest \<rparr>)))"

definition cb_get_all_values :: "('k, 'v) CircularBuffer \<Rightarrow> 'v list" where
  "cb_get_all_values self = List.map_filter (cb_map self) (cb_deque self)"

section \<open>\<open>CircularBufferWithLookupByValue\<close>\<close>

record ('k, 'v) CircularBufferWithLookupByValue =
  rb_map :: "'k \<Rightarrow> 'v option"
  rb_reverse_map :: "'v \<Rightarrow> 'k option"
  rb_deque :: "'k list"
  rb_reverse_deque :: "'v list"
  rb_capacity :: usize

definition rb_new :: "usize \<Rightarrow> ('k, 'v) CircularBufferWithLookupByValue" where
  "rb_new capacity = \<lparr> rb_map = Map.empty, rb_reverse_map = Map.empty, rb_deque = [],
     rb_reverse_deque = [], rb_capacity = capacity \<rparr>"

definition rb_insert ::
  "'k \<Rightarrow> 'v \<Rightarrow> ('k, 'v) CircularBufferWithLookupByValue \<Rightarrow> ('k, 'v) CircularBufferWithLookupByValue" where
  "rb_insert key value self =
     (let self1 =
            (if length (rb_deque self) = rb_capacity self then
               (case rb_deque self of
                  old_key # rest \<Rightarrow>
                    (case rb_map self old_key of
                       Some old_value \<Rightarrow>
                         self\<lparr> rb_deque := rest, rb_map := (rb_map self)(old_key := None),
                           rb_reverse_map := (rb_reverse_map self)(old_value := None),
                           rb_reverse_deque := tl (rb_reverse_deque self) \<rparr>
                     | None \<Rightarrow> self\<lparr> rb_deque := rest \<rparr>)
                | [] \<Rightarrow> self)
             else self)
      in self1\<lparr> rb_deque := rb_deque self1 @ [key],
           rb_reverse_deque := rb_reverse_deque self1 @ [value],
           rb_map := (rb_map self1)(key \<mapsto> value),
           rb_reverse_map := (rb_reverse_map self1)(value \<mapsto> key) \<rparr>)"

definition rb_contains_key :: "('k, 'v) CircularBufferWithLookupByValue \<Rightarrow> 'k \<Rightarrow> bool" where
  "rb_contains_key self key \<longleftrightarrow> rb_map self key \<noteq> None"

definition rb_contains_value :: "('k, 'v) CircularBufferWithLookupByValue \<Rightarrow> 'v \<Rightarrow> bool" where
  "rb_contains_value self value \<longleftrightarrow> rb_reverse_map self value \<noteq> None"

definition rb_len :: "('k, 'v) CircularBufferWithLookupByValue \<Rightarrow> usize" where
  "rb_len self = length (rb_deque self)"

definition rb_is_empty :: "('k, 'v) CircularBufferWithLookupByValue \<Rightarrow> bool" where
  "rb_is_empty self \<longleftrightarrow> rb_deque self = []"

definition rb_get_by_key :: "('k, 'v) CircularBufferWithLookupByValue \<Rightarrow> 'k \<Rightarrow> 'v option" where
  "rb_get_by_key self key = rb_map self key"

definition rb_get_by_value :: "('k, 'v) CircularBufferWithLookupByValue \<Rightarrow> 'v \<Rightarrow> 'k option" where
  "rb_get_by_value self value = rb_reverse_map self value"

definition rb_pop_front ::
  "('k, 'v) CircularBufferWithLookupByValue
     \<Rightarrow> ('k \<times> 'v) option \<times> ('k, 'v) CircularBufferWithLookupByValue" where
  "rb_pop_front self =
     (case rb_deque self of
        [] \<Rightarrow> (None, self)
      | key # rest \<Rightarrow>
          (case rb_map self key of
             Some value \<Rightarrow>
               (Some (key, value),
                self\<lparr> rb_deque := rest, rb_map := (rb_map self)(key := None),
                  rb_reverse_map := (rb_reverse_map self)(value := None),
                  rb_reverse_deque := tl (rb_reverse_deque self) \<rparr>)
           | None \<Rightarrow> (None, self\<lparr> rb_deque := rest \<rparr>)))"

definition rb_remove ::
  "'k \<Rightarrow> ('k, 'v) CircularBufferWithLookupByValue
     \<Rightarrow> 'v option \<times> ('k, 'v) CircularBufferWithLookupByValue" where
  "rb_remove key self =
     (case rb_map self key of
        Some value \<Rightarrow>
          (Some value,
           self\<lparr> rb_map := (rb_map self)(key := None),
             rb_reverse_map := (rb_reverse_map self)(value := None),
             rb_reverse_deque := tl (rb_reverse_deque self) \<rparr>)
      | None \<Rightarrow> (None, self))"

definition rb_get_all_values :: "('k, 'v) CircularBufferWithLookupByValue \<Rightarrow> 'v list" where
  "rb_get_all_values self = rb_reverse_deque self"

section \<open>\<open>RollingAverage\<close>\<close>

record RollingAverage =
  ra_buffer :: "u64 list"
  ra_size :: usize
  ra_index :: usize
  ra_sum :: u64

definition ra_new :: "usize \<Rightarrow> RollingAverage" where
  "ra_new n = \<lparr> ra_buffer = replicate n 0, ra_size = n, ra_index = 0, ra_sum = 0 \<rparr>"

text \<open>Indexing an empty buffer and the division by a zero size panic.\<close>

definition ra_add :: "u64 \<Rightarrow> RollingAverage \<Rightarrow> RollingAverage result" where
  "ra_add value self =
     (if ra_index self < length (ra_buffer self) \<and> ra_size self \<noteq> 0 then
        Ok (self\<lparr> ra_sum := ra_sum self - ra_buffer self ! ra_index self + value,
              ra_buffer := (ra_buffer self)[ra_index self := value],
              ra_index := (ra_index self + 1) mod ra_size self \<rparr>)
      else Panic)"

definition ra_get_average :: "RollingAverage \<Rightarrow> u64 result" where
  "ra_get_average self =
     (if (of_nat (ra_size self) :: u64) = 0 then Panic
      else Ok (ra_sum self div of_nat (ra_size self)))"

section \<open>\<open>Percentile\<close> and \<open>FeeMetrics\<close>\<close>

record Percentile =
  pc_data :: "u64 list"
  pc_capacity :: usize

definition pc_new :: "usize \<Rightarrow> Percentile" where
  "pc_new capacity = \<lparr> pc_data = [], pc_capacity = capacity \<rparr>"

text \<open>Insertion into a sorted list without repetitions is insertion into the ordered set.\<close>

fun set_insert :: "u64 \<Rightarrow> u64 list \<Rightarrow> u64 list" where
  "set_insert v [] = [v]"
| "set_insert v (x # xs) =
     (if v < x then v # x # xs else if v = x then x # xs else x # set_insert v xs)"

definition pc_add :: "u64 \<Rightarrow> Percentile \<Rightarrow> Percentile" where
  "pc_add value self =
     (let data = (if length (pc_data self) = pc_capacity self then tl (pc_data self) else pc_data self)
      in self\<lparr> pc_data := set_insert value data \<rparr>)"

text \<open>
  The index of the percentile is a rounded product of \<open>f64\<close> values; the function that computes
  it from the percentile and the number of elements is the argument \<open>rank\<close>.
\<close>

definition pc_get_percentile :: "('p \<Rightarrow> nat \<Rightarrow> nat) \<Rightarrow> Percentile \<Rightarrow> 'p \<Rightarrow> u64 option" where
  "pc_get_percentile rank self percentile =
     (if pc_data self = [] then None
      else
        (let k = rank percentile (length (pc_data self))
         in if k < length (pc_data self) then Some (pc_data self ! k) else None))"

record FeeMetrics =
  fm_rolling_average :: RollingAverage
  fm_percentile :: Percentile

definition fm_new :: "usize \<Rightarrow> usize \<Rightarrow> FeeMetrics" where
  "fm_new average_size percentile_capacity =
     \<lparr> fm_rolling_average = ra_new average_size, fm_percentile = pc_new percentile_capacity \<rparr>"

definition fm_default :: FeeMetrics where
  "fm_default = fm_new 10 100"

definition fm_add_fee :: "u64 \<Rightarrow> FeeMetrics \<Rightarrow> FeeMetrics result" where
  "fm_add_fee fee self =
     bind (ra_add fee (fm_rolling_average self)) (\<lambda>ra.
       Ok (self\<lparr> fm_rolling_average := ra, fm_percentile := pc_add fee (fm_percentile self) \<rparr>))"

definition fm_get_rolling_average :: "FeeMetrics \<Rightarrow> u64 result" where
  "fm_get_rolling_average self = ra_get_average (fm_rolling_average self)"

definition fm_get_percentile :: "('p \<Rightarrow> nat \<Rightarrow> nat) \<Rightarrow> FeeMetrics \<Rightarrow> 'p \<Rightarrow> u64 option" where
  "fm_get_percentile rank self p = pc_get_percentile rank (fm_percentile self) p"

section \<open>The contract of a bounded buffer\<close>

text \<open>The last \<open>n\<close> elements of a list.\<close>

definition last_n :: "nat \<Rightarrow> 'a list \<Rightarrow> 'a list" where
  "last_n n xs = drop (length xs - n) xs"

lemma last_n_snoc:
  assumes "0 < n"
  shows "last_n n (xs @ [x]) = (if length (last_n n xs) = n then tl (last_n n xs) else last_n n xs) @ [x]"
proof (cases "n \<le> length xs")
  case True
  then have "length (last_n n xs) = n" "Suc (length xs) - n = Suc (length xs - n)"
    by (simp_all add: last_n_def)
  then show ?thesis using assms True by (simp add: last_n_def drop_Suc tl_drop)
qed (use assms in \<open>simp add: last_n_def\<close>)

lemma length_last_n [simp]: "length (last_n n xs) = min n (length xs)"
  by (simp add: last_n_def)

lemma set_last_n: "set (last_n n xs) \<subseteq> set xs"
  by (simp add: last_n_def set_drop_subset)

locale bounded_fifo =
  fixes ok :: "'b \<Rightarrow> bool"
    and items :: "'b \<Rightarrow> ('k \<times> 'v) list"
    and cap :: "'b \<Rightarrow> nat"
    and ins :: "'k \<Rightarrow> 'v \<Rightarrow> 'b \<Rightarrow> 'b"
    and get :: "'b \<Rightarrow> 'k \<Rightarrow> 'v option"
    and clash :: "'k \<times> 'v \<Rightarrow> 'k \<times> 'v \<Rightarrow> bool"
  assumes ins_items: "ok b \<Longrightarrow> \<forall>q\<in>set (items b). \<not> clash (k, v) q \<Longrightarrow>
      ok (ins k v b) \<and> cap (ins k v b) = cap b \<and>
      items (ins k v b) = (if length (items b) = cap b then tl (items b) else items b) @ [(k, v)]"
    and get_items: "ok b \<Longrightarrow> get b k = map_of (items b) k"
    and cap_pos: "ok b \<Longrightarrow> 0 < cap b \<and> length (items b) \<le> cap b"
begin

lemma ins_all:
  assumes "ok b" and "items b = last_n (cap b) ps"
    and "sorted_wrt (\<lambda>p q. \<not> clash q p) (ps @ qs)"
  shows "ok (fold (\<lambda>(k, v). ins k v) qs b) \<and> cap (fold (\<lambda>(k, v). ins k v) qs b) = cap b \<and>
    items (fold (\<lambda>(k, v). ins k v) qs b) = last_n (cap b) (ps @ qs)"
  using assms
proof (induction qs arbitrary: b ps)
  case (Cons q qs)
  obtain k v where q: "q = (k, v)" by fastforce
  have "\<forall>p\<in>set (items b). \<not> clash (k, v) p"
    using Cons.prems set_last_n [of "cap b" ps] by (auto simp: q sorted_wrt_append)
  from ins_items [OF Cons.prems(1) this] have b': "ok (ins k v b)" "cap (ins k v b) = cap b"
    "items (ins k v b) = (if length (items b) = cap b then tl (items b) else items b) @ [(k, v)]"
    by simp_all
  have "items (ins k v b) = last_n (cap b) (ps @ [(k, v)])"
    using b'(3) last_n_snoc [of "cap b" ps "(k, v)"] cap_pos [OF Cons.prems(1)] Cons.prems(2) by simp
  then show ?case
    using Cons.IH [OF b'(1), of "ps @ [(k, v)]"] Cons.prems(3) b'(2) by (simp add: q)
qed simp

lemma get_ins_all:
  assumes "ok b" and "items b = []" and "sorted_wrt (\<lambda>p q. \<not> clash q p) qs"
  shows "get (fold (\<lambda>(k, v). ins k v) qs b) k = map_of (last_n (cap b) qs) k"
  using ins_all [of b "[]" qs] assms get_items by (simp add: last_n_def)

end

section \<open>Both buffers keep the contract\<close>

definition cb_items :: "('k, 'v) CircularBuffer \<Rightarrow> ('k \<times> 'v) list" where
  "cb_items b = map (\<lambda>k. (k, the (cb_map b k))) (cb_deque b)"

definition cb_ok :: "('k, 'v) CircularBuffer \<Rightarrow> bool" where
  "cb_ok b \<longleftrightarrow> distinct (cb_deque b) \<and> dom (cb_map b) = set (cb_deque b) \<and>
     length (cb_deque b) \<le> cb_capacity b \<and> 0 < cb_capacity b"

lemma fst_cb_items [simp]: "fst ` set (cb_items b) = set (cb_deque b)"
  by (force simp: cb_items_def)

lemma cb_get_items: "cb_ok b \<Longrightarrow> cb_map b k = map_of (cb_items b) k"
proof (cases "k \<in> set (cb_deque b)")
  case True
  assume "cb_ok b"
  then have "distinct (map fst (cb_items b))" "(k, the (cb_map b k)) \<in> set (cb_items b)"
    using True by (auto simp: cb_ok_def cb_items_def comp_def)
  moreover have "k \<in> dom (cb_map b)" using \<open>cb_ok b\<close> True by (simp add: cb_ok_def)
  then have "cb_map b k = Some (the (cb_map b k))" by auto
  ultimately show ?thesis by simp
next
  case False
  assume "cb_ok b"
  then have "cb_map b k = None" using False by (auto simp: cb_ok_def)
  moreover have "map_of (cb_items b) k = None" using False by (simp add: map_of_eq_None_iff)
  ultimately show ?thesis by simp
qed

lemma cb_insert_items:
  assumes "cb_ok b" and "k \<notin> set (cb_deque b)"
  shows "cb_ok (cb_insert k v b) \<and> cb_capacity (cb_insert k v b) = cb_capacity b \<and>
    cb_items (cb_insert k v b) =
      (if length (cb_items b) = cb_capacity b then tl (cb_items b) else cb_items b) @ [(k, v)]"
proof (cases "cb_deque b")
  case Nil
  then show ?thesis using assms by (auto simp: cb_insert_def cb_ok_def cb_items_def)
next
  case (Cons x xs)
  show ?thesis
  proof (cases "length (cb_deque b) = cb_capacity b")
    case True
    then show ?thesis using assms Cons
      by (auto simp: cb_insert_def cb_ok_def cb_items_def dom_def)
  next
    case False
    then show ?thesis using assms by (auto simp: cb_insert_def cb_ok_def cb_items_def dom_def)
  qed
qed

interpretation circular: bounded_fifo cb_ok cb_items cb_capacity cb_insert cb_get_by_key
  "\<lambda>(k, v) (k', v'). k = k'"
proof unfold_locales
  fix b :: "('k, 'v) CircularBuffer" and k :: 'k and v :: 'v
  assume "cb_ok b" and "\<forall>q\<in>set (cb_items b). \<not> (case (k, v) of (k, v) \<Rightarrow> \<lambda>(k', v'). k = k') q"
  moreover from this have "k \<notin> set (cb_deque b)" by (auto simp: cb_items_def)
  ultimately show "cb_ok (cb_insert k v b) \<and> cb_capacity (cb_insert k v b) = cb_capacity b \<and>
    cb_items (cb_insert k v b) =
      (if length (cb_items b) = cb_capacity b then tl (cb_items b) else cb_items b) @ [(k, v)]"
    by (intro cb_insert_items)
next
  fix b :: "('k, 'v) CircularBuffer" and k
  assume "cb_ok b"
  then show "cb_get_by_key b k = map_of (cb_items b) k" by (simp add: cb_get_by_key_def cb_get_items)
next
  fix b :: "('k, 'v) CircularBuffer"
  assume "cb_ok b"
  then show "0 < cb_capacity b \<and> length (cb_items b) \<le> cb_capacity b"
    by (simp add: cb_ok_def cb_items_def)
qed

text \<open>The buffer with reverse lookup, when neither keys nor values repeat.\<close>

definition rb_items :: "('k, 'v) CircularBufferWithLookupByValue \<Rightarrow> ('k \<times> 'v) list" where
  "rb_items b = zip (rb_deque b) (rb_reverse_deque b)"

text \<open>The buffer that holds exactly the pairs \<open>xs\<close>.\<close>

definition rb_holding :: "('k \<times> 'v) list \<Rightarrow> usize \<Rightarrow> ('k, 'v) CircularBufferWithLookupByValue" where
  "rb_holding xs cap = \<lparr> rb_map = map_of xs, rb_reverse_map = map_of (map prod.swap xs),
     rb_deque = map fst xs, rb_reverse_deque = map snd xs, rb_capacity = cap \<rparr>"

definition rb_ok :: "('k, 'v) CircularBufferWithLookupByValue \<Rightarrow> bool" where
  "rb_ok b \<longleftrightarrow> b = rb_holding (rb_items b) (rb_capacity b) \<and>
     distinct (map fst (rb_items b)) \<and> distinct (map snd (rb_items b)) \<and>
     length (rb_items b) \<le> rb_capacity b \<and> 0 < rb_capacity b"

lemma rb_holding_simps [simp]:
  "rb_items (rb_holding xs cap) = xs" "rb_capacity (rb_holding xs cap) = cap"
  "rb_map (rb_holding xs cap) = map_of xs"
  "rb_reverse_map (rb_holding xs cap) = map_of (map prod.swap xs)"
  by (simp_all add: rb_items_def rb_holding_def zip_map_fst_snd)

lemma map_of_snoc: "k \<notin> fst ` set xs \<Longrightarrow> map_of (xs @ [(k, v)]) = (map_of xs)(k \<mapsto> v)"
  by (induction xs) auto

lemma map_of_drop_first:
  "k \<notin> fst ` set xs \<Longrightarrow> (map_of ((k, v) # xs))(k := None) = map_of xs"
  by (rule ext) (simp add: map_of_eq_None_iff eq_commute [of None])

lemma fst_swap_image: "fst ` set (map prod.swap xs) = snd ` set xs"
  by (force simp: image_image)

lemma rb_insert_holding:
  assumes "distinct (map fst xs)" and "distinct (map snd xs)" and "0 < cap"
    and "k \<notin> fst ` set xs" and "v \<notin> snd ` set xs"
  shows "rb_insert k v (rb_holding xs cap) =
    rb_holding ((if length xs = cap then tl xs else xs) @ [(k, v)]) cap"
proof (cases "length xs = cap")
  case True
  then obtain k' v' ys where xs: "xs = (k', v') # ys" using assms(3) by (cases xs) auto
  have y: "k' \<notin> fst ` set ys" "v' \<notin> snd ` set ys" "k \<notin> fst ` set ys" "v \<notin> snd ` set ys"
    using assms by (auto simp: xs)
  have r: "(map_of (map prod.swap ys))(v \<mapsto> k) = map_of (map prod.swap ys @ [(v, k)])"
    using y(4) by (intro map_of_snoc [symmetric]) (simp only: fst_swap_image not_False_eq_True)
  have d: "(map_of ((v', k') # map prod.swap ys))(v' := None) = map_of (map prod.swap ys)"
    using y(2) by (intro map_of_drop_first) (simp only: fst_swap_image not_False_eq_True)
  show ?thesis
    using True y map_of_drop_first [OF y(1), of v'] map_of_snoc [OF y(3), of v] r d
    by (simp add: rb_insert_def rb_holding_def xs)
next
  case False
  have "(map_of (map prod.swap xs))(v \<mapsto> k) = map_of (map prod.swap xs @ [(v, k)])"
    using assms(5) by (intro map_of_snoc [symmetric]) (simp only: fst_swap_image not_False_eq_True)
  then show ?thesis using False map_of_snoc [OF assms(4), of v]
    by (simp add: rb_insert_def rb_holding_def)
qed

lemma rb_insert_items:
  assumes ok: "rb_ok b" and k: "k \<notin> fst ` set (rb_items b)" and v: "v \<notin> snd ` set (rb_items b)"
  shows "rb_ok (rb_insert k v b) \<and> rb_capacity (rb_insert k v b) = rb_capacity b \<and>
    rb_items (rb_insert k v b) =
      (if length (rb_items b) = rb_capacity b then tl (rb_items b) else rb_items b) @ [(k, v)]"
proof -
  let ?xs = "rb_items b" and ?c = "rb_capacity b"
  let ?ys = "(if length ?xs = ?c then tl ?xs else ?xs) @ [(k, v)]"
  have b: "b = rb_holding ?xs ?c" "distinct (map fst ?xs)" "distinct (map snd ?xs)"
    "length ?xs \<le> ?c" "0 < ?c" using ok unfolding rb_ok_def by blast+
  have i: "rb_insert k v b = rb_holding ?ys ?c"
    using rb_insert_holding [OF b(2,3,5) k v] b(1) by simp
  have "set (tl ?xs) \<subseteq> set ?xs" by (cases ?xs) auto
  then have "distinct (map fst ?ys)" "distinct (map snd ?ys)" "length ?ys \<le> ?c"
    using b k v by (auto simp: map_tl distinct_tl)
  then show ?thesis unfolding rb_ok_def i using b(5) by simp
qed

interpretation reversible: bounded_fifo rb_ok rb_items rb_capacity rb_insert rb_get_by_key
  "\<lambda>(k, v) (k', v'). k = k' \<or> v = v'"
proof unfold_locales
  fix b :: "('k, 'v) CircularBufferWithLookupByValue" and k :: 'k and v :: 'v
  assume "rb_ok b"
    and "\<forall>q\<in>set (rb_items b). \<not> (case (k, v) of (k, v) \<Rightarrow> \<lambda>(k', v'). k = k' \<or> v = v') q"
  moreover from this have "k \<notin> fst ` set (rb_items b)" "v \<notin> snd ` set (rb_items b)" by auto
  ultimately show "rb_ok (rb_insert k v b) \<and> rb_capacity (rb_insert k v b) = rb_capacity b \<and>
    rb_items (rb_insert k v b) =
      (if length (rb_items b) = rb_capacity b then tl (rb_items b) else rb_items b) @ [(k, v)]"
    by (intro rb_insert_items)
next
  fix b :: "('k, 'v) CircularBufferWithLookupByValue" and k
  assume "rb_ok b"
  then show "rb_get_by_key b k = map_of (rb_items b) k"
    unfolding rb_ok_def rb_get_by_key_def by (metis rb_holding_simps(3))
next
  fix b :: "('k, 'v) CircularBufferWithLookupByValue"
  assume "rb_ok b"
  then show "0 < rb_capacity b \<and> length (rb_items b) \<le> rb_capacity b" by (simp add: rb_ok_def)
qed

section \<open>The window of a rolling average\<close>

text \<open>The stored values, oldest first.\<close>

definition ra_window :: "RollingAverage \<Rightarrow> u64 list" where
  "ra_window r = drop (ra_index r) (ra_buffer r) @ take (ra_index r) (ra_buffer r)"

definition ra_ok :: "RollingAverage \<Rightarrow> bool" where
  "ra_ok r \<longleftrightarrow> 0 < ra_size r \<and> ra_size r < 2 ^ 64 \<and> length (ra_buffer r) = ra_size r \<and>
     ra_index r < ra_size r \<and> ra_sum r = sum_list (ra_buffer r)"

lemma sum_list_update_word:
  "i < length xs \<Longrightarrow> sum_list (xs[i := v]) = sum_list xs - xs ! i + (v :: u64)"
proof (induction xs arbitrary: i)
  case (Cons x xs)
  then show ?case by (cases i) (simp_all add: algebra_simps)
qed simp

lemma ra_add_window:
  assumes "ra_ok r"
  shows "\<exists>r'. ra_add v r = Ok r' \<and> ra_ok r' \<and> ra_size r' = ra_size r \<and>
    ra_window r' = tl (ra_window r) @ [v]"
proof -
  let ?i = "ra_index r" and ?b = "ra_buffer r" and ?n = "ra_size r"
  have a: "?i < length ?b" "length ?b = ?n" "0 < ?n" using assms by (auto simp: ra_ok_def)
  define r' where "r' = r\<lparr> ra_sum := ra_sum r - ?b ! ?i + v, ra_buffer := ?b[?i := v],
    ra_index := (?i + 1) mod ?n \<rparr>"
  have "ra_add v r = Ok r'" using a by (simp add: ra_add_def r'_def)
  moreover have "ra_ok r'" using assms a sum_list_update_word [OF a(1), of v]
    by (simp add: ra_ok_def r'_def)
  moreover have "ra_window r' = tl (ra_window r) @ [v]"
  proof (cases "?i + 1 = ?n")
    case True
    then have "drop ?i ?b = [?b ! ?i]" "(?i + 1) mod ?n = 0"
      using a by (simp_all add: Cons_nth_drop_Suc [symmetric])
    moreover have "?b[?i := v] = take ?i ?b @ [v]"
      using a True by (simp add: upd_conv_take_nth_drop)
    ultimately show ?thesis by (simp add: ra_window_def r'_def)
  next
    case False
    then have "?i + 1 < ?n" using a by simp
    then have m: "(?i + 1) mod ?n = Suc ?i" by simp
    have "drop ?i ?b = ?b ! ?i # drop (Suc ?i) ?b" using a by (simp add: Cons_nth_drop_Suc)
    moreover have "take (Suc ?i) (?b[?i := v]) = take ?i ?b @ [v]"
      "drop (Suc ?i) (?b[?i := v]) = drop (Suc ?i) ?b"
      using a by (simp_all add: take_Suc_conv_app_nth)
    ultimately show ?thesis using m by (simp add: ra_window_def r'_def)
  qed
  moreover have "ra_size r' = ra_size r" by (simp add: r'_def)
  ultimately show ?thesis by blast
qed

fun ra_add_all :: "u64 list \<Rightarrow> RollingAverage \<Rightarrow> RollingAverage result" where
  "ra_add_all [] r = Ok r"
| "ra_add_all (v # vs) r = bind (ra_add v r) (ra_add_all vs)"

lemma last_n_tl:
  assumes "length xs = n" and "0 < n"
  shows "last_n n (xs @ v # vs) = last_n n ((tl xs @ [v]) @ vs)"
proof -
  obtain x ys where xs: "xs = x # ys" using assms by (cases xs) auto
  have "length (xs @ v # vs) - n = Suc (length vs)" "length ((tl xs @ [v]) @ vs) - n = length vs"
    using assms(1) xs by simp_all
  then show ?thesis unfolding last_n_def by (simp add: xs)
qed

lemma ra_add_all_window:
  assumes "ra_ok r"
  shows "\<exists>r'. ra_add_all vs r = Ok r' \<and> ra_ok r' \<and> ra_size r' = ra_size r \<and>
    ra_window r' = last_n (ra_size r) (ra_window r @ vs)"
  using assms
proof (induction vs arbitrary: r)
  case Nil
  then show ?case by (auto simp: ra_ok_def ra_window_def last_n_def)
next
  case (Cons v vs)
  from ra_add_window [OF Cons.prems, of v] obtain r1 where r1: "ra_add v r = Ok r1" "ra_ok r1"
    "ra_size r1 = ra_size r" "ra_window r1 = tl (ra_window r) @ [v]" by blast
  have "length (ra_window r) = ra_size r" "0 < ra_size r"
    using Cons.prems by (auto simp: ra_ok_def ra_window_def)
  then have "last_n (ra_size r) (ra_window r @ v # vs) = last_n (ra_size r) (ra_window r1 @ vs)"
    unfolding r1(4) by (rule last_n_tl)
  then show ?case using Cons.IH [OF r1(2)] r1 by auto
qed

lemma sum_window: "sum_list (ra_window r) = sum_list (ra_buffer r)"
proof -
  have "sum_list (ra_buffer r) = sum_list (take (ra_index r) (ra_buffer r)) + sum_list (drop (ra_index r) (ra_buffer r))"
    by (metis append_take_drop_id sum_list.append)
  then show ?thesis by (simp add: ra_window_def add.commute)
qed

lemma unat_sum_list:
  "sum_list (map unat xs) < 2 ^ 64 \<Longrightarrow> unat (sum_list (xs :: u64 list)) = sum_list (map unat xs)"
  by (induction xs) (simp_all add: unat_word_ariths(1))

section \<open>The ordered set of a percentile\<close>

lemma set_set_insert [simp]: "set (set_insert v xs) = insert v (set xs)"
  by (induction xs) auto

lemma sorted_set_insert: "sorted_wrt (<) xs \<Longrightarrow> sorted_wrt (<) (set_insert v xs)"
  by (induction xs) auto

lemma length_set_insert: "length (set_insert v xs) \<le> length xs + 1"
  by (induction xs) auto

definition pc_ok :: "Percentile \<Rightarrow> bool" where
  "pc_ok p \<longleftrightarrow> sorted_wrt (<) (pc_data p) \<and> length (pc_data p) \<le> pc_capacity p \<and> 0 < pc_capacity p"

lemma pc_add_ok: "pc_ok p \<Longrightarrow> pc_ok (pc_add v p)"
proof -
  assume p: "pc_ok p"
  let ?d = "if length (pc_data p) = pc_capacity p then tl (pc_data p) else pc_data p"
  have "sorted_wrt (<) ?d" "length ?d < pc_capacity p"
    using p by (cases "pc_data p"; auto simp: pc_ok_def)+
  then show "pc_ok (pc_add v p)"
    using p length_set_insert [of v ?d] sorted_set_insert [of ?d v]
    unfolding pc_ok_def pc_add_def Let_def by auto
qed

lemma cb_filled:
  fixes ps :: "('k \<times> 'v) list"
  assumes "0 < capacity" and "distinct (map fst ps)"
  defines "b \<equiv> fold (\<lambda>(k, v). cb_insert k v) ps (cb_new capacity)"
  shows "cb_ok b" and "cb_items b = last_n capacity ps"
    and "cb_get_by_key b k = map_of (last_n capacity ps) k"
proof -
  have s: "sorted_wrt (\<lambda>p q. \<not> (case q of (k, v) \<Rightarrow> \<lambda>(k', v'). k = k') p) ps"
    using assms(2) by (induction ps) (auto simp: split_beta image_iff)
  define e where "e = (cb_new capacity :: ('k, 'v) CircularBuffer)"
  have n: "cb_ok e" "cb_items e = []" "cb_capacity e = capacity"
    using assms(1) by (simp_all add: cb_ok_def cb_new_def cb_items_def e_def)
  show "cb_ok b" and "cb_items b = last_n capacity ps"
    using circular.ins_all [OF n(1), of "[]" ps] s n by (simp_all add: last_n_def e_def b_def)
  show "cb_get_by_key b k = map_of (last_n capacity ps) k"
    using circular.get_ins_all [OF n(1,2) s] n(3) by (simp add: e_def b_def)
qed

section \<open>Properties\<close>

text \<open>A circular buffer filled with pairs of pairwise different keys remembers exactly the
  last \<open>capacity\<close> of them: a lookup finds the value of every key among these and nothing for an
  evicted one, and the values come back in insertion order.\<close>

theorem circular_buffer_remembers:
  fixes ps :: "('k \<times> 'v) list"
  assumes "0 < capacity" and "distinct (map fst ps)"
  shows "cb_get_by_key (fold (\<lambda>(k, v). cb_insert k v) ps (cb_new capacity)) k =
      map_of (last_n capacity ps) k \<and>
    cb_get_all_values (fold (\<lambda>(k, v). cb_insert k v) ps (cb_new capacity)) =
      map snd (last_n capacity ps)"
proof -
  let ?b = "fold (\<lambda>(k, v). cb_insert k v) ps (cb_new capacity)"
  note ok = cb_filled(1) [OF assms] and it = cb_filled(2) [OF assms]
  have "cb_get_by_key ?b k = map_of (last_n capacity ps) k" by (rule cb_filled(3) [OF assms])
  moreover have "List.map_filter (cb_map ?b) (cb_deque ?b) = map snd (cb_items ?b)"
  proof -
    have "\<forall>x\<in>set (cb_deque ?b). \<exists>y. cb_map ?b x = Some y" using ok by (auto simp: cb_ok_def dom_def)
    then show ?thesis
      by (auto simp: cb_items_def map_filter_def comp_def filter_id_conv [THEN iffD2])
  qed
  ultimately show ?thesis by (simp add: cb_get_all_values_def it)
qed

theorem circular_buffer_remembers_witness:
  "cb_get_all_values (fold (\<lambda>(k, v). cb_insert k v) [(1 :: nat, ''a''), (2, ''b''), (3, ''c'')] (cb_new 2))
     = [''b'', ''c'']"
  using circular_buffer_remembers [of 2 "[(1 :: nat, ''a''), (2, ''b''), (3, ''c'')]" 1]
  by (simp add: last_n_def)

text \<open>In the buffer with reverse lookup, when neither keys nor values repeat, the two lookups
  are inverse to each other on the last \<open>capacity\<close> insertions.\<close>

theorem reverse_lookup_inverse:
  fixes ps :: "('k \<times> 'v) list"
  assumes "0 < capacity" and "distinct (map fst ps)" and "distinct (map snd ps)"
  shows "rb_get_by_key (fold (\<lambda>(k, v). rb_insert k v) ps (rb_new capacity)) k = Some v \<longleftrightarrow>
    rb_get_by_value (fold (\<lambda>(k, v). rb_insert k v) ps (rb_new capacity)) v = Some k"
proof -
  let ?b = "fold (\<lambda>(k, v). rb_insert k v) ps (rb_new capacity)" and ?l = "last_n capacity ps"
  have s: "sorted_wrt (\<lambda>p q. \<not> (case q of (k, v) \<Rightarrow> \<lambda>(k', v'). k = k' \<or> v = v') p) ps"
    using assms(2,3) by (induction ps) (auto simp: split_beta image_iff)
  define e where "e = (rb_new capacity :: ('k, 'v) CircularBufferWithLookupByValue)"
  have n: "rb_ok e" "rb_items e = []" "rb_capacity e = capacity"
    using assms(1) by (simp_all add: rb_ok_def rb_new_def rb_items_def rb_holding_def e_def)
  have ok: "rb_ok ?b" and it: "rb_items ?b = ?l"
    using reversible.ins_all [OF n(1), of "[]" ps] s n by (simp_all add: last_n_def e_def)
  then have m: "rb_map ?b = map_of ?l" "rb_reverse_map ?b = map_of (map prod.swap ?l)"
    unfolding rb_ok_def by (metis rb_holding_simps(3,4))+
  have "distinct (map fst ?l)" "distinct (map snd ?l)"
    using assms(2,3) by (simp_all add: last_n_def drop_map [symmetric])
  then have "map_of ?l k = Some v \<longleftrightarrow> map_of (map prod.swap ?l) v = Some k"
    by (subst (1 2) map_of_eq_Some_iff) (auto simp: comp_def image_iff intro: bexI [of _ "(k, v)"])
  then show ?thesis by (simp add: rb_get_by_key_def rb_get_by_value_def m)
qed

theorem reverse_lookup_inverse_witness:
  "rb_get_by_value (fold (\<lambda>(k, v). rb_insert k v) [(1 :: nat, ''a''), (2, ''b''), (3, ''c'')] (rb_new 2)) ''b''
     = Some 2"
  using reverse_lookup_inverse [of 2 "[(1 :: nat, ''a''), (2, ''b''), (3, ''c'')]" 2 "''b''"]
  by (simp add: rb_get_by_key_def rb_insert_def rb_new_def)

text \<open>\<open>remove\<close> does not keep the list of values in step with the lookups: removing the newer
  of two entries leaves its value in \<open>get_all_values\<close> and drops the older one, which is still
  found by its key.\<close>

theorem remove_desynchronizes:
  "case rb_remove (2 :: nat) (fold (\<lambda>(k, v). rb_insert k v) [(1, ''a''), (2, ''b'')] (rb_new 8)) of
     (r, b) \<Rightarrow> r = Some ''b'' \<and> rb_get_all_values b = [''b''] \<and>
       rb_get_by_value b ''b'' = None \<and> rb_get_by_key b 1 = Some ''a''"
  by (simp add: rb_remove_def rb_insert_def rb_new_def rb_get_all_values_def rb_get_by_value_def
      rb_get_by_key_def)

text \<open>After at least \<open>n\<close> additions a rolling average over \<open>n\<close> values, whose sum fits in 64 bits,
  is the average of the last \<open>n\<close> of them, rounded down, and no addition panics.\<close>

theorem rolling_average_correct:
  assumes "0 < n" and "n < 2 ^ 64" and "n \<le> length vs"
    and "sum_list (map unat (last_n n vs)) < 2 ^ 64"
  shows "\<exists>r a. ra_add_all vs (ra_new n) = Ok r \<and> ra_get_average r = Ok a \<and>
    unat a = sum_list (map unat (last_n n vs)) div n"
proof -
  have "ra_ok (ra_new n)" using assms(1,2) by (simp add: ra_ok_def ra_new_def sum_list_replicate)
  from ra_add_all_window [OF this, of vs] obtain r where r: "ra_add_all vs (ra_new n) = Ok r" "ra_ok r"
    "ra_size r = n" "ra_window r = last_n n (replicate n 0 @ vs)" by (auto simp: ra_window_def ra_new_def)
  have "last_n n (replicate n 0 @ vs) = last_n n vs" using assms(3) by (simp add: last_n_def)
  then have "ra_sum r = sum_list (last_n n vs)"
    using r(2,4) sum_window [of r] by (simp add: ra_ok_def)
  then have "unat (ra_sum r) = sum_list (map unat (last_n n vs))" using assms(4) by (simp add: unat_sum_list)
  moreover have u: "unat (of_nat n :: u64) = n" using assms(2) by (simp add: unat_of_nat)
  moreover have "(of_nat n :: u64) \<noteq> 0" using u assms(1) by (metis neq0_conv unat_0)
  ultimately show ?thesis using r(1,3) by (simp add: ra_get_average_def unat_div)
qed

theorem rolling_average_correct_witness:
  "\<exists>r a. ra_add_all [7, 10, 20] (ra_new 2) = Ok r \<and> ra_get_average r = Ok a \<and> unat a = 15"
  using rolling_average_correct [of 2 "[7, 10, 20]"] by (simp add: last_n_def)

text \<open>The percentile set stays strictly ordered and within its capacity whatever is added, and
  with a rank inside the set the result is one of the added values.\<close>

theorem percentile_invariant:
  assumes "0 < capacity"
  shows "pc_ok (fold pc_add vs (pc_new capacity)) \<and>
    set (pc_data (fold pc_add vs (pc_new capacity))) \<subseteq> set vs \<and>
    (pc_get_percentile rank (fold pc_add vs (pc_new capacity)) p = Some x \<longrightarrow> x \<in> set vs)"
proof -
  have step: "pc_ok p \<Longrightarrow> set (pc_data p) \<subseteq> A \<Longrightarrow>
      pc_ok (fold pc_add vs p) \<and> set (pc_data (fold pc_add vs p)) \<subseteq> A \<union> set vs" for p A
  proof (induction vs arbitrary: p A)
    case (Cons v vs)
    have "set (pc_data (pc_add v p)) \<subseteq> insert v A"
      using Cons.prems(2) by (cases "pc_data p") (auto simp: pc_add_def Let_def)
    then show ?case using Cons.IH [OF pc_add_ok [OF Cons.prems(1)], of v "insert v A"] by auto
  qed simp
  have "pc_ok (pc_new capacity)" using assms by (simp add: pc_ok_def pc_new_def)
  from step [OF this, of "{}"] have s: "pc_ok (fold pc_add vs (pc_new capacity))"
    "set (pc_data (fold pc_add vs (pc_new capacity))) \<subseteq> set vs" by (simp_all add: pc_new_def)
  moreover have "x \<in> set vs" if "pc_get_percentile rank (fold pc_add vs (pc_new capacity)) p = Some x"
    using that s(2) nth_mem by (fastforce simp: pc_get_percentile_def Let_def split: if_splits)
  ultimately show ?thesis by blast
qed

theorem percentile_invariant_witness: "pc_ok (fold pc_add [5, 3, 9, 3] (pc_new 2))"
  using percentile_invariant [of 2 "[5, 3, 9, 3]" "\<lambda>_ _. 0" "()" 0] by simp

end
