(* ===== verification/F64.thy ===== *)
theory F64
  imports Rust_Prelude
begin

unbundle bit_operations_syntax

text \<open>
  The \<open>f64\<close> of Rust: IEEE 754 double precision with rounding to nearest, ties to even, which the language
  prescribes for \<open>+ - * /\<close>, for casts and for comparisons. A value is its bit pattern. Which NaN an operation
  returns is left open by the language; here it is always the same one, and no modelled code looks at the
  bits of a NaN.
\<close>

type_synonym f64 = "64 word"

section \<open>Values\<close>

text \<open>\<open>Num neg m e\<close> is the number with magnitude \<open>m * 2 ^ e\<close>.\<close>

datatype f64_value = NaN | Inf bool | Num bool nat int

definition f64_decode :: "f64 \<Rightarrow> f64_value" where
  "f64_decode b =
     (let n = unat b; neg = n div 2 ^ 63 = 1; ex = n div 2 ^ 52 mod 2 ^ 11; frac = n mod 2 ^ 52
      in if ex = 2047 then (if frac = 0 then Inf neg else NaN)
         else if ex = 0 then Num neg frac (- 1074)
         else Num neg (2 ^ 52 + frac) (int ex - 1075))"

definition f64_bits :: "bool \<Rightarrow> nat \<Rightarrow> nat \<Rightarrow> f64" where
  "f64_bits neg ex frac = of_nat ((if neg then 2 ^ 63 else 0) + ex * 2 ^ 52 + frac)"

definition f64_nan :: f64 where "f64_nan = f64_bits False 2047 (2 ^ 51)"
definition f64_inf :: "bool \<Rightarrow> f64" where "f64_inf neg = f64_bits neg 2047 0"
definition f64_zero :: "bool \<Rightarrow> f64" where "f64_zero neg = f64_bits neg 0 0"

section \<open>Rounding\<close>

fun log2 :: "nat \<Rightarrow> nat" where
  "log2 n = (if n < 2 then 0 else 1 + log2 (n div 2))"

declare log2.simps [simp del]

text \<open>Scaling the fraction \<open>n / d\<close> by a power of two, and comparing it with one.\<close>

definition scale :: "int \<Rightarrow> nat \<times> nat \<Rightarrow> nat \<times> nat" where
  "scale e = (\<lambda>(n, d). if 0 \<le> e then (n * 2 ^ nat e, d) else (n, d * 2 ^ nat (- e)))"

definition floor_log2 :: "nat \<Rightarrow> nat \<Rightarrow> int" where
  "floor_log2 n d =
     (let l = int (log2 n) - int (log2 d); (n', d') = scale (- l) (n, d)
      in if d' \<le> n' then l else l - 1)"

definition round_half_even :: "nat \<Rightarrow> nat \<Rightarrow> nat" where
  "round_half_even n d =
     (let q = n div d; r = n mod d
      in if 2 * r < d \<or> (2 * r = d \<and> even q) then q else q + 1)"

text \<open>The double nearest to \<open>n / d\<close>, with the given sign.\<close>

definition f64_round :: "bool \<Rightarrow> nat \<Rightarrow> nat \<Rightarrow> f64" where
  "f64_round neg n d =
     (if n = 0 then f64_zero neg
      else
        (let q = max (- 1074) (floor_log2 n d - 52);
             (n', d') = scale (- q) (n, d);
             m = round_half_even n' d';
             (m, q) = (if m = 2 ^ 53 then (2 ^ 52, q + 1) else (m, q))
         in if 971 < q then f64_inf neg
            else if m < 2 ^ 52 then f64_bits neg 0 m
            else f64_bits neg (nat (q + 1075)) (m - 2 ^ 52)))"

section \<open>Arithmetic\<close>

text \<open>The sum of two numbers is exact before it is rounded; a zero sum is negative only if both operands are.\<close>

definition signed_mag :: "bool \<Rightarrow> nat \<Rightarrow> int \<Rightarrow> int \<Rightarrow> int" where
  "signed_mag neg m e e' = (if neg then - 1 else 1) * int m * 2 ^ nat (e - e')"

definition f64_add :: "f64 \<Rightarrow> f64 \<Rightarrow> f64" where
  "f64_add a b =
     (case (f64_decode a, f64_decode b) of
        (NaN, _) \<Rightarrow> f64_nan
      | (_, NaN) \<Rightarrow> f64_nan
      | (Inf s, Inf t) \<Rightarrow> if s = t then f64_inf s else f64_nan
      | (Inf s, _) \<Rightarrow> f64_inf s
      | (_, Inf t) \<Rightarrow> f64_inf t
      | (Num s m e, Num t n f) \<Rightarrow>
          (let g = min e f; v = signed_mag s m e g + signed_mag t n f g
           in if v = 0 then f64_zero (s \<and> t)
              else (let (n', d') = scale g (nat \<bar>v\<bar>, 1) in f64_round (v < 0) n' d')))"

definition f64_neg :: "f64 \<Rightarrow> f64" where
  "f64_neg a = a XOR (push_bit 63 1)"

definition f64_sub :: "f64 \<Rightarrow> f64 \<Rightarrow> f64" where
  "f64_sub a b = f64_add a (f64_neg b)"

definition f64_mul :: "f64 \<Rightarrow> f64 \<Rightarrow> f64" where
  "f64_mul a b =
     (case (f64_decode a, f64_decode b) of
        (NaN, _) \<Rightarrow> f64_nan
      | (_, NaN) \<Rightarrow> f64_nan
      | (Inf s, Inf t) \<Rightarrow> f64_inf (s \<noteq> t)
      | (Inf s, Num t n f) \<Rightarrow> if n = 0 then f64_nan else f64_inf (s \<noteq> t)
      | (Num s m e, Inf t) \<Rightarrow> if m = 0 then f64_nan else f64_inf (s \<noteq> t)
      | (Num s m e, Num t n f) \<Rightarrow>
          (let (n', d') = scale (e + f) (m * n, 1) in f64_round (s \<noteq> t) n' d'))"

definition f64_div :: "f64 \<Rightarrow> f64 \<Rightarrow> f64" where
  "f64_div a b =
     (case (f64_decode a, f64_decode b) of
        (NaN, _) \<Rightarrow> f64_nan
      | (_, NaN) \<Rightarrow> f64_nan
      | (Inf s, Inf t) \<Rightarrow> f64_nan
      | (Inf s, Num t n f) \<Rightarrow> f64_inf (s \<noteq> t)
      | (Num s m e, Inf t) \<Rightarrow> f64_zero (s \<noteq> t)
      | (Num s m e, Num t n f) \<Rightarrow>
          if n = 0 then (if m = 0 then f64_nan else f64_inf (s \<noteq> t))
          else (let (n', d') = scale (e - f) (m, n) in f64_round (s \<noteq> t) n' d'))"

section \<open>Comparisons\<close>

definition f64_lt :: "f64 \<Rightarrow> f64 \<Rightarrow> bool" where
  "f64_lt a b \<longleftrightarrow>
     (case (f64_decode a, f64_decode b) of
        (NaN, _) \<Rightarrow> False
      | (_, NaN) \<Rightarrow> False
      | (Inf s, Inf t) \<Rightarrow> s \<and> \<not> t
      | (Inf s, _) \<Rightarrow> s
      | (_, Inf t) \<Rightarrow> \<not> t
      | (Num s m e, Num t n f) \<Rightarrow>
          (let g = min e f in signed_mag s m e g < signed_mag t n f g))"

definition f64_eq :: "f64 \<Rightarrow> f64 \<Rightarrow> bool" where
  "f64_eq a b \<longleftrightarrow>
     (case (f64_decode a, f64_decode b) of
        (NaN, _) \<Rightarrow> False
      | (_, NaN) \<Rightarrow> False
      | (Inf s, Inf t) \<Rightarrow> s = t
      | (Inf s, _) \<Rightarrow> False
      | (_, Inf t) \<Rightarrow> False
      | (Num s m e, Num t n f) \<Rightarrow>
          (let g = min e f in signed_mag s m e g = signed_mag t n f g))"

abbreviation f64_gt :: "f64 \<Rightarrow> f64 \<Rightarrow> bool" where "f64_gt a b \<equiv> f64_lt b a"

definition f64_le :: "f64 \<Rightarrow> f64 \<Rightarrow> bool" where "f64_le a b \<longleftrightarrow> f64_lt a b \<or> f64_eq a b"

section \<open>Casts\<close>

text \<open>\<open>x as f64\<close> of an unsigned integer rounds; \<open>x as u64\<close> truncates towards zero and saturates.\<close>

definition f64_of_nat :: "nat \<Rightarrow> f64" where
  "f64_of_nat n = f64_round False n 1"

definition f64_as_u64 :: "f64 \<Rightarrow> u64" where
  "f64_as_u64 a =
     (case f64_decode a of
        NaN \<Rightarrow> 0
      | Inf neg \<Rightarrow> if neg then 0 else - 1
      | Num neg m e \<Rightarrow>
          if neg then 0
          else (let (n, d) = scale e (m, 1) in of_nat (min (n div d) (2 ^ 64 - 1))))"

section \<open>Single precision\<close>

text \<open>The \<open>f32\<close> of Rust, of which the code multiplies two.\<close>

type_synonym f32 = "32 word"

definition f32_decode :: "f32 \<Rightarrow> f64_value" where
  "f32_decode b =
     (let n = unat b; neg = n div 2 ^ 31 = 1; ex = n div 2 ^ 23 mod 2 ^ 8; frac = n mod 2 ^ 23
      in if ex = 255 then (if frac = 0 then Inf neg else NaN)
         else if ex = 0 then Num neg frac (- 149)
         else Num neg (2 ^ 23 + frac) (int ex - 150))"

definition f32_bits_of :: "bool \<Rightarrow> nat \<Rightarrow> nat \<Rightarrow> f32" where
  "f32_bits_of neg ex frac = of_nat ((if neg then 2 ^ 31 else 0) + ex * 2 ^ 23 + frac)"

definition f32_nan :: f32 where "f32_nan = f32_bits_of False 255 (2 ^ 22)"
definition f32_inf :: "bool \<Rightarrow> f32" where "f32_inf neg = f32_bits_of neg 255 0"
definition f32_zero :: "bool \<Rightarrow> f32" where "f32_zero neg = f32_bits_of neg 0 0"

definition f32_round :: "bool \<Rightarrow> nat \<Rightarrow> nat \<Rightarrow> f32" where
  "f32_round neg n d =
     (if n = 0 then f32_zero neg
      else
        (let q = max (- 149) (floor_log2 n d - 23);
             (n', d') = scale (- q) (n, d);
             m = round_half_even n' d';
             (m, q) = (if m = 2 ^ 24 then (2 ^ 23, q + 1) else (m, q))
         in if 104 < q then f32_inf neg
            else if m < 2 ^ 23 then f32_bits_of neg 0 m
            else f32_bits_of neg (nat (q + 150)) (m - 2 ^ 23)))"

definition f32_mul :: "f32 \<Rightarrow> f32 \<Rightarrow> f32" where
  "f32_mul a b =
     (case (f32_decode a, f32_decode b) of
        (NaN, _) \<Rightarrow> f32_nan
      | (_, NaN) \<Rightarrow> f32_nan
      | (Inf s, Inf t) \<Rightarrow> f32_inf (s \<noteq> t)
      | (Inf s, Num t n f) \<Rightarrow> if n = 0 then f32_nan else f32_inf (s \<noteq> t)
      | (Num s m e, Inf t) \<Rightarrow> if m = 0 then f32_nan else f32_inf (s \<noteq> t)
      | (Num s m e, Num t n f) \<Rightarrow>
          (let (n', d') = scale (e + f) (m * n, 1) in f32_round (s \<noteq> t) n' d'))"

text \<open>The rules with which the simplifier evaluates the operations on concrete bit patterns.\<close>

named_theorems f64_eval \<open>evaluation of floating point operations\<close>

lemmas f64_defs [f64_eval] =
  f64_decode_def f64_bits_def f64_nan_def f64_inf_def f64_zero_def log2.simps scale_def floor_log2_def
  round_half_even_def f64_round_def signed_mag_def f64_add_def f64_neg_def f64_sub_def f64_mul_def f64_div_def
  f64_lt_def f64_eq_def f64_le_def f64_of_nat_def f64_as_u64_def

lemmas f32_defs [f64_eval] =
  f32_decode_def f32_bits_of_def f32_nan_def f32_inf_def f32_zero_def f32_round_def f32_mul_def

end
