(* ===== verification/Bot_Types.thy ===== *)
theory Bot_Types
  imports F64
begin

text \<open>
  The data the trading engine under \<open>src/src\<close> exchanges between its parts: the constants of
  \<open>config/constants.rs\<close>, the actions of \<open>types/actions\<close>, the pools of \<open>types/pool.rs\<close>, the events
  of \<open>types/events/events.rs\<close> and \<open>strategies/events.rs\<close>, and the stopwatch of
  \<open>utils/stopwatch.rs\<close>. Conventions: a key pair is represented by its public key, an \<open>Instant\<close> by
  the nanoseconds since an arbitrary start, a \<open>DateTime\<close> by its nanoseconds since the epoch, an
  \<open>f64\<close> by its bit pattern (theory \<open>F64\<close>). \<open>Arc<Mutex<SolanaAction>>\<close> is the action itself: no modelled code
  changes an action after it is queued. Types of other crates that the code only carries around
  are declared without constructors. Log output is not part of the model.
\<close>

section \<open>Constants\<close>

definition CACHED_TX_SIGNATURES_BUFFER_CAPACITY :: usize where
  "CACHED_TX_SIGNATURES_BUFFER_CAPACITY = 1024"
definition RT_FEE_ROLLING_AVERAGE_SIZE :: usize where "RT_FEE_ROLLING_AVERAGE_SIZE = 2048"
definition RT_FEE_PERCENTILE_CAPACITY :: usize where "RT_FEE_PERCENTILE_CAPACITY = 2048"
definition MAX_TRANSFERS_IN_ONE_TX :: usize where "MAX_TRANSFERS_IN_ONE_TX = 12"
definition ACTION_EXPIRY_S :: u64 where "ACTION_EXPIRY_S = 1000"
definition TIMEOUT_FOR_ACTION_EXECUTION_HBS :: u64 where "TIMEOUT_FOR_ACTION_EXECUTION_HBS = 200"
definition RETRIES_IF_ERROR_OR_TIMEOUT :: int where "RETRIES_IF_ERROR_OR_TIMEOUT = 2"
definition BASE_TX_FEE_SOL :: u64 where "BASE_TX_FEE_SOL = 5000"
definition TRANSFER_PRIORITY_FEE_SOL :: u64 where "TRANSFER_PRIORITY_FEE_SOL = 10000"
definition RENT_EXEMPTION_THRESHOLD_SOL :: u64 where "RENT_EXEMPTION_THRESHOLD_SOL = 2039280"
definition NEW_ACCOUNT_THRESHOLD_SOL :: u64 where "NEW_ACCOUNT_THRESHOLD_SOL = 890880"

section \<open>Time\<close>

type_synonym instant = nat
type_synonym datetime = int

record Stopwatch =
  sw_lap_ticks :: u64
  sw_start :: instant

definition Stopwatch_default :: "instant \<Rightarrow> Stopwatch" where
  "Stopwatch_default now = \<lparr> sw_lap_ticks = 0, sw_start = now \<rparr>"

definition Stopwatch_new :: "instant \<Rightarrow> u64 \<Rightarrow> Stopwatch" where
  "Stopwatch_new now lap_ticks = \<lparr> sw_lap_ticks = lap_ticks, sw_start = now \<rparr>"

definition Stopwatch_start :: "instant \<Rightarrow> u64 \<Rightarrow> Stopwatch \<Rightarrow> Stopwatch" where
  "Stopwatch_start now lap_ticks self = self\<lparr> sw_lap_ticks := lap_ticks, sw_start := now \<rparr>"

definition turn_off :: "Stopwatch \<Rightarrow> Stopwatch" where
  "turn_off self = self\<lparr> sw_lap_ticks := 0 \<rparr>"

text \<open>\<open>Instant::elapsed\<close> saturates at zero, as the subtraction of natural numbers does.\<close>

definition elapsed :: "instant \<Rightarrow> Stopwatch \<Rightarrow> nat" where
  "elapsed now self = now - sw_start self"

definition ticks_elapsed :: "instant \<Rightarrow> u64 \<Rightarrow> Stopwatch \<Rightarrow> u64 result" where
  "ticks_elapsed now tick_size_ms self =
     (if tick_size_ms = 0 then Panic
      else Ok (of_nat (elapsed now self div 1000000) div tick_size_ms))"

definition is_time_elapsed :: "instant \<Rightarrow> u64 \<Rightarrow> Stopwatch \<Rightarrow> bool result" where
  "is_time_elapsed now tick_size_ms self =
     (if sw_lap_ticks self > 0 then
        bind (ticks_elapsed now tick_size_ms self) (\<lambda>t. Ok (t \<ge> sw_lap_ticks self))
      else Ok False)"

text \<open>The difference of two \<open>i64\<close> values wraps; the result is the signed reading of the word.\<close>

definition ticks_left :: "instant \<Rightarrow> u64 \<Rightarrow> Stopwatch \<Rightarrow> int result" where
  "ticks_left now tick_size_ms self =
     bind (ticks_elapsed now tick_size_ms self) (\<lambda>t. Ok (sint (sw_lap_ticks self - t)))"

section \<open>Pools\<close>

record RaydiumPool =
  rp_id :: pubkey
  rp_base_mint :: pubkey
  rp_quote_mint :: pubkey
  rp_lp_mint :: pubkey
  rp_base_decimals :: u8
  rp_quote_decimals :: u8
  rp_lp_decimals :: u8
  rp_version :: u8
  rp_program_id :: pubkey
  rp_authority :: pubkey
  rp_open_orders :: pubkey
  rp_target_orders :: pubkey
  rp_base_vault :: pubkey
  rp_quote_vault :: pubkey
  rp_withdraw_queue :: pubkey
  rp_lp_vault :: pubkey
  rp_market_version :: u8
  rp_market_program_id :: pubkey
  rp_market_id :: pubkey
  rp_lp_reserve :: u64
  rp_open_time :: u64
  rp_reverse_pool :: bool
  rp_freeze_authority :: "pubkey option"

record LiquidityPoolKeys =
  lk_id :: pubkey
  lk_base_mint :: pubkey
  lk_quote_mint :: pubkey
  lk_lp_mint :: pubkey
  lk_base_decimals :: u8
  lk_quote_decimals :: u8
  lk_lp_decimals :: u8
  lk_version :: u8
  lk_program_id :: pubkey
  lk_authority :: pubkey
  lk_open_orders :: pubkey
  lk_target_orders :: pubkey
  lk_base_vault :: pubkey
  lk_quote_vault :: pubkey
  lk_withdraw_queue :: pubkey
  lk_lp_vault :: pubkey
  lk_market_version :: u8
  lk_market_program_id :: pubkey
  lk_market_id :: pubkey
  lk_market_authority :: pubkey
  lk_market_base_vault :: pubkey
  lk_market_quote_vault :: pubkey
  lk_market_bids :: pubkey
  lk_market_asks :: pubkey
  lk_market_event_queue :: pubkey

definition to_liquidity_keys :: "RaydiumPool \<Rightarrow> LiquidityPoolKeys" where
  "to_liquidity_keys self =
     \<lparr> lk_id = rp_id self,
       lk_base_mint = rp_base_mint self,
       lk_quote_mint = rp_quote_mint self,
       lk_lp_mint = rp_lp_mint self,
       lk_base_decimals = rp_base_decimals self,
       lk_quote_decimals = rp_quote_decimals self,
       lk_lp_decimals = rp_lp_decimals self,
       lk_version = rp_version self,
       lk_program_id = rp_program_id self,
       lk_authority = rp_authority self,
       lk_open_orders = rp_id self,
       lk_target_orders = rp_id self,
       lk_base_vault = (if rp_reverse_pool self then rp_quote_vault self else rp_base_vault self),
       lk_quote_vault = (if rp_reverse_pool self then rp_base_vault self else rp_quote_vault self),
       lk_withdraw_queue = rp_withdraw_queue self,
       lk_lp_vault = rp_lp_vault self,
       lk_market_version = rp_market_version self,
       lk_market_program_id = rp_id self,
       lk_market_id = rp_id self,
       lk_market_authority = rp_id self,
       lk_market_base_vault = rp_id self,
       lk_market_quote_vault = rp_id self,
       lk_market_bids = rp_id self,
       lk_market_asks = rp_id self,
       lk_market_event_queue = rp_id self \<rparr>"

record RaydiumPoolPriceUpdate =
  pu_pool :: pubkey
  pu_price :: f64
  pu_base_reserve :: f64
  pu_quote_reserve :: f64
  pu_created_at :: datetime

type_synonym signature = bytes

datatype TradeDirection = TradeBuy | TradeSell

record RaydiumSwapEvent =
  se_pool_price :: RaydiumPoolPriceUpdate
  se_signature :: signature
  se_pool :: pubkey
  se_trade_direction :: TradeDirection
  se_base_amount :: f64
  se_quote_amount :: f64
  se_price :: f64
  se_volume :: f64
  se_created_at :: datetime

section \<open>Actions\<close>

type_synonym uuid = u128
type_synonym keypair = pubkey

datatype Amount =
    Exact u64
  | ExactWithFees u64
  | MaxButLeaveForTransfer
  | Amount_Max
  | MaxAndClose

datatype Asset = Sol | Token pubkey

record TransferPayload =
  tp_asset :: Asset
  tp_receiver :: pubkey
  tp_amount :: Amount

datatype SwapMethod = BuyTokensForExactSol | SellExactTokensForSol

record SwapPayload =
  sp_keys :: LiquidityPoolKeys
  sp_swap_method :: SwapMethod
  sp_amount_in :: Amount
  sp_min_amount_out :: u64

definition SwapPayload_new :: "RaydiumPool \<Rightarrow> SwapMethod \<Rightarrow> Amount \<Rightarrow> SwapPayload" where
  "SwapPayload_new pool swap_method amount_in =
     \<lparr> sp_keys = to_liquidity_keys pool, sp_swap_method = swap_method,
       sp_amount_in = amount_in, sp_min_amount_out = 0 \<rparr>"

datatype SolanaActionPayload =
    SolanaSwapActionPayload SwapPayload
  | SolanaTransferActionPayload TransferPayload

datatype ActionExecutionStatus = NotSent | Pending | StatusSuccess | TxError string | Timeout

record Balance =
  bal_sol :: u64
  bal_token :: "pubkey \<Rightarrow> u64 option"

record SolanaAction =
  sa_uuid :: uuid
  sa_sniper :: keypair
  sa_fee_payer :: keypair
  sa_created_at :: datetime
  sa_action_payload :: "SolanaActionPayload list"
  sa_status :: ActionExecutionStatus
  sa_tx_hash :: signature
  sa_balance_before :: "Balance option"
  sa_balance_after :: "Balance option"
  sa_fee :: int
  sa_sent_at :: "datetime option"
  sa_confirmed_at :: "datetime option"

text \<open>\<open>Uuid::new_v4()\<close> and \<open>Utc::now()\<close> are arguments.\<close>

definition new_with_feepayer ::
  "uuid \<Rightarrow> datetime \<Rightarrow> keypair \<Rightarrow> keypair \<Rightarrow> SolanaActionPayload list \<Rightarrow> SolanaAction" where
  "new_with_feepayer uuid now sniper fee_payer action_payload =
     \<lparr> sa_uuid = uuid, sa_sniper = sniper, sa_fee_payer = fee_payer, sa_created_at = now,
       sa_action_payload = action_payload, sa_status = NotSent, sa_tx_hash = replicate 64 0,
       sa_balance_before = None, sa_balance_after = None, sa_fee = 0,
       sa_sent_at = None, sa_confirmed_at = None \<rparr>"

definition SolanaAction_new ::
  "uuid \<Rightarrow> datetime \<Rightarrow> keypair \<Rightarrow> SolanaActionPayload list \<Rightarrow> SolanaAction" where
  "SolanaAction_new uuid now sniper action_payload =
     new_with_feepayer uuid now sniper sniper action_payload"

text \<open>\<open>num_seconds\<close> rounds towards zero.\<close>

definition is_expired :: "datetime \<Rightarrow> SolanaAction \<Rightarrow> bool" where
  "is_expired now self =
     (let d = now - sa_created_at self;
          num_seconds = (if d \<ge> 0 then d div 1000000000 else - ((- d) div 1000000000))
      in num_seconds > uint ACTION_EXPIRY_S)"

definition sent :: "datetime \<Rightarrow> Balance \<Rightarrow> signature \<Rightarrow> int \<Rightarrow> SolanaAction \<Rightarrow> SolanaAction" where
  "sent now balance_before sgn_tx fee self =
     self\<lparr> sa_status := Pending, sa_tx_hash := sgn_tx, sa_balance_before := Some balance_before,
            sa_balance_after := None, sa_fee := fee, sa_sent_at := Some now,
            sa_confirmed_at := None \<rparr>"

section \<open>Events\<close>

text \<open>\<open>SplTokenAccount\<close> is the token account of \<open>spl_token\<close>, of which the engine reads the amount.\<close>

record SplTokenAccount =
  spl_amount :: u64

record AccountPretty =
  ap_is_startup :: bool
  ap_slot :: u64
  ap_pubkey :: pubkey
  ap_lamports :: u64
  ap_owner :: pubkey
  ap_executable :: bool
  ap_rent_epoch :: u64
  ap_data_encoded :: string
  ap_data :: bytes
  ap_token_unpacked_data :: "SplTokenAccount option"
  ap_write_version :: u64
  ap_txn_signature :: string

typedecl TransactionError

text \<open>The events of the indicators; candles and indicator results belong to the \<open>yata\<close> crate, whose periods are
  \<open>u32\<close> here.\<close>

typedecl Candle
typedecl IndicatorResult

record EveryTickIndicatorsValue =
  ti_tema :: f64
  ti_ema :: f64
  ti_rsi :: IndicatorResult
  ti_bollinger :: IndicatorResult

record TickBarValue =
  tb_period :: u32
  tb_bar :: Candle

datatype DerivedEvent =
    TickIndicatorEvent pubkey EveryTickIndicatorsValue
  | TickBarEvent pubkey TickBarValue

record ExecutionReceipt =
  er_action_uuid :: uuid
  er_transaction_signature :: signature
  er_err :: "TransactionError option"
  er_status_changed_at :: datetime

definition ExecutionReceipt_new ::
  "datetime \<Rightarrow> uuid \<Rightarrow> signature \<Rightarrow> TransactionError option \<Rightarrow> ExecutionReceipt" where
  "ExecutionReceipt_new now action_uuid transaction_signature err =
     \<lparr> er_action_uuid = action_uuid, er_transaction_signature = transaction_signature,
       er_err = err, er_status_changed_at = now \<rparr>"

datatype BlockchainEvent =
    AccountUpdate AccountPretty
  | Deposit string pubkey u64
  | Withdrawal string pubkey u64
  | ReceiptEvent ExecutionReceipt
  | RaydiumHeartbeatPriceUpdate RaydiumPoolPriceUpdate
  | SwapEvent RaydiumSwapEvent
  | RaydiumNewPoolEvent RaydiumPool RaydiumPoolPriceUpdate
  | PumpFunCurveUpdate RaydiumSwapEvent
  | PumpFunSwapDetails RaydiumSwapEvent
  | LiquidityRemoved
  | PumpFunTokenDeployedTo
  | RaydiumLiquidityTokensBurnedOn

datatype ExecutionError =
    ActionTooOld
  | NoInstructionsGenerated
  | SeveralTokensInOneTx
  | ZeroSolBalance
  | NotEnoughSolBalance u64 u64
  | NotEnoughTokenBalance u64 u64
  | UnsupportedPool string string
  | SimulationFailed string
  | OtherExecutionError string

datatype ExecutionResult = Sent | ExecutionFailed ExecutionError

datatype SystemEvent = DestroyStrategy int | Stop

datatype BotEvent =
    HeartBeat u64 instant
  | ChainEvent BlockchainEvent
  | IndicatorEvent DerivedEvent
  | ResultEvent uuid SolanaAction ExecutionResult
  | ControlEvent SystemEvent

datatype AgentEvent =
    Buy Amount
  | Sell Amount
  | Transfer "TransferPayload list"
  | Collect
  | Deactivate

datatype SolanaStrategyEvent = Original BotEvent | ForAgent AgentEvent

section \<open>Stopwatch lemmas\<close>

lemma Stopwatch_start_simps [simp]:
  "sw_lap_ticks (Stopwatch_start now l sw) = l"
  "sw_start (Stopwatch_start now l sw) = now"
  "sw_lap_ticks (Stopwatch_new now l) = l"
  "sw_lap_ticks (turn_off sw) = 0"
  by (simp_all add: Stopwatch_start_def Stopwatch_new_def turn_off_def)

lemma is_time_elapsed_off [simp]: "sw_lap_ticks sw = 0 \<Longrightarrow> is_time_elapsed now t sw = Ok False"
  by (simp add: is_time_elapsed_def)

lemma is_time_elapsed_cases:
  obtains b where "is_time_elapsed now t sw = Ok b"
  | "t = 0" "sw_lap_ticks sw \<noteq> 0" "is_time_elapsed now t sw = Panic"
  by (cases "t = 0"; cases "sw_lap_ticks sw = 0")
     (auto simp: is_time_elapsed_def ticks_elapsed_def word_gt_0)

text \<open>After \<open>lap\<close> ticks of \<open>t\<close> milliseconds an armed stopwatch reports the end of the lap, as long
  as the milliseconds fit in 64 bits.\<close>

lemma is_time_elapsed_armed:
  assumes "sw_lap_ticks sw \<noteq> 0" and "t \<noteq> 0"
    and "unat (sw_lap_ticks sw) * unat t * 1000000 \<le> now - sw_start sw"
    and "(now - sw_start sw) div 1000000 < 2 ^ 64"
  shows "is_time_elapsed now t sw = Ok True"
proof -
  let ?ms = "(now - sw_start sw) div 1000000"
  have "unat (sw_lap_ticks sw) * unat t \<le> ?ms"
    using assms(3) by (simp add: less_eq_div_iff_mult_less_eq)
  moreover have "0 < unat t" using assms(2) by (simp add: unat_gt_0)
  ultimately have "unat (sw_lap_ticks sw) \<le> ?ms div unat t"
    by (simp add: less_eq_div_iff_mult_less_eq)
  moreover have "unat (of_nat ?ms :: u64) = ?ms"
    using assms(4) by (simp add: unat_of_nat take_bit_nat_eq_self)
  ultimately have "sw_lap_ticks sw \<le> of_nat ?ms div t"
    by (simp add: word_le_nat_alt unat_div)
  then show ?thesis
    using assms(1,2) by (simp add: is_time_elapsed_def ticks_elapsed_def elapsed_def word_gt_0)
qed

end
