(* ===== verification/Op_Cache.thy ===== *)
theory Op_Cache
  imports Bot_Buffers Bot_Types
begin

text \<open>
  The operational cache shared by all strategies (\<open>config/cache.rs\<close>) and the balance queries that
  go through it (\<open>solana/generic_api.rs\<close>). Every method takes its lock once and releases it before
  returning, so each is one atomic step on the record. The RPC node, the derivation of associated
  token addresses, the token account decoder and the hex encoder are arguments. The field
  \<open>target_tokens\<close>, a cache of another crate, is in the state of \<open>Event_Collector\<close>, the only reader. The
  notification of the account stream is counted.
\<close>

section \<open>\<open>OperationalCache\<close>\<close>

record OperationalCache =
  oc_agent_tx_signatures :: "(uuid, string) CircularBufferWithLookupByValue"
  oc_all_system_actions :: "(uuid, SolanaAction) CircularBuffer"
  oc_processed_signatures :: "(uuid, string) CircularBufferWithLookupByValue"
  oc_optimal_fee :: FeeMetrics
  oc_target_pools :: "pubkey \<Rightarrow> RaydiumPool option"
  oc_target_pools_prices :: "pubkey \<Rightarrow> RaydiumPoolPriceUpdate option"
  oc_accounts :: "pubkey \<Rightarrow> AccountPretty option option"

definition OperationalCache_new ::
  "(pubkey \<Rightarrow> RaydiumPool option) \<Rightarrow> (pubkey \<Rightarrow> RaydiumPoolPriceUpdate option) \<Rightarrow> OperationalCache" where
  "OperationalCache_new target_pools target_pools_prices =
     \<lparr> oc_agent_tx_signatures = rb_new CACHED_TX_SIGNATURES_BUFFER_CAPACITY,
       oc_all_system_actions = cb_new CACHED_TX_SIGNATURES_BUFFER_CAPACITY,
       oc_processed_signatures = rb_new CACHED_TX_SIGNATURES_BUFFER_CAPACITY,
       oc_optimal_fee = fm_new RT_FEE_ROLLING_AVERAGE_SIZE RT_FEE_PERCENTILE_CAPACITY,
       oc_target_pools = target_pools,
       oc_target_pools_prices = target_pools_prices,
       oc_accounts = Map.empty \<rparr>"

definition register_action ::
  "SolanaAction \<Rightarrow> OperationalCache \<Rightarrow> SolanaAction \<times> OperationalCache" where
  "register_action action self =
     (action, self\<lparr> oc_all_system_actions :=
        cb_insert (sa_uuid action) action (oc_all_system_actions self) \<rparr>)"

definition get_action_by_uuid :: "OperationalCache \<Rightarrow> uuid \<Rightarrow> SolanaAction option" where
  "get_action_by_uuid self uuid = cb_get_by_key (oc_all_system_actions self) uuid"

definition add_agent_tx :: "uuid \<Rightarrow> string \<Rightarrow> OperationalCache \<Rightarrow> OperationalCache" where
  "add_agent_tx uuid txsig self =
     self\<lparr> oc_agent_tx_signatures := rb_insert uuid txsig (oc_agent_tx_signatures self) \<rparr>"

definition get_uuid_by_signature :: "OperationalCache \<Rightarrow> string \<Rightarrow> uuid option" where
  "get_uuid_by_signature self txsig = rb_get_by_value (oc_agent_tx_signatures self) txsig"

definition get_signature_by_uuid :: "OperationalCache \<Rightarrow> uuid \<Rightarrow> string option" where
  "get_signature_by_uuid self uuid = rb_get_by_key (oc_agent_tx_signatures self) uuid"

definition oc_pop_front :: "OperationalCache \<Rightarrow> (uuid \<times> string) option \<times> OperationalCache" where
  "oc_pop_front self =
     (case rb_pop_front (oc_agent_tx_signatures self) of
        (r, b) \<Rightarrow> (r, self\<lparr> oc_agent_tx_signatures := b \<rparr>))"

definition if_agent_signature :: "OperationalCache \<Rightarrow> string \<Rightarrow> bool" where
  "if_agent_signature self txsig = rb_contains_value (oc_agent_tx_signatures self) txsig"

definition get_all_unprocessed_tx_signatures :: "OperationalCache \<Rightarrow> string list" where
  "get_all_unprocessed_tx_signatures self =
     filter (rb_contains_value (oc_processed_signatures self))
       (rb_get_all_values (oc_agent_tx_signatures self))"

definition mark_signature_as_processed :: "uuid \<Rightarrow> string \<Rightarrow> OperationalCache \<Rightarrow> OperationalCache" where
  "mark_signature_as_processed uuid txsig self =
     self\<lparr> oc_processed_signatures := rb_insert uuid txsig (oc_processed_signatures self) \<rparr>"

definition is_signature_processed :: "OperationalCache \<Rightarrow> string \<Rightarrow> bool" where
  "is_signature_processed self txsig = rb_contains_value (oc_processed_signatures self) txsig"

definition update_optimal_fee :: "u64 \<Rightarrow> OperationalCache \<Rightarrow> OperationalCache result" where
  "update_optimal_fee fee self =
     bind (fm_add_fee fee (oc_optimal_fee self)) (\<lambda>m. Ok (self\<lparr> oc_optimal_fee := m \<rparr>))"

text \<open>\<open>RT_FEE_PERCENTILE\<close> is the \<open>f64\<close> constant 80.\<close>

definition get_optimal_fee :: "(nat \<Rightarrow> nat \<Rightarrow> nat) \<Rightarrow> OperationalCache \<Rightarrow> u64" where
  "get_optimal_fee rank self =
     (case fm_get_percentile rank (oc_optimal_fee self) 80 of Some fee \<Rightarrow> fee | None \<Rightarrow> 0)"

definition get_account :: "OperationalCache \<Rightarrow> pubkey \<Rightarrow> AccountPretty option option" where
  "get_account self acc = oc_accounts self acc"

definition monitor_with_geyser :: "pubkey \<Rightarrow> OperationalCache \<Rightarrow> OperationalCache" where
  "monitor_with_geyser acc self = self\<lparr> oc_accounts := (oc_accounts self)(acc \<mapsto> None) \<rparr>"

definition update_account ::
  "pubkey \<Rightarrow> AccountPretty option \<Rightarrow> OperationalCache \<Rightarrow> OperationalCache" where
  "update_account acc account self = self\<lparr> oc_accounts := (oc_accounts self)(acc \<mapsto> account) \<rparr>"

definition drop_account_monitoring :: "pubkey \<Rightarrow> OperationalCache \<Rightarrow> OperationalCache" where
  "drop_account_monitoring acc self = self\<lparr> oc_accounts := (oc_accounts self)(acc := None) \<rparr>"

section \<open>Balance queries\<close>

text \<open>The account of the Solana SDK as the node returns it.\<close>

record SdkAccount =
  sdk_lamports :: u64
  sdk_owner :: pubkey
  sdk_executable :: bool
  sdk_rent_epoch :: u64
  sdk_data :: bytes

record external =
  ext_rpc_get_account :: "pubkey \<Rightarrow> string + SdkAccount"
  ext_token_unpack :: "bytes \<Rightarrow> SplTokenAccount option"
  ext_hex_encode :: "bytes \<Rightarrow> string"
  ext_ata :: "pubkey \<Rightarrow> pubkey \<Rightarrow> pubkey"

definition AccountPretty_from :: "external \<Rightarrow> SdkAccount \<Rightarrow> AccountPretty" where
  "AccountPretty_from ext acc =
     \<lparr> ap_is_startup = False, ap_slot = 0, ap_pubkey = replicate 32 0,
       ap_lamports = sdk_lamports acc, ap_owner = sdk_owner acc,
       ap_executable = sdk_executable acc, ap_rent_epoch = sdk_rent_epoch acc,
       ap_data_encoded = ext_hex_encode ext (sdk_data acc), ap_data = sdk_data acc,
       ap_token_unpacked_data = ext_token_unpack ext (sdk_data acc),
       ap_write_version = 0, ap_txn_signature = [] \<rparr>"

datatype AccountError = AccountNotFound | OtherError string

record Context =
  ctx_cache :: OperationalCache
  ctx_notified :: nat

fun contains :: "string \<Rightarrow> string \<Rightarrow> bool" where
  "contains p [] \<longleftrightarrow> p = []"
| "contains p (c # s) \<longleftrightarrow> take (length p) (c # s) = p \<or> contains p s"

definition not_found :: "string \<Rightarrow> bool" where
  "not_found e \<longleftrightarrow> contains ''AccountNotFound'' e \<or> contains ''Account not found'' e"

definition start_monitoring_account :: "pubkey \<Rightarrow> Context \<Rightarrow> Context" where
  "start_monitoring_account acc ctx =
     ctx\<lparr> ctx_cache := monitor_with_geyser acc (ctx_cache ctx),
          ctx_notified := ctx_notified ctx + 1 \<rparr>"

definition start_monitoring_token_account :: "external \<Rightarrow> pubkey \<Rightarrow> pubkey \<Rightarrow> Context \<Rightarrow> Context" where
  "start_monitoring_token_account ext sniper token_mint ctx =
     start_monitoring_account (ext_ata ext sniper token_mint) ctx"

definition update_from_rpc ::
  "external \<Rightarrow> pubkey \<Rightarrow> Context \<Rightarrow> (AccountError + u64) \<times> Context" where
  "update_from_rpc ext acc ctx =
     (case ext_rpc_get_account ext acc of
        Inr a \<Rightarrow>
          (Inr (sdk_lamports a),
           ctx\<lparr> ctx_cache := update_account acc (Some (AccountPretty_from ext a)) (ctx_cache ctx) \<rparr>)
      | Inl e \<Rightarrow>
          (if not_found e then (Inl AccountNotFound, start_monitoring_account acc ctx)
           else (Inl (OtherError e), ctx)))"

definition get_balance :: "external \<Rightarrow> pubkey \<Rightarrow> Context \<Rightarrow> (AccountError + u64) \<times> Context" where
  "get_balance ext acc ctx =
     (case get_account (ctx_cache ctx) acc of
        Some (Some a) \<Rightarrow> (Inr (ap_lamports a), ctx)
      | Some None \<Rightarrow> update_from_rpc ext acc ctx
      | None \<Rightarrow> update_from_rpc ext acc ctx)"

definition token_amount :: "AccountPretty \<Rightarrow> u64" where
  "token_amount a =
     (case ap_token_unpacked_data a of Some token_account \<Rightarrow> spl_amount token_account | None \<Rightarrow> 0)"

definition query_ata :: "external \<Rightarrow> pubkey \<Rightarrow> Context \<Rightarrow> (AccountError + u64) \<times> Context" where
  "query_ata ext ata ctx =
     (case ext_rpc_get_account ext ata of
        Inr a \<Rightarrow>
          (let acc_pretty = AccountPretty_from ext a
           in (Inr (token_amount acc_pretty),
               ctx\<lparr> ctx_cache := update_account ata (Some acc_pretty) (ctx_cache ctx) \<rparr>))
      | Inl e \<Rightarrow>
          (if not_found e then (Inl AccountNotFound, start_monitoring_account ata ctx)
           else (Inl (OtherError e), ctx)))"

definition get_token_balance ::
  "external \<Rightarrow> pubkey \<Rightarrow> pubkey \<Rightarrow> Context \<Rightarrow> (AccountError + u64) \<times> Context" where
  "get_token_balance ext sniper token_mint_address ctx =
     (let ata = ext_ata ext sniper token_mint_address
      in case get_account (ctx_cache ctx) ata of
           Some (Some acc) \<Rightarrow> (Inr (token_amount acc), ctx)
         | Some None \<Rightarrow> query_ata ext ata ctx
         | None \<Rightarrow> query_ata ext ata ctx)"

definition is_account_exist :: "pubkey \<Rightarrow> Context \<Rightarrow> bool" where
  "is_account_exist acc ctx =
     (case get_account (ctx_cache ctx) acc of
        Some acc_monitored \<Rightarrow> acc_monitored \<noteq> None
      | None \<Rightarrow> False)"

definition stop_monitoring_account :: "pubkey \<Rightarrow> Context \<Rightarrow> Context" where
  "stop_monitoring_account acc ctx =
     ctx\<lparr> ctx_cache := drop_account_monitoring acc (ctx_cache ctx),
          ctx_notified := ctx_notified ctx + 1 \<rparr>"

definition stop_monitoring_token_account :: "external \<Rightarrow> pubkey \<Rightarrow> pubkey \<Rightarrow> Context \<Rightarrow> Context" where
  "stop_monitoring_token_account ext sniper token_mint ctx =
     stop_monitoring_account (ext_ata ext sniper token_mint) ctx"

text \<open>\<open>.unwrap_or(0)\<close> on the result of a balance query.\<close>

definition unwrap_or_0 :: "AccountError + u64 \<Rightarrow> u64" where
  "unwrap_or_0 r = (case r of Inl _ \<Rightarrow> 0 | Inr v \<Rightarrow> v)"

lemmas cache_defs = get_account_def update_account_def monitor_with_geyser_def
  drop_account_monitoring_def start_monitoring_account_def stop_monitoring_account_def

section \<open>Lemmas\<close>

text \<open>The action registry is not touched by a balance query.\<close>

lemma get_balance_registry [simp]:
  "oc_all_system_actions (ctx_cache (snd (get_balance ext acc ctx))) = oc_all_system_actions (ctx_cache ctx)"
  "oc_all_system_actions (ctx_cache (snd (get_token_balance ext acc mint ctx))) =
     oc_all_system_actions (ctx_cache ctx)"
  by (auto simp: get_balance_def get_token_balance_def query_ata_def update_from_rpc_def cache_defs Let_def
      split: option.splits sum.splits)

lemma stop_monitoring_registry [simp]:
  "oc_all_system_actions (ctx_cache (stop_monitoring_account acc ctx)) = oc_all_system_actions (ctx_cache ctx)"
  "oc_all_system_actions (ctx_cache (stop_monitoring_token_account ext s m ctx)) =
     oc_all_system_actions (ctx_cache ctx)"
  by (simp_all add: stop_monitoring_token_account_def cache_defs)

lemma get_balance_cached:
  assumes "get_account (ctx_cache ctx) acc = Some (Some a)"
  shows "get_balance ext acc ctx = (Inr (ap_lamports a), ctx)"
  using assms by (simp add: get_balance_def)

lemma get_token_balance_cached:
  assumes "get_account (ctx_cache ctx) (ext_ata ext s m) = Some (Some a)"
  shows "get_token_balance ext s m ctx = (Inr (token_amount a), ctx)"
  using assms by (simp add: get_token_balance_def)

lemma AccountPretty_from_lamports [simp]: "ap_lamports (AccountPretty_from ext a) = sdk_lamports a"
  by (simp add: AccountPretty_from_def)

section \<open>Properties\<close>

text \<open>A balance query either fails, leaving the account without data (and monitored when the
  node does not know it), or caches the account: every later query returns the same balance from
  the cache without asking the node and without changing the context. The same holds for token
  balances.\<close>

theorem balance_query_cached:
  "(case get_balance ext acc ctx of
      (Inr b, ctx') \<Rightarrow> (\<forall>ext'. get_balance ext' acc ctx' = (Inr b, ctx'))
    | (Inl AccountNotFound, ctx') \<Rightarrow>
        get_account (ctx_cache ctx') acc = Some None \<and> ctx_notified ctx' = ctx_notified ctx + 1
    | (Inl (OtherError e), ctx') \<Rightarrow> ctx' = ctx \<and> \<not> is_account_exist acc ctx) \<and>
   (case get_token_balance ext s m ctx of
      (Inr b, ctx') \<Rightarrow>
        (\<forall>ext'. get_token_balance (ext'\<lparr> ext_ata := ext_ata ext \<rparr>) s m ctx' = (Inr b, ctx'))
    | (Inl AccountNotFound, ctx') \<Rightarrow> get_account (ctx_cache ctx') (ext_ata ext s m) = Some None
    | (Inl (OtherError e), ctx') \<Rightarrow> ctx' = ctx)"
  by (auto simp: get_balance_def get_token_balance_def query_ata_def update_from_rpc_def cache_defs Let_def
      is_account_exist_def split: option.splits sum.splits)

text \<open>A registered action is found by its identifier as long as fewer than the capacity of
  other actions, with other identifiers, are registered after it.\<close>

theorem registered_action_found:
  assumes "distinct (map sa_uuid (before @ a # after))"
    and "length after < CACHED_TX_SIGNATURES_BUFFER_CAPACITY"
  shows "get_action_by_uuid
      (fold (\<lambda>x c. snd (register_action x c)) (before @ a # after) (OperationalCache_new pools prices))
      (sa_uuid a) = Some a"
proof -
  let ?ps = "map (\<lambda>x. (sa_uuid x, x)) (before @ a # after)"
  let ?n = CACHED_TX_SIGNATURES_BUFFER_CAPACITY
  have reg: "oc_all_system_actions (fold (\<lambda>x c. snd (register_action x c)) xs c) =
      fold (\<lambda>(k, v). cb_insert k v) (map (\<lambda>x. (sa_uuid x, x)) xs) (oc_all_system_actions c)" for xs c
    by (induction xs arbitrary: c) (simp_all add: register_action_def)
  have d: "distinct (map fst ?ps)" using assms(1) by (simp add: comp_def)
  have n: "0 < ?n" by (simp add: CACHED_TX_SIGNATURES_BUFFER_CAPACITY_def)
  have "(sa_uuid a, a) \<in> set (last_n ?n ?ps)"
  proof -
    have "last_n ?n ?ps = drop (length ?ps - ?n) (map (\<lambda>x. (sa_uuid x, x)) before) @
        map (\<lambda>x. (sa_uuid x, x)) (a # after)"
      using assms(2) by (simp add: last_n_def)
    then show ?thesis by simp
  qed
  moreover have "distinct (map fst (last_n ?n ?ps))"
    using d by (simp only: last_n_def drop_map [symmetric] distinct_drop)
  ultimately have "map_of (last_n ?n ?ps) (sa_uuid a) = Some a" by simp
  with cb_filled(3) [OF n d, of "sa_uuid a"]
  have "cb_get_by_key (fold (\<lambda>(k, v). cb_insert k v) ?ps (cb_new ?n)) (sa_uuid a) = Some a" by (rule trans)
  then show ?thesis
    unfolding get_action_by_uuid_def reg by (simp only: OperationalCache_new_def OperationalCache.simps)
qed

theorem registered_action_found_witness:
  "get_action_by_uuid
     (fold (\<lambda>x c. snd (register_action x c))
       [SolanaAction_new 1 0 [1] [], SolanaAction_new 2 0 [1] []]
       (OperationalCache_new Map.empty Map.empty)) 1 = Some (SolanaAction_new 1 0 [1] [])"
  using registered_action_found [of "[]" "SolanaAction_new 1 0 [1] []" "[SolanaAction_new 2 0 [1] []]"
      Map.empty Map.empty]
  by (simp add: SolanaAction_new_def new_with_feepayer_def CACHED_TX_SIGNATURES_BUFFER_CAPACITY_def)

text \<open>\<open>get_all_unprocessed_tx_signatures\<close> selects the wrong signatures: one that is monitored
  and not yet processed is not returned, and it is returned once it has been processed.\<close>

theorem unprocessed_signatures_inverted:
  "let c = add_agent_tx u s (OperationalCache_new pools prices)
   in if_agent_signature c s \<and> \<not> is_signature_processed c s \<and>
      get_all_unprocessed_tx_signatures c = [] \<and>
      get_all_unprocessed_tx_signatures (mark_signature_as_processed u s c) = [s]"
  by (simp add: add_agent_tx_def OperationalCache_new_def if_agent_signature_def rb_new_def rb_insert_def
      is_signature_processed_def get_all_unprocessed_tx_signatures_def mark_signature_as_processed_def
      rb_contains_value_def rb_get_all_values_def CACHED_TX_SIGNATURES_BUFFER_CAPACITY_def)

end
