(* ===== verification/Statig.thy ===== *)
theory Statig
  imports Main
begin

text \<open>
  The strategies and their agents are hierarchical state machines written with the \<open>statig\<close>
  crate. What a machine is, its handlers and its entry and exit actions, comes from the source
  and is a record here; how the crate runs a machine is the locale \<open>statig\<close>, whose laws are the
  documented ones: a handler that answers \<open>Handled\<close> stays in the state, \<open>Super\<close> asks the
  superstate, and \<open>Transition\<close> runs the exit action of the source and then the entry action of the
  target. A panic is \<open>None\<close>. The crate itself is always an argument; \<open>statig_dispatch\<close> shows that
  the laws can be met, and that they determine the result.
\<close>

datatype 's Response = Handled | Super | Transition 's

record ('e, 's, 'w) machine =
  on_event :: "'e \<Rightarrow> 's \<Rightarrow> 'w \<Rightarrow> ('s Response \<times> 'w) option"
  on_super :: "'e \<Rightarrow> 's \<Rightarrow> 'w \<Rightarrow> ('s Response \<times> 'w) option"
  on_exit :: "'s \<Rightarrow> 'w \<Rightarrow> 'w option"
  on_entry :: "'s \<Rightarrow> 'w \<Rightarrow> 'w option"

definition change_state :: "('e, 's, 'w) machine \<Rightarrow> 's \<Rightarrow> 's \<Rightarrow> 'w \<Rightarrow> ('s \<times> 'w) option" where
  "change_state m s t w =
     Option.bind (on_exit m s w) (\<lambda>w1. Option.bind (on_entry m t w1) (\<lambda>w2. Some (t, w2)))"

locale statig =
  fixes handle :: "('e, 's, 'w) machine \<Rightarrow> 'e \<Rightarrow> 's \<Rightarrow> 'w \<Rightarrow> ('s \<times> 'w) option"
  assumes handled: "on_event m e s w = Some (Handled, w') \<Longrightarrow> handle m e s w = Some (s, w')"
    and transitioned: "on_event m e s w = Some (Transition t, w') \<Longrightarrow>
      handle m e s w = change_state m s t w'"
    and super_handled: "on_event m e s w = Some (Super, w') \<Longrightarrow> on_super m e s w' = Some (r, w'') \<Longrightarrow>
      r \<in> {Handled, Super} \<Longrightarrow> handle m e s w = Some (s, w'')"
    and super_transitioned: "on_event m e s w = Some (Super, w') \<Longrightarrow>
      on_super m e s w' = Some (Transition t, w'') \<Longrightarrow> handle m e s w = change_state m s t w''"
    and panicked: "on_event m e s w = None \<Longrightarrow> handle m e s w = None"
    and super_panicked: "on_event m e s w = Some (Super, w') \<Longrightarrow> on_super m e s w' = None \<Longrightarrow>
      handle m e s w = None"

definition respond :: "('e, 's, 'w) machine \<Rightarrow> 's \<Rightarrow> 's Response \<times> 'w \<Rightarrow> ('s \<times> 'w) option" where
  "respond m s = (\<lambda>(r, w). case r of Transition t \<Rightarrow> change_state m s t w | _ \<Rightarrow> Some (s, w))"

definition statig_dispatch :: "('e, 's, 'w) machine \<Rightarrow> 'e \<Rightarrow> 's \<Rightarrow> 'w \<Rightarrow> ('s \<times> 'w) option" where
  "statig_dispatch m e s w =
     (case on_event m e s w of
        None \<Rightarrow> None
      | Some (Super, w') \<Rightarrow> Option.bind (on_super m e s w') (respond m s)
      | Some (r, w') \<Rightarrow> respond m s (r, w'))"

interpretation reference: statig statig_dispatch
  by unfold_locales (auto simp: statig_dispatch_def respond_def)

context statig
begin

lemma handle_eq: "handle m e s w = statig_dispatch m e s w"
proof (cases "on_event m e s w")
  case None
  then show ?thesis by (simp add: panicked statig_dispatch_def)
next
  case (Some rw)
  obtain r w' where rw: "rw = (r, w')" by fastforce
  show ?thesis
  proof (cases r)
    case Super
    show ?thesis
    proof (cases "on_super m e s w'")
      case (Some rw')
      then show ?thesis
        using Super rw \<open>on_event m e s w = Some rw\<close> super_handled [of m e s w w'] super_transitioned [of m e s w w']
        by (cases rw'; cases "fst rw'") (auto simp: statig_dispatch_def respond_def)
    qed (use Super rw Some super_panicked in \<open>simp add: statig_dispatch_def\<close>)
  qed (use rw Some handled transitioned in \<open>simp_all add: statig_dispatch_def respond_def\<close>)
qed

end

text \<open>A run feeds a list of events to a machine whose actions read an environment that may differ
  from event to event.\<close>

fun run_machine ::
  "(('e, 's, 'w) machine \<Rightarrow> 'e \<Rightarrow> 's \<Rightarrow> 'w \<Rightarrow> ('s \<times> 'w) option) \<Rightarrow> ('n \<Rightarrow> ('e, 's, 'w) machine)
     \<Rightarrow> ('n \<times> 'e) list \<Rightarrow> 's \<times> 'w \<Rightarrow> ('s \<times> 'w) option" where
  "run_machine handle mach [] sw = Some sw"
| "run_machine handle mach ((n, e) # es) (s, w) =
     Option.bind (handle (mach n) e s w) (run_machine handle mach es)"

lemma run_machine_append:
  "run_machine h mach (es @ fs) sw = Option.bind (run_machine h mach es sw) (run_machine h mach fs)"
  by (induction h mach es sw rule: run_machine.induct) (auto split: bind_splits)

lemma run_invariant:
  assumes "run_machine h mach es (s, w) = Some (s', w')" and "I s w"
    and "\<And>n e s w s' w'. (n, e) \<in> set es \<Longrightarrow> I s w \<Longrightarrow> h (mach n) e s w = Some (s', w') \<Longrightarrow> I s' w'"
  shows "I s' w'"
  using assms
proof (induction es arbitrary: s w)
  case (Cons x es)
  obtain n e where x: "x = (n, e)" by fastforce
  obtain s1 w1 where 1: "h (mach n) e s w = Some (s1, w1)"
    and 2: "run_machine h mach es (s1, w1) = Some (s', w')"
    using Cons.prems(1) by (auto simp: x split: bind_splits)
  have "I s1 w1" using Cons.prems(3) [OF _ Cons.prems(2) 1] by (simp add: x)
  from Cons.IH [OF 2 this] Cons.prems(3) show ?case by (meson list.set_intros(2))
qed simp

end
