(* ===== verification/Volume_Agent.thy ===== *)
theory Volume_Agent
  imports Op_Cache Statig
begin

text \<open>
  The agent of the volume strategy (\<open>strategies/volume_strategy/agent/agent_state_machine.rs\<close>): one
  wallet that transfers, buys, sells and collects, with retries and time-outs. \<open>AgentState\<close> holds
  the fields of the struct; what it shares with the rest of the program, the context, the queue of
  generated actions and the table of traders, is \<open>World\<close>. Clock readings, fresh identifiers, the
  outcome of database calls and the external functions come from an environment, a new one for
  each event. The text of an error state is represented by what is formatted into it.
\<close>

section \<open>State\<close>

record Trader =
  tr_id :: int
  tr_strategy_instance_id :: "int option"
  tr_wallet :: pubkey
  tr_private_key :: string
  tr_created :: datetime
  tr_is_active :: bool

definition Trader_default :: Trader where
  "Trader_default = \<lparr> tr_id = 0, tr_strategy_instance_id = None, tr_wallet = replicate 32 0,
     tr_private_key = [], tr_created = 0, tr_is_active = False \<rparr>"

datatype error_msg =
    DeactivateMainWallet
  | ErrorExecutingAction ExecutionError
  | ErrorProcessingReceipt pubkey TransactionError
  | TransferActionTimeout

datatype State =
    Idle
  | Transferring "TransferPayload list" int
  | Collecting int
  | Buying Amount int
  | Selling Amount int
  | Success
  | Error error_msg
  | Deactivating int
  | Deactivated

record AgentState =
  ag_pool :: RaydiumPool
  ag_trader :: Trader
  ag_agent_key :: keypair
  ag_main_wallet :: "keypair option"
  ag_actions_in_progress :: "uuid list"
  ag_strategy_id_opt :: "int option"
  ag_retry_timer :: Stopwatch
  ag_timeout_timer :: Stopwatch

record World =
  w_context :: Context
  w_actions :: "SolanaAction list"
  w_traders :: "Trader list"

record Env =
  env_ext :: external
  env_now :: instant
  env_entry_now :: instant
  env_utc :: datetime
  env_uuid :: uuid
  env_db_connects :: bool
  env_inserted_trader :: "int option"
  env_private_key :: "keypair \<Rightarrow> string"
  env_parse_key :: "string \<Rightarrow> keypair option"

section \<open>Operations of the agent\<close>

definition agent_pubkey :: "AgentState \<Rightarrow> pubkey" where
  "agent_pubkey self = ag_agent_key self"

definition get_token_mint :: "AgentState \<Rightarrow> pubkey" where
  "get_token_mint self = rp_base_mint (ag_pool self)"

definition is_main_wallet :: "AgentState \<Rightarrow> bool" where
  "is_main_wallet self \<longleftrightarrow> ag_strategy_id_opt self = None"

definition get_main_wallet :: "AgentState \<Rightarrow> keypair" where
  "get_main_wallet self =
     (case ag_main_wallet self of Some k \<Rightarrow> k | None \<Rightarrow> ag_agent_key self)"

definition get_main_wallet_pubkey :: "AgentState \<Rightarrow> pubkey" where
  "get_main_wallet_pubkey self =
     (case ag_main_wallet self of Some k \<Rightarrow> k | None \<Rightarrow> ag_agent_key self)"

definition agent_get_sol_balance :: "Env \<Rightarrow> AgentState \<Rightarrow> World \<Rightarrow> u64 \<times> World" where
  "agent_get_sol_balance env self w =
     (case get_balance (env_ext env) (ag_agent_key self) (w_context w) of
        (r, ctx) \<Rightarrow> (unwrap_or_0 r, w\<lparr> w_context := ctx \<rparr>))"

definition agent_get_token_balance :: "Env \<Rightarrow> AgentState \<Rightarrow> World \<Rightarrow> u64 \<times> World" where
  "agent_get_token_balance env self w =
     (case get_token_balance (env_ext env) (ag_agent_key self) (get_token_mint self) (w_context w) of
        (r, ctx) \<Rightarrow> (unwrap_or_0 r, w\<lparr> w_context := ctx \<rparr>))"

definition agent_drop :: "Env \<Rightarrow> AgentState \<Rightarrow> World \<Rightarrow> World" where
  "agent_drop env self w =
     (if is_main_wallet self then w
      else
        (let w1 = (if env_db_connects env then
                     w\<lparr> w_traders := map (\<lambda>t. if tr_wallet t = ag_agent_key self
                          then t\<lparr> tr_is_active := False \<rparr> else t) (w_traders w) \<rparr>
                   else w);
             ctx = stop_monitoring_account (ag_agent_key self) (w_context w1)
         in w1\<lparr> w_context := stop_monitoring_token_account (env_ext env) (ag_agent_key self)
                (rp_base_mint (ag_pool self)) ctx \<rparr>))"

definition db_read_or_create ::
  "Env \<Rightarrow> int \<Rightarrow> AgentState \<Rightarrow> World \<Rightarrow> Trader option \<times> World" where
  "db_read_or_create env strategy_id self w =
     (if \<not> env_db_connects env then (None, w)
      else
        (case find (\<lambda>t. tr_wallet t = ag_agent_key self) (w_traders w) of
           Some trader \<Rightarrow> (Some trader, w)
         | None \<Rightarrow>
             (case env_inserted_trader env of
                None \<Rightarrow> (None, w)
              | Some new_id \<Rightarrow>
                  (let trader = \<lparr> tr_id = new_id, tr_strategy_instance_id = Some strategy_id,
                         tr_wallet = ag_agent_key self,
                         tr_private_key = env_private_key env (ag_agent_key self),
                         tr_created = env_utc env, tr_is_active = True \<rparr>
                   in (Some trader, w\<lparr> w_traders := w_traders w @ [trader] \<rparr>)))))"

definition fresh_agent ::
  "Env \<Rightarrow> RaydiumPool \<Rightarrow> Trader \<Rightarrow> keypair \<Rightarrow> int option \<Rightarrow> keypair option \<Rightarrow> AgentState" where
  "fresh_agent env pool trader agent_key strategy_id_opt main_wallet =
     \<lparr> ag_pool = pool, ag_trader = trader, ag_agent_key = agent_key, ag_main_wallet = main_wallet,
       ag_actions_in_progress = [], ag_strategy_id_opt = strategy_id_opt,
       ag_retry_timer = Stopwatch_new (env_now env) TIMEOUT_FOR_ACTION_EXECUTION_HBS,
       ag_timeout_timer = Stopwatch_new (env_now env) TIMEOUT_FOR_ACTION_EXECUTION_HBS \<rparr>"

text \<open>Both constructors start by querying the balances, which starts the monitoring.\<close>

definition query_balances :: "Env \<Rightarrow> keypair \<Rightarrow> RaydiumPool \<Rightarrow> World \<Rightarrow> World" where
  "query_balances env key pool w =
     (let ctx = snd (get_balance (env_ext env) key (w_context w))
      in w\<lparr> w_context := snd (get_token_balance (env_ext env) key (rp_base_mint pool) ctx) \<rparr>)"

definition AgentState_new ::
  "Env \<Rightarrow> RaydiumPool \<Rightarrow> keypair \<Rightarrow> int option \<Rightarrow> keypair option \<Rightarrow> World \<Rightarrow> AgentState option \<times> World" where
  "AgentState_new env pool agent_key strategy_id_opt main_wallet w =
     (let w1 = query_balances env agent_key pool w;
          agent = fresh_agent env pool Trader_default agent_key strategy_id_opt main_wallet
      in case strategy_id_opt of
           None \<Rightarrow> (Some agent, w1)
         | Some strategy_id \<Rightarrow>
             (case db_read_or_create env strategy_id agent w1 of
                (None, w2) \<Rightarrow> (None, w2)
              | (Some trader, w2) \<Rightarrow>
                  (let agent1 = agent\<lparr> ag_trader := trader \<rparr>
                   in if tr_is_active trader \<and> tr_strategy_instance_id trader \<noteq> None then
                        (if tr_strategy_instance_id trader \<noteq> Some strategy_id then
                           (Some (agent1\<lparr> ag_trader :=
                              trader\<lparr> tr_strategy_instance_id := Some strategy_id \<rparr> \<rparr>), w2)
                         else (Some agent1, w2))
                      else (None, agent_drop env agent1 w2))))"

definition new_from_trader ::
  "Env \<Rightarrow> RaydiumPool \<Rightarrow> Trader \<Rightarrow> keypair option \<Rightarrow> World \<Rightarrow> AgentState option \<times> World" where
  "new_from_trader env pool trader main_wallet w =
     (case env_parse_key env (tr_private_key trader) of
        None \<Rightarrow> (None, w)
      | Some agent_key \<Rightarrow>
          (Some (fresh_agent env pool trader agent_key (tr_strategy_instance_id trader) main_wallet),
           query_balances env agent_key pool w))"

definition queue_action :: "Env \<Rightarrow> SolanaAction \<Rightarrow> AgentState \<times> World \<Rightarrow> AgentState \<times> World" where
  "queue_action env action = (\<lambda>(self, w).
     (self\<lparr> ag_actions_in_progress := ag_actions_in_progress self @ [sa_uuid action],
            ag_timeout_timer := Stopwatch_start (env_entry_now env) TIMEOUT_FOR_ACTION_EXECUTION_HBS
              (ag_timeout_timer self) \<rparr>,
      (case register_action action (ctx_cache (w_context w)) of
         (action_am, cache) \<Rightarrow>
           w\<lparr> w_context := (w_context w)\<lparr> ctx_cache := cache \<rparr>,
              w_actions := w_actions w @ [action_am] \<rparr>)))"

definition process_execution_receipt ::
  "ExecutionReceipt \<Rightarrow> AgentState \<Rightarrow> (TransactionError + bool) \<times> AgentState" where
  "process_execution_receipt receipt self =
     (if er_action_uuid receipt \<in> set (ag_actions_in_progress self) then
        (let self1 = self\<lparr> ag_actions_in_progress :=
               filter (\<lambda>x. x \<noteq> er_action_uuid receipt) (ag_actions_in_progress self) \<rparr>
         in case er_err receipt of
              Some err \<Rightarrow> (Inl err, self1\<lparr> ag_timeout_timer := turn_off (ag_timeout_timer self1) \<rparr>)
            | None \<Rightarrow> (Inr True, self1))
      else (Inr False, self))"

definition is_cooled_down_before_retry ::
  "Env \<Rightarrow> u64 \<Rightarrow> AgentState \<Rightarrow> (bool \<times> AgentState) option" where
  "is_cooled_down_before_retry env tick_ms self =
     (case is_time_elapsed (env_now env) tick_ms (ag_timeout_timer self) of
        Ok True \<Rightarrow> Some (True, self\<lparr> ag_timeout_timer := turn_off (ag_timeout_timer self) \<rparr>)
      | Ok False \<Rightarrow> Some (False, self)
      | _ \<Rightarrow> None)"

section \<open>The state machine\<close>

definition retry_or :: "int \<Rightarrow> State \<Rightarrow> State \<Rightarrow> State Response" where
  "retry_or retry retry_action otherwise =
     Transition (if retry \<le> RETRIES_IF_ERROR_OR_TIMEOUT then retry_action else otherwise)"

definition transition_to_success_or_error ::
  "Env \<Rightarrow> SolanaStrategyEvent \<Rightarrow> State \<Rightarrow> int \<Rightarrow> AgentState \<Rightarrow> (State Response \<times> AgentState) option" where
  "transition_to_success_or_error env event retry_action retry self =
     (case event of
        ForAgent Deactivate \<Rightarrow>
          Some (if get_main_wallet_pubkey self = agent_pubkey self
                then Transition (Error DeactivateMainWallet) else Transition (Deactivating 0), self)
      | Original (ResultEvent action_uuid action res) \<Rightarrow>
          (if action_uuid \<in> set (ag_actions_in_progress self) then
             (let self1 = self\<lparr> ag_actions_in_progress :=
                    filter (\<lambda>x. x \<noteq> action_uuid) (ag_actions_in_progress self) \<rparr>
              in case res of
                   ExecutionFailed e \<Rightarrow>
                     Some (retry_or retry retry_action (Error (ErrorExecutingAction e)), self1)
                 | Sent \<Rightarrow> Some (Super, self1))
           else Some (Super, self))
      | Original (ChainEvent (ReceiptEvent receipt)) \<Rightarrow>
          (case process_execution_receipt receipt self of
             (Inr True, self1) \<Rightarrow> Some (Transition Success, self1)
           | (Inr False, self1) \<Rightarrow> Some (Super, self1)
           | (Inl e, self1) \<Rightarrow>
               Some (retry_or retry retry_action
                 (Error (ErrorProcessingReceipt (agent_pubkey self) e)), self1))
      | Original (HeartBeat tick_ms _) \<Rightarrow>
          (case is_cooled_down_before_retry env tick_ms self of
             Some (True, self1) \<Rightarrow> Some (retry_or retry retry_action (Error TransferActionTimeout), self1)
           | Some (False, self1) \<Rightarrow> Some (Super, self1)
           | None \<Rightarrow> None)
      | _ \<Rightarrow> Some (Super, self))"

text \<open>\<open>idle\<close> and \<open>success\<close> have the same handler.\<close>

definition idle :: "SolanaStrategyEvent \<Rightarrow> AgentState \<Rightarrow> State Response" where
  "idle event self =
     (case event of
        ForAgent Deactivate \<Rightarrow> if \<not> is_main_wallet self then Transition Deactivated else Handled
      | ForAgent (Transfer batch) \<Rightarrow> Transition (Transferring batch 0)
      | ForAgent Collect \<Rightarrow> Transition (Collecting 0)
      | ForAgent (Buy amt) \<Rightarrow> Transition (Buying amt 0)
      | ForAgent (Sell amt) \<Rightarrow> Transition (Selling amt 0)
      | _ \<Rightarrow> Super)"

definition success :: "SolanaStrategyEvent \<Rightarrow> AgentState \<Rightarrow> State Response" where
  "success event self =
     (case event of
        ForAgent Deactivate \<Rightarrow> if \<not> is_main_wallet self then Transition Deactivated else Handled
      | ForAgent (Transfer batch) \<Rightarrow> Transition (Transferring batch 0)
      | ForAgent Collect \<Rightarrow> Transition (Collecting 0)
      | ForAgent (Buy amt) \<Rightarrow> Transition (Buying amt 0)
      | ForAgent (Sell amt) \<Rightarrow> Transition (Selling amt 0)
      | _ \<Rightarrow> Super)"

definition agent_error :: "AgentState \<Rightarrow> State Response" where
  "agent_error self = (if is_main_wallet self then Transition Idle else Transition (Deactivating 0))"

definition deactivating ::
  "Env \<Rightarrow> int \<Rightarrow> SolanaStrategyEvent \<Rightarrow> AgentState \<Rightarrow> (State Response \<times> AgentState) option" where
  "deactivating env retry event self =
     (case event of
        Original (ChainEvent (ReceiptEvent receipt)) \<Rightarrow>
          (case process_execution_receipt receipt self of
             (Inr True, self1) \<Rightarrow> Some (Transition Deactivated, self1)
           | (Inr False, self1) \<Rightarrow> Some (Super, self1)
           | (Inl e, self1) \<Rightarrow>
               Some (retry_or retry (Deactivating (retry + 1))
                 (Error (ErrorProcessingReceipt (agent_pubkey self) e)), self1))
      | Original (HeartBeat tick_ms _) \<Rightarrow>
          (case is_cooled_down_before_retry env tick_ms self of
             Some (True, self1) \<Rightarrow> Some (retry_or retry (Deactivating (retry + 1)) Deactivated, self1)
           | Some (False, self1) \<Rightarrow> Some (Super, self1)
           | None \<Rightarrow> None)
      | _ \<Rightarrow> Some (Super, self))"

definition agent_handler ::
  "Env \<Rightarrow> SolanaStrategyEvent \<Rightarrow> State \<Rightarrow> AgentState \<times> World
     \<Rightarrow> (State Response \<times> (AgentState \<times> World)) option" where
  "agent_handler env event st = (\<lambda>(self, w).
     map_option (\<lambda>(r, self1). (r, (self1, w)))
       (case st of
          Idle \<Rightarrow> Some (idle event self, self)
        | Transferring batch retry \<Rightarrow>
            transition_to_success_or_error env event (Transferring batch (retry + 1)) retry self
        | Collecting retry \<Rightarrow>
            transition_to_success_or_error env event (Collecting (retry + 1)) retry self
        | Buying amt retry \<Rightarrow>
            transition_to_success_or_error env event (Buying amt (retry + 1)) retry self
        | Selling amt retry \<Rightarrow>
            transition_to_success_or_error env event (Selling amt (retry + 1)) retry self
        | Success \<Rightarrow> Some (success event self, self)
        | Error msg \<Rightarrow> Some (agent_error self, self)
        | Deactivating retry \<Rightarrow> deactivating env retry event self
        | Deactivated \<Rightarrow> Some (Handled, self)))"

section \<open>Entry actions\<close>

definition transfer :: "Env \<Rightarrow> TransferPayload list \<Rightarrow> AgentState \<times> World \<Rightarrow> AgentState \<times> World" where
  "transfer env batch sw =
     (let self = fst sw;
          fee_payer = (if list_ex (\<lambda>x. tp_amount x = MaxAndClose \<and> tp_asset x = Sol) batch
                       then get_main_wallet self else ag_agent_key self)
      in queue_action env (new_with_feepayer (env_uuid env) (env_utc env) (ag_agent_key self) fee_payer
           (map SolanaTransferActionPayload batch)) sw)"

definition swap_action :: "Env \<Rightarrow> SwapMethod \<Rightarrow> Amount \<Rightarrow> AgentState \<Rightarrow> SolanaAction" where
  "swap_action env swap_method amount_in self =
     SolanaAction_new (env_uuid env) (env_utc env) (ag_agent_key self)
       [SolanaSwapActionPayload
          \<lparr> sp_keys = to_liquidity_keys (ag_pool self), sp_swap_method = swap_method,
            sp_amount_in = amount_in, sp_min_amount_out = 0 \<rparr>]"

definition buy_for_all :: "Env \<Rightarrow> AgentState \<times> World \<Rightarrow> AgentState \<times> World" where
  "buy_for_all env sw =
     queue_action env (swap_action env BuyTokensForExactSol MaxButLeaveForTransfer (fst sw)) sw"

definition sell :: "Env \<Rightarrow> Amount \<Rightarrow> AgentState \<times> World \<Rightarrow> AgentState \<times> World" where
  "sell env amt sw = queue_action env (swap_action env SellExactTokensForSol amt (fst sw)) sw"

text \<open>\<open>self.main_wallet.clone().unwrap()\<close> panics on an agent without a main wallet.\<close>

definition collect_payloads :: "pubkey \<Rightarrow> pubkey \<Rightarrow> u64 \<Rightarrow> SolanaActionPayload list" where
  "collect_payloads base_mint receiver token_balance =
     (if token_balance > 0
      then [SolanaTransferActionPayload
              \<lparr> tp_asset = Token base_mint, tp_receiver = receiver, tp_amount = MaxAndClose \<rparr>]
      else []) @
     [SolanaTransferActionPayload
        \<lparr> tp_asset = Sol, tp_receiver = receiver, tp_amount = Amount_Max \<rparr>]"

definition collect :: "Env \<Rightarrow> AgentState \<times> World \<Rightarrow> (AgentState \<times> World) option" where
  "collect env = (\<lambda>(self, w).
     (case agent_get_token_balance env self w of
        (token_balance, w1) \<Rightarrow>
          (case ag_main_wallet self of
             None \<Rightarrow> None
           | Some main_wallet \<Rightarrow>
               Some (queue_action env
                 (new_with_feepayer (env_uuid env) (env_utc env) (ag_agent_key self) main_wallet
                    (collect_payloads (rp_base_mint (ag_pool self)) main_wallet token_balance))
                 (self, w1)))))"

definition agent_entry :: "Env \<Rightarrow> State \<Rightarrow> AgentState \<times> World \<Rightarrow> (AgentState \<times> World) option" where
  "agent_entry env st sw =
     (case st of
        Transferring batch retry \<Rightarrow> Some (transfer env batch sw)
      | Collecting retry \<Rightarrow> collect env sw
      | Buying amt retry \<Rightarrow> Some (buy_for_all env sw)
      | Selling amt retry \<Rightarrow> Some (sell env amt sw)
      | Deactivating retry \<Rightarrow> collect env sw
      | Deactivated \<Rightarrow> Some (fst sw, agent_drop env (fst sw) (snd sw))
      | _ \<Rightarrow> Some sw)"

text \<open>The machine of the \<open>#[state_machine]\<close> block: no superstates and no exit actions.\<close>

definition agent_machine :: "Env \<Rightarrow> (SolanaStrategyEvent, State, AgentState \<times> World) machine" where
  "agent_machine env =
     \<lparr> on_event = agent_handler env, on_super = (\<lambda>event st sw. Some (Handled, sw)),
       on_exit = (\<lambda>st sw. Some sw), on_entry = agent_entry env \<rparr>"

end
