(* ===== verification/Tranche_Amounts.thy ===== *)
theory Tranche_Amounts
  imports Rust_Prelude
begin

text \<open>
  The random split of an amount among agents (\<open>src/src/utils/math.rs\<close>). Drawing from the Dirichlet
  distribution and rounding the products of \<open>f64\<close> values is the argument \<open>sample\<close>: \<open>sample n amount\<close>
  is the list of the rounded shares of \<open>amount\<close>. The correction that makes the shares add up is
  integer arithmetic and is modelled with its wrap-around; \<open>alpha as i64 - total as i64\<close> and the
  additions of \<open>sum\<close> wrap in a release build.
\<close>

definition adjust_first :: "u64 \<Rightarrow> u64 list \<Rightarrow> u64 list result" where
  "adjust_first alpha amounts =
     (let total = sum_list amounts
      in if total = alpha then Ok amounts
         else
           (let difference = alpha - total
            in if 0 < sint difference then
                 (if amounts = [] then Panic else Ok (amounts[0 := amounts ! 0 + difference]))
               else if sint difference < 0 then
                 (if amounts = [] then Panic else Ok (amounts[0 := amounts ! 0 - (- difference)]))
               else Ok amounts))"

definition get_dirichlet_distributed_amount ::
  "(usize \<Rightarrow> u64 \<Rightarrow> u64 list) \<Rightarrow> u64 \<Rightarrow> usize \<Rightarrow> u64 list result" where
  "get_dirichlet_distributed_amount sample alpha n =
     (if n = 0 then Ok [] else adjust_first alpha (sample n alpha))"

definition get_dirichlet_distributed_with_min_amount ::
  "(usize \<Rightarrow> u64 \<Rightarrow> u64 list) \<Rightarrow> u64 \<Rightarrow> usize \<Rightarrow> u64 \<Rightarrow> u64 list result" where
  "get_dirichlet_distributed_with_min_amount sample alpha n min_amount =
     (if n = 0 then Ok []
      else if n = 1 then Ok [alpha]
      else
        (let min_required_total = of_nat n * min_amount
         in if alpha < min_required_total then Ok (replicate n min_amount)
            else
              (let remaining_alpha = alpha - min_required_total;
                   amounts = map (\<lambda>x. x + min_amount) (sample n remaining_alpha)
               in adjust_first alpha amounts)))"

section \<open>The correction\<close>

lemma adjust_first_eq:
  "amounts \<noteq> [] \<Longrightarrow> adjust_first alpha amounts = Ok (amounts[0 := amounts ! 0 + (alpha - sum_list amounts)])"
proof (cases amounts)
  case (Cons x xs)
  have "sint (alpha - sum_list amounts) = 0 \<Longrightarrow> alpha = sum_list amounts"
    by (simp add: signed_eq_0_iff)
  then show ?thesis by (auto simp: Cons adjust_first_def Let_def algebra_simps)
qed simp

lemma tl_update_0 [simp]: "tl (xs[0 := x]) = tl xs"
  by (cases xs) simp_all

lemma sum_list_update_0: "xs \<noteq> [] \<Longrightarrow> sum_list (xs[0 := xs ! 0 + d]) = sum_list xs + (d :: 'a :: ab_group_add)"
  by (cases xs) (simp_all add: add_ac)

lemma unat_sum_list_small:
  "sum_list (map unat xs) < 2 ^ LENGTH('a) \<Longrightarrow> unat (sum_list (xs :: 'a :: len word list)) = sum_list (map unat xs)"
proof (induction xs)
  case (Cons x xs)
  then have "unat (sum_list xs) = sum_list (map unat xs)" by simp
  then show ?case using Cons.prems by (simp add: unat_word_ariths)
qed simp

text \<open>Adding the minimum to every share does not wrap when the total fits.\<close>

lemma unat_add_min:
  fixes m :: u64
  assumes "length xs * unat m + sum_list (map unat xs) < 2 ^ 64"
  shows "map unat (map (\<lambda>x. x + m) xs) = map (\<lambda>x. unat x + unat m) xs"
    and "unat (sum_list (map (\<lambda>x. x + m) xs)) = sum_list (map unat xs) + length xs * unat m"
proof -
  have "unat (x + m) = unat x + unat m" if "x \<in> set xs" for x
  proof -
    have "unat x \<le> sum_list (map unat xs)" using that member_le_sum_list [of "unat x" "map unat xs"] by simp
    moreover have "unat m \<le> length xs * unat m" using that by (cases xs) auto
    ultimately have "unat x + unat m < 2 ^ 64" using assms by linarith
    then show ?thesis by (simp add: unat_word_ariths)
  qed
  then show m: "map unat (map (\<lambda>x. x + m) xs) = map (\<lambda>x. unat x + unat m) xs" by simp
  have s: "sum_list (map unat (map (\<lambda>x. x + m) xs)) = sum_list (map unat xs) + length xs * unat m"
    unfolding m by (simp add: sum_list_addf sum_list_triv)
  then show "unat (sum_list (map (\<lambda>x. x + m) xs)) = sum_list (map unat xs) + length xs * unat m"
    using unat_sum_list_small [of "map (\<lambda>x. x + m) xs"] assms by (simp add: add.commute)
qed

text \<open>The corrected first share, when the other amounts leave room for it.\<close>

lemma corrected_first:
  fixes m alpha :: u64
  assumes "length (s0 # ss) * unat m + sum_list (map unat (s0 # ss)) < 2 ^ 64"
    and "sum_list (map unat ss) + length ss * unat m + unat m \<le> unat alpha"
  shows "unat (s0 + m + (alpha - sum_list (map (\<lambda>x. x + m) (s0 # ss)))) =
    unat alpha - sum_list (map unat ss) - length ss * unat m"
proof -
  let ?rest = "sum_list (map unat ss) + length ss * unat m"
  have fit: "length ss * unat m + sum_list (map unat ss) < 2 ^ 64" using assms(1) by simp
  have "sum_list (map (\<lambda>x. x + m) ss) = of_nat ?rest"
    unfolding unat_add_min(2) [OF fit, symmetric] by simp
  then have "s0 + m + (alpha - sum_list (map (\<lambda>x. x + m) (s0 # ss))) = alpha - of_nat ?rest"
    by (simp add: algebra_simps)
  also have "\<dots> = of_nat (unat alpha - ?rest)" using assms(2) by (simp add: of_nat_diff)
  finally have "unat (s0 + m + (alpha - sum_list (map (\<lambda>x. x + m) (s0 # ss)))) =
      unat (of_nat (unat alpha - ?rest) :: u64)" by (rule arg_cong)
  also have "\<dots> = unat alpha - ?rest"
    using unsigned_less [of alpha, where 'a = nat] by (simp add: unat_of_nat del: unsigned_less)
  finally show ?thesis by simp
qed

section \<open>Properties\<close>

text \<open>The split never panics when the sample has one share per agent, and the amounts always
  add up to the amount that is split, in 64-bit arithmetic; only the first share is corrected.\<close>

theorem dirichlet_sums_to_alpha:
  assumes "0 < n" and "length (sample n alpha) = n"
  shows "\<exists>amounts. get_dirichlet_distributed_amount sample alpha n = Ok amounts \<and>
    length amounts = n \<and> sum_list amounts = alpha \<and> tl amounts = tl (sample n alpha)"
proof -
  have ne: "sample n alpha \<noteq> []" using assms by auto
  then show ?thesis
    using assms by (auto simp: get_dirichlet_distributed_amount_def adjust_first_eq sum_list_update_0)
qed

theorem dirichlet_sums_to_alpha_witness:
  "\<exists>amounts. get_dirichlet_distributed_amount (\<lambda>n a. [3, 4, 2]) 10 3 = Ok amounts \<and>
    length amounts = 3 \<and> sum_list amounts = 10 \<and> tl amounts = [4, 2]"
  using dirichlet_sums_to_alpha [of 3 "\<lambda>n a. [3, 4, 2]" 10] by simp

text \<open>The split with a minimum. When the amount covers the minimum of every agent and the rounded
  shares of the rest exceed it by no more than the first share, every agent gets at least the
  minimum and the amounts add up exactly, as integers, without wrap-around.\<close>

theorem dirichlet_min_exact:
  assumes "1 < n" and "length (sample n (alpha - of_nat n * m)) = n"
    and "n * unat m \<le> unat alpha"
    and "sum_list (map unat (sample n (alpha - of_nat n * m))) \<le>
      unat alpha - n * unat m + unat (sample n (alpha - of_nat n * m) ! 0)"
    and "n * unat m + sum_list (map unat (sample n (alpha - of_nat n * m))) < 2 ^ 64"
  shows "\<exists>amounts. get_dirichlet_distributed_with_min_amount sample alpha n m = Ok amounts \<and>
    length amounts = n \<and> list_all (\<lambda>x. m \<le> x) amounts \<and> sum_list (map unat amounts) = unat alpha"
proof -
  let ?s = "sample n (alpha - of_nat n * m)"
  obtain s0 ss where s: "?s = s0 # ss" using assms(1,2) by (cases ?s) auto
  have n: "n = length (s0 # ss)" using assms(2) s by simp
  have fit: "length (s0 # ss) * unat m + sum_list (map unat (s0 # ss)) < 2 ^ 64"
    using assms(5) unfolding s unfolding n .
  have "sum_list (map unat (s0 # ss)) \<le> unat alpha - length (s0 # ss) * unat m + unat s0"
    using assms(4) unfolding s unfolding n by simp
  moreover have "length (s0 # ss) * unat m \<le> unat alpha" using assms(3) unfolding n .
  ultimately have room: "sum_list (map unat ss) + length ss * unat m + unat m \<le> unat alpha" by simp
  define f where "f = s0 + m + (alpha - sum_list (map (\<lambda>x. x + m) (s0 # ss)))"
  note uf = corrected_first [OF fit room, folded f_def]
  have fit': "length ss * unat m + sum_list (map unat ss) < 2 ^ 64" using fit by simp
  let ?r = "f # map (\<lambda>x. x + m) ss"
  have "unat (of_nat n * m) = n * unat m"
    using assms(3) unsigned_less [of alpha, where 'a = nat] unat_of_nat [of "n * unat m", where 'a = 64]
    by (simp del: unsigned_less)
  then have "\<not> alpha < of_nat n * m" using assms(3) by (simp add: word_less_nat_alt)
  then have "get_dirichlet_distributed_with_min_amount sample alpha n m = Ok ?r"
    using assms(1) s by (simp add: get_dirichlet_distributed_with_min_amount_def Let_def adjust_first_eq f_def)
  moreover have "list_all (\<lambda>x. unat m \<le> x) (map unat ?r)"
    using room uf by (simp add: unat_add_min(1) [OF fit', simplified] list_all_iff del: list.pred_map)
  then have "list_all (\<lambda>x. m \<le> x) ?r" by (simp add: list_all_iff word_le_nat_alt)
  moreover have "sum_list (map unat ?r) = unat alpha"
    unfolding list.map(2) [of unat f] sum_list.Cons unat_add_min(1) [OF fit'] uf
    using room by (simp add: sum_list_addf sum_list_triv)
  ultimately show ?thesis using n by auto
qed

theorem dirichlet_min_exact_witness:
  "\<exists>amounts. get_dirichlet_distributed_with_min_amount (\<lambda>n a. [3, 5]) 17 2 5 = Ok amounts \<and>
    length amounts = 2 \<and> list_all (\<lambda>x. 5 \<le> x) amounts \<and> sum_list (map unat amounts) = 17"
  using dirichlet_min_exact [of 2 "\<lambda>n a. [3, 5]" 17 5] by simp

end
