(* ===== verification/Decimals.thy ===== *)
theory Decimals
  imports Farm_Math F64
begin

text \<open>
  The floating point routines: \<open>get_fee_parts\<close>, \<open>checked_powf\<close> and \<open>checked_powi\<close> of
  \<open>crates/solana_farm_sdk/src/math.rs\<close>, and the conversions between token amounts and the amounts shown to
  users of \<open>src/utils/decimals.rs\<close>. \<open>f64::powf\<close> and \<open>f64::powi\<close>, whose precision the language leaves
  open, are arguments. The loop of \<open>get_fee_parts\<close> is a recursive function with a termination proof.
\<close>

section \<open>Fees as fractions\<close>

definition is_finite :: "f64 \<Rightarrow> bool" where
  "is_finite x = (case f64_decode x of Num _ _ _ \<Rightarrow> True | _ \<Rightarrow> False)"

definition checked_powf :: "(f64 \<Rightarrow> f64 \<Rightarrow> f64) \<Rightarrow> f64 \<Rightarrow> f64 \<Rightarrow> f64 result" where
  "checked_powf powf_fn arg expo =
     (let res = powf_fn arg expo in if is_finite res then Ok res else Err (farm_error MathOverflow))"

definition checked_powi :: "(f64 \<Rightarrow> 32 word \<Rightarrow> f64) \<Rightarrow> f64 \<Rightarrow> 32 word \<Rightarrow> f64 result" where
  "checked_powi powi_fn arg expo =
     (let res = if 0 <s expo then powi_fn arg expo else f64_div (f64_of_nat 1) (powi_fn arg (- expo))
      in if is_finite res then Ok res else Err (farm_error MathOverflow))"

text \<open>The loop that moves decimal digits of the fee into the numerator; \<open>i\<close> is an \<open>i32\<close> that stays below 7.\<close>

definition is_whole :: "f64 \<Rightarrow> bool" where
  "is_whole x = f64_eq x (f64_of_nat (unat (f64_as_u64 x)))"

function get_fee_loop :: "f64 \<Rightarrow> u64 \<Rightarrow> nat \<Rightarrow> f64 \<times> u64" where
  "get_fee_loop numerator denominator i =
     (if \<not> is_whole numerator \<and> i < 6
      then get_fee_loop (f64_mul numerator (f64_of_nat 10)) (denominator * 10) (i + 1)
      else (numerator, denominator))"
  by pat_completeness auto

termination get_fee_loop
  by (relation "measure (\<lambda>(_, _, i). 6 - i)") auto

declare get_fee_loop.simps [simp del]

definition get_fee_parts :: "f64 \<Rightarrow> u64 \<times> u64" where
  "get_fee_parts fee =
     (if f64_le fee (f64_of_nat 0) \<or> f64_gt fee (f64_of_nat 1) then (0, 1)
      else
        (let (numerator, denominator) = get_fee_loop fee 1 0
         in if f64_as_u64 numerator = denominator then (1, 1)
            else (f64_as_u64 numerator, denominator)))"

section \<open>Amounts and decimals\<close>

definition tokens_to_ui_amount_with_decimals_f64 ::
  "(u64 \<Rightarrow> nat \<Rightarrow> u64 option) \<Rightarrow> u64 \<Rightarrow> u8 \<Rightarrow> f64 result" where
  "tokens_to_ui_amount_with_decimals_f64 num_checked_pow amount decimals =
     (if amount = 0 then Ok (f64_of_nat 0)
      else
        (case checked_pow num_checked_pow 10 (unat decimals) of
           Ok divisor \<Rightarrow> Ok (f64_div (f64_of_nat (unat amount)) (f64_of_nat (unat divisor)))
         | _ \<Rightarrow> Panic))"

definition ui_amount_with_decimals_to_tokens ::
  "(u64 \<Rightarrow> nat \<Rightarrow> u64 option) \<Rightarrow> f64 \<Rightarrow> u8 \<Rightarrow> u64 result" where
  "ui_amount_with_decimals_to_tokens num_checked_pow amount decimals =
     (if f64_eq amount (f64_of_nat 0) then Ok 0
      else
        (case checked_pow num_checked_pow 10 (unat decimals) of
           Ok multiplier \<Rightarrow> Ok (f64_as_u64 (f64_mul amount (f64_of_nat (unat multiplier))))
         | _ \<Rightarrow> Panic))"

definition lamports_to_sol :: "u64 \<Rightarrow> f64" where
  "lamports_to_sol lamports = f64_div (f64_of_nat (unat lamports)) (f64_of_nat 1000000000)"

definition sol_to_lamports :: "f64 \<Rightarrow> u64" where
  "sol_to_lamports sol = f64_as_u64 (f64_mul sol (f64_of_nat 1000000000))"

lemma sol_to_lamports_0 [simp]: "sol_to_lamports 0 = 0"
  by (simp add: sol_to_lamports_def f64_eval)

end
