(* ===== verification/Volume_Strategy.thy ===== *)
theory Volume_Strategy
  imports Volume_Agent Tranche_Amounts Decimals
begin

text \<open>
  The volume strategy (\<open>strategies/volume_strategy/strategy_state_machine.rs\<close> and \<open>strategy.rs\<close>): a
  machine over the agents of \<open>Volume_Agent\<close>. Agents are shared (\<open>Arc<Mutex<..>>\<close>) between the
  strategy and the tasks that forward events to them, so they live in a store of cells and are
  named by references; a task keeps its references when the strategy forgets an agent. The spawned
  tasks are explicit: dispatching an event adds one, and delivering it to the next agent is a step
  of its own, so every interleaving of deliveries with further events is covered. Inside an entry
  action the agents are visited in the order of the list; the source joins these futures, and each
  only touches its own agent and appends to the shared queue. The environment of an action gives
  the \<open>i\<close>-th agent call its own readings; fresh keys come from it too.
\<close>

section \<open>State\<close>

record VolumeStrategyInstance =
  vi_id :: int
  vi_user_id :: int
  vi_target_pool :: pubkey
  vi_started_at :: datetime
  vi_completed_at :: "datetime option"
  vi_tranche_size_sol :: f64
  vi_tranche_frequency_hbs :: int
  vi_tranche_length_hbs :: int
  vi_agents_buying_in_tranche :: int
  vi_agents_selling_in_tranche :: int
  vi_agents_keep_tokens_lamports :: int

datatype ExecutionStatus = ExecIdle | ExecError | ExecDone | ExecPending

datatype Phase =
    Sweeping
  | Offloading_inventory
  | Fund
  | Buying_tokens
  | Collecting_tokens
  | Transferring_token_to_sellers
  | Selling_tokens
  | Collecting_sol
  | Sleeping
  | Strategy_idle
  | Strategy_error string

record Strategy =
  vs_instance :: VolumeStrategyInstance
  vs_pool :: RaydiumPool
  vs_main_wallet :: nat
  vs_agents :: "nat list"
  vs_stopwatch :: Stopwatch
  vs_cells :: "nat \<Rightarrow> State \<times> AgentState"
  vs_next :: nat
  vs_tasks :: "(SolanaStrategyEvent \<times> nat list) list"
  vs_world :: World

text \<open>\<open>se_env\<close> is the environment of the \<open>i\<close>-th agent call of an action, \<open>se_main_env\<close> of the \<open>i\<close>-th
  call of the main wallet, \<open>se_key\<close> the \<open>i\<close>-th fresh key pair, \<open>se_traders_load\<close> whether the traders
  query succeeds, \<open>se_sample\<close> the Dirichlet draw.\<close>

record SEnv =
  se_env :: "nat \<Rightarrow> Env"
  se_main_env :: "nat \<Rightarrow> Env"
  se_key :: "nat \<Rightarrow> keypair"
  se_now :: instant
  se_utc :: datetime
  se_db_connects :: bool
  se_traders_load :: bool
  se_notifies :: bool
  se_sample :: "usize \<Rightarrow> u64 \<Rightarrow> u64 list"

type_synonym agent_driver =
  "(SolanaStrategyEvent, State, AgentState \<times> World) machine \<Rightarrow> SolanaStrategyEvent \<Rightarrow> State
     \<Rightarrow> AgentState \<times> World \<Rightarrow> (State \<times> AgentState \<times> World) option"

definition as_u64 :: "int \<Rightarrow> u64" where
  "as_u64 i = word_of_int i"

definition as_usize :: "int \<Rightarrow> usize" where
  "as_usize i = nat (i mod 2 ^ 64)"

section \<open>Agents in the store\<close>

definition cell_state :: "Strategy \<Rightarrow> nat \<Rightarrow> State" where
  "cell_state self r = fst (vs_cells self r)"

definition cell_agent :: "Strategy \<Rightarrow> nat \<Rightarrow> AgentState" where
  "cell_agent self r = snd (vs_cells self r)"

definition main_state :: "Strategy \<Rightarrow> State" where
  "main_state self = cell_state self (vs_main_wallet self)"

definition main_key :: "Strategy \<Rightarrow> keypair" where
  "main_key self = ag_agent_key (cell_agent self (vs_main_wallet self))"

definition agent_handle ::
  "agent_driver \<Rightarrow> Env \<Rightarrow> nat \<Rightarrow> SolanaStrategyEvent \<Rightarrow> Strategy \<Rightarrow> Strategy option" where
  "agent_handle handle env r event self =
     (case handle (agent_machine env) event (cell_state self r) (cell_agent self r, vs_world self) of
        None \<Rightarrow> None
      | Some (st, ag, w) \<Rightarrow>
          Some (self\<lparr> vs_cells := (vs_cells self)(r := (st, ag)), vs_world := w \<rparr>))"

definition add_agent :: "AgentState \<Rightarrow> Strategy \<Rightarrow> Strategy" where
  "add_agent ag self =
     self\<lparr> vs_cells := (vs_cells self)(vs_next self := (Idle, ag)),
           vs_agents := vs_agents self @ [vs_next self], vs_next := vs_next self + 1 \<rparr>"

fun for_agents ::
  "(nat \<Rightarrow> nat \<Rightarrow> Strategy \<Rightarrow> Strategy option) \<Rightarrow> nat \<Rightarrow> nat list \<Rightarrow> Strategy \<Rightarrow> Strategy option" where
  "for_agents f i [] self = Some self"
| "for_agents f i (r # rs) self = Option.bind (f i r self) (for_agents f (i + 1) rs)"

definition cell_token_balance :: "Env \<Rightarrow> nat \<Rightarrow> Strategy \<Rightarrow> u64 \<times> Strategy" where
  "cell_token_balance env r self =
     (case agent_get_token_balance env (cell_agent self r) (vs_world self) of
        (b, w) \<Rightarrow> (b, self\<lparr> vs_world := w \<rparr>))"

definition cell_sol_balance :: "Env \<Rightarrow> nat \<Rightarrow> Strategy \<Rightarrow> u64 \<times> Strategy" where
  "cell_sol_balance env r self =
     (case agent_get_sol_balance env (cell_agent self r) (vs_world self) of
        (b, w) \<Rightarrow> (b, self\<lparr> vs_world := w \<rparr>))"

section \<open>Execution status\<close>

fun status_loop :: "Strategy \<Rightarrow> nat list \<Rightarrow> nat \<Rightarrow> nat \<Rightarrow> ExecutionStatus" where
  "status_loop self [] agents_with_error agents_with_success =
     (if agents_with_success = length (vs_agents self) then ExecDone else ExecError)"
| "status_loop self (r # rs) agents_with_error agents_with_success =
     (case cell_state self r of
        Success \<Rightarrow> status_loop self rs agents_with_error (agents_with_success + 1)
      | Error _ \<Rightarrow> status_loop self rs (agents_with_error + 1) agents_with_success
      | Deactivating _ \<Rightarrow> status_loop self rs (agents_with_error + 1) agents_with_success
      | Deactivated \<Rightarrow> status_loop self rs (agents_with_error + 1) agents_with_success
      | _ \<Rightarrow> ExecPending)"

definition get_execution_status :: "Strategy \<Rightarrow> ExecutionStatus" where
  "get_execution_status self =
     (if vs_agents self = [] then ExecError else status_loop self (vs_agents self) 0 0)"

section \<open>Entry and exit actions\<close>

text \<open>\<open>collect_everything_from_staled_agents\<close>: one agent for every stored trader other than the main
  wallet that still holds something. \<open>k\<close> counts the traders.\<close>

definition trader_agent ::
  "SEnv \<Rightarrow> keypair \<Rightarrow> nat \<Rightarrow> Trader \<Rightarrow> Strategy \<Rightarrow> AgentState option \<times> Strategy" where
  "trader_agent senv main_wallet k trader self =
     (let env = se_env senv k;
          (sol_res, ctx1) = get_balance (env_ext env) (tr_wallet trader) (w_context (vs_world self));
          (token_res, ctx2) = get_token_balance (env_ext env) (tr_wallet trader)
             (rp_base_mint (vs_pool self)) ctx1;
          self2 = self\<lparr> vs_world := (vs_world self)\<lparr> w_context := ctx2 \<rparr> \<rparr>
      in case sol_res of
           Inl _ \<Rightarrow> (None, self2)
         | Inr trader_sol_balance \<Rightarrow>
             (if trader_sol_balance < NEW_ACCOUNT_THRESHOLD_SOL \<and>
                 unwrap_or_0 token_res < as_u64 (vi_agents_keep_tokens_lamports (vs_instance self))
              then (None, self2)
              else
                (case new_from_trader env (vs_pool self) trader (Some main_wallet) (vs_world self2) of
                   (agent, w) \<Rightarrow> (agent, self2\<lparr> vs_world := w \<rparr>))))"

fun load_agents :: "SEnv \<Rightarrow> keypair \<Rightarrow> nat \<Rightarrow> Trader list \<Rightarrow> Strategy \<Rightarrow> Strategy" where
  "load_agents senv main_wallet k [] self = self"
| "load_agents senv main_wallet k (t # ts) self =
     (case trader_agent senv main_wallet k t self of
        (None, self1) \<Rightarrow> load_agents senv main_wallet (k + 1) ts self1
      | (Some agent, self1) \<Rightarrow> load_agents senv main_wallet (k + 1) ts (add_agent agent self1))"

definition collect_everything_from_staled_agents ::
  "agent_driver \<Rightarrow> SEnv \<Rightarrow> Strategy \<Rightarrow> Strategy option" where
  "collect_everything_from_staled_agents handle senv self =
     (if \<not> se_db_connects senv then None
      else
        (let main_wallet = main_key self;
             self1 = (if se_traders_load senv then
                        load_agents senv main_wallet 0
                          (filter (\<lambda>t. tr_wallet t \<noteq> main_wallet) (w_traders (vs_world self)))
                          (self\<lparr> vs_agents := [] \<rparr>)
                      else self)
         in for_agents (\<lambda>i r. agent_handle handle (se_env senv i) r (ForAgent Collect)) 0
              (vs_agents self1) self1))"

fun stop_monitoring_agents :: "SEnv \<Rightarrow> nat \<Rightarrow> nat list \<Rightarrow> Strategy \<Rightarrow> Strategy" where
  "stop_monitoring_agents senv i [] self = self"
| "stop_monitoring_agents senv i (r # rs) self =
     (let agent_pubkey = ag_agent_key (cell_agent self r);
          ctx = stop_monitoring_account agent_pubkey (w_context (vs_world self));
          ctx' = stop_monitoring_token_account (env_ext (se_env senv i)) agent_pubkey
             (rp_base_mint (vs_pool self)) ctx
      in stop_monitoring_agents senv (i + 1) rs
           (self\<lparr> vs_world := (vs_world self)\<lparr> w_context := ctx' \<rparr> \<rparr>))"

definition zero_agents :: "SEnv \<Rightarrow> Strategy \<Rightarrow> Strategy" where
  "zero_agents senv self =
     (stop_monitoring_agents senv 0 (vs_agents self) self)\<lparr> vs_agents := [] \<rparr>"

definition offload_inventory :: "agent_driver \<Rightarrow> SEnv \<Rightarrow> Strategy \<Rightarrow> Strategy option" where
  "offload_inventory handle senv self =
     (let env = se_main_env senv 0;
          (token_balance, self1) = cell_token_balance env (vs_main_wallet self) self;
          (sol_balance, self2) = cell_sol_balance env (vs_main_wallet self) self1
      in if token_balance > 0 \<and> sol_balance \<ge> BASE_TX_FEE_SOL + TRANSFER_PRIORITY_FEE_SOL
         then agent_handle handle env (vs_main_wallet self) (ForAgent (Sell Amount_Max)) self2
         else Some self2)"

text \<open>\<open>slice::chunks\<close>.\<close>

function chunks :: "nat \<Rightarrow> 'a list \<Rightarrow> 'a list list" where
  "chunks n xs = (if n = 0 \<or> xs = [] then [] else take n xs # chunks n (drop n xs))"
  by pat_completeness auto
termination by (relation "measure (\<lambda>(n, xs). length xs)") auto

declare chunks.simps [simp del]

fun send_batches ::
  "agent_driver \<Rightarrow> SEnv \<Rightarrow> nat \<Rightarrow> TransferPayload list list \<Rightarrow> Strategy \<Rightarrow> Strategy option" where
  "send_batches handle senv i [] self = Some self"
| "send_batches handle senv i (batch # batches) self =
     Option.bind (agent_handle handle (se_main_env senv i) (vs_main_wallet self)
         (ForAgent (Transfer batch)) self)
       (send_batches handle senv (i + 1) batches)"

definition funding_minimum :: "VolumeStrategyInstance \<Rightarrow> u64" where
  "funding_minimum instance =
     (if vi_agents_keep_tokens_lamports instance = 0
      then NEW_ACCOUNT_THRESHOLD_SOL + 3 * (BASE_TX_FEE_SOL + TRANSFER_PRIORITY_FEE_SOL)
      else BASE_TX_FEE_SOL + TRANSFER_PRIORITY_FEE_SOL + BASE_TX_FEE_SOL + TRANSFER_PRIORITY_FEE_SOL +
           RENT_EXEMPTION_THRESHOLD_SOL + TRANSFER_PRIORITY_FEE_SOL + BASE_TX_FEE_SOL)"

definition new_strategy_agent :: "SEnv \<Rightarrow> nat \<Rightarrow> Strategy \<Rightarrow> AgentState option \<times> Strategy" where
  "new_strategy_agent senv i self =
     (case AgentState_new (se_env senv i) (vs_pool self) (se_key senv i)
             (Some (vi_id (vs_instance self))) (Some (main_key self)) (vs_world self) of
        (agent, w) \<Rightarrow> (agent, self\<lparr> vs_world := w \<rparr>))"

fun create_funded_agents ::
  "SEnv \<Rightarrow> nat \<Rightarrow> u64 list \<Rightarrow> Strategy \<Rightarrow> TransferPayload list \<times> Strategy" where
  "create_funded_agents senv i [] self = ([], self)"
| "create_funded_agents senv i (amount # amounts) self =
     (case new_strategy_agent senv i self of
        (None, self1) \<Rightarrow> create_funded_agents senv (i + 1) amounts self1
      | (Some agent, self1) \<Rightarrow>
          (case create_funded_agents senv (i + 1) amounts (add_agent agent self1) of
             (transfers, self2) \<Rightarrow>
               (\<lparr> tp_asset = Sol, tp_receiver = agent_pubkey agent, tp_amount = ExactWithFees amount \<rparr>
                  # transfers, self2)))"

definition initialize_agents_with_sol :: "agent_driver \<Rightarrow> SEnv \<Rightarrow> Strategy \<Rightarrow> Strategy option" where
  "initialize_agents_with_sol handle senv self =
     (let instance = vs_instance self
      in case get_dirichlet_distributed_with_min_amount (se_sample senv)
                (sol_to_lamports (vi_tranche_size_sol instance))
                (as_usize (vi_agents_buying_in_tranche instance)) (funding_minimum instance) of
           Ok amounts \<Rightarrow>
             (case create_funded_agents senv 0 amounts self of
                (transfer_vec, self1) \<Rightarrow>
                  send_batches handle senv 0 (chunks MAX_TRANSFERS_IN_ONE_TX transfer_vec) self1)
         | _ \<Rightarrow> None)"

definition strategy_buy :: "agent_driver \<Rightarrow> SEnv \<Rightarrow> Strategy \<Rightarrow> Strategy option" where
  "strategy_buy handle senv self =
     for_agents (\<lambda>i r. agent_handle handle (se_env senv i) r (ForAgent (Buy MaxButLeaveForTransfer))) 0
       (vs_agents self) self"

definition collect_token_from_agents :: "agent_driver \<Rightarrow> SEnv \<Rightarrow> Strategy \<Rightarrow> Strategy option" where
  "collect_token_from_agents handle senv self =
     (let tokens_to_keep = as_u64 (vi_agents_keep_tokens_lamports (vs_instance self));
          minimum_sol = (if tokens_to_keep = 0 then BASE_TX_FEE_SOL + TRANSFER_PRIORITY_FEE_SOL
                         else RENT_EXEMPTION_THRESHOLD_SOL + BASE_TX_FEE_SOL + TRANSFER_PRIORITY_FEE_SOL);
          main_wallet_pubkey = main_key self
      in for_agents (\<lambda>i r s.
           (let env = se_env senv i;
                (agent_token_balance, s1) = cell_token_balance env r s;
                (sol_balance, s2) = cell_sol_balance env r s1
            in if agent_token_balance > tokens_to_keep \<and> sol_balance \<ge> minimum_sol then
                 (if tokens_to_keep = 0 then agent_handle handle env r (ForAgent Collect) s2
                  else agent_handle handle env r (ForAgent (Transfer
                    [\<lparr> tp_asset = Token (get_token_mint (cell_agent s2 r)), tp_receiver = main_wallet_pubkey,
                       tp_amount = Exact (agent_token_balance - tokens_to_keep) \<rparr>])) s2)
               else Some s2)) 0 (vs_agents self) self)"

fun create_agents_loop :: "SEnv \<Rightarrow> nat \<Rightarrow> nat \<Rightarrow> Strategy \<Rightarrow> Strategy" where
  "create_agents_loop senv i 0 self = self"
| "create_agents_loop senv i (Suc n) self =
     (case new_strategy_agent senv i self of
        (None, self1) \<Rightarrow> create_agents_loop senv (i + 1) n self1
      | (Some agent, self1) \<Rightarrow> create_agents_loop senv (i + 1) n (add_agent agent self1))"

definition create_agents :: "SEnv \<Rightarrow> int \<Rightarrow> Strategy \<Rightarrow> Strategy" where
  "create_agents senv number_of_agents self =
     create_agents_loop senv 0 (nat number_of_agents) (self\<lparr> vs_agents := [] \<rparr>)"

text \<open>\<open>self.agents[i]\<close> panics when fewer agents than amounts were created.\<close>

fun seller_transfers :: "Strategy \<Rightarrow> nat \<Rightarrow> u64 list \<Rightarrow> TransferPayload list option" where
  "seller_transfers self i [] = Some []"
| "seller_transfers self i (amount # amounts) =
     (if i < length (vs_agents self) then
        (let r = vs_agents self ! i;
             pair = (case cell_state self r of
                       Error _ \<Rightarrow> []
                     | Deactivated \<Rightarrow> []
                     | _ \<Rightarrow>
                         [\<lparr> tp_asset = Sol, tp_receiver = agent_pubkey (cell_agent self r),
                            tp_amount = Exact (BASE_TX_FEE_SOL + TRANSFER_PRIORITY_FEE_SOL +
                              RENT_EXEMPTION_THRESHOLD_SOL) \<rparr>,
                          \<lparr> tp_asset = Token (rp_base_mint (vs_pool self)),
                            tp_receiver = agent_pubkey (cell_agent self r),
                            tp_amount = Exact amount \<rparr>])
         in map_option (\<lambda>rest. pair @ rest) (seller_transfers self (i + 1) amounts))
      else None)"

definition transfer_token_to_sellers :: "agent_driver \<Rightarrow> SEnv \<Rightarrow> Strategy \<Rightarrow> Strategy option" where
  "transfer_token_to_sellers handle senv self =
     (let (token_balance, self1) = cell_token_balance (se_main_env senv 0) (vs_main_wallet self) self;
          selling = vi_agents_selling_in_tranche (vs_instance self);
          self2 = create_agents senv selling self1
      in case get_dirichlet_distributed_amount (se_sample senv) token_balance (as_usize selling) of
           Ok amounts_vector \<Rightarrow>
             Option.bind (seller_transfers self2 0 amounts_vector) (\<lambda>transfer_vec.
               send_batches handle senv 0 (chunks MAX_TRANSFERS_IN_ONE_TX transfer_vec) self2)
         | _ \<Rightarrow> None)"

definition strategy_sell :: "agent_driver \<Rightarrow> SEnv \<Rightarrow> Strategy \<Rightarrow> Strategy option" where
  "strategy_sell handle senv self =
     for_agents (\<lambda>i r s.
       (let env = se_env senv i in
        if vi_agents_keep_tokens_lamports (vs_instance self) = 0 then
          (let (token_balance, s1) = cell_token_balance env r s
           in if token_balance > 0 then agent_handle handle env r (ForAgent Collect) s1 else Some s1)
        else
          (let (token_balance, s1) = cell_token_balance env r s;
               (sol_balance, s2) = cell_sol_balance env r s1
           in if sol_balance \<ge> BASE_TX_FEE_SOL + TRANSFER_PRIORITY_FEE_SOL then
                agent_handle handle env r (ForAgent (Sell (Exact
                  (token_balance - as_u64 (vi_agents_keep_tokens_lamports (vs_instance self)))))) s2
              else Some s2))) 0 (vs_agents self) self"

definition collect_sol_from_agents :: "agent_driver \<Rightarrow> SEnv \<Rightarrow> Strategy \<Rightarrow> Strategy option" where
  "collect_sol_from_agents handle senv self =
     for_agents (\<lambda>i r. agent_handle handle (se_env senv i) r (ForAgent Collect)) 0 (vs_agents self) self"

definition set_sleep_timer_before_selling :: "SEnv \<Rightarrow> Strategy \<Rightarrow> Strategy" where
  "set_sleep_timer_before_selling senv self =
     self\<lparr> vs_stopwatch := Stopwatch_start (se_now senv)
             (as_u64 (vi_tranche_frequency_hbs (vs_instance self))) (vs_stopwatch self) \<rparr>"

text \<open>\<open>self.drop();\<close> only builds a future, which is never awaited: it has no effect. The user query
  and the message to the user panic when they fail.\<close>

definition cleanup :: "SEnv \<Rightarrow> Strategy \<Rightarrow> Strategy option" where
  "cleanup senv self =
     (if se_db_connects senv \<and> se_notifies senv then
        Some (self\<lparr> vs_instance := (vs_instance self)\<lparr> vi_completed_at := Some (se_utc senv) \<rparr> \<rparr>)
      else None)"

text \<open>The method \<open>drop\<close>, when awaited.\<close>

definition strategy_drop :: "agent_driver \<Rightarrow> SEnv \<Rightarrow> Strategy \<Rightarrow> Strategy option" where
  "strategy_drop handle senv self =
     map_option (\<lambda>s. s\<lparr> vs_agents := [] \<rparr>)
       (for_agents (\<lambda>i r. agent_handle handle (se_env senv i) r (ForAgent Deactivate)) 0
         (vs_agents self) self)"

section \<open>The state machine\<close>

text \<open>\<open>on_dispatch\<close>: the task that will forward the event to the main wallet and to the agents of the
  moment.\<close>

definition strategy_on_dispatch :: "SolanaStrategyEvent \<Rightarrow> Strategy \<Rightarrow> Strategy" where
  "strategy_on_dispatch event self =
     self\<lparr> vs_tasks := vs_tasks self @ [(event, vs_main_wallet self # vs_agents self)] \<rparr>"

definition sleeping :: "SEnv \<Rightarrow> SolanaStrategyEvent \<Rightarrow> Strategy \<Rightarrow> (Phase Response \<times> Strategy) option" where
  "sleeping senv event self =
     (case event of
        Original (HeartBeat tick_ms _) \<Rightarrow>
          (case is_time_elapsed (se_now senv) tick_ms (vs_stopwatch self) of
             Ok True \<Rightarrow>
               Some (Transition Fund, self\<lparr> vs_stopwatch := turn_off (vs_stopwatch self) \<rparr>)
           | Ok False \<Rightarrow> Some (Super, self)
           | _ \<Rightarrow> None)
      | _ \<Rightarrow> Some (Super, self))"

text \<open>The functions marked \<open>#[state]\<close>, which only look at the agents.\<close>

definition sweeping :: "Strategy \<Rightarrow> Phase Response" where
  "sweeping self =
     (case get_execution_status self of
        ExecDone \<Rightarrow> Transition Offloading_inventory
      | ExecError \<Rightarrow> Transition Offloading_inventory
      | _ \<Rightarrow> Super)"

definition offloading_inventory :: "Strategy \<Rightarrow> Phase Response" where
  "offloading_inventory self =
     (case main_state self of
        Success \<Rightarrow> Transition Fund
      | Error _ \<Rightarrow> Transition Fund
      | Deactivated \<Rightarrow> Transition Fund
      | Idle \<Rightarrow> Transition Fund
      | _ \<Rightarrow> Super)"

definition fund :: "Strategy \<Rightarrow> Phase Response" where
  "fund self =
     (case main_state self of
        Success \<Rightarrow> Transition Buying_tokens
      | Error _ \<Rightarrow> Transition Sweeping
      | _ \<Rightarrow> Super)"

definition buying :: "Strategy \<Rightarrow> Phase Response" where
  "buying self =
     (case get_execution_status self of
        ExecDone \<Rightarrow> Transition Collecting_tokens
      | ExecError \<Rightarrow> Transition Sweeping
      | ExecIdle \<Rightarrow> Transition Sweeping
      | _ \<Rightarrow> Super)"

definition collecting_tokens :: "Strategy \<Rightarrow> Phase Response" where
  "collecting_tokens self =
     (case get_execution_status self of
        ExecDone \<Rightarrow> Transition Transferring_token_to_sellers
      | ExecError \<Rightarrow> Transition Sweeping
      | _ \<Rightarrow> Super)"

definition transferring_token_to_sellers :: "Strategy \<Rightarrow> Phase Response" where
  "transferring_token_to_sellers self =
     (case main_state self of
        Success \<Rightarrow> Transition Selling_tokens
      | Idle \<Rightarrow> Transition Selling_tokens
      | Error _ \<Rightarrow> Transition Offloading_inventory
      | Deactivated \<Rightarrow> Transition Offloading_inventory
      | _ \<Rightarrow> Super)"

definition selling :: "Strategy \<Rightarrow> Phase Response" where
  "selling self =
     (case get_execution_status self of
        ExecDone \<Rightarrow> Transition Collecting_sol
      | ExecError \<Rightarrow> Transition Sweeping
      | _ \<Rightarrow> Super)"

definition collecting_sol :: "Strategy \<Rightarrow> Phase Response" where
  "collecting_sol self =
     (case get_execution_status self of
        ExecDone \<Rightarrow> Transition Sleeping
      | ExecError \<Rightarrow> Transition Sweeping
      | _ \<Rightarrow> Super)"

definition phase_response :: "Phase \<Rightarrow> Strategy \<Rightarrow> Phase Response" where
  "phase_response phase self =
     (case phase of
        Sweeping \<Rightarrow> sweeping self
      | Offloading_inventory \<Rightarrow> offloading_inventory self
      | Fund \<Rightarrow> fund self
      | Buying_tokens \<Rightarrow> buying self
      | Collecting_tokens \<Rightarrow> collecting_tokens self
      | Transferring_token_to_sellers \<Rightarrow> transferring_token_to_sellers self
      | Selling_tokens \<Rightarrow> selling self
      | Collecting_sol \<Rightarrow> collecting_sol self
      | _ \<Rightarrow> Handled)"

lemmas phase_defs = phase_response_def sweeping_def offloading_inventory_def fund_def buying_def
  collecting_tokens_def transferring_token_to_sellers_def selling_def collecting_sol_def

definition strategy_handler ::
  "SEnv \<Rightarrow> SolanaStrategyEvent \<Rightarrow> Phase \<Rightarrow> Strategy \<Rightarrow> (Phase Response \<times> Strategy) option" where
  "strategy_handler senv event phase self =
     (let self1 = strategy_on_dispatch event self
      in if phase = Sleeping then sleeping senv event self1
         else Some (phase_response phase self1, self1))"

definition strategy_entry ::
  "agent_driver \<Rightarrow> SEnv \<Rightarrow> Phase \<Rightarrow> Strategy \<Rightarrow> Strategy option" where
  "strategy_entry handle senv phase self =
     (case phase of
        Sweeping \<Rightarrow> collect_everything_from_staled_agents handle senv self
      | Offloading_inventory \<Rightarrow> offload_inventory handle senv self
      | Fund \<Rightarrow> initialize_agents_with_sol handle senv self
      | Buying_tokens \<Rightarrow> strategy_buy handle senv self
      | Collecting_tokens \<Rightarrow> collect_token_from_agents handle senv self
      | Transferring_token_to_sellers \<Rightarrow> transfer_token_to_sellers handle senv self
      | Selling_tokens \<Rightarrow> strategy_sell handle senv self
      | Collecting_sol \<Rightarrow> collect_sol_from_agents handle senv self
      | Sleeping \<Rightarrow> Some (set_sleep_timer_before_selling senv self)
      | Strategy_idle \<Rightarrow> Some self
      | Strategy_error msg \<Rightarrow> cleanup senv self)"

definition strategy_exit :: "SEnv \<Rightarrow> Phase \<Rightarrow> Strategy \<Rightarrow> Strategy" where
  "strategy_exit senv phase self =
     (if phase \<in> {Sweeping, Collecting_tokens, Collecting_sol} then zero_agents senv self else self)"

text \<open>The superstate \<open>running\<close> answers \<open>Handled\<close>.\<close>

definition strategy_machine ::
  "agent_driver \<Rightarrow> SEnv \<Rightarrow> (SolanaStrategyEvent, Phase, Strategy) machine" where
  "strategy_machine handle senv =
     \<lparr> on_event = strategy_handler senv, on_super = (\<lambda>event phase self. Some (Handled, self)),
       on_exit = (\<lambda>phase self. Some (strategy_exit senv phase self)),
       on_entry = strategy_entry handle senv \<rparr>"

type_synonym strategy_driver =
  "(SolanaStrategyEvent, Phase, Strategy) machine \<Rightarrow> SolanaStrategyEvent \<Rightarrow> Phase \<Rightarrow> Strategy
     \<Rightarrow> (Phase \<times> Strategy) option"

text \<open>\<open>VolumeStrategy::process_event\<close>: the filter on events, and the generated actions taken out of the
  queue.\<close>

definition process_event ::
  "strategy_driver \<Rightarrow> agent_driver \<Rightarrow> SEnv \<Rightarrow> BotEvent \<Rightarrow> Phase \<times> Strategy
     \<Rightarrow> (SolanaAction list \<times> Phase \<times> Strategy) option" where
  "process_event run_strategy handle senv event ps =
     Option.bind
       (case event of
          ResultEvent _ _ _ \<Rightarrow>
            run_strategy (strategy_machine handle senv) (Original event) (fst ps) (snd ps)
        | HeartBeat _ _ \<Rightarrow>
            run_strategy (strategy_machine handle senv) (Original event) (fst ps) (snd ps)
        | ChainEvent _ \<Rightarrow>
            run_strategy (strategy_machine handle senv) (Original event) (fst ps) (snd ps)
        | _ \<Rightarrow> Some ps)
       (\<lambda>(phase, self).
          Some (w_actions (vs_world self), phase,
                self\<lparr> vs_world := (vs_world self)\<lparr> w_actions := [] \<rparr> \<rparr>))"

text \<open>\<open>VolumeStrategyStateMachine::new\<close>, after the pool, the instance and the key of the user have been
  loaded: the main wallet is an agent without strategy and without main wallet.\<close>

definition strategy_new ::
  "SEnv \<Rightarrow> VolumeStrategyInstance \<Rightarrow> RaydiumPool \<Rightarrow> keypair \<Rightarrow> World \<Rightarrow> Strategy option" where
  "strategy_new senv instance pool user_key w =
     (case AgentState_new (se_main_env senv 0) pool user_key None None w of
        (None, w1) \<Rightarrow> None
      | (Some main_agent, w1) \<Rightarrow>
          Some \<lparr> vs_instance = instance, vs_pool = pool, vs_main_wallet = 0, vs_agents = [],
                 vs_stopwatch = Stopwatch_new (se_now senv) (as_u64 (vi_tranche_frequency_hbs instance)),
                 vs_cells = (\<lambda>_. (Idle, main_agent)), vs_next = 1, vs_tasks = [], vs_world = w1 \<rparr>)"

section \<open>All interleavings\<close>

text \<open>The strategy handles an event in one step, and each delivery of an event by a task is one step.
  A task whose delivery panics dies, that is, makes no further step. The key pairs that \<open>Keypair::new\<close>
  draws during a step are fresh: none is the key of the main wallet.\<close>

definition fresh_keys :: "SEnv \<Rightarrow> keypair \<Rightarrow> bool" where
  "fresh_keys senv main_wallet \<longleftrightarrow> (\<forall>i. se_key senv i \<noteq> main_wallet)"

inductive strategy_step ::
  "strategy_driver \<Rightarrow> agent_driver \<Rightarrow> Phase \<times> Strategy \<Rightarrow> Phase \<times> Strategy \<Rightarrow> bool"
  for run_strategy handle where
  event: "fresh_keys senv (main_key (snd ps)) \<Longrightarrow>
    process_event run_strategy handle senv ev ps = Some (actions, ps') \<Longrightarrow>
    strategy_step run_strategy handle ps ps'"
| deliver: "i < length (vs_tasks self) \<Longrightarrow> vs_tasks self ! i = (ev, r # rs) \<Longrightarrow>
    agent_handle handle env r ev self = Some self' \<Longrightarrow>
    strategy_step run_strategy handle (phase, self)
      (phase, self'\<lparr> vs_tasks := (vs_tasks self)[i := (ev, rs)] \<rparr>)"

inductive strategy_reach ::
  "strategy_driver \<Rightarrow> agent_driver \<Rightarrow> Phase \<times> Strategy \<Rightarrow> Phase \<times> Strategy \<Rightarrow> bool"
  for run_strategy handle where
  refl: "strategy_reach run_strategy handle ps ps"
| step: "strategy_reach run_strategy handle ps ps' \<Longrightarrow> strategy_step run_strategy handle ps' ps'' \<Longrightarrow>
    strategy_reach run_strategy handle ps ps''"

end
