(* ===== verification/Volume_Agent_Properties.thy ===== *)
theory Volume_Agent_Properties
  imports Volume_Agent
begin

text \<open>
  What the volume agent guarantees. The first two sections describe one step of the machine, the
  handler and the entry action apart; the third lifts them to runs from the initial state, over
  every sequence of events and every environment; the properties follow.
\<close>

section \<open>Handlers\<close>

fun working :: "State \<Rightarrow> bool" where
  "working (Transferring _ _) = True"
| "working (Collecting _) = True"
| "working (Buying _ _) = True"
| "working (Selling _ _) = True"
| "working (Deactivating _) = True"
| "working _ = False"

fun collects :: "State \<Rightarrow> bool" where
  "collects (Collecting _) = True"
| "collects (Deactivating _) = True"
| "collects _ = False"

fun retiring :: "State \<Rightarrow> bool" where
  "retiring (Deactivating _) = True"
| "retiring Deactivated = True"
| "retiring _ = False"

fun state_retry :: "State \<Rightarrow> int" where
  "state_retry (Transferring _ r) = r"
| "state_retry (Collecting r) = r"
| "state_retry (Buying _ r) = r"
| "state_retry (Selling _ r) = r"
| "state_retry (Deactivating r) = r"
| "state_retry _ = 0"

fun next_try :: "State \<Rightarrow> State" where
  "next_try (Transferring b r) = Transferring b (r + 1)"
| "next_try (Collecting r) = Collecting (r + 1)"
| "next_try (Buying a r) = Buying a (r + 1)"
| "next_try (Selling a r) = Selling a (r + 1)"
| "next_try (Deactivating r) = Deactivating (r + 1)"
| "next_try st = st"

text \<open>What no step of an agent changes.\<close>

definition same_agent :: "AgentState \<Rightarrow> AgentState \<Rightarrow> bool" where
  "same_agent a b \<longleftrightarrow> ag_pool a = ag_pool b \<and> ag_trader a = ag_trader b \<and>
     ag_agent_key a = ag_agent_key b \<and> ag_main_wallet a = ag_main_wallet b \<and>
     ag_strategy_id_opt a = ag_strategy_id_opt b"

lemma same_agent_refl [simp, intro]: "same_agent a a"
  by (simp add: same_agent_def)

lemma same_agent_trans [trans]: "same_agent a b \<Longrightarrow> same_agent b c \<Longrightarrow> same_agent a c"
  by (simp add: same_agent_def)

lemma same_agent_update [simp]:
  "same_agent a (b\<lparr> ag_actions_in_progress := us \<rparr>) = same_agent a b"
  "same_agent a (b\<lparr> ag_timeout_timer := sw \<rparr>) = same_agent a b"
  by (simp_all add: same_agent_def)

lemma receipt_agent:
  "process_execution_receipt rc a = (r, a1) \<Longrightarrow> same_agent a a1 \<and>
     ((\<exists>e. r = Inl e) \<or> ag_timeout_timer a1 = ag_timeout_timer a)"
  by (auto simp: process_execution_receipt_def Let_def split: if_splits option.splits)

lemma cooled_agent:
  "is_cooled_down_before_retry env t a = Some (b, a1) \<Longrightarrow> same_agent a a1 \<and>
     (b \<or> a1 = a)"
  by (auto simp: is_cooled_down_before_retry_def split: result.splits bool.splits)

lemmas event_splits = SolanaStrategyEvent.splits BotEvent.splits BlockchainEvent.splits
  AgentEvent.splits ExecutionResult.splits

text \<open>The targets of the common handler of the working states.\<close>

lemma common_handler:
  assumes "transition_to_success_or_error env ev retry_action n a = Some (r, a1)"
  shows "same_agent a a1 \<and>
    (case r of
       Transition t \<Rightarrow> t = Success \<or> (t = retry_action \<and> n \<le> RETRIES_IF_ERROR_OR_TIMEOUT) \<or>
         (\<exists>m. t = Error m) \<or> (t = Deactivating 0 \<and> get_main_wallet_pubkey a \<noteq> agent_pubkey a)
     | _ \<Rightarrow> ag_timeout_timer a1 = ag_timeout_timer a)"
  using assms
  by (auto simp: transition_to_success_or_error_def retry_or_def Let_def
      dest!: receipt_agent cooled_agent split: event_splits if_splits prod.splits sum.splits option.splits bool.splits)

lemma deactivating_handler:
  assumes "deactivating env n ev a = Some (r, a1)"
  shows "same_agent a a1 \<and>
    (case r of
       Transition t \<Rightarrow> t = Deactivated \<or> (t = Deactivating (n + 1) \<and> n \<le> RETRIES_IF_ERROR_OR_TIMEOUT) \<or>
         (\<exists>m. t = Error m)
     | _ \<Rightarrow> ag_timeout_timer a1 = ag_timeout_timer a)"
  using assms
  by (auto simp: deactivating_def retry_or_def Let_def
      dest!: receipt_agent cooled_agent split: event_splits if_splits prod.splits sum.splits option.splits bool.splits)

text \<open>The handler changes neither the world nor the identity of the agent, stops the timer only
  when it leaves the state, and raises the retry counter by at most one, never above three.\<close>

lemma handler_agent:
  assumes "agent_handler env ev st (a, w) = Some (r, (a1, w1))"
  shows "w1 = w" and "same_agent a a1"
    and "(\<forall>t. r \<noteq> Transition t) \<Longrightarrow> ag_timeout_timer a1 = ag_timeout_timer a"
proof -
  show "w1 = w" using assms by (auto simp: agent_handler_def)
  show "same_agent a a1"
    using assms by (cases st) (auto simp: agent_handler_def dest: common_handler deactivating_handler)
  assume "\<forall>t. r \<noteq> Transition t"
  then have "(case r of Transition t \<Rightarrow> P t | _ \<Rightarrow> Q) = Q" for P :: "State \<Rightarrow> bool" and Q by (cases r) auto
  then show "ag_timeout_timer a1 = ag_timeout_timer a"
    using assms by (cases st) (auto simp: agent_handler_def dest!: common_handler deactivating_handler)
qed

lemma handler_target:
  assumes "agent_handler env ev st (a, w) = Some (Transition t, aw)"
  shows "state_retry t = 0 \<or> (t = next_try st \<and> state_retry t = state_retry st + 1 \<and> state_retry st \<le> 2)"
    and "retiring t \<Longrightarrow> ag_strategy_id_opt a \<noteq> None \<or> get_main_wallet_pubkey a \<noteq> agent_pubkey a \<or>
      retiring st"
    and "st \<noteq> Deactivated"
  using assms
  by (cases st; force simp: agent_handler_def idle_def success_def agent_error_def is_main_wallet_def
      RETRIES_IF_ERROR_OR_TIMEOUT_def dest!: common_handler deactivating_handler
      split: event_splits if_splits)+

section \<open>Entry actions\<close>

lemma register_found [simp]:
  "get_action_by_uuid (snd (register_action x c)) (sa_uuid x) = Some x"
  by (simp add: register_action_def get_action_by_uuid_def cb_get_by_key_def cb_insert_def Let_def)

lemma queue_action_effect:
  assumes "queue_action env x (a, w) = (a1, w1)"
  shows "same_agent a a1" "w_actions w1 = w_actions w @ [x]" "w_traders w1 = w_traders w"
    "get_action_by_uuid (ctx_cache (w_context w1)) (sa_uuid x) = Some x"
    "sa_uuid x \<in> set (ag_actions_in_progress a1)"
    "sw_lap_ticks (ag_timeout_timer a1) = TIMEOUT_FOR_ACTION_EXECUTION_HBS"
    "sw_start (ag_timeout_timer a1) = env_entry_now env"
  using assms register_found [of x "ctx_cache (w_context w)"]
  by (auto simp: queue_action_def register_action_def same_agent_def)

definition sweep_all :: "AgentState \<Rightarrow> pubkey \<Rightarrow> u64 \<Rightarrow> SolanaActionPayload list" where
  "sweep_all a receiver balance = map SolanaTransferActionPayload
     ((if 0 < balance
       then [\<lparr> tp_asset = Token (rp_base_mint (ag_pool a)), tp_receiver = receiver, tp_amount = MaxAndClose \<rparr>] else [])
      @ [\<lparr> tp_asset = Sol, tp_receiver = receiver, tp_amount = Amount_Max \<rparr>])"

definition own_action :: "Env \<Rightarrow> World \<Rightarrow> State \<Rightarrow> AgentState \<Rightarrow> SolanaAction \<Rightarrow> bool" where
  "own_action env w t a x \<longleftrightarrow> sa_uuid x = env_uuid env \<and> sa_sniper x = ag_agent_key a \<and>
     sa_status x = NotSent \<and>
     (case t of
        Transferring batch _ \<Rightarrow> sa_action_payload x = map SolanaTransferActionPayload batch
      | Buying _ _ \<Rightarrow> sa_action_payload x = [SolanaSwapActionPayload
          (SwapPayload_new (ag_pool a) BuyTokensForExactSol MaxButLeaveForTransfer)]
      | Selling amt _ \<Rightarrow> sa_action_payload x = [SolanaSwapActionPayload
          (SwapPayload_new (ag_pool a) SellExactTokensForSol amt)]
      | _ \<Rightarrow> ag_main_wallet a = Some (sa_fee_payer x) \<and>
          sa_action_payload x = sweep_all a (sa_fee_payer x) (fst (agent_get_token_balance env a w)))"

lemma token_balance_world:
  "agent_get_token_balance env a w = (b, w1) \<Longrightarrow> w_actions w1 = w_actions w \<and> w_traders w1 = w_traders w"
  by (auto simp: agent_get_token_balance_def split: prod.splits)

lemma collect_queues:
  assumes "collect env (a, w) = Some (a1, w1)"
  obtains mw b w0 where "ag_main_wallet a = Some mw" and "agent_get_token_balance env a w = (b, w0)"
    and "queue_action env (new_with_feepayer (env_uuid env) (env_utc env) (ag_agent_key a) mw
      (collect_payloads (rp_base_mint (ag_pool a)) mw b)) (a, w0) = (a1, w1)"
  using assms by (auto simp: collect_def split: prod.splits option.splits)

lemma collect_own_action:
  assumes "collect env (a, w) = Some (a1, w1)" and "collects t"
  obtains x w0 where "own_action env w t a x" and "queue_action env x (a, w0) = (a1, w1)"
    and "w_actions w0 = w_actions w" and "w_traders w0 = w_traders w"
proof -
  from collect_queues [OF assms(1)] obtain mw b w0 where m: "ag_main_wallet a = Some mw"
    and b: "agent_get_token_balance env a w = (b, w0)"
    and q: "queue_action env (new_with_feepayer (env_uuid env) (env_utc env) (ag_agent_key a) mw
      (collect_payloads (rp_base_mint (ag_pool a)) mw b)) (a, w0) = (a1, w1)" .
  have "own_action env w t a (new_with_feepayer (env_uuid env) (env_utc env) (ag_agent_key a) mw
      (collect_payloads (rp_base_mint (ag_pool a)) mw b))"
    using m b assms(2) by (cases t) (auto simp: own_action_def new_with_feepayer_def collect_payloads_def sweep_all_def)
  then show thesis using that q token_balance_world [OF b] by blast
qed

lemma entry_queues:
  assumes "agent_entry env t (a, w) = Some (a1, w1)" and "working t"
  obtains x w0 where "own_action env w t a x" and "queue_action env x (a, w0) = (a1, w1)"
    and "w_actions w0 = w_actions w" and "w_traders w0 = w_traders w"
proof (cases "collects t")
  case True
  then have "collect env (a, w) = Some (a1, w1)" using assms(1) by (cases t) (auto simp: agent_entry_def)
  from collect_own_action [OF this True] that show thesis by blast
next
  case False
  have "\<exists>x. queue_action env x (a, w) = (a1, w1) \<and> own_action env w t a x"
    using assms False by (cases t) (auto simp: agent_entry_def transfer_def buy_for_all_def sell_def
      swap_action_def own_action_def new_with_feepayer_def SolanaAction_new_def SwapPayload_new_def Let_def
      intro!: exI)
  then show thesis using that by blast
qed

lemma entry_quiet:
  "agent_entry env t (a, w) = Some (a1, w1) \<Longrightarrow> \<not> working t \<Longrightarrow>
     a1 = a \<and> w1 = (if t = Deactivated then agent_drop env a w else w)"
  by (cases t) (auto simp: agent_entry_def)

lemma agent_drop_world [simp]:
  "w_actions (agent_drop env a w) = w_actions w"
  "ag_strategy_id_opt a = None \<Longrightarrow> agent_drop env a w = w"
  by (simp_all add: agent_drop_def is_main_wallet_def Let_def)

lemma entry_same_agent:
  assumes "agent_entry env t (a, w) = Some (a1, w1)"
  shows "same_agent a a1"
proof (cases "working t")
  case True
  from entry_queues [OF assms True] obtain x w0 where "queue_action env x (a, w0) = (a1, w1)" by metis
  then show ?thesis by (rule queue_action_effect(1))
qed (use entry_quiet [OF assms] in simp)

section \<open>Steps and runs\<close>

abbreviation agent_step ::
  "Env \<Rightarrow> SolanaStrategyEvent \<Rightarrow> State \<Rightarrow> AgentState \<times> World \<Rightarrow> (State \<times> AgentState \<times> World) option" where
  "agent_step env \<equiv> statig_dispatch (agent_machine env)"

lemma agent_step_eq:
  "agent_step env ev st aw =
     (case agent_handler env ev st aw of
        None \<Rightarrow> None
      | Some (Transition t, aw1) \<Rightarrow> map_option (Pair t) (agent_entry env t aw1)
      | Some (_, aw1) \<Rightarrow> Some (st, aw1))"
  by (auto simp: statig_dispatch_def agent_machine_def respond_def change_state_def map_option_case
      split: option.splits Response.splits bind_splits)

lemma agent_step_cases:
  assumes "agent_step env ev st (a, w) = Some (st', (a', w'))"
  obtains (stay) r where "st' = st" "w' = w" "agent_handler env ev st (a, w) = Some (r, (a', w))"
      "\<forall>t. r \<noteq> Transition t"
  | (move) a1 where "agent_handler env ev st (a, w) = Some (Transition st', (a1, w))"
      "agent_entry env st' (a1, w) = Some (a', w')"
proof -
  from assms obtain r a1 w1 where h: "agent_handler env ev st (a, w) = Some (r, (a1, w1))"
    by (auto simp: agent_step_eq split: option.splits)
  note w1 = handler_agent(1) [OF h]
  show thesis
  proof (cases r)
    case (Transition t)
    then show thesis using assms h w1 move by (auto simp: agent_step_eq)
  qed (use assms h w1 stay in \<open>auto simp: agent_step_eq\<close>)
qed

lemma agent_step_same_agent:
  assumes "agent_step env ev st (a, w) = Some (st', (a', w'))"
  shows "same_agent a a'"
  using assms
proof (cases rule: agent_step_cases)
  case (stay r)
  then show ?thesis using handler_agent(2) by blast
next
  case (move a1)
  then show ?thesis using handler_agent(2) entry_same_agent same_agent_trans by blast
qed

text \<open>The invariant of an agent: the retry counter is bounded, the timer of a working agent runs,
  and an agent that collects has a main wallet.\<close>

definition agent_inv :: "State \<Rightarrow> AgentState \<times> World \<Rightarrow> bool" where
  "agent_inv st aw \<longleftrightarrow> 0 \<le> state_retry st \<and> state_retry st \<le> RETRIES_IF_ERROR_OR_TIMEOUT + 1 \<and>
     (working st \<longrightarrow> sw_lap_ticks (ag_timeout_timer (fst aw)) = TIMEOUT_FOR_ACTION_EXECUTION_HBS) \<and>
     (collects st \<longrightarrow> ag_main_wallet (fst aw) \<noteq> None)"

lemma agent_inv_step:
  assumes "agent_inv st (a, w)" and "agent_step env ev st (a, w) = Some (st', (a', w'))"
  shows "agent_inv st' (a', w')"
  using assms(2)
proof (cases rule: agent_step_cases)
  case (stay r)
  note handler_agent(2) [OF stay(3)] handler_agent(3) [OF stay(3,4)]
  then show ?thesis using assms(1) stay(1) by (simp add: agent_inv_def same_agent_def)
next
  case (move a1)
  have r: "0 \<le> state_retry st'" "state_retry st' \<le> RETRIES_IF_ERROR_OR_TIMEOUT + 1"
    using handler_target(1) [OF move(1)] assms(1)
    by (auto simp: agent_inv_def RETRIES_IF_ERROR_OR_TIMEOUT_def)
  show ?thesis
  proof (cases "working st'")
    case True
    from entry_queues [OF move(2) True] obtain x w0
      where o: "own_action env w st' a1 x" and q: "queue_action env x (a1, w0) = (a', w')" by metis
    have "ag_main_wallet a' = ag_main_wallet a1" using queue_action_effect(1) [OF q] by (simp add: same_agent_def)
    moreover have "collects st' \<longrightarrow> ag_main_wallet a1 \<noteq> None"
      using o by (cases st') (auto simp: own_action_def)
    ultimately show ?thesis using r queue_action_effect(6) [OF q] by (simp add: agent_inv_def)
  next
    case False
    then have "\<not> collects st'" by (cases st') auto
    then show ?thesis using r False by (simp add: agent_inv_def)
  qed
qed

lemma agent_inv_Idle [simp]: "agent_inv Idle aw"
  by (auto simp: agent_inv_def RETRIES_IF_ERROR_OR_TIMEOUT_def)

lemma agent_run_inv:
  assumes "statig handle" and "run_machine handle agent_machine es (Idle, (a, w)) = Some (st, (a', w'))"
  shows "agent_inv st (a', w') \<and> same_agent a a'"
proof -
  define I where "I st aw \<longleftrightarrow> agent_inv st aw \<and> same_agent a (fst aw)" for st and aw :: "AgentState \<times> World"
  have "I st' aw'" if "I st aw" and "handle (agent_machine env) ev st aw = Some (st', aw')"
    for env ev st aw st' aw'
  proof -
    obtain b v b' v' where aw: "aw = (b, v)" "aw' = (b', v')" by fastforce
    have "agent_step env ev st (b, v) = Some (st', (b', v'))"
      using that(2) by (simp add: aw statig.handle_eq [OF assms(1)])
    then show ?thesis
      using that(1) agent_inv_step agent_step_same_agent same_agent_trans unfolding I_def aw fst_conv by blast
  qed
  moreover have "I Idle (a, w)" by (simp add: I_def)
  ultimately have "I st (a', w')" using run_invariant [OF assms(2), of I] by blast
  then show ?thesis by (simp add: I_def)
qed

lemma own_action_same: "same_agent a b \<Longrightarrow> own_action env w t a x = own_action env w t b x"
  by (cases t) (simp_all add: own_action_def same_agent_def sweep_all_def agent_get_token_balance_def get_token_mint_def)

lemma agent_step_queue:
  assumes "agent_step env ev st (a, w) = Some (st', (a', w'))"
  obtains (quiet) "w_actions w' = w_actions w" "st' = st \<or> \<not> working st'"
      "w_traders w' = w_traders w \<or> st' = Deactivated"
  | (queued) x where "working st'" "own_action env w st' a x" "w_actions w' = w_actions w @ [x]"
      "get_action_by_uuid (ctx_cache (w_context w')) (sa_uuid x) = Some x"
      "sa_uuid x \<in> set (ag_actions_in_progress a')"
      "sw_lap_ticks (ag_timeout_timer a') = TIMEOUT_FOR_ACTION_EXECUTION_HBS"
      "sw_start (ag_timeout_timer a') = env_entry_now env" "w_traders w' = w_traders w"
  using assms
proof (cases rule: agent_step_cases)
  case (stay r)
  then show thesis using quiet by simp
next
  case (move a1)
  show thesis
  proof (cases "working st'")
    case True
    from entry_queues [OF move(2) True] obtain x w0
      where o: "own_action env w st' a1 x" and q: "queue_action env x (a1, w0) = (a', w')"
        and w0: "w_actions w0 = w_actions w" "w_traders w0 = w_traders w" by metis
    have "own_action env w st' a x" using o own_action_same [OF handler_agent(2) [OF move(1)]] by simp
    then show thesis using queued [of x] True queue_action_effect(2-7) [OF q] w0 by simp
  next
    case False
    then show thesis using entry_quiet [OF move(2)] quiet by (auto split: if_splits)
  qed
qed

section \<open>Time-outs\<close>

text \<open>A heartbeat that comes at least the time-out after an instant, within the range of the
  64-bit millisecond counter.\<close>

definition late_beat :: "instant \<Rightarrow> Env \<Rightarrow> SolanaStrategyEvent \<Rightarrow> bool" where
  "late_beat since env ev =
     (case ev of
        Original (HeartBeat tick _) \<Rightarrow> tick \<noteq> 0 \<and>
          unat TIMEOUT_FOR_ACTION_EXECUTION_HBS * unat tick * 1000000 \<le> env_now env - since \<and>
          (env_now env - since) div 1000000 < 2 ^ 64
      | _ \<Rightarrow> False)"

fun late_beats :: "instant \<Rightarrow> (Env \<times> SolanaStrategyEvent) list \<Rightarrow> bool" where
  "late_beats since [] = True"
| "late_beats since ((env, ev) # es) = (late_beat since env ev \<and> late_beats (env_entry_now env) es)"

definition after_timeout :: "State \<Rightarrow> State" where
  "after_timeout st =
     (if state_retry st \<le> RETRIES_IF_ERROR_OR_TIMEOUT then next_try st
      else if retiring st then Deactivated else Error TransferActionTimeout)"

lemma late_beat_handler:
  assumes "late_beat (sw_start (ag_timeout_timer a)) env ev" and "working st"
    and "sw_lap_ticks (ag_timeout_timer a) = TIMEOUT_FOR_ACTION_EXECUTION_HBS"
  obtains a1 where "agent_handler env ev st (a, w) = Some (Transition (after_timeout st), (a1, w))"
proof -
  obtain tick i where ev: "ev = Original (HeartBeat tick i)"
    using assms(1) by (auto simp: late_beat_def split: SolanaStrategyEvent.splits BotEvent.splits)
  have "is_time_elapsed (env_now env) tick (ag_timeout_timer a) = Ok True"
    using assms(1) is_time_elapsed_armed [of "ag_timeout_timer a" tick "env_now env"]
    by (simp add: ev late_beat_def assms(3) TIMEOUT_FOR_ACTION_EXECUTION_HBS_def)
  then have "is_cooled_down_before_retry env tick a =
      Some (True, a\<lparr> ag_timeout_timer := turn_off (ag_timeout_timer a) \<rparr>)"
    by (simp add: is_cooled_down_before_retry_def)
  then have "agent_handler env ev st (a, w) = Some (Transition (after_timeout st),
      (a\<lparr> ag_timeout_timer := turn_off (ag_timeout_timer a) \<rparr>, w))"
    using assms(2) by (cases st) (simp_all add: agent_handler_def ev transition_to_success_or_error_def
        deactivating_def retry_or_def after_timeout_def)
  then show thesis by (rule that)
qed

lemma entry_runs:
  "collects t \<longrightarrow> ag_main_wallet a \<noteq> None \<Longrightarrow> \<exists>a1 w1. agent_entry env t (a, w) = Some (a1, w1)"
  by (cases t) (auto simp: agent_entry_def collect_def split: prod.splits option.splits)

lemma late_beat_step:
  assumes "late_beat (sw_start (ag_timeout_timer a)) env ev" and "working st" and "agent_inv st (a, w)"
  obtains a' w' where "agent_step env ev st (a, w) = Some (after_timeout st, (a', w'))"
proof -
  obtain a1 where h: "agent_handler env ev st (a, w) = Some (Transition (after_timeout st), (a1, w))"
    using late_beat_handler [OF assms(1,2)] assms(2,3) by (auto simp: agent_inv_def)
  have "collects (after_timeout st) \<longrightarrow> collects st" by (cases st) (auto simp: after_timeout_def)
  then have "collects (after_timeout st) \<longrightarrow> ag_main_wallet a1 \<noteq> None"
    using assms(3) handler_agent(2) [OF h] by (auto simp: agent_inv_def same_agent_def)
  then show thesis using entry_runs that by (fastforce simp: agent_step_eq h)
qed

lemma late_beats_stop:
  assumes "agent_inv st (a, w)" and "working st" and "late_beats (sw_start (ag_timeout_timer a)) es"
    and "4 - state_retry st \<le> int (length es)"
  shows "\<exists>k \<le> length es. \<exists>st' aw'. run_machine statig_dispatch agent_machine (take k es) (st, (a, w)) = Some (st', aw') \<and>
    \<not> working st'"
  using assms
proof (induction es arbitrary: st a w)
  case Nil
  then show ?case by (simp add: agent_inv_def RETRIES_IF_ERROR_OR_TIMEOUT_def)
next
  case (Cons x es)
  obtain env ev where x: "x = (env, ev)" by fastforce
  obtain a' w' where step: "agent_step env ev st (a, w) = Some (after_timeout st, (a', w'))"
    using late_beat_step [of a env ev st w] Cons.prems(1-3) by (auto simp: x)
  note inv' = agent_inv_step [OF Cons.prems(1) step]
  show ?case
  proof (cases "working (after_timeout st)")
    case True
    then have "state_retry (after_timeout st) = state_retry st + 1" "after_timeout st \<noteq> st"
      using Cons.prems(2) by (cases st; simp add: after_timeout_def split: if_splits)+
    moreover have "sw_start (ag_timeout_timer a') = env_entry_now env"
      using step by (cases rule: agent_step_queue) (use True \<open>after_timeout st \<noteq> st\<close> in auto)
    ultimately obtain k st' aw' where "k \<le> length es" "\<not> working st'"
      "run_machine statig_dispatch agent_machine (take k es) (after_timeout st, (a', w')) = Some (st', aw')"
      using Cons.IH [OF inv' True] Cons.prems(3,4) by (fastforce simp: x)
    then show ?thesis using step by (intro exI [of _ "Suc k"]) (auto simp: x)
  next
    case False
    then show ?thesis using step by (intro exI [of _ 1]) (auto simp: x)
  qed
qed

section \<open>Example data\<close>

definition example_pool :: RaydiumPool where
  "example_pool =
     \<lparr> rp_id = [1], rp_base_mint = [2], rp_quote_mint = [3], rp_lp_mint = [4], rp_base_decimals = 6,
       rp_quote_decimals = 9, rp_lp_decimals = 9, rp_version = 4, rp_program_id = [5],
       rp_authority = [6], rp_open_orders = [7], rp_target_orders = [8], rp_base_vault = [9],
       rp_quote_vault = [10], rp_withdraw_queue = [11], rp_lp_vault = [12], rp_market_version = 3,
       rp_market_program_id = [13], rp_market_id = [14], rp_lp_reserve = 0, rp_open_time = 0,
       rp_reverse_pool = False, rp_freeze_authority = None \<rparr>"

definition example_env :: "nat \<Rightarrow> Env" where
  "example_env seconds =
     \<lparr> env_ext = \<lparr> ext_rpc_get_account = (\<lambda>_. Inl ''AccountNotFound''), ext_token_unpack = (\<lambda>_. None),
         ext_hex_encode = (\<lambda>_. []), ext_ata = (\<lambda>k m. k @ m) \<rparr>,
       env_now = seconds * 1000000000, env_entry_now = seconds * 1000000000, env_utc = 0,
       env_uuid = of_nat seconds, env_db_connects = True, env_inserted_trader = Some 1,
       env_private_key = (\<lambda>_. []), env_parse_key = (\<lambda>_. None) \<rparr>"

definition example_agent :: "int option \<Rightarrow> keypair option \<Rightarrow> AgentState" where
  "example_agent strategy main_wallet =
     fresh_agent (example_env 0) example_pool Trader_default [20] strategy main_wallet"

definition example_world :: World where
  "example_world =
     \<lparr> w_context = \<lparr> ctx_cache = OperationalCache_new Map.empty Map.empty, ctx_notified = 0 \<rparr>,
       w_actions = [], w_traders = [Trader_default\<lparr> tr_wallet := [20], tr_is_active := True \<rparr>] \<rparr>"

lemmas step_simps = agent_step_eq agent_handler_def idle_def agent_entry_def

lemma example_buy_run:
  "run_machine statig_dispatch agent_machine [(example_env 1, ForAgent (Buy Amount_Max))]
     (Idle, (example_agent s m, example_world)) =
   Some (Buying Amount_Max 0, buy_for_all (example_env 1) (example_agent s m, example_world))"
  by (simp add: step_simps)

lemma example_agent_simps [simp]:
  "ag_strategy_id_opt (example_agent s m) = s" "ag_main_wallet (example_agent s m) = m"
  "ag_agent_key (example_agent s m) = [20]"
  by (simp_all add: example_agent_def fresh_agent_def)

text \<open>The events that do not ask for a trade or a transfer.\<close>

definition sweeping_event :: "SolanaStrategyEvent \<Rightarrow> bool" where
  "sweeping_event ev =
     (case ev of ForAgent (Buy _) \<Rightarrow> False | ForAgent (Sell _) \<Rightarrow> False | ForAgent (Transfer _) \<Rightarrow> False | _ \<Rightarrow> True)"

lemma sweeping_handler:
  assumes "agent_handler env ev st (a, w) = Some (Transition t, aw)" and "sweeping_event ev"
    and "working st \<longrightarrow> collects st"
  shows "working t \<longrightarrow> collects t"
  using assms
  by (cases st; force simp: agent_handler_def idle_def success_def agent_error_def sweeping_event_def
      dest!: common_handler deactivating_handler split: event_splits if_splits)

section \<open>Properties\<close>

text \<open>C4: whatever events arrive, in whatever environment, an agent started in \<open>idle\<close> never counts
  above three retries, keeps its wallet, pool and strategy, and has its time-out running whenever
  it waits for an action.\<close>

theorem agent_run_bounded:
  assumes "statig handle"
    and "run_machine handle agent_machine es (Idle, (a, w)) = Some (st, (a', w'))"
  shows "0 \<le> state_retry st \<and> state_retry st \<le> RETRIES_IF_ERROR_OR_TIMEOUT + 1 \<and> same_agent a a' \<and>
    (working st \<longrightarrow> sw_lap_ticks (ag_timeout_timer a') = TIMEOUT_FOR_ACTION_EXECUTION_HBS)"
  using agent_run_inv [OF assms] by (simp add: agent_inv_def)

theorem agent_run_bounded_witness:
  "same_agent (example_agent None None)
     (fst (buy_for_all (example_env 1) (example_agent None None, example_world)))"
  using agent_run_bounded [OF reference.statig_axioms,
      of "[(example_env 1, ForAgent (Buy Amount_Max))]" "example_agent None None" example_world
         "Buying Amount_Max 0"
         "fst (buy_for_all (example_env 1) (example_agent None None, example_world))"
         "snd (buy_for_all (example_env 1) (example_agent None None, example_world))"]
  by (simp only: example_buy_run prod.collapse simp_thms)

text \<open>Every event either leaves the action queue alone, and then the agent is not newly waiting
  for anything, or puts the agent in a waiting state and queues exactly one action for it: signed by
  the agent, with the fresh identifier, the payload that belongs to the state, registered in the
  cache, in progress, and with the time-out started.\<close>

theorem agent_step_queues_one:
  assumes "statig handle" and "handle (agent_machine env) ev st (a, w) = Some (st', (a', w'))"
  shows "(w_actions w' = w_actions w \<and> (st' = st \<or> \<not> working st')) \<or>
    (working st' \<and> (\<exists>x. own_action env w st' a x \<and> w_actions w' = w_actions w @ [x] \<and>
       get_action_by_uuid (ctx_cache (w_context w')) (env_uuid env) = Some x \<and>
       env_uuid env \<in> set (ag_actions_in_progress a') \<and>
       sw_lap_ticks (ag_timeout_timer a') = TIMEOUT_FOR_ACTION_EXECUTION_HBS \<and>
       sw_start (ag_timeout_timer a') = env_entry_now env))"
proof -
  have "agent_step env ev st (a, w) = Some (st', (a', w'))"
    using assms(2) by (simp add: statig.handle_eq [OF assms(1)])
  then show ?thesis
  proof (cases rule: agent_step_queue)
    case (queued x)
    moreover from this have "sa_uuid x = env_uuid env" by (simp add: own_action_def)
    ultimately show ?thesis by auto
  qed simp
qed

theorem agent_step_queues_one_witness:
  "\<exists>x. own_action (example_env 1) example_world (Buying Amount_Max 0) (example_agent None None) x \<and>
     w_actions (snd (buy_for_all (example_env 1) (example_agent None None, example_world))) = [x]"
proof -
  have "statig_dispatch (agent_machine (example_env 1)) (ForAgent (Buy Amount_Max)) Idle
      (example_agent None None, example_world) =
    Some (Buying Amount_Max 0, (fst (buy_for_all (example_env 1) (example_agent None None, example_world)),
      snd (buy_for_all (example_env 1) (example_agent None None, example_world))))"
    by (simp add: step_simps)
  from agent_step_queues_one [OF reference.statig_axioms this] show ?thesis
    by (auto simp: example_world_def)
qed



text \<open>An agent that waits for an action does not wait forever: from every state reached by a run,
  four heartbeats, each at least the time-out after the previous one, bring it out of the waiting
  states (to \<open>error\<close> or \<open>deactivated\<close>) without a panic, however the retries go.\<close>

theorem agent_gives_up:
  assumes "statig handle"
    and "run_machine handle agent_machine es (Idle, (a, w)) = Some (st, (a', w'))"
    and "late_beats (sw_start (ag_timeout_timer a')) beats" and "length beats = 4"
  shows "\<exists>k \<le> 4. \<exists>st' aw'. run_machine handle agent_machine (es @ take k beats) (Idle, (a, w)) = Some (st', aw') \<and>
    \<not> working st'"
proof (cases "working st")
  case True
  have h: "handle = statig_dispatch" by (intro ext) (rule statig.handle_eq [OF assms(1)])
  have inv: "agent_inv st (a', w')" using agent_run_inv [OF assms(1,2)] by simp
  then have "4 - state_retry st \<le> int (length beats)" by (simp add: agent_inv_def assms(4))
  from late_beats_stop [OF inv True assms(3) this] assms(2,4) show ?thesis
    by (simp add: run_machine_append h)
next
  case False
  then show ?thesis using assms(2) by (intro exI [of _ 0]) auto
qed

theorem agent_gives_up_witness:
  "\<exists>k \<le> 4. \<exists>st' aw'. run_machine statig_dispatch agent_machine
     ([(example_env 1, ForAgent (Buy Amount_Max))] @ take k
       (map (\<lambda>n. (example_env n, Original (HeartBeat 1000 0))) [300, 600, 900, 1200]))
     (Idle, (example_agent None None, example_world)) = Some (st', aw') \<and> \<not> working st'"
  by (rule agent_gives_up [OF reference.statig_axioms, of _ _ _ "Buying Amount_Max 0"
      "fst (buy_for_all (example_env 1) (example_agent None None, example_world))"
      "snd (buy_for_all (example_env 1) (example_agent None None, example_world))"])
     (simp_all only: example_buy_run prod.collapse,
      simp_all add: late_beat_def example_env_def TIMEOUT_FOR_ACTION_EXECUTION_HBS_def buy_for_all_def
        queue_action_def split_beta)

text \<open>One action of a run: it was queued after the first \<open>k\<close>, in a step that began by reading the balance.\<close>

definition swept_in ::
  "((SolanaStrategyEvent, State, AgentState \<times> World) machine \<Rightarrow> SolanaStrategyEvent \<Rightarrow> State
     \<Rightarrow> AgentState \<times> World \<Rightarrow> (State \<times> AgentState \<times> World) option)
     \<Rightarrow> (Env \<times> SolanaStrategyEvent) list \<Rightarrow> AgentState \<Rightarrow> World \<Rightarrow> SolanaAction list \<Rightarrow> nat \<Rightarrow> bool" where
  "swept_in handle es a w xs k \<longleftrightarrow> sa_sniper (xs ! k) = ag_agent_key a \<and> ag_main_wallet a = Some (sa_fee_payer (xs ! k)) \<and>
     (\<exists>pre env ev post st1 a1 w1. es = pre @ (env, ev) # post \<and>
        run_machine handle agent_machine pre (Idle, (a, w)) = Some (st1, (a1, w1)) \<and>
        w_actions w1 = w_actions w @ take k xs \<and>
        sa_action_payload (xs ! k) = sweep_all a (sa_fee_payer (xs ! k)) (fst (agent_get_token_balance env a w1)))"

lemma swept_in_later:
  assumes "swept_in handle es a w xs k" and "k < length xs"
  shows "swept_in handle (es @ fs) a w (xs @ ys) k"
proof -
  from assms(1) obtain pre env ev post st1 a1 w1 where "es = pre @ (env, ev) # post"
      "run_machine handle agent_machine pre (Idle, (a, w)) = Some (st1, (a1, w1))" "w_actions w1 = w_actions w @ take k xs"
      "sa_action_payload (xs ! k) = sweep_all a (sa_fee_payer (xs ! k)) (fst (agent_get_token_balance env a w1))"
    unfolding swept_in_def by blast
  then have "es @ fs = pre @ (env, ev) # (post @ fs) \<and>
      run_machine handle agent_machine pre (Idle, (a, w)) = Some (st1, (a1, w1)) \<and>
      w_actions w1 = w_actions w @ take k (xs @ ys) \<and>
      sa_action_payload ((xs @ ys) ! k) = sweep_all a (sa_fee_payer ((xs @ ys) ! k)) (fst (agent_get_token_balance env a w1))"
    using assms(2) by (simp add: nth_append)
  then show ?thesis using assms unfolding swept_in_def by (simp add: nth_append) blast
qed

lemma swept_in_new:
  assumes "run_machine handle agent_machine es (Idle, (a, w)) = Some (st1, (a1, w1))" and "w_actions w1 = w_actions w @ xs"
    and "sa_sniper x = ag_agent_key a" and "ag_main_wallet a = Some (sa_fee_payer x)"
    and "sa_action_payload x = sweep_all a (sa_fee_payer x) (fst (agent_get_token_balance env a w1))"
  shows "swept_in handle (es @ [(env, ev)]) a w (xs @ [x]) (length xs)"
  using assms unfolding swept_in_def
  by (intro conjI exI [of _ es] exI [of _ env] exI [of _ ev] exI [of _ "[]"] exI [of _ st1] exI [of _ a1] exI [of _ w1])
    simp_all

text \<open>C29: an agent that is never told to trade or transfer sends its funds nowhere but to its main
  wallet. Every action it queues, in the step that queues it, reads the token balance first: if that is
  positive, the action sends all tokens of the pool's mint to the main wallet and closes the token
  account; then, or else at once, it sends all SOL to the main wallet, which also pays the fees.\<close>

theorem agent_sweeps_to_main_wallet:
  assumes "statig handle" and "list_all (\<lambda>(env, ev). sweeping_event ev) es"
    and "run_machine handle agent_machine es (Idle, (a, w)) = Some (st, (a', w'))"
  shows "\<exists>xs. w_actions w' = w_actions w @ xs \<and>
    (\<forall>k < length xs. sa_sniper (xs ! k) = ag_agent_key a \<and> ag_main_wallet a = Some (sa_fee_payer (xs ! k)) \<and>
      (\<exists>pre env ev post st1 a1 w1. es = pre @ (env, ev) # post \<and>
         run_machine handle agent_machine pre (Idle, (a, w)) = Some (st1, (a1, w1)) \<and>
         w_actions w1 = w_actions w @ take k xs \<and>
         sa_action_payload (xs ! k) = map SolanaTransferActionPayload
           ((if 0 < fst (agent_get_token_balance env a w1)
             then [\<lparr> tp_asset = Token (rp_base_mint (ag_pool a)), tp_receiver = sa_fee_payer (xs ! k),
                    tp_amount = MaxAndClose \<rparr>] else [])
            @ [\<lparr> tp_asset = Sol, tp_receiver = sa_fee_payer (xs ! k), tp_amount = Amount_Max \<rparr>])))"
proof -
  have "(working st \<longrightarrow> collects st) \<and>
      (\<exists>xs. w_actions w' = w_actions w @ xs \<and> (\<forall>k < length xs. swept_in handle es a w xs k))"
    using assms(2,3)
  proof (induction es arbitrary: st a' w' rule: rev_induct)
    case Nil
    then show ?case by simp
  next
    case (snoc e es)
    obtain env ev where e: "e = (env, ev)" by fastforce
    obtain st1 a1 w1 where run: "run_machine handle agent_machine es (Idle, (a, w)) = Some (st1, (a1, w1))"
      and "handle (agent_machine env) ev st1 (a1, w1) = Some (st, (a', w'))"
      using snoc.prems(2) by (auto simp: run_machine_append e split: bind_splits)
    then have step: "agent_step env ev st1 (a1, w1) = Some (st, (a', w'))" by (simp add: statig.handle_eq [OF assms(1)])
    have sw: "sweeping_event ev" using snoc.prems(1) by (simp add: e)
    have same: "same_agent a a1" using agent_run_inv [OF assms(1) run] by simp
    obtain xs where old: "working st1 \<longrightarrow> collects st1" "w_actions w1 = w_actions w @ xs"
      "\<forall>k < length xs. swept_in handle es a w xs k"
      using snoc.IH [OF _ run] snoc.prems(1) by auto
    have c: "working st \<longrightarrow> collects st" using step
    proof (cases rule: agent_step_cases)
      case (move a2)
      then show ?thesis using sw old(1) sweeping_handler by blast
    qed (use old in simp)
    have more: "swept_in handle (es @ [e]) a w (xs @ ys) k" if "k < length xs" for k ys
      using swept_in_later old(3) that by blast
    from step show ?case
    proof (cases rule: agent_step_queue)
      case quiet
      then show ?thesis using c more [of _ "[]"] old(2) by auto
    next
      case (queued x)
      have "own_action env w1 st a x" using queued(2) by (simp add: own_action_same [OF same])
      then have "swept_in handle (es @ [e]) a w (xs @ [x]) (length xs)" unfolding e
        using c queued(1) by (intro swept_in_new [OF run old(2)]) (cases st; simp add: own_action_def)+
      then show ?thesis using c queued(3) old(2) more [of _ "[x]"]
        by (intro conjI exI [of _ "xs @ [x]"]) (auto simp: less_Suc_eq)
    qed
  qed
  then show ?thesis unfolding swept_in_def sweep_all_def by blast
qed

theorem agent_sweeps_to_main_wallet_witness:
  "\<exists>a' w' xs. run_machine statig_dispatch agent_machine [(example_env 1, ForAgent Collect)]
     (Idle, (example_agent (Some 1) (Some [9]), example_world)) = Some (Collecting 0, (a', w')) \<and>
   w_actions w' = xs \<and> list_all (\<lambda>x. sa_sniper x = [20] \<and> sa_fee_payer x = [9]) xs"
proof -
  let ?a = "example_agent (Some 1) (Some [9])"
  obtain a' w' where r: "run_machine statig_dispatch agent_machine [(example_env 1, ForAgent Collect)]
      (Idle, (?a, example_world)) = Some (Collecting 0, (a', w'))"
    using entry_runs [of "Collecting 0" ?a "example_env 1" example_world] by (auto simp: step_simps)
  have e: "list_all (\<lambda>(env, ev). sweeping_event ev) [(example_env 1, ForAgent Collect)]"
    by (simp add: sweeping_event_def)
  from agent_sweeps_to_main_wallet [OF reference.statig_axioms e r] obtain xs where xs: "w_actions w' = w_actions example_world @ xs"
    "\<forall>k < length xs. sa_sniper (xs ! k) = ag_agent_key ?a \<and> ag_main_wallet ?a = Some (sa_fee_payer (xs ! k))" by blast
  then have "list_all (\<lambda>x. sa_sniper x = [20] \<and> sa_fee_payer x = [9]) xs" by (simp add: list_all_length)
  with r xs(1) show ?thesis by (simp add: example_world_def)
qed

text \<open>Deactivation is final and complete: a step that brings an agent of a strategy to
  \<open>deactivated\<close>, with the database reachable, marks every trader record of its wallet inactive and
  ends the monitoring of its account and of its token account, and no later event has any effect.\<close>

theorem agent_deactivation_final:
  assumes "statig handle" and "handle (agent_machine env) ev st (a, w) = Some (Deactivated, (a', w'))"
    and "st \<noteq> Deactivated" and "ag_strategy_id_opt a \<noteq> None" and "env_db_connects env"
  shows "list_all (\<lambda>t. tr_wallet t = ag_agent_key a \<longrightarrow> \<not> tr_is_active t) (w_traders w') \<and>
    get_account (ctx_cache (w_context w')) (ag_agent_key a) = None \<and>
    get_account (ctx_cache (w_context w')) (ext_ata (env_ext env) (ag_agent_key a) (rp_base_mint (ag_pool a))) = None \<and>
    run_machine handle agent_machine es (Deactivated, (a', w')) = Some (Deactivated, (a', w'))"
proof -
  have step: "agent_step env ev st (a, w) = Some (Deactivated, (a', w'))"
    using assms(2) by (simp add: statig.handle_eq [OF assms(1)])
  have w': "\<exists>a1. same_agent a a1 \<and> w' = agent_drop env a1 w" using step
  proof (cases rule: agent_step_cases)
    case (move a1)
    then show ?thesis using entry_quiet [OF move(2)] handler_agent(2) [OF move(1)] by auto
  qed (use assms(3) in simp)
  have "run_machine handle agent_machine es (Deactivated, (a', w')) = Some (Deactivated, (a', w'))"
    by (induction es) (auto simp: statig.handle_eq [OF assms(1)] agent_step_eq agent_handler_def)
  then show ?thesis
    using w' assms(4,5) by (auto simp: agent_drop_def is_main_wallet_def same_agent_def list_all_iff
        stop_monitoring_token_account_def cache_defs Let_def)
qed

theorem agent_deactivation_final_witness:
  "\<exists>a' w'. statig_dispatch (agent_machine (example_env 1)) (ForAgent Deactivate) Idle
     (example_agent (Some 1) (Some [9]), example_world) = Some (Deactivated, (a', w')) \<and>
   get_account (ctx_cache (w_context w')) [20] = None \<and>
   list_all (\<lambda>t. tr_wallet t = [20] \<longrightarrow> \<not> tr_is_active t) (w_traders w')"
proof -
  let ?a = "example_agent (Some 1) (Some [9])"
  have s: "statig_dispatch (agent_machine (example_env 1)) (ForAgent Deactivate) Idle (?a, example_world) =
      Some (Deactivated, (?a, agent_drop (example_env 1) ?a example_world))"
    by (simp add: step_simps is_main_wallet_def)
  have "env_db_connects (example_env 1)" by (simp add: example_env_def)
  with agent_deactivation_final [OF reference.statig_axioms s] s show ?thesis by simp
qed

text \<open>The executor's report \<open>Sent\<close> makes an agent forget the action: the receipt that confirms
  it on the chain later is ignored, so a transfer, purchase, sale or collection reported as sent is
  never followed by \<open>success\<close>. Only while deactivating does the receipt still count.\<close>

theorem sent_action_not_confirmed:
  assumes "statig handle"
  shows "(working st \<and> \<not> retiring st \<longrightarrow>
      run_machine handle agent_machine
        [(env1, Original (ResultEvent (er_action_uuid receipt) action Sent)),
         (env2, Original (ChainEvent (ReceiptEvent receipt)))] (st, (a, w)) =
      Some (st, (a\<lparr> ag_actions_in_progress :=
        filter (\<lambda>x. x \<noteq> er_action_uuid receipt) (ag_actions_in_progress a) \<rparr>, w))) \<and>
    (er_action_uuid receipt \<in> set (ag_actions_in_progress a) \<and> er_err receipt = None \<longrightarrow>
      (\<exists>aw. run_machine handle agent_machine
        [(env1, Original (ResultEvent (er_action_uuid receipt) action Sent)),
         (env2, Original (ChainEvent (ReceiptEvent receipt)))] (Deactivating r, (a, w)) =
      Some (Deactivated, aw)))"
proof (intro conjI impI)
  have f: "filter (\<lambda>x. x \<noteq> u) (ag_actions_in_progress a) = ag_actions_in_progress a"
    if "u \<notin> set (ag_actions_in_progress a)" for u
    using that by (auto simp: filter_id_conv)
  assume "working st \<and> \<not> retiring st"
  then show "run_machine handle agent_machine
        [(env1, Original (ResultEvent (er_action_uuid receipt) action Sent)),
         (env2, Original (ChainEvent (ReceiptEvent receipt)))] (st, (a, w)) =
      Some (st, (a\<lparr> ag_actions_in_progress :=
        filter (\<lambda>x. x \<noteq> er_action_uuid receipt) (ag_actions_in_progress a) \<rparr>, w))"
    using f [of "er_action_uuid receipt"]
    by (cases st) (auto simp: statig.handle_eq [OF assms] agent_step_eq agent_handler_def
      transition_to_success_or_error_def process_execution_receipt_def)
qed (auto simp: statig.handle_eq [OF assms] agent_step_eq agent_handler_def deactivating_def
    process_execution_receipt_def agent_entry_def Let_def)

theorem sent_action_not_confirmed_witness:
  "run_machine statig_dispatch agent_machine
     [(example_env 2, Original (ResultEvent 1 (SolanaAction_new 1 0 [20] []) Sent)),
      (example_env 3, Original (ChainEvent (ReceiptEvent (ExecutionReceipt_new 0 1 [] None))))]
     (Buying Amount_Max 0, (example_agent None None\<lparr> ag_actions_in_progress := [1] \<rparr>, example_world)) =
   Some (Buying Amount_Max 0, (example_agent None None\<lparr> ag_actions_in_progress := [] \<rparr>, example_world))"
  using sent_action_not_confirmed [OF reference.statig_axioms, of "Buying Amount_Max 0" "example_env 2"
      "ExecutionReceipt_new 0 1 [] None" "SolanaAction_new 1 0 [20] []" "example_env 3"
      "example_agent None None\<lparr> ag_actions_in_progress := [1] \<rparr>" example_world 0]
  by (simp add: ExecutionReceipt_new_def)

end
