(* ===== verification/Volume_Strategy_Properties.thy ===== *)
theory Volume_Strategy_Properties
  imports Volume_Strategy Volume_Agent_Properties
begin

text \<open>
  What the volume strategy guarantees, over every interleaving of events and deliveries. The first
  section shows that every action of the strategy keeps the invariant \<open>strategy_ok\<close> on the shared
  agents; it rests on the agent lemmas of \<open>Volume_Agent_Properties\<close>. The second lifts it to
  reachable configurations, by rule induction.
\<close>

section \<open>The invariant of the shared agents\<close>

text \<open>The key pair of an agent is the one of its trader record: the wallet of the record, or what the
  private key stored in it parses to.\<close>

definition own_trader :: "AgentState \<Rightarrow> bool" where
  "own_trader a \<longleftrightarrow> ag_agent_key a = tr_wallet (ag_trader a) \<or>
     (\<exists>env :: Env. env_parse_key env (tr_private_key (ag_trader a)) = Some (ag_agent_key a))"

text \<open>An agent traded for the wallet \<open>main\<close>: it sweeps there and its own trader is another wallet.\<close>

definition traded_for :: "keypair \<Rightarrow> AgentState \<Rightarrow> bool" where
  "traded_for main a \<longleftrightarrow>
     ag_main_wallet a = Some main \<and> tr_wallet (ag_trader a) \<noteq> main \<and> own_trader a"

lemma traded_for_same: "same_agent a b \<Longrightarrow> traded_for main b = traded_for main a"
  by (simp add: traded_for_def own_trader_def same_agent_def)

text \<open>The main wallet is the agent of no strategy; every other agent of the store is traded for it;
  tasks only carry events from outside.\<close>

definition strategy_ok :: "Strategy \<Rightarrow> bool" where
  "strategy_ok self \<longleftrightarrow>
     vs_main_wallet self < vs_next self \<and>
     ag_strategy_id_opt (cell_agent self (vs_main_wallet self)) = None \<and>
     ag_main_wallet (cell_agent self (vs_main_wallet self)) = None \<and>
     distinct (vs_agents self) \<and>
     (\<forall>r \<in> set (vs_agents self). r < vs_next self \<and> r \<noteq> vs_main_wallet self) \<and>
     (\<forall>r < vs_next self. r \<noteq> vs_main_wallet self \<longrightarrow>
        traded_for (main_key self) (cell_agent self r)) \<and>
     (\<forall>(ev, rs) \<in> set (vs_tasks self). ev \<in> range Original \<and> (\<forall>r \<in> set rs. r < vs_next self))"

text \<open>What a step of the strategy may not change.\<close>

definition same_frame :: "Strategy \<Rightarrow> Strategy \<Rightarrow> bool" where
  "same_frame s t \<longleftrightarrow> vs_main_wallet t = vs_main_wallet s \<and> vs_tasks t = vs_tasks s \<and>
     vs_instance t = vs_instance s \<and> vs_pool t = vs_pool s \<and> main_key t = main_key s"

lemma same_frame_refl [simp, intro]: "same_frame s s"
  by (simp add: same_frame_def)

lemma same_frame_trans [trans]: "same_frame s t \<Longrightarrow> same_frame t u \<Longrightarrow> same_frame s u"
  by (simp add: same_frame_def)

text \<open>A step that keeps the invariant and the frame.\<close>

definition keeps_ok :: "Strategy \<Rightarrow> Strategy \<Rightarrow> bool" where
  "keeps_ok s t \<longleftrightarrow> (strategy_ok s \<longrightarrow> strategy_ok t \<and> same_frame s t)"

lemma keeps_ok_refl [simp, intro]: "keeps_ok s s"
  by (simp add: keeps_ok_def)

lemma keeps_ok_trans [trans]: "keeps_ok s t \<Longrightarrow> keeps_ok t u \<Longrightarrow> keeps_ok s u"
  using same_frame_trans by (auto simp: keeps_ok_def)

lemma keeps_ok_world [simp]: "keeps_ok s (s\<lparr> vs_world := w \<rparr>)"
  by (simp add: keeps_ok_def strategy_ok_def same_frame_def cell_agent_def main_key_def)

lemma keeps_ok_stopwatch [simp]: "keeps_ok s (s\<lparr> vs_stopwatch := sw \<rparr>)"
  by (simp add: keeps_ok_def strategy_ok_def same_frame_def cell_agent_def main_key_def)

lemma keeps_ok_no_agents [simp]: "keeps_ok s (s\<lparr> vs_agents := [] \<rparr>)"
  by (simp add: keeps_ok_def strategy_ok_def same_frame_def cell_agent_def main_key_def)

lemma agent_handle_Some:
  assumes "statig handle" and "agent_handle handle env r ev self = Some self'"
  obtains st ag w where "agent_step env ev (cell_state self r) (cell_agent self r, vs_world self) = Some (st, (ag, w))"
    and "self' = self\<lparr> vs_cells := (vs_cells self)(r := (st, ag)), vs_world := w \<rparr>"
    and "same_agent (cell_agent self r) ag"
  using assms(2) agent_step_same_agent
  by (force simp: agent_handle_def statig.handle_eq [OF assms(1)] split: option.splits prod.splits)

lemma cell_agent_upd:
  "cell_agent (self\<lparr> vs_cells := (vs_cells self)(r := (st, ag)), vs_world := w \<rparr>) q =
     (if q = r then ag else cell_agent self q)"
  "cell_state (self\<lparr> vs_cells := (vs_cells self)(r := (st, ag)), vs_world := w \<rparr>) q =
     (if q = r then st else cell_state self q)"
  by (simp_all add: cell_agent_def cell_state_def)

lemma agent_handle_ok:
  assumes "statig handle" and "agent_handle handle env r ev self = Some self'"
  shows "keeps_ok self self'" and "vs_agents self' = vs_agents self"
    and "vs_next self' = vs_next self"
proof -
  obtain st ag w where self': "self' = self\<lparr> vs_cells := (vs_cells self)(r := (st, ag)), vs_world := w \<rparr>"
    and s: "same_agent (cell_agent self r) ag"
    using agent_handle_Some [OF assms] by metis
  show "vs_agents self' = vs_agents self" "vs_next self' = vs_next self" by (simp_all add: self')
  have "main_key self' = main_key self"
    using s by (simp add: self' main_key_def cell_agent_upd same_agent_def)
  then show "keeps_ok self self'"
    using s traded_for_same [OF s]
    by (auto simp: keeps_ok_def strategy_ok_def same_frame_def self' cell_agent_upd same_agent_def)
qed

lemma add_agent_ok:
  assumes "traded_for (main_key self) ag"
  shows "keeps_ok self (add_agent ag self)"
proof -
  have "main_key (add_agent ag self) = main_key self" if "strategy_ok self"
    using that by (auto simp: main_key_def cell_agent_def add_agent_def strategy_ok_def)
  then show ?thesis
    using assms
    by (auto simp: keeps_ok_def strategy_ok_def same_frame_def add_agent_def cell_agent_def less_Suc_eq split_beta)
qed

lemma for_agents_ok:
  assumes "\<And>i r s s'. f i r s = Some s' \<Longrightarrow> keeps_ok s s'" and "for_agents f i rs self = Some self'"
  shows "keeps_ok self self'"
  using assms(2)
proof (induction rs arbitrary: i self)
  case (Cons r rs)
  then show ?case using assms(1) keeps_ok_trans by (fastforce split: bind_splits)
qed simp

lemma cell_balance_ok:
  "cell_token_balance env r s = (b, s1) \<Longrightarrow> keeps_ok s s1"
  "cell_sol_balance env r s = (b, s1) \<Longrightarrow> keeps_ok s s1"
  by (auto simp: cell_token_balance_def cell_sol_balance_def split: prod.splits)

text \<open>The constructors give an agent the main wallet they are called with and a trader of its own, and
  the trader loader and the agent creation only change the world besides.\<close>

lemma db_read_or_create_wallet:
  "db_read_or_create env sid a w = (Some t, w') \<Longrightarrow> tr_wallet t = ag_agent_key a"
  by (auto simp: db_read_or_create_def Let_def find_Some_iff split: if_splits option.splits)

lemma AgentState_new_trader:
  assumes "AgentState_new env pool key (Some sid) mw w = (Some ag, w')"
  shows "tr_wallet (ag_trader ag) = key"
  using assms db_read_or_create_wallet
  by (fastforce simp: AgentState_new_def fresh_agent_def Let_def split: option.splits prod.splits if_splits)

lemma AgentState_new_main:
  "AgentState_new env pool key sid mw w = (Some ag, w') \<Longrightarrow>
     ag_main_wallet ag = mw \<and> ag_agent_key ag = key \<and> ag_strategy_id_opt ag = sid"
  by (auto simp: AgentState_new_def fresh_agent_def Let_def split: option.splits prod.splits if_splits)

lemma new_from_trader_main:
  "new_from_trader env pool t mw w = (Some ag, w') \<Longrightarrow>
     ag_main_wallet ag = mw \<and> ag_trader ag = t \<and> own_trader ag"
  by (auto simp: new_from_trader_def fresh_agent_def own_trader_def split: option.splits)

lemma trader_agent_ok:
  assumes "trader_agent senv mw k t s = (x, s1)"
  shows "\<exists>w. s1 = s\<lparr> vs_world := w \<rparr>"
    and "x = Some ag \<Longrightarrow> tr_wallet t \<noteq> mw \<Longrightarrow> traded_for mw ag"
  using assms new_from_trader_main
  by (auto simp: trader_agent_def traded_for_def Let_def split: prod.splits sum.splits if_splits)

lemma new_strategy_agent_ok:
  assumes "new_strategy_agent senv i s = (x, s1)"
  shows "\<exists>w. s1 = s\<lparr> vs_world := w \<rparr>"
    and "x = Some ag \<Longrightarrow> ag_agent_key ag = se_key senv i"
    and "x = Some ag \<Longrightarrow> fresh_keys senv (main_key s) \<Longrightarrow> traded_for (main_key s) ag"
  using assms AgentState_new_main AgentState_new_trader
  by (fastforce simp: new_strategy_agent_def traded_for_def own_trader_def fresh_keys_def split: prod.splits)+

lemma main_key_world [simp]: "main_key (s\<lparr> vs_world := w \<rparr>) = main_key s"
  by (simp add: main_key_def cell_agent_def)

text \<open>One creation step, for a maker of agents as above.\<close>

lemma created_agent_ok:
  assumes "\<exists>w. s1 = s\<lparr> vs_world := w \<rparr>" and "traded_for (main_key s) ag"
  shows "keeps_ok s (add_agent ag s1)"
proof -
  obtain w where w: "s1 = s\<lparr> vs_world := w \<rparr>" using assms(1) ..
  then have "keeps_ok s1 (add_agent ag s1)" using assms(2) by (intro add_agent_ok) simp
  then show ?thesis using keeps_ok_world w keeps_ok_trans by blast
qed

lemma new_agent_step_ok:
  assumes "new_strategy_agent senv i s = (x, s1)" and "fresh_keys senv (main_key s)"
  shows "keeps_ok s (case x of None \<Rightarrow> s1 | Some ag \<Rightarrow> add_agent ag s1)"
proof (cases x)
  case None
  then show ?thesis using new_strategy_agent_ok(1) [OF assms(1)] by auto
next
  case (Some ag)
  then show ?thesis
    using new_strategy_agent_ok(1,3) [OF assms(1)] assms(2) created_agent_ok by simp
qed

lemma load_agents_ok:
  "strategy_ok s \<Longrightarrow> mw = main_key s \<Longrightarrow> \<forall>t \<in> set ts. tr_wallet t \<noteq> mw \<Longrightarrow>
     keeps_ok s (load_agents senv mw k ts s)"
proof (induction ts arbitrary: k s)
  case (Cons t ts)
  obtain x s1 where t: "trader_agent senv mw k t s = (x, s1)" by fastforce
  define s2 where "s2 = (case x of None \<Rightarrow> s1 | Some ag \<Rightarrow> add_agent ag s1)"
  have k: "keeps_ok s s2"
    using trader_agent_ok [OF t] created_agent_ok [of s1 s] Cons.prems(2,3) keeps_ok_world
    by (auto simp: s2_def split: option.splits)
  then have "strategy_ok s2" "mw = main_key s2" "\<forall>t \<in> set ts. tr_wallet t \<noteq> mw"
    using Cons.prems by (simp_all add: keeps_ok_def same_frame_def)
  then have "keeps_ok s (load_agents senv mw (k + 1) ts s2)" by (rule keeps_ok_trans [OF k Cons.IH])
  then show ?case by (cases x) (simp_all add: t s2_def)
qed simp

lemma create_agents_loop_ok:
  "strategy_ok s \<Longrightarrow> fresh_keys senv (main_key s) \<Longrightarrow> keeps_ok s (create_agents_loop senv i n s)"
proof (induction n arbitrary: i s)
  case (Suc n)
  obtain x s1 where t: "new_strategy_agent senv i s = (x, s1)" by fastforce
  define s2 where "s2 = (case x of None \<Rightarrow> s1 | Some ag \<Rightarrow> add_agent ag s1)"
  have k: "keeps_ok s s2" unfolding s2_def by (rule new_agent_step_ok [OF t Suc.prems(2)])
  then have "strategy_ok s2" "fresh_keys senv (main_key s2)"
    using Suc.prems by (simp_all add: keeps_ok_def same_frame_def)
  then have "keeps_ok s (create_agents_loop senv (i + 1) n s2)" by (rule keeps_ok_trans [OF k Suc.IH])
  then show ?case by (cases x) (simp_all add: t s2_def)
qed simp

lemma create_agents_ok:
  assumes "fresh_keys senv (main_key s)"
  shows "keeps_ok s (create_agents senv n s)"
proof (cases "strategy_ok s")
  case True
  then have "strategy_ok (s\<lparr> vs_agents := [] \<rparr>)" "fresh_keys senv (main_key (s\<lparr> vs_agents := [] \<rparr>))"
    using assms keeps_ok_no_agents [of s] by (simp_all add: keeps_ok_def same_frame_def)
  then show ?thesis
    unfolding create_agents_def using create_agents_loop_ok keeps_ok_no_agents keeps_ok_trans by blast
qed (simp add: keeps_ok_def)

lemma create_funded_agents_ok:
  "strategy_ok s \<Longrightarrow> fresh_keys senv (main_key s) \<Longrightarrow>
     create_funded_agents senv i amounts s = (ts, s') \<Longrightarrow> keeps_ok s s'"
proof (induction amounts arbitrary: i s ts s')
  case (Cons a amounts)
  obtain x s1 where t: "new_strategy_agent senv i s = (x, s1)" by fastforce
  define s2 where "s2 = (case x of None \<Rightarrow> s1 | Some ag \<Rightarrow> add_agent ag s1)"
  have k: "keeps_ok s s2" unfolding s2_def by (rule new_agent_step_ok [OF t Cons.prems(2)])
  obtain us where u: "create_funded_agents senv (i + 1) amounts s2 = (us, s')"
    using Cons.prems(3) by (auto simp: t s2_def split: option.splits prod.splits)
  have "strategy_ok s2" "fresh_keys senv (main_key s2)"
    using k Cons.prems(1,2) by (simp_all add: keeps_ok_def same_frame_def)
  from keeps_ok_trans [OF k Cons.IH [OF this u]] show ?case .
qed simp

section \<open>Every action keeps the invariant\<close>

lemma stop_monitoring_agents_ok: "keeps_ok s (stop_monitoring_agents senv i rs s)"
proof (induction rs arbitrary: i s)
  case (Cons r rs)
  show ?case unfolding stop_monitoring_agents.simps Let_def by (rule keeps_ok_trans [OF keeps_ok_world Cons.IH])
qed simp

lemma zero_agents_ok: "keeps_ok s (zero_agents senv s)"
  unfolding zero_agents_def using stop_monitoring_agents_ok keeps_ok_no_agents keeps_ok_trans by blast

lemma send_batches_ok:
  assumes "statig handle"
  shows "send_batches handle senv i bs s = Some s' \<Longrightarrow> keeps_ok s s'"
proof (induction bs arbitrary: i s)
  case (Cons b bs)
  then show ?case using agent_handle_ok(1) [OF assms] keeps_ok_trans by (fastforce split: bind_splits)
qed simp

lemma for_agents_handle_ok:
  assumes "statig handle"
    and "for_agents (\<lambda>i r. agent_handle handle (env i) r ev) i rs s = Some s'"
  shows "keeps_ok s s'"
  using for_agents_ok [OF agent_handle_ok(1) [OF assms(1)] assms(2)] .

lemma collect_everything_ok:
  assumes "statig handle" and "strategy_ok s" and "collect_everything_from_staled_agents handle senv s = Some s'"
  shows "keeps_ok s s'"
proof -
  let ?s0 = "s\<lparr> vs_agents := [] \<rparr>"
  let ?s1 = "if se_traders_load senv then load_agents senv (main_key s) 0
    (filter (\<lambda>t. tr_wallet t \<noteq> main_key s) (w_traders (vs_world s))) ?s0 else s"
  have "strategy_ok ?s0" "main_key ?s0 = main_key s"
    using assms(2) keeps_ok_no_agents [of s] by (simp_all add: keeps_ok_def same_frame_def)
  then have "keeps_ok s ?s1"
    using load_agents_ok [of ?s0 "main_key s" _ senv 0] keeps_ok_trans [OF keeps_ok_no_agents] by auto
  moreover have "keeps_ok ?s1 s'"
    using assms(3) for_agents_handle_ok [OF assms(1)]
    by (auto simp: collect_everything_from_staled_agents_def Let_def split: if_splits)
  ultimately show ?thesis by (rule keeps_ok_trans)
qed

lemma offload_ok:
  assumes "statig handle" and "offload_inventory handle senv s = Some s'"
  shows "keeps_ok s s'"
proof -
  obtain b s1 where 1: "cell_token_balance (se_main_env senv 0) (vs_main_wallet s) s = (b, s1)" by fastforce
  obtain c s2 where 2: "cell_sol_balance (se_main_env senv 0) (vs_main_wallet s) s1 = (c, s2)" by fastforce
  have "keeps_ok s s2" using cell_balance_ok(1) [OF 1] cell_balance_ok(2) [OF 2] by (rule keeps_ok_trans)
  moreover have "keeps_ok s2 s'"
    using assms(2) agent_handle_ok(1) [OF assms(1)] by (auto simp: offload_inventory_def 1 2 split: if_splits)
  ultimately show ?thesis by (rule keeps_ok_trans)
qed

lemma initialize_ok:
  assumes "statig handle" and "strategy_ok s" and "fresh_keys senv (main_key s)"
    and "initialize_agents_with_sol handle senv s = Some s'"
  shows "keeps_ok s s'"
proof -
  obtain amounts ts s1 where "create_funded_agents senv 0 amounts s = (ts, s1)"
    and "send_batches handle senv 0 (chunks MAX_TRANSFERS_IN_ONE_TX ts) s1 = Some s'"
    using assms(4) by (auto simp: initialize_agents_with_sol_def Let_def split: result.splits prod.splits)
  then show ?thesis
    using create_funded_agents_ok [OF assms(2,3)] send_batches_ok [OF assms(1)] keeps_ok_trans by blast
qed

text \<open>The body of the loops that read two balances before they act.\<close>

lemma balances_then_ok:
  assumes "cell_token_balance env r s = (b, s1)" and "cell_sol_balance env r s1 = (c, s2)" and "keeps_ok s2 s'"
  shows "keeps_ok s s'"
  using keeps_ok_trans [OF keeps_ok_trans [OF cell_balance_ok(1) [OF assms(1)] cell_balance_ok(2) [OF assms(2)]] assms(3)] .

lemma collect_token_ok:
  assumes "statig handle" and "collect_token_from_agents handle senv s = Some s'"
  shows "keeps_ok s s'"
  using assms(2) unfolding collect_token_from_agents_def Let_def
proof (elim for_agents_ok [rotated], goal_cases)
  case (1 i r t t')
  obtain b t1 where b: "cell_token_balance (se_env senv i) r t = (b, t1)" by fastforce
  obtain c t2 where c: "cell_sol_balance (se_env senv i) r t1 = (c, t2)" by fastforce
  have "keeps_ok t2 t'"
    using 1 agent_handle_ok(1) [OF assms(1)] by (auto simp: b c split: if_splits)
  then show ?case by (rule balances_then_ok [OF b c])
qed

lemma transfer_token_ok:
  assumes "statig handle" and "strategy_ok s" and "fresh_keys senv (main_key s)"
    and "transfer_token_to_sellers handle senv s = Some s'"
  shows "keeps_ok s s'"
proof -
  obtain b s1 where b: "cell_token_balance (se_main_env senv 0) (vs_main_wallet s) s = (b, s1)" by fastforce
  let ?s2 = "create_agents senv (vi_agents_selling_in_tranche (vs_instance s)) s1"
  obtain ts where "send_batches handle senv 0 (chunks MAX_TRANSFERS_IN_ONE_TX ts) ?s2 = Some s'"
    using assms(4) by (auto simp: transfer_token_to_sellers_def b Let_def split: result.splits bind_splits)
  then have "keeps_ok ?s2 s'" by (rule send_batches_ok [OF assms(1)])
  moreover have k: "keeps_ok s s1" using cell_balance_ok(1) [OF b] .
  moreover have "keeps_ok s1 ?s2"
    using k assms(2,3) by (intro create_agents_ok) (simp add: keeps_ok_def same_frame_def)
  ultimately show ?thesis using keeps_ok_trans by blast
qed

lemma strategy_sell_ok:
  assumes "statig handle" and "strategy_sell handle senv s = Some s'"
  shows "keeps_ok s s'"
  using assms(2) unfolding strategy_sell_def Let_def
proof (elim for_agents_ok [rotated], goal_cases)
  case (1 i r t t')
  obtain b t1 where b: "cell_token_balance (se_env senv i) r t = (b, t1)" by fastforce
  obtain c t2 where c: "cell_sol_balance (se_env senv i) r t1 = (c, t2)" by fastforce
  have "keeps_ok t1 t' \<or> keeps_ok t2 t'"
    using 1 agent_handle_ok(1) [OF assms(1)] by (auto simp: b c split: if_splits)
  then show ?case using balances_then_ok [OF b c] cell_balance_ok(1) [OF b] keeps_ok_trans by blast
qed

lemma strategy_entry_ok:
  assumes "statig handle" and "strategy_ok s" and "strategy_entry handle senv phase s = Some s'"
    and "fresh_keys senv (main_key s)"
  shows "strategy_ok s' \<and> same_frame s s' \<or> (\<exists>msg. phase = Strategy_error msg)"
proof -
  have "keeps_ok s s'" if "\<nexists>msg. phase = Strategy_error msg"
  proof (cases phase)
    case Buying_tokens
    then show ?thesis using assms(3) for_agents_handle_ok [OF assms(1)]
      by (auto simp: strategy_entry_def strategy_buy_def)
  next
    case Collecting_sol
    then show ?thesis using assms(3) for_agents_handle_ok [OF assms(1)]
      by (auto simp: strategy_entry_def collect_sol_from_agents_def)
  qed (use assms(3) that in \<open>auto simp: strategy_entry_def set_sleep_timer_before_selling_def
      intro: collect_everything_ok [OF assms(1,2)] offload_ok [OF assms(1)] initialize_ok [OF assms(1,2,4)]
        collect_token_ok [OF assms(1)] transfer_token_ok [OF assms(1,2,4)] strategy_sell_ok [OF assms(1)]\<close>)
  then show ?thesis using assms(2) by (auto simp: keeps_ok_def)
qed

section \<open>Reachable configurations\<close>

lemma strategy_on_dispatch_ok:
  "strategy_ok s \<Longrightarrow> ev \<in> range Original \<Longrightarrow> strategy_ok (strategy_on_dispatch ev s)"
  by (auto simp: strategy_ok_def strategy_on_dispatch_def main_key_def cell_agent_def)

lemma strategy_handler_ok:
  assumes "strategy_ok s" and "ev \<in> range Original" and "strategy_handler senv ev phase s = Some (r, s')"
  shows "strategy_ok s'" and "r = Transition t \<Longrightarrow> \<nexists>msg. t = Strategy_error msg"
proof -
  note ok = strategy_on_dispatch_ok [OF assms(1,2)]
  show "strategy_ok s'"
  proof (cases "phase = Sleeping")
    case True
    then have "s' = strategy_on_dispatch ev s \<or>
        s' = (strategy_on_dispatch ev s)\<lparr> vs_stopwatch := turn_off (vs_stopwatch s) \<rparr>"
      using assms(3) by (auto simp: strategy_handler_def sleeping_def strategy_on_dispatch_def Let_def
        split: SolanaStrategyEvent.splits BotEvent.splits result.splits bool.splits)
    then show ?thesis using ok keeps_ok_stopwatch by (auto simp: keeps_ok_def)
  qed (use assms(3) ok in \<open>simp add: strategy_handler_def Let_def\<close>)
  show "r = Transition t \<Longrightarrow> \<nexists>msg. t = Strategy_error msg"
    using assms(3)
    by (cases phase) (auto simp: strategy_handler_def phase_defs sleeping_def Let_def
      split: SolanaStrategyEvent.splits BotEvent.splits result.splits bool.splits State.splits ExecutionStatus.splits)
qed

lemma strategy_handler_key:
  assumes "strategy_handler senv ev phase s = Some (r, s')"
  shows "main_key s' = main_key s"
  using assms
  by (auto simp: strategy_handler_def sleeping_def strategy_on_dispatch_def main_key_def cell_agent_def Let_def
      split: if_splits SolanaStrategyEvent.splits BotEvent.splits result.splits bool.splits)

definition strategy_inv :: "keypair \<Rightarrow> Phase \<times> Strategy \<Rightarrow> bool" where
  "strategy_inv key = (\<lambda>(phase, self).
     strategy_ok self \<and> main_key self = key \<and> (\<nexists>msg. phase = Strategy_error msg))"

lemma strategy_run_inv:
  assumes "statig run_strategy" and "statig handle" and "strategy_inv key (phase, s)" and "ev \<in> range Original"
    and "run_strategy (strategy_machine handle senv) ev phase s = Some ps'"
    and "fresh_keys senv (main_key s)"
  shows "strategy_inv key ps'"
proof -
  obtain r s1 where h: "strategy_handler senv ev phase s = Some (r, s1)"
    and ps': "ps' = (phase, s1) \<or>
      (\<exists>t s2. r = Transition t \<and> strategy_entry handle senv t (strategy_exit senv phase s1) = Some s2 \<and> ps' = (t, s2))"
    using assms(5)
    by (auto simp: statig.handle_eq [OF assms(1)] statig_dispatch_def respond_def change_state_def
      strategy_machine_def split: option.splits Response.splits bind_splits)
  have "strategy_ok s" using assms(3) by (simp add: strategy_inv_def)
  note h' = strategy_handler_ok [OF this assms(4) h]
  let ?x = "strategy_exit senv phase s1"
  have x: "strategy_ok ?x" "main_key ?x = main_key s1"
    using h'(1) zero_agents_ok by (auto simp: strategy_exit_def keeps_ok_def same_frame_def)
  have "strategy_ok s2 \<and> main_key s2 = key" if "r = Transition t" "strategy_entry handle senv t ?x = Some s2" for t s2
    using strategy_entry_ok [OF assms(2) x(1) that(2)] x(2) strategy_handler_key [OF h] h'(2) [OF that(1)] assms(3,6)
    by (auto simp: strategy_inv_def same_frame_def)
  then show ?thesis using ps' h' strategy_handler_key [OF h] assms(3) by (auto simp: strategy_inv_def)
qed

lemma process_event_inv:
  assumes "statig run_strategy" and "statig handle" and "strategy_inv key ps"
    and "process_event run_strategy handle senv ev ps = Some (actions, ps')"
    and "fresh_keys senv (main_key (snd ps))"
  shows "strategy_inv key ps'"
proof -
  obtain phase s where ps'': "strategy_inv key (phase, s)"
    and ps': "ps' = (phase, s\<lparr> vs_world := (vs_world s)\<lparr> w_actions := [] \<rparr> \<rparr>)"
    using assms(3-5) strategy_run_inv [OF assms(1,2), of key "fst ps" "snd ps" "Original ev" senv]
    by (auto simp: process_event_def split: BotEvent.splits bind_splits prod.splits)
  then show ?thesis using keeps_ok_world by (fastforce simp: strategy_inv_def keeps_ok_def same_frame_def)
qed

lemma strategy_step_inv:
  assumes "statig run_strategy" and "statig handle"
  shows "strategy_step run_strategy handle ps ps' \<Longrightarrow> strategy_inv key ps \<Longrightarrow> strategy_inv key ps'"
proof (induction rule: strategy_step.induct)
  case (event senv ps ev actions ps')
  then show ?case using process_event_inv [OF assms] by blast
next
  case (deliver i self ev r rs env self' phase)
  have "(ev, r # rs) \<in> set (vs_tasks self)" using deliver(1,2) nth_mem by metis
  moreover have "strategy_ok self" using deliver.prems by (simp add: strategy_inv_def)
  moreover from this have "\<forall>x \<in> set (vs_tasks self). fst x \<in> range Original \<and> (\<forall>q \<in> set (snd x). q < vs_next self)"
    unfolding strategy_ok_def by (simp add: split_beta)
  ultimately have t: "\<forall>x \<in> insert (ev, rs) (set (vs_tasks self)).
      fst x \<in> range Original \<and> (\<forall>q \<in> set (snd x). q < vs_next self)"
    by auto
  have "strategy_ok self'" "main_key self' = key"
    using agent_handle_ok(1) [OF assms(2) deliver(3)] \<open>strategy_ok self\<close> deliver.prems
    by (simp_all add: keeps_ok_def strategy_inv_def same_frame_def)
  moreover have "\<forall>x \<in> set ((vs_tasks self)[i := (ev, rs)]).
      fst x \<in> range Original \<and> (\<forall>q \<in> set (snd x). q < vs_next self')"
    using t set_update_subset_insert agent_handle_ok(3) [OF assms(2) deliver(3)] by (metis subsetD)
  ultimately have "strategy_ok (self'\<lparr> vs_tasks := (vs_tasks self)[i := (ev, rs)] \<rparr>)"
    by (simp add: strategy_ok_def cell_agent_def main_key_def split_beta)
  then show ?case using deliver.prems \<open>main_key self' = key\<close>
    by (simp add: strategy_inv_def main_key_def cell_agent_def)
qed

lemma strategy_reach_inv:
  assumes "statig run_strategy" and "statig handle"
  shows "strategy_reach run_strategy handle ps ps' \<Longrightarrow> strategy_inv key ps \<Longrightarrow> strategy_inv key ps'"
  by (induction rule: strategy_reach.induct) (use strategy_step_inv [OF assms] in blast)+

lemma strategy_new_ok:
  "strategy_new senv inst pool key w = Some s \<Longrightarrow> strategy_ok s \<and> main_key s = key"
  using AgentState_new_main
  by (fastforce simp: strategy_new_def strategy_ok_def main_key_def cell_agent_def split: prod.splits option.splits)

section \<open>Batches\<close>

lemma concat_chunks: "0 < n \<Longrightarrow> concat (chunks n xs) = xs"
  by (induction n xs rule: chunks.induct) (subst chunks.simps, auto)

lemma chunks_first: "0 < n \<Longrightarrow> xs \<noteq> [] \<Longrightarrow> \<exists>bs. chunks n xs = take n xs # bs"
  by (subst chunks.simps) simp

lemma chunks_Nil [simp]: "chunks n [] = []"
  by (subst chunks.simps) simp

text \<open>A wallet that is transferring ignores a further batch.\<close>

lemma busy_transfer:
  "agent_step env (ForAgent (Transfer b)) (Transferring c r) aw = Some (Transferring c r, aw)"
  by (cases aw) (simp add: agent_step_eq agent_handler_def transition_to_success_or_error_def)

lemma send_batches_busy:
  assumes "statig handle" and "main_state s = Transferring c r"
  shows "send_batches handle senv i bs s = Some s"
  using assms(2)
proof (induction bs arbitrary: i)
  case (Cons b bs)
  obtain a where "vs_cells s (vs_main_wallet s) = (Transferring c r, a)"
    using Cons.prems by (cases "vs_cells s (vs_main_wallet s)") (simp add: main_state_def cell_state_def)
  then have "agent_handle handle (se_main_env senv i) (vs_main_wallet s) (ForAgent (Transfer b)) s = Some s"
    using busy_transfer fun_upd_triv [of "vs_cells s" "vs_main_wallet s"]
    by (simp add: agent_handle_def statig.handle_eq [OF assms(1)] cell_state_def cell_agent_def)
  then show ?case using Cons by simp
qed simp

lemma idle_transfer:
  assumes "st \<in> {Idle, Success}"
  shows "agent_step env (ForAgent (Transfer b)) st aw = Some (Transferring b 0, transfer env b aw)"
  using assms by (cases aw) (auto simp: agent_step_eq agent_handler_def idle_def success_def agent_entry_def)

lemma transfer_queue:
  "transfer env b (a, w) = (a', w') \<Longrightarrow>
     \<exists>x. w_actions w' = w_actions w @ [x] \<and> sa_action_payload x = map SolanaTransferActionPayload b"
  using queue_action_effect(2) by (fastforce simp: transfer_def Let_def new_with_feepayer_def)

lemma send_batches_first:
  assumes "statig handle" and "main_state s \<in> {Idle, Success}"
  shows "\<exists>s' x. send_batches handle senv i (b # bs) s = Some s' \<and> main_state s' = Transferring b 0 \<and>
    vs_agents s' = vs_agents s \<and> w_actions (vs_world s') = w_actions (vs_world s) @ [x] \<and>
    sa_action_payload x = map SolanaTransferActionPayload b \<and>
    (\<forall>r. r \<noteq> vs_main_wallet s \<longrightarrow> cell_agent s' r = cell_agent s r)"
proof -
  let ?r = "vs_main_wallet s"
  obtain a' w' where t: "transfer (se_main_env senv i) b (cell_agent s ?r, vs_world s) = (a', w')" by fastforce
  let ?s = "s\<lparr> vs_cells := (vs_cells s)(?r := (Transferring b 0, a')), vs_world := w' \<rparr>"
  have "agent_handle handle (se_main_env senv i) ?r (ForAgent (Transfer b)) s = Some ?s"
    using idle_transfer [OF assms(2)] t
    by (simp add: agent_handle_def statig.handle_eq [OF assms(1)] main_state_def)
  moreover have "main_state ?s = Transferring b 0" by (simp add: main_state_def cell_agent_upd)
  ultimately show ?thesis
    using transfer_queue [OF t] send_batches_busy [OF assms(1)] by (auto simp: cell_agent_upd)
qed

text \<open>Creating the funded agents: what it leaves alone, and one transfer for each new agent.\<close>

lemma AgentState_new_actions: "AgentState_new env pool key sid mw w = (x, w') \<Longrightarrow> w_actions w' = w_actions w"
  by (auto simp: AgentState_new_def query_balances_def db_read_or_create_def agent_drop_def Let_def
      split: option.splits prod.splits if_splits)

lemma new_strategy_agent_actions:
  "new_strategy_agent senv i s = (x, s1) \<Longrightarrow> w_actions (vs_world s1) = w_actions (vs_world s)"
  using AgentState_new_actions by (fastforce simp: new_strategy_agent_def split: prod.splits)

lemma create_funded_agents_effect:
  assumes "create_funded_agents senv i amounts s = (ts, s')" and "vs_main_wallet s < vs_next s"
  shows "w_actions (vs_world s') = w_actions (vs_world s) \<and> main_state s' = main_state s \<and>
    vs_main_wallet s' = vs_main_wallet s \<and> vs_next s \<le> vs_next s' \<and>
    (\<forall>r < vs_next s. cell_agent s' r = cell_agent s r) \<and>
    (\<exists>new. vs_agents s' = vs_agents s @ new \<and> (\<forall>r \<in> set new. vs_next s \<le> r) \<and>
       map tp_receiver ts = map (\<lambda>r. agent_pubkey (cell_agent s' r)) new)"
  using assms
proof (induction amounts arbitrary: i s ts)
  case (Cons a amounts)
  obtain x s1 where t: "new_strategy_agent senv i s = (x, s1)" by fastforce
  obtain w where s1: "s1 = s\<lparr> vs_world := w \<rparr>" using new_strategy_agent_ok(1) [OF t] ..
  have acts: "w_actions w = w_actions (vs_world s)" using new_strategy_agent_actions [OF t] s1 by simp
  show ?case
  proof (cases x)
    case None
    then have "create_funded_agents senv (i + 1) amounts s1 = (ts, s')" using Cons.prems(1) t by simp
    moreover have "main_state s1 = main_state s" "cell_agent s1 r = cell_agent s r" for r
      by (simp_all add: s1 main_state_def cell_state_def cell_agent_def)
    ultimately show ?thesis using Cons.IH [of "i + 1" s1 ts] acts Cons.prems(2) s1 by simp
  next
    case (Some ag)
    let ?s2 = "add_agent ag s1"
    obtain us where us: "create_funded_agents senv (i + 1) amounts ?s2 = (us, s')"
      and ts: "map tp_receiver ts = agent_pubkey ag # map tp_receiver us"
      using Cons.prems(1) t Some by (auto split: prod.splits)
    have 2: "vs_main_wallet ?s2 = vs_main_wallet s" "vs_next ?s2 = vs_next s + 1"
      "vs_agents ?s2 = vs_agents s @ [vs_next s]" "cell_agent ?s2 (vs_next s) = ag"
      "\<And>r. r < vs_next s \<Longrightarrow> cell_agent ?s2 r = cell_agent s r" "main_state ?s2 = main_state s"
      "w_actions (vs_world ?s2) = w_actions (vs_world s)"
      using acts Cons.prems(2) by (auto simp: s1 add_agent_def main_state_def cell_state_def cell_agent_def)
    have IH: "w_actions (vs_world s') = w_actions (vs_world s)" "main_state s' = main_state s"
      "vs_main_wallet s' = vs_main_wallet s" "vs_next s + 1 \<le> vs_next s'"
      "\<forall>r < vs_next s + 1. cell_agent s' r = cell_agent ?s2 r"
      "\<exists>new. vs_agents s' = vs_agents s @ [vs_next s] @ new \<and> (\<forall>r \<in> set new. vs_next s + 1 \<le> r) \<and>
         map tp_receiver us = map (\<lambda>r. agent_pubkey (cell_agent s' r)) new"
      using Cons.IH [OF us] Cons.prems(2) unfolding 2 by auto
    obtain new where "vs_agents s' = vs_agents s @ (vs_next s # new)" "\<forall>r \<in> set new. vs_next s + 1 \<le> r"
      "map tp_receiver us = map (\<lambda>r. agent_pubkey (cell_agent s' r)) new" using IH(6) by auto
    moreover have "cell_agent s' (vs_next s) = ag" using IH(5) 2(4) by simp
    ultimately have "\<exists>new. vs_agents s' = vs_agents s @ new \<and> (\<forall>r \<in> set new. vs_next s \<le> r) \<and>
         map tp_receiver ts = map (\<lambda>r. agent_pubkey (cell_agent s' r)) new"
      using ts by (intro exI [of _ "vs_next s # new"]) auto
    then show ?thesis using IH(1-5) 2(5) by simp
  qed
qed simp

section \<open>The stuck phase\<close>

lemma idle_keeps_idle:
  "ev \<in> range Original \<Longrightarrow> agent_step env ev Idle aw = Some (st, aw') \<Longrightarrow> st = Idle"
  by (cases aw) (auto simp: agent_step_eq agent_handler_def idle_def)

definition fund_stuck :: "nat list \<Rightarrow> Phase \<times> Strategy \<Rightarrow> bool" where
  "fund_stuck agents = (\<lambda>(phase, s). phase = Fund \<and> main_state s = Idle \<and> vs_agents s = agents \<and> strategy_ok s)"

lemma fund_stuck_step:
  assumes "statig run_strategy" and "statig handle"
  shows "strategy_step run_strategy handle ps ps' \<Longrightarrow> fund_stuck agents ps \<Longrightarrow> fund_stuck agents ps'"
proof (induction rule: strategy_step.induct)
  case (event senv ps ev actions ps')
  obtain s where ps: "ps = (Fund, s)" "main_state s = Idle" "vs_agents s = agents" "strategy_ok s"
    using event.prems by (cases ps) (simp add: fund_stuck_def)
  have "run_strategy (strategy_machine handle senv) (Original ev) Fund s =
      Some (Fund, strategy_on_dispatch (Original ev) s)"
    using ps(2) by (simp add: statig.handle_eq [OF assms(1)] statig_dispatch_def respond_def strategy_machine_def
      strategy_handler_def phase_defs strategy_on_dispatch_def main_state_def cell_state_def Let_def)
  then have "fst ps' = Fund \<and> main_state (snd ps') = Idle \<and> vs_agents (snd ps') = agents"
    using event(2) ps by (auto simp: process_event_def strategy_on_dispatch_def main_state_def cell_state_def
      split: BotEvent.splits bind_splits)
  moreover have "strategy_inv (main_key s) ps'"
    using process_event_inv [OF assms _ event(2,1)] ps by (simp add: strategy_inv_def)
  ultimately show ?case by (cases ps') (simp add: fund_stuck_def strategy_inv_def)
next
  case (deliver i self ev r rs env self' phase)
  let ?s = "self'\<lparr> vs_tasks := (vs_tasks self)[i := (ev, rs)] \<rparr>"
  have inv: "strategy_inv (main_key self) (phase, self)" "phase = Fund" "main_state self = Idle" "vs_agents self = agents"
    using deliver.prems by (simp_all add: fund_stuck_def strategy_inv_def)
  have "strategy_ok ?s"
    using strategy_step_inv [OF assms strategy_step.deliver [OF deliver(1,2,3)] inv(1)] by (simp add: strategy_inv_def)
  have "(ev, r # rs) \<in> set (vs_tasks self)" using deliver(1,2) nth_mem by metis
  then have "ev \<in> range Original"
    using inv(1) unfolding strategy_inv_def strategy_ok_def by auto
  moreover obtain st ag w where
      step: "agent_step env ev (cell_state self r) (cell_agent self r, vs_world self) = Some (st, (ag, w))"
    and self': "self' = self\<lparr> vs_cells := (vs_cells self)(r := (st, ag)), vs_world := w \<rparr>"
    using agent_handle_Some [OF assms(2) deliver(3)] by metis
  ultimately have "st = Idle" if "r = vs_main_wallet self"
    using inv(3) idle_keeps_idle that by (auto simp: main_state_def)
  then have "main_state ?s = Idle" using inv(3) by (simp add: self' main_state_def cell_state_def)
  then show ?case using \<open>strategy_ok ?s\<close> inv agent_handle_ok(2) [OF assms(2) deliver(3)]
    by (simp add: fund_stuck_def)
qed

lemma fund_stuck_reach:
  assumes "statig run_strategy" and "statig handle"
  shows "strategy_reach run_strategy handle ps ps' \<Longrightarrow> fund_stuck agents ps \<Longrightarrow> fund_stuck agents ps'"
  by (induction rule: strategy_reach.induct) (use fund_stuck_step [OF assms] in blast)+

text \<open>The execution status read off the states of the agents.\<close>

definition settled :: "State \<Rightarrow> bool" where
  "settled st \<longleftrightarrow> (case st of Success \<Rightarrow> True | Error _ \<Rightarrow> True | Deactivating _ \<Rightarrow> True | Deactivated \<Rightarrow> True | _ \<Rightarrow> False)"

lemma status_loop_eq:
  "status_loop s rs e k =
     (if list_ex (\<lambda>r. \<not> settled (cell_state s r)) rs then ExecPending
      else if k + length (filter (\<lambda>r. cell_state s r = Success) rs) = length (vs_agents s) then ExecDone
      else ExecError)"
  by (induction rs arbitrary: e k) (auto simp: settled_def split: State.splits)

section \<open>Example data\<close>

definition example_instance :: VolumeStrategyInstance where
  "example_instance = \<lparr> vi_id = 1, vi_user_id = 1, vi_target_pool = [1], vi_started_at = 0,
     vi_completed_at = None, vi_tranche_size_sol = 0, vi_tranche_frequency_hbs = 10,
     vi_tranche_length_hbs = 10, vi_agents_buying_in_tranche = 2, vi_agents_selling_in_tranche = 2,
     vi_agents_keep_tokens_lamports = 0 \<rparr>"

definition example_senv :: SEnv where
  "example_senv = \<lparr> se_env = example_env, se_main_env = example_env, se_key = (\<lambda>i. [30, of_nat i]),
     se_now = 0, se_utc = 0, se_db_connects = True, se_traders_load = False, se_notifies = True,
     se_sample = (\<lambda>n a. replicate n 0) \<rparr>"

definition example_strategy :: Strategy where
  "example_strategy = \<lparr> vs_instance = example_instance, vs_pool = example_pool, vs_main_wallet = 0,
     vs_agents = [], vs_stopwatch = Stopwatch_new 0 10, vs_cells = (\<lambda>_. (Idle, example_agent None None)),
     vs_next = 1, vs_tasks = [], vs_world = example_world \<rparr>"

lemma example_strategy_ok: "strategy_ok example_strategy"
  by (simp add: strategy_ok_def example_strategy_def cell_agent_def)

lemma example_main_idle: "main_state example_strategy = Idle"
  by (simp add: main_state_def cell_state_def example_strategy_def)

section \<open>Properties\<close>



text \<open>The execution status computed by the loop with its two counters and its early return is the
  one read off the states of the agents: an error when there are none, pending as soon as one is
  neither successful nor failed (an idle agent counts as pending), done when all are successful, and
  an error otherwise.\<close>

theorem execution_status_exact:
  "get_execution_status s =
     (let sts = map (cell_state s) (vs_agents s)
      in if sts = [] then ExecError
         else if list_ex (\<lambda>st. \<not> settled st) sts then ExecPending
         else if list_all (\<lambda>st. st = Success) sts then ExecDone
         else ExecError)"
proof -
  have "length (filter P xs) = length xs \<longleftrightarrow> list_all P xs" for P and xs :: "nat list"
    by (metis filter_id_conv length_filter_less less_irrefl list_all_iff)
  then show ?thesis
    by (simp add: get_execution_status_def status_loop_eq Let_def list_ex_iff list_all_iff)
qed

text \<open>Funding reaches the first batch only. From a main wallet that is idle or successful, entering
  \<open>Fund\<close> creates agents and one transfer for each, but the wallet is busy after the first batch of
  twelve and ignores the others: exactly one action is queued, with the transfers to the first twelve
  new agents, and the wallet waits for that one.\<close>

theorem funding_sends_first_batch_only:
  assumes "statig handle" and "strategy_ok s" and "main_state s \<in> {Idle, Success}"
    and "initialize_agents_with_sol handle senv s = Some s'"
  shows "\<exists>new ts. vs_agents s' = vs_agents s @ new \<and>
    map tp_receiver ts = map (\<lambda>r. agent_pubkey (cell_agent s' r)) new \<and>
    (if ts = [] then main_state s' = main_state s \<and> w_actions (vs_world s') = w_actions (vs_world s)
     else main_state s' = Transferring (take 12 ts) 0 \<and>
       (\<exists>x. w_actions (vs_world s') = w_actions (vs_world s) @ [x] \<and>
          sa_action_payload x = map SolanaTransferActionPayload (take 12 ts)))"
proof -
  obtain amounts ts s1 where c: "create_funded_agents senv 0 amounts s = (ts, s1)"
    and b: "send_batches handle senv 0 (chunks MAX_TRANSFERS_IN_ONE_TX ts) s1 = Some s'"
    using assms(4) by (auto simp: initialize_agents_with_sol_def Let_def split: result.splits prod.splits)
  have m: "vs_main_wallet s < vs_next s" using assms(2) by (simp add: strategy_ok_def)
  obtain new where e: "vs_agents s1 = vs_agents s @ new" "\<forall>r \<in> set new. vs_next s \<le> r"
    "map tp_receiver ts = map (\<lambda>r. agent_pubkey (cell_agent s1 r)) new"
    and s1: "w_actions (vs_world s1) = w_actions (vs_world s)" "main_state s1 = main_state s"
      "vs_main_wallet s1 = vs_main_wallet s"
    using create_funded_agents_effect [OF c m] by blast
  show ?thesis
  proof (cases "ts = []")
    case True
    then show ?thesis using b e s1 by auto
  next
    case False
    then obtain bs where "chunks MAX_TRANSFERS_IN_ONE_TX ts = take 12 ts # bs"
      using chunks_first [of 12 ts] by (auto simp: MAX_TRANSFERS_IN_ONE_TX_def)
    then obtain x where x: "main_state s' = Transferring (take 12 ts) 0" "vs_agents s' = vs_agents s1"
      "w_actions (vs_world s') = w_actions (vs_world s1) @ [x]"
      "sa_action_payload x = map SolanaTransferActionPayload (take 12 ts)"
      "\<forall>r. r \<noteq> vs_main_wallet s1 \<longrightarrow> cell_agent s' r = cell_agent s1 r"
      using send_batches_first [OF assms(1), of s1 senv 0 "take 12 ts" bs] b s1(2) assms(3) by auto
    have "\<forall>r \<in> set new. cell_agent s' r = cell_agent s1 r" using x(5) e(2) m s1(3) by auto
    then have "map tp_receiver ts = map (\<lambda>r. agent_pubkey (cell_agent s' r)) new" using e(3) by auto
    then show ?thesis using x(1-4) e(1) s1(1) False by auto
  qed
qed

theorem funding_sends_first_batch_only_witness:
  "\<exists>s' x. initialize_agents_with_sol statig_dispatch example_senv
      (example_strategy\<lparr> vs_instance := example_instance\<lparr> vi_agents_buying_in_tranche := 1 \<rparr> \<rparr>) = Some s' \<and>
    w_actions (vs_world s') = [x]"
proof -
  let ?s = "example_strategy\<lparr> vs_instance := example_instance\<lparr> vi_agents_buying_in_tranche := 1 \<rparr> \<rparr>"
  have ok: "strategy_ok ?s" "main_state ?s \<in> {Idle, Success}" "vs_agents ?s = []" "w_actions (vs_world ?s) = []"
    by (simp_all add: strategy_ok_def example_strategy_def example_world_def cell_agent_def main_state_def cell_state_def)
  obtain t s1 where c: "create_funded_agents example_senv 0 [0] ?s = ([t], s1)" and one: "vs_agents s1 = [1]"
    by (simp add: new_strategy_agent_def AgentState_new_def db_read_or_create_def query_balances_def Let_def
      example_senv_def example_env_def example_strategy_def example_world_def example_instance_def fresh_agent_def add_agent_def)
  have "main_state s1 \<in> {Idle, Success}"
    using create_funded_agents_effect [OF c] ok(1,2) by (simp add: strategy_ok_def)
  moreover have "chunks MAX_TRANSFERS_IN_ONE_TX [t] = [[t]]"
    by (subst chunks.simps) (simp add: MAX_TRANSFERS_IN_ONE_TX_def)
  moreover have "initialize_agents_with_sol statig_dispatch example_senv ?s =
      send_batches statig_dispatch example_senv 0 (chunks MAX_TRANSFERS_IN_ONE_TX [t]) s1"
    using c by (simp add: initialize_agents_with_sol_def get_dirichlet_distributed_with_min_amount_def as_usize_def
      example_instance_def example_senv_def Let_def)
  ultimately obtain s' where s': "initialize_agents_with_sol statig_dispatch example_senv ?s = Some s'"
    "vs_agents s' = [1]"
    using send_batches_first [OF reference.statig_axioms, of s1 example_senv 0 "[t]" "[]"] one by auto
  from funding_sends_first_batch_only [OF reference.statig_axioms ok(1,2) s'(1)] s' ok(3,4)
  show ?thesis by (auto split: if_splits)
qed

text \<open>The phase \<open>Fund\<close> with an idle main wallet is never left. It is what the phase finds when no
  agent could be created, and also after a failed transfer, whose error the main wallet leaves for
  \<open>Idle\<close> on the next delivery: whatever events arrive and are delivered, the strategy stays in \<open>Fund\<close>
  with the same agents and an idle wallet.\<close>

theorem fund_waits_forever:
  assumes "statig run_strategy" and "statig handle" and "strategy_ok s" and "main_state s = Idle"
    and "strategy_reach run_strategy handle (Fund, s) (phase, s')"
  shows "phase = Fund \<and> main_state s' = Idle \<and> vs_agents s' = vs_agents s"
  using fund_stuck_reach [OF assms(1,2,5), of "vs_agents s"] assms(3,4) by (simp add: fund_stuck_def)

theorem fund_waits_forever_witness:
  "\<exists>s'. strategy_step statig_dispatch statig_dispatch (Fund, example_strategy) (Fund, s') \<and> main_state s' = Idle"
proof -
  have p: "process_event statig_dispatch statig_dispatch example_senv (HeartBeat 0 0) (Fund, example_strategy) =
      Some ([], Fund, strategy_on_dispatch (Original (HeartBeat 0 0)) example_strategy)"
    using example_main_idle
    by (simp add: process_event_def statig_dispatch_def respond_def strategy_machine_def strategy_handler_def
      phase_defs strategy_on_dispatch_def main_state_def cell_state_def Let_def example_strategy_def example_world_def)
  have "fresh_keys example_senv (main_key (snd (Fund, example_strategy)))"
    by (simp add: fresh_keys_def example_senv_def example_strategy_def main_key_def cell_agent_def example_agent_def fresh_agent_def)
  note step = strategy_step.event [OF this p]
  from fund_waits_forever [OF reference.statig_axioms reference.statig_axioms example_strategy_ok example_main_idle
      strategy_reach.step [OF strategy_reach.refl step]]
  show ?thesis using step by blast
qed

end
