(* ===== verification/Token_Meta.thy ===== *)
theory Token_Meta
  imports Wire
begin

text \<open>
  Tokens (\<open>crates/solana_farm_sdk/src/token.rs\<close>): the metadata record of a token with its byte layout, and
  the enumerations of the file. \<open>str::to_lowercase\<close> follows the Unicode tables and is an argument. JSON
  adapters and the token list of the web are not modelled.
\<close>

section \<open>Enumerations\<close>

datatype TokenType =
    TokenType_NativeSol | TokenType_WrappedSol | TokenType_WrappedSollet |
    TokenType_WrappedWarmhole | TokenType_SplToken | TokenType_LpToken | TokenType_VtToken |
    TokenType_FundToken

fun TokenType_as_u8 :: "TokenType \<Rightarrow> u8" where
  "TokenType_as_u8 TokenType_NativeSol = 0"
| "TokenType_as_u8 TokenType_WrappedSol = 1"
| "TokenType_as_u8 TokenType_WrappedSollet = 2"
| "TokenType_as_u8 TokenType_WrappedWarmhole = 3"
| "TokenType_as_u8 TokenType_SplToken = 4"
| "TokenType_as_u8 TokenType_LpToken = 5"
| "TokenType_as_u8 TokenType_VtToken = 6"
| "TokenType_as_u8 TokenType_FundToken = 7"

definition TokenType_try_from_primitive :: "u8 \<Rightarrow> TokenType option" where
  "TokenType_try_from_primitive b =
     find (\<lambda>t. TokenType_as_u8 t = b)
       [TokenType_NativeSol, TokenType_WrappedSol, TokenType_WrappedSollet,
        TokenType_WrappedWarmhole, TokenType_SplToken, TokenType_LpToken, TokenType_VtToken,
        TokenType_FundToken]"

lemma TokenType_round_trip [simp]:
  "TokenType_try_from_primitive (TokenType_as_u8 t) = Some t"
  by (cases t) (simp_all add: TokenType_try_from_primitive_def)

fun TokenType_fmt :: "TokenType \<Rightarrow> string" where
  "TokenType_fmt TokenType_NativeSol = ''NativeSol''"
| "TokenType_fmt TokenType_WrappedSol = ''WrappedSol''"
| "TokenType_fmt TokenType_WrappedSollet = ''WrappedSollet''"
| "TokenType_fmt TokenType_WrappedWarmhole = ''WrappedWarmhole''"
| "TokenType_fmt TokenType_SplToken = ''SplToken''"
| "TokenType_fmt TokenType_LpToken = ''LpToken''"
| "TokenType_fmt TokenType_VtToken = ''VtToken''"
| "TokenType_fmt TokenType_FundToken = ''FundToken''"

datatype TokenSelector =
    TokenSelector_TokenA | TokenSelector_TokenB

fun TokenSelector_as_u8 :: "TokenSelector \<Rightarrow> u8" where
  "TokenSelector_as_u8 TokenSelector_TokenA = 0"
| "TokenSelector_as_u8 TokenSelector_TokenB = 1"

definition TokenSelector_try_from_primitive :: "u8 \<Rightarrow> TokenSelector option" where
  "TokenSelector_try_from_primitive b =
     find (\<lambda>t. TokenSelector_as_u8 t = b)
       [TokenSelector_TokenA, TokenSelector_TokenB]"

lemma TokenSelector_round_trip [simp]:
  "TokenSelector_try_from_primitive (TokenSelector_as_u8 t) = Some t"
  by (cases t) (simp_all add: TokenSelector_try_from_primitive_def)

fun TokenSelector_fmt :: "TokenSelector \<Rightarrow> string" where
  "TokenSelector_fmt TokenSelector_TokenA = ''TokenA''"
| "TokenSelector_fmt TokenSelector_TokenB = ''TokenB''"

definition TokenSelector_from_str :: "(string \<Rightarrow> string) \<Rightarrow> string \<Rightarrow> TokenSelector result" where
  "TokenSelector_from_str to_lowercase s =
     (let l = to_lowercase s in
      if l = ''tokena'' then Ok TokenSelector_TokenA
      else if l = ''tokenb'' then Ok TokenSelector_TokenB
      else Err InvalidArgument)"

datatype OracleType =
    OracleType_Pyth | OracleType_Chainlink | OracleType_Unsupported

fun OracleType_as_u8 :: "OracleType \<Rightarrow> u8" where
  "OracleType_as_u8 OracleType_Pyth = 0"
| "OracleType_as_u8 OracleType_Chainlink = 1"
| "OracleType_as_u8 OracleType_Unsupported = 2"

definition OracleType_try_from_primitive :: "u8 \<Rightarrow> OracleType option" where
  "OracleType_try_from_primitive b =
     find (\<lambda>t. OracleType_as_u8 t = b)
       [OracleType_Pyth, OracleType_Chainlink, OracleType_Unsupported]"

lemma OracleType_round_trip [simp]:
  "OracleType_try_from_primitive (OracleType_as_u8 t) = Some t"
  by (cases t) (simp_all add: OracleType_try_from_primitive_def)

fun OracleType_fmt :: "OracleType \<Rightarrow> string" where
  "OracleType_fmt OracleType_Pyth = ''Pyth''"
| "OracleType_fmt OracleType_Chainlink = ''Chainlink''"
| "OracleType_fmt OracleType_Unsupported = ''Unsupported''"

definition OracleType_from_str :: "(string \<Rightarrow> string) \<Rightarrow> string \<Rightarrow> OracleType result" where
  "OracleType_from_str to_lowercase s =
     (let l = to_lowercase s in
      if l = ''pyth'' then Ok OracleType_Pyth
      else if l = ''chainlink'' then Ok OracleType_Chainlink
      else if l = ''unsupported'' then Ok OracleType_Unsupported
      else Err InvalidArgument)"

section \<open>Tokens\<close>

record Token =
  tok_name :: ArrayString64
  tok_description :: ArrayString64
  tok_token_type :: TokenType
  tok_refdb_index :: "u32 option"
  tok_refdb_counter :: u16
  tok_decimals :: u8
  tok_chain_id :: u16
  tok_mint :: pubkey
  tok_oracle_type :: OracleType
  tok_oracle_account :: "pubkey option"
  tok_description_account :: pubkey

definition Token_LEN :: usize where "Token_LEN = 237"

definition Token_fields :: "Token \<Rightarrow> window list" where
  "Token_fields self =
     [(64, pack_array_string64 (tok_name self)), (64, pack_array_string64 (tok_description self)),
      (1, put [TokenType_as_u8 (tok_token_type self)]), (5, pack_option_u32 (tok_refdb_index self)),
      (2, put (to_le_bytes (tok_refdb_counter self))), (1, put [(tok_decimals self)]),
      (2, put (to_le_bytes (tok_chain_id self))), (32, put (tok_mint self)),
      (1, put [OracleType_as_u8 (tok_oracle_type self)]),
      (33, pack_option_key (tok_oracle_account self)), (32, put (tok_description_account self))]"

definition Token_pack :: "Token \<Rightarrow> bytes \<Rightarrow> (usize, bytes) effect" where
  "Token_pack self output =
     seq (pure_in output (check_data_len output Token_LEN)) (\<lambda>_ output.
       (Ok Token_LEN, mut_array_refs (Token_fields self) output))"

definition Token_get_size :: "Token \<Rightarrow> usize" where
  "Token_get_size self = Token_LEN"

definition Token_to_vec :: "Token \<Rightarrow> bytes result" where
  "Token_to_vec = to_vec_or InvalidAccountData Token_LEN Token_pack"

definition Token_decode :: "(bytes \<Rightarrow> bool) \<Rightarrow> bytes list \<Rightarrow> Token result" where
  "Token_decode utf8 refs =
     (case refs of
        [name, description, token_type, refdb_index, refdb_counter, decimals, chain_id, mint,
         oracle_type, oracle_account, description_account] \<Rightarrow>
          bind (unpack_array_string64 utf8 name) (\<lambda>name.
          bind (unpack_array_string64 utf8 description) (\<lambda>description.
          bind (ok_or (TokenType_try_from_primitive (token_type ! 0)) InvalidAccountData) (\<lambda>token_type.
          bind (unpack_option_u32 refdb_index) (\<lambda>refdb_index.
          bind (ok_or (OracleType_try_from_primitive (oracle_type ! 0)) InvalidAccountData) (\<lambda>oracle_type.
          bind (unpack_option_key oracle_account) (\<lambda>oracle_account.
            Ok \<lparr> tok_name = name, tok_description = description, tok_token_type = token_type,
              tok_refdb_index = refdb_index, tok_refdb_counter = from_le_bytes refdb_counter,
              tok_decimals = decimals ! 0, tok_chain_id = from_le_bytes chain_id, tok_mint = mint,
              tok_oracle_type = oracle_type, tok_oracle_account = oracle_account,
              tok_description_account = description_account \<rparr>))))))
      | _ \<Rightarrow> Panic)"

definition Token_unpack :: "(bytes \<Rightarrow> bool) \<Rightarrow> bytes \<Rightarrow> Token result" where
  "Token_unpack utf8 input =
     bind (check_data_len input Token_LEN) (\<lambda>_.
     bind (array_ref input 0 Token_LEN) (\<lambda>input.
       Token_decode utf8 (array_refs [64, 64, 1, 5, 2, 1, 2, 32, 1, 33, 32] input)))"

definition Token_valid :: "(bytes \<Rightarrow> bool) \<Rightarrow> Token \<Rightarrow> bool" where
  "Token_valid utf8 self \<longleftrightarrow>
     packable_name utf8 (tok_name self) \<and>
     packable_name utf8 (tok_description self) \<and>
     valid_key (tok_mint self) \<and>
     valid_key_opt (tok_oracle_account self) \<and>
     valid_key (tok_description_account self)"

interpretation token: windowed Token_fields Token_LEN "[64, 64, 1, 5, 2, 1, 2, 32, 1, 33, 32]"
  "Token_decode utf8" Token_pack "Token_unpack utf8" "Token_valid utf8"
proof
  fix x out inp
  show "Token_pack x out = seq (pure_in out (check_data_len out Token_LEN)) (\<lambda>_ out.
      (Ok Token_LEN, mut_array_refs (Token_fields x) out))"
    and "Token_unpack utf8 inp = bind (check_data_len inp Token_LEN) (\<lambda>_.
      bind (array_ref inp 0 Token_LEN) (\<lambda>inp. Token_decode utf8 (array_refs [64, 64, 1, 5, 2, 1, 2, 32, 1, 33, 32] inp)))"
    by (simp_all only: Token_pack_def Token_unpack_def)
next
  fix x refs
  assume "shaped [64, 64, 1, 5, 2, 1, 2, 32, 1, 33, 32] refs" and "Token_decode utf8 refs = Ok x"
  then show "Token_valid utf8 x"
    by (auto simp: Token_decode_def Token_valid_def valid_key_def result_simps) ((erule (1) field_valid)+)?
qed (simp_all add: Token_LEN_def Token_fields_def Token_decode_def Token_valid_def valid_key_def no_panic)

end
