(* ===== verification/Farm_Meta.thy ===== *)
theory Farm_Meta
  imports Wire
begin

text \<open>
  Stake farms (\<open>crates/solana_farm_sdk/src/farm.rs\<close>): the metadata record of a farm, with the accounts of
  its protocol, and its byte layout, one for each protocol.
\<close>

section \<open>Enumerations\<close>

datatype FarmRoute =
    FarmRoute_Raydium pubkey pubkey pubkey pubkey "pubkey option"
  | FarmRoute_Orca pubkey pubkey pubkey pubkey pubkey

datatype FarmRouteType =
    FarmRouteType_Raydium | FarmRouteType_Orca

fun FarmRouteType_as_u8 :: "FarmRouteType \<Rightarrow> u8" where
  "FarmRouteType_as_u8 FarmRouteType_Raydium = 0"
| "FarmRouteType_as_u8 FarmRouteType_Orca = 1"

definition FarmRouteType_try_from_primitive :: "u8 \<Rightarrow> FarmRouteType option" where
  "FarmRouteType_try_from_primitive b =
     find (\<lambda>t. FarmRouteType_as_u8 t = b)
       [FarmRouteType_Raydium, FarmRouteType_Orca]"

lemma FarmRouteType_round_trip [simp]:
  "FarmRouteType_try_from_primitive (FarmRouteType_as_u8 t) = Some t"
  by (cases t) (simp_all add: FarmRouteType_try_from_primitive_def)

datatype FarmType =
    FarmType_SingleReward | FarmType_DualReward | FarmType_ProtocolTokenStake

fun FarmType_as_u8 :: "FarmType \<Rightarrow> u8" where
  "FarmType_as_u8 FarmType_SingleReward = 0"
| "FarmType_as_u8 FarmType_DualReward = 1"
| "FarmType_as_u8 FarmType_ProtocolTokenStake = 2"

definition FarmType_try_from_primitive :: "u8 \<Rightarrow> FarmType option" where
  "FarmType_try_from_primitive b =
     find (\<lambda>t. FarmType_as_u8 t = b)
       [FarmType_SingleReward, FarmType_DualReward, FarmType_ProtocolTokenStake]"

lemma FarmType_round_trip [simp]:
  "FarmType_try_from_primitive (FarmType_as_u8 t) = Some t"
  by (cases t) (simp_all add: FarmType_try_from_primitive_def)

fun FarmType_fmt :: "FarmType \<Rightarrow> string" where
  "FarmType_fmt FarmType_SingleReward = ''SingleReward''"
| "FarmType_fmt FarmType_DualReward = ''DualReward''"
| "FarmType_fmt FarmType_ProtocolTokenStake = ''ProtocolTokenStake''"

section \<open>Farms\<close>

record Farm =
  frm_name :: ArrayString64
  frm_version :: u16
  frm_farm_type :: FarmType
  frm_official :: bool
  frm_refdb_index :: "u32 option"
  frm_refdb_counter :: u16
  frm_lp_token_ref :: "pubkey option"
  frm_first_reward_token_ref :: "pubkey option"
  frm_second_reward_token_ref :: "pubkey option"
  frm_router_program_id :: pubkey
  frm_farm_program_id :: pubkey
  frm_route :: FarmRoute

definition Farm_MAX_LEN :: usize where "Farm_MAX_LEN = 655"
definition Farm_RAYDIUM_FARM_LEN :: usize where "Farm_RAYDIUM_FARM_LEN = 400"
definition Farm_ORCA_FARM_LEN :: usize where "Farm_ORCA_FARM_LEN = 399"

definition Farm_raydium_fields :: "Farm \<Rightarrow> window list option" where
  "Farm_raydium_fields self =
     (case frm_route self of
        FarmRoute_Raydium farm_id farm_authority farm_lp_token_account farm_first_reward_token_account
          farm_second_reward_token_account \<Rightarrow>
          Some
           [(64, pack_array_string64 (frm_name self)), (2, put (to_le_bytes (frm_version self))),
            (1, put [FarmType_as_u8 (frm_farm_type self)]),
            (1, put [bool_as_u8 (frm_official self)]), (5, pack_option_u32 (frm_refdb_index self)),
            (2, put (to_le_bytes (frm_refdb_counter self))),
            (33, pack_option_key (frm_lp_token_ref self)),
            (33, pack_option_key (frm_first_reward_token_ref self)),
            (33, pack_option_key (frm_second_reward_token_ref self)),
            (32, put (frm_router_program_id self)), (32, put (frm_farm_program_id self)),
            (32, put farm_id), (32, put farm_authority), (32, put farm_lp_token_account),
            (32, put farm_first_reward_token_account),
            (33, pack_option_key farm_second_reward_token_account)]
      | _ \<Rightarrow> None)"

definition Farm_pack_raydium :: "Farm \<Rightarrow> bytes \<Rightarrow> (usize, bytes) effect" where
  "Farm_pack_raydium self output =
     seq (pure_in output (check_data_len output Farm_RAYDIUM_FARM_LEN)) (\<lambda>_ output.
       (case Farm_raydium_fields self of
          Some fs \<Rightarrow>
            (Ok Farm_RAYDIUM_FARM_LEN, mut_array_refs ((1, put [FarmRouteType_as_u8 FarmRouteType_Raydium]) # fs) output)
        | None \<Rightarrow> (Err InvalidAccountData, output)))"

definition Farm_raydium_decode :: "(bytes \<Rightarrow> bool) \<Rightarrow> bytes list \<Rightarrow> Farm result" where
  "Farm_raydium_decode utf8 refs =
     (case refs of
        [name, version, farm_type, official, refdb_index, refdb_counter, lp_token_ref,
         first_reward_token_ref, second_reward_token_ref, router_program_id, farm_program_id,
         farm_id, farm_authority, farm_lp_token_account, farm_first_reward_token_account,
         farm_second_reward_token_account] \<Rightarrow>
          bind (unpack_array_string64 utf8 name) (\<lambda>name.
          bind (ok_or (FarmType_try_from_primitive (farm_type ! 0)) InvalidAccountData) (\<lambda>farm_type.
          bind (unpack_bool official) (\<lambda>official.
          bind (unpack_option_u32 refdb_index) (\<lambda>refdb_index.
          bind (unpack_option_key lp_token_ref) (\<lambda>lp_token_ref.
          bind (unpack_option_key first_reward_token_ref) (\<lambda>first_reward_token_ref.
          bind (unpack_option_key second_reward_token_ref) (\<lambda>second_reward_token_ref.
          bind (unpack_option_key farm_second_reward_token_account) (\<lambda>farm_second_reward_token_account.
            Ok \<lparr> frm_name = name, frm_version = from_le_bytes version, frm_farm_type = farm_type,
              frm_official = official, frm_refdb_index = refdb_index,
              frm_refdb_counter = from_le_bytes refdb_counter, frm_lp_token_ref = lp_token_ref,
              frm_first_reward_token_ref = first_reward_token_ref,
              frm_second_reward_token_ref = second_reward_token_ref,
              frm_router_program_id = router_program_id, frm_farm_program_id = farm_program_id,
              frm_route = FarmRoute_Raydium farm_id farm_authority farm_lp_token_account farm_first_reward_token_account
                farm_second_reward_token_account \<rparr>))))))))
      | _ \<Rightarrow> Panic)"

definition Farm_unpack_raydium :: "(bytes \<Rightarrow> bool) \<Rightarrow> bytes \<Rightarrow> Farm result" where
  "Farm_unpack_raydium utf8 input =
     bind (check_data_len input Farm_RAYDIUM_FARM_LEN) (\<lambda>_.
     bind (array_ref input 1 (Farm_RAYDIUM_FARM_LEN - 1)) (\<lambda>input.
       Farm_raydium_decode utf8 (array_refs
         [64, 2, 1, 1, 5, 2, 33, 33, 33, 32, 32, 32, 32, 32, 32, 33] input)))"

definition Farm_orca_fields :: "Farm \<Rightarrow> window list option" where
  "Farm_orca_fields self =
     (case frm_route self of
        FarmRoute_Orca farm_id farm_authority farm_token_ref base_token_vault reward_token_vault \<Rightarrow>
          Some
           [(64, pack_array_string64 (frm_name self)), (2, put (to_le_bytes (frm_version self))),
            (1, put [FarmType_as_u8 (frm_farm_type self)]),
            (1, put [bool_as_u8 (frm_official self)]), (5, pack_option_u32 (frm_refdb_index self)),
            (2, put (to_le_bytes (frm_refdb_counter self))),
            (33, pack_option_key (frm_lp_token_ref self)),
            (33, pack_option_key (frm_first_reward_token_ref self)),
            (33, pack_option_key (frm_second_reward_token_ref self)),
            (32, put (frm_router_program_id self)), (32, put (frm_farm_program_id self)),
            (32, put farm_id), (32, put farm_authority), (32, put farm_token_ref),
            (32, put base_token_vault), (32, put reward_token_vault)]
      | _ \<Rightarrow> None)"

definition Farm_pack_orca :: "Farm \<Rightarrow> bytes \<Rightarrow> (usize, bytes) effect" where
  "Farm_pack_orca self output =
     seq (pure_in output (check_data_len output Farm_ORCA_FARM_LEN)) (\<lambda>_ output.
       (case Farm_orca_fields self of
          Some fs \<Rightarrow>
            (Ok Farm_ORCA_FARM_LEN, mut_array_refs ((1, put [FarmRouteType_as_u8 FarmRouteType_Orca]) # fs) output)
        | None \<Rightarrow> (Err InvalidAccountData, output)))"

definition Farm_orca_decode :: "(bytes \<Rightarrow> bool) \<Rightarrow> bytes list \<Rightarrow> Farm result" where
  "Farm_orca_decode utf8 refs =
     (case refs of
        [name, version, farm_type, official, refdb_index, refdb_counter, lp_token_ref,
         first_reward_token_ref, second_reward_token_ref, router_program_id, farm_program_id,
         farm_id, farm_authority, farm_token_ref, base_token_vault, reward_token_vault] \<Rightarrow>
          bind (unpack_array_string64 utf8 name) (\<lambda>name.
          bind (ok_or (FarmType_try_from_primitive (farm_type ! 0)) InvalidAccountData) (\<lambda>farm_type.
          bind (unpack_bool official) (\<lambda>official.
          bind (unpack_option_u32 refdb_index) (\<lambda>refdb_index.
          bind (unpack_option_key lp_token_ref) (\<lambda>lp_token_ref.
          bind (unpack_option_key first_reward_token_ref) (\<lambda>first_reward_token_ref.
          bind (unpack_option_key second_reward_token_ref) (\<lambda>second_reward_token_ref.
            Ok \<lparr> frm_name = name, frm_version = from_le_bytes version, frm_farm_type = farm_type,
              frm_official = official, frm_refdb_index = refdb_index,
              frm_refdb_counter = from_le_bytes refdb_counter, frm_lp_token_ref = lp_token_ref,
              frm_first_reward_token_ref = first_reward_token_ref,
              frm_second_reward_token_ref = second_reward_token_ref,
              frm_router_program_id = router_program_id, frm_farm_program_id = farm_program_id,
              frm_route = FarmRoute_Orca farm_id farm_authority farm_token_ref base_token_vault reward_token_vault \<rparr>)))))))
      | _ \<Rightarrow> Panic)"

definition Farm_unpack_orca :: "(bytes \<Rightarrow> bool) \<Rightarrow> bytes \<Rightarrow> Farm result" where
  "Farm_unpack_orca utf8 input =
     bind (check_data_len input Farm_ORCA_FARM_LEN) (\<lambda>_.
     bind (array_ref input 1 (Farm_ORCA_FARM_LEN - 1)) (\<lambda>input.
       Farm_orca_decode utf8 (array_refs
         [64, 2, 1, 1, 5, 2, 33, 33, 33, 32, 32, 32, 32, 32, 32, 32] input)))"

definition Farm_get_size :: "Farm \<Rightarrow> usize" where
  "Farm_get_size self =
     (case frm_route self of
        FarmRoute_Raydium _ _ _ _ _ \<Rightarrow> Farm_RAYDIUM_FARM_LEN
      | FarmRoute_Orca _ _ _ _ _ \<Rightarrow> Farm_ORCA_FARM_LEN)"

definition Farm_pack :: "Farm \<Rightarrow> bytes \<Rightarrow> (usize, bytes) effect" where
  "Farm_pack self output =
     (case frm_route self of
        FarmRoute_Raydium _ _ _ _ _ \<Rightarrow> Farm_pack_raydium self output
      | FarmRoute_Orca _ _ _ _ _ \<Rightarrow> Farm_pack_orca self output)"

definition Farm_to_vec :: "Farm \<Rightarrow> bytes result" where
  "Farm_to_vec = to_vec_or InvalidAccountData Farm_MAX_LEN Farm_pack"

definition Farm_unpack :: "(bytes \<Rightarrow> bool) \<Rightarrow> bytes \<Rightarrow> Farm result" where
  "Farm_unpack utf8 input =
     bind (check_data_len input 1) (\<lambda>_.
     bind (ok_or (FarmRouteType_try_from_primitive (input ! 0)) InvalidAccountData) (\<lambda>t.
       (case t of
        FarmRouteType_Raydium \<Rightarrow> Farm_unpack_raydium utf8 input
      | FarmRouteType_Orca \<Rightarrow> Farm_unpack_orca utf8 input)))"

text \<open>The values that have an encoding, and the encoding.\<close>

definition Farm_valid :: "(bytes \<Rightarrow> bool) \<Rightarrow> Farm \<Rightarrow> bool" where
  "Farm_valid utf8 self \<longleftrightarrow>
     packable_name utf8 (frm_name self) \<and>
     valid_key_opt (frm_lp_token_ref self) \<and>
     valid_key_opt (frm_first_reward_token_ref self) \<and>
     valid_key_opt (frm_second_reward_token_ref self) \<and>
     valid_key (frm_router_program_id self) \<and>
     valid_key (frm_farm_program_id self) \<and>
     (case frm_route self of
        FarmRoute_Raydium farm_id farm_authority farm_lp_token_account farm_first_reward_token_account farm_second_reward_token_account \<Rightarrow> valid_key farm_id \<and> valid_key farm_authority \<and>
          valid_key farm_lp_token_account \<and> valid_key farm_first_reward_token_account \<and>
          valid_key_opt farm_second_reward_token_account
      | FarmRoute_Orca farm_id farm_authority farm_token_ref base_token_vault reward_token_vault \<Rightarrow> valid_key farm_id \<and> valid_key farm_authority \<and> valid_key farm_token_ref \<and>
          valid_key base_token_vault \<and> valid_key reward_token_vault)"

definition Farm_enc :: "Farm \<Rightarrow> bytes" where
  "Farm_enc self =
     (case frm_route self of
        FarmRoute_Raydium _ _ _ _ _ \<Rightarrow> FarmRouteType_as_u8 FarmRouteType_Raydium # encode (the (Farm_raydium_fields self))
      | FarmRoute_Orca _ _ _ _ _ \<Rightarrow> FarmRouteType_as_u8 FarmRouteType_Orca # encode (the (Farm_orca_fields self)))"

interpretation farm_raydium: tagged Farm_raydium_fields "FarmRouteType_as_u8 FarmRouteType_Raydium" Farm_RAYDIUM_FARM_LEN
  "[64, 2, 1, 1, 5, 2, 33, 33, 33, 32, 32, 32, 32, 32, 32, 33]"
  "Farm_raydium_decode utf8" Farm_pack_raydium "Farm_unpack_raydium utf8" "Farm_valid utf8"
proof
  fix x out inp
  show "Farm_pack_raydium x out = seq (pure_in out (check_data_len out Farm_RAYDIUM_FARM_LEN)) (\<lambda>_ out.
      (case Farm_raydium_fields x of
         Some fs \<Rightarrow> (Ok Farm_RAYDIUM_FARM_LEN, mut_array_refs ((1, put [FarmRouteType_as_u8 FarmRouteType_Raydium]) # fs) out)
       | None \<Rightarrow> (Err InvalidAccountData, out)))"
    by (simp only: Farm_pack_raydium_def)
  show "Farm_unpack_raydium utf8 inp = bind (check_data_len inp Farm_RAYDIUM_FARM_LEN) (\<lambda>_.
      bind (array_ref inp 1 (Farm_RAYDIUM_FARM_LEN - 1)) (\<lambda>inp. Farm_raydium_decode utf8 (array_refs
        [64, 2, 1, 1, 5, 2, 33, 33, 33, 32, 32, 32, 32, 32, 32, 33] inp)))"
    by (simp only: Farm_unpack_raydium_def)
next
  fix x fs assume "Farm_raydium_fields x = Some fs"
  then show "map fst fs = [64, 2, 1, 1, 5, 2, 33, 33, 33, 32, 32, 32, 32, 32, 32, 33]"
    and "Farm_valid utf8 x \<Longrightarrow> windows_fit fs"
    and "Farm_valid utf8 x \<Longrightarrow> Farm_raydium_decode utf8 (map (\<lambda>(n, f). f (replicate n 0)) fs) = Ok x"
    by (auto simp: Farm_raydium_fields_def Farm_raydium_decode_def Farm_valid_def valid_key_def split: FarmRoute.splits)
next
  fix x refs
  assume "shaped [64, 2, 1, 1, 5, 2, 33, 33, 33, 32, 32, 32, 32, 32, 32, 33] refs"
    and "Farm_raydium_decode utf8 refs = Ok x"
  then show "Farm_valid utf8 x \<and> Farm_raydium_fields x \<noteq> None"
    by (auto simp: Farm_raydium_decode_def Farm_raydium_fields_def Farm_valid_def valid_key_def result_simps)
      ((erule (1) field_valid)+)?
qed (simp_all add: Farm_RAYDIUM_FARM_LEN_def Farm_raydium_decode_def no_panic)

interpretation farm_orca: tagged Farm_orca_fields "FarmRouteType_as_u8 FarmRouteType_Orca" Farm_ORCA_FARM_LEN
  "[64, 2, 1, 1, 5, 2, 33, 33, 33, 32, 32, 32, 32, 32, 32, 32]"
  "Farm_orca_decode utf8" Farm_pack_orca "Farm_unpack_orca utf8" "Farm_valid utf8"
proof
  fix x out inp
  show "Farm_pack_orca x out = seq (pure_in out (check_data_len out Farm_ORCA_FARM_LEN)) (\<lambda>_ out.
      (case Farm_orca_fields x of
         Some fs \<Rightarrow> (Ok Farm_ORCA_FARM_LEN, mut_array_refs ((1, put [FarmRouteType_as_u8 FarmRouteType_Orca]) # fs) out)
       | None \<Rightarrow> (Err InvalidAccountData, out)))"
    by (simp only: Farm_pack_orca_def)
  show "Farm_unpack_orca utf8 inp = bind (check_data_len inp Farm_ORCA_FARM_LEN) (\<lambda>_.
      bind (array_ref inp 1 (Farm_ORCA_FARM_LEN - 1)) (\<lambda>inp. Farm_orca_decode utf8 (array_refs
        [64, 2, 1, 1, 5, 2, 33, 33, 33, 32, 32, 32, 32, 32, 32, 32] inp)))"
    by (simp only: Farm_unpack_orca_def)
next
  fix x fs assume "Farm_orca_fields x = Some fs"
  then show "map fst fs = [64, 2, 1, 1, 5, 2, 33, 33, 33, 32, 32, 32, 32, 32, 32, 32]"
    and "Farm_valid utf8 x \<Longrightarrow> windows_fit fs"
    and "Farm_valid utf8 x \<Longrightarrow> Farm_orca_decode utf8 (map (\<lambda>(n, f). f (replicate n 0)) fs) = Ok x"
    by (auto simp: Farm_orca_fields_def Farm_orca_decode_def Farm_valid_def valid_key_def split: FarmRoute.splits)
next
  fix x refs
  assume "shaped [64, 2, 1, 1, 5, 2, 33, 33, 33, 32, 32, 32, 32, 32, 32, 32] refs"
    and "Farm_orca_decode utf8 refs = Ok x"
  then show "Farm_valid utf8 x \<and> Farm_orca_fields x \<noteq> None"
    by (auto simp: Farm_orca_decode_def Farm_orca_fields_def Farm_valid_def valid_key_def result_simps)
      ((erule (1) field_valid)+)?
qed (simp_all add: Farm_ORCA_FARM_LEN_def Farm_orca_decode_def no_panic)

interpretation farm: wire Farm_enc Farm_pack "Farm_unpack utf8" "Farm_valid utf8"
proof
  fix x n and out rest :: bytes
  assume v: "Farm_valid utf8 x"
  show "length (Farm_enc x) \<le> n \<Longrightarrow> Farm_pack x (replicate n 0) =
      (Ok (length (Farm_enc x)), Farm_enc x @ replicate (n - length (Farm_enc x)) 0)"
    using v farm_raydium.pack_enc [of utf8 x n] farm_orca.pack_enc [of utf8 x n]
    by (cases "frm_route x") (simp_all add: Farm_enc_def Farm_pack_def Farm_valid_def Farm_raydium_fields_def Farm_orca_fields_def)
  show "length out < length (Farm_enc x) \<Longrightarrow> fst (Farm_pack x out) = Err AccountDataTooSmall"
    using v farm_raydium.pack_short [of utf8 x out] farm_orca.pack_short [of utf8 x out]
    by (cases "frm_route x") (simp_all add: Farm_enc_def Farm_pack_def Farm_valid_def Farm_raydium_fields_def Farm_orca_fields_def)
  show "Farm_unpack utf8 (Farm_enc x @ rest) = Ok x"
    using v farm_raydium.unpack_enc [of utf8 x rest] farm_orca.unpack_enc [of utf8 x rest]
    by (cases "frm_route x") (simp_all add: Farm_enc_def Farm_unpack_def Farm_valid_def FarmRouteType_try_from_primitive_def Farm_raydium_fields_def Farm_orca_fields_def)
next
  fix inp :: bytes
  show "Farm_unpack utf8 inp \<noteq> Panic"
    unfolding Farm_unpack_def by (intro no_panic) (simp split: FarmRouteType.splits add: no_panic farm_raydium.unpack_total farm_orca.unpack_total)
  fix x assume "Farm_unpack utf8 inp = Ok x"
  then obtain t where "(case t of FarmRouteType_Raydium \<Rightarrow> Farm_unpack_raydium utf8 inp | FarmRouteType_Orca \<Rightarrow> Farm_unpack_orca utf8 inp) = Ok x" by (auto simp: Farm_unpack_def result_simps)
  then show "Farm_valid utf8 x"
    using farm_raydium.unpack_valid [of utf8 inp x] farm_orca.unpack_valid [of utf8 inp x] by (cases t) simp_all
qed

end
