(* ===== verification/Pool_Meta.thy ===== *)
theory Pool_Meta
  imports Wire
begin

text \<open>
  Liquidity pools (\<open>crates/solana_farm_sdk/src/pool.rs\<close>): the metadata record of a pool and its byte
  layout, one for each protocol.
\<close>

section \<open>Enumerations\<close>

datatype PoolRoute =
    PoolRoute_Raydium pubkey pubkey pubkey pubkey pubkey pubkey pubkey pubkey pubkey pubkey pubkey
      "pubkey option" "pubkey option" "pubkey option"
  | PoolRoute_Orca pubkey pubkey pubkey

datatype PoolRouteType =
    PoolRouteType_Raydium | PoolRouteType_Orca

fun PoolRouteType_as_u8 :: "PoolRouteType \<Rightarrow> u8" where
  "PoolRouteType_as_u8 PoolRouteType_Raydium = 0"
| "PoolRouteType_as_u8 PoolRouteType_Orca = 1"

definition PoolRouteType_try_from_primitive :: "u8 \<Rightarrow> PoolRouteType option" where
  "PoolRouteType_try_from_primitive b =
     find (\<lambda>t. PoolRouteType_as_u8 t = b)
       [PoolRouteType_Raydium, PoolRouteType_Orca]"

lemma PoolRouteType_round_trip [simp]:
  "PoolRouteType_try_from_primitive (PoolRouteType_as_u8 t) = Some t"
  by (cases t) (simp_all add: PoolRouteType_try_from_primitive_def)

datatype PoolType =
    PoolType_Amm | PoolType_AmmStable

fun PoolType_as_u8 :: "PoolType \<Rightarrow> u8" where
  "PoolType_as_u8 PoolType_Amm = 0"
| "PoolType_as_u8 PoolType_AmmStable = 1"

definition PoolType_try_from_primitive :: "u8 \<Rightarrow> PoolType option" where
  "PoolType_try_from_primitive b =
     find (\<lambda>t. PoolType_as_u8 t = b)
       [PoolType_Amm, PoolType_AmmStable]"

lemma PoolType_round_trip [simp]:
  "PoolType_try_from_primitive (PoolType_as_u8 t) = Some t"
  by (cases t) (simp_all add: PoolType_try_from_primitive_def)

fun PoolType_fmt :: "PoolType \<Rightarrow> string" where
  "PoolType_fmt PoolType_Amm = ''Amm''"
| "PoolType_fmt PoolType_AmmStable = ''AmmStable''"

datatype PoolTokenType =
    PoolTokenType_VaultToken | PoolTokenType_PoolToken | PoolTokenType_FarmToken |
    PoolTokenType_Token

fun PoolTokenType_as_u8 :: "PoolTokenType \<Rightarrow> u8" where
  "PoolTokenType_as_u8 PoolTokenType_VaultToken = 0"
| "PoolTokenType_as_u8 PoolTokenType_PoolToken = 1"
| "PoolTokenType_as_u8 PoolTokenType_FarmToken = 2"
| "PoolTokenType_as_u8 PoolTokenType_Token = 3"

definition PoolTokenType_try_from_primitive :: "u8 \<Rightarrow> PoolTokenType option" where
  "PoolTokenType_try_from_primitive b =
     find (\<lambda>t. PoolTokenType_as_u8 t = b)
       [PoolTokenType_VaultToken, PoolTokenType_PoolToken, PoolTokenType_FarmToken,
        PoolTokenType_Token]"

lemma PoolTokenType_round_trip [simp]:
  "PoolTokenType_try_from_primitive (PoolTokenType_as_u8 t) = Some t"
  by (cases t) (simp_all add: PoolTokenType_try_from_primitive_def)

section \<open>Pools\<close>

record Pool =
  pl_name :: ArrayString64
  pl_version :: u16
  pl_pool_type :: PoolType
  pl_official :: bool
  pl_refdb_index :: "u32 option"
  pl_refdb_counter :: u16
  pl_token_a_ref :: "pubkey option"
  pl_token_b_ref :: "pubkey option"
  pl_lp_token_ref :: "pubkey option"
  pl_token_a_account :: "pubkey option"
  pl_token_b_account :: "pubkey option"
  pl_router_program_id :: pubkey
  pl_pool_program_id :: pubkey
  pl_route :: PoolRoute

definition Pool_MAX_LEN :: usize where "Pool_MAX_LEN = 756"
definition Pool_RAYDIUM_POOL_LEN :: usize where "Pool_RAYDIUM_POOL_LEN = 756"
definition Pool_ORCA_POOL_LEN :: usize where "Pool_ORCA_POOL_LEN = 401"

definition Pool_raydium_fields :: "Pool \<Rightarrow> window list option" where
  "Pool_raydium_fields self =
     (case pl_route self of
        PoolRoute_Raydium amm_id amm_authority amm_open_orders amm_target pool_withdraw_queue
          pool_temp_lp_token_account serum_program_id serum_market serum_coin_vault_account
          serum_pc_vault_account serum_vault_signer serum_bids serum_asks serum_event_queue \<Rightarrow>
          Some
           [(64, pack_array_string64 (pl_name self)), (2, put (to_le_bytes (pl_version self))),
            (1, put [PoolType_as_u8 (pl_pool_type self)]), (1, put [bool_as_u8 (pl_official self)]),
            (5, pack_option_u32 (pl_refdb_index self)),
            (2, put (to_le_bytes (pl_refdb_counter self))),
            (33, pack_option_key (pl_token_a_ref self)),
            (33, pack_option_key (pl_token_b_ref self)),
            (33, pack_option_key (pl_lp_token_ref self)),
            (33, pack_option_key (pl_token_a_account self)),
            (33, pack_option_key (pl_token_b_account self)), (32, put (pl_router_program_id self)),
            (32, put (pl_pool_program_id self)), (32, put amm_id), (32, put amm_authority),
            (32, put amm_open_orders), (32, put amm_target), (32, put pool_withdraw_queue),
            (32, put pool_temp_lp_token_account), (32, put serum_program_id),
            (32, put serum_market), (32, put serum_coin_vault_account),
            (32, put serum_pc_vault_account), (32, put serum_vault_signer),
            (33, pack_option_key serum_bids), (33, pack_option_key serum_asks),
            (33, pack_option_key serum_event_queue)]
      | _ \<Rightarrow> None)"

definition Pool_pack_raydium :: "Pool \<Rightarrow> bytes \<Rightarrow> (usize, bytes) effect" where
  "Pool_pack_raydium self output =
     seq (pure_in output (check_data_len output Pool_RAYDIUM_POOL_LEN)) (\<lambda>_ output.
       (case Pool_raydium_fields self of
          Some fs \<Rightarrow>
            (Ok Pool_RAYDIUM_POOL_LEN, mut_array_refs ((1, put [PoolRouteType_as_u8 PoolRouteType_Raydium]) # fs) output)
        | None \<Rightarrow> (Err InvalidAccountData, output)))"

definition Pool_raydium_decode :: "(bytes \<Rightarrow> bool) \<Rightarrow> bytes list \<Rightarrow> Pool result" where
  "Pool_raydium_decode utf8 refs =
     (case refs of
        [name, version, pool_type, official, refdb_index, refdb_counter, token_a_ref, token_b_ref,
         lp_token_ref, token_a_account, token_b_account, router_program_id, pool_program_id, amm_id,
         amm_authority, amm_open_orders, amm_target, pool_withdraw_queue,
         pool_temp_lp_token_account, serum_program_id, serum_market, serum_coin_vault_account,
         serum_pc_vault_account, serum_vault_signer, serum_bids, serum_asks, serum_event_queue] \<Rightarrow>
          bind (unpack_array_string64 utf8 name) (\<lambda>name.
          bind (ok_or (PoolType_try_from_primitive (pool_type ! 0)) InvalidAccountData) (\<lambda>pool_type.
          bind (unpack_bool official) (\<lambda>official.
          bind (unpack_option_u32 refdb_index) (\<lambda>refdb_index.
          bind (unpack_option_key token_a_ref) (\<lambda>token_a_ref.
          bind (unpack_option_key token_b_ref) (\<lambda>token_b_ref.
          bind (unpack_option_key lp_token_ref) (\<lambda>lp_token_ref.
          bind (unpack_option_key token_a_account) (\<lambda>token_a_account.
          bind (unpack_option_key token_b_account) (\<lambda>token_b_account.
          bind (unpack_option_key serum_bids) (\<lambda>serum_bids.
          bind (unpack_option_key serum_asks) (\<lambda>serum_asks.
          bind (unpack_option_key serum_event_queue) (\<lambda>serum_event_queue.
            Ok \<lparr> pl_name = name, pl_version = from_le_bytes version, pl_pool_type = pool_type,
              pl_official = official, pl_refdb_index = refdb_index,
              pl_refdb_counter = from_le_bytes refdb_counter, pl_token_a_ref = token_a_ref,
              pl_token_b_ref = token_b_ref, pl_lp_token_ref = lp_token_ref,
              pl_token_a_account = token_a_account, pl_token_b_account = token_b_account,
              pl_router_program_id = router_program_id, pl_pool_program_id = pool_program_id,
              pl_route = PoolRoute_Raydium amm_id amm_authority amm_open_orders amm_target pool_withdraw_queue
                pool_temp_lp_token_account serum_program_id serum_market serum_coin_vault_account
                serum_pc_vault_account serum_vault_signer serum_bids serum_asks serum_event_queue \<rparr>))))))))))))
      | _ \<Rightarrow> Panic)"

definition Pool_unpack_raydium :: "(bytes \<Rightarrow> bool) \<Rightarrow> bytes \<Rightarrow> Pool result" where
  "Pool_unpack_raydium utf8 input =
     bind (check_data_len input Pool_RAYDIUM_POOL_LEN) (\<lambda>_.
     bind (array_ref input 1 (Pool_RAYDIUM_POOL_LEN - 1)) (\<lambda>input.
       Pool_raydium_decode utf8 (array_refs
         [64, 2, 1, 1, 5, 2, 33, 33, 33, 33, 33, 32, 32, 32, 32, 32, 32, 32, 32, 32, 32, 32, 32, 32,
          33, 33, 33] input)))"

definition Pool_orca_fields :: "Pool \<Rightarrow> window list option" where
  "Pool_orca_fields self =
     (case pl_route self of
        PoolRoute_Orca amm_id amm_authority fees_account \<Rightarrow>
          Some
           [(64, pack_array_string64 (pl_name self)), (2, put (to_le_bytes (pl_version self))),
            (1, put [PoolType_as_u8 (pl_pool_type self)]), (1, put [bool_as_u8 (pl_official self)]),
            (5, pack_option_u32 (pl_refdb_index self)),
            (2, put (to_le_bytes (pl_refdb_counter self))),
            (33, pack_option_key (pl_token_a_ref self)),
            (33, pack_option_key (pl_token_b_ref self)),
            (33, pack_option_key (pl_lp_token_ref self)),
            (33, pack_option_key (pl_token_a_account self)),
            (33, pack_option_key (pl_token_b_account self)), (32, put (pl_router_program_id self)),
            (32, put (pl_pool_program_id self)), (32, put amm_id), (32, put amm_authority),
            (32, put fees_account)]
      | _ \<Rightarrow> None)"

definition Pool_pack_orca :: "Pool \<Rightarrow> bytes \<Rightarrow> (usize, bytes) effect" where
  "Pool_pack_orca self output =
     seq (pure_in output (check_data_len output Pool_ORCA_POOL_LEN)) (\<lambda>_ output.
       (case Pool_orca_fields self of
          Some fs \<Rightarrow>
            (Ok Pool_ORCA_POOL_LEN, mut_array_refs ((1, put [PoolRouteType_as_u8 PoolRouteType_Orca]) # fs) output)
        | None \<Rightarrow> (Err InvalidAccountData, output)))"

definition Pool_orca_decode :: "(bytes \<Rightarrow> bool) \<Rightarrow> bytes list \<Rightarrow> Pool result" where
  "Pool_orca_decode utf8 refs =
     (case refs of
        [name, version, pool_type, official, refdb_index, refdb_counter, token_a_ref, token_b_ref,
         lp_token_ref, token_a_account, token_b_account, router_program_id, pool_program_id, amm_id,
         amm_authority, fees_account] \<Rightarrow>
          bind (unpack_array_string64 utf8 name) (\<lambda>name.
          bind (ok_or (PoolType_try_from_primitive (pool_type ! 0)) InvalidAccountData) (\<lambda>pool_type.
          bind (unpack_bool official) (\<lambda>official.
          bind (unpack_option_u32 refdb_index) (\<lambda>refdb_index.
          bind (unpack_option_key token_a_ref) (\<lambda>token_a_ref.
          bind (unpack_option_key token_b_ref) (\<lambda>token_b_ref.
          bind (unpack_option_key lp_token_ref) (\<lambda>lp_token_ref.
          bind (unpack_option_key token_a_account) (\<lambda>token_a_account.
          bind (unpack_option_key token_b_account) (\<lambda>token_b_account.
            Ok \<lparr> pl_name = name, pl_version = from_le_bytes version, pl_pool_type = pool_type,
              pl_official = official, pl_refdb_index = refdb_index,
              pl_refdb_counter = from_le_bytes refdb_counter, pl_token_a_ref = token_a_ref,
              pl_token_b_ref = token_b_ref, pl_lp_token_ref = lp_token_ref,
              pl_token_a_account = token_a_account, pl_token_b_account = token_b_account,
              pl_router_program_id = router_program_id, pl_pool_program_id = pool_program_id,
              pl_route = PoolRoute_Orca amm_id amm_authority fees_account \<rparr>)))))))))
      | _ \<Rightarrow> Panic)"

definition Pool_unpack_orca :: "(bytes \<Rightarrow> bool) \<Rightarrow> bytes \<Rightarrow> Pool result" where
  "Pool_unpack_orca utf8 input =
     bind (check_data_len input Pool_ORCA_POOL_LEN) (\<lambda>_.
     bind (array_ref input 1 (Pool_ORCA_POOL_LEN - 1)) (\<lambda>input.
       Pool_orca_decode utf8 (array_refs
         [64, 2, 1, 1, 5, 2, 33, 33, 33, 33, 33, 32, 32, 32, 32, 32] input)))"

definition Pool_get_size :: "Pool \<Rightarrow> usize" where
  "Pool_get_size self =
     (case pl_route self of
        PoolRoute_Raydium _ _ _ _ _ _ _ _ _ _ _ _ _ _ \<Rightarrow> Pool_RAYDIUM_POOL_LEN
      | PoolRoute_Orca _ _ _ \<Rightarrow> Pool_ORCA_POOL_LEN)"

definition Pool_pack :: "Pool \<Rightarrow> bytes \<Rightarrow> (usize, bytes) effect" where
  "Pool_pack self output =
     (case pl_route self of
        PoolRoute_Raydium _ _ _ _ _ _ _ _ _ _ _ _ _ _ \<Rightarrow> Pool_pack_raydium self output
      | PoolRoute_Orca _ _ _ \<Rightarrow> Pool_pack_orca self output)"

definition Pool_to_vec :: "Pool \<Rightarrow> bytes result" where
  "Pool_to_vec = to_vec_or InvalidAccountData Pool_MAX_LEN Pool_pack"

definition Pool_unpack :: "(bytes \<Rightarrow> bool) \<Rightarrow> bytes \<Rightarrow> Pool result" where
  "Pool_unpack utf8 input =
     bind (check_data_len input 1) (\<lambda>_.
     bind (ok_or (PoolRouteType_try_from_primitive (input ! 0)) InvalidAccountData) (\<lambda>t.
       (case t of
        PoolRouteType_Raydium \<Rightarrow> Pool_unpack_raydium utf8 input
      | PoolRouteType_Orca \<Rightarrow> Pool_unpack_orca utf8 input)))"

text \<open>The values that have an encoding, and the encoding.\<close>

definition Pool_valid :: "(bytes \<Rightarrow> bool) \<Rightarrow> Pool \<Rightarrow> bool" where
  "Pool_valid utf8 self \<longleftrightarrow>
     packable_name utf8 (pl_name self) \<and>
     valid_key_opt (pl_token_a_ref self) \<and>
     valid_key_opt (pl_token_b_ref self) \<and>
     valid_key_opt (pl_lp_token_ref self) \<and>
     valid_key_opt (pl_token_a_account self) \<and>
     valid_key_opt (pl_token_b_account self) \<and>
     valid_key (pl_router_program_id self) \<and>
     valid_key (pl_pool_program_id self) \<and>
     (case pl_route self of
        PoolRoute_Raydium amm_id amm_authority amm_open_orders amm_target pool_withdraw_queue pool_temp_lp_token_account serum_program_id serum_market serum_coin_vault_account serum_pc_vault_account serum_vault_signer serum_bids serum_asks serum_event_queue \<Rightarrow> valid_key amm_id \<and> valid_key amm_authority \<and> valid_key amm_open_orders \<and>
          valid_key amm_target \<and> valid_key pool_withdraw_queue \<and>
          valid_key pool_temp_lp_token_account \<and> valid_key serum_program_id \<and>
          valid_key serum_market \<and> valid_key serum_coin_vault_account \<and>
          valid_key serum_pc_vault_account \<and> valid_key serum_vault_signer \<and>
          valid_key_opt serum_bids \<and> valid_key_opt serum_asks \<and>
          valid_key_opt serum_event_queue
      | PoolRoute_Orca amm_id amm_authority fees_account \<Rightarrow> valid_key amm_id \<and> valid_key amm_authority \<and> valid_key fees_account)"

definition Pool_enc :: "Pool \<Rightarrow> bytes" where
  "Pool_enc self =
     (case pl_route self of
        PoolRoute_Raydium _ _ _ _ _ _ _ _ _ _ _ _ _ _ \<Rightarrow> PoolRouteType_as_u8 PoolRouteType_Raydium # encode (the (Pool_raydium_fields self))
      | PoolRoute_Orca _ _ _ \<Rightarrow> PoolRouteType_as_u8 PoolRouteType_Orca # encode (the (Pool_orca_fields self)))"

interpretation pool_raydium: tagged Pool_raydium_fields "PoolRouteType_as_u8 PoolRouteType_Raydium" Pool_RAYDIUM_POOL_LEN
  "[64, 2, 1, 1, 5, 2, 33, 33, 33, 33, 33, 32, 32, 32, 32, 32, 32, 32, 32, 32, 32, 32, 32, 32, 33,
   33, 33]"
  "Pool_raydium_decode utf8" Pool_pack_raydium "Pool_unpack_raydium utf8" "Pool_valid utf8"
proof
  fix x out inp
  show "Pool_pack_raydium x out = seq (pure_in out (check_data_len out Pool_RAYDIUM_POOL_LEN)) (\<lambda>_ out.
      (case Pool_raydium_fields x of
         Some fs \<Rightarrow> (Ok Pool_RAYDIUM_POOL_LEN, mut_array_refs ((1, put [PoolRouteType_as_u8 PoolRouteType_Raydium]) # fs) out)
       | None \<Rightarrow> (Err InvalidAccountData, out)))"
    by (simp only: Pool_pack_raydium_def)
  show "Pool_unpack_raydium utf8 inp = bind (check_data_len inp Pool_RAYDIUM_POOL_LEN) (\<lambda>_.
      bind (array_ref inp 1 (Pool_RAYDIUM_POOL_LEN - 1)) (\<lambda>inp. Pool_raydium_decode utf8 (array_refs
        [64, 2, 1, 1, 5, 2, 33, 33, 33, 33, 33, 32, 32, 32, 32, 32, 32, 32, 32, 32, 32, 32, 32, 32, 33,
   33, 33] inp)))"
    by (simp only: Pool_unpack_raydium_def)
next
  fix x fs assume "Pool_raydium_fields x = Some fs"
  then show "map fst fs = [64, 2, 1, 1, 5, 2, 33, 33, 33, 33, 33, 32, 32, 32, 32, 32, 32, 32, 32, 32, 32, 32, 32, 32, 33,
   33, 33]"
    and "Pool_valid utf8 x \<Longrightarrow> windows_fit fs"
    and "Pool_valid utf8 x \<Longrightarrow> Pool_raydium_decode utf8 (map (\<lambda>(n, f). f (replicate n 0)) fs) = Ok x"
    by (auto simp: Pool_raydium_fields_def Pool_raydium_decode_def Pool_valid_def valid_key_def split: PoolRoute.splits)
next
  fix x refs
  assume "shaped [64, 2, 1, 1, 5, 2, 33, 33, 33, 33, 33, 32, 32, 32, 32, 32, 32, 32, 32, 32, 32, 32, 32, 32, 33,
   33, 33] refs"
    and "Pool_raydium_decode utf8 refs = Ok x"
  then show "Pool_valid utf8 x \<and> Pool_raydium_fields x \<noteq> None"
    by (auto simp: Pool_raydium_decode_def Pool_raydium_fields_def Pool_valid_def valid_key_def result_simps)
      ((erule (1) field_valid)+)?
qed (simp_all add: Pool_RAYDIUM_POOL_LEN_def Pool_raydium_decode_def no_panic)

interpretation pool_orca: tagged Pool_orca_fields "PoolRouteType_as_u8 PoolRouteType_Orca" Pool_ORCA_POOL_LEN
  "[64, 2, 1, 1, 5, 2, 33, 33, 33, 33, 33, 32, 32, 32, 32, 32]"
  "Pool_orca_decode utf8" Pool_pack_orca "Pool_unpack_orca utf8" "Pool_valid utf8"
proof
  fix x out inp
  show "Pool_pack_orca x out = seq (pure_in out (check_data_len out Pool_ORCA_POOL_LEN)) (\<lambda>_ out.
      (case Pool_orca_fields x of
         Some fs \<Rightarrow> (Ok Pool_ORCA_POOL_LEN, mut_array_refs ((1, put [PoolRouteType_as_u8 PoolRouteType_Orca]) # fs) out)
       | None \<Rightarrow> (Err InvalidAccountData, out)))"
    by (simp only: Pool_pack_orca_def)
  show "Pool_unpack_orca utf8 inp = bind (check_data_len inp Pool_ORCA_POOL_LEN) (\<lambda>_.
      bind (array_ref inp 1 (Pool_ORCA_POOL_LEN - 1)) (\<lambda>inp. Pool_orca_decode utf8 (array_refs
        [64, 2, 1, 1, 5, 2, 33, 33, 33, 33, 33, 32, 32, 32, 32, 32] inp)))"
    by (simp only: Pool_unpack_orca_def)
next
  fix x fs assume "Pool_orca_fields x = Some fs"
  then show "map fst fs = [64, 2, 1, 1, 5, 2, 33, 33, 33, 33, 33, 32, 32, 32, 32, 32]"
    and "Pool_valid utf8 x \<Longrightarrow> windows_fit fs"
    and "Pool_valid utf8 x \<Longrightarrow> Pool_orca_decode utf8 (map (\<lambda>(n, f). f (replicate n 0)) fs) = Ok x"
    by (auto simp: Pool_orca_fields_def Pool_orca_decode_def Pool_valid_def valid_key_def split: PoolRoute.splits)
next
  fix x refs
  assume "shaped [64, 2, 1, 1, 5, 2, 33, 33, 33, 33, 33, 32, 32, 32, 32, 32] refs"
    and "Pool_orca_decode utf8 refs = Ok x"
  then show "Pool_valid utf8 x \<and> Pool_orca_fields x \<noteq> None"
    by (auto simp: Pool_orca_decode_def Pool_orca_fields_def Pool_valid_def valid_key_def result_simps)
      ((erule (1) field_valid)+)?
qed (simp_all add: Pool_ORCA_POOL_LEN_def Pool_orca_decode_def no_panic)

interpretation pool: wire Pool_enc Pool_pack "Pool_unpack utf8" "Pool_valid utf8"
proof
  fix x n and out rest :: bytes
  assume v: "Pool_valid utf8 x"
  show "length (Pool_enc x) \<le> n \<Longrightarrow> Pool_pack x (replicate n 0) =
      (Ok (length (Pool_enc x)), Pool_enc x @ replicate (n - length (Pool_enc x)) 0)"
    using v pool_raydium.pack_enc [of utf8 x n] pool_orca.pack_enc [of utf8 x n]
    by (cases "pl_route x") (simp_all add: Pool_enc_def Pool_pack_def Pool_valid_def Pool_raydium_fields_def Pool_orca_fields_def)
  show "length out < length (Pool_enc x) \<Longrightarrow> fst (Pool_pack x out) = Err AccountDataTooSmall"
    using v pool_raydium.pack_short [of utf8 x out] pool_orca.pack_short [of utf8 x out]
    by (cases "pl_route x") (simp_all add: Pool_enc_def Pool_pack_def Pool_valid_def Pool_raydium_fields_def Pool_orca_fields_def)
  show "Pool_unpack utf8 (Pool_enc x @ rest) = Ok x"
    using v pool_raydium.unpack_enc [of utf8 x rest] pool_orca.unpack_enc [of utf8 x rest]
    by (cases "pl_route x") (simp_all add: Pool_enc_def Pool_unpack_def Pool_valid_def PoolRouteType_try_from_primitive_def Pool_raydium_fields_def Pool_orca_fields_def)
next
  fix inp :: bytes
  show "Pool_unpack utf8 inp \<noteq> Panic"
    unfolding Pool_unpack_def by (intro no_panic) (simp split: PoolRouteType.splits add: no_panic pool_raydium.unpack_total pool_orca.unpack_total)
  fix x assume "Pool_unpack utf8 inp = Ok x"
  then obtain t where "(case t of PoolRouteType_Raydium \<Rightarrow> Pool_unpack_raydium utf8 inp | PoolRouteType_Orca \<Rightarrow> Pool_unpack_orca utf8 inp) = Ok x" by (auto simp: Pool_unpack_def result_simps)
  then show "Pool_valid utf8 x"
    using pool_raydium.unpack_valid [of utf8 inp x] pool_orca.unpack_valid [of utf8 inp x] by (cases t) simp_all
qed

end
