(* ===== verification/Vault_Meta.thy ===== *)
theory Vault_Meta
  imports Wire
begin

text \<open>
  Vaults (\<open>crates/solana_farm_sdk/src/vault.rs\<close>): the metadata record of a vault and its byte layout. The
  strategy \<open>DynamicHedge\<close> has no layout: packing and unpacking it is refused.
\<close>

section \<open>Enumerations\<close>

datatype VaultType =
    VaultType_AmmStake

fun VaultType_as_u8 :: "VaultType \<Rightarrow> u8" where
  "VaultType_as_u8 VaultType_AmmStake = 0"

definition VaultType_try_from_primitive :: "u8 \<Rightarrow> VaultType option" where
  "VaultType_try_from_primitive b =
     find (\<lambda>t. VaultType_as_u8 t = b)
       [VaultType_AmmStake]"

lemma VaultType_round_trip [simp]:
  "VaultType_try_from_primitive (VaultType_as_u8 t) = Some t"
  by (cases t) (simp_all add: VaultType_try_from_primitive_def)

fun VaultType_fmt :: "VaultType \<Rightarrow> string" where
  "VaultType_fmt VaultType_AmmStake = ''AmmStake''"

datatype VaultStrategy =
    VaultStrategy_StakeLpCompoundRewards pubkey pubkey pubkey pubkey pubkey pubkey pubkey pubkey
      "pubkey option" pubkey "pubkey option" pubkey "pubkey option" "pubkey option" "pubkey option"
  | VaultStrategy_DynamicHedge

datatype VaultStrategyType =
    VaultStrategyType_StakeLpCompoundRewards | VaultStrategyType_DynamicHedge

fun VaultStrategyType_as_u8 :: "VaultStrategyType \<Rightarrow> u8" where
  "VaultStrategyType_as_u8 VaultStrategyType_StakeLpCompoundRewards = 0"
| "VaultStrategyType_as_u8 VaultStrategyType_DynamicHedge = 1"

definition VaultStrategyType_try_from_primitive :: "u8 \<Rightarrow> VaultStrategyType option" where
  "VaultStrategyType_try_from_primitive b =
     find (\<lambda>t. VaultStrategyType_as_u8 t = b)
       [VaultStrategyType_StakeLpCompoundRewards, VaultStrategyType_DynamicHedge]"

lemma VaultStrategyType_round_trip [simp]:
  "VaultStrategyType_try_from_primitive (VaultStrategyType_as_u8 t) = Some t"
  by (cases t) (simp_all add: VaultStrategyType_try_from_primitive_def)

fun VaultStrategyType_fmt :: "VaultStrategyType \<Rightarrow> string" where
  "VaultStrategyType_fmt VaultStrategyType_StakeLpCompoundRewards = ''StakeLpCompoundRewards''"
| "VaultStrategyType_fmt VaultStrategyType_DynamicHedge = ''DynamicHedge''"

section \<open>Information kept for users and vaults\<close>

record VaultUserInfo =
  vui_last_deposit_time :: i64_bits
  vui_last_withdrawal_time :: i64_bits
  vui_tokens_a_added :: u64
  vui_tokens_b_added :: u64
  vui_tokens_a_removed :: u64
  vui_tokens_b_removed :: u64
  vui_lp_tokens_debt :: u64

record VaultInfo =
  vin_crank_time :: i64_bits
  vin_crank_step :: u64
  vin_tokens_a_added :: u64
  vin_tokens_b_added :: u64
  vin_tokens_a_removed :: u64
  vin_tokens_b_removed :: u64
  vin_tokens_a_rewards :: u64
  vin_tokens_b_rewards :: u64
  vin_stake_balance :: f64_bits
  vin_deposit_allowed :: bool
  vin_withdrawal_allowed :: bool
  vin_min_crank_interval :: u64
  vin_fee :: f64_bits
  vin_external_fee :: f64_bits

section \<open>Vaults\<close>

record Vault =
  vlt_name :: ArrayString64
  vlt_version :: u16
  vlt_vault_type :: VaultType
  vlt_official :: bool
  vlt_refdb_index :: "u32 option"
  vlt_refdb_counter :: u16
  vlt_metadata_bump :: u8
  vlt_authority_bump :: u8
  vlt_vault_token_bump :: u8
  vlt_lock_required :: bool
  vlt_unlock_required :: bool
  vlt_vault_program_id :: pubkey
  vlt_vault_authority :: pubkey
  vlt_vault_token_ref :: pubkey
  vlt_info_account :: pubkey
  vlt_multisig_account :: pubkey
  vlt_fees_account_a :: "pubkey option"
  vlt_fees_account_b :: "pubkey option"
  vlt_strategy :: VaultStrategy

definition Vault_MAX_LEN :: usize where "Vault_MAX_LEN = 792"
definition Vault_STAKE_LP_COMPOUND_REWARDS_LEN :: usize where "Vault_STAKE_LP_COMPOUND_REWARDS_LEN = 792"
definition Vault_DYNAMIC_HEDGE_LEN :: usize where "Vault_DYNAMIC_HEDGE_LEN = 1"

definition Vault_stake_lp_compound_rewards_fields :: "Vault \<Rightarrow> window list option" where
  "Vault_stake_lp_compound_rewards_fields self =
     (case vlt_strategy self of
        VaultStrategy_StakeLpCompoundRewards pool_router_id pool_id pool_ref farm_router_id farm_id farm_ref lp_token_custody
          token_a_custody token_b_custody token_a_reward_custody token_b_reward_custody
          vault_stake_info vault_stake_custody reward_exchange_pool_id reward_exchange_pool_ref \<Rightarrow>
          Some
           [(64, pack_array_string64 (vlt_name self)), (2, put (to_le_bytes (vlt_version self))),
            (1, put [VaultType_as_u8 (vlt_vault_type self)]),
            (1, put [bool_as_u8 (vlt_official self)]), (5, pack_option_u32 (vlt_refdb_index self)),
            (2, put (to_le_bytes (vlt_refdb_counter self))), (1, put [(vlt_metadata_bump self)]),
            (1, put [(vlt_authority_bump self)]), (1, put [(vlt_vault_token_bump self)]),
            (1, put [bool_as_u8 (vlt_lock_required self)]),
            (1, put [bool_as_u8 (vlt_unlock_required self)]), (32, put (vlt_vault_program_id self)),
            (32, put (vlt_vault_authority self)), (32, put (vlt_vault_token_ref self)),
            (32, put (vlt_info_account self)), (32, put (vlt_multisig_account self)),
            (33, pack_option_key (vlt_fees_account_a self)),
            (33, pack_option_key (vlt_fees_account_b self)), (32, put pool_router_id),
            (32, put pool_id), (32, put pool_ref), (32, put farm_router_id), (32, put farm_id),
            (32, put farm_ref), (32, put lp_token_custody), (32, put token_a_custody),
            (33, pack_option_key token_b_custody), (32, put token_a_reward_custody),
            (33, pack_option_key token_b_reward_custody), (32, put vault_stake_info),
            (33, pack_option_key vault_stake_custody),
            (33, pack_option_key reward_exchange_pool_id),
            (33, pack_option_key reward_exchange_pool_ref)]
      | _ \<Rightarrow> None)"

definition Vault_pack_stake_lp_compound_rewards :: "Vault \<Rightarrow> bytes \<Rightarrow> (usize, bytes) effect" where
  "Vault_pack_stake_lp_compound_rewards self output =
     seq (pure_in output (check_data_len output Vault_STAKE_LP_COMPOUND_REWARDS_LEN)) (\<lambda>_ output.
       (case Vault_stake_lp_compound_rewards_fields self of
          Some fs \<Rightarrow>
            (Ok Vault_STAKE_LP_COMPOUND_REWARDS_LEN, mut_array_refs ((1, put [VaultStrategyType_as_u8 VaultStrategyType_StakeLpCompoundRewards]) # fs) output)
        | None \<Rightarrow> (Err InvalidAccountData, output)))"

definition Vault_stake_lp_compound_rewards_decode :: "(bytes \<Rightarrow> bool) \<Rightarrow> bytes list \<Rightarrow> Vault result" where
  "Vault_stake_lp_compound_rewards_decode utf8 refs =
     (case refs of
        [name, version, vault_type, official, refdb_index, refdb_counter, metadata_bump,
         authority_bump, vault_token_bump, lock_required, unlock_required, vault_program_id,
         vault_authority, vault_token_ref, info_account, multisig_account, fees_account_a,
         fees_account_b, pool_router_id, pool_id, pool_ref, farm_router_id, farm_id, farm_ref,
         lp_token_custody, token_a_custody, token_b_custody, token_a_reward_custody,
         token_b_reward_custody, vault_stake_info, vault_stake_custody, reward_exchange_pool_id,
         reward_exchange_pool_ref] \<Rightarrow>
          bind (unpack_array_string64 utf8 name) (\<lambda>name.
          bind (ok_or (VaultType_try_from_primitive (vault_type ! 0)) InvalidAccountData) (\<lambda>vault_type.
          bind (unpack_bool official) (\<lambda>official.
          bind (unpack_option_u32 refdb_index) (\<lambda>refdb_index.
          bind (unpack_bool lock_required) (\<lambda>lock_required.
          bind (unpack_bool unlock_required) (\<lambda>unlock_required.
          bind (unpack_option_key fees_account_a) (\<lambda>fees_account_a.
          bind (unpack_option_key fees_account_b) (\<lambda>fees_account_b.
          bind (unpack_option_key token_b_custody) (\<lambda>token_b_custody.
          bind (unpack_option_key token_b_reward_custody) (\<lambda>token_b_reward_custody.
          bind (unpack_option_key vault_stake_custody) (\<lambda>vault_stake_custody.
          bind (unpack_option_key reward_exchange_pool_id) (\<lambda>reward_exchange_pool_id.
          bind (unpack_option_key reward_exchange_pool_ref) (\<lambda>reward_exchange_pool_ref.
            Ok \<lparr> vlt_name = name, vlt_version = from_le_bytes version, vlt_vault_type = vault_type,
              vlt_official = official, vlt_refdb_index = refdb_index,
              vlt_refdb_counter = from_le_bytes refdb_counter,
              vlt_metadata_bump = metadata_bump ! 0, vlt_authority_bump = authority_bump ! 0,
              vlt_vault_token_bump = vault_token_bump ! 0, vlt_lock_required = lock_required,
              vlt_unlock_required = unlock_required, vlt_vault_program_id = vault_program_id,
              vlt_vault_authority = vault_authority, vlt_vault_token_ref = vault_token_ref,
              vlt_info_account = info_account, vlt_multisig_account = multisig_account,
              vlt_fees_account_a = fees_account_a, vlt_fees_account_b = fees_account_b,
              vlt_strategy = VaultStrategy_StakeLpCompoundRewards pool_router_id pool_id pool_ref farm_router_id farm_id farm_ref lp_token_custody
                token_a_custody token_b_custody token_a_reward_custody token_b_reward_custody
                vault_stake_info vault_stake_custody reward_exchange_pool_id
                reward_exchange_pool_ref \<rparr>)))))))))))))
      | _ \<Rightarrow> Panic)"

definition Vault_unpack_stake_lp_compound_rewards :: "(bytes \<Rightarrow> bool) \<Rightarrow> bytes \<Rightarrow> Vault result" where
  "Vault_unpack_stake_lp_compound_rewards utf8 input =
     bind (check_data_len input Vault_STAKE_LP_COMPOUND_REWARDS_LEN) (\<lambda>_.
     bind (array_ref input 1 (Vault_STAKE_LP_COMPOUND_REWARDS_LEN - 1)) (\<lambda>input.
       Vault_stake_lp_compound_rewards_decode utf8 (array_refs
         [64, 2, 1, 1, 5, 2, 1, 1, 1, 1, 1, 32, 32, 32, 32, 32, 33, 33, 32, 32, 32, 32, 32, 32, 32,
          32, 33, 32, 33, 32, 33, 33, 33] input)))"

definition Vault_get_size :: "Vault \<Rightarrow> usize" where
  "Vault_get_size self =
     (case vlt_strategy self of
        VaultStrategy_StakeLpCompoundRewards _ _ _ _ _ _ _ _ _ _ _ _ _ _ _ \<Rightarrow> Vault_STAKE_LP_COMPOUND_REWARDS_LEN
      | VaultStrategy_DynamicHedge \<Rightarrow> Vault_DYNAMIC_HEDGE_LEN)"

definition Vault_pack :: "Vault \<Rightarrow> bytes \<Rightarrow> (usize, bytes) effect" where
  "Vault_pack self output =
     (case vlt_strategy self of
        VaultStrategy_StakeLpCompoundRewards _ _ _ _ _ _ _ _ _ _ _ _ _ _ _ \<Rightarrow> Vault_pack_stake_lp_compound_rewards self output
      | VaultStrategy_DynamicHedge \<Rightarrow> (Err UnsupportedSysvar, output))"

definition Vault_to_vec :: "Vault \<Rightarrow> bytes result" where
  "Vault_to_vec = to_vec_or InvalidAccountData Vault_MAX_LEN Vault_pack"

definition Vault_unpack :: "(bytes \<Rightarrow> bool) \<Rightarrow> bytes \<Rightarrow> Vault result" where
  "Vault_unpack utf8 input =
     bind (check_data_len input 1) (\<lambda>_.
     bind (ok_or (VaultStrategyType_try_from_primitive (input ! 0)) InvalidAccountData) (\<lambda>t.
       (case t of
        VaultStrategyType_StakeLpCompoundRewards \<Rightarrow> Vault_unpack_stake_lp_compound_rewards utf8 input
      | VaultStrategyType_DynamicHedge \<Rightarrow> Err UnsupportedSysvar)))"

text \<open>The values that have an encoding, and the encoding.\<close>

definition Vault_valid :: "(bytes \<Rightarrow> bool) \<Rightarrow> Vault \<Rightarrow> bool" where
  "Vault_valid utf8 self \<longleftrightarrow>
     packable_name utf8 (vlt_name self) \<and>
     valid_key (vlt_vault_program_id self) \<and>
     valid_key (vlt_vault_authority self) \<and>
     valid_key (vlt_vault_token_ref self) \<and>
     valid_key (vlt_info_account self) \<and>
     valid_key (vlt_multisig_account self) \<and>
     valid_key_opt (vlt_fees_account_a self) \<and>
     valid_key_opt (vlt_fees_account_b self) \<and>
     (case vlt_strategy self of
        VaultStrategy_StakeLpCompoundRewards pool_router_id pool_id pool_ref farm_router_id farm_id farm_ref lp_token_custody token_a_custody token_b_custody token_a_reward_custody token_b_reward_custody vault_stake_info vault_stake_custody reward_exchange_pool_id reward_exchange_pool_ref \<Rightarrow> valid_key pool_router_id \<and> valid_key pool_id \<and> valid_key pool_ref \<and>
          valid_key farm_router_id \<and> valid_key farm_id \<and> valid_key farm_ref \<and>
          valid_key lp_token_custody \<and> valid_key token_a_custody \<and>
          valid_key_opt token_b_custody \<and> valid_key token_a_reward_custody \<and>
          valid_key_opt token_b_reward_custody \<and> valid_key vault_stake_info \<and>
          valid_key_opt vault_stake_custody \<and> valid_key_opt reward_exchange_pool_id \<and>
          valid_key_opt reward_exchange_pool_ref
      | VaultStrategy_DynamicHedge \<Rightarrow> False)"

definition Vault_enc :: "Vault \<Rightarrow> bytes" where
  "Vault_enc self =
     (case vlt_strategy self of
        VaultStrategy_StakeLpCompoundRewards _ _ _ _ _ _ _ _ _ _ _ _ _ _ _ \<Rightarrow> VaultStrategyType_as_u8 VaultStrategyType_StakeLpCompoundRewards # encode (the (Vault_stake_lp_compound_rewards_fields self))
      | VaultStrategy_DynamicHedge \<Rightarrow> [])"

interpretation vault_stake_lp_compound_rewards: tagged Vault_stake_lp_compound_rewards_fields "VaultStrategyType_as_u8 VaultStrategyType_StakeLpCompoundRewards" Vault_STAKE_LP_COMPOUND_REWARDS_LEN
  "[64, 2, 1, 1, 5, 2, 1, 1, 1, 1, 1, 32, 32, 32, 32, 32, 33, 33, 32, 32, 32, 32, 32, 32, 32, 32, 33,
   32, 33, 32, 33, 33, 33]"
  "Vault_stake_lp_compound_rewards_decode utf8" Vault_pack_stake_lp_compound_rewards "Vault_unpack_stake_lp_compound_rewards utf8" "Vault_valid utf8"
proof
  fix x out inp
  show "Vault_pack_stake_lp_compound_rewards x out = seq (pure_in out (check_data_len out Vault_STAKE_LP_COMPOUND_REWARDS_LEN)) (\<lambda>_ out.
      (case Vault_stake_lp_compound_rewards_fields x of
         Some fs \<Rightarrow> (Ok Vault_STAKE_LP_COMPOUND_REWARDS_LEN, mut_array_refs ((1, put [VaultStrategyType_as_u8 VaultStrategyType_StakeLpCompoundRewards]) # fs) out)
       | None \<Rightarrow> (Err InvalidAccountData, out)))"
    by (simp only: Vault_pack_stake_lp_compound_rewards_def)
  show "Vault_unpack_stake_lp_compound_rewards utf8 inp = bind (check_data_len inp Vault_STAKE_LP_COMPOUND_REWARDS_LEN) (\<lambda>_.
      bind (array_ref inp 1 (Vault_STAKE_LP_COMPOUND_REWARDS_LEN - 1)) (\<lambda>inp. Vault_stake_lp_compound_rewards_decode utf8 (array_refs
        [64, 2, 1, 1, 5, 2, 1, 1, 1, 1, 1, 32, 32, 32, 32, 32, 33, 33, 32, 32, 32, 32, 32, 32, 32, 32, 33,
   32, 33, 32, 33, 33, 33] inp)))"
    by (simp only: Vault_unpack_stake_lp_compound_rewards_def)
next
  fix x fs assume "Vault_stake_lp_compound_rewards_fields x = Some fs"
  then show "map fst fs = [64, 2, 1, 1, 5, 2, 1, 1, 1, 1, 1, 32, 32, 32, 32, 32, 33, 33, 32, 32, 32, 32, 32, 32, 32, 32, 33,
   32, 33, 32, 33, 33, 33]"
    and "Vault_valid utf8 x \<Longrightarrow> windows_fit fs"
    and "Vault_valid utf8 x \<Longrightarrow> Vault_stake_lp_compound_rewards_decode utf8 (map (\<lambda>(n, f). f (replicate n 0)) fs) = Ok x"
    by (auto simp: Vault_stake_lp_compound_rewards_fields_def Vault_stake_lp_compound_rewards_decode_def Vault_valid_def valid_key_def split: VaultStrategy.splits)
next
  fix x refs
  assume "shaped [64, 2, 1, 1, 5, 2, 1, 1, 1, 1, 1, 32, 32, 32, 32, 32, 33, 33, 32, 32, 32, 32, 32, 32, 32, 32, 33,
   32, 33, 32, 33, 33, 33] refs"
    and "Vault_stake_lp_compound_rewards_decode utf8 refs = Ok x"
  then show "Vault_valid utf8 x \<and> Vault_stake_lp_compound_rewards_fields x \<noteq> None"
    by (auto simp: Vault_stake_lp_compound_rewards_decode_def Vault_stake_lp_compound_rewards_fields_def Vault_valid_def valid_key_def result_simps)
      ((erule (1) field_valid)+)?
qed (simp_all add: Vault_STAKE_LP_COMPOUND_REWARDS_LEN_def Vault_stake_lp_compound_rewards_decode_def no_panic)

interpretation vault: wire Vault_enc Vault_pack "Vault_unpack utf8" "Vault_valid utf8"
proof
  fix x n and out rest :: bytes
  assume v: "Vault_valid utf8 x"
  show "length (Vault_enc x) \<le> n \<Longrightarrow> Vault_pack x (replicate n 0) =
      (Ok (length (Vault_enc x)), Vault_enc x @ replicate (n - length (Vault_enc x)) 0)"
    using v vault_stake_lp_compound_rewards.pack_enc [of utf8 x n]
    by (cases "vlt_strategy x") (simp_all add: Vault_enc_def Vault_pack_def Vault_valid_def Vault_stake_lp_compound_rewards_fields_def)
  show "length out < length (Vault_enc x) \<Longrightarrow> fst (Vault_pack x out) = Err AccountDataTooSmall"
    using v vault_stake_lp_compound_rewards.pack_short [of utf8 x out]
    by (cases "vlt_strategy x") (simp_all add: Vault_enc_def Vault_pack_def Vault_valid_def Vault_stake_lp_compound_rewards_fields_def)
  show "Vault_unpack utf8 (Vault_enc x @ rest) = Ok x"
    using v vault_stake_lp_compound_rewards.unpack_enc [of utf8 x rest]
    by (cases "vlt_strategy x") (simp_all add: Vault_enc_def Vault_unpack_def Vault_valid_def VaultStrategyType_try_from_primitive_def Vault_stake_lp_compound_rewards_fields_def)
next
  fix inp :: bytes
  show "Vault_unpack utf8 inp \<noteq> Panic"
    unfolding Vault_unpack_def by (intro no_panic) (simp split: VaultStrategyType.splits add: no_panic vault_stake_lp_compound_rewards.unpack_total)
  fix x assume "Vault_unpack utf8 inp = Ok x"
  then obtain t where "(case t of VaultStrategyType_StakeLpCompoundRewards \<Rightarrow> Vault_unpack_stake_lp_compound_rewards utf8 inp | VaultStrategyType_DynamicHedge \<Rightarrow> Err UnsupportedSysvar) = Ok x" by (auto simp: Vault_unpack_def result_simps)
  then show "Vault_valid utf8 x"
    using vault_stake_lp_compound_rewards.unpack_valid [of utf8 inp x] by (cases t) simp_all
qed

end
