(* ===== verification/Fund_Meta.thy ===== *)
theory Fund_Meta
  imports Wire
begin

text \<open>
  Funds (\<open>crates/solana_farm_sdk/src/fund.rs\<close>): the metadata record of a fund and the accounts a fund
  keeps for its users, assets, custodies and vaults, with their byte layouts.
\<close>

section \<open>Enumerations and constants\<close>

definition DISCRIMINATOR_FUND_CUSTODY :: u64 where "DISCRIMINATOR_FUND_CUSTODY = 15979585294446943865"
definition DISCRIMINATOR_FUND_VAULT :: u64 where "DISCRIMINATOR_FUND_VAULT = 10084386823844633785"
definition DISCRIMINATOR_FUND_USER_REQUESTS :: u64 where "DISCRIMINATOR_FUND_USER_REQUESTS = 13706702285134686038"

datatype FundType =
    FundType_General

fun FundType_as_u8 :: "FundType \<Rightarrow> u8" where
  "FundType_as_u8 FundType_General = 0"

definition FundType_try_from_primitive :: "u8 \<Rightarrow> FundType option" where
  "FundType_try_from_primitive b =
     find (\<lambda>t. FundType_as_u8 t = b)
       [FundType_General]"

lemma FundType_round_trip [simp]:
  "FundType_try_from_primitive (FundType_as_u8 t) = Some t"
  by (cases t) (simp_all add: FundType_try_from_primitive_def)

fun FundType_fmt :: "FundType \<Rightarrow> string" where
  "FundType_fmt FundType_General = ''General''"

datatype FundAssetType =
    FundAssetType_Vault | FundAssetType_Custody

fun FundAssetType_as_u8 :: "FundAssetType \<Rightarrow> u8" where
  "FundAssetType_as_u8 FundAssetType_Vault = 0"
| "FundAssetType_as_u8 FundAssetType_Custody = 1"

definition FundAssetType_try_from_primitive :: "u8 \<Rightarrow> FundAssetType option" where
  "FundAssetType_try_from_primitive b =
     find (\<lambda>t. FundAssetType_as_u8 t = b)
       [FundAssetType_Vault, FundAssetType_Custody]"

lemma FundAssetType_round_trip [simp]:
  "FundAssetType_try_from_primitive (FundAssetType_as_u8 t) = Some t"
  by (cases t) (simp_all add: FundAssetType_try_from_primitive_def)

fun FundAssetType_fmt :: "FundAssetType \<Rightarrow> string" where
  "FundAssetType_fmt FundAssetType_Vault = ''Vault''"
| "FundAssetType_fmt FundAssetType_Custody = ''Custody''"

definition FundAssetType_from_str :: "(string \<Rightarrow> string) \<Rightarrow> string \<Rightarrow> FundAssetType result" where
  "FundAssetType_from_str to_lowercase s =
     (let l = to_lowercase s in
      if l = ''vault'' then Ok FundAssetType_Vault
      else if l = ''custody'' then Ok FundAssetType_Custody
      else Err InvalidArgument)"

datatype FundCustodyType =
    FundCustodyType_DepositWithdraw | FundCustodyType_Trading

fun FundCustodyType_as_u8 :: "FundCustodyType \<Rightarrow> u8" where
  "FundCustodyType_as_u8 FundCustodyType_DepositWithdraw = 0"
| "FundCustodyType_as_u8 FundCustodyType_Trading = 1"

definition FundCustodyType_try_from_primitive :: "u8 \<Rightarrow> FundCustodyType option" where
  "FundCustodyType_try_from_primitive b =
     find (\<lambda>t. FundCustodyType_as_u8 t = b)
       [FundCustodyType_DepositWithdraw, FundCustodyType_Trading]"

lemma FundCustodyType_round_trip [simp]:
  "FundCustodyType_try_from_primitive (FundCustodyType_as_u8 t) = Some t"
  by (cases t) (simp_all add: FundCustodyType_try_from_primitive_def)

fun FundCustodyType_fmt :: "FundCustodyType \<Rightarrow> string" where
  "FundCustodyType_fmt FundCustodyType_DepositWithdraw = ''DepositWithdraw''"
| "FundCustodyType_fmt FundCustodyType_Trading = ''Trading''"

definition FundCustodyType_from_str :: "(string \<Rightarrow> string) \<Rightarrow> string \<Rightarrow> FundCustodyType result" where
  "FundCustodyType_from_str to_lowercase s =
     (let l = to_lowercase s in
      if l = ''depositwithdraw'' then Ok FundCustodyType_DepositWithdraw
      else if l = ''trading'' then Ok FundCustodyType_Trading
      else Err InvalidArgument)"

datatype FundVaultType =
    FundVaultType_Pool | FundVaultType_Farm | FundVaultType_Vault

fun FundVaultType_as_u8 :: "FundVaultType \<Rightarrow> u8" where
  "FundVaultType_as_u8 FundVaultType_Pool = 0"
| "FundVaultType_as_u8 FundVaultType_Farm = 1"
| "FundVaultType_as_u8 FundVaultType_Vault = 2"

definition FundVaultType_try_from_primitive :: "u8 \<Rightarrow> FundVaultType option" where
  "FundVaultType_try_from_primitive b =
     find (\<lambda>t. FundVaultType_as_u8 t = b)
       [FundVaultType_Pool, FundVaultType_Farm, FundVaultType_Vault]"

lemma FundVaultType_round_trip [simp]:
  "FundVaultType_try_from_primitive (FundVaultType_as_u8 t) = Some t"
  by (cases t) (simp_all add: FundVaultType_try_from_primitive_def)

fun FundVaultType_fmt :: "FundVaultType \<Rightarrow> string" where
  "FundVaultType_fmt FundVaultType_Pool = ''Pool''"
| "FundVaultType_fmt FundVaultType_Farm = ''Farm''"
| "FundVaultType_fmt FundVaultType_Vault = ''Vault''"

definition FundVaultType_from_str :: "(string \<Rightarrow> string) \<Rightarrow> string \<Rightarrow> FundVaultType result" where
  "FundVaultType_from_str to_lowercase s =
     (let l = to_lowercase s in
      if l = ''pool'' then Ok FundVaultType_Pool
      else if l = ''farm'' then Ok FundVaultType_Farm
      else if l = ''vault'' then Ok FundVaultType_Vault
      else Err InvalidArgument)"

section \<open>Records without a layout of their own\<close>

record FundUserInfo =
  fui_virtual_tokens_balance :: u64

record FundSchedule =
  fsc_start_time :: i64_bits
  fsc_end_time :: i64_bits
  fsc_approval_required :: bool
  fsc_min_amount_usd :: f64_bits
  fsc_max_amount_usd :: f64_bits
  fsc_fee :: f64_bits

record FundAssetsTrackingConfig =
  fac_assets_limit_usd :: f64_bits
  fac_max_update_age_sec :: u64
  fac_max_price_error :: f64_bits
  fac_max_price_age_sec :: u64
  fac_issue_virtual_tokens :: bool

record FundInfo =
  fin_deposit_schedule :: FundSchedule
  fin_withdrawal_schedule :: FundSchedule
  fin_assets_config :: FundAssetsTrackingConfig
  fin_virtual_tokens_supply :: u64
  fin_amount_invested_usd :: f64_bits
  fin_amount_removed_usd :: f64_bits
  fin_current_assets_usd :: f64_bits
  fin_assets_update_time :: i64_bits
  fin_admin_action_time :: i64_bits
  fin_last_trade_time :: i64_bits
  fin_liquidation_start_time :: i64_bits
  fin_liquidation_amount_usd :: f64_bits
  fin_liquidation_amount_tokens :: u64

record FundCustodyWithBalance =
  fcb_discriminator :: u64
  fcb_fund_ref :: pubkey
  fcb_fund_name :: ArrayString64
  fcb_custody_id :: u32
  fcb_custody_type :: FundCustodyType
  fcb_token_ref :: pubkey
  fcb_token_name :: ArrayString64
  fcb_address :: pubkey
  fcb_fees_address :: pubkey
  fcb_balance :: f64_bits
  fcb_fees_balance :: f64_bits
  fcb_bump :: u8

section \<open>Records with a layout\<close>

record FundUserAction =
  fua_time :: i64_bits
  fua_amount :: u64

definition FundUserAction_LEN :: usize where "FundUserAction_LEN = 16"

definition FundUserAction_fields :: "FundUserAction \<Rightarrow> window list" where
  "FundUserAction_fields self =
     [(8, put (to_le_bytes (fua_time self))), (8, put (to_le_bytes (fua_amount self)))]"

definition FundUserAction_pack :: "FundUserAction \<Rightarrow> bytes \<Rightarrow> (usize, bytes) effect" where
  "FundUserAction_pack self output =
     seq (pure_in output (check_data_len output FundUserAction_LEN)) (\<lambda>_ output.
       (Ok FundUserAction_LEN, mut_array_refs (FundUserAction_fields self) output))"

definition FundUserAction_get_size :: "FundUserAction \<Rightarrow> usize" where
  "FundUserAction_get_size self = FundUserAction_LEN"

definition FundUserAction_to_vec :: "FundUserAction \<Rightarrow> bytes result" where
  "FundUserAction_to_vec = to_vec_or InvalidAccountData FundUserAction_LEN FundUserAction_pack"

definition FundUserAction_decode :: "bytes list \<Rightarrow> FundUserAction result" where
  "FundUserAction_decode refs =
     (case refs of
        [time, amount] \<Rightarrow>
            Ok \<lparr> fua_time = from_le_bytes time, fua_amount = from_le_bytes amount \<rparr>
      | _ \<Rightarrow> Panic)"

definition FundUserAction_unpack :: "bytes \<Rightarrow> FundUserAction result" where
  "FundUserAction_unpack input =
     bind (check_data_len input FundUserAction_LEN) (\<lambda>_.
     bind (array_ref input 0 FundUserAction_LEN) (\<lambda>input.
       FundUserAction_decode (array_refs [8, 8] input)))"

definition FundUserAction_valid :: "FundUserAction \<Rightarrow> bool" where
  "FundUserAction_valid self \<longleftrightarrow>
     True"

interpretation user_action: windowed FundUserAction_fields FundUserAction_LEN "[8, 8]"
  FundUserAction_decode FundUserAction_pack FundUserAction_unpack FundUserAction_valid
proof
  fix x out inp
  show "FundUserAction_pack x out = seq (pure_in out (check_data_len out FundUserAction_LEN)) (\<lambda>_ out.
      (Ok FundUserAction_LEN, mut_array_refs (FundUserAction_fields x) out))"
    and "FundUserAction_unpack inp = bind (check_data_len inp FundUserAction_LEN) (\<lambda>_.
      bind (array_ref inp 0 FundUserAction_LEN) (\<lambda>inp. FundUserAction_decode (array_refs [8, 8] inp)))"
    by (simp_all only: FundUserAction_pack_def FundUserAction_unpack_def)
next
  fix x refs
  assume "shaped [8, 8] refs" and "FundUserAction_decode refs = Ok x"
  then show "FundUserAction_valid x"
    by (auto simp: FundUserAction_decode_def FundUserAction_valid_def valid_key_def result_simps) ((erule (1) field_valid)+)?
qed (simp_all add: FundUserAction_LEN_def FundUserAction_fields_def FundUserAction_decode_def FundUserAction_valid_def valid_key_def no_panic)

text \<open>The windows of nested records have their length, so the nested calls of \<open>pack\<close> cannot fail.\<close>

lemma FundUserAction_nested [simp]:
  "length (snd (FundUserAction_pack x (replicate 16 0))) = 16"
  "FundUserAction_unpack (snd (FundUserAction_pack x (replicate 16 0))) = Ok x"
  using user_action.pack_enc [of x 16] user_action.unpack_enc [of x "[]"]
  by (simp_all add: FundUserAction_valid_def FundUserAction_fields_def)

record FundUserRequests =
  fur_discriminator :: u64
  fur_fund_ref :: pubkey
  fur_token_ref :: pubkey
  fur_deposit_request :: FundUserAction
  fur_last_deposit :: FundUserAction
  fur_withdrawal_request :: FundUserAction
  fur_last_withdrawal :: FundUserAction
  fur_deny_reason :: ArrayString64
  fur_bump :: u8

definition FundUserRequests_LEN :: usize where "FundUserRequests_LEN = 201"

definition FundUserRequests_fields :: "FundUserRequests \<Rightarrow> window list" where
  "FundUserRequests_fields self =
     [(8, put (to_le_bytes (fur_discriminator self))), (32, put (fur_fund_ref self)),
      (32, put (fur_token_ref self)),
      (16, \<lambda>w. snd (FundUserAction_pack (fur_deposit_request self) w)),
      (16, \<lambda>w. snd (FundUserAction_pack (fur_last_deposit self) w)),
      (16, \<lambda>w. snd (FundUserAction_pack (fur_withdrawal_request self) w)),
      (16, \<lambda>w. snd (FundUserAction_pack (fur_last_withdrawal self) w)),
      (64, pack_array_string64 (fur_deny_reason self)), (1, put [(fur_bump self)])]"

definition FundUserRequests_pack :: "FundUserRequests \<Rightarrow> bytes \<Rightarrow> (usize, bytes) effect" where
  "FundUserRequests_pack self output =
     seq (pure_in output (check_data_len output FundUserRequests_LEN)) (\<lambda>_ output.
       (Ok FundUserRequests_LEN, mut_array_refs (FundUserRequests_fields self) output))"

definition FundUserRequests_get_size :: "FundUserRequests \<Rightarrow> usize" where
  "FundUserRequests_get_size self = FundUserRequests_LEN"

definition FundUserRequests_to_vec :: "FundUserRequests \<Rightarrow> bytes result" where
  "FundUserRequests_to_vec = to_vec_or InvalidAccountData FundUserRequests_LEN FundUserRequests_pack"

definition FundUserRequests_decode :: "(bytes \<Rightarrow> bool) \<Rightarrow> bytes list \<Rightarrow> FundUserRequests result" where
  "FundUserRequests_decode utf8 refs =
     (case refs of
        [discriminator, fund_ref, token_ref, deposit_request, last_deposit, withdrawal_request,
         last_withdrawal, deny_reason, bump] \<Rightarrow>
          bind (FundUserAction_unpack deposit_request) (\<lambda>deposit_request.
          bind (FundUserAction_unpack last_deposit) (\<lambda>last_deposit.
          bind (FundUserAction_unpack withdrawal_request) (\<lambda>withdrawal_request.
          bind (FundUserAction_unpack last_withdrawal) (\<lambda>last_withdrawal.
          bind (unpack_array_string64 utf8 deny_reason) (\<lambda>deny_reason.
            Ok \<lparr> fur_discriminator = from_le_bytes discriminator, fur_fund_ref = fund_ref,
              fur_token_ref = token_ref, fur_deposit_request = deposit_request,
              fur_last_deposit = last_deposit, fur_withdrawal_request = withdrawal_request,
              fur_last_withdrawal = last_withdrawal, fur_deny_reason = deny_reason,
              fur_bump = bump ! 0 \<rparr>)))))
      | _ \<Rightarrow> Panic)"

definition FundUserRequests_unpack :: "(bytes \<Rightarrow> bool) \<Rightarrow> bytes \<Rightarrow> FundUserRequests result" where
  "FundUserRequests_unpack utf8 input =
     bind (check_data_len input FundUserRequests_LEN) (\<lambda>_.
     bind (array_ref input 0 FundUserRequests_LEN) (\<lambda>input.
       FundUserRequests_decode utf8 (array_refs [8, 32, 32, 16, 16, 16, 16, 64, 1] input)))"

definition FundUserRequests_valid :: "(bytes \<Rightarrow> bool) \<Rightarrow> FundUserRequests \<Rightarrow> bool" where
  "FundUserRequests_valid utf8 self \<longleftrightarrow>
     valid_key (fur_fund_ref self) \<and>
     valid_key (fur_token_ref self) \<and>
     packable_name utf8 (fur_deny_reason self)"

interpretation user_requests: windowed FundUserRequests_fields FundUserRequests_LEN "[8, 32, 32, 16, 16, 16, 16, 64, 1]"
  "FundUserRequests_decode utf8" FundUserRequests_pack "FundUserRequests_unpack utf8" "FundUserRequests_valid utf8"
proof
  fix x out inp
  show "FundUserRequests_pack x out = seq (pure_in out (check_data_len out FundUserRequests_LEN)) (\<lambda>_ out.
      (Ok FundUserRequests_LEN, mut_array_refs (FundUserRequests_fields x) out))"
    and "FundUserRequests_unpack utf8 inp = bind (check_data_len inp FundUserRequests_LEN) (\<lambda>_.
      bind (array_ref inp 0 FundUserRequests_LEN) (\<lambda>inp. FundUserRequests_decode utf8 (array_refs [8, 32, 32, 16, 16, 16, 16, 64, 1] inp)))"
    by (simp_all only: FundUserRequests_pack_def FundUserRequests_unpack_def)
next
  fix x refs
  assume "shaped [8, 32, 32, 16, 16, 16, 16, 64, 1] refs" and "FundUserRequests_decode utf8 refs = Ok x"
  then show "FundUserRequests_valid utf8 x"
    by (auto simp: FundUserRequests_decode_def FundUserRequests_valid_def valid_key_def result_simps) ((erule (1) field_valid)+)?
qed (simp_all add: FundUserRequests_LEN_def FundUserRequests_fields_def FundUserRequests_decode_def FundUserRequests_valid_def valid_key_def no_panic user_action.unpack_total)

record FundAssets =
  fas_asset_type :: FundAssetType
  fas_target_hash :: u64
  fas_current_hash :: u64
  fas_current_cycle :: u64
  fas_current_assets_usd :: f64_bits
  fas_cycle_start_time :: i64_bits
  fas_cycle_end_time :: i64_bits
  fas_bump :: u8

definition FundAssets_LEN :: usize where "FundAssets_LEN = 50"

definition FundAssets_fields :: "FundAssets \<Rightarrow> window list" where
  "FundAssets_fields self =
     [(1, put [FundAssetType_as_u8 (fas_asset_type self)]),
      (8, put (to_le_bytes (fas_target_hash self))), (8, put (to_le_bytes (fas_current_hash self))),
      (8, put (to_le_bytes (fas_current_cycle self))),
      (8, put (to_le_bytes (fas_current_assets_usd self))),
      (8, put (to_le_bytes (fas_cycle_start_time self))),
      (8, put (to_le_bytes (fas_cycle_end_time self))), (1, put [(fas_bump self)])]"

definition FundAssets_pack :: "FundAssets \<Rightarrow> bytes \<Rightarrow> (usize, bytes) effect" where
  "FundAssets_pack self output =
     seq (pure_in output (check_data_len output FundAssets_LEN)) (\<lambda>_ output.
       (Ok FundAssets_LEN, mut_array_refs (FundAssets_fields self) output))"

definition FundAssets_get_size :: "FundAssets \<Rightarrow> usize" where
  "FundAssets_get_size self = FundAssets_LEN"

definition FundAssets_to_vec :: "FundAssets \<Rightarrow> bytes result" where
  "FundAssets_to_vec = to_vec_or InvalidAccountData FundAssets_LEN FundAssets_pack"

definition FundAssets_decode :: "bytes list \<Rightarrow> FundAssets result" where
  "FundAssets_decode refs =
     (case refs of
        [asset_type, target_hash, current_hash, current_cycle, current_assets_usd, cycle_start_time,
         cycle_end_time, bump] \<Rightarrow>
          bind (ok_or (FundAssetType_try_from_primitive (asset_type ! 0)) InvalidInstructionData) (\<lambda>asset_type.
            Ok \<lparr> fas_asset_type = asset_type, fas_target_hash = from_le_bytes target_hash,
              fas_current_hash = from_le_bytes current_hash,
              fas_current_cycle = from_le_bytes current_cycle,
              fas_current_assets_usd = from_le_bytes current_assets_usd,
              fas_cycle_start_time = from_le_bytes cycle_start_time,
              fas_cycle_end_time = from_le_bytes cycle_end_time, fas_bump = bump ! 0 \<rparr>)
      | _ \<Rightarrow> Panic)"

definition FundAssets_unpack :: "bytes \<Rightarrow> FundAssets result" where
  "FundAssets_unpack input =
     bind (check_data_len input FundAssets_LEN) (\<lambda>_.
     bind (array_ref input 0 FundAssets_LEN) (\<lambda>input.
       FundAssets_decode (array_refs [1, 8, 8, 8, 8, 8, 8, 1] input)))"

definition FundAssets_valid :: "FundAssets \<Rightarrow> bool" where
  "FundAssets_valid self \<longleftrightarrow>
     True"

interpretation fund_assets: windowed FundAssets_fields FundAssets_LEN "[1, 8, 8, 8, 8, 8, 8, 1]"
  FundAssets_decode FundAssets_pack FundAssets_unpack FundAssets_valid
proof
  fix x out inp
  show "FundAssets_pack x out = seq (pure_in out (check_data_len out FundAssets_LEN)) (\<lambda>_ out.
      (Ok FundAssets_LEN, mut_array_refs (FundAssets_fields x) out))"
    and "FundAssets_unpack inp = bind (check_data_len inp FundAssets_LEN) (\<lambda>_.
      bind (array_ref inp 0 FundAssets_LEN) (\<lambda>inp. FundAssets_decode (array_refs [1, 8, 8, 8, 8, 8, 8, 1] inp)))"
    by (simp_all only: FundAssets_pack_def FundAssets_unpack_def)
next
  fix x refs
  assume "shaped [1, 8, 8, 8, 8, 8, 8, 1] refs" and "FundAssets_decode refs = Ok x"
  then show "FundAssets_valid x"
    by (auto simp: FundAssets_decode_def FundAssets_valid_def valid_key_def result_simps) ((erule (1) field_valid)+)?
qed (simp_all add: FundAssets_LEN_def FundAssets_fields_def FundAssets_decode_def FundAssets_valid_def valid_key_def no_panic)

record FundCustody =
  fcu_discriminator :: u64
  fcu_fund_ref :: pubkey
  fcu_custody_id :: u32
  fcu_custody_type :: FundCustodyType
  fcu_is_vault_token :: bool
  fcu_token_ref :: pubkey
  fcu_address :: pubkey
  fcu_fees_address :: pubkey
  fcu_bump :: u8

definition FundCustody_LEN :: usize where "FundCustody_LEN = 143"

definition FundCustody_fields :: "FundCustody \<Rightarrow> window list" where
  "FundCustody_fields self =
     [(8, put (to_le_bytes (fcu_discriminator self))), (32, put (fcu_fund_ref self)),
      (4, put (to_le_bytes (fcu_custody_id self))),
      (1, put [FundCustodyType_as_u8 (fcu_custody_type self)]),
      (1, put [bool_as_u8 (fcu_is_vault_token self)]), (32, put (fcu_token_ref self)),
      (32, put (fcu_address self)), (32, put (fcu_fees_address self)), (1, put [(fcu_bump self)])]"

definition FundCustody_pack :: "FundCustody \<Rightarrow> bytes \<Rightarrow> (usize, bytes) effect" where
  "FundCustody_pack self output =
     seq (pure_in output (check_data_len output FundCustody_LEN)) (\<lambda>_ output.
       (Ok FundCustody_LEN, mut_array_refs (FundCustody_fields self) output))"

definition FundCustody_get_size :: "FundCustody \<Rightarrow> usize" where
  "FundCustody_get_size self = FundCustody_LEN"

definition FundCustody_to_vec :: "FundCustody \<Rightarrow> bytes result" where
  "FundCustody_to_vec = to_vec_or InvalidAccountData FundCustody_LEN FundCustody_pack"

definition FundCustody_decode :: "bytes list \<Rightarrow> FundCustody result" where
  "FundCustody_decode refs =
     (case refs of
        [discriminator, fund_ref, custody_id, custody_type, is_vault_token, token_ref, address,
         fees_address, bump] \<Rightarrow>
          bind (ok_or (FundCustodyType_try_from_primitive (custody_type ! 0)) InvalidAccountData) (\<lambda>custody_type.
          bind (unpack_bool is_vault_token) (\<lambda>is_vault_token.
            Ok \<lparr> fcu_discriminator = from_le_bytes discriminator, fcu_fund_ref = fund_ref,
              fcu_custody_id = from_le_bytes custody_id, fcu_custody_type = custody_type,
              fcu_is_vault_token = is_vault_token, fcu_token_ref = token_ref, fcu_address = address,
              fcu_fees_address = fees_address, fcu_bump = bump ! 0 \<rparr>))
      | _ \<Rightarrow> Panic)"

definition FundCustody_unpack :: "bytes \<Rightarrow> FundCustody result" where
  "FundCustody_unpack input =
     bind (check_data_len input FundCustody_LEN) (\<lambda>_.
     bind (array_ref input 0 FundCustody_LEN) (\<lambda>input.
       FundCustody_decode (array_refs [8, 32, 4, 1, 1, 32, 32, 32, 1] input)))"

definition FundCustody_valid :: "FundCustody \<Rightarrow> bool" where
  "FundCustody_valid self \<longleftrightarrow>
     valid_key (fcu_fund_ref self) \<and>
     valid_key (fcu_token_ref self) \<and>
     valid_key (fcu_address self) \<and>
     valid_key (fcu_fees_address self)"

interpretation fund_custody: windowed FundCustody_fields FundCustody_LEN "[8, 32, 4, 1, 1, 32, 32, 32, 1]"
  FundCustody_decode FundCustody_pack FundCustody_unpack FundCustody_valid
proof
  fix x out inp
  show "FundCustody_pack x out = seq (pure_in out (check_data_len out FundCustody_LEN)) (\<lambda>_ out.
      (Ok FundCustody_LEN, mut_array_refs (FundCustody_fields x) out))"
    and "FundCustody_unpack inp = bind (check_data_len inp FundCustody_LEN) (\<lambda>_.
      bind (array_ref inp 0 FundCustody_LEN) (\<lambda>inp. FundCustody_decode (array_refs [8, 32, 4, 1, 1, 32, 32, 32, 1] inp)))"
    by (simp_all only: FundCustody_pack_def FundCustody_unpack_def)
next
  fix x refs
  assume "shaped [8, 32, 4, 1, 1, 32, 32, 32, 1] refs" and "FundCustody_decode refs = Ok x"
  then show "FundCustody_valid x"
    by (auto simp: FundCustody_decode_def FundCustody_valid_def valid_key_def result_simps) ((erule (1) field_valid)+)?
qed (simp_all add: FundCustody_LEN_def FundCustody_fields_def FundCustody_decode_def FundCustody_valid_def valid_key_def no_panic)

record FundVault =
  fva_discriminator :: u64
  fva_fund_ref :: pubkey
  fva_vault_id :: u32
  fva_vault_type :: FundVaultType
  fva_vault_ref :: pubkey
  fva_router_program_id :: pubkey
  fva_underlying_pool_id :: pubkey
  fva_underlying_pool_ref :: pubkey
  fva_underlying_lp_token_mint :: pubkey
  fva_lp_balance :: u64
  fva_balance_update_time :: i64_bits
  fva_bump :: u8

definition FundVault_LEN :: usize where "FundVault_LEN = 222"

definition FundVault_fields :: "FundVault \<Rightarrow> window list" where
  "FundVault_fields self =
     [(8, put (to_le_bytes (fva_discriminator self))), (32, put (fva_fund_ref self)),
      (4, put (to_le_bytes (fva_vault_id self))),
      (1, put [FundVaultType_as_u8 (fva_vault_type self)]), (32, put (fva_vault_ref self)),
      (32, put (fva_router_program_id self)), (32, put (fva_underlying_pool_id self)),
      (32, put (fva_underlying_pool_ref self)), (32, put (fva_underlying_lp_token_mint self)),
      (8, put (to_le_bytes (fva_lp_balance self))),
      (8, put (to_le_bytes (fva_balance_update_time self))), (1, put [(fva_bump self)])]"

definition FundVault_pack :: "FundVault \<Rightarrow> bytes \<Rightarrow> (usize, bytes) effect" where
  "FundVault_pack self output =
     seq (pure_in output (check_data_len output FundVault_LEN)) (\<lambda>_ output.
       (Ok FundVault_LEN, mut_array_refs (FundVault_fields self) output))"

definition FundVault_get_size :: "FundVault \<Rightarrow> usize" where
  "FundVault_get_size self = FundVault_LEN"

definition FundVault_to_vec :: "FundVault \<Rightarrow> bytes result" where
  "FundVault_to_vec = to_vec_or InvalidAccountData FundVault_LEN FundVault_pack"

definition FundVault_decode :: "bytes list \<Rightarrow> FundVault result" where
  "FundVault_decode refs =
     (case refs of
        [discriminator, fund_ref, vault_id, vault_type, vault_ref, router_program_id,
         underlying_pool_id, underlying_pool_ref, underlying_lp_token_mint, lp_balance,
         balance_update_time, bump] \<Rightarrow>
          bind (ok_or (FundVaultType_try_from_primitive (vault_type ! 0)) InvalidAccountData) (\<lambda>vault_type.
            Ok \<lparr> fva_discriminator = from_le_bytes discriminator, fva_fund_ref = fund_ref,
              fva_vault_id = from_le_bytes vault_id, fva_vault_type = vault_type,
              fva_vault_ref = vault_ref, fva_router_program_id = router_program_id,
              fva_underlying_pool_id = underlying_pool_id,
              fva_underlying_pool_ref = underlying_pool_ref,
              fva_underlying_lp_token_mint = underlying_lp_token_mint,
              fva_lp_balance = from_le_bytes lp_balance,
              fva_balance_update_time = from_le_bytes balance_update_time, fva_bump = bump ! 0 \<rparr>)
      | _ \<Rightarrow> Panic)"

definition FundVault_unpack :: "bytes \<Rightarrow> FundVault result" where
  "FundVault_unpack input =
     bind (check_data_len input FundVault_LEN) (\<lambda>_.
     bind (array_ref input 0 FundVault_LEN) (\<lambda>input.
       FundVault_decode (array_refs [8, 32, 4, 1, 32, 32, 32, 32, 32, 8, 8, 1] input)))"

definition FundVault_valid :: "FundVault \<Rightarrow> bool" where
  "FundVault_valid self \<longleftrightarrow>
     valid_key (fva_fund_ref self) \<and>
     valid_key (fva_vault_ref self) \<and>
     valid_key (fva_router_program_id self) \<and>
     valid_key (fva_underlying_pool_id self) \<and>
     valid_key (fva_underlying_pool_ref self) \<and>
     valid_key (fva_underlying_lp_token_mint self)"

interpretation fund_vault: windowed FundVault_fields FundVault_LEN "[8, 32, 4, 1, 32, 32, 32, 32, 32, 8, 8, 1]"
  FundVault_decode FundVault_pack FundVault_unpack FundVault_valid
proof
  fix x out inp
  show "FundVault_pack x out = seq (pure_in out (check_data_len out FundVault_LEN)) (\<lambda>_ out.
      (Ok FundVault_LEN, mut_array_refs (FundVault_fields x) out))"
    and "FundVault_unpack inp = bind (check_data_len inp FundVault_LEN) (\<lambda>_.
      bind (array_ref inp 0 FundVault_LEN) (\<lambda>inp. FundVault_decode (array_refs [8, 32, 4, 1, 32, 32, 32, 32, 32, 8, 8, 1] inp)))"
    by (simp_all only: FundVault_pack_def FundVault_unpack_def)
next
  fix x refs
  assume "shaped [8, 32, 4, 1, 32, 32, 32, 32, 32, 8, 8, 1] refs" and "FundVault_decode refs = Ok x"
  then show "FundVault_valid x"
    by (auto simp: FundVault_decode_def FundVault_valid_def valid_key_def result_simps) ((erule (1) field_valid)+)?
qed (simp_all add: FundVault_LEN_def FundVault_fields_def FundVault_decode_def FundVault_valid_def valid_key_def no_panic)

record Fund =
  fnd_name :: ArrayString64
  fnd_version :: u16
  fnd_fund_type :: FundType
  fnd_official :: bool
  fnd_refdb_index :: "u32 option"
  fnd_refdb_counter :: u16
  fnd_metadata_bump :: u8
  fnd_authority_bump :: u8
  fnd_fund_token_bump :: u8
  fnd_multisig_bump :: u8
  fnd_fund_program_id :: pubkey
  fnd_fund_authority :: pubkey
  fnd_fund_manager :: pubkey
  fnd_fund_token_ref :: pubkey
  fnd_info_account :: pubkey
  fnd_multisig_account :: pubkey
  fnd_vaults_assets_info :: pubkey
  fnd_custodies_assets_info :: pubkey
  fnd_description_account :: pubkey

definition Fund_LEN :: usize where "Fund_LEN = 367"

definition Fund_fields :: "Fund \<Rightarrow> window list" where
  "Fund_fields self =
     [(64, pack_array_string64 (fnd_name self)), (2, put (to_le_bytes (fnd_version self))),
      (1, put [FundType_as_u8 (fnd_fund_type self)]), (1, put [bool_as_u8 (fnd_official self)]),
      (5, pack_option_u32 (fnd_refdb_index self)), (2, put (to_le_bytes (fnd_refdb_counter self))),
      (1, put [(fnd_metadata_bump self)]), (1, put [(fnd_authority_bump self)]),
      (1, put [(fnd_fund_token_bump self)]), (1, put [(fnd_multisig_bump self)]),
      (32, put (fnd_fund_program_id self)), (32, put (fnd_fund_authority self)),
      (32, put (fnd_fund_manager self)), (32, put (fnd_fund_token_ref self)),
      (32, put (fnd_info_account self)), (32, put (fnd_multisig_account self)),
      (32, put (fnd_vaults_assets_info self)), (32, put (fnd_custodies_assets_info self)),
      (32, put (fnd_description_account self))]"

definition Fund_pack :: "Fund \<Rightarrow> bytes \<Rightarrow> (usize, bytes) effect" where
  "Fund_pack self output =
     seq (pure_in output (check_data_len output Fund_LEN)) (\<lambda>_ output.
       (Ok Fund_LEN, mut_array_refs (Fund_fields self) output))"

definition Fund_get_size :: "Fund \<Rightarrow> usize" where
  "Fund_get_size self = Fund_LEN"

definition Fund_to_vec :: "Fund \<Rightarrow> bytes result" where
  "Fund_to_vec = to_vec_or InvalidAccountData Fund_LEN Fund_pack"

definition Fund_decode :: "(bytes \<Rightarrow> bool) \<Rightarrow> bytes list \<Rightarrow> Fund result" where
  "Fund_decode utf8 refs =
     (case refs of
        [name, version, fund_type, official, refdb_index, refdb_counter, metadata_bump,
         authority_bump, fund_token_bump, multisig_bump, fund_program_id, fund_authority,
         fund_manager, fund_token_ref, info_account, multisig_account, vaults_assets_info,
         custodies_assets_info, description_account] \<Rightarrow>
          bind (unpack_array_string64 utf8 name) (\<lambda>name.
          bind (ok_or (FundType_try_from_primitive (fund_type ! 0)) InvalidAccountData) (\<lambda>fund_type.
          bind (unpack_bool official) (\<lambda>official.
          bind (unpack_option_u32 refdb_index) (\<lambda>refdb_index.
            Ok \<lparr> fnd_name = name, fnd_version = from_le_bytes version, fnd_fund_type = fund_type,
              fnd_official = official, fnd_refdb_index = refdb_index,
              fnd_refdb_counter = from_le_bytes refdb_counter,
              fnd_metadata_bump = metadata_bump ! 0, fnd_authority_bump = authority_bump ! 0,
              fnd_fund_token_bump = fund_token_bump ! 0, fnd_multisig_bump = multisig_bump ! 0,
              fnd_fund_program_id = fund_program_id, fnd_fund_authority = fund_authority,
              fnd_fund_manager = fund_manager, fnd_fund_token_ref = fund_token_ref,
              fnd_info_account = info_account, fnd_multisig_account = multisig_account,
              fnd_vaults_assets_info = vaults_assets_info,
              fnd_custodies_assets_info = custodies_assets_info,
              fnd_description_account = description_account \<rparr>))))
      | _ \<Rightarrow> Panic)"

definition Fund_unpack :: "(bytes \<Rightarrow> bool) \<Rightarrow> bytes \<Rightarrow> Fund result" where
  "Fund_unpack utf8 input =
     bind (check_data_len input Fund_LEN) (\<lambda>_.
     bind (array_ref input 0 Fund_LEN) (\<lambda>input.
       Fund_decode utf8 (array_refs [64, 2, 1, 1, 5, 2, 1, 1, 1, 1, 32, 32, 32, 32, 32, 32, 32, 32, 32] input)))"

definition Fund_valid :: "(bytes \<Rightarrow> bool) \<Rightarrow> Fund \<Rightarrow> bool" where
  "Fund_valid utf8 self \<longleftrightarrow>
     packable_name utf8 (fnd_name self) \<and>
     valid_key (fnd_fund_program_id self) \<and>
     valid_key (fnd_fund_authority self) \<and>
     valid_key (fnd_fund_manager self) \<and>
     valid_key (fnd_fund_token_ref self) \<and>
     valid_key (fnd_info_account self) \<and>
     valid_key (fnd_multisig_account self) \<and>
     valid_key (fnd_vaults_assets_info self) \<and>
     valid_key (fnd_custodies_assets_info self) \<and>
     valid_key (fnd_description_account self)"

interpretation fund_meta: windowed Fund_fields Fund_LEN "[64, 2, 1, 1, 5, 2, 1, 1, 1, 1, 32, 32, 32, 32, 32, 32, 32, 32, 32]"
  "Fund_decode utf8" Fund_pack "Fund_unpack utf8" "Fund_valid utf8"
proof
  fix x out inp
  show "Fund_pack x out = seq (pure_in out (check_data_len out Fund_LEN)) (\<lambda>_ out.
      (Ok Fund_LEN, mut_array_refs (Fund_fields x) out))"
    and "Fund_unpack utf8 inp = bind (check_data_len inp Fund_LEN) (\<lambda>_.
      bind (array_ref inp 0 Fund_LEN) (\<lambda>inp. Fund_decode utf8 (array_refs [64, 2, 1, 1, 5, 2, 1, 1, 1, 1, 32, 32, 32, 32, 32, 32, 32, 32, 32] inp)))"
    by (simp_all only: Fund_pack_def Fund_unpack_def)
next
  fix x refs
  assume "shaped [64, 2, 1, 1, 5, 2, 1, 1, 1, 1, 32, 32, 32, 32, 32, 32, 32, 32, 32] refs" and "Fund_decode utf8 refs = Ok x"
  then show "Fund_valid utf8 x"
    by (auto simp: Fund_decode_def Fund_valid_def valid_key_def result_simps) ((erule (1) field_valid)+)?
qed (simp_all add: Fund_LEN_def Fund_fields_def Fund_decode_def Fund_valid_def valid_key_def no_panic)

end
