(* ===== verification/RefDb_Instruction.thy ===== *)
theory RefDb_Instruction
  imports RefDB_Layout Wire
begin

text \<open>
  The instructions that manage a RefDB storage (\<open>crates/solana_farm_sdk/src/instruction/refdb.rs\<close>):
  packing, unpacking and the wire format they agree on. A record is stored in the layout of
  \<open>RefDB_Layout\<close>, which is shown here to be a codec in the sense of \<open>Wire\<close> for each reference type.
\<close>

section \<open>Instructions\<close>

datatype RefDbInstruction =
    RefDbI_Init ArrayString64 ReferenceType u32 bool
  | RefDbI_Drop bool
  | RefDbI_Write Record
  | RefDbI_Delete Record

datatype RefDbInstructionType = RefDbT_Init | RefDbT_Drop | RefDbT_Write | RefDbT_Delete

fun RefDbInstructionType_as_u8 :: "RefDbInstructionType \<Rightarrow> u8" where
  "RefDbInstructionType_as_u8 RefDbT_Init = 0"
| "RefDbInstructionType_as_u8 RefDbT_Drop = 1"
| "RefDbInstructionType_as_u8 RefDbT_Write = 2"
| "RefDbInstructionType_as_u8 RefDbT_Delete = 3"

definition RefDbInstructionType_try_from_primitive :: "u8 \<Rightarrow> RefDbInstructionType option" where
  "RefDbInstructionType_try_from_primitive b =
     find (\<lambda>t. RefDbInstructionType_as_u8 t = b) [RefDbT_Init, RefDbT_Drop, RefDbT_Write, RefDbT_Delete]"

fun RefDbInstructionType_fmt :: "RefDbInstructionType \<Rightarrow> string" where
  "RefDbInstructionType_fmt RefDbT_Init = ''Init''"
| "RefDbInstructionType_fmt RefDbT_Drop = ''Drop''"
| "RefDbInstructionType_fmt RefDbT_Write = ''Write''"
| "RefDbInstructionType_fmt RefDbT_Delete = ''Delete''"

definition RefDbInstruction_MAX_LEN :: usize where "RefDbInstruction_MAX_LEN = Record_MAX_LEN + 7"
definition RefDbInstruction_INIT_LEN :: usize where "RefDbInstruction_INIT_LEN = 71"
definition RefDbInstruction_DROP_LEN :: usize where "RefDbInstruction_DROP_LEN = 3"

section \<open>Packing\<close>

text \<open>The arms \<open>Write\<close> and \<open>Delete\<close>: a header of seven bytes, then the record.\<close>

definition pack_record_instruction ::
  "RefDbInstructionType \<Rightarrow> Record \<Rightarrow> bytes \<Rightarrow> (usize, bytes) effect" where
  "pack_record_instruction t record output =
     seq (pure_in output (check_data_len output 7)) (\<lambda>_ output.
     seq (pack_from 7 Record_pack record
       (mut_array_refs
         [(1, put [RefDbInstructionType_as_u8 t]),
          (1, put [ReferenceType_as_u8 (Reference_get_type (rec_reference record))]),
          (5, pack_option_u32 (rec_index record))] output)) (\<lambda>_ output.
       (Ok (7 + Record_get_size record), output)))"

definition RefDbInstruction_pack :: "RefDbInstruction \<Rightarrow> bytes \<Rightarrow> (usize, bytes) effect" where
  "RefDbInstruction_pack self output =
     (case self of
        RefDbI_Init name reference_type max_records init_account \<Rightarrow>
          seq (pure_in output (check_data_len output RefDbInstruction_INIT_LEN)) (\<lambda>_ output.
            (Ok RefDbInstruction_INIT_LEN,
             mut_array_refs
               [(1, put [RefDbInstructionType_as_u8 RefDbT_Init]), (1, put [ReferenceType_as_u8 reference_type]),
                (64, pack_array_string64 name), (4, put (to_le_bytes max_records)),
                (1, put [bool_as_u8 init_account])] output))
      | RefDbI_Drop close_account \<Rightarrow>
          seq (pure_in output (check_data_len output RefDbInstruction_DROP_LEN)) (\<lambda>_ output.
            (Ok RefDbInstruction_DROP_LEN,
             mut_array_refs
               [(1, put [RefDbInstructionType_as_u8 RefDbT_Drop]), (1, put [ReferenceType_as_u8 TEmpty]),
                (1, put [bool_as_u8 close_account])] output))
      | RefDbI_Write record \<Rightarrow> pack_record_instruction RefDbT_Write record output
      | RefDbI_Delete record \<Rightarrow> pack_record_instruction RefDbT_Delete record output)"

definition RefDbInstruction_to_vec :: "RefDbInstruction \<Rightarrow> bytes result" where
  "RefDbInstruction_to_vec = to_vec_or InvalidInstructionData RefDbInstruction_MAX_LEN RefDbInstruction_pack"

section \<open>Unpacking\<close>

definition unpack_record_instruction ::
  "(bytes \<Rightarrow> bool) \<Rightarrow> bytes \<Rightarrow> ReferenceType \<Rightarrow> Record result" where
  "unpack_record_instruction utf8 input reference_type =
     bind (check_data_len input 7) (\<lambda>_.
     bind (array_ref input 2 5) (\<lambda>index.
     bind (slice_from input 7) (\<lambda>rest.
     bind (unpack_option_u32 index) (\<lambda>index.
       Record_unpack utf8 rest reference_type index))))"

definition RefDbInstruction_unpack :: "(bytes \<Rightarrow> bool) \<Rightarrow> bytes \<Rightarrow> RefDbInstruction result" where
  "RefDbInstruction_unpack utf8 input =
     bind (check_data_len input 3) (\<lambda>_.
     bind (ok_or (RefDbInstructionType_try_from_primitive (input ! 0)) InvalidInstructionData) (\<lambda>instruction_type.
     bind (ok_or (ReferenceType_try_from_primitive (input ! 1)) InvalidInstructionData) (\<lambda>reference_type.
     (case instruction_type of
        RefDbT_Init \<Rightarrow>
          bind (check_data_len input RefDbInstruction_INIT_LEN) (\<lambda>_.
          bind (array_ref input 2 (RefDbInstruction_INIT_LEN - 2)) (\<lambda>input.
          (case array_refs [64, 4, 1] input of
             [name, max_records, init_account] \<Rightarrow>
               bind (unpack_array_string64 utf8 name) (\<lambda>name.
               bind (unpack_bool init_account) (\<lambda>init_account.
                 Ok (RefDbI_Init name reference_type (from_le_bytes max_records) init_account)))
           | _ \<Rightarrow> Panic)))
      | RefDbT_Drop \<Rightarrow>
          bind (unpack_bool [input ! 2]) (\<lambda>close_account. Ok (RefDbI_Drop close_account))
      | RefDbT_Write \<Rightarrow>
          bind (unpack_record_instruction utf8 input reference_type) (\<lambda>record. Ok (RefDbI_Write record))
      | RefDbT_Delete \<Rightarrow>
          bind (unpack_record_instruction utf8 input reference_type) (\<lambda>record. Ok (RefDbI_Delete record))))))"

section \<open>The wire format\<close>

definition Record_enc :: "Record \<Rightarrow> bytes" where
  "Record_enc r = to_le_bytes (rec_counter r) @ to_le_bytes (rec_tag r) @ string64_bytes (rec_name r) @
     ref_bytes (rec_reference r)"

fun RefDbInstruction_enc :: "RefDbInstruction \<Rightarrow> bytes" where
  "RefDbInstruction_enc (RefDbI_Init name reference_type max_records init_account) =
     [RefDbInstructionType_as_u8 RefDbT_Init, ReferenceType_as_u8 reference_type] @ string64_bytes name @
       to_le_bytes max_records @ [bool_as_u8 init_account]"
| "RefDbInstruction_enc (RefDbI_Drop close_account) =
     [RefDbInstructionType_as_u8 RefDbT_Drop, ReferenceType_as_u8 TEmpty, bool_as_u8 close_account]"
| "RefDbInstruction_enc (RefDbI_Write r) =
     [RefDbInstructionType_as_u8 RefDbT_Write, ReferenceType_as_u8 (Reference_get_type (rec_reference r))] @
       option_u32_bytes (rec_index r) @ Record_enc r"
| "RefDbInstruction_enc (RefDbI_Delete r) =
     [RefDbInstructionType_as_u8 RefDbT_Delete, ReferenceType_as_u8 (Reference_get_type (rec_reference r))] @
       option_u32_bytes (rec_index r) @ Record_enc r"

definition record_valid :: "(bytes \<Rightarrow> bool) \<Rightarrow> Record \<Rightarrow> bool" where
  "record_valid utf8 r \<longleftrightarrow> packable_name utf8 (rec_name r) \<and> wf_reference (rec_reference r)"

fun RefDbInstruction_valid :: "(bytes \<Rightarrow> bool) \<Rightarrow> RefDbInstruction \<Rightarrow> bool" where
  "RefDbInstruction_valid utf8 (RefDbI_Init name _ _ _) \<longleftrightarrow> packable_name utf8 name"
| "RefDbInstruction_valid utf8 (RefDbI_Drop _) \<longleftrightarrow> True"
| "RefDbInstruction_valid utf8 (RefDbI_Write r) \<longleftrightarrow> record_valid utf8 r"
| "RefDbInstruction_valid utf8 (RefDbI_Delete r) \<longleftrightarrow> record_valid utf8 r"

lemma length_Record_enc: "record_valid utf8 r \<Longrightarrow> length (Record_enc r) = Record_get_size r"
  by (auto simp: Record_enc_def record_valid_def Record_get_size_eq NO_REF_LEN_def)

lemma pack_with_zeros:
  assumes "packable_name utf8 (rec_name r)" and "68 + length d \<le> n"
  shows "pack_with r (replicate n 0) d =
    to_le_bytes (rec_counter r) @ to_le_bytes (rec_tag r) @ string64_bytes (rec_name r) @ d @
      replicate (n - (68 + length d)) 0"
  using assms
  by (simp add: pack_with_def splice_def slice_def Let_def min_absorb1 pack_array_string64_bytes [OF assms(1)])

interpretation record_wire: wire Record_enc Record_pack "\<lambda>inp. Record_unpack utf8 inp t index"
  "valid_record utf8 t index" for utf8 t index
proof
  fix r n and out rest :: bytes
  assume v: "valid_record utf8 t index r"
  then have rv: "record_valid utf8 r" by (simp add: valid_record_def record_valid_def)
  note len = length_Record_enc [OF rv]
  have d: "68 + length (ref_bytes (rec_reference r)) = Record_get_size r"
    using rv by (simp add: Record_get_size_eq NO_REF_LEN_def record_valid_def)
  show "length (Record_enc r) \<le> n \<Longrightarrow> Record_pack r (replicate n 0) =
      (Ok (length (Record_enc r)), Record_enc r @ replicate (n - length (Record_enc r)) 0)"
    unfolding len using pack_with_zeros [of utf8 r "ref_bytes (rec_reference r)" n] rv d
    by (simp add: Record_pack_eq Record_enc_def record_valid_def)
  show "length out < length (Record_enc r) \<Longrightarrow> fst (Record_pack r out) = Err AccountDataTooSmall"
    by (simp add: Record_pack_eq len)
  have "length (Record_enc r) = NO_REF_LEN + ReferenceType_get_size t"
    using len v by (simp add: Record_get_size_eq valid_record_def)
  moreover have "length (string64_bytes (rec_name r)) = 64" "length (ref_bytes (rec_reference r)) = ReferenceType_get_size t"
    using v by (auto simp: valid_record_def)
  then have "slice 68 (ReferenceType_get_size t) (Record_enc r @ rest) = ref_bytes (rec_reference r)"
    "slice 4 64 (Record_enc r @ rest) = string64_bytes (rec_name r)"
    "slice 0 2 (Record_enc r @ rest) = to_le_bytes (rec_counter r)"
    "slice 2 2 (Record_enc r @ rest) = to_le_bytes (rec_tag r)"
    by (simp_all add: Record_enc_def slice_def)
  ultimately show "Record_unpack utf8 (Record_enc r @ rest) t index = Ok r"
    using v by (auto simp: Record_unpack_eq valid_record_def)
next
  fix inp :: bytes
  show "Record_unpack utf8 inp t index \<noteq> Panic" by (simp add: Record_unpack_eq no_panic)
  show "Record_unpack utf8 inp t index = Ok r \<Longrightarrow> valid_record utf8 t index r" for r
    by (auto simp: Record_unpack_eq NO_REF_LEN_def valid_record_def result_simps split: if_splits;
      erule unpack_array_string64_packable; simp)
qed

lemma record_instruction_pack:
  assumes "record_valid utf8 r" and "7 + Record_get_size r \<le> n"
  shows "pack_record_instruction t r (replicate n 0) =
    (Ok (7 + Record_get_size r),
     [RefDbInstructionType_as_u8 t, ReferenceType_as_u8 (Reference_get_type (rec_reference r))] @
       option_u32_bytes (rec_index r) @ Record_enc r @ replicate (n - (7 + Record_get_size r)) 0)"
proof -
  let ?h = "[RefDbInstructionType_as_u8 t, ReferenceType_as_u8 (Reference_get_type (rec_reference r))] @
    option_u32_bytes (rec_index r)"
  have "valid_record utf8 (Reference_get_type (rec_reference r)) (rec_index r) r"
    using assms(1) by (simp add: valid_record_def record_valid_def)
  moreover have "length (Record_enc r) \<le> n - 7" "7 = length ?h"
    using assms(2) by (simp_all add: length_Record_enc [OF assms(1)])
  ultimately have "pack_from 7 Record_pack r (?h @ replicate (n - 7) 0) =
      (Ok (length (Record_enc r)), ?h @ Record_enc r @ replicate (n - 7 - length (Record_enc r)) 0)"
    by (rule record_wire.pack_from_prefix)
  then have "pack_from 7 Record_pack r (?h @ replicate (n - 7) 0) =
      (Ok (Record_get_size r), ?h @ Record_enc r @ replicate (n - (7 + Record_get_size r)) 0)"
    unfolding length_Record_enc [OF assms(1)] by (simp only: diff_diff_left)
  then show ?thesis
    using assms(2) by (simp add: pack_record_instruction_def mut_array_refs_zeros pack_option_u32_bytes
      del: mut_array_refs.simps)
qed

lemma record_instruction_short:
  assumes "record_valid utf8 r" and "length out < 7 + Record_get_size r"
  shows "fst (pack_record_instruction t r out) = Err AccountDataTooSmall"
proof (cases "length out < 7")
  case False
  then have "\<exists>out'. mut_array_refs [(1, put [a]), (1, put [b]), (5, pack_option_u32 v)] out = out' \<and>
      length out' = length out" for a b v
    by (cases v) (auto simp: pack_option_u32_def)
  moreover have "length out' = length out \<Longrightarrow> fst (pack_from 7 Record_pack r out') = Err AccountDataTooSmall" for out'
    using assms(2) False by (simp add: pack_from_def Record_pack_eq)
  ultimately show ?thesis
    using False by (auto simp: pack_record_instruction_def intro!: fst_seq_Err simp del: mut_array_refs.simps)
qed (simp add: pack_record_instruction_def)

lemma record_instruction_unpack:
  assumes "record_valid utf8 r"
  shows "unpack_record_instruction utf8 (a # b # option_u32_bytes (rec_index r) @ Record_enc r @ rest)
    (Reference_get_type (rec_reference r)) = Ok r"
proof -
  have "valid_record utf8 (Reference_get_type (rec_reference r)) (rec_index r) r"
    using assms by (simp add: valid_record_def record_valid_def)
  then show ?thesis
    using record_wire.unpack_enc [of utf8 _ _ r rest]
    by (simp add: unpack_record_instruction_def slice_def)
qed

lemma unpack_record_instruction_total [no_panic]: "unpack_record_instruction utf8 inp t \<noteq> Panic"
  unfolding unpack_record_instruction_def
  by (rule checked_no_panic) (simp add: no_panic record_wire.unpack_total)

interpretation refdb_instruction: wire RefDbInstruction_enc RefDbInstruction_pack
  "RefDbInstruction_unpack utf8" "RefDbInstruction_valid utf8"
proof
  fix x n and out rest :: bytes
  assume v: "RefDbInstruction_valid utf8 x"
  show "length (RefDbInstruction_enc x) \<le> n \<Longrightarrow> RefDbInstruction_pack x (replicate n 0) =
      (Ok (length (RefDbInstruction_enc x)),
       RefDbInstruction_enc x @ replicate (n - length (RefDbInstruction_enc x)) 0)"
    using v by (cases x) (simp_all add: RefDbInstruction_pack_def RefDbInstruction_INIT_LEN_def
      RefDbInstruction_DROP_LEN_def mut_array_refs_zeros pack_array_string64_bytes record_instruction_pack
      length_Record_enc del: mut_array_refs.simps)
  show "length out < length (RefDbInstruction_enc x) \<Longrightarrow>
      fst (RefDbInstruction_pack x out) = Err AccountDataTooSmall"
    using v by (cases x) (simp_all add: RefDbInstruction_pack_def RefDbInstruction_INIT_LEN_def
      RefDbInstruction_DROP_LEN_def record_instruction_short length_Record_enc)
  show "RefDbInstruction_unpack utf8 (RefDbInstruction_enc x @ rest) = Ok x"
    using v record_instruction_unpack [of utf8] ReferenceType_as_u8_round_trip [of TEmpty]
    by (cases x) (simp_all add: RefDbInstruction_unpack_def RefDbInstructionType_try_from_primitive_def
      RefDbInstruction_INIT_LEN_def slice_def length_Record_enc)
next
  fix inp :: bytes
  show "RefDbInstruction_unpack utf8 inp \<noteq> Panic"
    unfolding RefDbInstruction_unpack_def
    by (intro bind_no_panic) (auto simp: no_panic RefDbInstruction_INIT_LEN_def split: RefDbInstructionType.split)
  fix x assume u: "RefDbInstruction_unpack utf8 inp = Ok x"
  show "RefDbInstruction_valid utf8 x"
  proof (cases "RefDbInstructionType_try_from_primitive (inp ! 0)")
    case None
    then show ?thesis using u by (simp add: RefDbInstruction_unpack_def result_simps)
  next
    case (Some t)
    then show ?thesis
      using u by - (cases t; auto simp: RefDbInstruction_unpack_def unpack_record_instruction_def
        RefDbInstruction_INIT_LEN_def result_simps array_ref_def slice_from_def record_valid_def valid_record_def
        dest!: record_wire.unpack_valid; erule field_valid; simp)
  qed
qed

end
