(* ===== verification/Main_Instruction.thy ===== *)
theory Main_Instruction
  imports Token_Meta Farm_Meta Pool_Meta Vault_Meta Fund_Meta RefDb_Instruction
begin

text \<open>
  The instructions of the main router (\<open>crates/solana_farm_sdk/src/instruction/main_router.rs\<close>), which
  registers the metadata of funds, vaults, pools, farms and tokens and manages the RefDB storages: packing,
  unpacking and the wire format they agree on.
\<close>

section \<open>Instructions\<close>

datatype MainInstruction =
    MainI_AddFund Fund
  | MainI_RemoveFund ArrayString64 "u32 option"
  | MainI_AddVault Vault
  | MainI_RemoveVault ArrayString64 "u32 option"
  | MainI_AddPool Pool
  | MainI_RemovePool ArrayString64 "u32 option"
  | MainI_AddFarm Farm
  | MainI_RemoveFarm ArrayString64 "u32 option"
  | MainI_AddToken Token
  | MainI_RemoveToken ArrayString64 "u32 option"
  | MainI_RefDbInstruction RefDbInstruction
  | MainI_SetAdminSigners u8
  | MainI_SetProgramAdminSigners u8
  | MainI_SetProgramSingleAuthority
  | MainI_UpgradeProgram

datatype MainInstructionType =
    MainT_AddFund | MainT_RemoveFund | MainT_AddVault | MainT_RemoveVault | MainT_AddPool |
    MainT_RemovePool | MainT_AddFarm | MainT_RemoveFarm | MainT_AddToken | MainT_RemoveToken |
    MainT_RefDbInstruction | MainT_SetAdminSigners | MainT_SetProgramAdminSigners |
    MainT_SetProgramSingleAuthority | MainT_UpgradeProgram

fun MainInstructionType_as_u8 :: "MainInstructionType \<Rightarrow> u8" where
  "MainInstructionType_as_u8 MainT_AddFund = 0"
| "MainInstructionType_as_u8 MainT_RemoveFund = 1"
| "MainInstructionType_as_u8 MainT_AddVault = 2"
| "MainInstructionType_as_u8 MainT_RemoveVault = 3"
| "MainInstructionType_as_u8 MainT_AddPool = 4"
| "MainInstructionType_as_u8 MainT_RemovePool = 5"
| "MainInstructionType_as_u8 MainT_AddFarm = 6"
| "MainInstructionType_as_u8 MainT_RemoveFarm = 7"
| "MainInstructionType_as_u8 MainT_AddToken = 8"
| "MainInstructionType_as_u8 MainT_RemoveToken = 9"
| "MainInstructionType_as_u8 MainT_RefDbInstruction = 10"
| "MainInstructionType_as_u8 MainT_SetAdminSigners = 11"
| "MainInstructionType_as_u8 MainT_SetProgramAdminSigners = 12"
| "MainInstructionType_as_u8 MainT_SetProgramSingleAuthority = 13"
| "MainInstructionType_as_u8 MainT_UpgradeProgram = 14"

definition MainInstructionType_try_from_primitive :: "u8 \<Rightarrow> MainInstructionType option" where
  "MainInstructionType_try_from_primitive b =
     find (\<lambda>t. MainInstructionType_as_u8 t = b)
       [MainT_AddFund, MainT_RemoveFund, MainT_AddVault, MainT_RemoveVault, MainT_AddPool,
        MainT_RemovePool, MainT_AddFarm, MainT_RemoveFarm, MainT_AddToken, MainT_RemoveToken,
        MainT_RefDbInstruction, MainT_SetAdminSigners, MainT_SetProgramAdminSigners,
        MainT_SetProgramSingleAuthority, MainT_UpgradeProgram]"

lemma MainInstructionType_round_trip [simp]:
  "MainInstructionType_try_from_primitive (MainInstructionType_as_u8 t) = Some t"
  by (cases t) (simp_all add: MainInstructionType_try_from_primitive_def)

fun MainInstructionType_fmt :: "MainInstructionType \<Rightarrow> string" where
  "MainInstructionType_fmt MainT_AddFund = ''AddFund''"
| "MainInstructionType_fmt MainT_RemoveFund = ''RemoveFund''"
| "MainInstructionType_fmt MainT_AddVault = ''AddVault''"
| "MainInstructionType_fmt MainT_RemoveVault = ''RemoveVault''"
| "MainInstructionType_fmt MainT_AddPool = ''AddPool''"
| "MainInstructionType_fmt MainT_RemovePool = ''RemovePool''"
| "MainInstructionType_fmt MainT_AddFarm = ''AddFarm''"
| "MainInstructionType_fmt MainT_RemoveFarm = ''RemoveFarm''"
| "MainInstructionType_fmt MainT_AddToken = ''AddToken''"
| "MainInstructionType_fmt MainT_RemoveToken = ''RemoveToken''"
| "MainInstructionType_fmt MainT_RefDbInstruction = ''RefDbInstruction''"
| "MainInstructionType_fmt MainT_SetAdminSigners = ''SetAdminSigners''"
| "MainInstructionType_fmt MainT_SetProgramAdminSigners = ''SetProgramAdminSigners''"
| "MainInstructionType_fmt MainT_SetProgramSingleAuthority = ''SetProgramSingleAuthority''"
| "MainInstructionType_fmt MainT_UpgradeProgram = ''UpgradeProgram''"

definition MainInstruction_MAX_LEN :: usize where "MainInstruction_MAX_LEN = max (Vault_MAX_LEN + 1) (Pool_MAX_LEN + 1)"
definition MainInstruction_REMOVE_FUND_LEN :: usize where "MainInstruction_REMOVE_FUND_LEN = 70"
definition MainInstruction_REMOVE_VAULT_LEN :: usize where "MainInstruction_REMOVE_VAULT_LEN = 70"
definition MainInstruction_REMOVE_POOL_LEN :: usize where "MainInstruction_REMOVE_POOL_LEN = 70"
definition MainInstruction_REMOVE_FARM_LEN :: usize where "MainInstruction_REMOVE_FARM_LEN = 70"
definition MainInstruction_REMOVE_TOKEN_LEN :: usize where "MainInstruction_REMOVE_TOKEN_LEN = 70"
definition MainInstruction_SET_ADMIN_SIGNERS_LEN :: usize where "MainInstruction_SET_ADMIN_SIGNERS_LEN = 2"
definition MainInstruction_SET_PROGRAM_ADMIN_SIGNERS_LEN :: usize where "MainInstruction_SET_PROGRAM_ADMIN_SIGNERS_LEN = 2"
definition MainInstruction_SET_PROGRAM_SINGLE_AUTHORITY_LEN :: usize where "MainInstruction_SET_PROGRAM_SINGLE_AUTHORITY_LEN = 1"
definition MainInstruction_UPGRADE_PROGRAM_LEN :: usize where "MainInstruction_UPGRADE_PROGRAM_LEN = 1"

lemmas maini_lens = MainInstruction_REMOVE_FUND_LEN_def MainInstruction_REMOVE_VAULT_LEN_def
  MainInstruction_REMOVE_POOL_LEN_def MainInstruction_REMOVE_FARM_LEN_def
  MainInstruction_REMOVE_TOKEN_LEN_def MainInstruction_SET_ADMIN_SIGNERS_LEN_def
  MainInstruction_SET_PROGRAM_ADMIN_SIGNERS_LEN_def
  MainInstruction_SET_PROGRAM_SINGLE_AUTHORITY_LEN_def MainInstruction_UPGRADE_PROGRAM_LEN_def

section \<open>Packing\<close>

definition MainInstruction_pack_add_fund :: "bytes \<Rightarrow> Fund \<Rightarrow> (usize, bytes) effect" where
  "MainInstruction_pack_add_fund output fund =
     seq (pack_from 1 Fund_pack fund output) (\<lambda>packed output.
       (Ok (packed + 1), mut_array_refs [(1, put [MainInstructionType_as_u8 MainT_AddFund])] output))"

definition MainInstruction_pack_remove_fund :: "bytes \<Rightarrow> ArrayString64 \<Rightarrow> u32 option \<Rightarrow> (usize, bytes) effect" where
  "MainInstruction_pack_remove_fund output name refdb_index =
     seq (pure_in output (check_data_len output MainInstruction_REMOVE_FUND_LEN)) (\<lambda>_ output.
       (Ok MainInstruction_REMOVE_FUND_LEN,
        mut_array_refs
            [(1, put [MainInstructionType_as_u8 MainT_RemoveFund]), (64, pack_array_string64 name),
             (5, pack_option_u32 refdb_index)] output))"

definition MainInstruction_pack_add_vault :: "bytes \<Rightarrow> Vault \<Rightarrow> (usize, bytes) effect" where
  "MainInstruction_pack_add_vault output vault =
     seq (pack_from 1 Vault_pack vault output) (\<lambda>packed output.
       (Ok (packed + 1), mut_array_refs [(1, put [MainInstructionType_as_u8 MainT_AddVault])] output))"

definition MainInstruction_pack_remove_vault :: "bytes \<Rightarrow> ArrayString64 \<Rightarrow> u32 option \<Rightarrow> (usize, bytes) effect" where
  "MainInstruction_pack_remove_vault output name refdb_index =
     seq (pure_in output (check_data_len output MainInstruction_REMOVE_VAULT_LEN)) (\<lambda>_ output.
       (Ok MainInstruction_REMOVE_VAULT_LEN,
        mut_array_refs
            [(1, put [MainInstructionType_as_u8 MainT_RemoveVault]), (64, pack_array_string64 name),
             (5, pack_option_u32 refdb_index)] output))"

definition MainInstruction_pack_add_pool :: "bytes \<Rightarrow> Pool \<Rightarrow> (usize, bytes) effect" where
  "MainInstruction_pack_add_pool output pool =
     seq (pack_from 1 Pool_pack pool output) (\<lambda>packed output.
       (Ok (packed + 1), mut_array_refs [(1, put [MainInstructionType_as_u8 MainT_AddPool])] output))"

definition MainInstruction_pack_remove_pool :: "bytes \<Rightarrow> ArrayString64 \<Rightarrow> u32 option \<Rightarrow> (usize, bytes) effect" where
  "MainInstruction_pack_remove_pool output name refdb_index =
     seq (pure_in output (check_data_len output MainInstruction_REMOVE_POOL_LEN)) (\<lambda>_ output.
       (Ok MainInstruction_REMOVE_POOL_LEN,
        mut_array_refs
            [(1, put [MainInstructionType_as_u8 MainT_RemovePool]), (64, pack_array_string64 name),
             (5, pack_option_u32 refdb_index)] output))"

definition MainInstruction_pack_add_farm :: "bytes \<Rightarrow> Farm \<Rightarrow> (usize, bytes) effect" where
  "MainInstruction_pack_add_farm output farm =
     seq (pack_from 1 Farm_pack farm output) (\<lambda>packed output.
       (Ok (packed + 1), mut_array_refs [(1, put [MainInstructionType_as_u8 MainT_AddFarm])] output))"

definition MainInstruction_pack_remove_farm :: "bytes \<Rightarrow> ArrayString64 \<Rightarrow> u32 option \<Rightarrow> (usize, bytes) effect" where
  "MainInstruction_pack_remove_farm output name refdb_index =
     seq (pure_in output (check_data_len output MainInstruction_REMOVE_FARM_LEN)) (\<lambda>_ output.
       (Ok MainInstruction_REMOVE_FARM_LEN,
        mut_array_refs
            [(1, put [MainInstructionType_as_u8 MainT_RemoveFarm]), (64, pack_array_string64 name),
             (5, pack_option_u32 refdb_index)] output))"

definition MainInstruction_pack_add_token :: "bytes \<Rightarrow> Token \<Rightarrow> (usize, bytes) effect" where
  "MainInstruction_pack_add_token output token =
     seq (pack_from 1 Token_pack token output) (\<lambda>packed output.
       (Ok (packed + 1), mut_array_refs [(1, put [MainInstructionType_as_u8 MainT_AddToken])] output))"

definition MainInstruction_pack_remove_token :: "bytes \<Rightarrow> ArrayString64 \<Rightarrow> u32 option \<Rightarrow> (usize, bytes) effect" where
  "MainInstruction_pack_remove_token output name refdb_index =
     seq (pure_in output (check_data_len output MainInstruction_REMOVE_TOKEN_LEN)) (\<lambda>_ output.
       (Ok MainInstruction_REMOVE_TOKEN_LEN,
        mut_array_refs
            [(1, put [MainInstructionType_as_u8 MainT_RemoveToken]), (64, pack_array_string64 name),
             (5, pack_option_u32 refdb_index)] output))"

definition MainInstruction_pack_refdb_instruction :: "bytes \<Rightarrow> RefDbInstruction \<Rightarrow> (usize, bytes) effect" where
  "MainInstruction_pack_refdb_instruction output instruction =
     seq (pack_from 1 RefDbInstruction_pack instruction output) (\<lambda>packed output.
       (Ok (packed + 1), mut_array_refs [(1, put [MainInstructionType_as_u8 MainT_RefDbInstruction])] output))"

definition MainInstruction_pack_set_admin_signers :: "bytes \<Rightarrow> u8 \<Rightarrow> (usize, bytes) effect" where
  "MainInstruction_pack_set_admin_signers output min_signatures =
     seq (pure_in output (check_data_len output MainInstruction_SET_ADMIN_SIGNERS_LEN)) (\<lambda>_ output.
       (Ok MainInstruction_SET_ADMIN_SIGNERS_LEN,
        mut_array_refs
            [(1, put [MainInstructionType_as_u8 MainT_SetAdminSigners]), (1, put [min_signatures])] output))"

definition MainInstruction_pack_set_program_admin_signers :: "bytes \<Rightarrow> u8 \<Rightarrow> (usize, bytes) effect" where
  "MainInstruction_pack_set_program_admin_signers output min_signatures =
     seq (pure_in output (check_data_len output MainInstruction_SET_PROGRAM_ADMIN_SIGNERS_LEN)) (\<lambda>_ output.
       (Ok MainInstruction_SET_PROGRAM_ADMIN_SIGNERS_LEN,
        mut_array_refs
            [(1, put [MainInstructionType_as_u8 MainT_SetProgramAdminSigners]),
             (1, put [min_signatures])] output))"

definition MainInstruction_pack_set_program_single_authority :: "bytes \<Rightarrow> (usize, bytes) effect" where
  "MainInstruction_pack_set_program_single_authority output =
     seq (pure_in output (check_data_len output MainInstruction_SET_PROGRAM_SINGLE_AUTHORITY_LEN)) (\<lambda>_ output.
       (Ok MainInstruction_SET_PROGRAM_SINGLE_AUTHORITY_LEN,
        mut_array_refs
            [(1, put [MainInstructionType_as_u8 MainT_SetProgramSingleAuthority])] output))"

definition MainInstruction_pack_upgrade_program :: "bytes \<Rightarrow> (usize, bytes) effect" where
  "MainInstruction_pack_upgrade_program output =
     seq (pure_in output (check_data_len output MainInstruction_UPGRADE_PROGRAM_LEN)) (\<lambda>_ output.
       (Ok MainInstruction_UPGRADE_PROGRAM_LEN,
        mut_array_refs
            [(1, put [MainInstructionType_as_u8 MainT_UpgradeProgram])] output))"

definition MainInstruction_pack :: "MainInstruction \<Rightarrow> bytes \<Rightarrow> (usize, bytes) effect" where
  "MainInstruction_pack self output =
     seq (pure_in output (check_data_len output 1)) (\<lambda>_ output.
     (case self of
        MainI_AddFund fund \<Rightarrow> MainInstruction_pack_add_fund output fund
      | MainI_RemoveFund name refdb_index \<Rightarrow> MainInstruction_pack_remove_fund output name refdb_index
      | MainI_AddVault vault \<Rightarrow> MainInstruction_pack_add_vault output vault
      | MainI_RemoveVault name refdb_index \<Rightarrow> MainInstruction_pack_remove_vault output name refdb_index
      | MainI_AddPool pool \<Rightarrow> MainInstruction_pack_add_pool output pool
      | MainI_RemovePool name refdb_index \<Rightarrow> MainInstruction_pack_remove_pool output name refdb_index
      | MainI_AddFarm farm \<Rightarrow> MainInstruction_pack_add_farm output farm
      | MainI_RemoveFarm name refdb_index \<Rightarrow> MainInstruction_pack_remove_farm output name refdb_index
      | MainI_AddToken token \<Rightarrow> MainInstruction_pack_add_token output token
      | MainI_RemoveToken name refdb_index \<Rightarrow> MainInstruction_pack_remove_token output name refdb_index
      | MainI_RefDbInstruction instruction \<Rightarrow> MainInstruction_pack_refdb_instruction output instruction
      | MainI_SetAdminSigners min_signatures \<Rightarrow> MainInstruction_pack_set_admin_signers output min_signatures
      | MainI_SetProgramAdminSigners min_signatures \<Rightarrow> MainInstruction_pack_set_program_admin_signers output min_signatures
      | MainI_SetProgramSingleAuthority \<Rightarrow> MainInstruction_pack_set_program_single_authority output
      | MainI_UpgradeProgram \<Rightarrow> MainInstruction_pack_upgrade_program output))"

definition MainInstruction_to_vec :: "MainInstruction \<Rightarrow> bytes result" where
  "MainInstruction_to_vec = to_vec_or InvalidInstructionData MainInstruction_MAX_LEN MainInstruction_pack"

section \<open>Unpacking\<close>

definition MainInstruction_unpack_add_fund :: "(bytes \<Rightarrow> bool) \<Rightarrow> bytes \<Rightarrow> MainInstruction result" where
  "MainInstruction_unpack_add_fund utf8 input =
     bind (slice_from input 1) (\<lambda>input.
     bind (Fund_unpack utf8 input) (\<lambda>fund. Ok (MainI_AddFund fund)))"

definition MainInstruction_unpack_remove_fund :: "(bytes \<Rightarrow> bool) \<Rightarrow> bytes \<Rightarrow> MainInstruction result" where
  "MainInstruction_unpack_remove_fund utf8 input =
     bind (check_data_len input MainInstruction_REMOVE_FUND_LEN) (\<lambda>_.
     bind (array_ref input 1 (MainInstruction_REMOVE_FUND_LEN - 1)) (\<lambda>input.
     (case array_refs [64, 5] input of
        [name, refdb_index] \<Rightarrow>
          bind (unpack_array_string64 utf8 name) (\<lambda>name.
          bind (unpack_option_u32 refdb_index) (\<lambda>refdb_index.
            Ok (MainI_RemoveFund name refdb_index)))
      | _ \<Rightarrow> Panic)))"

definition MainInstruction_unpack_add_vault :: "(bytes \<Rightarrow> bool) \<Rightarrow> bytes \<Rightarrow> MainInstruction result" where
  "MainInstruction_unpack_add_vault utf8 input =
     bind (slice_from input 1) (\<lambda>input.
     bind (Vault_unpack utf8 input) (\<lambda>vault. Ok (MainI_AddVault vault)))"

definition MainInstruction_unpack_remove_vault :: "(bytes \<Rightarrow> bool) \<Rightarrow> bytes \<Rightarrow> MainInstruction result" where
  "MainInstruction_unpack_remove_vault utf8 input =
     bind (check_data_len input MainInstruction_REMOVE_VAULT_LEN) (\<lambda>_.
     bind (array_ref input 1 (MainInstruction_REMOVE_VAULT_LEN - 1)) (\<lambda>input.
     (case array_refs [64, 5] input of
        [name, refdb_index] \<Rightarrow>
          bind (unpack_array_string64 utf8 name) (\<lambda>name.
          bind (unpack_option_u32 refdb_index) (\<lambda>refdb_index.
            Ok (MainI_RemoveVault name refdb_index)))
      | _ \<Rightarrow> Panic)))"

definition MainInstruction_unpack_add_pool :: "(bytes \<Rightarrow> bool) \<Rightarrow> bytes \<Rightarrow> MainInstruction result" where
  "MainInstruction_unpack_add_pool utf8 input =
     bind (slice_from input 1) (\<lambda>input.
     bind (Pool_unpack utf8 input) (\<lambda>pool. Ok (MainI_AddPool pool)))"

definition MainInstruction_unpack_remove_pool :: "(bytes \<Rightarrow> bool) \<Rightarrow> bytes \<Rightarrow> MainInstruction result" where
  "MainInstruction_unpack_remove_pool utf8 input =
     bind (check_data_len input MainInstruction_REMOVE_POOL_LEN) (\<lambda>_.
     bind (array_ref input 1 (MainInstruction_REMOVE_POOL_LEN - 1)) (\<lambda>input.
     (case array_refs [64, 5] input of
        [name, refdb_index] \<Rightarrow>
          bind (unpack_array_string64 utf8 name) (\<lambda>name.
          bind (unpack_option_u32 refdb_index) (\<lambda>refdb_index.
            Ok (MainI_RemovePool name refdb_index)))
      | _ \<Rightarrow> Panic)))"

definition MainInstruction_unpack_add_farm :: "(bytes \<Rightarrow> bool) \<Rightarrow> bytes \<Rightarrow> MainInstruction result" where
  "MainInstruction_unpack_add_farm utf8 input =
     bind (slice_from input 1) (\<lambda>input.
     bind (Farm_unpack utf8 input) (\<lambda>farm. Ok (MainI_AddFarm farm)))"

definition MainInstruction_unpack_remove_farm :: "(bytes \<Rightarrow> bool) \<Rightarrow> bytes \<Rightarrow> MainInstruction result" where
  "MainInstruction_unpack_remove_farm utf8 input =
     bind (check_data_len input MainInstruction_REMOVE_FARM_LEN) (\<lambda>_.
     bind (array_ref input 1 (MainInstruction_REMOVE_FARM_LEN - 1)) (\<lambda>input.
     (case array_refs [64, 5] input of
        [name, refdb_index] \<Rightarrow>
          bind (unpack_array_string64 utf8 name) (\<lambda>name.
          bind (unpack_option_u32 refdb_index) (\<lambda>refdb_index.
            Ok (MainI_RemoveFarm name refdb_index)))
      | _ \<Rightarrow> Panic)))"

definition MainInstruction_unpack_add_token :: "(bytes \<Rightarrow> bool) \<Rightarrow> bytes \<Rightarrow> MainInstruction result" where
  "MainInstruction_unpack_add_token utf8 input =
     bind (slice_from input 1) (\<lambda>input.
     bind (Token_unpack utf8 input) (\<lambda>token. Ok (MainI_AddToken token)))"

definition MainInstruction_unpack_remove_token :: "(bytes \<Rightarrow> bool) \<Rightarrow> bytes \<Rightarrow> MainInstruction result" where
  "MainInstruction_unpack_remove_token utf8 input =
     bind (check_data_len input MainInstruction_REMOVE_TOKEN_LEN) (\<lambda>_.
     bind (array_ref input 1 (MainInstruction_REMOVE_TOKEN_LEN - 1)) (\<lambda>input.
     (case array_refs [64, 5] input of
        [name, refdb_index] \<Rightarrow>
          bind (unpack_array_string64 utf8 name) (\<lambda>name.
          bind (unpack_option_u32 refdb_index) (\<lambda>refdb_index.
            Ok (MainI_RemoveToken name refdb_index)))
      | _ \<Rightarrow> Panic)))"

definition MainInstruction_unpack_refdb_instruction :: "(bytes \<Rightarrow> bool) \<Rightarrow> bytes \<Rightarrow> MainInstruction result" where
  "MainInstruction_unpack_refdb_instruction utf8 input =
     bind (slice_from input 1) (\<lambda>input.
     bind (RefDbInstruction_unpack utf8 input) (\<lambda>instruction. Ok (MainI_RefDbInstruction instruction)))"

definition MainInstruction_unpack_set_admin_signers :: "bytes \<Rightarrow> MainInstruction result" where
  "MainInstruction_unpack_set_admin_signers input =
     bind (check_data_len input MainInstruction_SET_ADMIN_SIGNERS_LEN) (\<lambda>_.
     bind (array_ref input 1 (MainInstruction_SET_ADMIN_SIGNERS_LEN - 1)) (\<lambda>input.
     Ok (MainI_SetAdminSigners (input ! 0))))"

definition MainInstruction_unpack_set_program_admin_signers :: "bytes \<Rightarrow> MainInstruction result" where
  "MainInstruction_unpack_set_program_admin_signers input =
     bind (check_data_len input MainInstruction_SET_PROGRAM_ADMIN_SIGNERS_LEN) (\<lambda>_.
     bind (array_ref input 1 (MainInstruction_SET_PROGRAM_ADMIN_SIGNERS_LEN - 1)) (\<lambda>input.
     Ok (MainI_SetProgramAdminSigners (input ! 0))))"

definition MainInstruction_unpack_set_program_single_authority :: "bytes \<Rightarrow> MainInstruction result" where
  "MainInstruction_unpack_set_program_single_authority input =
     Ok MainI_SetProgramSingleAuthority"

definition MainInstruction_unpack_upgrade_program :: "bytes \<Rightarrow> MainInstruction result" where
  "MainInstruction_unpack_upgrade_program input =
     Ok MainI_UpgradeProgram"

definition MainInstruction_unpack :: "(bytes \<Rightarrow> bool) \<Rightarrow> bytes \<Rightarrow> MainInstruction result" where
  "MainInstruction_unpack utf8 input =
     bind (check_data_len input 1) (\<lambda>_.
     bind (ok_or (MainInstructionType_try_from_primitive (input ! 0)) InvalidInstructionData) (\<lambda>instruction_type.
     (case instruction_type of
        MainT_AddFund \<Rightarrow> MainInstruction_unpack_add_fund utf8 input
      | MainT_RemoveFund \<Rightarrow> MainInstruction_unpack_remove_fund utf8 input
      | MainT_AddVault \<Rightarrow> MainInstruction_unpack_add_vault utf8 input
      | MainT_RemoveVault \<Rightarrow> MainInstruction_unpack_remove_vault utf8 input
      | MainT_AddPool \<Rightarrow> MainInstruction_unpack_add_pool utf8 input
      | MainT_RemovePool \<Rightarrow> MainInstruction_unpack_remove_pool utf8 input
      | MainT_AddFarm \<Rightarrow> MainInstruction_unpack_add_farm utf8 input
      | MainT_RemoveFarm \<Rightarrow> MainInstruction_unpack_remove_farm utf8 input
      | MainT_AddToken \<Rightarrow> MainInstruction_unpack_add_token utf8 input
      | MainT_RemoveToken \<Rightarrow> MainInstruction_unpack_remove_token utf8 input
      | MainT_RefDbInstruction \<Rightarrow> MainInstruction_unpack_refdb_instruction utf8 input
      | MainT_SetAdminSigners \<Rightarrow> MainInstruction_unpack_set_admin_signers input
      | MainT_SetProgramAdminSigners \<Rightarrow> MainInstruction_unpack_set_program_admin_signers input
      | MainT_SetProgramSingleAuthority \<Rightarrow> MainInstruction_unpack_set_program_single_authority input
      | MainT_UpgradeProgram \<Rightarrow> MainInstruction_unpack_upgrade_program input)))"

section \<open>The wire format\<close>

text \<open>The bytes of an instruction: its tag and the fields, and for which values they determine it.\<close>

fun MainInstruction_enc :: "MainInstruction \<Rightarrow> bytes" where
  "MainInstruction_enc (MainI_AddFund fund) =
     MainInstructionType_as_u8 MainT_AddFund # encode (Fund_fields fund)"
| "MainInstruction_enc (MainI_RemoveFund name refdb_index) =
     [MainInstructionType_as_u8 MainT_RemoveFund] @ string64_bytes name @
       option_u32_bytes refdb_index"
| "MainInstruction_enc (MainI_AddVault vault) =
     MainInstructionType_as_u8 MainT_AddVault # Vault_enc vault"
| "MainInstruction_enc (MainI_RemoveVault name refdb_index) =
     [MainInstructionType_as_u8 MainT_RemoveVault] @ string64_bytes name @
       option_u32_bytes refdb_index"
| "MainInstruction_enc (MainI_AddPool pool) =
     MainInstructionType_as_u8 MainT_AddPool # Pool_enc pool"
| "MainInstruction_enc (MainI_RemovePool name refdb_index) =
     [MainInstructionType_as_u8 MainT_RemovePool] @ string64_bytes name @
       option_u32_bytes refdb_index"
| "MainInstruction_enc (MainI_AddFarm farm) =
     MainInstructionType_as_u8 MainT_AddFarm # Farm_enc farm"
| "MainInstruction_enc (MainI_RemoveFarm name refdb_index) =
     [MainInstructionType_as_u8 MainT_RemoveFarm] @ string64_bytes name @
       option_u32_bytes refdb_index"
| "MainInstruction_enc (MainI_AddToken token) =
     MainInstructionType_as_u8 MainT_AddToken # encode (Token_fields token)"
| "MainInstruction_enc (MainI_RemoveToken name refdb_index) =
     [MainInstructionType_as_u8 MainT_RemoveToken] @ string64_bytes name @
       option_u32_bytes refdb_index"
| "MainInstruction_enc (MainI_RefDbInstruction instruction) =
     MainInstructionType_as_u8 MainT_RefDbInstruction # RefDbInstruction_enc instruction"
| "MainInstruction_enc (MainI_SetAdminSigners min_signatures) =
     [MainInstructionType_as_u8 MainT_SetAdminSigners] @ [min_signatures]"
| "MainInstruction_enc (MainI_SetProgramAdminSigners min_signatures) =
     [MainInstructionType_as_u8 MainT_SetProgramAdminSigners] @ [min_signatures]"
| "MainInstruction_enc MainI_SetProgramSingleAuthority =
     [MainInstructionType_as_u8 MainT_SetProgramSingleAuthority]"
| "MainInstruction_enc MainI_UpgradeProgram =
     [MainInstructionType_as_u8 MainT_UpgradeProgram]"

fun MainInstruction_valid :: "(bytes \<Rightarrow> bool) \<Rightarrow> MainInstruction \<Rightarrow> bool" where
  "MainInstruction_valid utf8 (MainI_AddFund fund) \<longleftrightarrow> Fund_valid utf8 fund"
| "MainInstruction_valid utf8 (MainI_RemoveFund name refdb_index) \<longleftrightarrow> packable_name utf8 name"
| "MainInstruction_valid utf8 (MainI_AddVault vault) \<longleftrightarrow> Vault_valid utf8 vault"
| "MainInstruction_valid utf8 (MainI_RemoveVault name refdb_index) \<longleftrightarrow> packable_name utf8 name"
| "MainInstruction_valid utf8 (MainI_AddPool pool) \<longleftrightarrow> Pool_valid utf8 pool"
| "MainInstruction_valid utf8 (MainI_RemovePool name refdb_index) \<longleftrightarrow> packable_name utf8 name"
| "MainInstruction_valid utf8 (MainI_AddFarm farm) \<longleftrightarrow> Farm_valid utf8 farm"
| "MainInstruction_valid utf8 (MainI_RemoveFarm name refdb_index) \<longleftrightarrow> packable_name utf8 name"
| "MainInstruction_valid utf8 (MainI_AddToken token) \<longleftrightarrow> Token_valid utf8 token"
| "MainInstruction_valid utf8 (MainI_RemoveToken name refdb_index) \<longleftrightarrow> packable_name utf8 name"
| "MainInstruction_valid utf8 (MainI_RefDbInstruction instruction) \<longleftrightarrow> RefDbInstruction_valid utf8 instruction"
| "MainInstruction_valid utf8 _ \<longleftrightarrow> True"

lemmas maini_pack_defs = MainInstruction_pack_add_fund_def MainInstruction_pack_remove_fund_def
  MainInstruction_pack_add_vault_def MainInstruction_pack_remove_vault_def
  MainInstruction_pack_add_pool_def MainInstruction_pack_remove_pool_def
  MainInstruction_pack_add_farm_def MainInstruction_pack_remove_farm_def
  MainInstruction_pack_add_token_def MainInstruction_pack_remove_token_def
  MainInstruction_pack_refdb_instruction_def MainInstruction_pack_set_admin_signers_def
  MainInstruction_pack_set_program_admin_signers_def
  MainInstruction_pack_set_program_single_authority_def MainInstruction_pack_upgrade_program_def

lemmas maini_unpack_defs = MainInstruction_unpack_add_fund_def MainInstruction_unpack_remove_fund_def
  MainInstruction_unpack_add_vault_def MainInstruction_unpack_remove_vault_def
  MainInstruction_unpack_add_pool_def MainInstruction_unpack_remove_pool_def
  MainInstruction_unpack_add_farm_def MainInstruction_unpack_remove_farm_def
  MainInstruction_unpack_add_token_def MainInstruction_unpack_remove_token_def
  MainInstruction_unpack_refdb_instruction_def MainInstruction_unpack_set_admin_signers_def
  MainInstruction_unpack_set_program_admin_signers_def
  MainInstruction_unpack_set_program_single_authority_def MainInstruction_unpack_upgrade_program_def

lemma MainInstruction_unpack_variants [no_panic]:
  "input \<noteq> [] \<Longrightarrow> MainInstruction_unpack_add_fund utf8 input \<noteq> Panic"
  "MainInstruction_unpack_remove_fund utf8 input \<noteq> Panic"
  "input \<noteq> [] \<Longrightarrow> MainInstruction_unpack_add_vault utf8 input \<noteq> Panic"
  "MainInstruction_unpack_remove_vault utf8 input \<noteq> Panic"
  "input \<noteq> [] \<Longrightarrow> MainInstruction_unpack_add_pool utf8 input \<noteq> Panic"
  "MainInstruction_unpack_remove_pool utf8 input \<noteq> Panic"
  "input \<noteq> [] \<Longrightarrow> MainInstruction_unpack_add_farm utf8 input \<noteq> Panic"
  "MainInstruction_unpack_remove_farm utf8 input \<noteq> Panic"
  "input \<noteq> [] \<Longrightarrow> MainInstruction_unpack_add_token utf8 input \<noteq> Panic"
  "MainInstruction_unpack_remove_token utf8 input \<noteq> Panic"
  "input \<noteq> [] \<Longrightarrow> MainInstruction_unpack_refdb_instruction utf8 input \<noteq> Panic"
  "MainInstruction_unpack_set_admin_signers input \<noteq> Panic"
  "MainInstruction_unpack_set_program_admin_signers input \<noteq> Panic"
  "MainInstruction_unpack_set_program_single_authority input \<noteq> Panic"
  "MainInstruction_unpack_upgrade_program input \<noteq> Panic"
  by (simp_all add: maini_unpack_defs maini_lens no_panic
    fund_meta.unpack_from_total [simplified] vault.unpack_from_total [simplified] pool.unpack_from_total [simplified] farm.unpack_from_total [simplified] token.unpack_from_total [simplified] refdb_instruction.unpack_from_total [simplified])

interpretation main_instruction: wire MainInstruction_enc MainInstruction_pack "MainInstruction_unpack utf8" "MainInstruction_valid utf8"
proof
  fix x n and out rest :: bytes
  assume v: "MainInstruction_valid utf8 x"
  show "length (MainInstruction_enc x) \<le> n \<Longrightarrow> MainInstruction_pack x (replicate n 0) =
      (Ok (length (MainInstruction_enc x)), MainInstruction_enc x @ replicate (n - length (MainInstruction_enc x)) 0)"
    using v by (cases x) (simp_all add: MainInstruction_pack_def maini_pack_defs maini_lens mut_array_refs_zeros pack_array_string64_bytes pack_option_u32_bytes
      set_tag fund_meta.pack_from_zeros [simplified] vault.pack_from_zeros [simplified] pool.pack_from_zeros [simplified] farm.pack_from_zeros [simplified] token.pack_from_zeros [simplified] refdb_instruction.pack_from_zeros [simplified]
      del: mut_array_refs.simps)
  show "length out < length (MainInstruction_enc x) \<Longrightarrow> fst (MainInstruction_pack x out) = Err AccountDataTooSmall"
    using v by (cases x; cases out) (simp_all add: MainInstruction_pack_def maini_pack_defs maini_lens
      fst_seq_Err fund_meta.pack_from_short [simplified] vault.pack_from_short [simplified] pool.pack_from_short [simplified] farm.pack_from_short [simplified] token.pack_from_short [simplified] refdb_instruction.pack_from_short [simplified])
  show "MainInstruction_unpack utf8 (MainInstruction_enc x @ rest) = Ok x"
    using v by (cases x) (simp_all add: MainInstruction_unpack_def maini_unpack_defs maini_lens MainInstructionType_try_from_primitive_def
      slice_def
      fund_meta.unpack_enc vault.unpack_enc pool.unpack_enc farm.unpack_enc token.unpack_enc refdb_instruction.unpack_enc)
next
  fix inp :: bytes
  show "MainInstruction_unpack utf8 inp \<noteq> Panic"
    unfolding MainInstruction_unpack_def
    by (rule checked_no_panic, rule bind_no_panic) (auto simp: no_panic Suc_le_eq split: MainInstructionType.split)
  fix x assume u: "MainInstruction_unpack utf8 inp = Ok x"
  show "MainInstruction_valid utf8 x"
  proof (cases "MainInstructionType_try_from_primitive (inp ! 0)")
    case None
    then show ?thesis using u by (simp add: MainInstruction_unpack_def result_simps)
  next
    case (Some t)
    then show ?thesis
      using u by - (cases t; auto simp: MainInstruction_unpack_def maini_unpack_defs maini_lens result_simps
        array_ref_def slice_from_def
        dest!: fund_meta.unpack_valid vault.unpack_valid pool.unpack_valid farm.unpack_valid token.unpack_valid refdb_instruction.unpack_valid; erule field_valid; simp)
  qed
qed

end
