(* ===== verification/Amm_Instruction.thy ===== *)
theory Amm_Instruction
  imports Wire
begin

text \<open>
  The instructions of the protocol routers (\<open>crates/solana_farm_sdk/src/instruction/amm.rs\<close>): packing,
  unpacking and the wire format they agree on.
\<close>

section \<open>Instructions\<close>

datatype AmmInstruction =
    AmmI_UserInit
  | AmmI_AddLiquidity u64 u64
  | AmmI_RemoveLiquidity u64
  | AmmI_Swap u64 u64 u64
  | AmmI_Stake u64
  | AmmI_Unstake u64
  | AmmI_Harvest
  | AmmI_WrapToken u64
  | AmmI_UnwrapToken u64

datatype AmmInstructionType =
    AmmT_UserInit | AmmT_AddLiquidity | AmmT_RemoveLiquidity | AmmT_Swap | AmmT_Stake |
    AmmT_Unstake | AmmT_Harvest | AmmT_WrapToken | AmmT_UnwrapToken

fun AmmInstructionType_as_u8 :: "AmmInstructionType \<Rightarrow> u8" where
  "AmmInstructionType_as_u8 AmmT_UserInit = 0"
| "AmmInstructionType_as_u8 AmmT_AddLiquidity = 1"
| "AmmInstructionType_as_u8 AmmT_RemoveLiquidity = 2"
| "AmmInstructionType_as_u8 AmmT_Swap = 3"
| "AmmInstructionType_as_u8 AmmT_Stake = 4"
| "AmmInstructionType_as_u8 AmmT_Unstake = 5"
| "AmmInstructionType_as_u8 AmmT_Harvest = 6"
| "AmmInstructionType_as_u8 AmmT_WrapToken = 7"
| "AmmInstructionType_as_u8 AmmT_UnwrapToken = 8"

definition AmmInstructionType_try_from_primitive :: "u8 \<Rightarrow> AmmInstructionType option" where
  "AmmInstructionType_try_from_primitive b =
     find (\<lambda>t. AmmInstructionType_as_u8 t = b)
       [AmmT_UserInit, AmmT_AddLiquidity, AmmT_RemoveLiquidity, AmmT_Swap, AmmT_Stake, AmmT_Unstake,
        AmmT_Harvest, AmmT_WrapToken, AmmT_UnwrapToken]"

lemma AmmInstructionType_round_trip [simp]:
  "AmmInstructionType_try_from_primitive (AmmInstructionType_as_u8 t) = Some t"
  by (cases t) (simp_all add: AmmInstructionType_try_from_primitive_def)

fun AmmInstructionType_fmt :: "AmmInstructionType \<Rightarrow> string" where
  "AmmInstructionType_fmt AmmT_UserInit = ''UserInit''"
| "AmmInstructionType_fmt AmmT_AddLiquidity = ''AddLiquidity''"
| "AmmInstructionType_fmt AmmT_RemoveLiquidity = ''RemoveLiquidity''"
| "AmmInstructionType_fmt AmmT_Swap = ''Swap''"
| "AmmInstructionType_fmt AmmT_Stake = ''Stake''"
| "AmmInstructionType_fmt AmmT_Unstake = ''Unstake''"
| "AmmInstructionType_fmt AmmT_Harvest = ''Harvest''"
| "AmmInstructionType_fmt AmmT_WrapToken = ''WrapToken''"
| "AmmInstructionType_fmt AmmT_UnwrapToken = ''UnwrapToken''"

definition AmmInstruction_MAX_LEN :: usize where "AmmInstruction_MAX_LEN = 25"
definition AmmInstruction_USER_INIT_LEN :: usize where "AmmInstruction_USER_INIT_LEN = 1"
definition AmmInstruction_ADD_LIQUIDITY_LEN :: usize where "AmmInstruction_ADD_LIQUIDITY_LEN = 17"
definition AmmInstruction_REMOVE_LIQUIDITY_LEN :: usize where "AmmInstruction_REMOVE_LIQUIDITY_LEN = 9"
definition AmmInstruction_SWAP_LEN :: usize where "AmmInstruction_SWAP_LEN = 25"
definition AmmInstruction_STAKE_LEN :: usize where "AmmInstruction_STAKE_LEN = 9"
definition AmmInstruction_UNSTAKE_LEN :: usize where "AmmInstruction_UNSTAKE_LEN = 9"
definition AmmInstruction_HARVEST_LEN :: usize where "AmmInstruction_HARVEST_LEN = 1"
definition AmmInstruction_WRAP_TOKEN_LEN :: usize where "AmmInstruction_WRAP_TOKEN_LEN = 9"
definition AmmInstruction_UNWRAP_TOKEN_LEN :: usize where "AmmInstruction_UNWRAP_TOKEN_LEN = 9"

lemmas amm_lens = AmmInstruction_USER_INIT_LEN_def AmmInstruction_ADD_LIQUIDITY_LEN_def
  AmmInstruction_REMOVE_LIQUIDITY_LEN_def AmmInstruction_SWAP_LEN_def AmmInstruction_STAKE_LEN_def
  AmmInstruction_UNSTAKE_LEN_def AmmInstruction_HARVEST_LEN_def AmmInstruction_WRAP_TOKEN_LEN_def
  AmmInstruction_UNWRAP_TOKEN_LEN_def

fun AmmInstruction_get_size :: "AmmInstruction \<Rightarrow> usize" where
  "AmmInstruction_get_size AmmI_UserInit = AmmInstruction_USER_INIT_LEN"
| "AmmInstruction_get_size (AmmI_AddLiquidity _ _) = AmmInstruction_ADD_LIQUIDITY_LEN"
| "AmmInstruction_get_size (AmmI_RemoveLiquidity _) = AmmInstruction_REMOVE_LIQUIDITY_LEN"
| "AmmInstruction_get_size (AmmI_Swap _ _ _) = AmmInstruction_SWAP_LEN"
| "AmmInstruction_get_size (AmmI_Stake _) = AmmInstruction_STAKE_LEN"
| "AmmInstruction_get_size (AmmI_Unstake _) = AmmInstruction_UNSTAKE_LEN"
| "AmmInstruction_get_size AmmI_Harvest = AmmInstruction_HARVEST_LEN"
| "AmmInstruction_get_size (AmmI_WrapToken _) = AmmInstruction_WRAP_TOKEN_LEN"
| "AmmInstruction_get_size (AmmI_UnwrapToken _) = AmmInstruction_UNWRAP_TOKEN_LEN"

section \<open>Packing\<close>

definition AmmInstruction_pack_user_init :: "AmmInstruction \<Rightarrow> bytes \<Rightarrow> (usize, bytes) effect" where
  "AmmInstruction_pack_user_init self output =
     seq (pure_in output (check_data_len output AmmInstruction_USER_INIT_LEN)) (\<lambda>_ output.
       (case self of
          AmmI_UserInit \<Rightarrow>
            (Ok AmmInstruction_USER_INIT_LEN, mut_array_refs
            [(1, put [AmmInstructionType_as_u8 AmmT_UserInit])] output)
        | _ \<Rightarrow> (Err InvalidInstructionData, output)))"

definition AmmInstruction_pack_add_liquidity :: "AmmInstruction \<Rightarrow> bytes \<Rightarrow> (usize, bytes) effect" where
  "AmmInstruction_pack_add_liquidity self output =
     seq (pure_in output (check_data_len output AmmInstruction_ADD_LIQUIDITY_LEN)) (\<lambda>_ output.
       (case self of
          AmmI_AddLiquidity max_token_a_amount max_token_b_amount \<Rightarrow>
            (Ok AmmInstruction_ADD_LIQUIDITY_LEN, mut_array_refs
            [(1, put [AmmInstructionType_as_u8 AmmT_AddLiquidity]),
             (8, put (to_le_bytes max_token_a_amount)), (8, put (to_le_bytes max_token_b_amount))] output)
        | _ \<Rightarrow> (Err InvalidInstructionData, output)))"

definition AmmInstruction_pack_remove_liquidity :: "AmmInstruction \<Rightarrow> bytes \<Rightarrow> (usize, bytes) effect" where
  "AmmInstruction_pack_remove_liquidity self output =
     seq (pure_in output (check_data_len output AmmInstruction_REMOVE_LIQUIDITY_LEN)) (\<lambda>_ output.
       (case self of
          AmmI_RemoveLiquidity amount \<Rightarrow>
            (Ok AmmInstruction_REMOVE_LIQUIDITY_LEN, mut_array_refs
            [(1, put [AmmInstructionType_as_u8 AmmT_RemoveLiquidity]), (8, put (to_le_bytes amount))] output)
        | _ \<Rightarrow> (Err InvalidInstructionData, output)))"

definition AmmInstruction_pack_swap :: "AmmInstruction \<Rightarrow> bytes \<Rightarrow> (usize, bytes) effect" where
  "AmmInstruction_pack_swap self output =
     seq (pure_in output (check_data_len output AmmInstruction_SWAP_LEN)) (\<lambda>_ output.
       (case self of
          AmmI_Swap token_a_amount_in token_b_amount_in min_token_amount_out \<Rightarrow>
            (Ok AmmInstruction_SWAP_LEN, mut_array_refs
            [(1, put [AmmInstructionType_as_u8 AmmT_Swap]),
             (8, put (to_le_bytes token_a_amount_in)), (8, put (to_le_bytes token_b_amount_in)),
             (8, put (to_le_bytes min_token_amount_out))] output)
        | _ \<Rightarrow> (Err InvalidInstructionData, output)))"

definition AmmInstruction_pack_stake :: "AmmInstruction \<Rightarrow> bytes \<Rightarrow> (usize, bytes) effect" where
  "AmmInstruction_pack_stake self output =
     seq (pure_in output (check_data_len output AmmInstruction_STAKE_LEN)) (\<lambda>_ output.
       (case self of
          AmmI_Stake amount \<Rightarrow>
            (Ok AmmInstruction_STAKE_LEN, mut_array_refs
            [(1, put [AmmInstructionType_as_u8 AmmT_Stake]), (8, put (to_le_bytes amount))] output)
        | _ \<Rightarrow> (Err InvalidInstructionData, output)))"

definition AmmInstruction_pack_unstake :: "AmmInstruction \<Rightarrow> bytes \<Rightarrow> (usize, bytes) effect" where
  "AmmInstruction_pack_unstake self output =
     seq (pure_in output (check_data_len output AmmInstruction_UNSTAKE_LEN)) (\<lambda>_ output.
       (case self of
          AmmI_Unstake amount \<Rightarrow>
            (Ok AmmInstruction_UNSTAKE_LEN, mut_array_refs
            [(1, put [AmmInstructionType_as_u8 AmmT_Unstake]), (8, put (to_le_bytes amount))] output)
        | _ \<Rightarrow> (Err InvalidInstructionData, output)))"

definition AmmInstruction_pack_harvest :: "AmmInstruction \<Rightarrow> bytes \<Rightarrow> (usize, bytes) effect" where
  "AmmInstruction_pack_harvest self output =
     seq (pure_in output (check_data_len output AmmInstruction_HARVEST_LEN)) (\<lambda>_ output.
       (case self of
          AmmI_Harvest \<Rightarrow>
            (Ok AmmInstruction_HARVEST_LEN, mut_array_refs
            [(1, put [AmmInstructionType_as_u8 AmmT_Harvest])] output)
        | _ \<Rightarrow> (Err InvalidInstructionData, output)))"

definition AmmInstruction_pack_wrap_token :: "AmmInstruction \<Rightarrow> bytes \<Rightarrow> (usize, bytes) effect" where
  "AmmInstruction_pack_wrap_token self output =
     seq (pure_in output (check_data_len output AmmInstruction_WRAP_TOKEN_LEN)) (\<lambda>_ output.
       (case self of
          AmmI_WrapToken amount \<Rightarrow>
            (Ok AmmInstruction_WRAP_TOKEN_LEN, mut_array_refs
            [(1, put [AmmInstructionType_as_u8 AmmT_WrapToken]), (8, put (to_le_bytes amount))] output)
        | _ \<Rightarrow> (Err InvalidInstructionData, output)))"

definition AmmInstruction_pack_unwrap_token :: "AmmInstruction \<Rightarrow> bytes \<Rightarrow> (usize, bytes) effect" where
  "AmmInstruction_pack_unwrap_token self output =
     seq (pure_in output (check_data_len output AmmInstruction_UNWRAP_TOKEN_LEN)) (\<lambda>_ output.
       (case self of
          AmmI_UnwrapToken amount \<Rightarrow>
            (Ok AmmInstruction_UNWRAP_TOKEN_LEN, mut_array_refs
            [(1, put [AmmInstructionType_as_u8 AmmT_UnwrapToken]), (8, put (to_le_bytes amount))] output)
        | _ \<Rightarrow> (Err InvalidInstructionData, output)))"

definition AmmInstruction_pack :: "AmmInstruction \<Rightarrow> bytes \<Rightarrow> (usize, bytes) effect" where
  "AmmInstruction_pack self output =
     (case self of
        AmmI_UserInit \<Rightarrow> AmmInstruction_pack_user_init self output
      | AmmI_AddLiquidity _ _ \<Rightarrow> AmmInstruction_pack_add_liquidity self output
      | AmmI_RemoveLiquidity _ \<Rightarrow> AmmInstruction_pack_remove_liquidity self output
      | AmmI_Swap _ _ _ \<Rightarrow> AmmInstruction_pack_swap self output
      | AmmI_Stake _ \<Rightarrow> AmmInstruction_pack_stake self output
      | AmmI_Unstake _ \<Rightarrow> AmmInstruction_pack_unstake self output
      | AmmI_Harvest \<Rightarrow> AmmInstruction_pack_harvest self output
      | AmmI_WrapToken _ \<Rightarrow> AmmInstruction_pack_wrap_token self output
      | AmmI_UnwrapToken _ \<Rightarrow> AmmInstruction_pack_unwrap_token self output)"

definition AmmInstruction_to_vec :: "AmmInstruction \<Rightarrow> bytes result" where
  "AmmInstruction_to_vec = to_vec_or InvalidInstructionData AmmInstruction_MAX_LEN AmmInstruction_pack"

section \<open>Unpacking\<close>

definition AmmInstruction_unpack_user_init :: "bytes \<Rightarrow> AmmInstruction result" where
  "AmmInstruction_unpack_user_init input =
     bind (check_data_len input AmmInstruction_USER_INIT_LEN) (\<lambda>_.
     Ok AmmI_UserInit)"

definition AmmInstruction_unpack_add_liquidity :: "bytes \<Rightarrow> AmmInstruction result" where
  "AmmInstruction_unpack_add_liquidity input =
     bind (check_data_len input AmmInstruction_ADD_LIQUIDITY_LEN) (\<lambda>_.
     bind (array_ref input 1 (AmmInstruction_ADD_LIQUIDITY_LEN - 1)) (\<lambda>input.
     (case array_refs [8, 8] input of
        [max_token_a_amount, max_token_b_amount] \<Rightarrow>
            Ok (AmmI_AddLiquidity (from_le_bytes max_token_a_amount) (from_le_bytes max_token_b_amount))
      | _ \<Rightarrow> Panic)))"

definition AmmInstruction_unpack_remove_liquidity :: "bytes \<Rightarrow> AmmInstruction result" where
  "AmmInstruction_unpack_remove_liquidity input =
     bind (check_data_len input AmmInstruction_REMOVE_LIQUIDITY_LEN) (\<lambda>_.
     bind (array_ref input 1 8) (\<lambda>amount.
     Ok (AmmI_RemoveLiquidity (from_le_bytes amount))))"

definition AmmInstruction_unpack_swap :: "bytes \<Rightarrow> AmmInstruction result" where
  "AmmInstruction_unpack_swap input =
     bind (check_data_len input AmmInstruction_SWAP_LEN) (\<lambda>_.
     bind (array_ref input 1 (AmmInstruction_SWAP_LEN - 1)) (\<lambda>input.
     (case array_refs [8, 8, 8] input of
        [token_a_amount_in, token_b_amount_in, min_token_amount_out] \<Rightarrow>
            Ok (AmmI_Swap (from_le_bytes token_a_amount_in) (from_le_bytes token_b_amount_in) (from_le_bytes min_token_amount_out))
      | _ \<Rightarrow> Panic)))"

definition AmmInstruction_unpack_stake :: "bytes \<Rightarrow> AmmInstruction result" where
  "AmmInstruction_unpack_stake input =
     bind (check_data_len input AmmInstruction_STAKE_LEN) (\<lambda>_.
     bind (array_ref input 1 8) (\<lambda>amount.
     Ok (AmmI_Stake (from_le_bytes amount))))"

definition AmmInstruction_unpack_unstake :: "bytes \<Rightarrow> AmmInstruction result" where
  "AmmInstruction_unpack_unstake input =
     bind (check_data_len input AmmInstruction_UNSTAKE_LEN) (\<lambda>_.
     bind (array_ref input 1 8) (\<lambda>amount.
     Ok (AmmI_Unstake (from_le_bytes amount))))"

definition AmmInstruction_unpack_harvest :: "bytes \<Rightarrow> AmmInstruction result" where
  "AmmInstruction_unpack_harvest input =
     bind (check_data_len input AmmInstruction_HARVEST_LEN) (\<lambda>_.
     Ok AmmI_Harvest)"

definition AmmInstruction_unpack_wrap_token :: "bytes \<Rightarrow> AmmInstruction result" where
  "AmmInstruction_unpack_wrap_token input =
     bind (check_data_len input AmmInstruction_WRAP_TOKEN_LEN) (\<lambda>_.
     bind (array_ref input 1 8) (\<lambda>amount.
     Ok (AmmI_WrapToken (from_le_bytes amount))))"

definition AmmInstruction_unpack_unwrap_token :: "bytes \<Rightarrow> AmmInstruction result" where
  "AmmInstruction_unpack_unwrap_token input =
     bind (check_data_len input AmmInstruction_UNWRAP_TOKEN_LEN) (\<lambda>_.
     bind (array_ref input 1 8) (\<lambda>amount.
     Ok (AmmI_UnwrapToken (from_le_bytes amount))))"

definition AmmInstruction_unpack :: "bytes \<Rightarrow> AmmInstruction result" where
  "AmmInstruction_unpack input =
     bind (check_data_len input 1) (\<lambda>_.
     bind (ok_or (AmmInstructionType_try_from_primitive (input ! 0)) InvalidInstructionData) (\<lambda>instruction_type.
     (case instruction_type of
        AmmT_UserInit \<Rightarrow> AmmInstruction_unpack_user_init input
      | AmmT_AddLiquidity \<Rightarrow> AmmInstruction_unpack_add_liquidity input
      | AmmT_RemoveLiquidity \<Rightarrow> AmmInstruction_unpack_remove_liquidity input
      | AmmT_Swap \<Rightarrow> AmmInstruction_unpack_swap input
      | AmmT_Stake \<Rightarrow> AmmInstruction_unpack_stake input
      | AmmT_Unstake \<Rightarrow> AmmInstruction_unpack_unstake input
      | AmmT_Harvest \<Rightarrow> AmmInstruction_unpack_harvest input
      | AmmT_WrapToken \<Rightarrow> AmmInstruction_unpack_wrap_token input
      | AmmT_UnwrapToken \<Rightarrow> AmmInstruction_unpack_unwrap_token input)))"

section \<open>The wire format\<close>

text \<open>The bytes of an instruction: its tag and the fields, and for which values they determine it.\<close>

fun AmmInstruction_enc :: "AmmInstruction \<Rightarrow> bytes" where
  "AmmInstruction_enc AmmI_UserInit =
     [AmmInstructionType_as_u8 AmmT_UserInit]"
| "AmmInstruction_enc (AmmI_AddLiquidity max_token_a_amount max_token_b_amount) =
     [AmmInstructionType_as_u8 AmmT_AddLiquidity] @ to_le_bytes max_token_a_amount @
       to_le_bytes max_token_b_amount"
| "AmmInstruction_enc (AmmI_RemoveLiquidity amount) =
     [AmmInstructionType_as_u8 AmmT_RemoveLiquidity] @ to_le_bytes amount"
| "AmmInstruction_enc (AmmI_Swap token_a_amount_in token_b_amount_in min_token_amount_out) =
     [AmmInstructionType_as_u8 AmmT_Swap] @ to_le_bytes token_a_amount_in @
       to_le_bytes token_b_amount_in @ to_le_bytes min_token_amount_out"
| "AmmInstruction_enc (AmmI_Stake amount) =
     [AmmInstructionType_as_u8 AmmT_Stake] @ to_le_bytes amount"
| "AmmInstruction_enc (AmmI_Unstake amount) =
     [AmmInstructionType_as_u8 AmmT_Unstake] @ to_le_bytes amount"
| "AmmInstruction_enc AmmI_Harvest =
     [AmmInstructionType_as_u8 AmmT_Harvest]"
| "AmmInstruction_enc (AmmI_WrapToken amount) =
     [AmmInstructionType_as_u8 AmmT_WrapToken] @ to_le_bytes amount"
| "AmmInstruction_enc (AmmI_UnwrapToken amount) =
     [AmmInstructionType_as_u8 AmmT_UnwrapToken] @ to_le_bytes amount"

lemmas amm_pack_defs = AmmInstruction_pack_user_init_def AmmInstruction_pack_add_liquidity_def
  AmmInstruction_pack_remove_liquidity_def AmmInstruction_pack_swap_def
  AmmInstruction_pack_stake_def AmmInstruction_pack_unstake_def AmmInstruction_pack_harvest_def
  AmmInstruction_pack_wrap_token_def AmmInstruction_pack_unwrap_token_def

lemmas amm_unpack_defs = AmmInstruction_unpack_user_init_def AmmInstruction_unpack_add_liquidity_def
  AmmInstruction_unpack_remove_liquidity_def AmmInstruction_unpack_swap_def
  AmmInstruction_unpack_stake_def AmmInstruction_unpack_unstake_def
  AmmInstruction_unpack_harvest_def AmmInstruction_unpack_wrap_token_def
  AmmInstruction_unpack_unwrap_token_def

lemma AmmInstruction_unpack_variants [no_panic]:
  "AmmInstruction_unpack_user_init input \<noteq> Panic"
  "AmmInstruction_unpack_add_liquidity input \<noteq> Panic"
  "AmmInstruction_unpack_remove_liquidity input \<noteq> Panic"
  "AmmInstruction_unpack_swap input \<noteq> Panic"
  "AmmInstruction_unpack_stake input \<noteq> Panic"
  "AmmInstruction_unpack_unstake input \<noteq> Panic"
  "AmmInstruction_unpack_harvest input \<noteq> Panic"
  "AmmInstruction_unpack_wrap_token input \<noteq> Panic"
  "AmmInstruction_unpack_unwrap_token input \<noteq> Panic"
  by (simp_all add: amm_unpack_defs amm_lens no_panic)

interpretation amm_instruction: wire AmmInstruction_enc AmmInstruction_pack AmmInstruction_unpack "\<lambda>_. True"
proof
  fix x n and out rest :: bytes
  assume v: "True"
  show "length (AmmInstruction_enc x) \<le> n \<Longrightarrow> AmmInstruction_pack x (replicate n 0) =
      (Ok (length (AmmInstruction_enc x)), AmmInstruction_enc x @ replicate (n - length (AmmInstruction_enc x)) 0)"
    using v by (cases x) (simp_all add: AmmInstruction_pack_def amm_pack_defs amm_lens mut_array_refs_zeros
      del: mut_array_refs.simps)
  show "length out < length (AmmInstruction_enc x) \<Longrightarrow> fst (AmmInstruction_pack x out) = Err AccountDataTooSmall"
    using v by (cases x) (simp_all add: AmmInstruction_pack_def amm_pack_defs amm_lens)
  show "AmmInstruction_unpack (AmmInstruction_enc x @ rest) = Ok x"
    using v by (cases x) (simp_all add: AmmInstruction_unpack_def amm_unpack_defs amm_lens AmmInstructionType_try_from_primitive_def
      slice_def)
next
  fix inp :: bytes
  show "AmmInstruction_unpack inp \<noteq> Panic"
    unfolding AmmInstruction_unpack_def
    by (rule checked_no_panic, rule bind_no_panic) (auto simp: no_panic Suc_le_eq split: AmmInstructionType.split)
qed simp

end
