(* ===== verification/Vault_Instruction.thy ===== *)
theory Vault_Instruction
  imports Wire
begin

text \<open>
  The instructions of the vault programs (\<open>crates/solana_farm_sdk/src/instruction/vault.rs\<close>): packing,
  unpacking and the wire format they agree on.
\<close>

section \<open>Instructions\<close>

datatype VaultInstruction =
    VaultI_UserInit
  | VaultI_AddLiquidity u64 u64
  | VaultI_LockLiquidity u64
  | VaultI_UnlockLiquidity u64
  | VaultI_RemoveLiquidity u64
  | VaultI_SetAdminSigners u8
  | VaultI_RemoveMultisig
  | VaultI_SetMinCrankInterval u32
  | VaultI_SetFee f32_bits
  | VaultI_SetExternalFee f32_bits
  | VaultI_DisableDeposits
  | VaultI_EnableDeposits
  | VaultI_DisableWithdrawals
  | VaultI_EnableWithdrawals
  | VaultI_Crank u64
  | VaultI_Init u64
  | VaultI_Shutdown
  | VaultI_WithdrawFees u64

datatype VaultInstructionType =
    VaultT_UserInit | VaultT_AddLiquidity | VaultT_LockLiquidity | VaultT_UnlockLiquidity |
    VaultT_RemoveLiquidity | VaultT_SetAdminSigners | VaultT_RemoveMultisig |
    VaultT_SetMinCrankInterval | VaultT_SetFee | VaultT_SetExternalFee | VaultT_DisableDeposits |
    VaultT_EnableDeposits | VaultT_DisableWithdrawals | VaultT_EnableWithdrawals | VaultT_Crank |
    VaultT_Init | VaultT_Shutdown | VaultT_WithdrawFees

fun VaultInstructionType_as_u8 :: "VaultInstructionType \<Rightarrow> u8" where
  "VaultInstructionType_as_u8 VaultT_UserInit = 0"
| "VaultInstructionType_as_u8 VaultT_AddLiquidity = 1"
| "VaultInstructionType_as_u8 VaultT_LockLiquidity = 2"
| "VaultInstructionType_as_u8 VaultT_UnlockLiquidity = 3"
| "VaultInstructionType_as_u8 VaultT_RemoveLiquidity = 4"
| "VaultInstructionType_as_u8 VaultT_SetAdminSigners = 5"
| "VaultInstructionType_as_u8 VaultT_RemoveMultisig = 6"
| "VaultInstructionType_as_u8 VaultT_SetMinCrankInterval = 7"
| "VaultInstructionType_as_u8 VaultT_SetFee = 8"
| "VaultInstructionType_as_u8 VaultT_SetExternalFee = 9"
| "VaultInstructionType_as_u8 VaultT_DisableDeposits = 10"
| "VaultInstructionType_as_u8 VaultT_EnableDeposits = 11"
| "VaultInstructionType_as_u8 VaultT_DisableWithdrawals = 12"
| "VaultInstructionType_as_u8 VaultT_EnableWithdrawals = 13"
| "VaultInstructionType_as_u8 VaultT_Crank = 14"
| "VaultInstructionType_as_u8 VaultT_Init = 15"
| "VaultInstructionType_as_u8 VaultT_Shutdown = 16"
| "VaultInstructionType_as_u8 VaultT_WithdrawFees = 17"

definition VaultInstructionType_try_from_primitive :: "u8 \<Rightarrow> VaultInstructionType option" where
  "VaultInstructionType_try_from_primitive b =
     find (\<lambda>t. VaultInstructionType_as_u8 t = b)
       [VaultT_UserInit, VaultT_AddLiquidity, VaultT_LockLiquidity, VaultT_UnlockLiquidity,
        VaultT_RemoveLiquidity, VaultT_SetAdminSigners, VaultT_RemoveMultisig,
        VaultT_SetMinCrankInterval, VaultT_SetFee, VaultT_SetExternalFee, VaultT_DisableDeposits,
        VaultT_EnableDeposits, VaultT_DisableWithdrawals, VaultT_EnableWithdrawals, VaultT_Crank,
        VaultT_Init, VaultT_Shutdown, VaultT_WithdrawFees]"

lemma VaultInstructionType_round_trip [simp]:
  "VaultInstructionType_try_from_primitive (VaultInstructionType_as_u8 t) = Some t"
  by (cases t) (simp_all add: VaultInstructionType_try_from_primitive_def)

fun VaultInstructionType_fmt :: "VaultInstructionType \<Rightarrow> string" where
  "VaultInstructionType_fmt VaultT_UserInit = ''UserInit''"
| "VaultInstructionType_fmt VaultT_AddLiquidity = ''AddLiquidity''"
| "VaultInstructionType_fmt VaultT_LockLiquidity = ''LockLiquidity''"
| "VaultInstructionType_fmt VaultT_UnlockLiquidity = ''UnlockLiquidity''"
| "VaultInstructionType_fmt VaultT_RemoveLiquidity = ''RemoveLiquidity''"
| "VaultInstructionType_fmt VaultT_SetAdminSigners = ''SetAdminSigners''"
| "VaultInstructionType_fmt VaultT_RemoveMultisig = ''RemoveMultisig''"
| "VaultInstructionType_fmt VaultT_SetMinCrankInterval = ''SetMinCrankInterval''"
| "VaultInstructionType_fmt VaultT_SetFee = ''SetFee''"
| "VaultInstructionType_fmt VaultT_SetExternalFee = ''SetExternalFee''"
| "VaultInstructionType_fmt VaultT_DisableDeposits = ''DisableDeposits''"
| "VaultInstructionType_fmt VaultT_EnableDeposits = ''EnableDeposits''"
| "VaultInstructionType_fmt VaultT_DisableWithdrawals = ''DisableWithdrawals''"
| "VaultInstructionType_fmt VaultT_EnableWithdrawals = ''EnableWithdrawals''"
| "VaultInstructionType_fmt VaultT_Crank = ''Crank''"
| "VaultInstructionType_fmt VaultT_Init = ''Init''"
| "VaultInstructionType_fmt VaultT_Shutdown = ''Shutdown''"
| "VaultInstructionType_fmt VaultT_WithdrawFees = ''WithdrawFees''"

definition VaultInstruction_MAX_LEN :: usize where "VaultInstruction_MAX_LEN = 17"
definition VaultInstruction_USER_INIT_LEN :: usize where "VaultInstruction_USER_INIT_LEN = 1"
definition VaultInstruction_ADD_LIQUIDITY_LEN :: usize where "VaultInstruction_ADD_LIQUIDITY_LEN = 17"
definition VaultInstruction_LOCK_LIQUIDITY_LEN :: usize where "VaultInstruction_LOCK_LIQUIDITY_LEN = 9"
definition VaultInstruction_UNLOCK_LIQUIDITY_LEN :: usize where "VaultInstruction_UNLOCK_LIQUIDITY_LEN = 9"
definition VaultInstruction_REMOVE_LIQUIDITY_LEN :: usize where "VaultInstruction_REMOVE_LIQUIDITY_LEN = 9"
definition VaultInstruction_SET_ADMIN_SIGNERS_LEN :: usize where "VaultInstruction_SET_ADMIN_SIGNERS_LEN = 2"
definition VaultInstruction_REMOVE_MULTISIG_LEN :: usize where "VaultInstruction_REMOVE_MULTISIG_LEN = 1"
definition VaultInstruction_SET_MIN_CRANK_INTERVAL_LEN :: usize where "VaultInstruction_SET_MIN_CRANK_INTERVAL_LEN = 5"
definition VaultInstruction_SET_FEE_LEN :: usize where "VaultInstruction_SET_FEE_LEN = 5"
definition VaultInstruction_SET_EXTERNAL_FEE_LEN :: usize where "VaultInstruction_SET_EXTERNAL_FEE_LEN = 5"
definition VaultInstruction_DISABLE_DEPOSITS_LEN :: usize where "VaultInstruction_DISABLE_DEPOSITS_LEN = 1"
definition VaultInstruction_ENABLE_DEPOSITS_LEN :: usize where "VaultInstruction_ENABLE_DEPOSITS_LEN = 1"
definition VaultInstruction_DISABLE_WITHDRAWALS_LEN :: usize where "VaultInstruction_DISABLE_WITHDRAWALS_LEN = 1"
definition VaultInstruction_ENABLE_WITHDRAWALS_LEN :: usize where "VaultInstruction_ENABLE_WITHDRAWALS_LEN = 1"
definition VaultInstruction_CRANK_LEN :: usize where "VaultInstruction_CRANK_LEN = 9"
definition VaultInstruction_INIT_LEN :: usize where "VaultInstruction_INIT_LEN = 9"
definition VaultInstruction_SHUTDOWN_LEN :: usize where "VaultInstruction_SHUTDOWN_LEN = 1"
definition VaultInstruction_WITHDRAW_FEES_LEN :: usize where "VaultInstruction_WITHDRAW_FEES_LEN = 9"

lemmas vaulti_lens = VaultInstruction_USER_INIT_LEN_def VaultInstruction_ADD_LIQUIDITY_LEN_def
  VaultInstruction_LOCK_LIQUIDITY_LEN_def VaultInstruction_UNLOCK_LIQUIDITY_LEN_def
  VaultInstruction_REMOVE_LIQUIDITY_LEN_def VaultInstruction_SET_ADMIN_SIGNERS_LEN_def
  VaultInstruction_REMOVE_MULTISIG_LEN_def VaultInstruction_SET_MIN_CRANK_INTERVAL_LEN_def
  VaultInstruction_SET_FEE_LEN_def VaultInstruction_SET_EXTERNAL_FEE_LEN_def
  VaultInstruction_DISABLE_DEPOSITS_LEN_def VaultInstruction_ENABLE_DEPOSITS_LEN_def
  VaultInstruction_DISABLE_WITHDRAWALS_LEN_def VaultInstruction_ENABLE_WITHDRAWALS_LEN_def
  VaultInstruction_CRANK_LEN_def VaultInstruction_INIT_LEN_def VaultInstruction_SHUTDOWN_LEN_def
  VaultInstruction_WITHDRAW_FEES_LEN_def

section \<open>Packing\<close>

definition VaultInstruction_pack_user_init :: "VaultInstruction \<Rightarrow> bytes \<Rightarrow> (usize, bytes) effect" where
  "VaultInstruction_pack_user_init self output =
     seq (pure_in output (check_data_len output VaultInstruction_USER_INIT_LEN)) (\<lambda>_ output.
       (case self of
          VaultI_UserInit \<Rightarrow>
            (Ok VaultInstruction_USER_INIT_LEN, mut_array_refs
            [(1, put [VaultInstructionType_as_u8 VaultT_UserInit])] output)
        | _ \<Rightarrow> (Err InvalidInstructionData, output)))"

definition VaultInstruction_pack_add_liquidity :: "VaultInstruction \<Rightarrow> bytes \<Rightarrow> (usize, bytes) effect" where
  "VaultInstruction_pack_add_liquidity self output =
     seq (pure_in output (check_data_len output VaultInstruction_ADD_LIQUIDITY_LEN)) (\<lambda>_ output.
       (case self of
          VaultI_AddLiquidity max_token_a_amount max_token_b_amount \<Rightarrow>
            (Ok VaultInstruction_ADD_LIQUIDITY_LEN, mut_array_refs
            [(1, put [VaultInstructionType_as_u8 VaultT_AddLiquidity]),
             (8, put (to_le_bytes max_token_a_amount)), (8, put (to_le_bytes max_token_b_amount))] output)
        | _ \<Rightarrow> (Err InvalidInstructionData, output)))"

definition VaultInstruction_pack_lock_liquidity :: "VaultInstruction \<Rightarrow> bytes \<Rightarrow> (usize, bytes) effect" where
  "VaultInstruction_pack_lock_liquidity self output =
     seq (pure_in output (check_data_len output VaultInstruction_LOCK_LIQUIDITY_LEN)) (\<lambda>_ output.
       (case self of
          VaultI_LockLiquidity amount \<Rightarrow>
            (Ok VaultInstruction_LOCK_LIQUIDITY_LEN, mut_array_refs
            [(1, put [VaultInstructionType_as_u8 VaultT_LockLiquidity]),
             (8, put (to_le_bytes amount))] output)
        | _ \<Rightarrow> (Err InvalidInstructionData, output)))"

definition VaultInstruction_pack_unlock_liquidity :: "VaultInstruction \<Rightarrow> bytes \<Rightarrow> (usize, bytes) effect" where
  "VaultInstruction_pack_unlock_liquidity self output =
     seq (pure_in output (check_data_len output VaultInstruction_UNLOCK_LIQUIDITY_LEN)) (\<lambda>_ output.
       (case self of
          VaultI_UnlockLiquidity amount \<Rightarrow>
            (Ok VaultInstruction_UNLOCK_LIQUIDITY_LEN, mut_array_refs
            [(1, put [VaultInstructionType_as_u8 VaultT_UnlockLiquidity]),
             (8, put (to_le_bytes amount))] output)
        | _ \<Rightarrow> (Err InvalidInstructionData, output)))"

definition VaultInstruction_pack_remove_liquidity :: "VaultInstruction \<Rightarrow> bytes \<Rightarrow> (usize, bytes) effect" where
  "VaultInstruction_pack_remove_liquidity self output =
     seq (pure_in output (check_data_len output VaultInstruction_REMOVE_LIQUIDITY_LEN)) (\<lambda>_ output.
       (case self of
          VaultI_RemoveLiquidity amount \<Rightarrow>
            (Ok VaultInstruction_REMOVE_LIQUIDITY_LEN, mut_array_refs
            [(1, put [VaultInstructionType_as_u8 VaultT_RemoveLiquidity]),
             (8, put (to_le_bytes amount))] output)
        | _ \<Rightarrow> (Err InvalidInstructionData, output)))"

definition VaultInstruction_pack_set_admin_signers :: "VaultInstruction \<Rightarrow> bytes \<Rightarrow> (usize, bytes) effect" where
  "VaultInstruction_pack_set_admin_signers self output =
     seq (pure_in output (check_data_len output VaultInstruction_SET_ADMIN_SIGNERS_LEN)) (\<lambda>_ output.
       (case self of
          VaultI_SetAdminSigners min_signatures \<Rightarrow>
            (Ok VaultInstruction_SET_ADMIN_SIGNERS_LEN, mut_array_refs
            [(1, put [VaultInstructionType_as_u8 VaultT_SetAdminSigners]), (1, put [min_signatures])] output)
        | _ \<Rightarrow> (Err InvalidInstructionData, output)))"

definition VaultInstruction_pack_remove_multisig :: "VaultInstruction \<Rightarrow> bytes \<Rightarrow> (usize, bytes) effect" where
  "VaultInstruction_pack_remove_multisig self output =
     seq (pure_in output (check_data_len output VaultInstruction_REMOVE_MULTISIG_LEN)) (\<lambda>_ output.
       (case self of
          VaultI_RemoveMultisig \<Rightarrow>
            (Ok VaultInstruction_REMOVE_MULTISIG_LEN, mut_array_refs
            [(1, put [VaultInstructionType_as_u8 VaultT_RemoveMultisig])] output)
        | _ \<Rightarrow> (Err InvalidInstructionData, output)))"

definition VaultInstruction_pack_set_min_crank_interval :: "VaultInstruction \<Rightarrow> bytes \<Rightarrow> (usize, bytes) effect" where
  "VaultInstruction_pack_set_min_crank_interval self output =
     seq (pure_in output (check_data_len output VaultInstruction_SET_MIN_CRANK_INTERVAL_LEN)) (\<lambda>_ output.
       (case self of
          VaultI_SetMinCrankInterval min_crank_interval \<Rightarrow>
            (Ok VaultInstruction_SET_MIN_CRANK_INTERVAL_LEN, mut_array_refs
            [(1, put [VaultInstructionType_as_u8 VaultT_SetMinCrankInterval]),
             (4, put (to_le_bytes min_crank_interval))] output)
        | _ \<Rightarrow> (Err InvalidInstructionData, output)))"

definition VaultInstruction_pack_set_fee :: "VaultInstruction \<Rightarrow> bytes \<Rightarrow> (usize, bytes) effect" where
  "VaultInstruction_pack_set_fee self output =
     seq (pure_in output (check_data_len output VaultInstruction_SET_FEE_LEN)) (\<lambda>_ output.
       (case self of
          VaultI_SetFee fee \<Rightarrow>
            (Ok VaultInstruction_SET_FEE_LEN, mut_array_refs
            [(1, put [VaultInstructionType_as_u8 VaultT_SetFee]), (4, put (to_le_bytes fee))] output)
        | _ \<Rightarrow> (Err InvalidInstructionData, output)))"

definition VaultInstruction_pack_set_external_fee :: "VaultInstruction \<Rightarrow> bytes \<Rightarrow> (usize, bytes) effect" where
  "VaultInstruction_pack_set_external_fee self output =
     seq (pure_in output (check_data_len output VaultInstruction_SET_EXTERNAL_FEE_LEN)) (\<lambda>_ output.
       (case self of
          VaultI_SetExternalFee external_fee \<Rightarrow>
            (Ok VaultInstruction_SET_EXTERNAL_FEE_LEN, mut_array_refs
            [(1, put [VaultInstructionType_as_u8 VaultT_SetExternalFee]),
             (4, put (to_le_bytes external_fee))] output)
        | _ \<Rightarrow> (Err InvalidInstructionData, output)))"

definition VaultInstruction_pack_disable_deposits :: "VaultInstruction \<Rightarrow> bytes \<Rightarrow> (usize, bytes) effect" where
  "VaultInstruction_pack_disable_deposits self output =
     seq (pure_in output (check_data_len output VaultInstruction_DISABLE_DEPOSITS_LEN)) (\<lambda>_ output.
       (case self of
          VaultI_DisableDeposits \<Rightarrow>
            (Ok VaultInstruction_DISABLE_DEPOSITS_LEN, mut_array_refs
            [(1, put [VaultInstructionType_as_u8 VaultT_DisableDeposits])] output)
        | _ \<Rightarrow> (Err InvalidInstructionData, output)))"

definition VaultInstruction_pack_enable_deposits :: "VaultInstruction \<Rightarrow> bytes \<Rightarrow> (usize, bytes) effect" where
  "VaultInstruction_pack_enable_deposits self output =
     seq (pure_in output (check_data_len output VaultInstruction_ENABLE_DEPOSITS_LEN)) (\<lambda>_ output.
       (case self of
          VaultI_EnableDeposits \<Rightarrow>
            (Ok VaultInstruction_ENABLE_DEPOSITS_LEN, mut_array_refs
            [(1, put [VaultInstructionType_as_u8 VaultT_EnableDeposits])] output)
        | _ \<Rightarrow> (Err InvalidInstructionData, output)))"

definition VaultInstruction_pack_disable_withdrawals :: "VaultInstruction \<Rightarrow> bytes \<Rightarrow> (usize, bytes) effect" where
  "VaultInstruction_pack_disable_withdrawals self output =
     seq (pure_in output (check_data_len output VaultInstruction_DISABLE_WITHDRAWALS_LEN)) (\<lambda>_ output.
       (case self of
          VaultI_DisableWithdrawals \<Rightarrow>
            (Ok VaultInstruction_DISABLE_WITHDRAWALS_LEN, mut_array_refs
            [(1, put [VaultInstructionType_as_u8 VaultT_DisableWithdrawals])] output)
        | _ \<Rightarrow> (Err InvalidInstructionData, output)))"

definition VaultInstruction_pack_enable_withdrawals :: "VaultInstruction \<Rightarrow> bytes \<Rightarrow> (usize, bytes) effect" where
  "VaultInstruction_pack_enable_withdrawals self output =
     seq (pure_in output (check_data_len output VaultInstruction_ENABLE_WITHDRAWALS_LEN)) (\<lambda>_ output.
       (case self of
          VaultI_EnableWithdrawals \<Rightarrow>
            (Ok VaultInstruction_ENABLE_WITHDRAWALS_LEN, mut_array_refs
            [(1, put [VaultInstructionType_as_u8 VaultT_EnableWithdrawals])] output)
        | _ \<Rightarrow> (Err InvalidInstructionData, output)))"

definition VaultInstruction_pack_crank :: "VaultInstruction \<Rightarrow> bytes \<Rightarrow> (usize, bytes) effect" where
  "VaultInstruction_pack_crank self output =
     seq (pure_in output (check_data_len output VaultInstruction_CRANK_LEN)) (\<lambda>_ output.
       (case self of
          VaultI_Crank step \<Rightarrow>
            (Ok VaultInstruction_CRANK_LEN, mut_array_refs
            [(1, put [VaultInstructionType_as_u8 VaultT_Crank]), (8, put (to_le_bytes step))] output)
        | _ \<Rightarrow> (Err InvalidInstructionData, output)))"

definition VaultInstruction_pack_init :: "VaultInstruction \<Rightarrow> bytes \<Rightarrow> (usize, bytes) effect" where
  "VaultInstruction_pack_init self output =
     seq (pure_in output (check_data_len output VaultInstruction_INIT_LEN)) (\<lambda>_ output.
       (case self of
          VaultI_Init step \<Rightarrow>
            (Ok VaultInstruction_INIT_LEN, mut_array_refs
            [(1, put [VaultInstructionType_as_u8 VaultT_Init]), (8, put (to_le_bytes step))] output)
        | _ \<Rightarrow> (Err InvalidInstructionData, output)))"

definition VaultInstruction_pack_shutdown :: "VaultInstruction \<Rightarrow> bytes \<Rightarrow> (usize, bytes) effect" where
  "VaultInstruction_pack_shutdown self output =
     seq (pure_in output (check_data_len output VaultInstruction_SHUTDOWN_LEN)) (\<lambda>_ output.
       (case self of
          VaultI_Shutdown \<Rightarrow>
            (Ok VaultInstruction_SHUTDOWN_LEN, mut_array_refs
            [(1, put [VaultInstructionType_as_u8 VaultT_Shutdown])] output)
        | _ \<Rightarrow> (Err InvalidInstructionData, output)))"

definition VaultInstruction_pack_withdraw_fees :: "VaultInstruction \<Rightarrow> bytes \<Rightarrow> (usize, bytes) effect" where
  "VaultInstruction_pack_withdraw_fees self output =
     seq (pure_in output (check_data_len output VaultInstruction_WITHDRAW_FEES_LEN)) (\<lambda>_ output.
       (case self of
          VaultI_WithdrawFees amount \<Rightarrow>
            (Ok VaultInstruction_WITHDRAW_FEES_LEN, mut_array_refs
            [(1, put [VaultInstructionType_as_u8 VaultT_WithdrawFees]),
             (8, put (to_le_bytes amount))] output)
        | _ \<Rightarrow> (Err InvalidInstructionData, output)))"

definition VaultInstruction_pack :: "VaultInstruction \<Rightarrow> bytes \<Rightarrow> (usize, bytes) effect" where
  "VaultInstruction_pack self output =
     (case self of
        VaultI_UserInit \<Rightarrow> VaultInstruction_pack_user_init self output
      | VaultI_AddLiquidity _ _ \<Rightarrow> VaultInstruction_pack_add_liquidity self output
      | VaultI_RemoveLiquidity _ \<Rightarrow> VaultInstruction_pack_remove_liquidity self output
      | VaultI_LockLiquidity _ \<Rightarrow> VaultInstruction_pack_lock_liquidity self output
      | VaultI_UnlockLiquidity _ \<Rightarrow> VaultInstruction_pack_unlock_liquidity self output
      | VaultI_SetAdminSigners _ \<Rightarrow> VaultInstruction_pack_set_admin_signers self output
      | VaultI_RemoveMultisig \<Rightarrow> VaultInstruction_pack_remove_multisig self output
      | VaultI_SetMinCrankInterval _ \<Rightarrow> VaultInstruction_pack_set_min_crank_interval self output
      | VaultI_SetFee _ \<Rightarrow> VaultInstruction_pack_set_fee self output
      | VaultI_SetExternalFee _ \<Rightarrow> VaultInstruction_pack_set_external_fee self output
      | VaultI_DisableDeposits \<Rightarrow> VaultInstruction_pack_disable_deposits self output
      | VaultI_EnableDeposits \<Rightarrow> VaultInstruction_pack_enable_deposits self output
      | VaultI_DisableWithdrawals \<Rightarrow> VaultInstruction_pack_disable_withdrawals self output
      | VaultI_EnableWithdrawals \<Rightarrow> VaultInstruction_pack_enable_withdrawals self output
      | VaultI_Crank _ \<Rightarrow> VaultInstruction_pack_crank self output
      | VaultI_Init _ \<Rightarrow> VaultInstruction_pack_init self output
      | VaultI_Shutdown \<Rightarrow> VaultInstruction_pack_shutdown self output
      | VaultI_WithdrawFees _ \<Rightarrow> VaultInstruction_pack_withdraw_fees self output)"

definition VaultInstruction_to_vec :: "VaultInstruction \<Rightarrow> bytes result" where
  "VaultInstruction_to_vec = to_vec_or InvalidInstructionData VaultInstruction_MAX_LEN VaultInstruction_pack"

section \<open>Unpacking\<close>

definition VaultInstruction_unpack_user_init :: "bytes \<Rightarrow> VaultInstruction result" where
  "VaultInstruction_unpack_user_init input =
     bind (check_data_len input VaultInstruction_USER_INIT_LEN) (\<lambda>_.
     Ok VaultI_UserInit)"

definition VaultInstruction_unpack_add_liquidity :: "bytes \<Rightarrow> VaultInstruction result" where
  "VaultInstruction_unpack_add_liquidity input =
     bind (check_data_len input VaultInstruction_ADD_LIQUIDITY_LEN) (\<lambda>_.
     bind (array_ref input 1 (VaultInstruction_ADD_LIQUIDITY_LEN - 1)) (\<lambda>input.
     (case array_refs [8, 8] input of
        [max_token_a_amount, max_token_b_amount] \<Rightarrow>
            Ok (VaultI_AddLiquidity (from_le_bytes max_token_a_amount) (from_le_bytes max_token_b_amount))
      | _ \<Rightarrow> Panic)))"

definition VaultInstruction_unpack_lock_liquidity :: "bytes \<Rightarrow> VaultInstruction result" where
  "VaultInstruction_unpack_lock_liquidity input =
     bind (check_data_len input VaultInstruction_LOCK_LIQUIDITY_LEN) (\<lambda>_.
     bind (array_ref input 1 8) (\<lambda>amount.
     Ok (VaultI_LockLiquidity (from_le_bytes amount))))"

definition VaultInstruction_unpack_unlock_liquidity :: "bytes \<Rightarrow> VaultInstruction result" where
  "VaultInstruction_unpack_unlock_liquidity input =
     bind (check_data_len input VaultInstruction_UNLOCK_LIQUIDITY_LEN) (\<lambda>_.
     bind (array_ref input 1 8) (\<lambda>amount.
     Ok (VaultI_UnlockLiquidity (from_le_bytes amount))))"

definition VaultInstruction_unpack_remove_liquidity :: "bytes \<Rightarrow> VaultInstruction result" where
  "VaultInstruction_unpack_remove_liquidity input =
     bind (check_data_len input VaultInstruction_REMOVE_LIQUIDITY_LEN) (\<lambda>_.
     bind (array_ref input 1 8) (\<lambda>amount.
     Ok (VaultI_RemoveLiquidity (from_le_bytes amount))))"

definition VaultInstruction_unpack_set_admin_signers :: "bytes \<Rightarrow> VaultInstruction result" where
  "VaultInstruction_unpack_set_admin_signers input =
     bind (check_data_len input VaultInstruction_SET_ADMIN_SIGNERS_LEN) (\<lambda>_.
     bind (array_ref input 1 (VaultInstruction_SET_ADMIN_SIGNERS_LEN - 1)) (\<lambda>input.
     Ok (VaultI_SetAdminSigners (input ! 0))))"

definition VaultInstruction_unpack_remove_multisig :: "bytes \<Rightarrow> VaultInstruction result" where
  "VaultInstruction_unpack_remove_multisig input =
     bind (check_data_len input VaultInstruction_REMOVE_MULTISIG_LEN) (\<lambda>_.
     Ok VaultI_RemoveMultisig)"

definition VaultInstruction_unpack_set_min_crank_interval :: "bytes \<Rightarrow> VaultInstruction result" where
  "VaultInstruction_unpack_set_min_crank_interval input =
     bind (check_data_len input VaultInstruction_SET_MIN_CRANK_INTERVAL_LEN) (\<lambda>_.
     bind (array_ref input 1 4) (\<lambda>min_crank_interval.
     Ok (VaultI_SetMinCrankInterval (from_le_bytes min_crank_interval))))"

definition VaultInstruction_unpack_set_fee :: "bytes \<Rightarrow> VaultInstruction result" where
  "VaultInstruction_unpack_set_fee input =
     bind (check_data_len input VaultInstruction_SET_FEE_LEN) (\<lambda>_.
     bind (array_ref input 1 4) (\<lambda>fee.
     Ok (VaultI_SetFee (from_le_bytes fee))))"

definition VaultInstruction_unpack_set_external_fee :: "bytes \<Rightarrow> VaultInstruction result" where
  "VaultInstruction_unpack_set_external_fee input =
     bind (check_data_len input VaultInstruction_SET_EXTERNAL_FEE_LEN) (\<lambda>_.
     bind (array_ref input 1 4) (\<lambda>external_fee.
     Ok (VaultI_SetExternalFee (from_le_bytes external_fee))))"

definition VaultInstruction_unpack_disable_deposits :: "bytes \<Rightarrow> VaultInstruction result" where
  "VaultInstruction_unpack_disable_deposits input =
     bind (check_data_len input VaultInstruction_DISABLE_DEPOSITS_LEN) (\<lambda>_.
     Ok VaultI_DisableDeposits)"

definition VaultInstruction_unpack_enable_deposits :: "bytes \<Rightarrow> VaultInstruction result" where
  "VaultInstruction_unpack_enable_deposits input =
     bind (check_data_len input VaultInstruction_ENABLE_DEPOSITS_LEN) (\<lambda>_.
     Ok VaultI_EnableDeposits)"

definition VaultInstruction_unpack_disable_withdrawals :: "bytes \<Rightarrow> VaultInstruction result" where
  "VaultInstruction_unpack_disable_withdrawals input =
     bind (check_data_len input VaultInstruction_DISABLE_WITHDRAWALS_LEN) (\<lambda>_.
     Ok VaultI_DisableWithdrawals)"

definition VaultInstruction_unpack_enable_withdrawals :: "bytes \<Rightarrow> VaultInstruction result" where
  "VaultInstruction_unpack_enable_withdrawals input =
     bind (check_data_len input VaultInstruction_ENABLE_WITHDRAWALS_LEN) (\<lambda>_.
     Ok VaultI_EnableWithdrawals)"

definition VaultInstruction_unpack_crank :: "bytes \<Rightarrow> VaultInstruction result" where
  "VaultInstruction_unpack_crank input =
     bind (check_data_len input VaultInstruction_CRANK_LEN) (\<lambda>_.
     bind (array_ref input 1 8) (\<lambda>step.
     Ok (VaultI_Crank (from_le_bytes step))))"

definition VaultInstruction_unpack_init :: "bytes \<Rightarrow> VaultInstruction result" where
  "VaultInstruction_unpack_init input =
     bind (check_data_len input VaultInstruction_INIT_LEN) (\<lambda>_.
     bind (array_ref input 1 8) (\<lambda>step.
     Ok (VaultI_Init (from_le_bytes step))))"

definition VaultInstruction_unpack_shutdown :: "bytes \<Rightarrow> VaultInstruction result" where
  "VaultInstruction_unpack_shutdown input =
     bind (check_data_len input VaultInstruction_SHUTDOWN_LEN) (\<lambda>_.
     Ok VaultI_Shutdown)"

definition VaultInstruction_unpack_withdraw_fees :: "bytes \<Rightarrow> VaultInstruction result" where
  "VaultInstruction_unpack_withdraw_fees input =
     bind (check_data_len input VaultInstruction_WITHDRAW_FEES_LEN) (\<lambda>_.
     bind (array_ref input 1 8) (\<lambda>amount.
     Ok (VaultI_WithdrawFees (from_le_bytes amount))))"

definition VaultInstruction_unpack :: "bytes \<Rightarrow> VaultInstruction result" where
  "VaultInstruction_unpack input =
     bind (check_data_len input 1) (\<lambda>_.
     bind (ok_or (VaultInstructionType_try_from_primitive (input ! 0)) InvalidInstructionData) (\<lambda>instruction_type.
     (case instruction_type of
        VaultT_UserInit \<Rightarrow> VaultInstruction_unpack_user_init input
      | VaultT_AddLiquidity \<Rightarrow> VaultInstruction_unpack_add_liquidity input
      | VaultT_LockLiquidity \<Rightarrow> VaultInstruction_unpack_lock_liquidity input
      | VaultT_UnlockLiquidity \<Rightarrow> VaultInstruction_unpack_unlock_liquidity input
      | VaultT_RemoveLiquidity \<Rightarrow> VaultInstruction_unpack_remove_liquidity input
      | VaultT_SetAdminSigners \<Rightarrow> VaultInstruction_unpack_set_admin_signers input
      | VaultT_RemoveMultisig \<Rightarrow> VaultInstruction_unpack_remove_multisig input
      | VaultT_SetMinCrankInterval \<Rightarrow> VaultInstruction_unpack_set_min_crank_interval input
      | VaultT_SetFee \<Rightarrow> VaultInstruction_unpack_set_fee input
      | VaultT_SetExternalFee \<Rightarrow> VaultInstruction_unpack_set_external_fee input
      | VaultT_DisableDeposits \<Rightarrow> VaultInstruction_unpack_disable_deposits input
      | VaultT_EnableDeposits \<Rightarrow> VaultInstruction_unpack_enable_deposits input
      | VaultT_DisableWithdrawals \<Rightarrow> VaultInstruction_unpack_disable_withdrawals input
      | VaultT_EnableWithdrawals \<Rightarrow> VaultInstruction_unpack_enable_withdrawals input
      | VaultT_Crank \<Rightarrow> VaultInstruction_unpack_crank input
      | VaultT_Init \<Rightarrow> VaultInstruction_unpack_init input
      | VaultT_Shutdown \<Rightarrow> VaultInstruction_unpack_shutdown input
      | VaultT_WithdrawFees \<Rightarrow> VaultInstruction_unpack_withdraw_fees input)))"

section \<open>The wire format\<close>

text \<open>The bytes of an instruction: its tag and the fields, and for which values they determine it.\<close>

fun VaultInstruction_enc :: "VaultInstruction \<Rightarrow> bytes" where
  "VaultInstruction_enc VaultI_UserInit =
     [VaultInstructionType_as_u8 VaultT_UserInit]"
| "VaultInstruction_enc (VaultI_AddLiquidity max_token_a_amount max_token_b_amount) =
     [VaultInstructionType_as_u8 VaultT_AddLiquidity] @ to_le_bytes max_token_a_amount @
       to_le_bytes max_token_b_amount"
| "VaultInstruction_enc (VaultI_LockLiquidity amount) =
     [VaultInstructionType_as_u8 VaultT_LockLiquidity] @ to_le_bytes amount"
| "VaultInstruction_enc (VaultI_UnlockLiquidity amount) =
     [VaultInstructionType_as_u8 VaultT_UnlockLiquidity] @ to_le_bytes amount"
| "VaultInstruction_enc (VaultI_RemoveLiquidity amount) =
     [VaultInstructionType_as_u8 VaultT_RemoveLiquidity] @ to_le_bytes amount"
| "VaultInstruction_enc (VaultI_SetAdminSigners min_signatures) =
     [VaultInstructionType_as_u8 VaultT_SetAdminSigners] @ [min_signatures]"
| "VaultInstruction_enc VaultI_RemoveMultisig =
     [VaultInstructionType_as_u8 VaultT_RemoveMultisig]"
| "VaultInstruction_enc (VaultI_SetMinCrankInterval min_crank_interval) =
     [VaultInstructionType_as_u8 VaultT_SetMinCrankInterval] @ to_le_bytes min_crank_interval"
| "VaultInstruction_enc (VaultI_SetFee fee) =
     [VaultInstructionType_as_u8 VaultT_SetFee] @ to_le_bytes fee"
| "VaultInstruction_enc (VaultI_SetExternalFee external_fee) =
     [VaultInstructionType_as_u8 VaultT_SetExternalFee] @ to_le_bytes external_fee"
| "VaultInstruction_enc VaultI_DisableDeposits =
     [VaultInstructionType_as_u8 VaultT_DisableDeposits]"
| "VaultInstruction_enc VaultI_EnableDeposits =
     [VaultInstructionType_as_u8 VaultT_EnableDeposits]"
| "VaultInstruction_enc VaultI_DisableWithdrawals =
     [VaultInstructionType_as_u8 VaultT_DisableWithdrawals]"
| "VaultInstruction_enc VaultI_EnableWithdrawals =
     [VaultInstructionType_as_u8 VaultT_EnableWithdrawals]"
| "VaultInstruction_enc (VaultI_Crank step) =
     [VaultInstructionType_as_u8 VaultT_Crank] @ to_le_bytes step"
| "VaultInstruction_enc (VaultI_Init step) =
     [VaultInstructionType_as_u8 VaultT_Init] @ to_le_bytes step"
| "VaultInstruction_enc VaultI_Shutdown =
     [VaultInstructionType_as_u8 VaultT_Shutdown]"
| "VaultInstruction_enc (VaultI_WithdrawFees amount) =
     [VaultInstructionType_as_u8 VaultT_WithdrawFees] @ to_le_bytes amount"

lemmas vaulti_pack_defs = VaultInstruction_pack_user_init_def VaultInstruction_pack_add_liquidity_def
  VaultInstruction_pack_lock_liquidity_def VaultInstruction_pack_unlock_liquidity_def
  VaultInstruction_pack_remove_liquidity_def VaultInstruction_pack_set_admin_signers_def
  VaultInstruction_pack_remove_multisig_def VaultInstruction_pack_set_min_crank_interval_def
  VaultInstruction_pack_set_fee_def VaultInstruction_pack_set_external_fee_def
  VaultInstruction_pack_disable_deposits_def VaultInstruction_pack_enable_deposits_def
  VaultInstruction_pack_disable_withdrawals_def VaultInstruction_pack_enable_withdrawals_def
  VaultInstruction_pack_crank_def VaultInstruction_pack_init_def VaultInstruction_pack_shutdown_def
  VaultInstruction_pack_withdraw_fees_def

lemmas vaulti_unpack_defs = VaultInstruction_unpack_user_init_def VaultInstruction_unpack_add_liquidity_def
  VaultInstruction_unpack_lock_liquidity_def VaultInstruction_unpack_unlock_liquidity_def
  VaultInstruction_unpack_remove_liquidity_def VaultInstruction_unpack_set_admin_signers_def
  VaultInstruction_unpack_remove_multisig_def VaultInstruction_unpack_set_min_crank_interval_def
  VaultInstruction_unpack_set_fee_def VaultInstruction_unpack_set_external_fee_def
  VaultInstruction_unpack_disable_deposits_def VaultInstruction_unpack_enable_deposits_def
  VaultInstruction_unpack_disable_withdrawals_def VaultInstruction_unpack_enable_withdrawals_def
  VaultInstruction_unpack_crank_def VaultInstruction_unpack_init_def
  VaultInstruction_unpack_shutdown_def VaultInstruction_unpack_withdraw_fees_def

lemma VaultInstruction_unpack_variants [no_panic]:
  "VaultInstruction_unpack_user_init input \<noteq> Panic"
  "VaultInstruction_unpack_add_liquidity input \<noteq> Panic"
  "VaultInstruction_unpack_lock_liquidity input \<noteq> Panic"
  "VaultInstruction_unpack_unlock_liquidity input \<noteq> Panic"
  "VaultInstruction_unpack_remove_liquidity input \<noteq> Panic"
  "VaultInstruction_unpack_set_admin_signers input \<noteq> Panic"
  "VaultInstruction_unpack_remove_multisig input \<noteq> Panic"
  "VaultInstruction_unpack_set_min_crank_interval input \<noteq> Panic"
  "VaultInstruction_unpack_set_fee input \<noteq> Panic"
  "VaultInstruction_unpack_set_external_fee input \<noteq> Panic"
  "VaultInstruction_unpack_disable_deposits input \<noteq> Panic"
  "VaultInstruction_unpack_enable_deposits input \<noteq> Panic"
  "VaultInstruction_unpack_disable_withdrawals input \<noteq> Panic"
  "VaultInstruction_unpack_enable_withdrawals input \<noteq> Panic"
  "VaultInstruction_unpack_crank input \<noteq> Panic"
  "VaultInstruction_unpack_init input \<noteq> Panic"
  "VaultInstruction_unpack_shutdown input \<noteq> Panic"
  "VaultInstruction_unpack_withdraw_fees input \<noteq> Panic"
  by (simp_all add: vaulti_unpack_defs vaulti_lens no_panic)

interpretation vault_instruction: wire VaultInstruction_enc VaultInstruction_pack VaultInstruction_unpack "\<lambda>_. True"
proof
  fix x n and out rest :: bytes
  assume v: "True"
  show "length (VaultInstruction_enc x) \<le> n \<Longrightarrow> VaultInstruction_pack x (replicate n 0) =
      (Ok (length (VaultInstruction_enc x)), VaultInstruction_enc x @ replicate (n - length (VaultInstruction_enc x)) 0)"
    using v by (cases x) (simp_all add: VaultInstruction_pack_def vaulti_pack_defs vaulti_lens mut_array_refs_zeros
      del: mut_array_refs.simps)
  show "length out < length (VaultInstruction_enc x) \<Longrightarrow> fst (VaultInstruction_pack x out) = Err AccountDataTooSmall"
    using v by (cases x) (simp_all add: VaultInstruction_pack_def vaulti_pack_defs vaulti_lens)
  show "VaultInstruction_unpack (VaultInstruction_enc x @ rest) = Ok x"
    using v by (cases x) (simp_all add: VaultInstruction_unpack_def vaulti_unpack_defs vaulti_lens VaultInstructionType_try_from_primitive_def
      slice_def)
next
  fix inp :: bytes
  show "VaultInstruction_unpack inp \<noteq> Panic"
    unfolding VaultInstruction_unpack_def
    by (rule checked_no_panic, rule bind_no_panic) (auto simp: no_panic Suc_le_eq split: VaultInstructionType.split)
qed simp

end
