(* ===== verification/Fund_Instruction.thy ===== *)
theory Fund_Instruction
  imports Fund_Meta Amm_Instruction Vault_Instruction
begin

text \<open>
  The instructions of the fund program (\<open>crates/solana_farm_sdk/src/instruction/fund.rs\<close>): packing,
  unpacking and the wire format they agree on. Instructions for the protocol routers and the vault
  programs are nested inside.
\<close>

section \<open>Instructions\<close>

datatype FundInstruction =
    FundI_UserInit
  | FundI_RequestDeposit u64
  | FundI_CancelDeposit
  | FundI_RequestWithdrawal u64
  | FundI_CancelWithdrawal
  | FundI_Init u64
  | FundI_SetDepositSchedule FundSchedule
  | FundI_DisableDeposits
  | FundI_ApproveDeposit u64
  | FundI_DenyDeposit ArrayString64
  | FundI_SetWithdrawalSchedule FundSchedule
  | FundI_DisableWithdrawals
  | FundI_ApproveWithdrawal u64
  | FundI_DenyWithdrawal ArrayString64
  | FundI_LockAssets u64
  | FundI_UnlockAssets u64
  | FundI_SetAdminSigners u8
  | FundI_RemoveMultisig
  | FundI_SetAssetsTrackingConfig FundAssetsTrackingConfig
  | FundI_UpdateAssetsWithVault
  | FundI_UpdateAssetsWithCustody
  | FundI_AddVault u64 u32 FundVaultType
  | FundI_RemoveVault u64 FundVaultType
  | FundI_AddCustody u64 u32 FundCustodyType
  | FundI_RemoveCustody u64 FundCustodyType
  | FundI_StartLiquidation
  | FundI_StopLiquidation
  | FundI_WithdrawFees u64
  | FundI_AmmInstructionRaydium AmmInstruction
  | FundI_VaultInstructionRaydium VaultInstruction
  | FundI_AmmInstructionOrca AmmInstruction
  | FundI_VaultInstructionOrca VaultInstruction

datatype FundInstructionType =
    FundT_UserInit | FundT_RequestDeposit | FundT_CancelDeposit | FundT_RequestWithdrawal |
    FundT_CancelWithdrawal | FundT_Init | FundT_SetDepositSchedule | FundT_DisableDeposits |
    FundT_ApproveDeposit | FundT_DenyDeposit | FundT_SetWithdrawalSchedule |
    FundT_DisableWithdrawals | FundT_ApproveWithdrawal | FundT_DenyWithdrawal | FundT_LockAssets |
    FundT_UnlockAssets | FundT_SetAdminSigners | FundT_RemoveMultisig |
    FundT_SetAssetsTrackingConfig | FundT_UpdateAssetsWithVault | FundT_UpdateAssetsWithCustody |
    FundT_AddVault | FundT_RemoveVault | FundT_AddCustody | FundT_RemoveCustody |
    FundT_StartLiquidation | FundT_StopLiquidation | FundT_WithdrawFees |
    FundT_AmmInstructionRaydium | FundT_VaultInstructionRaydium | FundT_AmmInstructionOrca |
    FundT_VaultInstructionOrca

fun FundInstructionType_as_u8 :: "FundInstructionType \<Rightarrow> u8" where
  "FundInstructionType_as_u8 FundT_UserInit = 0"
| "FundInstructionType_as_u8 FundT_RequestDeposit = 1"
| "FundInstructionType_as_u8 FundT_CancelDeposit = 2"
| "FundInstructionType_as_u8 FundT_RequestWithdrawal = 3"
| "FundInstructionType_as_u8 FundT_CancelWithdrawal = 4"
| "FundInstructionType_as_u8 FundT_Init = 5"
| "FundInstructionType_as_u8 FundT_SetDepositSchedule = 6"
| "FundInstructionType_as_u8 FundT_DisableDeposits = 7"
| "FundInstructionType_as_u8 FundT_ApproveDeposit = 8"
| "FundInstructionType_as_u8 FundT_DenyDeposit = 9"
| "FundInstructionType_as_u8 FundT_SetWithdrawalSchedule = 10"
| "FundInstructionType_as_u8 FundT_DisableWithdrawals = 11"
| "FundInstructionType_as_u8 FundT_ApproveWithdrawal = 12"
| "FundInstructionType_as_u8 FundT_DenyWithdrawal = 13"
| "FundInstructionType_as_u8 FundT_LockAssets = 14"
| "FundInstructionType_as_u8 FundT_UnlockAssets = 15"
| "FundInstructionType_as_u8 FundT_SetAdminSigners = 16"
| "FundInstructionType_as_u8 FundT_RemoveMultisig = 17"
| "FundInstructionType_as_u8 FundT_SetAssetsTrackingConfig = 18"
| "FundInstructionType_as_u8 FundT_UpdateAssetsWithVault = 19"
| "FundInstructionType_as_u8 FundT_UpdateAssetsWithCustody = 20"
| "FundInstructionType_as_u8 FundT_AddVault = 21"
| "FundInstructionType_as_u8 FundT_RemoveVault = 22"
| "FundInstructionType_as_u8 FundT_AddCustody = 23"
| "FundInstructionType_as_u8 FundT_RemoveCustody = 24"
| "FundInstructionType_as_u8 FundT_StartLiquidation = 25"
| "FundInstructionType_as_u8 FundT_StopLiquidation = 26"
| "FundInstructionType_as_u8 FundT_WithdrawFees = 27"
| "FundInstructionType_as_u8 FundT_AmmInstructionRaydium = 28"
| "FundInstructionType_as_u8 FundT_VaultInstructionRaydium = 29"
| "FundInstructionType_as_u8 FundT_AmmInstructionOrca = 30"
| "FundInstructionType_as_u8 FundT_VaultInstructionOrca = 31"

definition FundInstructionType_try_from_primitive :: "u8 \<Rightarrow> FundInstructionType option" where
  "FundInstructionType_try_from_primitive b =
     find (\<lambda>t. FundInstructionType_as_u8 t = b)
       [FundT_UserInit, FundT_RequestDeposit, FundT_CancelDeposit, FundT_RequestWithdrawal,
        FundT_CancelWithdrawal, FundT_Init, FundT_SetDepositSchedule, FundT_DisableDeposits,
        FundT_ApproveDeposit, FundT_DenyDeposit, FundT_SetWithdrawalSchedule,
        FundT_DisableWithdrawals, FundT_ApproveWithdrawal, FundT_DenyWithdrawal, FundT_LockAssets,
        FundT_UnlockAssets, FundT_SetAdminSigners, FundT_RemoveMultisig,
        FundT_SetAssetsTrackingConfig, FundT_UpdateAssetsWithVault, FundT_UpdateAssetsWithCustody,
        FundT_AddVault, FundT_RemoveVault, FundT_AddCustody, FundT_RemoveCustody,
        FundT_StartLiquidation, FundT_StopLiquidation, FundT_WithdrawFees,
        FundT_AmmInstructionRaydium, FundT_VaultInstructionRaydium, FundT_AmmInstructionOrca,
        FundT_VaultInstructionOrca]"

lemma FundInstructionType_round_trip [simp]:
  "FundInstructionType_try_from_primitive (FundInstructionType_as_u8 t) = Some t"
  by (cases t) (simp_all add: FundInstructionType_try_from_primitive_def)

fun FundInstructionType_fmt :: "FundInstructionType \<Rightarrow> string" where
  "FundInstructionType_fmt FundT_UserInit = ''UserInit''"
| "FundInstructionType_fmt FundT_RequestDeposit = ''RequestDeposit''"
| "FundInstructionType_fmt FundT_CancelDeposit = ''CancelDeposit''"
| "FundInstructionType_fmt FundT_RequestWithdrawal = ''RequestWithdrawal''"
| "FundInstructionType_fmt FundT_CancelWithdrawal = ''CancelWithdrawal''"
| "FundInstructionType_fmt FundT_Init = ''Init''"
| "FundInstructionType_fmt FundT_SetDepositSchedule = ''SetDepositSchedule''"
| "FundInstructionType_fmt FundT_DisableDeposits = ''DisableDeposits''"
| "FundInstructionType_fmt FundT_ApproveDeposit = ''ApproveDeposit''"
| "FundInstructionType_fmt FundT_DenyDeposit = ''DenyDeposit''"
| "FundInstructionType_fmt FundT_SetWithdrawalSchedule = ''SetWithdrawalSchedule''"
| "FundInstructionType_fmt FundT_DisableWithdrawals = ''DisableWithdrawals''"
| "FundInstructionType_fmt FundT_ApproveWithdrawal = ''ApproveWithdrawal''"
| "FundInstructionType_fmt FundT_DenyWithdrawal = ''DenyWithdrawal''"
| "FundInstructionType_fmt FundT_LockAssets = ''LockAssets''"
| "FundInstructionType_fmt FundT_UnlockAssets = ''UnlockAssets''"
| "FundInstructionType_fmt FundT_SetAdminSigners = ''SetAdminSigners''"
| "FundInstructionType_fmt FundT_RemoveMultisig = ''RemoveMultisig''"
| "FundInstructionType_fmt FundT_SetAssetsTrackingConfig = ''SetAssetsTrackingConfig''"
| "FundInstructionType_fmt FundT_UpdateAssetsWithVault = ''UpdateAssetsWithVault''"
| "FundInstructionType_fmt FundT_UpdateAssetsWithCustody = ''UpdateAssetsWithCustody''"
| "FundInstructionType_fmt FundT_AddVault = ''AddVault''"
| "FundInstructionType_fmt FundT_RemoveVault = ''RemoveVault''"
| "FundInstructionType_fmt FundT_AddCustody = ''AddCustody''"
| "FundInstructionType_fmt FundT_RemoveCustody = ''RemoveCustody''"
| "FundInstructionType_fmt FundT_StartLiquidation = ''StartLiquidation''"
| "FundInstructionType_fmt FundT_StopLiquidation = ''StopLiquidation''"
| "FundInstructionType_fmt FundT_WithdrawFees = ''WithdrawFees''"
| "FundInstructionType_fmt FundT_AmmInstructionRaydium = ''AmmInstructionRaydium''"
| "FundInstructionType_fmt FundT_VaultInstructionRaydium = ''VaultInstructionRaydium''"
| "FundInstructionType_fmt FundT_AmmInstructionOrca = ''AmmInstructionOrca''"
| "FundInstructionType_fmt FundT_VaultInstructionOrca = ''VaultInstructionOrca''"

definition FundInstruction_MAX_LEN :: usize where "FundInstruction_MAX_LEN = 65"
definition FundInstruction_USER_INIT_LEN :: usize where "FundInstruction_USER_INIT_LEN = 1"
definition FundInstruction_REQUEST_DEPOSIT_LEN :: usize where "FundInstruction_REQUEST_DEPOSIT_LEN = 9"
definition FundInstruction_CANCEL_DEPOSIT_LEN :: usize where "FundInstruction_CANCEL_DEPOSIT_LEN = 1"
definition FundInstruction_REQUEST_WITHDRAWAL_LEN :: usize where "FundInstruction_REQUEST_WITHDRAWAL_LEN = 9"
definition FundInstruction_CANCEL_WITHDRAWAL_LEN :: usize where "FundInstruction_CANCEL_WITHDRAWAL_LEN = 1"
definition FundInstruction_INIT_LEN :: usize where "FundInstruction_INIT_LEN = 9"
definition FundInstruction_SET_DEPOSIT_SCHEDULE_LEN :: usize where "FundInstruction_SET_DEPOSIT_SCHEDULE_LEN = 42"
definition FundInstruction_DISABLE_DEPOSITS_LEN :: usize where "FundInstruction_DISABLE_DEPOSITS_LEN = 1"
definition FundInstruction_APPROVE_DEPOSIT_LEN :: usize where "FundInstruction_APPROVE_DEPOSIT_LEN = 9"
definition FundInstruction_DENY_DEPOSIT_LEN :: usize where "FundInstruction_DENY_DEPOSIT_LEN = 65"
definition FundInstruction_SET_WITHDRAWAL_SCHEDULE_LEN :: usize where "FundInstruction_SET_WITHDRAWAL_SCHEDULE_LEN = 42"
definition FundInstruction_DISABLE_WITHDRAWALS_LEN :: usize where "FundInstruction_DISABLE_WITHDRAWALS_LEN = 1"
definition FundInstruction_APPROVE_WITHDRAWAL_LEN :: usize where "FundInstruction_APPROVE_WITHDRAWAL_LEN = 9"
definition FundInstruction_DENY_WITHDRAWAL_LEN :: usize where "FundInstruction_DENY_WITHDRAWAL_LEN = 65"
definition FundInstruction_LOCK_ASSETS_LEN :: usize where "FundInstruction_LOCK_ASSETS_LEN = 9"
definition FundInstruction_UNLOCK_ASSETS_LEN :: usize where "FundInstruction_UNLOCK_ASSETS_LEN = 9"
definition FundInstruction_SET_ADMIN_SIGNERS_LEN :: usize where "FundInstruction_SET_ADMIN_SIGNERS_LEN = 2"
definition FundInstruction_REMOVE_MULTISIG_LEN :: usize where "FundInstruction_REMOVE_MULTISIG_LEN = 1"
definition FundInstruction_SET_ASSETS_TRACKING_CONFIG_LEN :: usize where "FundInstruction_SET_ASSETS_TRACKING_CONFIG_LEN = 34"
definition FundInstruction_UPDATE_ASSETS_WITH_VAULT_LEN :: usize where "FundInstruction_UPDATE_ASSETS_WITH_VAULT_LEN = 1"
definition FundInstruction_UPDATE_ASSETS_WITH_CUSTODY_LEN :: usize where "FundInstruction_UPDATE_ASSETS_WITH_CUSTODY_LEN = 1"
definition FundInstruction_ADD_VAULT_LEN :: usize where "FundInstruction_ADD_VAULT_LEN = 14"
definition FundInstruction_REMOVE_VAULT_LEN :: usize where "FundInstruction_REMOVE_VAULT_LEN = 10"
definition FundInstruction_ADD_CUSTODY_LEN :: usize where "FundInstruction_ADD_CUSTODY_LEN = 14"
definition FundInstruction_REMOVE_CUSTODY_LEN :: usize where "FundInstruction_REMOVE_CUSTODY_LEN = 10"
definition FundInstruction_START_LIQUIDATION_LEN :: usize where "FundInstruction_START_LIQUIDATION_LEN = 1"
definition FundInstruction_STOP_LIQUIDATION_LEN :: usize where "FundInstruction_STOP_LIQUIDATION_LEN = 1"
definition FundInstruction_WITHDRAW_FEES_LEN :: usize where "FundInstruction_WITHDRAW_FEES_LEN = 9"

lemmas fundi_lens = FundInstruction_USER_INIT_LEN_def FundInstruction_REQUEST_DEPOSIT_LEN_def
  FundInstruction_CANCEL_DEPOSIT_LEN_def FundInstruction_REQUEST_WITHDRAWAL_LEN_def
  FundInstruction_CANCEL_WITHDRAWAL_LEN_def FundInstruction_INIT_LEN_def
  FundInstruction_SET_DEPOSIT_SCHEDULE_LEN_def FundInstruction_DISABLE_DEPOSITS_LEN_def
  FundInstruction_APPROVE_DEPOSIT_LEN_def FundInstruction_DENY_DEPOSIT_LEN_def
  FundInstruction_SET_WITHDRAWAL_SCHEDULE_LEN_def FundInstruction_DISABLE_WITHDRAWALS_LEN_def
  FundInstruction_APPROVE_WITHDRAWAL_LEN_def FundInstruction_DENY_WITHDRAWAL_LEN_def
  FundInstruction_LOCK_ASSETS_LEN_def FundInstruction_UNLOCK_ASSETS_LEN_def
  FundInstruction_SET_ADMIN_SIGNERS_LEN_def FundInstruction_REMOVE_MULTISIG_LEN_def
  FundInstruction_SET_ASSETS_TRACKING_CONFIG_LEN_def
  FundInstruction_UPDATE_ASSETS_WITH_VAULT_LEN_def
  FundInstruction_UPDATE_ASSETS_WITH_CUSTODY_LEN_def FundInstruction_ADD_VAULT_LEN_def
  FundInstruction_REMOVE_VAULT_LEN_def FundInstruction_ADD_CUSTODY_LEN_def
  FundInstruction_REMOVE_CUSTODY_LEN_def FundInstruction_START_LIQUIDATION_LEN_def
  FundInstruction_STOP_LIQUIDATION_LEN_def FundInstruction_WITHDRAW_FEES_LEN_def

section \<open>Packing\<close>

definition FundInstruction_pack_user_init :: "FundInstruction \<Rightarrow> bytes \<Rightarrow> (usize, bytes) effect" where
  "FundInstruction_pack_user_init self output =
     seq (pure_in output (check_data_len output FundInstruction_USER_INIT_LEN)) (\<lambda>_ output.
       (case self of
          FundI_UserInit \<Rightarrow>
            (Ok FundInstruction_USER_INIT_LEN, mut_array_refs
            [(1, put [FundInstructionType_as_u8 FundT_UserInit])] output)
        | _ \<Rightarrow> (Err InvalidInstructionData, output)))"

definition FundInstruction_pack_request_deposit :: "FundInstruction \<Rightarrow> bytes \<Rightarrow> (usize, bytes) effect" where
  "FundInstruction_pack_request_deposit self output =
     seq (pure_in output (check_data_len output FundInstruction_REQUEST_DEPOSIT_LEN)) (\<lambda>_ output.
       (case self of
          FundI_RequestDeposit amount \<Rightarrow>
            (Ok FundInstruction_REQUEST_DEPOSIT_LEN, mut_array_refs
            [(1, put [FundInstructionType_as_u8 FundT_RequestDeposit]),
             (8, put (to_le_bytes amount))] output)
        | _ \<Rightarrow> (Err InvalidInstructionData, output)))"

definition FundInstruction_pack_cancel_deposit :: "FundInstruction \<Rightarrow> bytes \<Rightarrow> (usize, bytes) effect" where
  "FundInstruction_pack_cancel_deposit self output =
     seq (pure_in output (check_data_len output FundInstruction_CANCEL_DEPOSIT_LEN)) (\<lambda>_ output.
       (case self of
          FundI_CancelDeposit \<Rightarrow>
            (Ok FundInstruction_CANCEL_DEPOSIT_LEN, mut_array_refs
            [(1, put [FundInstructionType_as_u8 FundT_CancelDeposit])] output)
        | _ \<Rightarrow> (Err InvalidInstructionData, output)))"

definition FundInstruction_pack_request_withdrawal :: "FundInstruction \<Rightarrow> bytes \<Rightarrow> (usize, bytes) effect" where
  "FundInstruction_pack_request_withdrawal self output =
     seq (pure_in output (check_data_len output FundInstruction_REQUEST_WITHDRAWAL_LEN)) (\<lambda>_ output.
       (case self of
          FundI_RequestWithdrawal amount \<Rightarrow>
            (Ok FundInstruction_REQUEST_WITHDRAWAL_LEN, mut_array_refs
            [(1, put [FundInstructionType_as_u8 FundT_RequestWithdrawal]),
             (8, put (to_le_bytes amount))] output)
        | _ \<Rightarrow> (Err InvalidInstructionData, output)))"

definition FundInstruction_pack_cancel_withdrawal :: "FundInstruction \<Rightarrow> bytes \<Rightarrow> (usize, bytes) effect" where
  "FundInstruction_pack_cancel_withdrawal self output =
     seq (pure_in output (check_data_len output FundInstruction_CANCEL_WITHDRAWAL_LEN)) (\<lambda>_ output.
       (case self of
          FundI_CancelWithdrawal \<Rightarrow>
            (Ok FundInstruction_CANCEL_WITHDRAWAL_LEN, mut_array_refs
            [(1, put [FundInstructionType_as_u8 FundT_CancelWithdrawal])] output)
        | _ \<Rightarrow> (Err InvalidInstructionData, output)))"

definition FundInstruction_pack_init :: "FundInstruction \<Rightarrow> bytes \<Rightarrow> (usize, bytes) effect" where
  "FundInstruction_pack_init self output =
     seq (pure_in output (check_data_len output FundInstruction_INIT_LEN)) (\<lambda>_ output.
       (case self of
          FundI_Init step \<Rightarrow>
            (Ok FundInstruction_INIT_LEN, mut_array_refs
            [(1, put [FundInstructionType_as_u8 FundT_Init]), (8, put (to_le_bytes step))] output)
        | _ \<Rightarrow> (Err InvalidInstructionData, output)))"

definition FundInstruction_pack_set_deposit_schedule :: "FundInstruction \<Rightarrow> bytes \<Rightarrow> (usize, bytes) effect" where
  "FundInstruction_pack_set_deposit_schedule self output =
     seq (pure_in output (check_data_len output FundInstruction_SET_DEPOSIT_SCHEDULE_LEN)) (\<lambda>_ output.
       (case self of
          FundI_SetDepositSchedule schedule \<Rightarrow>
            (Ok FundInstruction_SET_DEPOSIT_SCHEDULE_LEN, mut_array_refs
            [(1, put [FundInstructionType_as_u8 FundT_SetDepositSchedule]),
             (8, put (to_le_bytes (fsc_start_time schedule))),
             (8, put (to_le_bytes (fsc_end_time schedule))),
             (1, pack_bool (fsc_approval_required schedule)),
             (8, put (to_le_bytes (fsc_min_amount_usd schedule))),
             (8, put (to_le_bytes (fsc_max_amount_usd schedule))),
             (8, put (to_le_bytes (fsc_fee schedule)))] output)
        | _ \<Rightarrow> (Err InvalidInstructionData, output)))"

definition FundInstruction_pack_disable_deposits :: "FundInstruction \<Rightarrow> bytes \<Rightarrow> (usize, bytes) effect" where
  "FundInstruction_pack_disable_deposits self output =
     seq (pure_in output (check_data_len output FundInstruction_DISABLE_DEPOSITS_LEN)) (\<lambda>_ output.
       (case self of
          FundI_DisableDeposits \<Rightarrow>
            (Ok FundInstruction_DISABLE_DEPOSITS_LEN, mut_array_refs
            [(1, put [FundInstructionType_as_u8 FundT_DisableDeposits])] output)
        | _ \<Rightarrow> (Err InvalidInstructionData, output)))"

definition FundInstruction_pack_approve_deposit :: "FundInstruction \<Rightarrow> bytes \<Rightarrow> (usize, bytes) effect" where
  "FundInstruction_pack_approve_deposit self output =
     seq (pure_in output (check_data_len output FundInstruction_APPROVE_DEPOSIT_LEN)) (\<lambda>_ output.
       (case self of
          FundI_ApproveDeposit amount \<Rightarrow>
            (Ok FundInstruction_APPROVE_DEPOSIT_LEN, mut_array_refs
            [(1, put [FundInstructionType_as_u8 FundT_ApproveDeposit]),
             (8, put (to_le_bytes amount))] output)
        | _ \<Rightarrow> (Err InvalidInstructionData, output)))"

definition FundInstruction_pack_deny_deposit :: "FundInstruction \<Rightarrow> bytes \<Rightarrow> (usize, bytes) effect" where
  "FundInstruction_pack_deny_deposit self output =
     seq (pure_in output (check_data_len output FundInstruction_DENY_DEPOSIT_LEN)) (\<lambda>_ output.
       (case self of
          FundI_DenyDeposit deny_reason \<Rightarrow>
            (Ok FundInstruction_DENY_DEPOSIT_LEN, mut_array_refs
            [(1, put [FundInstructionType_as_u8 FundT_DenyDeposit]),
             (64, pack_array_string64 deny_reason)] output)
        | _ \<Rightarrow> (Err InvalidInstructionData, output)))"

definition FundInstruction_pack_set_withdrawal_schedule :: "FundInstruction \<Rightarrow> bytes \<Rightarrow> (usize, bytes) effect" where
  "FundInstruction_pack_set_withdrawal_schedule self output =
     seq (pure_in output (check_data_len output FundInstruction_SET_WITHDRAWAL_SCHEDULE_LEN)) (\<lambda>_ output.
       (case self of
          FundI_SetWithdrawalSchedule schedule \<Rightarrow>
            (Ok FundInstruction_SET_WITHDRAWAL_SCHEDULE_LEN, mut_array_refs
            [(1, put [FundInstructionType_as_u8 FundT_SetWithdrawalSchedule]),
             (8, put (to_le_bytes (fsc_start_time schedule))),
             (8, put (to_le_bytes (fsc_end_time schedule))),
             (1, pack_bool (fsc_approval_required schedule)),
             (8, put (to_le_bytes (fsc_min_amount_usd schedule))),
             (8, put (to_le_bytes (fsc_max_amount_usd schedule))),
             (8, put (to_le_bytes (fsc_fee schedule)))] output)
        | _ \<Rightarrow> (Err InvalidInstructionData, output)))"

definition FundInstruction_pack_disable_withdrawals :: "FundInstruction \<Rightarrow> bytes \<Rightarrow> (usize, bytes) effect" where
  "FundInstruction_pack_disable_withdrawals self output =
     seq (pure_in output (check_data_len output FundInstruction_DISABLE_WITHDRAWALS_LEN)) (\<lambda>_ output.
       (case self of
          FundI_DisableWithdrawals \<Rightarrow>
            (Ok FundInstruction_DISABLE_WITHDRAWALS_LEN, mut_array_refs
            [(1, put [FundInstructionType_as_u8 FundT_DisableWithdrawals])] output)
        | _ \<Rightarrow> (Err InvalidInstructionData, output)))"

definition FundInstruction_pack_approve_withdrawal :: "FundInstruction \<Rightarrow> bytes \<Rightarrow> (usize, bytes) effect" where
  "FundInstruction_pack_approve_withdrawal self output =
     seq (pure_in output (check_data_len output FundInstruction_APPROVE_WITHDRAWAL_LEN)) (\<lambda>_ output.
       (case self of
          FundI_ApproveWithdrawal amount \<Rightarrow>
            (Ok FundInstruction_APPROVE_WITHDRAWAL_LEN, mut_array_refs
            [(1, put [FundInstructionType_as_u8 FundT_ApproveWithdrawal]),
             (8, put (to_le_bytes amount))] output)
        | _ \<Rightarrow> (Err InvalidInstructionData, output)))"

definition FundInstruction_pack_deny_withdrawal :: "FundInstruction \<Rightarrow> bytes \<Rightarrow> (usize, bytes) effect" where
  "FundInstruction_pack_deny_withdrawal self output =
     seq (pure_in output (check_data_len output FundInstruction_DENY_WITHDRAWAL_LEN)) (\<lambda>_ output.
       (case self of
          FundI_DenyWithdrawal deny_reason \<Rightarrow>
            (Ok FundInstruction_DENY_WITHDRAWAL_LEN, mut_array_refs
            [(1, put [FundInstructionType_as_u8 FundT_DenyWithdrawal]),
             (64, pack_array_string64 deny_reason)] output)
        | _ \<Rightarrow> (Err InvalidInstructionData, output)))"

definition FundInstruction_pack_accept_funds :: "FundInstruction \<Rightarrow> bytes \<Rightarrow> (usize, bytes) effect" where
  "FundInstruction_pack_accept_funds self output =
     seq (pure_in output (check_data_len output FundInstruction_LOCK_ASSETS_LEN)) (\<lambda>_ output.
       (case self of
          FundI_LockAssets amount \<Rightarrow>
            (Ok FundInstruction_LOCK_ASSETS_LEN, mut_array_refs
            [(1, put [FundInstructionType_as_u8 FundT_LockAssets]), (8, put (to_le_bytes amount))] output)
        | _ \<Rightarrow> (Err InvalidInstructionData, output)))"

definition FundInstruction_pack_release_funds :: "FundInstruction \<Rightarrow> bytes \<Rightarrow> (usize, bytes) effect" where
  "FundInstruction_pack_release_funds self output =
     seq (pure_in output (check_data_len output FundInstruction_UNLOCK_ASSETS_LEN)) (\<lambda>_ output.
       (case self of
          FundI_UnlockAssets amount \<Rightarrow>
            (Ok FundInstruction_UNLOCK_ASSETS_LEN, mut_array_refs
            [(1, put [FundInstructionType_as_u8 FundT_UnlockAssets]), (8, put (to_le_bytes amount))] output)
        | _ \<Rightarrow> (Err InvalidInstructionData, output)))"

definition FundInstruction_pack_set_admin_signers :: "FundInstruction \<Rightarrow> bytes \<Rightarrow> (usize, bytes) effect" where
  "FundInstruction_pack_set_admin_signers self output =
     seq (pure_in output (check_data_len output FundInstruction_SET_ADMIN_SIGNERS_LEN)) (\<lambda>_ output.
       (case self of
          FundI_SetAdminSigners min_signatures \<Rightarrow>
            (Ok FundInstruction_SET_ADMIN_SIGNERS_LEN, mut_array_refs
            [(1, put [FundInstructionType_as_u8 FundT_SetAdminSigners]), (1, put [min_signatures])] output)
        | _ \<Rightarrow> (Err InvalidInstructionData, output)))"

definition FundInstruction_pack_remove_multisig :: "FundInstruction \<Rightarrow> bytes \<Rightarrow> (usize, bytes) effect" where
  "FundInstruction_pack_remove_multisig self output =
     seq (pure_in output (check_data_len output FundInstruction_REMOVE_MULTISIG_LEN)) (\<lambda>_ output.
       (case self of
          FundI_RemoveMultisig \<Rightarrow>
            (Ok FundInstruction_REMOVE_MULTISIG_LEN, mut_array_refs
            [(1, put [FundInstructionType_as_u8 FundT_RemoveMultisig])] output)
        | _ \<Rightarrow> (Err InvalidInstructionData, output)))"

definition FundInstruction_pack_set_assets_tracking_config :: "FundInstruction \<Rightarrow> bytes \<Rightarrow> (usize, bytes) effect" where
  "FundInstruction_pack_set_assets_tracking_config self output =
     seq (pure_in output (check_data_len output FundInstruction_SET_ASSETS_TRACKING_CONFIG_LEN)) (\<lambda>_ output.
       (case self of
          FundI_SetAssetsTrackingConfig config \<Rightarrow>
            (Ok FundInstruction_SET_ASSETS_TRACKING_CONFIG_LEN, mut_array_refs
            [(1, put [FundInstructionType_as_u8 FundT_SetAssetsTrackingConfig]),
             (8, put (to_le_bytes (fac_assets_limit_usd config))),
             (8, put (to_le_bytes (fac_max_update_age_sec config))),
             (8, put (to_le_bytes (fac_max_price_error config))),
             (8, put (to_le_bytes (fac_max_price_age_sec config))),
             (1, put [bool_as_u8 (fac_issue_virtual_tokens config)])] output)
        | _ \<Rightarrow> (Err InvalidInstructionData, output)))"

definition FundInstruction_pack_update_assets_with_vault :: "FundInstruction \<Rightarrow> bytes \<Rightarrow> (usize, bytes) effect" where
  "FundInstruction_pack_update_assets_with_vault self output =
     seq (pure_in output (check_data_len output FundInstruction_UPDATE_ASSETS_WITH_VAULT_LEN)) (\<lambda>_ output.
       (case self of
          FundI_UpdateAssetsWithVault \<Rightarrow>
            (Ok FundInstruction_UPDATE_ASSETS_WITH_VAULT_LEN, mut_array_refs
            [(1, put [FundInstructionType_as_u8 FundT_UpdateAssetsWithVault])] output)
        | _ \<Rightarrow> (Err InvalidInstructionData, output)))"

definition FundInstruction_pack_update_assets_with_custody :: "FundInstruction \<Rightarrow> bytes \<Rightarrow> (usize, bytes) effect" where
  "FundInstruction_pack_update_assets_with_custody self output =
     seq (pure_in output (check_data_len output FundInstruction_UPDATE_ASSETS_WITH_CUSTODY_LEN)) (\<lambda>_ output.
       (case self of
          FundI_UpdateAssetsWithCustody \<Rightarrow>
            (Ok FundInstruction_UPDATE_ASSETS_WITH_CUSTODY_LEN, mut_array_refs
            [(1, put [FundInstructionType_as_u8 FundT_UpdateAssetsWithCustody])] output)
        | _ \<Rightarrow> (Err InvalidInstructionData, output)))"

definition FundInstruction_pack_add_vault :: "FundInstruction \<Rightarrow> bytes \<Rightarrow> (usize, bytes) effect" where
  "FundInstruction_pack_add_vault self output =
     seq (pure_in output (check_data_len output FundInstruction_ADD_VAULT_LEN)) (\<lambda>_ output.
       (case self of
          FundI_AddVault target_hash vault_id vault_type \<Rightarrow>
            (Ok FundInstruction_ADD_VAULT_LEN, mut_array_refs
            [(1, put [FundInstructionType_as_u8 FundT_AddVault]),
             (8, put (to_le_bytes target_hash)), (4, put (to_le_bytes vault_id)),
             (1, put [FundVaultType_as_u8 vault_type])] output)
        | _ \<Rightarrow> (Err InvalidInstructionData, output)))"

definition FundInstruction_pack_remove_vault :: "FundInstruction \<Rightarrow> bytes \<Rightarrow> (usize, bytes) effect" where
  "FundInstruction_pack_remove_vault self output =
     seq (pure_in output (check_data_len output FundInstruction_REMOVE_VAULT_LEN)) (\<lambda>_ output.
       (case self of
          FundI_RemoveVault target_hash vault_type \<Rightarrow>
            (Ok FundInstruction_REMOVE_VAULT_LEN, mut_array_refs
            [(1, put [FundInstructionType_as_u8 FundT_RemoveVault]),
             (8, put (to_le_bytes target_hash)), (1, put [FundVaultType_as_u8 vault_type])] output)
        | _ \<Rightarrow> (Err InvalidInstructionData, output)))"

definition FundInstruction_pack_add_custody :: "FundInstruction \<Rightarrow> bytes \<Rightarrow> (usize, bytes) effect" where
  "FundInstruction_pack_add_custody self output =
     seq (pure_in output (check_data_len output FundInstruction_ADD_CUSTODY_LEN)) (\<lambda>_ output.
       (case self of
          FundI_AddCustody target_hash custody_id custody_type \<Rightarrow>
            (Ok FundInstruction_ADD_CUSTODY_LEN, mut_array_refs
            [(1, put [FundInstructionType_as_u8 FundT_AddCustody]),
             (8, put (to_le_bytes target_hash)), (4, put (to_le_bytes custody_id)),
             (1, put [FundCustodyType_as_u8 custody_type])] output)
        | _ \<Rightarrow> (Err InvalidInstructionData, output)))"

definition FundInstruction_pack_remove_custody :: "FundInstruction \<Rightarrow> bytes \<Rightarrow> (usize, bytes) effect" where
  "FundInstruction_pack_remove_custody self output =
     seq (pure_in output (check_data_len output FundInstruction_REMOVE_CUSTODY_LEN)) (\<lambda>_ output.
       (case self of
          FundI_RemoveCustody target_hash custody_type \<Rightarrow>
            (Ok FundInstruction_REMOVE_CUSTODY_LEN, mut_array_refs
            [(1, put [FundInstructionType_as_u8 FundT_RemoveCustody]),
             (8, put (to_le_bytes target_hash)), (1, put [FundCustodyType_as_u8 custody_type])] output)
        | _ \<Rightarrow> (Err InvalidInstructionData, output)))"

definition FundInstruction_pack_start_liquidation :: "FundInstruction \<Rightarrow> bytes \<Rightarrow> (usize, bytes) effect" where
  "FundInstruction_pack_start_liquidation self output =
     seq (pure_in output (check_data_len output FundInstruction_START_LIQUIDATION_LEN)) (\<lambda>_ output.
       (case self of
          FundI_StartLiquidation \<Rightarrow>
            (Ok FundInstruction_START_LIQUIDATION_LEN, mut_array_refs
            [(1, put [FundInstructionType_as_u8 FundT_StartLiquidation])] output)
        | _ \<Rightarrow> (Err InvalidInstructionData, output)))"

definition FundInstruction_pack_stop_liquidation :: "FundInstruction \<Rightarrow> bytes \<Rightarrow> (usize, bytes) effect" where
  "FundInstruction_pack_stop_liquidation self output =
     seq (pure_in output (check_data_len output FundInstruction_STOP_LIQUIDATION_LEN)) (\<lambda>_ output.
       (case self of
          FundI_StopLiquidation \<Rightarrow>
            (Ok FundInstruction_STOP_LIQUIDATION_LEN, mut_array_refs
            [(1, put [FundInstructionType_as_u8 FundT_StopLiquidation])] output)
        | _ \<Rightarrow> (Err InvalidInstructionData, output)))"

definition FundInstruction_pack_withdraw_fees :: "FundInstruction \<Rightarrow> bytes \<Rightarrow> (usize, bytes) effect" where
  "FundInstruction_pack_withdraw_fees self output =
     seq (pure_in output (check_data_len output FundInstruction_WITHDRAW_FEES_LEN)) (\<lambda>_ output.
       (case self of
          FundI_WithdrawFees amount \<Rightarrow>
            (Ok FundInstruction_WITHDRAW_FEES_LEN, mut_array_refs
            [(1, put [FundInstructionType_as_u8 FundT_WithdrawFees]), (8, put (to_le_bytes amount))] output)
        | _ \<Rightarrow> (Err InvalidInstructionData, output)))"

definition FundInstruction_pack_amm_instruction_raydium :: "FundInstruction \<Rightarrow> bytes \<Rightarrow> (usize, bytes) effect" where
  "FundInstruction_pack_amm_instruction_raydium self output =
     (case self of
        FundI_AmmInstructionRaydium instruction \<Rightarrow>
          seq (pure_in output (check_data_len output 1)) (\<lambda>_ output.
          seq (pack_from 1 AmmInstruction_pack instruction (mut_array_refs [(1, put [FundInstructionType_as_u8 FundT_AmmInstructionRaydium])] output)) (\<lambda>n output.
            (Ok (n + 1), output)))
      | _ \<Rightarrow> (Err InvalidInstructionData, output))"

definition FundInstruction_pack_vault_instruction_raydium :: "FundInstruction \<Rightarrow> bytes \<Rightarrow> (usize, bytes) effect" where
  "FundInstruction_pack_vault_instruction_raydium self output =
     (case self of
        FundI_VaultInstructionRaydium instruction \<Rightarrow>
          seq (pure_in output (check_data_len output 1)) (\<lambda>_ output.
          seq (pack_from 1 VaultInstruction_pack instruction (mut_array_refs [(1, put [FundInstructionType_as_u8 FundT_VaultInstructionRaydium])] output)) (\<lambda>n output.
            (Ok (n + 1), output)))
      | _ \<Rightarrow> (Err InvalidInstructionData, output))"

definition FundInstruction_pack_amm_instruction_orca :: "FundInstruction \<Rightarrow> bytes \<Rightarrow> (usize, bytes) effect" where
  "FundInstruction_pack_amm_instruction_orca self output =
     (case self of
        FundI_AmmInstructionOrca instruction \<Rightarrow>
          seq (pure_in output (check_data_len output 1)) (\<lambda>_ output.
          seq (pack_from 1 AmmInstruction_pack instruction (mut_array_refs [(1, put [FundInstructionType_as_u8 FundT_AmmInstructionOrca])] output)) (\<lambda>n output.
            (Ok (n + 1), output)))
      | _ \<Rightarrow> (Err InvalidInstructionData, output))"

definition FundInstruction_pack_vault_instruction_orca :: "FundInstruction \<Rightarrow> bytes \<Rightarrow> (usize, bytes) effect" where
  "FundInstruction_pack_vault_instruction_orca self output =
     (case self of
        FundI_VaultInstructionOrca instruction \<Rightarrow>
          seq (pure_in output (check_data_len output 1)) (\<lambda>_ output.
          seq (pack_from 1 VaultInstruction_pack instruction (mut_array_refs [(1, put [FundInstructionType_as_u8 FundT_VaultInstructionOrca])] output)) (\<lambda>n output.
            (Ok (n + 1), output)))
      | _ \<Rightarrow> (Err InvalidInstructionData, output))"

definition FundInstruction_pack :: "FundInstruction \<Rightarrow> bytes \<Rightarrow> (usize, bytes) effect" where
  "FundInstruction_pack self output =
     (case self of
        FundI_UserInit \<Rightarrow> FundInstruction_pack_user_init self output
      | FundI_RequestDeposit _ \<Rightarrow> FundInstruction_pack_request_deposit self output
      | FundI_CancelDeposit \<Rightarrow> FundInstruction_pack_cancel_deposit self output
      | FundI_RequestWithdrawal _ \<Rightarrow> FundInstruction_pack_request_withdrawal self output
      | FundI_CancelWithdrawal \<Rightarrow> FundInstruction_pack_cancel_withdrawal self output
      | FundI_Init _ \<Rightarrow> FundInstruction_pack_init self output
      | FundI_SetDepositSchedule _ \<Rightarrow> FundInstruction_pack_set_deposit_schedule self output
      | FundI_DisableDeposits \<Rightarrow> FundInstruction_pack_disable_deposits self output
      | FundI_ApproveDeposit _ \<Rightarrow> FundInstruction_pack_approve_deposit self output
      | FundI_DenyDeposit _ \<Rightarrow> FundInstruction_pack_deny_deposit self output
      | FundI_SetWithdrawalSchedule _ \<Rightarrow> FundInstruction_pack_set_withdrawal_schedule self output
      | FundI_DisableWithdrawals \<Rightarrow> FundInstruction_pack_disable_withdrawals self output
      | FundI_ApproveWithdrawal _ \<Rightarrow> FundInstruction_pack_approve_withdrawal self output
      | FundI_DenyWithdrawal _ \<Rightarrow> FundInstruction_pack_deny_withdrawal self output
      | FundI_LockAssets _ \<Rightarrow> FundInstruction_pack_accept_funds self output
      | FundI_UnlockAssets _ \<Rightarrow> FundInstruction_pack_release_funds self output
      | FundI_SetAdminSigners _ \<Rightarrow> FundInstruction_pack_set_admin_signers self output
      | FundI_RemoveMultisig \<Rightarrow> FundInstruction_pack_remove_multisig self output
      | FundI_SetAssetsTrackingConfig _ \<Rightarrow> FundInstruction_pack_set_assets_tracking_config self output
      | FundI_UpdateAssetsWithVault \<Rightarrow> FundInstruction_pack_update_assets_with_vault self output
      | FundI_UpdateAssetsWithCustody \<Rightarrow> FundInstruction_pack_update_assets_with_custody self output
      | FundI_AddVault _ _ _ \<Rightarrow> FundInstruction_pack_add_vault self output
      | FundI_RemoveVault _ _ \<Rightarrow> FundInstruction_pack_remove_vault self output
      | FundI_AddCustody _ _ _ \<Rightarrow> FundInstruction_pack_add_custody self output
      | FundI_RemoveCustody _ _ \<Rightarrow> FundInstruction_pack_remove_custody self output
      | FundI_StartLiquidation \<Rightarrow> FundInstruction_pack_start_liquidation self output
      | FundI_StopLiquidation \<Rightarrow> FundInstruction_pack_stop_liquidation self output
      | FundI_WithdrawFees _ \<Rightarrow> FundInstruction_pack_withdraw_fees self output
      | FundI_AmmInstructionRaydium _ \<Rightarrow> FundInstruction_pack_amm_instruction_raydium self output
      | FundI_VaultInstructionRaydium _ \<Rightarrow> FundInstruction_pack_vault_instruction_raydium self output
      | FundI_AmmInstructionOrca _ \<Rightarrow> FundInstruction_pack_amm_instruction_orca self output
      | FundI_VaultInstructionOrca _ \<Rightarrow> FundInstruction_pack_vault_instruction_orca self output)"

definition FundInstruction_to_vec :: "FundInstruction \<Rightarrow> bytes result" where
  "FundInstruction_to_vec = to_vec_or InvalidInstructionData FundInstruction_MAX_LEN FundInstruction_pack"

section \<open>Unpacking\<close>

definition FundInstruction_unpack_user_init :: "bytes \<Rightarrow> FundInstruction result" where
  "FundInstruction_unpack_user_init input =
     bind (check_data_len input FundInstruction_USER_INIT_LEN) (\<lambda>_.
     Ok FundI_UserInit)"

definition FundInstruction_unpack_request_deposit :: "bytes \<Rightarrow> FundInstruction result" where
  "FundInstruction_unpack_request_deposit input =
     bind (check_data_len input FundInstruction_REQUEST_DEPOSIT_LEN) (\<lambda>_.
     bind (array_ref input 1 8) (\<lambda>amount.
     Ok (FundI_RequestDeposit (from_le_bytes amount))))"

definition FundInstruction_unpack_cancel_deposit :: "bytes \<Rightarrow> FundInstruction result" where
  "FundInstruction_unpack_cancel_deposit input =
     bind (check_data_len input FundInstruction_CANCEL_DEPOSIT_LEN) (\<lambda>_.
     Ok FundI_CancelDeposit)"

definition FundInstruction_unpack_request_withdrawal :: "bytes \<Rightarrow> FundInstruction result" where
  "FundInstruction_unpack_request_withdrawal input =
     bind (check_data_len input FundInstruction_REQUEST_WITHDRAWAL_LEN) (\<lambda>_.
     bind (array_ref input 1 8) (\<lambda>amount.
     Ok (FundI_RequestWithdrawal (from_le_bytes amount))))"

definition FundInstruction_unpack_cancel_withdrawal :: "bytes \<Rightarrow> FundInstruction result" where
  "FundInstruction_unpack_cancel_withdrawal input =
     bind (check_data_len input FundInstruction_CANCEL_WITHDRAWAL_LEN) (\<lambda>_.
     Ok FundI_CancelWithdrawal)"

definition FundInstruction_unpack_init :: "bytes \<Rightarrow> FundInstruction result" where
  "FundInstruction_unpack_init input =
     bind (check_data_len input FundInstruction_INIT_LEN) (\<lambda>_.
     bind (array_ref input 1 8) (\<lambda>step.
     Ok (FundI_Init (from_le_bytes step))))"

definition FundInstruction_unpack_set_deposit_schedule :: "bytes \<Rightarrow> FundInstruction result" where
  "FundInstruction_unpack_set_deposit_schedule input =
     bind (check_data_len input FundInstruction_SET_DEPOSIT_SCHEDULE_LEN) (\<lambda>_.
     bind (array_ref input 1 (FundInstruction_SET_DEPOSIT_SCHEDULE_LEN - 1)) (\<lambda>input.
     (case array_refs [8, 8, 1, 8, 8, 8] input of
        [start_time, end_time, approval_required, min_amount_usd, max_amount_usd, fee] \<Rightarrow>
          bind (unpack_bool approval_required) (\<lambda>approval_required.
            Ok (FundI_SetDepositSchedule (\<lparr> fsc_start_time = from_le_bytes start_time, fsc_end_time = from_le_bytes end_time,
              fsc_approval_required = approval_required,
              fsc_min_amount_usd = from_le_bytes min_amount_usd,
              fsc_max_amount_usd = from_le_bytes max_amount_usd, fsc_fee = from_le_bytes fee \<rparr>)))
      | _ \<Rightarrow> Panic)))"

definition FundInstruction_unpack_disable_deposits :: "bytes \<Rightarrow> FundInstruction result" where
  "FundInstruction_unpack_disable_deposits input =
     bind (check_data_len input FundInstruction_DISABLE_DEPOSITS_LEN) (\<lambda>_.
     Ok FundI_DisableDeposits)"

definition FundInstruction_unpack_approve_deposit :: "bytes \<Rightarrow> FundInstruction result" where
  "FundInstruction_unpack_approve_deposit input =
     bind (check_data_len input FundInstruction_APPROVE_DEPOSIT_LEN) (\<lambda>_.
     bind (array_ref input 1 8) (\<lambda>amount.
     Ok (FundI_ApproveDeposit (from_le_bytes amount))))"

definition FundInstruction_unpack_deny_deposit :: "(bytes \<Rightarrow> bool) \<Rightarrow> bytes \<Rightarrow> FundInstruction result" where
  "FundInstruction_unpack_deny_deposit utf8 input =
     bind (check_data_len input FundInstruction_DENY_DEPOSIT_LEN) (\<lambda>_.
     bind (array_ref input 1 64) (\<lambda>deny_reason.
     bind (unpack_array_string64 utf8 deny_reason) (\<lambda>deny_reason.
     Ok (FundI_DenyDeposit deny_reason))))"

definition FundInstruction_unpack_set_withdrawal_schedule :: "bytes \<Rightarrow> FundInstruction result" where
  "FundInstruction_unpack_set_withdrawal_schedule input =
     bind (check_data_len input FundInstruction_SET_WITHDRAWAL_SCHEDULE_LEN) (\<lambda>_.
     bind (array_ref input 1 (FundInstruction_SET_WITHDRAWAL_SCHEDULE_LEN - 1)) (\<lambda>input.
     (case array_refs [8, 8, 1, 8, 8, 8] input of
        [start_time, end_time, approval_required, min_amount_usd, max_amount_usd, fee] \<Rightarrow>
          bind (unpack_bool approval_required) (\<lambda>approval_required.
            Ok (FundI_SetWithdrawalSchedule (\<lparr> fsc_start_time = from_le_bytes start_time, fsc_end_time = from_le_bytes end_time,
              fsc_approval_required = approval_required,
              fsc_min_amount_usd = from_le_bytes min_amount_usd,
              fsc_max_amount_usd = from_le_bytes max_amount_usd, fsc_fee = from_le_bytes fee \<rparr>)))
      | _ \<Rightarrow> Panic)))"

definition FundInstruction_unpack_disable_withdrawals :: "bytes \<Rightarrow> FundInstruction result" where
  "FundInstruction_unpack_disable_withdrawals input =
     bind (check_data_len input FundInstruction_DISABLE_WITHDRAWALS_LEN) (\<lambda>_.
     Ok FundI_DisableWithdrawals)"

definition FundInstruction_unpack_approve_withdrawal :: "bytes \<Rightarrow> FundInstruction result" where
  "FundInstruction_unpack_approve_withdrawal input =
     bind (check_data_len input FundInstruction_APPROVE_WITHDRAWAL_LEN) (\<lambda>_.
     bind (array_ref input 1 8) (\<lambda>amount.
     Ok (FundI_ApproveWithdrawal (from_le_bytes amount))))"

definition FundInstruction_unpack_deny_withdrawal :: "(bytes \<Rightarrow> bool) \<Rightarrow> bytes \<Rightarrow> FundInstruction result" where
  "FundInstruction_unpack_deny_withdrawal utf8 input =
     bind (check_data_len input FundInstruction_DENY_WITHDRAWAL_LEN) (\<lambda>_.
     bind (array_ref input 1 64) (\<lambda>deny_reason.
     bind (unpack_array_string64 utf8 deny_reason) (\<lambda>deny_reason.
     Ok (FundI_DenyWithdrawal deny_reason))))"

definition FundInstruction_unpack_accept_funds :: "bytes \<Rightarrow> FundInstruction result" where
  "FundInstruction_unpack_accept_funds input =
     bind (check_data_len input FundInstruction_LOCK_ASSETS_LEN) (\<lambda>_.
     bind (array_ref input 1 8) (\<lambda>amount.
     Ok (FundI_LockAssets (from_le_bytes amount))))"

definition FundInstruction_unpack_release_funds :: "bytes \<Rightarrow> FundInstruction result" where
  "FundInstruction_unpack_release_funds input =
     bind (check_data_len input FundInstruction_UNLOCK_ASSETS_LEN) (\<lambda>_.
     bind (array_ref input 1 8) (\<lambda>amount.
     Ok (FundI_UnlockAssets (from_le_bytes amount))))"

definition FundInstruction_unpack_set_admin_signers :: "bytes \<Rightarrow> FundInstruction result" where
  "FundInstruction_unpack_set_admin_signers input =
     bind (check_data_len input FundInstruction_SET_ADMIN_SIGNERS_LEN) (\<lambda>_.
     bind (array_ref input 1 (FundInstruction_SET_ADMIN_SIGNERS_LEN - 1)) (\<lambda>input.
     Ok (FundI_SetAdminSigners (input ! 0))))"

definition FundInstruction_unpack_remove_multisig :: "bytes \<Rightarrow> FundInstruction result" where
  "FundInstruction_unpack_remove_multisig input =
     bind (check_data_len input FundInstruction_REMOVE_MULTISIG_LEN) (\<lambda>_.
     Ok FundI_RemoveMultisig)"

definition FundInstruction_unpack_set_assets_tracking_config :: "bytes \<Rightarrow> FundInstruction result" where
  "FundInstruction_unpack_set_assets_tracking_config input =
     bind (check_data_len input FundInstruction_SET_ASSETS_TRACKING_CONFIG_LEN) (\<lambda>_.
     bind (array_ref input 1 (FundInstruction_SET_ASSETS_TRACKING_CONFIG_LEN - 1)) (\<lambda>input.
     (case array_refs [8, 8, 8, 8, 1] input of
        [assets_limit_usd, max_update_age_sec, max_price_error, max_price_age_sec, issue_virtual_tokens] \<Rightarrow>
          bind (unpack_bool issue_virtual_tokens) (\<lambda>issue_virtual_tokens.
            Ok (FundI_SetAssetsTrackingConfig (\<lparr> fac_assets_limit_usd = from_le_bytes assets_limit_usd,
              fac_max_update_age_sec = from_le_bytes max_update_age_sec,
              fac_max_price_error = from_le_bytes max_price_error,
              fac_max_price_age_sec = from_le_bytes max_price_age_sec,
              fac_issue_virtual_tokens = issue_virtual_tokens \<rparr>)))
      | _ \<Rightarrow> Panic)))"

definition FundInstruction_unpack_update_assets_with_vault :: "bytes \<Rightarrow> FundInstruction result" where
  "FundInstruction_unpack_update_assets_with_vault input =
     bind (check_data_len input FundInstruction_UPDATE_ASSETS_WITH_VAULT_LEN) (\<lambda>_.
     Ok FundI_UpdateAssetsWithVault)"

definition FundInstruction_unpack_update_assets_with_custody :: "bytes \<Rightarrow> FundInstruction result" where
  "FundInstruction_unpack_update_assets_with_custody input =
     bind (check_data_len input FundInstruction_UPDATE_ASSETS_WITH_CUSTODY_LEN) (\<lambda>_.
     Ok FundI_UpdateAssetsWithCustody)"

definition FundInstruction_unpack_add_vault :: "bytes \<Rightarrow> FundInstruction result" where
  "FundInstruction_unpack_add_vault input =
     bind (check_data_len input FundInstruction_ADD_VAULT_LEN) (\<lambda>_.
     bind (array_ref input 1 (FundInstruction_ADD_VAULT_LEN - 1)) (\<lambda>input.
     (case array_refs [8, 4, 1] input of
        [target_hash, vault_id, vault_type] \<Rightarrow>
          bind (ok_or (FundVaultType_try_from_primitive (vault_type ! 0)) InvalidInstructionData) (\<lambda>vault_type.
            Ok (FundI_AddVault (from_le_bytes target_hash) (from_le_bytes vault_id) vault_type))
      | _ \<Rightarrow> Panic)))"

definition FundInstruction_unpack_remove_vault :: "bytes \<Rightarrow> FundInstruction result" where
  "FundInstruction_unpack_remove_vault input =
     bind (check_data_len input FundInstruction_REMOVE_VAULT_LEN) (\<lambda>_.
     bind (array_ref input 1 (FundInstruction_REMOVE_VAULT_LEN - 1)) (\<lambda>input.
     (case array_refs [8, 1] input of
        [target_hash, vault_type] \<Rightarrow>
          bind (ok_or (FundVaultType_try_from_primitive (vault_type ! 0)) InvalidInstructionData) (\<lambda>vault_type.
            Ok (FundI_RemoveVault (from_le_bytes target_hash) vault_type))
      | _ \<Rightarrow> Panic)))"

definition FundInstruction_unpack_add_custody :: "bytes \<Rightarrow> FundInstruction result" where
  "FundInstruction_unpack_add_custody input =
     bind (check_data_len input FundInstruction_ADD_CUSTODY_LEN) (\<lambda>_.
     bind (array_ref input 1 (FundInstruction_ADD_CUSTODY_LEN - 1)) (\<lambda>input.
     (case array_refs [8, 4, 1] input of
        [target_hash, custody_id, custody_type] \<Rightarrow>
          bind (ok_or (FundCustodyType_try_from_primitive (custody_type ! 0)) InvalidInstructionData) (\<lambda>custody_type.
            Ok (FundI_AddCustody (from_le_bytes target_hash) (from_le_bytes custody_id) custody_type))
      | _ \<Rightarrow> Panic)))"

definition FundInstruction_unpack_remove_custody :: "bytes \<Rightarrow> FundInstruction result" where
  "FundInstruction_unpack_remove_custody input =
     bind (check_data_len input FundInstruction_REMOVE_CUSTODY_LEN) (\<lambda>_.
     bind (array_ref input 1 (FundInstruction_REMOVE_CUSTODY_LEN - 1)) (\<lambda>input.
     (case array_refs [8, 1] input of
        [target_hash, custody_type] \<Rightarrow>
          bind (ok_or (FundCustodyType_try_from_primitive (custody_type ! 0)) InvalidInstructionData) (\<lambda>custody_type.
            Ok (FundI_RemoveCustody (from_le_bytes target_hash) custody_type))
      | _ \<Rightarrow> Panic)))"

definition FundInstruction_unpack_start_liquidation :: "bytes \<Rightarrow> FundInstruction result" where
  "FundInstruction_unpack_start_liquidation input =
     bind (check_data_len input FundInstruction_START_LIQUIDATION_LEN) (\<lambda>_.
     Ok FundI_StartLiquidation)"

definition FundInstruction_unpack_stop_liquidation :: "bytes \<Rightarrow> FundInstruction result" where
  "FundInstruction_unpack_stop_liquidation input =
     bind (check_data_len input FundInstruction_STOP_LIQUIDATION_LEN) (\<lambda>_.
     Ok FundI_StopLiquidation)"

definition FundInstruction_unpack_withdraw_fees :: "bytes \<Rightarrow> FundInstruction result" where
  "FundInstruction_unpack_withdraw_fees input =
     bind (check_data_len input FundInstruction_WITHDRAW_FEES_LEN) (\<lambda>_.
     bind (array_ref input 1 8) (\<lambda>amount.
     Ok (FundI_WithdrawFees (from_le_bytes amount))))"

definition FundInstruction_unpack_amm_instruction_raydium :: "bytes \<Rightarrow> FundInstruction result" where
  "FundInstruction_unpack_amm_instruction_raydium input =
     bind (slice_from input 1) (\<lambda>input.
     bind (AmmInstruction_unpack input) (\<lambda>instruction.
     Ok (FundI_AmmInstructionRaydium instruction)))"

definition FundInstruction_unpack_vault_instruction_raydium :: "bytes \<Rightarrow> FundInstruction result" where
  "FundInstruction_unpack_vault_instruction_raydium input =
     bind (slice_from input 1) (\<lambda>input.
     bind (VaultInstruction_unpack input) (\<lambda>instruction.
     Ok (FundI_VaultInstructionRaydium instruction)))"

definition FundInstruction_unpack_amm_instruction_orca :: "bytes \<Rightarrow> FundInstruction result" where
  "FundInstruction_unpack_amm_instruction_orca input =
     bind (slice_from input 1) (\<lambda>input.
     bind (AmmInstruction_unpack input) (\<lambda>instruction.
     Ok (FundI_AmmInstructionOrca instruction)))"

definition FundInstruction_unpack_vault_instruction_orca :: "bytes \<Rightarrow> FundInstruction result" where
  "FundInstruction_unpack_vault_instruction_orca input =
     bind (slice_from input 1) (\<lambda>input.
     bind (VaultInstruction_unpack input) (\<lambda>instruction.
     Ok (FundI_VaultInstructionOrca instruction)))"

definition FundInstruction_unpack :: "(bytes \<Rightarrow> bool) \<Rightarrow> bytes \<Rightarrow> FundInstruction result" where
  "FundInstruction_unpack utf8 input =
     bind (check_data_len input 1) (\<lambda>_.
     bind (ok_or (FundInstructionType_try_from_primitive (input ! 0)) InvalidInstructionData) (\<lambda>instruction_type.
     (case instruction_type of
        FundT_UserInit \<Rightarrow> FundInstruction_unpack_user_init input
      | FundT_RequestDeposit \<Rightarrow> FundInstruction_unpack_request_deposit input
      | FundT_CancelDeposit \<Rightarrow> FundInstruction_unpack_cancel_deposit input
      | FundT_RequestWithdrawal \<Rightarrow> FundInstruction_unpack_request_withdrawal input
      | FundT_CancelWithdrawal \<Rightarrow> FundInstruction_unpack_cancel_withdrawal input
      | FundT_Init \<Rightarrow> FundInstruction_unpack_init input
      | FundT_SetDepositSchedule \<Rightarrow> FundInstruction_unpack_set_deposit_schedule input
      | FundT_DisableDeposits \<Rightarrow> FundInstruction_unpack_disable_deposits input
      | FundT_ApproveDeposit \<Rightarrow> FundInstruction_unpack_approve_deposit input
      | FundT_DenyDeposit \<Rightarrow> FundInstruction_unpack_deny_deposit utf8 input
      | FundT_SetWithdrawalSchedule \<Rightarrow> FundInstruction_unpack_set_withdrawal_schedule input
      | FundT_DisableWithdrawals \<Rightarrow> FundInstruction_unpack_disable_withdrawals input
      | FundT_ApproveWithdrawal \<Rightarrow> FundInstruction_unpack_approve_withdrawal input
      | FundT_DenyWithdrawal \<Rightarrow> FundInstruction_unpack_deny_withdrawal utf8 input
      | FundT_LockAssets \<Rightarrow> FundInstruction_unpack_accept_funds input
      | FundT_UnlockAssets \<Rightarrow> FundInstruction_unpack_release_funds input
      | FundT_SetAdminSigners \<Rightarrow> FundInstruction_unpack_set_admin_signers input
      | FundT_RemoveMultisig \<Rightarrow> FundInstruction_unpack_remove_multisig input
      | FundT_SetAssetsTrackingConfig \<Rightarrow> FundInstruction_unpack_set_assets_tracking_config input
      | FundT_UpdateAssetsWithVault \<Rightarrow> FundInstruction_unpack_update_assets_with_vault input
      | FundT_UpdateAssetsWithCustody \<Rightarrow> FundInstruction_unpack_update_assets_with_custody input
      | FundT_AddVault \<Rightarrow> FundInstruction_unpack_add_vault input
      | FundT_RemoveVault \<Rightarrow> FundInstruction_unpack_remove_vault input
      | FundT_AddCustody \<Rightarrow> FundInstruction_unpack_add_custody input
      | FundT_RemoveCustody \<Rightarrow> FundInstruction_unpack_remove_custody input
      | FundT_StartLiquidation \<Rightarrow> FundInstruction_unpack_start_liquidation input
      | FundT_StopLiquidation \<Rightarrow> FundInstruction_unpack_stop_liquidation input
      | FundT_WithdrawFees \<Rightarrow> FundInstruction_unpack_withdraw_fees input
      | FundT_AmmInstructionRaydium \<Rightarrow> FundInstruction_unpack_amm_instruction_raydium input
      | FundT_VaultInstructionRaydium \<Rightarrow> FundInstruction_unpack_vault_instruction_raydium input
      | FundT_AmmInstructionOrca \<Rightarrow> FundInstruction_unpack_amm_instruction_orca input
      | FundT_VaultInstructionOrca \<Rightarrow> FundInstruction_unpack_vault_instruction_orca input)))"

section \<open>The wire format\<close>

text \<open>The bytes of an instruction: its tag and the fields, and for which values they determine it.\<close>

fun FundInstruction_enc :: "FundInstruction \<Rightarrow> bytes" where
  "FundInstruction_enc FundI_UserInit =
     [FundInstructionType_as_u8 FundT_UserInit]"
| "FundInstruction_enc (FundI_RequestDeposit amount) =
     [FundInstructionType_as_u8 FundT_RequestDeposit] @ to_le_bytes amount"
| "FundInstruction_enc FundI_CancelDeposit =
     [FundInstructionType_as_u8 FundT_CancelDeposit]"
| "FundInstruction_enc (FundI_RequestWithdrawal amount) =
     [FundInstructionType_as_u8 FundT_RequestWithdrawal] @ to_le_bytes amount"
| "FundInstruction_enc FundI_CancelWithdrawal =
     [FundInstructionType_as_u8 FundT_CancelWithdrawal]"
| "FundInstruction_enc (FundI_Init step) =
     [FundInstructionType_as_u8 FundT_Init] @ to_le_bytes step"
| "FundInstruction_enc (FundI_SetDepositSchedule schedule) =
     [FundInstructionType_as_u8 FundT_SetDepositSchedule] @
       to_le_bytes (fsc_start_time schedule) @ to_le_bytes (fsc_end_time schedule) @
       [bool_as_u8 (fsc_approval_required schedule)] @ to_le_bytes (fsc_min_amount_usd schedule) @
       to_le_bytes (fsc_max_amount_usd schedule) @ to_le_bytes (fsc_fee schedule)"
| "FundInstruction_enc FundI_DisableDeposits =
     [FundInstructionType_as_u8 FundT_DisableDeposits]"
| "FundInstruction_enc (FundI_ApproveDeposit amount) =
     [FundInstructionType_as_u8 FundT_ApproveDeposit] @ to_le_bytes amount"
| "FundInstruction_enc (FundI_DenyDeposit deny_reason) =
     [FundInstructionType_as_u8 FundT_DenyDeposit] @ string64_bytes deny_reason"
| "FundInstruction_enc (FundI_SetWithdrawalSchedule schedule) =
     [FundInstructionType_as_u8 FundT_SetWithdrawalSchedule] @
       to_le_bytes (fsc_start_time schedule) @ to_le_bytes (fsc_end_time schedule) @
       [bool_as_u8 (fsc_approval_required schedule)] @ to_le_bytes (fsc_min_amount_usd schedule) @
       to_le_bytes (fsc_max_amount_usd schedule) @ to_le_bytes (fsc_fee schedule)"
| "FundInstruction_enc FundI_DisableWithdrawals =
     [FundInstructionType_as_u8 FundT_DisableWithdrawals]"
| "FundInstruction_enc (FundI_ApproveWithdrawal amount) =
     [FundInstructionType_as_u8 FundT_ApproveWithdrawal] @ to_le_bytes amount"
| "FundInstruction_enc (FundI_DenyWithdrawal deny_reason) =
     [FundInstructionType_as_u8 FundT_DenyWithdrawal] @ string64_bytes deny_reason"
| "FundInstruction_enc (FundI_LockAssets amount) =
     [FundInstructionType_as_u8 FundT_LockAssets] @ to_le_bytes amount"
| "FundInstruction_enc (FundI_UnlockAssets amount) =
     [FundInstructionType_as_u8 FundT_UnlockAssets] @ to_le_bytes amount"
| "FundInstruction_enc (FundI_SetAdminSigners min_signatures) =
     [FundInstructionType_as_u8 FundT_SetAdminSigners] @ [min_signatures]"
| "FundInstruction_enc FundI_RemoveMultisig =
     [FundInstructionType_as_u8 FundT_RemoveMultisig]"
| "FundInstruction_enc (FundI_SetAssetsTrackingConfig config) =
     [FundInstructionType_as_u8 FundT_SetAssetsTrackingConfig] @
       to_le_bytes (fac_assets_limit_usd config) @ to_le_bytes (fac_max_update_age_sec config) @
       to_le_bytes (fac_max_price_error config) @ to_le_bytes (fac_max_price_age_sec config) @
       [bool_as_u8 (fac_issue_virtual_tokens config)]"
| "FundInstruction_enc FundI_UpdateAssetsWithVault =
     [FundInstructionType_as_u8 FundT_UpdateAssetsWithVault]"
| "FundInstruction_enc FundI_UpdateAssetsWithCustody =
     [FundInstructionType_as_u8 FundT_UpdateAssetsWithCustody]"
| "FundInstruction_enc (FundI_AddVault target_hash vault_id vault_type) =
     [FundInstructionType_as_u8 FundT_AddVault] @ to_le_bytes target_hash @ to_le_bytes vault_id @
       [FundVaultType_as_u8 vault_type]"
| "FundInstruction_enc (FundI_RemoveVault target_hash vault_type) =
     [FundInstructionType_as_u8 FundT_RemoveVault] @ to_le_bytes target_hash @
       [FundVaultType_as_u8 vault_type]"
| "FundInstruction_enc (FundI_AddCustody target_hash custody_id custody_type) =
     [FundInstructionType_as_u8 FundT_AddCustody] @ to_le_bytes target_hash @
       to_le_bytes custody_id @ [FundCustodyType_as_u8 custody_type]"
| "FundInstruction_enc (FundI_RemoveCustody target_hash custody_type) =
     [FundInstructionType_as_u8 FundT_RemoveCustody] @ to_le_bytes target_hash @
       [FundCustodyType_as_u8 custody_type]"
| "FundInstruction_enc FundI_StartLiquidation =
     [FundInstructionType_as_u8 FundT_StartLiquidation]"
| "FundInstruction_enc FundI_StopLiquidation =
     [FundInstructionType_as_u8 FundT_StopLiquidation]"
| "FundInstruction_enc (FundI_WithdrawFees amount) =
     [FundInstructionType_as_u8 FundT_WithdrawFees] @ to_le_bytes amount"
| "FundInstruction_enc (FundI_AmmInstructionRaydium instruction) =
     FundInstructionType_as_u8 FundT_AmmInstructionRaydium # AmmInstruction_enc instruction"
| "FundInstruction_enc (FundI_VaultInstructionRaydium instruction) =
     FundInstructionType_as_u8 FundT_VaultInstructionRaydium # VaultInstruction_enc instruction"
| "FundInstruction_enc (FundI_AmmInstructionOrca instruction) =
     FundInstructionType_as_u8 FundT_AmmInstructionOrca # AmmInstruction_enc instruction"
| "FundInstruction_enc (FundI_VaultInstructionOrca instruction) =
     FundInstructionType_as_u8 FundT_VaultInstructionOrca # VaultInstruction_enc instruction"

fun FundInstruction_valid :: "(bytes \<Rightarrow> bool) \<Rightarrow> FundInstruction \<Rightarrow> bool" where
  "FundInstruction_valid utf8 (FundI_DenyDeposit deny_reason) \<longleftrightarrow> packable_name utf8 deny_reason"
| "FundInstruction_valid utf8 (FundI_DenyWithdrawal deny_reason) \<longleftrightarrow> packable_name utf8 deny_reason"
| "FundInstruction_valid utf8 _ \<longleftrightarrow> True"

lemmas fundi_pack_defs = FundInstruction_pack_user_init_def FundInstruction_pack_request_deposit_def
  FundInstruction_pack_cancel_deposit_def FundInstruction_pack_request_withdrawal_def
  FundInstruction_pack_cancel_withdrawal_def FundInstruction_pack_init_def
  FundInstruction_pack_set_deposit_schedule_def FundInstruction_pack_disable_deposits_def
  FundInstruction_pack_approve_deposit_def FundInstruction_pack_deny_deposit_def
  FundInstruction_pack_set_withdrawal_schedule_def FundInstruction_pack_disable_withdrawals_def
  FundInstruction_pack_approve_withdrawal_def FundInstruction_pack_deny_withdrawal_def
  FundInstruction_pack_accept_funds_def FundInstruction_pack_release_funds_def
  FundInstruction_pack_set_admin_signers_def FundInstruction_pack_remove_multisig_def
  FundInstruction_pack_set_assets_tracking_config_def
  FundInstruction_pack_update_assets_with_vault_def
  FundInstruction_pack_update_assets_with_custody_def FundInstruction_pack_add_vault_def
  FundInstruction_pack_remove_vault_def FundInstruction_pack_add_custody_def
  FundInstruction_pack_remove_custody_def FundInstruction_pack_start_liquidation_def
  FundInstruction_pack_stop_liquidation_def FundInstruction_pack_withdraw_fees_def
  FundInstruction_pack_amm_instruction_raydium_def
  FundInstruction_pack_vault_instruction_raydium_def FundInstruction_pack_amm_instruction_orca_def
  FundInstruction_pack_vault_instruction_orca_def

lemmas fundi_unpack_defs = FundInstruction_unpack_user_init_def FundInstruction_unpack_request_deposit_def
  FundInstruction_unpack_cancel_deposit_def FundInstruction_unpack_request_withdrawal_def
  FundInstruction_unpack_cancel_withdrawal_def FundInstruction_unpack_init_def
  FundInstruction_unpack_set_deposit_schedule_def FundInstruction_unpack_disable_deposits_def
  FundInstruction_unpack_approve_deposit_def FundInstruction_unpack_deny_deposit_def
  FundInstruction_unpack_set_withdrawal_schedule_def FundInstruction_unpack_disable_withdrawals_def
  FundInstruction_unpack_approve_withdrawal_def FundInstruction_unpack_deny_withdrawal_def
  FundInstruction_unpack_accept_funds_def FundInstruction_unpack_release_funds_def
  FundInstruction_unpack_set_admin_signers_def FundInstruction_unpack_remove_multisig_def
  FundInstruction_unpack_set_assets_tracking_config_def
  FundInstruction_unpack_update_assets_with_vault_def
  FundInstruction_unpack_update_assets_with_custody_def FundInstruction_unpack_add_vault_def
  FundInstruction_unpack_remove_vault_def FundInstruction_unpack_add_custody_def
  FundInstruction_unpack_remove_custody_def FundInstruction_unpack_start_liquidation_def
  FundInstruction_unpack_stop_liquidation_def FundInstruction_unpack_withdraw_fees_def
  FundInstruction_unpack_amm_instruction_raydium_def
  FundInstruction_unpack_vault_instruction_raydium_def
  FundInstruction_unpack_amm_instruction_orca_def FundInstruction_unpack_vault_instruction_orca_def

lemma FundInstruction_unpack_variants [no_panic]:
  "FundInstruction_unpack_user_init input \<noteq> Panic"
  "FundInstruction_unpack_request_deposit input \<noteq> Panic"
  "FundInstruction_unpack_cancel_deposit input \<noteq> Panic"
  "FundInstruction_unpack_request_withdrawal input \<noteq> Panic"
  "FundInstruction_unpack_cancel_withdrawal input \<noteq> Panic"
  "FundInstruction_unpack_init input \<noteq> Panic"
  "FundInstruction_unpack_set_deposit_schedule input \<noteq> Panic"
  "FundInstruction_unpack_disable_deposits input \<noteq> Panic"
  "FundInstruction_unpack_approve_deposit input \<noteq> Panic"
  "FundInstruction_unpack_deny_deposit utf8 input \<noteq> Panic"
  "FundInstruction_unpack_set_withdrawal_schedule input \<noteq> Panic"
  "FundInstruction_unpack_disable_withdrawals input \<noteq> Panic"
  "FundInstruction_unpack_approve_withdrawal input \<noteq> Panic"
  "FundInstruction_unpack_deny_withdrawal utf8 input \<noteq> Panic"
  "FundInstruction_unpack_accept_funds input \<noteq> Panic"
  "FundInstruction_unpack_release_funds input \<noteq> Panic"
  "FundInstruction_unpack_set_admin_signers input \<noteq> Panic"
  "FundInstruction_unpack_remove_multisig input \<noteq> Panic"
  "FundInstruction_unpack_set_assets_tracking_config input \<noteq> Panic"
  "FundInstruction_unpack_update_assets_with_vault input \<noteq> Panic"
  "FundInstruction_unpack_update_assets_with_custody input \<noteq> Panic"
  "FundInstruction_unpack_add_vault input \<noteq> Panic"
  "FundInstruction_unpack_remove_vault input \<noteq> Panic"
  "FundInstruction_unpack_add_custody input \<noteq> Panic"
  "FundInstruction_unpack_remove_custody input \<noteq> Panic"
  "FundInstruction_unpack_start_liquidation input \<noteq> Panic"
  "FundInstruction_unpack_stop_liquidation input \<noteq> Panic"
  "FundInstruction_unpack_withdraw_fees input \<noteq> Panic"
  "input \<noteq> [] \<Longrightarrow> FundInstruction_unpack_amm_instruction_raydium input \<noteq> Panic"
  "input \<noteq> [] \<Longrightarrow> FundInstruction_unpack_vault_instruction_raydium input \<noteq> Panic"
  "input \<noteq> [] \<Longrightarrow> FundInstruction_unpack_amm_instruction_orca input \<noteq> Panic"
  "input \<noteq> [] \<Longrightarrow> FundInstruction_unpack_vault_instruction_orca input \<noteq> Panic"
  by (simp_all add: fundi_unpack_defs fundi_lens no_panic
    amm_instruction.unpack_from_total [simplified] vault_instruction.unpack_from_total [simplified])

interpretation fund_instruction: wire FundInstruction_enc FundInstruction_pack "FundInstruction_unpack utf8" "FundInstruction_valid utf8"
proof
  fix x n and out rest :: bytes
  assume v: "FundInstruction_valid utf8 x"
  show "length (FundInstruction_enc x) \<le> n \<Longrightarrow> FundInstruction_pack x (replicate n 0) =
      (Ok (length (FundInstruction_enc x)), FundInstruction_enc x @ replicate (n - length (FundInstruction_enc x)) 0)"
    using v by (cases x) (simp_all add: FundInstruction_pack_def fundi_pack_defs fundi_lens mut_array_refs_zeros pack_array_string64_bytes
      amm_instruction.pack_from_enc [simplified] vault_instruction.pack_from_enc [simplified]
      del: mut_array_refs.simps)
  show "length out < length (FundInstruction_enc x) \<Longrightarrow> fst (FundInstruction_pack x out) = Err AccountDataTooSmall"
    using v by (cases x; cases out) (simp_all add: FundInstruction_pack_def fundi_pack_defs fundi_lens
      fst_seq_Err amm_instruction.pack_from_short [simplified] vault_instruction.pack_from_short [simplified])
  show "FundInstruction_unpack utf8 (FundInstruction_enc x @ rest) = Ok x"
    using v by (cases x) (simp_all add: FundInstruction_unpack_def fundi_unpack_defs fundi_lens FundInstructionType_try_from_primitive_def
      slice_def
      amm_instruction.unpack_enc [simplified] vault_instruction.unpack_enc [simplified])
next
  fix inp :: bytes
  show "FundInstruction_unpack utf8 inp \<noteq> Panic"
    unfolding FundInstruction_unpack_def
    by (rule checked_no_panic, rule bind_no_panic) (auto simp: no_panic Suc_le_eq split: FundInstructionType.split)
  fix x assume u: "FundInstruction_unpack utf8 inp = Ok x"
  show "FundInstruction_valid utf8 x"
  proof (cases "FundInstructionType_try_from_primitive (inp ! 0)")
    case None
    then show ?thesis using u by (simp add: FundInstruction_unpack_def result_simps)
  next
    case (Some t)
    then show ?thesis
      using u by - (cases t; auto simp: FundInstruction_unpack_def fundi_unpack_defs fundi_lens result_simps
        array_ref_def slice_from_def; erule field_valid; simp)
  qed
qed

end
