(* ===== verification/Wire_Properties.thy ===== *)
theory Wire_Properties
  imports Main_Instruction Fund_Instruction
begin

text \<open>
  What the metadata and instruction codecs of the SDK guarantee together: the buffers of the \<open>to_vec\<close>
  functions are large enough, encoded values are read back, nothing that is read escapes the range of
  what can be written, and no input makes a decoder panic.
\<close>

section \<open>Lengths\<close>

lemma length_Farm_enc: "Farm_valid utf8 x \<Longrightarrow> length (Farm_enc x) = Farm_get_size x"
  using length_encode [OF farm_raydium.fields_fit [of utf8 x]] length_encode [OF farm_orca.fields_fit [of utf8 x]]
  by (cases "frm_route x")
    (auto simp: Farm_enc_def Farm_get_size_def Farm_raydium_fields_def Farm_orca_fields_def
      Farm_RAYDIUM_FARM_LEN_def Farm_ORCA_FARM_LEN_def)

lemma length_Pool_enc: "Pool_valid utf8 x \<Longrightarrow> length (Pool_enc x) = Pool_get_size x"
  using length_encode [OF pool_raydium.fields_fit [of utf8 x]] length_encode [OF pool_orca.fields_fit [of utf8 x]]
  by (cases "pl_route x")
    (auto simp: Pool_enc_def Pool_get_size_def Pool_raydium_fields_def Pool_orca_fields_def
      Pool_RAYDIUM_POOL_LEN_def Pool_ORCA_POOL_LEN_def)

lemma length_Vault_enc: "Vault_valid utf8 x \<Longrightarrow> length (Vault_enc x) = Vault_get_size x"
  using length_encode [OF vault_stake_lp_compound_rewards.fields_fit [of utf8 x]]
  by (cases "vlt_strategy x")
    (auto simp: Vault_enc_def Vault_get_size_def Vault_stake_lp_compound_rewards_fields_def Vault_valid_def
      Vault_STAKE_LP_COMPOUND_REWARDS_LEN_def)

lemma get_size_max:
  "Farm_get_size f \<le> Farm_MAX_LEN" "Pool_get_size p \<le> Pool_MAX_LEN" "Vault_get_size v \<le> Vault_MAX_LEN"
  by (simp_all add: Farm_get_size_def Farm_RAYDIUM_FARM_LEN_def Farm_ORCA_FARM_LEN_def Farm_MAX_LEN_def
    Pool_get_size_def Pool_RAYDIUM_POOL_LEN_def Pool_ORCA_POOL_LEN_def Pool_MAX_LEN_def
    Vault_get_size_def Vault_STAKE_LP_COMPOUND_REWARDS_LEN_def Vault_DYNAMIC_HEDGE_LEN_def Vault_MAX_LEN_def
    split: FarmRoute.split PoolRoute.split VaultStrategy.split)

lemma meta_enc_max:
  "Farm_valid utf8 f \<Longrightarrow> length (Farm_enc f) \<le> Farm_MAX_LEN"
  "Pool_valid utf8 p \<Longrightarrow> length (Pool_enc p) \<le> Pool_MAX_LEN"
  "Vault_valid utf8 v \<Longrightarrow> length (Vault_enc v) \<le> Vault_MAX_LEN"
  by (simp_all add: length_Farm_enc length_Pool_enc length_Vault_enc get_size_max)

lemma amm_enc_max: "length (AmmInstruction_enc i) = AmmInstruction_get_size i" "AmmInstruction_get_size i \<le> AmmInstruction_MAX_LEN"
  by (cases i; simp add: amm_lens AmmInstruction_MAX_LEN_def)+

lemma vault_enc_max: "length (VaultInstruction_enc i) \<le> VaultInstruction_MAX_LEN"
  by (cases i) (simp_all add: VaultInstruction_MAX_LEN_def)

lemma fund_enc_max: "FundInstruction_valid utf8 i \<Longrightarrow> length (FundInstruction_enc i) \<le> FundInstruction_MAX_LEN"
  using amm_enc_max(2) vault_enc_max
  by (cases i) (auto simp: FundInstruction_MAX_LEN_def AmmInstruction_MAX_LEN_def VaultInstruction_MAX_LEN_def
    amm_enc_max(1) intro: order_trans [where y = 25] order_trans [where y = 17])

lemma refdb_enc_max: "RefDbInstruction_valid utf8 i \<Longrightarrow> length (RefDbInstruction_enc i) \<le> RefDbInstruction_MAX_LEN"
  using ReferenceType_get_size_le
  by (cases i) (auto simp: RefDbInstruction_MAX_LEN_def Record_MAX_LEN_def Reference_MAX_LEN_def NO_REF_LEN_def
    length_Record_enc Record_get_size_eq intro: order_trans [where y = 32])

lemma main_enc_max:
  assumes "MainInstruction_valid utf8 i"
  shows "length (MainInstruction_enc i) \<le> MainInstruction_MAX_LEN"
proof -
  have fit: "n \<le> 792 \<Longrightarrow> n + 1 \<le> MainInstruction_MAX_LEN" for n
    by (simp add: MainInstruction_MAX_LEN_def Vault_MAX_LEN_def)
  have len: "Farm_valid utf8 f \<Longrightarrow> length (Farm_enc f) \<le> 792" "Pool_valid utf8 p \<Longrightarrow> length (Pool_enc p) \<le> 792"
    "Vault_valid utf8 v \<Longrightarrow> length (Vault_enc v) \<le> 792" "Fund_valid utf8 d \<Longrightarrow> length (encode (Fund_fields d)) \<le> 792"
    "Token_valid utf8 t \<Longrightarrow> length (encode (Token_fields t)) \<le> 792"
    "RefDbInstruction_valid utf8 r \<Longrightarrow> length (RefDbInstruction_enc r) \<le> 792" for f p v d t r
    using meta_enc_max(1) [of utf8 f] meta_enc_max(2) [of utf8 p] meta_enc_max(3) [of utf8 v] refdb_enc_max [of utf8 r]
    by (auto simp: fund_meta.length_fields token.length_fields Farm_MAX_LEN_def Pool_MAX_LEN_def Vault_MAX_LEN_def
      Fund_LEN_def Token_LEN_def RefDbInstruction_MAX_LEN_def Record_MAX_LEN_def Reference_MAX_LEN_def NO_REF_LEN_def)
  have "length (MainInstruction_enc i) - 1 \<le> 792" "MainInstruction_enc i \<noteq> []"
    using assms len by (cases i; simp)+
  with fit show ?thesis by (cases "MainInstruction_enc i") fastforce+
qed

lemmas to_vec_defs = Token_to_vec_def Farm_to_vec_def Pool_to_vec_def Vault_to_vec_def Fund_to_vec_def
  MainInstruction_to_vec_def FundInstruction_to_vec_def AmmInstruction_to_vec_def VaultInstruction_to_vec_def
  RefDbInstruction_to_vec_def

section \<open>Properties\<close>

text \<open>
  C34: every metadata record whose names are valid UTF-8 of at most 64 bytes without a NUL and whose keys
  are 32 bytes is written by \<open>to_vec\<close>, at exactly the size
  \<open>get_size\<close> reports, and read back unchanged by \<open>unpack\<close>, whatever bytes follow it in the account:
  tokens, farms, pools, vaults with the stake-and-compound strategy, and funds.
\<close>

theorem metadata_round_trip:
  "(Token_valid utf8 t \<longrightarrow> (\<exists>data. Token_to_vec t = Ok data \<and> length data = Token_get_size t \<and>
      (\<forall>rest. Token_unpack utf8 (data @ rest) = Ok t))) \<and>
   (Farm_valid utf8 f \<longrightarrow> (\<exists>data. Farm_to_vec f = Ok data \<and> length data = Farm_get_size f \<and>
      (\<forall>rest. Farm_unpack utf8 (data @ rest) = Ok f))) \<and>
   (Pool_valid utf8 p \<longrightarrow> (\<exists>data. Pool_to_vec p = Ok data \<and> length data = Pool_get_size p \<and>
      (\<forall>rest. Pool_unpack utf8 (data @ rest) = Ok p))) \<and>
   (Vault_valid utf8 v \<longrightarrow> (\<exists>data. Vault_to_vec v = Ok data \<and> length data = Vault_get_size v \<and>
      (\<forall>rest. Vault_unpack utf8 (data @ rest) = Ok v))) \<and>
   (Fund_valid utf8 d \<longrightarrow> (\<exists>data. Fund_to_vec d = Ok data \<and> length data = Fund_get_size d \<and>
      (\<forall>rest. Fund_unpack utf8 (data @ rest) = Ok d)))"
  by (simp add: to_vec_defs token.to_vec_enc [of utf8] farm.to_vec_enc [of utf8] pool.to_vec_enc [of utf8]
    vault.to_vec_enc [of utf8] fund_meta.to_vec_enc [of utf8]
    token.unpack_enc farm.unpack_enc pool.unpack_enc vault.unpack_enc fund_meta.unpack_enc
    get_size_max length_Farm_enc [of utf8] length_Pool_enc [of utf8] length_Vault_enc [of utf8]
    token.length_fields [of utf8] fund_meta.length_fields [of utf8] Token_get_size_def Fund_get_size_def)

definition example_key :: "u8 \<Rightarrow> pubkey" where
  "example_key n = replicate 32 n"

definition example_token :: Token where
  "example_token = \<lparr> tok_name = [82, 65, 89], tok_description = [], tok_token_type = TokenType_SplToken,
     tok_refdb_index = Some 3, tok_refdb_counter = 1, tok_decimals = 6, tok_chain_id = 101,
     tok_mint = example_key 4, tok_oracle_type = OracleType_Pyth, tok_oracle_account = Some (example_key 5),
     tok_description_account = example_key 0 \<rparr>"

definition example_farm :: Farm where
  "example_farm = \<lparr> frm_name = [70], frm_version = 1, frm_farm_type = FarmType_DualReward, frm_official = True,
     frm_refdb_index = None, frm_refdb_counter = 0, frm_lp_token_ref = Some (example_key 1),
     frm_first_reward_token_ref = None, frm_second_reward_token_ref = None, frm_router_program_id = example_key 2,
     frm_farm_program_id = example_key 3,
     frm_route = FarmRoute_Raydium (example_key 4) (example_key 5) (example_key 6) (example_key 7) None \<rparr>"

definition example_pool :: Pool where
  "example_pool = \<lparr> pl_name = [80], pl_version = 4, pl_pool_type = PoolType_Amm, pl_official = True,
     pl_refdb_index = Some 9, pl_refdb_counter = 2, pl_token_a_ref = Some (example_key 1),
     pl_token_b_ref = Some (example_key 2), pl_lp_token_ref = None, pl_token_a_account = None,
     pl_token_b_account = None, pl_router_program_id = example_key 3, pl_pool_program_id = example_key 4,
     pl_route = PoolRoute_Orca (example_key 5) (example_key 6) (example_key 7) \<rparr>"

definition example_vault :: Vault where
  "example_vault = \<lparr> vlt_name = [86], vlt_version = 1, vlt_vault_type = VaultType_AmmStake, vlt_official = False,
     vlt_refdb_index = None, vlt_refdb_counter = 0, vlt_metadata_bump = 255, vlt_authority_bump = 254,
     vlt_vault_token_bump = 253, vlt_lock_required = True, vlt_unlock_required = False,
     vlt_vault_program_id = example_key 1, vlt_vault_authority = example_key 2, vlt_vault_token_ref = example_key 3,
     vlt_info_account = example_key 4, vlt_multisig_account = example_key 5, vlt_fees_account_a = None,
     vlt_fees_account_b = Some (example_key 6),
     vlt_strategy = VaultStrategy_StakeLpCompoundRewards (example_key 1) (example_key 2) (example_key 3)
       (example_key 4) (example_key 5) (example_key 6) (example_key 7) (example_key 8) None (example_key 9) None
       (example_key 10) None None None \<rparr>"

definition example_fund :: Fund where
  "example_fund = \<lparr> fnd_name = [68], fnd_version = 1, fnd_fund_type = FundType_General, fnd_official = True,
     fnd_refdb_index = Some 1, fnd_refdb_counter = 7, fnd_metadata_bump = 255, fnd_authority_bump = 254,
     fnd_fund_token_bump = 253, fnd_multisig_bump = 252, fnd_fund_program_id = example_key 1,
     fnd_fund_authority = example_key 2, fnd_fund_manager = example_key 3, fnd_fund_token_ref = example_key 4,
     fnd_info_account = example_key 5, fnd_multisig_account = example_key 6, fnd_vaults_assets_info = example_key 7,
     fnd_custodies_assets_info = example_key 8, fnd_description_account = example_key 9 \<rparr>"

lemma examples_valid:
  "Token_valid (\<lambda>_. True) example_token" "Farm_valid (\<lambda>_. True) example_farm"
  "Pool_valid (\<lambda>_. True) example_pool" "Vault_valid (\<lambda>_. True) example_vault"
  "Fund_valid (\<lambda>_. True) example_fund"
  by (simp_all add: Token_valid_def example_token_def Farm_valid_def example_farm_def Pool_valid_def example_pool_def
    Vault_valid_def example_vault_def Fund_valid_def example_fund_def example_key_def packable_name_def
    valid_key_def valid_key_opt_def)

theorem metadata_round_trip_witness:
  "(\<exists>data. Token_to_vec example_token = Ok data \<and> Token_unpack (\<lambda>_. True) (data @ [1, 2]) = Ok example_token) \<and>
   (\<exists>data. Vault_to_vec example_vault = Ok data \<and> Vault_unpack (\<lambda>_. True) (data @ [1, 2]) = Ok example_vault)"
  using metadata_round_trip [of "\<lambda>_. True" example_token example_farm example_pool example_vault example_fund]
    examples_valid by blast

text \<open>
  Every instruction of the main router whose payload is valid is encoded by \<open>to_vec\<close> in at most
  \<open>MAX_LEN\<close> bytes, and decoding the instruction data gives it back unchanged. This covers the metadata
  records carried by the Add instructions and the RefDB instructions nested inside.
\<close>

theorem main_instruction_round_trip:
  assumes "MainInstruction_valid utf8 i"
  shows "\<exists>data. MainInstruction_to_vec i = Ok data \<and> length data \<le> MainInstruction_MAX_LEN \<and>
      (\<forall>rest. MainInstruction_unpack utf8 (data @ rest) = Ok i)"
  unfolding to_vec_defs by (rule main_instruction.to_vec_decodes [OF assms main_enc_max [OF assms]])

theorem main_instruction_round_trip_witness:
  "\<exists>data. MainInstruction_to_vec (MainI_AddVault example_vault) = Ok data \<and> length data \<le> 793 \<and>
      MainInstruction_unpack (\<lambda>_. True) data = Ok (MainI_AddVault example_vault)"
  using main_instruction_round_trip [of "\<lambda>_. True" "MainI_AddVault example_vault"] examples_valid
  by (force simp: MainInstruction_MAX_LEN_def Vault_MAX_LEN_def Pool_MAX_LEN_def dest: spec [of _ "[]"])

text \<open>
  C32: every instruction of the fund program, including those that carry an instruction for a protocol router
  or for a vault program, is encoded by \<open>to_vec\<close> in at most \<open>MAX_LEN\<close> bytes and decoded unchanged; the only
  condition is that the reason of a denial is a packable string. The routers' and the vault programs' own
  instructions, and those of the RefDB, do the same at their own sizes.
\<close>

theorem fund_instruction_round_trip:
  "(FundInstruction_valid utf8 i \<longrightarrow>
      (\<exists>data. FundInstruction_to_vec i = Ok data \<and> length data \<le> FundInstruction_MAX_LEN \<and>
         (\<forall>rest. FundInstruction_unpack utf8 (data @ rest) = Ok i))) \<and>
   (\<exists>data. AmmInstruction_to_vec a = Ok data \<and> length data = AmmInstruction_get_size a \<and>
      (\<forall>rest. AmmInstruction_unpack (data @ rest) = Ok a)) \<and>
   (\<exists>data. VaultInstruction_to_vec v = Ok data \<and> length data \<le> VaultInstruction_MAX_LEN \<and>
      (\<forall>rest. VaultInstruction_unpack (data @ rest) = Ok v)) \<and>
   (RefDbInstruction_valid utf8 r \<longrightarrow>
      (\<exists>data. RefDbInstruction_to_vec r = Ok data \<and> length data \<le> RefDbInstruction_MAX_LEN \<and>
         (\<forall>rest. RefDbInstruction_unpack utf8 (data @ rest) = Ok r)))"
  using fund_instruction.to_vec_decodes fund_enc_max vault_instruction.to_vec_decodes vault_enc_max
    refdb_instruction.to_vec_decodes refdb_enc_max
  by (auto simp: to_vec_defs amm_instruction.to_vec_enc amm_instruction.unpack_enc amm_enc_max)

theorem fund_instruction_round_trip_witness:
  "(\<exists>data. FundInstruction_to_vec (FundI_DenyDeposit [110, 111]) = Ok data \<and> length data \<le> 65 \<and>
      FundInstruction_unpack (\<lambda>_. True) data = Ok (FundI_DenyDeposit [110, 111])) \<and>
   (\<exists>data. RefDbInstruction_to_vec (RefDbI_Drop True) = Ok data \<and>
      RefDbInstruction_unpack (\<lambda>_. True) data = Ok (RefDbI_Drop True))"
  using fund_instruction_round_trip [of "\<lambda>_. True" "FundI_DenyDeposit [110, 111]" AmmI_Harvest VaultI_UserInit "RefDbI_Drop True"]
  by (force simp: FundInstruction_MAX_LEN_def packable_name_def dest: spec [of _ "[]"])

text \<open>
  C33: whatever bytes arrive as instruction data or stand in a metadata account, decoding them ends in a
  value or in a program error; no length, tag or content makes a decoder panic.
\<close>

theorem decoders_never_panic:
  "MainInstruction_unpack utf8 input \<noteq> Panic \<and> RefDbInstruction_unpack utf8 input \<noteq> Panic \<and>
   FundInstruction_unpack utf8 input \<noteq> Panic \<and> AmmInstruction_unpack input \<noteq> Panic \<and>
   VaultInstruction_unpack input \<noteq> Panic \<and> Token_unpack utf8 input \<noteq> Panic \<and> Farm_unpack utf8 input \<noteq> Panic \<and>
   Pool_unpack utf8 input \<noteq> Panic \<and> Vault_unpack utf8 input \<noteq> Panic \<and> Fund_unpack utf8 input \<noteq> Panic \<and>
   FundUserRequests_unpack utf8 input \<noteq> Panic \<and> FundAssets_unpack input \<noteq> Panic \<and>
   FundCustody_unpack input \<noteq> Panic \<and> FundVault_unpack input \<noteq> Panic"
  by (simp add: main_instruction.unpack_total refdb_instruction.unpack_total fund_instruction.unpack_total
    amm_instruction.unpack_total vault_instruction.unpack_total token.unpack_total farm.unpack_total
    pool.unpack_total vault.unpack_total fund_meta.unpack_total user_requests.unpack_total
    fund_assets.unpack_total fund_custody.unpack_total fund_vault.unpack_total)

text \<open>
  decoding only yields well-formed values. If the main router or the fund program accepts instruction
  data, every name in the instruction is valid UTF-8 of at most 64 bytes and every key has 32 bytes, down
  to the metadata records and RefDB records it carries, and the instruction can be written again and
  decodes to itself.
\<close>

theorem decoded_instructions_valid:
  "(MainInstruction_unpack utf8 input = Ok i \<longrightarrow>
      MainInstruction_valid utf8 i \<and> bind (MainInstruction_to_vec i) (MainInstruction_unpack utf8) = Ok i) \<and>
   (FundInstruction_unpack utf8 input = Ok j \<longrightarrow>
      FundInstruction_valid utf8 j \<and> bind (FundInstruction_to_vec j) (FundInstruction_unpack utf8) = Ok j)"
  using main_instruction.reencode [of utf8 input i] main_enc_max [of utf8 i] main_instruction.unpack_valid [of utf8 input i]
    fund_instruction.reencode [of utf8 input j] fund_enc_max [of utf8 j] fund_instruction.unpack_valid [of utf8 input j]
  by (simp add: to_vec_defs)

theorem decoded_instructions_valid_witness:
  "MainInstruction_valid (\<lambda>_. True) (MainI_SetAdminSigners 2) \<and>
   bind (FundInstruction_to_vec FundI_RemoveMultisig) (FundInstruction_unpack (\<lambda>_. True)) = Ok FundI_RemoveMultisig"
  using decoded_instructions_valid [of "\<lambda>_. True" "MainInstruction_enc (MainI_SetAdminSigners 2)" "MainI_SetAdminSigners 2" FundI_UserInit]
    decoded_instructions_valid [of "\<lambda>_. True" "FundInstruction_enc FundI_RemoveMultisig" MainI_UpgradeProgram FundI_RemoveMultisig]
    main_instruction.unpack_enc [of "\<lambda>_. True" "MainI_SetAdminSigners 2" "[]"]
    fund_instruction.unpack_enc [of "\<lambda>_. True" FundI_RemoveMultisig "[]"]
  by simp

text \<open>
  Instruction data is unambiguous: if the encodings of two valid instructions of the main router agree,
  each followed by any other bytes, the instructions are the same and so are the bytes that follow. No
  encoding is a proper prefix of another one, so trailing bytes never turn one instruction into another.
\<close>

theorem instruction_data_unambiguous:
  assumes "MainInstruction_valid utf8 i" and "MainInstruction_valid utf8 j"
    and "MainInstruction_to_vec i = Ok a" and "MainInstruction_to_vec j = Ok b" and "a @ r = b @ s"
  shows "i = j \<and> r = s"
  using main_instruction.to_vec_prefix_free [OF assms(1,2) main_enc_max [OF assms(1)] main_enc_max [OF assms(2)]] assms(3-)
  unfolding to_vec_defs .

theorem instruction_data_unambiguous_witness:
  "MainInstruction_to_vec (MainI_SetAdminSigners 2) = Ok [11, 2] \<and>
   (\<exists>i r. MainInstruction_to_vec i = Ok [11, 2] \<and> [11, 2] @ r = [11, 2, 3] \<and> i = MainI_SetAdminSigners 2 \<and> r = [3])"
proof -
  let ?i = "MainI_SetAdminSigners 2"
  have v: "MainInstruction_valid (\<lambda>_. True) ?i" by simp
  have e: "MainInstruction_to_vec ?i = Ok [11, 2]"
    using main_instruction.to_vec_enc [OF v main_enc_max [OF v]] by (simp add: to_vec_defs)
  have "?i = ?i \<and> [3] = [3 :: u8]" by (rule instruction_data_unambiguous [OF v v e e]) simp
  then show ?thesis using e by auto
qed

end
