(* ===== verification/F64_Error.thy ===== *)
theory F64_Error
  imports Complex_Main F64
begin

text \<open>
  What the operations of \<open>F64\<close> compute, as real numbers: a rounded result is within a relative error of
  \<open>2 ^ -53\<close> (plus half of the smallest subnormal number) of the exact one, rounding does not cross a whole
  number up to \<open>2 ^ 53\<close>, and such numbers are represented exactly.
\<close>

section \<open>Powers of two and fractions\<close>

abbreviation pow2 :: "int \<Rightarrow> real" where "pow2 e \<equiv> 2 powi e"

lemma pow2_pos [simp]: "0 < pow2 e"
  by (simp add: zero_less_power_int)

lemma pow2_mono: "a \<le> b \<Longrightarrow> pow2 a \<le> pow2 b"
  by (simp add: power_int_increasing)

lemma pow2_add: "pow2 (a + b) = pow2 a * pow2 b"
  by (simp add: power_int_add)

lemma pow2_diff: "pow2 (a - b) = pow2 a / pow2 b"
  by (simp add: power_int_diff)

lemma pow2_nat: "0 \<le> e \<Longrightarrow> pow2 e = 2 ^ nat e"
  by (simp add: power_int_def)

lemma pow2_neg: "e \<le> 0 \<Longrightarrow> pow2 e = 1 / 2 ^ nat (- e)"
  by (simp add: power_int_def inverse_eq_divide power_one_over)

lemma le_div_pow2: "(k \<le> x * pow2 (- e)) = (k * pow2 e \<le> x)"
  by (simp only: power_int_minus divide_inverse [symmetric] pos_le_divide_eq [OF pow2_pos])

lemma div_pow2_le: "(x * pow2 (- e) \<le> k) = (x \<le> k * pow2 e)"
  by (simp only: power_int_minus divide_inverse [symmetric] pos_divide_le_eq [OF pow2_pos])

lemma scale_value:
  assumes "0 < d" "scale e (n, d) = (n', d')"
  shows "0 < d'" "real n' / real d' = real n / real d * pow2 e"
  using assms by (auto simp: scale_def pow2_nat pow2_neg split: if_splits)

lemma log2_bounds: "0 < n \<Longrightarrow> 2 ^ log2 n \<le> n \<and> n < 2 ^ (log2 n + 1)"
proof (induction n rule: log2.induct)
  case (1 n)
  show ?case
  proof (cases "n < 2")
    case True
    then show ?thesis using 1 by (simp add: log2.simps [of n])
  next
    case False
    then have "2 ^ log2 (n div 2) \<le> n div 2 \<and> n div 2 < 2 ^ (log2 (n div 2) + 1)"
      using 1 by simp
    then have "2 * 2 ^ log2 (n div 2) \<le> n" "n < 2 * 2 ^ (log2 (n div 2) + 1)"
      by linarith+
    with False show ?thesis by (simp add: log2.simps [of n])
  qed
qed

lemma log2_real:
  assumes "0 < n" shows "2 ^ log2 n \<le> real n" "real n < 2 * 2 ^ log2 n"
proof -
  have "real (2 ^ log2 n) \<le> real n" "real n < real (2 ^ (log2 n + 1))"
    unfolding of_nat_le_iff of_nat_less_iff using log2_bounds [OF assms] by auto
  then show "2 ^ log2 n \<le> real n" "real n < 2 * 2 ^ log2 n" by simp_all
qed

lemma quotient_bounds:
  fixes n d N D :: real
  assumes "N \<le> n" "n < 2 * N" "D \<le> d" "d < 2 * D" "0 < N" "0 < D"
  shows "N / D / 2 \<le> n / d" "n / d < N / D * 2"
proof -
  have "N / D / 2 = N / (2 * D)" by simp
  also have "\<dots> \<le> n / d" using assms by (intro frac_le) auto
  finally show "N / D / 2 \<le> n / d" .
  have "n / d < (2 * N) / D" using assms by (intro frac_less) auto
  then show "n / d < N / D * 2" by (simp add: mult.commute)
qed

lemma floor_log2_bounds:
  assumes "0 < n" "0 < d"
  shows "pow2 (floor_log2 n d) \<le> real n / real d" "real n / real d < pow2 (floor_log2 n d + 1)"
proof -
  let ?l = "int (log2 n) - int (log2 d)"
  obtain n' d' where s: "scale (- ?l) (n, d) = (n', d')" by fastforce
  note v = scale_value [OF assms(2) s]
  note n = log2_real [OF assms(1)] and d = log2_real [OF assms(2)]
  have l: "pow2 ?l = 2 ^ log2 n / 2 ^ log2 d"
    by (simp add: pow2_diff power_int_of_nat)
  note qb = quotient_bounds [OF n d]
  have up: "real n / real d < pow2 (?l + 1)" and lo: "pow2 (?l - 1) \<le> real n / real d"
    unfolding pow2_add pow2_diff l using qb by simp_all
  have c: "(d' \<le> n') = (pow2 ?l \<le> real n / real d)"
  proof -
    have "(d' \<le> n') = (1 \<le> real n' / real d')" using v(1) by simp
    also have "\<dots> = (pow2 ?l \<le> real n / real d)"
      unfolding v(2) le_div_pow2 by simp
    finally show ?thesis .
  qed
  have "floor_log2 n d = (if pow2 ?l \<le> real n / real d then ?l else ?l - 1)"
    by (simp only: floor_log2_def s c Let_def prod.case)
  then show "pow2 (floor_log2 n d) \<le> real n / real d" "real n / real d < pow2 (floor_log2 n d + 1)"
    using up lo by auto
qed

section \<open>Rounding\<close>

lemma round_half_even_error:
  assumes "0 < d" shows "\<bar>real (round_half_even n d) - real n / real d\<bar> \<le> 1 / 2"
proof -
  have e: "real n / real d = real (n div d) + real (n mod d) / real d"
  proof -
    have "real n = real (n div d * d + n mod d)" by simp
    also have "\<dots> = real (n div d) * real d + real (n mod d)" by (simp only: of_nat_add of_nat_mult)
    finally show ?thesis using assms by (simp add: add_divide_distrib)
  qed
  have "real (n mod d) / real d < 1" using assms by simp
  moreover have "2 * (n mod d) \<le> d \<Longrightarrow> real (n mod d) / real d \<le> 1 / 2"
    using assms by (simp add: field_simps flip: of_nat_mult)
  moreover have "d \<le> 2 * (n mod d) \<Longrightarrow> 1 / 2 \<le> real (n mod d) / real d"
    using assms by (simp add: field_simps flip: of_nat_mult)
  moreover have "0 \<le> real (n mod d) / real d" by simp
  ultimately show ?thesis
    unfolding round_half_even_def Let_def e by (auto split: if_splits)
qed

lemma round_half_even_le: "0 < d \<Longrightarrow> real n / real d \<le> real k \<Longrightarrow> round_half_even n d \<le> k"
proof -
  assume d: "0 < d" and "real n / real d \<le> real k"
  then have n: "n \<le> k * d" by (simp add: field_simps flip: of_nat_mult)
  have "n div d < k \<or> n div d = k \<and> n mod d = 0"
    using n d by (metis div_le_mono div_mult_self_is_m div_mult_mod_eq le_add_same_cancel1 le_antisym le_eq_less_or_eq le_zero_eq mult.commute nat_add_left_cancel_le add_0_right)
  then show ?thesis using d by (auto simp: round_half_even_def Let_def)
qed

lemma round_half_even_ge: "0 < d \<Longrightarrow> real k \<le> real n / real d \<Longrightarrow> k \<le> round_half_even n d"
proof -
  assume d: "0 < d" and "real k \<le> real n / real d"
  then have "k * d \<le> n" by (simp add: field_simps flip: of_nat_mult)
  then have "k \<le> n div d" using d by (simp add: less_eq_div_iff_mult_less_eq)
  then show ?thesis by (auto simp: round_half_even_def Let_def)
qed

section \<open>The number a bit pattern denotes\<close>

definition f64_is :: "f64 \<Rightarrow> real \<Rightarrow> bool" where
  "f64_is b x \<longleftrightarrow> (\<exists>m e. f64_decode b = Num False m e \<and> x = real m * pow2 e)"

lemma f64_is_nonneg: "f64_is b x \<Longrightarrow> 0 \<le> x"
  by (auto simp: f64_is_def)

lemma f64_is_unique: "f64_is b x \<Longrightarrow> f64_is b y \<Longrightarrow> x = y"
  by (auto simp: f64_is_def)

lemma unat_f64_bits:
  assumes "ex < 2047" "fr < 2 ^ 52"
  shows "unat (f64_bits False ex fr) = ex * 2 ^ 52 + fr"
proof -
  have "ex * 2 ^ 52 + fr < 2 ^ 64" using assms by simp
  then show ?thesis by (simp only: f64_bits_def if_False add_0 unat_of_nat) simp
qed

lemma f64_decode_bits:
  assumes "ex < 2047" "fr < 2 ^ 52"
  shows "f64_decode (f64_bits False ex fr) =
    (if ex = 0 then Num False fr (- 1074) else Num False (2 ^ 52 + fr) (int ex - 1075))"
proof -
  have "(ex * 2 ^ 52 + fr) div 2 ^ 52 = ex" "(ex * 2 ^ 52 + fr) mod 2 ^ 52 = fr"
    using assms by simp_all
  moreover have "(ex * 2 ^ 52 + fr) div 2 ^ 63 = 0" using assms by simp
  ultimately show ?thesis
    unfolding f64_decode_def unat_f64_bits [OF assms] Let_def using assms by simp
qed

text \<open>The exponent \<open>f64_round\<close> chooses, and the value of its result when it does not overflow.\<close>

definition ulp_exp :: "nat \<Rightarrow> nat \<Rightarrow> int" where
  "ulp_exp n d = max (- 1074) (floor_log2 n d - 52)"

definition rounded :: "nat \<Rightarrow> nat \<Rightarrow> nat" where
  "rounded n d = (let (n', d') = scale (- ulp_exp n d) (n, d) in round_half_even n' d')"

lemma rounded_cases:
  assumes "0 < n" "0 < d"
  obtains n' d' where "0 < d'" "real n' / real d' = real n / real d * pow2 (- ulp_exp n d)"
    "rounded n d = round_half_even n' d'"
proof -
  obtain n' d' where s: "scale (- ulp_exp n d) (n, d) = (n', d')" by fastforce
  show thesis
    using that [of d' n'] scale_value [OF assms(2) s] s by (simp add: rounded_def)
qed

lemma rounded_le_2_53: "0 < n \<Longrightarrow> 0 < d \<Longrightarrow> rounded n d \<le> 2 ^ 53"
proof -
  assume a: "0 < n" "0 < d"
  obtain n' d' where c: "0 < d'" "real n' / real d' = real n / real d * pow2 (- ulp_exp n d)"
    "rounded n d = round_half_even n' d'" using rounded_cases [OF a] .
  have "real n / real d < pow2 (ulp_exp n d + 53)"
    by (rule less_le_trans [OF floor_log2_bounds(2) [OF a] pow2_mono]) (simp add: ulp_exp_def)
  then have "real n' / real d' \<le> real ((2::nat) ^ 53)"
    unfolding c(2) div_pow2_le by (simp add: pow2_add mult.commute)
  then show ?thesis unfolding c(3) by (rule round_half_even_le [OF c(1)])
qed

lemma rounded_ge_2_52:
  assumes "0 < n" "0 < d" "- 1074 < ulp_exp n d" shows "2 ^ 52 \<le> rounded n d"
proof -
  obtain n' d' where c: "0 < d'" "real n' / real d' = real n / real d * pow2 (- ulp_exp n d)"
    "rounded n d = round_half_even n' d'" using rounded_cases [OF assms(1,2)] .
  have "floor_log2 n d = ulp_exp n d + 52" using assms(3) by (simp add: ulp_exp_def)
  then have "pow2 (ulp_exp n d + 52) \<le> real n / real d"
    using floor_log2_bounds(1) [OF assms(1,2)] by simp
  then have "real ((2::nat) ^ 52) \<le> real n' / real d'"
    unfolding c(2) le_div_pow2 by (simp add: pow2_add mult.commute)
  then show ?thesis unfolding c(3) by (rule round_half_even_ge [OF c(1)])
qed

lemma f64_round_is:
  assumes "0 < n" "0 < d" "ulp_exp n d < 971"
  shows "f64_is (f64_round False n d) (real (rounded n d) * pow2 (ulp_exp n d))"
proof -
  let ?q = "ulp_exp n d" and ?m = "rounded n d"
  have r: "f64_round False n d =
      (let (m, q) = if ?m = 2 ^ 53 then (2 ^ 52, ?q + 1) else (?m, ?q)
       in if 971 < q then f64_inf False
          else if m < 2 ^ 52 then f64_bits False 0 m
          else f64_bits False (nat (q + 1075)) (m - 2 ^ 52))"
    using assms(1) [THEN gr_implies_not0]
    by (cases "scale (- max (- 1074) (floor_log2 n d - 52)) (n, d)")
      (simp only: f64_round_def rounded_def ulp_exp_def Let_def prod.case if_False)
  have q: "- 1074 \<le> ?q" by (simp add: ulp_exp_def)
  consider "?m = 2 ^ 53" | "?m < 2 ^ 52" | "2 ^ 52 \<le> ?m" "?m < 2 ^ 53"
    using rounded_le_2_53 [OF assms(1,2)] by linarith
  then show ?thesis
  proof cases
    case 1
    then have "f64_round False n d = f64_bits False (nat (?q + 1076)) 0"
      unfolding r using assms(3) by (simp add: algebra_simps)
    moreover have "f64_decode (f64_bits False (nat (?q + 1076)) 0) = Num False (2 ^ 52) (?q + 1)"
      using q assms(3) by (subst f64_decode_bits) auto
    ultimately show ?thesis using 1 by (simp add: f64_is_def pow2_add)
  next
    case 2
    then have "?q = - 1074" using rounded_ge_2_52 [OF assms(1,2)] q by linarith
    moreover have "f64_decode (f64_bits False 0 ?m) = Num False ?m (- 1074)"
      using 2 by (subst f64_decode_bits) auto
    moreover have "f64_round False n d = f64_bits False 0 ?m"
      unfolding r using 2 assms(3) by simp
    ultimately show ?thesis by (simp add: f64_is_def)
  next
    case 3
    then have "f64_round False n d = f64_bits False (nat (?q + 1075)) (?m - 2 ^ 52)"
      unfolding r using assms(3) by simp
    moreover have "f64_decode (f64_bits False (nat (?q + 1075)) (?m - 2 ^ 52)) = Num False ?m ?q"
      using q assms(3) 3 by (subst f64_decode_bits) auto
    ultimately show ?thesis by (simp add: f64_is_def)
  qed
qed

section \<open>Accuracy\<close>

lemma ulp_exp_less:
  assumes "0 < n" "0 < d" "real n / real d < pow2 1000" shows "ulp_exp n d < 971"
proof -
  have "pow2 (floor_log2 n d) < pow2 1000"
    using floor_log2_bounds(1) [OF assms(1,2)] assms(3) by linarith
  then have "floor_log2 n d < 1000"
    using pow2_mono [of 1000 "floor_log2 n d"] by linarith
  then show ?thesis by (simp add: ulp_exp_def)
qed

text \<open>The accuracy of a rounded result, as one predicate that the operations below share.\<close>

definition rounds_to :: "real \<Rightarrow> real \<Rightarrow> bool" where
  "rounds_to r x \<longleftrightarrow>
     \<bar>x - r\<bar> \<le> r * pow2 (- 53) + pow2 (- 1075) \<and>
     (\<forall>k :: nat. k < 2 ^ 53 \<longrightarrow> (r \<le> real k \<longrightarrow> x \<le> real k) \<and> (real k \<le> r \<longrightarrow> real k \<le> x))"

lemma rounded_error:
  assumes "0 < n" "0 < d"
  shows "\<bar>real (rounded n d) * pow2 (ulp_exp n d) - real n / real d\<bar>
           \<le> real n / real d * pow2 (- 53) + pow2 (- 1075)"
proof -
  let ?q = "ulp_exp n d" and ?r = "real n / real d"
  obtain n' d' where c: "0 < d'" "real n' / real d' = ?r * pow2 (- ?q)"
    "rounded n d = round_half_even n' d'" using rounded_cases [OF assms] .
  have "?r = real n' / real d' * pow2 ?q"
    unfolding c(2) by (simp add: power_int_minus)
  then have "\<bar>real (rounded n d) * pow2 ?q - ?r\<bar> = \<bar>real (rounded n d) - real n' / real d'\<bar> * pow2 ?q"
    by (simp only: left_diff_distrib [symmetric] abs_mult abs_of_pos [OF pow2_pos])
  also have "\<dots> \<le> 1 / 2 * pow2 ?q"
    unfolding c(3) by (rule mult_right_mono [OF round_half_even_error [OF c(1)]]) simp
  also have "\<dots> = pow2 (?q - 1)" by (simp add: pow2_diff)
  also have "\<dots> \<le> ?r * pow2 (- 53) + pow2 (- 1075)"
  proof (cases "?q = - 1074")
    case False
    then have "?q - 1 = floor_log2 n d + (- 53)" by (simp add: ulp_exp_def)
    then have "pow2 (?q - 1) = pow2 (floor_log2 n d) * pow2 (- 53)" by (simp only: pow2_add)
    also have "\<dots> \<le> ?r * pow2 (- 53)"
      by (rule mult_right_mono [OF floor_log2_bounds(1) [OF assms]]) simp
    finally show ?thesis using pow2_pos [of "- 1075"] by linarith
  qed simp
  finally show ?thesis .
qed

lemma real_less_2_53: "k < 2 ^ 53 \<Longrightarrow> real k < 2 ^ 53"
proof -
  assume "k < 2 ^ 53"
  then have "real k < real (2 ^ 53)" by (simp only: of_nat_less_iff)
  then show ?thesis by simp
qed

lemma rounded_whole:
  assumes "0 < n" "0 < d" "k < 2 ^ 53"
  shows "real n / real d \<le> real k \<Longrightarrow> real (rounded n d) * pow2 (ulp_exp n d) \<le> real k"
    and "real k \<le> real n / real d \<Longrightarrow> real k \<le> real (rounded n d) * pow2 (ulp_exp n d)"
proof -
  let ?q = "ulp_exp n d" and ?r = "real n / real d"
  obtain n' d' where c: "0 < d'" "real n' / real d' = ?r * pow2 (- ?q)"
    "rounded n d = round_half_even n' d'" using rounded_cases [OF assms(1,2)] .
  note k = real_less_2_53 [OF assms(3)]
  have small: "?q \<le> 0 \<Longrightarrow> real k * pow2 (- ?q) = real (k * 2 ^ nat (- ?q))"
    by (simp add: pow2_nat)
  have big: "2 ^ 53 \<le> ?r" if "0 < ?q"
  proof -
    have "pow2 53 \<le> pow2 (floor_log2 n d)" by (rule pow2_mono) (use that in \<open>simp add: ulp_exp_def\<close>)
    then show ?thesis using floor_log2_bounds(1) [OF assms(1,2)] by simp
  qed
  show "real (rounded n d) * pow2 ?q \<le> real k" if "?r \<le> real k"
  proof -
    have q: "?q \<le> 0" using big that k by linarith
    have "real n' / real d' \<le> real (k * 2 ^ nat (- ?q))"
      unfolding c(2) small [OF q, symmetric] by (rule mult_right_mono [OF that]) simp
    then have "real (rounded n d) \<le> real (k * 2 ^ nat (- ?q))"
      unfolding c(3) of_nat_le_iff by (rule round_half_even_le [OF c(1)])
    then show ?thesis unfolding small [OF q, symmetric] le_div_pow2 .
  qed
  show "real k \<le> real (rounded n d) * pow2 ?q" if "real k \<le> ?r"
  proof (cases "?q \<le> 0")
    case True
    have "real (k * 2 ^ nat (- ?q)) \<le> real n' / real d'"
      unfolding c(2) small [OF True, symmetric] by (rule mult_right_mono [OF that]) simp
    then have "real (k * 2 ^ nat (- ?q)) \<le> real (rounded n d)"
      unfolding c(3) of_nat_le_iff by (rule round_half_even_ge [OF c(1)])
    then show ?thesis unfolding small [OF True, symmetric] div_pow2_le .
  next
    case False
    then have "2 ^ 52 \<le> rounded n d" using rounded_ge_2_52 [OF assms(1,2)] by linarith
    then have "real ((2::nat) ^ 52) \<le> real (rounded n d)" by (simp only: of_nat_le_iff)
    moreover have "pow2 1 \<le> pow2 ?q" by (rule pow2_mono) (use False in simp)
    ultimately have "2 ^ 52 * 2 \<le> real (rounded n d) * pow2 ?q"
      by (intro mult_mono) simp_all
    then show ?thesis using k by simp
  qed
qed

lemma f64_round_rounds:
  assumes "0 < d" "real n / real d < pow2 1000"
  shows "\<exists>x. f64_is (f64_round False n d) x \<and> rounds_to (real n / real d) x"
proof (cases "n = 0")
  case True
  have "f64_is (f64_round False n d) 0"
    unfolding f64_is_def True f64_round_def f64_zero_def by (simp add: f64_decode_bits)
  then show ?thesis using True by (auto simp: rounds_to_def)
next
  case False
  then have n: "0 < n" by simp
  show ?thesis
    using f64_round_is [OF n assms(1) ulp_exp_less [OF n assms]] rounded_error [OF n assms(1)]
      rounded_whole [OF n assms(1)]
    unfolding rounds_to_def by blast
qed

lemma rounds_to_whole: "rounds_to (real k) x \<Longrightarrow> k < 2 ^ 53 \<Longrightarrow> x = real k"
  unfolding rounds_to_def by (metis order_refl order_antisym)

section \<open>The operations\<close>

lemma f64_of_nat_is: "k < 2 ^ 53 \<Longrightarrow> f64_is (f64_of_nat k) (real k)"
proof -
  assume k: "k < 2 ^ 53"
  then have "real k < 2 ^ 53" by (rule real_less_2_53)
  also have "2 ^ 53 \<le> pow2 1000" using pow2_mono [of 53 1000] by simp
  finally have "real k / real 1 < pow2 1000" by simp
  from f64_round_rounds [OF _ this] rounds_to_whole [OF _ k] show ?thesis
    by (auto simp: f64_of_nat_def)
qed

lemma f64_mul_rounds:
  assumes "f64_is a x" "f64_is b y" "x * y < pow2 1000"
  shows "\<exists>z. f64_is (f64_mul a b) z \<and> rounds_to (x * y) z"
proof -
  obtain m e n f where d: "f64_decode a = Num False m e" "f64_decode b = Num False n f"
    and v: "x = real m * pow2 e" "y = real n * pow2 f"
    using assms(1,2) by (auto simp: f64_is_def)
  obtain n' d' where s: "scale (e + f) (m * n, 1) = (n', d')" by fastforce
  have r: "0 < d'" "real n' / real d' = x * y"
    using scale_value [OF _ s] by (simp_all add: v pow2_add)
  have "f64_mul a b = f64_round False n' d'" using s by (simp add: f64_mul_def d)
  with f64_round_rounds [OF r(1), of n'] assms(3) show ?thesis by (simp add: r(2))
qed

lemma f64_div_rounds:
  assumes "f64_is a x" "f64_is b y" "0 < y" "x / y < pow2 1000"
  shows "\<exists>z. f64_is (f64_div a b) z \<and> rounds_to (x / y) z"
proof -
  obtain m e n f where d: "f64_decode a = Num False m e" "f64_decode b = Num False n f"
    and v: "x = real m * pow2 e" "y = real n * pow2 f"
    using assms(1,2) by (auto simp: f64_is_def)
  have n: "0 < n" using assms(3) v(2) by (cases n) auto
  obtain n' d' where s: "scale (e - f) (m, n) = (n', d')" by fastforce
  have r: "0 < d'" "real n' / real d' = x / y"
    using scale_value [OF n s] by (simp_all add: v pow2_diff)
  have "f64_div a b = f64_round False n' d'" using n by (simp add: f64_div_def d s)
  with f64_round_rounds [OF r(1), of n'] assms(4) show ?thesis by (simp add: r(2))
qed

lemma f64_as_u64_is:
  assumes "f64_is a x" shows "f64_as_u64 a = of_nat (min (nat \<lfloor>x\<rfloor>) (2 ^ 64 - 1))"
proof -
  obtain m e where d: "f64_decode a = Num False m e" and v: "x = real m * pow2 e"
    using assms by (auto simp: f64_is_def)
  obtain n' d' where s: "scale e (m, 1) = (n', d')" by fastforce
  have "\<lfloor>x\<rfloor> = int (n' div d')"
    using scale_value(2) [OF _ s] floor_divide_of_nat_eq [of n' d', where 'a = real] by (simp add: v)
  then show ?thesis using s by (simp add: f64_as_u64_def d)
qed

lemma signed_mag_real:
  "e' \<le> e \<Longrightarrow> real_of_int (signed_mag False m e e') = real m * pow2 e * pow2 (- e')"
  by (simp add: signed_mag_def pow2_nat pow2_add [symmetric] flip: pow2_nat)

lemma signed_mag_compare:
  assumes "f64_decode a = Num False m e" "f64_decode b = Num False n f" "f64_is a x" "f64_is b y"
  shows "(signed_mag False m e (min e f) < signed_mag False n f (min e f)) = (x < y)"
    and "(signed_mag False m e (min e f) = signed_mag False n f (min e f)) = (x = y)"
proof -
  have v: "x = real m * pow2 e" "y = real n * pow2 f" using assms by (auto simp: f64_is_def)
  have s: "real_of_int (signed_mag False m e (min e f)) = x * pow2 (- min e f)"
    "real_of_int (signed_mag False n f (min e f)) = y * pow2 (- min e f)"
    unfolding v by (rule signed_mag_real, simp)+
  show "(signed_mag False m e (min e f) < signed_mag False n f (min e f)) = (x < y)"
    "(signed_mag False m e (min e f) = signed_mag False n f (min e f)) = (x = y)"
    unfolding of_int_less_iff [where 'a = real, symmetric] of_int_eq_iff [where 'a = real, symmetric] s
    by (simp_all add: mult_less_cancel_right_pos)
qed

lemma f64_compare_is:
  assumes "f64_is a x" "f64_is b y"
  shows "f64_lt a b = (x < y)" "f64_eq a b = (x = y)" "f64_le a b = (x \<le> y)"
proof -
  obtain m e n f where d: "f64_decode a = Num False m e" "f64_decode b = Num False n f"
    using assms by (auto simp: f64_is_def)
  note c = signed_mag_compare [OF d assms]
  show "f64_lt a b = (x < y)" "f64_eq a b = (x = y)"
    by (simp_all only: f64_lt_def f64_eq_def d prod.case f64_value.case Let_def c)
  then show "f64_le a b = (x \<le> y)" unfolding f64_le_def by linarith
qed

end
