(* ===== verification/Decimals_Properties.thy ===== *)
theory Decimals_Properties
  imports Decimals Account F64_Error
begin

text \<open>
  The fee loop ends and returns a proper fraction, and amounts survive the conversion to \<open>f64\<close> and back up
  to one unit. Both rest on the accuracy of \<open>F64_Error\<close>.
\<close>

section \<open>The fee loop\<close>

text \<open>After \<open>i\<close> rounds the numerator is at most \<open>10 ^ i\<close>: rounding never crosses a whole number.\<close>

lemma get_fee_loop_inv:
  assumes "f64_is x r" "r \<le> 10 ^ i" "den = 10 ^ i" "i \<le> 6"
  shows "\<exists>y s j. get_fee_loop x den i = (y, 10 ^ j) \<and> f64_is y s \<and> s \<le> 10 ^ j \<and> j \<le> 6
           \<and> (is_whole y \<or> j = 6)"
  using assms
proof (induction x den i arbitrary: r rule: get_fee_loop.induct)
  case (1 x den i)
  show ?case
  proof (cases "\<not> is_whole x \<and> i < 6")
    case False
    then show ?thesis
      using 1(2-5) by (subst get_fee_loop.simps) auto
  next
    case True
    have ten: "f64_is (f64_of_nat 10) 10" using f64_of_nat_is [of 10] by simp
    have i: "(10::nat) ^ (i + 1) < 2 ^ 53"
    proof -
      have "(10::nat) ^ (i + 1) \<le> 10 ^ 6" by (rule power_increasing) (use True in auto)
      then show ?thesis by simp
    qed
    have le: "r * 10 \<le> real (10 ^ (i + 1))" using 1(3) by simp
    also have "\<dots> < pow2 1000"
      using real_less_2_53 [OF i] pow2_mono [of 53 1000] by simp
    finally obtain z where z: "f64_is (f64_mul x (f64_of_nat 10)) z" "rounds_to (r * 10) z"
      using f64_mul_rounds [OF 1(2) ten] by blast
    have "z \<le> real (10 ^ (i + 1))" using z(2) i le unfolding rounds_to_def by blast
    then have zle: "z \<le> 10 ^ (i + 1)" by simp
    have den: "den * 10 = 10 ^ (i + 1)" using 1(4) by simp
    from 1(1) [OF True z(1) zle den] True show ?thesis
      by (subst get_fee_loop.simps) simp
  qed
qed

lemma unat_pow10: "j \<le> 6 \<Longrightarrow> unat ((10 :: u64) ^ j) = 10 ^ j"
proof -
  assume "j \<le> 6"
  then have "j \<in> {0, 1, 2, 3, 4, 5, 6}" by auto
  then show ?thesis by auto
qed

lemma f64_is_of_le:
  assumes "\<not> f64_le fee (f64_of_nat 0)" "\<not> f64_gt fee (f64_of_nat 1)" "\<not> (f64_decode fee = NaN)"
  shows "\<exists>r. f64_is fee r \<and> 0 < r \<and> r \<le> 1"
proof (cases "f64_decode fee")
  case (Inf b)
  obtain m e where "f64_decode (f64_of_nat 1) = Num False m e"
    using f64_of_nat_is [of 1] by (auto simp: f64_is_def)
  moreover obtain m e where "f64_decode (f64_of_nat 0) = Num False m e"
    using f64_of_nat_is [of 0] by (auto simp: f64_is_def)
  ultimately show ?thesis using assms Inf by (cases b) (simp_all add: f64_le_def f64_lt_def)
next
  case (Num s m e)
  obtain n f where z: "f64_decode (f64_of_nat 0) = Num False n f" "n = 0"
    using f64_of_nat_is [of 0] by (auto simp: f64_is_def)
  show ?thesis
  proof (cases s)
    case True
    then have "f64_le fee (f64_of_nat 0)"
      using Num z by (auto simp: f64_le_def f64_lt_def f64_eq_def Let_def signed_mag_def order_le_less)
    with assms show ?thesis by simp
  next
    case False
    then have r: "f64_is fee (real m * pow2 e)" using Num by (auto simp: f64_is_def)
    show ?thesis
      using assms f64_compare_is [OF r f64_of_nat_is [of 0]] f64_compare_is [OF f64_of_nat_is [of 1] r] r
      by (auto simp: not_le not_less)
  qed
qed (use assms in simp)

text \<open>Without a fee to start from, the loop multiplies NaN six times.\<close>

lemma f64_decode_nan: "f64_decode f64_nan = NaN"
  by (simp add: f64_nan_def f64_bits_def f64_decode_def)

lemma get_fee_loop_nan:
  assumes "f64_decode x = NaN" "den = 10 ^ i" "i \<le> 6"
  shows "\<exists>y j. get_fee_loop x den i = (y, 10 ^ j) \<and> f64_decode y = NaN \<and> j \<le> 6"
  using assms
proof (induction x den i rule: get_fee_loop.induct)
  case (1 x den i)
  have nan: "f64_decode (f64_mul x (f64_of_nat 10)) = NaN"
    using 1(2) by (simp add: f64_mul_def f64_decode_nan)
  show ?case
  proof (cases "\<not> is_whole x \<and> i < 6")
    case False
    then show ?thesis using 1(2-4) by (subst get_fee_loop.simps) auto
  next
    case True
    have "den * 10 = 10 ^ (i + 1)" using 1(3) by simp
    from 1(1) [OF True nan this] True show ?thesis by (subst get_fee_loop.simps) simp
  qed
qed

lemma unat_of_nat_min: "unat (of_nat (min k (2 ^ 64 - 1)) :: u64) = min k (2 ^ 64 - 1)"
  by (subst unat_of_nat) (simp add: min_def)

lemma f64_as_u64_le:
  assumes "f64_is y s" "s \<le> real k" shows "unat (f64_as_u64 y) \<le> k"
proof -
  have "nat \<lfloor>s\<rfloor> \<le> k" using assms(2) by linarith
  then show ?thesis unfolding f64_as_u64_is [OF assms(1)] unat_of_nat_min by simp
qed

lemma get_fee_loop_result:
  assumes "\<not> f64_le fee (f64_of_nat 0)" "\<not> f64_gt fee (f64_of_nat 1)"
  shows "\<exists>y j. get_fee_loop fee 1 0 = (y, 10 ^ j) \<and> j \<le> 6 \<and> unat (f64_as_u64 y) \<le> 10 ^ j"
proof (cases "f64_decode fee = NaN")
  case True
  from get_fee_loop_nan [OF this, of 1 0] show ?thesis by (auto simp: f64_as_u64_def)
next
  case False
  with f64_is_of_le [OF assms] obtain r where r: "f64_is fee r" "r \<le> 1" by blast
  with get_fee_loop_inv [OF r(1), of 0 1] obtain y s j
    where y: "get_fee_loop fee 1 0 = (y, 10 ^ j)" "f64_is y s" "s \<le> 10 ^ j" "j \<le> 6" by auto
  then have "unat (f64_as_u64 y) \<le> 10 ^ j" by (intro f64_as_u64_le) auto
  with y show ?thesis by blast
qed

lemma get_fee_loop_unfold:
  assumes "i \<le> 6"
  shows "\<exists>j \<le> 6 - i. get_fee_loop x den i = (((\<lambda>y. f64_mul y (f64_of_nat 10)) ^^ j) x, den * 10 ^ j)
           \<and> (\<forall>k < j. \<not> is_whole (((\<lambda>y. f64_mul y (f64_of_nat 10)) ^^ k) x))
           \<and> (is_whole (((\<lambda>y. f64_mul y (f64_of_nat 10)) ^^ j) x) \<or> i + j = 6)"
  using assms
proof (induction x den i rule: get_fee_loop.induct)
  case (1 x den i)
  show ?case
  proof (cases "\<not> is_whole x \<and> i < 6")
    case False
    then show ?thesis using 1(2) by (intro exI [of _ 0]) (auto simp: get_fee_loop.simps [of x])
  next
    case True
    let ?f = "\<lambda>y. f64_mul y (f64_of_nat 10)"
    from 1(1) [OF True] True obtain j where j: "j \<le> 6 - (i + 1)"
      "get_fee_loop (?f x) (den * 10) (i + 1) = ((?f ^^ j) (?f x), den * 10 * 10 ^ j)"
      "\<forall>k < j. \<not> is_whole ((?f ^^ k) (?f x))" "is_whole ((?f ^^ j) (?f x)) \<or> i + 1 + j = 6" by auto
    have sh: "(?f ^^ k) (?f x) = (?f ^^ Suc k) x" for k by (simp only: funpow_Suc_right o_apply)
    have "\<not> is_whole ((?f ^^ k) x)" if "k < Suc j" for k
      using that j(3) True unfolding sh by (cases k) auto
    moreover have "get_fee_loop x den i = ((?f ^^ Suc j) x, den * 10 ^ Suc j)"
      using True j(2) unfolding sh by (subst get_fee_loop.simps) (simp add: mult.assoc)
    ultimately show ?thesis using j(1,4) True unfolding sh by (intro exI [of _ "Suc j"]) auto
  qed
qed

section \<open>Round trips\<close>

lemma round_trip_arith:
  fixes a w z e t u :: real
  assumes "\<bar>w - a\<bar> \<le> a * e + t" "\<bar>z - w\<bar> \<le> w * e + u" "0 \<le> a" "a \<le> 2 ^ 50"
    "e = 1 / 2 ^ 53" "0 \<le> t" "t \<le> 1 / 16" "0 \<le> u" "u \<le> 1 / 16"
  shows "a - 1 < z" "z < a + 1" "1 \<le> a \<Longrightarrow> 0 < w"
proof -
  have ae: "a * e \<le> 1 / 8" using assms(4) unfolding assms(5) by simp
  then have "w \<le> a + 1" using assms(1,7) by linarith
  then have "w * e \<le> (a + 1) * e" by (rule mult_right_mono) (simp add: assms(5))
  moreover have "(a + 1) * e \<le> 1 / 4" using assms(4) unfolding assms(5) by simp
  ultimately show "a - 1 < z" "z < a + 1" "1 \<le> a \<Longrightarrow> 0 < w" using ae assms(1,2,7,9) by linarith+
qed

lemma rounds_to_mult:
  assumes "rounds_to (a / D) y" "0 < D" "D \<le> 2 ^ 53"
  shows "\<bar>y * D - a\<bar> \<le> a * pow2 (- 53) + 1 / 16"
proof -
  have "y * D - a = (y - a / D) * D" using assms(2) by (simp add: left_diff_distrib)
  then have "\<bar>y * D - a\<bar> = \<bar>y - a / D\<bar> * D" using assms(2) by (simp add: abs_mult)
  also have "\<dots> \<le> (a / D * pow2 (- 53) + pow2 (- 1075)) * D"
    using assms(1,2) unfolding rounds_to_def by (intro mult_right_mono) auto
  also have "\<dots> = a * pow2 (- 53) + pow2 (- 1075) * D"
    using assms(2) by (simp add: distrib_right)
  also have "pow2 (- 1075) * D \<le> pow2 (- 1075) * pow2 53"
    using assms(3) by (intro mult_left_mono) auto
  also have "pow2 (- 1075) * pow2 53 \<le> 1 / 16"
    using pow2_mono [of "- 1022" "- 4"] by (simp flip: pow2_add)
  finally show ?thesis by simp
qed

lemma scaled_round_trip:
  assumes "a < 2 ^ 50" "0 < D" "D < 2 ^ 53"
  defines "y \<equiv> f64_div (f64_of_nat a) (f64_of_nat D)"
  defines "r \<equiv> unat (f64_as_u64 (f64_mul y (f64_of_nat D)))"
  shows "r \<le> a" "a \<le> r + 1" "0 < a \<Longrightarrow> \<not> f64_eq y (f64_of_nat 0)"
proof -
  have D: "real D \<le> 2 ^ 53" "0 < real D" using real_less_2_53 [OF assms(3)] assms(2) by simp_all
  have "real a \<le> real (2 ^ 50)" unfolding of_nat_le_iff using assms(1) by linarith
  then have a: "real a \<le> 2 ^ 50" by simp
  have e: "pow2 (- 53) = 1 / 2 ^ 53" by (simp add: pow2_neg)
  have ops: "f64_is (f64_of_nat a) (real a)" "f64_is (f64_of_nat D) (real D)"
    using assms(1,3) by (auto intro: f64_of_nat_is)
  have big: "2 ^ 52 < pow2 1000" using pow2_mono [of 53 1000] by simp
  have "real a / real D \<le> real a" using assms(2) by (simp add: divide_le_eq mult_le_cancel_left1)
  with a big obtain v where v: "f64_is y v" "rounds_to (real a / real D) v"
    using f64_div_rounds [OF ops D(2)] unfolding y_def by fastforce
  note w = rounds_to_mult [OF v(2) D(2,1)]
  have "v * real D \<le> real a + 1" using w a unfolding e by (simp add: abs_le_iff)
  with a big obtain z where z: "f64_is (f64_mul y (f64_of_nat D)) z" "rounds_to (v * real D) z"
    using f64_mul_rounds [OF v(1) ops(2)] by fastforce
  have u: "pow2 (- 1075) \<le> 1 / 16" using pow2_mono [of "- 1075" "- 4"] by simp
  have zw: "\<bar>z - v * real D\<bar> \<le> v * real D * pow2 (- 53) + pow2 (- 1075)"
    using z(2) by (simp add: rounds_to_def)
  note b = round_trip_arith [OF w zw _ a e _ _ _ u, simplified]
  have r: "r = min (nat \<lfloor>z\<rfloor>) (2 ^ 64 - 1)"
    unfolding r_def f64_as_u64_is [OF z(1)] unat_of_nat_min ..
  have "nat \<lfloor>z\<rfloor> \<le> a" "a \<le> nat \<lfloor>z\<rfloor> + 1" using b(1,2) by linarith+
  then show "r \<le> a" "a \<le> r + 1" unfolding r using assms(1) by auto
  show "\<not> f64_eq y (f64_of_nat 0)" if "0 < a"
    using b(3) that D(2) f64_compare_is(2) [OF v(1) f64_of_nat_is [of 0]] by auto
qed

section \<open>Properties\<close>

text \<open>
  C40: The loop of \<open>get_fee_parts\<close> ends after at most six rounds for every \<open>f64\<close>, NaN and the infinities
  included: it returns the fee multiplied by ten, with the rounding of \<open>f64\<close>, as often as needed to make it
  whole, and six times when no smaller number of rounds does.
\<close>

theorem get_fee_loop_terminates:
  "\<exists>j \<le> 6. get_fee_loop fee 1 0 = (((\<lambda>y. f64_mul y (f64_of_nat 10)) ^^ j) fee, 10 ^ j)
     \<and> (\<forall>k < j. \<not> is_whole (((\<lambda>y. f64_mul y (f64_of_nat 10)) ^^ k) fee))
     \<and> (is_whole (((\<lambda>y. f64_mul y (f64_of_nat 10)) ^^ j) fee) \<or> j = 6)"
  using get_fee_loop_unfold [of 0 fee 1] by simp

text \<open>The fee of 0.25 needs two rounds.\<close>

definition fee_quarter :: f64 where "fee_quarter = f64_div (f64_of_nat 1) (f64_of_nat 4)"

lemma fee_quarter_rounds:
  "\<not> is_whole fee_quarter" "\<not> is_whole (f64_mul fee_quarter (f64_of_nat 10))"
  "is_whole (f64_mul (f64_mul fee_quarter (f64_of_nat 10)) (f64_of_nat 10))"
  by (simp_all add: fee_quarter_def is_whole_def f64_eval)

theorem get_fee_loop_terminates_witness:
  "get_fee_loop fee_quarter 1 0
     = (f64_mul (f64_mul fee_quarter (f64_of_nat 10)) (f64_of_nat 10), 100)"
proof -
  let ?f = "\<lambda>y. f64_mul y (f64_of_nat 10)"
  obtain j where j: "get_fee_loop fee_quarter 1 0 = ((?f ^^ j) fee_quarter, 10 ^ j)"
    "\<forall>k < j. \<not> is_whole ((?f ^^ k) fee_quarter)" "is_whole ((?f ^^ j) fee_quarter) \<or> j = 6"
    using get_fee_loop_terminates [of fee_quarter] by blast
  have two: "(?f ^^ 2) fee_quarter = ?f (?f fee_quarter)" by (simp add: numeral_2_eq_2)
  have "\<not> 2 < j" using j(2) fee_quarter_rounds(3) two by metis
  then have "j = 0 \<or> j = 1 \<or> j = 2" by linarith
  then have "j = 2" using j(3) fee_quarter_rounds(1,2) by auto
  with j(1) two show ?thesis by simp
qed

text \<open>
  \<open>get_fee_parts\<close> returns a proper fraction for every \<open>f64\<close>: the denominator is a power of ten up to
  \<open>10 ^ 6\<close>, so it is neither zero nor wrapped around, and the numerator does not exceed it.
\<close>

theorem get_fee_parts_proper:
  "(\<exists>j \<le> 6. unat (snd (get_fee_parts fee)) = 10 ^ j)
     \<and> unat (fst (get_fee_parts fee)) \<le> unat (snd (get_fee_parts fee))"
proof (cases "f64_le fee (f64_of_nat 0) \<or> f64_gt fee (f64_of_nat 1)")
  case True
  then show ?thesis by (auto simp: get_fee_parts_def intro!: exI [of _ 0])
next
  case False
  then obtain y j where l: "get_fee_loop fee 1 0 = (y, 10 ^ j)" "j \<le> 6" "unat (f64_as_u64 y) \<le> 10 ^ j"
    using get_fee_loop_result [of fee] by auto
  show ?thesis
  proof (cases "f64_as_u64 y = 10 ^ j")
    case True
    then have "get_fee_parts fee = (1, 1)" using False l(1) by (auto simp: get_fee_parts_def)
    then show ?thesis by (auto intro!: exI [of _ 0])
  next
    case neq: False
    then have "get_fee_parts fee = (f64_as_u64 y, 10 ^ j)" using False l(1) by (auto simp: get_fee_parts_def)
    then show ?thesis using l(2,3) unat_pow10 [OF l(2)] by auto
  qed
qed

text \<open>
  The fee 0.0003 is not 3/10000 but 299/1000000: the multiplications round below the whole number and the
  cast truncates.
\<close>

theorem get_fee_parts_truncates:
  "get_fee_parts (f64_div (f64_of_nat 3) (f64_of_nat 10000)) = (299, 1000000)"
  by (simp add: get_fee_parts_def get_fee_loop.simps is_whole_def f64_eval)

text \<open>
  Converting a token amount to the amount shown to users and back gives the amount or one unit less, for
  amounts below \<open>2 ^ 50\<close> and up to 15 decimals; the same holds of lamports and SOL. Nothing panics.
\<close>

theorem ui_amount_round_trip:
  assumes "num_checked_pow_law p" "unat decimals \<le> 15" "unat amount < 2 ^ 50"
  shows "(\<exists>ui r. tokens_to_ui_amount_with_decimals_f64 p amount decimals = Ok ui
           \<and> ui_amount_with_decimals_to_tokens p ui decimals = Ok r
           \<and> unat r \<le> unat amount \<and> unat amount \<le> unat r + 1)
       \<and> unat (sol_to_lamports (lamports_to_sol amount)) \<le> unat amount
       \<and> unat amount \<le> unat (sol_to_lamports (lamports_to_sol amount)) + 1"
proof -
  have ten: "(10::nat) ^ unat decimals \<le> 10 ^ 15" by (rule power_increasing) (use assms(2) in auto)
  then have le: "(10::nat) ^ unat decimals < 2 ^ 64" by simp
  note pow = checked_pow_10 [OF assms(1), of "unat decimals"] and u = unat_pow_10 [OF le]
  have D: "0 < (10::nat) ^ unat decimals" "(10::nat) ^ unat decimals < 2 ^ 53" using ten by auto
  note rt = scaled_round_trip [OF assms(3) D]
  have zero: "f64_eq (f64_of_nat 0) (f64_of_nat 0)"
    using f64_compare_is(2) [OF f64_of_nat_is f64_of_nat_is, of 0 0] by simp
  have "\<exists>ui r. tokens_to_ui_amount_with_decimals_f64 p amount decimals = Ok ui
           \<and> ui_amount_with_decimals_to_tokens p ui decimals = Ok r
           \<and> unat r \<le> unat amount \<and> unat amount \<le> unat r + 1"
    using rt zero le unfolding tokens_to_ui_amount_with_decimals_f64_def ui_amount_with_decimals_to_tokens_def
    by (cases "amount = 0") (auto simp: pow u unat_gt_0)
  with scaled_round_trip(1,2) [OF assms(3), of 1000000000] show ?thesis
    by (simp add: sol_to_lamports_def lamports_to_sol_def)
qed

text \<open>15 lamports are shown as 0.000000015 SOL, which converts back to 14 lamports.\<close>

definition concrete_pow :: "u64 \<Rightarrow> nat \<Rightarrow> u64 option" where
  "concrete_pow b e = (if unat b ^ e < 2 ^ 64 then Some (b ^ e) else None)"

theorem ui_amount_round_trip_witness:
  "(\<exists>ui r. tokens_to_ui_amount_with_decimals_f64 concrete_pow 15 9 = Ok ui
      \<and> ui_amount_with_decimals_to_tokens concrete_pow ui 9 = Ok r
      \<and> unat r \<le> 15 \<and> 15 \<le> unat r + 1)
   \<and> sol_to_lamports (lamports_to_sol 15) = 14"
proof -
  have "num_checked_pow_law concrete_pow" by (simp add: num_checked_pow_law_def concrete_pow_def)
  moreover have "sol_to_lamports (lamports_to_sol 15) = 14"
    by (simp add: sol_to_lamports_def lamports_to_sol_def f64_eval)
  ultimately show ?thesis using ui_amount_round_trip [of concrete_pow 9 15] by simp
qed

end
