(* ===== verification/Raydium_Sdk.thy ===== *)
theory Raydium_Sdk
  imports Bot_Types Wire Solana_Instruction
begin

text \<open>
  \<open>crates/solana_farm_client/src/raydium_sdk.rs\<close>: the accounts of a Raydium pool and of its market as \<open>borsh\<close>
  lays them out (fields in order, integers little-endian, no gaps; \<open>try_from_slice\<close> rejects a slice of another
  length), the swap instruction and the search for the authority of a market.
  \<open>Pubkey::create_program_address\<close> is an argument. Public keys written in base 58 in the source are their bytes.
\<close>

section \<open>Constants of \<open>src/src/solana/constants.rs\<close>\<close>

definition WSOL_MINT_PUBKEY :: pubkey where
  "WSOL_MINT_PUBKEY =
     [6, 155, 136, 87, 254, 171, 129, 132, 251, 104, 127, 99, 70, 24, 192, 53,
      218, 196, 57, 220, 26, 235, 59, 85, 152, 160, 240, 0, 0, 0, 0, 1]"

definition RAYDIUM_V4_PROGRAM_ID :: pubkey where
  "RAYDIUM_V4_PROGRAM_ID =
     [75, 217, 73, 196, 54, 2, 195, 63, 32, 119, 144, 237, 22, 163, 82, 76,
      161, 185, 151, 92, 241, 33, 162, 169, 12, 255, 236, 125, 248, 182, 138, 205]"

definition RAYDIUM_V4_AUTHORITY :: pubkey where
  "RAYDIUM_V4_AUTHORITY =
     [65, 87, 176, 88, 15, 49, 197, 252, 228, 74, 98, 88, 45, 188, 249, 215,
      142, 231, 89, 67, 160, 132, 163, 147, 179, 80, 54, 141, 34, 137, 147, 8]"

section \<open>Accounts\<close>

record MarketStateLayoutV3 =
  mk_padding :: bytes
  mk_own_address :: pubkey
  mk_vault_signer_nonce :: u64
  mk_base_mint :: pubkey
  mk_quote_mint :: pubkey
  mk_base_vault :: pubkey
  mk_base_deposits_total :: u64
  mk_base_fees_accrued :: u64
  mk_quote_vault :: pubkey
  mk_quote_deposits_total :: u64
  mk_quote_fees_accrued :: u64
  mk_quote_dust_threshold :: u64
  mk_request_queue :: pubkey
  mk_event_queue :: pubkey
  mk_bids :: pubkey
  mk_asks :: pubkey
  mk_base_lot_size :: u64
  mk_quote_lot_size :: u64
  mk_fee_rate_bps :: u64
  mk_referrer_rebates_accrued :: u64
  mk_padding_end :: bytes

definition MarketStateLayoutV3_fields :: "nat list" where
  "MarketStateLayoutV3_fields =
     [13, 32, 8, 32, 32, 32, 8, 8, 32, 8, 8, 8, 32, 32, 32, 32, 8, 8, 8, 8, 7]"

definition MarketStateLayoutV3_try_from_slice :: "bytes \<Rightarrow> MarketStateLayoutV3 option" where
  "MarketStateLayoutV3_try_from_slice data =
     (if length data = sum_list MarketStateLayoutV3_fields then
        (let refs = array_refs MarketStateLayoutV3_fields data in Some
        \<lparr> mk_padding = refs ! 0,
          mk_own_address = refs ! 1,
          mk_vault_signer_nonce = from_le_bytes (refs ! 2),
          mk_base_mint = refs ! 3,
          mk_quote_mint = refs ! 4,
          mk_base_vault = refs ! 5,
          mk_base_deposits_total = from_le_bytes (refs ! 6),
          mk_base_fees_accrued = from_le_bytes (refs ! 7),
          mk_quote_vault = refs ! 8,
          mk_quote_deposits_total = from_le_bytes (refs ! 9),
          mk_quote_fees_accrued = from_le_bytes (refs ! 10),
          mk_quote_dust_threshold = from_le_bytes (refs ! 11),
          mk_request_queue = refs ! 12,
          mk_event_queue = refs ! 13,
          mk_bids = refs ! 14,
          mk_asks = refs ! 15,
          mk_base_lot_size = from_le_bytes (refs ! 16),
          mk_quote_lot_size = from_le_bytes (refs ! 17),
          mk_fee_rate_bps = from_le_bytes (refs ! 18),
          mk_referrer_rebates_accrued = from_le_bytes (refs ! 19),
          mk_padding_end = refs ! 20 \<rparr>)
      else None)"

definition MarketStateLayoutV3_try_to_vec :: "MarketStateLayoutV3 \<Rightarrow> bytes" where
  "MarketStateLayoutV3_try_to_vec self = concat
     [mk_padding self,
      mk_own_address self,
      to_le_bytes (mk_vault_signer_nonce self),
      mk_base_mint self,
      mk_quote_mint self,
      mk_base_vault self,
      to_le_bytes (mk_base_deposits_total self),
      to_le_bytes (mk_base_fees_accrued self),
      mk_quote_vault self,
      to_le_bytes (mk_quote_deposits_total self),
      to_le_bytes (mk_quote_fees_accrued self),
      to_le_bytes (mk_quote_dust_threshold self),
      mk_request_queue self,
      mk_event_queue self,
      mk_bids self,
      mk_asks self,
      to_le_bytes (mk_base_lot_size self),
      to_le_bytes (mk_quote_lot_size self),
      to_le_bytes (mk_fee_rate_bps self),
      to_le_bytes (mk_referrer_rebates_accrued self),
      mk_padding_end self]"

record LiquidityStateV4 =
  ls_status :: u64
  ls_nonce :: u64
  ls_max_order :: u64
  ls_depth :: u64
  ls_base_decimal :: u64
  ls_quote_decimal :: u64
  ls_state :: u64
  ls_reset_flag :: u64
  ls_min_size :: u64
  ls_vol_max_cut_ratio :: u64
  ls_amount_wave_ratio :: u64
  ls_base_lot_size :: u64
  ls_quote_lot_size :: u64
  ls_min_price_multiplier :: u64
  ls_max_price_multiplier :: u64
  ls_system_decimal_value :: u64
  ls_min_separate_numerator :: u64
  ls_min_separate_denominator :: u64
  ls_trade_fee_numerator :: u64
  ls_trade_fee_denominator :: u64
  ls_pnl_numerator :: u64
  ls_pnl_denominator :: u64
  ls_swap_fee_numerator :: u64
  ls_swap_fee_denominator :: u64
  ls_base_need_take_pnl :: u64
  ls_quote_need_take_pnl :: u64
  ls_quote_total_pnl :: u64
  ls_base_total_pnl :: u64
  ls_pool_open_time :: u64
  ls_punish_pc_amount :: u64
  ls_punish_coin_amount :: u64
  ls_orderbook_to_init_time :: u64
  ls_swap_base_in_amount :: u128
  ls_swap_quote_out_amount :: u128
  ls_swap_base2quote_fee :: u64
  ls_swap_quote_in_amount :: u128
  ls_swap_base_out_amount :: u128
  ls_swap_quote2base_fee :: u64
  ls_base_vault :: pubkey
  ls_quote_vault :: pubkey
  ls_base_mint :: pubkey
  ls_quote_mint :: pubkey
  ls_lp_mint :: pubkey
  ls_open_orders :: pubkey
  ls_market_id :: pubkey
  ls_market_program_id :: pubkey
  ls_target_orders :: pubkey
  ls_withdraw_queue :: pubkey
  ls_lp_vault :: pubkey
  ls_owner :: pubkey
  ls_lp_reserve :: u64
  ls_padding :: "u64 list"

definition LiquidityStateV4_fields :: "nat list" where
  "LiquidityStateV4_fields =
     [8, 8, 8, 8, 8, 8, 8, 8, 8, 8, 8, 8, 8, 8, 8, 8, 8, 8, 8, 8, 8, 8, 8, 8, 8, 8, 8, 8, 8, 8,
      8, 8, 16, 16, 8, 16, 16, 8, 32, 32, 32, 32, 32, 32, 32, 32, 32, 32, 32, 32, 8, 24]"

definition LiquidityStateV4_try_from_slice :: "bytes \<Rightarrow> LiquidityStateV4 option" where
  "LiquidityStateV4_try_from_slice data =
     (if length data = sum_list LiquidityStateV4_fields then
        (let refs = array_refs LiquidityStateV4_fields data in Some
        \<lparr> ls_status = from_le_bytes (refs ! 0),
          ls_nonce = from_le_bytes (refs ! 1),
          ls_max_order = from_le_bytes (refs ! 2),
          ls_depth = from_le_bytes (refs ! 3),
          ls_base_decimal = from_le_bytes (refs ! 4),
          ls_quote_decimal = from_le_bytes (refs ! 5),
          ls_state = from_le_bytes (refs ! 6),
          ls_reset_flag = from_le_bytes (refs ! 7),
          ls_min_size = from_le_bytes (refs ! 8),
          ls_vol_max_cut_ratio = from_le_bytes (refs ! 9),
          ls_amount_wave_ratio = from_le_bytes (refs ! 10),
          ls_base_lot_size = from_le_bytes (refs ! 11),
          ls_quote_lot_size = from_le_bytes (refs ! 12),
          ls_min_price_multiplier = from_le_bytes (refs ! 13),
          ls_max_price_multiplier = from_le_bytes (refs ! 14),
          ls_system_decimal_value = from_le_bytes (refs ! 15),
          ls_min_separate_numerator = from_le_bytes (refs ! 16),
          ls_min_separate_denominator = from_le_bytes (refs ! 17),
          ls_trade_fee_numerator = from_le_bytes (refs ! 18),
          ls_trade_fee_denominator = from_le_bytes (refs ! 19),
          ls_pnl_numerator = from_le_bytes (refs ! 20),
          ls_pnl_denominator = from_le_bytes (refs ! 21),
          ls_swap_fee_numerator = from_le_bytes (refs ! 22),
          ls_swap_fee_denominator = from_le_bytes (refs ! 23),
          ls_base_need_take_pnl = from_le_bytes (refs ! 24),
          ls_quote_need_take_pnl = from_le_bytes (refs ! 25),
          ls_quote_total_pnl = from_le_bytes (refs ! 26),
          ls_base_total_pnl = from_le_bytes (refs ! 27),
          ls_pool_open_time = from_le_bytes (refs ! 28),
          ls_punish_pc_amount = from_le_bytes (refs ! 29),
          ls_punish_coin_amount = from_le_bytes (refs ! 30),
          ls_orderbook_to_init_time = from_le_bytes (refs ! 31),
          ls_swap_base_in_amount = from_le_bytes (refs ! 32),
          ls_swap_quote_out_amount = from_le_bytes (refs ! 33),
          ls_swap_base2quote_fee = from_le_bytes (refs ! 34),
          ls_swap_quote_in_amount = from_le_bytes (refs ! 35),
          ls_swap_base_out_amount = from_le_bytes (refs ! 36),
          ls_swap_quote2base_fee = from_le_bytes (refs ! 37),
          ls_base_vault = refs ! 38,
          ls_quote_vault = refs ! 39,
          ls_base_mint = refs ! 40,
          ls_quote_mint = refs ! 41,
          ls_lp_mint = refs ! 42,
          ls_open_orders = refs ! 43,
          ls_market_id = refs ! 44,
          ls_market_program_id = refs ! 45,
          ls_target_orders = refs ! 46,
          ls_withdraw_queue = refs ! 47,
          ls_lp_vault = refs ! 48,
          ls_owner = refs ! 49,
          ls_lp_reserve = from_le_bytes (refs ! 50),
          ls_padding = map from_le_bytes (array_refs [8, 8, 8] (refs ! 51)) \<rparr>)
      else None)"

definition LiquidityStateV4_try_to_vec :: "LiquidityStateV4 \<Rightarrow> bytes" where
  "LiquidityStateV4_try_to_vec self = concat
     [to_le_bytes (ls_status self),
      to_le_bytes (ls_nonce self),
      to_le_bytes (ls_max_order self),
      to_le_bytes (ls_depth self),
      to_le_bytes (ls_base_decimal self),
      to_le_bytes (ls_quote_decimal self),
      to_le_bytes (ls_state self),
      to_le_bytes (ls_reset_flag self),
      to_le_bytes (ls_min_size self),
      to_le_bytes (ls_vol_max_cut_ratio self),
      to_le_bytes (ls_amount_wave_ratio self),
      to_le_bytes (ls_base_lot_size self),
      to_le_bytes (ls_quote_lot_size self),
      to_le_bytes (ls_min_price_multiplier self),
      to_le_bytes (ls_max_price_multiplier self),
      to_le_bytes (ls_system_decimal_value self),
      to_le_bytes (ls_min_separate_numerator self),
      to_le_bytes (ls_min_separate_denominator self),
      to_le_bytes (ls_trade_fee_numerator self),
      to_le_bytes (ls_trade_fee_denominator self),
      to_le_bytes (ls_pnl_numerator self),
      to_le_bytes (ls_pnl_denominator self),
      to_le_bytes (ls_swap_fee_numerator self),
      to_le_bytes (ls_swap_fee_denominator self),
      to_le_bytes (ls_base_need_take_pnl self),
      to_le_bytes (ls_quote_need_take_pnl self),
      to_le_bytes (ls_quote_total_pnl self),
      to_le_bytes (ls_base_total_pnl self),
      to_le_bytes (ls_pool_open_time self),
      to_le_bytes (ls_punish_pc_amount self),
      to_le_bytes (ls_punish_coin_amount self),
      to_le_bytes (ls_orderbook_to_init_time self),
      to_le_bytes (ls_swap_base_in_amount self),
      to_le_bytes (ls_swap_quote_out_amount self),
      to_le_bytes (ls_swap_base2quote_fee self),
      to_le_bytes (ls_swap_quote_in_amount self),
      to_le_bytes (ls_swap_base_out_amount self),
      to_le_bytes (ls_swap_quote2base_fee self),
      ls_base_vault self,
      ls_quote_vault self,
      ls_base_mint self,
      ls_quote_mint self,
      ls_lp_mint self,
      ls_open_orders self,
      ls_market_id self,
      ls_market_program_id self,
      ls_target_orders self,
      ls_withdraw_queue self,
      ls_lp_vault self,
      ls_owner self,
      to_le_bytes (ls_lp_reserve self),
      concat (map to_le_bytes (ls_padding self))]"

section \<open>The swap instruction\<close>

definition TOKEN_PROGRAM_ID :: pubkey where
  "TOKEN_PROGRAM_ID =
     [6, 221, 246, 225, 215, 101, 161, 147, 217, 203, 225, 70, 206, 235, 121, 172,
      28, 180, 133, 237, 95, 91, 55, 145, 58, 140, 245, 133, 126, 255, 0, 169]"

definition MODEL_DATA_PUBKEY :: pubkey where
  "MODEL_DATA_PUBKEY =
     [166, 160, 191, 236, 179, 101, 87, 130, 59, 156, 43, 236, 93, 253, 233, 250,
      136, 80, 147, 211, 107, 0, 150, 246, 40, 1, 105, 82, 161, 8, 39, 214]"

record UserKeys =
  uk_token_account_in :: pubkey
  uk_token_account_out :: pubkey
  uk_owner :: pubkey

definition UserKeys_new :: "pubkey \<Rightarrow> pubkey \<Rightarrow> pubkey \<Rightarrow> UserKeys" where
  "UserKeys_new token_account_in token_account_out owner =
     \<lparr> uk_token_account_in = token_account_in, uk_token_account_out = token_account_out, uk_owner = owner \<rparr>"

record LiquiditySwapFixedInInstructionParamsV4 =
  fp_pool_keys :: LiquidityPoolKeys
  fp_user_keys :: UserKeys
  fp_amount_in :: u64
  fp_min_amount_out :: u64

definition LiquiditySwapFixedInInstructionParamsV4_new ::
  "LiquidityPoolKeys \<Rightarrow> UserKeys \<Rightarrow> u64 \<Rightarrow> u64 \<Rightarrow> LiquiditySwapFixedInInstructionParamsV4" where
  "LiquiditySwapFixedInInstructionParamsV4_new pool_keys user_keys amount_in min_amount_out =
     \<lparr> fp_pool_keys = pool_keys, fp_user_keys = user_keys, fp_amount_in = amount_in,
       fp_min_amount_out = min_amount_out \<rparr>"

definition account_meta :: "pubkey \<Rightarrow> bool \<Rightarrow> AccountMeta" where
  "account_meta pubkey is_signer =
     \<lparr> meta_key = pubkey, meta_is_signer = is_signer, meta_is_writable = True \<rparr>"

definition account_meta_readonly :: "pubkey \<Rightarrow> bool \<Rightarrow> AccountMeta" where
  "account_meta_readonly pubkey is_signer =
     \<lparr> meta_key = pubkey, meta_is_signer = is_signer, meta_is_writable = False \<rparr>"

record SwapInstructionData =
  sd_instruction :: u8
  sd_amount_in :: u64
  sd_min_amount_out :: u64

definition SwapInstructionData_try_to_vec :: "SwapInstructionData \<Rightarrow> bytes" where
  "SwapInstructionData_try_to_vec self =
     [sd_instruction self] @ to_le_bytes (sd_amount_in self) @ to_le_bytes (sd_min_amount_out self)"

definition SwapInstructionData_try_from_slice :: "bytes \<Rightarrow> SwapInstructionData option" where
  "SwapInstructionData_try_from_slice data =
     (if length data = 17 then
        Some \<lparr> sd_instruction = data ! 0, sd_amount_in = from_le_bytes (slice 1 8 data),
               sd_min_amount_out = from_le_bytes (slice 9 8 data) \<rparr>
      else None)"

definition make_swap_fixed_in_instruction ::
  "LiquiditySwapFixedInInstructionParamsV4 \<Rightarrow> u8 \<Rightarrow> Instruction" where
  "make_swap_fixed_in_instruction params version =
     (let data = SwapInstructionData_try_to_vec
            \<lparr> sd_instruction = 9, sd_amount_in = fp_amount_in params,
              sd_min_amount_out = fp_min_amount_out params \<rparr>;
          pool_keys = fp_pool_keys params;
          user_keys = fp_user_keys params;
          keys =
            [account_meta_readonly TOKEN_PROGRAM_ID False,
             account_meta (lk_id pool_keys) False,
             account_meta_readonly (lk_authority pool_keys) False,
             account_meta (lk_open_orders pool_keys) False]
            @ (if version = 4 then [account_meta (lk_target_orders pool_keys) False] else [])
            @ [account_meta (lk_base_vault pool_keys) False,
               account_meta (lk_quote_vault pool_keys) False]
            @ (if version = 5 then [account_meta MODEL_DATA_PUBKEY False] else [])
            @ [account_meta_readonly (lk_market_program_id pool_keys) False,
               account_meta (lk_market_id pool_keys) False,
               account_meta (lk_market_bids pool_keys) False,
               account_meta (lk_market_asks pool_keys) False,
               account_meta (lk_market_event_queue pool_keys) False,
               account_meta (lk_market_base_vault pool_keys) False,
               account_meta (lk_market_quote_vault pool_keys) False,
               account_meta_readonly (lk_market_authority pool_keys) False,
               account_meta (uk_token_account_in user_keys) False,
               account_meta (uk_token_account_out user_keys) False,
               account_meta_readonly (uk_owner user_keys) True]
      in \<lparr> ins_program_id = lk_program_id pool_keys, ins_accounts = keys, ins_data = data \<rparr>)"

section \<open>The authority of a market\<close>

primrec try_nonces ::
  "(bytes list \<Rightarrow> pubkey \<Rightarrow> pubkey option) \<Rightarrow> pubkey \<Rightarrow> pubkey \<Rightarrow> nat list \<Rightarrow> pubkey option" where
  "try_nonces create_program_address program_id market_id [] = None"
| "try_nonces create_program_address program_id market_id (nonce # nonces) =
     (case create_program_address [market_id, [of_nat nonce], replicate 7 0] program_id of
        Some public_key \<Rightarrow> Some public_key
      | None \<Rightarrow> try_nonces create_program_address program_id market_id nonces)"

definition get_associated_authority ::
  "(bytes list \<Rightarrow> pubkey \<Rightarrow> pubkey option) \<Rightarrow> pubkey \<Rightarrow> pubkey \<Rightarrow> string + pubkey" where
  "get_associated_authority create_program_address program_id market_id =
     (case try_nonces create_program_address program_id market_id [0..<100] of
        Some public_key \<Rightarrow> Inr public_key
      | None \<Rightarrow> Inl ''Unable to find a valid program address'')"

section \<open>Lemmas\<close>

lemma array_refs_concat:
  "list_all2 (\<lambda>n x. length x = n) ns xs \<Longrightarrow> array_refs ns (concat xs) = xs"
  by (induction rule: list_all2_induct) auto

definition valid_liquidity_state :: "LiquidityStateV4 \<Rightarrow> bool" where
  "valid_liquidity_state s \<longleftrightarrow> length (ls_padding s) = 3 \<and> list_all (\<lambda>k. length k = 32)
     [ls_base_vault s,
      ls_quote_vault s,
      ls_base_mint s,
      ls_quote_mint s,
      ls_lp_mint s,
      ls_open_orders s,
      ls_market_id s,
      ls_market_program_id s,
      ls_target_orders s,
      ls_withdraw_queue s,
      ls_lp_vault s,
      ls_owner s]"

lemma LiquidityStateV4_round_trip:
  assumes "valid_liquidity_state s"
  shows "LiquidityStateV4_try_from_slice (LiquidityStateV4_try_to_vec s) = Some s"
proof -
  obtain a b c where p: "ls_padding s = [a, b, c]"
    using assms by (auto simp: valid_liquidity_state_def length_Suc_conv numeral_3_eq_3)
  have len: "length (LiquidityStateV4_try_to_vec s) = sum_list LiquidityStateV4_fields"
    using assms by (simp add: LiquidityStateV4_try_to_vec_def LiquidityStateV4_fields_def valid_liquidity_state_def p)
  show ?thesis
    unfolding LiquidityStateV4_try_from_slice_def len
    unfolding LiquidityStateV4_try_to_vec_def
    by (subst array_refs_concat)
      (use assms in \<open>simp_all add: LiquidityStateV4_fields_def valid_liquidity_state_def p\<close>)
qed

lemma SwapInstructionData_round_trip:
  "SwapInstructionData_try_from_slice (SwapInstructionData_try_to_vec d) = Some d"
  by (simp add: SwapInstructionData_try_from_slice_def SwapInstructionData_try_to_vec_def slice_def)

lemma make_swap_signers: "signers (make_swap_fixed_in_instruction params version) = [uk_owner (fp_user_keys params)]"
  by (simp add: signers_def make_swap_fixed_in_instruction_def account_meta_def account_meta_readonly_def Let_def)

end
