(* ===== verification/Build_Instructions.thy ===== *)
theory Build_Instructions
  imports Op_Cache Raydium_Sdk
begin

text \<open>
  \<open>executors/build_instructions.rs\<close>: how a queued action becomes the instructions of one transaction. The
  instruction builders of \<open>spl_token\<close>, \<open>spl_associated_token_account\<close> and the system program are fields of
  \<open>IxBuilders\<close>. The loop over the payloads threads the running balances of the source in a record. Amounts are
  \<open>u64\<close> and wrap around, as in the release profile. A \<open>HashSet\<close> of mints is a list without repetitions; no more
  than one element is ever read from it.
\<close>

section \<open>Parameters and results\<close>

record IxBuilders =
  ib_sol_transfer :: "pubkey \<Rightarrow> pubkey \<Rightarrow> u64 \<Rightarrow> Instruction"
  ib_create_ata :: "pubkey \<Rightarrow> pubkey \<Rightarrow> pubkey \<Rightarrow> pubkey \<Rightarrow> Instruction"
  ib_token_transfer ::
    "pubkey \<Rightarrow> pubkey \<Rightarrow> pubkey \<Rightarrow> pubkey \<Rightarrow> pubkey list \<Rightarrow> u64 \<Rightarrow> ProgramError + Instruction"
  ib_close_account :: "pubkey \<Rightarrow> pubkey \<Rightarrow> pubkey \<Rightarrow> pubkey \<Rightarrow> pubkey list \<Rightarrow> ProgramError + Instruction"
  ib_sync_native :: "pubkey \<Rightarrow> pubkey \<Rightarrow> ProgramError + Instruction"
  ib_key_to_string :: "pubkey \<Rightarrow> string"

datatype BuildError = ExecErr ExecutionError | ProgErr ProgramError

text \<open>The \<open>?\<close> operator: on the result of the function itself and on the result of an instruction builder.\<close>

definition andThen :: "'e + 'a \<Rightarrow> ('a \<Rightarrow> 'e + 'b) \<Rightarrow> 'e + 'b" where
  "andThen r f = (case r of Inl e \<Rightarrow> Inl e | Inr x \<Rightarrow> f x)"

definition built :: "ProgramError + Instruction \<Rightarrow> (Instruction \<Rightarrow> BuildError + 'b) \<Rightarrow> BuildError + 'b" where
  "built r f = (case r of Inl e \<Rightarrow> Inl (ProgErr e) | Inr x \<Rightarrow> f x)"

section \<open>Tokens of an action\<close>

definition token_used :: "SolanaActionPayload \<Rightarrow> pubkey option" where
  "token_used s =
     (case s of
        SolanaTransferActionPayload transfer \<Rightarrow>
          (case tp_asset transfer of Token token_pubkey \<Rightarrow> Some token_pubkey | Sol \<Rightarrow> None)
      | SolanaSwapActionPayload swap \<Rightarrow>
          (if lk_base_mint (sp_keys swap) \<noteq> WSOL_MINT_PUBKEY
           then Some (lk_base_mint (sp_keys swap)) else Some (lk_quote_mint (sp_keys swap))))"

definition get_tokens_used_in_tx :: "SolanaAction \<Rightarrow> pubkey list" where
  "get_tokens_used_in_tx action = remdups (List.map_filter token_used (sa_action_payload action))"

section \<open>One payload\<close>

text \<open>What a step reads: the parties, the accounts, the balances and the fee at the start.\<close>

record BuildCtx =
  bx_ext :: external
  bx_ib :: IxBuilders
  bx_context :: Context
  bx_sniper :: pubkey
  bx_fee_payer :: pubkey
  bx_token_mint :: pubkey
  bx_sol_balance :: u64
  bx_tx_fee :: u64

record Pointers =
  pt_sol_balance :: u64
  pt_tx_fee :: u64
  pt_token_balance :: u64
  pt_min_sol_to_keep_after :: u64

definition sniper_token_ata :: "BuildCtx \<Rightarrow> pubkey" where
  "sniper_token_ata bx = ext_ata (bx_ext bx) (bx_sniper bx) (bx_token_mint bx)"

definition sniper_wsol_ata :: "BuildCtx \<Rightarrow> pubkey" where
  "sniper_wsol_ata bx = ext_ata (bx_ext bx) (bx_sniper bx) WSOL_MINT_PUBKEY"

text \<open>A step is \<open>None\<close> or the instructions, the cost in lamports, the cost in tokens and the lamports to keep.\<close>

type_synonym step_result = "BuildError + (Instruction list \<times> u64 \<times> u64 \<times> u64) option"

definition transfer_sol_step :: "BuildCtx \<Rightarrow> Pointers \<Rightarrow> TransferPayload \<Rightarrow> step_result" where
  "transfer_sol_step bx pt transfer =
     (let ix = ib_sol_transfer (bx_ib bx) (bx_sniper bx) (tp_receiver transfer)
      in case tp_amount transfer of
           Exact amount \<Rightarrow>
             Inr (if amount > 0 then Some ([ix amount], amount + pt_tx_fee pt, 0, 0) else None)
         | ExactWithFees amount \<Rightarrow>
             Inr (if amount > 0 then
                    (let amt_to_transfer = amount - pt_tx_fee pt
                     in Some ([ix amt_to_transfer], amt_to_transfer + pt_tx_fee pt, 0, 0))
                  else None)
         | Amount_Max \<Rightarrow>
             Inr (Some ([ix (bx_sol_balance bx)], pt_sol_balance pt - pt_tx_fee pt, 0, 0))
         | MaxAndClose \<Rightarrow>
             Inr (Some ([ix (bx_sol_balance bx)], pt_sol_balance pt - pt_tx_fee pt, 0, 0))
         | MaxButLeaveForTransfer \<Rightarrow>
             Inr (if pt_sol_balance pt > bx_tx_fee bx + pt_tx_fee pt then
                    (let amt_to_transfer = pt_sol_balance pt - bx_tx_fee bx - pt_tx_fee pt
                     in Some ([ix amt_to_transfer], amt_to_transfer + pt_tx_fee pt, 0, bx_tx_fee bx))
                  else None))"

text \<open>The amount of a token payload: what it says, or all of the running balance.\<close>

definition token_amount_of :: "Amount \<Rightarrow> u64 \<Rightarrow> u64" where
  "token_amount_of amount token_balance_pointer =
     (case amount of Exact a \<Rightarrow> a | ExactWithFees a \<Rightarrow> a | _ \<Rightarrow> token_balance_pointer)"

definition transfer_token_step ::
  "BuildCtx \<Rightarrow> Pointers \<Rightarrow> pubkey \<Rightarrow> TransferPayload \<Rightarrow> step_result" where
  "transfer_token_step bx pt token_pubkey transfer =
     (let ib = bx_ib bx;
          receiver_ata = ext_ata (bx_ext bx) (tp_receiver transfer) (bx_token_mint bx);
          token_amt = token_amount_of (tp_amount transfer) (pt_token_balance pt);
          creates = \<not> is_account_exist receiver_ata (bx_context bx)
      in if token_amt > 0 then
           built (ib_token_transfer ib TOKEN_PROGRAM_ID (sniper_token_ata bx) receiver_ata (bx_sniper bx) []
                    token_amt) (\<lambda>transfer_ix.
             (let ixs = (if creates then [ib_create_ata ib (bx_fee_payer bx) (tp_receiver transfer) token_pubkey
                           TOKEN_PROGRAM_ID] else []) @ [transfer_ix];
                  sol_to_budget = (if creates then RENT_EXEMPTION_THRESHOLD_SOL else 0)
              in if tp_amount transfer = MaxAndClose then
                   built (ib_close_account ib TOKEN_PROGRAM_ID (sniper_token_ata bx) (bx_fee_payer bx)
                            (bx_sniper bx) []) (\<lambda>close_ix.
                     Inr (Some (ixs @ [close_ix], sol_to_budget, token_amt, 0)))
                 else Inr (Some (ixs, sol_to_budget, token_amt, 0))))
         else Inr None)"

text \<open>The accounts of the swap: in and out are exchanged when wrapped SOL is the base.\<close>

definition swap_user_keys :: "BuildCtx \<Rightarrow> SwapPayload \<Rightarrow> UserKeys" where
  "swap_user_keys bx swap =
     (case sp_swap_method swap of
        BuyTokensForExactSol \<Rightarrow>
          (if lk_base_mint (sp_keys swap) = WSOL_MINT_PUBKEY
           then UserKeys_new (sniper_token_ata bx) (sniper_wsol_ata bx) (bx_sniper bx)
           else UserKeys_new (sniper_wsol_ata bx) (sniper_token_ata bx) (bx_sniper bx))
      | SellExactTokensForSol \<Rightarrow>
          (if lk_base_mint (sp_keys swap) = WSOL_MINT_PUBKEY
           then UserKeys_new (sniper_wsol_ata bx) (sniper_token_ata bx) (bx_sniper bx)
           else UserKeys_new (sniper_token_ata bx) (sniper_wsol_ata bx) (bx_sniper bx)))"

definition missing_ata_fee :: "BuildCtx \<Rightarrow> pubkey \<Rightarrow> u64" where
  "missing_ata_fee bx ata = (if \<not> is_account_exist ata (bx_context bx) then RENT_EXEMPTION_THRESHOLD_SOL else 0)"

definition buy_amount_in :: "BuildCtx \<Rightarrow> Pointers \<Rightarrow> Amount \<Rightarrow> BuildError + u64" where
  "buy_amount_in bx pt amount_in =
     (let ata_creation_fee = missing_ata_fee bx (sniper_token_ata bx);
          wsol_ata_creation_fee_reimbursed = missing_ata_fee bx (sniper_wsol_ata bx)
      in case amount_in of
           Exact amount \<Rightarrow> Inr amount
         | ExactWithFees amount \<Rightarrow>
             (let fees = pt_tx_fee pt + ata_creation_fee + wsol_ata_creation_fee_reimbursed
              in if amount > pt_sol_balance pt
                 then Inl (ExecErr (NotEnoughSolBalance amount (pt_sol_balance pt)))
                 else Inr (amount - fees))
         | Amount_Max \<Rightarrow>
             (let amt_needed = pt_tx_fee pt + ata_creation_fee + wsol_ata_creation_fee_reimbursed
              in if amt_needed > pt_sol_balance pt
                 then Inl (ExecErr (NotEnoughSolBalance amt_needed (pt_sol_balance pt)))
                 else Inr (pt_sol_balance pt - amt_needed))
         | MaxButLeaveForTransfer \<Rightarrow>
             (let amt_needed = pt_tx_fee pt + bx_tx_fee bx + ata_creation_fee + wsol_ata_creation_fee_reimbursed
              in if amt_needed > pt_sol_balance pt
                 then Inl (ExecErr (NotEnoughSolBalance amt_needed (pt_sol_balance pt)))
                 else Inr (pt_sol_balance pt - amt_needed))
         | MaxAndClose \<Rightarrow> Inr (pt_sol_balance pt))"

definition create_missing_ata :: "BuildCtx \<Rightarrow> pubkey \<Rightarrow> pubkey \<Rightarrow> Instruction list" where
  "create_missing_ata bx ata mint =
     (if \<not> is_account_exist ata (bx_context bx)
      then [ib_create_ata (bx_ib bx) (bx_fee_payer bx) (bx_sniper bx) mint TOKEN_PROGRAM_ID] else [])"

definition swap_ix :: "BuildCtx \<Rightarrow> SwapPayload \<Rightarrow> u64 \<Rightarrow> u64 \<Rightarrow> Instruction" where
  "swap_ix bx swap amount_in min_amount_out =
     make_swap_fixed_in_instruction
       (LiquiditySwapFixedInInstructionParamsV4_new (sp_keys swap) (swap_user_keys bx swap) amount_in min_amount_out)
       (lk_version (sp_keys swap))"

definition close_wsol :: "BuildCtx \<Rightarrow> ProgramError + Instruction" where
  "close_wsol bx =
     ib_close_account (bx_ib bx) TOKEN_PROGRAM_ID (sniper_wsol_ata bx) (bx_fee_payer bx) (bx_sniper bx) []"

definition buy_step :: "BuildCtx \<Rightarrow> Pointers \<Rightarrow> SwapPayload \<Rightarrow> step_result" where
  "buy_step bx pt swap =
     andThen (buy_amount_in bx pt (sp_amount_in swap)) (\<lambda>swap_sol_amount_in.
       if swap_sol_amount_in > 0 then
         built (ib_sync_native (bx_ib bx) TOKEN_PROGRAM_ID (sniper_wsol_ata bx)) (\<lambda>sync_ix.
         built (close_wsol bx) (\<lambda>close_ix.
           Inr (Some
             (create_missing_ata bx (sniper_token_ata bx) (bx_token_mint bx)
              @ create_missing_ata bx (sniper_wsol_ata bx) WSOL_MINT_PUBKEY
              @ [ib_sol_transfer (bx_ib bx) (bx_sniper bx) (sniper_wsol_ata bx) swap_sol_amount_in,
                 sync_ix, swap_ix bx swap swap_sol_amount_in 0, close_ix],
              swap_sol_amount_in + missing_ata_fee bx (sniper_token_ata bx), 0,
              RENT_EXEMPTION_THRESHOLD_SOL))))
       else Inr None)"

definition sell_step :: "BuildCtx \<Rightarrow> Pointers \<Rightarrow> SwapPayload \<Rightarrow> step_result" where
  "sell_step bx pt swap =
     (let amount_in = token_amount_of (sp_amount_in swap) (pt_token_balance pt)
      in if amount_in > 0 then
           built (ib_sync_native (bx_ib bx) TOKEN_PROGRAM_ID (sniper_wsol_ata bx)) (\<lambda>sync_ix.
           built (close_wsol bx) (\<lambda>close_ix.
             Inr (Some
               (create_missing_ata bx (sniper_wsol_ata bx) WSOL_MINT_PUBKEY
                @ [sync_ix, swap_ix bx swap amount_in (sp_min_amount_out swap), close_ix],
                0, amount_in, 0))))
         else Inr None)"

definition build_step :: "BuildCtx \<Rightarrow> Pointers \<Rightarrow> SolanaActionPayload \<Rightarrow> step_result" where
  "build_step bx pt step =
     (case step of
        SolanaTransferActionPayload transfer \<Rightarrow>
          (case tp_asset transfer of
             Sol \<Rightarrow> transfer_sol_step bx pt transfer
           | Token token_pubkey \<Rightarrow> transfer_token_step bx pt token_pubkey transfer)
      | SolanaSwapActionPayload swap \<Rightarrow>
          (if \<not> (lk_base_mint (sp_keys swap) \<noteq> WSOL_MINT_PUBKEY \<and> lk_quote_mint (sp_keys swap) = WSOL_MINT_PUBKEY)
           then Inl (ExecErr (UnsupportedPool (ib_key_to_string (bx_ib bx) (lk_base_mint (sp_keys swap)))
                  (ib_key_to_string (bx_ib bx) (lk_quote_mint (sp_keys swap)))))
           else
             (case sp_swap_method swap of
                BuyTokensForExactSol \<Rightarrow> buy_step bx pt swap
              | SellExactTokensForSol \<Rightarrow> sell_step bx pt swap)))"

section \<open>The loop\<close>

definition charge :: "BuildCtx \<Rightarrow> u64 \<Rightarrow> u64 \<Rightarrow> u64 \<Rightarrow> Pointers \<Rightarrow> Pointers" where
  "charge bx sol_cost token_cost min_sol_to_keep_after pt =
     (let pt1 = (if pt_tx_fee pt > 0
                 then pt\<lparr> pt_tx_fee := 0, pt_sol_balance := pt_sol_balance pt - bx_tx_fee bx \<rparr> else pt)
      in pt1\<lparr> pt_sol_balance :=
                (if sol_cost < pt_sol_balance pt1 then pt_sol_balance pt1 - sol_cost else 0),
              pt_token_balance := pt_token_balance pt1 - token_cost,
              pt_min_sol_to_keep_after := pt_min_sol_to_keep_after pt1 + min_sol_to_keep_after \<rparr>)"

text \<open>The initial token balance is reported by the error of the check.\<close>

fun build_loop ::
  "BuildCtx \<Rightarrow> u64 \<Rightarrow> Pointers \<Rightarrow> SolanaActionPayload list \<Rightarrow> BuildError + Instruction list" where
  "build_loop bx token_balance pt [] = Inr []"
| "build_loop bx token_balance pt (step # steps) =
     andThen (build_step bx pt step) (\<lambda>r.
       case r of
         None \<Rightarrow> build_loop bx token_balance pt steps
       | Some (step_ixs, sol_cost, token_cost, min_sol_to_keep_after) \<Rightarrow>
           (if token_cost > pt_token_balance pt
            then Inl (ExecErr (NotEnoughTokenBalance (token_cost + pt_token_balance pt) token_balance))
            else
              andThen (build_loop bx token_balance (charge bx sol_cost token_cost min_sol_to_keep_after pt) steps)
                (\<lambda>ixs. Inr (step_ixs @ ixs))))"

definition tx_fee_of :: "u64 \<Rightarrow> u32 \<Rightarrow> u64" where
  "tx_fee_of price_per_cu_microlamports compute_units_per_tx =
     BASE_TX_FEE_SOL + (price_per_cu_microlamports * ucast compute_units_per_tx) div 1000000 + 1"

definition build_instructions ::
  "external \<Rightarrow> IxBuilders \<Rightarrow> SolanaAction \<Rightarrow> u64 \<Rightarrow> u32 \<Rightarrow> Context
     \<Rightarrow> (BuildError + Balance \<times> Instruction list) \<times> Context" where
  "build_instructions ext ib action price_per_cu_microlamports compute_units_per_tx ctx =
     (let sniper_pubkey = sa_sniper action;
          (sol, ctx1) = get_balance ext sniper_pubkey ctx;
          sol_balance = unwrap_or_0 sol
      in if sol_balance = 0 then (Inl (ExecErr ZeroSolBalance), ctx1)
         else
           (let tokens = get_tokens_used_in_tx action
            in if length tokens > 1 then (Inl (ExecErr SeveralTokensInOneTx), ctx1)
               else
                 (let token_mint = (case tokens of [] \<Rightarrow> replicate 32 0 | t # _ \<Rightarrow> t);
                      (tok, ctx2) = get_token_balance ext sniper_pubkey token_mint ctx1;
                      token_balance = unwrap_or_0 tok;
                      tx_fee = tx_fee_of price_per_cu_microlamports compute_units_per_tx
                  in if sol_balance < tx_fee
                     then (Inl (ExecErr (NotEnoughSolBalance tx_fee sol_balance)), ctx2)
                     else
                       (let balance_before = \<lparr> bal_sol = sol_balance,
                              bal_token = (\<lambda>t. if t \<in> set tokens then Some token_balance else None) \<rparr>;
                            bx = \<lparr> bx_ext = ext, bx_ib = ib, bx_context = ctx2, bx_sniper = sniper_pubkey,
                                   bx_fee_payer = sa_fee_payer action, bx_token_mint = token_mint,
                                   bx_sol_balance = sol_balance, bx_tx_fee = tx_fee \<rparr>;
                            pt = \<lparr> pt_sol_balance = sol_balance, pt_tx_fee = tx_fee,
                                   pt_token_balance = token_balance, pt_min_sol_to_keep_after = 0 \<rparr>
                        in (andThen (build_loop bx token_balance pt (sa_action_payload action))
                              (\<lambda>ixs. Inr (balance_before, ixs)), ctx2)))))"

section \<open>Compute units\<close>

definition ESTIMATE_CU_PER_COMPUTE_BUDGET_INSTRUCTION :: u32 where
  "ESTIMATE_CU_PER_COMPUTE_BUDGET_INSTRUCTION = 300"
definition ESTIMATE_CU_SOL_TRANSFER :: u32 where "ESTIMATE_CU_SOL_TRANSFER = 150"
definition ESTIMATE_CU_SPL_TOKEN_TRANSFER :: u32 where "ESTIMATE_CU_SPL_TOKEN_TRANSFER = 35000"
definition ESTIMATE_CU_BUY_SPL_RAYDIUM_V4 :: u32 where "ESTIMATE_CU_BUY_SPL_RAYDIUM_V4 = 80000"

definition cu_of_step :: "SolanaActionPayload \<Rightarrow> u32" where
  "cu_of_step s =
     (case s of
        SolanaTransferActionPayload transfer \<Rightarrow>
          (case tp_asset transfer of
             Sol \<Rightarrow> ESTIMATE_CU_SOL_TRANSFER | Token _ \<Rightarrow> ESTIMATE_CU_SPL_TOKEN_TRANSFER)
      | SolanaSwapActionPayload swap \<Rightarrow>
          (case sp_swap_method swap of
             BuyTokensForExactSol \<Rightarrow> ESTIMATE_CU_BUY_SPL_RAYDIUM_V4 + ESTIMATE_CU_SPL_TOKEN_TRANSFER
           | SellExactTokensForSol \<Rightarrow> ESTIMATE_CU_BUY_SPL_RAYDIUM_V4))"

definition estimate_cu_per_tx :: "SolanaAction \<Rightarrow> u32" where
  "estimate_cu_per_tx action =
     sum_list (map cu_of_step (sa_action_payload action)) + ESTIMATE_CU_PER_COMPUTE_BUDGET_INSTRUCTION"

end
