(* ===== verification/Rpc_Pool.thy ===== *)
theory Rpc_Pool
  imports Op_Cache Raydium_Sdk Decimals
begin

text \<open>
  \<open>solana/rpc_pool.rs\<close>: the pool of RPC providers. A provider is a record with the answers of its node, which
  is third-party code; an error carries its text and whether it is the transaction error \<open>AccountNotFound\<close>. The
  providers are a list in the iteration order of the map. A call ends with a value, an error or a panic
  (\<open>unwrap\<close>). \<open>num_traits::checked_pow\<close>, the base 58 constants of \<open>Pubkey::from_str\<close> apart, and the token mint
  decoder of \<open>spl_token\<close> are arguments.
\<close>

section \<open>Results\<close>

datatype 'a rpc = ROk 'a | RErr AccountError | RPanic

primrec rbind :: "'a rpc \<Rightarrow> ('a \<Rightarrow> 'b rpc) \<Rightarrow> 'b rpc" where
  "rbind (ROk x) f = f x"
| "rbind (RErr e) f = RErr e"
| "rbind RPanic f = RPanic"

text \<open>\<open>unwrap\<close> on an option, and on the result of a checked routine.\<close>

definition runwrap :: "'a option \<Rightarrow> 'a rpc" where
  "runwrap v = (case v of Some x \<Rightarrow> ROk x | None \<Rightarrow> RPanic)"

definition of_result :: "'a result \<Rightarrow> 'a rpc" where
  "of_result r = (case r of Ok x \<Rightarrow> ROk x | _ \<Rightarrow> RPanic)"

section \<open>Providers\<close>

record rpc_error =
  re_text :: string
  re_is_account_not_found :: bool

text \<open>A transaction is its serialised form.\<close>

type_synonym Transaction = bytes

record SimulationResult =
  sim_err :: "string option"
  sim_units_consumed :: "u64 option"

record PrioritizationFee =
  pf_slot :: u64
  pf_prioritization_fee :: u64

record RpcClient =
  rc_get_balance :: "pubkey \<Rightarrow> rpc_error + u64"
  rc_get_account :: "pubkey \<Rightarrow> rpc_error + SdkAccount"
  rc_get_account_data :: "pubkey \<Rightarrow> rpc_error + bytes"
  rc_get_token_account_balance :: "pubkey \<Rightarrow> rpc_error + string"
  rc_simulate_transaction :: "Transaction \<Rightarrow> rpc_error + SimulationResult"
  rc_send_transaction :: "Transaction \<Rightarrow> nat \<Rightarrow> rpc_error + unit"
  rc_get_signature_status :: "signature \<Rightarrow> rpc_error + (TransactionError + unit) option"
  rc_get_recent_prioritization_fees :: "rpc_error + PrioritizationFee list"

type_synonym RpcClientPool = "(string \<times> RpcClient) list"

definition get_a_client :: "RpcClientPool \<Rightarrow> RpcClient option" where
  "get_a_client clients = (case clients of [] \<Rightarrow> None | (_, client) # _ \<Rightarrow> Some client)"

fun execute_rpc_method_consequently_till_first_success ::
  "RpcClientPool \<Rightarrow> (RpcClient \<Rightarrow> rpc_error + 'a) \<Rightarrow> 'a rpc" where
  "execute_rpc_method_consequently_till_first_success [] meth =
     RErr (OtherError ''Failed to execute method on all providers'')"
| "execute_rpc_method_consequently_till_first_success ((provider_name, client) # clients) meth =
     (case meth client of
        Inr result \<Rightarrow> ROk result
      | Inl e \<Rightarrow>
          (if not_found (re_text e) then RErr AccountNotFound
           else execute_rpc_method_consequently_till_first_success clients meth))"

text \<open>All providers at once: \<open>select_ok\<close> over the join handles returns the first task that does not panic, whose
  own error is then the error of the call; \<open>order\<close> lists the answers in the order of their arrival.\<close>

definition execute_rpc_method_simultaneously_till_first_success ::
  "(RpcClientPool \<Rightarrow> RpcClient list) \<Rightarrow> RpcClientPool \<Rightarrow> (RpcClient \<Rightarrow> rpc_error + 'a) \<Rightarrow> 'a rpc" where
  "execute_rpc_method_simultaneously_till_first_success order clients meth =
     (case order clients of
        [] \<Rightarrow> RErr (OtherError ''Failed to execute method on all providers'')
      | client # _ \<Rightarrow>
          (case meth client of Inr result \<Rightarrow> ROk result | Inl e \<Rightarrow> RErr (OtherError (re_text e))))"

section \<open>Calls\<close>

definition pool_get_balance :: "RpcClientPool \<Rightarrow> pubkey \<Rightarrow> u64 rpc" where
  "pool_get_balance clients pubkey =
     execute_rpc_method_consequently_till_first_success clients (\<lambda>client. rc_get_balance client pubkey)"

definition get_balance_ui :: "RpcClientPool \<Rightarrow> pubkey \<Rightarrow> f64 rpc" where
  "get_balance_ui clients pubkey =
     rbind (pool_get_balance clients pubkey) (\<lambda>balance. ROk (lamports_to_sol balance))"

definition pool_get_account :: "RpcClientPool \<Rightarrow> pubkey \<Rightarrow> SdkAccount rpc" where
  "pool_get_account clients pubkey =
     execute_rpc_method_consequently_till_first_success clients (\<lambda>client. rc_get_account client pubkey)"

definition get_account_data :: "RpcClientPool \<Rightarrow> pubkey \<Rightarrow> bytes rpc" where
  "get_account_data clients pubkey =
     execute_rpc_method_consequently_till_first_success clients (\<lambda>client. rc_get_account_data client pubkey)"

text \<open>The amount of a \<open>UiTokenAmount\<close>, a decimal string.\<close>

definition get_token_account_balance_ui :: "RpcClientPool \<Rightarrow> pubkey \<Rightarrow> string rpc" where
  "get_token_account_balance_ui clients pubkey =
     execute_rpc_method_consequently_till_first_success clients
       (\<lambda>client. rc_get_token_account_balance client pubkey)"

text \<open>\<open>str::parse::<u64>\<close>: an optional plus sign, at least one decimal digit, no overflow.\<close>

definition digit :: "char \<Rightarrow> nat option" where
  "digit c = (let n = of_char c in if 48 \<le> n \<and> n \<le> 57 then Some (n - 48) else None)"

fun parse_digits :: "nat \<Rightarrow> string \<Rightarrow> nat option" where
  "parse_digits acc [] = Some acc"
| "parse_digits acc (c # cs) =
     (case digit c of
        None \<Rightarrow> None
      | Some d \<Rightarrow> (let acc' = acc * 10 + d in if acc' < 2 ^ 64 then parse_digits acc' cs else None))"

definition parse_u64 :: "string \<Rightarrow> u64 option" where
  "parse_u64 s =
     (let digits = (case s of c # cs \<Rightarrow> if c = CHR ''+'' then cs else s | [] \<Rightarrow> [])
      in if digits = [] then None else map_option of_nat (parse_digits 0 digits))"

definition pool_get_token_balance :: "external \<Rightarrow> RpcClientPool \<Rightarrow> pubkey \<Rightarrow> pubkey \<Rightarrow> u64 rpc" where
  "pool_get_token_balance ext clients sniper_pubkey token_mint =
     (let token_ata = ext_ata ext sniper_pubkey token_mint
      in rbind (get_token_account_balance_ui clients token_ata) (\<lambda>amount.
           case parse_u64 amount of
             Some b \<Rightarrow> ROk b
           | None \<Rightarrow> RErr (OtherError ''invalid digit found in string'')))"

definition account_exists :: "RpcClientPool \<Rightarrow> pubkey \<Rightarrow> bool rpc" where
  "account_exists clients pubkey =
     execute_rpc_method_consequently_till_first_success clients (\<lambda>client.
       case rc_get_account client pubkey of
         Inr _ \<Rightarrow> Inr True
       | Inl e \<Rightarrow>
           (if re_is_account_not_found e then Inr False
            else if not_found (re_text e) then Inr False
            else Inl e))"

definition simulate_tx :: "RpcClientPool \<Rightarrow> Transaction \<Rightarrow> SimulationResult rpc" where
  "simulate_tx clients tx =
     rbind (execute_rpc_method_consequently_till_first_success clients
              (\<lambda>client. rc_simulate_transaction client tx)) (\<lambda>res.
       case sim_err res of
         Some err \<Rightarrow> RErr (OtherError (''Simulation failed: '' @ err))
       | None \<Rightarrow> ROk res)"

section \<open>Sending\<close>

text \<open>One provider: three attempts.\<close>

definition MAX_RETRIES :: nat where "MAX_RETRIES = 3"

function send_attempts :: "(nat \<Rightarrow> rpc_error + unit) \<Rightarrow> nat \<Rightarrow> (rpc_error + unit) \<times> nat" where
  "send_attempts send attempts =
     (case send attempts of
        Inr _ \<Rightarrow> (Inr (), attempts + 1)
      | Inl e \<Rightarrow>
          (if attempts + 1 \<ge> MAX_RETRIES then (Inl e, attempts + 1)
           else send_attempts send (attempts + 1)))"
  by pat_completeness auto

termination send_attempts
  by (relation "measure (\<lambda>(_, attempts). MAX_RETRIES - attempts)") auto

declare send_attempts.simps [simp del]

text \<open>The results of all providers are joined, then searched in order.\<close>

definition send_tx_to_all_providers :: "RpcClientPool \<Rightarrow> Transaction \<Rightarrow> unit rpc" where
  "send_tx_to_all_providers clients tx =
     (let results = map (\<lambda>(_, client). fst (send_attempts (rc_send_transaction client tx) 0)) clients
      in if list_ex (\<lambda>r. r = Inr ()) results then ROk ()
         else RErr (OtherError ''Failed to send transaction with all providers''))"

section \<open>Pools\<close>

definition pool_vaults :: "LiquidityStateV4 \<Rightarrow> (pubkey \<times> u8) \<times> (pubkey \<times> u8)" where
  "pool_vaults market =
     (if ls_base_mint market = WSOL_MINT_PUBKEY
      then ((ls_base_vault market, ucast (ls_base_decimal market)),
            (ls_quote_vault market, ucast (ls_quote_decimal market)))
      else ((ls_quote_vault market, ucast (ls_quote_decimal market)),
            (ls_base_vault market, ucast (ls_base_decimal market))))"

definition get_pool_reserves_f64 ::
  "(u64 \<Rightarrow> nat \<Rightarrow> u64 option) \<Rightarrow> RpcClientPool \<Rightarrow> pubkey \<Rightarrow> (f64 \<times> f64) rpc" where
  "get_pool_reserves_f64 num_checked_pow clients pool_lp =
     rbind (pool_get_account clients pool_lp) (\<lambda>account.
     rbind (runwrap (LiquidityStateV4_try_from_slice (sdk_data account))) (\<lambda>market.
       (let ((quote_vault, quote_decimal), (base_vault, base_decimal)) = pool_vaults market
        in rbind (get_token_account_balance_ui clients base_vault) (\<lambda>a.
           rbind (runwrap (parse_u64 a)) (\<lambda>token_a_balance.
           rbind (get_token_account_balance_ui clients quote_vault) (\<lambda>b.
           rbind (runwrap (parse_u64 b)) (\<lambda>token_b_balance.
           rbind (of_result (tokens_to_ui_amount_with_decimals_f64 num_checked_pow token_a_balance base_decimal))
             (\<lambda>base.
           rbind (of_result (tokens_to_ui_amount_with_decimals_f64 num_checked_pow token_b_balance quote_decimal))
             (\<lambda>quote. ROk (base, quote))))))))))"

definition get_pool_price ::
  "(u64 \<Rightarrow> nat \<Rightarrow> u64 option) \<Rightarrow> datetime \<Rightarrow> RpcClientPool \<Rightarrow> pubkey \<Rightarrow> RaydiumPoolPriceUpdate rpc" where
  "get_pool_price num_checked_pow now clients pool_lp =
     rbind (get_pool_reserves_f64 num_checked_pow clients pool_lp) (\<lambda>(reserve_base, reserve_quote).
       ROk \<lparr> pu_pool = pool_lp, pu_price = f64_div reserve_quote reserve_base, pu_base_reserve = reserve_base,
             pu_quote_reserve = reserve_quote, pu_created_at = now \<rparr>)"

definition get_pool_details :: "RpcClientPool \<Rightarrow> pubkey \<Rightarrow> RaydiumPool rpc" where
  "get_pool_details clients pool_pubkey =
     rbind (get_account_data clients pool_pubkey) (\<lambda>account_data.
     rbind (runwrap (LiquidityStateV4_try_from_slice account_data)) (\<lambda>amm_info_data.
       ROk \<lparr> rp_id = pool_pubkey, rp_base_mint = ls_base_mint amm_info_data,
             rp_quote_mint = ls_quote_mint amm_info_data, rp_lp_mint = ls_lp_mint amm_info_data,
             rp_base_decimals = ucast (ls_base_decimal amm_info_data),
             rp_quote_decimals = ucast (ls_quote_decimal amm_info_data), rp_lp_decimals = 0, rp_version = 3,
             rp_program_id = RAYDIUM_V4_PROGRAM_ID, rp_authority = RAYDIUM_V4_AUTHORITY,
             rp_open_orders = ls_open_orders amm_info_data, rp_target_orders = ls_target_orders amm_info_data,
             rp_base_vault = ls_base_vault amm_info_data, rp_quote_vault = ls_quote_vault amm_info_data,
             rp_withdraw_queue = ls_withdraw_queue amm_info_data, rp_lp_vault = ls_lp_vault amm_info_data,
             rp_market_version = 3, rp_market_program_id = ls_market_program_id amm_info_data,
             rp_market_id = ls_market_id amm_info_data, rp_lp_reserve = 0, rp_open_time = 0,
             rp_reverse_pool = False, rp_freeze_authority = None \<rparr>))"

definition is_valid_raydium_pool ::
  "(u64 \<Rightarrow> nat \<Rightarrow> u64 option) \<Rightarrow> RpcClientPool \<Rightarrow> pubkey \<Rightarrow> bool rpc" where
  "is_valid_raydium_pool num_checked_pow clients pubkey =
     (case pool_get_account clients pubkey of
        ROk account \<Rightarrow>
          (if sdk_owner account = RAYDIUM_V4_PROGRAM_ID then
             (case get_pool_details clients pubkey of
                ROk pool \<Rightarrow>
                  (case get_pool_reserves_f64 num_checked_pow clients pubkey of
                     ROk (reserve_base, reserve_quote) \<Rightarrow>
                       ROk (f64_gt reserve_base (f64_of_nat 0) \<and> f64_gt reserve_quote (f64_of_nat 0) \<and>
                            (rp_base_mint pool = WSOL_MINT_PUBKEY \<or> rp_quote_mint pool = WSOL_MINT_PUBKEY))
                   | _ \<Rightarrow> RPanic)
              | RErr _ \<Rightarrow> ROk False
              | RPanic \<Rightarrow> RPanic)
           else ROk False)
      | RErr _ \<Rightarrow> ROk False
      | RPanic \<Rightarrow> RPanic)"

definition get_signature_status ::
  "RpcClientPool \<Rightarrow> signature \<Rightarrow> ((TransactionError + unit) option) rpc" where
  "get_signature_status clients sgnt =
     execute_rpc_method_consequently_till_first_success clients (\<lambda>client. rc_get_signature_status client sgnt)"

section \<open>Fees\<close>

text \<open>\<open>x.round() as usize\<close>: half away from zero, then a saturating cast.\<close>

definition f64_round_as_usize :: "f64 \<Rightarrow> usize" where
  "f64_round_as_usize x =
     (case f64_decode x of
        NaN \<Rightarrow> 0
      | Inf neg \<Rightarrow> if neg then 0 else 2 ^ 64 - 1
      | Num neg m e \<Rightarrow>
          if neg then 0
          else (let (n, d) = scale e (m, 1) in min ((2 * n + d) div (2 * d)) (2 ^ 64 - 1)))"

definition percentile_index :: "nat \<Rightarrow> nat \<Rightarrow> usize" where
  "percentile_index p len =
     f64_round_as_usize (f64_mul (f64_div (f64_of_nat p) (f64_of_nat 100)) (f64_of_nat len))"

text \<open>Indexing out of range panics; the map of all percentiles is built before one is read.\<close>

fun percentile_list :: "u64 list \<Rightarrow> nat list \<Rightarrow> (nat \<times> u64) list option" where
  "percentile_list sorted_fees [] = Some []"
| "percentile_list sorted_fees (p # ps) =
     (let i = percentile_index p (length sorted_fees) - 1
      in if i < length sorted_fees then
           map_option (Cons (p, sorted_fees ! i)) (percentile_list sorted_fees ps)
         else None)"

definition calculate_percentiles :: "u64 list \<Rightarrow> (nat \<times> u64) list option" where
  "calculate_percentiles fees = percentile_list (sort fees) [10, 25, 50, 60, 70, 75, 80, 85, 90, 100]"

fun fee_chunks :: "nat \<Rightarrow> 'a list \<Rightarrow> 'a list list" where
  "fee_chunks n [] = []"
| "fee_chunks n (x # xs) = (if n = 0 then [] else take n (x # xs) # fee_chunks n (drop n (x # xs)))"

text \<open>Every chunk replaces the percentiles of the one before it.\<close>

fun last_percentiles :: "PrioritizationFee list list \<Rightarrow> (nat \<times> u64) list \<Rightarrow> (nat \<times> u64) list option" where
  "last_percentiles [] percentiles = Some percentiles"
| "last_percentiles (chunk # chunks) percentiles =
     Option.bind (calculate_percentiles (map pf_prioritization_fee chunk)) (last_percentiles chunks)"

definition get_median_recent_prioritization_fees :: "RpcClientPool \<Rightarrow> u64 rpc" where
  "get_median_recent_prioritization_fees clients =
     rbind (execute_rpc_method_consequently_till_first_success clients rc_get_recent_prioritization_fees)
       (\<lambda>recent_prioritization_fees.
         let sorted_fees = sort_key (\<lambda>f. - int (unat (pf_slot f))) recent_prioritization_fees;
             chunks = take 3 (fee_chunks 150 sorted_fees)
         in rbind (runwrap (last_percentiles chunks [])) (\<lambda>percentiles.
              ROk (case map_of percentiles 75 of Some fee \<Rightarrow> fee | None \<Rightarrow> 0)))"

section \<open>Mints\<close>

text \<open>The mint of \<open>spl_token\<close>, of which the pool reads the authorities.\<close>

record Mint =
  mint_mint_authority :: "pubkey option"
  mint_freeze_authority :: "pubkey option"

definition has_authority :: "pubkey option \<Rightarrow> bool" where
  "has_authority a = (case a of Some authority \<Rightarrow> authority \<noteq> replicate 32 0 | None \<Rightarrow> False)"

definition is_freezable_by_account_data :: "(bytes \<Rightarrow> Mint option) \<Rightarrow> bytes \<Rightarrow> bool rpc" where
  "is_freezable_by_account_data mint_unpack account_data =
     (case mint_unpack account_data of
        None \<Rightarrow> RErr (OtherError ''Failed to unpack Mint data'')
      | Some mint \<Rightarrow> ROk (has_authority (mint_freeze_authority mint)))"

definition is_freezable :: "(bytes \<Rightarrow> Mint option) \<Rightarrow> RpcClientPool \<Rightarrow> pubkey \<Rightarrow> bool rpc" where
  "is_freezable mint_unpack clients token_mint =
     rbind (get_account_data clients token_mint) (is_freezable_by_account_data mint_unpack)"

definition is_mintable_by_account_data :: "(bytes \<Rightarrow> Mint option) \<Rightarrow> bytes \<Rightarrow> bool rpc" where
  "is_mintable_by_account_data mint_unpack account_data =
     (case mint_unpack account_data of
        None \<Rightarrow> RErr (OtherError ''Failed to unpack Mint data'')
      | Some mint \<Rightarrow> ROk (has_authority (mint_mint_authority mint)))"

text \<open>A provider that answers every call, for the examples.\<close>

definition example_client :: RpcClient where
  "example_client = \<lparr> rc_get_balance = (\<lambda>_. Inr 0),
     rc_get_account = (\<lambda>_. Inr \<lparr> sdk_lamports = 0, sdk_owner = [], sdk_executable = False, sdk_rent_epoch = 0,
       sdk_data = [] \<rparr>),
     rc_get_account_data = (\<lambda>_. Inr []), rc_get_token_account_balance = (\<lambda>_. Inr ''0''),
     rc_simulate_transaction = (\<lambda>_. Inr \<lparr> sim_err = None, sim_units_consumed = None \<rparr>),
     rc_send_transaction = (\<lambda>_ _. Inr ()), rc_get_signature_status = (\<lambda>_. Inr None),
     rc_get_recent_prioritization_fees = Inr [] \<rparr>"

end
