(* ===== verification/Executor.thy ===== *)
theory Executor
  imports Build_Instructions Rpc_Pool
begin

text \<open>
  The executors (\<open>executors/solana_executor.rs\<close>, \<open>executors/execute_tx.rs\<close>, \<open>executors/paper_executor.rs\<close>). An action is shared as an
  \<open>Arc<Mutex<..>>\<close> of \<open>tokio\<close>, which is not reentrant: the executor holds a guard of it from the building of the
  transaction to the end of the branch. The mutex is therefore explicit here: \<open>x_held\<close> says whether this task
  holds the guard, and locking while it does is \<open>Deadlock\<close>, a call that never returns. Signing, the compute
  budget instructions, the block hash and the relay of \<open>BloxRoute\<close> are fields of the environment.
\<close>

section \<open>Environment and outcome\<close>

record ExecEnv =
  xe_ext :: external
  xe_ib :: IxBuilders
  xe_now :: datetime
  xe_sent_now :: datetime
  xe_set_limit :: "u32 \<Rightarrow> Instruction"
  xe_set_price :: "u64 \<Rightarrow> Instruction"
  xe_clients :: RpcClientPool
  xe_blockhash :: "string + bytes"
  xe_simulate_execution :: bool
  xe_new_with_payer :: "Instruction list \<Rightarrow> pubkey \<Rightarrow> Transaction"
  xe_set_blockhash :: "bytes \<Rightarrow> Transaction \<Rightarrow> Transaction"
  xe_sign :: "keypair list \<Rightarrow> bytes \<Rightarrow> Transaction \<Rightarrow> Transaction \<times> signature"
  xe_use_bloxroute_trader_api :: bool
  xe_bloxroute :: "bytes \<Rightarrow> keypair \<Rightarrow> keypair \<Rightarrow> Instruction list \<Rightarrow> string + unit"
  xe_bloxroute_first :: bool
  xe_sig_to_string :: "signature \<Rightarrow> string"

datatype exec_error = BuildFailed BuildError | OtherFailure string

record Exec =
  x_action :: SolanaAction
  x_held :: bool
  x_context :: Context
  x_sent :: "(Transaction \<times> keypair list) list"

datatype 'a outcome = Returns 'a | Panics | Deadlock

type_synonym exec_result = "(exec_error + BotEvent) outcome \<times> Exec"

text \<open>\<open>action.lock().await\<close> as a temporary: it needs the mutex to be free, and frees it again.\<close>

definition with_lock :: "(SolanaAction \<Rightarrow> exec_result) \<Rightarrow> Exec \<Rightarrow> exec_result" where
  "with_lock k s = (if x_held s then (Deadlock, s) else k (x_action s))"

text \<open>Leaving the scope of a guard.\<close>

definition release :: "exec_result \<Rightarrow> exec_result" where
  "release r = (case r of (Deadlock, s) \<Rightarrow> (Deadlock, s) | (o', s) \<Rightarrow> (o', s\<lparr> x_held := False \<rparr>))"

definition report :: "ExecutionResult \<Rightarrow> Exec \<Rightarrow> exec_result" where
  "report result s =
     with_lock (\<lambda>a. (Returns (Inr (ResultEvent (sa_uuid a) (x_action s) result)), s)) s"

section \<open>Sending a transaction\<close>

text \<open>The first success among the ways to send, in the order in which they finish.\<close>

fun first_ok :: "(string + unit) list \<Rightarrow> bool" where
  "first_ok [] = False"
| "first_ok (r # rs) = (case r of Inr _ \<Rightarrow> True | Inl _ \<Rightarrow> first_ok rs)"

definition execute_tx ::
  "ExecEnv \<Rightarrow> bytes \<Rightarrow> keypair \<Rightarrow> keypair \<Rightarrow> Instruction list
     \<Rightarrow> (string + signature) \<times> (Transaction \<times> keypair list)" where
  "execute_tx env recent_blockhash sender fee_payer instructions =
     (let tx = xe_new_with_payer env instructions fee_payer;
          senders = (if sender \<noteq> fee_payer then [sender, fee_payer] else [sender]);
          (tx, sgnt) = xe_sign env senders recent_blockhash tx;
          relay = (if xe_use_bloxroute_trader_api env
                   then [xe_bloxroute env recent_blockhash sender fee_payer instructions] else []);
          rpc = (case send_tx_to_all_providers (xe_clients env) tx of
                   ROk _ \<Rightarrow> Inr () | _ \<Rightarrow> Inl ''Failed to send transaction with all providers'');
          results = (if xe_bloxroute_first env then relay @ [rpc] else rpc # relay)
      in (if first_ok results then Inr sgnt else Inl ''All ways to send the tx failed'', (tx, senders)))"

section \<open>\<open>SolanaExecutor::execute\<close>\<close>

definition SIMULATION_RETRIES :: nat where "SIMULATION_RETRIES = 1"

definition PRICE_PER_CU_PRIORITY :: u64 where "PRICE_PER_CU_PRIORITY = 3052504"

text \<open>The simulation loop: \<open>None\<close> when it passes, the error text when the retries are used up.\<close>

fun simulate_loop :: "ExecEnv \<Rightarrow> Transaction \<Rightarrow> nat \<Rightarrow> string option outcome" where
  "simulate_loop env tx 0 = Panics"
| "simulate_loop env tx (Suc retries) =
     (case simulate_tx (xe_clients env) tx of
        ROk _ \<Rightarrow> Returns None
      | RErr (OtherError err) \<Rightarrow> if retries = 0 then Returns (Some err) else simulate_loop env tx retries
      | RErr AccountNotFound \<Rightarrow>
          if retries = 0 then Returns (Some ''Account not found'') else simulate_loop env tx retries
      | RPanic \<Rightarrow> Panics)"

definition send_guarded :: "ExecEnv \<Rightarrow> u32 \<Rightarrow> Balance \<Rightarrow> Instruction list \<Rightarrow> bytes \<Rightarrow> Exec \<Rightarrow> exec_result" where
  "send_guarded env cu balance_before ixs recent_blockhash s =
     (let action_guard = x_action s
      in case execute_tx env recent_blockhash (sa_sniper action_guard) (sa_fee_payer action_guard) ixs of
           (Inl e, sending) \<Rightarrow> (Returns (Inl (OtherFailure e)), s\<lparr> x_sent := x_sent s @ [sending] \<rparr>)
         | (Inr sgnt, sending) \<Rightarrow>
             (let ctx = (x_context s)\<lparr> ctx_cache := add_agent_tx (sa_uuid action_guard)
                    (xe_sig_to_string env sgnt) (ctx_cache (x_context s)) \<rparr>;
                  s1 = s\<lparr> x_sent := x_sent s @ [sending], x_context := ctx \<rparr>
              in with_lock (\<lambda>a.
                   (let discarded = sent (xe_sent_now env) balance_before sgnt
                          (uint BASE_TX_FEE_SOL + uint PRICE_PER_CU_PRIORITY * uint cu) a
                    in report Sent s1)) s1))"

definition run_guarded :: "ExecEnv \<Rightarrow> u32 \<Rightarrow> Balance \<Rightarrow> Instruction list \<Rightarrow> Exec \<Rightarrow> exec_result" where
  "run_guarded env cu balance_before ixs s =
     (case xe_blockhash env of
        Inl e \<Rightarrow> (Returns (Inl (OtherFailure e)), s)
      | Inr recent_blockhash \<Rightarrow>
          (if xe_simulate_execution env then
             (case simulate_loop env (xe_set_blockhash env recent_blockhash
                     (xe_new_with_payer env ixs (sa_fee_payer (x_action s)))) SIMULATION_RETRIES of
                Returns None \<Rightarrow> send_guarded env cu balance_before ixs recent_blockhash s
              | Returns (Some err) \<Rightarrow> report (ExecutionFailed (SimulationFailed err)) s
              | Panics \<Rightarrow> (Panics, s)
              | Deadlock \<Rightarrow> (Deadlock, s))
           else send_guarded env cu balance_before ixs recent_blockhash s))"

definition execute :: "ExecEnv \<Rightarrow> Exec \<Rightarrow> exec_result" where
  "execute env s =
     with_lock (\<lambda>a.
       if is_expired (xe_now env) a then report (ExecutionFailed ActionTooOld) s
       else
         (let cu = estimate_cu_per_tx a
          in case build_instructions (xe_ext env) (xe_ib env) a PRICE_PER_CU_PRIORITY cu (x_context s) of
               (Inr (balance_before, action_itx), ctx) \<Rightarrow>
                 (let s1 = s\<lparr> x_context := ctx \<rparr>
                  in if action_itx = [] then report (ExecutionFailed NoInstructionsGenerated) s1
                     else
                       release (run_guarded env cu balance_before
                         ((if PRICE_PER_CU_PRIORITY > 0
                           then [xe_set_limit env cu, xe_set_price env PRICE_PER_CU_PRIORITY] else []) @ action_itx)
                         (s1\<lparr> x_held := True \<rparr>)))
             | (Inl e, ctx) \<Rightarrow>
                 (let s1 = s\<lparr> x_context := ctx \<rparr>
                  in case e of
                       ExecErr (OtherExecutionError error_text) \<Rightarrow>
                         report (ExecutionFailed (OtherExecutionError error_text)) s1
                     | _ \<Rightarrow> (Returns (Inl (BuildFailed e)), s1)))) s"

section \<open>\<open>PaperExecutor::execute\<close>\<close>

definition paper_execute :: "(uuid \<Rightarrow> string) \<Rightarrow> Exec \<Rightarrow> exec_result" where
  "paper_execute uuid_to_string s =
     with_lock (\<lambda>a.
       (Returns (Inr (ResultEvent (sa_uuid a) (x_action s) Sent)),
        s\<lparr> x_context := (x_context s)\<lparr> ctx_cache := add_agent_tx (sa_uuid a)
             (''<Paper trading> signature '' @ uuid_to_string (sa_uuid a)) (ctx_cache (x_context s)) \<rparr> \<rparr>)) s"

end
