(* ===== verification/Executor_Properties.thy ===== *)
theory Executor_Properties
  imports Executor
begin

text \<open>
  What the executor guarantees: the instructions it builds only touch the accounts of the agent, never move
  more tokens than the agent has, and what becomes of an action afterwards.
\<close>

section \<open>Instructions of the agent\<close>

lemma sum_bind_simps [simp]:
  "andThen (Inr x) f = f x" "andThen (Inl e) f = Inl e"
  "built (Inr i) g = g i" "built (Inl p) g = Inl (ProgErr p)"
  by (simp_all add: andThen_def built_def)

lemma andThen_Inr: "andThen r f = Inr y \<longleftrightarrow> (\<exists>x. r = Inr x \<and> f x = Inr y)"
  by (cases r) auto

lemma built_Inr: "built r f = Inr y \<longleftrightarrow> (\<exists>ix. r = Inr ix \<and> f ix = Inr y)"
  by (cases r) auto

definition own_ix :: "external \<Rightarrow> IxBuilders \<Rightarrow> pubkey \<Rightarrow> pubkey \<Rightarrow> pubkey \<Rightarrow> Instruction \<Rightarrow> bool" where
  "own_ix ext ib sniper fee_payer mint ix \<longleftrightarrow>
     (\<exists>r a. ix = ib_sol_transfer ib sniper r a) \<or>
     (\<exists>owner m. ix = ib_create_ata ib fee_payer owner m TOKEN_PROGRAM_ID) \<or>
     (\<exists>r a. ib_token_transfer ib TOKEN_PROGRAM_ID (ext_ata ext sniper mint) r sniper [] a = Inr ix) \<or>
     ib_close_account ib TOKEN_PROGRAM_ID (ext_ata ext sniper mint) fee_payer sniper [] = Inr ix \<or>
     ib_close_account ib TOKEN_PROGRAM_ID (ext_ata ext sniper WSOL_MINT_PUBKEY) fee_payer sniper [] = Inr ix \<or>
     ib_sync_native ib TOKEN_PROGRAM_ID (ext_ata ext sniper WSOL_MINT_PUBKEY) = Inr ix \<or>
     (\<exists>params version. ix = make_swap_fixed_in_instruction params version \<and>
        uk_owner (fp_user_keys params) = sniper \<and>
        {uk_token_account_in (fp_user_keys params), uk_token_account_out (fp_user_keys params)}
          = {ext_ata ext sniper mint, ext_ata ext sniper WSOL_MINT_PUBKEY})"

abbreviation own_ix_of :: "BuildCtx \<Rightarrow> Instruction \<Rightarrow> bool" where
  "own_ix_of bx \<equiv> own_ix (bx_ext bx) (bx_ib bx) (bx_sniper bx) (bx_fee_payer bx) (bx_token_mint bx)"

lemma own_ix_intros:
  "own_ix_of bx (ib_sol_transfer (bx_ib bx) (bx_sniper bx) r a)"
  "own_ix_of bx (ib_create_ata (bx_ib bx) (bx_fee_payer bx) owner m TOKEN_PROGRAM_ID)"
  "ib_token_transfer (bx_ib bx) TOKEN_PROGRAM_ID (sniper_token_ata bx) r (bx_sniper bx) [] a = Inr ix \<Longrightarrow> own_ix_of bx ix"
  "ib_close_account (bx_ib bx) TOKEN_PROGRAM_ID (sniper_token_ata bx) (bx_fee_payer bx) (bx_sniper bx) [] = Inr ix \<Longrightarrow>
     own_ix_of bx ix"
  "close_wsol bx = Inr ix \<Longrightarrow> own_ix_of bx ix"
  "ib_sync_native (bx_ib bx) TOKEN_PROGRAM_ID (sniper_wsol_ata bx) = Inr ix \<Longrightarrow> own_ix_of bx ix"
  unfolding own_ix_def sniper_token_ata_def sniper_wsol_ata_def close_wsol_def by blast+

lemma own_ix_swap: "own_ix_of bx (swap_ix bx swap a m)"
  unfolding own_ix_def swap_ix_def
  by (rule disjI2)+ (auto simp: LiquiditySwapFixedInInstructionParamsV4_new_def swap_user_keys_def UserKeys_new_def
      sniper_token_ata_def sniper_wsol_ata_def split: SwapMethod.splits intro!: exI)

lemma create_missing_ata_own: "ix \<in> set (create_missing_ata bx ata m) \<Longrightarrow> own_ix_of bx ix"
  by (auto simp: create_missing_ata_def own_ix_intros(2) split: if_splits)

lemma transfer_sol_step_own:
  "transfer_sol_step bx pt t = Inr (Some (ixs, sc, tc, k)) \<Longrightarrow> ix \<in> set ixs \<Longrightarrow> own_ix_of bx ix"
  by (auto simp: transfer_sol_step_def Let_def own_ix_intros split: Amount.splits if_splits)

lemma transfer_token_step_own:
  "transfer_token_step bx pt m t = Inr (Some (ixs, sc, tc, k)) \<Longrightarrow> ix \<in> set ixs \<Longrightarrow> own_ix_of bx ix"
  by (auto simp: transfer_token_step_def Let_def built_Inr own_ix_intros split: if_splits)

lemma buy_step_own:
  "buy_step bx pt s = Inr (Some (ixs, sc, tc, k)) \<Longrightarrow> ix \<in> set ixs \<Longrightarrow> own_ix_of bx ix"
  by (auto simp: buy_step_def andThen_Inr built_Inr own_ix_swap own_ix_intros(1,5,6) dest: create_missing_ata_own
      split: if_splits)

lemma sell_step_own:
  "sell_step bx pt s = Inr (Some (ixs, sc, tc, k)) \<Longrightarrow> ix \<in> set ixs \<Longrightarrow> own_ix_of bx ix"
  by (auto simp: sell_step_def Let_def built_Inr own_ix_swap own_ix_intros(5,6) dest: create_missing_ata_own
      split: if_splits)

lemma build_step_own:
  "build_step bx pt step = Inr (Some (ixs, sc, tc, k)) \<Longrightarrow> ix \<in> set ixs \<Longrightarrow> own_ix_of bx ix"
  by (auto simp: build_step_def dest: transfer_sol_step_own transfer_token_step_own buy_step_own sell_step_own
      split: SolanaActionPayload.splits Asset.splits SwapMethod.splits if_splits)

lemma build_loop_cases:
  assumes "build_loop bx tb pt (step # steps) = Inr ixs"
  obtains (skip) "build_step bx pt step = Inr None" "build_loop bx tb pt steps = Inr ixs"
  | (step) ixs1 sc tc k ixs2 where "build_step bx pt step = Inr (Some (ixs1, sc, tc, k))"
      "tc \<le> pt_token_balance pt" "build_loop bx tb (charge bx sc tc k pt) steps = Inr ixs2" "ixs = ixs1 @ ixs2"
proof (cases "build_step bx pt step")
  case (Inr r)
  show thesis
  proof (cases r)
    case None
    then show thesis using Inr assms skip by simp
  next
    case (Some q)
    then show thesis using Inr assms step by (cases q) (auto simp: andThen_Inr not_less split: if_splits)
  qed
qed (use assms in simp)

lemma build_loop_own: "build_loop bx tb pt steps = Inr ixs \<Longrightarrow> ix \<in> set ixs \<Longrightarrow> own_ix_of bx ix"
proof (induction steps arbitrary: pt ixs)
  case (Cons step steps)
  from Cons.prems(1) show ?case
  proof (cases rule: build_loop_cases)
    case skip
    then show ?thesis using Cons by blast
  next
    case (step ixs1 sc tc k ixs2)
    then show ?thesis using Cons build_step_own [OF step(1)] by auto
  qed
qed simp

text \<open>The mint the accounts of an action belong to.\<close>

definition action_mint :: "SolanaAction \<Rightarrow> pubkey" where
  "action_mint action = (case get_tokens_used_in_tx action of [] \<Rightarrow> replicate 32 0 | t # _ \<Rightarrow> t)"

lemma build_instructions_Inr:
  assumes "build_instructions ext ib action price cu ctx = (Inr (bal, ixs), ctx')"
  shows "\<exists>bx pt. bx_ext bx = ext \<and> bx_ib bx = ib \<and> bx_sniper bx = sa_sniper action \<and>
    bx_fee_payer bx = sa_fee_payer action \<and> bx_token_mint bx = action_mint action \<and>
    length (get_tokens_used_in_tx action) \<le> 1 \<and>
    pt_token_balance pt = unwrap_or_0 (fst (get_token_balance ext (sa_sniper action) (action_mint action)
       (snd (get_balance ext (sa_sniper action) ctx)))) \<and>
    build_loop bx (pt_token_balance pt) pt (sa_action_payload action) = Inr ixs"
proof -
  obtain sol ctx1 where g: "get_balance ext (sa_sniper action) ctx = (sol, ctx1)" by fastforce
  obtain tok ctx2 where t: "get_token_balance ext (sa_sniper action) (action_mint action) ctx1 = (tok, ctx2)"
    by fastforce
  let ?fee = "tx_fee_of price cu"
  let ?bx = "\<lparr> bx_ext = ext, bx_ib = ib, bx_context = ctx2, bx_sniper = sa_sniper action,
    bx_fee_payer = sa_fee_payer action, bx_token_mint = action_mint action,
    bx_sol_balance = unwrap_or_0 sol, bx_tx_fee = ?fee \<rparr>"
  let ?pt = "\<lparr> pt_sol_balance = unwrap_or_0 sol, pt_tx_fee = ?fee, pt_token_balance = unwrap_or_0 tok,
    pt_min_sol_to_keep_after = 0 \<rparr>"
  have "length (get_tokens_used_in_tx action) \<le> 1"
    and "build_loop ?bx (pt_token_balance ?pt) ?pt (sa_action_payload action) = Inr ixs"
    using assms t by (auto simp: build_instructions_def Let_def g action_mint_def [symmetric] andThen_Inr
        split: if_splits)
  then show ?thesis using g t by (intro exI [of _ ?bx] exI [of _ ?pt]) simp
qed

section \<open>Tokens\<close>

text \<open>\<open>v acc ix\<close> is the number of tokens \<open>ix\<close> takes from the token account \<open>acc\<close>. The laws say what the
  instruction builders document: a transfer takes its amount from its source, a swap its input from the
  first user account, the others take nothing.\<close>

definition token_flow_law :: "IxBuilders \<Rightarrow> (pubkey \<Rightarrow> Instruction \<Rightarrow> nat) \<Rightarrow> bool" where
  "token_flow_law ib v \<longleftrightarrow>
     (\<forall>acc p src dst auth sg amt ix. ib_token_transfer ib p src dst auth sg amt = Inr ix \<longrightarrow>
        v acc ix = (if src = acc then unat amt else 0)) \<and>
     (\<forall>acc src dst amt. v acc (ib_sol_transfer ib src dst amt) = 0) \<and>
     (\<forall>acc payer owner m p. v acc (ib_create_ata ib payer owner m p) = 0) \<and>
     (\<forall>acc p a d owner sg ix. ib_close_account ib p a d owner sg = Inr ix \<longrightarrow> v acc ix = 0) \<and>
     (\<forall>acc p a ix. ib_sync_native ib p a = Inr ix \<longrightarrow> v acc ix = 0) \<and>
     (\<forall>acc params version. v acc (make_swap_fixed_in_instruction params version) =
        (if uk_token_account_in (fp_user_keys params) = acc then unat (fp_amount_in params) else 0))"

abbreviation flow :: "(pubkey \<Rightarrow> Instruction \<Rightarrow> nat) \<Rightarrow> pubkey \<Rightarrow> Instruction list \<Rightarrow> nat" where
  "flow v acc ixs \<equiv> sum_list (map (v acc) ixs)"

lemma flow_zero:
  assumes "token_flow_law ib v"
  shows "v acc (ib_sol_transfer ib src dst amt) = 0" "v acc (ib_create_ata ib payer owner m p) = 0"
    "v acc (make_swap_fixed_in_instruction params version) =
       (if uk_token_account_in (fp_user_keys params) = acc then unat (fp_amount_in params) else 0)"
  using assms by (simp_all add: token_flow_law_def)

lemma flow_transfer:
  "token_flow_law ib v \<Longrightarrow> ib_token_transfer ib p src dst auth sg amt = Inr ix \<Longrightarrow>
     v acc ix = (if src = acc then unat amt else 0)"
  unfolding token_flow_law_def by metis

lemma flow_close: "token_flow_law ib v \<Longrightarrow> ib_close_account ib p a d owner sg = Inr ix \<Longrightarrow> v acc ix = 0"
  unfolding token_flow_law_def by blast

lemma flow_sync: "token_flow_law ib v \<Longrightarrow> ib_sync_native ib p a = Inr ix \<Longrightarrow> v acc ix = 0"
  unfolding token_flow_law_def by blast

lemmas flow_simps = flow_zero flow_transfer flow_close flow_sync

lemma flow_create_missing_ata:
  assumes "token_flow_law (bx_ib bx) v"
  shows "flow v acc (create_missing_ata bx ata m) = 0" "ix \<in> set (create_missing_ata bx ata m) \<Longrightarrow> v acc ix = 0"
  by (auto simp: create_missing_ata_def flow_zero [OF assms] split: if_splits)

lemma flow_swap_ix:
  assumes "token_flow_law (bx_ib bx) v" "lk_base_mint (sp_keys s) \<noteq> WSOL_MINT_PUBKEY"
  shows "v acc (swap_ix bx s a m) =
    (if (case sp_swap_method s of BuyTokensForExactSol \<Rightarrow> sniper_wsol_ata bx
         | SellExactTokensForSol \<Rightarrow> sniper_token_ata bx) = acc then unat a else 0)"
  using assms(2) by (auto simp: swap_ix_def flow_zero(3) [OF assms(1)] swap_user_keys_def UserKeys_new_def
      LiquiditySwapFixedInInstructionParamsV4_new_def split: SwapMethod.splits)

lemma step_flow:
  assumes "token_flow_law (bx_ib bx) v" and "build_step bx pt step = Inr (Some (ixs, sc, tc, k))"
    and "\<And>s. step = SolanaSwapActionPayload s \<Longrightarrow> sniper_wsol_ata bx \<noteq> sniper_token_ata bx"
  shows "flow v (sniper_token_ata bx) ixs \<le> unat tc"
proof (cases step)
  case (SolanaTransferActionPayload t)
  then show ?thesis
    using assms(2) by (auto simp: build_step_def transfer_sol_step_def transfer_token_step_def Let_def built_Inr
        flow_simps [OF assms(1)] split: Asset.splits Amount.splits if_splits)
next
  case (SolanaSwapActionPayload s)
  show ?thesis
  proof (cases "sp_swap_method s")
    case BuyTokensForExactSol
    then show ?thesis
      using assms(2) assms(3) [OF SolanaSwapActionPayload] SolanaSwapActionPayload
      by (auto simp: build_step_def buy_step_def andThen_Inr built_Inr close_wsol_def flow_simps [OF assms(1)]
          flow_create_missing_ata [OF assms(1)] flow_swap_ix [OF assms(1)] split: if_splits)
  next
    case SellExactTokensForSol
    then show ?thesis
      using assms(2) SolanaSwapActionPayload
      by (auto simp: build_step_def sell_step_def Let_def built_Inr close_wsol_def flow_simps [OF assms(1)]
          flow_create_missing_ata [OF assms(1)] flow_swap_ix [OF assms(1)] split: if_splits)
  qed
qed

lemma charge_token_balance [simp]: "pt_token_balance (charge bx sc tc k pt) = pt_token_balance pt - tc"
  by (simp add: charge_def Let_def)

lemma loop_flow:
  assumes "token_flow_law (bx_ib bx) v" and "build_loop bx tb pt steps = Inr ixs"
    and "\<And>s. SolanaSwapActionPayload s \<in> set steps \<Longrightarrow> sniper_wsol_ata bx \<noteq> sniper_token_ata bx"
  shows "flow v (sniper_token_ata bx) ixs \<le> unat (pt_token_balance pt)"
  using assms(2,3)
proof (induction steps arbitrary: pt ixs)
  case (Cons step steps)
  from Cons.prems(1) show ?case
  proof (cases rule: build_loop_cases)
    case skip
    then show ?thesis using Cons by auto
  next
    case (step ixs1 sc tc k ixs2)
    have "flow v (sniper_token_ata bx) ixs2 \<le> unat (pt_token_balance pt - tc)"
      using Cons.IH [OF step(3)] Cons.prems(2) by auto
    moreover have "flow v (sniper_token_ata bx) ixs1 \<le> unat tc"
      using step_flow [OF assms(1) step(1)] Cons.prems(2) by auto
    moreover have "unat (pt_token_balance pt - tc) = unat (pt_token_balance pt) - unat tc" "unat tc \<le> unat (pt_token_balance pt)"
      using step(2) by (simp_all add: unat_sub word_le_nat_alt)
    ultimately show ?thesis by (simp add: step(4))
  qed
qed simp

lemma loop_supported:
  assumes "build_loop bx tb pt steps = Inr ixs" "SolanaSwapActionPayload s \<in> set steps"
  shows "lk_base_mint (sp_keys s) \<noteq> WSOL_MINT_PUBKEY \<and> lk_quote_mint (sp_keys s) = WSOL_MINT_PUBKEY"
  using assms
proof (induction steps arbitrary: pt ixs)
  case (Cons step steps)
  have "build_step bx pt (SolanaSwapActionPayload s) = Inr r \<Longrightarrow> ?case" for r
    by (simp add: build_step_def split: if_splits)
  with Cons show ?case by (auto elim!: build_loop_cases simp del: build_loop.simps)
qed simp

text \<open>A supported swap is of the token of the action, which is not wrapped SOL.\<close>

lemma swap_uses_token:
  assumes "SolanaSwapActionPayload s \<in> set (sa_action_payload action)" "length (get_tokens_used_in_tx action) \<le> 1"
  shows "token_used (SolanaSwapActionPayload s) = Some (action_mint action)"
proof -
  obtain t where t: "token_used (SolanaSwapActionPayload s) = Some t"
    by (cases "lk_base_mint (sp_keys s) = WSOL_MINT_PUBKEY") (simp_all add: token_used_def)
  then have "t \<in> set (get_tokens_used_in_tx action)"
    using assms(1) by (force simp: get_tokens_used_in_tx_def List.map_filter_def)
  then show ?thesis using assms(2) t by (cases "get_tokens_used_in_tx action") (auto simp: action_mint_def)
qed

section \<open>Outcomes\<close>

lemma report_free [simp]:
  "\<not> x_held s \<Longrightarrow> report r s = (Returns (Inr (ResultEvent (sa_uuid (x_action s)) (x_action s) r)), s)"
  "x_held s \<Longrightarrow> report r s = (Deadlock, s)"
  by (simp_all add: report_def with_lock_def)

lemma send_guarded_held:
  assumes "x_held s" "send_guarded env cu bal ixs bh s = (r, s')"
  shows "x_action s' = x_action s" "x_held s'"
    "(\<exists>e. r = Returns (Inl e)) \<or> r = Deadlock"
    "(r = Deadlock) = (\<exists>sgnt. fst (execute_tx env bh (sa_sniper (x_action s)) (sa_fee_payer (x_action s)) ixs) = Inr sgnt)"
  using assms by (auto simp: send_guarded_def with_lock_def Let_def split: prod.splits sum.splits)

lemma run_guarded_held:
  assumes "x_held s" "run_guarded env cu bal ixs s = (r, s')"
  shows "x_action s' = x_action s" "x_held s'" "(\<exists>e. r = Returns (Inl e)) \<or> r = Deadlock \<or> r = Panics"
  using assms
  by (auto simp: run_guarded_def dest: send_guarded_held split: sum.splits outcome.splits option.splits if_splits)

lemma built_not_other: "(\<And>i. f i \<noteq> Inl (ExecErr e)) \<Longrightarrow> built r f \<noteq> Inl (ExecErr e)"
  by (cases r) auto

lemma transfer_not_other:
  "transfer_sol_step bx pt t \<noteq> Inl (ExecErr e)" "transfer_token_step bx pt m t \<noteq> Inl (ExecErr e)"
  "sell_step bx pt s \<noteq> Inl (ExecErr e)"
  by (simp_all add: transfer_sol_step_def transfer_token_step_def sell_step_def built_def Let_def
      split: Amount.splits sum.splits)

lemma buy_not_other: "buy_step bx pt s \<noteq> Inl (ExecErr (OtherExecutionError t))"
proof -
  have "buy_amount_in bx pt a \<noteq> Inl (ExecErr (OtherExecutionError t))" for a
    by (cases a) (simp_all add: buy_amount_in_def Let_def)
  then show ?thesis
    unfolding buy_step_def by (cases "buy_amount_in bx pt (sp_amount_in s)") (auto intro!: built_not_other)
qed

lemma build_step_not_other:
  "build_step bx pt step \<noteq> Inl (ExecErr (OtherExecutionError t))"
  by (auto simp: build_step_def transfer_not_other buy_not_other
      split: SolanaActionPayload.splits Asset.splits SwapMethod.splits)

lemma build_loop_not_other: "build_loop bx tb pt steps \<noteq> Inl (ExecErr (OtherExecutionError t))"
proof (induction steps arbitrary: pt)
  case (Cons step steps)
  show ?case
  proof (cases "build_step bx pt step")
    case (Inl e)
    then show ?thesis using build_step_not_other [of bx pt step t] by simp
  next
    case (Inr r)
    show ?thesis
    proof (cases r)
      case None
      then show ?thesis using Inr Cons.IH by simp
    next
      case (Some q)
      then show ?thesis using Inr Cons.IH by (cases q) (auto simp: andThen_def split: sum.splits)
    qed
  qed
qed simp

lemma build_not_other: "fst (build_instructions ext ib a p cu ctx) \<noteq> Inl (ExecErr (OtherExecutionError t))"
  by (auto simp: build_instructions_def Let_def andThen_def build_loop_not_other split: prod.splits sum.splits)

section \<open>Example data\<close>

text \<open>An agent with one SOL and seven tokens that sends five of them away.\<close>

definition example_ext :: external where
  "example_ext = \<lparr> ext_rpc_get_account = (\<lambda>_. Inr \<lparr> sdk_lamports = 1000000000, sdk_owner = [], sdk_executable = False,
       sdk_rent_epoch = 0, sdk_data = [] \<rparr>),
     ext_token_unpack = (\<lambda>_. Some \<lparr> spl_amount = 7 \<rparr>), ext_hex_encode = (\<lambda>_. []), ext_ata = (\<lambda>s m. s @ m) \<rparr>"

definition example_ib :: IxBuilders where
  "example_ib = \<lparr>
     ib_sol_transfer = (\<lambda>src dst amt. \<lparr> ins_program_id = [1], ins_accounts = [meta_new src True, meta_new dst False],
       ins_data = to_le_bytes amt \<rparr>),
     ib_create_ata = (\<lambda>payer owner m p. \<lparr> ins_program_id = [3], ins_accounts = [meta_new payer True], ins_data = [] \<rparr>),
     ib_token_transfer = (\<lambda>p src dst auth sg amt. Inr \<lparr> ins_program_id = [2],
       ins_accounts = [meta_new src False, meta_new dst False, meta_new_readonly auth True],
       ins_data = to_le_bytes amt \<rparr>),
     ib_close_account = (\<lambda>p a d owner sg. Inr \<lparr> ins_program_id = [2], ins_accounts = [meta_new a False],
       ins_data = [] \<rparr>),
     ib_sync_native = (\<lambda>p a. Inr \<lparr> ins_program_id = [2], ins_accounts = [meta_new a False], ins_data = [] \<rparr>),
     ib_key_to_string = (\<lambda>_. []) \<rparr>"

definition example_flow :: "pubkey \<Rightarrow> Instruction \<Rightarrow> nat" where
  "example_flow acc ix =
     (if length (ins_data ix) = 17 then
        (if meta_key (rev (ins_accounts ix) ! 2) = acc then unat (from_le_bytes (slice 1 8 (ins_data ix)) :: u64) else 0)
      else if ins_program_id ix = [2] \<and> length (ins_data ix) = 8 then
        (if meta_key (ins_accounts ix ! 0) = acc then unat (from_le_bytes (ins_data ix) :: u64) else 0)
      else 0)"

lemma example_flow_law: "token_flow_law example_ib example_flow"
  by (auto simp: token_flow_law_def example_ib_def example_flow_def make_swap_fixed_in_instruction_def Let_def
      SwapInstructionData_try_to_vec_def account_meta_def account_meta_readonly_def slice_def)

definition example_action :: SolanaAction where
  "example_action = SolanaAction_new 1 0 [3] [SolanaTransferActionPayload
     \<lparr> tp_asset = Token [9], tp_receiver = [4], tp_amount = Exact 5 \<rparr>]"

definition example_context :: Context where
  "example_context = \<lparr> ctx_cache = OperationalCache_new Map.empty Map.empty, ctx_notified = 0 \<rparr>"

definition example_ixs :: "Instruction list" where
  "example_ixs =
     [\<lparr> ins_program_id = [2],
        ins_accounts = [meta_new [3, 9] False, meta_new [4, 9] False, meta_new_readonly [3] True],
        ins_data = to_le_bytes (5 :: u64) \<rparr>]"

lemma example_build:
  "\<exists>bal ctx ix. build_instructions example_ext example_ib example_action 0 0 example_context =
     (Inr (bal, ix # example_ixs), ctx)"
  by (simp add: build_instructions_def example_action_def example_context_def SolanaAction_new_def
      new_with_feepayer_def get_balance_def get_token_balance_def query_ata_def update_from_rpc_def example_ext_def
      cache_defs OperationalCache_new_def get_tokens_used_in_tx_def token_used_def List.map_filter_def
      AccountPretty_from_def token_amount_def unwrap_or_0_def tx_fee_of_def BASE_TX_FEE_SOL_def build_step_def
      transfer_token_step_def token_amount_of_def example_ib_def sniper_token_ata_def is_account_exist_def Let_def
      example_ixs_def)

section \<open>Properties\<close>

text \<open>
  C9: The instructions of an action only use what belongs to it: lamports and tokens leave the agent's wallet and
  its two token accounts, with the agent as the authority; accounts are created at the expense of the fee
  payer, who also gets what a closed account held; and a swap is signed by the agent and runs between its token
  account and its wrapped SOL account.
\<close>

theorem build_instructions_own:
  assumes "build_instructions ext ib action price cu ctx = (Inr (bal, ixs), ctx')" and "ix \<in> set ixs"
  shows "own_ix ext ib (sa_sniper action) (sa_fee_payer action) (action_mint action) ix"
  using build_instructions_Inr [OF assms(1)] build_loop_own assms(2) by metis

theorem build_instructions_own_witness:
  "\<exists>bal ctx ix. build_instructions example_ext example_ib example_action 0 0 example_context =
     (Inr (bal, ix # example_ixs), ctx) \<and>
     own_ix example_ext example_ib [3] [3] (action_mint example_action) ix"
proof -
  obtain bal ctx ix where "build_instructions example_ext example_ib example_action 0 0 example_context =
     (Inr (bal, ix # example_ixs), ctx)" using example_build by blast
  with build_instructions_own [OF this, of ix] show ?thesis
    by (simp add: example_action_def SolanaAction_new_def new_with_feepayer_def)
qed

text \<open>
  C2: An action never moves more tokens than its agent has: the tokens that the built instructions take from the
  agent's token account add up to at most the balance that was read, over any number of transfers and swaps and
  at the width of the machine integers.
\<close>

theorem build_instructions_tokens_covered:
  assumes "token_flow_law ib v" and "\<And>m m'. ext_ata ext (sa_sniper action) m = ext_ata ext (sa_sniper action) m' \<Longrightarrow> m = m'"
    and "build_instructions ext ib action price cu ctx = (Inr (bal, ixs), ctx')"
  shows "flow v (ext_ata ext (sa_sniper action) (action_mint action)) ixs
    \<le> unat (unwrap_or_0 (fst (get_token_balance ext (sa_sniper action) (action_mint action)
        (snd (get_balance ext (sa_sniper action) ctx)))))"
proof -
  obtain bx pt where bx: "bx_ext bx = ext" "bx_ib bx = ib" "bx_sniper bx = sa_sniper action"
    "bx_token_mint bx = action_mint action" "length (get_tokens_used_in_tx action) \<le> 1"
    "pt_token_balance pt = unwrap_or_0 (fst (get_token_balance ext (sa_sniper action) (action_mint action)
       (snd (get_balance ext (sa_sniper action) ctx))))"
    "build_loop bx (pt_token_balance pt) pt (sa_action_payload action) = Inr ixs"
    using build_instructions_Inr [OF assms(3)] by blast
  have "sniper_wsol_ata bx \<noteq> sniper_token_ata bx" if "SolanaSwapActionPayload s \<in> set (sa_action_payload action)" for s
  proof
    assume "sniper_wsol_ata bx = sniper_token_ata bx"
    then have "WSOL_MINT_PUBKEY = action_mint action"
      using assms(2) by (simp add: sniper_wsol_ata_def sniper_token_ata_def bx)
    with swap_uses_token [OF that bx(5)] have "lk_quote_mint (sp_keys s) = WSOL_MINT_PUBKEY"
      "lk_base_mint (sp_keys s) = WSOL_MINT_PUBKEY"
      by (auto simp: token_used_def split: if_splits)
    with loop_supported [OF bx(7) that] show False by simp
  qed
  from loop_flow [OF _ bx(7) this] assms(1) show ?thesis
    by (simp add: bx sniper_token_ata_def)
qed

theorem build_instructions_tokens_covered_witness:
  "\<exists>bal ctx ix. build_instructions example_ext example_ib example_action 0 0 example_context =
     (Inr (bal, ix # example_ixs), ctx) \<and>
     flow example_flow (ext_ata example_ext [3] (action_mint example_action)) (ix # example_ixs)
       \<le> unat (unwrap_or_0 (fst (get_token_balance example_ext [3] (action_mint example_action)
            (snd (get_balance example_ext [3] example_context)))))"
proof -
  obtain bal ctx ix where b: "build_instructions example_ext example_ib example_action 0 0 example_context =
     (Inr (bal, ix # example_ixs), ctx)" using example_build by blast
  have s: "sa_sniper example_action = [3]"
    by (simp add: example_action_def SolanaAction_new_def new_with_feepayer_def)
  have "ext_ata example_ext (sa_sniper example_action) m = ext_ata example_ext (sa_sniper example_action) m' \<Longrightarrow> m = m'"
    for m m' by (simp add: example_ext_def)
  from build_instructions_tokens_covered [OF example_flow_law this b] b show ?thesis by (auto simp: s)
qed

text \<open>
  C37: What the executor reports. For an action whose lock is free, \<open>execute\<close> never changes the action and never
  returns the result \<open>Sent\<close>; the only failures it turns into an event are an expired action and one without
  instructions, so a wallet without funds, an unsupported pool or a failed simulation are not reported to the
  strategy; and when it does not return, it keeps the lock.
\<close>

theorem execute_outcomes:
  assumes "\<not> x_held s" and "execute env s = (r, s')"
  shows "x_action s' = x_action s \<and> (r = Deadlock) = x_held s' \<and>
    (\<forall>u a res. r = Returns (Inr (ResultEvent u a res)) \<longrightarrow>
       u = sa_uuid (x_action s) \<and> res \<in> {ExecutionFailed ActionTooOld, ExecutionFailed NoInstructionsGenerated})"
proof -
  let ?b = "build_instructions (xe_ext env) (xe_ib env) (x_action s) PRICE_PER_CU_PRIORITY
    (estimate_cu_per_tx (x_action s)) (x_context s)"
  show ?thesis
  proof (cases "is_expired (xe_now env) (x_action s)")
    case True
    then show ?thesis using assms by (auto simp: execute_def with_lock_def)
  next
    case False
    obtain br ctx where b: "?b = (br, ctx)" by fastforce
    show ?thesis
    proof (cases br)
      case (Inl e)
      then have "\<nexists>t. e = ExecErr (OtherExecutionError t)"
        using b build_not_other by (metis fst_conv)
      then have "execute env s = (Returns (Inl (BuildFailed e)), s\<lparr> x_context := ctx \<rparr>)"
        using assms(1) False Inl b
        by (auto simp: execute_def with_lock_def Let_def split: BuildError.splits ExecutionError.splits)
      with assms show ?thesis by auto
    next
      case (Inr q)
      obtain bal ixs where q: "q = (bal, ixs)" by fastforce
      show ?thesis
      proof (cases "ixs = []")
        case True
        then show ?thesis using assms False Inr q b by (auto simp: execute_def with_lock_def Let_def)
      next
        case ixs: False
        let ?ixs = "[xe_set_limit env (estimate_cu_per_tx (x_action s)), xe_set_price env PRICE_PER_CU_PRIORITY] @ ixs"
        obtain r1 s1 where g: "run_guarded env (estimate_cu_per_tx (x_action s)) bal ?ixs
            (s\<lparr> x_context := ctx, x_held := True \<rparr>) = (r1, s1)" by fastforce
        then have "execute env s = release (r1, s1)"
          using assms(1) False Inr q b ixs by (simp add: execute_def with_lock_def Let_def PRICE_PER_CU_PRIORITY_def)
        with run_guarded_held [OF _ g] assms show ?thesis
          by (auto simp: release_def split: outcome.splits)
      qed
    qed
  qed
qed

definition example_xenv :: ExecEnv where
  "example_xenv = \<lparr> xe_ext = example_ext, xe_ib = example_ib, xe_now = 0, xe_sent_now = 0,
     xe_set_limit = (\<lambda>_. hd example_ixs), xe_set_price = (\<lambda>_. hd example_ixs),
     xe_clients = [(''node'', example_client)], xe_blockhash = Inr [1], xe_simulate_execution = False,
     xe_new_with_payer = (\<lambda>_ _. [1]), xe_set_blockhash = (\<lambda>_ tx. tx), xe_sign = (\<lambda>_ _ tx. (tx, [7])),
     xe_use_bloxroute_trader_api = False, xe_bloxroute = (\<lambda>_ _ _ _. Inr ()), xe_bloxroute_first = False,
     xe_sig_to_string = (\<lambda>_. ''sig'') \<rparr>"

definition example_exec :: Exec where
  "example_exec = \<lparr> x_action = example_action, x_held = False, x_context = example_context, x_sent = [] \<rparr>"

theorem execute_outcomes_witness:
  "\<exists>r s'. execute (example_xenv\<lparr> xe_now := 2000000000000 \<rparr>) example_exec = (r, s') \<and> x_action s' = example_action \<and>
     r = Returns (Inr (ResultEvent 1 example_action (ExecutionFailed ActionTooOld)))"
proof -
  have "is_expired 2000000000000 example_action"
    by (simp add: is_expired_def example_action_def SolanaAction_new_def new_with_feepayer_def ACTION_EXPIRY_S_def)
  then have e: "execute (example_xenv\<lparr> xe_now := 2000000000000 \<rparr>) example_exec =
      (Returns (Inr (ResultEvent 1 example_action (ExecutionFailed ActionTooOld))), example_exec)"
    by (simp add: execute_def with_lock_def example_exec_def example_xenv_def example_action_def SolanaAction_new_def
        new_with_feepayer_def)
  from execute_outcomes [OF _ e] e show ?thesis by (simp add: example_exec_def)
qed

lemma execute_guarded:
  assumes "\<not> x_held s" and "\<not> is_expired (xe_now env) (x_action s)"
    and "build_instructions (xe_ext env) (xe_ib env) (x_action s) PRICE_PER_CU_PRIORITY
      (estimate_cu_per_tx (x_action s)) (x_context s) = (Inr (bal, ixs), ctx)" and "ixs \<noteq> []"
  shows "execute env s = release (run_guarded env (estimate_cu_per_tx (x_action s)) bal
    (xe_set_limit env (estimate_cu_per_tx (x_action s)) # xe_set_price env PRICE_PER_CU_PRIORITY # ixs)
    (s\<lparr> x_context := ctx, x_held := True \<rparr>))"
  using assms by (simp add: execute_def with_lock_def Let_def PRICE_PER_CU_PRIORITY_def)

text \<open>
  C38: Whenever the executor hands a transaction to a node, it hangs. Take an action whose lock is free, that has not
  expired and for which there are instructions and a block hash. If the simulation is off or passes and a way to send
  the transaction succeeds, \<open>execute\<close> locks the action again while it still holds its guard: it never returns, the
  lock is never released, and only the signature in the cache tells of the transaction that was sent. If the
  simulation is on and fails, it hangs in the same way, before anything is sent, where the code means to report the
  failed simulation.
\<close>

theorem execute_hangs_after_sending:
  assumes "\<not> x_held s" and "\<not> is_expired (xe_now env) (x_action s)"
    and "build_instructions (xe_ext env) (xe_ib env) (x_action s) PRICE_PER_CU_PRIORITY
      (estimate_cu_per_tx (x_action s)) (x_context s) = (Inr (bal, ixs), ctx)" and "ixs \<noteq> []"
    and "xe_blockhash env = Inr bh"
    and "all_ixs = xe_set_limit env (estimate_cu_per_tx (x_action s)) # xe_set_price env PRICE_PER_CU_PRIORITY # ixs"
    and "simulation = simulate_tx (xe_clients env)
      (xe_set_blockhash env bh (xe_new_with_payer env all_ixs (sa_fee_payer (x_action s))))"
  shows "((\<not> xe_simulate_execution env \<or> (\<exists>passed. simulation = ROk passed)) \<longrightarrow>
      (\<forall>sgnt tx. execute_tx env bh (sa_sniper (x_action s)) (sa_fee_payer (x_action s)) all_ixs = (Inr sgnt, tx) \<longrightarrow>
        execute env s = (Deadlock, s\<lparr> x_context := ctx\<lparr> ctx_cache := add_agent_tx (sa_uuid (x_action s))
          (xe_sig_to_string env sgnt) (ctx_cache ctx) \<rparr>, x_held := True, x_sent := x_sent s @ [tx] \<rparr>)))
    \<and> (xe_simulate_execution env \<and> (\<exists>err. simulation = RErr err) \<longrightarrow>
        execute env s = (Deadlock, s\<lparr> x_context := ctx, x_held := True \<rparr>))"
proof -
  note run = execute_guarded [OF assms(1-4)] assms(6)
  show ?thesis
    using run assms(5,7)
    by (auto simp: run_guarded_def send_guarded_def with_lock_def Let_def release_def report_def SIMULATION_RETRIES_def
        split: AccountError.splits)
qed

theorem execute_hangs_after_sending_witness:
  "(\<exists>s'. execute (example_xenv\<lparr> xe_simulate_execution := True \<rparr>) example_exec = (Deadlock, s') \<and>
      x_held s' \<and> length (x_sent s') = 1)
    \<and> (\<exists>s'. execute (example_xenv\<lparr> xe_simulate_execution := True, xe_clients := [] \<rparr>) example_exec = (Deadlock, s') \<and>
      x_held s' \<and> x_sent s' = [])"
proof -
  let ?cu = "estimate_cu_per_tx example_action"
  let ?env1 = "example_xenv\<lparr> xe_simulate_execution := True \<rparr>"
  let ?env2 = "example_xenv\<lparr> xe_simulate_execution := True, xe_clients := [] \<rparr>"
  have exp: "\<not> is_expired (xe_now example_xenv) (x_action example_exec)"
    by (simp add: is_expired_def example_action_def SolanaAction_new_def new_with_feepayer_def ACTION_EXPIRY_S_def
        example_xenv_def example_exec_def)
  obtain bal ctx ix where b: "build_instructions example_ext example_ib example_action PRICE_PER_CU_PRIORITY ?cu
      example_context = (Inr (bal, ix # example_ixs), ctx)"
    by (simp add: build_instructions_def example_action_def example_context_def SolanaAction_new_def
      new_with_feepayer_def get_balance_def get_token_balance_def query_ata_def update_from_rpc_def example_ext_def
      cache_defs OperationalCache_new_def get_tokens_used_in_tx_def token_used_def List.map_filter_def
      AccountPretty_from_def token_amount_def unwrap_or_0_def tx_fee_of_def BASE_TX_FEE_SOL_def build_step_def
      transfer_token_step_def token_amount_of_def example_ib_def sniper_token_ata_def is_account_exist_def Let_def
      example_ixs_def PRICE_PER_CU_PRIORITY_def estimate_cu_per_tx_def cu_of_step_def
      ESTIMATE_CU_SPL_TOKEN_TRANSFER_def ESTIMATE_CU_PER_COMPUTE_BUDGET_INSTRUCTION_def)
  have sent: "execute_tx ?env1 [1] k k' ixs = (Inr [7], ([1], if k \<noteq> k' then [k, k'] else [k]))" for k k' ixs
    by (simp add: execute_tx_def example_xenv_def example_client_def send_tx_to_all_providers_def send_attempts.simps
        Let_def)
  have pass: "\<exists>passed. simulate_tx (xe_clients ?env1) tx = ROk passed" for tx
    by (simp add: simulate_tx_def example_xenv_def
        example_client_def rbind_def)
  have failed: "\<exists>err. simulate_tx (xe_clients ?env2) tx = RErr err" for tx
    by (simp add: simulate_tx_def rbind_def)
  show ?thesis
    using execute_hangs_after_sending [of example_exec ?env1 bal "ix # example_ixs" ctx "[1]", OF _ _ _ _ _ refl refl]
      execute_hangs_after_sending [of example_exec ?env2 bal "ix # example_ixs" ctx "[1]", OF _ _ _ _ _ refl refl]
      exp b sent pass failed by (auto simp: example_exec_def example_xenv_def)
qed

text \<open>
  A transfer of an exact amount including fees that is smaller than the fee wraps around: the amount of the
  instruction is then close to \<open>2 ^ 64\<close>.
\<close>

theorem exact_with_fees_wraps:
  assumes "0 < amount" "amount < pt_tx_fee pt"
  shows "transfer_sol_step bx pt \<lparr> tp_asset = Sol, tp_receiver = r, tp_amount = ExactWithFees amount \<rparr> =
      Inr (Some ([ib_sol_transfer (bx_ib bx) (bx_sniper bx) r (amount - pt_tx_fee pt)], amount, 0, 0))
    \<and> unat (amount - pt_tx_fee pt) = 2 ^ 64 - (unat (pt_tx_fee pt) - unat amount)"
proof -
  have "unat (amount - pt_tx_fee pt) = 2 ^ 64 - (unat (pt_tx_fee pt) - unat amount)"
    using assms(2) unsigned_less [of "pt_tx_fee pt"]
    by (simp add: unat_sub_if_size word_size word_less_nat_alt not_le)
  then show ?thesis using assms(1) by (simp add: transfer_sol_step_def Let_def)
qed

end
