(* ===== verification/Rpc_Properties.thy ===== *)
theory Rpc_Properties
  imports Rpc_Pool F64_Error
begin

text \<open>
  The pool of providers: which answer a call returns, how often a transaction is sent, and that the computation
  of the priority fee stays inside its arrays.
\<close>

section \<open>Providers\<close>

definition decisive :: "rpc_error + 'a \<Rightarrow> bool" where
  "decisive r = (case r of Inr _ \<Rightarrow> True | Inl e \<Rightarrow> not_found (re_text e))"

text \<open>
  A call over the pool is answered by the first provider, in the order of the map, that either succeeds or does
  not know the account; an unknown account is not asked for again elsewhere, any other error is passed over.
\<close>

theorem first_decisive_provider:
  "execute_rpc_method_consequently_till_first_success clients meth =
     (case find (\<lambda>(_, client). decisive (meth client)) clients of
        None \<Rightarrow> RErr (OtherError ''Failed to execute method on all providers'')
      | Some (_, client) \<Rightarrow> (case meth client of Inr x \<Rightarrow> ROk x | Inl _ \<Rightarrow> RErr AccountNotFound))"
  by (induction clients meth rule: execute_rpc_method_consequently_till_first_success.induct)
    (auto simp: decisive_def split: sum.splits)

section \<open>Sending\<close>

lemma send_attempts_from:
  "attempts < MAX_RETRIES \<Longrightarrow> snd (send_attempts send attempts) \<le> MAX_RETRIES \<and>
     (fst (send_attempts send attempts) = Inr () \<longleftrightarrow> (\<exists>i \<ge> attempts. i < MAX_RETRIES \<and> send i = Inr ()))"
proof (induction send attempts rule: send_attempts.induct)
  case (1 send attempts)
  show ?case
  proof (cases "send attempts")
    case (Inl e)
    then have n: "(\<exists>i \<ge> attempts. i < MAX_RETRIES \<and> send i = Inr ()) =
        (\<exists>i \<ge> attempts + 1. i < MAX_RETRIES \<and> send i = Inr ())"
      by (metis Inl_Inr_False Suc_eq_plus1 Suc_leD Suc_leI le_neq_implies_less)
    show ?thesis
    proof (cases "attempts + 1 \<ge> MAX_RETRIES")
      case True
      then show ?thesis using Inl 1(2) n by (subst (1 2) send_attempts.simps) auto
    next
      case False
      then show ?thesis using Inl 1(1) [OF Inl] n by (subst (1 2) send_attempts.simps) auto
    qed
  next
    case (Inr u)
    then show ?thesis using 1(2) by (subst (1 2) send_attempts.simps) auto
  qed
qed

text \<open>
  A transaction is sent to every provider at most three times, and the call succeeds exactly when one of the
  three attempts at one of the providers does.
\<close>

theorem send_tx_bounded:
  "(send_tx_to_all_providers clients tx = ROk () \<longleftrightarrow>
     (\<exists>(name, client) \<in> set clients. \<exists>i < 3. rc_send_transaction client tx i = Inr ())) \<and>
   snd (send_attempts send 0) \<le> 3"
proof -
  have a: "snd (send_attempts f 0) \<le> 3" "fst (send_attempts f 0) = Inr () \<longleftrightarrow> (\<exists>i < 3. f i = Inr ())" for f
    using send_attempts_from [of 0 f] by (simp_all add: MAX_RETRIES_def)
  have "list_ex (\<lambda>r. r = Inr ()) (map (\<lambda>(_, client). fst (send_attempts (rc_send_transaction client tx) 0)) clients) =
      (\<exists>(name, client) \<in> set clients. \<exists>i < 3. rc_send_transaction client tx i = Inr ())"
    by (induction clients) (auto simp: a(2))
  then show ?thesis using a(1) by (simp add: send_tx_to_all_providers_def Let_def)
qed

section \<open>Priority fees\<close>

lemma round_as_usize_le:
  assumes "f64_is x r" "r \<le> real k" shows "f64_round_as_usize x \<le> k"
proof -
  obtain m e where d: "f64_decode x = Num False m e" and v: "r = real m * pow2 e"
    using assms by (auto simp: f64_is_def)
  obtain n d' where s: "scale e (m, 1) = (n, d')" by fastforce
  have pos: "0 < d'" and val: "real n / real d' = r" using scale_value [OF _ s] by (simp_all add: v)
  have "real n \<le> real k * real d'" using assms(2) pos by (simp add: val [symmetric] divide_le_eq)
  then have "n \<le> k * d'" by (simp only: of_nat_mult [symmetric] of_nat_le_iff)
  then have "2 * n + d' < (k + 1) * (2 * d')" using pos by (simp add: algebra_simps)
  then have "(2 * n + d') div (2 * d') < k + 1" using pos by (simp add: div_less_iff_less_mult)
  then show ?thesis using s by (simp add: f64_round_as_usize_def d)
qed

lemma percentile_index_le:
  assumes "p \<le> 100" "len < 2 ^ 53" shows "percentile_index p len \<le> len"
proof -
  have o: "f64_is (f64_of_nat p) (real p)" "f64_is (f64_of_nat 100) 100" "f64_is (f64_of_nat len) (real len)"
    using assms f64_of_nat_is [of 100] by (auto intro: f64_of_nat_is)
  have big: "2 ^ 53 < pow2 1000" using pow2_mono [of 54 1000] by simp
  have le: "real p / 100 \<le> real 1" using assms(1) by simp
  then have "real p / 100 < pow2 1000" using big by simp
  then obtain z where z: "f64_is (f64_div (f64_of_nat p) (f64_of_nat 100)) z" "rounds_to (real p / 100) z"
    using f64_div_rounds [OF o(1,2)] by auto
  then have z1: "z \<le> 1" using le unfolding rounds_to_def by (metis of_nat_1 one_less_power rel_simps(49) numeral_less_iff semiring_norm(76) zero_less_numeral)
  have zl: "z * real len \<le> real len" using z1 f64_is_nonneg [OF z(1)] by (simp add: mult_left_le_one_le)
  moreover have "real len < pow2 1000" using real_less_2_53 [OF assms(2)] big by linarith
  ultimately obtain y where y: "f64_is (f64_mul (f64_div (f64_of_nat p) (f64_of_nat 100)) (f64_of_nat len)) y"
    "rounds_to (z * real len) y" using f64_mul_rounds [OF z(1) o(3)] by auto
  have "y \<le> real len" using y(2) zl assms(2) unfolding rounds_to_def by blast
  with y(1) show ?thesis unfolding percentile_index_def by (rule round_as_usize_le)
qed

lemma percentile_list_some:
  assumes "sorted_fees \<noteq> []" "length sorted_fees < 2 ^ 53" "\<forall>p \<in> set ps. p \<le> 100"
  shows "\<exists>m. percentile_list sorted_fees ps = Some m \<and> map fst m = ps \<and> (\<forall>(p, f) \<in> set m. f \<in> set sorted_fees)"
  using assms(3)
proof (induction ps)
  case (Cons p ps)
  have "percentile_index p (length sorted_fees) - 1 < length sorted_fees"
    using percentile_index_le [of p "length sorted_fees"] Cons.prems assms(1,2) by (cases sorted_fees) auto
  with Cons show ?case by (auto simp: Let_def)
qed simp

lemma last_percentiles_some:
  assumes "\<forall>c \<in> set chunks. c \<noteq> [] \<and> length c < 2 ^ 53"
  shows "\<exists>m. last_percentiles chunks acc = Some m \<and>
    (if chunks = [] then m = acc
     else \<forall>p f. (p, f) \<in> set m \<longrightarrow> f \<in> pf_prioritization_fee ` set (last chunks))"
  using assms
proof (induction chunks arbitrary: acc)
  case (Cons c chunks)
  let ?fees = "map pf_prioritization_fee c"
  have "sort ?fees \<noteq> []" using Cons.prems by (metis length_0_conv length_map length_sort list.set_intros(1))
  then obtain m where m: "calculate_percentiles ?fees = Some m" "\<forall>(p, f) \<in> set m. f \<in> set ?fees"
    using percentile_list_some [of "sort ?fees" "[10, 25, 50, 60, 70, 75, 80, 85, 90, 100]"] Cons.prems
    by (auto simp: calculate_percentiles_def simp del: percentile_list.simps)
  with Cons.IH [of m] Cons.prems show ?case by (fastforce split: if_splits)
qed simp

lemma fee_chunks_size: "c \<in> set (fee_chunks n xs) \<Longrightarrow> c \<noteq> [] \<and> length c \<le> n \<and> set c \<subseteq> set xs"
proof (induction n xs rule: fee_chunks.induct)
  case (2 n x xs)
  show ?case
  proof (cases "n = 0")
    case False
    then show ?thesis using 2 set_take_subset [of n "x # xs"] set_drop_subset [of n "x # xs"]
      by (cases n) auto
  qed (use 2 in simp)
qed simp

text \<open>
  The priority fee is read without running out of an array: when a provider lists the recent fees the call
  returns, with zero for an empty list and with one of the listed fees otherwise. The floating point index of a
  percentile never exceeds the length of its chunk.
\<close>

theorem prioritization_fee_listed:
  assumes "execute_rpc_method_consequently_till_first_success clients rc_get_recent_prioritization_fees = ROk fees"
  shows "\<exists>fee. get_median_recent_prioritization_fees clients = ROk fee \<and>
    (fee = 0 \<or> fee \<in> pf_prioritization_fee ` set fees)"
proof -
  let ?chunks = "take 3 (fee_chunks 150 (sort_key (\<lambda>f. - int (unat (pf_slot f))) fees))"
  have c: "c \<noteq> [] \<and> length c < 2 ^ 53 \<and> set c \<subseteq> set fees" if "c \<in> set ?chunks" for c
    using fee_chunks_size [of c 150] in_set_takeD [OF that] by fastforce
  then obtain m where m: "last_percentiles ?chunks [] = Some m"
    "if ?chunks = [] then m = [] else \<forall>p f. (p, f) \<in> set m \<longrightarrow> f \<in> pf_prioritization_fee ` set (last ?chunks)"
    using last_percentiles_some [of ?chunks "[]"] by blast
  have "f \<in> pf_prioritization_fee ` set fees" if "map_of m 75 = Some f" for f
  proof -
    have "?chunks \<noteq> []" using m(2) that by auto
    then show ?thesis using map_of_SomeD [OF that] m(2) c [OF last_in_set] by fastforce
  qed
  with m(1) assms show ?thesis
    by (auto simp: get_median_recent_prioritization_fees_def Let_def runwrap_def split: option.splits)
qed

theorem prioritization_fee_listed_witness:
  "\<exists>fee. get_median_recent_prioritization_fees
       [(''node'', example_client\<lparr> rc_get_recent_prioritization_fees :=
          Inr [\<lparr> pf_slot = 1, pf_prioritization_fee = 5 \<rparr>] \<rparr>)] = ROk fee \<and> (fee = 0 \<or> fee = 5)"
  using prioritization_fee_listed [of "[(''node'', example_client\<lparr> rc_get_recent_prioritization_fees :=
          Inr [\<lparr> pf_slot = 1, pf_prioritization_fee = 5 \<rparr>] \<rparr>)]" "[\<lparr> pf_slot = 1, pf_prioritization_fee = 5 \<rparr>]"]
  by simp

end
