(* ===== verification/Poll_Collector.thy ===== *)
theory Poll_Collector
  imports Rpc_Pool
begin

text \<open>
  One round of \<open>collectors/poll_tx_confirmation_collector.rs\<close>: the signatures that the cache reports as
  unprocessed are looked up at the nodes and turned into execution receipts. A panic is \<open>None\<close>. Parsing and
  printing of signatures belongs to the Solana SDK.
\<close>

record PollEnv =
  pe_clients :: RpcClientPool
  pe_parse_signature :: "string \<Rightarrow> signature option"
  pe_signature_to_string :: "signature \<Rightarrow> string"
  pe_now :: datetime

definition poll_signature ::
  "PollEnv \<Rightarrow> string \<Rightarrow> OperationalCache \<Rightarrow> (BotEvent list \<times> OperationalCache) option" where
  "poll_signature env signature_str cache =
     Option.bind (pe_parse_signature env signature_str) (\<lambda>sgnt.
       case get_signature_status (pe_clients env) sgnt of
         ROk (Some status) \<Rightarrow>
           Option.bind (get_uuid_by_signature cache (pe_signature_to_string env sgnt)) (\<lambda>uuid.
             if \<not> is_signature_processed cache signature_str then
               Some ([ChainEvent (ReceiptEvent \<lparr> er_action_uuid = uuid, er_transaction_signature = sgnt,
                        er_err = (case status of Inr _ \<Rightarrow> None | Inl err \<Rightarrow> Some err),
                        er_status_changed_at = pe_now env \<rparr>)],
                     mark_signature_as_processed uuid signature_str cache)
             else Some ([], cache))
       | ROk None \<Rightarrow> Some ([], cache)
       | RErr _ \<Rightarrow> Some ([], cache)
       | RPanic \<Rightarrow> None)"

fun poll_signatures ::
  "PollEnv \<Rightarrow> string list \<Rightarrow> OperationalCache \<Rightarrow> (BotEvent list \<times> OperationalCache) option" where
  "poll_signatures env [] cache = Some ([], cache)"
| "poll_signatures env (s # ss) cache =
     Option.bind (poll_signature env s cache) (\<lambda>(evs, cache1).
       map_option (\<lambda>(evs', cache2). (evs @ evs', cache2)) (poll_signatures env ss cache1))"

definition poll_round :: "PollEnv \<Rightarrow> OperationalCache \<Rightarrow> (BotEvent list \<times> OperationalCache) option" where
  "poll_round env cache = poll_signatures env (get_all_unprocessed_tx_signatures cache) cache"

section \<open>Lemmas\<close>

lemma poll_processed:
  assumes "is_signature_processed c s" "poll_signature env s c = Some (evs, c')"
  shows "evs = [] \<and> c' = c"
  using assms by (auto simp: poll_signature_def split: bind_splits rpc.splits option.splits)

lemma poll_all_processed:
  assumes "\<forall>s \<in> set ss. is_signature_processed c s" "poll_signatures env ss c = Some (evs, c')"
  shows "evs = [] \<and> c' = c"
  using assms
proof (induction ss arbitrary: evs)
  case (Cons s ss)
  then show ?case using poll_processed [of c s env]
    by (fastforce split: bind_splits)
qed simp

text \<open>
  The poller of transaction confirmations never reports one. The cache hands it the signatures that are
  already processed instead of the others, and those it skips: a round that does not panic emits no event and
  leaves the cache as it was, whatever the nodes answer.
\<close>

theorem poll_round_silent:
  assumes "poll_round env cache = Some (evs, cache')"
  shows "evs = [] \<and> cache' = cache"
proof -
  have "\<forall>s \<in> set (get_all_unprocessed_tx_signatures cache). is_signature_processed cache s"
    by (auto simp: get_all_unprocessed_tx_signatures_def is_signature_processed_def)
  from poll_all_processed [OF this] assms show ?thesis unfolding poll_round_def by blast
qed

text \<open>A monitored signature that every node reports as confirmed.\<close>

definition example_poll :: PollEnv where
  "example_poll = \<lparr> pe_clients = [(''node'', example_client\<lparr> rc_get_signature_status := \<lambda>_. Inr (Some (Inr ())) \<rparr>)],
     pe_parse_signature = (\<lambda>_. Some [1]), pe_signature_to_string = (\<lambda>_. ''s''), pe_now = 0 \<rparr>"

theorem poll_round_silent_witness:
  "\<exists>evs cache'. poll_round example_poll (add_agent_tx 1 ''s'' (OperationalCache_new Map.empty Map.empty))
     = Some (evs, cache') \<and> evs = []"
proof -
  let ?c = "add_agent_tx 1 ''s'' (OperationalCache_new Map.empty Map.empty)"
  have "get_all_unprocessed_tx_signatures ?c = []"
    by (simp add: add_agent_tx_def OperationalCache_new_def rb_new_def rb_insert_def
      get_all_unprocessed_tx_signatures_def rb_contains_value_def rb_get_all_values_def
      CACHED_TX_SIGNATURES_BUFFER_CAPACITY_def)
  then have "poll_round example_poll ?c = Some ([], ?c)" by (simp add: poll_round_def)
  from poll_round_silent [OF this] this show ?thesis by blast
qed

end
