(* ===== verification/Sniper_Agent.thy ===== *)
theory Sniper_Agent
  imports Rpc_Pool Statig
begin

text \<open>
  The agent of the sniper strategy (\<open>strategies/sniper_strategy/agent/agent_state_machine.rs\<close>): it buys a new token
  once, watches its price and sells it. \<open>SniperAgentState\<close> holds the fields of the struct; the context and the
  queue of generated actions, which it shares with the strategy, are \<open>SniperWorld\<close>. Clock readings, identifiers
  and the nodes come from an environment, a new one for each event. Prices are \<open>f64\<close> and are compared with the
  operations of \<open>F64\<close>. A panic is \<open>None\<close>.
\<close>

section \<open>State\<close>

record SnipingStrategyInstance =
  si_id :: int
  si_user_id :: int
  si_started_at :: datetime
  si_completed_at :: "datetime option"
  si_sniper_private_key :: string
  si_size_sol :: f64
  si_stop_loss_percent_move_down :: f64
  si_take_profit_percent_move_up :: f64
  si_force_exit_horizon_s :: int
  si_max_simultaneous_snipes :: int
  si_min_pool_liquidity_sol :: f64
  si_skip_pump_fun :: bool
  si_skip_mintable :: bool
  si_buy_delay_ms :: int
  si_skip_if_price_drops_percent :: f64

datatype sniper_error =
    Sn_ErrorExecutingAction ExecutionError
  | Sn_ErrorProcessingReceipt TransactionError
  | Sn_ActionTimeout

datatype SniperState =
    Waiting_to_buy
  | Sn_Buying Amount int
  | Waiting_to_sell
  | Sn_Selling Amount int
  | Sn_Done
  | Sn_Error sniper_error

record SniperAgentState =
  sg_pool :: RaydiumPool
  sg_agent_key :: keypair
  sg_instance :: SnipingStrategyInstance
  sg_actions_in_progress :: "uuid list"
  sg_retry_timer :: Stopwatch
  sg_buy_delay_timer :: instant
  sg_timeout_timer :: Stopwatch
  sg_when_bought_timer :: instant
  sg_deploy_price :: RaydiumPoolPriceUpdate
  sg_buy_price :: RaydiumPoolPriceUpdate
  sg_last_time :: u64

record SniperWorld =
  sx_context :: Context
  sx_actions :: "SolanaAction list"

record SniperEnv =
  sn_ext :: external
  sn_clients :: RpcClientPool
  sn_pow :: "u64 \<Rightarrow> nat \<Rightarrow> u64 option"
  sn_now :: instant
  sn_entry_now :: instant
  sn_utc :: datetime
  sn_uuid :: uuid

section \<open>Operations\<close>

definition RaydiumPoolPriceUpdate_default :: RaydiumPoolPriceUpdate where
  "RaydiumPoolPriceUpdate_default = \<lparr> pu_pool = replicate 32 0, pu_price = 0, pu_base_reserve = 0,
     pu_quote_reserve = 0, pu_created_at = 0 \<rparr>"

definition SniperAgentState_new ::
  "SniperEnv \<Rightarrow> RaydiumPool \<Rightarrow> keypair \<Rightarrow> SnipingStrategyInstance \<Rightarrow> RaydiumPoolPriceUpdate \<Rightarrow> SniperWorld
     \<Rightarrow> SniperAgentState \<times> SniperWorld" where
  "SniperAgentState_new env pool agent_key instance deploy_price w =
     (let ctx = snd (get_balance (sn_ext env) agent_key (sx_context w));
          ctx = snd (get_token_balance (sn_ext env) agent_key (rp_base_mint pool) ctx)
      in (\<lparr> sg_pool = pool, sg_agent_key = agent_key, sg_instance = instance, sg_actions_in_progress = [],
            sg_retry_timer = Stopwatch_new (sn_now env) TIMEOUT_FOR_ACTION_EXECUTION_HBS,
            sg_buy_delay_timer = sn_now env,
            sg_timeout_timer = Stopwatch_new (sn_now env) TIMEOUT_FOR_ACTION_EXECUTION_HBS,
            sg_when_bought_timer = sn_now env, sg_deploy_price = deploy_price,
            sg_buy_price = RaydiumPoolPriceUpdate_default, sg_last_time = 0 \<rparr>,
          w\<lparr> sx_context := ctx \<rparr>))"

definition sniper_queue_action ::
  "SniperEnv \<Rightarrow> SolanaAction \<Rightarrow> SniperAgentState \<times> SniperWorld \<Rightarrow> SniperAgentState \<times> SniperWorld" where
  "sniper_queue_action env action = (\<lambda>(self, w).
     (self\<lparr> sg_actions_in_progress := sg_actions_in_progress self @ [sa_uuid action],
            sg_timeout_timer := Stopwatch_start (sn_entry_now env) TIMEOUT_FOR_ACTION_EXECUTION_HBS
              (sg_timeout_timer self) \<rparr>,
      (case register_action action (ctx_cache (sx_context w)) of
         (action_am, cache) \<Rightarrow>
           w\<lparr> sx_context := (sx_context w)\<lparr> ctx_cache := cache \<rparr>, sx_actions := sx_actions w @ [action_am] \<rparr>)))"

definition sniper_process_execution_receipt ::
  "ExecutionReceipt \<Rightarrow> SniperAgentState \<Rightarrow> (TransactionError + bool) \<times> SniperAgentState" where
  "sniper_process_execution_receipt receipt self =
     (if er_action_uuid receipt \<in> set (sg_actions_in_progress self) then
        (let self1 = self\<lparr> sg_actions_in_progress :=
               filter (\<lambda>x. x \<noteq> er_action_uuid receipt) (sg_actions_in_progress self) \<rparr>
         in case er_err receipt of
              Some err \<Rightarrow> (Inl err, self1\<lparr> sg_timeout_timer := turn_off (sg_timeout_timer self1) \<rparr>)
            | None \<Rightarrow> (Inr True, self1))
      else (Inr False, self))"

definition sniper_is_cooled_down ::
  "SniperEnv \<Rightarrow> u64 \<Rightarrow> SniperAgentState \<Rightarrow> (bool \<times> SniperAgentState) option" where
  "sniper_is_cooled_down env tick_ms self =
     (case is_time_elapsed (sn_now env) tick_ms (sg_timeout_timer self) of
        Ok True \<Rightarrow> Some (True, self\<lparr> sg_timeout_timer := turn_off (sg_timeout_timer self) \<rparr>)
      | Ok False \<Rightarrow> Some (False, self)
      | _ \<Rightarrow> None)"

definition sniper_get_sol_balance :: "SniperEnv \<Rightarrow> SniperAgentState \<Rightarrow> SniperWorld \<Rightarrow> u64 \<times> SniperWorld" where
  "sniper_get_sol_balance env self w =
     (case get_balance (sn_ext env) (sg_agent_key self) (sx_context w) of
        (r, ctx) \<Rightarrow> (unwrap_or_0 r, w\<lparr> sx_context := ctx \<rparr>))"

definition sniper_get_token_balance :: "SniperEnv \<Rightarrow> SniperAgentState \<Rightarrow> SniperWorld \<Rightarrow> u64 \<times> SniperWorld" where
  "sniper_get_token_balance env self w =
     (case get_token_balance (sn_ext env) (sg_agent_key self) (rp_base_mint (sg_pool self)) (sx_context w) of
        (r, ctx) \<Rightarrow> (unwrap_or_0 r, w\<lparr> sx_context := ctx \<rparr>))"

section \<open>Handlers\<close>

definition sniper_retry_or :: "int \<Rightarrow> SniperState \<Rightarrow> sniper_error \<Rightarrow> SniperState Response" where
  "sniper_retry_or retry retry_action msg =
     Transition (if retry \<le> RETRIES_IF_ERROR_OR_TIMEOUT then retry_action else Sn_Error msg)"

definition conditional_transition ::
  "SniperEnv \<Rightarrow> SolanaStrategyEvent \<Rightarrow> SniperState \<Rightarrow> SniperState \<Rightarrow> int \<Rightarrow> SniperAgentState
     \<Rightarrow> (SniperState Response \<times> SniperAgentState) option" where
  "conditional_transition env event retry_action transition_on_success retry self =
     (case event of
        Original (ResultEvent action_uuid action res) \<Rightarrow>
          (if action_uuid \<in> set (sg_actions_in_progress self) then
             (let self1 = self\<lparr> sg_actions_in_progress :=
                    filter (\<lambda>x. x \<noteq> action_uuid) (sg_actions_in_progress self) \<rparr>
              in case res of
                   ExecutionFailed e \<Rightarrow>
                     Some (sniper_retry_or retry retry_action (Sn_ErrorExecutingAction e), self1)
                 | Sent \<Rightarrow> Some (Super, self1))
           else Some (Super, self))
      | Original (ChainEvent (ReceiptEvent receipt)) \<Rightarrow>
          (case sniper_process_execution_receipt receipt self of
             (Inr True, self1) \<Rightarrow> Some (Transition transition_on_success, self1)
           | (Inr False, self1) \<Rightarrow> Some (Super, self1)
           | (Inl e, self1) \<Rightarrow> Some (sniper_retry_or retry retry_action (Sn_ErrorProcessingReceipt e), self1))
      | Original (HeartBeat tick_ms _) \<Rightarrow>
          (case sniper_is_cooled_down env tick_ms self of
             Some (True, self1) \<Rightarrow> Some (sniper_retry_or retry retry_action Sn_ActionTimeout, self1)
           | Some (False, self1) \<Rightarrow> Some (Super, self1)
           | None \<Rightarrow> None)
      | _ \<Rightarrow> Some (Super, self))"

definition event_price_update :: "SolanaStrategyEvent \<Rightarrow> RaydiumPoolPriceUpdate option" where
  "event_price_update event =
     (case event of
        Original (ChainEvent (RaydiumHeartbeatPriceUpdate price_update)) \<Rightarrow> Some price_update
      | Original (ChainEvent (SwapEvent swap_event)) \<Rightarrow> Some (se_pool_price swap_event)
      | _ \<Rightarrow> None)"

text \<open>\<open>i64 as u128\<close> and \<open>i64 as u64\<close> extend the sign.\<close>

definition ready_to_buy :: "SniperEnv \<Rightarrow> SniperAgentState \<Rightarrow> bool" where
  "ready_to_buy env self =
     (let elapsed_ms = (sn_now env - sg_buy_delay_timer self) div 1000000;
          buy_delay_ms = si_buy_delay_ms (sg_instance self)
      in buy_delay_ms = 0 \<or> int elapsed_ms > buy_delay_ms mod 2 ^ 128)"

definition price_dropped :: "SniperAgentState \<Rightarrow> RaydiumPoolPriceUpdate \<Rightarrow> bool" where
  "price_dropped self price_update =
     (let deploy = pu_price (sg_deploy_price self);
          relative_price_drop_per_cent =
            f64_div (f64_mul (f64_of_nat 100) (f64_sub deploy (pu_price price_update))) deploy
      in f64_gt relative_price_drop_per_cent (si_skip_if_price_drops_percent (sg_instance self)))"

definition waiting_to_buy :: "SniperEnv \<Rightarrow> SolanaStrategyEvent \<Rightarrow> SniperAgentState \<Rightarrow> SniperState Response" where
  "waiting_to_buy env event self =
     (if ready_to_buy env self
      then Transition (Sn_Buying (Exact (sol_to_lamports (si_size_sol (sg_instance self)))) 0)
      else
        (case event_price_update event of
           Some price_update \<Rightarrow>
             (if pu_pool price_update = rp_id (sg_pool self) \<and> price_dropped self price_update
              then Transition Sn_Done else Super)
         | None \<Rightarrow> Super))"

definition bought_elapsed_s :: "SniperEnv \<Rightarrow> SniperAgentState \<Rightarrow> u64" where
  "bought_elapsed_s env self = of_nat ((sn_now env - sg_when_bought_timer self) div 1000000000)"

definition horizon_passed :: "SniperEnv \<Rightarrow> SniperAgentState \<Rightarrow> bool" where
  "horizon_passed env self =
     (bought_elapsed_s env self > word_of_int (si_force_exit_horizon_s (sg_instance self)))"

definition stop_loss_hit :: "SniperAgentState \<Rightarrow> RaydiumPoolPriceUpdate \<Rightarrow> bool" where
  "stop_loss_hit self price_update =
     f64_lt (pu_price price_update)
       (f64_mul (pu_price (sg_buy_price self)) (si_stop_loss_percent_move_down (sg_instance self)))"

definition take_profit_hit :: "SniperAgentState \<Rightarrow> RaydiumPoolPriceUpdate \<Rightarrow> bool" where
  "take_profit_hit self price_update =
     f64_gt (pu_price price_update)
       (f64_mul (pu_price (sg_buy_price self)) (si_take_profit_percent_move_up (sg_instance self)))"

definition waiting_to_sell ::
  "SniperEnv \<Rightarrow> SolanaStrategyEvent \<Rightarrow> SniperAgentState \<Rightarrow> SniperState Response \<times> SniperAgentState" where
  "waiting_to_sell env event self =
     (let elapsed = bought_elapsed_s env self;
          self1 = (if elapsed - sg_last_time self > 1 then self\<lparr> sg_last_time := elapsed \<rparr> else self)
      in if horizon_passed env self then (Transition (Sn_Selling MaxAndClose 0), self)
         else
           (case event_price_update event of
              Some price_update \<Rightarrow>
                (if pu_pool price_update = rp_id (sg_pool self) then
                   (if stop_loss_hit self price_update then (Transition (Sn_Selling Amount_Max 0), self)
                    else if take_profit_hit self price_update then (Transition (Sn_Selling Amount_Max 0), self)
                    else (Super, self1))
                 else (Super, self1))
            | None \<Rightarrow> (Super, self1)))"

definition sniper_handler ::
  "SniperEnv \<Rightarrow> SolanaStrategyEvent \<Rightarrow> SniperState \<Rightarrow> SniperAgentState \<times> SniperWorld
     \<Rightarrow> (SniperState Response \<times> (SniperAgentState \<times> SniperWorld)) option" where
  "sniper_handler env event st = (\<lambda>(self, w).
     map_option (\<lambda>(r, self1). (r, (self1, w)))
       (case st of
          Waiting_to_buy \<Rightarrow> Some (waiting_to_buy env event self, self)
        | Sn_Buying amt retry \<Rightarrow>
            conditional_transition env event (Sn_Buying amt (retry + 1)) Waiting_to_sell retry self
        | Waiting_to_sell \<Rightarrow> Some (waiting_to_sell env event self)
        | Sn_Selling amt retry \<Rightarrow>
            conditional_transition env event (Sn_Selling Amount_Max (retry + 1)) Sn_Done (retry + 1) self
        | Sn_Done \<Rightarrow> Some (Handled, self)
        | Sn_Error msg \<Rightarrow> Some (Handled, self)))"

section \<open>Entry actions\<close>

definition set_buy_delay_timer :: "SniperEnv \<Rightarrow> SniperAgentState \<Rightarrow> SniperAgentState" where
  "set_buy_delay_timer env self = self\<lparr> sg_buy_delay_timer := sn_entry_now env \<rparr>"

definition sniper_swap :: "SniperEnv \<Rightarrow> SwapMethod \<Rightarrow> Amount \<Rightarrow> SniperAgentState \<Rightarrow> SolanaAction" where
  "sniper_swap env swap_method amt self =
     SolanaAction_new (sn_uuid env) (sn_utc env) (sg_agent_key self)
       [SolanaSwapActionPayload
          \<lparr> sp_keys = to_liquidity_keys (sg_pool self), sp_swap_method = swap_method, sp_amount_in = amt,
            sp_min_amount_out = 0 \<rparr>]"

definition sniper_buy ::
  "SniperEnv \<Rightarrow> Amount \<Rightarrow> SniperAgentState \<times> SniperWorld \<Rightarrow> SniperAgentState \<times> SniperWorld" where
  "sniper_buy env amt sw = sniper_queue_action env (sniper_swap env BuyTokensForExactSol amt (fst sw)) sw"

definition sniper_sell ::
  "SniperEnv \<Rightarrow> Amount \<Rightarrow> SniperAgentState \<times> SniperWorld \<Rightarrow> SniperAgentState \<times> SniperWorld" where
  "sniper_sell env amt sw = sniper_queue_action env (sniper_swap env SellExactTokensForSol amt (fst sw)) sw"

definition update_cache :: "(OperationalCache \<Rightarrow> OperationalCache) \<Rightarrow> SniperWorld \<Rightarrow> SniperWorld" where
  "update_cache f w = w\<lparr> sx_context := (sx_context w)\<lparr> ctx_cache := f (ctx_cache (sx_context w)) \<rparr> \<rparr>"

text \<open>The price at which the token was bought is the cached one: of this query, or of an earlier one when the
  query fails. A pool without a cached price panics.\<close>

definition set_when_bought_timer ::
  "SniperEnv \<Rightarrow> SniperAgentState \<times> SniperWorld \<Rightarrow> (SniperAgentState \<times> SniperWorld) option" where
  "set_when_bought_timer env = (\<lambda>(self, w).
     (let pool_id = rp_id (sg_pool self)
      in Option.bind
           (case get_pool_details (sn_clients env) pool_id of
              ROk pool_info \<Rightarrow>
                Some (update_cache (\<lambda>c. c\<lparr> oc_target_pools := (oc_target_pools c)(pool_id \<mapsto> pool_info) \<rparr>) w)
            | RErr _ \<Rightarrow> Some w
            | RPanic \<Rightarrow> None) (\<lambda>w1.
         Option.bind
           (case get_pool_price (sn_pow env) (sn_utc env) (sn_clients env) pool_id of
              ROk pool_price \<Rightarrow>
                Some (update_cache (\<lambda>c. c\<lparr> oc_target_pools_prices :=
                  (oc_target_pools_prices c)(pool_id \<mapsto> pool_price) \<rparr>) w1)
            | RErr _ \<Rightarrow> Some w1
            | RPanic \<Rightarrow> None) (\<lambda>w2.
         Option.bind (oc_target_pools_prices (ctx_cache (sx_context w2)) pool_id) (\<lambda>price.
           Some (self\<lparr> sg_when_bought_timer := sn_entry_now env, sg_buy_price := price \<rparr>, w2))))))"

definition stop_monitoring :: "SniperEnv \<Rightarrow> SniperAgentState \<Rightarrow> SniperWorld \<Rightarrow> SniperWorld" where
  "stop_monitoring env self w =
     (let w1 = update_cache (\<lambda>c. c\<lparr> oc_target_pools := (oc_target_pools c)(rp_id (sg_pool self) := None) \<rparr>) w;
          ctx = stop_monitoring_account (sg_agent_key self) (sx_context w1)
      in w1\<lparr> sx_context := stop_monitoring_token_account (sn_ext env) (sg_agent_key self)
               (rp_base_mint (sg_pool self)) ctx \<rparr>)"

definition sniper_entry ::
  "SniperEnv \<Rightarrow> SniperState \<Rightarrow> SniperAgentState \<times> SniperWorld \<Rightarrow> (SniperAgentState \<times> SniperWorld) option" where
  "sniper_entry env st sw =
     (case st of
        Waiting_to_buy \<Rightarrow> Some (set_buy_delay_timer env (fst sw), snd sw)
      | Sn_Buying amt retry \<Rightarrow> Some (sniper_buy env amt sw)
      | Waiting_to_sell \<Rightarrow> set_when_bought_timer env sw
      | Sn_Selling amt retry \<Rightarrow> Some (sniper_sell env amt sw)
      | Sn_Done \<Rightarrow> Some (fst sw, stop_monitoring env (fst sw) (snd sw))
      | Sn_Error msg \<Rightarrow> Some sw)"

definition sniper_machine ::
  "SniperEnv \<Rightarrow> (SolanaStrategyEvent, SniperState, SniperAgentState \<times> SniperWorld) machine" where
  "sniper_machine env =
     \<lparr> on_event = sniper_handler env, on_super = (\<lambda>event st sw. Some (Handled, sw)),
       on_exit = (\<lambda>st sw. Some sw), on_entry = sniper_entry env \<rparr>"

end
