(* ===== verification/Sniper_Strategy.thy ===== *)
theory Sniper_Strategy
  imports Sniper_Agent
begin

text \<open>
  The sniper strategy (\<open>strategies/sniper_strategy/strategy_state_machine.rs\<close> and \<open>strategy.rs\<close>). Its agents are shared
  between the map of running snipes and the tasks that forward events to them, so they live in a store of cells
  and are named by references; a task keeps its references when the map forgets a snipe or overwrites it. The
  spawned tasks are explicit and advance one step at a time in any order: inserting a new snipe, notifying the
  snipes of an event, delivering the event to one of them, collecting those that have ended and removing them.
  A step holds the lock of the map, as in the source. The handler of an event is one step: the tasks run before or
  after it. The machine of an agent is \<open>None\<close> until the first event initialises it, which enters its initial
  state. The map is an association list with distinct keys. Runs in which an agent panics are not described.
\<close>

section \<open>State\<close>

datatype sniper_task =
    TInsert RaydiumPool RaydiumPoolPriceUpdate
  | TNotify SolanaStrategyEvent
  | TDeliver SolanaStrategyEvent "nat list"
  | TRemove "pubkey list"

datatype SniperPhase = Running | Strategy_done

record SniperStrategyStateMachine =
  ss_instance :: SnipingStrategyInstance
  ss_sniper_wallet :: keypair
  ss_pool_snipes :: "(pubkey \<times> nat) list"
  ss_cells :: "nat \<Rightarrow> (SniperState option \<times> SniperAgentState) option"
  ss_next :: nat
  ss_tasks :: "sniper_task list"
  ss_world :: SniperWorld

record StrategyEnv =
  st_env :: SniperEnv
  st_key_to_string :: "pubkey \<Rightarrow> string"
  st_mint_unpack :: "bytes \<Rightarrow> Mint option"
  st_parse_key :: "string \<Rightarrow> keypair option"

definition sniper_strategy_new ::
  "StrategyEnv \<Rightarrow> SnipingStrategyInstance \<Rightarrow> Context \<Rightarrow> SniperStrategyStateMachine option" where
  "sniper_strategy_new senv instance ctx =
     (case st_parse_key senv (si_sniper_private_key instance) of
        None \<Rightarrow> None
      | Some sniper_wallet \<Rightarrow>
          Some \<lparr> ss_instance = instance, ss_sniper_wallet = sniper_wallet, ss_pool_snipes = [],
                 ss_cells = Map.empty, ss_next = 0, ss_tasks = [],
                 ss_world = \<lparr> sx_context = ctx, sx_actions = [] \<rparr> \<rparr>)"

section \<open>The handler\<close>

text \<open>The checks a new pool has to pass; \<open>None\<close> is a panic on a failed node or mint query.\<close>

definition unwrap_rpc :: "'a rpc \<Rightarrow> 'a option" where
  "unwrap_rpc r = (case r of ROk x \<Rightarrow> Some x | _ \<Rightarrow> None)"

definition wants_pool ::
  "StrategyEnv \<Rightarrow> RaydiumPool \<Rightarrow> RaydiumPoolPriceUpdate \<Rightarrow> SniperStrategyStateMachine \<Rightarrow> bool option" where
  "wants_pool senv new_pool price self =
     (let instance = ss_instance self; clients = sn_clients (st_env senv)
      in if rp_id new_pool \<in> fst ` set (ss_pool_snipes self) then Some False
         else if si_skip_pump_fun instance \<and> contains ''pump'' (st_key_to_string senv (rp_id new_pool)) then Some False
         else
           Option.bind (unwrap_rpc (get_account_data clients (rp_base_mint new_pool))) (\<lambda>account_data.
           Option.bind (unwrap_rpc (is_freezable_by_account_data (st_mint_unpack senv) account_data)) (\<lambda>freezable.
             if freezable then Some False
             else
               Option.bind (if si_skip_mintable instance
                            then unwrap_rpc (is_mintable_by_account_data (st_mint_unpack senv) account_data)
                            else Some False) (\<lambda>mintable.
                 if mintable then Some False
                 else if f64_lt (pu_quote_reserve price) (si_min_pool_liquidity_sol instance) then Some False
                 else Some (length (ss_pool_snipes self)
                        < nat (si_max_simultaneous_snipes instance mod 2 ^ 64))))))"

definition running ::
  "StrategyEnv \<Rightarrow> SolanaStrategyEvent \<Rightarrow> SniperStrategyStateMachine \<Rightarrow> SniperStrategyStateMachine option" where
  "running senv event self =
     (case event of
        Original (ChainEvent (RaydiumNewPoolEvent new_pool price)) \<Rightarrow>
          (case wants_pool senv new_pool price self of
             None \<Rightarrow> None
           | Some False \<Rightarrow> Some self
           | Some True \<Rightarrow> Some (self\<lparr> ss_tasks := ss_tasks self @ [TInsert new_pool price] \<rparr>))
      | _ \<Rightarrow> Some self)"

text \<open>Dispatching an event first spawns the task that forwards it to the snipes. The machine has the states
  \<open>running\<close> and \<open>done\<close>; no transition leads to the second.\<close>

definition on_dispatch :: "SolanaStrategyEvent \<Rightarrow> SniperStrategyStateMachine \<Rightarrow> SniperStrategyStateMachine" where
  "on_dispatch event self = self\<lparr> ss_tasks := ss_tasks self @ [TNotify event] \<rparr>"

definition sniper_strategy_handle ::
  "StrategyEnv \<Rightarrow> SolanaStrategyEvent \<Rightarrow> SniperPhase \<Rightarrow> SniperStrategyStateMachine
     \<Rightarrow> (SniperPhase \<times> SniperStrategyStateMachine) option" where
  "sniper_strategy_handle senv event phase self =
     (let self1 = on_dispatch event self
      in case phase of
           Running \<Rightarrow> map_option (Pair Running) (running senv event self1)
         | Strategy_done \<Rightarrow> Some (Strategy_done, self1))"

text \<open>\<open>SniperStrategy::process_event\<close>: events of two kinds reach the machine; the queued actions are returned.\<close>

definition forwarded :: "BotEvent \<Rightarrow> bool" where
  "forwarded event = (case event of HeartBeat _ _ \<Rightarrow> True | ChainEvent _ \<Rightarrow> True | _ \<Rightarrow> False)"

definition sniper_process_event ::
  "StrategyEnv \<Rightarrow> BotEvent \<Rightarrow> SniperPhase \<times> SniperStrategyStateMachine
     \<Rightarrow> (SolanaAction list \<times> SniperPhase \<times> SniperStrategyStateMachine) option" where
  "sniper_process_event senv event = (\<lambda>(phase, self).
     Option.bind (if forwarded event then sniper_strategy_handle senv (Original event) phase self
                  else Some (phase, self)) (\<lambda>(phase1, self1).
       let w = ss_world self1
       in Some (sx_actions w, phase1, self1\<lparr> ss_world := w\<lparr> sx_actions := [] \<rparr> \<rparr>)))"

section \<open>Tasks\<close>

definition insert_snipe ::
  "SniperEnv \<Rightarrow> RaydiumPool \<Rightarrow> RaydiumPoolPriceUpdate \<Rightarrow> SniperStrategyStateMachine \<Rightarrow> SniperStrategyStateMachine" where
  "insert_snipe env pool price self =
     (case SniperAgentState_new env pool (ss_sniper_wallet self) (ss_instance self) price (ss_world self) of
        (agent, w) \<Rightarrow>
          self\<lparr> ss_cells := (ss_cells self)(ss_next self \<mapsto> (None, agent)), ss_next := ss_next self + 1,
                 ss_pool_snipes := (rp_id pool, ss_next self)
                   # filter (\<lambda>(k, _). k \<noteq> rp_id pool) (ss_pool_snipes self),
                 ss_world := w \<rparr>)"

text \<open>The first event of a machine initialises it.\<close>

type_synonym sniper_driver =
  "(SolanaStrategyEvent, SniperState, SniperAgentState \<times> SniperWorld) machine \<Rightarrow> SolanaStrategyEvent \<Rightarrow> SniperState
     \<Rightarrow> SniperAgentState \<times> SniperWorld \<Rightarrow> (SniperState \<times> SniperAgentState \<times> SniperWorld) option"

definition deliver ::
  "sniper_driver \<Rightarrow> SniperEnv \<Rightarrow> SolanaStrategyEvent \<Rightarrow> nat \<Rightarrow> SniperStrategyStateMachine
     \<Rightarrow> SniperStrategyStateMachine option" where
  "deliver handle env event r self =
     Option.bind (ss_cells self r) (\<lambda>(st, agent).
     Option.bind (case st of
                    Some s \<Rightarrow> Some (s, (agent, ss_world self))
                  | None \<Rightarrow> map_option (Pair Waiting_to_buy)
                      (sniper_entry env Waiting_to_buy (agent, ss_world self))) (\<lambda>(s, aw).
     Option.bind (handle (sniper_machine env) event s aw) (\<lambda>(s', agent', w').
       Some (self\<lparr> ss_cells := (ss_cells self)(r \<mapsto> (Some s', agent')), ss_world := w' \<rparr>))))"

definition ended :: "SniperStrategyStateMachine \<Rightarrow> nat \<Rightarrow> bool" where
  "ended self r =
     (case ss_cells self r of
        Some (Some Sn_Done, _) \<Rightarrow> True
      | Some (Some (Sn_Error _), _) \<Rightarrow> True
      | _ \<Rightarrow> False)"

definition ended_snipes :: "SniperStrategyStateMachine \<Rightarrow> pubkey list" where
  "ended_snipes self = map fst (filter (\<lambda>(_, r). ended self r) (ss_pool_snipes self))"

definition remove_snipe :: "pubkey \<Rightarrow> SniperStrategyStateMachine \<Rightarrow> SniperStrategyStateMachine" where
  "remove_snipe pool self =
     self\<lparr> ss_pool_snipes := filter (\<lambda>(k, _). k \<noteq> pool) (ss_pool_snipes self) \<rparr>"

text \<open>One step of one task; \<open>ts1 @ t # ts2\<close> singles it out.\<close>

inductive task_step ::
  "sniper_driver \<Rightarrow> SniperStrategyStateMachine \<Rightarrow> SniperStrategyStateMachine \<Rightarrow> bool" for handle where
  insert: "ss_tasks s = ts1 @ TInsert pool price # ts2 \<Longrightarrow>
    task_step handle s ((insert_snipe env pool price s)\<lparr> ss_tasks := ts1 @ ts2 \<rparr>)"
| notify: "ss_tasks s = ts1 @ TNotify event # ts2 \<Longrightarrow>
    task_step handle s (s\<lparr> ss_tasks := ts1 @ TDeliver event (map snd (ss_pool_snipes s)) # ts2 \<rparr>)"
| deliver: "ss_tasks s = ts1 @ TDeliver event (rs1 @ r # rs2) # ts2 \<Longrightarrow> deliver handle env event r s = Some s' \<Longrightarrow>
    task_step handle s (s'\<lparr> ss_tasks := ts1 @ TDeliver event (rs1 @ rs2) # ts2 \<rparr>)"
| collect: "ss_tasks s = ts1 @ TDeliver event [] # ts2 \<Longrightarrow>
    task_step handle s (s\<lparr> ss_tasks := ts1 @ TRemove (ended_snipes s) # ts2 \<rparr>)"
| remove: "ss_tasks s = ts1 @ TRemove (ks1 @ k # ks2) # ts2 \<Longrightarrow>
    task_step handle s ((remove_snipe k s)\<lparr> ss_tasks := ts1 @ TRemove (ks1 @ ks2) # ts2 \<rparr>)"
| finish: "ss_tasks s = ts1 @ TRemove [] # ts2 \<Longrightarrow> task_step handle s (s\<lparr> ss_tasks := ts1 @ ts2 \<rparr>)"

text \<open>Runs: the events processed so far, the actions returned so far, and the state.\<close>

inductive sniper_reach ::
  "sniper_driver \<Rightarrow> SniperStrategyStateMachine \<Rightarrow> BotEvent list \<Rightarrow> SolanaAction list
     \<Rightarrow> SniperPhase \<times> SniperStrategyStateMachine \<Rightarrow> bool" for handle s0 where
  start: "sniper_reach handle s0 [] [] (Running, s0)"
| task: "sniper_reach handle s0 evs acts (phase, s) \<Longrightarrow> task_step handle s s' \<Longrightarrow>
    sniper_reach handle s0 evs acts (phase, s')"
| event: "sniper_reach handle s0 evs acts ps \<Longrightarrow> sniper_process_event senv ev ps = Some (new, ps') \<Longrightarrow>
    sniper_reach handle s0 (evs @ [ev]) (acts @ new) ps'"

end
