(* ===== verification/Sniper_Agent_Properties.thy ===== *)
theory Sniper_Agent_Properties
  imports Sniper_Agent
begin

text \<open>
  What one sniper does, over every sequence of events and every environment: one step of its machine first, then
  runs from the initial state.
\<close>

section \<open>Steps\<close>

definition same_sniper :: "SniperAgentState \<Rightarrow> SniperAgentState \<Rightarrow> bool" where
  "same_sniper a b \<longleftrightarrow> sg_pool a = sg_pool b \<and> sg_agent_key a = sg_agent_key b \<and> sg_instance a = sg_instance b"

lemma same_sniper_refl [simp, intro]: "same_sniper a a"
  by (simp add: same_sniper_def)

lemma same_sniper_trans [trans]: "same_sniper a b \<Longrightarrow> same_sniper b c \<Longrightarrow> same_sniper a c"
  by (simp add: same_sniper_def)

lemmas sniper_event_splits = SolanaStrategyEvent.splits BotEvent.splits BlockchainEvent.splits ExecutionResult.splits

lemma sniper_receipt:
  "sniper_process_execution_receipt rc a = (r, a1) \<Longrightarrow> same_sniper a a1 \<and>
     set (sg_actions_in_progress a1) \<subseteq> set (sg_actions_in_progress a) \<and>
     (r = Inr True \<longrightarrow> er_action_uuid rc \<in> set (sg_actions_in_progress a) \<and> er_err rc = None)"
  by (auto simp: sniper_process_execution_receipt_def same_sniper_def Let_def split: if_splits option.splits)

lemma sniper_cooled:
  "sniper_is_cooled_down env t a = Some (b, a1) \<Longrightarrow> same_sniper a a1 \<and>
     sg_actions_in_progress a1 = sg_actions_in_progress a"
  by (auto simp: sniper_is_cooled_down_def same_sniper_def split: result.splits bool.splits)

text \<open>A receipt that confirms one of the given actions.\<close>

definition confirms :: "uuid set \<Rightarrow> SolanaStrategyEvent \<Rightarrow> bool" where
  "confirms us ev \<longleftrightarrow> (\<exists>rc. ev = Original (ChainEvent (ReceiptEvent rc)) \<and> er_err rc = None \<and> er_action_uuid rc \<in> us)"

lemma conditional_transition_cases:
  assumes "conditional_transition env ev again ok n a = Some (r, a1)"
  shows "same_sniper a a1 \<and> set (sg_actions_in_progress a1) \<subseteq> set (sg_actions_in_progress a) \<and>
    (case r of
       Transition t \<Rightarrow> (t = ok \<and> confirms (set (sg_actions_in_progress a)) ev) \<or>
         (t = again \<and> n \<le> RETRIES_IF_ERROR_OR_TIMEOUT) \<or> (\<exists>m. t = Sn_Error m)
     | _ \<Rightarrow> True)"
  using assms
  by (auto simp: conditional_transition_def sniper_retry_or_def Let_def confirms_def same_sniper_def
      dest!: sniper_receipt sniper_cooled
      split: sniper_event_splits if_splits prod.splits sum.splits option.splits bool.splits)

abbreviation sniper_step ::
  "SniperEnv \<Rightarrow> SolanaStrategyEvent \<Rightarrow> SniperState \<Rightarrow> SniperAgentState \<times> SniperWorld
     \<Rightarrow> (SniperState \<times> SniperAgentState \<times> SniperWorld) option" where
  "sniper_step env \<equiv> statig_dispatch (sniper_machine env)"

lemma sniper_step_eq:
  "sniper_step env ev st aw =
     (case sniper_handler env ev st aw of
        None \<Rightarrow> None
      | Some (Transition t, aw1) \<Rightarrow> map_option (Pair t) (sniper_entry env t aw1)
      | Some (_, aw1) \<Rightarrow> Some (st, aw1))"
  by (auto simp: statig_dispatch_def sniper_machine_def respond_def change_state_def map_option_case
      split: option.splits Response.splits bind_splits)

text \<open>Where a state can lead.\<close>

definition leads_to :: "SniperAgentState \<Rightarrow> SniperState \<Rightarrow> SniperState \<Rightarrow> bool" where
  "leads_to a st t \<longleftrightarrow>
     (case st of
        Waiting_to_buy \<Rightarrow> t = Sn_Buying (Exact (sol_to_lamports (si_size_sol (sg_instance a)))) 0 \<or> t = Sn_Done
      | Sn_Buying amt m \<Rightarrow> (t = Sn_Buying amt (m + 1) \<and> m \<le> 2) \<or> t = Waiting_to_sell \<or> (\<exists>e. t = Sn_Error e)
      | Waiting_to_sell \<Rightarrow> t = Sn_Selling Amount_Max 0 \<or> t = Sn_Selling MaxAndClose 0
      | Sn_Selling amt m \<Rightarrow> (t = Sn_Selling Amount_Max (m + 1) \<and> m \<le> 1) \<or> t = Sn_Done \<or> (\<exists>e. t = Sn_Error e)
      | _ \<Rightarrow> False)"

lemma sniper_handler_same:
  assumes "sniper_handler env ev st (a, w) = Some (r, (a1, w1))"
  shows "w1 = w \<and> same_sniper a a1 \<and> set (sg_actions_in_progress a1) \<subseteq> set (sg_actions_in_progress a)"
  using assms
  by (cases st) (auto simp: sniper_handler_def waiting_to_sell_def same_sniper_def Let_def
      dest!: conditional_transition_cases split: if_splits option.splits)

lemma sniper_handler_target:
  assumes "sniper_handler env ev st (a, w) = Some (Transition t, aw)"
  shows "leads_to a st t" "t = Waiting_to_sell \<Longrightarrow> confirms (set (sg_actions_in_progress a)) ev"
proof -
  show "leads_to a st t"
    using assms
    by (cases st) (force simp: sniper_handler_def waiting_to_buy_def waiting_to_sell_def leads_to_def Let_def
        RETRIES_IF_ERROR_OR_TIMEOUT_def dest!: conditional_transition_cases split: if_splits option.splits)+
  show "confirms (set (sg_actions_in_progress a)) ev" if "t = Waiting_to_sell"
    using assms that
    by (cases st) (force simp: sniper_handler_def waiting_to_buy_def waiting_to_sell_def Let_def
        dest!: conditional_transition_cases split: if_splits option.splits)+
qed

lemma sniper_step_cases:
  assumes "sniper_step env ev st (a, w) = Some (st', (a', w'))"
  obtains (stay) "st' = st" "w' = w" "same_sniper a a'"
      "set (sg_actions_in_progress a') \<subseteq> set (sg_actions_in_progress a)"
  | (move) a1 where "leads_to a st st'" "same_sniper a a1"
      "set (sg_actions_in_progress a1) \<subseteq> set (sg_actions_in_progress a)"
      "st' = Waiting_to_sell \<Longrightarrow> confirms (set (sg_actions_in_progress a)) ev"
      "sniper_entry env st' (a1, w) = Some (a', w')"
proof -
  from assms obtain r a1 w1 where h: "sniper_handler env ev st (a, w) = Some (r, (a1, w1))"
    by (auto simp: sniper_step_eq split: option.splits)
  note same = sniper_handler_same [OF h]
  show thesis
  proof (cases r)
    case (Transition t)
    then show thesis
      using assms h same move sniper_handler_target [of env ev st a w t "(a1, w1)"] by (auto simp: sniper_step_eq)
  qed (use assms h same stay in \<open>auto simp: sniper_step_eq\<close>)
qed

section \<open>Entry actions\<close>

definition own_swap :: "SniperAgentState \<Rightarrow> SwapMethod \<Rightarrow> SolanaAction \<Rightarrow> bool" where
  "own_swap a m x \<longleftrightarrow> sa_sniper x = sg_agent_key a \<and> sa_fee_payer x = sg_agent_key a \<and> sa_status x = NotSent \<and>
     (\<exists>amt. sa_action_payload x = [SolanaSwapActionPayload (SwapPayload_new (sg_pool a) m amt)] \<and>
        (case m of
           BuyTokensForExactSol \<Rightarrow> amt = Exact (sol_to_lamports (si_size_sol (sg_instance a)))
         | SellExactTokensForSol \<Rightarrow> amt = Amount_Max \<or> amt = MaxAndClose))"

lemma own_swap_same: "same_sniper a b \<Longrightarrow> own_swap a = own_swap b"
  by (auto simp: own_swap_def same_sniper_def fun_eq_iff split: SwapMethod.splits)

lemma queue_effect:
  assumes "sniper_queue_action env x (a, w) = (a', w')"
  shows "same_sniper a a'" "sx_actions w' = sx_actions w @ [x]"
    "sg_actions_in_progress a' = sg_actions_in_progress a @ [sa_uuid x]"
  using assms by (auto simp: sniper_queue_action_def register_action_def same_sniper_def)

lemma buy_entry:
  assumes "sniper_entry env (Sn_Buying amt n) (a, w) = Some (a', w')"
    and "amt = Exact (sol_to_lamports (si_size_sol (sg_instance a)))"
  shows "\<exists>x. own_swap a BuyTokensForExactSol x \<and> same_sniper a a' \<and> sx_actions w' = sx_actions w @ [x] \<and>
    sg_actions_in_progress a' = sg_actions_in_progress a @ [sa_uuid x]"
  using assms queue_effect [of env "sniper_swap env BuyTokensForExactSol amt a" a w a' w']
  by (auto simp: sniper_entry_def sniper_buy_def own_swap_def sniper_swap_def SolanaAction_new_def
      new_with_feepayer_def SwapPayload_new_def intro!: exI [of _ "sniper_swap env BuyTokensForExactSol amt a"])

lemma sell_entry:
  assumes "sniper_entry env (Sn_Selling amt n) (a, w) = Some (a', w')" and "amt = Amount_Max \<or> amt = MaxAndClose"
  shows "\<exists>x. own_swap a SellExactTokensForSol x \<and> same_sniper a a' \<and> sx_actions w' = sx_actions w @ [x] \<and>
    sg_actions_in_progress a' = sg_actions_in_progress a @ [sa_uuid x]"
  using assms queue_effect [of env "sniper_swap env SellExactTokensForSol amt a" a w a' w']
  by (auto simp: sniper_entry_def sniper_sell_def own_swap_def sniper_swap_def SolanaAction_new_def
      new_with_feepayer_def SwapPayload_new_def intro!: exI [of _ "sniper_swap env SellExactTokensForSol amt a"])

lemma quiet_entry:
  assumes "sniper_entry env t (a, w) = Some (a', w')" "\<nexists>amt n. t = Sn_Buying amt n" "\<nexists>amt n. t = Sn_Selling amt n"
  shows "same_sniper a a'" "sx_actions w' = sx_actions w"
  using assms
  by (cases t; auto simp: sniper_entry_def set_buy_delay_timer_def set_when_bought_timer_def stop_monitoring_def
      update_cache_def same_sniper_def Let_def split: bind_splits rpc.splits)+

section \<open>Runs\<close>

definition confirmed :: "(SniperEnv \<times> SolanaStrategyEvent) list \<Rightarrow> SolanaAction list \<Rightarrow> bool" where
  "confirmed es bs \<longleftrightarrow> list_ex (\<lambda>(_, ev). confirms (sa_uuid ` set bs) ev) es"

definition trade_phase ::
  "(SniperEnv \<times> SolanaStrategyEvent) list \<Rightarrow> SniperAgentState \<Rightarrow> SniperState \<Rightarrow> SolanaAction list
     \<Rightarrow> SolanaAction list \<Rightarrow> bool" where
  "trade_phase es a st bs ss \<longleftrightarrow>
     (case st of
        Waiting_to_buy \<Rightarrow> bs = [] \<and> ss = [] \<and> sg_actions_in_progress a = []
      | Sn_Buying amt m \<Rightarrow> amt = Exact (sol_to_lamports (si_size_sol (sg_instance a))) \<and> 0 \<le> m \<and> m \<le> 3 \<and>
          length bs = nat m + 1 \<and> ss = [] \<and> set (sg_actions_in_progress a) \<subseteq> sa_uuid ` set bs
      | Waiting_to_sell \<Rightarrow> length bs \<le> 4 \<and> ss = [] \<and> confirmed es bs
      | Sn_Selling amt m \<Rightarrow> length bs \<le> 4 \<and> 0 \<le> m \<and> m \<le> 2 \<and> length ss = nat m + 1 \<and> confirmed es bs
      | _ \<Rightarrow> length bs \<le> 4 \<and> length ss \<le> 3 \<and> (ss = [] \<or> confirmed es bs))"

definition trade_inv ::
  "(SniperEnv \<times> SolanaStrategyEvent) list \<Rightarrow> SniperAgentState \<Rightarrow> SniperWorld \<Rightarrow> SniperState
     \<Rightarrow> SniperAgentState \<times> SniperWorld \<Rightarrow> bool" where
  "trade_inv es a0 w0 st aw \<longleftrightarrow> same_sniper a0 (fst aw) \<and>
     (\<exists>bs ss. sx_actions (snd aw) = sx_actions w0 @ bs @ ss \<and> list_all (own_swap a0 BuyTokensForExactSol) bs \<and>
        list_all (own_swap a0 SellExactTokensForSol) ss \<and> trade_phase es (fst aw) st bs ss)"

lemma confirms_mono: "confirms us ev \<Longrightarrow> us \<subseteq> vs \<Longrightarrow> confirms vs ev"
  by (auto simp: confirms_def)

lemma trade_phase_move:
  assumes "trade_phase es a st bs ss" "leads_to a st t" "same_sniper a a1"
    and "set (sg_actions_in_progress a1) \<subseteq> set (sg_actions_in_progress a)"
    and "t = Waiting_to_sell \<Longrightarrow> confirms (set (sg_actions_in_progress a)) ev" and "(env, ev) \<in> set es"
    and "\<nexists>amt n. t = Sn_Buying amt n" "\<nexists>amt n. t = Sn_Selling amt n" "same_sniper a1 a'"
  shows "trade_phase es a' t bs ss"
proof -
  have c: "confirmed es bs" if "t = Waiting_to_sell"
  proof -
    have "\<exists>amt m. st = Sn_Buying amt m" using assms(2) that by (cases st) (auto simp: leads_to_def)
    then have "set (sg_actions_in_progress a) \<subseteq> sa_uuid ` set bs" using assms(1) by (auto simp: trade_phase_def)
    from confirms_mono [OF assms(5) [OF that] this] assms(6) show ?thesis
      by (auto simp: confirmed_def list_ex_iff)
  qed
  show ?thesis using assms(1,2,7,8) c by (cases st; cases t) (auto simp: trade_phase_def leads_to_def)
qed

lemma trade_inv_step:
  assumes "trade_inv es a0 w0 st (a, w)" "sniper_step env ev st (a, w) = Some (st', (a', w'))" "(env, ev) \<in> set es"
  shows "trade_inv es a0 w0 st' (a', w')"
proof -
  obtain bs ss where i: "same_sniper a0 a" "sx_actions w = sx_actions w0 @ bs @ ss"
    "list_all (own_swap a0 BuyTokensForExactSol) bs" "list_all (own_swap a0 SellExactTokensForSol) ss"
    "trade_phase es a st bs ss" using assms(1) by (auto simp: trade_inv_def)
  from assms(2) show ?thesis
  proof (cases rule: sniper_step_cases)
    case stay
    then have "trade_phase es a' st bs ss"
      using i(5) by (cases st) (auto simp: trade_phase_def same_sniper_def)
    then show ?thesis using stay i same_sniper_trans unfolding trade_inv_def by auto
  next
    case (move a1)
    have s1: "same_sniper a0 a1" using i(1) move(2) by (rule same_sniper_trans)
    consider (buy) amt n where "st' = Sn_Buying amt n" | (sell) amt n where "st' = Sn_Selling amt n"
      | (quiet) "\<nexists>amt n. st' = Sn_Buying amt n" "\<nexists>amt n. st' = Sn_Selling amt n" by blast
    then show ?thesis
    proof cases
      case buy
      have p: "ss = []" "amt = Exact (sol_to_lamports (si_size_sol (sg_instance a1)))"
        "0 \<le> n" "n \<le> 3" "length bs + 1 = nat n + 1" "set (sg_actions_in_progress a1) \<subseteq> sa_uuid ` set bs"
        using i(5) move(1-3) buy by (cases st; auto simp: trade_phase_def leads_to_def same_sniper_def)+
      from buy_entry [OF _ p(2)] move(5) obtain x where x: "own_swap a1 BuyTokensForExactSol x" "same_sniper a1 a'"
        "sx_actions w' = sx_actions w @ [x]" "sg_actions_in_progress a' = sg_actions_in_progress a1 @ [sa_uuid x]"
        unfolding buy by blast
      have "trade_phase es a' st' (bs @ [x]) []"
        using p x(2,4) by (auto simp: buy trade_phase_def same_sniper_def)
      then show ?thesis
        using i p(1) x s1 own_swap_same [OF s1] same_sniper_trans [OF s1 x(2)] unfolding trade_inv_def
        by (intro conjI exI [of _ "bs @ [x]"] exI [of _ "[]"]) auto
    next
      case sell
      have p: "amt = Amount_Max \<or> amt = MaxAndClose" "length bs \<le> 4" "0 \<le> n" "n \<le> 2" "length ss + 1 = nat n + 1"
        "confirmed es bs"
        using i(5) move(1) sell by (cases st; auto simp: trade_phase_def leads_to_def)+
      from sell_entry [OF _ p(1)] move(5) obtain x where x: "own_swap a1 SellExactTokensForSol x" "same_sniper a1 a'"
        "sx_actions w' = sx_actions w @ [x]" unfolding sell by blast
      have "trade_phase es a' st' bs (ss @ [x])" using p by (auto simp: sell trade_phase_def)
      then show ?thesis
        using i x s1 own_swap_same [OF s1] same_sniper_trans [OF s1 x(2)] unfolding trade_inv_def
        by (intro conjI exI [of _ bs] exI [of _ "ss @ [x]"]) auto
    next
      case quiet
      note q = quiet_entry [OF move(5) quiet]
      have "trade_phase es a' st' bs ss"
        using trade_phase_move [OF i(5) move(1-3) move(4) assms(3) quiet q(1)] by blast
      then show ?thesis using i q(2) same_sniper_trans [OF s1 q(1)] unfolding trade_inv_def by auto
    qed
  qed
qed

lemma sniper_run_inv:
  assumes "statig handle" and "run_machine handle sniper_machine es (Waiting_to_buy, (a, w)) = Some (st, (a', w'))"
    and "sg_actions_in_progress a = []"
  shows "trade_inv es a w st (a', w')"
proof (rule run_invariant [OF assms(2), where I = "trade_inv es a w"])
  show "trade_inv es a w Waiting_to_buy (a, w)" using assms(3) by (auto simp: trade_inv_def trade_phase_def)
  show "trade_inv es a w st' aw'"
    if "(env, ev) \<in> set es" "trade_inv es a w st aw" "handle (sniper_machine env) ev st aw = Some (st', aw')"
    for env ev st aw st' aw'
  proof -
    obtain b v b' v' where "aw = (b, v)" "aw' = (b', v')" by fastforce
    then show ?thesis using that trade_inv_step [of es a w st b v env ev st' b' v']
      by (simp add: statig.handle_eq [OF assms(1)])
  qed
qed

lemma word_of_int_less_of_nat:
  assumes "0 \<le> h" "h < int n" "n < 2 ^ 64" shows "(word_of_int h :: u64) < of_nat n"
proof -
  have "int n < 2 ^ 64" using assms(3) by (metis of_nat_less_iff of_nat_numeral of_nat_power)
  then have "h mod 2 ^ 64 = h" "int n mod 2 ^ 64 = int n" using assms(1,2) by (simp_all only: mod_pos_pos_trivial)
  then show ?thesis
    using assms(2) unat_of_nat [of n, where 'a = 64] assms(3)
    by (simp add: word_less_def uint_word_of_int) (simp add: uint_nat)
qed

section \<open>Example data\<close>

definition example_sniper_pool :: RaydiumPool where
  "example_sniper_pool = \<lparr> rp_id = [1], rp_base_mint = [2], rp_quote_mint = WSOL_MINT_PUBKEY, rp_lp_mint = [3],
     rp_base_decimals = 6, rp_quote_decimals = 9, rp_lp_decimals = 0, rp_version = 4, rp_program_id = [4],
     rp_authority = [5], rp_open_orders = [6], rp_target_orders = [7], rp_base_vault = [8], rp_quote_vault = [9],
     rp_withdraw_queue = [10], rp_lp_vault = [11], rp_market_version = 3, rp_market_program_id = [12],
     rp_market_id = [13], rp_lp_reserve = 0, rp_open_time = 0, rp_reverse_pool = False, rp_freeze_authority = None \<rparr>"

definition example_sniping :: SnipingStrategyInstance where
  "example_sniping = \<lparr> si_id = 1, si_user_id = 1, si_started_at = 0, si_completed_at = None,
     si_sniper_private_key = [], si_size_sol = 0, si_stop_loss_percent_move_down = 0,
     si_take_profit_percent_move_up = 0, si_force_exit_horizon_s = 60, si_max_simultaneous_snipes = 1,
     si_min_pool_liquidity_sol = 0, si_skip_pump_fun = False, si_skip_mintable = False, si_buy_delay_ms = 0,
     si_skip_if_price_drops_percent = 0 \<rparr>"

definition example_sniper_env :: SniperEnv where
  "example_sniper_env = \<lparr> sn_ext = \<lparr> ext_rpc_get_account = (\<lambda>_. Inl ''offline''), ext_token_unpack = (\<lambda>_. None),
       ext_hex_encode = (\<lambda>_. []), ext_ata = (\<lambda>s m. s @ m) \<rparr>,
     sn_clients = [], sn_pow = (\<lambda>_ _. None), sn_now = 0, sn_entry_now = 0, sn_utc = 0, sn_uuid = 1 \<rparr>"

definition example_sniper_world :: SniperWorld where
  "example_sniper_world = \<lparr> sx_context = \<lparr> ctx_cache = OperationalCache_new Map.empty Map.empty, ctx_notified = 0 \<rparr>,
     sx_actions = [] \<rparr>"

definition example_sniper :: SniperAgentState where
  "example_sniper = fst (SniperAgentState_new example_sniper_env example_sniper_pool [20] example_sniping
     RaydiumPoolPriceUpdate_default example_sniper_world)"

section \<open>Properties\<close>

text \<open>
  C3: The trades of a sniper. Whatever events arrive, in whatever order and at whatever time, a new agent queues at
  most four purchases of exactly the configured size followed by at most three sales of its tokens, all of them
  swaps on its own pool paid by its own wallet; and it sells nothing before a receipt has confirmed one of its
  purchases.
\<close>

theorem sniper_trades:
  assumes "statig handle" and "run_machine handle sniper_machine es (Waiting_to_buy, (a, w)) = Some (st, (a', w'))"
    and "sg_actions_in_progress a = []"
  shows "\<exists>bs ss. sx_actions w' = sx_actions w @ bs @ ss \<and> length bs \<le> 4 \<and> length ss \<le> 3 \<and>
    list_all (own_swap a BuyTokensForExactSol) bs \<and> list_all (own_swap a SellExactTokensForSol) ss \<and>
    (ss = [] \<or> confirmed es bs)"
proof -
  from sniper_run_inv [OF assms] obtain bs ss where i: "sx_actions w' = sx_actions w @ bs @ ss"
    "list_all (own_swap a BuyTokensForExactSol) bs" "list_all (own_swap a SellExactTokensForSol) ss"
    "trade_phase es a' st bs ss" by (auto simp: trade_inv_def)
  then have "length bs \<le> 4 \<and> length ss \<le> 3 \<and> (ss = [] \<or> confirmed es bs)"
    by (cases st) (auto simp: trade_phase_def)
  with i show ?thesis by blast
qed

theorem sniper_trades_witness:
  "\<exists>st a' w' bs ss. run_machine statig_dispatch sniper_machine
       [(example_sniper_env, Original (HeartBeat 1 0))] (Waiting_to_buy, (example_sniper, example_sniper_world))
       = Some (st, (a', w')) \<and> st = Sn_Buying (Exact 0) 0 \<and> sx_actions w' = bs @ ss \<and> length bs \<le> 4"
proof -
  let ?es = "[(example_sniper_env, Original (HeartBeat 1 0))]"
  have p: "sg_actions_in_progress example_sniper = []" "si_buy_delay_ms (sg_instance example_sniper) = 0"
    "si_size_sol (sg_instance example_sniper) = 0"
    by (simp_all add: example_sniper_def SniperAgentState_new_def example_sniping_def Let_def)
  have h: "sniper_handler example_sniper_env (Original (HeartBeat 1 0)) Waiting_to_buy
      (example_sniper, example_sniper_world) = Some (Transition (Sn_Buying (Exact 0) 0), (example_sniper, example_sniper_world))"
    by (simp add: sniper_handler_def waiting_to_buy_def ready_to_buy_def p Let_def)
  obtain a' w' where e: "sniper_entry example_sniper_env (Sn_Buying (Exact 0) 0) (example_sniper, example_sniper_world)
      = Some (a', w')" by (auto simp: sniper_entry_def sniper_buy_def sniper_queue_action_def)
  have r: "run_machine statig_dispatch sniper_machine ?es (Waiting_to_buy, (example_sniper, example_sniper_world)) =
      Some (Sn_Buying (Exact 0) 0, (a', w'))"
    by (simp add: sniper_step_eq h e)
  obtain bs ss where "sx_actions w' = sx_actions example_sniper_world @ bs @ ss" "length bs \<le> 4"
    using sniper_trades [OF reference.statig_axioms r p(1)] by blast
  then show ?thesis using r by (auto simp: example_sniper_world_def)
qed

text \<open>
  When a sniper sells. Holding its token, it leaves the state on the first event after the configured horizon,
  whatever the event, and sells everything and closes the account; before that it sells exactly on a price update
  of its own pool below the stop loss or above the take profit, and then without closing the account. Every other
  event leaves it waiting with the same buy price and clock.
\<close>

theorem sniper_exit_exact:
  "fst (waiting_to_sell env event self) =
     (if horizon_passed env self then Transition (Sn_Selling MaxAndClose 0)
      else
        (case event_price_update event of
           None \<Rightarrow> Super
         | Some p \<Rightarrow>
             (let price = pu_price p; buy = pu_price (sg_buy_price self); inst = sg_instance self
              in if pu_pool p = rp_id (sg_pool self) \<and>
                   (f64_lt price (f64_mul buy (si_stop_loss_percent_move_down inst)) \<or>
                    f64_gt price (f64_mul buy (si_take_profit_percent_move_up inst)))
                 then Transition (Sn_Selling Amount_Max 0) else Super)))
   \<and> sg_buy_price (snd (waiting_to_sell env event self)) = sg_buy_price self
   \<and> sg_when_bought_timer (snd (waiting_to_sell env event self)) = sg_when_bought_timer self"
proof -
  define self1 where "self1 = (if bought_elapsed_s env self - sg_last_time self > 1
    then self\<lparr> sg_last_time := bought_elapsed_s env self \<rparr> else self)"
  have "sg_buy_price self1 = sg_buy_price self" "sg_when_bought_timer self1 = sg_when_bought_timer self"
    unfolding self1_def by (rule if_split [THEN iffD2], simp)+
  moreover note waiting_to_sell_def [of env event self, unfolded Let_def, folded self1_def]
  ultimately show ?thesis
    by (cases "event_price_update event") (simp_all add: stop_loss_hit_def take_profit_hit_def Let_def)
qed



end
