(* ===== verification/Sniper_Strategy_Properties.thy ===== *)
theory Sniper_Strategy_Properties
  imports Sniper_Strategy Sniper_Agent_Properties
begin

text \<open>
  The sniper strategy under every interleaving of its tasks with further events: what its actions are, and what
  becomes of the limit on simultaneous snipes.
\<close>

section \<open>Actions\<close>

definition swap_by :: "keypair \<Rightarrow> RaydiumPool \<Rightarrow> SolanaAction \<Rightarrow> bool" where
  "swap_by key pool x \<longleftrightarrow> sa_sniper x = key \<and> sa_fee_payer x = key \<and>
     (\<exists>m amt. sa_action_payload x = [SolanaSwapActionPayload (SwapPayload_new pool m amt)])"

lemma entry_actions:
  assumes "sniper_entry env t (a, w) = Some (a', w')"
  shows "same_sniper a a' \<and> (sx_actions w' = sx_actions w \<or>
    (\<exists>x. sx_actions w' = sx_actions w @ [x] \<and> swap_by (sg_agent_key a) (sg_pool a) x))"
proof -
  have q: "swap_by (sg_agent_key a) (sg_pool a) (sniper_swap env m amt a)" for m amt
    by (simp add: swap_by_def sniper_swap_def SolanaAction_new_def new_with_feepayer_def SwapPayload_new_def)
  consider (buy) amt n where "t = Sn_Buying amt n" | (sell) amt n where "t = Sn_Selling amt n"
    | (quiet) "\<nexists>amt n. t = Sn_Buying amt n" "\<nexists>amt n. t = Sn_Selling amt n" by blast
  then show ?thesis
  proof cases
    case buy
    then have "sniper_queue_action env (sniper_swap env BuyTokensForExactSol amt a) (a, w) = (a', w')"
      using assms by (simp add: sniper_entry_def sniper_buy_def)
    from queue_effect [OF this] q show ?thesis by blast
  next
    case sell
    then have "sniper_queue_action env (sniper_swap env SellExactTokensForSol amt a) (a, w) = (a', w')"
      using assms by (simp add: sniper_entry_def sniper_sell_def)
    from queue_effect [OF this] q show ?thesis by blast
  next
    case quiet
    then show ?thesis using quiet_entry [OF assms] by blast
  qed
qed

lemma step_actions:
  assumes "sniper_step env ev st (a, w) = Some (st', (a', w'))"
  shows "same_sniper a a' \<and> (sx_actions w' = sx_actions w \<or>
    (\<exists>x. sx_actions w' = sx_actions w @ [x] \<and> swap_by (sg_agent_key a) (sg_pool a) x))"
  using assms
proof (cases rule: sniper_step_cases)
  case stay
  then show ?thesis by simp
next
  case (move a1)
  have "sg_agent_key a1 = sg_agent_key a" "sg_pool a1 = sg_pool a" using move(2) by (simp_all add: same_sniper_def)
  then show ?thesis using entry_actions [OF move(5)] same_sniper_trans [OF move(2)] by simp
qed

text \<open>A pool that was announced with enough liquidity.\<close>

definition announced :: "SnipingStrategyInstance \<Rightarrow> BotEvent list \<Rightarrow> RaydiumPool \<Rightarrow> bool" where
  "announced inst evs pool \<longleftrightarrow> (\<exists>price. ChainEvent (RaydiumNewPoolEvent pool price) \<in> set evs \<and>
     \<not> f64_lt (pu_quote_reserve price) (si_min_pool_liquidity_sol inst))"

definition own_action :: "SniperStrategyStateMachine \<Rightarrow> BotEvent list \<Rightarrow> SolanaAction \<Rightarrow> bool" where
  "own_action s0 evs x \<longleftrightarrow> (\<exists>pool. announced (ss_instance s0) evs pool \<and> swap_by (ss_sniper_wallet s0) pool x)"

definition snipes_inv :: "SniperStrategyStateMachine \<Rightarrow> BotEvent list \<Rightarrow> SniperStrategyStateMachine \<Rightarrow> bool" where
  "snipes_inv s0 evs s \<longleftrightarrow> ss_instance s = ss_instance s0 \<and> ss_sniper_wallet s = ss_sniper_wallet s0 \<and>
     (\<forall>r st a. ss_cells s r = Some (st, a) \<longrightarrow>
        sg_agent_key a = ss_sniper_wallet s0 \<and> announced (ss_instance s0) evs (sg_pool a)) \<and>
     (\<forall>pool price. TInsert pool price \<in> set (ss_tasks s) \<longrightarrow> announced (ss_instance s0) evs pool) \<and>
     (\<forall>x \<in> set (sx_actions (ss_world s)). own_action s0 evs x)"

lemma announced_mono: "announced inst evs p \<Longrightarrow> announced inst (evs @ evs') p"
  by (auto simp: announced_def)

lemma own_action_mono: "own_action s0 evs x \<Longrightarrow> own_action s0 (evs @ evs') x"
  by (auto simp: own_action_def dest: announced_mono)

lemma deliver_inv:
  assumes "statig handle" "snipes_inv s0 evs s" "deliver handle env ev r s = Some s'"
  shows "snipes_inv s0 evs s' \<and> ss_tasks s' = ss_tasks s \<and> ss_pool_snipes s' = ss_pool_snipes s"
proof -
  obtain st a t a1 w1 t' a2 w2 where c: "ss_cells s r = Some (st, a)"
    and i: "(case st of Some q \<Rightarrow> Some (q, (a, ss_world s)) | None \<Rightarrow> map_option (Pair Waiting_to_buy)
              (sniper_entry env Waiting_to_buy (a, ss_world s))) = Some (t, (a1, w1))"
    and h: "handle (sniper_machine env) ev t (a1, w1) = Some (t', a2, w2)"
    and s': "s' = s\<lparr> ss_cells := (ss_cells s)(r \<mapsto> (Some t', a2)), ss_world := w2 \<rparr>"
    using assms(3) by (auto simp: deliver_def split: bind_splits)
  have e: "same_sniper a a1 \<and> sx_actions w1 = sx_actions (ss_world s)"
    using i by (cases st) (auto simp: sniper_entry_def set_buy_delay_timer_def same_sniper_def)
  from h have "sniper_step env ev t (a1, w1) = Some (t', (a2, w2))" by (simp add: statig.handle_eq [OF assms(1)])
  note st = step_actions [OF this]
  have a: "sg_agent_key a = ss_sniper_wallet s0" "announced (ss_instance s0) evs (sg_pool a)"
    using assms(2) c unfolding snipes_inv_def by blast+
  have a2: "sg_agent_key a2 = ss_sniper_wallet s0" "announced (ss_instance s0) evs (sg_pool a2)"
    and k: "sg_agent_key a1 = ss_sniper_wallet s0" "sg_pool a1 = sg_pool a"
    using a e st by (auto simp: same_sniper_def)
  have "\<forall>x \<in> set (sx_actions w2). own_action s0 evs x"
    using assms(2) st e k a(2) by (auto simp: snipes_inv_def own_action_def)
  then show ?thesis using assms(2) a2 by (auto simp: s' snipes_inv_def split: if_splits)
qed

lemma insert_snipe_inv:
  assumes "snipes_inv s0 evs s" "announced (ss_instance s0) evs pool"
  shows "snipes_inv s0 evs (insert_snipe env pool price s)"
  using assms
  by (auto simp: snipes_inv_def insert_snipe_def SniperAgentState_new_def own_action_def Let_def split: if_splits)

lemma snipes_inv_tasks:
  "snipes_inv s0 evs s \<Longrightarrow> (\<And>pool price. TInsert pool price \<in> set ts \<Longrightarrow> announced (ss_instance s0) evs pool) \<Longrightarrow>
     snipes_inv s0 evs (s\<lparr> ss_tasks := ts \<rparr>)"
  by (simp add: snipes_inv_def)

lemma remove_snipe_inv: "snipes_inv s0 evs s \<Longrightarrow> snipes_inv s0 evs (remove_snipe k s)"
  by (simp add: snipes_inv_def remove_snipe_def)

lemma task_step_inv:
  assumes "statig handle" "task_step handle s s'" "snipes_inv s0 evs s"
  shows "snipes_inv s0 evs s'"
  using assms(2,3)
proof cases
  case (insert ts1 pool price ts2 env)
  then have "announced (ss_instance s0) evs pool" using assms(3) by (auto simp: snipes_inv_def)
  from insert_snipe_inv [OF assms(3) this] insert assms(3) show ?thesis
    by (auto intro!: snipes_inv_tasks simp: snipes_inv_def)
next
  case (deliver ts1 event rs1 r rs2 ts2 env s1)
  then show ?thesis using deliver_inv [OF assms(1,3) deliver(3)] assms(3)
    by (auto intro!: snipes_inv_tasks simp: snipes_inv_def)
qed (use assms(3) remove_snipe_inv [OF assms(3)] in \<open>auto intro!: snipes_inv_tasks simp: snipes_inv_def\<close>)

lemma wants_pool_liquid:
  "wants_pool senv p price s = Some True \<Longrightarrow>
     \<not> f64_lt (pu_quote_reserve price) (si_min_pool_liquidity_sol (ss_instance s)) \<and>
     rp_id p \<notin> fst ` set (ss_pool_snipes s) \<and>
     length (ss_pool_snipes s) < nat (si_max_simultaneous_snipes (ss_instance s) mod 2 ^ 64)"
  by (auto simp: wants_pool_def Let_def split: bind_splits if_splits)

lemma wants_pool_cong:
  assumes "ss_instance s1 = ss_instance s2" "ss_pool_snipes s1 = ss_pool_snipes s2"
  shows "wants_pool senv p price s1 = wants_pool senv p price s2"
  unfolding wants_pool_def assms ..

lemma running_cases:
  assumes "running senv (Original ev) s = Some s'"
  obtains (idle) "s' = s"
  | (spawn) p price where "ev = ChainEvent (RaydiumNewPoolEvent p price)" "wants_pool senv p price s = Some True"
      "s' = s\<lparr> ss_tasks := ss_tasks s @ [TInsert p price] \<rparr>"
  using assms by (auto simp: running_def split: BotEvent.splits BlockchainEvent.splits option.splits bool.splits)

lemma process_event_cases:
  assumes "sniper_process_event senv ev (Running, s) = Some (new, ps)"
  obtains s1 where "ps = (Running, s1\<lparr> ss_world := (ss_world s)\<lparr> sx_actions := [] \<rparr> \<rparr>)" "new = sx_actions (ss_world s)"
    "s1 = s \<or> s1 = on_dispatch (Original ev) s \<or>
      (\<exists>p price. ev = ChainEvent (RaydiumNewPoolEvent p price) \<and> wants_pool senv p price s = Some True \<and>
         s1 = s\<lparr> ss_tasks := ss_tasks s @ [TNotify (Original ev), TInsert p price] \<rparr>)"
proof -
  have wants: "wants_pool senv p price (on_dispatch e s) = wants_pool senv p price s" for p price e
    by (rule wants_pool_cong) (simp_all add: on_dispatch_def)
  show thesis
  proof (cases "forwarded ev")
    case False
    then show thesis using assms that [of s] by (auto simp: sniper_process_event_def Let_def)
  next
    case True
    then obtain s1 where r: "running senv (Original ev) (on_dispatch (Original ev) s) = Some s1"
      and ps: "ps = (Running, s1\<lparr> ss_world := (ss_world s1)\<lparr> sx_actions := [] \<rparr> \<rparr>)" "new = sx_actions (ss_world s1)"
      using assms by (auto simp: sniper_process_event_def sniper_strategy_handle_def Let_def split: bind_splits)
    from r show thesis
    proof (cases rule: running_cases)
      case idle
      then show thesis using that [of s1] ps by (simp add: on_dispatch_def)
    next
      case (spawn p price)
      then show thesis using that [of s1] ps by (simp add: on_dispatch_def wants [unfolded on_dispatch_def])
    qed
  qed
qed

lemma sniper_process_event_inv:
  assumes "snipes_inv s0 evs s" "sniper_process_event senv ev (Running, s) = Some (new, ps)"
  shows "fst ps = Running \<and> snipes_inv s0 (evs @ [ev]) (snd ps) \<and> list_all (own_action s0 (evs @ [ev])) new"
  using assms(2)
proof (cases rule: process_event_cases)
  case (1 s1)
  have old: "list_all (own_action s0 (evs @ [ev])) new"
    using assms(1) 1(2) own_action_mono by (auto simp: snipes_inv_def list_all_iff)
  have mono: "snipes_inv s0 (evs @ [ev]) (s\<lparr> ss_world := (ss_world s)\<lparr> sx_actions := [] \<rparr> \<rparr>)"
    using assms(1) announced_mono by (fastforce simp: snipes_inv_def)
  have "announced (ss_instance s0) (evs @ [ev]) p"
    if "ev = ChainEvent (RaydiumNewPoolEvent p price)" "wants_pool senv p price s = Some True" for p price
    using wants_pool_liquid [OF that(2)] that(1) assms(1) by (auto simp: announced_def snipes_inv_def)
  moreover have "announced (ss_instance s0) (evs @ [ev]) p" if "TInsert p price \<in> set (ss_tasks s)" for p price
    using assms(1) that announced_mono by (auto simp: snipes_inv_def)
  ultimately have new: "announced (ss_instance s0) (evs @ [ev]) p" if "TInsert p price \<in> set (ss_tasks s1)" for p price
    using that 1(3) by (auto simp: on_dispatch_def)
  have "snd ps = s\<lparr> ss_world := (ss_world s)\<lparr> sx_actions := [] \<rparr>, ss_tasks := ss_tasks s1 \<rparr>"
    using 1(1,3) by (auto simp: on_dispatch_def)
  then have "snipes_inv s0 (evs @ [ev]) (snd ps)" using snipes_inv_tasks [OF mono new] by simp
  then show ?thesis using 1(1) old by simp
qed

lemma sniper_reach_inv:
  assumes "statig handle" "sniper_reach handle s0 evs acts ps" "snipes_inv s0 [] s0"
  shows "fst ps = Running \<and> snipes_inv s0 evs (snd ps) \<and> list_all (own_action s0 evs) acts"
  using assms(2)
proof induction
  case (event evs acts ps senv ev new ps')
  then obtain s where ps: "ps = (Running, s)" by (cases ps) auto
  have "list_all (own_action s0 (evs @ [ev])) acts"
    using event.IH own_action_mono by (auto simp: list_all_iff)
  then show ?case using sniper_process_event_inv [of s0 evs s senv ev new ps'] event ps by simp
qed (use assms(3) task_step_inv [OF assms(1)] in auto)

section \<open>The limit\<close>

definition snipe_limit :: "SniperStrategyStateMachine \<Rightarrow> nat" where
  "snipe_limit s = nat (si_max_simultaneous_snipes (ss_instance s) mod 2 ^ 64)"

definition pending_inserts :: "SniperStrategyStateMachine \<Rightarrow> nat" where
  "pending_inserts s = length (filter (\<lambda>t. case t of TInsert _ _ \<Rightarrow> True | _ \<Rightarrow> False) (ss_tasks s))"

lemma task_step_limit:
  assumes "task_step handle s s'"
  shows "ss_instance s' = ss_instance s \<and>
    length (ss_pool_snipes s') + pending_inserts s' \<le> length (ss_pool_snipes s) + pending_inserts s"
  using assms
proof cases
  case (insert ts1 pool price ts2 env)
  have "length (ss_pool_snipes (insert_snipe env pool price s)) \<le> length (ss_pool_snipes s) + 1"
    by (simp add: insert_snipe_def SniperAgentState_new_def Let_def)
  then show ?thesis using insert
    by (simp add: pending_inserts_def insert_snipe_def SniperAgentState_new_def Let_def)
next
  case (deliver ts1 event rs1 r rs2 ts2 env s1)
  then have "ss_pool_snipes s1 = ss_pool_snipes s" "ss_instance s1 = ss_instance s"
    by (auto simp: deliver_def split: bind_splits)
  then show ?thesis using deliver by (simp add: pending_inserts_def)
qed (simp_all add: pending_inserts_def remove_snipe_def)

section \<open>Example data\<close>

definition example_senv :: StrategyEnv where
  "example_senv = \<lparr> st_env = example_sniper_env\<lparr> sn_clients := [(''node'', example_client)] \<rparr>,
     st_key_to_string = (\<lambda>_. []), st_mint_unpack = (\<lambda>_. Some \<lparr> mint_mint_authority = None, mint_freeze_authority = None \<rparr>),
     st_parse_key = (\<lambda>_. Some [20]) \<rparr>"

definition example_snipes :: SniperStrategyStateMachine where
  "example_snipes = \<lparr> ss_instance = example_sniping, ss_sniper_wallet = [20], ss_pool_snipes = [],
     ss_cells = Map.empty, ss_next = 0, ss_tasks = [],
     ss_world = \<lparr> sx_context = sx_context example_sniper_world, sx_actions = [] \<rparr> \<rparr>"

lemma example_snipes_new:
  "sniper_strategy_new example_senv example_sniping (sx_context example_sniper_world) = Some example_snipes"
  by (simp add: sniper_strategy_new_def example_senv_def example_snipes_def)

lemma example_wants: "wants_pool example_senv p RaydiumPoolPriceUpdate_default example_snipes = Some True"
proof -
  have "\<not> f64_lt 0 0" by (simp add: f64_eval)
  then show ?thesis
    by (simp add: wants_pool_def example_senv_def example_snipes_def example_sniping_def example_sniper_env_def
        get_account_data_def example_client_def unwrap_rpc_def is_freezable_by_account_data_def has_authority_def
        RaydiumPoolPriceUpdate_default_def Let_def)
qed

section \<open>Properties\<close>

text \<open>
  C27: Everything the sniper strategy does, under every interleaving of its tasks: each action it returns is a single
  swap, paid and signed by the wallet of its configuration, on a pool that was announced to it before with no less
  than the configured liquidity; it never leaves the state \<open>running\<close>.
\<close>

theorem sniper_strategy_actions:
  assumes "statig handle" and "sniper_strategy_new senv inst ctx = Some s0"
    and "sniper_reach handle s0 evs acts (phase, s)"
  shows "phase = Running \<and> list_all (\<lambda>x. \<exists>pool. announced inst evs pool \<and> swap_by (ss_sniper_wallet s0) pool x) acts"
proof -
  have "snipes_inv s0 [] s0" and i: "ss_instance s0 = inst"
    using assms(2) by (auto simp: sniper_strategy_new_def snipes_inv_def split: option.splits)
  from sniper_reach_inv [OF assms(1,3) this(1)] show ?thesis by (simp add: own_action_def [abs_def] i)
qed

theorem sniper_strategy_actions_witness:
  "\<exists>phase. sniper_reach statig_dispatch example_snipes [] [] (phase, example_snipes) \<and> phase = Running"
  using sniper_strategy_actions [OF reference.statig_axioms example_snipes_new sniper_reach.start]
  by (intro exI [of _ Running]) (simp add: sniper_reach.start)

text \<open>
  C26: The limit on simultaneous snipes holds as long as events wait for insertions: from a state within the limit
  with no insertion pending, one event followed by any steps of any tasks stays within it.
\<close>

theorem snipe_limit_sequential:
  assumes "pending_inserts s = 0" and "length (ss_pool_snipes s) \<le> snipe_limit s"
    and "sniper_process_event senv ev (Running, s) = Some (new, (phase, s1))" and "(task_step handle)\<^sup>*\<^sup>* s1 s2"
  shows "length (ss_pool_snipes s2) \<le> snipe_limit s"
proof -
  have "ss_instance s1 = ss_instance s \<and> length (ss_pool_snipes s1) + pending_inserts s1 \<le> snipe_limit s"
    using assms(3)
  proof (cases rule: process_event_cases)
    case (1 s1')
    show ?thesis using 1 assms(1,2) wants_pool_liquid [of senv]
      by (fastforce simp: on_dispatch_def pending_inserts_def snipe_limit_def)
  qed
  with assms(4) have "ss_instance s2 = ss_instance s \<and> length (ss_pool_snipes s2) + pending_inserts s2 \<le> snipe_limit s"
  proof (induction rule: rtranclp_induct)
    case (step y z)
    then show ?case using task_step_limit [OF step(2)] by simp
  qed
  then show ?thesis by simp
qed

theorem snipe_limit_sequential_witness:
  "\<exists>new phase s1. sniper_process_event example_senv (HeartBeat 1 0) (Running, example_snipes) = Some (new, (phase, s1)) \<and>
     length (ss_pool_snipes s1) \<le> 1"
proof -
  obtain new phase s1 where e: "sniper_process_event example_senv (HeartBeat 1 0) (Running, example_snipes) =
      Some (new, (phase, s1))"
    by (simp add: sniper_process_event_def forwarded_def sniper_strategy_handle_def running_def Let_def)
  have "pending_inserts example_snipes = 0" "length (ss_pool_snipes example_snipes) \<le> snipe_limit example_snipes"
    "snipe_limit example_snipes = 1"
    by (simp_all add: pending_inserts_def example_snipes_def snipe_limit_def example_sniping_def)
  with snipe_limit_sequential [OF this(1,2) e rtranclp.rtrancl_refl] e show ?thesis by auto
qed

text \<open>
  C39: The limit on simultaneous snipes is not kept when two pools are announced in a row. The check reads the map of
  running snipes while the insertion of the first snipe is still a spawned task, so in a reachable state that
  accepts either of two pools both can be accepted and inserted, one more than the check allows.
\<close>

theorem snipe_limit_race:
  assumes "sniper_reach handle s0 evs acts (Running, s)" and "rp_id p \<noteq> rp_id q"
    and "wants_pool senv p price s = Some True" and "wants_pool senv q price' s = Some True"
  shows "\<exists>evs' acts' s'. sniper_reach handle s0 evs' acts' (Running, s') \<and>
    length (ss_pool_snipes s') = length (ss_pool_snipes s) + 2"
proof -
  let ?e = "\<lambda>p price. ChainEvent (RaydiumNewPoolEvent p price)"
  let ?quiet = "\<lambda>s. s\<lparr> ss_world := (ss_world s)\<lparr> sx_actions := [] \<rparr> \<rparr>"
  let ?spawn = "\<lambda>p price s. ?quiet (s\<lparr> ss_tasks := ss_tasks s @ [TNotify (Original (?e p price)), TInsert p price] \<rparr>)"
  note wants = wants_pool_cong [of _ _ senv]
  have ev: "sniper_process_event senv (?e p price) (Running, s) = Some (sx_actions (ss_world s), Running, ?spawn p price s)"
    if "wants_pool senv p price s = Some True" for p price s
    using that wants [of "on_dispatch (Original (?e p price)) s" s p price]
    by (simp add: sniper_process_event_def forwarded_def sniper_strategy_handle_def running_def on_dispatch_def Let_def)
  let ?s1 = "?spawn p price s" and ?s2 = "?spawn q price' (?spawn p price s)"
  have r2: "sniper_reach handle s0 ((evs @ [?e p price]) @ [?e q price'])
      ((acts @ sx_actions (ss_world s)) @ sx_actions (ss_world ?s1)) (Running, ?s2)"
  proof -
    have "wants_pool senv q price' ?s1 = Some True" using assms(4) wants [of ?s1 s q price'] by simp
    from sniper_reach.event [OF sniper_reach.event [OF assms(1) ev [OF assms(3)]] ev [OF this]] show ?thesis .
  qed
  let ?env = "st_env senv"
  let ?s3 = "(insert_snipe ?env p price ?s2)\<lparr> ss_tasks := (ss_tasks s @ [TNotify (Original (?e p price))]) @
      [TNotify (Original (?e q price')), TInsert q price'] \<rparr>"
  let ?s4 = "(insert_snipe ?env q price' ?s3)\<lparr> ss_tasks := (ss_tasks s @ [TNotify (Original (?e p price))]) @
      [TNotify (Original (?e q price'))] \<rparr>"
  have t: "task_step handle ?s2 ?s3" "task_step handle ?s3 ?s4"
    using task_step.insert [of ?s2 "ss_tasks s @ [TNotify (Original (?e p price))]" p price
        "[TNotify (Original (?e q price')), TInsert q price']" handle ?env]
      task_step.insert [of ?s3 "(ss_tasks s @ [TNotify (Original (?e p price))]) @ [TNotify (Original (?e q price'))]"
        q price' "[]" handle ?env] by simp_all
  have fresh: "rp_id p \<notin> fst ` set (ss_pool_snipes s)" "rp_id q \<notin> fst ` set (ss_pool_snipes s)"
    using wants_pool_liquid assms(3,4) by blast+
  have keep: "filter (\<lambda>(k, _). k \<noteq> x) ys = ys" if "x \<notin> fst ` set ys" for x and ys :: "(pubkey \<times> nat) list"
    using that by (force simp: filter_id_conv)
  have "length (ss_pool_snipes ?s4) = length (ss_pool_snipes s) + 2"
    using assms(2) by (simp add: insert_snipe_def SniperAgentState_new_def Let_def keep fresh)
  then show ?thesis
    using sniper_reach.task [OF sniper_reach.task [OF r2 t(1)] t(2)] by blast
qed

theorem snipe_limit_race_witness:
  "\<exists>evs acts s. sniper_reach statig_dispatch example_snipes evs acts (Running, s) \<and>
     length (ss_pool_snipes s) = 2 \<and> snipe_limit example_snipes = 1"
proof -
  have "rp_id example_sniper_pool \<noteq> rp_id (example_sniper_pool\<lparr> rp_id := [99] \<rparr>)"
    by (simp add: example_sniper_pool_def)
  from snipe_limit_race [OF sniper_reach.start this example_wants example_wants, of statig_dispatch]
  obtain evs acts s where "sniper_reach statig_dispatch example_snipes evs acts (Running, s)"
    "length (ss_pool_snipes s) = length (ss_pool_snipes example_snipes) + 2" by blast
  moreover have "ss_pool_snipes example_snipes = []" "snipe_limit example_snipes = 1"
    by (simp_all add: example_snipes_def snipe_limit_def example_sniping_def)
  ultimately show ?thesis by (intro exI [of _ evs] exI [of _ acts] exI [of _ s]) simp
qed

end
