(* ===== verification/Sweeper_Strategy.thy ===== *)
theory Sweeper_Strategy
  imports Volume_Strategy Volume_Strategy_Properties
begin

text \<open>
  The sweeper (\<open>strategies/sweeper_strategy/strategy_state_machine.rs\<close> and \<open>strategy.rs\<close>): it looks up the stored
  traders of a strategy that still hold something, has each of them send everything to the main wallet and then has
  the main wallet sell its tokens. Its struct has the fields of the volume strategy and one more, \<open>amount\<close>, which is
  set to zero and never read; so the state is the \<open>Strategy\<close> of \<open>Volume_Strategy\<close> with its store of agents and its
  tasks. The machine is \<open>None\<close> until its first event, which enters the initial state before it is handled.
\<close>

type_synonym SweeperStrategyStateMachine = Strategy

datatype SweepPhase = Sweep_list | Sweep_sweeping | Selling_token_main_w | Sweep_done

section \<open>Execution status\<close>

fun sweeper_status_loop :: "SweeperStrategyStateMachine \<Rightarrow> nat list \<Rightarrow> nat \<Rightarrow> nat \<Rightarrow> ExecutionStatus" where
  "sweeper_status_loop self [] agents_with_error agents_with_success =
     (if agents_with_success > 0 then ExecDone else ExecError)"
| "sweeper_status_loop self (r # rs) agents_with_error agents_with_success =
     (case cell_state self r of
        Success \<Rightarrow> sweeper_status_loop self rs agents_with_error (agents_with_success + 1)
      | Error _ \<Rightarrow> sweeper_status_loop self rs (agents_with_error + 1) agents_with_success
      | Deactivated \<Rightarrow> sweeper_status_loop self rs (agents_with_error + 1) agents_with_success
      | _ \<Rightarrow> ExecPending)"

definition sweeper_execution_status :: "SweeperStrategyStateMachine \<Rightarrow> ExecutionStatus" where
  "sweeper_execution_status self =
     (if vs_agents self = [] then ExecIdle else sweeper_status_loop self (vs_agents self) 0 0)"

section \<open>Entry actions\<close>

text \<open>The agent of a trader. As its main wallet it gets the main wallet of the main wallet.\<close>

definition sweeper_trader_agent ::
  "SEnv \<Rightarrow> nat \<Rightarrow> Trader \<Rightarrow> SweeperStrategyStateMachine \<Rightarrow> AgentState option \<times> SweeperStrategyStateMachine" where
  "sweeper_trader_agent senv k trader self =
     (let env = se_env senv k;
          (trader_sol_balance_res, ctx1) = get_balance (env_ext env) (tr_wallet trader) (w_context (vs_world self));
          (trader_token_balance, ctx2) = get_token_balance (env_ext env) (tr_wallet trader)
             (rp_base_mint (vs_pool self)) ctx1;
          self2 = self\<lparr> vs_world := (vs_world self)\<lparr> w_context := ctx2 \<rparr> \<rparr>
      in case trader_sol_balance_res of
           Inl _ \<Rightarrow> (None, self2)
         | Inr trader_sol_balance \<Rightarrow>
             (if trader_sol_balance < NEW_ACCOUNT_THRESHOLD_SOL \<and>
                 unwrap_or_0 trader_token_balance < as_u64 (vi_agents_keep_tokens_lamports (vs_instance self))
              then (None, self2)
              else
                (case new_from_trader env (vs_pool self) trader
                        (ag_main_wallet (cell_agent self (vs_main_wallet self))) (vs_world self2) of
                   (agent, w) \<Rightarrow> (agent, self2\<lparr> vs_world := w \<rparr>))))"

fun sweeper_load_agents ::
  "SEnv \<Rightarrow> nat \<Rightarrow> Trader list \<Rightarrow> SweeperStrategyStateMachine \<Rightarrow> SweeperStrategyStateMachine" where
  "sweeper_load_agents senv k [] self = self"
| "sweeper_load_agents senv k (t # ts) self =
     (case sweeper_trader_agent senv k t self of
        (None, self1) \<Rightarrow> sweeper_load_agents senv (k + 1) ts self1
      | (Some agent, self1) \<Rightarrow> sweeper_load_agents senv (k + 1) ts (add_agent agent self1))"

text \<open>The query selects the traders whose own id is the id of the strategy.\<close>

definition sweeper_traders :: "SweeperStrategyStateMachine \<Rightarrow> Trader list" where
  "sweeper_traders self =
     filter (\<lambda>t. tr_id t = vi_id (vs_instance self) \<and> tr_wallet t \<noteq> main_key self) (w_traders (vs_world self))"

definition get_agents_with_balance :: "SEnv \<Rightarrow> SweeperStrategyStateMachine \<Rightarrow> SweeperStrategyStateMachine option" where
  "get_agents_with_balance senv self =
     (if \<not> se_db_connects senv then None
      else if se_traders_load senv
      then Some (sweeper_load_agents senv 0 (sweeper_traders self) (self\<lparr> vs_agents := [] \<rparr>))
      else Some self)"

definition sweep_transfers :: "SweeperStrategyStateMachine \<Rightarrow> u64 \<Rightarrow> pubkey \<Rightarrow> TransferPayload list" where
  "sweep_transfers self token_balance receiver =
     (if token_balance > 0 then
        [\<lparr> tp_asset = Token (rp_base_mint (vs_pool self)), tp_receiver = receiver, tp_amount = MaxAndClose \<rparr>,
         \<lparr> tp_asset = Sol, tp_receiver = receiver, tp_amount = Amount_Max \<rparr>]
      else [\<lparr> tp_asset = Sol, tp_receiver = receiver, tp_amount = Amount_Max \<rparr>])"

text \<open>One turn of the loop over the agents: the balance is read, then the agent gets its event.\<close>

definition sweep_agent ::
  "agent_driver \<Rightarrow> SEnv \<Rightarrow> pubkey \<Rightarrow> nat \<Rightarrow> nat \<Rightarrow> SweeperStrategyStateMachine \<Rightarrow> SweeperStrategyStateMachine option" where
  "sweep_agent handle senv receiver i r s =
     (let env = se_env senv i; (token_balance, s1) = cell_token_balance env r s
      in agent_handle handle env r (ForAgent (Transfer (sweep_transfers s1 token_balance receiver))) s1)"

definition sweep :: "agent_driver \<Rightarrow> SEnv \<Rightarrow> SweeperStrategyStateMachine \<Rightarrow> SweeperStrategyStateMachine option" where
  "sweep handle senv self =
     (let receiver = main_key self
      in for_agents (sweep_agent handle senv receiver) 0 (vs_agents self) self)"

definition sell_token ::
  "agent_driver \<Rightarrow> SEnv \<Rightarrow> SweeperStrategyStateMachine \<Rightarrow> SweeperStrategyStateMachine option" where
  "sell_token handle senv self =
     agent_handle handle (se_main_env senv 0) (vs_main_wallet self) (ForAgent (Sell Amount_Max)) self"

section \<open>The state machine\<close>

definition sweeper_response :: "SweepPhase \<Rightarrow> SweeperStrategyStateMachine \<Rightarrow> SweepPhase Response" where
  "sweeper_response phase self =
     (case phase of
        Sweep_list \<Rightarrow> Transition Sweep_sweeping
      | Sweep_sweeping \<Rightarrow>
          (case sweeper_execution_status self of ExecDone \<Rightarrow> Transition Selling_token_main_w | _ \<Rightarrow> Super)
      | Selling_token_main_w \<Rightarrow> Transition Sweep_done
      | Sweep_done \<Rightarrow> Handled)"

definition sweeper_on_dispatch ::
  "SolanaStrategyEvent \<Rightarrow> SweeperStrategyStateMachine \<Rightarrow> SweeperStrategyStateMachine" where
  "sweeper_on_dispatch event self =
     self\<lparr> vs_tasks := vs_tasks self @ [(event, vs_main_wallet self # vs_agents self)] \<rparr>"

definition sweeper_entry ::
  "agent_driver \<Rightarrow> SEnv \<Rightarrow> SweepPhase \<Rightarrow> SweeperStrategyStateMachine \<Rightarrow> SweeperStrategyStateMachine option" where
  "sweeper_entry handle senv phase self =
     (case phase of
        Sweep_list \<Rightarrow> get_agents_with_balance senv self
      | Sweep_sweeping \<Rightarrow> sweep handle senv self
      | Selling_token_main_w \<Rightarrow> sell_token handle senv self
      | Sweep_done \<Rightarrow> Some self)"

text \<open>There are no superstates: an event that asks for one is dropped.\<close>

definition sweeper_machine ::
  "agent_driver \<Rightarrow> SEnv \<Rightarrow> (SolanaStrategyEvent, SweepPhase, SweeperStrategyStateMachine) machine" where
  "sweeper_machine handle senv =
     \<lparr> on_event = (\<lambda>event phase self.
         (let self1 = sweeper_on_dispatch event self in Some (sweeper_response phase self1, self1))),
       on_super = (\<lambda>event phase self. Some (Super, self)),
       on_exit = (\<lambda>phase self. Some self), on_entry = sweeper_entry handle senv \<rparr>"

type_synonym sweeper_driver =
  "(SolanaStrategyEvent, SweepPhase, SweeperStrategyStateMachine) machine \<Rightarrow> SolanaStrategyEvent \<Rightarrow> SweepPhase
     \<Rightarrow> SweeperStrategyStateMachine \<Rightarrow> (SweepPhase \<times> SweeperStrategyStateMachine) option"

type_synonym Sweeper = "SweepPhase option \<times> SweeperStrategyStateMachine"

definition sweeper_handle ::
  "sweeper_driver \<Rightarrow> agent_driver \<Rightarrow> SEnv \<Rightarrow> SolanaStrategyEvent \<Rightarrow> Sweeper \<Rightarrow> Sweeper option" where
  "sweeper_handle run_sweeper handle senv event = (\<lambda>(phase_opt, self).
     Option.bind (case phase_opt of
                    Some phase \<Rightarrow> Some (phase, self)
                  | None \<Rightarrow> map_option (Pair Sweep_list) (sweeper_entry handle senv Sweep_list self)) (\<lambda>(phase, self1).
     Option.bind (run_sweeper (sweeper_machine handle senv) event phase self1) (\<lambda>(phase', self2).
       Some (Some phase', self2))))"

text \<open>\<open>SweeperStrategy::process_event\<close>: only heartbeats and events of the chain reach the machine.\<close>

definition sweeper_process_event ::
  "sweeper_driver \<Rightarrow> agent_driver \<Rightarrow> SEnv \<Rightarrow> BotEvent \<Rightarrow> Sweeper \<Rightarrow> (SolanaAction list \<times> Sweeper) option" where
  "sweeper_process_event run_sweeper handle senv event sw =
     Option.bind
       (case event of
          HeartBeat _ _ \<Rightarrow> sweeper_handle run_sweeper handle senv (Original event) sw
        | ChainEvent _ \<Rightarrow> sweeper_handle run_sweeper handle senv (Original event) sw
        | _ \<Rightarrow> Some sw)
       (\<lambda>(phase, self).
          Some (w_actions (vs_world self), phase, self\<lparr> vs_world := (vs_world self)\<lparr> w_actions := [] \<rparr> \<rparr>))"

text \<open>\<open>SweeperStrategyStateMachine::new\<close>, after the pool, the instance and the key of the user have been loaded.\<close>

definition sweeper_new ::
  "SEnv \<Rightarrow> VolumeStrategyInstance \<Rightarrow> RaydiumPool \<Rightarrow> keypair \<Rightarrow> World \<Rightarrow> Sweeper option" where
  "sweeper_new senv instance pool user_key w =
     (case AgentState_new (se_main_env senv 0) pool user_key None None w of
        (None, w1) \<Rightarrow> None
      | (Some main_agent, w1) \<Rightarrow>
          Some (None,
            \<lparr> vs_instance = instance, vs_pool = pool, vs_main_wallet = 0, vs_agents = [],
              vs_stopwatch = Stopwatch_new (se_now senv) (as_u64 (vi_tranche_frequency_hbs instance)),
              vs_cells = (\<lambda>_. (Idle, main_agent)), vs_next = 1, vs_tasks = [], vs_world = w1 \<rparr>))"

text \<open>The method \<open>drop\<close>.\<close>

definition sweeper_drop ::
  "agent_driver \<Rightarrow> SEnv \<Rightarrow> SweeperStrategyStateMachine \<Rightarrow> SweeperStrategyStateMachine option" where
  "sweeper_drop handle senv self =
     map_option (\<lambda>s. s\<lparr> vs_agents := [] \<rparr>)
       (for_agents (\<lambda>i r. agent_handle handle (se_env senv i) r (ForAgent Deactivate)) 0 (vs_agents self) self)"

section \<open>All interleavings\<close>

text \<open>As for the volume strategy: events of the engine, and deliveries by the tasks.\<close>

inductive sweeper_step :: "sweeper_driver \<Rightarrow> agent_driver \<Rightarrow> Sweeper \<Rightarrow> Sweeper \<Rightarrow> bool"
  for run_sweeper handle where
  event: "sweeper_process_event run_sweeper handle senv ev sw = Some (actions, sw') \<Longrightarrow>
    sweeper_step run_sweeper handle sw sw'"
| deliver: "i < length (vs_tasks self) \<Longrightarrow> vs_tasks self ! i = (ev, r # rs) \<Longrightarrow>
    agent_handle handle env r ev self = Some self' \<Longrightarrow>
    sweeper_step run_sweeper handle (phase, self)
      (phase, self'\<lparr> vs_tasks := (vs_tasks self)[i := (ev, rs)] \<rparr>)"

inductive sweeper_reach :: "sweeper_driver \<Rightarrow> agent_driver \<Rightarrow> Sweeper \<Rightarrow> Sweeper \<Rightarrow> bool"
  for run_sweeper handle where
  refl: "sweeper_reach run_sweeper handle sw sw"
| step: "sweeper_reach run_sweeper handle sw sw' \<Longrightarrow> sweeper_step run_sweeper handle sw' sw'' \<Longrightarrow>
    sweeper_reach run_sweeper handle sw sw''"


text \<open>
  What the sweeper does, over every interleaving of events and deliveries: which agents it finds, where it gets stuck,
  and what the sweep asks of the agents.
\<close>

section \<open>Loading the agents\<close>

lemma sweeper_trader_agent_frame:
  assumes "sweeper_trader_agent senv k t s = (x, s1)"
  shows "\<exists>w. s1 = s\<lparr> vs_world := w \<rparr>"
    and "x = Some ag \<Longrightarrow> ag_main_wallet ag = ag_main_wallet (cell_agent s (vs_main_wallet s))"
  using assms new_from_trader_main
  by (auto simp: sweeper_trader_agent_def Let_def split: prod.splits sum.splits if_splits)

definition no_main_wallets :: "Strategy \<Rightarrow> bool" where
  "no_main_wallets s \<longleftrightarrow> vs_main_wallet s < vs_next s \<and> (\<forall>r \<in> set (vs_agents s). r < vs_next s) \<and>
     (\<forall>r < vs_next s. ag_main_wallet (cell_agent s r) = None)"

lemma no_main_wallets_world [simp]: "no_main_wallets (s\<lparr> vs_world := w \<rparr>) = no_main_wallets s"
  "no_main_wallets (s\<lparr> vs_tasks := ts \<rparr>) = no_main_wallets s"
  by (simp_all add: no_main_wallets_def cell_agent_def)

lemma add_agent_no_main:
  "no_main_wallets s \<Longrightarrow> ag_main_wallet ag = None \<Longrightarrow> no_main_wallets (add_agent ag s)"
  by (auto simp: no_main_wallets_def add_agent_def cell_agent_def less_Suc_eq)

lemma sweeper_load_agents_frame:
  assumes "no_main_wallets s"
  shows "no_main_wallets (sweeper_load_agents senv k ts s) \<and>
    length (vs_agents (sweeper_load_agents senv k ts s)) \<le> length (vs_agents s) + length ts"
  using assms
proof (induction ts arbitrary: k s)
  case (Cons t ts)
  obtain x s1 where t: "sweeper_trader_agent senv k t s = (x, s1)" by fastforce
  note f = sweeper_trader_agent_frame [OF t]
  obtain w where w: "s1 = s\<lparr> vs_world := w \<rparr>" using f(1) ..
  show ?case
  proof (cases x)
    case None
    then show ?thesis using Cons.IH [of s1 "k + 1"] Cons.prems t w by simp
  next
    case (Some ag)
    have "ag_main_wallet ag = None" using f(2) [OF Some] Cons.prems by (simp add: no_main_wallets_def)
    then have "no_main_wallets (add_agent ag s1)" using Cons.prems w by (intro add_agent_no_main) simp_all
    then show ?thesis using Cons.IH [of "add_agent ag s1" "k + 1"] t Some w by (simp add: add_agent_def)
  qed
qed simp

text \<open>With ids that are distinct, as a primary key is, the query finds at most one trader.\<close>

lemma sweeper_traders_one:
  assumes "distinct (map tr_id (w_traders (vs_world s)))"
  shows "length (sweeper_traders s) \<le> 1"
proof -
  have "length (filter (\<lambda>t. tr_id t = n \<and> P t) ts) \<le> 1" if "distinct (map tr_id ts)" for n P ts
    using that
  proof (induction ts)
    case (Cons t ts)
    then have "filter (\<lambda>u. tr_id u = n \<and> P u) ts = []" if "tr_id t = n"
      using that by (auto simp: filter_empty_conv image_iff)
    then show ?case using Cons by auto
  qed simp
  then show ?thesis using assms by (simp add: sweeper_traders_def)
qed

section \<open>Actions keep the agents\<close>

lemma agent_handle_no_main:
  assumes "statig handle" and "agent_handle handle env r ev s = Some s'" and "no_main_wallets s"
  shows "no_main_wallets s'" and "vs_agents s' = vs_agents s"
proof -
  obtain st ag w where s': "s' = s\<lparr> vs_cells := (vs_cells s)(r := (st, ag)), vs_world := w \<rparr>"
    and same: "same_agent (cell_agent s r) ag"
    using agent_handle_Some [OF assms(1,2)] by metis
  show "vs_agents s' = vs_agents s" by (simp add: s')
  show "no_main_wallets s'" using assms(3) same by (auto simp: no_main_wallets_def s' cell_agent_upd same_agent_def)
qed

lemma for_agents_no_main:
  assumes "\<And>i r s s'. f i r s = Some s' \<Longrightarrow> no_main_wallets s \<Longrightarrow> no_main_wallets s' \<and> vs_agents s' = vs_agents s"
    and "for_agents f i rs s = Some s'" and "no_main_wallets s"
  shows "no_main_wallets s' \<and> vs_agents s' = vs_agents s"
  using assms(2,3)
proof (induction rs arbitrary: i s)
  case (Cons r rs)
  obtain s1 where 1: "f i r s = Some s1" "for_agents f (i + 1) rs s1 = Some s'"
    using Cons.prems(1) by (auto split: bind_splits)
  from assms(1) [OF 1(1) Cons.prems(2)] Cons.IH [OF 1(2)] show ?case by simp
qed simp

lemma sweep_no_main:
  assumes "statig handle" and "sweep handle senv s = Some s'" and "no_main_wallets s"
  shows "no_main_wallets s' \<and> vs_agents s' = vs_agents s"
  using assms(2) unfolding sweep_def Let_def
proof (elim for_agents_no_main [rotated])
  fix i r t t'
  assume step: "sweep_agent handle senv (main_key s) i r t = Some t'" and inv: "no_main_wallets t"
  obtain b w where "cell_token_balance (se_env senv i) r t = (b, t\<lparr> vs_world := w \<rparr>)"
    by (cases "agent_get_token_balance (se_env senv i) (cell_agent t r) (vs_world t)") (simp add: cell_token_balance_def)
  then show "no_main_wallets t' \<and> vs_agents t' = vs_agents t"
    using step agent_handle_no_main [OF assms(1)] inv by (fastforce simp: sweep_agent_def Let_def)
qed (rule assms(3))

section \<open>Reachable sweepers\<close>

text \<open>Before the first event nothing has happened; after it there is at most one agent, and without one the sweeper
  stays in the state \<open>sweeping\<close>.\<close>

definition sweeper_inv :: "Sweeper \<Rightarrow> bool" where
  "sweeper_inv = (\<lambda>(phase_opt, s). no_main_wallets s \<and>
     (case phase_opt of
        None \<Rightarrow> vs_agents s = [] \<and> vs_tasks s = [] \<and> distinct (map tr_id (w_traders (vs_world s)))
      | Some phase \<Rightarrow> phase \<noteq> Sweep_list \<and> length (vs_agents s) \<le> 1 \<and> (vs_agents s = [] \<longrightarrow> phase = Sweep_sweeping)))"

lemma sweeper_list_entered:
  assumes "sweeper_inv (None, s)" and "sweeper_entry handle senv Sweep_list s = Some s1"
  shows "no_main_wallets s1 \<and> length (vs_agents s1) \<le> 1"
proof -
  have s: "no_main_wallets s" "vs_agents s = []" "length (sweeper_traders s) \<le> 1"
    using assms(1) sweeper_traders_one by (auto simp: sweeper_inv_def)
  then have "no_main_wallets (s\<lparr> vs_agents := [] \<rparr>)" by (simp add: no_main_wallets_def cell_agent_def)
  from sweeper_load_agents_frame [OF this, of senv 0 "sweeper_traders s"] show ?thesis
    using assms(2) s by (auto simp: sweeper_entry_def get_agents_with_balance_def split: if_splits)
qed

lemma sweeper_dispatch:
  assumes "statig run_sweeper"
  shows "run_sweeper (sweeper_machine handle senv) ev phase s =
    (let s1 = sweeper_on_dispatch ev s
     in case sweeper_response phase s1 of
          Transition t \<Rightarrow> map_option (Pair t) (sweeper_entry handle senv t s1)
        | _ \<Rightarrow> Some (phase, s1))"
  by (simp add: statig.handle_eq [OF assms] statig_dispatch_def sweeper_machine_def respond_def change_state_def Let_def
      map_option_case split: Response.splits bind_splits option.splits)

lemma sweeper_run_inv:
  assumes "statig run_sweeper" and "statig handle" and "no_main_wallets s" and "length (vs_agents s) \<le> 1"
    and "vs_agents s = [] \<longrightarrow> phase \<in> {Sweep_list, Sweep_sweeping}"
    and "run_sweeper (sweeper_machine handle senv) ev phase s = Some (phase', s')"
  shows "sweeper_inv (Some phase', s')"
proof -
  let ?s = "sweeper_on_dispatch ev s"
  have d: "vs_agents ?s = vs_agents s" "no_main_wallets ?s" using assms(3) by (simp_all add: sweeper_on_dispatch_def)
  show ?thesis
  proof (cases phase)
    case Sweep_list
    then have sweep: "sweep handle senv ?s = Some s'" and "phase' = Sweep_sweeping"
      using assms(6) by (auto simp: sweeper_dispatch [OF assms(1)] sweeper_response_def sweeper_entry_def)
    then show ?thesis using sweep_no_main [OF assms(2) sweep d(2)] d(1) assms(4) by (simp add: sweeper_inv_def)
  next
    case Sweep_sweeping
    then have "(phase', s') = (Sweep_sweeping, ?s) \<or>
        vs_agents s \<noteq> [] \<and> phase' = Selling_token_main_w \<and> sell_token handle senv ?s = Some s'"
      using assms(6) d by (cases "sweeper_execution_status ?s")
        (auto simp: sweeper_dispatch [OF assms(1)] sweeper_response_def sweeper_entry_def Let_def
          sweeper_execution_status_def split: if_splits)
    then show ?thesis
      using d assms(4) agent_handle_no_main [OF assms(2)] by (auto simp: sweeper_inv_def sell_token_def)
  next
    case Selling_token_main_w
    then have "(phase', s') = (Sweep_done, ?s)"
      using assms(6) by (auto simp: sweeper_dispatch [OF assms(1)] sweeper_response_def sweeper_entry_def)
    then show ?thesis using d assms(4,5) Selling_token_main_w by (auto simp: sweeper_inv_def)
  next
    case Sweep_done
    then have "(phase', s') = (Sweep_done, ?s)"
      using assms(6) by (auto simp: sweeper_dispatch [OF assms(1)] sweeper_response_def)
    then show ?thesis using d assms(4,5) Sweep_done by (auto simp: sweeper_inv_def)
  qed
qed

lemma sweeper_handle_inv:
  assumes "statig run_sweeper" and "statig handle" and "sweeper_inv sw"
    and "sweeper_handle run_sweeper handle senv ev sw = Some sw'"
  shows "sweeper_inv sw' \<and> fst sw' \<noteq> None"
proof -
  obtain phase_opt s where sw: "sw = (phase_opt, s)" by fastforce
  show ?thesis
  proof (cases phase_opt)
    case None
    obtain s1 phase' s' where list: "sweeper_entry handle senv Sweep_list s = Some s1"
      and run: "run_sweeper (sweeper_machine handle senv) ev Sweep_list s1 = Some (phase', s')"
      and sw': "sw' = (Some phase', s')"
      using assms(4) by (auto simp: sweeper_handle_def sw None split: bind_splits)
    have "sweeper_inv (None, s)" using assms(3) by (simp add: sw None)
    from sweeper_run_inv [OF assms(1,2) _ _ _ run] sweeper_list_entered [OF this list] show ?thesis by (simp add: sw')
  next
    case (Some phase)
    then obtain phase' s' where run: "run_sweeper (sweeper_machine handle senv) ev phase s = Some (phase', s')"
      and sw': "sw' = (Some phase', s')"
      using assms(4) by (auto simp: sweeper_handle_def sw split: bind_splits)
    have "no_main_wallets s" "length (vs_agents s) \<le> 1" "vs_agents s = [] \<longrightarrow> phase \<in> {Sweep_list, Sweep_sweeping}"
      using assms(3) by (simp_all add: sw Some sweeper_inv_def)
    from sweeper_run_inv [OF assms(1,2) this run] show ?thesis by (simp add: sw')
  qed
qed

lemma sweeper_step_inv:
  assumes "statig run_sweeper" and "statig handle"
  shows "sweeper_step run_sweeper handle sw sw' \<Longrightarrow> sweeper_inv sw \<Longrightarrow> sweeper_inv sw'"
proof (induction rule: sweeper_step.induct)
  case (event senv ev sw actions sw')
  obtain phase s where "sweeper_inv (phase, s)"
    and "sw' = (phase, s\<lparr> vs_world := (vs_world s)\<lparr> w_actions := [] \<rparr> \<rparr>)"
    using event sweeper_handle_inv [OF assms, of sw senv "Original ev"]
    by (auto simp: sweeper_process_event_def split: BotEvent.splits bind_splits prod.splits)
  then show ?case by (simp add: sweeper_inv_def split: option.splits)
next
  case (deliver i self ev r rs env self' phase)
  then have "phase \<noteq> None" "no_main_wallets self" by (auto simp: sweeper_inv_def split: option.splits)
  then show ?case
    using deliver.prems agent_handle_no_main [OF assms(2) deliver(3)] by (auto simp: sweeper_inv_def split: option.splits)
qed

lemma sweeper_reach_inv:
  assumes "statig run_sweeper" and "statig handle"
  shows "sweeper_reach run_sweeper handle sw sw' \<Longrightarrow> sweeper_inv sw \<Longrightarrow> sweeper_inv sw'"
  by (induction rule: sweeper_reach.induct) (use sweeper_step_inv [OF assms] in blast)+

lemma sweeper_new_inv:
  assumes "sweeper_new senv inst pool key w = Some sw" and "distinct (map tr_id (w_traders w))"
  shows "sweeper_inv sw"
  using assms
  by (auto simp: sweeper_new_def sweeper_inv_def no_main_wallets_def cell_agent_def AgentState_new_def query_balances_def
      fresh_agent_def Let_def split: prod.splits option.splits)

section \<open>The sweep\<close>

lemma agent_handle_transfer:
  assumes "statig handle" and "cell_state s r \<in> {Idle, Success}"
  shows "\<exists>s' x a. agent_handle handle env r (ForAgent (Transfer b)) s = Some s' \<and>
    s' = s\<lparr> vs_cells := (vs_cells s)(r := (Transferring b 0, a)), vs_world := vs_world s' \<rparr> \<and>
    same_agent (cell_agent s r) a \<and> w_actions (vs_world s') = w_actions (vs_world s) @ [x] \<and>
    sa_sniper x = ag_agent_key (cell_agent s r) \<and> sa_action_payload x = map SolanaTransferActionPayload b"
proof -
  obtain a w where t: "transfer env b (cell_agent s r, vs_world s) = (a, w)" by fastforce
  have "agent_handle handle env r (ForAgent (Transfer b)) s =
      Some (s\<lparr> vs_cells := (vs_cells s)(r := (Transferring b 0, a)), vs_world := w \<rparr>)"
    using idle_transfer [OF assms(2)] t by (simp add: agent_handle_def statig.handle_eq [OF assms(1)])
  moreover obtain x where "same_agent (cell_agent s r) a" "w_actions w = w_actions (vs_world s) @ [x]"
    "sa_sniper x = ag_agent_key (cell_agent s r)" "sa_action_payload x = map SolanaTransferActionPayload b"
    using t queue_action_effect(1,2) by (fastforce simp: transfer_def Let_def new_with_feepayer_def)
  ultimately show ?thesis by force
qed

text \<open>
  What an agent whose token balance is read as \<open>balance\<close> sends when it is swept: the tokens first, if there are any, then
  the SOL, both to the receiver.
\<close>

definition sweeps :: "Strategy \<Rightarrow> pubkey \<Rightarrow> u64 \<Rightarrow> nat \<Rightarrow> SolanaAction \<Rightarrow> bool" where
  "sweeps s receiver balance r x \<longleftrightarrow> sa_sniper x = ag_agent_key (cell_agent s r) \<and>
     sa_action_payload x = map SolanaTransferActionPayload
       ((if 0 < balance
         then [\<lparr> tp_asset = Token (rp_base_mint (vs_pool s)), tp_receiver = receiver, tp_amount = MaxAndClose \<rparr>] else [])
        @ [\<lparr> tp_asset = Sol, tp_receiver = receiver, tp_amount = Amount_Max \<rparr>])"

abbreviation read_balance :: "Env \<Rightarrow> nat \<Rightarrow> Strategy \<Rightarrow> Strategy \<Rightarrow> u64" where
  "read_balance env r s now \<equiv> fst (agent_get_token_balance env (cell_agent s r) (vs_world now))"

lemma sweep_agent_queues:
  assumes "statig handle" and "cell_state s r \<in> {Idle, Success}"
  obtains s1 x where "sweep_agent handle senv receiver i r s = Some s1"
    and "\<And>q. q \<noteq> r \<Longrightarrow> vs_cells s1 q = vs_cells s q" and "\<exists>b. cell_state s1 r = Transferring b 0"
    and "vs_pool s1 = vs_pool s" and "w_actions (vs_world s1) = w_actions (vs_world s) @ [x]"
    and "sweeps s receiver (read_balance (se_env senv i) r s s) r x"
proof -
  obtain b w where b: "agent_get_token_balance (se_env senv i) (cell_agent s r) (vs_world s) = (b, w)"
    by fastforce
  then have w: "w_actions w = w_actions (vs_world s)" using token_balance_world by blast
  let ?ts = "sweep_transfers (s\<lparr> vs_world := w \<rparr>) b receiver"
  obtain s1 x a where step: "agent_handle handle (se_env senv i) r (ForAgent (Transfer ?ts)) (s\<lparr> vs_world := w \<rparr>) = Some s1"
    and s1: "s1 = s\<lparr> vs_cells := (vs_cells s)(r := (Transferring ?ts 0, a)), vs_world := vs_world s1 \<rparr>"
    and x: "w_actions (vs_world s1) = w_actions w @ [x]" "sa_sniper x = ag_agent_key (cell_agent s r)"
      "sa_action_payload x = map SolanaTransferActionPayload ?ts"
    using agent_handle_transfer [OF assms(1), of "s\<lparr> vs_world := w \<rparr>" r "se_env senv i" ?ts] assms(2)
    by (auto simp: cell_state_def cell_agent_def)
  have cells: "vs_cells s1 q = (if q = r then (Transferring ?ts 0, a) else vs_cells s q)" for q by (subst s1) simp
  have "vs_pool s1 = vs_pool s" by (subst s1) simp
  moreover have "sweeps s receiver b r x" using x by (simp add: sweeps_def sweep_transfers_def)
  ultimately show ?thesis
    using that [of s1 x] step cells x(1) w b by (simp add: sweep_agent_def cell_token_balance_def cell_state_def)
qed

lemma sweep_loop:
  assumes "statig handle" and "distinct rs" and "\<forall>r \<in> set rs. cell_state s r \<in> {Idle, Success}"
  shows "\<exists>s' xs. for_agents (sweep_agent handle senv receiver) i rs s = Some s' \<and>
    w_actions (vs_world s') = w_actions (vs_world s) @ xs \<and> length xs = length rs \<and>
    (\<forall>k < length rs. \<exists>now. for_agents (sweep_agent handle senv receiver) i (take k rs) s = Some now \<and>
       sweeps s receiver (read_balance (se_env senv (i + k)) (rs ! k) s now) (rs ! k) (xs ! k)) \<and>
    (\<forall>r. if r \<in> set rs then \<exists>b. cell_state s' r = Transferring b 0 else vs_cells s' r = vs_cells s r)"
  using assms(2,3)
proof (induction rs arbitrary: i s)
  case (Cons r rs)
  obtain s1 x where step: "sweep_agent handle senv receiver i r s = Some s1"
    and cells: "\<And>q. q \<noteq> r \<Longrightarrow> vs_cells s1 q = vs_cells s q" "\<exists>b. cell_state s1 r = Transferring b 0"
    and pool: "vs_pool s1 = vs_pool s" and x: "w_actions (vs_world s1) = w_actions (vs_world s) @ [x]"
      "sweeps s receiver (read_balance (se_env senv i) r s s) r x"
    using sweep_agent_queues [OF assms(1)] Cons.prems(2) by (metis list.set_intros(1))
  have "cell_state s1 q \<in> {Idle, Success}" if "q \<in> set rs" for q
    using that Cons.prems cells(1) [of q] by (cases "q = r") (simp_all add: cell_state_def)
  then have "\<forall>q \<in> set rs. cell_state s1 q \<in> {Idle, Success}" by blast
  from Cons.IH [OF _ this, of "i + 1"] Cons.prems(1) obtain s' xs where
    rest: "for_agents (sweep_agent handle senv receiver) (i + 1) rs s1 = Some s'"
      "w_actions (vs_world s') = w_actions (vs_world s1) @ xs" "length xs = length rs"
      "\<forall>k < length rs. \<exists>now. for_agents (sweep_agent handle senv receiver) (i + 1) (take k rs) s1 = Some now \<and>
        sweeps s1 receiver (read_balance (se_env senv (i + 1 + k)) (rs ! k) s1 now) (rs ! k) (xs ! k)"
      "\<forall>r. if r \<in> set rs then \<exists>b. cell_state s' r = Transferring b 0 else vs_cells s' r = vs_cells s1 r"
    by auto
  have agent: "cell_agent s1 (rs ! k) = cell_agent s (rs ! k)" if "k < length rs" for k
    using that Cons.prems(1) cells(1) [of "rs ! k"] nth_mem [OF that] by (cases "rs ! k = r") (simp_all add: cell_agent_def)
  have "\<exists>now. for_agents (sweep_agent handle senv receiver) i (take k (r # rs)) s = Some now \<and>
      sweeps s receiver (read_balance (se_env senv (i + k)) ((r # rs) ! k) s now) ((r # rs) ! k) ((x # xs) ! k)"
    if "k < length (r # rs)" for k
  proof (cases k)
    case 0
    then show ?thesis using x(2) by simp
  next
    case (Suc k')
    then show ?thesis using that rest(4) step agent pool by (fastforce simp: sweeps_def)
  qed
  then show ?case
    using rest(1,2,3,5) step cells x(1) Cons.prems(1)
    by (intro exI [of _ s'] exI [of _ "x # xs"]) (auto simp: cell_state_def split: if_splits)
qed simp

section \<open>Example data\<close>

definition example_sweeper_senv :: SEnv where
  "example_sweeper_senv = example_senv\<lparr> se_traders_load := True \<rparr>"

lemma example_sweeper_new:
  "\<exists>s. sweeper_new example_sweeper_senv example_instance example_pool [20] example_world = Some (None, s) \<and>
     vs_agents s = [] \<and> sweeper_traders s = [] \<and> vs_tasks s = [] \<and> vs_main_wallet s = 0"
  by (simp add: sweeper_new_def AgentState_new_def fresh_agent_def Let_def query_balances_def sweeper_traders_def example_world_def
      main_key_def cell_agent_def)

section \<open>Properties\<close>

text \<open>
  C15: The sweeper finds one trader at most. It asks for the traders whose own id is the id of the strategy, where the column
  of the strategy was meant; ids are unique. Without an agent, which is the normal case, it stays in the state
  \<open>sweeping\<close> for good and never sells the tokens of the main wallet. An agent it finds has no main wallet to send to.
\<close>

theorem sweeper_finds_one_trader:
  assumes "statig run_sweeper" and "statig handle" and "sweeper_new senv inst pool key w = Some sw"
    and "distinct (map tr_id (w_traders w))" and "sweeper_reach run_sweeper handle sw (phase, s)"
  shows "length (vs_agents s) \<le> 1 \<and> (vs_agents s = [] \<longrightarrow> phase \<in> {None, Some Sweep_sweeping}) \<and>
    (\<forall>r \<in> set (vs_agents s). ag_main_wallet (cell_agent s r) = None)"
  using sweeper_reach_inv [OF assms(1,2,5) sweeper_new_inv [OF assms(3,4)]]
  by (auto simp: sweeper_inv_def no_main_wallets_def split: option.splits)

theorem sweeper_finds_one_trader_witness:
  "\<exists>s actions s'. sweeper_new example_sweeper_senv example_instance example_pool [20] example_world = Some (None, s) \<and>
     sweeper_process_event statig_dispatch statig_dispatch example_sweeper_senv (HeartBeat 0 0) (None, s) =
       Some (actions, Some Sweep_sweeping, s') \<and> length (vs_agents s') \<le> 1"
proof -
  obtain s where s: "sweeper_new example_sweeper_senv example_instance example_pool [20] example_world = Some (None, s)"
    and e: "vs_agents s = []" "sweeper_traders s = []" "vs_tasks s = []" "vs_main_wallet s = 0"
    using example_sweeper_new by blast
  obtain actions s' where ev: "sweeper_process_event statig_dispatch statig_dispatch example_sweeper_senv (HeartBeat 0 0)
      (None, s) = Some (actions, Some Sweep_sweeping, s')"
    using e by (simp add: sweeper_process_event_def sweeper_handle_def sweeper_entry_def get_agents_with_balance_def
      example_sweeper_senv_def example_senv_def sweeper_dispatch [OF reference.statig_axioms] sweeper_response_def
      sweeper_on_dispatch_def sweep_def Let_def)
  have "distinct (map tr_id (w_traders example_world))" by (simp add: example_world_def)
  from sweeper_finds_one_trader [OF reference.statig_axioms reference.statig_axioms s this
      sweeper_reach.step [OF sweeper_reach.refl sweeper_step.event [OF ev]]]
  show ?thesis using s ev by blast
qed

text \<open>
  C16: A sweep reaches every agent. Let the agents of the list be distinct and each of them idle or successful. The sweep does
  not panic, and each agent queues exactly one action, in the order of the list: if the token balance that is read when
  its turn comes, after the agents before it, is positive, the action first sends all tokens, closing the account; then,
  or else at once, it sends all SOL; the receiver is the main wallet. Every agent then waits for its own transfer, and
  agents that are not in the list are not touched.
\<close>

theorem sweep_sends_everything:
  assumes "statig handle" and "distinct (vs_agents s)" and "\<forall>r \<in> set (vs_agents s). cell_state s r \<in> {Idle, Success}"
  shows "\<exists>s' xs. sweep handle senv s = Some s' \<and> w_actions (vs_world s') = w_actions (vs_world s) @ xs \<and>
    length xs = length (vs_agents s) \<and>
    (\<forall>k < length (vs_agents s). \<exists>now.
       for_agents (sweep_agent handle senv (main_key s)) 0 (take k (vs_agents s)) s = Some now \<and>
       sweeps s (main_key s) (read_balance (se_env senv k) (vs_agents s ! k) s now) (vs_agents s ! k) (xs ! k)) \<and>
    (\<forall>r. if r \<in> set (vs_agents s) then \<exists>b. cell_state s' r = Transferring b 0 else vs_cells s' r = vs_cells s r)"
  using sweep_loop [OF assms, of senv "main_key s" 0] by (simp add: sweep_def Let_def)

theorem sweep_sends_everything_witness:
  "\<exists>s' x. sweep statig_dispatch example_senv (example_strategy\<lparr> vs_agents := [1], vs_next := 2 \<rparr>) = Some s' \<and>
     w_actions (vs_world s') = [x] \<and> sa_sniper x = [20]"
  using sweep_sends_everything [OF reference.statig_axioms, of "example_strategy\<lparr> vs_agents := [1], vs_next := 2 \<rparr>" example_senv]
  by (fastforce simp: example_strategy_def example_world_def cell_state_def cell_agent_def sweeps_def length_Suc_conv)

text \<open>
  A failed agent of the sweeper stays failed. An agent of a strategy leaves the error state by collecting its funds,
  and collecting needs the main wallet that the sweeper did not give it: the task that delivers an event to it panics.
\<close>

lemma failed_sweep_agent_panics:
  assumes "statig run_sweeper" and "statig handle" and "sweeper_new senv inst pool key w = Some sw"
    and "distinct (map tr_id (w_traders w))" and "sweeper_reach run_sweeper handle sw (phase, s)"
    and "r \<in> set (vs_agents s)" and "cell_state s r = Error msg" and "\<not> is_main_wallet (cell_agent s r)"
  shows "agent_handle handle env r ev s = None"
proof -
  have "ag_main_wallet (cell_agent s r) = None"
    using sweeper_reach_inv [OF assms(1,2,5) sweeper_new_inv [OF assms(3,4)]] assms(6)
    by (auto simp: sweeper_inv_def no_main_wallets_def)
  then show ?thesis
    using assms(7,8)
    by (simp add: agent_handle_def statig.handle_eq [OF assms(2)] agent_step_eq agent_handler_def agent_error_def
        agent_entry_def collect_def split_beta)
qed

end
