(* ===== verification/Aggregators.thy ===== *)
theory Aggregators
  imports Bot_Types
begin

text \<open>
  The aggregator that derives indicators and bars from swap events (\<open>src/aggregators\<close>). The moving averages, the
  oscillators and the candles belong to the \<open>yata\<close> crate and come from a record of its functions; a constructor that
  fails is unwrapped, which is a panic, \<open>None\<close>.
\<close>

section \<open>The \<open>yata\<close> crate\<close>

typedecl TEMA
typedecl EMA
typedecl RelativeStrengthIndexInstance
typedecl BollingerBandsInstance

type_synonym ohlcv = "f64 \<times> f64 \<times> f64 \<times> f64 \<times> f64"

record Yata =
  ya_candle_default :: Candle
  ya_candle_from :: "ohlcv \<Rightarrow> Candle"
  ya_candle_add :: "Candle \<Rightarrow> ohlcv \<Rightarrow> Candle"
  ya_tema_new :: "u32 \<Rightarrow> f64 \<Rightarrow> TEMA option"
  ya_tema_next :: "f64 \<Rightarrow> TEMA \<Rightarrow> f64 \<times> TEMA"
  ya_ema_new :: "u32 \<Rightarrow> f64 \<Rightarrow> EMA option"
  ya_ema_next :: "f64 \<Rightarrow> EMA \<Rightarrow> f64 \<times> EMA"
  ya_rsi_init :: "u32 \<Rightarrow> Candle \<Rightarrow> RelativeStrengthIndexInstance option"
  ya_rsi_next :: "Candle \<Rightarrow> RelativeStrengthIndexInstance \<Rightarrow> IndicatorResult \<times> RelativeStrengthIndexInstance"
  ya_bollinger_init :: "u32 \<Rightarrow> Candle \<Rightarrow> BollingerBandsInstance option"
  ya_bollinger_next :: "Candle \<Rightarrow> BollingerBandsInstance \<Rightarrow> IndicatorResult \<times> BollingerBandsInstance"

section \<open>Bars\<close>

record TickBar =
  bar_candle :: Candle
  bar_tick_count :: u32
  bar_forming_period :: u32

definition TickBar_new :: "Yata \<Rightarrow> u32 \<Rightarrow> f64 \<Rightarrow> f64 \<Rightarrow> TickBar" where
  "TickBar_new ya period price volume =
     \<lparr> bar_candle = ya_candle_default ya, bar_tick_count = 0, bar_forming_period = period \<rparr>"

text \<open>\<open>self.candle.add(..)\<close> is the addition of the standard library: it returns a new candle, which is dropped.\<close>

definition update_with_tick :: "Yata \<Rightarrow> f64 \<Rightarrow> f64 \<Rightarrow> TickBar \<Rightarrow> TickBar" where
  "update_with_tick ya price volume self =
     (let _ = ya_candle_add ya (bar_candle self) (price, price, price, price, volume)
      in self\<lparr> bar_tick_count := bar_tick_count self + 1 \<rparr>)"

definition is_complete :: "TickBar \<Rightarrow> bool" where
  "is_complete self \<longleftrightarrow> bar_tick_count self \<ge> bar_forming_period self"

definition TickBar_reset :: "Yata \<Rightarrow> u32 \<Rightarrow> TickBar" where
  "TickBar_reset ya period =
     \<lparr> bar_candle = ya_candle_default ya, bar_tick_count = 0, bar_forming_period = period \<rparr>"

definition TickBar_next :: "Yata \<Rightarrow> f64 \<Rightarrow> f64 \<Rightarrow> TickBar \<Rightarrow> Candle option \<times> TickBar" where
  "TickBar_next ya price volume self =
     (let self1 = update_with_tick ya price volume self
      in if is_complete self1 then (Some (bar_candle self1), TickBar_reset ya (bar_forming_period self1))
         else (None, self1))"

record TickBarsCache =
  tbc_bar_sizes :: "u32 list"
  tbc_tick_bars :: "u32 \<Rightarrow> TickBar option"

definition TickBarsCache_new :: "u32 list \<Rightarrow> TickBarsCache" where
  "TickBarsCache_new bar_sizes = \<lparr> tbc_bar_sizes = bar_sizes, tbc_tick_bars = Map.empty \<rparr>"

text \<open>The bar reported for a completed candle is read after the bar has been reset.\<close>

fun next_bars_loop ::
  "Yata \<Rightarrow> f64 \<Rightarrow> f64 \<Rightarrow> u32 list \<Rightarrow> (u32 \<Rightarrow> TickBar option) \<Rightarrow> TickBarValue list \<times> (u32 \<Rightarrow> TickBar option)" where
  "next_bars_loop ya price volume [] bars = ([], bars)"
| "next_bars_loop ya price volume (period # periods) bars =
     (case bars period of
        None \<Rightarrow> next_bars_loop ya price volume periods (bars(period \<mapsto> TickBar_new ya period price volume))
      | Some bar \<Rightarrow>
          (case TickBar_next ya price volume bar of
             (candle, bar1) \<Rightarrow>
               (case next_bars_loop ya price volume periods (bars(period \<mapsto> bar1)) of
                  (vals, bars1) \<Rightarrow>
                    (case candle of
                       Some _ \<Rightarrow> (\<lparr> tb_period = period, tb_bar = bar_candle bar1 \<rparr> # vals, bars1)
                     | None \<Rightarrow> (vals, bars1)))))"

definition next_bars :: "Yata \<Rightarrow> f64 \<Rightarrow> f64 \<Rightarrow> TickBarsCache \<Rightarrow> TickBarValue list \<times> TickBarsCache" where
  "next_bars ya price volume self =
     (case next_bars_loop ya price volume (tbc_bar_sizes self) (tbc_tick_bars self) of
        (vals, bars) \<Rightarrow> (vals, self\<lparr> tbc_tick_bars := bars \<rparr>))"

section \<open>Indicators of every tick\<close>

record EveryTickIndicators =
  eti_tema :: TEMA
  eti_ema :: EMA
  eti_rsi :: RelativeStrengthIndexInstance
  eti_bollinger :: BollingerBandsInstance

definition EveryTickIndicators_new :: "Yata \<Rightarrow> u32 \<Rightarrow> f64 \<Rightarrow> f64 \<Rightarrow> EveryTickIndicators option" where
  "EveryTickIndicators_new ya len price volume =
     (let first_candle = ya_candle_from ya (price, price, price, price, volume)
      in Option.bind (ya_tema_new ya len price) (\<lambda>tema.
         Option.bind (ya_ema_new ya len price) (\<lambda>ema.
         Option.bind (ya_rsi_init ya len first_candle) (\<lambda>rsi.
         Option.bind (ya_bollinger_init ya len first_candle) (\<lambda>bollinger.
           Some \<lparr> eti_tema = tema, eti_ema = ema, eti_rsi = rsi, eti_bollinger = bollinger \<rparr>)))))"

definition EveryTickIndicators_next ::
  "Yata \<Rightarrow> f64 \<Rightarrow> f64 \<Rightarrow> EveryTickIndicators \<Rightarrow> EveryTickIndicatorsValue \<times> EveryTickIndicators" where
  "EveryTickIndicators_next ya price volume self =
     (let next_tick_candle = ya_candle_from ya (price, price, price, price, volume);
          (t, tema) = ya_tema_next ya price (eti_tema self);
          (e, ema) = ya_ema_next ya price (eti_ema self);
          (r, rsi) = ya_rsi_next ya next_tick_candle (eti_rsi self);
          (b, bollinger) = ya_bollinger_next ya next_tick_candle (eti_bollinger self)
      in (\<lparr> ti_tema = t, ti_ema = e, ti_rsi = r, ti_bollinger = b \<rparr>,
          \<lparr> eti_tema = tema, eti_ema = ema, eti_rsi = rsi, eti_bollinger = bollinger \<rparr>))"

record EveryTickIndicatorsCache =
  etc_lengths :: "u32 list"
  etc_indicators :: "u32 \<Rightarrow> EveryTickIndicators option"

definition EveryTickIndicatorsCache_new :: "u32 list \<Rightarrow> EveryTickIndicatorsCache" where
  "EveryTickIndicatorsCache_new lengths = \<lparr> etc_lengths = lengths, etc_indicators = Map.empty \<rparr>"

fun next_tick_loop ::
  "Yata \<Rightarrow> f64 \<Rightarrow> f64 \<Rightarrow> u32 list \<Rightarrow> (u32 \<Rightarrow> EveryTickIndicators option)
     \<Rightarrow> (EveryTickIndicatorsValue list \<times> (u32 \<Rightarrow> EveryTickIndicators option)) option" where
  "next_tick_loop ya price volume [] m = Some ([], m)"
| "next_tick_loop ya price volume (len # lens) m =
     (case m len of
        None \<Rightarrow>
          Option.bind (EveryTickIndicators_new ya len price volume) (\<lambda>new.
            next_tick_loop ya price volume lens (m(len \<mapsto> new)))
      | Some indicators \<Rightarrow>
          (case EveryTickIndicators_next ya price volume indicators of
             (value, indicators1) \<Rightarrow>
               map_option (\<lambda>(vals, m1). (value # vals, m1))
                 (next_tick_loop ya price volume lens (m(len \<mapsto> indicators1)))))"

definition next_tick ::
  "Yata \<Rightarrow> f64 \<Rightarrow> f64 \<Rightarrow> EveryTickIndicatorsCache \<Rightarrow> (EveryTickIndicatorsValue list \<times> EveryTickIndicatorsCache) option" where
  "next_tick ya price volume self =
     map_option (\<lambda>(vals, m). (vals, self\<lparr> etc_indicators := m \<rparr>))
       (next_tick_loop ya price volume (etc_lengths self) (etc_indicators self))"

section \<open>The aggregator\<close>

record IndicatorsData =
  ind_every_tick_indicators :: EveryTickIndicatorsCache
  ind_tick_bars :: TickBarsCache

definition IndicatorsData_new :: "u32 list \<Rightarrow> u32 list \<Rightarrow> IndicatorsData" where
  "IndicatorsData_new bar_sizes lengths =
     \<lparr> ind_every_tick_indicators = EveryTickIndicatorsCache_new lengths, ind_tick_bars = TickBarsCache_new bar_sizes \<rparr>"

record AggregatorConfig =
  ac_indicator_periods_in_ticks :: "u32 list"
  ac_tick_bar_sizes :: "u32 list"

record TickIndicatorsAggregator =
  tia_config :: AggregatorConfig
  tia_indicators :: "pubkey \<Rightarrow> IndicatorsData option"

definition TickIndicatorsAggregator_new :: "AggregatorConfig \<Rightarrow> TickIndicatorsAggregator" where
  "TickIndicatorsAggregator_new config = \<lparr> tia_config = config, tia_indicators = Map.empty \<rparr>"

definition aggregate_event ::
  "Yata \<Rightarrow> BotEvent \<Rightarrow> TickIndicatorsAggregator \<Rightarrow> (BotEvent list \<times> TickIndicatorsAggregator) option" where
  "aggregate_event ya event self =
     (case event of
        ChainEvent (SwapEvent swap_event) \<Rightarrow>
          (case tia_indicators self (se_pool swap_event) of
             Some data \<Rightarrow>
               Option.bind (next_tick ya (se_price swap_event) (se_volume swap_event) (ind_every_tick_indicators data))
                 (\<lambda>(tick_indicators, every_tick_indicators).
                   (case next_bars ya (se_price swap_event) (se_volume swap_event) (ind_tick_bars data) of
                      (period_indicators, tick_bars) \<Rightarrow>
                        Some (map (\<lambda>v. IndicatorEvent (TickIndicatorEvent (se_pool swap_event) v)) tick_indicators @
                                map (\<lambda>v. IndicatorEvent (TickBarEvent (se_pool swap_event) v)) period_indicators,
                              self\<lparr> tia_indicators := (tia_indicators self)(se_pool swap_event \<mapsto>
                                \<lparr> ind_every_tick_indicators = every_tick_indicators, ind_tick_bars = tick_bars \<rparr>) \<rparr>)))
           | None \<Rightarrow>
               Some ([], self\<lparr> tia_indicators := (tia_indicators self)(se_pool swap_event \<mapsto>
                 IndicatorsData_new (ac_indicator_periods_in_ticks (tia_config self)) (ac_tick_bar_sizes (tia_config self))) \<rparr>))
      | _ \<Rightarrow> Some ([], self))"

text \<open>The loop of the engine over the events it receives.\<close>

fun aggregate_events ::
  "Yata \<Rightarrow> BotEvent list \<Rightarrow> TickIndicatorsAggregator \<Rightarrow> (BotEvent list \<times> TickIndicatorsAggregator) option" where
  "aggregate_events ya [] self = Some ([], self)"
| "aggregate_events ya (e # es) self =
     Option.bind (aggregate_event ya e self) (\<lambda>(derived, self1).
       map_option (\<lambda>(rest, self2). (derived @ rest, self2)) (aggregate_events ya es self1))"

section \<open>Lemmas\<close>

lemma completed_bar_reset:
  "TickBar_next ya price volume bar = (Some c, bar') \<Longrightarrow> bar_candle bar' = ya_candle_default ya"
  by (auto simp: TickBar_next_def TickBar_reset_def Let_def split: if_splits)

lemma next_bars_loop_values:
  assumes "next_bars_loop ya price volume periods bars = (vals, bars')" and "v \<in> set vals"
  shows "tb_bar v = ya_candle_default ya \<and> tb_period v \<in> set periods"
  using assms
proof (induction periods arbitrary: bars bars' vals)
  case (Cons period periods)
  show ?case
  proof (cases "bars period")
    case None
    then show ?thesis using Cons by auto
  next
    case (Some bar)
    obtain c bar1 where n: "TickBar_next ya price volume bar = (c, bar1)" by fastforce
    obtain vals1 bars1 where r: "next_bars_loop ya price volume periods (bars(period \<mapsto> bar1)) = (vals1, bars1)"
      by fastforce
    show ?thesis using Cons.IH [OF r] Cons.prems Some n r completed_bar_reset by (cases c) force+
  qed
qed simp

definition bars_of :: "u32 list \<Rightarrow> TickIndicatorsAggregator \<Rightarrow> bool" where
  "bars_of sizes self \<longleftrightarrow> ac_indicator_periods_in_ticks (tia_config self) = sizes \<and>
     (\<forall>pool data. tia_indicators self pool = Some data \<longrightarrow> tbc_bar_sizes (ind_tick_bars data) = sizes)"

lemma aggregate_event_bars:
  assumes "aggregate_event ya e self = Some (derived, self')" and "bars_of sizes self"
  shows "bars_of sizes self'"
    and "IndicatorEvent (TickBarEvent pool v) \<in> set derived \<Longrightarrow> tb_bar v = ya_candle_default ya \<and> tb_period v \<in> set sizes"
proof -
  have quiet: "aggregate_event ya e self = Some ([], self)" if "\<nexists>x. e = ChainEvent (SwapEvent x)"
    using that by (auto simp: aggregate_event_def split: BotEvent.splits BlockchainEvent.splits)
  show "bars_of sizes self'"
    using assms quiet
    by (cases "\<exists>x. e = ChainEvent (SwapEvent x)")
      (auto simp: aggregate_event_def bars_of_def next_bars_def IndicatorsData_new_def TickBarsCache_new_def
        split: option.splits bind_splits prod.splits if_splits)
  assume v: "IndicatorEvent (TickBarEvent pool v) \<in> set derived"
  then obtain x where e: "e = ChainEvent (SwapEvent x)" using assms(1) quiet by fastforce
  obtain data where data: "tia_indicators self (se_pool x) = Some data"
    using assms(1) v by (auto simp: e aggregate_event_def split: option.splits)
  obtain vals bars where b: "next_bars_loop ya (se_price x) (se_volume x) (tbc_bar_sizes (ind_tick_bars data))
      (tbc_tick_bars (ind_tick_bars data)) = (vals, bars)"
    by fastforce
  have "v \<in> set vals" using assms(1) v by (auto simp: e aggregate_event_def data next_bars_def b split: bind_splits)
  then show "tb_bar v = ya_candle_default ya \<and> tb_period v \<in> set sizes"
    using next_bars_loop_values [OF b] data assms(2) by (auto simp: bars_of_def)
qed

lemma aggregate_events_bars:
  assumes "aggregate_events ya es self = Some (derived, self')" and "bars_of sizes self"
    and "IndicatorEvent (TickBarEvent pool v) \<in> set derived"
  shows "tb_bar v = ya_candle_default ya \<and> tb_period v \<in> set sizes"
  using assms
proof (induction es arbitrary: self derived)
  case (Cons e es)
  obtain d1 self1 rest where 1: "aggregate_event ya e self = Some (d1, self1)"
    and 2: "aggregate_events ya es self1 = Some (rest, self')" "derived = d1 @ rest"
    using Cons.prems(1) by (auto split: bind_splits)
  show ?case
    using Cons.IH [OF 2(1)] aggregate_event_bars [OF 1 Cons.prems(2)] Cons.prems(3) 2(2) by auto
qed simp

text \<open>A bar that is fed \<open>k\<close> ticks.\<close>

fun feed_bar :: "Yata \<Rightarrow> (f64 \<times> f64) list \<Rightarrow> TickBar \<Rightarrow> Candle list \<times> TickBar" where
  "feed_bar ya [] self = ([], self)"
| "feed_bar ya ((price, volume) # ticks) self =
     (case TickBar_next ya price volume self of
        (candle, self1) \<Rightarrow>
          (case feed_bar ya ticks self1 of
             (candles, self2) \<Rightarrow> ((case candle of Some c \<Rightarrow> c # candles | None \<Rightarrow> candles), self2)))"

lemma feed_bar_count:
  assumes "bar_forming_period self = n" and "0 < n" and "bar_tick_count self < n"
  shows "length (fst (feed_bar ya ticks self)) = (unat (bar_tick_count self) + length ticks) div unat n"
  using assms
proof (induction ya ticks self rule: feed_bar.induct)
  case (2 ya price volume ticks self)
  let ?c = "bar_tick_count self"
  obtain candle self1 where n: "TickBar_next ya price volume self = (candle, self1)" by fastforce
  have "?c \<noteq> - 1" using "2.prems"(3) word_order.extremum_strict [of n] by auto
  then have "1 + ?c \<noteq> 0" by (simp add: add_eq_0_iff)
  then have c: "unat (?c + 1) = unat ?c + 1" using unatSuc [of ?c] by (simp add: add.commute)
  have pos: "0 < unat n" using "2.prems"(2) by (simp add: unat_gt_0)
  have len: "length (fst (feed_bar ya ((price, volume) # ticks) self)) =
      (case candle of None \<Rightarrow> 0 | Some _ \<Rightarrow> 1) + length (fst (feed_bar ya ticks self1))"
    by (cases "feed_bar ya ticks self1") (simp add: n split: option.splits)
  show ?case
  proof (cases "?c + 1 = n")
    case True
    then have "candle \<noteq> None" "bar_forming_period self1 = n" "bar_tick_count self1 = 0"
      using n "2.prems"(1) by (auto simp: TickBar_next_def update_with_tick_def is_complete_def TickBar_reset_def split: if_splits)
    moreover have "(unat ?c + length ((price, volume) # ticks)) div unat n = Suc (length ticks div unat n)"
    proof -
      have "unat ?c + length ((price, volume) # ticks) = length ticks + unat n" using c True by simp
      then show ?thesis using pos by (simp only: div_add_self2 Suc_eq_plus1)
    qed
    ultimately show ?thesis using "2.IH" [OF n [symmetric]] "2.prems"(2) len by auto
  next
    case False
    have "?c + 1 < n" using False inc_le [OF "2.prems"(3)] by (simp add: order.strict_iff_order)
    then have "candle = None" "bar_forming_period self1 = n" "bar_tick_count self1 = ?c + 1"
      using n "2.prems"(1) by (auto simp: TickBar_next_def update_with_tick_def is_complete_def Let_def not_le [symmetric])
    then show ?thesis using "2.IH" [OF n [symmetric]] "2.prems"(2) \<open>?c + 1 < n\<close> len c by simp
  qed
qed (simp add: word_less_nat_alt)

section \<open>Properties\<close>

text \<open>
  C17: Whatever swaps arrive, every bar that the aggregator reports is the empty candle, since the result of adding a tick
  is dropped and the bar is read after its reset; and the sizes of the bars are the periods configured for the
  indicators, since the two lists are passed in the wrong order.
\<close>

theorem reported_bars_empty:
  assumes "aggregate_events ya es (TickIndicatorsAggregator_new config) = Some (derived, self)"
    and "IndicatorEvent (TickBarEvent pool v) \<in> set derived"
  shows "tb_bar v = ya_candle_default ya \<and> tb_period v \<in> set (ac_indicator_periods_in_ticks config)"
proof -
  have "bars_of (ac_indicator_periods_in_ticks config) (TickIndicatorsAggregator_new config)"
    by (simp add: bars_of_def TickIndicatorsAggregator_new_def)
  from aggregate_events_bars [OF assms(1) this assms(2)] show ?thesis .
qed

definition example_swap :: RaydiumSwapEvent where
  "example_swap = \<lparr> se_pool_price = \<lparr> pu_pool = [1], pu_price = 0, pu_base_reserve = 0, pu_quote_reserve = 0, pu_created_at = 0 \<rparr>,
     se_signature = [1], se_pool = [1], se_trade_direction = TradeBuy, se_base_amount = 0, se_quote_amount = 0,
     se_price = 0, se_volume = 0, se_created_at = 0 \<rparr>"

theorem reported_bars_empty_witness:
  "\<forall>ya. \<exists>derived self v.
     aggregate_events ya (replicate 3 (ChainEvent (SwapEvent example_swap)))
       (TickIndicatorsAggregator_new \<lparr> ac_indicator_periods_in_ticks = [1], ac_tick_bar_sizes = [] \<rparr>) = Some (derived, self) \<and>
     IndicatorEvent (TickBarEvent [1] v) \<in> set derived \<and> tb_bar v = ya_candle_default ya \<and> tb_period v = 1"
proof
  fix ya
  let ?config = "\<lparr> ac_indicator_periods_in_ticks = [1], ac_tick_bar_sizes = [] \<rparr>"
  obtain derived self v where
    run: "aggregate_events ya (replicate 3 (ChainEvent (SwapEvent example_swap))) (TickIndicatorsAggregator_new ?config) =
        Some (derived, self)" and v: "IndicatorEvent (TickBarEvent [1] v) \<in> set derived"
    by (simp add: numeral_3_eq_3 aggregate_event_def TickIndicatorsAggregator_new_def example_swap_def IndicatorsData_new_def
        EveryTickIndicatorsCache_new_def TickBarsCache_new_def next_tick_def next_bars_def TickBar_new_def TickBar_next_def
        update_with_tick_def is_complete_def TickBar_reset_def)
  from reported_bars_empty [OF this] this show "\<exists>derived self v.
     aggregate_events ya (replicate 3 (ChainEvent (SwapEvent example_swap))) (TickIndicatorsAggregator_new ?config) =
       Some (derived, self) \<and> IndicatorEvent (TickBarEvent [1] v) \<in> set derived \<and> tb_bar v = ya_candle_default ya \<and> tb_period v = 1"
    by fastforce
qed

text \<open>A bar of \<open>n\<close> ticks completes with every \<open>n\<close>-th tick: \<open>k\<close> ticks complete \<open>k div n\<close> candles.\<close>

theorem bar_completes_every_period:
  assumes "0 < n"
  shows "length (fst (feed_bar ya ticks (TickBar_new ya n price volume))) = length ticks div unat n"
  using feed_bar_count [of "TickBar_new ya n price volume" n ya ticks] assms by (simp add: TickBar_new_def)

end
