(* ===== verification/Tx_Parser.thy ===== *)
theory Tx_Parser
  imports Op_Cache Decimals
begin

text \<open>
  Reading transactions: \<open>solana/tx_parser.rs\<close> finds the Raydium swaps of a transaction, \<open>solana/pool.rs\<close> the pool a
  transaction creates. The encoded transactions of the \<open>solana_transaction_status\<close> crate are datatypes with its
  constructors and the fields the code reads; decoding and encoding them, base 58, the token program's instruction
  parser, address derivation and the regular expression are arguments. Keys inside an encoded transaction are strings.
  A function that returns an \<open>Option\<close> may also panic, hence three outcomes; \<open>Err\<close> is \<open>Inl\<close> with its message.
\<close>

section \<open>Outcomes\<close>

datatype 'a attempt = Got 'a | Nothing | Crash

primrec abind :: "'a attempt \<Rightarrow> ('a \<Rightarrow> 'b attempt) \<Rightarrow> 'b attempt" where
  "abind (Got x) f = f x"
| "abind Nothing f = Nothing"
| "abind Crash f = Crash"

text \<open>\<open>x?\<close>, \<open>x.unwrap()\<close> and the index operator.\<close>

definition try_opt :: "'a option \<Rightarrow> 'a attempt" where
  "try_opt x = (case x of Some y \<Rightarrow> Got y | None \<Rightarrow> Nothing)"

definition unwrap :: "'a option \<Rightarrow> 'a attempt" where
  "unwrap x = (case x of Some y \<Rightarrow> Got y | None \<Rightarrow> Crash)"

definition at :: "'a list \<Rightarrow> nat \<Rightarrow> 'a attempt" where
  "at xs i = (if i < length xs then Got (xs ! i) else Crash)"

definition expect_ok :: "'a result \<Rightarrow> 'a attempt" where
  "expect_ok r = (case r of Ok x \<Rightarrow> Got x | _ \<Rightarrow> Crash)"

lemma attempt_simps [simp]:
  "try_opt (Some y) = Got y" "try_opt None = Nothing" "unwrap (Some y) = Got y" "unwrap None = Crash"
  "expect_ok (Ok y) = Got y" "expect_ok (Err e) = Crash" "expect_ok Panic = Crash"
  by (simp_all add: try_opt_def unwrap_def expect_ok_def)

lemma at_less [simp]: "i < length xs \<Longrightarrow> at xs i = Got (xs ! i)"
  by (simp add: at_def)

lemma abind_Got_iff: "abind m f = Got y \<longleftrightarrow> (\<exists>x. m = Got x \<and> f x = Got y)"
  by (cases m) auto

section \<open>Encoded transactions\<close>

text \<open>\<open>serde_json::Value\<close>; the numbers are not looked at.\<close>

typedecl JsonNumber

datatype JsonValue =
    JNull | JBool bool | JNumber JsonNumber | JString string
  | JArray "JsonValue list" | JObject "(string \<times> JsonValue) list"

definition json_get :: "JsonValue \<Rightarrow> string \<Rightarrow> JsonValue option" where
  "json_get v field = (case v of JObject m \<Rightarrow> map_of m field | _ \<Rightarrow> None)"

definition json_index :: "JsonValue \<Rightarrow> string \<Rightarrow> JsonValue" where
  "json_index v field = (case json_get v field of Some x \<Rightarrow> x | None \<Rightarrow> JNull)"

definition json_as_str :: "JsonValue \<Rightarrow> string option" where
  "json_as_str v = (case v of JString s \<Rightarrow> Some s | _ \<Rightarrow> None)"

datatype 'a OptionSerializer = SerSome 'a | SerNone | SerSkip

record ParsedInstruction =
  pi_program :: string
  pi_program_id :: string
  pi_parsed :: JsonValue

record UiPartiallyDecodedInstruction =
  pd_program_id :: string
  pd_accounts :: "string list"
  pd_data :: string
  pd_stack_height :: "u32 option"

record UiCompiledInstruction =
  ci_program_id_index :: u8
  ci_accounts :: "u8 list"
  ci_data :: string
  ci_stack_height :: "u32 option"

datatype UiParsedInstruction = FullyParsed ParsedInstruction | PartiallyDecoded UiPartiallyDecodedInstruction

datatype UiInstruction = Compiled UiCompiledInstruction | Parsed UiParsedInstruction

record UiParsedMessage =
  pm_account_keys :: "string list"
  pm_instructions :: "UiInstruction list"

datatype UiMessage = ParsedMessage UiParsedMessage | RawMessage "UiCompiledInstruction list"

record UiTransaction =
  ut_signatures :: "string list"
  ut_message :: UiMessage

typedecl UiAccountsList

datatype EncodedTransaction =
    LegacyBinary string | EncodedBinary string | JsonTransaction UiTransaction | AccountsTransaction UiAccountsList

record UiTransactionTokenBalance =
  tb_mint :: string
  tb_decimals :: u8

record UiTransactionStatusMeta =
  tm_err :: "TransactionError option"
  tm_status_ok :: bool
  tm_fee :: u64
  tm_pre_balances :: "u64 list"
  tm_post_balances :: "u64 list"
  tm_inner_instructions :: "UiInstruction list list OptionSerializer"
  tm_log_messages :: "string list OptionSerializer"
  tm_pre_token_balances :: "UiTransactionTokenBalance list OptionSerializer"
  tm_compute_units_consumed :: "u64 OptionSerializer"

record EncodedTransactionWithStatusMeta =
  et_transaction :: EncodedTransaction
  et_meta :: "UiTransactionStatusMeta option"

text \<open>A decoded transaction: its signatures, and the message of one of two versions.\<close>

typedecl Message
typedecl V0Message

datatype VersionedMessage = LegacyMessage Message | MessageV0 V0Message

record VersionedTransaction =
  vt_signatures :: "signature list"
  vt_message :: VersionedMessage

text \<open>The updates of the Geyser stream, and a transaction as the engine passes it on. The protocol buffers inside are read by the arguments only.\<close>

typedecl ProtoTransaction
typedecl ProtoMeta

record SubscribeUpdateTransactionInfo =
  ti_signature :: bytes
  ti_is_vote :: bool
  ti_transaction :: "ProtoTransaction option"
  ti_meta :: "ProtoMeta option"

record SubscribeUpdateTransaction =
  su_transaction :: "SubscribeUpdateTransactionInfo option"
  su_slot :: u64

record TransactionPretty =
  tpr_provider_name :: string
  tpr_slot :: u64
  tpr_signature :: signature
  tpr_is_vote :: bool
  tpr_tx :: EncodedTransactionWithStatusMeta

record TxEnv =
  te_decode :: "EncodedTransaction \<Rightarrow> VersionedTransaction option"
  te_encode_json_parsed :: "Message \<Rightarrow> UiMessage"
  te_create_tx_meta :: "ProtoMeta \<Rightarrow> ProtoMeta option"
  te_encode_with_meta :: "VersionedTransaction \<Rightarrow> ProtoMeta \<Rightarrow> EncodedTransaction"
  te_encode_base64 :: "SubscribeUpdateTransactionInfo \<Rightarrow> EncodedTransactionWithStatusMeta option"
  te_signature_from :: "bytes \<Rightarrow> signature option"
  te_signature_from_str :: "string \<Rightarrow> signature option"
  te_signature_to_string :: "signature \<Rightarrow> string"
  te_pubkey_from_str :: "string \<Rightarrow> pubkey option"
  te_pubkey_to_string :: "pubkey \<Rightarrow> string"
  te_ata :: "pubkey \<Rightarrow> pubkey \<Rightarrow> pubkey"
  te_bs58_decode :: "string \<Rightarrow> string + bytes"
  te_bs58_encode :: "string \<Rightarrow> string"
  te_token_unpack :: "bytes \<Rightarrow> u64 option option"
  te_captures :: "string \<Rightarrow> (string \<times> string \<times> string \<times> string) option"
  te_checked_pow :: "u64 \<Rightarrow> nat \<Rightarrow> u64 option"
  te_now :: datetime

text \<open>
  \<open>te_token_unpack\<close> is \<open>None\<close> when the data is no instruction of the token program, and has the amount when it is a
  transfer.
\<close>

definition TOKEN_PROGRAM_STR :: string where
  "TOKEN_PROGRAM_STR = ''TokenkegQfeZyiNwAJbNbGKPFXCWuBvf9Ss623VQ5DA''"
definition WSOL_MINT_ADDRESS :: string where
  "WSOL_MINT_ADDRESS = ''So11111111111111111111111111111111111111112''"
definition RAYDIUM_V4_PROGRAM_STR :: string where
  "RAYDIUM_V4_PROGRAM_STR = ''675kPX9MHTjS2zt1qfr1NYHuzeLXfQM9H24wFSUt1Mp8''"
definition COMPUTE_BUDGET :: string where
  "COMPUTE_BUDGET = ''ComputeBudget111111111111111111111111111111''"
definition RAYDIUM_V4_AUTHORITY_STR :: string where
  "RAYDIUM_V4_AUTHORITY_STR = ''5Q544fKrFoe6tsEbD7S8EmxGTJYAKtTVhAW5Q5pge4j1''"
definition SYSTEM_PROGRAM_STR :: string where
  "SYSTEM_PROGRAM_STR = ''11111111111111111111111111111111''"

section \<open>\<open>tx_parser.rs\<close>\<close>

definition compiled_reencoded :: "TxEnv \<Rightarrow> UiCompiledInstruction \<Rightarrow> UiInstruction" where
  "compiled_reencoded env ix =
     Compiled \<lparr> ci_program_id_index = ci_program_id_index ix, ci_accounts = ci_accounts ix,
       ci_data = te_bs58_encode env (ci_data ix), ci_stack_height = None \<rparr>"

definition parse_ui_message :: "TxEnv \<Rightarrow> UiMessage \<Rightarrow> UiInstruction list" where
  "parse_ui_message env ui_msg =
     (case ui_msg of
        ParsedMessage msg \<Rightarrow> pm_instructions msg
      | RawMessage instructions \<Rightarrow> map (compiled_reencoded env) instructions)"

definition parse_instructions ::
  "TxEnv \<Rightarrow> EncodedTransactionWithStatusMeta \<Rightarrow> string + UiInstruction list" where
  "parse_instructions env tx =
     (case et_transaction tx of
        JsonTransaction ui_tx \<Rightarrow>
          (case ut_message ui_tx of
             ParsedMessage msg \<Rightarrow> Inr (pm_instructions msg)
           | RawMessage instructions \<Rightarrow> Inr (map (compiled_reencoded env) instructions))
      | _ \<Rightarrow> Inl ''Only EncodedTransaction::Json txs are supported'')"

text \<open>The mint of the first instruction of the associated token program.\<close>

fun mint_loop :: "UiInstruction list \<Rightarrow> (string + string) attempt" where
  "mint_loop [] = Got (Inl ''Mint not found in tx'')"
| "mint_loop (i # is) =
     (case i of
        Parsed (FullyParsed ix) \<Rightarrow>
          (if pi_program ix = ''spl-associated-token-account''
           then abind (unwrap (json_as_str (json_index (json_index (pi_parsed ix) ''info'') ''mint''))) (\<lambda>mint. Got (Inr mint))
           else mint_loop is)
      | _ \<Rightarrow> mint_loop is)"

definition parse_mint :: "TxEnv \<Rightarrow> EncodedTransactionWithStatusMeta \<Rightarrow> (string + string) attempt" where
  "parse_mint env tx =
     (case parse_instructions env tx of Inl e \<Rightarrow> Got (Inl e) | Inr instructions \<Rightarrow> mint_loop instructions)"

definition parse_accounts :: "TxEnv \<Rightarrow> EncodedTransactionWithStatusMeta \<Rightarrow> (string + string) attempt" where
  "parse_accounts env tx =
     (case parse_instructions env tx of Inl e \<Rightarrow> Got (Inl e) | Inr instructions \<Rightarrow> mint_loop instructions)"

text \<open>\<open>max\<close> of an empty iterator is \<open>None\<close>, which is unwrapped.\<close>

definition parse_notional :: "EncodedTransactionWithStatusMeta \<Rightarrow> (string + u64) attempt" where
  "parse_notional tx =
     (case et_meta tx of
        Some meta \<Rightarrow>
          (let ds = map (\<lambda>(a, b). f64_as_u64 (f64_sub (f64_of_nat (unat a)) (f64_of_nat (unat b))))
                      (zip (tm_pre_balances meta) (tm_post_balances meta))
           in if ds = [] then Crash else Got (Inr (fold max ds 0)))
      | None \<Rightarrow> Got (Inl ''could not parse notional''))"

definition deserialize :: "'a OptionSerializer \<Rightarrow> 'a option" where
  "deserialize item = (case item of SerSome val \<Rightarrow> Some val | _ \<Rightarrow> None)"

definition is_transfer_of :: "(ParsedInstruction \<Rightarrow> bool) \<Rightarrow> UiInstruction \<Rightarrow> bool" where
  "is_transfer_of of_program i =
     (case i of
        Parsed (FullyParsed ix) \<Rightarrow> of_program ix \<and> json_index (pi_parsed ix) ''type'' = JString ''transfer''
      | _ \<Rightarrow> False)"

definition is_tx_a_sol_transfer :: "TxEnv \<Rightarrow> EncodedTransactionWithStatusMeta \<Rightarrow> bool attempt" where
  "is_tx_a_sol_transfer env tx =
     (case parse_instructions env tx of
        Inl _ \<Rightarrow> Crash
      | Inr instructions \<Rightarrow> Got (list_ex (is_transfer_of (\<lambda>ix. pi_program ix = SYSTEM_PROGRAM_STR)) instructions))"

definition is_tx_a_token_transfer :: "TxEnv \<Rightarrow> EncodedTransactionWithStatusMeta \<Rightarrow> bool attempt" where
  "is_tx_a_token_transfer env tx =
     (case parse_instructions env tx of
        Inl _ \<Rightarrow> Crash
      | Inr instructions \<Rightarrow> Got (list_ex (is_transfer_of (\<lambda>ix. pi_program ix = TOKEN_PROGRAM_STR)) instructions))"

fun compute_unit_price_loop :: "TxEnv \<Rightarrow> UiInstruction list \<Rightarrow> string + u64" where
  "compute_unit_price_loop env [] = Inl ''could not parse compute unit price''"
| "compute_unit_price_loop env (i # is) =
     (case i of
        Parsed (PartiallyDecoded ix) \<Rightarrow>
          (if pd_program_id ix = COMPUTE_BUDGET
           then (case te_bs58_decode env (pd_data ix) of Inl e \<Rightarrow> Inl e | Inr data \<Rightarrow> Inr 0)
           else compute_unit_price_loop env is)
      | _ \<Rightarrow> compute_unit_price_loop env is)"

definition parse_tx_for_set_compute_unit_price :: "TxEnv \<Rightarrow> EncodedTransactionWithStatusMeta \<Rightarrow> string + u64" where
  "parse_tx_for_set_compute_unit_price env tx =
     (case parse_instructions env tx of Inl e \<Rightarrow> Inl e | Inr instructions \<Rightarrow> compute_unit_price_loop env instructions)"

fun keys_at :: "string list \<Rightarrow> u8 list \<Rightarrow> string list attempt" where
  "keys_at account_keys [] = Got []"
| "keys_at account_keys (i # is) =
     abind (at account_keys (unat i)) (\<lambda>k. abind (keys_at account_keys is) (\<lambda>ks. Got (k # ks)))"

definition parse_ui_compiled_instruction ::
  "UiCompiledInstruction \<Rightarrow> string list \<Rightarrow> UiPartiallyDecodedInstruction attempt" where
  "parse_ui_compiled_instruction c account_keys =
     abind (at account_keys (unat (ci_program_id_index c))) (\<lambda>program_id.
     abind (keys_at account_keys (ci_accounts c)) (\<lambda>accounts.
       Got \<lparr> pd_program_id = program_id, pd_accounts = accounts, pd_data = ci_data c, pd_stack_height = None \<rparr>))"

definition parse_ui_instruction :: "UiInstruction \<Rightarrow> string list \<Rightarrow> UiParsedInstruction attempt" where
  "parse_ui_instruction ui_instruction account_keys =
     (case ui_instruction of
        Compiled c \<Rightarrow> abind (parse_ui_compiled_instruction c account_keys) (\<lambda>d. Got (PartiallyDecoded d))
      | Parsed (PartiallyDecoded d) \<Rightarrow> Got (PartiallyDecoded (d\<lparr> pd_stack_height := None \<rparr>))
      | Parsed (FullyParsed _) \<Rightarrow> Crash)"

section \<open>Swaps\<close>

record Swap =
  swp_signature :: signature
  swp_pool_id :: pubkey
  swp_quote_amount :: u64
  swp_base_amount :: u64
  swp_trade_direction :: TradeDirection

text \<open>
  What the loops over the inner instructions write: the two amounts and the direction. The first loop over a pair of
  inner instructions decodes both and leaves the direction its last one suggests, the second reads the transfers.
\<close>

record Amounts =
  am_quote :: u64
  am_base :: u64
  am_direction :: TradeDirection

fun decode_pair ::
  "string list \<Rightarrow> string \<Rightarrow> UiInstruction list \<Rightarrow> Amounts \<Rightarrow> (UiPartiallyDecodedInstruction list \<times> Amounts) attempt" where
  "decode_pair tx_accounts sol_ata [] am = Got ([], am)"
| "decode_pair tx_accounts sol_ata (ui_i # is) am =
     abind (parse_ui_instruction ui_i tx_accounts) (\<lambda>parsed.
       case parsed of
         PartiallyDecoded d \<Rightarrow>
           abind (at (pd_accounts d) 1) (\<lambda>destination_account.
           abind (decode_pair tx_accounts sol_ata is
                    (am\<lparr> am_direction := if destination_account = sol_ata then TradeSell else TradeBuy \<rparr>)) (\<lambda>(ds, am1).
             Got (d # ds, am1)))
       | FullyParsed _ \<Rightarrow> decode_pair tx_accounts sol_ata is am)"

definition apply_transfer :: "TxEnv \<Rightarrow> UiPartiallyDecodedInstruction \<Rightarrow> Amounts \<Rightarrow> Amounts attempt" where
  "apply_transfer env d am =
     (case te_bs58_decode env (pd_data d) of
        Inl _ \<Rightarrow> Nothing
      | Inr data \<Rightarrow>
          (if pd_program_id d = TOKEN_PROGRAM_STR \<and> data \<noteq> [] \<and> hd data = 3 then
             (case te_token_unpack env data of
                Some (Some amount) \<Rightarrow>
                  abind (at (pd_accounts d) 0) (\<lambda>source_account.
                  abind (at (pd_accounts d) 1) (\<lambda>destination_account.
                  abind (at (pd_accounts d) 2) (\<lambda>authority_account.
                    Got (if authority_account = RAYDIUM_V4_AUTHORITY_STR
                         then (case am_direction am of
                                 TradeBuy \<Rightarrow> am\<lparr> am_base := amount \<rparr>
                               | TradeSell \<Rightarrow> am\<lparr> am_quote := amount \<rparr>)
                         else (case am_direction am of
                                 TradeBuy \<Rightarrow> am\<lparr> am_quote := amount \<rparr>
                               | TradeSell \<Rightarrow> am\<lparr> am_base := amount \<rparr>)))))
              | _ \<Rightarrow> Nothing)
           else Got am))"

fun apply_transfers :: "TxEnv \<Rightarrow> UiPartiallyDecodedInstruction list \<Rightarrow> Amounts \<Rightarrow> Amounts attempt" where
  "apply_transfers env [] am = Got am"
| "apply_transfers env (d # ds) am = abind (apply_transfer env d am) (apply_transfers env ds)"

fun inner_loop :: "TxEnv \<Rightarrow> string list \<Rightarrow> string \<Rightarrow> UiInstruction list list \<Rightarrow> Amounts \<Rightarrow> Amounts attempt" where
  "inner_loop env tx_accounts sol_ata [] am = Got am"
| "inner_loop env tx_accounts sol_ata (inner # inners) am =
     (if length inner = 2 then
        abind (decode_pair tx_accounts sol_ata inner am) (\<lambda>(ds, am1).
        abind (apply_transfers env ds am1) (inner_loop env tx_accounts sol_ata inners))
      else inner_loop env tx_accounts sol_ata inners am)"

text \<open>The constant \<open>WSOL_MINT_PUBKEY\<close> is parsed from its string.\<close>

definition raydium_swap ::
  "TxEnv \<Rightarrow> EncodedTransactionWithStatusMeta \<Rightarrow> signature \<Rightarrow> string list \<Rightarrow> string list \<Rightarrow> Swap attempt" where
  "raydium_swap env tx signature tx_accounts instruction_accounts =
     (if instruction_accounts = [] then Crash
      else
        abind (unwrap (te_pubkey_from_str env (last instruction_accounts))) (\<lambda>authority.
        abind (unwrap (te_pubkey_from_str env WSOL_MINT_ADDRESS)) (\<lambda>wsol.
        let sol_ata = te_pubkey_to_string env (te_ata env authority wsol);
            am = \<lparr> am_quote = 0, am_base = 0, am_direction = TradeBuy \<rparr> in
        abind (case et_meta tx of
                 None \<Rightarrow> Got am
               | Some meta \<Rightarrow>
                   (if tm_err meta \<noteq> None then Nothing
                    else abind (try_opt (deserialize (tm_inner_instructions meta))) (\<lambda>all_inner_ixs.
                           inner_loop env tx_accounts sol_ata all_inner_ixs am))) (\<lambda>am1.
        abind (at instruction_accounts 1) (\<lambda>pool_str.
        abind (unwrap (te_pubkey_from_str env pool_str)) (\<lambda>pool_id.
          Got \<lparr> swp_signature = signature, swp_pool_id = pool_id, swp_quote_amount = am_quote am1,
                swp_base_amount = am_base am1, swp_trade_direction = am_direction am1 \<rparr>))))))"

fun swaps_loop ::
  "TxEnv \<Rightarrow> EncodedTransactionWithStatusMeta \<Rightarrow> signature \<Rightarrow> string list \<Rightarrow> UiInstruction list \<Rightarrow> Swap list attempt" where
  "swaps_loop env tx signature tx_accounts [] = Got []"
| "swaps_loop env tx signature tx_accounts (ix # ixs) =
     (case ix of
        Parsed (PartiallyDecoded d) \<Rightarrow>
          (if pd_program_id d = RAYDIUM_V4_PROGRAM_STR then
             abind (raydium_swap env tx signature tx_accounts (pd_accounts d)) (\<lambda>swap.
             abind (swaps_loop env tx signature tx_accounts ixs) (\<lambda>swaps. Got (swap # swaps)))
           else swaps_loop env tx signature tx_accounts ixs)
      | _ \<Rightarrow> Nothing)"

definition parse_tx_for_swaps :: "TxEnv \<Rightarrow> EncodedTransactionWithStatusMeta \<Rightarrow> Swap list attempt" where
  "parse_tx_for_swaps env tx =
     abind (unwrap (te_decode env (et_transaction tx))) (\<lambda>versioned_tx.
     abind (at (vt_signatures versioned_tx) 0) (\<lambda>signature.
       case vt_message versioned_tx of
         MessageV0 _ \<Rightarrow> Nothing
       | LegacyMessage message \<Rightarrow>
           (case te_encode_json_parsed env message of
              RawMessage _ \<Rightarrow> Nothing
            | ParsedMessage msg \<Rightarrow> swaps_loop env tx signature (pm_account_keys msg) (pm_instructions msg))))"

section \<open>\<open>TransactionPretty\<close>\<close>

definition is_successful :: "TransactionPretty \<Rightarrow> bool" where
  "is_successful self = (case et_meta (tpr_tx self) of Some meta \<Rightarrow> tm_status_ok meta | None \<Rightarrow> False)"

definition TransactionPretty_from_update :: "TxEnv \<Rightarrow> SubscribeUpdateTransaction \<Rightarrow> TransactionPretty attempt" where
  "TransactionPretty_from_update env update =
     abind (unwrap (su_transaction update)) (\<lambda>tx.
     abind (unwrap (te_signature_from env (ti_signature tx))) (\<lambda>sgnt.
     abind (unwrap (te_encode_base64 env tx)) (\<lambda>encoded.
       Got \<lparr> tpr_provider_name = ''unknown geyser'', tpr_slot = su_slot update, tpr_signature = sgnt,
             tpr_is_vote = ti_is_vote tx, tpr_tx = encoded \<rparr>)))"

text \<open>A confirmed transaction of a websocket comes with its slot. The flag is set from the presence of \<open>meta\<close>.\<close>

definition TransactionPretty_from_confirmed ::
  "TxEnv \<Rightarrow> u64 \<Rightarrow> EncodedTransactionWithStatusMeta \<Rightarrow> TransactionPretty attempt" where
  "TransactionPretty_from_confirmed env slot tx =
     (case et_transaction tx of
        JsonTransaction json_ui_tx \<Rightarrow>
          abind (at (ut_signatures json_ui_tx) 0) (\<lambda>signature_str.
          abind (unwrap (te_signature_from_str env signature_str)) (\<lambda>sgnt.
            Got \<lparr> tpr_provider_name = ''unknown ws'', tpr_slot = slot, tpr_signature = sgnt,
                  tpr_is_vote = (et_meta tx \<noteq> None), tpr_tx = tx \<rparr>))
      | _ \<Rightarrow> Crash)"

section \<open>\<open>pool.rs\<close>\<close>

text \<open>\<open>str::parse\<close> for an unsigned integer of \<open>w\<close> bits: an optional plus sign and at least one digit.\<close>

fun digits_value :: "string \<Rightarrow> nat \<Rightarrow> nat option" where
  "digits_value [] acc = Some acc"
| "digits_value (c # s) acc =
     (let n = of_char c :: nat
      in if 48 \<le> n \<and> n \<le> 57 then digits_value s (acc * 10 + (n - 48)) else None)"

definition parse_uint :: "nat \<Rightarrow> string \<Rightarrow> nat option" where
  "parse_uint w s =
     (let digits = (case s of c # t \<Rightarrow> if c = CHR ''+'' then t else s | [] \<Rightarrow> [])
      in if digits = [] then None
         else Option.bind (digits_value digits 0) (\<lambda>n. if n < 2 ^ w then Some n else None))"

definition initialize_log :: "TxEnv \<Rightarrow> string list \<Rightarrow> (u8 \<times> u64 \<times> u64 \<times> u64) option" where
  "initialize_log env log_messages =
     Option.bind (find (contains ''initialize2'') log_messages) (\<lambda>log_message.
     Option.bind (te_captures env log_message) (\<lambda>(c1, c2, c3, c4).
     Option.bind (parse_uint 8 c1) (\<lambda>nonce.
     Option.bind (parse_uint 64 c2) (\<lambda>open_time.
     Option.bind (parse_uint 64 c3) (\<lambda>init_pc_amount.
     Option.bind (parse_uint 64 c4) (\<lambda>init_coin_amount.
       Some (of_nat nonce, of_nat open_time, of_nat init_pc_amount, of_nat init_coin_amount)))))))"

definition json_of_transaction ::
  "TxEnv \<Rightarrow> SubscribeUpdateTransaction \<Rightarrow> EncodedTransactionWithStatusMeta \<Rightarrow> UiTransaction option" where
  "json_of_transaction env tx_update transaction =
     (case et_transaction transaction of
        JsonTransaction t \<Rightarrow> Some t
      | _ \<Rightarrow>
          (let t = te_decode env (et_transaction transaction) in
           Option.bind (et_meta transaction) (\<lambda>ui_meta.
           Option.bind (su_transaction tx_update) (\<lambda>info.
           Option.bind (ti_meta info) (\<lambda>meta.
           Option.bind (te_create_tx_meta env meta) (\<lambda>tx_meta.
           Option.bind (map_option (\<lambda>t. te_encode_with_meta env t tx_meta) t) (\<lambda>encoded_tx.
             case encoded_tx of JsonTransaction t \<Rightarrow> Some t | _ \<Rightarrow> None)))))))"

definition is_raydium_instruction :: "UiInstruction \<Rightarrow> bool" where
  "is_raydium_instruction i =
     (case i of Parsed (PartiallyDecoded d) \<Rightarrow> pd_program_id d = RAYDIUM_V4_PROGRAM_STR | _ \<Rightarrow> False)"

definition extract_token_balance_from_pre_or_post_token_balances ::
  "UiTransactionTokenBalance list OptionSerializer \<Rightarrow> string \<Rightarrow> UiTransactionTokenBalance option" where
  "extract_token_balance_from_pre_or_post_token_balances token_balances token_mint_address =
     (case token_balances of
        SerSome balances \<Rightarrow> find (\<lambda>b. tb_mint b = token_mint_address) balances
      | _ \<Rightarrow> None)"

text \<open>\<open>Pubkey::from_str(&accounts[i]).unwrap()\<close>.\<close>

definition key_at :: "TxEnv \<Rightarrow> string list \<Rightarrow> nat \<Rightarrow> pubkey attempt" where
  "key_at env accounts i = abind (at accounts i) (\<lambda>s. unwrap (te_pubkey_from_str env s))"

definition pool_of_accounts ::
  "TxEnv \<Rightarrow> EncodedTransactionWithStatusMeta \<Rightarrow> u8 \<times> u64 \<times> u64 \<times> u64 \<Rightarrow> string list
     \<Rightarrow> (RaydiumPool \<times> RaydiumPoolPriceUpdate) attempt" where
  "pool_of_accounts env transaction = (\<lambda>(nonce, open_time, init_pc_amount, init_coin_amount) accounts.
     abind (key_at env accounts 8) (\<lambda>mint_8.
     abind (key_at env accounts 10) (\<lambda>vault_10.
     abind (key_at env accounts 9) (\<lambda>mint_9.
     abind (key_at env accounts 11) (\<lambda>vault_11.
     let reversed_pool = (te_pubkey_to_string env mint_8 = WSOL_MINT_ADDRESS);
         (base_mint, quote_mint) = (if reversed_pool then (mint_9, mint_8) else (mint_8, mint_9));
         (base_vault, quote_vault) = (if reversed_pool then (vault_11, vault_10) else (vault_10, vault_11)) in
     abind (key_at env accounts 7) (\<lambda>lp_mint.
     let (sol_reserve, token_reserve) =
           (if reversed_pool then (init_coin_amount, init_pc_amount) else (init_pc_amount, init_coin_amount)) in
     abind (unwrap (et_meta transaction)) (\<lambda>meta.
     abind (try_opt (extract_token_balance_from_pre_or_post_token_balances (tm_pre_token_balances meta)
              (te_pubkey_to_string env base_mint))) (\<lambda>pre_token_balance.
     abind (expect_ok (tokens_to_ui_amount_with_decimals_f64 (te_checked_pow env) token_reserve
              (tb_decimals pre_token_balance))) (\<lambda>base_reserve.
     let quote_reserve = lamports_to_sol sol_reserve in
     abind (key_at env accounts 4) (\<lambda>pool_id.
     abind (unwrap (te_pubkey_from_str env RAYDIUM_V4_PROGRAM_STR)) (\<lambda>program_id.
     abind (key_at env accounts 5) (\<lambda>authority.
     abind (key_at env accounts 6) (\<lambda>open_orders.
     abind (key_at env accounts 13) (\<lambda>target_orders.
     abind (unwrap (te_pubkey_from_str env SYSTEM_PROGRAM_STR)) (\<lambda>withdraw_queue.
     abind (key_at env accounts 12) (\<lambda>lp_vault.
     abind (key_at env accounts 15) (\<lambda>market_program_id.
     abind (key_at env accounts 16) (\<lambda>market_id.
       Got (\<lparr> rp_id = pool_id, rp_base_mint = base_mint, rp_quote_mint = quote_mint, rp_lp_mint = lp_mint,
              rp_base_decimals = tb_decimals pre_token_balance, rp_quote_decimals = 9, rp_lp_decimals = 0, rp_version = 4,
              rp_program_id = program_id, rp_authority = authority, rp_open_orders = open_orders,
              rp_target_orders = target_orders, rp_base_vault = base_vault, rp_quote_vault = quote_vault,
              rp_withdraw_queue = withdraw_queue, rp_lp_vault = lp_vault, rp_market_version = 3,
              rp_market_program_id = market_program_id, rp_market_id = market_id, rp_lp_reserve = 0, rp_open_time = 0,
              rp_reverse_pool = reversed_pool, rp_freeze_authority = None \<rparr>,
            \<lparr> pu_pool = pool_id, pu_price = f64_div quote_reserve base_reserve, pu_base_reserve = base_reserve,
              pu_quote_reserve = quote_reserve, pu_created_at = te_now env \<rparr>)))))))))))))))))))"

definition extract_pool_from_init_tx ::
  "TxEnv \<Rightarrow> SubscribeUpdateTransaction \<Rightarrow> (RaydiumPool \<times> RaydiumPoolPriceUpdate) attempt" where
  "extract_pool_from_init_tx env tx_update =
     abind (TransactionPretty_from_update env tx_update) (\<lambda>tx_pretty.
     let transaction = tpr_tx tx_pretty in
     abind (try_opt (et_meta transaction)) (\<lambda>meta.
     abind (try_opt (Option.bind (deserialize (tm_log_messages meta)) (initialize_log env))) (\<lambda>initialize_log.
     abind (try_opt (json_of_transaction env tx_update transaction)) (\<lambda>json.
       case ut_message json of
         RawMessage _ \<Rightarrow> Nothing
       | ParsedMessage message \<Rightarrow>
           (case find is_raydium_instruction (pm_instructions message) of
              Some (Parsed (PartiallyDecoded d)) \<Rightarrow> pool_of_accounts env transaction initialize_log (pd_accounts d)
            | _ \<Rightarrow> Nothing)))))"

text \<open>The readers of parsed instructions.\<close>

definition extract_type_field :: "JsonValue \<Rightarrow> string option" where
  "extract_type_field data = Option.bind (json_get data ''type'') json_as_str"

definition extract_info :: "JsonValue \<Rightarrow> string \<Rightarrow> string option" where
  "extract_info data field = Option.bind (Option.bind (json_get data ''info'') (\<lambda>info. json_get info field)) json_as_str"

fun extract_field :: "JsonValue \<Rightarrow> string list \<Rightarrow> (JsonValue \<Rightarrow> 'a option) \<Rightarrow> 'a option" where
  "extract_field data [] extract_fn = extract_fn data"
| "extract_field data (field # fs) extract_fn =
     Option.bind (json_get data field) (\<lambda>v. if v = JNull then None else extract_field v fs extract_fn)"

definition parse_u64_str :: "string \<Rightarrow> u64 option" where
  "parse_u64_str s = map_option of_nat (parse_uint 64 s)"

definition get_info_amount :: "ParsedInstruction option \<Rightarrow> u64 option" where
  "get_info_amount base_instruction =
     Option.bind base_instruction (\<lambda>i. Option.bind (extract_info (pi_parsed i) ''amount'') parse_u64_str)"

definition get_inner_instruction_by_type_field ::
  "TxEnv \<Rightarrow> UiInstruction list list \<Rightarrow> pubkey \<Rightarrow> string \<Rightarrow> string \<Rightarrow> ParsedInstruction option" where
  "get_inner_instruction_by_type_field env inner_instructions address type_field_value info_field =
     Option.bind (find (\<lambda>i. case i of
         Parsed (FullyParsed instruct) \<Rightarrow> extract_type_field (pi_parsed instruct) = Some type_field_value \<and>
           extract_info (pi_parsed instruct) info_field = Some (te_pubkey_to_string env address)
       | _ \<Rightarrow> False) (concat inner_instructions))
       (\<lambda>i. case i of Parsed (FullyParsed instruct) \<Rightarrow> Some instruct | _ \<Rightarrow> None)"

fun find_transfer_loop :: "UiInstruction list \<Rightarrow> string \<Rightarrow> ParsedInstruction attempt" where
  "find_transfer_loop [] destination_account = Nothing"
| "find_transfer_loop (i # is) destination_account =
     (case i of
        Parsed (FullyParsed instruct) \<Rightarrow>
          abind (unwrap (extract_type_field (pi_parsed instruct))) (\<lambda>t.
          if t \<noteq> ''transfer'' then find_transfer_loop is destination_account
          else abind (unwrap (extract_info (pi_parsed instruct) ''destination'')) (\<lambda>d.
            if d = destination_account \<and> pi_program_id instruct = RAYDIUM_V4_PROGRAM_STR then Got instruct
            else find_transfer_loop is destination_account))
      | _ \<Rightarrow> find_transfer_loop is destination_account)"

definition find_transfer_instruction_in_inner_instructions_by_destination ::
  "UiInstruction list list \<Rightarrow> string \<Rightarrow> ParsedInstruction attempt" where
  "find_transfer_instruction_in_inner_instructions_by_destination inner_instructions destination_account =
     find_transfer_loop (concat inner_instructions) destination_account"

fun find_amount_loop :: "UiInstruction list \<Rightarrow> string \<Rightarrow> u64 option" where
  "find_amount_loop [] vault_address = None"
| "find_amount_loop (i # is) vault_address =
     (case i of
        Parsed (FullyParsed instruct) \<Rightarrow>
          (if pi_program_id instruct = TOKEN_PROGRAM_STR \<and>
              extract_type_field (pi_parsed instruct) = Some ''transfer'' \<and>
              extract_field (pi_parsed instruct) [''info'', ''destination''] json_as_str = Some vault_address
           then extract_field (pi_parsed instruct) [''info'', ''amount'']
                  (\<lambda>v. Option.bind (json_as_str v) parse_u64_str)
           else find_amount_loop is vault_address)
      | _ \<Rightarrow> find_amount_loop is vault_address)"

definition find_transfer_amount :: "UiInstruction list list \<Rightarrow> string \<Rightarrow> u64 option" where
  "find_transfer_amount inner_instructions vault_address = find_amount_loop (concat inner_instructions) vault_address"

section \<open>Swaps of the usual shape\<close>

text \<open>An inner instruction that moves tokens, and the pair a Raydium swap makes: into the pool, then out of it.\<close>

definition transfer_of :: "TxEnv \<Rightarrow> string list \<Rightarrow> UiInstruction \<Rightarrow> string \<Rightarrow> string \<Rightarrow> u64 \<Rightarrow> bool" where
  "transfer_of env keys i destination authority amount \<longleftrightarrow>
     (\<exists>d source rest data. parse_ui_instruction i keys = Got (PartiallyDecoded d) \<and>
        pd_accounts d = source # destination # authority # rest \<and> pd_program_id d = TOKEN_PROGRAM_STR \<and>
        te_bs58_decode env (pd_data d) = Inr (3 # data) \<and> te_token_unpack env (3 # data) = Some (Some amount))"

definition swap_pair :: "TxEnv \<Rightarrow> string list \<Rightarrow> u64 \<Rightarrow> u64 \<Rightarrow> string \<Rightarrow> UiInstruction list \<Rightarrow> bool" where
  "swap_pair env keys amount_in amount_out destination inner \<longleftrightarrow>
     (\<exists>i1 i2 vault user. inner = [i1, i2] \<and> transfer_of env keys i1 vault user amount_in \<and>
        user \<noteq> RAYDIUM_V4_AUTHORITY_STR \<and> transfer_of env keys i2 destination RAYDIUM_V4_AUTHORITY_STR amount_out)"

definition pair_amounts :: "string \<Rightarrow> u64 \<Rightarrow> u64 \<Rightarrow> string \<Rightarrow> Amounts" where
  "pair_amounts sol_ata amount_in amount_out destination =
     (if destination = sol_ata
      then \<lparr> am_quote = amount_out, am_base = amount_in, am_direction = TradeSell \<rparr>
      else \<lparr> am_quote = amount_in, am_base = amount_out, am_direction = TradeBuy \<rparr>)"

lemma Amounts_all_set:
  "am\<lparr> am_direction := d, am_base := b, am_quote := q \<rparr> = \<lparr> am_quote = q, am_base = b, am_direction = d \<rparr>"
  "am\<lparr> am_direction := d, am_quote := q, am_base := b \<rparr> = \<lparr> am_quote = q, am_base = b, am_direction = d \<rparr>"
  by (simp_all add: Amounts.equality)

lemma inner_loop_pair:
  assumes "swap_pair env keys a b destination inner"
  shows "inner_loop env keys sol_ata (inner # inners) am =
    inner_loop env keys sol_ata inners (pair_amounts sol_ata a b destination)"
  using assms by (auto simp: swap_pair_def transfer_of_def apply_transfer_def pair_amounts_def Amounts_all_set)

lemma inner_loop_pairs:
  assumes "\<forall>inner \<in> set inners. length inner = 2 \<longrightarrow> (\<exists>a b d. swap_pair env keys a b d inner)"
    and "filter (\<lambda>inner. length inner = 2) inners = pairs @ [p]" and "swap_pair env keys a b destination p"
  shows "inner_loop env keys sol_ata inners am = Got (pair_amounts sol_ata a b destination)"
  using assms
proof (induction inners arbitrary: pairs am)
  case (Cons inner inners)
  show ?case
  proof (cases "length inner = 2")
    case False
    then show ?thesis using Cons by simp
  next
    case True
    then obtain a' b' d' where pair: "swap_pair env keys a' b' d' inner" using Cons.prems(1) by auto
    show ?thesis
    proof (cases pairs)
      case Nil
      have none: "filter (\<lambda>inner. length inner = 2) inners = []" and "p = inner"
        using Cons.prems(2) True Nil by auto
      have "inner_loop env keys sol_ata inners am' = Got am'" for am'
        using none by (induction inners) (auto split: if_splits)
      with \<open>p = inner\<close> Cons.prems(3) show ?thesis by (simp only: inner_loop_pair)
    next
      case (Cons q qs)
      have "filter (\<lambda>inner. length inner = 2) inners = qs @ [p]" using Cons.prems(2) True Cons by simp
      then show ?thesis using Cons.IH Cons.prems(1,3) by (simp only: inner_loop_pair [OF pair]) auto
    qed
  qed
qed simp

text \<open>
  A transaction whose only pairs of inner instructions are those of Raydium swaps: it is of the legacy version, it
  succeeded, and the node says what its inner instructions are. Its own instructions can be of any form.
\<close>

definition swap_transaction ::
  "TxEnv \<Rightarrow> EncodedTransactionWithStatusMeta \<Rightarrow> signature \<Rightarrow> string list \<Rightarrow> UiInstruction list
     \<Rightarrow> UiInstruction list list \<Rightarrow> bool" where
  "swap_transaction env tx sgnt keys ixs inners \<longleftrightarrow>
     (\<exists>sgs m meta. te_decode env (et_transaction tx) = Some \<lparr> vt_signatures = sgnt # sgs, vt_message = LegacyMessage m \<rparr> \<and>
        te_encode_json_parsed env m = ParsedMessage \<lparr> pm_account_keys = keys, pm_instructions = ixs \<rparr> \<and>
        et_meta tx = Some meta \<and> tm_err meta = None \<and> tm_inner_instructions meta = SerSome inners \<and>
        te_pubkey_from_str env WSOL_MINT_ADDRESS \<noteq> None \<and>
        (\<forall>inner \<in> set inners. length inner = 2 \<longrightarrow> (\<exists>a b d. swap_pair env keys a b d inner)))"

text \<open>The instructions the parser takes for swaps, those it can read, and the forms of instruction at which it stops.\<close>

definition raydium_instructions :: "UiInstruction list \<Rightarrow> UiPartiallyDecodedInstruction list" where
  "raydium_instructions ixs =
     concat (map (\<lambda>ix. case ix of
         Parsed (PartiallyDecoded d) \<Rightarrow> if pd_program_id d = RAYDIUM_V4_PROGRAM_STR then [d] else []
       | _ \<Rightarrow> []) ixs)"

definition swap_instruction :: "TxEnv \<Rightarrow> UiPartiallyDecodedInstruction \<Rightarrow> bool" where
  "swap_instruction env d \<longleftrightarrow>
     2 \<le> length (pd_accounts d) \<and> te_pubkey_from_str env (last (pd_accounts d)) \<noteq> None \<and>
     te_pubkey_from_str env (pd_accounts d ! 1) \<noteq> None"

fun partially_decoded :: "UiInstruction \<Rightarrow> bool" where
  "partially_decoded (Parsed (PartiallyDecoded d)) = True"
| "partially_decoded ix = False"

definition sol_ata_of :: "TxEnv \<Rightarrow> string \<Rightarrow> string" where
  "sol_ata_of env user =
     te_pubkey_to_string env (te_ata env (the (te_pubkey_from_str env user)) (the (te_pubkey_from_str env WSOL_MINT_ADDRESS)))"

lemma raydium_swap_of_pairs:
  assumes "et_meta tx = Some meta" "tm_err meta = None" "tm_inner_instructions meta = SerSome inners"
    and "te_pubkey_from_str env WSOL_MINT_ADDRESS \<noteq> None" and "swap_instruction env d"
    and "\<And>am. inner_loop env keys (sol_ata_of env (last (pd_accounts d))) inners am = Got am'"
  shows "raydium_swap env tx sgnt keys (pd_accounts d) =
    Got \<lparr> swp_signature = sgnt, swp_pool_id = the (te_pubkey_from_str env (pd_accounts d ! 1)),
          swp_quote_amount = am_quote am', swp_base_amount = am_base am', swp_trade_direction = am_direction am' \<rparr>"
proof -
  have "pd_accounts d \<noteq> []" "1 < length (pd_accounts d)" using assms(5) by (auto simp: swap_instruction_def)
  then show ?thesis
    using assms by (auto simp: raydium_swap_def swap_instruction_def sol_ata_of_def deserialize_def)
qed

lemma swaps_loop_reads:
  assumes "\<And>d. d \<in> set (raydium_instructions ixs) \<Longrightarrow> raydium_swap env tx sgnt keys (pd_accounts d) = Got (f d)"
  shows "swaps_loop env tx sgnt keys ixs =
    (if list_all partially_decoded ixs then Got (map f (raydium_instructions ixs)) else Nothing)"
  using assms
proof (induction ixs)
  case (Cons ix ixs)
  have rest: "swaps_loop env tx sgnt keys ixs =
      (if list_all partially_decoded ixs then Got (map f (raydium_instructions ixs)) else Nothing)"
    using Cons by (simp add: raydium_instructions_def)
  show ?case
  proof (cases "partially_decoded ix")
    case True
    then obtain d where "ix = Parsed (PartiallyDecoded d)" by (cases ix rule: partially_decoded.cases) simp_all
    then show ?thesis
      using rest Cons.prems [of d] by (simp add: raydium_instructions_def)
  next
    case False
    then show ?thesis by (cases ix rule: partially_decoded.cases) simp_all
  qed
qed (simp add: raydium_instructions_def)

section \<open>Properties\<close>

text \<open>
  C23: What the parser makes of Raydium swaps. Take a transaction of the usual shape: of the legacy version, successful, with
  inner instructions of which every group of two is the pair of transfers of a swap, and with a pool and a signer that can
  be read among the accounts of each Raydium instruction. If one of its top-level instructions is fully parsed, as those of
  the system and the associated token program are, or compiled, no swap is found at all. Otherwise every swap instruction
  gives one swap, in order, of the pool among its accounts, but all of them get the amounts of the last pair of transfers in
  the transaction. With one swap instruction these are its amounts, read as a sale when the tokens go to the associated
  account for wrapped SOL of its signer; the sale of a user who receives them on another account is read as a purchase,
  with tokens and SOL exchanged.
\<close>

theorem swaps_read_last_pair:
  assumes "swap_transaction env tx sgnt keys ixs inners"
    and "filter (\<lambda>inner. length inner = 2) inners = pairs @ [p]" and "swap_pair env keys amount_in amount_out destination p"
    and "list_all (swap_instruction env) (raydium_instructions ixs)"
  shows "parse_tx_for_swaps env tx =
    (if list_all partially_decoded ixs
     then Got (map
       (\<lambda>d. let sale = (destination = sol_ata_of env (last (pd_accounts d))) in
          \<lparr> swp_signature = sgnt, swp_pool_id = the (te_pubkey_from_str env (pd_accounts d ! 1)),
            swp_quote_amount = (if sale then amount_out else amount_in),
            swp_base_amount = (if sale then amount_in else amount_out),
            swp_trade_direction = (if sale then TradeSell else TradeBuy) \<rparr>)
       (raydium_instructions ixs))
     else Nothing)"
proof -
  obtain sgs m meta where tx: "te_decode env (et_transaction tx) = Some \<lparr> vt_signatures = sgnt # sgs, vt_message = LegacyMessage m \<rparr>"
    "te_encode_json_parsed env m = ParsedMessage \<lparr> pm_account_keys = keys, pm_instructions = ixs \<rparr>"
    and meta: "et_meta tx = Some meta" "tm_err meta = None" "tm_inner_instructions meta = SerSome inners"
      "te_pubkey_from_str env WSOL_MINT_ADDRESS \<noteq> None"
    and pairs: "\<forall>inner \<in> set inners. length inner = 2 \<longrightarrow> (\<exists>a b d. swap_pair env keys a b d inner)"
    using assms(1) unfolding swap_transaction_def by blast
  let ?am = "\<lambda>d. pair_amounts (sol_ata_of env (last (pd_accounts d))) amount_in amount_out destination"
  have "raydium_swap env tx sgnt keys (pd_accounts d) =
      Got \<lparr> swp_signature = sgnt, swp_pool_id = the (te_pubkey_from_str env (pd_accounts d ! 1)),
        swp_quote_amount = am_quote (?am d), swp_base_amount = am_base (?am d), swp_trade_direction = am_direction (?am d) \<rparr>"
    if "d \<in> set (raydium_instructions ixs)" for d
    using raydium_swap_of_pairs [OF meta _ inner_loop_pairs [OF pairs assms(2,3)]] assms(4) that by (simp add: list_all_iff)
  from swaps_loop_reads [OF this] show ?thesis
    using tx by (simp add: parse_tx_for_swaps_def pair_amounts_def Let_def cong: if_cong)
qed

text \<open>Two swaps of one user on two pools; the second pair of transfers pays out to another account.\<close>

definition example_transfer :: "u8 list \<Rightarrow> string \<Rightarrow> UiInstruction" where
  "example_transfer accounts data =
     Compiled \<lparr> ci_program_id_index = 5, ci_accounts = accounts, ci_data = data, ci_stack_height = None \<rparr>"

definition example_keys :: "string list" where
  "example_keys = [''user'', ''vault'', RAYDIUM_V4_AUTHORITY_STR, ''ata'', ''other'', TOKEN_PROGRAM_STR]"

definition example_raydium_ix :: "string \<Rightarrow> UiPartiallyDecodedInstruction" where
  "example_raydium_ix pool =
     \<lparr> pd_program_id = RAYDIUM_V4_PROGRAM_STR, pd_accounts = [''token'', pool, ''user''], pd_data = [], pd_stack_height = None \<rparr>"

definition example_inners :: "UiInstruction list list" where
  "example_inners = [[example_transfer [0, 1, 0] ''7'', example_transfer [1, 3, 2] ''8''],
     [example_transfer [0, 1, 0] ''5'', example_transfer [1, 4, 2] ''6'']]"

definition example_meta :: UiTransactionStatusMeta where
  "example_meta = \<lparr> tm_err = None, tm_status_ok = True, tm_fee = 5000, tm_pre_balances = [], tm_post_balances = [],
     tm_inner_instructions = SerSome example_inners, tm_log_messages = SerNone, tm_pre_token_balances = SerNone,
     tm_compute_units_consumed = SerNone \<rparr>"

definition example_tx :: EncodedTransactionWithStatusMeta where
  "example_tx = \<lparr> et_transaction = LegacyBinary [], et_meta = Some example_meta \<rparr>"

definition example_tx_env :: TxEnv where
  "example_tx_env =
     \<lparr> te_decode = (\<lambda>_. Some \<lparr> vt_signatures = [[1]], vt_message = LegacyMessage undefined \<rparr>),
       te_encode_json_parsed = (\<lambda>_. ParsedMessage \<lparr> pm_account_keys = example_keys,
         pm_instructions = map (\<lambda>d. Parsed (PartiallyDecoded d)) [example_raydium_ix ''pool1'', example_raydium_ix ''pool2''] \<rparr>),
       te_create_tx_meta = Some, te_encode_with_meta = (\<lambda>_ _. LegacyBinary []), te_encode_base64 = (\<lambda>_. Some example_tx),
       te_signature_from = Some, te_signature_from_str = (\<lambda>_. None), te_signature_to_string = (\<lambda>_. ''s''),
       te_pubkey_from_str = (\<lambda>s. Some [of_nat (length s), if s = ''pool2'' then 2 else 1]), te_pubkey_to_string = (\<lambda>_. ''ata''),
       te_ata = (\<lambda>a b. a), te_bs58_decode = (\<lambda>s. Inr [3, of_char (hd s)]), te_bs58_encode = (\<lambda>s. s),
       te_token_unpack = (\<lambda>data. Some (Some (ucast (last data)))), te_captures = (\<lambda>_. None),
       te_checked_pow = (\<lambda>b e. Some (b ^ e)), te_now = 0 \<rparr>"

lemma example_pair:
  "swap_pair example_tx_env example_keys 55 56 ''ata'' [example_transfer [0, 1, 0] ''7'', example_transfer [1, 3, 2] ''8'']"
  "swap_pair example_tx_env example_keys 53 54 ''other'' [example_transfer [0, 1, 0] ''5'', example_transfer [1, 4, 2] ''6'']"
  by (auto simp: swap_pair_def transfer_of_def parse_ui_instruction_def example_transfer_def example_keys_def
      parse_ui_compiled_instruction_def at_def example_tx_env_def RAYDIUM_V4_AUTHORITY_STR_def)

lemma example_pairs:
  "\<forall>inner \<in> set example_inners. length inner = 2 \<longrightarrow> (\<exists>a b d. swap_pair example_tx_env example_keys a b d inner)"
  "filter (\<lambda>inner. length inner = 2) example_inners = butlast example_inners @ [last example_inners]"
  "swap_pair example_tx_env example_keys 53 54 ''other'' (last example_inners)"
  using example_pair by (auto simp: example_inners_def)

theorem swaps_read_last_pair_witness:
  "parse_tx_for_swaps example_tx_env example_tx = Got
     [\<lparr> swp_signature = [1], swp_pool_id = [5, 1], swp_quote_amount = 53, swp_base_amount = 54, swp_trade_direction = TradeBuy \<rparr>,
      \<lparr> swp_signature = [1], swp_pool_id = [5, 2], swp_quote_amount = 53, swp_base_amount = 54, swp_trade_direction = TradeBuy \<rparr>]"
proof -
  let ?ixs = "map (\<lambda>d. Parsed (PartiallyDecoded d)) [example_raydium_ix ''pool1'', example_raydium_ix ''pool2'']"
  have tx: "swap_transaction example_tx_env example_tx [1] example_keys ?ixs example_inners"
    using example_pairs(1) by (auto simp: swap_transaction_def example_tx_env_def example_tx_def example_meta_def)
  have ixs: "list_all partially_decoded ?ixs"
    "raydium_instructions ?ixs = [example_raydium_ix ''pool1'', example_raydium_ix ''pool2'']"
    by (simp_all add: raydium_instructions_def example_raydium_ix_def)
  have "list_all (swap_instruction example_tx_env) (raydium_instructions ?ixs)"
    unfolding ixs(2) by (simp add: swap_instruction_def example_raydium_ix_def example_tx_env_def)
  from swaps_read_last_pair [OF tx example_pairs(2,3) this] show ?thesis
    unfolding ixs(2) if_P [OF ixs(1)] by (simp add: example_raydium_ix_def example_tx_env_def sol_ata_of_def)
qed

end
