(* ===== verification/Event_Collector.thy ===== *)
theory Event_Collector
  imports Tx_Parser
begin

text \<open>
  \<open>collectors/realtime_feed_events_collector.rs\<close> turns what the Geyser stream delivers, transactions and account
  updates, into events of the engine, and \<open>strategies/deposit/strategy.rs\<close> takes the fee of the bot from deposits. The
  state is the shared cache; the cache of announced tokens belongs to the \<open>lru\<close> crate, so its two operations are
  arguments. The stream is the list of its updates. A result is \<open>Got\<close>, \<open>Nothing\<close> or \<open>Crash\<close> together with the state
  left behind, because an early return keeps what was written before it.
\<close>

section \<open>State and arguments\<close>

datatype Mode = BackTesting | PaperTrading | Live

record 'l Collector =
  co_cache :: OperationalCache
  co_target_tokens :: 'l

record 'l CollectorEnv =
  cx_mode :: Mode
  cx_tx :: TxEnv
  cx_contains :: "'l \<Rightarrow> pubkey \<Rightarrow> bool"
  cx_put :: "pubkey \<Rightarrow> pubkey \<Rightarrow> 'l \<Rightarrow> 'l"

definition BALANCE_CHANGE_THRESHOLD_SOL :: u64 where "BALANCE_CHANGE_THRESHOLD_SOL = 1000"

datatype GeyserFeedEvent = FeedTransaction SubscribeUpdateTransaction | FeedTxStatusUpdate | FeedAccount AccountPretty

abbreviation with_cache :: "(OperationalCache \<Rightarrow> OperationalCache) \<Rightarrow> 'l Collector \<Rightarrow> 'l Collector" where
  "with_cache f self \<equiv> self\<lparr> co_cache := f (co_cache self) \<rparr>"

section \<open>Receipts\<close>

definition receipt :: "uuid \<Rightarrow> signature \<Rightarrow> TransactionError option \<Rightarrow> datetime \<Rightarrow> BotEvent" where
  "receipt action_uuid transaction_signature err now =
     ChainEvent (ReceiptEvent \<lparr> er_action_uuid = action_uuid, er_transaction_signature = transaction_signature,
       er_err = err, er_status_changed_at = now \<rparr>)"

definition parse_cached_executions ::
  "'l CollectorEnv \<Rightarrow> TransactionPretty \<Rightarrow> 'l Collector \<Rightarrow> BotEvent attempt \<times> 'l Collector" where
  "parse_cached_executions env tx self =
     (let now = te_now (cx_tx env) in
      case cx_mode env of
        Live \<Rightarrow>
          (let sig_str = te_signature_to_string (cx_tx env) (tpr_signature tx) in
           case get_uuid_by_signature (co_cache self) sig_str of
             Some swap_uuid \<Rightarrow>
               (Got (receipt swap_uuid (tpr_signature tx)
                  (case et_meta (tpr_tx tx) of Some meta \<Rightarrow> tm_err meta | None \<Rightarrow> None) now),
                with_cache (mark_signature_as_processed swap_uuid sig_str) self)
           | None \<Rightarrow> (Nothing, self))
      | PaperTrading \<Rightarrow>
          (case oc_pop_front (co_cache self) of
             (Some (swap_uuid, sig), cache) \<Rightarrow>
               (Got (receipt swap_uuid (replicate 64 0) None now), self\<lparr> co_cache := cache \<rparr>)
           | (None, cache) \<Rightarrow> (Nothing, self\<lparr> co_cache := cache \<rparr>))
      | BackTesting \<Rightarrow> (Crash, self))"

text \<open>\<open>parse_status_upate_transaction\<close>.\<close>

definition parse_status_update_transaction :: "'l Collector \<Rightarrow> BotEvent list attempt \<times> 'l Collector" where
  "parse_status_update_transaction self = (Nothing, self)"

section \<open>Transactions\<close>

definition update_fees :: "TransactionPretty \<Rightarrow> 'l Collector \<Rightarrow> unit attempt \<times> 'l Collector" where
  "update_fees tx self =
     (case et_meta (tpr_tx tx) of
        Some tx_meta \<Rightarrow>
          (if is_successful tx then
             (case tm_compute_units_consumed tx_meta of
                SerSome cu_consumed \<Rightarrow>
                  (if cu_consumed > 0 \<and> tm_fee tx_meta > BASE_TX_FEE_SOL then
                     (case update_optimal_fee ((tm_fee tx_meta - BASE_TX_FEE_SOL) div cu_consumed) (co_cache self) of
                        Ok cache \<Rightarrow> (Got (), self\<lparr> co_cache := cache \<rparr>)
                      | _ \<Rightarrow> (Crash, self))
                   else (Got (), self))
              | _ \<Rightarrow> (Got (), self))
           else (Got (), self))
      | None \<Rightarrow> (Got (), self))"

text \<open>One swap of the transaction: nothing to report when its pool is not monitored.\<close>

definition parse_swap ::
  "'l CollectorEnv \<Rightarrow> TransactionPretty \<Rightarrow> Swap \<Rightarrow> 'l Collector \<Rightarrow> BotEvent list attempt \<times> 'l Collector" where
  "parse_swap env tx parsed_swap self =
     (case oc_target_pools (co_cache self) (swp_pool_id parsed_swap) of
        None \<Rightarrow> (Got [], self)
      | Some client_pool \<Rightarrow>
          (case oc_target_pools_prices (co_cache self) (swp_pool_id parsed_swap) of
             None \<Rightarrow> (Nothing, self)
           | Some pre_swap_pool_state \<Rightarrow>
               (case (tokens_to_ui_amount_with_decimals_f64 (te_checked_pow (cx_tx env)) (swp_base_amount parsed_swap)
                        (rp_base_decimals client_pool),
                      tokens_to_ui_amount_with_decimals_f64 (te_checked_pow (cx_tx env)) (swp_quote_amount parsed_swap)
                        (rp_quote_decimals client_pool)) of
                  (Ok base_amount_ui, Ok quote_amount_ui) \<Rightarrow>
                    (let (base, quote) =
                           (case swp_trade_direction parsed_swap of
                              TradeBuy \<Rightarrow> (f64_sub (pu_base_reserve pre_swap_pool_state) base_amount_ui,
                                           f64_add (pu_quote_reserve pre_swap_pool_state) quote_amount_ui)
                            | TradeSell \<Rightarrow> (f64_add (pu_base_reserve pre_swap_pool_state) base_amount_ui,
                                            f64_sub (pu_quote_reserve pre_swap_pool_state) quote_amount_ui));
                         price_update =
                           \<lparr> pu_pool = rp_id client_pool, pu_price = f64_div quote base, pu_base_reserve = base,
                             pu_quote_reserve = quote, pu_created_at = te_now (cx_tx env) \<rparr>;
                         self1 = with_cache (\<lambda>c. c\<lparr> oc_target_pools_prices := (oc_target_pools_prices c)
                           (swp_pool_id parsed_swap \<mapsto>
                              pre_swap_pool_state\<lparr> pu_base_reserve := base, pu_quote_reserve := quote \<rparr>) \<rparr>) self
                     in if f64_lt base (f64_of_nat 0) \<or> f64_lt quote (f64_of_nat 0) then (Nothing, self1)
                        else (Got [ChainEvent (SwapEvent
                          \<lparr> se_pool_price = price_update, se_signature = tpr_signature tx, se_pool = rp_id client_pool,
                            se_trade_direction = swp_trade_direction parsed_swap, se_base_amount = base_amount_ui,
                            se_quote_amount = quote_amount_ui, se_price = f64_div quote_amount_ui base_amount_ui,
                            se_volume = quote_amount_ui, se_created_at = te_now (cx_tx env) \<rparr>)], self1))
                | _ \<Rightarrow> (Crash, self))))"

fun parse_swaps ::
  "'l CollectorEnv \<Rightarrow> TransactionPretty \<Rightarrow> Swap list \<Rightarrow> 'l Collector \<Rightarrow> BotEvent list attempt \<times> 'l Collector" where
  "parse_swaps env tx [] self = (Got [], self)"
| "parse_swaps env tx (s # ss) self =
     (case parse_swap env tx s self of
        (Got events, self1) \<Rightarrow>
          (case parse_swaps env tx ss self1 of (r, self2) \<Rightarrow> (abind r (\<lambda>events'. Got (events @ events')), self2))
      | (Nothing, self1) \<Rightarrow> (Nothing, self1)
      | (Crash, self1) \<Rightarrow> (Crash, self1))"

definition parse_new_pool ::
  "'l CollectorEnv \<Rightarrow> SubscribeUpdateTransaction \<Rightarrow> 'l Collector \<Rightarrow> BotEvent list attempt \<times> 'l Collector" where
  "parse_new_pool env tx_update self =
     (case extract_pool_from_init_tx (cx_tx env) tx_update of
        Crash \<Rightarrow> (Crash, self)
      | Nothing \<Rightarrow> (Got [], self)
      | Got (new_pool, price_update) \<Rightarrow>
          (if \<not> cx_contains env (co_target_tokens self) (rp_base_mint new_pool)
           then (Got [ChainEvent (RaydiumNewPoolEvent new_pool price_update)],
                 self\<lparr> co_target_tokens := cx_put env (rp_base_mint new_pool) (rp_id new_pool) (co_target_tokens self) \<rparr>)
           else (Got [], self)))"

text \<open>The part of \<open>parse_transaction\<close> after the receipt.\<close>

definition parse_transaction_rest ::
  "'l CollectorEnv \<Rightarrow> SubscribeUpdateTransaction \<Rightarrow> TransactionPretty \<Rightarrow> BotEvent list \<Rightarrow> 'l Collector
     \<Rightarrow> BotEvent list attempt \<times> 'l Collector" where
  "parse_transaction_rest env tx_update tx events self =
     (case update_fees tx self of
        (Got _, self1) \<Rightarrow>
          (case (case parse_tx_for_swaps (cx_tx env) (tpr_tx tx) of
                   Got parsed_swaps \<Rightarrow> parse_swaps env tx parsed_swaps self1
                 | Nothing \<Rightarrow> (Got [], self1)
                 | Crash \<Rightarrow> (Crash, self1)) of
             (Got swap_events, self2) \<Rightarrow>
               (case parse_new_pool env tx_update self2 of
                  (Got pool_events, self3) \<Rightarrow>
                    (let events' = events @ swap_events @ pool_events
                     in (if events' = [] then Nothing else Got events', self3))
                | (_, self3) \<Rightarrow> (Crash, self3))
           | (Nothing, self2) \<Rightarrow> (Nothing, self2)
           | (Crash, self2) \<Rightarrow> (Crash, self2))
      | (_, self1) \<Rightarrow> (Crash, self1))"

definition parse_transaction ::
  "'l CollectorEnv \<Rightarrow> SubscribeUpdateTransaction \<Rightarrow> 'l Collector \<Rightarrow> BotEvent list attempt \<times> 'l Collector" where
  "parse_transaction env tx_update self =
     (case TransactionPretty_from_update (cx_tx env) tx_update of
        Got tx \<Rightarrow>
          (if tpr_is_vote tx then (Nothing, self)
           else
             (case parse_cached_executions env tx self of
                (Got bot_tx_confirmation_event, self1) \<Rightarrow>
                  parse_transaction_rest env tx_update tx [bot_tx_confirmation_event] self1
              | (Nothing, self1) \<Rightarrow> parse_transaction_rest env tx_update tx [] self1
              | (Crash, self1) \<Rightarrow> (Crash, self1)))
      | _ \<Rightarrow> (Crash, self))"

section \<open>Accounts\<close>

text \<open>\<open>get_account(..).flatten().map(|a| a.lamports).unwrap_or(0)\<close>.\<close>

definition known_balance :: "OperationalCache \<Rightarrow> pubkey \<Rightarrow> u64" where
  "known_balance cache acc = (case get_account cache acc of Some (Some a) \<Rightarrow> ap_lamports a | _ \<Rightarrow> 0)"

definition balance_events :: "u64 \<Rightarrow> AccountPretty \<Rightarrow> BotEvent list" where
  "balance_events prev_balance acc =
     (if ap_lamports acc > prev_balance \<and> ap_lamports acc - prev_balance > BALANCE_CHANGE_THRESHOLD_SOL
      then [ChainEvent (Deposit (ap_txn_signature acc) (ap_pubkey acc) (ap_lamports acc - prev_balance))]
      else if ap_lamports acc < prev_balance \<and> prev_balance - ap_lamports acc > BALANCE_CHANGE_THRESHOLD_SOL
      then [ChainEvent (Withdrawal (ap_txn_signature acc) (ap_pubkey acc) (prev_balance - ap_lamports acc))]
      else [])"

definition parse_account :: "AccountPretty \<Rightarrow> 'l Collector \<Rightarrow> BotEvent list attempt \<times> 'l Collector" where
  "parse_account acc self =
     (let prev_balance = known_balance (co_cache self) (ap_pubkey acc);
          self1 = with_cache (update_account (ap_pubkey acc) (Some acc)) self
      in (Got (ChainEvent (AccountUpdate acc) #
                 (if \<not> if_agent_signature (co_cache self1) (ap_txn_signature acc) then balance_events prev_balance acc else [])),
          self1))"

section \<open>The stream\<close>

definition feed_event :: "'l CollectorEnv \<Rightarrow> GeyserFeedEvent \<Rightarrow> 'l Collector \<Rightarrow> BotEvent list attempt \<times> 'l Collector" where
  "feed_event env e self =
     (case e of
        FeedTransaction tx_update \<Rightarrow> parse_transaction env tx_update self
      | FeedAccount acc \<Rightarrow> parse_account acc self
      | FeedTxStatusUpdate \<Rightarrow> parse_status_update_transaction self)"

text \<open>\<open>get_event_stream\<close>: what is \<open>None\<close> is filtered out, a panic ends the stream.\<close>

fun event_stream :: "'l CollectorEnv \<Rightarrow> GeyserFeedEvent list \<Rightarrow> 'l Collector \<Rightarrow> (BotEvent list \<times> 'l Collector) option" where
  "event_stream env [] self = Some ([], self)"
| "event_stream env (e # es) self =
     (case feed_event env e self of
        (Got events, self1) \<Rightarrow> map_option (\<lambda>(events', self2). (events @ events', self2)) (event_stream env es self1)
      | (Nothing, self1) \<Rightarrow> event_stream env es self1
      | (Crash, self1) \<Rightarrow> None)"

text \<open>\<open>From<SubscribeUpdateAccount> for AccountPretty\<close>.\<close>

record SubscribeUpdateAccountInfo =
  ua_pubkey :: bytes
  ua_lamports :: u64
  ua_owner :: bytes
  ua_executable :: bool
  ua_rent_epoch :: u64
  ua_data :: bytes
  ua_write_version :: u64
  ua_txn_signature :: "bytes option"

definition AccountPretty_from_feed ::
  "external \<Rightarrow> (bytes \<Rightarrow> pubkey option) \<Rightarrow> (bytes \<Rightarrow> string) \<Rightarrow> bool \<Rightarrow> u64 \<Rightarrow> SubscribeUpdateAccountInfo option
     \<Rightarrow> AccountPretty attempt" where
  "AccountPretty_from_feed ext pubkey_of bs58_encode is_startup slot account_opt =
     abind (unwrap account_opt) (\<lambda>account.
     abind (unwrap (pubkey_of (ua_pubkey account))) (\<lambda>pubkey.
     abind (unwrap (pubkey_of (ua_owner account))) (\<lambda>owner.
       Got \<lparr> ap_is_startup = is_startup, ap_slot = slot, ap_pubkey = pubkey, ap_lamports = ua_lamports account,
             ap_owner = owner, ap_executable = ua_executable account, ap_rent_epoch = ua_rent_epoch account,
             ap_data_encoded = ext_hex_encode ext (ua_data account), ap_data = ua_data account,
             ap_token_unpacked_data = ext_token_unpack ext (ua_data account),
             ap_write_version = ua_write_version account,
             ap_txn_signature = bs58_encode (case ua_txn_signature account of Some s \<Rightarrow> s | None \<Rightarrow> []) \<rparr>)))"

section \<open>The deposit strategy\<close>

text \<open>
  The user of a wallet as the query finds it: the chat, and the wallet of the private key (\<open>None\<close> when the key cannot
  be read). The message to the user is its chat and amount.
\<close>

record DepositEnv =
  de_bot_wallet :: "string option"
  de_bot_fee :: "f64 option"
  de_db_connects :: bool
  de_user :: "pubkey \<Rightarrow> (int \<times> keypair option) option"
  de_tg_bot :: bool
  de_pubkey_from_str :: "string \<Rightarrow> pubkey option"
  de_uuid :: uuid
  de_now :: datetime

definition deposit_process_event :: "DepositEnv \<Rightarrow> BotEvent \<Rightarrow> (SolanaAction list \<times> (int \<times> f64) list) attempt" where
  "deposit_process_event env event =
     (case event of
        ChainEvent (Deposit _ user_wallet amount) \<Rightarrow>
          (case de_bot_wallet env of
             None \<Rightarrow> Got ([], [])
           | Some bot_wallet_str \<Rightarrow>
               (let bot_fee = (case de_bot_fee env of Some fee \<Rightarrow> fee | None \<Rightarrow> f64_of_nat 0) in
                if \<not> de_db_connects env then Crash
                else
                  (case de_user env user_wallet of
                     None \<Rightarrow> Got ([], [])
                   | Some (chat_id, user_key) \<Rightarrow>
                       (if \<not> de_tg_bot env then Crash
                        else
                          abind (unwrap user_key) (\<lambda>main_wallet.
                          abind (unwrap (de_pubkey_from_str env bot_wallet_str)) (\<lambda>receiver.
                            Got ([SolanaAction_new (de_uuid env) (de_now env) main_wallet
                                    [SolanaTransferActionPayload \<lparr> tp_asset = Sol, tp_receiver = receiver,
                                       tp_amount = Exact (f64_as_u64 (f64_mul (f64_of_nat (unat amount)) bot_fee)) \<rparr>]],
                                 [(chat_id, lamports_to_sol amount)])))))))
      | _ \<Rightarrow> Got ([], []))"

section \<open>Lemmas on transactions\<close>

text \<open>What the parts of \<open>parse_transaction\<close> leave alone, and why the swaps may stop it.\<close>

lemma update_fees_keeps:
  assumes "update_fees tx self = (r, self1)"
  shows "oc_processed_signatures (co_cache self1) = oc_processed_signatures (co_cache self)"
    and "oc_target_pools (co_cache self1) = oc_target_pools (co_cache self)"
    and "oc_target_pools_prices (co_cache self1) = oc_target_pools_prices (co_cache self)"
    and "r \<noteq> Nothing"
  using assms
  by (auto simp: update_fees_def update_optimal_fee_def result_simps
      split: option.splits OptionSerializer.splits if_splits result.splits)

text \<open>
  The two ways in which one swap ends the reading of the whole transaction: its pool is monitored but has no stored
  price, or one of its reserves becomes negative; or an amount cannot be converted, which panics.
\<close>

definition swap_amounts :: "'l CollectorEnv \<Rightarrow> RaydiumPool \<Rightarrow> Swap \<Rightarrow> f64 result \<times> f64 result" where
  "swap_amounts env pool s =
     (tokens_to_ui_amount_with_decimals_f64 (te_checked_pow (cx_tx env)) (swp_base_amount s) (rp_base_decimals pool),
      tokens_to_ui_amount_with_decimals_f64 (te_checked_pow (cx_tx env)) (swp_quote_amount s) (rp_quote_decimals pool))"

definition swap_stops :: "'l CollectorEnv \<Rightarrow> Swap \<Rightarrow> 'l Collector \<Rightarrow> bool" where
  "swap_stops env s self \<longleftrightarrow>
     (\<exists>pool. oc_target_pools (co_cache self) (swp_pool_id s) = Some pool \<and>
        (case oc_target_pools_prices (co_cache self) (swp_pool_id s) of
           None \<Rightarrow> True
         | Some p \<Rightarrow> \<exists>base quote. swap_amounts env pool s = (Ok base, Ok quote) \<and>
             (case swp_trade_direction s of
                TradeBuy \<Rightarrow> f64_lt (f64_sub (pu_base_reserve p) base) (f64_of_nat 0) \<or>
                  f64_lt (f64_add (pu_quote_reserve p) quote) (f64_of_nat 0)
              | TradeSell \<Rightarrow> f64_lt (f64_add (pu_base_reserve p) base) (f64_of_nat 0) \<or>
                  f64_lt (f64_sub (pu_quote_reserve p) quote) (f64_of_nat 0))))"

definition swap_panics :: "'l CollectorEnv \<Rightarrow> Swap \<Rightarrow> 'l Collector \<Rightarrow> bool" where
  "swap_panics env s self \<longleftrightarrow>
     (\<exists>pool. oc_target_pools (co_cache self) (swp_pool_id s) = Some pool \<and>
        oc_target_pools_prices (co_cache self) (swp_pool_id s) \<noteq> None \<and>
        (\<nexists>base quote. swap_amounts env pool s = (Ok base, Ok quote)))"

text \<open>A swap of the list for which this holds when its turn comes, after the swaps before it.\<close>

definition reaches ::
  "(Swap \<Rightarrow> 'l Collector \<Rightarrow> bool) \<Rightarrow> 'l CollectorEnv \<Rightarrow> TransactionPretty \<Rightarrow> Swap list
     \<Rightarrow> 'l Collector \<Rightarrow> bool" where
  "reaches P env tx ss self \<longleftrightarrow>
     (\<exists>pre s post events now. ss = pre @ s # post \<and> parse_swaps env tx pre self = (Got events, now) \<and> P s now)"

definition is_receipt :: "BotEvent \<Rightarrow> bool" where
  "is_receipt e = (case e of ChainEvent (ReceiptEvent _) \<Rightarrow> True | _ \<Rightarrow> False)"

lemma parse_swap_outcome:
  assumes "parse_swap env tx s self = (r, self1)"
  shows "oc_processed_signatures (co_cache self1) = oc_processed_signatures (co_cache self)"
    and "r = Got events \<Longrightarrow> list_all (\<lambda>e. \<not> is_receipt e) events"
  using assms
  by (auto simp: parse_swap_def is_receipt_def Let_def
      split: option.splits result.splits TradeDirection.splits if_splits)

lemma parse_swap_ends:
  "fst (parse_swap env tx s self) = Nothing \<longleftrightarrow> swap_stops env s self"
  "fst (parse_swap env tx s self) = Crash \<longleftrightarrow> swap_panics env s self"
proof -
  let ?cache = "co_cache self"
  have "(fst (parse_swap env tx s self) = Nothing \<longleftrightarrow> swap_stops env s self) \<and>
      (fst (parse_swap env tx s self) = Crash \<longleftrightarrow> swap_panics env s self)"
  proof (cases "oc_target_pools ?cache (swp_pool_id s)")
    case (Some pool)
    note pool = Some
    show ?thesis
    proof (cases "oc_target_pools_prices ?cache (swp_pool_id s)")
      case (Some p)
      obtain b q where a: "swap_amounts env pool s = (b, q)" by fastforce
      then show ?thesis
        using pool Some unfolding parse_swap_def swap_stops_def swap_panics_def swap_amounts_def
        by (cases b; cases q; cases "swp_trade_direction s") (simp_all add: Let_def)
    qed (use pool in \<open>simp add: parse_swap_def swap_stops_def swap_panics_def\<close>)
  qed (simp add: parse_swap_def swap_stops_def swap_panics_def)
  then show "fst (parse_swap env tx s self) = Nothing \<longleftrightarrow> swap_stops env s self"
    and "fst (parse_swap env tx s self) = Crash \<longleftrightarrow> swap_panics env s self" by simp_all
qed

lemma parse_swaps_outcome:
  assumes "parse_swaps env tx ss self = (r, self1)"
  shows "oc_processed_signatures (co_cache self1) = oc_processed_signatures (co_cache self) \<and>
    (\<forall>events. r = Got events \<longrightarrow> list_all (\<lambda>e. \<not> is_receipt e) events)"
  using assms
proof (induction ss arbitrary: self r self1)
  case (Cons s ss)
  obtain r1 self2 where step: "parse_swap env tx s self = (r1, self2)" by fastforce
  note out = parse_swap_outcome [OF step]
  show ?case
  proof (cases r1)
    case (Got events)
    obtain r2 where rest: "parse_swaps env tx ss self2 = (r2, self1)" and r: "r = abind r2 (\<lambda>events'. Got (events @ events'))"
      using Cons.prems step Got by (auto split: prod.splits)
    show ?thesis using Cons.IH [OF rest] out(1) out(2) [OF Got] r by (cases r2) auto
  qed (use Cons.prems step out(1) in auto)
qed simp

lemma parse_swaps_ends:
  assumes stop: "\<And>s self. fst (parse_swap env tx s self) = e \<longleftrightarrow> P s self" and e: "\<And>x. e \<noteq> Got x"
  shows "fst (parse_swaps env tx ss self) = e \<longleftrightarrow> reaches P env tx ss self"
proof (induction ss arbitrary: self)
  case Nil
  then show ?case using e [of "[]"] by (auto simp: reaches_def)
next
  case (Cons s ss)
  obtain r1 self1 where step: "parse_swap env tx s self = (r1, self1)" by fastforce
  have split: "reaches P env tx (s # ss) self \<longleftrightarrow>
      P s self \<or> (\<exists>events. r1 = Got events \<and> reaches P env tx ss self1)" (is "?lhs \<longleftrightarrow> ?rhs")
  proof
    assume ?lhs
    then obtain pre t post events now where p: "s # ss = pre @ t # post"
        "parse_swaps env tx pre self = (Got events, now)" "P t now"
      unfolding reaches_def by blast
    show ?rhs
    proof (cases pre)
      case Nil
      then show ?thesis using p by simp
    next
      case (Cons u us)
      then have "\<exists>events' evs. r1 = Got events' \<and> parse_swaps env tx us self1 = (Got evs, now)"
        using p step by (cases r1) (auto simp: abind_Got_iff split: prod.splits)
      then show ?thesis using p Cons unfolding reaches_def by auto
    qed
  next
    assume ?rhs
    then show ?lhs
    proof
      assume "P s self"
      then show ?thesis
        unfolding reaches_def by (intro exI [of _ "[]"] exI [of _ s] exI [of _ ss]) simp
    next
      assume "\<exists>events. r1 = Got events \<and> reaches P env tx ss self1"
      then obtain events pre t post evs now where p: "r1 = Got events" "ss = pre @ t # post"
          "parse_swaps env tx pre self1 = (Got evs, now)" "P t now"
        unfolding reaches_def by blast
      then show ?thesis
        using step unfolding reaches_def
        by (intro exI [of _ "s # pre"] exI [of _ t] exI [of _ post] exI [of _ "events @ evs"] exI [of _ now]) simp
    qed
  qed
  show ?case
  proof (cases r1)
    case (Got events)
    then have "\<not> P s self" using stop [of s self] e [of events] step by auto
    moreover have "fst (parse_swaps env tx (s # ss) self) = e \<longleftrightarrow> fst (parse_swaps env tx ss self1) = e"
      using step Got e by (cases "parse_swaps env tx ss self1"; cases "fst (parse_swaps env tx ss self1)") auto
    ultimately show ?thesis using split Got Cons.IH by simp
  qed (use split step stop [of s self] in auto)
qed

lemmas parse_swaps_end_iff = parse_swaps_ends [OF parse_swap_ends(1)] parse_swaps_ends [OF parse_swap_ends(2)]

lemma parse_new_pool_outcome:
  assumes "parse_new_pool env upd self = (r, self1)"
  shows "co_cache self1 = co_cache self" and "r \<noteq> Nothing"
    and "r = Got events \<Longrightarrow> list_all (\<lambda>e. \<not> is_receipt e) events"
  using assms by (auto simp: parse_new_pool_def is_receipt_def split: attempt.splits if_splits)

text \<open>What holds after the receipt \<open>e\<close> has been put first in the list.\<close>

lemma parse_rest_outcome:
  assumes "parse_transaction_rest env upd tx [e] self = (r, self')" and fees: "update_fees tx self = (f, self1)"
  shows "oc_processed_signatures (co_cache self') = oc_processed_signatures (co_cache self) \<and>
    (\<forall>events. r = Got events \<longrightarrow> (\<exists>es. events = e # es \<and> list_all (\<lambda>e. \<not> is_receipt e) es)) \<and>
    (r = Nothing \<longleftrightarrow> f = Got () \<and> (\<exists>ss. parse_tx_for_swaps (cx_tx env) (tpr_tx tx) = Got ss \<and>
       reaches (swap_stops env) env tx ss self1)) \<and>
    (r = Crash \<longrightarrow> f = Crash \<or> parse_tx_for_swaps (cx_tx env) (tpr_tx tx) = Crash \<or>
       (\<exists>ss. parse_tx_for_swaps (cx_tx env) (tpr_tx tx) = Got ss \<and> reaches (swap_panics env) env tx ss self1) \<or>
       extract_pool_from_init_tx (cx_tx env) upd = Crash)"
proof -
  note keep = update_fees_keeps [OF fees]
  let ?ps = "parse_tx_for_swaps (cx_tx env) (tpr_tx tx)"
  obtain rs self2 where swaps: "(case ?ps of
      Got ss \<Rightarrow> parse_swaps env tx ss self1 | Nothing \<Rightarrow> (Got [], self1) | Crash \<Rightarrow> (Crash, self1)) = (rs, self2)" by fastforce
  have out: "oc_processed_signatures (co_cache self2) = oc_processed_signatures (co_cache self1)"
    "rs = Got es \<Longrightarrow> list_all (\<lambda>e. \<not> is_receipt e) es" for es
    using swaps by (auto split: attempt.splits dest!: parse_swaps_outcome)
  have ends: "rs = Nothing \<longleftrightarrow> (\<exists>ss. ?ps = Got ss \<and> reaches (swap_stops env) env tx ss self1)"
    "rs = Crash \<longleftrightarrow> ?ps = Crash \<or> (\<exists>ss. ?ps = Got ss \<and> reaches (swap_panics env) env tx ss self1)"
  proof -
    have got: "rs = fst (parse_swaps env tx ss self1)" if "?ps = Got ss" for ss using swaps that by simp
    have other: "?ps = Nothing \<Longrightarrow> rs = Got []" "?ps = Crash \<Longrightarrow> rs = Crash" using swaps by simp_all
    show "rs = Nothing \<longleftrightarrow> (\<exists>ss. ?ps = Got ss \<and> reaches (swap_stops env) env tx ss self1)"
      by (cases ?ps) (simp_all add: got other parse_swaps_end_iff)
    show "rs = Crash \<longleftrightarrow> ?ps = Crash \<or> (\<exists>ss. ?ps = Got ss \<and> reaches (swap_panics env) env tx ss self1)"
      by (cases ?ps) (simp_all add: got other parse_swaps_end_iff)
  qed
  obtain rp self3 where pool: "parse_new_pool env upd self2 = (rp, self3)" by fastforce
  note pout = parse_new_pool_outcome [OF pool]
  have crash: "rp = Crash \<Longrightarrow> extract_pool_from_init_tx (cx_tx env) upd = Crash"
    using pool by (auto simp: parse_new_pool_def split: attempt.splits if_splits)
  show ?thesis
  proof (cases f)
    case f: (Got u)
    show ?thesis
    proof (cases rs)
      case (Got es)
      show ?thesis
      proof (cases rp)
        case rp: (Got ps)
        have "r = Got (e # es @ ps)" "self' = self3"
          using assms f swaps pool Got rp by (simp_all add: parse_transaction_rest_def)
        then show ?thesis using out(1) out(2) [OF Got] keep(1) pout(1) pout(3) [OF rp] ends(1) Got by simp
      next
        case Crash
        have "r = Crash" "self' = self3"
          using assms f swaps pool Got Crash by (simp_all add: parse_transaction_rest_def)
        then show ?thesis using out(1) keep(1) pout(1) ends(1) Got crash [OF Crash] by simp
      qed (use pout in simp)
    next
      case Nothing
      have "r = Nothing" "self' = self2" using assms f swaps Nothing by (simp_all add: parse_transaction_rest_def)
      then show ?thesis using out(1) keep(1) ends(1) Nothing f by simp
    next
      case Crash
      have "r = Crash" "self' = self2" using assms f swaps Crash by (simp_all add: parse_transaction_rest_def)
      then show ?thesis using out(1) keep(1) ends Crash by auto
    qed
  next
    case Crash
    have "r = Crash" "self' = self1" using assms Crash by (simp_all add: parse_transaction_rest_def)
    then show ?thesis using keep(1) Crash by simp
  qed (use keep in simp)
qed

section \<open>Lemmas on accounts\<close>

fun net_deposits :: "pubkey \<Rightarrow> BotEvent list \<Rightarrow> int" where
  "net_deposits w [] = 0"
| "net_deposits w (e # es) =
     (case e of
        ChainEvent (Deposit _ p amount) \<Rightarrow> if p = w then uint amount else 0
      | ChainEvent (Withdrawal _ p amount) \<Rightarrow> if p = w then - uint amount else 0
      | _ \<Rightarrow> 0) + net_deposits w es"

lemma net_deposits_append [simp]: "net_deposits w (es @ es') = net_deposits w es + net_deposits w es'"
  by (induction es) simp_all

lemma balance_events_net:
  "net_deposits w (balance_events b acc) =
     (if ap_pubkey acc = w \<and> \<bar>uint (ap_lamports acc) - uint b\<bar> > 1000 then uint (ap_lamports acc) - uint b else 0)"
proof -
  have sub: "y < x \<Longrightarrow> uint (x - y) = uint x - uint y" for x y :: u64
    by (simp add: uint_sub_if' word_less_def)
  show ?thesis
    by (auto simp: balance_events_def BALANCE_CHANGE_THRESHOLD_SOL_def word_less_def sub)
qed

text \<open>The updates of one account whose balance somebody else changed, in a stream of account updates.\<close>

definition foreign_updates :: "pubkey \<Rightarrow> 'l Collector \<Rightarrow> AccountPretty list \<Rightarrow> bool" where
  "foreign_updates w self accs \<longleftrightarrow>
     (\<forall>a \<in> set accs. ap_pubkey a = w \<longrightarrow> \<not> if_agent_signature (co_cache self) (ap_txn_signature a))"

lemma update_account_known [simp]:
  "known_balance (update_account k (Some a) c) w = (if k = w then ap_lamports a else known_balance c w)"
  "if_agent_signature (update_account k x c) = if_agent_signature c"
  by (auto simp: known_balance_def get_account_def update_account_def if_agent_signature_def fun_eq_iff)

lemma parse_account_eq:
  "parse_account acc self = (Got (ChainEvent (AccountUpdate acc) #
      (if if_agent_signature (co_cache self) (ap_txn_signature acc) then []
       else balance_events (known_balance (co_cache self) (ap_pubkey acc)) acc)),
     with_cache (update_account (ap_pubkey acc) (Some acc)) self)"
  by (simp add: parse_account_def Let_def)

lemma accounts_stream:
  assumes "foreign_updates w self accs"
  shows "\<exists>events self'. event_stream env (map FeedAccount accs) self = Some (events, self') \<and>
    \<bar>uint (known_balance (co_cache self') w) - uint (known_balance (co_cache self) w) - net_deposits w events\<bar>
      \<le> 1000 * int (length (filter (\<lambda>a. ap_pubkey a = w) accs))"
  using assms
proof (induction accs arbitrary: self)
  case (Cons a accs)
  let ?self1 = "with_cache (update_account (ap_pubkey a) (Some a)) self"
  have "foreign_updates w ?self1 accs" using Cons.prems by (auto simp: foreign_updates_def)
  from Cons.IH [OF this] obtain events self' where
    rest: "event_stream env (map FeedAccount accs) ?self1 = Some (events, self')"
      "\<bar>uint (known_balance (co_cache self') w) - uint (known_balance (co_cache ?self1) w) - net_deposits w events\<bar>
        \<le> 1000 * int (length (filter (\<lambda>a. ap_pubkey a = w) accs))"
    by blast
  have own: "ap_pubkey a = w \<Longrightarrow> \<not> if_agent_signature (co_cache self) (ap_txn_signature a)"
    using Cons.prems by (simp add: foreign_updates_def)
  show ?case
    using rest own
    by (auto simp: feed_event_def parse_account_eq balance_events_net)
qed simp

section \<open>Lemmas on stored prices\<close>

definition stored_price :: "'l Collector \<Rightarrow> pubkey \<Rightarrow> (f64 \<times> datetime) option" where
  "stored_price self p = map_option (\<lambda>u. (pu_price u, pu_created_at u)) (oc_target_pools_prices (co_cache self) p)"

definition priced :: "BotEvent \<Rightarrow> bool" where
  "priced e = (case e of
     ChainEvent (SwapEvent s) \<Rightarrow> (let u = se_pool_price s in pu_price u = f64_div (pu_quote_reserve u) (pu_base_reserve u))
   | _ \<Rightarrow> True)"

lemma parse_cached_keeps:
  assumes "parse_cached_executions env tx self = (r, self1)"
  shows "oc_target_pools_prices (co_cache self1) = oc_target_pools_prices (co_cache self)"
    and "r = Got e \<Longrightarrow> priced e"
  using assms
  by (auto simp: parse_cached_executions_def mark_signature_as_processed_def oc_pop_front_def Let_def priced_def receipt_def
      split: Mode.splits option.splits prod.splits)

lemma parse_swap_priced:
  assumes "parse_swap env tx s self = (r, self1)"
  shows "stored_price self1 p = stored_price self p" and "r = Got events \<Longrightarrow> list_all priced events"
  using assms
  by (auto simp: parse_swap_def stored_price_def priced_def Let_def
      split: option.splits result.splits TradeDirection.splits if_splits)

lemma parse_swaps_priced:
  assumes "parse_swaps env tx ss self = (r, self1)"
  shows "stored_price self1 p = stored_price self p \<and> (\<forall>events. r = Got events \<longrightarrow> list_all priced events)"
  using assms
proof (induction ss arbitrary: self r self1)
  case (Cons s ss)
  obtain r1 self2 where step: "parse_swap env tx s self = (r1, self2)" by fastforce
  note out = parse_swap_priced [OF step]
  show ?case
  proof (cases r1)
    case (Got events)
    obtain r2 where rest: "parse_swaps env tx ss self2 = (r2, self1)" and r: "r = abind r2 (\<lambda>events'. Got (events @ events'))"
      using Cons.prems step Got by (auto split: prod.splits)
    show ?thesis using Cons.IH [OF rest] out(1) out(2) [OF Got] r by (cases r2) auto
  qed (use Cons.prems step out(1) in auto)
qed simp

lemma parse_rest_priced:
  assumes "parse_transaction_rest env upd tx es self = (r, self')" and "list_all priced es"
  shows "stored_price self' p = stored_price self p \<and> (\<forall>events. r = Got events \<longrightarrow> list_all priced events)"
proof -
  obtain f self1 where fees: "update_fees tx self = (f, self1)" by fastforce
  have f: "stored_price self1 p = stored_price self p" using update_fees_keeps(3) [OF fees] by (simp add: stored_price_def)
  obtain rs self2 where swaps: "(case parse_tx_for_swaps (cx_tx env) (tpr_tx tx) of
      Got ss \<Rightarrow> parse_swaps env tx ss self1 | Nothing \<Rightarrow> (Got [], self1) | Crash \<Rightarrow> (Crash, self1)) = (rs, self2)" by fastforce
  have out: "stored_price self2 p = stored_price self1 p" "rs = Got xs \<Longrightarrow> list_all priced xs" for xs
    using swaps parse_swaps_priced [of env tx _ self1 rs self2 p] by (auto split: attempt.splits)
  obtain rp self3 where pool: "parse_new_pool env upd self2 = (rp, self3)" by fastforce
  have pout: "stored_price self3 p = stored_price self2 p" "rp = Got xs \<Longrightarrow> list_all priced xs" for xs
    using pool parse_new_pool_outcome(1) [OF pool]
    by (auto simp: stored_price_def parse_new_pool_def priced_def split: attempt.splits if_splits)
  show ?thesis
    using assms fees swaps pool f out pout
    by (cases f; cases rs; cases rp) (auto simp: parse_transaction_rest_def Let_def split: if_splits)
qed

lemma feed_event_priced:
  assumes "feed_event env e self = (r, self')"
  shows "stored_price self' p = stored_price self p \<and> (\<forall>events. r = Got events \<longrightarrow> list_all priced events)"
proof (cases e)
  case (FeedTransaction upd)
  show ?thesis
  proof (cases "TransactionPretty_from_update (cx_tx env) upd")
    case (Got tx)
    obtain c self1 where c: "parse_cached_executions env tx self = (c, self1)" by fastforce
    note keep = parse_cached_keeps [OF c]
    have "stored_price self1 p = stored_price self p" using keep(1) by (simp add: stored_price_def)
    then show ?thesis
      using assms FeedTransaction Got c keep(2)
      by (cases c) (auto simp: feed_event_def parse_transaction_def split: if_splits dest: parse_rest_priced [where p = p])
  qed (use assms FeedTransaction in \<open>auto simp: feed_event_def parse_transaction_def\<close>)
next
  case FeedTxStatusUpdate
  then show ?thesis using assms by (auto simp: feed_event_def parse_status_update_transaction_def)
next
  case (FeedAccount a)
  then show ?thesis
    using assms
    by (auto simp: feed_event_def parse_account_eq stored_price_def update_account_def priced_def balance_events_def)
qed

section \<open>Example data\<close>

definition example_update :: SubscribeUpdateTransaction where
  "example_update = \<lparr> su_transaction = Some \<lparr> ti_signature = [1], ti_is_vote = False, ti_transaction = None, ti_meta = None \<rparr>,
     su_slot = 0 \<rparr>"

definition example_collector_env :: "pubkey list CollectorEnv" where
  "example_collector_env =
     \<lparr> cx_mode = Live, cx_tx = example_tx_env,
       cx_contains = (\<lambda>ks k. k \<in> set ks), cx_put = (\<lambda>k v ks. k # ks) \<rparr>"

text \<open>A pool that is monitored and has no price yet.\<close>

definition example_pool1 :: RaydiumPool where
  "example_pool1 =
     \<lparr> rp_id = [5, 1], rp_base_mint = [7], rp_quote_mint = [0], rp_lp_mint = [6], rp_base_decimals = 6, rp_quote_decimals = 9,
       rp_lp_decimals = 0, rp_version = 4, rp_program_id = [4], rp_authority = [3], rp_open_orders = [8], rp_target_orders = [9],
       rp_base_vault = [10], rp_quote_vault = [11], rp_withdraw_queue = [12], rp_lp_vault = [13], rp_market_version = 3,
       rp_market_program_id = [14], rp_market_id = [15], rp_lp_reserve = 0, rp_open_time = 0, rp_reverse_pool = False,
       rp_freeze_authority = None \<rparr>"

definition example_collector :: "pubkey list Collector" where
  "example_collector =
     \<lparr> co_cache = add_agent_tx 77 ''s'' (OperationalCache_new (\<lambda>p. if p = [5, 1] then Some example_pool1 else None) Map.empty),
       co_target_tokens = [] \<rparr>"

definition example_account :: "u64 \<Rightarrow> AccountPretty" where
  "example_account lamports =
     \<lparr> ap_is_startup = False, ap_slot = 0, ap_pubkey = [9], ap_lamports = lamports, ap_owner = [], ap_executable = False,
       ap_rent_epoch = 0, ap_data_encoded = [], ap_data = [], ap_token_unpacked_data = None, ap_write_version = 0,
       ap_txn_signature = ''t'' \<rparr>"

lemma example_collector_simps:
  "get_uuid_by_signature (co_cache example_collector) ''s'' = Some 77"
  "if_agent_signature (co_cache example_collector) ''t'' = False"
  "known_balance (co_cache example_collector) w = 0"
  "TransactionPretty_from_update (cx_tx example_collector_env) example_update =
     Got \<lparr> tpr_provider_name = ''unknown geyser'', tpr_slot = 0, tpr_signature = [1], tpr_is_vote = False, tpr_tx = example_tx \<rparr>"
  by (simp_all add: example_collector_def add_agent_tx_def OperationalCache_new_def rb_new_def rb_insert_def
      get_uuid_by_signature_def rb_get_by_value_def if_agent_signature_def rb_contains_value_def known_balance_def get_account_def
      CACHED_TX_SIGNATURES_BUFFER_CAPACITY_def example_collector_env_def TransactionPretty_from_update_def example_update_def
      example_tx_env_def)

section \<open>Properties\<close>

text \<open>
  C24: Receipts of own transactions, in live mode, for a transaction that is not a vote and whose signature is known. In any
  case the signature is marked as processed. If the events of the transaction are reported, the receipt with the error of
  the transaction comes first, and it is the only one. But the whole transaction is dropped, and the receipt with it,
  exactly if one of its swaps, on a pool that is monitored, finds no stored price or leaves a negative reserve when its turn
  comes: the signature stays marked, so that no later path reports it. A panic comes from the fee statistics, from reading
  the swaps, from an amount that cannot be converted or from reading a new pool, never from the receipt.
\<close>

theorem receipt_first_or_lost:
  assumes "cx_mode env = Live" and "TransactionPretty_from_update (cx_tx env) upd = Got tx" and "\<not> tpr_is_vote tx"
    and "sig_str = te_signature_to_string (cx_tx env) (tpr_signature tx)"
    and "get_uuid_by_signature (co_cache self) sig_str = Some uuid"
    and "update_fees tx (with_cache (mark_signature_as_processed uuid sig_str) self) = (fees, self1)"
    and "parse_transaction env upd self = (r, self')"
  shows "is_signature_processed (co_cache self') sig_str \<and>
    (\<forall>events. r = Got events \<longrightarrow>
       (\<exists>es. events = receipt uuid (tpr_signature tx)
            (case et_meta (tpr_tx tx) of Some meta \<Rightarrow> tm_err meta | None \<Rightarrow> None) (te_now (cx_tx env)) # es \<and>
          list_all (\<lambda>e. \<not> is_receipt e) es)) \<and>
    (r = Nothing \<longleftrightarrow> fees = Got () \<and> (\<exists>ss. parse_tx_for_swaps (cx_tx env) (tpr_tx tx) = Got ss \<and>
       reaches (swap_stops env) env tx ss self1)) \<and>
    (r = Crash \<longrightarrow> fees = Crash \<or> parse_tx_for_swaps (cx_tx env) (tpr_tx tx) = Crash \<or>
       (\<exists>ss. parse_tx_for_swaps (cx_tx env) (tpr_tx tx) = Got ss \<and> reaches (swap_panics env) env tx ss self1) \<or>
       extract_pool_from_init_tx (cx_tx env) upd = Crash)"
proof -
  let ?marked = "with_cache (mark_signature_as_processed uuid sig_str) self"
  let ?receipt = "receipt uuid (tpr_signature tx) (case et_meta (tpr_tx tx) of Some meta \<Rightarrow> tm_err meta | None \<Rightarrow> None)
    (te_now (cx_tx env))"
  have "parse_cached_executions env tx self = (Got ?receipt, ?marked)"
    using assms(1,4,5) by (simp add: parse_cached_executions_def Let_def)
  then have "parse_transaction_rest env upd tx [?receipt] ?marked = (r, self')"
    using assms(2,3,7) by (simp add: parse_transaction_def)
  note out = parse_rest_outcome [OF this assms(6)]
  have "is_signature_processed (co_cache ?marked) sig_str"
    by (simp add: is_signature_processed_def mark_signature_as_processed_def rb_contains_value_def rb_insert_def Let_def)
  then show ?thesis using out by (simp add: is_signature_processed_def)
qed

text \<open>An own purchase on a pool that has no price yet.\<close>

lemma example_swaps:
  "parse_tx_for_swaps (cx_tx example_collector_env) example_tx = Got (map
     (\<lambda>n. \<lparr> swp_signature = [1], swp_pool_id = [5, n], swp_quote_amount = 53, swp_base_amount = 54,
        swp_trade_direction = TradeBuy \<rparr>) [1, 2])"
proof -
  have swap: "swap_instruction example_tx_env (example_raydium_ix pool)" for pool
    by (simp add: swap_instruction_def example_raydium_ix_def example_tx_env_def)
  have "raydium_swap example_tx_env example_tx [1] example_keys (pd_accounts (example_raydium_ix pool)) = Got
      \<lparr> swp_signature = [1], swp_pool_id = the (te_pubkey_from_str example_tx_env pool), swp_quote_amount = 53,
        swp_base_amount = 54, swp_trade_direction = TradeBuy \<rparr>" for pool
    using raydium_swap_of_pairs [OF _ _ _ _ swap inner_loop_pairs [OF example_pairs], of example_tx example_meta "[1]" pool]
    by (simp add: example_tx_def example_meta_def example_raydium_ix_def example_tx_env_def pair_amounts_def sol_ata_of_def)
  then show ?thesis
    by (simp add: parse_tx_for_swaps_def example_collector_env_def example_tx_env_def)
       (simp add: example_raydium_ix_def)
qed

theorem receipt_first_or_lost_witness:
  "\<exists>self'. parse_transaction example_collector_env example_update example_collector = (Nothing, self') \<and>
     is_signature_processed (co_cache self') ''s''"
proof -
  let ?tx = "\<lparr> tpr_provider_name = ''unknown geyser'', tpr_slot = 0, tpr_signature = [1], tpr_is_vote = False, tpr_tx = example_tx \<rparr>"
  obtain r self' where run: "parse_transaction example_collector_env example_update example_collector = (r, self')" by fastforce
  have env: "cx_mode example_collector_env = Live" "te_signature_to_string (cx_tx example_collector_env) [1] = ''s''"
    by (simp_all add: example_collector_env_def example_tx_env_def)
  let ?self1 = "with_cache (mark_signature_as_processed 77 ''s'') example_collector"
  have fees: "update_fees ?tx ?self1 = (Got (), ?self1)"
    by (simp add: update_fees_def example_tx_def example_meta_def is_successful_def)
  have "parse_swaps example_collector_env ?tx
      (map (\<lambda>n. \<lparr> swp_signature = [1], swp_pool_id = [5, n], swp_quote_amount = 53, swp_base_amount = 54,
        swp_trade_direction = TradeBuy \<rparr>) [1, 2]) ?self1 = (Nothing, ?self1)"
    by (simp add: parse_swap_def mark_signature_as_processed_def example_collector_def add_agent_tx_def OperationalCache_new_def)
  then have "r = Nothing"
    using run fees env
    by (auto simp: parse_transaction_def example_collector_simps parse_cached_executions_def parse_transaction_rest_def
      example_swaps Let_def)
  then show ?thesis
    using receipt_first_or_lost [OF _ example_collector_simps(4) _ _ _ _ run, of "''s''" 77] run env fees
    by (simp add: example_collector_simps)
qed

text \<open>
  C25: Deposits and withdrawals follow the balance. A stream of account updates, of any accounts, is processed without a panic;
  if no update of a wallet carries the signature of an own transaction, then the deposits reported for it less the
  withdrawals differ from the change of its balance by at most the threshold, 1000 lamports, for each of its updates. A
  wallet without data in the cache counts as empty.
\<close>

theorem deposits_account_for_balance:
  assumes "foreign_updates w self accs"
  shows "\<exists>events self'. event_stream env (map FeedAccount accs) self = Some (events, self') \<and>
    \<bar>uint (known_balance (co_cache self') w) - uint (known_balance (co_cache self) w) - net_deposits w events\<bar>
      \<le> 1000 * int (length (filter (\<lambda>a. ap_pubkey a = w) accs))"
  by (rule accounts_stream [OF assms])

theorem deposits_account_for_balance_witness:
  "\<exists>events self'. event_stream example_collector_env
      (map FeedAccount [example_account 5000, example_account 5900, example_account 3000]) example_collector = Some (events, self') \<and>
     \<bar>uint (known_balance (co_cache self') [9]) - net_deposits [9] events\<bar> \<le> 3000"
proof -
  have "foreign_updates [9] example_collector [example_account 5000, example_account 5900, example_account 3000]"
    by (simp add: foreign_updates_def example_account_def example_collector_simps)
  from deposits_account_for_balance [OF this, of example_collector_env] show ?thesis
    by (simp add: example_account_def example_collector_simps)
qed

text \<open>
  The fee on a deposit is taken from the whole balance when the cache has no data of the wallet, for instance after its
  monitoring was dropped: its next update by a foreign transaction is reported as a deposit of everything it holds, and
  the deposit strategy answers with one transfer of that amount times the fee.
\<close>

theorem first_update_charged:
  assumes "known_balance (co_cache self) (ap_pubkey acc) = 0" and "BALANCE_CHANGE_THRESHOLD_SOL < ap_lamports acc"
    and "\<not> if_agent_signature (co_cache self) (ap_txn_signature acc)"
    and "de_bot_wallet denv = Some wallet" and "de_pubkey_from_str denv wallet = Some receiver" and "de_bot_fee denv = Some fee"
    and "de_db_connects denv" and "de_tg_bot denv" and "de_user denv (ap_pubkey acc) = Some (chat, Some key)"
  shows "\<exists>deposit self'. feed_event env (FeedAccount acc) self = (Got [ChainEvent (AccountUpdate acc), deposit], self') \<and>
    deposit_process_event denv deposit =
      Got ([SolanaAction_new (de_uuid denv) (de_now denv) key [SolanaTransferActionPayload
              \<lparr> tp_asset = Sol, tp_receiver = receiver,
                tp_amount = Exact (f64_as_u64 (f64_mul (f64_of_nat (unat (ap_lamports acc))) fee)) \<rparr>]],
           [(chat, lamports_to_sol (ap_lamports acc))])"
proof -
  have "0 < ap_lamports acc" using assms(2) by (simp add: word_gt_0 BALANCE_CHANGE_THRESHOLD_SOL_def) (metis not_less word_zero_le)
  then show ?thesis
    using assms by (simp add: feed_event_def parse_account_eq balance_events_def deposit_process_event_def)
qed

definition example_deposit_env :: DepositEnv where
  "example_deposit_env =
     \<lparr> de_bot_wallet = Some ''bot'', de_bot_fee = Some (f64_of_nat 1), de_db_connects = True,
       de_user = (\<lambda>_. Some (1, Some [9])), de_tg_bot = True, de_pubkey_from_str = (\<lambda>_. Some [8]), de_uuid = 0, de_now = 0 \<rparr>"

theorem first_update_charged_witness:
  "\<exists>deposit self'. feed_event example_collector_env (FeedAccount (example_account 5000)) example_collector =
      (Got [ChainEvent (AccountUpdate (example_account 5000)), deposit], self') \<and>
     (\<exists>actions. deposit_process_event example_deposit_env deposit = Got (actions, [(1, lamports_to_sol 5000)]) \<and>
       length actions = 1)"
  using first_update_charged [of example_collector "example_account 5000" example_deposit_env "''bot''" "[8]"
      "f64_of_nat 1" 1 "[9]" example_collector_env]
  by (auto simp: example_account_def example_collector_simps example_deposit_env_def BALANCE_CHANGE_THRESHOLD_SOL_def)

text \<open>
  Stored prices are never refreshed. Over any stream, the price and the time stored with a pool stay as they were, while the
  swap events that are emitted carry the price that follows from the updated reserves.
\<close>

theorem stored_prices_stale:
  assumes "event_stream env es self = Some (events, self')"
  shows "stored_price self' p = stored_price self p \<and> list_all priced events"
  using assms
proof (induction es arbitrary: self events)
  case (Cons e es)
  obtain r self1 where step: "feed_event env e self = (r, self1)" by fastforce
  note out = feed_event_priced [OF step]
  show ?case
  proof (cases r)
    case (Got xs)
    obtain events' where rest: "event_stream env es self1 = Some (events', self')" and ev: "events = xs @ events'"
      using Cons.prems step Got by auto
    from Cons.IH [OF rest] out [of p] Got ev show ?thesis by simp
  next
    case Nothing
    then show ?thesis using Cons.IH [of self1 events] Cons.prems step out [of p] by simp
  qed (use Cons.prems step in simp)
qed simp

theorem stored_prices_stale_witness:
  "\<exists>events self'. event_stream example_collector_env [FeedAccount (example_account 5000)] example_collector = Some (events, self') \<and>
     stored_price self' [5, 1] = stored_price example_collector [5, 1] \<and> list_all priced events"
proof -
  obtain events self' where run: "event_stream example_collector_env [FeedAccount (example_account 5000)] example_collector =
      Some (events, self')"
    by (simp add: feed_event_def parse_account_eq)
  from stored_prices_stale [OF this] run show ?thesis by blast
qed

end
