(* ===== verification/Client_Names.thy ===== *)
theory Client_Names
  imports Farm_Pack
begin

text \<open>
  The naming scheme of \<open>solana_farm_client::FarmClient\<close>: versions, protocols and tokens are read off the names of
  pools, vaults, farms and liquidity tokens (\<open>LP.RDM.RAY-SRM-V4\<close>). A \<open>&str\<close> is the list of its UTF-8 bytes;
  slicing it away from a character boundary panics. Letter case is changed for ASCII letters only: no other
  character becomes one of the letters the source compares with.
\<close>

section \<open>Results of the client\<close>

datatype FarmClientError =
    RpcClientError string
  | ClientProgramError ProgramError
  | ParseAccountError string
  | PubkeyError string
  | PythError string
  | RecordNotFound bytes
  | ArrayStringError bytes
  | IOError bytes
  | ParseError bytes
  | ValueError bytes
  | InsufficientBalance bytes

datatype 'a cres = COk 'a | CErr FarmClientError | CPanic

primrec cbind :: "'a cres \<Rightarrow> ('a \<Rightarrow> 'b cres) \<Rightarrow> 'b cres" where
  "cbind (COk x) f = f x"
| "cbind (CErr e) f = CErr e"
| "cbind CPanic f = CPanic"

text \<open>\<open>?\<close> on a result of the SDK.\<close>

definition of_program :: "'a result \<Rightarrow> 'a cres" where
  "of_program r = (case r of Ok x \<Rightarrow> COk x | Err e \<Rightarrow> CErr (ClientProgramError e) | Panic \<Rightarrow> CPanic)"

lemma of_program_simps [simp]:
  "of_program (Ok x) = COk x" "of_program (Err e) = CErr (ClientProgramError e)" "of_program Panic = CPanic"
  by (simp_all add: of_program_def)

section \<open>Strings\<close>

definition utf8_of :: "string \<Rightarrow> bytes" where
  "utf8_of s = map (\<lambda>c. of_nat (of_char c)) s"

definition is_char_boundary :: "bytes \<Rightarrow> nat \<Rightarrow> bool" where
  "is_char_boundary s i \<longleftrightarrow> i = 0 \<or> i = length s \<or> i < length s \<and> \<not> (0x80 \<le> s ! i \<and> s ! i < 0xC0)"

text \<open>\<open>&s[a..b]\<close>\<close>

definition str_slice :: "bytes \<Rightarrow> nat \<Rightarrow> nat \<Rightarrow> bytes cres" where
  "str_slice s a b =
     (if a \<le> b \<and> b \<le> length s \<and> is_char_boundary s a \<and> is_char_boundary s b
      then COk (take (b - a) (drop a s)) else CPanic)"

definition ascii_upper :: "u8 \<Rightarrow> u8" where
  "ascii_upper b = (if 0x61 \<le> b \<and> b \<le> 0x7A then b - 0x20 else b)"

definition ascii_lower :: "u8 \<Rightarrow> u8" where
  "ascii_lower b = (if 0x41 \<le> b \<and> b \<le> 0x5A then b + 0x20 else b)"

text \<open>\<open>parse::<u16>\<close> on a string of one byte.\<close>

definition parse_digit :: "bytes \<Rightarrow> u16 option" where
  "parse_digit s =
     (case s of [b] \<Rightarrow> if 0x30 \<le> b \<and> b \<le> 0x39 then Some (ucast (b - 0x30)) else None | _ \<Rightarrow> None)"

text \<open>\<open>split\<close> on a character; the result is never empty.\<close>

fun split_on :: "u8 \<Rightarrow> bytes \<Rightarrow> bytes list" where
  "split_on c [] = [[]]"
| "split_on c (b # bs) =
     (if b = c then [] # split_on c bs
      else case split_on c bs of p # ps \<Rightarrow> (b # p) # ps | [] \<Rightarrow> [[b]])"

definition str_to_as64 :: "bytes \<Rightarrow> ArrayString64 result" where
  "str_to_as64 input = (if length input \<le> 64 then Ok input else Err InvalidArgument)"

section \<open>Protocols\<close>

datatype Protocol = Raydium | Saber | Orca

definition Protocol_id :: "Protocol \<Rightarrow> bytes" where
  "Protocol_id p = utf8_of (case p of Raydium \<Rightarrow> ''RDM'' | Saber \<Rightarrow> ''SBR'' | Orca \<Rightarrow> ''ORC'')"

definition Protocol_fmt :: "Protocol \<Rightarrow> bytes" where
  "Protocol_fmt p = utf8_of (case p of Raydium \<Rightarrow> ''Raydium'' | Saber \<Rightarrow> ''Saber'' | Orca \<Rightarrow> ''Orca'')"

definition Protocol_from_str :: "bytes \<Rightarrow> Protocol result" where
  "Protocol_from_str s =
     (let l = map ascii_lower s
      in if l = utf8_of ''rdm'' \<or> l = utf8_of ''raydium'' then Ok Raydium
         else if l = utf8_of ''sbr'' \<or> l = utf8_of ''saber'' then Ok Saber
         else if l = utf8_of ''orc'' \<or> l = utf8_of ''orca'' then Ok Orca
         else Err InvalidArgument)"

datatype ProgramIDType =
    ProgramIDType_System | ProgramIDType_ProgramsRef | ProgramIDType_VaultsRef | ProgramIDType_Vault |
    ProgramIDType_FarmsRef | ProgramIDType_Farm | ProgramIDType_PoolsRef | ProgramIDType_Pool |
    ProgramIDType_TokensRef | ProgramIDType_Token | ProgramIDType_MainRouter | ProgramIDType_Serum |
    ProgramIDType_Raydium | ProgramIDType_Saber | ProgramIDType_Orca | ProgramIDType_FundsRef |
    ProgramIDType_Fund

fun ProgramIDType_as_u16 :: "ProgramIDType \<Rightarrow> u16" where
  "ProgramIDType_as_u16 ProgramIDType_System = 0"
| "ProgramIDType_as_u16 ProgramIDType_ProgramsRef = 1"
| "ProgramIDType_as_u16 ProgramIDType_VaultsRef = 2"
| "ProgramIDType_as_u16 ProgramIDType_Vault = 3"
| "ProgramIDType_as_u16 ProgramIDType_FarmsRef = 4"
| "ProgramIDType_as_u16 ProgramIDType_Farm = 5"
| "ProgramIDType_as_u16 ProgramIDType_PoolsRef = 6"
| "ProgramIDType_as_u16 ProgramIDType_Pool = 7"
| "ProgramIDType_as_u16 ProgramIDType_TokensRef = 8"
| "ProgramIDType_as_u16 ProgramIDType_Token = 9"
| "ProgramIDType_as_u16 ProgramIDType_MainRouter = 10"
| "ProgramIDType_as_u16 ProgramIDType_Serum = 11"
| "ProgramIDType_as_u16 ProgramIDType_Raydium = 12"
| "ProgramIDType_as_u16 ProgramIDType_Saber = 13"
| "ProgramIDType_as_u16 ProgramIDType_Orca = 14"
| "ProgramIDType_as_u16 ProgramIDType_FundsRef = 15"
| "ProgramIDType_as_u16 ProgramIDType_Fund = 16"

section \<open>Names\<close>

abbreviation invalid_argument :: "'a cres" where
  "invalid_argument \<equiv> CErr (ClientProgramError InvalidArgument)"

definition extract_pool_version :: "bytes \<Rightarrow> u16 cres" where
  "extract_pool_version name =
     (let n = length name
      in if n > 3 then
           cbind (str_slice name (n - 2) (n - 1)) (\<lambda>v.
             if map ascii_upper v = utf8_of ''V'' then
               cbind (str_slice name (n - 3) (n - 2)) (\<lambda>d.
                 if d = utf8_of ''-'' then
                   cbind (str_slice name (n - 1) n) (\<lambda>c.
                     case parse_digit c of Some ver \<Rightarrow> COk ver | None \<Rightarrow> invalid_argument)
                 else invalid_argument)
             else invalid_argument)
         else invalid_argument)"

definition is_liquidity_token :: "bytes \<Rightarrow> bool cres" where
  "is_liquidity_token name =
     (if length name > 3 then
        cbind (str_slice name 0 3) (\<lambda>p. COk (p \<in> {utf8_of ''LP.'', utf8_of ''VT.'', utf8_of ''FD.''}))
      else COk False)"

definition extract_pool_name_and_version :: "bytes \<Rightarrow> (bytes \<times> u16) cres" where
  "extract_pool_name_and_version name =
     cbind (is_liquidity_token name) (\<lambda>liquidity.
       if liquidity then
         (if length name > 6 then
            cbind (str_slice name 3 (length name - 3)) (\<lambda>n.
            cbind (extract_pool_version name) (\<lambda>ver. COk (n, ver)))
          else invalid_argument)
       else if length name > 3 then
         cbind (str_slice name 0 (length name - 3)) (\<lambda>n.
         cbind (extract_pool_version name) (\<lambda>ver. COk (n, ver)))
       else invalid_argument)"

definition cannot_extract :: "bytes \<Rightarrow> 'a cres" where
  "cannot_extract name = CErr (ValueError (utf8_of ''Can't extract token names from '' @ name))"

definition is_err :: "'a cres \<Rightarrow> bool cres" where
  "is_err r = (case r of COk _ \<Rightarrow> COk False | CErr _ \<Rightarrow> COk True | CPanic \<Rightarrow> CPanic)"

definition extract_token_names :: "bytes \<Rightarrow> (Protocol \<times> bytes \<times> bytes) cres" where
  "extract_token_names name =
     cbind (is_liquidity_token name) (\<lambda>liquidity.
     cbind (if liquidity then str_slice name 3 (length name) else COk name) (\<lambda>rest.
       let dot_split = split_on 0x2E rest
       in if length dot_split < 2 \<or> hd dot_split = [] then cannot_extract name
          else
            let dash_split = split_on 0x2D (last dot_split)
            in if dash_split = [] \<or> hd dash_split = [] \<or> (length dash_split > 1 \<and> dash_split ! 1 = [])
               then cannot_extract name
               else
                 cbind (of_program (Protocol_from_str (hd dot_split))) (\<lambda>protocol.
                   if length dash_split > 1 then
                     cbind (is_err (extract_pool_version name)) (\<lambda>no_version.
                       COk (protocol, hd dash_split,
                         if no_version \<or> length dash_split > 2 then dash_split ! 1 else []))
                   else COk (protocol, hd dash_split, []))))"

definition get_protocol :: "bytes \<Rightarrow> Protocol cres" where
  "get_protocol vault_or_pool_name =
     (if 0x2E \<in> set vault_or_pool_name then
        let protocol_str = takeWhile (\<lambda>b. b \<noteq> 0x2E) vault_or_pool_name
        in if protocol_str = utf8_of ''RDM'' then COk Raydium
           else if protocol_str = utf8_of ''SBR'' then COk Saber
           else if protocol_str = utf8_of ''ORC'' then COk Orca
           else CErr (ValueError (utf8_of ''Unrecognized protocol: '' @ protocol_str))
      else CErr (ValueError (utf8_of ''Invalid vault or pool name: '' @ vault_or_pool_name)))"

definition pool_has_reverse_tokens :: "bytes \<Rightarrow> bytes \<Rightarrow> bool cres" where
  "pool_has_reverse_tokens pool_name token_a =
     cbind (extract_token_names pool_name) (\<lambda>(_, pool_token_a, _). COk (pool_token_a \<noteq> token_a))"

end
