(* ===== verification/Client_Cache.thy ===== *)
theory Client_Cache
  imports Client_Names RefDB_Store Multisig Raydium_Pool Token_Meta Farm_Meta Pool_Meta Vault_Meta Fund_Meta Solana_Instruction F64
    "HOL-Library.AList"
begin

text \<open>
  The lookups of \<open>solana_farm_client::FarmClient\<close> and the cache of \<open>cache.rs\<close> behind them: the names of the
  registered funds, vaults, pools, farms and tokens are read from the reference databases on chain, their metadata
  from the accounts the records point to.

  A client call is a function on the state of the client that returns a result and the state after it. The clock
  and the node are the environment: every reading of the clock and every request is numbered (\<open>fc_io\<close>), and the
  environment answers each of them as it likes, so the chain may change between two requests of one call. A
  \<open>HashMap\<close> is an association list with distinct keys, in the order in which it is iterated.

  The source repeats the same code for the five kinds of metadata; here it is written once, with the kind as a
  parameter (a record of the accessors the five copies differ in), and instantiated five times.
\<close>

section \<open>Caches\<close>

text \<open>\<open>SystemTime\<close> and \<open>Duration\<close> in nanoseconds.\<close>

definition RELOAD_INTERVAL :: int where
  "RELOAD_INTERVAL = 21600 * 1000000000"

record 'a Cache =
  c_data :: "(bytes \<times> 'a) list"
  c_last_load :: int
  c_counter :: u32

definition Cache_default :: "int \<Rightarrow> 'a Cache" where
  "Cache_default now = \<lparr> c_data = [], c_last_load = now - RELOAD_INTERVAL, c_counter = 0 \<rparr>"

definition Cache_is_updated :: "'a Cache \<Rightarrow> u32 \<Rightarrow> bool" where
  "Cache_is_updated self counter \<longleftrightarrow> counter \<noteq> c_counter self"

definition Cache_set :: "int \<Rightarrow> (bytes \<times> 'a) list \<Rightarrow> u32 \<Rightarrow> 'a Cache \<Rightarrow> 'a Cache" where
  "Cache_set now data counter self = self\<lparr> c_data := data, c_last_load := now, c_counter := counter \<rparr>"

definition Cache_reset :: "int \<Rightarrow> 'a Cache \<Rightarrow> 'a Cache" where
  "Cache_reset now self = self\<lparr> c_data := [], c_last_load := now - RELOAD_INTERVAL, c_counter := 0 \<rparr>"

definition Cache_mark_not_stale :: "int \<Rightarrow> 'a Cache \<Rightarrow> 'a Cache" where
  "Cache_mark_not_stale now self = self\<lparr> c_last_load := now \<rparr>"

section \<open>The client\<close>

record FarmClient =
  fc_tokens :: "Token Cache"
  fc_pools :: "Pool Cache"
  fc_farms :: "Farm Cache"
  fc_vaults :: "Vault Cache"
  fc_funds :: "Fund Cache"
  fc_token_refs :: "pubkey Cache"
  fc_pool_refs :: "pubkey Cache"
  fc_farm_refs :: "pubkey Cache"
  fc_vault_refs :: "pubkey Cache"
  fc_fund_refs :: "pubkey Cache"
  fc_official_ids :: "pubkey Cache"
  fc_stake_accounts :: "(bytes \<times> (bytes \<times> pubkey) list) list list"
  fc_latest_pools :: "(bytes \<times> bytes) list"
  fc_latest_farms :: "(bytes \<times> bytes) list"
  fc_latest_vaults :: "(bytes \<times> bytes) list"
  fc_io :: nat

text \<open>
  What the node and the SDK say about accounts and transactions: an account with its owner and data, a token account
  as \<open>parse_token\<close> reads it, a signed transaction (the instructions, who pays, who signed, the blockhash), and why it
  could not be sent: \<open>ClientErrorKind\<close>, as far as the client looks at it.
\<close>

record RpcAccount =
  rac_owner :: pubkey
  rac_data :: bytes

datatype UiAccountState = UiAccountState_Uninitialized | UiAccountState_Initialized | UiAccountState_Frozen

record UiTokenAccount =
  uta_mint :: bytes
  uta_owner :: bytes
  uta_state :: UiAccountState

datatype TokenAccountType = TokenAccountType_Account UiTokenAccount | TokenAccountType_Mint | TokenAccountType_Multisig

type_synonym Signature = bytes

record Transaction =
  tx_instructions :: "Instruction list"
  tx_payer :: pubkey
  tx_signers :: "pubkey list"
  tx_blockhash :: bytes

datatype SendError =
    SendError_RpcResponseError int string
  | SendError_ForUser string
  | SendError_Reqwest bool
  | SendError_Other

text \<open>
  The environment: the clock, the node and the Solana SDK. The program ids are constants the build generates or
  the SDK declares; the decimal form of a \<open>f64\<close> only occurs in messages.
\<close>

record ClientEnv =
  ce_now :: "nat \<Rightarrow> int"
  ce_get_account_data :: "nat \<Rightarrow> pubkey \<Rightarrow> string + bytes"
  ce_get_multiple_accounts :: "nat \<Rightarrow> pubkey list \<Rightarrow> string + bytes option list"
  ce_utf8 :: "bytes \<Rightarrow> bool"
  ce_key_to_string :: "pubkey \<Rightarrow> bytes"
  ce_find_program_address :: "bytes list \<Rightarrow> pubkey \<Rightarrow> (pubkey \<times> u8) option"
  ce_create_with_seed :: "pubkey \<Rightarrow> bytes \<Rightarrow> pubkey \<Rightarrow> pubkey option"
  ce_get_associated_token_address :: "pubkey \<Rightarrow> pubkey \<Rightarrow> pubkey"
  ce_main_router :: pubkey
  ce_main_router_admin :: pubkey
  ce_main_router_multisig :: pubkey
  ce_zero :: pubkey
  ce_system_program :: pubkey
  ce_spl_token :: pubkey
  ce_spl_associated_token_account :: pubkey
  ce_bpf_loader_upgradeable :: pubkey
  ce_rent :: pubkey
  ce_clock :: pubkey
  ce_instructions :: pubkey
  ce_get_program_accounts :: "nat \<Rightarrow> pubkey \<Rightarrow> nat \<Rightarrow> bytes \<Rightarrow> string + (pubkey \<times> bytes) list"
  ce_hasher :: "bytes \<Rightarrow> bytes"
  ce_checked_pow :: "u64 \<Rightarrow> nat \<Rightarrow> u64 option"
  ce_f64_to_string :: "f64 \<Rightarrow> bytes"
  ce_get_account :: "nat \<Rightarrow> pubkey \<Rightarrow> string + RpcAccount"
  ce_get_balance :: "nat \<Rightarrow> pubkey \<Rightarrow> string + u64"
  ce_get_token_account_balance :: "nat \<Rightarrow> pubkey \<Rightarrow> string + bytes \<times> f64 option"
  ce_get_minimum_balance :: "nat \<Rightarrow> nat \<Rightarrow> string + u64"
  ce_get_fee_for_message :: "nat \<Rightarrow> Instruction list \<Rightarrow> string + u64"
  ce_get_token_supply :: "nat \<Rightarrow> pubkey \<Rightarrow> string + f64 option"
  ce_get_token_accounts_by_owner :: "nat \<Rightarrow> pubkey \<Rightarrow> string + bytes list"
  ce_get_slot :: "nat \<Rightarrow> string + u64"
  ce_get_latest_blockhash :: "nat \<Rightarrow> string + bytes"
  ce_is_blockhash_valid :: "nat \<Rightarrow> bytes \<Rightarrow> string + bool"
  ce_send_and_confirm :: "nat \<Rightarrow> Transaction \<Rightarrow> SendError + Signature"
  ce_sign :: "Transaction \<Rightarrow> Signature option"
  ce_transaction_size :: "Instruction list \<Rightarrow> pubkey \<Rightarrow> nat option"
  ce_parse_token :: "bytes \<Rightarrow> u8 option \<Rightarrow> string + TokenAccountType"
  ce_pubkey_from_str :: "bytes \<Rightarrow> pubkey option"
  ce_native_decimals :: u8
  ce_transfer :: "pubkey \<Rightarrow> pubkey \<Rightarrow> u64 \<Rightarrow> Instruction"
  ce_create_account :: "pubkey \<Rightarrow> pubkey \<Rightarrow> u64 \<Rightarrow> u64 \<Rightarrow> pubkey \<Rightarrow> Instruction"
  ce_create_account_with_seed :: "pubkey \<Rightarrow> pubkey \<Rightarrow> pubkey \<Rightarrow> bytes \<Rightarrow> u64 \<Rightarrow> u64 \<Rightarrow> pubkey \<Rightarrow> Instruction"
  ce_assign :: "pubkey \<Rightarrow> pubkey \<Rightarrow> Instruction"
  ce_create_associated_token_account :: "pubkey \<Rightarrow> pubkey \<Rightarrow> pubkey \<Rightarrow> Instruction"
  ce_token_transfer :: "pubkey \<Rightarrow> pubkey \<Rightarrow> pubkey \<Rightarrow> pubkey \<Rightarrow> pubkey list \<Rightarrow> u64 \<Rightarrow> Instruction result"
  ce_token_sync_native :: "pubkey \<Rightarrow> pubkey \<Rightarrow> Instruction result"
  ce_token_close_account :: "pubkey \<Rightarrow> pubkey \<Rightarrow> pubkey \<Rightarrow> pubkey \<Rightarrow> pubkey list \<Rightarrow> Instruction result"

definition FarmClient_default :: "ClientEnv \<Rightarrow> FarmClient" where
  "FarmClient_default env =
     \<lparr> fc_tokens = Cache_default (ce_now env 0), fc_pools = Cache_default (ce_now env 1),
       fc_farms = Cache_default (ce_now env 2), fc_vaults = Cache_default (ce_now env 3),
       fc_funds = Cache_default (ce_now env 4), fc_token_refs = Cache_default (ce_now env 5),
       fc_pool_refs = Cache_default (ce_now env 6), fc_farm_refs = Cache_default (ce_now env 7),
       fc_vault_refs = Cache_default (ce_now env 8), fc_fund_refs = Cache_default (ce_now env 9),
       fc_official_ids = Cache_default (ce_now env 10), fc_stake_accounts = replicate 3 [],
       fc_latest_pools = [], fc_latest_farms = [], fc_latest_vaults = [], fc_io = 11 \<rparr>"

section \<open>Calls of the client\<close>

type_synonym 'a client = "FarmClient \<Rightarrow> 'a cres \<times> FarmClient"

definition mret :: "'a \<Rightarrow> 'a client" where
  "mret x s = (COk x, s)"

definition mfail :: "FarmClientError \<Rightarrow> 'a client" where
  "mfail e s = (CErr e, s)"

definition mlift :: "'a cres \<Rightarrow> 'a client" where
  "mlift r s = (r, s)"

definition mbind :: "'a client \<Rightarrow> ('a \<Rightarrow> 'b client) \<Rightarrow> 'b client" where
  "mbind m f s = (case m s of (COk x, s') \<Rightarrow> f x s' | (CErr e, s') \<Rightarrow> (CErr e, s') | (CPanic, s') \<Rightarrow> (CPanic, s'))"

definition mget :: "(FarmClient \<Rightarrow> 'a) \<Rightarrow> 'a client" where
  "mget f s = (COk (f s), s)"

definition mput :: "(FarmClient \<Rightarrow> FarmClient) \<Rightarrow> unit client" where
  "mput f s = (COk (), f s)"

definition mpanic :: "'a client" where
  "mpanic = mlift CPanic"

text \<open>\<open>?\<close> on a result of the SDK and on an optional value, indexing, and loops that may fail.\<close>

definition mprog :: "'a result \<Rightarrow> 'a client" where
  "mprog r = mlift (of_program r)"

definition mok_or :: "'a option \<Rightarrow> FarmClientError \<Rightarrow> 'a client" where
  "mok_or x e = (case x of Some y \<Rightarrow> mret y | None \<Rightarrow> mfail e)"

definition munwrap :: "'a option \<Rightarrow> 'a client" where
  "munwrap x = (case x of Some y \<Rightarrow> mret y | None \<Rightarrow> mpanic)"

definition mindex :: "'a list \<Rightarrow> nat \<Rightarrow> 'a client" where
  "mindex xs i = (if i < length xs then mret (xs ! i) else mpanic)"

text \<open>\<open>assert_eq!\<close>\<close>

definition massert :: "bool \<Rightarrow> unit client" where
  "massert b = (if b then mret () else mpanic)"

fun mfoldl :: "('b \<Rightarrow> 'a \<Rightarrow> 'b client) \<Rightarrow> 'b \<Rightarrow> 'a list \<Rightarrow> 'b client" where
  "mfoldl f acc [] = mret acc"
| "mfoldl f acc (x # xs) = mbind (f acc x) (\<lambda>acc'. mfoldl f acc' xs)"

fun mmap :: "('a \<Rightarrow> 'b client) \<Rightarrow> 'a list \<Rightarrow> 'b list client" where
  "mmap f [] = mret []"
| "mmap f (x # xs) = mbind (f x) (\<lambda>y. mbind (mmap f xs) (\<lambda>ys. mret (y # ys)))"

text \<open>\<open>unwrap()\<close> on the result of a call: an error panics.\<close>

definition mexpect :: "'a client \<Rightarrow> 'a client" where
  "mexpect m s = (case m s of (COk x, s') \<Rightarrow> (COk x, s') | (_, s') \<Rightarrow> (CPanic, s'))"

definition last_of :: "'a list \<Rightarrow> 'a option" where
  "last_of xs = (if xs = [] then None else Some (last xs))"

definition unwrap_or :: "'a option \<Rightarrow> 'a \<Rightarrow> 'a" where
  "unwrap_or x d = (case x of Some y \<Rightarrow> y | None \<Rightarrow> d)"

text \<open>A number in decimal digits, as it is printed.\<close>

fun dec_string :: "nat \<Rightarrow> bytes" where
  "dec_string n = (if n < 10 then [of_nat (48 + n)] else dec_string (n div 10) @ [of_nat (48 + n mod 10)])"

declare dec_string.simps [simp del]

text \<open>\<open>if let Ok(x) = call\<close>: an error is not propagated.\<close>

definition mtry :: "'a client \<Rightarrow> 'a option client" where
  "mtry m s = (case m s of (COk x, s') \<Rightarrow> (COk (Some x), s') | (CErr e, s') \<Rightarrow> (COk None, s') | (CPanic, s') \<Rightarrow> (CPanic, s'))"

definition now :: "ClientEnv \<Rightarrow> int client" where
  "now env s = (COk (ce_now env (fc_io s)), s\<lparr> fc_io := fc_io s + 1 \<rparr>)"

definition of_rpc :: "string + 'a \<Rightarrow> 'a cres" where
  "of_rpc r = (case r of Inl e \<Rightarrow> CErr (RpcClientError e) | Inr x \<Rightarrow> COk x)"

definition rpc_get_account_data :: "ClientEnv \<Rightarrow> pubkey \<Rightarrow> bytes client" where
  "rpc_get_account_data env key s = (of_rpc (ce_get_account_data env (fc_io s) key), s\<lparr> fc_io := fc_io s + 1 \<rparr>)"

definition rpc_get_multiple_accounts :: "ClientEnv \<Rightarrow> pubkey list \<Rightarrow> bytes option list client" where
  "rpc_get_multiple_accounts env ks s =
     (of_rpc (ce_get_multiple_accounts env (fc_io s) ks), s\<lparr> fc_io := fc_io s + 1 \<rparr>)"

text \<open>The other requests to the node.\<close>

definition rpc_get_account :: "ClientEnv \<Rightarrow> pubkey \<Rightarrow> RpcAccount client" where
  "rpc_get_account env x s =
     (of_rpc (ce_get_account env (fc_io s) x), s\<lparr> fc_io := fc_io s + 1 \<rparr>)"

definition rpc_get_balance :: "ClientEnv \<Rightarrow> pubkey \<Rightarrow> u64 client" where
  "rpc_get_balance env x s =
     (of_rpc (ce_get_balance env (fc_io s) x), s\<lparr> fc_io := fc_io s + 1 \<rparr>)"

definition rpc_get_token_account_balance :: "ClientEnv \<Rightarrow> pubkey \<Rightarrow> (bytes \<times> f64 option) client" where
  "rpc_get_token_account_balance env x s =
     (of_rpc (ce_get_token_account_balance env (fc_io s) x), s\<lparr> fc_io := fc_io s + 1 \<rparr>)"

definition rpc_get_minimum_balance :: "ClientEnv \<Rightarrow> nat \<Rightarrow> u64 client" where
  "rpc_get_minimum_balance env x s =
     (of_rpc (ce_get_minimum_balance env (fc_io s) x), s\<lparr> fc_io := fc_io s + 1 \<rparr>)"

definition rpc_get_fee_for_message :: "ClientEnv \<Rightarrow> (Instruction list) \<Rightarrow> u64 client" where
  "rpc_get_fee_for_message env x s =
     (of_rpc (ce_get_fee_for_message env (fc_io s) x), s\<lparr> fc_io := fc_io s + 1 \<rparr>)"

definition rpc_get_token_supply :: "ClientEnv \<Rightarrow> pubkey \<Rightarrow> f64 option client" where
  "rpc_get_token_supply env x s =
     (of_rpc (ce_get_token_supply env (fc_io s) x), s\<lparr> fc_io := fc_io s + 1 \<rparr>)"

definition rpc_get_token_accounts_by_owner :: "ClientEnv \<Rightarrow> pubkey \<Rightarrow> bytes list client" where
  "rpc_get_token_accounts_by_owner env x s =
     (of_rpc (ce_get_token_accounts_by_owner env (fc_io s) x), s\<lparr> fc_io := fc_io s + 1 \<rparr>)"

definition rpc_get_slot :: "ClientEnv \<Rightarrow> u64 client" where
  "rpc_get_slot env s =
     (of_rpc (ce_get_slot env (fc_io s)), s\<lparr> fc_io := fc_io s + 1 \<rparr>)"

definition rpc_get_latest_blockhash :: "ClientEnv \<Rightarrow> bytes client" where
  "rpc_get_latest_blockhash env s =
     (of_rpc (ce_get_latest_blockhash env (fc_io s)), s\<lparr> fc_io := fc_io s + 1 \<rparr>)"

definition rpc_is_blockhash_valid :: "ClientEnv \<Rightarrow> bytes \<Rightarrow> bool client" where
  "rpc_is_blockhash_valid env x s =
     (of_rpc (ce_is_blockhash_valid env (fc_io s) x), s\<lparr> fc_io := fc_io s + 1 \<rparr>)"

text \<open>\<open>get_accounts_with_filter\<close>: the accounts of a program that hold the given bytes at an offset.\<close>

definition get_accounts_with_filter :: "ClientEnv \<Rightarrow> pubkey \<Rightarrow> nat \<Rightarrow> bytes \<Rightarrow> (pubkey \<times> bytes) list client" where
  "get_accounts_with_filter env program offset bytes s =
     (of_rpc (ce_get_program_accounts env (fc_io s) program offset bytes), s\<lparr> fc_io := fc_io s + 1 \<rparr>)"

definition Cache_is_stale :: "ClientEnv \<Rightarrow> (FarmClient \<Rightarrow> 'a Cache) \<Rightarrow> bool client" where
  "Cache_is_stale env cache =
     mbind (mget cache) (\<lambda>self.
       if c_data self = [] then mret True
       else mbind (now env) (\<lambda>t. mret (c_last_load self \<le> t \<and> t - c_last_load self \<ge> RELOAD_INTERVAL)))"

section \<open>Reference databases\<close>

definition REFDB_ONCHAIN_INIT :: bool where "REFDB_ONCHAIN_INIT = False"

text \<open>An address cannot be derived from a seed of more than 32 bytes: \<open>find_program_address\<close> panics.\<close>

definition find_program_address :: "ClientEnv \<Rightarrow> bytes list \<Rightarrow> pubkey \<Rightarrow> pubkey cres" where
  "find_program_address env seeds program =
     (case ce_find_program_address env seeds program of Some (key, _) \<Rightarrow> COk key | None \<Rightarrow> CPanic)"

definition program_address :: "ClientEnv \<Rightarrow> bytes list \<Rightarrow> pubkey \<Rightarrow> pubkey client" where
  "program_address env seeds program = mlift (find_program_address env seeds program)"

definition find_refdb_pda :: "ClientEnv \<Rightarrow> bytes \<Rightarrow> pubkey cres" where
  "find_refdb_pda env refdb_name =
     (if REFDB_ONCHAIN_INIT then find_program_address env [refdb_name] (ce_main_router env)
      else case ce_create_with_seed env (ce_main_router_admin env) refdb_name (ce_main_router env) of
             Some key \<Rightarrow> COk key
           | None \<Rightarrow> CPanic)"

definition storage_name :: "StorageType \<Rightarrow> bytes" where
  "storage_name t = utf8_of (StorageType_fmt t)"

definition find_target_pda :: "ClientEnv \<Rightarrow> StorageType \<Rightarrow> bytes \<Rightarrow> pubkey cres" where
  "find_target_pda env storage_type target_name =
     find_program_address env [storage_name storage_type, target_name] (ce_main_router env)"

text \<open>The records that refer to an account, by name.\<close>

fun pubkey_map :: "Record list \<Rightarrow> (bytes \<times> pubkey) list \<Rightarrow> (bytes \<times> pubkey) list" where
  "pubkey_map [] acc = acc"
| "pubkey_map (r # rs) acc =
     pubkey_map rs (case rec_reference r of RPubkey data \<Rightarrow> AList.update (rec_name r) data acc | _ \<Rightarrow> acc)"

definition get_refdb_pubkey_map :: "ClientEnv \<Rightarrow> bytes \<Rightarrow> (Header \<times> (bytes \<times> pubkey) list) client" where
  "get_refdb_pubkey_map env refdb_name =
     mbind (mlift (find_refdb_pda env refdb_name)) (\<lambda>refdb_address.
     mbind (rpc_get_account_data env refdb_address) (\<lambda>data.
       if \<not> RefDB_is_initialized (ce_utf8 env) data then mfail (ClientProgramError UninitializedAccount)
       else
         mbind (mlift (of_program (RefDB_read_all (ce_utf8 env) data))) (\<lambda>rec_vec.
         mbind (mlift (of_program (RefDB_get_storage_header (ce_utf8 env) data))) (\<lambda>header.
           mret (header, pubkey_map rec_vec [])))))"

definition get_refdb_data :: "ClientEnv \<Rightarrow> bytes \<Rightarrow> bytes client" where
  "get_refdb_data env refdb_name =
     mbind (mlift (find_refdb_pda env refdb_name)) (rpc_get_account_data env)"

definition get_refdb_index :: "ClientEnv \<Rightarrow> bytes \<Rightarrow> bytes \<Rightarrow> usize option client" where
  "get_refdb_index env refdb_name object_name =
     mbind (get_refdb_data env refdb_name) (\<lambda>data.
     mbind (mlift (of_program (str_to_as64 object_name))) (\<lambda>name.
       mlift (of_program (RefDB_find_index (ce_utf8 env) data name))))"

definition get_refdb_last_index :: "ClientEnv \<Rightarrow> bytes \<Rightarrow> u32 client" where
  "get_refdb_last_index env refdb_name =
     mbind (get_refdb_data env refdb_name) (\<lambda>data. mlift (of_program (RefDB_find_last_index data)))"

definition get_refdb_next_index :: "ClientEnv \<Rightarrow> bytes \<Rightarrow> u32 client" where
  "get_refdb_next_index env refdb_name =
     mbind (get_refdb_data env refdb_name) (\<lambda>data. mlift (of_program (RefDB_find_next_index data)))"

definition is_refdb_initialized :: "ClientEnv \<Rightarrow> bytes \<Rightarrow> bool client" where
  "is_refdb_initialized env refdb_name =
     mbind (mlift (find_refdb_pda env refdb_name)) (\<lambda>refdb_address.
     mbind (mtry (rpc_get_account_data env refdb_address)) (\<lambda>r.
       mret (case r of Some data \<Rightarrow> RefDB_is_initialized (ce_utf8 env) data | None \<Rightarrow> False)))"

end
