(* ===== verification/Client_Lookup.thy ===== *)
theory Client_Lookup
  imports Client_Cache
begin

text \<open>
  The lookups by name and by reference. A \<^emph>\<open>kind\<close> says which caches of the client hold the metadata and their
  addresses, how an account is decoded and, for vaults, pools and farms, where the latest versions are noted.
  \<open>borrowed\<close> is set while the caller iterates over the addresses: writing to a \<open>RefCell\<close> that is borrowed panics.
\<close>

record 'a Kind =
  kd_storage :: StorageType
  kd_unpack :: "(bytes \<Rightarrow> bool) \<Rightarrow> bytes \<Rightarrow> 'a result"
  kd_name :: "'a \<Rightarrow> bytes"
  kd_objects :: "FarmClient \<Rightarrow> 'a Cache"
  kd_map_objects :: "('a Cache \<Rightarrow> 'a Cache) \<Rightarrow> FarmClient \<Rightarrow> FarmClient"
  kd_refs :: "FarmClient \<Rightarrow> pubkey Cache"
  kd_map_refs :: "(pubkey Cache \<Rightarrow> pubkey Cache) \<Rightarrow> FarmClient \<Rightarrow> FarmClient"
  kd_versioned :: bool
  kd_latest :: "FarmClient \<Rightarrow> (bytes \<times> bytes) list"
  kd_map_latest :: "((bytes \<times> bytes) list \<Rightarrow> (bytes \<times> bytes) list) \<Rightarrow> FarmClient \<Rightarrow> FarmClient"

definition fund_kind :: "Fund Kind" where
  "fund_kind = \<lparr> kd_storage = SFund, kd_unpack = Fund_unpack, kd_name = fnd_name,
     kd_objects = fc_funds, kd_map_objects = fc_funds_update, kd_refs = fc_fund_refs,
     kd_map_refs = fc_fund_refs_update, kd_versioned = False, kd_latest = (\<lambda>_. []), kd_map_latest = (\<lambda>_ s. s) \<rparr>"

definition token_kind :: "Token Kind" where
  "token_kind = \<lparr> kd_storage = SToken, kd_unpack = Token_unpack, kd_name = tok_name,
     kd_objects = fc_tokens, kd_map_objects = fc_tokens_update, kd_refs = fc_token_refs,
     kd_map_refs = fc_token_refs_update, kd_versioned = False, kd_latest = (\<lambda>_. []), kd_map_latest = (\<lambda>_ s. s) \<rparr>"

definition vault_kind :: "Vault Kind" where
  "vault_kind = \<lparr> kd_storage = SVault, kd_unpack = Vault_unpack, kd_name = vlt_name,
     kd_objects = fc_vaults, kd_map_objects = fc_vaults_update, kd_refs = fc_vault_refs,
     kd_map_refs = fc_vault_refs_update, kd_versioned = True, kd_latest = fc_latest_vaults,
     kd_map_latest = fc_latest_vaults_update \<rparr>"

definition pool_kind :: "Pool Kind" where
  "pool_kind = \<lparr> kd_storage = SPool, kd_unpack = Pool_unpack, kd_name = pl_name,
     kd_objects = fc_pools, kd_map_objects = fc_pools_update, kd_refs = fc_pool_refs,
     kd_map_refs = fc_pool_refs_update, kd_versioned = True, kd_latest = fc_latest_pools,
     kd_map_latest = fc_latest_pools_update \<rparr>"

definition farm_kind :: "Farm Kind" where
  "farm_kind = \<lparr> kd_storage = SFarm, kd_unpack = Farm_unpack, kd_name = frm_name,
     kd_objects = fc_farms, kd_map_objects = fc_farms_update, kd_refs = fc_farm_refs,
     kd_map_refs = fc_farm_refs_update, kd_versioned = True, kd_latest = fc_latest_farms,
     kd_map_latest = fc_latest_farms_update \<rparr>"

lemmas kind_defs = fund_kind_def token_kind_def vault_kind_def pool_kind_def farm_kind_def

section \<open>Latest versions\<close>

text \<open>
  For every name without its version the full name with the highest one. The code walks through a \<open>HashMap\<close>, whose
  order is random in every process; here the order is that of the list. It matters only between two names of the same
  base and the same version, of which the code takes either.
\<close>

fun latest_loop ::
  "(bytes \<times> pubkey) list \<Rightarrow> (bytes \<times> bytes \<times> u16) list \<Rightarrow> (bytes \<times> bytes \<times> u16) list cres" where
  "latest_loop [] latest = COk latest"
| "latest_loop ((full_name, _) # source) latest =
     (case extract_pool_name_and_version full_name of
        CPanic \<Rightarrow> CPanic
      | CErr _ \<Rightarrow> latest_loop source latest
      | COk (name_no_ver, ver) \<Rightarrow>
          latest_loop source
            (case map_of latest name_no_ver of
               Some (_, cur_ver) \<Rightarrow>
                 if cur_ver < ver then AList.update name_no_ver (full_name, ver) latest else latest
             | None \<Rightarrow> AList.update name_no_ver (full_name, ver) latest))"

definition reinsert_latest_versions ::
  "(bytes \<times> pubkey) list \<Rightarrow> (bytes \<times> bytes) list \<Rightarrow> (bytes \<times> bytes) list cres" where
  "reinsert_latest_versions source dest =
     cbind (latest_loop source []) (\<lambda>latest.
       COk (foldl (\<lambda>d (name, full_name, _). AList.update name full_name d) dest latest))"

section \<open>Loading\<close>

definition load_by_ref :: "ClientEnv \<Rightarrow> 'a Kind \<Rightarrow> pubkey \<Rightarrow> 'a client" where
  "load_by_ref env kd key =
     mbind (rpc_get_account_data env key) (\<lambda>data. mlift (of_program (kd_unpack kd (ce_utf8 env) data)))"

definition reload_refs_if_stale :: "ClientEnv \<Rightarrow> 'a Kind \<Rightarrow> bool \<Rightarrow> bool client" where
  "reload_refs_if_stale env kd borrowed =
     mbind (Cache_is_stale env (kd_refs kd)) (\<lambda>stale.
       if stale then
         mbind (get_refdb_pubkey_map env (storage_name (kd_storage kd))) (\<lambda>(header, refs).
           if borrowed then mlift CPanic
           else
             mbind (mget (kd_refs kd)) (\<lambda>cache.
               if Cache_is_updated cache (hdr_counter header) then
                 mbind (if kd_versioned kd then
                          mbind (mget (kd_latest kd)) (\<lambda>dest.
                          mbind (mlift (reinsert_latest_versions refs dest)) (\<lambda>latest.
                            mput (kd_map_latest kd (\<lambda>_. latest))))
                        else mret ()) (\<lambda>_.
                 mbind (now env) (\<lambda>t1.
                 mbind (mput (kd_map_refs kd (Cache_set t1 refs (hdr_counter header)))) (\<lambda>_.
                 mbind (now env) (\<lambda>t2.
                 mbind (mput (kd_map_objects kd (Cache_reset t2))) (\<lambda>_.
                   mret True)))))
               else
                 mbind (now env) (\<lambda>t.
                 mbind (mput (kd_map_refs kd (Cache_mark_not_stale t))) (\<lambda>_.
                   mret False))))
       else mret False)"

text \<open>All accounts, in groups of one hundred; an object is stored under the name it carries.\<close>

fun load_accounts ::
  "ClientEnv \<Rightarrow> 'a Kind \<Rightarrow> (bytes option \<times> pubkey) list \<Rightarrow> (bytes \<times> 'a) list \<Rightarrow> (bytes \<times> 'a) list cres" where
  "load_accounts env kd [] acc = COk acc"
| "load_accounts env kd ((account_option, account_ref) # rest) acc =
     (case account_option of
        Some data \<Rightarrow>
          cbind (of_program (kd_unpack kd (ce_utf8 env) data)) (\<lambda>x.
            load_accounts env kd rest (AList.update (kd_name kd x) x acc))
      | None \<Rightarrow>
          CErr (RecordNotFound (storage_name (kd_storage kd) @ utf8_of '' with ref ''
            @ ce_key_to_string env account_ref)))"

function load_groups :: "ClientEnv \<Rightarrow> 'a Kind \<Rightarrow> pubkey list \<Rightarrow> (bytes \<times> 'a) list \<Rightarrow> (bytes \<times> 'a) list client" where
  "load_groups env kd refs acc =
     (if refs = [] then mret acc
      else
        mbind (rpc_get_multiple_accounts env (take 100 refs)) (\<lambda>accounts.
        mbind (mlift (load_accounts env kd (zip accounts (take 100 refs)) acc)) (\<lambda>acc'.
          load_groups env kd (drop 100 refs) acc')))"
  by pat_completeness auto

termination load_groups
  by (relation "measure (\<lambda>(_, _, refs, _). length refs)") auto

declare load_groups.simps [simp del]

definition reload_objects_if_empty :: "ClientEnv \<Rightarrow> 'a Kind \<Rightarrow> bool client" where
  "reload_objects_if_empty env kd =
     mbind (mget (kd_objects kd)) (\<lambda>objects.
       if c_data objects = [] \<or> Cache_is_updated objects 1 then
         mbind (mget (kd_refs kd)) (\<lambda>cache.
           let refs = map snd (c_data cache)
           in if refs = [] then mret False
              else
                mbind (load_groups env kd refs []) (\<lambda>object_map.
                mbind (now env) (\<lambda>t.
                mbind (mput (kd_map_objects kd (Cache_set t object_map 1))) (\<lambda>_.
                  mret True))))
       else mret False)"

section \<open>Lookups\<close>

definition resolve :: "'a Kind \<Rightarrow> FarmClient \<Rightarrow> bytes \<Rightarrow> bytes" where
  "resolve kd s name = (case map_of (kd_latest kd s) name of Some full \<Rightarrow> full | None \<Rightarrow> name)"

definition not_found :: "string \<Rightarrow> bytes \<Rightarrow> 'a client" where
  "not_found what name = mfail (RecordNotFound (utf8_of what @ name))"

text \<open>Lookup once the addresses are up to date: in the cache, else from the node.\<close>

definition fetch_object :: "ClientEnv \<Rightarrow> 'a Kind \<Rightarrow> bytes \<Rightarrow> 'a client" where
  "fetch_object env kd name =
     mbind (mget (\<lambda>s. (kd_objects kd s, kd_refs kd s, resolve kd s name))) (\<lambda>(objects, refs, full).
       case map_of (c_data objects) full of
         Some x \<Rightarrow> mret x
       | None \<Rightarrow>
           (case map_of (c_data refs) full of
              Some key \<Rightarrow>
                mbind (load_by_ref env kd key) (\<lambda>x.
                mbind (mput (kd_map_objects kd (c_data_update (AList.update full x)))) (\<lambda>_.
                  mret x))
            | None \<Rightarrow> not_found (StorageType_fmt (kd_storage kd) @ '' '') name))"

definition get_object :: "ClientEnv \<Rightarrow> 'a Kind \<Rightarrow> bool \<Rightarrow> bytes \<Rightarrow> 'a client" where
  "get_object env kd borrowed name =
     mbind (reload_refs_if_stale env kd borrowed) (\<lambda>_. fetch_object env kd name)"

definition get_objects :: "ClientEnv \<Rightarrow> 'a Kind \<Rightarrow> (bytes \<times> 'a) list client" where
  "get_objects env kd =
     mbind (reload_refs_if_stale env kd False) (\<lambda>_.
     mbind (reload_objects_if_empty env kd) (\<lambda>_.
       mget (\<lambda>s. c_data (kd_objects kd s))))"

definition get_object_ref :: "ClientEnv \<Rightarrow> 'a Kind \<Rightarrow> bytes \<Rightarrow> pubkey client" where
  "get_object_ref env kd name =
     mbind (reload_refs_if_stale env kd False) (\<lambda>_.
     mbind (mget (\<lambda>s. map_of (c_data (kd_refs kd s)) (resolve kd s name))) (\<lambda>r.
       case r of
         Some key \<Rightarrow> mret key
       | None \<Rightarrow> not_found (StorageType_fmt (kd_storage kd) @ '' '') name))"

text \<open>Vaults, pools and farms answer from the cache, funds and tokens read the database once more.\<close>

definition get_object_refs :: "ClientEnv \<Rightarrow> 'a Kind \<Rightarrow> (bytes \<times> pubkey) list client" where
  "get_object_refs env kd =
     mbind (reload_refs_if_stale env kd False) (\<lambda>_.
       if kd_versioned kd then mget (\<lambda>s. c_data (kd_refs kd s))
       else mbind (get_refdb_pubkey_map env (storage_name (kd_storage kd))) (\<lambda>(_, refs). mret refs))"

definition find_name :: "pubkey \<Rightarrow> (bytes \<times> pubkey) list \<Rightarrow> bytes option" where
  "find_name key refs = map_option fst (List.find (\<lambda>(_, k). k = key) refs)"

definition get_object_name :: "ClientEnv \<Rightarrow> 'a Kind \<Rightarrow> pubkey \<Rightarrow> bytes client" where
  "get_object_name env kd key =
     mbind (reload_refs_if_stale env kd False) (\<lambda>_.
     mbind (mget (\<lambda>s. find_name key (c_data (kd_refs kd s)))) (\<lambda>r.
       case r of
         Some name \<Rightarrow> mret name
       | None \<Rightarrow> not_found (StorageType_fmt (kd_storage kd) @ '' reference '') (ce_key_to_string env key)))"

definition get_object_by_ref :: "ClientEnv \<Rightarrow> 'a Kind \<Rightarrow> pubkey \<Rightarrow> 'a client" where
  "get_object_by_ref env kd key = mbind (get_object_name env kd key) (get_object env kd False)"

end
