(* ===== verification/Client_Api.thy ===== *)
theory Client_Api
  imports Client_Lookup
begin

text \<open>
  The public lookups of \<open>FarmClient\<close> and the addresses it derives: the five kinds of metadata, program ids, token
  amounts, the accounts that belong to vaults, funds, custodies and users, and their contents.
\<close>

section \<open>Metadata by name and by address\<close>

definition get_fund :: "ClientEnv \<Rightarrow> bytes \<Rightarrow> Fund client" where
  "get_fund env = get_object env fund_kind False"

definition get_funds :: "ClientEnv \<Rightarrow> (bytes \<times> Fund) list client" where
  "get_funds env = get_objects env fund_kind"

definition get_fund_ref :: "ClientEnv \<Rightarrow> bytes \<Rightarrow> pubkey client" where
  "get_fund_ref env = get_object_ref env fund_kind"

definition get_fund_refs :: "ClientEnv \<Rightarrow> (bytes \<times> pubkey) list client" where
  "get_fund_refs env = get_object_refs env fund_kind"

definition get_fund_name :: "ClientEnv \<Rightarrow> pubkey \<Rightarrow> bytes client" where
  "get_fund_name env = get_object_name env fund_kind"

definition get_fund_by_ref :: "ClientEnv \<Rightarrow> pubkey \<Rightarrow> Fund client" where
  "get_fund_by_ref env = get_object_by_ref env fund_kind"

definition get_vault :: "ClientEnv \<Rightarrow> bytes \<Rightarrow> Vault client" where
  "get_vault env = get_object env vault_kind False"

definition get_vaults :: "ClientEnv \<Rightarrow> (bytes \<times> Vault) list client" where
  "get_vaults env = get_objects env vault_kind"

definition get_vault_ref :: "ClientEnv \<Rightarrow> bytes \<Rightarrow> pubkey client" where
  "get_vault_ref env = get_object_ref env vault_kind"

definition get_vault_refs :: "ClientEnv \<Rightarrow> (bytes \<times> pubkey) list client" where
  "get_vault_refs env = get_object_refs env vault_kind"

definition get_vault_name :: "ClientEnv \<Rightarrow> pubkey \<Rightarrow> bytes client" where
  "get_vault_name env = get_object_name env vault_kind"

definition get_vault_by_ref :: "ClientEnv \<Rightarrow> pubkey \<Rightarrow> Vault client" where
  "get_vault_by_ref env = get_object_by_ref env vault_kind"

definition get_pool :: "ClientEnv \<Rightarrow> bytes \<Rightarrow> Pool client" where
  "get_pool env = get_object env pool_kind False"

definition get_pools :: "ClientEnv \<Rightarrow> (bytes \<times> Pool) list client" where
  "get_pools env = get_objects env pool_kind"

definition get_pool_ref :: "ClientEnv \<Rightarrow> bytes \<Rightarrow> pubkey client" where
  "get_pool_ref env = get_object_ref env pool_kind"

definition get_pool_refs :: "ClientEnv \<Rightarrow> (bytes \<times> pubkey) list client" where
  "get_pool_refs env = get_object_refs env pool_kind"

definition get_pool_name :: "ClientEnv \<Rightarrow> pubkey \<Rightarrow> bytes client" where
  "get_pool_name env = get_object_name env pool_kind"

definition get_pool_by_ref :: "ClientEnv \<Rightarrow> pubkey \<Rightarrow> Pool client" where
  "get_pool_by_ref env = get_object_by_ref env pool_kind"

definition get_farm :: "ClientEnv \<Rightarrow> bytes \<Rightarrow> Farm client" where
  "get_farm env = get_object env farm_kind False"

definition get_farms :: "ClientEnv \<Rightarrow> (bytes \<times> Farm) list client" where
  "get_farms env = get_objects env farm_kind"

definition get_farm_ref :: "ClientEnv \<Rightarrow> bytes \<Rightarrow> pubkey client" where
  "get_farm_ref env = get_object_ref env farm_kind"

definition get_farm_refs :: "ClientEnv \<Rightarrow> (bytes \<times> pubkey) list client" where
  "get_farm_refs env = get_object_refs env farm_kind"

definition get_farm_name :: "ClientEnv \<Rightarrow> pubkey \<Rightarrow> bytes client" where
  "get_farm_name env = get_object_name env farm_kind"

definition get_farm_by_ref :: "ClientEnv \<Rightarrow> pubkey \<Rightarrow> Farm client" where
  "get_farm_by_ref env = get_object_by_ref env farm_kind"

definition get_token :: "ClientEnv \<Rightarrow> bytes \<Rightarrow> Token client" where
  "get_token env = get_object env token_kind False"

definition get_tokens :: "ClientEnv \<Rightarrow> (bytes \<times> Token) list client" where
  "get_tokens env = get_objects env token_kind"

definition get_token_ref :: "ClientEnv \<Rightarrow> bytes \<Rightarrow> pubkey client" where
  "get_token_ref env = get_object_ref env token_kind"

definition get_token_refs :: "ClientEnv \<Rightarrow> (bytes \<times> pubkey) list client" where
  "get_token_refs env = get_object_refs env token_kind"

definition get_token_name :: "ClientEnv \<Rightarrow> pubkey \<Rightarrow> bytes client" where
  "get_token_name env = get_object_name env token_kind"

definition get_token_by_ref :: "ClientEnv \<Rightarrow> pubkey \<Rightarrow> Token client" where
  "get_token_by_ref env = get_object_by_ref env token_kind"

text \<open>Searches. The names are iterated while the cache is borrowed; the sort by version is stable, latest first.\<close>

definition by_version :: "('a \<Rightarrow> u16) \<Rightarrow> 'a list \<Rightarrow> 'a list" where
  "by_version version xs = sort_key (\<lambda>x. - int (unat (version x))) xs"

fun str_contains :: "bytes \<Rightarrow> bytes \<Rightarrow> bool" where
  "str_contains [] p = (p = [])"
| "str_contains (b # s) p = (take (length p) (b # s) = p \<or> str_contains s p)"

definition str_starts_with :: "bytes \<Rightarrow> bytes \<Rightarrow> bool" where
  "str_starts_with s p = (take (length p) s = p)"

text \<open>The end shared by the searches.\<close>

definition found_by_version :: "('a \<Rightarrow> u16) \<Rightarrow> bytes \<Rightarrow> 'a list \<Rightarrow> 'a list client" where
  "found_by_version version what res =
     (if res = [] then mfail (RecordNotFound what) else mret (by_version version res))"

definition find_vaults :: "ClientEnv \<Rightarrow> bytes \<Rightarrow> bytes \<Rightarrow> Vault list client" where
  "find_vaults env token_a token_b =
     mbind (reload_refs_if_stale env vault_kind False) (\<lambda>_.
       let pattern1 = utf8_of ''.'' @ token_a @ utf8_of ''-'' @ token_b @ utf8_of ''-'';
           pattern2 = utf8_of ''.'' @ token_b @ utf8_of ''-'' @ token_a @ utf8_of ''-''
       in
         mbind (mget (\<lambda>s. map fst (c_data (fc_vault_refs s)))) (\<lambda>names.
         mbind (mmap (get_object env vault_kind True)
                  (filter (\<lambda>name. str_contains name pattern1 \<or> str_contains name pattern2) names)) (\<lambda>res.
           found_by_version vlt_version
             (utf8_of ''Vault with tokens '' @ token_a @ utf8_of '' and '' @ token_b) res)))"

definition find_vaults_with_vt :: "ClientEnv \<Rightarrow> bytes \<Rightarrow> Vault list client" where
  "find_vaults_with_vt env vt_token_name =
     mbind (mlift (extract_token_names vt_token_name)) (\<lambda>(protocol, token_a, token_b).
     mbind (find_vaults env token_a token_b) (\<lambda>vaults.
     mbind (mfoldl (\<lambda>res vault.
              mbind (get_token_by_ref env (vlt_vault_token_ref vault)) (\<lambda>token.
                mret (if tok_name token = vt_token_name then res @ [vault] else res))) [] vaults) (\<lambda>res.
       found_by_version vlt_version (Protocol_fmt protocol @ utf8_of '' Vault with VT token '' @ vt_token_name) res)))"

definition find_pools :: "ClientEnv \<Rightarrow> Protocol \<Rightarrow> bytes \<Rightarrow> bytes \<Rightarrow> Pool list client" where
  "find_pools env protocol token_a token_b =
     mbind (reload_refs_if_stale env pool_kind False) (\<lambda>_.
       let pattern1 = Protocol_id protocol @ utf8_of ''.'' @ token_a @ utf8_of ''-'' @ token_b @ utf8_of ''-'';
           pattern2 = Protocol_id protocol @ utf8_of ''.'' @ token_b @ utf8_of ''-'' @ token_a @ utf8_of ''-''
       in
         mbind (mget (\<lambda>s. map fst (c_data (fc_pool_refs s)))) (\<lambda>names.
         mbind (mmap (get_object env pool_kind True)
                  (filter (\<lambda>name. str_starts_with name pattern1 \<or> str_starts_with name pattern2) names)) (\<lambda>res.
           found_by_version pl_version
             (Protocol_fmt protocol @ utf8_of '' Pool with tokens '' @ token_a @ utf8_of '' and '' @ token_b) res)))"

definition find_pools_with_lp :: "ClientEnv \<Rightarrow> bytes \<Rightarrow> Pool list client" where
  "find_pools_with_lp env lp_token_name =
     mbind (get_token_ref env lp_token_name) (\<lambda>lp_token_ref.
     mbind (get_pools env) (\<lambda>pools.
       found_by_version pl_version (utf8_of ''Pool with LP token '' @ lp_token_name)
         (filter (\<lambda>pool. pl_lp_token_ref pool = Some lp_token_ref) (map snd pools))))"

definition find_farms_with_lp :: "ClientEnv \<Rightarrow> bytes \<Rightarrow> Farm list client" where
  "find_farms_with_lp env lp_token_name =
     mbind (get_token_ref env lp_token_name) (\<lambda>lp_token_ref.
     mbind (get_farms env) (\<lambda>farms.
       found_by_version frm_version (utf8_of ''Farm with LP token '' @ lp_token_name)
         (filter (\<lambda>farm. frm_lp_token_ref farm = Some lp_token_ref) (map snd farms))))"

definition get_token_with_mint :: "ClientEnv \<Rightarrow> pubkey \<Rightarrow> Token client" where
  "get_token_with_mint env token_mint =
     mbind (get_tokens env) (\<lambda>tokens.
       mok_or (List.find (\<lambda>token. token_mint = tok_mint token) (map snd tokens))
         (RecordNotFound (utf8_of ''Token with mint '' @ ce_key_to_string env token_mint)))"

definition is_fund_manager :: "ClientEnv \<Rightarrow> pubkey \<Rightarrow> bool client" where
  "is_fund_manager env wallet_address =
     mbind (get_funds env) (\<lambda>funds. mret (list_ex (\<lambda>f. fnd_fund_manager f = wallet_address) (map snd funds)))"

section \<open>Program ids\<close>

definition reload_program_ids_if_stale :: "ClientEnv \<Rightarrow> bool client" where
  "reload_program_ids_if_stale env =
     mbind (Cache_is_stale env fc_official_ids) (\<lambda>stale.
       if stale then
         mbind (get_refdb_pubkey_map env (storage_name SProgram)) (\<lambda>(header, official_ids).
         mbind (mget fc_official_ids) (\<lambda>cache.
         mbind (now env) (\<lambda>t.
           if Cache_is_updated cache (hdr_counter header) then
             mbind (mput (fc_official_ids_update (Cache_set t official_ids (hdr_counter header)))) (\<lambda>_. mret True)
           else
             mbind (mput (fc_official_ids_update (Cache_mark_not_stale t))) (\<lambda>_. mret False))))
       else mret False)"

definition get_program_id :: "ClientEnv \<Rightarrow> bytes \<Rightarrow> pubkey client" where
  "get_program_id env name =
     mbind (reload_program_ids_if_stale env) (\<lambda>_.
     mbind (mget (\<lambda>s. map_of (c_data (fc_official_ids s)) name)) (\<lambda>r.
       mok_or r (RecordNotFound (utf8_of ''Program '' @ name))))"

definition get_program_ids :: "ClientEnv \<Rightarrow> (bytes \<times> pubkey) list client" where
  "get_program_ids env =
     mbind (reload_program_ids_if_stale env) (\<lambda>_.
     mbind (get_refdb_pubkey_map env (storage_name SProgram)) (\<lambda>(_, ids). mret ids))"

definition get_program_name :: "ClientEnv \<Rightarrow> pubkey \<Rightarrow> bytes client" where
  "get_program_name env prog_id =
     mbind (reload_program_ids_if_stale env) (\<lambda>_.
     mbind (mget (\<lambda>s. find_name prog_id (c_data (fc_official_ids s)))) (\<lambda>r.
       mok_or r (RecordNotFound (utf8_of ''Program ID '' @ ce_key_to_string env prog_id))))"

definition is_official_id :: "ClientEnv \<Rightarrow> pubkey \<Rightarrow> bool client" where
  "is_official_id env prog_id =
     (if prog_id = ce_main_router env then mret True
      else mbind (mtry (get_program_name env prog_id)) (\<lambda>found. mret (found \<noteq> None)))"

definition get_program_multisig_account :: "ClientEnv \<Rightarrow> pubkey \<Rightarrow> pubkey client" where
  "get_program_multisig_account env prog_id =
     program_address env [(utf8_of ''multisig''), prog_id] (ce_main_router env)"

definition get_program_buffer_account :: "ClientEnv \<Rightarrow> pubkey \<Rightarrow> pubkey client" where
  "get_program_buffer_account env prog_id =
     program_address env [prog_id] (ce_bpf_loader_upgradeable env)"

text \<open>Everything cached is forgotten, except the farms.\<close>

definition reset_cache :: "ClientEnv \<Rightarrow> unit client" where
  "reset_cache env =
     mbind (now env) (\<lambda>t. mbind (mput (fc_tokens_update (Cache_reset t))) (\<lambda>_.
     mbind (now env) (\<lambda>t. mbind (mput (fc_pools_update (Cache_reset t))) (\<lambda>_.
     mbind (now env) (\<lambda>t. mbind (mput (fc_vaults_update (Cache_reset t))) (\<lambda>_.
     mbind (now env) (\<lambda>t. mbind (mput (fc_funds_update (Cache_reset t))) (\<lambda>_.
     mbind (now env) (\<lambda>t. mbind (mput (fc_token_refs_update (Cache_reset t))) (\<lambda>_.
     mbind (now env) (\<lambda>t. mbind (mput (fc_pool_refs_update (Cache_reset t))) (\<lambda>_.
     mbind (now env) (\<lambda>t. mbind (mput (fc_vault_refs_update (Cache_reset t))) (\<lambda>_.
     mbind (now env) (\<lambda>t. mbind (mput (fc_fund_refs_update (Cache_reset t))) (\<lambda>_.
     mbind (now env) (\<lambda>t. mbind (mput (fc_official_ids_update (Cache_reset t))) (\<lambda>_.
     mbind (mput (fc_latest_pools_update (\<lambda>_. []))) (\<lambda>_.
     mbind (mput (fc_latest_farms_update (\<lambda>_. []))) (\<lambda>_.
       mput (fc_latest_vaults_update (\<lambda>_. []))))))))))))))))))))))"

section \<open>Tokens and amounts\<close>

definition get_token_by_ref_from_cache :: "ClientEnv \<Rightarrow> (pubkey option) \<Rightarrow> (Token option) client" where
  "get_token_by_ref_from_cache env token_ref =
     (case token_ref of Some pubkey \<Rightarrow> mbind (get_token_name env pubkey) (\<lambda>name.
       mbind (get_token env name) (\<lambda>token.
       mret (Some token)))
       | None \<Rightarrow> mret None)"

definition get_associated_token_address :: "ClientEnv \<Rightarrow> pubkey \<Rightarrow> bytes \<Rightarrow> pubkey client" where
  "get_associated_token_address env wallet_address token_name =
     mbind (get_token env token_name) (\<lambda>token.
     mret (ce_get_associated_token_address env wallet_address (tok_mint token)))"

definition get_oracle :: "ClientEnv \<Rightarrow> bytes \<Rightarrow> (OracleType \<times> (pubkey option)) client" where
  "get_oracle env symbol =
     mbind (get_token env symbol) (\<lambda>token.
     mret ((tok_oracle_type token), (tok_oracle_account token)))"

definition get_token_account :: "ClientEnv \<Rightarrow> pubkey \<Rightarrow> Token option \<Rightarrow> pubkey option" where
  "get_token_account env wallet_address token =
     map_option (\<lambda>token_info. ce_get_associated_token_address env wallet_address (tok_mint token_info)) token"

text \<open>
  \<open>f64::round\<close> rounds half away from zero; \<open>checked_as_u64\<close> of a \<open>f64\<close> truncates and fails on values that are not
  in the range of \<open>u64\<close>.
\<close>

definition round_half_away :: "nat \<Rightarrow> nat \<Rightarrow> nat" where
  "round_half_away n d = (2 * n + d) div (2 * d)"

definition f64_round_to_int :: "f64 \<Rightarrow> f64" where
  "f64_round_to_int a =
     (case f64_decode a of
        Num neg m e \<Rightarrow> (let (n, d) = scale e (m, 1) in if d = 1 then a else f64_round neg (round_half_away n d) 1)
      | _ \<Rightarrow> a)"

definition checked_f64_as_u64 :: "f64 \<Rightarrow> u64 result" where
  "checked_f64_as_u64 a =
     (case f64_decode a of
        Num neg m e \<Rightarrow>
          (let (n, d) = scale e (m, 1); q = n div d
           in if (neg \<longrightarrow> q = 0) \<and> q < 2 ^ 64 then Ok (if neg then 0 else of_nat q)
              else Err (farm_error MathOverflow))
      | _ \<Rightarrow> Err (farm_error MathOverflow))"

definition scaled_amount :: "ClientEnv \<Rightarrow> f64 \<Rightarrow> u8 \<Rightarrow> u64 client" where
  "scaled_amount env ui_amount decimals =
     mbind (mprog (checked_pow (ce_checked_pow env) 10 (unat decimals))) (\<lambda>multiplier.
       mprog (checked_f64_as_u64 (f64_round_to_int (f64_mul ui_amount (f64_of_nat (unat multiplier))))))"

definition ui_amount_to_tokens :: "ClientEnv \<Rightarrow> f64 \<Rightarrow> bytes \<Rightarrow> u64 client" where
  "ui_amount_to_tokens env ui_amount token_name =
     (if f64_eq ui_amount (f64_of_nat 0) then mret 0
      else if f64_lt ui_amount (f64_of_nat 0)
      then mfail (ValueError (utf8_of ''Invalid ui_amount: '' @ ce_f64_to_string env ui_amount))
      else mbind (get_token env token_name) (\<lambda>token. scaled_amount env ui_amount (tok_decimals token)))"

definition tokens_to_ui_amount :: "ClientEnv \<Rightarrow> u64 \<Rightarrow> bytes \<Rightarrow> f64 client" where
  "tokens_to_ui_amount env amount token_name =
     (if (amount = 0) then mret (f64_of_nat 0)
       else mbind (get_token env token_name) (\<lambda>token.
       mbind (mprog (checked_pow (ce_checked_pow env) (10 :: u64) (unat (tok_decimals token)))) (\<lambda>divisor.
       mret (f64_div (f64_of_nat (unat amount)) (f64_of_nat (unat divisor))))))"

definition ui_amount_to_tokens_with_decimals :: "ClientEnv \<Rightarrow> f64 \<Rightarrow> u8 \<Rightarrow> u64 client" where
  "ui_amount_to_tokens_with_decimals env ui_amount decimals =
     (if f64_le ui_amount (f64_of_nat 0) then mret 0 else scaled_amount env ui_amount decimals)"

definition client_tokens_to_ui_amount_with_decimals :: "ClientEnv \<Rightarrow> u64 \<Rightarrow> u8 \<Rightarrow> f64 cres" where
  "client_tokens_to_ui_amount_with_decimals env amount decimals =
     (if amount = 0 then COk (f64_of_nat 0)
      else
        case checked_pow (ce_checked_pow env) 10 (unat decimals) of
          Ok divisor \<Rightarrow> COk (f64_div (f64_of_nat (unat amount)) (f64_of_nat (unat divisor)))
        | _ \<Rightarrow> CPanic)"

definition to_token_amount :: "ClientEnv \<Rightarrow> f64 \<Rightarrow> Token \<Rightarrow> u64 client" where
  "to_token_amount env ui_amount token =
     ui_amount_to_tokens_with_decimals env ui_amount (tok_decimals token)"

definition to_token_amount_option :: "ClientEnv \<Rightarrow> f64 \<Rightarrow> (Token option) \<Rightarrow> u64 client" where
  "to_token_amount_option env ui_amount token =
     (case token of Some tkn \<Rightarrow> to_token_amount env ui_amount tkn
       | None \<Rightarrow> mfail (ClientProgramError UninitializedAccount))"

section \<open>Pools, farms and vaults\<close>

definition get_underlying_pool :: "ClientEnv \<Rightarrow> bytes \<Rightarrow> Pool client" where
  "get_underlying_pool env vault_name =
     mbind (get_vault env vault_name) (\<lambda>vault.
     (case (vlt_strategy vault) of VaultStrategy_StakeLpCompoundRewards _ _ pool_ref _ _ _ _ _ _ _ _ _ _ _ _ \<Rightarrow>
         get_pool_by_ref env pool_ref
       | VaultStrategy_DynamicHedge \<Rightarrow> get_pool_by_ref env (ce_zero env)))"

definition get_underlying_farm :: "ClientEnv \<Rightarrow> bytes \<Rightarrow> Farm client" where
  "get_underlying_farm env vault_name =
     mbind (get_vault env vault_name) (\<lambda>vault.
     (case (vlt_strategy vault) of VaultStrategy_StakeLpCompoundRewards _ _ _ _ _ farm_ref _ _ _ _ _ _ _ _ _ \<Rightarrow>
         get_farm_by_ref env farm_ref
       | VaultStrategy_DynamicHedge \<Rightarrow> get_farm_by_ref env (ce_zero env)))"

definition pool_has_sol_tokens :: "ClientEnv \<Rightarrow> bytes \<Rightarrow> (bool \<times> bool) client" where
  "pool_has_sol_tokens env pool_name =
     mbind (get_pool env pool_name) (\<lambda>pool.
     let is_token_a_sol = False in
     let is_token_b_sol = False in
     mbind (case (pl_token_a_ref pool) of Some token_a_ref \<Rightarrow> mbind (get_token_by_ref env token_a_ref) (\<lambda>token_a.
       (if ((tok_token_type token_a) = TokenType_WrappedSol) then let is_token_a_sol = True in
         mret is_token_a_sol
         else mret is_token_a_sol))
       | None \<Rightarrow> mret is_token_a_sol) (\<lambda>is_token_a_sol.
     mbind (case (pl_token_b_ref pool) of Some token_b_ref \<Rightarrow> mbind (get_token_by_ref env token_b_ref) (\<lambda>token_b.
       (if ((tok_token_type token_b) = TokenType_WrappedSol) then let is_token_b_sol = True in
         mret is_token_b_sol
         else mret is_token_b_sol))
       | None \<Rightarrow> mret is_token_b_sol) (\<lambda>is_token_b_sol.
     mret (is_token_a_sol, is_token_b_sol))))"

definition pool_has_saber_wrapped_tokens :: "ClientEnv \<Rightarrow> bytes \<Rightarrow> (bool \<times> bool) client" where
  "pool_has_saber_wrapped_tokens env pool_name =
     mbind (get_pool env pool_name) (\<lambda>pool.
     mret (False, False))"

definition vault_has_sol_tokens :: "ClientEnv \<Rightarrow> bytes \<Rightarrow> (bool \<times> bool) client" where
  "vault_has_sol_tokens env vault_name =
     mbind (get_underlying_pool env vault_name) (\<lambda>underlying_pool.
     let pool_name = (pl_name underlying_pool) in
     pool_has_sol_tokens env pool_name)"

definition get_vault_stake_account :: "ClientEnv \<Rightarrow> bytes \<Rightarrow> pubkey client" where
  "get_vault_stake_account env vault_name =
     mbind (get_vault env vault_name) (\<lambda>vault.
     (case (vlt_strategy vault) of VaultStrategy_StakeLpCompoundRewards _ _ _ _ _ _ _ _ _ _ _ vault_stake_info
         _ _ _ \<Rightarrow> mret vault_stake_info
       | _ \<Rightarrow> mpanic))"

definition get_vault_token_decimals :: "ClientEnv \<Rightarrow> bytes \<Rightarrow> u8 client" where
  "get_vault_token_decimals env vault_name =
     mbind (get_vault env vault_name) (\<lambda>vault.
     mbind (get_token_by_ref_from_cache env (Some (vlt_vault_token_ref vault))) (\<lambda>token_by_ref_from_cache.
     (case token_by_ref_from_cache of Some vault_token \<Rightarrow> mret (tok_decimals vault_token)
       | None \<Rightarrow> mfail (RecordNotFound (utf8_of ''Vault token for '' @ vault_name)))))"

definition get_vault_lp_token_decimals :: "ClientEnv \<Rightarrow> bytes \<Rightarrow> u8 client" where
  "get_vault_lp_token_decimals env vault_name =
     mbind (get_underlying_pool env vault_name) (\<lambda>pool.
     mbind (get_token_by_ref_from_cache env (pl_lp_token_ref pool)) (\<lambda>token_by_ref_from_cache.
     (case token_by_ref_from_cache of Some pool_token \<Rightarrow> mret (tok_decimals pool_token)
       | None \<Rightarrow> mfail (RecordNotFound (utf8_of ''LP token for '' @ vault_name)))))"

definition get_pool_tokens_decimals :: "ClientEnv \<Rightarrow> bytes \<Rightarrow> bytes client" where
  "get_pool_tokens_decimals env pool_name =
     mbind (get_pool env pool_name) (\<lambda>pool.
     let res = [] in
     mbind (mbind (get_token_by_ref_from_cache env (pl_lp_token_ref pool)) (\<lambda>token_by_ref_from_cache.
       (case token_by_ref_from_cache of Some token \<Rightarrow> let res = res @ [(tok_decimals token)] in
         mret res
         | None \<Rightarrow> mret res))) (\<lambda>res.
     mbind (mbind (get_token_by_ref_from_cache env (pl_token_a_ref pool)) (\<lambda>token_by_ref_from_cache.
       (case token_by_ref_from_cache of Some token \<Rightarrow> let res = res @ [(tok_decimals token)] in
         mret res
         | None \<Rightarrow> mret res))) (\<lambda>res.
     mbind (mbind (get_token_by_ref_from_cache env (pl_token_b_ref pool)) (\<lambda>token_by_ref_from_cache.
       (case token_by_ref_from_cache of Some token \<Rightarrow> let res = res @ [(tok_decimals token)] in
         mret res
         | None \<Rightarrow> mret res))) (\<lambda>res.
     mret res))))"

definition name_or_empty :: "Token option \<Rightarrow> bytes" where
  "name_or_empty token = (case token of Some t \<Rightarrow> tok_name t | None \<Rightarrow> [])"

definition get_pool_token_names :: "ClientEnv \<Rightarrow> bytes \<Rightarrow> (bytes \<times> bytes \<times> bytes) client" where
  "get_pool_token_names env pool_name =
     mbind (get_pool env pool_name) (\<lambda>pool.
     mbind (get_token_by_ref_from_cache env (pl_token_a_ref pool)) (\<lambda>token_a.
     mbind (get_token_by_ref_from_cache env (pl_token_b_ref pool)) (\<lambda>token_b.
     mbind (get_token_by_ref_from_cache env (pl_lp_token_ref pool)) (\<lambda>lp_token.
       mret (name_or_empty token_a, name_or_empty token_b, name_or_empty lp_token)))))"

definition get_farm_token_names :: "ClientEnv \<Rightarrow> bytes \<Rightarrow> (bytes \<times> bytes \<times> bytes) client" where
  "get_farm_token_names env farm_name =
     mbind (get_farm env farm_name) (\<lambda>farm.
     mbind (get_token_by_ref_from_cache env (frm_first_reward_token_ref farm)) (\<lambda>token_a.
     mbind (get_token_by_ref_from_cache env (frm_second_reward_token_ref farm)) (\<lambda>token_b.
     mbind (get_token_by_ref_from_cache env (frm_lp_token_ref farm)) (\<lambda>lp_token.
       mret (name_or_empty token_a, name_or_empty token_b, name_or_empty lp_token)))))"

definition get_vault_token_names :: "ClientEnv \<Rightarrow> bytes \<Rightarrow> (bytes \<times> bytes \<times> bytes) client" where
  "get_vault_token_names env vault_name =
     mbind (get_vault env vault_name) (\<lambda>vault.
     mbind (get_token_by_ref_from_cache env (Some (vlt_vault_token_ref vault))) (\<lambda>vt_token.
       case vlt_strategy vault of
         VaultStrategy_StakeLpCompoundRewards _ _ pool_ref _ _ _ _ _ _ _ _ _ _ _ _ \<Rightarrow>
           mbind (get_pool_by_ref env pool_ref) (\<lambda>pool.
           mbind (get_token_by_ref_from_cache env (pl_token_a_ref pool)) (\<lambda>token_a.
           mbind (get_token_by_ref_from_cache env (pl_token_b_ref pool)) (\<lambda>token_b.
             mret (name_or_empty token_a, name_or_empty token_b, name_or_empty vt_token))))
       | _ \<Rightarrow> mpanic))"

text \<open>
  The staking account of a wallet in a farm, remembered per wallet and farm (both as strings): Raydium accounts are
  in the first map, Orca accounts in the third.
\<close>

definition cached_stake_account :: "nat \<Rightarrow> bytes \<Rightarrow> bytes \<Rightarrow> pubkey option client" where
  "cached_stake_account index wallet farm_key =
     mget (\<lambda>s. case map_of (fc_stake_accounts s ! index) wallet of
                  Some addr_map \<Rightarrow> map_of addr_map farm_key
                | None \<Rightarrow> None)"

definition put_stake_account :: "nat \<Rightarrow> bytes \<Rightarrow> bytes \<Rightarrow> pubkey \<Rightarrow> FarmClient \<Rightarrow> FarmClient" where
  "put_stake_account index wallet farm_key acc_address s =
     (let maps = fc_stake_accounts s ! index;
          user_acc_map = (case map_of maps wallet of Some u \<Rightarrow> u | None \<Rightarrow> [])
      in s\<lparr> fc_stake_accounts := (fc_stake_accounts s)
             [index := AList.update wallet (AList.update farm_key acc_address user_acc_map) maps] \<rparr>)"

text \<open>A wallet that is not known gets an empty map.\<close>

definition open_stake_accounts :: "bytes \<Rightarrow> FarmClient \<Rightarrow> FarmClient" where
  "open_stake_accounts wallet s =
     (let maps = fc_stake_accounts s ! 0
      in if map_of maps wallet = None
         then s\<lparr> fc_stake_accounts := (fc_stake_accounts s)[0 := AList.update wallet [] maps] \<rparr> else s)"

definition update_stake_accounts_cache :: "ClientEnv \<Rightarrow> pubkey \<Rightarrow> bytes \<Rightarrow> bytes \<Rightarrow> pubkey \<Rightarrow> unit client" where
  "update_stake_accounts_cache env wallet_address farm_name farm_key acc_address =
     mbind (get_farm env farm_name) (\<lambda>farm.
       let index = (case frm_route farm of FarmRoute_Raydium _ _ _ _ _ \<Rightarrow> 0 | FarmRoute_Orca _ _ _ _ _ \<Rightarrow> 2)
       in mput (put_stake_account index (ce_key_to_string env wallet_address) farm_key acc_address))"

definition stake_info_farm_id :: "u16 \<Rightarrow> bytes \<Rightarrow> pubkey result" where
  "stake_info_farm_id version data =
     (if version \<ge> 4 then bind (RaydiumUserStakeInfoV4_unpack data) (\<lambda>i. Ok (si4_farm_id i))
      else bind (RaydiumUserStakeInfo_unpack data) (\<lambda>i. Ok (si_farm_id i)))"

definition get_raydium_stake_account :: "ClientEnv \<Rightarrow> pubkey \<Rightarrow> bytes \<Rightarrow> pubkey client" where
  "get_raydium_stake_account env wallet_address farm_name =
     mbind (get_farm env farm_name) (\<lambda>farm.
     mbind (case frm_route farm of FarmRoute_Raydium farm_id _ _ _ _ \<Rightarrow> mret farm_id | _ \<Rightarrow> mpanic) (\<lambda>farm_id.
       let farm_key = ce_key_to_string env farm_id; user_acc_str = ce_key_to_string env wallet_address
       in
         mbind (cached_stake_account 0 user_acc_str farm_key) (\<lambda>cached.
           case cached of
             Some stake_acc \<Rightarrow> mret stake_acc
           | None \<Rightarrow>
               mbind (get_accounts_with_filter env (frm_farm_program_id farm) 40 wallet_address) (\<lambda>acc_vec.
               mbind (mput (open_stake_accounts user_acc_str)) (\<lambda>_.
               mbind (mfoldl (\<lambda>stake_acc (stake_acc_key, data).
                        mbind (mprog (stake_info_farm_id (frm_version farm) data)) (\<lambda>id.
                          let farm_id_str = ce_key_to_string env id
                          in mbind (mput (put_stake_account 0 user_acc_str farm_id_str stake_acc_key)) (\<lambda>_.
                               mret (if farm_id_str = farm_key then Some stake_acc_key else stake_acc))))
                      None acc_vec) (\<lambda>stake_acc.
                 case stake_acc of
                   Some acc \<Rightarrow> mret acc
                 | None \<Rightarrow>
                     mbind (program_address env [utf8_of ''Miner'', farm_id, wallet_address]
                              (frm_router_program_id farm)) (\<lambda>stake_acc.
                     mbind (update_stake_accounts_cache env wallet_address farm_name farm_key stake_acc) (\<lambda>_.
                       mret stake_acc))))))))"

definition get_orca_stake_account :: "ClientEnv \<Rightarrow> pubkey \<Rightarrow> bytes \<Rightarrow> pubkey client" where
  "get_orca_stake_account env wallet_address farm_name =
     mbind (get_farm env farm_name) (\<lambda>farm.
     mbind (case frm_route farm of FarmRoute_Orca farm_id _ _ _ _ \<Rightarrow> mret farm_id | _ \<Rightarrow> mpanic) (\<lambda>farm_id.
       let farm_key = ce_key_to_string env farm_id
       in
         mbind (cached_stake_account 2 (ce_key_to_string env wallet_address) farm_key) (\<lambda>cached.
           case cached of
             Some stake_acc \<Rightarrow> mret stake_acc
           | None \<Rightarrow>
               mbind (program_address env [farm_id, wallet_address, ce_spl_token env] (frm_farm_program_id farm)) (\<lambda>farmer.
               mbind (update_stake_accounts_cache env wallet_address farm_name farm_key farmer) (\<lambda>_.
                 mret farmer)))))"

definition get_stake_account :: "ClientEnv \<Rightarrow> pubkey \<Rightarrow> bytes \<Rightarrow> pubkey client" where
  "get_stake_account env wallet_address farm_name =
     mbind (get_farm env farm_name) (\<lambda>farm.
     (case (frm_route farm) of FarmRoute_Raydium _ _ _ _ _ \<Rightarrow> get_raydium_stake_account env wallet_address
         farm_name
       | FarmRoute_Orca _ _ _ _ _ \<Rightarrow> get_orca_stake_account env wallet_address farm_name))"

definition get_vault_user_info_account :: "ClientEnv \<Rightarrow> pubkey \<Rightarrow> bytes \<Rightarrow> pubkey client" where
  "get_vault_user_info_account env wallet_address vault_name =
     mbind (get_vault env vault_name) (\<lambda>vault.
     program_address env [(utf8_of ''user_info_account''), wallet_address,
         (vlt_name vault)] (vlt_vault_program_id vault))"

text \<open>The statistics of a user are records of a database in an account of its own.\<close>

fun read_vault_user_info :: "Record list \<Rightarrow> VaultUserInfo \<Rightarrow> VaultUserInfo" where
  "read_vault_user_info [] user_info = user_info"
| "read_vault_user_info (r # rs) user_info =
     read_vault_user_info rs
       (case rec_reference r of
          RU64 data \<Rightarrow>
            (if rec_name r = utf8_of ''LastDeposit'' then user_info\<lparr> vui_last_deposit_time := data \<rparr>
             else if rec_name r = utf8_of ''LastWithdrawal'' then user_info\<lparr> vui_last_withdrawal_time := data \<rparr>
             else if rec_name r = utf8_of ''TokenAAdded'' then user_info\<lparr> vui_tokens_a_added := data \<rparr>
             else if rec_name r = utf8_of ''TokenBAdded'' then user_info\<lparr> vui_tokens_b_added := data \<rparr>
             else if rec_name r = utf8_of ''TokenARemoved'' then user_info\<lparr> vui_tokens_a_removed := data \<rparr>
             else if rec_name r = utf8_of ''TokenBRemoved'' then user_info\<lparr> vui_tokens_b_removed := data \<rparr>
             else if rec_name r = utf8_of ''LpTokensDebt'' then user_info\<lparr> vui_lp_tokens_debt := data \<rparr>
             else user_info)
        | _ \<Rightarrow> user_info)"

definition read_records :: "ClientEnv \<Rightarrow> bytes \<Rightarrow> Record list client" where
  "read_records env data =
     (if \<not> RefDB_is_initialized (ce_utf8 env) data then mfail (ClientProgramError UninitializedAccount)
      else mprog (RefDB_read_all (ce_utf8 env) data))"

definition get_vault_user_info :: "ClientEnv \<Rightarrow> pubkey \<Rightarrow> bytes \<Rightarrow> VaultUserInfo client" where
  "get_vault_user_info env wallet_address vault_name =
     mbind (get_vault_user_info_account env wallet_address vault_name) (\<lambda>user_info_account.
     mbind (rpc_get_account_data env user_info_account) (\<lambda>data.
     mbind (read_records env data) (\<lambda>rec_vec.
       mret (read_vault_user_info rec_vec
         \<lparr> vui_last_deposit_time = 0, vui_last_withdrawal_time = 0, vui_tokens_a_added = 0, vui_tokens_b_added = 0,
           vui_tokens_a_removed = 0, vui_tokens_b_removed = 0, vui_lp_tokens_debt = 0 \<rparr>))))"

definition get_vault_multisig_account :: "ClientEnv \<Rightarrow> bytes \<Rightarrow> pubkey client" where
  "get_vault_multisig_account env vault_name =
     mbind (get_vault env vault_name) (\<lambda>vault.
     program_address env [(utf8_of ''multisig''), (vlt_name vault)] (vlt_vault_program_id vault))"

definition get_vault_active_multisig_account :: "ClientEnv \<Rightarrow> bytes \<Rightarrow> pubkey client" where
  "get_vault_active_multisig_account env vault_name =
     mbind (get_vault_multisig_account env vault_name) (\<lambda>vault_multisig_account.
     mbind (mtry (rpc_get_account_data env vault_multisig_account)) (\<lambda>r.
     case r of Some data \<Rightarrow> mbind (mprog (Multisig_unpack (ce_zero env) data)) (\<lambda>_.
     mret vault_multisig_account)
     | None \<Rightarrow> mret (ce_main_router_multisig env)))"

definition get_vault_admins :: "ClientEnv \<Rightarrow> bytes \<Rightarrow> Multisig client" where
  "get_vault_admins env vault_name =
     mbind (get_vault_active_multisig_account env vault_name) (\<lambda>vault_active_multisig_account.
     mbind (mtry (rpc_get_account_data env vault_active_multisig_account)) (\<lambda>r.
     case r of Some data \<Rightarrow> mprog (Multisig_unpack (ce_zero env) data)
     | None \<Rightarrow> mret (Multisig_default (ce_zero env) (ce_main_router_admin env))))"

section \<open>Funds\<close>

definition get_fund_multisig_account :: "ClientEnv \<Rightarrow> bytes \<Rightarrow> pubkey client" where
  "get_fund_multisig_account env fund_name =
     mbind (get_fund env fund_name) (\<lambda>fund.
     program_address env [(utf8_of ''multisig''), (fnd_name fund)] (fnd_fund_program_id fund))"

definition get_fund_active_multisig_account :: "ClientEnv \<Rightarrow> bytes \<Rightarrow> pubkey client" where
  "get_fund_active_multisig_account env fund_name =
     mbind (get_fund_multisig_account env fund_name) (\<lambda>fund_multisig_account.
     mbind (mtry (rpc_get_account_data env fund_multisig_account)) (\<lambda>r.
     case r of Some data \<Rightarrow> mbind (mprog (Multisig_unpack (ce_zero env) data)) (\<lambda>_.
     mret fund_multisig_account)
     | None \<Rightarrow> mret (ce_main_router_multisig env)))"

definition get_fund_admins :: "ClientEnv \<Rightarrow> bytes \<Rightarrow> Multisig client" where
  "get_fund_admins env fund_name =
     mbind (get_fund_active_multisig_account env fund_name) (\<lambda>fund_active_multisig_account.
     mbind (mtry (rpc_get_account_data env fund_active_multisig_account)) (\<lambda>r.
     case r of Some data \<Rightarrow> mprog (Multisig_unpack (ce_zero env) data)
     | None \<Rightarrow> mret (Multisig_default (ce_zero env) (ce_main_router_admin env))))"

definition is_wallet_single_fund_admin :: "ClientEnv \<Rightarrow> pubkey \<Rightarrow> bytes \<Rightarrow> bool client" where
  "is_wallet_single_fund_admin env wallet_address fund_name =
     mbind (get_fund_admins env fund_name) (\<lambda>multisig.
     mbind (if ((ms_num_signers multisig) = 1) then mbind (mindex (ms_signers multisig) 0) (\<lambda>item.
       mret (item = wallet_address)) else mret False) (\<lambda>b. mret b))"

definition get_fund_user_info_account :: "ClientEnv \<Rightarrow> pubkey \<Rightarrow> bytes \<Rightarrow> pubkey client" where
  "get_fund_user_info_account env wallet_address fund_name =
     mbind (get_fund env fund_name) (\<lambda>fund.
     program_address env [(utf8_of ''user_info_account''), wallet_address,
         (fnd_name fund)] (fnd_fund_program_id fund))"

fun read_fund_user_info :: "Record list \<Rightarrow> FundUserInfo \<Rightarrow> FundUserInfo" where
  "read_fund_user_info [] fund_user_info = fund_user_info"
| "read_fund_user_info (r # rs) fund_user_info =
     read_fund_user_info rs
       (case rec_reference r of
          RU64 data \<Rightarrow>
            (if rec_name r = utf8_of ''VirtualTokensBalance''
             then fund_user_info\<lparr> fui_virtual_tokens_balance := data \<rparr> else fund_user_info)
        | _ \<Rightarrow> fund_user_info)"

definition get_fund_user_info :: "ClientEnv \<Rightarrow> pubkey \<Rightarrow> bytes \<Rightarrow> FundUserInfo client" where
  "get_fund_user_info env wallet_address fund_name =
     mbind (get_fund_user_info_account env wallet_address fund_name) (\<lambda>user_info_account.
     mbind (rpc_get_account_data env user_info_account) (\<lambda>data.
     mbind (read_records env data) (\<lambda>rec_vec.
       mret (read_fund_user_info rec_vec \<lparr> fui_virtual_tokens_balance = 0 \<rparr>))))"

definition get_all_fund_user_infos :: "ClientEnv \<Rightarrow> pubkey \<Rightarrow> FundUserInfo list client" where
  "get_all_fund_user_infos env wallet_address =
     mbind (get_funds env) (\<lambda>funds. mmap (get_fund_user_info env wallet_address) (map fst funds))"

definition get_fund_user_requests_account :: "ClientEnv \<Rightarrow> pubkey \<Rightarrow> bytes \<Rightarrow> bytes \<Rightarrow> pubkey client" where
  "get_fund_user_requests_account env wallet_address fund_name token_name =
     mbind (get_fund env fund_name) (\<lambda>fund.
     mbind (get_token env token_name) (\<lambda>token.
     program_address env [(utf8_of ''user_requests_account''), (tok_name token), wallet_address,
         (fnd_name fund)] (fnd_fund_program_id fund)))"

definition get_fund_user_requests :: "ClientEnv \<Rightarrow> pubkey \<Rightarrow> bytes \<Rightarrow> bytes \<Rightarrow> FundUserRequests client" where
  "get_fund_user_requests env wallet_address fund_name token_name =
     mbind (get_fund_user_requests_account env wallet_address fund_name token_name) (\<lambda>user_requests_account.
     mbind (rpc_get_account_data env user_requests_account) (\<lambda>data.
     mprog (FundUserRequests_unpack (ce_utf8 env) data)))"

text \<open>The accounts of a fund that carry a discriminator, decoded.\<close>

definition fund_accounts :: "ClientEnv \<Rightarrow> u64 \<Rightarrow> (bytes \<Rightarrow> 'a result) \<Rightarrow> bytes \<Rightarrow> 'a list client" where
  "fund_accounts env discriminator unpack fund_name =
     mbind (get_fund env fund_name) (\<lambda>fund.
     mbind (get_fund_ref env fund_name) (\<lambda>fund_ref.
     mbind (get_accounts_with_filter env (fnd_fund_program_id fund) 0 (to_le_bytes discriminator @ fund_ref)) (\<lambda>acc_vec.
       mmap (\<lambda>(_, data). mprog (unpack data)) acc_vec)))"

definition get_all_fund_user_requests :: "ClientEnv \<Rightarrow> bytes \<Rightarrow> FundUserRequests list client" where
  "get_all_fund_user_requests env fund_name =
     fund_accounts env DISCRIMINATOR_FUND_USER_REQUESTS (FundUserRequests_unpack (ce_utf8 env)) fund_name"

definition get_fund_custodies :: "ClientEnv \<Rightarrow> bytes \<Rightarrow> FundCustody list client" where
  "get_fund_custodies env fund_name =
     mbind (fund_accounts env DISCRIMINATOR_FUND_CUSTODY FundCustody_unpack fund_name) (\<lambda>res.
       mret (sort_key fcu_custody_id res))"

definition get_fund_vaults :: "ClientEnv \<Rightarrow> bytes \<Rightarrow> FundVault list client" where
  "get_fund_vaults env fund_name =
     mbind (fund_accounts env DISCRIMINATOR_FUND_VAULT FundVault_unpack fund_name) (\<lambda>res.
       mret (sort_key fva_vault_id res))"

definition find_funds :: "ClientEnv \<Rightarrow> bytes \<Rightarrow> Fund list client" where
  "find_funds env vault_name_pattern =
     mbind (get_funds env) (\<lambda>funds.
     mbind (mfoldl (\<lambda>res (fund_name, fund).
              mbind (get_fund_vaults env fund_name) (\<lambda>vaults.
                mfoldl (\<lambda>res vault.
                  mbind (mtry (get_vault_by_ref env (fva_vault_ref vault))) (\<lambda>r.
                    mret (case r of
                            Some v \<Rightarrow> if str_contains (vlt_name v) vault_name_pattern then res @ [fund] else res
                          | None \<Rightarrow> res))) res vaults)) [] funds) (\<lambda>res.
       found_by_version fnd_version (utf8_of ''Funds with Vault name pattern '' @ vault_name_pattern) res))"

definition get_fund_assets_account :: "ClientEnv \<Rightarrow> bytes \<Rightarrow> FundAssetType \<Rightarrow> pubkey client" where
  "get_fund_assets_account env fund_name asset_type =
     mbind (get_fund env fund_name) (\<lambda>fund.
     (case asset_type of FundAssetType_Vault \<Rightarrow> program_address env [(utf8_of ''vaults_assets_info''),
         (fnd_name fund)] (fnd_fund_program_id fund)
       | FundAssetType_Custody \<Rightarrow> program_address env [(utf8_of ''custodies_assets_info''),
           (fnd_name fund)] (fnd_fund_program_id fund)))"

definition get_fund_assets :: "ClientEnv \<Rightarrow> bytes \<Rightarrow> FundAssetType \<Rightarrow> FundAssets client" where
  "get_fund_assets env fund_name asset_type =
     mbind (get_fund_assets_account env fund_name asset_type) (\<lambda>assets_account.
     mbind (rpc_get_account_data env assets_account) (\<lambda>data.
     mprog (FundAssets_unpack data)))"

definition get_fund_custody_token_account ::
  "ClientEnv \<Rightarrow> bytes \<Rightarrow> bytes \<Rightarrow> FundCustodyType \<Rightarrow> pubkey client" where
  "get_fund_custody_token_account env fund_name token_name custody_type =
     mbind (get_fund env fund_name) (\<lambda>fund.
     mbind (get_token env token_name) (\<lambda>token.
     (if (case custody_type of FundCustodyType_DepositWithdraw \<Rightarrow> True | _ \<Rightarrow> False) then program_address env
         [(utf8_of ''fund_wd_custody_account''), (tok_name token), (fnd_name fund)] (fnd_fund_program_id fund)
       else get_associated_token_address env (fnd_fund_authority fund) token_name)))"

definition get_fund_custody_fees_token_account ::
  "ClientEnv \<Rightarrow> bytes \<Rightarrow> bytes \<Rightarrow> FundCustodyType \<Rightarrow> pubkey client" where
  "get_fund_custody_fees_token_account env fund_name token_name custody_type =
     mbind (get_fund env fund_name) (\<lambda>fund.
     mbind (get_token env token_name) (\<lambda>token.
     let custody_seed_str = (case custody_type of FundCustodyType_DepositWithdraw \<Rightarrow> (utf8_of
         ''fund_wd_custody_fees_account'')
       | FundCustodyType_Trading \<Rightarrow> (utf8_of ''fund_td_custody_fees_account'')) in
     program_address env [custody_seed_str, (tok_name token), (fnd_name fund)] (fnd_fund_program_id fund)))"

definition get_fund_custody_account :: "ClientEnv \<Rightarrow> bytes \<Rightarrow> bytes \<Rightarrow> FundCustodyType \<Rightarrow> pubkey client" where
  "get_fund_custody_account env fund_name token_name custody_type =
     mbind (get_fund env fund_name) (\<lambda>fund.
     mbind (get_token env token_name) (\<lambda>token.
     let custody_seed_str = (case custody_type of FundCustodyType_DepositWithdraw \<Rightarrow> (utf8_of
         ''fund_wd_custody_info'')
       | FundCustodyType_Trading \<Rightarrow> (utf8_of ''fund_td_custody_info'')) in
     program_address env [custody_seed_str, (tok_name token), (fnd_name fund)] (fnd_fund_program_id fund)))"

definition get_fund_custody :: "ClientEnv \<Rightarrow> bytes \<Rightarrow> bytes \<Rightarrow> FundCustodyType \<Rightarrow> FundCustody client" where
  "get_fund_custody env fund_name token_name custody_type =
     mbind (get_fund_custody_account env fund_name token_name custody_type) (\<lambda>custody_info_account.
     mbind (rpc_get_account_data env custody_info_account) (\<lambda>data.
     mprog (FundCustody_unpack data)))"

definition get_fund_vault_account :: "ClientEnv \<Rightarrow> bytes \<Rightarrow> bytes \<Rightarrow> FundVaultType \<Rightarrow> pubkey client" where
  "get_fund_vault_account env fund_name vault_name vault_type =
     mbind (get_fund env fund_name) (\<lambda>fund.
     let vault_seed_str = (case vault_type of FundVaultType_Vault \<Rightarrow> (utf8_of ''fund_vault_info'')
       | FundVaultType_Pool \<Rightarrow> (utf8_of ''fund_pool_info'')
       | FundVaultType_Farm \<Rightarrow> (utf8_of ''fund_farm_info'')) in
     program_address env [vault_seed_str, vault_name, fund_name] (fnd_fund_program_id fund))"

definition get_fund_vault :: "ClientEnv \<Rightarrow> bytes \<Rightarrow> bytes \<Rightarrow> FundVaultType \<Rightarrow> FundVault client" where
  "get_fund_vault env fund_name vault_name vault_type =
     mbind (get_fund_vault_account env fund_name vault_name vault_type) (\<lambda>vault_info_account.
     mbind (rpc_get_account_data env vault_info_account) (\<lambda>data.
     mprog (FundVault_unpack data)))"

end
