(* ===== verification/Client_Chain.thy ===== *)
theory Client_Chain
  imports Client_Api RefDB_Properties Wire_Properties
begin

text \<open>
  The caches of the client are memoisation: while the chain stays as it is, a lookup through the cache gives what
  reading the reference database and the account gives, whatever has been cached before and however often the
  entries went stale in between. The laws of a kind of metadata are a locale; the five kinds are its instances.
\<close>

section \<open>What is on chain\<close>

text \<open>The node answers every request from the same accounts.\<close>

definition frozen :: "ClientEnv \<Rightarrow> (pubkey \<Rightarrow> bytes option) \<Rightarrow> bool" where
  "frozen env chain \<longleftrightarrow>
     (\<forall>i key. case chain key of
                Some data \<Rightarrow> ce_get_account_data env i key = Inr data
              | None \<Rightarrow> \<exists>e. ce_get_account_data env i key = Inl e) \<and>
     (\<forall>i keys. ce_get_multiple_accounts env i keys = Inr (map chain keys))"

text \<open>The reference database of a kind: its header and the addresses by name.\<close>

definition directory :: "ClientEnv \<Rightarrow> (pubkey \<Rightarrow> bytes option) \<Rightarrow> 'a Kind \<Rightarrow> (Header \<times> (bytes \<times> pubkey) list) option" where
  "directory env chain kd =
     (case find_refdb_pda env (storage_name (kd_storage kd)) of
        COk refdb \<Rightarrow>
          (case chain refdb of
             Some data \<Rightarrow>
               if RefDB_is_initialized (ce_utf8 env) data then
                 (case (RefDB_read_all (ce_utf8 env) data, RefDB_get_storage_header (ce_utf8 env) data) of
                    (Ok recs, Ok header) \<Rightarrow> Some (header, pubkey_map recs [])
                  | _ \<Rightarrow> None)
               else None
           | None \<Rightarrow> None)
      | _ \<Rightarrow> None)"

text \<open>The object a full name stands for, and the full name of a name without version.\<close>

definition stored ::
  "ClientEnv \<Rightarrow> (pubkey \<Rightarrow> bytes option) \<Rightarrow> 'a Kind \<Rightarrow> (bytes \<times> pubkey) list \<Rightarrow> bytes \<Rightarrow> 'a option" where
  "stored env chain kd refs full =
     (case map_of refs full of
        Some key \<Rightarrow>
          (case chain key of
             Some data \<Rightarrow> (case kd_unpack kd (ce_utf8 env) data of Ok x \<Rightarrow> Some x | _ \<Rightarrow> None)
           | None \<Rightarrow> None)
      | None \<Rightarrow> None)"

definition latest_names :: "'a Kind \<Rightarrow> (bytes \<times> pubkey) list \<Rightarrow> (bytes \<times> bytes) list cres" where
  "latest_names kd refs = (if kd_versioned kd then reinsert_latest_versions refs [] else COk [])"

definition full_name :: "(bytes \<times> bytes) list \<Rightarrow> bytes \<Rightarrow> bytes" where
  "full_name latest name = (case map_of latest name of Some full \<Rightarrow> full | None \<Rightarrow> name)"

section \<open>Lemmas on the primitives\<close>

lemmas client_simps = mbind_def mret_def mfail_def mlift_def mget_def mput_def now_def mpanic_def mprog_def mok_or_def

lemma map_le_updI: "m \<subseteq>\<^sub>m f \<Longrightarrow> f k = Some v \<Longrightarrow> m(k \<mapsto> v) \<subseteq>\<^sub>m f"
  by (auto simp: map_le_def)

lemma map_of_foldl_update:
  "map_of (foldl (\<lambda>d (name, full, _). AList.update name full d) dest xs) =
     map_of dest ++ map_of (rev (map (\<lambda>(name, full, _). (name, full)) xs))"
proof (induction xs arbitrary: dest)
  case (Cons x xs)
  obtain n f v where "x = (n, f, v)" by (cases x)
  then show ?case
    by (simp add: Cons.IH update_conv' fun_eq_iff map_add_def split: option.split)
qed simp

lemma reinsert_absorbs:
  assumes "reinsert_latest_versions refs [] = COk latest" and "map_of dest \<subseteq>\<^sub>m map_of latest"
  shows "\<exists>latest'. reinsert_latest_versions refs dest = COk latest' \<and> map_of latest' = map_of latest"
proof -
  obtain xs where xs: "latest_loop refs [] = COk xs"
    using assms(1) by (cases "latest_loop refs []") (auto simp: reinsert_latest_versions_def)
  have "map_of latest = map_of (rev (map (\<lambda>(name, full, _). (name, full)) xs))"
    using assms(1) xs map_of_foldl_update [of "[]" xs] by (simp add: reinsert_latest_versions_def)
  moreover have "map_of dest ++ map_of latest = map_of latest"
    using assms(2) by (simp add: map_add_subsumed1)
  ultimately show ?thesis
    using xs map_of_foldl_update [of dest xs] by (simp add: reinsert_latest_versions_def)
qed

lemma frozen_account:
  assumes "frozen env chain"
  obtains (found) data where "chain key = Some data"
      and "rpc_get_account_data env key s = (COk data, s\<lparr> fc_io := fc_io s + 1 \<rparr>)"
    | (missing) e where "chain key = None"
      and "rpc_get_account_data env key s = (CErr e, s\<lparr> fc_io := fc_io s + 1 \<rparr>)"
proof -
  have *: "case chain key of
             Some data \<Rightarrow> ce_get_account_data env (fc_io s) key = Inr data
           | None \<Rightarrow> \<exists>e. ce_get_account_data env (fc_io s) key = Inl e"
    using assms unfolding frozen_def by blast
  show thesis
  proof (cases "chain key")
    case None
    with * obtain e where "ce_get_account_data env (fc_io s) key = Inl e" by auto
    then show thesis using missing None by (simp add: rpc_get_account_data_def of_rpc_def)
  next
    case (Some data)
    with * show thesis using found by (simp add: rpc_get_account_data_def of_rpc_def)
  qed
qed

lemma get_refdb_pubkey_map_frozen:
  assumes "frozen env chain" and "directory env chain kd = Some (header, refs)"
  shows "get_refdb_pubkey_map env (storage_name (kd_storage kd)) s =
           (COk (header, refs), s\<lparr> fc_io := fc_io s + 1 \<rparr>)"
  using assms
  by (auto simp: directory_def frozen_def get_refdb_pubkey_map_def client_simps rpc_get_account_data_def of_rpc_def
      split: cres.splits option.splits if_splits result.splits)

section \<open>Memoisation\<close>

text \<open>The accessors of a kind are independent parts of the client.\<close>

locale metadata_kind =
  fixes kd :: "'a Kind"
  assumes objects_get [simp]: "kd_objects kd (kd_map_objects kd f s) = f (kd_objects kd s)"
    and refs_get [simp]: "kd_refs kd (kd_map_refs kd g s) = g (kd_refs kd s)"
    and latest_get: "kd_versioned kd \<Longrightarrow> kd_latest kd (kd_map_latest kd l s) = l (kd_latest kd s)"
    and objects_other [simp]: "kd_objects kd (kd_map_refs kd g s) = kd_objects kd s"
      "kd_objects kd (kd_map_latest kd l s) = kd_objects kd s" "kd_objects kd (s\<lparr> fc_io := n \<rparr>) = kd_objects kd s"
    and refs_other [simp]: "kd_refs kd (kd_map_objects kd f s) = kd_refs kd s"
      "kd_refs kd (kd_map_latest kd l s) = kd_refs kd s" "kd_refs kd (s\<lparr> fc_io := n \<rparr>) = kd_refs kd s"
    and latest_other [simp]: "kd_latest kd (kd_map_objects kd f s) = kd_latest kd s"
      "kd_latest kd (kd_map_refs kd g s) = kd_latest kd s" "kd_latest kd (s\<lparr> fc_io := n \<rparr>) = kd_latest kd s"
    and unversioned: "\<not> kd_versioned kd \<Longrightarrow> kd_latest kd s = []"

text \<open>The caches hold nothing that the chain does not.\<close>

definition loaded :: "'a Kind \<Rightarrow> Header \<Rightarrow> (bytes \<times> pubkey) list \<Rightarrow> (bytes \<times> bytes) list \<Rightarrow> FarmClient \<Rightarrow> bool" where
  "loaded kd header refs latest s \<longleftrightarrow>
     c_data (kd_refs kd s) = refs \<and> c_counter (kd_refs kd s) = hdr_counter header \<and>
     map_of (kd_latest kd s) = map_of latest"

definition unloaded :: "'a Kind \<Rightarrow> (bytes \<times> bytes) list \<Rightarrow> FarmClient \<Rightarrow> bool" where
  "unloaded kd latest s \<longleftrightarrow>
     c_data (kd_refs kd s) = [] \<and> c_counter (kd_refs kd s) = 0 \<and> map_of (kd_latest kd s) \<subseteq>\<^sub>m map_of latest"

definition coherent ::
  "ClientEnv \<Rightarrow> (pubkey \<Rightarrow> bytes option) \<Rightarrow> 'a Kind \<Rightarrow> Header \<Rightarrow> (bytes \<times> pubkey) list \<Rightarrow> (bytes \<times> bytes) list \<Rightarrow>
     FarmClient \<Rightarrow> bool" where
  "coherent env chain kd header refs latest s \<longleftrightarrow>
     (loaded kd header refs latest s \<or> unloaded kd latest s) \<and>
     map_of (c_data (kd_objects kd s)) \<subseteq>\<^sub>m stored env chain kd refs"

context metadata_kind
begin

lemma reload_refs_loads:
  assumes chain: "frozen env chain" "directory env chain kd = Some (header, refs)"
    and latest: "latest_names kd refs = COk latest" and counter: "hdr_counter header \<noteq> 0"
    and coh: "coherent env chain kd header refs latest s"
  shows "\<exists>b s'. reload_refs_if_stale env kd False s = (COk b, s') \<and> loaded kd header refs latest s' \<and>
           map_of (c_data (kd_objects kd s')) \<subseteq>\<^sub>m stored env chain kd refs"
proof -
  note db = get_refdb_pubkey_map_frozen [OF chain]
  have objs: "map_of (c_data (kd_objects kd s)) \<subseteq>\<^sub>m stored env chain kd refs"
    using coh by (simp add: coherent_def)
  consider (old) "loaded kd header refs latest s" | (new) "unloaded kd latest s"
    using coh by (auto simp: coherent_def)
  then show ?thesis
  proof cases
    case old
    then show ?thesis
      using objs
      by (auto simp: reload_refs_if_stale_def Cache_is_stale_def client_simps db loaded_def Cache_is_updated_def
          Cache_mark_not_stale_def)
  next
    case new
    then have upd: "c_data (kd_refs kd s) = []" "Cache_is_updated (kd_refs kd s) (hdr_counter header)"
      "map_of (kd_latest kd s) \<subseteq>\<^sub>m map_of latest"
      using counter by (auto simp: unloaded_def Cache_is_updated_def)
    show ?thesis
    proof (cases "kd_versioned kd")
      case True
      then obtain latest' where l: "reinsert_latest_versions refs (kd_latest kd s) = COk latest'"
        "map_of latest' = map_of latest"
        using latest reinsert_absorbs [OF _ upd(3)] by (auto simp: latest_names_def)
      then show ?thesis
        using upd True
        by (auto simp: reload_refs_if_stale_def Cache_is_stale_def client_simps db loaded_def latest_get
            Cache_set_def Cache_reset_def)
    next
      case False
      then show ?thesis
        using upd latest unversioned
        by (auto simp: reload_refs_if_stale_def Cache_is_stale_def client_simps db loaded_def latest_names_def
            Cache_set_def Cache_reset_def)
    qed
  qed
qed

lemma fetch_object_memo:
  assumes frozen: "frozen env chain" and loaded: "loaded kd header refs latest s"
    and objs: "map_of (c_data (kd_objects kd s)) \<subseteq>\<^sub>m stored env chain kd refs"
    and run: "fetch_object env kd name s = (r, s')"
  shows "(r = COk x \<longleftrightarrow> stored env chain kd refs (full_name latest name) = Some x) \<and>
         coherent env chain kd header refs latest s'"
proof -
  let ?full = "full_name latest name"
  have full: "resolve kd s name = ?full" using loaded by (simp add: resolve_def full_name_def loaded_def)
  have refs: "c_data (kd_refs kd s) = refs" using loaded by (simp add: loaded_def)
  have coh: "coherent env chain kd header refs latest s" using loaded objs by (simp add: coherent_def)
  show ?thesis
  proof (cases "map_of (c_data (kd_objects kd s)) ?full")
    case (Some y)
    then have "stored env chain kd refs ?full = Some y" using objs by (auto simp: map_le_def dom_def)
    then show ?thesis using run Some coh by (auto simp: fetch_object_def client_simps full)
  next
    case None
    show ?thesis
    proof (cases "map_of refs ?full")
      case (Some key)
      note miss = \<open>map_of (c_data (kd_objects kd s)) ?full = None\<close>
      from frozen show ?thesis
      proof (cases rule: frozen_account [where key = key and s = s])
        case (found data)
        then show ?thesis
        proof (cases "kd_unpack kd (ce_utf8 env) data")
          case (Ok y)
          then have y: "stored env chain kd refs ?full = Some y" using Some found by (simp add: stored_def)
          then show ?thesis
            using run coh miss Some found Ok objs loaded
            by (auto simp: fetch_object_def client_simps load_by_ref_def full refs coherent_def loaded_def
                update_conv' map_le_updI)
        qed (use run loaded objs miss Some in \<open>auto simp: fetch_object_def client_simps load_by_ref_def full refs coherent_def loaded_def stored_def\<close>)
      next
        case (missing e)
        then show ?thesis
          using run loaded objs miss Some
          by (auto simp: fetch_object_def client_simps load_by_ref_def full refs coherent_def loaded_def stored_def)
      qed
    next
      case None
      then show ?thesis
        using run coh \<open>map_of (c_data (kd_objects kd s)) ?full = None\<close>
        by (auto simp: fetch_object_def client_simps full refs not_found_def stored_def)
    qed
  qed
qed


text \<open>The lookup through the cache.\<close>

lemma get_object_memo:
  assumes chain: "frozen env chain" "directory env chain kd = Some (header, refs)"
    and latest: "latest_names kd refs = COk latest" and counter: "hdr_counter header \<noteq> 0"
    and coh: "coherent env chain kd header refs latest s"
    and run: "get_object env kd False name s = (r, s')"
  shows "(r = COk x \<longleftrightarrow> stored env chain kd refs (full_name latest name) = Some x) \<and>
         coherent env chain kd header refs latest s'"
proof -
  obtain b t where t: "reload_refs_if_stale env kd False s = (COk b, t)" "loaded kd header refs latest t"
    "map_of (c_data (kd_objects kd t)) \<subseteq>\<^sub>m stored env chain kd refs"
    using reload_refs_loads [OF chain latest counter coh] by blast
  then have "fetch_object env kd name t = (r, s')"
    using run by (simp add: get_object_def mbind_def)
  then show ?thesis using fetch_object_memo [OF chain(1) t(2,3)] by blast
qed

lemma get_object_ref_memo:
  assumes chain: "frozen env chain" "directory env chain kd = Some (header, refs)"
    and latest: "latest_names kd refs = COk latest" and counter: "hdr_counter header \<noteq> 0"
    and coh: "coherent env chain kd header refs latest s"
    and run: "get_object_ref env kd name s = (r, s')"
  shows "(r = COk key \<longleftrightarrow> map_of refs (full_name latest name) = Some key) \<and>
         coherent env chain kd header refs latest s'"
proof -
  obtain b t where t: "reload_refs_if_stale env kd False s = (COk b, t)" "loaded kd header refs latest t"
    "map_of (c_data (kd_objects kd t)) \<subseteq>\<^sub>m stored env chain kd refs"
    using reload_refs_loads [OF chain latest counter coh] by blast
  have "resolve kd t name = full_name latest name" "c_data (kd_refs kd t) = refs"
    using t(2) by (simp_all add: resolve_def full_name_def loaded_def)
  then show ?thesis
    using run t by (auto simp: get_object_ref_def client_simps not_found_def coherent_def split: option.splits)
qed

end

section \<open>Histories of lookups\<close>

text \<open>
  The lookups of one kind; \<open>listed\<close> says whether the listing of all objects may occur. A history starts with a new
  client and looks up anything of any kind, or forgets what is cached.
\<close>

inductive kind_lookup :: "ClientEnv \<Rightarrow> 'a Kind \<Rightarrow> bool \<Rightarrow> FarmClient \<Rightarrow> FarmClient \<Rightarrow> bool" for env kd listed s where
  by_name: "get_object env kd False name s = (r, s') \<Longrightarrow> kind_lookup env kd listed s s'"
| ref: "get_object_ref env kd name s = (r, s') \<Longrightarrow> kind_lookup env kd listed s s'"
| refs: "get_object_refs env kd s = (r, s') \<Longrightarrow> kind_lookup env kd listed s s'"
| name_of: "get_object_name env kd key s = (r, s') \<Longrightarrow> kind_lookup env kd listed s s'"
| by_ref: "get_object_by_ref env kd key s = (r, s') \<Longrightarrow> kind_lookup env kd listed s s'"
| listing: "listed \<Longrightarrow> get_objects env kd s = (r, s') \<Longrightarrow> kind_lookup env kd listed s s'"

inductive lookups :: "ClientEnv \<Rightarrow> bool \<Rightarrow> FarmClient \<Rightarrow> bool" for env listed where
  start: "lookups env listed (FarmClient_default env)"
| pool: "lookups env listed s \<Longrightarrow> kind_lookup env pool_kind listed s s' \<Longrightarrow> lookups env listed s'"
| farm: "lookups env listed s \<Longrightarrow> kind_lookup env farm_kind True s s' \<Longrightarrow> lookups env listed s'"
| vault: "lookups env listed s \<Longrightarrow> kind_lookup env vault_kind True s s' \<Longrightarrow> lookups env listed s'"
| token: "lookups env listed s \<Longrightarrow> kind_lookup env token_kind True s s' \<Longrightarrow> lookups env listed s'"
| fund: "lookups env listed s \<Longrightarrow> kind_lookup env fund_kind True s s' \<Longrightarrow> lookups env listed s'"
| reset: "lookups env listed s \<Longrightarrow> reset_cache env s = (r, s') \<Longrightarrow> lookups env listed s'"

text \<open>A lookup of one kind leaves the caches of the others alone.\<close>

definition keeps :: "(FarmClient \<Rightarrow> 'v) \<Rightarrow> 'a client \<Rightarrow> bool" where
  "keeps view m \<longleftrightarrow> (\<forall>s. view (snd (m s)) = view s)"

lemma keepsD: "keeps view m \<Longrightarrow> m s = (r, s') \<Longrightarrow> view s' = view s"
  unfolding keeps_def by (metis snd_conv)

lemma keeps_mbind:
  assumes "keeps view m" and "\<And>x. keeps view (f x)"
  shows "keeps view (mbind m f)"
  unfolding keeps_def
proof
  fix s
  obtain r t where "m s = (r, t)" by fastforce
  moreover have "view t = view s" using keepsD [OF assms(1) calculation] .
  ultimately show "view (snd (mbind m f s)) = view s"
    using assms(2) by (cases r) (auto simp: mbind_def keeps_def)
qed

lemma keeps_Let: "keeps view (f x) \<Longrightarrow> keeps view (Let x f)" by simp

lemma keeps_if: "keeps view m \<Longrightarrow> keeps view n \<Longrightarrow> keeps view (if b then m else n)" by simp

lemma keeps_option: "keeps view m \<Longrightarrow> (\<And>x. keeps view (f x)) \<Longrightarrow> keeps view (case_option m f x)" by (cases x) simp_all

lemma keeps_prod: "(\<And>a b. keeps view (f a b)) \<Longrightarrow> keeps view (case_prod f p)" by (cases p) simp

lemma keeps_pure:
  "keeps view (mret x)" "keeps view (mfail e)" "keeps view (mlift c)" "keeps view (mget g)" "keeps view (not_found what name)"
  by (simp_all add: keeps_def client_simps not_found_def)

lemma keeps_mput: "(\<And>s. view (f s) = view s) \<Longrightarrow> keeps view (mput f)"
  by (simp add: keeps_def mput_def)

lemma keeps_io:
  assumes "\<And>s n. view (s\<lparr> fc_io := n \<rparr>) = view s"
  shows "keeps view (now env)" "keeps view (rpc_get_account_data env key)" "keeps view (rpc_get_multiple_accounts env keys)"
  using assms by (simp_all add: keeps_def now_def rpc_get_account_data_def rpc_get_multiple_accounts_def)

lemmas keeps_intros = keeps_mbind keeps_Let keeps_if keeps_option keeps_prod keeps_pure keeps_mput keeps_io

locale unrelated_kind =
  fixes kd :: "'a Kind" and view :: "FarmClient \<Rightarrow> 'v"
  assumes view_io: "view (s\<lparr> fc_io := n \<rparr>) = view s" and view_objects: "view (kd_map_objects kd f s) = view s"
    and view_refs: "view (kd_map_refs kd g s) = view s" and view_latest: "view (kd_map_latest kd l s) = view s"
begin

lemma keeps_db: "keeps view (get_refdb_pubkey_map env name)"
  unfolding get_refdb_pubkey_map_def by (intro keeps_intros view_io)

lemma keeps_reload: "keeps view (reload_refs_if_stale env kd borrowed)"
  unfolding reload_refs_if_stale_def Cache_is_stale_def
  by (intro keeps_intros keeps_db view_io view_objects view_refs view_latest)

lemma keeps_load_groups: "keeps view (load_groups env kd refs acc)"
proof (induction env kd refs acc rule: load_groups.induct)
  case (1 env kd refs acc)
  show ?case
    by (subst load_groups.simps, cases "refs = []") (auto intro!: keeps_intros view_io 1)
qed

lemma keeps_fetch: "keeps view (fetch_object env kd name)"
  unfolding fetch_object_def load_by_ref_def by (intro keeps_intros view_io view_objects)

lemma keeps_objects: "keeps view (get_objects env kd)"
  unfolding get_objects_def reload_objects_if_empty_def
  by (intro keeps_intros keeps_reload keeps_load_groups view_io view_objects)

lemma keeps_object: "keeps view (get_object env kd borrowed name)"
  unfolding get_object_def by (intro keeps_intros keeps_reload keeps_fetch)

lemma keeps_names:
  "keeps view (get_object_ref env kd name)" "keeps view (get_object_refs env kd)"
  "keeps view (get_object_name env kd key)" "keeps view (get_object_by_ref env kd key)"
  unfolding get_object_ref_def get_object_refs_def get_object_name_def get_object_by_ref_def
  by (intro keeps_intros keeps_reload keeps_db keeps_object)+

lemma view_lookup: "kind_lookup env kd listed s s' \<Longrightarrow> view s' = view s"
  by (induction rule: kind_lookup.induct)
    (auto dest: keepsD [OF keeps_object] keepsD [OF keeps_objects] keepsD [OF keeps_names(1)] keepsD [OF keeps_names(2)]
      keepsD [OF keeps_names(3)] keepsD [OF keeps_names(4)])

end

text \<open>The accounts of a listing, if every account carries the name it is registered under.\<close>

definition carry_names ::
  "ClientEnv \<Rightarrow> (pubkey \<Rightarrow> bytes option) \<Rightarrow> 'a Kind \<Rightarrow> (bytes \<times> pubkey) list \<Rightarrow> bool" where
  "carry_names env chain kd refs \<longleftrightarrow>
     (\<forall>(name, key) \<in> set refs. \<forall>data x. chain key = Some data \<and> kd_unpack kd (ce_utf8 env) data = Ok x \<longrightarrow> kd_name kd x = name)"

lemma of_program_COk [simp]: "of_program r = COk x \<longleftrightarrow> r = Ok x"
  by (cases r) (simp_all add: of_program_def)

lemma load_accounts_stored:
  assumes "distinct (map fst refs)" and "carry_names env chain kd refs" and "set keys \<subseteq> snd ` set refs"
    and "load_accounts env kd (zip (map chain keys) keys) acc = COk acc'"
    and "map_of acc \<subseteq>\<^sub>m stored env chain kd refs"
  shows "map_of acc' \<subseteq>\<^sub>m stored env chain kd refs"
  using assms(3-5)
proof (induction keys arbitrary: acc)
  case (Cons key keys)
  from Cons.prems(2) obtain data x where x: "chain key = Some data" "kd_unpack kd (ce_utf8 env) data = Ok x"
    "load_accounts env kd (zip (map chain keys) keys) (AList.update (kd_name kd x) x acc) = COk acc'"
    by (cases "chain key"; cases "kd_unpack kd (ce_utf8 env) (the (chain key))") (auto simp: of_program_def)
  from Cons.prems(1) obtain name where name: "(name, key) \<in> set refs" by auto
  then have "kd_name kd x = name" using assms(2) x(1,2) by (auto simp: carry_names_def)
  then have "stored env chain kd refs (kd_name kd x) = Some x"
    using name assms(1) x(1,2) by (simp add: stored_def)
  then have "map_of (AList.update (kd_name kd x) x acc) \<subseteq>\<^sub>m stored env chain kd refs"
    unfolding update_conv' by (rule map_le_updI [OF Cons.prems(3)])
  then show ?case using Cons.IH [OF _ x(3)] Cons.prems(1) by simp
qed simp

lemma load_groups_stored:
  assumes "frozen env chain" and "distinct (map fst all_refs)" and "carry_names env chain kd all_refs"
    and "set keys \<subseteq> snd ` set all_refs" and "load_groups env kd keys acc s = (COk acc', s')"
    and "map_of acc \<subseteq>\<^sub>m stored env chain kd all_refs"
  shows "map_of acc' \<subseteq>\<^sub>m stored env chain kd all_refs"
  using assms(4-6)
proof (induction "length keys" arbitrary: keys acc s rule: less_induct)
  case less
  show ?case
  proof (cases "keys = []")
    case True
    then show ?thesis using less.prems by (simp add: load_groups.simps mret_def)
  next
    case False
    have "rpc_get_multiple_accounts env (take 100 keys) s = (COk (map chain (take 100 keys)), s\<lparr> fc_io := fc_io s + 1 \<rparr>)"
      using assms(1) by (simp add: rpc_get_multiple_accounts_def frozen_def of_rpc_def)
    then obtain acc1 t where 1: "load_accounts env kd (zip (map chain (take 100 keys)) (take 100 keys)) acc = COk acc1"
      "load_groups env kd (drop 100 keys) acc1 t = (COk acc', s')"
      using less.prems(2) False
      by (subst (asm) load_groups.simps) (auto simp: mbind_def mlift_def split: cres.splits)
    have "set (take 100 keys) \<subseteq> snd ` set all_refs" "set (drop 100 keys) \<subseteq> snd ` set all_refs"
      using less.prems(1) set_take_subset set_drop_subset by fast+
    from load_accounts_stored [OF assms(2,3) this(1) 1(1) less.prems(3)] less.hyps [OF _ this(2) 1(2)] False
    show ?thesis by simp
  qed
qed

lemma load_groups_keeps: "load_groups env kd keys acc s = (r, s') \<Longrightarrow> \<exists>n. s' = s\<lparr> fc_io := n \<rparr>"
proof (induction env kd keys acc arbitrary: s rule: load_groups.induct)
  case (1 env kd keys acc)
  show ?case
  proof (cases "keys = []")
    case True
    then have "s' = s" using "1.prems" by (simp add: load_groups.simps mret_def)
    then show ?thesis by (intro exI [of _ "fc_io s"]) simp
  next
    case False
    let ?t = "s\<lparr> fc_io := fc_io s + 1 \<rparr>"
    obtain a where a: "rpc_get_multiple_accounts env (take 100 keys) s = (a, ?t)"
      by (simp add: rpc_get_multiple_accounts_def)
    have run: "(case a of COk accounts \<Rightarrow>
          (case load_accounts env kd (zip accounts (take 100 keys)) acc of
             COk acc' \<Rightarrow> load_groups env kd (drop 100 keys) acc' ?t
           | CErr e \<Rightarrow> (CErr e, ?t) | CPanic \<Rightarrow> (CPanic, ?t))
        | CErr e \<Rightarrow> (CErr e, ?t) | CPanic \<Rightarrow> (CPanic, ?t)) = (r, s')"
      using "1.prems" False a by (subst (asm) load_groups.simps, cases a) (auto simp: mbind_def mlift_def split: cres.splits)
    show ?thesis
    proof (cases "\<exists>accounts acc'. a = COk accounts \<and> load_accounts env kd (zip accounts (take 100 keys)) acc = COk acc'")
      case True
      then obtain acc' where "load_groups env kd (drop 100 keys) acc' ?t = (r, s')" using run by auto
      then show ?thesis using "1.IH" [OF False] by fastforce
    next
      case False
      then have "s' = ?t" using run by (auto split: cres.splits)
      then show ?thesis by blast
    qed
  qed
qed

lemma distinct_pubkey_map: "distinct (map fst acc) \<Longrightarrow> distinct (map fst (pubkey_map rs acc))"
  by (induction rs arbitrary: acc) (auto simp: distinct_update split: Reference.split)

lemma directory_distinct: "directory env chain kd = Some (header, refs) \<Longrightarrow> distinct (map fst refs)"
  by (auto simp: directory_def distinct_pubkey_map split: cres.splits option.splits if_splits result.splits)

lemma directory_read:
  assumes "frozen env chain" and "get_refdb_pubkey_map env (storage_name (kd_storage kd)) s = (COk (header, refs), s')"
  shows "directory env chain kd = Some (header, refs)"
proof -
  obtain refdb where refdb: "find_refdb_pda env (storage_name (kd_storage kd)) = COk refdb"
    using assms(2) by (auto simp: get_refdb_pubkey_map_def mbind_def mlift_def split: cres.splits)
  from assms(1) show ?thesis
  proof (cases rule: frozen_account [where key = refdb and s = s])
    case (found data)
    then show ?thesis using assms(2) refdb
      by (auto simp: directory_def get_refdb_pubkey_map_def client_simps split: cres.splits if_splits)
  next
    case (missing e)
    then show ?thesis using assms(2) refdb by (auto simp: get_refdb_pubkey_map_def client_simps)
  qed
qed

context metadata_kind
begin

lemma coherent_io: "coherent env chain kd header refs latest s \<Longrightarrow> coherent env chain kd header refs latest (s\<lparr> fc_io := n \<rparr>)"
  by (simp add: coherent_def loaded_def unloaded_def)

lemma lookup_coherent:
  assumes chain: "frozen env chain" "directory env chain kd = Some (header, refs)"
    and latest: "latest_names kd refs = COk latest" and counter: "hdr_counter header \<noteq> 0"
    and names: "listed \<longrightarrow> carry_names env chain kd refs"
    and coh: "coherent env chain kd header refs latest s" and run: "kind_lookup env kd listed s s'"
  shows "coherent env chain kd header refs latest s'"
proof -
  note reload = reload_refs_loads [OF chain latest counter]
  have coherent: "coherent env chain kd header refs latest t"
    if "loaded kd header refs latest t" "map_of (c_data (kd_objects kd t)) \<subseteq>\<^sub>m stored env chain kd refs" for t
    using that by (simp add: coherent_def)
  obtain b t where t: "reload_refs_if_stale env kd False s = (COk b, t)" "loaded kd header refs latest t"
    "map_of (c_data (kd_objects kd t)) \<subseteq>\<^sub>m stored env chain kd refs"
    using reload [OF coh] by blast
  have name_of: "coherent env chain kd header refs latest t'" if "get_object_name env kd key s = (r, t')" for key r t'
    using that t coherent [OF t(2,3)] by (auto simp: get_object_name_def client_simps not_found_def split: option.splits)
  from run show ?thesis
  proof cases
    case (by_name name r)
    then show ?thesis using get_object_memo [OF chain latest counter coh] by blast
  next
    case (ref name r)
    then show ?thesis using get_object_ref_memo [OF chain latest counter coh] by blast
  next
    case (refs r)
    then show ?thesis using t coherent [OF t(2,3)] coherent_io [OF coherent [OF t(2,3)]] get_refdb_pubkey_map_frozen [OF chain]
      by (auto simp: get_object_refs_def client_simps split: if_splits)
  next
    case (name_of key r)
    then show ?thesis using \<open>\<And>key r t'. get_object_name env kd key s = (r, t') \<Longrightarrow> _\<close> by blast
  next
    case (by_ref key r)
    obtain r1 t1 where 1: "get_object_name env kd key s = (r1, t1)" by fastforce
    then show ?thesis
      using by_ref \<open>\<And>key r t'. get_object_name env kd key s = (r, t') \<Longrightarrow> _\<close> [OF 1]
        get_object_memo [OF chain latest counter]
      by (cases r1) (auto simp: get_object_by_ref_def mbind_def)
  next
    case (listing r)
    have refs: "c_data (kd_refs kd t) = refs" using t(2) by (simp add: loaded_def)
    obtain r1 t1 where 1: "load_groups env kd (map snd refs) [] t = (r1, t1)" by fastforce
    then obtain n where n: "t1 = t\<lparr> fc_io := n \<rparr>" using load_groups_keeps by blast
    have "map_of objs \<subseteq>\<^sub>m stored env chain kd refs" if "r1 = COk objs" for objs
      using load_groups_stored [OF chain(1) directory_distinct [OF chain(2)], of kd "map snd refs" "[]" t objs t1]
        names listing(1) 1 that by simp
    then show ?thesis
      using listing(2) t(1) coherent [OF t(2,3)] coherent_io [OF coherent [OF t(2,3)]] 1 n refs t(2,3)
      by (cases r1) (auto simp: get_objects_def reload_objects_if_empty_def client_simps Let_def Cache_set_def
          coherent_def loaded_def split: if_splits)
  qed
qed

end

section \<open>The five kinds\<close>

interpretation funds: metadata_kind fund_kind
  by unfold_locales (simp_all add: fund_kind_def)

interpretation tokens: metadata_kind token_kind
  by unfold_locales (simp_all add: token_kind_def)

interpretation vaults: metadata_kind vault_kind
  by unfold_locales (simp_all add: vault_kind_def)

interpretation pools: metadata_kind pool_kind
  by unfold_locales (simp_all add: pool_kind_def)

interpretation farms: metadata_kind farm_kind
  by unfold_locales (simp_all add: farm_kind_def)

lemma coherent_default:
  "coherent env chain pool_kind header refs latest (FarmClient_default env')"
  "coherent env chain farm_kind header refs latest (FarmClient_default env')"
  "coherent env chain vault_kind header refs latest (FarmClient_default env')"
  "coherent env chain token_kind header refs latest' (FarmClient_default env')"
  "coherent env chain fund_kind header refs latest' (FarmClient_default env')"
  by (simp_all add: coherent_def unloaded_def FarmClient_default_def Cache_default_def kind_defs)

text \<open>What the client holds about pools is not touched by the lookups of the other kinds.\<close>

abbreviation pool_view :: "FarmClient \<Rightarrow> Pool Cache \<times> pubkey Cache \<times> (bytes \<times> bytes) list" where
  "pool_view s \<equiv> (fc_pools s, fc_pool_refs s, fc_latest_pools s)"

interpretation farm_lookups: unrelated_kind farm_kind pool_view
  by unfold_locales (simp_all add: farm_kind_def)

interpretation vault_lookups: unrelated_kind vault_kind pool_view
  by unfold_locales (simp_all add: vault_kind_def)

interpretation token_lookups: unrelated_kind token_kind pool_view
  by unfold_locales (simp_all add: token_kind_def)

interpretation fund_lookups: unrelated_kind fund_kind pool_view
  by unfold_locales (simp_all add: fund_kind_def)

lemma pool_kind_sel: "kd_storage pool_kind = SPool" "kd_unpack pool_kind = Pool_unpack" "kd_name pool_kind = pl_name"
  by (simp_all add: pool_kind_def)

lemma coherent_view:
  "pool_view s' = pool_view s \<Longrightarrow> coherent env chain pool_kind header refs latest s \<Longrightarrow>
    coherent env chain pool_kind header refs latest s'"
  by (simp add: coherent_def loaded_def unloaded_def pool_kind_def)

lemma coherent_lookups:
  assumes "frozen env chain" and "directory env chain pool_kind = Some (header, refs)"
    and "reinsert_latest_versions refs [] = COk latest" and "hdr_counter header \<noteq> 0"
    and "listed \<longrightarrow> carry_names env chain pool_kind refs" and "lookups env listed s"
  shows "coherent env chain pool_kind header refs latest s"
  using assms(6)
proof induction
  case start
  show ?case by (rule coherent_default(1))
next
  case (pool s s')
  have "latest_names pool_kind refs = COk latest" using assms(3) by (simp add: latest_names_def pool_kind_def)
  then show ?case using pools.lookup_coherent assms(1,2,4,5) pool by blast
next
  case (reset s r s')
  then show ?case
    by (auto simp: reset_cache_def client_simps coherent_def unloaded_def pool_kind_def Cache_reset_def)
next
  case (farm s s')
  then show ?case using coherent_view [OF farm_lookups.view_lookup] by blast
next
  case (vault s s')
  then show ?case using coherent_view [OF vault_lookups.view_lookup] by blast
next
  case (token s s')
  then show ?case using coherent_view [OF token_lookups.view_lookup] by blast
next
  case (fund s s')
  then show ?case using coherent_view [OF fund_lookups.view_lookup] by blast
qed


text \<open>
  The client on top of the reference database: what it reads as its directory is the map that the operations of
  \<open>RefDB\<close> maintain, and a lookup by name finds the newest version.
\<close>

section \<open>The directory is the map of the database\<close>

lemma map_of_pubkey_map:
  assumes "distinct (map rec_name rs)"
  shows "map_of (pubkey_map rs acc) nm = Some key \<longleftrightarrow>
     (\<exists>r\<in>set rs. rec_name r = nm \<and> rec_reference r = RPubkey key) \<or>
     map_of acc nm = Some key \<and> (\<forall>r\<in>set rs. \<forall>k. rec_name r = nm \<longrightarrow> rec_reference r \<noteq> RPubkey k)"
  using assms
proof (induction rs arbitrary: acc)
  case (Cons r rs)
  show ?case
  proof (cases "rec_reference r")
    case (RPubkey k)
    from Cons.prems have "rec_name r' \<noteq> rec_name r" if "r' \<in> set rs" for r' using that by (metis distinct.simps(2) image_eqI list.set_map list.simps(9))
    with RPubkey Cons show ?thesis by (auto simp: update_conv')
  qed (use Cons in auto)
qed simp

lemma header_readable:
  assumes inv: "refdb_inv utf8 t data" and name: "RefDB_get_name utf8 data = Ok nm"
  shows "\<exists>header. Header_unpack utf8 data = Ok header \<and> hdr_counter header = stored_counter data \<and>
    RefDB_is_initialized utf8 data"
proof -
  note d = refdb_invD [OF inv]
  have len: "73 \<le> length data" by (fact d(2))
  have rt: "ReferenceType_try_from_primitive (data ! 8) = Some t"
    using d(1) len
    by (auto simp: RefDB_get_reference_type_def result_simps check_data_len_def Header_LEN_def REF_TYPE_OFFSET_def
        split: if_splits option.splits)
  have nm: "unpack_array_string64 utf8 (slice 9 64 data) = Ok nm"
    using name len
    by (simp add: RefDB_get_name_def check_data_len_def array_ref_def Header_LEN_def NAME_OFFSET_def split: if_splits)
  let ?h = "\<lparr> hdr_counter = stored_counter data, hdr_active_records = stored_active data, hdr_reference_type = t,
               hdr_name = nm \<rparr>"
  have h: "Header_unpack utf8 data = Ok ?h"
    using len rt nm
    by (simp add: Header_unpack_def check_data_len_def array_ref_def Header_LEN_def byte_simps slice_nth
        stored_counter_def stored_active_def)
  have "unat (stored_active data) \<le> total_slots t data"
    using d(7) length_filter_le [of "\<lambda>i. slot_active (slot t data i)" "[0..<total_slots t data]"]
    by (simp add: slots_ok_def active_slots_def)
  then have "RefDB_is_initialized utf8 data"
    using h d by (simp add: RefDB_is_initialized_def RefDB_get_record_size_def total_slots_def usize_sub_def
        get_size_with_reference_def word_gt_0 Header_LEN_def)
  with h show ?thesis by auto
qed

lemma refdb_read_by_client:
  assumes frozen: "frozen env chain" and addr: "find_refdb_pda env refdb_name = COk refdb" and data: "chain refdb = Some data"
    and inv: "refdb_inv (ce_utf8 env) TPubkey data" and name: "RefDB_get_name (ce_utf8 env) data = Ok nm"
  shows "\<exists>header refs. get_refdb_pubkey_map env refdb_name s = (COk (header, refs), s\<lparr> fc_io := fc_io s + 1 \<rparr>) \<and>
    hdr_counter header \<noteq> 0 \<and> distinct (map fst refs) \<and>
    (\<forall>n key. map_of refs n = Some key \<longleftrightarrow>
       (\<exists>e. refdb_map TPubkey data n = Some e \<and> ent_reference e = RPubkey key))"
proof -
  obtain header where h: "Header_unpack (ce_utf8 env) data = Ok header" "hdr_counter header = stored_counter data"
    "RefDB_is_initialized (ce_utf8 env) data"
    using header_readable [OF inv name] by blast
  obtain rs where rs: "RefDB_read_all (ce_utf8 env) data = Ok rs" "distinct (map rec_name rs)"
    "\<And>n e. refdb_map TPubkey data n = Some e \<longleftrightarrow> (\<exists>idx. entry_record n e idx \<in> set rs)"
    using refdb_read_all_correct [OF inv] by blast
  from frozen have "get_refdb_pubkey_map env refdb_name s = (COk (header, pubkey_map rs []), s\<lparr> fc_io := fc_io s + 1 \<rparr>)"
    using addr data h rs(1)
    by (cases rule: frozen_account [where key = refdb and s = s])
      (simp_all add: get_refdb_pubkey_map_def client_simps RefDB_get_storage_header_def of_program_def)
  moreover have "distinct (map fst (pubkey_map rs []))" by (rule distinct_pubkey_map) simp
  moreover have "hdr_counter header \<noteq> 0" using h(2) refdb_invD(4) [OF inv] by simp
  moreover have "map_of (pubkey_map rs []) n = Some key \<longleftrightarrow>
      (\<exists>e. refdb_map TPubkey data n = Some e \<and> ent_reference e = RPubkey key)" for n key
  proof
    assume "map_of (pubkey_map rs []) n = Some key"
    then obtain r where r: "r \<in> set rs" "rec_name r = n" "rec_reference r = RPubkey key"
      using map_of_pubkey_map [OF rs(2)] by auto
    let ?e = "\<lparr> ent_counter = rec_counter r, ent_tag = rec_tag r, ent_reference = rec_reference r \<rparr>"
    have "entry_record n ?e (rec_index r) = r" using r(2) by (simp add: entry_record_def)
    then show "\<exists>e. refdb_map TPubkey data n = Some e \<and> ent_reference e = RPubkey key"
      using r rs(3) [of n ?e] by (metis entry.select_convs(3))
  next
    assume "\<exists>e. refdb_map TPubkey data n = Some e \<and> ent_reference e = RPubkey key"
    then obtain e idx where e: "entry_record n e idx \<in> set rs" "ent_reference e = RPubkey key"
      using rs(3) by blast
    have "rec_name (entry_record n e idx) = n" "rec_reference (entry_record n e idx) = RPubkey key"
      using e(2) by (simp_all add: entry_record_def)
    then show "map_of (pubkey_map rs []) n = Some key"
      using map_of_pubkey_map [OF rs(2)] e(1) by blast
  qed
  ultimately show ?thesis by blast
qed

section \<open>Latest versions\<close>

text \<open>For every name without version the entry with the greatest version among the names seen.\<close>

definition latest_inv :: "bytes set \<Rightarrow> (bytes \<times> bytes \<times> u16) list \<Rightarrow> bool" where
  "latest_inv names latest \<longleftrightarrow>
     distinct (map fst latest) \<and>
     (\<forall>base full v. map_of latest base = Some (full, v) \<longrightarrow>
        full \<in> names \<and> extract_pool_name_and_version full = COk (base, v)) \<and>
     (\<forall>full base v. full \<in> names \<longrightarrow> extract_pool_name_and_version full = COk (base, v) \<longrightarrow>
        (\<exists>full' v'. map_of latest base = Some (full', v') \<and> v \<le> v'))"

lemma latest_inv_insert:
  assumes inv: "latest_inv names latest"
    and new: "\<And>base v. extract_pool_name_and_version full = COk (base, v) \<Longrightarrow>
      \<exists>full' v'. map_of latest base = Some (full', v') \<and> v \<le> v'"
  shows "latest_inv (insert full names) latest"
proof -
  have "\<exists>full' v'. map_of latest base = Some (full', v') \<and> v \<le> v'"
    if "f \<in> insert full names" "extract_pool_name_and_version f = COk (base, v)" for f base v
    using that inv new unfolding latest_inv_def by blast
  then show ?thesis using inv unfolding latest_inv_def by blast
qed

lemma latest_inv_put:
  assumes inv: "latest_inv names latest" and x: "extract_pool_name_and_version full = COk (base, v)"
    and new: "\<And>full' v'. map_of latest base = Some (full', v') \<Longrightarrow> v' < v"
  shows "latest_inv (insert full names) (AList.update base (full, v) latest)"
  unfolding latest_inv_def
proof (intro conjI allI impI)
  show "distinct (map fst (AList.update base (full, v) latest))"
    using inv by (simp add: latest_inv_def distinct_update)
next
  fix b f w
  assume "map_of (AList.update base (full, v) latest) b = Some (f, w)"
  then have "b = base \<and> f = full \<and> w = v \<or> map_of latest b = Some (f, w)"
    by (auto simp: update_conv' split: if_splits)
  then show "f \<in> insert full names" and "extract_pool_name_and_version f = COk (b, w)"
    using inv x unfolding latest_inv_def by blast+
next
  fix f b w
  assume f: "f \<in> insert full names" "extract_pool_name_and_version f = COk (b, w)"
  show "\<exists>full' v'. map_of (AList.update base (full, v) latest) b = Some (full', v') \<and> w \<le> v'"
  proof (cases "f = full")
    case True
    then show ?thesis using f x by (simp add: update_conv')
  next
    case False
    then obtain full' v' where "map_of latest b = Some (full', v')" "w \<le> v'"
      using inv f unfolding latest_inv_def by blast
    then show ?thesis using new by (cases "b = base") (force simp: update_conv')+
  qed
qed

lemma latest_loop_inv:
  "latest_inv names latest \<Longrightarrow> latest_loop source latest = COk latest' \<Longrightarrow>
    latest_inv (names \<union> fst ` set source) latest'"
proof (induction source arbitrary: names latest)
  case (Cons p source)
  obtain full key where p: "p = (full, key)" by (cases p)
  note inv = Cons.prems(1) and run = Cons.prems(2) [unfolded p]
  have step: ?case if "latest_inv (insert full names) t" and "latest_loop source t = COk latest'" for t
    using Cons.IH [OF that] p by simp
  show ?case
  proof (cases "extract_pool_name_and_version full")
    case (COk q)
    then obtain base v where x: "extract_pool_name_and_version full = COk (base, v)" by (cases q) simp
    show ?thesis
    proof (cases "\<exists>full' v'. map_of latest base = Some (full', v') \<and> v \<le> v'")
      case True
      then show ?thesis
        using step latest_inv_insert [OF inv, of full] x run by (auto simp: not_less split: if_splits)
    next
      case False
      then have "latest_loop source (AList.update base (full, v) latest) = COk latest'"
        using run x by (auto simp: not_le split: option.splits if_splits)
      then show ?thesis using step latest_inv_put [OF inv x] False by (simp add: not_le)
    qed
  next
    case (CErr e)
    then show ?thesis using step latest_inv_insert [OF inv, of full] run by auto
  qed (use run in simp)
qed simp

lemma map_of_rev: "distinct (map fst xs) \<Longrightarrow> map_of (rev xs) = map_of xs"
  by (simp add: map_of_inject_set rev_map [symmetric])

lemma reinsert_latest_inv:
  assumes "reinsert_latest_versions refs [] = COk latest"
  shows "\<exists>xs. latest_inv (fst ` set refs) xs \<and> map_of latest = map_option fst \<circ> map_of xs"
proof -
  obtain xs where xs: "latest_loop refs [] = COk xs"
    using assms by (cases "latest_loop refs []") (auto simp: reinsert_latest_versions_def)
  have inv: "latest_inv (fst ` set refs) xs"
    using latest_loop_inv [of "{}" "[]" refs xs] xs by (simp add: latest_inv_def [of "{}"])
  have "map_of latest = map_of (rev (map (\<lambda>(name, full, _). (name, full)) xs))"
    using assms xs map_of_foldl_update [of "[]" xs] by (simp add: reinsert_latest_versions_def)
  also have "\<dots> = map_of (map (\<lambda>(name, full, _). (name, full)) xs)"
  proof (rule map_of_rev)
    show "distinct (map fst (map (\<lambda>(name, full, _). (name, full)) xs))"
      using inv by (simp add: latest_inv_def comp_def case_prod_unfold)
  qed
  also have "\<dots> = map_option fst \<circ> map_of xs"
    by (induction xs) (auto simp: fun_eq_iff)
  finally show ?thesis using inv by blast
qed

section \<open>Names with a version\<close>

lemma extract_version_of:
  assumes "d \<le> 9" and "base \<noteq> []"
  shows "extract_pool_version (base @ [0x2D, 0x56, 0x30 + d]) = COk (ucast d)"
proof -
  have u: "unat (0x30 + d) = 48 + unat d"
    using assms(1) by (simp add: unat_word_ariths word_le_nat_alt)
  have "0x30 \<le> 0x30 + d \<and> 0x30 + d \<le> 0x39" "\<not> 0x80 \<le> 0x30 + d"
    using assms(1) by (simp_all only: word_le_nat_alt u) simp_all
  then show ?thesis
    using assms(2)
    by (simp add: extract_pool_version_def str_slice_def is_char_boundary_def nth_append utf8_of_def ascii_upper_def
        parse_digit_def Suc_diff_le)
qed

end
