(* ===== verification/Client_Router.thy ===== *)
theory Client_Router
  imports Client_Api Main_Instruction
begin

text \<open>
  \<open>client/main_router_instructions.rs\<close>: the instructions for the Main Router program, which keeps the reference
  databases and the metadata accounts.
\<close>

section \<open>Reference databases\<close>

definition new_instruction_refdb_write :: "ClientEnv \<Rightarrow> pubkey \<Rightarrow> bytes \<Rightarrow> Record \<Rightarrow> Instruction client" where
  "new_instruction_refdb_write env admin_address refdb_name record =
     mbind (mlift (find_refdb_pda env refdb_name)) (\<lambda>refdb_pda.
     let inst = \<lparr> ins_program_id = (ce_main_router env), ins_accounts = [meta_new_readonly admin_address True,
         meta_new (ce_main_router_multisig env) False, meta_new refdb_pda False,
         meta_new_readonly (ce_system_program env) False], ins_data = [] \<rparr> in
     mbind (mprog (MainInstruction_to_vec (MainI_RefDbInstruction (RefDbI_Write record)))) (\<lambda>bytes.
     let inst = inst\<lparr> ins_data := bytes \<rparr> in
     mret inst))"

definition new_instruction_refdb_delete :: "ClientEnv \<Rightarrow> pubkey \<Rightarrow> bytes \<Rightarrow> Record \<Rightarrow> Instruction client" where
  "new_instruction_refdb_delete env admin_address refdb_name record =
     mbind (mlift (find_refdb_pda env refdb_name)) (\<lambda>refdb_pda.
     let inst = \<lparr> ins_program_id = (ce_main_router env), ins_accounts = [meta_new_readonly admin_address True,
         meta_new (ce_main_router_multisig env) False, meta_new refdb_pda False,
         meta_new_readonly (ce_system_program env) False], ins_data = [] \<rparr> in
     mbind (mprog (MainInstruction_to_vec (MainI_RefDbInstruction (RefDbI_Delete record)))) (\<lambda>bytes.
     let inst = inst\<lparr> ins_data := bytes \<rparr> in
     mret inst))"

definition new_instruction_refdb_init ::
  "ClientEnv \<Rightarrow> pubkey \<Rightarrow> bytes \<Rightarrow> ReferenceType \<Rightarrow> u32 \<Rightarrow> bool \<Rightarrow> Instruction client" where
  "new_instruction_refdb_init env admin_address refdb_name reference_type max_records init_account =
     mbind (mlift (find_refdb_pda env refdb_name)) (\<lambda>refdb_pda.
     let inst = \<lparr> ins_program_id = (ce_main_router env), ins_accounts = [meta_new_readonly admin_address True,
         meta_new (ce_main_router_multisig env) False, meta_new refdb_pda False,
         meta_new_readonly (ce_system_program env) False], ins_data = [] \<rparr> in
     mbind (mprog (str_to_as64 refdb_name)) (\<lambda>r.
     mbind (mprog (MainInstruction_to_vec (MainI_RefDbInstruction (RefDbI_Init r reference_type max_records
         (init_account \<and> REFDB_ONCHAIN_INIT))))) (\<lambda>bytes.
     let inst = inst\<lparr> ins_data := bytes \<rparr> in
     mret inst)))"

definition new_instruction_refdb_drop :: "ClientEnv \<Rightarrow> pubkey \<Rightarrow> bytes \<Rightarrow> bool \<Rightarrow> Instruction client" where
  "new_instruction_refdb_drop env admin_address refdb_name close_account =
     mbind (mlift (find_refdb_pda env refdb_name)) (\<lambda>refdb_pda.
     let inst = \<lparr> ins_program_id = (ce_main_router env), ins_accounts = [meta_new_readonly admin_address True,
         meta_new (ce_main_router_multisig env) False, meta_new refdb_pda False,
         meta_new_readonly (ce_system_program env) False], ins_data = [] \<rparr> in
     mbind (mprog (MainInstruction_to_vec (MainI_RefDbInstruction (RefDbI_Drop close_account)))) (\<lambda>bytes.
     let inst = inst\<lparr> ins_data := bytes \<rparr> in
     mret inst))"

definition new_instruction_remove_reference ::
  "ClientEnv \<Rightarrow> pubkey \<Rightarrow> StorageType \<Rightarrow> bytes \<Rightarrow> Instruction client" where
  "new_instruction_remove_reference env admin_address storage_type object_name =
     mbind (mexpect (get_refdb_index env (storage_name storage_type) object_name)) (\<lambda>refdb_index.
     mbind (mprog (str_to_as64 object_name)) (\<lambda>r.
     new_instruction_refdb_delete env admin_address (storage_name storage_type) \<lparr> rec_index = (map_option
         (\<lambda>idx. (of_nat idx)) refdb_index), rec_counter = 0, rec_tag = 0, rec_name = r,
         rec_reference = REmpty \<rparr>))"

section \<open>Administrators and programs\<close>

definition new_instruction_set_admins :: "ClientEnv \<Rightarrow> pubkey \<Rightarrow> (pubkey list) \<Rightarrow> u8 \<Rightarrow> Instruction client" where
  "new_instruction_set_admins env admin_address admin_signers min_signatures =
     (if ((admin_signers = []) \<or> (min_signatures = 0)) then mfail (ValueError (utf8_of
         ''At least one signer is required''))
       else (if (((unat min_signatures) > length admin_signers) \<or> (length admin_signers > MAX_SIGNERS)) then
           mfail (ValueError (utf8_of ''Invalid number of signatures''))
         else let inst = \<lparr> ins_program_id = (ce_main_router env),
             ins_accounts = [meta_new_readonly admin_address True,
             meta_new (ce_main_router_multisig env) False, meta_new_readonly (ce_system_program env) False],
             ins_data = [] \<rparr> in
         let inst = foldl (\<lambda>inst key. inst\<lparr> ins_accounts := ins_accounts inst @ [meta_new_readonly key False]
             \<rparr>) inst admin_signers in
         mbind (mprog (MainInstruction_to_vec (MainI_SetAdminSigners min_signatures))) (\<lambda>bytes.
         let inst = inst\<lparr> ins_data := bytes \<rparr> in
         mret inst)))"

definition new_instruction_set_program_admins ::
  "ClientEnv \<Rightarrow> pubkey \<Rightarrow> pubkey \<Rightarrow> (pubkey list) \<Rightarrow> u8 \<Rightarrow> Instruction client" where
  "new_instruction_set_program_admins env admin_address prog_id admin_signers min_signatures =
     (if ((admin_signers = []) \<or> (min_signatures = 0)) then mfail (ValueError (utf8_of
         ''At least one signer is required''))
       else (if (((unat min_signatures) > length admin_signers) \<or> (length admin_signers > MAX_SIGNERS)) then
           mfail (ValueError (utf8_of ''Invalid number of signatures''))
         else mbind (get_program_multisig_account env prog_id) (\<lambda>program_multisig_account.
         mbind (get_program_buffer_account env prog_id) (\<lambda>program_buffer_account.
         let inst = \<lparr> ins_program_id = (ce_main_router env),
             ins_accounts = [meta_new_readonly admin_address True, meta_new program_multisig_account False,
             meta_new_readonly prog_id False, meta_new program_buffer_account False,
             meta_new_readonly (ce_system_program env) False,
             meta_new_readonly (ce_bpf_loader_upgradeable env) False], ins_data = [] \<rparr> in
         let inst = foldl (\<lambda>inst key. inst\<lparr> ins_accounts := ins_accounts inst @ [meta_new_readonly key False]
             \<rparr>) inst admin_signers in
         mbind (mprog (MainInstruction_to_vec (MainI_SetProgramAdminSigners min_signatures))) (\<lambda>bytes.
         let inst = inst\<lparr> ins_data := bytes \<rparr> in
         mret inst)))))"

definition new_instruction_set_program_single_authority ::
  "ClientEnv \<Rightarrow> pubkey \<Rightarrow> pubkey \<Rightarrow> pubkey \<Rightarrow> Instruction client" where
  "new_instruction_set_program_single_authority env admin_address prog_id upgrade_authority =
     mbind (mprog (MainInstruction_to_vec MainI_SetProgramSingleAuthority)) (\<lambda>bytes.
     mbind (get_program_multisig_account env prog_id) (\<lambda>program_multisig_account.
     mbind (get_program_buffer_account env prog_id) (\<lambda>program_buffer_account.
     mret \<lparr> ins_program_id = (ce_main_router env), ins_accounts = [meta_new_readonly admin_address True,
         meta_new program_multisig_account False, meta_new_readonly prog_id False,
         meta_new program_buffer_account False, meta_new_readonly upgrade_authority False,
         meta_new_readonly (ce_bpf_loader_upgradeable env) False], ins_data = bytes \<rparr>)))"

definition new_instruction_upgrade_program :: "ClientEnv \<Rightarrow> pubkey \<Rightarrow> pubkey \<Rightarrow> pubkey \<Rightarrow> Instruction client" where
  "new_instruction_upgrade_program env admin_address prog_id source_buffer_address =
     mbind (mprog (MainInstruction_to_vec MainI_UpgradeProgram)) (\<lambda>bytes.
     mbind (get_program_multisig_account env prog_id) (\<lambda>program_multisig_account.
     mbind (get_program_buffer_account env prog_id) (\<lambda>program_buffer_account.
     mret \<lparr> ins_program_id = (ce_main_router env), ins_accounts = [meta_new_readonly admin_address True,
         meta_new program_multisig_account False, meta_new prog_id False,
         meta_new program_buffer_account False, meta_new source_buffer_address False,
         meta_new_readonly (ce_rent env) False, meta_new_readonly (ce_clock env) False,
         meta_new_readonly (ce_bpf_loader_upgradeable env) False], ins_data = bytes \<rparr>)))"

definition new_instruction_add_program_id ::
  "ClientEnv \<Rightarrow> pubkey \<Rightarrow> bytes \<Rightarrow> pubkey \<Rightarrow> ProgramIDType \<Rightarrow> (usize option) \<Rightarrow> Instruction client" where
  "new_instruction_add_program_id env admin_address name program_id program_id_type refdb_index =
     mbind (mprog (str_to_as64 name)) (\<lambda>r.
     new_instruction_refdb_write env admin_address (storage_name SProgram) \<lparr> rec_index = (map_option (\<lambda>idx.
         (of_nat idx)) refdb_index), rec_counter = 0, rec_tag = (ProgramIDType_as_u16 program_id_type),
         rec_name = r, rec_reference = (RPubkey program_id) \<rparr>)"

definition new_instruction_remove_program_id :: "ClientEnv \<Rightarrow> pubkey \<Rightarrow> bytes \<Rightarrow> Instruction client" where
  "new_instruction_remove_program_id env admin_address name =
     mbind (mbind (mtry (get_program_id env name)) (\<lambda>found.
       (if (found \<noteq> None) then mbind (mexpect (get_refdb_index env (storage_name SProgram) name)) (\<lambda>refdb_index.
         mret refdb_index)
         else mret None))) (\<lambda>refdb_index.
     mbind (mprog (str_to_as64 name)) (\<lambda>r.
     new_instruction_refdb_delete env admin_address (storage_name SProgram) \<lparr> rec_index = (map_option (\<lambda>idx.
         (of_nat idx)) refdb_index), rec_counter = 0, rec_tag = 0, rec_name = r, rec_reference = REmpty \<rparr>))"

section \<open>Metadata\<close>

definition new_instruction_add_fund :: "ClientEnv \<Rightarrow> pubkey \<Rightarrow> Fund \<Rightarrow> Instruction client" where
  "new_instruction_add_fund env admin_address fund =
     mbind (mlift (find_refdb_pda env (storage_name SFund))) (\<lambda>refdb_pda.
     mbind (mlift (find_target_pda env SFund (fnd_name fund))) (\<lambda>pda.
     let inst = \<lparr> ins_program_id = (ce_main_router env), ins_accounts = [meta_new_readonly admin_address True,
         meta_new (ce_main_router_multisig env) False, meta_new refdb_pda False, meta_new pda False,
         meta_new_readonly (ce_system_program env) False], ins_data = [] \<rparr> in
     mbind (mprog (MainInstruction_to_vec (MainI_AddFund fund))) (\<lambda>bytes.
     let inst = inst\<lparr> ins_data := bytes \<rparr> in
     mret inst)))"

definition new_instruction_remove_fund :: "ClientEnv \<Rightarrow> pubkey \<Rightarrow> bytes \<Rightarrow> Instruction client" where
  "new_instruction_remove_fund env admin_address fund_name =
     mbind (mprog (str_to_as64 fund_name)) (\<lambda>name.
     mbind (mbind (mtry (get_fund env fund_name)) (\<lambda>r.
       case r of Some fund \<Rightarrow> mret (fnd_refdb_index fund)
       | None \<Rightarrow> mret None)) (\<lambda>refdb_index.
     mbind (mlift (find_refdb_pda env (storage_name SFund))) (\<lambda>refdb_pda.
     mbind (mlift (find_target_pda env SFund name)) (\<lambda>pda.
     let inst = \<lparr> ins_program_id = (ce_main_router env), ins_accounts = [meta_new_readonly admin_address True,
         meta_new (ce_main_router_multisig env) False, meta_new refdb_pda False, meta_new pda False,
         meta_new_readonly (ce_system_program env) False], ins_data = [] \<rparr> in
     mbind (mprog (MainInstruction_to_vec (MainI_RemoveFund name refdb_index))) (\<lambda>bytes.
     let inst = inst\<lparr> ins_data := bytes \<rparr> in
     mret inst)))))"

definition new_instruction_add_vault :: "ClientEnv \<Rightarrow> pubkey \<Rightarrow> Vault \<Rightarrow> Instruction client" where
  "new_instruction_add_vault env admin_address vault =
     mbind (mlift (find_refdb_pda env (storage_name SVault))) (\<lambda>refdb_pda.
     mbind (mlift (find_target_pda env SVault (vlt_name vault))) (\<lambda>pda.
     let inst = \<lparr> ins_program_id = (ce_main_router env), ins_accounts = [meta_new_readonly admin_address True,
         meta_new (ce_main_router_multisig env) False, meta_new refdb_pda False, meta_new pda False,
         meta_new_readonly (ce_system_program env) False], ins_data = [] \<rparr> in
     mbind (mprog (MainInstruction_to_vec (MainI_AddVault vault))) (\<lambda>bytes.
     let inst = inst\<lparr> ins_data := bytes \<rparr> in
     mret inst)))"

definition new_instruction_remove_vault :: "ClientEnv \<Rightarrow> pubkey \<Rightarrow> bytes \<Rightarrow> Instruction client" where
  "new_instruction_remove_vault env admin_address vault_name =
     mbind (mprog (str_to_as64 vault_name)) (\<lambda>name.
     mbind (mbind (mtry (get_vault env vault_name)) (\<lambda>r.
       case r of Some vault \<Rightarrow> mret (vlt_refdb_index vault)
       | None \<Rightarrow> mret None)) (\<lambda>refdb_index.
     mbind (mlift (find_refdb_pda env (storage_name SVault))) (\<lambda>refdb_pda.
     mbind (mlift (find_target_pda env SVault name)) (\<lambda>pda.
     let inst = \<lparr> ins_program_id = (ce_main_router env), ins_accounts = [meta_new_readonly admin_address True,
         meta_new (ce_main_router_multisig env) False, meta_new refdb_pda False, meta_new pda False,
         meta_new_readonly (ce_system_program env) False], ins_data = [] \<rparr> in
     mbind (mprog (MainInstruction_to_vec (MainI_RemoveVault name refdb_index))) (\<lambda>bytes.
     let inst = inst\<lparr> ins_data := bytes \<rparr> in
     mret inst)))))"

definition new_instruction_add_pool :: "ClientEnv \<Rightarrow> pubkey \<Rightarrow> Pool \<Rightarrow> Instruction client" where
  "new_instruction_add_pool env admin_address pool =
     mbind (mlift (find_refdb_pda env (storage_name SPool))) (\<lambda>refdb_pda.
     mbind (mlift (find_target_pda env SPool (pl_name pool))) (\<lambda>pda.
     let inst = \<lparr> ins_program_id = (ce_main_router env), ins_accounts = [meta_new_readonly admin_address True,
         meta_new (ce_main_router_multisig env) False, meta_new refdb_pda False, meta_new pda False,
         meta_new_readonly (ce_system_program env) False], ins_data = [] \<rparr> in
     mbind (mprog (MainInstruction_to_vec (MainI_AddPool pool))) (\<lambda>bytes.
     let inst = inst\<lparr> ins_data := bytes \<rparr> in
     mret inst)))"

definition new_instruction_remove_pool :: "ClientEnv \<Rightarrow> pubkey \<Rightarrow> bytes \<Rightarrow> Instruction client" where
  "new_instruction_remove_pool env admin_address pool_name =
     mbind (mprog (str_to_as64 pool_name)) (\<lambda>name.
     mbind (mbind (mtry (get_pool env pool_name)) (\<lambda>r.
       case r of Some pool \<Rightarrow> mret (pl_refdb_index pool)
       | None \<Rightarrow> mret None)) (\<lambda>refdb_index.
     mbind (mlift (find_refdb_pda env (storage_name SPool))) (\<lambda>refdb_pda.
     mbind (mlift (find_target_pda env SPool name)) (\<lambda>pda.
     let inst = \<lparr> ins_program_id = (ce_main_router env), ins_accounts = [meta_new_readonly admin_address True,
         meta_new (ce_main_router_multisig env) False, meta_new refdb_pda False, meta_new pda False,
         meta_new_readonly (ce_system_program env) False], ins_data = [] \<rparr> in
     mbind (mprog (MainInstruction_to_vec (MainI_RemovePool name refdb_index))) (\<lambda>bytes.
     let inst = inst\<lparr> ins_data := bytes \<rparr> in
     mret inst)))))"

definition new_instruction_add_farm :: "ClientEnv \<Rightarrow> pubkey \<Rightarrow> Farm \<Rightarrow> Instruction client" where
  "new_instruction_add_farm env admin_address farm =
     mbind (mlift (find_refdb_pda env (storage_name SFarm))) (\<lambda>refdb_pda.
     mbind (mlift (find_target_pda env SFarm (frm_name farm))) (\<lambda>pda.
     let inst = \<lparr> ins_program_id = (ce_main_router env), ins_accounts = [meta_new_readonly admin_address True,
         meta_new (ce_main_router_multisig env) False, meta_new refdb_pda False, meta_new pda False,
         meta_new_readonly (ce_system_program env) False], ins_data = [] \<rparr> in
     mbind (mprog (MainInstruction_to_vec (MainI_AddFarm farm))) (\<lambda>bytes.
     let inst = inst\<lparr> ins_data := bytes \<rparr> in
     mret inst)))"

definition new_instruction_remove_farm :: "ClientEnv \<Rightarrow> pubkey \<Rightarrow> bytes \<Rightarrow> Instruction client" where
  "new_instruction_remove_farm env admin_address farm_name =
     mbind (mprog (str_to_as64 farm_name)) (\<lambda>name.
     mbind (mbind (mtry (get_farm env farm_name)) (\<lambda>r.
       case r of Some farm \<Rightarrow> mret (frm_refdb_index farm)
       | None \<Rightarrow> mret None)) (\<lambda>refdb_index.
     mbind (mlift (find_refdb_pda env (storage_name SFarm))) (\<lambda>refdb_pda.
     mbind (mlift (find_target_pda env SFarm name)) (\<lambda>pda.
     let inst = \<lparr> ins_program_id = (ce_main_router env), ins_accounts = [meta_new_readonly admin_address True,
         meta_new (ce_main_router_multisig env) False, meta_new refdb_pda False, meta_new pda False,
         meta_new_readonly (ce_system_program env) False], ins_data = [] \<rparr> in
     mbind (mprog (MainInstruction_to_vec (MainI_RemoveFarm name refdb_index))) (\<lambda>bytes.
     let inst = inst\<lparr> ins_data := bytes \<rparr> in
     mret inst)))))"

definition new_instruction_add_token :: "ClientEnv \<Rightarrow> pubkey \<Rightarrow> Token \<Rightarrow> Instruction client" where
  "new_instruction_add_token env admin_address token =
     mbind (mlift (find_refdb_pda env (storage_name SToken))) (\<lambda>refdb_pda.
     mbind (mlift (find_target_pda env SToken (tok_name token))) (\<lambda>pda.
     let inst = \<lparr> ins_program_id = (ce_main_router env), ins_accounts = [meta_new_readonly admin_address True,
         meta_new (ce_main_router_multisig env) False, meta_new refdb_pda False, meta_new pda False,
         meta_new_readonly (ce_system_program env) False], ins_data = [] \<rparr> in
     mbind (mprog (MainInstruction_to_vec (MainI_AddToken token))) (\<lambda>bytes.
     let inst = inst\<lparr> ins_data := bytes \<rparr> in
     mret inst)))"

definition new_instruction_remove_token :: "ClientEnv \<Rightarrow> pubkey \<Rightarrow> bytes \<Rightarrow> Instruction client" where
  "new_instruction_remove_token env admin_address token_name =
     mbind (mprog (str_to_as64 token_name)) (\<lambda>name.
     mbind (mbind (mtry (get_token env token_name)) (\<lambda>r.
       case r of Some token \<Rightarrow> mret (tok_refdb_index token)
       | None \<Rightarrow> mret None)) (\<lambda>refdb_index.
     mbind (mlift (find_refdb_pda env (storage_name SToken))) (\<lambda>refdb_pda.
     mbind (mlift (find_target_pda env SToken name)) (\<lambda>pda.
     let inst = \<lparr> ins_program_id = (ce_main_router env), ins_accounts = [meta_new_readonly admin_address True,
         meta_new (ce_main_router_multisig env) False, meta_new refdb_pda False, meta_new pda False,
         meta_new_readonly (ce_system_program env) False], ins_data = [] \<rparr> in
     mbind (mprog (MainInstruction_to_vec (MainI_RemoveToken name refdb_index))) (\<lambda>bytes.
     let inst = inst\<lparr> ins_data := bytes \<rparr> in
     mret inst)))))"

end
