(* ===== verification/Client_Fund.thy ===== *)
theory Client_Fund
  imports Client_Api Fund_Instruction
begin

text \<open>
  \<open>client/fund_instructions.rs\<close>: the instructions for funds. The target hash of the assets of a fund is folded over
  the addresses of its custodies or vaults.
\<close>

section \<open>Set-up and administration\<close>

definition new_instruction_init_fund :: "ClientEnv \<Rightarrow> pubkey \<Rightarrow> bytes \<Rightarrow> u64 \<Rightarrow> Instruction client" where
  "new_instruction_init_fund env admin_address fund_name step =
     mbind (get_fund env fund_name) (\<lambda>fund.
     mbind (get_fund_ref env fund_name) (\<lambda>fund_ref.
     mbind (get_token_by_ref env (fnd_fund_token_ref fund)) (\<lambda>fund_token.
     mbind (mprog (FundInstruction_to_vec (FundI_Init step))) (\<lambda>data.
     mbind (get_fund_active_multisig_account env fund_name) (\<lambda>fund_active_multisig_account.
     let accounts = [meta_new_readonly admin_address True, meta_new_readonly fund_ref False,
         meta_new (fnd_info_account fund) False, meta_new fund_active_multisig_account False,
         meta_new (fnd_fund_authority fund) False, meta_new_readonly (fnd_fund_program_id fund) False,
         meta_new_readonly (ce_system_program env) False, meta_new_readonly (ce_spl_token env) False,
         meta_new_readonly (ce_rent env) False, meta_new (tok_mint fund_token) False,
         meta_new_readonly (fnd_fund_token_ref fund) False, meta_new (fnd_vaults_assets_info fund) False,
         meta_new (fnd_custodies_assets_info fund) False] in
     mret \<lparr> ins_program_id = (fnd_fund_program_id fund), ins_accounts = accounts, ins_data = data \<rparr>)))))"

definition new_instruction_user_init_fund :: "ClientEnv \<Rightarrow> pubkey \<Rightarrow> bytes \<Rightarrow> bytes \<Rightarrow> Instruction client" where
  "new_instruction_user_init_fund env wallet_address fund_name token_name =
     mbind (get_fund env fund_name) (\<lambda>fund.
     mbind (get_fund_ref env fund_name) (\<lambda>fund_ref.
     mbind (get_token_ref env token_name) (\<lambda>token_ref.
     mbind (get_fund_user_info_account env wallet_address fund_name) (\<lambda>user_info_account.
     mbind (get_fund_user_requests_account env wallet_address fund_name token_name) (\<lambda>user_requests_account.
     mbind (mprog (FundInstruction_to_vec FundI_UserInit)) (\<lambda>data.
     let accounts = [meta_new wallet_address True, meta_new_readonly fund_ref False,
         meta_new (fnd_info_account fund) False, meta_new_readonly wallet_address False,
         meta_new user_info_account False, meta_new user_requests_account False,
         meta_new_readonly token_ref False, meta_new_readonly (ce_system_program env) False] in
     mret \<lparr> ins_program_id = (fnd_fund_program_id fund), ins_accounts = accounts, ins_data = data \<rparr>))))))"

definition new_instruction_set_fund_admins ::
  "ClientEnv \<Rightarrow> pubkey \<Rightarrow> bytes \<Rightarrow> (pubkey list) \<Rightarrow> u8 \<Rightarrow> Instruction client" where
  "new_instruction_set_fund_admins env admin_address fund_name admin_signers min_signatures =
     (if ((admin_signers = []) \<or> (min_signatures = 0)) then mfail (ValueError (utf8_of
         ''At least one signer is required''))
       else (if (((unat min_signatures) > length admin_signers) \<or> (length admin_signers > MAX_SIGNERS)) then
           mfail (ValueError (utf8_of ''Invalid number of signatures''))
         else mbind (get_fund env fund_name) (\<lambda>fund.
         mbind (get_fund_ref env fund_name) (\<lambda>fund_ref.
         mbind (mprog (FundInstruction_to_vec (FundI_SetAdminSigners min_signatures))) (\<lambda>bytes.
         mbind (get_fund_active_multisig_account env fund_name) (\<lambda>fund_active_multisig_account.
         mbind (get_fund_multisig_account env fund_name) (\<lambda>fund_multisig_account.
         let inst = \<lparr> ins_program_id = (fnd_fund_program_id fund),
             ins_accounts = [meta_new_readonly admin_address True, meta_new_readonly fund_ref False,
             meta_new (fnd_info_account fund) False, meta_new fund_active_multisig_account False,
             meta_new fund_multisig_account False, meta_new_readonly (ce_system_program env) False],
             ins_data = bytes \<rparr> in
         let inst = foldl (\<lambda>inst key. inst\<lparr> ins_accounts := ins_accounts inst @ [meta_new_readonly key False]
             \<rparr>) inst admin_signers in
         mret inst)))))))"

definition new_instruction_remove_fund_multisig :: "ClientEnv \<Rightarrow> pubkey \<Rightarrow> bytes \<Rightarrow> Instruction client" where
  "new_instruction_remove_fund_multisig env admin_address fund_name =
     mbind (get_fund env fund_name) (\<lambda>fund.
     mbind (get_fund_ref env fund_name) (\<lambda>fund_ref.
     mbind (mprog (FundInstruction_to_vec FundI_RemoveMultisig)) (\<lambda>bytes.
     mbind (get_fund_active_multisig_account env fund_name) (\<lambda>fund_active_multisig_account.
     mbind (get_fund_multisig_account env fund_name) (\<lambda>fund_multisig_account.
     let inst = \<lparr> ins_program_id = (fnd_fund_program_id fund),
         ins_accounts = [meta_new_readonly admin_address True, meta_new_readonly fund_ref False,
         meta_new (fnd_info_account fund) False, meta_new fund_active_multisig_account False,
         meta_new fund_multisig_account False], ins_data = bytes \<rparr> in
     mret inst)))))"

definition new_instruction_set_fund_assets_tracking_config ::
  "ClientEnv \<Rightarrow> pubkey \<Rightarrow> bytes \<Rightarrow> FundAssetsTrackingConfig \<Rightarrow> Instruction client" where
  "new_instruction_set_fund_assets_tracking_config env admin_address fund_name config =
     mbind (get_fund env fund_name) (\<lambda>fund.
     mbind (get_fund_ref env fund_name) (\<lambda>fund_ref.
     mbind (mprog (FundInstruction_to_vec (FundI_SetAssetsTrackingConfig config))) (\<lambda>data.
     mbind (get_fund_active_multisig_account env fund_name) (\<lambda>fund_active_multisig_account.
     let accounts = [meta_new_readonly admin_address True, meta_new_readonly fund_ref False,
         meta_new (fnd_info_account fund) False, meta_new fund_active_multisig_account False] in
     mret \<lparr> ins_program_id = (fnd_fund_program_id fund), ins_accounts = accounts, ins_data = data \<rparr>))))"

section \<open>Custodies and vaults\<close>

definition new_instruction_add_fund_custody ::
  "ClientEnv \<Rightarrow> pubkey \<Rightarrow> bytes \<Rightarrow> bytes \<Rightarrow> FundCustodyType \<Rightarrow> Instruction client" where
  "new_instruction_add_fund_custody env admin_address fund_name token_name custody_type =
     mbind (get_fund env fund_name) (\<lambda>fund.
     mbind (get_fund_ref env fund_name) (\<lambda>fund_ref.
     mbind (get_token env token_name) (\<lambda>token.
     mbind (get_token_ref env token_name) (\<lambda>token_ref.
     mbind (get_fund_custodies env fund_name) (\<lambda>custodies.
     mbind (get_fund_custody_account env fund_name token_name custody_type) (\<lambda>custody_metadata.
     mbind (get_fund_assets_account env fund_name FundAssetType_Custody) (\<lambda>fund_assets_account.
     mbind (get_fund_custody_token_account env fund_name token_name custody_type) (\<lambda>custody_token_account.
     mbind (get_fund_custody_fees_token_account env fund_name token_name custody_type)
         (\<lambda>custody_fees_token_account.
     mbind (if (custodies = []) then mret 0
       else mbind (munwrap (last_of custodies)) (\<lambda>x.
       (if ((fcu_custody_id x) < 0xFFFFFFFF) then mbind (munwrap (last_of custodies)) (\<lambda>x.
         mret ((fcu_custody_id x) + 1))
         else mfail (ValueError (utf8_of ''Number of custodies are over the limit''))))) (\<lambda>custody_id.
     mbind (get_fund_assets env fund_name FundAssetType_Custody) (\<lambda>fund_assets.
     let current_hash = (fas_target_hash fund_assets) in
     mbind (mbind (mlift (is_liquidity_token token_name)) (\<lambda>liquidity.
       (if liquidity then mret current_hash
         else mbind (mprog (hash_address (ce_hasher env) current_hash custody_token_account)) (\<lambda>hash.
         mret hash)))) (\<lambda>target_hash.
     mbind (mprog (FundInstruction_to_vec (FundI_AddCustody target_hash custody_id custody_type))) (\<lambda>data.
     mbind (get_fund_active_multisig_account env fund_name) (\<lambda>fund_active_multisig_account.
     mbind (get_fund_multisig_account env fund_name) (\<lambda>fund_multisig_account.
     let accounts = [meta_new_readonly admin_address True, meta_new_readonly fund_ref False,
         meta_new (fnd_info_account fund) False, meta_new fund_active_multisig_account False,
         meta_new fund_multisig_account False, meta_new_readonly (fnd_fund_authority fund) False,
         meta_new_readonly (ce_system_program env) False, meta_new_readonly (ce_spl_token env) False,
         meta_new_readonly (ce_spl_associated_token_account env) False, meta_new_readonly (ce_rent env) False,
         meta_new fund_assets_account False, meta_new custody_token_account False,
         meta_new custody_fees_token_account False, meta_new custody_metadata False,
         meta_new_readonly token_ref False, meta_new (tok_mint token) False] in
     mret \<lparr> ins_program_id = (fnd_fund_program_id fund), ins_accounts = accounts,
         ins_data = data \<rparr>)))))))))))))))"

definition new_instruction_remove_fund_custody ::
  "ClientEnv \<Rightarrow> pubkey \<Rightarrow> bytes \<Rightarrow> bytes \<Rightarrow> FundCustodyType \<Rightarrow> Instruction client" where
  "new_instruction_remove_fund_custody env admin_address fund_name token_name custody_type =
     mbind (get_fund env fund_name) (\<lambda>fund.
     mbind (get_fund_ref env fund_name) (\<lambda>fund_ref.
     mbind (get_token_ref env token_name) (\<lambda>token_ref.
     mbind (get_fund_custodies env fund_name) (\<lambda>custodies.
     (if (custodies = []) then mfail (ValueError (utf8_of ''No active custodies found''))
       else mbind (get_fund_custody_account env fund_name token_name custody_type) (\<lambda>custody_metadata.
       mbind (get_fund_assets_account env fund_name FundAssetType_Custody) (\<lambda>fund_assets_account.
       mbind (get_fund_custody_token_account env fund_name token_name custody_type) (\<lambda>custody_token_account.
       mbind (get_fund_custody_fees_token_account env fund_name token_name custody_type)
           (\<lambda>custody_fees_token_account.
       let target_hash = 0 in
       mbind (mfoldl (\<lambda>target_hash custody. (if (((fcu_address custody) \<noteq> custody_token_account) \<and> \<not>
           (fcu_is_vault_token custody)) then mbind (mprog (hash_address (ce_hasher env) target_hash
           (fcu_address custody))) (\<lambda>hash.
           let target_hash = hash in
           mret target_hash)
           else mret target_hash)) target_hash custodies) (\<lambda>target_hash.
       mbind (mprog (FundInstruction_to_vec (FundI_RemoveCustody target_hash custody_type))) (\<lambda>data.
       mbind (get_fund_active_multisig_account env fund_name) (\<lambda>fund_active_multisig_account.
       mbind (get_fund_multisig_account env fund_name) (\<lambda>fund_multisig_account.
       let accounts = [meta_new_readonly admin_address True, meta_new_readonly fund_ref False,
           meta_new (fnd_info_account fund) False, meta_new fund_active_multisig_account False,
           meta_new fund_multisig_account False, meta_new_readonly (fnd_fund_authority fund) False,
           meta_new_readonly (ce_system_program env) False, meta_new_readonly (ce_spl_token env) False,
           meta_new fund_assets_account False, meta_new custody_token_account False,
           meta_new custody_fees_token_account False, meta_new custody_metadata False,
           meta_new_readonly token_ref False] in
       mret \<lparr> ins_program_id = (fnd_fund_program_id fund), ins_accounts = accounts,
           ins_data = data \<rparr>)))))))))))))"

definition new_instruction_add_fund_vault ::
  "ClientEnv \<Rightarrow> pubkey \<Rightarrow> bytes \<Rightarrow> bytes \<Rightarrow> FundVaultType \<Rightarrow> Instruction client" where
  "new_instruction_add_fund_vault env admin_address fund_name vault_name vault_type =
     mbind (get_fund env fund_name) (\<lambda>fund.
     mbind (get_fund_ref env fund_name) (\<lambda>fund_ref.
     mbind (get_fund_vaults env fund_name) (\<lambda>vaults.
     mbind (get_fund_vault_account env fund_name vault_name vault_type) (\<lambda>fund_vault_metadata.
     mbind (get_fund_assets_account env fund_name FundAssetType_Vault) (\<lambda>fund_assets_account.
     mbind (case vault_type of FundVaultType_Vault \<Rightarrow> get_vault_ref env vault_name
       | FundVaultType_Pool \<Rightarrow> get_pool_ref env vault_name
       | FundVaultType_Farm \<Rightarrow> get_farm_ref env vault_name) (\<lambda>target_vault_metadata.
     mbind (case vault_type of FundVaultType_Vault \<Rightarrow> mbind (get_vault env vault_name) (\<lambda>vault.
       (case (vlt_strategy vault) of VaultStrategy_StakeLpCompoundRewards _ _ pool_ref _ _ _ _ _ _ _ _ _ _ _ _
           \<Rightarrow> mret pool_ref
         | _ \<Rightarrow> mpanic))
       | FundVaultType_Farm \<Rightarrow> mbind (get_farm env vault_name) (\<lambda>farm.
       mbind (mok_or (frm_lp_token_ref farm) (ValueError (utf8_of ''Farms w/o LP tokens are not supported'')))
           (\<lambda>lp_token_ref.
       mbind (get_token_by_ref env lp_token_ref) (\<lambda>lp_token.
       mbind (find_pools_with_lp env (tok_name lp_token)) (\<lambda>pools.
       (if (pools = []) then mfail (RecordNotFound (utf8_of ''Pools with LP token '' @ (tok_name lp_token)))
         else mbind (mindex pools 0) (\<lambda>item.
         get_pool_ref env (pl_name item)))))))
       | FundVaultType_Pool \<Rightarrow> mret target_vault_metadata) (\<lambda>underlying_pool_ref.
     mbind (if (vaults = []) then mret 0
       else mbind (munwrap (last_of vaults)) (\<lambda>x.
       (if ((fva_vault_id x) < 0xFFFFFFFF) then mbind (munwrap (last_of vaults)) (\<lambda>x.
         mret ((fva_vault_id x) + 1))
         else mfail (ValueError (utf8_of ''Number of vaults are over the limit''))))) (\<lambda>vault_id.
     mbind (get_fund_assets env fund_name FundAssetType_Vault) (\<lambda>fund_assets.
     let current_hash = (fas_target_hash fund_assets) in
     mbind (if (vault_type = FundVaultType_Farm) then mret current_hash
       else mbind (mprog (hash_address (ce_hasher env) current_hash target_vault_metadata)) (\<lambda>hash.
       mret hash)) (\<lambda>target_hash.
     mbind (mprog (FundInstruction_to_vec (FundI_AddVault target_hash vault_id vault_type))) (\<lambda>data.
     mbind (case vault_type of FundVaultType_Pool \<Rightarrow> mbind (get_pool env vault_name) (\<lambda>pool.
       let pool_ammid = (case (pl_route pool) of PoolRoute_Raydium amm_id _ _ _ _ _ _ _ _ _ _ _ _ _ \<Rightarrow> amm_id
         | PoolRoute_Orca amm_id _ _ \<Rightarrow> amm_id) in
       mbind (mok_or (pl_lp_token_ref pool) (ValueError (utf8_of ''Pools w/o LP tokens are not supported'')))
           (\<lambda>lp_token_ref.
       mret ((pl_router_program_id pool), pool_ammid, lp_token_ref)))
       | FundVaultType_Farm \<Rightarrow> mbind (get_farm env vault_name) (\<lambda>farm.
       let farm_id = (case (frm_route farm) of FarmRoute_Raydium farm_id _ _ _ _ \<Rightarrow> farm_id
         | FarmRoute_Orca farm_id _ _ _ _ \<Rightarrow> farm_id) in
       mbind (mok_or (frm_lp_token_ref farm) (ValueError (utf8_of ''Farms w/o LP tokens are not supported'')))
           (\<lambda>lp_token_ref.
       mret ((frm_router_program_id farm), farm_id, lp_token_ref)))
       | FundVaultType_Vault \<Rightarrow> mbind (get_vault env vault_name) (\<lambda>vault.
       mbind (get_pool_by_ref env underlying_pool_ref) (\<lambda>pool.
       mbind (mok_or (pl_lp_token_ref pool) (ValueError (utf8_of
           ''Underlying Pools w/o LP tokens are not supported''))) (\<lambda>lp_token_ref.
       mret ((vlt_vault_program_id vault), target_vault_metadata, lp_token_ref))))) (\<lambda>(router_program_id,
           underlying_pool_id, underlying_lp_token_metadata).
     mbind (get_fund_active_multisig_account env fund_name) (\<lambda>fund_active_multisig_account.
     let accounts = [meta_new_readonly admin_address True, meta_new_readonly fund_ref False,
         meta_new (fnd_info_account fund) False, meta_new fund_active_multisig_account False,
         meta_new_readonly (fnd_fund_authority fund) False, meta_new_readonly (ce_system_program env) False,
         meta_new fund_assets_account False, meta_new fund_vault_metadata False,
         meta_new_readonly target_vault_metadata False, meta_new_readonly router_program_id False,
         meta_new_readonly underlying_pool_id False, meta_new_readonly underlying_pool_ref False,
         meta_new_readonly underlying_lp_token_metadata False] in
     mret \<lparr> ins_program_id = (fnd_fund_program_id fund), ins_accounts = accounts, ins_data = data \<rparr>)))))))))))))"

definition new_instruction_remove_fund_vault ::
  "ClientEnv \<Rightarrow> pubkey \<Rightarrow> bytes \<Rightarrow> bytes \<Rightarrow> FundVaultType \<Rightarrow> Instruction client" where
  "new_instruction_remove_fund_vault env admin_address fund_name vault_name vault_type =
     mbind (get_fund env fund_name) (\<lambda>fund.
     mbind (get_fund_ref env fund_name) (\<lambda>fund_ref.
     mbind (get_fund_vaults env fund_name) (\<lambda>vaults.
     (if (vaults = []) then mfail (ValueError (utf8_of ''No active vaults found''))
       else mbind (get_fund_vault_account env fund_name vault_name vault_type) (\<lambda>vault_metadata.
       mbind (get_fund_assets_account env fund_name FundAssetType_Vault) (\<lambda>fund_assets_account.
       mbind (case vault_type of FundVaultType_Vault \<Rightarrow> get_vault_ref env vault_name
         | FundVaultType_Pool \<Rightarrow> get_pool_ref env vault_name
         | FundVaultType_Farm \<Rightarrow> get_farm_ref env vault_name) (\<lambda>vault_info.
       let target_hash = 0 in
       mbind (mfoldl (\<lambda>target_hash vault. (if (((fva_vault_ref vault) \<noteq> vault_info) \<and> ((fva_vault_type vault) \<noteq>
           FundVaultType_Farm)) then mbind (mprog (hash_address (ce_hasher env) target_hash (fva_vault_ref
           vault))) (\<lambda>hash.
           let target_hash = hash in
           mret target_hash)
           else mret target_hash)) target_hash vaults) (\<lambda>target_hash.
       mbind (mprog (FundInstruction_to_vec (FundI_RemoveVault target_hash vault_type))) (\<lambda>data.
       mbind (get_fund_active_multisig_account env fund_name) (\<lambda>fund_active_multisig_account.
       let accounts = [meta_new_readonly admin_address True, meta_new_readonly fund_ref False,
           meta_new (fnd_info_account fund) False, meta_new fund_active_multisig_account False,
           meta_new_readonly (fnd_fund_authority fund) False, meta_new_readonly (ce_system_program env) False,
           meta_new fund_assets_account False, meta_new vault_metadata False] in
       mret \<lparr> ins_program_id = (fnd_fund_program_id fund), ins_accounts = accounts, ins_data = data \<rparr>))))))))))"

section \<open>Deposits and withdrawals\<close>

definition new_instruction_set_fund_deposit_schedule ::
  "ClientEnv \<Rightarrow> pubkey \<Rightarrow> bytes \<Rightarrow> FundSchedule \<Rightarrow> Instruction client" where
  "new_instruction_set_fund_deposit_schedule env admin_address fund_name schedule =
     mbind (get_fund env fund_name) (\<lambda>fund.
     mbind (get_fund_ref env fund_name) (\<lambda>fund_ref.
     mbind (mprog (FundInstruction_to_vec (FundI_SetDepositSchedule schedule))) (\<lambda>data.
     mbind (get_fund_active_multisig_account env fund_name) (\<lambda>fund_active_multisig_account.
     let accounts = [meta_new_readonly admin_address True, meta_new_readonly fund_ref False,
         meta_new (fnd_info_account fund) False, meta_new fund_active_multisig_account False] in
     mret \<lparr> ins_program_id = (fnd_fund_program_id fund), ins_accounts = accounts, ins_data = data \<rparr>))))"

definition new_instruction_disable_deposits_fund :: "ClientEnv \<Rightarrow> pubkey \<Rightarrow> bytes \<Rightarrow> Instruction client" where
  "new_instruction_disable_deposits_fund env admin_address fund_name =
     mbind (get_fund env fund_name) (\<lambda>fund.
     mbind (get_fund_ref env fund_name) (\<lambda>fund_ref.
     mbind (mprog (FundInstruction_to_vec FundI_DisableDeposits)) (\<lambda>data.
     mbind (get_fund_active_multisig_account env fund_name) (\<lambda>fund_active_multisig_account.
     let accounts = [meta_new_readonly admin_address True, meta_new_readonly fund_ref False,
         meta_new (fnd_info_account fund) False, meta_new fund_active_multisig_account False] in
     mret \<lparr> ins_program_id = (fnd_fund_program_id fund), ins_accounts = accounts, ins_data = data \<rparr>))))"

definition new_instruction_request_deposit_fund ::
  "ClientEnv \<Rightarrow> pubkey \<Rightarrow> bytes \<Rightarrow> bytes \<Rightarrow> f64 \<Rightarrow> Instruction client" where
  "new_instruction_request_deposit_fund env wallet_address fund_name token_name ui_amount =
     (if (f64_lt ui_amount (f64_of_nat 0)) then mfail (ValueError (utf8_of ''Invalid deposit amount '' @
         ce_f64_to_string env ui_amount @ utf8_of '' specified for Fund '' @ fund_name @ utf8_of
         '': Must be greater or equal to zero.''))
       else mbind (get_fund env fund_name) (\<lambda>fund.
       mbind (get_fund_ref env fund_name) (\<lambda>fund_ref.
       mbind (get_token_by_ref env (fnd_fund_token_ref fund)) (\<lambda>fund_token.
       mbind (get_token env token_name) (\<lambda>token.
       mbind (get_token_ref env token_name) (\<lambda>token_ref.
       mbind (get_fund_user_info_account env wallet_address fund_name) (\<lambda>user_info_account.
       mbind (get_fund_user_requests_account env wallet_address fund_name token_name) (\<lambda>user_requests_account.
       mbind (get_associated_token_address env wallet_address (tok_name token)) (\<lambda>user_deposit_token_account.
       mbind (get_associated_token_address env wallet_address (tok_name fund_token)) (\<lambda>user_fund_token_account.
       mbind (get_fund_custody_account env fund_name token_name FundCustodyType_DepositWithdraw)
           (\<lambda>custody_metadata.
       mbind (get_fund_custody_token_account env fund_name token_name FundCustodyType_DepositWithdraw)
           (\<lambda>custody_token_account.
       mbind (get_fund_custody_fees_token_account env fund_name token_name FundCustodyType_DepositWithdraw)
           (\<lambda>custody_fees_token_account.
       mbind (get_oracle env token_name) (\<lambda>(_, oracle_account).
       mbind (to_token_amount env ui_amount token) (\<lambda>token_amount.
       mbind (mprog (FundInstruction_to_vec (FundI_RequestDeposit token_amount))) (\<lambda>data.
       let accounts = [meta_new_readonly wallet_address True, meta_new_readonly fund_ref False,
           meta_new (fnd_info_account fund) False, meta_new_readonly (fnd_fund_authority fund) False,
           meta_new_readonly (ce_spl_token env) False, meta_new (tok_mint fund_token) False,
           meta_new user_info_account False, meta_new user_requests_account False,
           meta_new user_deposit_token_account False, meta_new user_fund_token_account False,
           meta_new custody_token_account False, meta_new custody_fees_token_account False,
           meta_new_readonly custody_metadata False, meta_new_readonly token_ref False,
           meta_new_readonly (unwrap_or oracle_account (ce_zero env)) False] in
       mret \<lparr> ins_program_id = (fnd_fund_program_id fund), ins_accounts = accounts,
           ins_data = data \<rparr>))))))))))))))))"

definition new_instruction_cancel_deposit_fund ::
  "ClientEnv \<Rightarrow> pubkey \<Rightarrow> bytes \<Rightarrow> bytes \<Rightarrow> Instruction client" where
  "new_instruction_cancel_deposit_fund env wallet_address fund_name token_name =
     mbind (get_fund env fund_name) (\<lambda>fund.
     mbind (get_fund_ref env fund_name) (\<lambda>fund_ref.
     mbind (get_token env token_name) (\<lambda>token.
     mbind (get_token_ref env token_name) (\<lambda>token_ref.
     mbind (get_fund_user_requests_account env wallet_address fund_name token_name) (\<lambda>user_requests_account.
     mbind (get_associated_token_address env wallet_address (tok_name token)) (\<lambda>user_deposit_token_account.
     mbind (mprog (FundInstruction_to_vec FundI_CancelDeposit)) (\<lambda>data.
     let accounts = [meta_new_readonly wallet_address True, meta_new_readonly fund_ref False,
         meta_new (fnd_info_account fund) False, meta_new_readonly (ce_spl_token env) False,
         meta_new user_requests_account False, meta_new user_deposit_token_account False,
         meta_new_readonly token_ref False] in
     mret \<lparr> ins_program_id = (fnd_fund_program_id fund), ins_accounts = accounts, ins_data = data \<rparr>)))))))"

definition new_instruction_approve_deposit_fund ::
  "ClientEnv \<Rightarrow> pubkey \<Rightarrow> pubkey \<Rightarrow> bytes \<Rightarrow> bytes \<Rightarrow> f64 \<Rightarrow> Instruction client" where
  "new_instruction_approve_deposit_fund env admin_address user_address fund_name token_name ui_amount =
     (if (f64_lt ui_amount (f64_of_nat 0)) then mfail (ValueError (utf8_of ''Invalid approve amount '' @
         ce_f64_to_string env ui_amount @ utf8_of '' specified for Fund '' @ fund_name @ utf8_of
         '': Must be greater or equal to zero.''))
       else mbind (get_fund env fund_name) (\<lambda>fund.
       mbind (get_fund_ref env fund_name) (\<lambda>fund_ref.
       mbind (get_token_by_ref env (fnd_fund_token_ref fund)) (\<lambda>fund_token.
       mbind (get_token env token_name) (\<lambda>token.
       mbind (get_token_ref env token_name) (\<lambda>token_ref.
       mbind (get_fund_user_info_account env user_address fund_name) (\<lambda>user_info_account.
       mbind (get_fund_user_requests_account env user_address fund_name token_name) (\<lambda>user_requests_account.
       mbind (get_associated_token_address env user_address (tok_name token)) (\<lambda>user_deposit_token_account.
       mbind (get_associated_token_address env user_address (tok_name fund_token)) (\<lambda>user_fund_token_account.
       mbind (get_fund_custody_account env fund_name token_name FundCustodyType_DepositWithdraw)
           (\<lambda>custody_metadata.
       mbind (get_fund_custody_token_account env fund_name token_name FundCustodyType_DepositWithdraw)
           (\<lambda>custody_token_account.
       mbind (get_fund_custody_fees_token_account env fund_name token_name FundCustodyType_DepositWithdraw)
           (\<lambda>custody_fees_token_account.
       mbind (get_oracle env token_name) (\<lambda>(_, oracle_account).
       mbind (to_token_amount env ui_amount token) (\<lambda>token_amount.
       mbind (mprog (FundInstruction_to_vec (FundI_ApproveDeposit token_amount))) (\<lambda>data.
       mbind (get_fund_active_multisig_account env fund_name) (\<lambda>fund_active_multisig_account.
       let accounts = [meta_new_readonly admin_address True, meta_new_readonly fund_ref False,
           meta_new (fnd_info_account fund) False, meta_new fund_active_multisig_account False,
           meta_new_readonly (fnd_fund_authority fund) False, meta_new_readonly (ce_spl_token env) False,
           meta_new (tok_mint fund_token) False, meta_new_readonly user_address False,
           meta_new user_info_account False, meta_new user_requests_account False,
           meta_new user_deposit_token_account False, meta_new user_fund_token_account False,
           meta_new custody_token_account False, meta_new custody_fees_token_account False,
           meta_new_readonly custody_metadata False, meta_new_readonly token_ref False,
           meta_new_readonly (unwrap_or oracle_account (ce_zero env)) False] in
       mret \<lparr> ins_program_id = (fnd_fund_program_id fund), ins_accounts = accounts,
           ins_data = data \<rparr>)))))))))))))))))"

definition new_instruction_deny_deposit_fund ::
  "ClientEnv \<Rightarrow> pubkey \<Rightarrow> pubkey \<Rightarrow> bytes \<Rightarrow> bytes \<Rightarrow> bytes \<Rightarrow> Instruction client" where
  "new_instruction_deny_deposit_fund env admin_address user_address fund_name token_name deny_reason =
     mbind (get_fund env fund_name) (\<lambda>fund.
     mbind (get_fund_ref env fund_name) (\<lambda>fund_ref.
     mbind (get_token_ref env token_name) (\<lambda>token_ref.
     mbind (get_fund_user_requests_account env user_address fund_name token_name) (\<lambda>user_requests_account.
     mbind (mprog (str_to_as64 deny_reason)) (\<lambda>r.
     mbind (mprog (FundInstruction_to_vec (FundI_DenyDeposit r))) (\<lambda>data.
     mbind (get_fund_active_multisig_account env fund_name) (\<lambda>fund_active_multisig_account.
     let accounts = [meta_new_readonly admin_address True, meta_new_readonly fund_ref False,
         meta_new (fnd_info_account fund) False, meta_new fund_active_multisig_account False,
         meta_new_readonly user_address False, meta_new user_requests_account False,
         meta_new_readonly token_ref False] in
     mret \<lparr> ins_program_id = (fnd_fund_program_id fund), ins_accounts = accounts, ins_data = data \<rparr>)))))))"

definition new_instruction_set_fund_withdrawal_schedule ::
  "ClientEnv \<Rightarrow> pubkey \<Rightarrow> bytes \<Rightarrow> FundSchedule \<Rightarrow> Instruction client" where
  "new_instruction_set_fund_withdrawal_schedule env admin_address fund_name schedule =
     mbind (get_fund env fund_name) (\<lambda>fund.
     mbind (get_fund_ref env fund_name) (\<lambda>fund_ref.
     mbind (mprog (FundInstruction_to_vec (FundI_SetWithdrawalSchedule schedule))) (\<lambda>data.
     mbind (get_fund_active_multisig_account env fund_name) (\<lambda>fund_active_multisig_account.
     let accounts = [meta_new_readonly admin_address True, meta_new_readonly fund_ref False,
         meta_new (fnd_info_account fund) False, meta_new fund_active_multisig_account False] in
     mret \<lparr> ins_program_id = (fnd_fund_program_id fund), ins_accounts = accounts, ins_data = data \<rparr>))))"

definition new_instruction_disable_withdrawals_fund :: "ClientEnv \<Rightarrow> pubkey \<Rightarrow> bytes \<Rightarrow> Instruction client" where
  "new_instruction_disable_withdrawals_fund env admin_address fund_name =
     mbind (get_fund env fund_name) (\<lambda>fund.
     mbind (get_fund_ref env fund_name) (\<lambda>fund_ref.
     mbind (mprog (FundInstruction_to_vec FundI_DisableWithdrawals)) (\<lambda>data.
     mbind (get_fund_active_multisig_account env fund_name) (\<lambda>fund_active_multisig_account.
     let accounts = [meta_new_readonly admin_address True, meta_new_readonly fund_ref False,
         meta_new (fnd_info_account fund) False, meta_new fund_active_multisig_account False] in
     mret \<lparr> ins_program_id = (fnd_fund_program_id fund), ins_accounts = accounts, ins_data = data \<rparr>))))"

definition new_instruction_request_withdrawal_fund ::
  "ClientEnv \<Rightarrow> pubkey \<Rightarrow> bytes \<Rightarrow> bytes \<Rightarrow> f64 \<Rightarrow> Instruction client" where
  "new_instruction_request_withdrawal_fund env wallet_address fund_name token_name ui_amount =
     (if (f64_lt ui_amount (f64_of_nat 0)) then mfail (ValueError (utf8_of ''Invalid withdrawal amount '' @
         ce_f64_to_string env ui_amount @ utf8_of '' specified for Fund '' @ fund_name @ utf8_of
         '': Must be greater or equal to zero.''))
       else mbind (get_fund env fund_name) (\<lambda>fund.
       mbind (get_fund_ref env fund_name) (\<lambda>fund_ref.
       mbind (get_token_by_ref env (fnd_fund_token_ref fund)) (\<lambda>fund_token.
       mbind (get_token env token_name) (\<lambda>token.
       mbind (get_token_ref env token_name) (\<lambda>token_ref.
       mbind (get_fund_user_info_account env wallet_address fund_name) (\<lambda>user_info_account.
       mbind (get_fund_user_requests_account env wallet_address fund_name token_name) (\<lambda>user_requests_account.
       mbind (get_associated_token_address env wallet_address (tok_name token)) (\<lambda>user_withdrawal_token_account.
       mbind (get_associated_token_address env wallet_address (tok_name fund_token)) (\<lambda>user_fund_token_account.
       mbind (get_fund_custody_account env fund_name token_name FundCustodyType_DepositWithdraw)
           (\<lambda>custody_metadata.
       mbind (get_fund_custody_token_account env fund_name token_name FundCustodyType_DepositWithdraw)
           (\<lambda>custody_token_account.
       mbind (get_fund_custody_fees_token_account env fund_name token_name FundCustodyType_DepositWithdraw)
           (\<lambda>custody_fees_token_account.
       mbind (get_oracle env token_name) (\<lambda>(_, oracle_account).
       mbind (to_token_amount env ui_amount fund_token) (\<lambda>token_amount.
       mbind (mprog (FundInstruction_to_vec (FundI_RequestWithdrawal token_amount))) (\<lambda>data.
       let accounts = [meta_new_readonly wallet_address True, meta_new_readonly fund_ref False,
           meta_new (fnd_info_account fund) False, meta_new_readonly (fnd_fund_authority fund) False,
           meta_new_readonly (ce_spl_token env) False, meta_new (tok_mint fund_token) False,
           meta_new user_info_account False, meta_new user_requests_account False,
           meta_new user_withdrawal_token_account False, meta_new user_fund_token_account False,
           meta_new custody_token_account False, meta_new custody_fees_token_account False,
           meta_new_readonly custody_metadata False, meta_new_readonly token_ref False,
           meta_new_readonly (unwrap_or oracle_account (ce_zero env)) False] in
       mret \<lparr> ins_program_id = (fnd_fund_program_id fund), ins_accounts = accounts,
           ins_data = data \<rparr>))))))))))))))))"

definition new_instruction_cancel_withdrawal_fund ::
  "ClientEnv \<Rightarrow> pubkey \<Rightarrow> bytes \<Rightarrow> bytes \<Rightarrow> Instruction client" where
  "new_instruction_cancel_withdrawal_fund env wallet_address fund_name token_name =
     mbind (get_fund env fund_name) (\<lambda>fund.
     mbind (get_fund_ref env fund_name) (\<lambda>fund_ref.
     mbind (get_token env token_name) (\<lambda>token.
     mbind (get_token_ref env token_name) (\<lambda>token_ref.
     mbind (get_fund_user_requests_account env wallet_address fund_name token_name) (\<lambda>user_requests_account.
     mbind (get_associated_token_address env wallet_address (tok_name token)) (\<lambda>user_withdrawal_token_account.
     mbind (mprog (FundInstruction_to_vec FundI_CancelWithdrawal)) (\<lambda>data.
     let accounts = [meta_new_readonly wallet_address True, meta_new_readonly fund_ref False,
         meta_new (fnd_info_account fund) False, meta_new_readonly (ce_spl_token env) False,
         meta_new user_requests_account False, meta_new user_withdrawal_token_account False,
         meta_new_readonly token_ref False] in
     mret \<lparr> ins_program_id = (fnd_fund_program_id fund), ins_accounts = accounts, ins_data = data \<rparr>)))))))"

definition new_instruction_approve_withdrawal_fund ::
  "ClientEnv \<Rightarrow> pubkey \<Rightarrow> pubkey \<Rightarrow> bytes \<Rightarrow> bytes \<Rightarrow> f64 \<Rightarrow> Instruction client" where
  "new_instruction_approve_withdrawal_fund env admin_address user_address fund_name token_name ui_amount =
     (if (f64_lt ui_amount (f64_of_nat 0)) then mfail (ValueError (utf8_of ''Invalid approve amount '' @
         ce_f64_to_string env ui_amount @ utf8_of '' specified for Fund '' @ fund_name @ utf8_of
         '': Must be greater or equal to zero.''))
       else mbind (get_fund env fund_name) (\<lambda>fund.
       mbind (get_fund_ref env fund_name) (\<lambda>fund_ref.
       mbind (get_token_by_ref env (fnd_fund_token_ref fund)) (\<lambda>fund_token.
       mbind (get_token env token_name) (\<lambda>token.
       mbind (get_token_ref env token_name) (\<lambda>token_ref.
       mbind (get_fund_user_info_account env user_address fund_name) (\<lambda>user_info_account.
       mbind (get_fund_user_requests_account env user_address fund_name token_name) (\<lambda>user_requests_account.
       mbind (get_associated_token_address env user_address (tok_name token)) (\<lambda>user_withdrawal_token_account.
       mbind (get_associated_token_address env user_address (tok_name fund_token)) (\<lambda>user_fund_token_account.
       mbind (get_fund_custody_account env fund_name token_name FundCustodyType_DepositWithdraw)
           (\<lambda>custody_metadata.
       mbind (get_fund_custody_token_account env fund_name token_name FundCustodyType_DepositWithdraw)
           (\<lambda>custody_token_account.
       mbind (get_fund_custody_fees_token_account env fund_name token_name FundCustodyType_DepositWithdraw)
           (\<lambda>custody_fees_token_account.
       mbind (get_oracle env token_name) (\<lambda>(_, oracle_account).
       mbind (to_token_amount env ui_amount fund_token) (\<lambda>token_amount.
       mbind (mprog (FundInstruction_to_vec (FundI_ApproveWithdrawal token_amount))) (\<lambda>data.
       mbind (get_fund_active_multisig_account env fund_name) (\<lambda>fund_active_multisig_account.
       let accounts = [meta_new_readonly admin_address True, meta_new_readonly fund_ref False,
           meta_new (fnd_info_account fund) False, meta_new fund_active_multisig_account False,
           meta_new_readonly (fnd_fund_authority fund) False, meta_new_readonly (ce_spl_token env) False,
           meta_new (tok_mint fund_token) False, meta_new_readonly user_address False,
           meta_new user_info_account False, meta_new user_requests_account False,
           meta_new user_withdrawal_token_account False, meta_new user_fund_token_account False,
           meta_new custody_token_account False, meta_new custody_fees_token_account False,
           meta_new_readonly custody_metadata False, meta_new_readonly token_ref False,
           meta_new_readonly (unwrap_or oracle_account (ce_zero env)) False] in
       mret \<lparr> ins_program_id = (fnd_fund_program_id fund), ins_accounts = accounts,
           ins_data = data \<rparr>)))))))))))))))))"

definition new_instruction_deny_withdrawal_fund ::
  "ClientEnv \<Rightarrow> pubkey \<Rightarrow> pubkey \<Rightarrow> bytes \<Rightarrow> bytes \<Rightarrow> bytes \<Rightarrow> Instruction client" where
  "new_instruction_deny_withdrawal_fund env admin_address user_address fund_name token_name deny_reason =
     mbind (get_fund env fund_name) (\<lambda>fund.
     mbind (get_fund_ref env fund_name) (\<lambda>fund_ref.
     mbind (get_token_ref env token_name) (\<lambda>token_ref.
     mbind (get_fund_user_requests_account env user_address fund_name token_name) (\<lambda>user_requests_account.
     mbind (mprog (str_to_as64 deny_reason)) (\<lambda>r.
     mbind (mprog (FundInstruction_to_vec (FundI_DenyWithdrawal r))) (\<lambda>data.
     mbind (get_fund_active_multisig_account env fund_name) (\<lambda>fund_active_multisig_account.
     let accounts = [meta_new_readonly admin_address True, meta_new_readonly fund_ref False,
         meta_new (fnd_info_account fund) False, meta_new fund_active_multisig_account False,
         meta_new_readonly user_address False, meta_new user_requests_account False,
         meta_new_readonly token_ref False] in
     mret \<lparr> ins_program_id = (fnd_fund_program_id fund), ins_accounts = accounts, ins_data = data \<rparr>)))))))"

section \<open>Assets\<close>

definition new_instruction_lock_assets_fund ::
  "ClientEnv \<Rightarrow> pubkey \<Rightarrow> bytes \<Rightarrow> bytes \<Rightarrow> f64 \<Rightarrow> Instruction client" where
  "new_instruction_lock_assets_fund env admin_address fund_name token_name ui_amount =
     (if (f64_lt ui_amount (f64_of_nat 0)) then mfail (ValueError (utf8_of ''Invalid lock amount '' @
         ce_f64_to_string env ui_amount @ utf8_of '' specified for Fund '' @ fund_name @ utf8_of
         '': Must be greater or equal to zero.''))
       else mbind (get_fund env fund_name) (\<lambda>fund.
       mbind (get_fund_ref env fund_name) (\<lambda>fund_ref.
       mbind (get_token env token_name) (\<lambda>token.
       mbind (get_token_ref env token_name) (\<lambda>token_ref.
       mbind (get_fund_custody_account env fund_name token_name FundCustodyType_DepositWithdraw)
           (\<lambda>wd_custody_metadata.
       mbind (get_fund_custody_token_account env fund_name token_name FundCustodyType_DepositWithdraw)
           (\<lambda>wd_custody_token_account.
       mbind (get_fund_custody_account env fund_name token_name FundCustodyType_Trading)
           (\<lambda>trading_custody_metadata.
       mbind (get_fund_custody_token_account env fund_name token_name FundCustodyType_Trading)
           (\<lambda>trading_custody_token_account.
       mbind (to_token_amount env ui_amount token) (\<lambda>token_amount.
       mbind (mprog (FundInstruction_to_vec (FundI_LockAssets token_amount))) (\<lambda>data.
       mbind (get_fund_active_multisig_account env fund_name) (\<lambda>fund_active_multisig_account.
       let accounts = [meta_new_readonly admin_address True, meta_new_readonly fund_ref False,
           meta_new (fnd_info_account fund) False, meta_new fund_active_multisig_account False,
           meta_new_readonly (fnd_fund_authority fund) False, meta_new_readonly (ce_spl_token env) False,
           meta_new wd_custody_token_account False, meta_new wd_custody_metadata False,
           meta_new trading_custody_token_account False, meta_new trading_custody_metadata False,
           meta_new_readonly token_ref False] in
       mret \<lparr> ins_program_id = (fnd_fund_program_id fund), ins_accounts = accounts,
           ins_data = data \<rparr>))))))))))))"

definition new_instruction_unlock_assets_fund ::
  "ClientEnv \<Rightarrow> pubkey \<Rightarrow> bytes \<Rightarrow> bytes \<Rightarrow> f64 \<Rightarrow> Instruction client" where
  "new_instruction_unlock_assets_fund env admin_address fund_name token_name ui_amount =
     (if (f64_lt ui_amount (f64_of_nat 0)) then mfail (ValueError (utf8_of ''Invalid unlock amount '' @
         ce_f64_to_string env ui_amount @ utf8_of '' specified for Fund '' @ fund_name @ utf8_of
         '': Must be greater or equal to zero.''))
       else mbind (get_fund env fund_name) (\<lambda>fund.
       mbind (get_fund_ref env fund_name) (\<lambda>fund_ref.
       mbind (get_token env token_name) (\<lambda>token.
       mbind (get_token_ref env token_name) (\<lambda>token_ref.
       mbind (get_fund_custody_account env fund_name token_name FundCustodyType_DepositWithdraw)
           (\<lambda>wd_custody_metadata.
       mbind (get_fund_custody_token_account env fund_name token_name FundCustodyType_DepositWithdraw)
           (\<lambda>wd_custody_token_account.
       mbind (get_fund_custody_account env fund_name token_name FundCustodyType_Trading)
           (\<lambda>trading_custody_metadata.
       mbind (get_fund_custody_token_account env fund_name token_name FundCustodyType_Trading)
           (\<lambda>trading_custody_token_account.
       mbind (to_token_amount env ui_amount token) (\<lambda>token_amount.
       mbind (mprog (FundInstruction_to_vec (FundI_UnlockAssets token_amount))) (\<lambda>data.
       mbind (get_fund_active_multisig_account env fund_name) (\<lambda>fund_active_multisig_account.
       let accounts = [meta_new_readonly admin_address True, meta_new_readonly fund_ref False,
           meta_new (fnd_info_account fund) False, meta_new fund_active_multisig_account False,
           meta_new_readonly (fnd_fund_authority fund) False, meta_new_readonly (ce_spl_token env) False,
           meta_new wd_custody_token_account False, meta_new wd_custody_metadata False,
           meta_new trading_custody_token_account False, meta_new trading_custody_metadata False,
           meta_new_readonly token_ref False] in
       mret \<lparr> ins_program_id = (fnd_fund_program_id fund), ins_accounts = accounts,
           ins_data = data \<rparr>))))))))))))"

definition new_instruction_start_liquidation_fund :: "ClientEnv \<Rightarrow> pubkey \<Rightarrow> bytes \<Rightarrow> Instruction client" where
  "new_instruction_start_liquidation_fund env wallet_address fund_name =
     mbind (get_fund env fund_name) (\<lambda>fund.
     mbind (get_fund_ref env fund_name) (\<lambda>fund_ref.
     mbind (get_token_by_ref env (fnd_fund_token_ref fund)) (\<lambda>fund_token.
     mbind (get_fund_user_info_account env wallet_address fund_name) (\<lambda>user_info_account.
     mbind (get_associated_token_address env wallet_address (tok_name fund_token)) (\<lambda>user_fund_token_account.
     mbind (mprog (FundInstruction_to_vec FundI_StartLiquidation)) (\<lambda>data.
     let accounts = [meta_new_readonly wallet_address True, meta_new_readonly fund_ref False,
         meta_new (fnd_info_account fund) False, meta_new (tok_mint fund_token) False,
         meta_new_readonly user_info_account False, meta_new_readonly user_fund_token_account False,
         meta_new_readonly (ce_instructions env) False] in
     mret \<lparr> ins_program_id = (fnd_fund_program_id fund), ins_accounts = accounts, ins_data = data \<rparr>))))))"

definition new_instruction_stop_liquidation_fund :: "ClientEnv \<Rightarrow> pubkey \<Rightarrow> bytes \<Rightarrow> Instruction client" where
  "new_instruction_stop_liquidation_fund env admin_address fund_name =
     mbind (get_fund env fund_name) (\<lambda>fund.
     mbind (get_fund_ref env fund_name) (\<lambda>fund_ref.
     mbind (mprog (FundInstruction_to_vec FundI_StopLiquidation)) (\<lambda>data.
     mbind (get_fund_active_multisig_account env fund_name) (\<lambda>fund_active_multisig_account.
     let accounts = [meta_new_readonly admin_address True, meta_new_readonly fund_ref False,
         meta_new (fnd_info_account fund) False, meta_new fund_active_multisig_account False] in
     mret \<lparr> ins_program_id = (fnd_fund_program_id fund), ins_accounts = accounts, ins_data = data \<rparr>))))"

definition new_instruction_withdraw_fees_fund ::
  "ClientEnv \<Rightarrow> pubkey \<Rightarrow> bytes \<Rightarrow> bytes \<Rightarrow> FundCustodyType \<Rightarrow> f64 \<Rightarrow> pubkey \<Rightarrow> Instruction client" where
  "new_instruction_withdraw_fees_fund env wallet_address fund_name token_name custody_type ui_amount receiver =
     mbind (get_fund env fund_name) (\<lambda>fund.
     mbind (get_fund_ref env fund_name) (\<lambda>fund_ref.
     mbind (get_fund_custody_fees_token_account env fund_name token_name custody_type)
         (\<lambda>custody_fees_token_account.
     mbind (get_token env token_name) (\<lambda>token.
     mbind (ui_amount_to_tokens_with_decimals env ui_amount (tok_decimals token))
         (\<lambda>ui_amount_to_tokens_with_decimals.
     mbind (mprog (FundInstruction_to_vec (FundI_WithdrawFees ui_amount_to_tokens_with_decimals))) (\<lambda>data.
     mbind (get_fund_active_multisig_account env fund_name) (\<lambda>fund_active_multisig_account.
     mbind (get_fund_multisig_account env fund_name) (\<lambda>fund_multisig_account.
     let accounts = [meta_new_readonly wallet_address True, meta_new_readonly fund_ref False,
         meta_new (fnd_info_account fund) False, meta_new fund_active_multisig_account False,
         meta_new fund_multisig_account False, meta_new_readonly (ce_spl_token env) False,
         meta_new custody_fees_token_account False, meta_new receiver False] in
     mret \<lparr> ins_program_id = (fnd_fund_program_id fund), ins_accounts = accounts, ins_data = data \<rparr>))))))))"

definition new_instruction_update_fund_assets_with_custody ::
  "ClientEnv \<Rightarrow> pubkey \<Rightarrow> bytes \<Rightarrow> u32 \<Rightarrow> Instruction client" where
  "new_instruction_update_fund_assets_with_custody env wallet_address fund_name custody_id =
     mbind (get_fund env fund_name) (\<lambda>fund.
     mbind (get_fund_ref env fund_name) (\<lambda>fund_ref.
     mbind (get_fund_custodies env fund_name) (\<lambda>custodies.
     mbind (mok_or (List.find (\<lambda>c. ((fcu_custody_id c) = custody_id)) custodies) (RecordNotFound (utf8_of
         ''Custody with ID '' @ dec_string (unat custody_id)))) (\<lambda>custody.
     mbind (get_token_by_ref env (fcu_token_ref custody)) (\<lambda>token.
     mbind (get_fund_custody_account env fund_name (tok_name token) (fcu_custody_type custody))
         (\<lambda>custody_metadata.
     mbind (get_fund_assets_account env fund_name FundAssetType_Custody) (\<lambda>custodies_assets_account.
     mbind (get_fund_assets_account env fund_name FundAssetType_Vault) (\<lambda>vaults_assets_account.
     mbind (get_fund_custody_token_account env fund_name (tok_name token) (fcu_custody_type custody))
         (\<lambda>custody_token_account.
     mbind (get_oracle env (tok_name token)) (\<lambda>(_, oracle_account).
     let accounts = [meta_new_readonly wallet_address True, meta_new_readonly fund_ref False,
         meta_new (fnd_info_account fund) False, meta_new custodies_assets_account False,
         meta_new_readonly vaults_assets_account False, meta_new custody_token_account False,
         meta_new custody_metadata False, meta_new_readonly (fcu_token_ref custody) False,
         meta_new_readonly (unwrap_or oracle_account (ce_zero env)) False] in
     mbind (mprog (FundInstruction_to_vec FundI_UpdateAssetsWithCustody)) (\<lambda>bytes.
     mret \<lparr> ins_program_id = (fnd_fund_program_id fund), ins_accounts = accounts, ins_data = bytes \<rparr>)))))))))))"

definition new_instruction_update_fund_assets_with_vault ::
  "ClientEnv \<Rightarrow> pubkey \<Rightarrow> bytes \<Rightarrow> u32 \<Rightarrow> Instruction client" where
  "new_instruction_update_fund_assets_with_vault env wallet_address fund_name vault_id =
     mbind (get_fund env fund_name) (\<lambda>fund.
     mbind (get_fund_ref env fund_name) (\<lambda>fund_ref.
     mbind (get_fund_vaults env fund_name) (\<lambda>vaults.
     mbind (mok_or (List.find (\<lambda>c. ((fva_vault_id c) = vault_id)) vaults) (RecordNotFound (utf8_of
         ''Fund Vault with ID '' @ dec_string (unat vault_id)))) (\<lambda>vault.
     (if ((fva_vault_type vault) = FundVaultType_Farm) then mfail (ValueError (utf8_of
         ''Nothing to do: Farms are not processed to avoid double counting''))
       else mbind (case (fva_vault_type vault) of FundVaultType_Vault \<Rightarrow> mbind (get_vault_by_ref env
           (fva_vault_ref vault)) (\<lambda>vault_by_ref.
         mret (vlt_name vault_by_ref))
         | FundVaultType_Pool \<Rightarrow> mbind (get_pool_by_ref env (fva_vault_ref vault)) (\<lambda>pool_by_ref.
         mret (pl_name pool_by_ref))
         | FundVaultType_Farm \<Rightarrow> mpanic) (\<lambda>vault_name.
       mbind (case (fva_vault_type vault) of FundVaultType_Vault \<Rightarrow> get_vault_token_names env vault_name
         | FundVaultType_Pool \<Rightarrow> get_pool_token_names env vault_name
         | FundVaultType_Farm \<Rightarrow> mpanic) (\<lambda>token_names.
       mbind (case (fva_vault_type vault) of FundVaultType_Vault \<Rightarrow> get_vault_ref env vault_name
         | FundVaultType_Pool \<Rightarrow> get_pool_ref env vault_name
         | FundVaultType_Farm \<Rightarrow> mpanic) (\<lambda>target_vault_metadata.
       mbind (if ((fva_vault_type vault) = FundVaultType_Vault) then mbind (get_vault env vault_name) (\<lambda>vault'.
         (case (vlt_strategy vault') of VaultStrategy_StakeLpCompoundRewards _ _ pool_ref _ _ _ _ _ _ _ _ _ _ _
             _ \<Rightarrow> mret pool_ref
           | _ \<Rightarrow> mpanic))
         else mret target_vault_metadata) (\<lambda>underlying_pool_ref.
       mbind (get_pool_by_ref env underlying_pool_ref) (\<lambda>underlying_pool.
       mbind (mok_or (pl_lp_token_ref underlying_pool) (ClientProgramError UninitializedAccount))
           (\<lambda>lp_token_ref.
       mbind (get_token_by_ref env lp_token_ref) (\<lambda>underlying_lp_token.
       mbind (case (pl_route underlying_pool) of PoolRoute_Raydium amm_id _ amm_open_orders _ _ _ _ _ _ _ _ _ _
           _ \<Rightarrow> mret (amm_id, amm_open_orders)
         | PoolRoute_Orca amm_id _ _ \<Rightarrow> mret (amm_id, (ce_zero env))) (\<lambda>(amm_id, amm_open_orders).
       mbind (get_fund_vault_account env fund_name vault_name (fva_vault_type vault)) (\<lambda>vault_metadata.
       mbind (get_fund_assets_account env fund_name FundAssetType_Custody) (\<lambda>custodies_assets_account.
       mbind (get_fund_assets_account env fund_name FundAssetType_Vault) (\<lambda>vaults_assets_account.
       mbind (if ((fst token_names) = []) then mret (OracleType_Unsupported, None)
         else get_oracle env (fst token_names)) (\<lambda>(_, oracle_account_token_a).
       mbind (if ((fst (snd token_names)) = []) then mret (OracleType_Unsupported, None)
         else get_oracle env (fst (snd token_names))) (\<lambda>(_, oracle_account_token_b).
       mbind (mok_or (pl_token_a_ref underlying_pool) (ClientProgramError UninitializedAccount)) (\<lambda>token_a_ref.
       mbind (mok_or (pl_token_b_ref underlying_pool) (ClientProgramError UninitializedAccount)) (\<lambda>token_b_ref.
       mbind (mok_or (pl_token_a_account underlying_pool) (ClientProgramError UninitializedAccount))
           (\<lambda>token_a_account.
       mbind (mok_or (pl_token_b_account underlying_pool) (ClientProgramError UninitializedAccount))
           (\<lambda>token_b_account.
       let accounts = [meta_new_readonly wallet_address True, meta_new_readonly fund_ref False,
           meta_new (fnd_info_account fund) False, meta_new_readonly custodies_assets_account False,
           meta_new vaults_assets_account False, meta_new vault_metadata False,
           meta_new_readonly (fva_vault_ref vault) False, meta_new_readonly underlying_pool_ref False,
           meta_new_readonly token_a_ref False, meta_new_readonly token_b_ref False,
           meta_new_readonly (tok_mint underlying_lp_token) False, meta_new_readonly token_a_account False,
           meta_new_readonly token_b_account False, meta_new_readonly amm_id False,
           meta_new_readonly amm_open_orders False, meta_new_readonly (unwrap_or oracle_account_token_a
           (ce_zero env)) False, meta_new_readonly (unwrap_or oracle_account_token_b (ce_zero env)) False,
           meta_new_readonly (ce_instructions env) False] in
       mbind (mprog (FundInstruction_to_vec FundI_UpdateAssetsWithVault)) (\<lambda>bytes.
       mret \<lparr> ins_program_id = (fnd_fund_program_id fund), ins_accounts = accounts,
           ins_data = bytes \<rparr>)))))))))))))))))))))))"

end
