(* ===== verification/Client_Pools.thy ===== *)
theory Client_Pools
  imports Client_Api Amm_Instruction
begin

text \<open>
  \<open>client/pool_instructions.rs\<close> and \<open>client/farm_instructions.rs\<close> with the builders of their account lists for
  Raydium and Orca: liquidity, swaps and staking through the routers.
\<close>

section \<open>Accounts of Raydium pools and farms\<close>

definition get_add_liquidity_accounts_raydium :: "ClientEnv \<Rightarrow> pubkey \<Rightarrow> bytes \<Rightarrow> (AccountMeta list) client" where
  "get_add_liquidity_accounts_raydium env wallet_address pool_name =
     mbind (get_pool env pool_name) (\<lambda>pool.
     mbind (get_token_by_ref_from_cache env (pl_token_a_ref pool)) (\<lambda>token_a.
     mbind (get_token_by_ref_from_cache env (pl_token_b_ref pool)) (\<lambda>token_b.
     mbind (get_token_by_ref_from_cache env (pl_lp_token_ref pool)) (\<lambda>lp_token.
     let user_token_a_account = (get_token_account env wallet_address token_a) in
     let user_token_b_account = (get_token_account env wallet_address token_b) in
     let user_lp_token_account = (get_token_account env wallet_address lp_token) in
     let accounts = [] in
     mbind (case (pl_route pool) of PoolRoute_Raydium amm_id amm_authority amm_open_orders amm_target _ _ _
         serum_market _ _ _ _ _ _ \<Rightarrow> mbind (mok_or user_token_a_account (ClientProgramError
         UninitializedAccount)) (\<lambda>user_token_a_account'.
       mbind (mok_or user_token_b_account (ClientProgramError UninitializedAccount)) (\<lambda>user_token_b_account'.
       mbind (mok_or user_lp_token_account (ClientProgramError UninitializedAccount)) (\<lambda>user_lp_token_account'.
       mbind (mok_or (pl_token_a_account pool) (ClientProgramError UninitializedAccount)) (\<lambda>token_a_account.
       mbind (mok_or (pl_token_b_account pool) (ClientProgramError UninitializedAccount)) (\<lambda>token_b_account.
       mbind (mok_or lp_token (ClientProgramError UninitializedAccount)) (\<lambda>lp_token'.
       let accounts = accounts @ [meta_new_readonly wallet_address True, meta_new user_token_a_account' False,
           meta_new user_token_b_account' False, meta_new user_lp_token_account' False,
           meta_new_readonly (pl_pool_program_id pool) False, meta_new token_a_account False,
           meta_new token_b_account False, meta_new (tok_mint lp_token') False,
           meta_new_readonly (ce_spl_token env) False, meta_new amm_id False,
           meta_new_readonly amm_authority False, meta_new_readonly amm_open_orders False,
           meta_new amm_target False, meta_new_readonly serum_market False] in
       mret accounts))))))
       | _ \<Rightarrow> mret accounts) (\<lambda>accounts.
     mret accounts)))))"

definition get_remove_liquidity_accounts_raydium ::
  "ClientEnv \<Rightarrow> pubkey \<Rightarrow> bytes \<Rightarrow> (AccountMeta list) client" where
  "get_remove_liquidity_accounts_raydium env wallet_address pool_name =
     mbind (get_pool env pool_name) (\<lambda>pool.
     mbind (get_token_by_ref_from_cache env (pl_token_a_ref pool)) (\<lambda>token_a.
     mbind (get_token_by_ref_from_cache env (pl_token_b_ref pool)) (\<lambda>token_b.
     mbind (get_token_by_ref_from_cache env (pl_lp_token_ref pool)) (\<lambda>lp_token.
     let user_token_a_account = (get_token_account env wallet_address token_a) in
     let user_token_b_account = (get_token_account env wallet_address token_b) in
     let user_lp_token_account = (get_token_account env wallet_address lp_token) in
     let accounts = [] in
     mbind (case (pl_route pool) of PoolRoute_Raydium amm_id amm_authority amm_open_orders amm_target
         pool_withdraw_queue pool_temp_lp_token_account serum_program_id serum_market serum_coin_vault_account
         serum_pc_vault_account serum_vault_signer serum_bids serum_asks serum_event_queue \<Rightarrow> mbind (mok_or
         user_token_a_account (ClientProgramError UninitializedAccount)) (\<lambda>user_token_a_account'.
       mbind (mok_or user_token_b_account (ClientProgramError UninitializedAccount)) (\<lambda>user_token_b_account'.
       mbind (mok_or user_lp_token_account (ClientProgramError UninitializedAccount)) (\<lambda>user_lp_token_account'.
       mbind (mok_or (pl_token_a_account pool) (ClientProgramError UninitializedAccount)) (\<lambda>token_a_account.
       mbind (mok_or (pl_token_b_account pool) (ClientProgramError UninitializedAccount)) (\<lambda>token_b_account.
       mbind (mok_or lp_token (ClientProgramError UninitializedAccount)) (\<lambda>lp_token'.
       mbind (mok_or serum_bids (ClientProgramError UninitializedAccount)) (\<lambda>serum_bids'.
       mbind (mok_or serum_asks (ClientProgramError UninitializedAccount)) (\<lambda>serum_asks'.
       mbind (mok_or serum_event_queue (ClientProgramError UninitializedAccount)) (\<lambda>serum_event_queue'.
       let accounts = accounts @ [meta_new_readonly wallet_address True, meta_new user_token_a_account' False,
           meta_new user_token_b_account' False, meta_new user_lp_token_account' False,
           meta_new_readonly (pl_pool_program_id pool) False, meta_new pool_withdraw_queue False,
           meta_new pool_temp_lp_token_account False, meta_new token_a_account False,
           meta_new token_b_account False, meta_new (tok_mint lp_token') False,
           meta_new_readonly (ce_spl_token env) False, meta_new amm_id False,
           meta_new_readonly amm_authority False, meta_new amm_open_orders False, meta_new amm_target False,
           meta_new serum_market False, meta_new_readonly serum_program_id False, meta_new serum_bids' False,
           meta_new serum_asks' False, meta_new serum_event_queue' False,
           meta_new serum_coin_vault_account False, meta_new serum_pc_vault_account False,
           meta_new_readonly serum_vault_signer False] in
       mret accounts)))))))))
       | _ \<Rightarrow> mret accounts) (\<lambda>accounts.
     mret accounts)))))"

definition get_swap_accounts_raydium :: "ClientEnv \<Rightarrow> pubkey \<Rightarrow> bytes \<Rightarrow> (AccountMeta list) client" where
  "get_swap_accounts_raydium env wallet_address pool_name =
     mbind (get_pool env pool_name) (\<lambda>pool.
     mbind (get_token_by_ref_from_cache env (pl_token_a_ref pool)) (\<lambda>token_a.
     mbind (get_token_by_ref_from_cache env (pl_token_b_ref pool)) (\<lambda>token_b.
     let user_token_a_account = (get_token_account env wallet_address token_a) in
     let user_token_b_account = (get_token_account env wallet_address token_b) in
     let accounts = [] in
     mbind (case (pl_route pool) of PoolRoute_Raydium amm_id amm_authority amm_open_orders amm_target _ _
         serum_program_id serum_market serum_coin_vault_account serum_pc_vault_account serum_vault_signer
         serum_bids serum_asks serum_event_queue \<Rightarrow> mbind (mok_or user_token_a_account (ClientProgramError
         UninitializedAccount)) (\<lambda>user_token_a_account'.
       mbind (mok_or user_token_b_account (ClientProgramError UninitializedAccount)) (\<lambda>user_token_b_account'.
       mbind (mok_or (pl_token_a_account pool) (ClientProgramError UninitializedAccount)) (\<lambda>token_a_account.
       mbind (mok_or (pl_token_b_account pool) (ClientProgramError UninitializedAccount)) (\<lambda>token_b_account.
       mbind (mok_or serum_bids (ClientProgramError UninitializedAccount)) (\<lambda>serum_bids'.
       mbind (mok_or serum_asks (ClientProgramError UninitializedAccount)) (\<lambda>serum_asks'.
       mbind (mok_or serum_event_queue (ClientProgramError UninitializedAccount)) (\<lambda>serum_event_queue'.
       let accounts = accounts @ [meta_new_readonly wallet_address True, meta_new user_token_a_account' False,
           meta_new user_token_b_account' False, meta_new_readonly (pl_pool_program_id pool) False,
           meta_new token_a_account False, meta_new token_b_account False,
           meta_new_readonly (ce_spl_token env) False, meta_new amm_id False,
           meta_new_readonly amm_authority False, meta_new amm_open_orders False, meta_new amm_target False,
           meta_new serum_market False, meta_new_readonly serum_program_id False, meta_new serum_bids' False,
           meta_new serum_asks' False, meta_new serum_event_queue' False,
           meta_new serum_coin_vault_account False, meta_new serum_pc_vault_account False,
           meta_new_readonly serum_vault_signer False] in
       mret accounts)))))))
       | _ \<Rightarrow> mret accounts) (\<lambda>accounts.
     mret accounts))))"

definition get_user_init_accounts_raydium :: "ClientEnv \<Rightarrow> pubkey \<Rightarrow> bytes \<Rightarrow> (AccountMeta list) client" where
  "get_user_init_accounts_raydium env wallet_address farm_name =
     mbind (get_farm env farm_name) (\<lambda>farm.
     mbind (get_farm_ref env farm_name) (\<lambda>farm_metadata.
     mbind (case (frm_route farm) of FarmRoute_Raydium farm_id _ _ _ _ \<Rightarrow> mret farm_id
       | _ \<Rightarrow> mpanic) (\<lambda>farm_id.
     mbind (program_address env [(utf8_of ''Miner''), farm_id,
         wallet_address] (frm_router_program_id farm)) (\<lambda>pda.
     let farmer = pda in
     let accounts = [meta_new wallet_address True, meta_new_readonly wallet_address False,
         meta_new farmer False, meta_new_readonly farm_metadata False,
         meta_new_readonly (ce_system_program env) False] in
     mret accounts))))"

definition get_stake_accounts_raydium :: "ClientEnv \<Rightarrow> pubkey \<Rightarrow> bytes \<Rightarrow> (AccountMeta list) client" where
  "get_stake_accounts_raydium env wallet_address farm_name =
     mbind (get_farm env farm_name) (\<lambda>farm.
     mbind (get_token_by_ref_from_cache env (frm_first_reward_token_ref farm)) (\<lambda>token_a.
     mbind (get_token_by_ref_from_cache env (frm_second_reward_token_ref farm)) (\<lambda>token_b.
     mbind (get_token_by_ref_from_cache env (frm_lp_token_ref farm)) (\<lambda>lp_token.
     let user_first_reward_token_account = (get_token_account env wallet_address token_a) in
     let user_second_reward_token_account = (get_token_account env wallet_address token_b) in
     let user_lp_token_account = (get_token_account env wallet_address lp_token) in
     let accounts = [] in
     mbind (case (frm_route farm) of FarmRoute_Raydium farm_id farm_authority farm_lp_token_account
         farm_first_reward_token_account farm_second_reward_token_account \<Rightarrow> mbind (get_stake_account env
         wallet_address farm_name) (\<lambda>user_info_account.
       mbind (mok_or user_lp_token_account (ClientProgramError UninitializedAccount)) (\<lambda>user_lp_token_account'.
       mbind (mok_or user_first_reward_token_account (ClientProgramError UninitializedAccount))
           (\<lambda>user_first_reward_token_account'.
       let accounts = accounts @ [meta_new_readonly wallet_address True, meta_new user_info_account False,
           meta_new user_lp_token_account' False, meta_new user_first_reward_token_account' False,
           meta_new (unwrap_or user_second_reward_token_account (ce_zero env)) False,
           meta_new_readonly (frm_farm_program_id farm) False, meta_new farm_lp_token_account False,
           meta_new farm_first_reward_token_account False,
           meta_new (unwrap_or farm_second_reward_token_account (ce_zero env)) False,
           meta_new_readonly (ce_clock env) False, meta_new_readonly (ce_spl_token env) False,
           meta_new farm_id False, meta_new_readonly farm_authority False] in
       mret accounts)))
       | _ \<Rightarrow> mret accounts) (\<lambda>accounts.
     mret accounts)))))"

definition get_unstake_accounts_raydium :: "ClientEnv \<Rightarrow> pubkey \<Rightarrow> bytes \<Rightarrow> (AccountMeta list) client" where
  "get_unstake_accounts_raydium env wallet_address farm_name =
     mbind (get_farm env farm_name) (\<lambda>farm.
     mbind (get_token_by_ref_from_cache env (frm_first_reward_token_ref farm)) (\<lambda>token_a.
     mbind (get_token_by_ref_from_cache env (frm_second_reward_token_ref farm)) (\<lambda>token_b.
     mbind (get_token_by_ref_from_cache env (frm_lp_token_ref farm)) (\<lambda>lp_token.
     let user_first_reward_token_account = (get_token_account env wallet_address token_a) in
     let user_second_reward_token_account = (get_token_account env wallet_address token_b) in
     let user_lp_token_account = (get_token_account env wallet_address lp_token) in
     let accounts = [] in
     mbind (case (frm_route farm) of FarmRoute_Raydium farm_id farm_authority farm_lp_token_account
         farm_first_reward_token_account farm_second_reward_token_account \<Rightarrow> mbind (get_stake_account env
         wallet_address farm_name) (\<lambda>user_info_account.
       mbind (mok_or user_lp_token_account (ClientProgramError UninitializedAccount)) (\<lambda>user_lp_token_account'.
       mbind (mok_or user_first_reward_token_account (ClientProgramError UninitializedAccount))
           (\<lambda>user_first_reward_token_account'.
       let accounts = accounts @ [meta_new_readonly wallet_address True, meta_new user_info_account False,
           meta_new user_lp_token_account' False, meta_new user_first_reward_token_account' False,
           meta_new (unwrap_or user_second_reward_token_account (ce_zero env)) False,
           meta_new_readonly (frm_farm_program_id farm) False, meta_new farm_lp_token_account False,
           meta_new farm_first_reward_token_account False,
           meta_new (unwrap_or farm_second_reward_token_account (ce_zero env)) False,
           meta_new_readonly (ce_clock env) False, meta_new_readonly (ce_spl_token env) False,
           meta_new farm_id False, meta_new_readonly farm_authority False] in
       mret accounts)))
       | _ \<Rightarrow> mret accounts) (\<lambda>accounts.
     mret accounts)))))"

definition get_harvest_accounts_raydium :: "ClientEnv \<Rightarrow> pubkey \<Rightarrow> bytes \<Rightarrow> (AccountMeta list) client" where
  "get_harvest_accounts_raydium env wallet_address farm_name =
     get_stake_accounts_raydium env wallet_address farm_name"

section \<open>Accounts of Orca pools and farms\<close>

definition get_add_liquidity_accounts_orca :: "ClientEnv \<Rightarrow> pubkey \<Rightarrow> bytes \<Rightarrow> (AccountMeta list) client" where
  "get_add_liquidity_accounts_orca env wallet_address pool_name =
     mbind (get_pool env pool_name) (\<lambda>pool.
     mbind (get_token_by_ref_from_cache env (pl_token_a_ref pool)) (\<lambda>token_a.
     mbind (get_token_by_ref_from_cache env (pl_token_b_ref pool)) (\<lambda>token_b.
     mbind (get_token_by_ref_from_cache env (pl_lp_token_ref pool)) (\<lambda>lp_token.
     let user_token_a_account = (get_token_account env wallet_address token_a) in
     let user_token_b_account = (get_token_account env wallet_address token_b) in
     let user_lp_token_account = (get_token_account env wallet_address lp_token) in
     let accounts = [] in
     mbind (case (pl_route pool) of PoolRoute_Orca amm_id amm_authority _ \<Rightarrow> mbind (mok_or user_token_a_account
         (ClientProgramError UninitializedAccount)) (\<lambda>user_token_a_account'.
       mbind (mok_or user_token_b_account (ClientProgramError UninitializedAccount)) (\<lambda>user_token_b_account'.
       mbind (mok_or user_lp_token_account (ClientProgramError UninitializedAccount)) (\<lambda>user_lp_token_account'.
       mbind (mok_or (pl_token_a_account pool) (ClientProgramError UninitializedAccount)) (\<lambda>token_a_account.
       mbind (mok_or (pl_token_b_account pool) (ClientProgramError UninitializedAccount)) (\<lambda>token_b_account.
       mbind (mok_or lp_token (ClientProgramError UninitializedAccount)) (\<lambda>lp_token'.
       let accounts = accounts @ [meta_new_readonly wallet_address True, meta_new user_token_a_account' False,
           meta_new user_token_b_account' False, meta_new user_lp_token_account' False,
           meta_new_readonly (pl_pool_program_id pool) False, meta_new token_a_account False,
           meta_new token_b_account False, meta_new (tok_mint lp_token') False,
           meta_new_readonly (ce_spl_token env) False, meta_new_readonly amm_id False,
           meta_new_readonly amm_authority False] in
       mret accounts))))))
       | _ \<Rightarrow> mret accounts) (\<lambda>accounts.
     mret accounts)))))"

definition get_remove_liquidity_accounts_orca :: "ClientEnv \<Rightarrow> pubkey \<Rightarrow> bytes \<Rightarrow> (AccountMeta list) client" where
  "get_remove_liquidity_accounts_orca env wallet_address pool_name =
     mbind (get_pool env pool_name) (\<lambda>pool.
     mbind (get_token_by_ref_from_cache env (pl_token_a_ref pool)) (\<lambda>token_a.
     mbind (get_token_by_ref_from_cache env (pl_token_b_ref pool)) (\<lambda>token_b.
     mbind (get_token_by_ref_from_cache env (pl_lp_token_ref pool)) (\<lambda>lp_token.
     let user_token_a_account = (get_token_account env wallet_address token_a) in
     let user_token_b_account = (get_token_account env wallet_address token_b) in
     let user_lp_token_account = (get_token_account env wallet_address lp_token) in
     let accounts = [] in
     mbind (case (pl_route pool) of PoolRoute_Orca amm_id amm_authority fees_account \<Rightarrow> mbind (mok_or
         user_token_a_account (ClientProgramError UninitializedAccount)) (\<lambda>user_token_a_account'.
       mbind (mok_or user_token_b_account (ClientProgramError UninitializedAccount)) (\<lambda>user_token_b_account'.
       mbind (mok_or user_lp_token_account (ClientProgramError UninitializedAccount)) (\<lambda>user_lp_token_account'.
       mbind (mok_or (pl_token_a_account pool) (ClientProgramError UninitializedAccount)) (\<lambda>token_a_account.
       mbind (mok_or (pl_token_b_account pool) (ClientProgramError UninitializedAccount)) (\<lambda>token_b_account.
       mbind (mok_or lp_token (ClientProgramError UninitializedAccount)) (\<lambda>lp_token'.
       let accounts = accounts @ [meta_new_readonly wallet_address True, meta_new user_token_a_account' False,
           meta_new user_token_b_account' False, meta_new user_lp_token_account' False,
           meta_new_readonly (pl_pool_program_id pool) False, meta_new token_a_account False,
           meta_new token_b_account False, meta_new (tok_mint lp_token') False,
           meta_new_readonly (ce_spl_token env) False, meta_new_readonly amm_id False,
           meta_new_readonly amm_authority False, meta_new fees_account False] in
       mret accounts))))))
       | _ \<Rightarrow> mret accounts) (\<lambda>accounts.
     mret accounts)))))"

definition get_swap_accounts_orca :: "ClientEnv \<Rightarrow> pubkey \<Rightarrow> bytes \<Rightarrow> (AccountMeta list) client" where
  "get_swap_accounts_orca env wallet_address pool_name =
     mbind (get_pool env pool_name) (\<lambda>pool.
     mbind (get_token_by_ref_from_cache env (pl_token_a_ref pool)) (\<lambda>token_a.
     mbind (get_token_by_ref_from_cache env (pl_token_b_ref pool)) (\<lambda>token_b.
     mbind (get_token_by_ref_from_cache env (pl_lp_token_ref pool)) (\<lambda>lp_token.
     let user_token_a_account = (get_token_account env wallet_address token_a) in
     let user_token_b_account = (get_token_account env wallet_address token_b) in
     let accounts = [] in
     mbind (case (pl_route pool) of PoolRoute_Orca amm_id amm_authority fees_account \<Rightarrow> mbind (mok_or
         user_token_a_account (ClientProgramError UninitializedAccount)) (\<lambda>user_token_a_account'.
       mbind (mok_or user_token_b_account (ClientProgramError UninitializedAccount)) (\<lambda>user_token_b_account'.
       mbind (mok_or (pl_token_a_account pool) (ClientProgramError UninitializedAccount)) (\<lambda>token_a_account.
       mbind (mok_or (pl_token_b_account pool) (ClientProgramError UninitializedAccount)) (\<lambda>token_b_account.
       mbind (mok_or lp_token (ClientProgramError UninitializedAccount)) (\<lambda>lp_token'.
       let accounts = accounts @ [meta_new_readonly wallet_address True, meta_new user_token_a_account' False,
           meta_new user_token_b_account' False, meta_new_readonly (pl_pool_program_id pool) False,
           meta_new token_a_account False, meta_new token_b_account False, meta_new (tok_mint lp_token') False,
           meta_new_readonly (ce_spl_token env) False, meta_new_readonly amm_id False,
           meta_new_readonly amm_authority False, meta_new fees_account False] in
       mret accounts)))))
       | _ \<Rightarrow> mret accounts) (\<lambda>accounts.
     mret accounts)))))"

definition get_user_init_accounts_orca :: "ClientEnv \<Rightarrow> pubkey \<Rightarrow> bytes \<Rightarrow> (AccountMeta list) client" where
  "get_user_init_accounts_orca env wallet_address farm_name =
     mbind (get_farm env farm_name) (\<lambda>farm.
     mbind (case (frm_route farm) of FarmRoute_Orca farm_id _ _ _ _ \<Rightarrow> mret farm_id
       | _ \<Rightarrow> mpanic) (\<lambda>farm_id.
     mbind (program_address env [farm_id, wallet_address, (ce_spl_token env)] (frm_farm_program_id farm)) (\<lambda>pda.
     let farmer = pda in
     let accounts = [meta_new wallet_address True, meta_new_readonly wallet_address False,
         meta_new farmer False, meta_new_readonly farm_id False,
         meta_new_readonly (frm_farm_program_id farm) False, meta_new_readonly (ce_system_program env) False] in
     mret accounts)))"

definition get_stake_accounts_orca :: "ClientEnv \<Rightarrow> pubkey \<Rightarrow> bytes \<Rightarrow> (AccountMeta list) client" where
  "get_stake_accounts_orca env wallet_address farm_name =
     mbind (get_farm env farm_name) (\<lambda>farm.
     mbind (get_token_by_ref_from_cache env (frm_first_reward_token_ref farm)) (\<lambda>token_a.
     mbind (get_token_by_ref_from_cache env (frm_lp_token_ref farm)) (\<lambda>lp_token.
     let user_reward_token_account = (get_token_account env wallet_address token_a) in
     let user_lp_token_account = (get_token_account env wallet_address lp_token) in
     let accounts = [] in
     mbind (case (frm_route farm) of FarmRoute_Orca farm_id farm_authority farm_token_ref base_token_vault
         reward_token_vault \<Rightarrow> mbind (get_stake_account env wallet_address farm_name) (\<lambda>user_info_account.
       mbind (get_token_by_ref_from_cache env (Some farm_token_ref)) (\<lambda>farm_lp_token.
       let user_farm_lp_token_account = (get_token_account env wallet_address farm_lp_token) in
       mbind (mok_or user_lp_token_account (ClientProgramError UninitializedAccount)) (\<lambda>user_lp_token_account'.
       mbind (mok_or user_reward_token_account (ClientProgramError UninitializedAccount))
           (\<lambda>user_reward_token_account'.
       mbind (mok_or user_farm_lp_token_account (ClientProgramError UninitializedAccount))
           (\<lambda>user_farm_lp_token_account'.
       mbind (mok_or farm_lp_token (ClientProgramError UninitializedAccount)) (\<lambda>farm_lp_token'.
       let accounts = accounts @ [meta_new_readonly wallet_address True, meta_new user_info_account False,
           meta_new user_lp_token_account' False, meta_new user_reward_token_account' False,
           meta_new user_farm_lp_token_account' False, meta_new (tok_mint farm_lp_token') False,
           meta_new_readonly (frm_farm_program_id farm) False, meta_new base_token_vault False,
           meta_new reward_token_vault False, meta_new_readonly (ce_spl_token env) False,
           meta_new farm_id False, meta_new_readonly farm_authority False] in
       mret accounts))))))
       | _ \<Rightarrow> mret accounts) (\<lambda>accounts.
     mret accounts))))"

definition get_unstake_accounts_orca :: "ClientEnv \<Rightarrow> pubkey \<Rightarrow> bytes \<Rightarrow> (AccountMeta list) client" where
  "get_unstake_accounts_orca env wallet_address farm_name =
     mbind (get_farm env farm_name) (\<lambda>farm.
     mbind (get_token_by_ref_from_cache env (frm_first_reward_token_ref farm)) (\<lambda>token_a.
     mbind (get_token_by_ref_from_cache env (frm_lp_token_ref farm)) (\<lambda>lp_token.
     let user_reward_token_account = (get_token_account env wallet_address token_a) in
     let user_lp_token_account = (get_token_account env wallet_address lp_token) in
     let accounts = [] in
     mbind (case (frm_route farm) of FarmRoute_Orca farm_id farm_authority farm_token_ref base_token_vault
         reward_token_vault \<Rightarrow> mbind (get_stake_account env wallet_address farm_name) (\<lambda>user_info_account.
       mbind (get_token_by_ref_from_cache env (Some farm_token_ref)) (\<lambda>farm_lp_token.
       let user_farm_lp_token_account = (get_token_account env wallet_address farm_lp_token) in
       mbind (mok_or user_lp_token_account (ClientProgramError UninitializedAccount)) (\<lambda>user_lp_token_account'.
       mbind (mok_or user_reward_token_account (ClientProgramError UninitializedAccount))
           (\<lambda>user_reward_token_account'.
       mbind (mok_or user_farm_lp_token_account (ClientProgramError UninitializedAccount))
           (\<lambda>user_farm_lp_token_account'.
       mbind (mok_or farm_lp_token (ClientProgramError UninitializedAccount)) (\<lambda>farm_lp_token'.
       let accounts = accounts @ [meta_new_readonly wallet_address True, meta_new user_info_account False,
           meta_new user_lp_token_account' False, meta_new user_reward_token_account' False,
           meta_new user_farm_lp_token_account' False, meta_new (tok_mint farm_lp_token') False,
           meta_new_readonly (frm_farm_program_id farm) False, meta_new base_token_vault False,
           meta_new reward_token_vault False, meta_new_readonly (ce_spl_token env) False,
           meta_new farm_id False, meta_new_readonly farm_authority False] in
       mret accounts))))))
       | _ \<Rightarrow> mret accounts) (\<lambda>accounts.
     mret accounts))))"

definition get_harvest_accounts_orca :: "ClientEnv \<Rightarrow> pubkey \<Rightarrow> bytes \<Rightarrow> (AccountMeta list) client" where
  "get_harvest_accounts_orca env wallet_address farm_name =
     mbind (get_farm env farm_name) (\<lambda>farm.
     mbind (get_token_by_ref_from_cache env (frm_first_reward_token_ref farm)) (\<lambda>token_a.
     let user_reward_token_account = (get_token_account env wallet_address token_a) in
     let accounts = [] in
     mbind (case (frm_route farm) of FarmRoute_Orca farm_id farm_authority _ base_token_vault
         reward_token_vault \<Rightarrow> mbind (get_stake_account env wallet_address farm_name) (\<lambda>user_info_account.
       mbind (mok_or user_reward_token_account (ClientProgramError UninitializedAccount))
           (\<lambda>user_reward_token_account'.
       let accounts = accounts @ [meta_new_readonly wallet_address True, meta_new user_info_account False,
           meta_new user_reward_token_account' False, meta_new_readonly (frm_farm_program_id farm) False,
           meta_new base_token_vault False, meta_new reward_token_vault False,
           meta_new_readonly (ce_spl_token env) False, meta_new farm_id False,
           meta_new_readonly farm_authority False] in
       mret accounts))
       | _ \<Rightarrow> mret accounts) (\<lambda>accounts.
     mret accounts)))"

section \<open>Pools\<close>

definition new_instruction_add_liquidity_pool ::
  "ClientEnv \<Rightarrow> pubkey \<Rightarrow> bytes \<Rightarrow> f64 \<Rightarrow> f64 \<Rightarrow> Instruction client" where
  "new_instruction_add_liquidity_pool env wallet_address pool_name max_token_a_ui_amount max_token_b_ui_amount =
     mbind (get_pool env pool_name) (\<lambda>pool.
     mbind (get_token_by_ref_from_cache env (pl_token_a_ref pool)) (\<lambda>token_a.
     mbind (get_token_by_ref_from_cache env (pl_token_b_ref pool)) (\<lambda>token_b.
     mbind (to_token_amount_option env max_token_a_ui_amount token_a) (\<lambda>max_token_a_amount.
     mbind (to_token_amount_option env max_token_b_ui_amount token_b) (\<lambda>max_token_b_amount.
     mbind (mprog (AmmInstruction_to_vec (AmmI_AddLiquidity max_token_a_amount max_token_b_amount))) (\<lambda>data.
     mbind (case (pl_route pool) of PoolRoute_Raydium _ _ _ _ _ _ _ _ _ _ _ _ _ _ \<Rightarrow>
         get_add_liquidity_accounts_raydium env wallet_address pool_name
       | PoolRoute_Orca _ _ _ \<Rightarrow> get_add_liquidity_accounts_orca env wallet_address pool_name) (\<lambda>accounts.
     mret \<lparr> ins_program_id = (pl_router_program_id pool), ins_accounts = accounts, ins_data = data \<rparr>)))))))"

definition new_instruction_remove_liquidity_pool ::
  "ClientEnv \<Rightarrow> pubkey \<Rightarrow> bytes \<Rightarrow> f64 \<Rightarrow> Instruction client" where
  "new_instruction_remove_liquidity_pool env wallet_address pool_name ui_amount =
     mbind (get_pool env pool_name) (\<lambda>pool.
     mbind (get_token_by_ref_from_cache env (pl_lp_token_ref pool)) (\<lambda>lp_token.
     mbind (to_token_amount_option env ui_amount lp_token) (\<lambda>token_amount_option.
     mbind (mprog (AmmInstruction_to_vec (AmmI_RemoveLiquidity token_amount_option))) (\<lambda>data.
     mbind (case (pl_route pool) of PoolRoute_Raydium _ _ _ _ _ _ _ _ _ _ _ _ _ _ \<Rightarrow>
         get_remove_liquidity_accounts_raydium env wallet_address pool_name
       | PoolRoute_Orca _ _ _ \<Rightarrow> get_remove_liquidity_accounts_orca env wallet_address pool_name) (\<lambda>accounts.
     mret \<lparr> ins_program_id = (pl_router_program_id pool), ins_accounts = accounts, ins_data = data \<rparr>)))))"

definition new_instruction_swap ::
  "ClientEnv \<Rightarrow> pubkey \<Rightarrow> Protocol \<Rightarrow> bytes \<Rightarrow> bytes \<Rightarrow> f64 \<Rightarrow> f64 \<Rightarrow> Instruction client" where
  "new_instruction_swap env wallet_address protocol from_token to_token ui_amount_in min_ui_amount_out =
     mbind (find_pools env protocol from_token to_token) (\<lambda>pools.
     mbind (mindex pools 0) (\<lambda>item.
     let pool = item in
     mbind (mlift (pool_has_reverse_tokens (pl_name pool) from_token)) (\<lambda>reverse.
     mbind (get_token_by_ref_from_cache env (pl_token_a_ref pool)) (\<lambda>token_a.
     mbind (get_token_by_ref_from_cache env (pl_token_b_ref pool)) (\<lambda>token_b.
     mbind (if reverse then to_token_amount_option env ui_amount_in token_b
       else to_token_amount_option env ui_amount_in token_a) (\<lambda>max_amount_in.
     mbind (if reverse then to_token_amount_option env min_ui_amount_out token_a
       else to_token_amount_option env min_ui_amount_out token_b) (\<lambda>min_amount_out.
     mbind (mprog (AmmInstruction_to_vec (if reverse then (AmmI_Swap 0 max_amount_in min_amount_out)
           else (AmmI_Swap max_amount_in 0 min_amount_out)))) (\<lambda>data.
     mbind (case (pl_route pool) of PoolRoute_Raydium _ _ _ _ _ _ _ _ _ _ _ _ _ _ \<Rightarrow> get_swap_accounts_raydium
         env wallet_address (pl_name pool)
       | PoolRoute_Orca _ _ _ \<Rightarrow> get_swap_accounts_orca env wallet_address (pl_name pool)) (\<lambda>accounts.
     mret \<lparr> ins_program_id = (pl_router_program_id pool), ins_accounts = accounts, ins_data = data \<rparr>)))))))))"

definition new_instruction_wrap_token ::
  "ClientEnv \<Rightarrow> pubkey \<Rightarrow> bytes \<Rightarrow> TokenSelector \<Rightarrow> f64 \<Rightarrow> Instruction client" where
  "new_instruction_wrap_token env wallet_address pool_name token_to_wrap ui_amount =
     mbind (get_pool env pool_name) (\<lambda>pool.
     mbind (if (token_to_wrap = TokenSelector_TokenA) then get_token_by_ref_from_cache env (pl_token_a_ref pool)
       else get_token_by_ref_from_cache env (pl_token_b_ref pool)) (\<lambda>token.
     mbind (to_token_amount_option env ui_amount token) (\<lambda>token_amount_option.
     mbind (mprog (AmmInstruction_to_vec (AmmI_WrapToken token_amount_option))) (\<lambda>data.
     mpanic))))"

definition new_instruction_unwrap_token ::
  "ClientEnv \<Rightarrow> pubkey \<Rightarrow> bytes \<Rightarrow> TokenSelector \<Rightarrow> f64 \<Rightarrow> Instruction client" where
  "new_instruction_unwrap_token env wallet_address pool_name token_to_unwrap ui_amount =
     mbind (get_pool env pool_name) (\<lambda>pool.
     mpanic)"

section \<open>Farms\<close>

definition new_instruction_user_init :: "ClientEnv \<Rightarrow> pubkey \<Rightarrow> bytes \<Rightarrow> Instruction client" where
  "new_instruction_user_init env wallet_address farm_name =
     mbind (get_farm env farm_name) (\<lambda>farm.
     mbind (mprog (AmmInstruction_to_vec AmmI_UserInit)) (\<lambda>data.
     mbind (case (frm_route farm) of FarmRoute_Raydium _ _ _ _ _ \<Rightarrow> get_user_init_accounts_raydium env
         wallet_address farm_name
       | FarmRoute_Orca _ _ _ _ _ \<Rightarrow> get_user_init_accounts_orca env wallet_address farm_name) (\<lambda>accounts.
     mret \<lparr> ins_program_id = (frm_router_program_id farm), ins_accounts = accounts, ins_data = data \<rparr>)))"

definition new_instruction_stake :: "ClientEnv \<Rightarrow> pubkey \<Rightarrow> bytes \<Rightarrow> f64 \<Rightarrow> Instruction client" where
  "new_instruction_stake env wallet_address farm_name ui_amount =
     mbind (get_farm env farm_name) (\<lambda>farm.
     mbind (get_token_by_ref_from_cache env (frm_lp_token_ref farm)) (\<lambda>lp_token.
     mbind (to_token_amount_option env ui_amount lp_token) (\<lambda>token_amount_option.
     mbind (mprog (AmmInstruction_to_vec (AmmI_Stake token_amount_option))) (\<lambda>data.
     mbind (case (frm_route farm) of FarmRoute_Raydium _ _ _ _ _ \<Rightarrow> get_stake_accounts_raydium env
         wallet_address farm_name
       | FarmRoute_Orca _ _ _ _ _ \<Rightarrow> get_stake_accounts_orca env wallet_address farm_name) (\<lambda>accounts.
     mret \<lparr> ins_program_id = (frm_router_program_id farm), ins_accounts = accounts, ins_data = data \<rparr>)))))"

definition new_instruction_unstake :: "ClientEnv \<Rightarrow> pubkey \<Rightarrow> bytes \<Rightarrow> f64 \<Rightarrow> Instruction client" where
  "new_instruction_unstake env wallet_address farm_name ui_amount =
     mbind (get_farm env farm_name) (\<lambda>farm.
     mbind (get_token_by_ref_from_cache env (frm_lp_token_ref farm)) (\<lambda>lp_token.
     mbind (to_token_amount_option env ui_amount lp_token) (\<lambda>token_amount_option.
     mbind (mprog (AmmInstruction_to_vec (AmmI_Unstake token_amount_option))) (\<lambda>data.
     mbind (case (frm_route farm) of FarmRoute_Raydium _ _ _ _ _ \<Rightarrow> get_unstake_accounts_raydium env
         wallet_address farm_name
       | FarmRoute_Orca _ _ _ _ _ \<Rightarrow> get_unstake_accounts_orca env wallet_address farm_name) (\<lambda>accounts.
     mret \<lparr> ins_program_id = (frm_router_program_id farm), ins_accounts = accounts, ins_data = data \<rparr>)))))"

definition new_instruction_harvest :: "ClientEnv \<Rightarrow> pubkey \<Rightarrow> bytes \<Rightarrow> Instruction client" where
  "new_instruction_harvest env wallet_address farm_name =
     mbind (get_farm env farm_name) (\<lambda>farm.
     mbind (mprog (AmmInstruction_to_vec AmmI_Harvest)) (\<lambda>data.
     mbind (case (frm_route farm) of FarmRoute_Raydium _ _ _ _ _ \<Rightarrow> get_harvest_accounts_raydium env
         wallet_address farm_name
       | FarmRoute_Orca _ _ _ _ _ \<Rightarrow> get_harvest_accounts_orca env wallet_address farm_name) (\<lambda>accounts.
     mret \<lparr> ins_program_id = (frm_router_program_id farm), ins_accounts = accounts, ins_data = data \<rparr>)))"

end
