(* ===== verification/Client_Vault.thy ===== *)
theory Client_Vault
  imports Client_Api Vault_Instruction
begin

text \<open>
  \<open>client/vault_instructions.rs\<close> with \<open>vault_stc_accounts_raydium.rs\<close> and \<open>vault_stc_accounts_orca.rs\<close>: the
  instructions for vaults and the accounts that the two protocols need for each of them.
\<close>

section \<open>Accounts of vaults over Raydium\<close>

definition get_stc_user_init_accounts_raydium ::
  "ClientEnv \<Rightarrow> pubkey \<Rightarrow> bytes \<Rightarrow> ((AccountMeta list) \<times> bytes) client" where
  "get_stc_user_init_accounts_raydium env wallet_address vault_name =
     mbind (get_vault env vault_name) (\<lambda>vault.
     mbind (get_vault_ref env vault_name) (\<lambda>vault_ref.
     mbind (mprog (VaultInstruction_to_vec VaultI_UserInit)) (\<lambda>data.
     mbind (get_vault_user_info_account env wallet_address vault_name) (\<lambda>vault_user_info_account.
     let accounts = [meta_new wallet_address True, meta_new_readonly vault_ref False,
         meta_new (vlt_info_account vault) False, meta_new_readonly wallet_address False,
         meta_new vault_user_info_account False, meta_new_readonly (ce_system_program env) False] in
     mret (accounts, data)))))"

definition get_stc_add_liquidity_accounts_raydium ::
  "ClientEnv \<Rightarrow> pubkey \<Rightarrow> bytes \<Rightarrow> f64 \<Rightarrow> f64 \<Rightarrow> ((AccountMeta list) \<times> bytes) client" where
  "get_stc_add_liquidity_accounts_raydium env wallet_address vault_name max_token_a_ui_amount max_token_b_ui_amount =
     mbind (get_vault env vault_name) (\<lambda>vault.
     mbind (get_vault_ref env vault_name) (\<lambda>vault_ref.
     let accounts = [meta_new_readonly wallet_address True] in
     mbind (get_vault_user_info_account env wallet_address vault_name) (\<lambda>vault_user_info_account.
     let accounts = accounts @ [meta_new_readonly vault_ref False, meta_new (vlt_info_account vault) False,
         meta_new_readonly (ce_spl_token env) False, meta_new vault_user_info_account False] in
     mbind (case (vlt_strategy vault) of VaultStrategy_StakeLpCompoundRewards _ _ pool_ref _ _ farm_ref
         lp_token_custody _ _ _ _ _ _ _ _ \<Rightarrow> mbind (get_pool_by_ref env pool_ref) (\<lambda>pool.
       mbind (get_farm_by_ref env farm_ref) (\<lambda>farm.
       mbind (get_token_by_ref_from_cache env (pl_token_a_ref pool)) (\<lambda>token_a.
       mbind (get_token_by_ref_from_cache env (pl_token_b_ref pool)) (\<lambda>token_b.
       mbind (get_token_by_ref_from_cache env (pl_lp_token_ref pool)) (\<lambda>lp_token.
       mbind (get_token_by_ref_from_cache env (frm_lp_token_ref farm)) (\<lambda>farm_token.
       mbind (massert (farm_token = lp_token)) (\<lambda>_.
       let user_token_a_account = (get_token_account env wallet_address token_a) in
       let user_token_b_account = (get_token_account env wallet_address token_b) in
       let user_lp_token_account = (get_token_account env wallet_address lp_token) in
       mbind (case (pl_route pool) of PoolRoute_Raydium amm_id amm_authority amm_open_orders amm_target _ _ _
           serum_market _ _ _ _ _ _ \<Rightarrow> mbind (mok_or user_token_a_account (ClientProgramError
           UninitializedAccount)) (\<lambda>user_token_a_account'.
         mbind (mok_or user_token_b_account (ClientProgramError UninitializedAccount)) (\<lambda>user_token_b_account'.
         mbind (mok_or user_lp_token_account (ClientProgramError UninitializedAccount))
             (\<lambda>user_lp_token_account'.
         mbind (mok_or (pl_token_a_account pool) (ClientProgramError UninitializedAccount)) (\<lambda>token_a_account.
         mbind (mok_or (pl_token_b_account pool) (ClientProgramError UninitializedAccount)) (\<lambda>token_b_account.
         mbind (mok_or lp_token (ClientProgramError UninitializedAccount)) (\<lambda>lp_token'.
         let accounts = accounts @ [meta_new user_token_a_account' False, meta_new user_token_b_account' False,
             meta_new user_lp_token_account' False, meta_new lp_token_custody False,
             meta_new_readonly (pl_pool_program_id pool) False, meta_new token_a_account False,
             meta_new token_b_account False, meta_new (tok_mint lp_token') False, meta_new amm_id False,
             meta_new_readonly amm_authority False, meta_new_readonly amm_open_orders False,
             meta_new amm_target False, meta_new_readonly serum_market False] in
         mret accounts))))))
         | _ \<Rightarrow> mpanic) (\<lambda>accounts.
       mbind (to_token_amount_option env max_token_a_ui_amount token_a) (\<lambda>token_amount_option.
       mbind (to_token_amount_option env max_token_b_ui_amount token_b) (\<lambda>token_amount_option'.
       mbind (mprog (VaultInstruction_to_vec (VaultI_AddLiquidity token_amount_option token_amount_option')))
           (\<lambda>bytes.
       mret (bytes, accounts))))))))))))
       | VaultStrategy_DynamicHedge \<Rightarrow> mpanic) (\<lambda>(data, accounts).
     mret (accounts, data)))))"

definition get_stc_lock_liquidity_accounts_raydium ::
  "ClientEnv \<Rightarrow> pubkey \<Rightarrow> bytes \<Rightarrow> f64 \<Rightarrow> ((AccountMeta list) \<times> bytes) client" where
  "get_stc_lock_liquidity_accounts_raydium env wallet_address vault_name ui_amount =
     mbind (get_vault env vault_name) (\<lambda>vault.
     mbind (get_vault_ref env vault_name) (\<lambda>vault_ref.
     mbind (get_token_by_ref_from_cache env (Some (vlt_vault_token_ref vault))) (\<lambda>vault_token.
     let accounts = [meta_new_readonly wallet_address True] in
     mbind (munwrap vault_token) (\<lambda>vault_token'.
     mbind (get_vault_user_info_account env wallet_address vault_name) (\<lambda>vault_user_info_account.
     let accounts = accounts @ [meta_new_readonly vault_ref False, meta_new (vlt_info_account vault) False,
         meta_new_readonly (vlt_vault_authority vault) False, meta_new_readonly (ce_spl_token env) False,
         meta_new (tok_mint vault_token') False, meta_new vault_user_info_account False] in
     mbind (case (vlt_strategy vault) of VaultStrategy_StakeLpCompoundRewards _ _ pool_ref _ _ farm_ref
         lp_token_custody _ _ token_a_reward_custody token_b_reward_custody vault_stake_info _ _ _ \<Rightarrow> mbind
         (get_pool_by_ref env pool_ref) (\<lambda>pool.
       mbind (get_farm_by_ref env farm_ref) (\<lambda>farm.
       mbind (get_token_by_ref_from_cache env (pl_lp_token_ref pool)) (\<lambda>lp_token.
       mbind (get_token_by_ref_from_cache env (frm_lp_token_ref farm)) (\<lambda>farm_token.
       mbind (massert (farm_token = lp_token)) (\<lambda>_.
       let user_vt_token_account = (get_token_account env wallet_address vault_token) in
       mbind (mok_or user_vt_token_account (ClientProgramError UninitializedAccount)) (\<lambda>user_vt_token_account'.
       let accounts = accounts @ [meta_new user_vt_token_account' False, meta_new token_a_reward_custody False,
           meta_new (unwrap_or token_b_reward_custody (ce_zero env)) False, meta_new lp_token_custody False] in
       mbind (case (frm_route farm) of FarmRoute_Raydium farm_id farm_authority farm_lp_token_account
           farm_first_reward_token_account farm_second_reward_token_account \<Rightarrow> let accounts = accounts @
           [meta_new_readonly (frm_farm_program_id farm) False, meta_new vault_stake_info False,
           meta_new farm_id False, meta_new_readonly farm_authority False,
           meta_new farm_lp_token_account False, meta_new farm_first_reward_token_account False,
           meta_new (unwrap_or farm_second_reward_token_account (ce_zero env)) False,
           meta_new_readonly (ce_clock env) False] in
         mret accounts
         | _ \<Rightarrow> mpanic) (\<lambda>accounts.
       mbind (to_token_amount_option env ui_amount lp_token) (\<lambda>token_amount_option.
       mbind (mprog (VaultInstruction_to_vec (VaultI_LockLiquidity token_amount_option))) (\<lambda>bytes.
       mret (bytes, accounts))))))))))
       | VaultStrategy_DynamicHedge \<Rightarrow> mpanic) (\<lambda>(data, accounts).
     mret (accounts, data)))))))"

definition get_stc_unlock_liquidity_accounts_raydium ::
  "ClientEnv \<Rightarrow> pubkey \<Rightarrow> bytes \<Rightarrow> f64 \<Rightarrow> ((AccountMeta list) \<times> bytes) client" where
  "get_stc_unlock_liquidity_accounts_raydium env wallet_address vault_name ui_amount =
     mbind (get_vault env vault_name) (\<lambda>vault.
     mbind (get_vault_ref env vault_name) (\<lambda>vault_ref.
     mbind (get_token_by_ref_from_cache env (Some (vlt_vault_token_ref vault))) (\<lambda>vault_token.
     mbind (to_token_amount_option env ui_amount vault_token) (\<lambda>token_amount_option.
     mbind (mprog (VaultInstruction_to_vec (VaultI_UnlockLiquidity token_amount_option))) (\<lambda>data.
     let accounts = [meta_new_readonly wallet_address True] in
     mbind (munwrap vault_token) (\<lambda>vault_token'.
     mbind (get_vault_user_info_account env wallet_address vault_name) (\<lambda>vault_user_info_account.
     let accounts = accounts @ [meta_new_readonly vault_ref False, meta_new (vlt_info_account vault) False,
         meta_new_readonly (vlt_vault_authority vault) False, meta_new_readonly (ce_spl_token env) False,
         meta_new (tok_mint vault_token') False, meta_new vault_user_info_account False] in
     mbind (case (vlt_strategy vault) of VaultStrategy_StakeLpCompoundRewards _ _ pool_ref _ _ farm_ref
         lp_token_custody _ _ token_a_reward_custody token_b_reward_custody vault_stake_info _ _ _ \<Rightarrow> mbind
         (get_pool_by_ref env pool_ref) (\<lambda>pool.
       mbind (get_farm_by_ref env farm_ref) (\<lambda>farm.
       mbind (get_token_by_ref_from_cache env (pl_lp_token_ref pool)) (\<lambda>lp_token.
       mbind (get_token_by_ref_from_cache env (frm_lp_token_ref farm)) (\<lambda>farm_token.
       mbind (massert (farm_token = lp_token)) (\<lambda>_.
       let user_vt_token_account = (get_token_account env wallet_address vault_token) in
       mbind (mok_or user_vt_token_account (ClientProgramError UninitializedAccount)) (\<lambda>user_vt_token_account'.
       let accounts = accounts @ [meta_new user_vt_token_account' False, meta_new token_a_reward_custody False,
           meta_new (unwrap_or token_b_reward_custody (ce_zero env)) False, meta_new lp_token_custody False] in
       (case (frm_route farm) of FarmRoute_Raydium farm_id farm_authority farm_lp_token_account
           farm_first_reward_token_account farm_second_reward_token_account \<Rightarrow> let accounts = accounts @
           [meta_new_readonly (frm_farm_program_id farm) False, meta_new vault_stake_info False,
           meta_new farm_id False, meta_new_readonly farm_authority False,
           meta_new farm_lp_token_account False, meta_new farm_first_reward_token_account False,
           meta_new (unwrap_or farm_second_reward_token_account (ce_zero env)) False,
           meta_new_readonly (ce_clock env) False] in
         mret accounts
         | _ \<Rightarrow> mpanic)))))))
       | VaultStrategy_DynamicHedge \<Rightarrow> mpanic) (\<lambda>accounts.
     mret (accounts, data)))))))))"

definition get_stc_remove_liquidity_accounts_raydium ::
  "ClientEnv \<Rightarrow> pubkey \<Rightarrow> bytes \<Rightarrow> f64 \<Rightarrow> ((AccountMeta list) \<times> bytes) client" where
  "get_stc_remove_liquidity_accounts_raydium env wallet_address vault_name ui_amount =
     mbind (get_vault env vault_name) (\<lambda>vault.
     mbind (get_vault_ref env vault_name) (\<lambda>vault_ref.
     let accounts = [meta_new_readonly wallet_address True] in
     mbind (get_vault_user_info_account env wallet_address vault_name) (\<lambda>vault_user_info_account.
     let accounts = accounts @ [meta_new_readonly vault_ref False, meta_new (vlt_info_account vault) False,
         meta_new_readonly (vlt_vault_authority vault) False, meta_new_readonly (ce_spl_token env) False,
         meta_new vault_user_info_account False] in
     mbind (case (vlt_strategy vault) of VaultStrategy_StakeLpCompoundRewards _ _ pool_ref _ _ farm_ref
         lp_token_custody _ _ _ _ _ _ _ _ \<Rightarrow> mbind (get_pool_by_ref env pool_ref) (\<lambda>pool.
       mbind (get_farm_by_ref env farm_ref) (\<lambda>farm.
       mbind (get_token_by_ref_from_cache env (pl_token_a_ref pool)) (\<lambda>token_a.
       mbind (get_token_by_ref_from_cache env (pl_token_b_ref pool)) (\<lambda>token_b.
       mbind (get_token_by_ref_from_cache env (pl_lp_token_ref pool)) (\<lambda>lp_token.
       mbind (get_token_by_ref_from_cache env (frm_lp_token_ref farm)) (\<lambda>farm_token.
       mbind (massert (farm_token = lp_token)) (\<lambda>_.
       let user_token_a_account = (get_token_account env wallet_address token_a) in
       let user_token_b_account = (get_token_account env wallet_address token_b) in
       mbind (case (pl_route pool) of PoolRoute_Raydium amm_id amm_authority amm_open_orders amm_target
           pool_withdraw_queue pool_temp_lp_token_account serum_program_id serum_market
           serum_coin_vault_account serum_pc_vault_account serum_vault_signer serum_bids serum_asks
           serum_event_queue \<Rightarrow> mbind (mok_or user_token_a_account (ClientProgramError UninitializedAccount))
           (\<lambda>user_token_a_account'.
         mbind (mok_or user_token_b_account (ClientProgramError UninitializedAccount)) (\<lambda>user_token_b_account'.
         mbind (mok_or (pl_token_a_account pool) (ClientProgramError UninitializedAccount)) (\<lambda>token_a_account.
         mbind (mok_or (pl_token_b_account pool) (ClientProgramError UninitializedAccount)) (\<lambda>token_b_account.
         mbind (mok_or lp_token (ClientProgramError UninitializedAccount)) (\<lambda>lp_token'.
         mbind (mok_or serum_bids (ClientProgramError UninitializedAccount)) (\<lambda>serum_bids'.
         mbind (mok_or serum_asks (ClientProgramError UninitializedAccount)) (\<lambda>serum_asks'.
         mbind (mok_or serum_event_queue (ClientProgramError UninitializedAccount)) (\<lambda>serum_event_queue'.
         let accounts = accounts @ [meta_new user_token_a_account' False, meta_new user_token_b_account' False,
             meta_new lp_token_custody False, meta_new_readonly (pl_pool_program_id pool) False,
             meta_new pool_withdraw_queue False, meta_new pool_temp_lp_token_account False,
             meta_new token_a_account False, meta_new token_b_account False,
             meta_new (tok_mint lp_token') False, meta_new amm_id False, meta_new_readonly amm_authority False,
             meta_new amm_open_orders False, meta_new amm_target False, meta_new serum_market False,
             meta_new_readonly serum_program_id False, meta_new serum_bids' False, meta_new serum_asks' False,
             meta_new serum_event_queue' False, meta_new serum_coin_vault_account False,
             meta_new serum_pc_vault_account False, meta_new_readonly serum_vault_signer False] in
         mret accounts))))))))
         | _ \<Rightarrow> mpanic) (\<lambda>accounts.
       mbind (to_token_amount_option env ui_amount lp_token) (\<lambda>token_amount_option.
       mbind (mprog (VaultInstruction_to_vec (VaultI_RemoveLiquidity token_amount_option))) (\<lambda>bytes.
       mret (bytes, accounts)))))))))))
       | VaultStrategy_DynamicHedge \<Rightarrow> mpanic) (\<lambda>(data, accounts).
     mret (accounts, data)))))"

definition get_stc_init_accounts_raydium ::
  "ClientEnv \<Rightarrow> pubkey \<Rightarrow> bytes \<Rightarrow> u64 \<Rightarrow> ((AccountMeta list) \<times> bytes) client" where
  "get_stc_init_accounts_raydium env admin_address vault_name step =
     mbind (get_vault env vault_name) (\<lambda>vault.
     mbind (get_vault_ref env vault_name) (\<lambda>vault_ref.
     mbind (get_token_by_ref_from_cache env (Some (vlt_vault_token_ref vault))) (\<lambda>token_by_ref_from_cache.
     mbind (munwrap token_by_ref_from_cache) (\<lambda>x.
     let vault_token = x in
     mbind (mprog (VaultInstruction_to_vec (VaultI_Init step))) (\<lambda>data.
     let accounts = [meta_new_readonly admin_address True] in
     mbind (get_vault_active_multisig_account env vault_name) (\<lambda>vault_active_multisig_account.
     let accounts = accounts @ [meta_new_readonly vault_ref False, meta_new (vlt_info_account vault) False,
         meta_new vault_active_multisig_account False, meta_new (vlt_vault_authority vault) False,
         meta_new_readonly (vlt_vault_program_id vault) False, meta_new_readonly (ce_system_program env) False,
         meta_new_readonly (ce_spl_token env) False, meta_new_readonly (ce_rent env) False] in
     mbind (case (vlt_strategy vault) of VaultStrategy_StakeLpCompoundRewards _ _ pool_ref _ _ farm_ref
         lp_token_custody token_a_custody token_b_custody token_a_reward_custody token_b_reward_custody
         vault_stake_info _ _ _ \<Rightarrow> mbind (get_pool_by_ref env pool_ref) (\<lambda>pool.
       mbind (get_farm_by_ref env farm_ref) (\<lambda>farm.
       mbind (get_token_by_ref_from_cache env (pl_token_a_ref pool)) (\<lambda>token_by_ref_from_cache'.
       mbind (munwrap token_by_ref_from_cache') (\<lambda>x'.
       let token_a = x' in
       mbind (get_token_by_ref_from_cache env (pl_token_b_ref pool)) (\<lambda>token_by_ref_from_cache''.
       mbind (munwrap token_by_ref_from_cache'') (\<lambda>x''.
         let token_b = x'' in
         mbind (get_token_by_ref_from_cache env (pl_lp_token_ref pool)) (\<lambda>token_by_ref_from_cache'''.
         mbind (munwrap token_by_ref_from_cache''') (\<lambda>x'''.
           let lp_token = x''' in
           mbind (get_token_by_ref_from_cache env (frm_first_reward_token_ref farm))
               (\<lambda>token_by_ref_from_cache''''.
           mbind (munwrap token_by_ref_from_cache'''') (\<lambda>x''''.
           let token_a_reward = x'''' in
           mbind (get_token_by_ref_from_cache env (frm_second_reward_token_ref farm)) (\<lambda>token_b_reward.
           let accounts = accounts @ [meta_new_readonly (frm_farm_program_id farm) False,
               meta_new (tok_mint vault_token) False, meta_new_readonly (vlt_vault_token_ref vault) False] in
           mbind (if ((frm_version farm) \<ge> 4) then let accounts = accounts @ [meta_new (ce_zero env) False,
               meta_new vault_stake_info False] in
             mret accounts
             else let accounts = accounts @ [meta_new vault_stake_info False, meta_new (ce_zero env) False] in
             mret accounts) (\<lambda>accounts.
           let accounts = accounts @ [meta_new (unwrap_or (vlt_fees_account_a vault) (ce_zero env)) False,
               meta_new (unwrap_or (vlt_fees_account_b vault) (ce_zero env)) False,
               meta_new token_a_custody False, meta_new (unwrap_or token_b_custody (ce_zero env)) False,
               meta_new lp_token_custody False, meta_new (tok_mint token_a) False,
               meta_new (tok_mint token_b) False, meta_new (tok_mint lp_token) False,
               meta_new token_a_reward_custody False, meta_new (unwrap_or token_b_reward_custody (ce_zero env))
               False, meta_new (tok_mint token_a_reward) False] in
           (case token_b_reward of Some token \<Rightarrow> let accounts = accounts @ [meta_new (tok_mint token) False] in
             mret accounts
             | None \<Rightarrow> let accounts = accounts @ [meta_new (ce_zero env) False] in
             mret accounts)))))))))))))
       | VaultStrategy_DynamicHedge \<Rightarrow> mpanic) (\<lambda>accounts.
     mret (accounts, data))))))))"

definition get_stc_shutdown_accounts_raydium ::
  "ClientEnv \<Rightarrow> pubkey \<Rightarrow> bytes \<Rightarrow> ((AccountMeta list) \<times> bytes) client" where
  "get_stc_shutdown_accounts_raydium env admin_address vault_name =
     mbind (get_vault env vault_name) (\<lambda>vault.
     mbind (get_vault_ref env vault_name) (\<lambda>vault_ref.
     mbind (mprog (VaultInstruction_to_vec VaultI_Shutdown)) (\<lambda>data.
     mbind (get_vault_active_multisig_account env vault_name) (\<lambda>vault_active_multisig_account.
     let accounts = [meta_new_readonly admin_address True, meta_new_readonly vault_ref False,
         meta_new (vlt_info_account vault) False, meta_new vault_active_multisig_account False] in
     mret (accounts, data)))))"

definition get_stc_crank_accounts_raydium ::
  "ClientEnv \<Rightarrow> pubkey \<Rightarrow> bytes \<Rightarrow> u64 \<Rightarrow> ((AccountMeta list) \<times> bytes) client" where
  "get_stc_crank_accounts_raydium env wallet_address vault_name step =
     mbind (get_vault env vault_name) (\<lambda>vault.
     mbind (get_vault_ref env vault_name) (\<lambda>vault_ref.
     mbind (mprog (VaultInstruction_to_vec (VaultI_Crank step))) (\<lambda>data.
     let accounts = [meta_new_readonly wallet_address True] in
     let accounts = accounts @ [meta_new_readonly vault_ref False, meta_new (vlt_info_account vault) False,
         meta_new_readonly (vlt_vault_authority vault) False, meta_new_readonly (ce_spl_token env) False] in
     mbind (case (vlt_strategy vault) of VaultStrategy_StakeLpCompoundRewards _ _ pool_ref _ _ farm_ref
         lp_token_custody token_a_custody token_b_custody token_a_reward_custody token_b_reward_custody
         vault_stake_info _ _ _ \<Rightarrow> mbind (get_pool_by_ref env pool_ref) (\<lambda>pool.
       mbind (get_farm_by_ref env farm_ref) (\<lambda>farm.
       mbind (get_token_by_ref_from_cache env (pl_lp_token_ref pool)) (\<lambda>lp_token.
       mbind (get_token_by_ref_from_cache env (frm_lp_token_ref farm)) (\<lambda>farm_token.
       mbind (massert (farm_token = lp_token)) (\<lambda>_.
       let accounts = accounts @ [meta_new token_a_reward_custody False,
           meta_new (unwrap_or token_b_reward_custody (ce_zero env)) False] in
       mbind (if (step \<noteq> 2) then let accounts = accounts @ [meta_new lp_token_custody False] in
         mret accounts
         else mret accounts) (\<lambda>accounts.
       mbind (if (step = 1) then mbind (mok_or (vlt_fees_account_a vault) (ClientProgramError
           UninitializedAccount)) (\<lambda>fees_account_a.
         let accounts = accounts @ [meta_new fees_account_a False,
             meta_new (unwrap_or (vlt_fees_account_b vault) (ce_zero env)) False] in
         mret accounts)
         else mret accounts) (\<lambda>accounts.
       mbind (if ((step = 2) \<or> (step = 3)) then (case (pl_route pool) of PoolRoute_Raydium amm_id amm_authority
           amm_open_orders amm_target _ _ serum_program_id serum_market serum_coin_vault_account
           serum_pc_vault_account serum_vault_signer serum_bids serum_asks serum_event_queue \<Rightarrow> mbind (mok_or
           (pl_token_a_account pool) (ClientProgramError UninitializedAccount)) (\<lambda>token_a_account.
           mbind (mok_or (pl_token_b_account pool) (ClientProgramError UninitializedAccount)) (\<lambda>token_b_account.
           let accounts = accounts @ [meta_new token_a_custody False,
               meta_new (unwrap_or token_b_custody (ce_zero env)) False,
               meta_new_readonly (pl_pool_program_id pool) False, meta_new token_a_account False,
               meta_new token_b_account False] in
           mbind (if (step = 3) then mbind (mok_or lp_token (ClientProgramError UninitializedAccount))
               (\<lambda>lp_token'.
             let accounts = accounts @ [meta_new (tok_mint lp_token') False] in
             mret accounts)
             else mret accounts) (\<lambda>accounts.
           let accounts = accounts @ [meta_new amm_id False, meta_new_readonly amm_authority False,
               meta_new amm_open_orders False, meta_new amm_target False, meta_new serum_market False] in
           (if (step = 2) then mbind (mok_or serum_bids (ClientProgramError UninitializedAccount))
               (\<lambda>serum_bids'.
             mbind (mok_or serum_asks (ClientProgramError UninitializedAccount)) (\<lambda>serum_asks'.
             mbind (mok_or serum_event_queue (ClientProgramError UninitializedAccount)) (\<lambda>serum_event_queue'.
             let accounts = accounts @ [meta_new_readonly serum_program_id False,
                 meta_new serum_coin_vault_account False, meta_new serum_pc_vault_account False,
                 meta_new serum_vault_signer False, meta_new serum_bids' False, meta_new serum_asks' False,
                 meta_new serum_event_queue' False, meta_new_readonly (ce_instructions env) False] in
             mret accounts)))
             else mret accounts))))
           | _ \<Rightarrow> mpanic)
         else mret accounts) (\<lambda>accounts.
       (if ((step = 1) \<or> (step = 3)) then (case (frm_route farm) of FarmRoute_Raydium farm_id farm_authority
           farm_lp_token_account farm_first_reward_token_account farm_second_reward_token_account \<Rightarrow> let
           accounts = accounts @ [meta_new_readonly (frm_farm_program_id farm) False,
           meta_new vault_stake_info False, meta_new farm_id False, meta_new_readonly farm_authority False,
           meta_new farm_lp_token_account False, meta_new farm_first_reward_token_account False,
           meta_new (unwrap_or farm_second_reward_token_account (ce_zero env)) False,
           meta_new_readonly (ce_clock env) False] in
           mret accounts
           | _ \<Rightarrow> mpanic)
         else mret accounts)))))))))
       | VaultStrategy_DynamicHedge \<Rightarrow> mpanic) (\<lambda>accounts.
     mret (accounts, data)))))"

section \<open>Accounts of vaults over Orca\<close>

definition get_stc_user_init_accounts_orca ::
  "ClientEnv \<Rightarrow> pubkey \<Rightarrow> bytes \<Rightarrow> ((AccountMeta list) \<times> bytes) client" where
  "get_stc_user_init_accounts_orca env wallet_address vault_name =
     mbind (get_vault env vault_name) (\<lambda>vault.
     mbind (get_vault_ref env vault_name) (\<lambda>vault_ref.
     mbind (mprog (VaultInstruction_to_vec VaultI_UserInit)) (\<lambda>data.
     mbind (get_vault_user_info_account env wallet_address vault_name) (\<lambda>vault_user_info_account.
     let accounts = [meta_new wallet_address True, meta_new_readonly vault_ref False,
         meta_new (vlt_info_account vault) False, meta_new_readonly wallet_address False,
         meta_new vault_user_info_account False, meta_new_readonly (ce_system_program env) False] in
     mret (accounts, data)))))"

definition get_stc_add_liquidity_accounts_orca ::
  "ClientEnv \<Rightarrow> pubkey \<Rightarrow> bytes \<Rightarrow> f64 \<Rightarrow> f64 \<Rightarrow> ((AccountMeta list) \<times> bytes) client" where
  "get_stc_add_liquidity_accounts_orca env wallet_address vault_name max_token_a_ui_amount max_token_b_ui_amount =
     mbind (get_vault env vault_name) (\<lambda>vault.
     mbind (get_vault_ref env vault_name) (\<lambda>vault_ref.
     let accounts = [meta_new_readonly wallet_address True] in
     mbind (get_vault_user_info_account env wallet_address vault_name) (\<lambda>vault_user_info_account.
     let accounts = accounts @ [meta_new_readonly vault_ref False, meta_new (vlt_info_account vault) False,
         meta_new_readonly (ce_spl_token env) False, meta_new vault_user_info_account False] in
     mbind (case (vlt_strategy vault) of VaultStrategy_StakeLpCompoundRewards _ _ pool_ref _ _ farm_ref
         lp_token_custody _ _ _ _ _ _ _ _ \<Rightarrow> mbind (get_pool_by_ref env pool_ref) (\<lambda>pool.
       mbind (get_farm_by_ref env farm_ref) (\<lambda>farm.
       mbind (get_token_by_ref_from_cache env (pl_token_a_ref pool)) (\<lambda>token_a.
       mbind (get_token_by_ref_from_cache env (pl_token_b_ref pool)) (\<lambda>token_b.
       mbind (get_token_by_ref_from_cache env (pl_lp_token_ref pool)) (\<lambda>lp_token.
       mbind (get_token_by_ref_from_cache env (frm_lp_token_ref farm)) (\<lambda>farm_token.
       mbind (massert (farm_token = lp_token)) (\<lambda>_.
       let user_token_a_account = (get_token_account env wallet_address token_a) in
       let user_token_b_account = (get_token_account env wallet_address token_b) in
       let user_lp_token_account = (get_token_account env wallet_address lp_token) in
       mbind (case (pl_route pool) of PoolRoute_Orca amm_id amm_authority _ \<Rightarrow> mbind (mok_or
           user_token_a_account (ClientProgramError UninitializedAccount)) (\<lambda>user_token_a_account'.
         mbind (mok_or user_token_b_account (ClientProgramError UninitializedAccount)) (\<lambda>user_token_b_account'.
         mbind (mok_or user_lp_token_account (ClientProgramError UninitializedAccount))
             (\<lambda>user_lp_token_account'.
         mbind (mok_or (pl_token_a_account pool) (ClientProgramError UninitializedAccount)) (\<lambda>token_a_account.
         mbind (mok_or (pl_token_b_account pool) (ClientProgramError UninitializedAccount)) (\<lambda>token_b_account.
         mbind (mok_or lp_token (ClientProgramError UninitializedAccount)) (\<lambda>lp_token'.
         let accounts = accounts @ [meta_new user_token_a_account' False, meta_new user_token_b_account' False,
             meta_new user_lp_token_account' False, meta_new lp_token_custody False,
             meta_new_readonly (pl_pool_program_id pool) False, meta_new token_a_account False,
             meta_new token_b_account False, meta_new (tok_mint lp_token') False, meta_new amm_id False,
             meta_new_readonly amm_authority False] in
         mret accounts))))))
         | _ \<Rightarrow> mpanic) (\<lambda>accounts.
       mbind (to_token_amount_option env max_token_a_ui_amount token_a) (\<lambda>token_amount_option.
       mbind (to_token_amount_option env max_token_b_ui_amount token_b) (\<lambda>token_amount_option'.
       mbind (mprog (VaultInstruction_to_vec (VaultI_AddLiquidity token_amount_option token_amount_option')))
           (\<lambda>bytes.
       mret (bytes, accounts))))))))))))
       | VaultStrategy_DynamicHedge \<Rightarrow> mpanic) (\<lambda>(data, accounts).
     mret (accounts, data)))))"

definition get_stc_lock_liquidity_accounts_orca ::
  "ClientEnv \<Rightarrow> pubkey \<Rightarrow> bytes \<Rightarrow> f64 \<Rightarrow> ((AccountMeta list) \<times> bytes) client" where
  "get_stc_lock_liquidity_accounts_orca env wallet_address vault_name ui_amount =
     mbind (get_vault env vault_name) (\<lambda>vault.
     mbind (get_vault_ref env vault_name) (\<lambda>vault_ref.
     mbind (get_token_by_ref_from_cache env (Some (vlt_vault_token_ref vault))) (\<lambda>vault_token.
     let accounts = [meta_new_readonly wallet_address True] in
     mbind (munwrap vault_token) (\<lambda>vault_token'.
     mbind (get_vault_user_info_account env wallet_address vault_name) (\<lambda>vault_user_info_account.
     let accounts = accounts @ [meta_new_readonly vault_ref False, meta_new (vlt_info_account vault) False,
         meta_new_readonly (vlt_vault_authority vault) False, meta_new_readonly (ce_spl_token env) False,
         meta_new (tok_mint vault_token') False, meta_new vault_user_info_account False] in
     mbind (case (vlt_strategy vault) of VaultStrategy_StakeLpCompoundRewards _ _ pool_ref _ _ farm_ref
         lp_token_custody _ _ token_a_reward_custody _ vault_stake_info vault_stake_custody _ _ \<Rightarrow> mbind
         (get_pool_by_ref env pool_ref) (\<lambda>pool.
       mbind (get_farm_by_ref env farm_ref) (\<lambda>farm.
       mbind (get_token_by_ref_from_cache env (pl_lp_token_ref pool)) (\<lambda>lp_token.
       mbind (get_token_by_ref_from_cache env (frm_lp_token_ref farm)) (\<lambda>farm_token.
       mbind (massert (farm_token = lp_token)) (\<lambda>_.
       let user_vt_token_account = (get_token_account env wallet_address vault_token) in
       mbind (mok_or user_vt_token_account (ClientProgramError UninitializedAccount)) (\<lambda>user_vt_token_account'.
       let accounts = accounts @ [meta_new user_vt_token_account' False, meta_new token_a_reward_custody False,
           meta_new lp_token_custody False] in
       mbind (case (frm_route farm) of FarmRoute_Orca farm_id farm_authority farm_token_ref base_token_vault
           reward_token_vault \<Rightarrow> mbind (get_token_by_ref_from_cache env (Some farm_token_ref)) (\<lambda>farm_lp_token.
         mbind (mok_or vault_stake_custody (ClientProgramError UninitializedAccount)) (\<lambda>vault_stake_custody'.
         mbind (mok_or farm_lp_token (ClientProgramError UninitializedAccount)) (\<lambda>farm_lp_token'.
         let accounts = accounts @ [meta_new_readonly (frm_farm_program_id farm) False,
             meta_new vault_stake_info False, meta_new vault_stake_custody' False, meta_new farm_id False,
             meta_new_readonly farm_authority False, meta_new (tok_mint farm_lp_token') False,
             meta_new base_token_vault False, meta_new reward_token_vault False] in
         mret accounts)))
         | _ \<Rightarrow> mpanic) (\<lambda>accounts.
       mbind (to_token_amount_option env ui_amount lp_token) (\<lambda>token_amount_option.
       mbind (mprog (VaultInstruction_to_vec (VaultI_LockLiquidity token_amount_option))) (\<lambda>bytes.
       mret (bytes, accounts))))))))))
       | VaultStrategy_DynamicHedge \<Rightarrow> mpanic) (\<lambda>(data, accounts).
     mret (accounts, data)))))))"

definition get_stc_unlock_liquidity_accounts_orca ::
  "ClientEnv \<Rightarrow> pubkey \<Rightarrow> bytes \<Rightarrow> f64 \<Rightarrow> ((AccountMeta list) \<times> bytes) client" where
  "get_stc_unlock_liquidity_accounts_orca env wallet_address vault_name ui_amount =
     mbind (get_vault env vault_name) (\<lambda>vault.
     mbind (get_vault_ref env vault_name) (\<lambda>vault_ref.
     mbind (get_token_by_ref_from_cache env (Some (vlt_vault_token_ref vault))) (\<lambda>vault_token.
     mbind (to_token_amount_option env ui_amount vault_token) (\<lambda>token_amount_option.
     mbind (mprog (VaultInstruction_to_vec (VaultI_UnlockLiquidity token_amount_option))) (\<lambda>data.
     let accounts = [meta_new_readonly wallet_address True] in
     mbind (munwrap vault_token) (\<lambda>vault_token'.
     mbind (get_vault_user_info_account env wallet_address vault_name) (\<lambda>vault_user_info_account.
     let accounts = accounts @ [meta_new_readonly vault_ref False, meta_new (vlt_info_account vault) False,
         meta_new_readonly (vlt_vault_authority vault) False, meta_new_readonly (ce_spl_token env) False,
         meta_new (tok_mint vault_token') False, meta_new vault_user_info_account False] in
     mbind (case (vlt_strategy vault) of VaultStrategy_StakeLpCompoundRewards _ _ pool_ref _ _ farm_ref
         lp_token_custody _ _ token_a_reward_custody _ vault_stake_info vault_stake_custody _ _ \<Rightarrow> mbind
         (get_pool_by_ref env pool_ref) (\<lambda>pool.
       mbind (get_farm_by_ref env farm_ref) (\<lambda>farm.
       mbind (get_token_by_ref_from_cache env (pl_lp_token_ref pool)) (\<lambda>lp_token.
       mbind (get_token_by_ref_from_cache env (frm_lp_token_ref farm)) (\<lambda>farm_token.
       mbind (massert (farm_token = lp_token)) (\<lambda>_.
       let user_vt_token_account = (get_token_account env wallet_address vault_token) in
       mbind (mok_or user_vt_token_account (ClientProgramError UninitializedAccount)) (\<lambda>user_vt_token_account'.
       let accounts = accounts @ [meta_new user_vt_token_account' False, meta_new token_a_reward_custody False,
           meta_new lp_token_custody False] in
       (case (frm_route farm) of FarmRoute_Orca farm_id farm_authority farm_token_ref base_token_vault
           reward_token_vault \<Rightarrow> mbind (get_token_by_ref_from_cache env (Some farm_token_ref)) (\<lambda>farm_lp_token.
         mbind (mok_or vault_stake_custody (ClientProgramError UninitializedAccount)) (\<lambda>vault_stake_custody'.
         mbind (mok_or farm_lp_token (ClientProgramError UninitializedAccount)) (\<lambda>farm_lp_token'.
         let accounts = accounts @ [meta_new_readonly (frm_farm_program_id farm) False,
             meta_new vault_stake_info False, meta_new vault_stake_custody' False, meta_new farm_id False,
             meta_new_readonly farm_authority False, meta_new (tok_mint farm_lp_token') False,
             meta_new base_token_vault False, meta_new reward_token_vault False] in
         mret accounts)))
         | _ \<Rightarrow> mpanic)))))))
       | VaultStrategy_DynamicHedge \<Rightarrow> mpanic) (\<lambda>accounts.
     mret (accounts, data)))))))))"

definition get_stc_remove_liquidity_accounts_orca ::
  "ClientEnv \<Rightarrow> pubkey \<Rightarrow> bytes \<Rightarrow> f64 \<Rightarrow> ((AccountMeta list) \<times> bytes) client" where
  "get_stc_remove_liquidity_accounts_orca env wallet_address vault_name ui_amount =
     mbind (get_vault env vault_name) (\<lambda>vault.
     mbind (get_vault_ref env vault_name) (\<lambda>vault_ref.
     let accounts = [meta_new_readonly wallet_address True] in
     mbind (get_vault_user_info_account env wallet_address vault_name) (\<lambda>vault_user_info_account.
     let accounts = accounts @ [meta_new_readonly vault_ref False, meta_new (vlt_info_account vault) False,
         meta_new_readonly (vlt_vault_authority vault) False, meta_new_readonly (ce_spl_token env) False,
         meta_new vault_user_info_account False] in
     mbind (case (vlt_strategy vault) of VaultStrategy_StakeLpCompoundRewards _ _ pool_ref _ _ farm_ref
         lp_token_custody _ _ _ _ _ _ _ _ \<Rightarrow> mbind (get_pool_by_ref env pool_ref) (\<lambda>pool.
       mbind (get_farm_by_ref env farm_ref) (\<lambda>farm.
       mbind (get_token_by_ref_from_cache env (pl_token_a_ref pool)) (\<lambda>token_a.
       mbind (get_token_by_ref_from_cache env (pl_token_b_ref pool)) (\<lambda>token_b.
       mbind (get_token_by_ref_from_cache env (pl_lp_token_ref pool)) (\<lambda>lp_token.
       mbind (get_token_by_ref_from_cache env (frm_lp_token_ref farm)) (\<lambda>farm_token.
       mbind (massert (farm_token = lp_token)) (\<lambda>_.
       let user_token_a_account = (get_token_account env wallet_address token_a) in
       let user_token_b_account = (get_token_account env wallet_address token_b) in
       mbind (case (pl_route pool) of PoolRoute_Orca amm_id amm_authority fees_account \<Rightarrow> mbind (mok_or
           user_token_a_account (ClientProgramError UninitializedAccount)) (\<lambda>user_token_a_account'.
         mbind (mok_or user_token_b_account (ClientProgramError UninitializedAccount)) (\<lambda>user_token_b_account'.
         mbind (mok_or (pl_token_a_account pool) (ClientProgramError UninitializedAccount)) (\<lambda>token_a_account.
         mbind (mok_or (pl_token_b_account pool) (ClientProgramError UninitializedAccount)) (\<lambda>token_b_account.
         mbind (mok_or lp_token (ClientProgramError UninitializedAccount)) (\<lambda>lp_token'.
         let accounts = accounts @ [meta_new user_token_a_account' False, meta_new user_token_b_account' False,
             meta_new lp_token_custody False, meta_new_readonly (pl_pool_program_id pool) False,
             meta_new token_a_account False, meta_new token_b_account False,
             meta_new (tok_mint lp_token') False, meta_new amm_id False, meta_new_readonly amm_authority False,
             meta_new fees_account False] in
         mret accounts)))))
         | _ \<Rightarrow> mpanic) (\<lambda>accounts.
       mbind (to_token_amount_option env ui_amount lp_token) (\<lambda>token_amount_option.
       mbind (mprog (VaultInstruction_to_vec (VaultI_RemoveLiquidity token_amount_option))) (\<lambda>bytes.
       mret (bytes, accounts)))))))))))
       | VaultStrategy_DynamicHedge \<Rightarrow> mpanic) (\<lambda>(data, accounts).
     mret (accounts, data)))))"

definition get_stc_init_accounts_orca ::
  "ClientEnv \<Rightarrow> pubkey \<Rightarrow> bytes \<Rightarrow> u64 \<Rightarrow> ((AccountMeta list) \<times> bytes) client" where
  "get_stc_init_accounts_orca env admin_address vault_name step =
     mbind (get_vault env vault_name) (\<lambda>vault.
     mbind (get_vault_ref env vault_name) (\<lambda>vault_ref.
     mbind (get_token_by_ref_from_cache env (Some (vlt_vault_token_ref vault))) (\<lambda>token_by_ref_from_cache.
     mbind (munwrap token_by_ref_from_cache) (\<lambda>x.
     let vault_token = x in
     mbind (mprog (VaultInstruction_to_vec (VaultI_Init step))) (\<lambda>data.
     let accounts = [meta_new_readonly admin_address True] in
     mbind (get_vault_active_multisig_account env vault_name) (\<lambda>vault_active_multisig_account.
     let accounts = accounts @ [meta_new_readonly vault_ref False, meta_new (vlt_info_account vault) False,
         meta_new vault_active_multisig_account False, meta_new (vlt_vault_authority vault) False,
         meta_new_readonly (vlt_vault_program_id vault) False, meta_new_readonly (ce_system_program env) False,
         meta_new_readonly (ce_spl_token env) False, meta_new_readonly (ce_rent env) False] in
     mbind (case (vlt_strategy vault) of VaultStrategy_StakeLpCompoundRewards _ _ pool_ref _ farm_id farm_ref
         lp_token_custody token_a_custody token_b_custody token_a_reward_custody _ vault_stake_info
         vault_stake_custody _ _ \<Rightarrow> mbind (get_pool_by_ref env pool_ref) (\<lambda>pool.
       mbind (get_farm_by_ref env farm_ref) (\<lambda>farm.
       mbind (get_token_by_ref_from_cache env (pl_token_a_ref pool)) (\<lambda>token_by_ref_from_cache'.
       mbind (munwrap token_by_ref_from_cache') (\<lambda>x'.
       let token_a = x' in
       mbind (get_token_by_ref_from_cache env (pl_token_b_ref pool)) (\<lambda>token_by_ref_from_cache''.
       mbind (munwrap token_by_ref_from_cache'') (\<lambda>x''.
         let token_b = x'' in
         mbind (get_token_by_ref_from_cache env (pl_lp_token_ref pool)) (\<lambda>token_by_ref_from_cache'''.
         mbind (munwrap token_by_ref_from_cache''') (\<lambda>x'''.
           let lp_token = x''' in
           mbind (case (frm_route farm) of FarmRoute_Orca _ _ farm_token_ref _ _ \<Rightarrow> mret farm_token_ref
             | _ \<Rightarrow> mpanic) (\<lambda>farm_token_ref.
           mbind (get_token_by_ref_from_cache env (Some farm_token_ref)) (\<lambda>farm_lp_token.
           mbind (get_token_by_ref_from_cache env (frm_first_reward_token_ref farm))
               (\<lambda>token_by_ref_from_cache''''.
           mbind (munwrap token_by_ref_from_cache'''') (\<lambda>x''''.
           let token_a_reward = x'''' in
           mbind (mok_or vault_stake_custody (ClientProgramError UninitializedAccount)) (\<lambda>vault_stake_custody'.
           mbind (mok_or farm_lp_token (ClientProgramError UninitializedAccount)) (\<lambda>farm_lp_token'.
           let accounts = accounts @ [meta_new_readonly (frm_farm_program_id farm) False,
               meta_new (tok_mint vault_token) False, meta_new_readonly (vlt_vault_token_ref vault) False,
               meta_new vault_stake_info False, meta_new vault_stake_custody' False,
               meta_new (unwrap_or (vlt_fees_account_a vault) (ce_zero env)) False,
               meta_new token_a_custody False, meta_new (unwrap_or token_b_custody (ce_zero env)) False,
               meta_new lp_token_custody False, meta_new (tok_mint token_a) False,
               meta_new (tok_mint token_b) False, meta_new (tok_mint lp_token) False,
               meta_new (tok_mint farm_lp_token') False, meta_new token_a_reward_custody False,
               meta_new (tok_mint token_a_reward) False, meta_new_readonly farm_id False] in
           mret accounts))))))))))))))
       | VaultStrategy_DynamicHedge \<Rightarrow> mpanic) (\<lambda>accounts.
     mret (accounts, data))))))))"

definition get_stc_shutdown_accounts_orca ::
  "ClientEnv \<Rightarrow> pubkey \<Rightarrow> bytes \<Rightarrow> ((AccountMeta list) \<times> bytes) client" where
  "get_stc_shutdown_accounts_orca env admin_address vault_name =
     mbind (get_vault env vault_name) (\<lambda>vault.
     mbind (get_vault_ref env vault_name) (\<lambda>vault_ref.
     mbind (mprog (VaultInstruction_to_vec VaultI_Shutdown)) (\<lambda>data.
     mbind (get_vault_active_multisig_account env vault_name) (\<lambda>vault_active_multisig_account.
     let accounts = [meta_new_readonly admin_address True, meta_new_readonly vault_ref False,
         meta_new (vlt_info_account vault) False, meta_new vault_active_multisig_account False] in
     mret (accounts, data)))))"

definition get_stc_crank_accounts_orca ::
  "ClientEnv \<Rightarrow> pubkey \<Rightarrow> bytes \<Rightarrow> u64 \<Rightarrow> ((AccountMeta list) \<times> bytes) client" where
  "get_stc_crank_accounts_orca env wallet_address vault_name step =
     mbind (get_vault env vault_name) (\<lambda>vault.
     mbind (get_vault_ref env vault_name) (\<lambda>vault_ref.
     mbind (mprog (VaultInstruction_to_vec (VaultI_Crank step))) (\<lambda>data.
     let accounts = [meta_new_readonly wallet_address True] in
     let accounts = accounts @ [meta_new_readonly vault_ref False, meta_new (vlt_info_account vault) False,
         meta_new_readonly (vlt_vault_authority vault) False, meta_new_readonly (ce_spl_token env) False] in
     mbind (case (vlt_strategy vault) of VaultStrategy_StakeLpCompoundRewards _ _ pool_ref _ _ farm_ref
         lp_token_custody token_a_custody token_b_custody token_a_reward_custody _ vault_stake_info
         vault_stake_custody _ reward_exchange_pool_ref \<Rightarrow> mbind (get_pool_by_ref env pool_ref) (\<lambda>pool.
       mbind (get_farm_by_ref env farm_ref) (\<lambda>farm.
       mbind (get_token_by_ref_from_cache env (pl_lp_token_ref pool)) (\<lambda>lp_token.
       mbind (get_token_by_ref_from_cache env (frm_lp_token_ref farm)) (\<lambda>farm_token.
       mbind (massert (farm_token = lp_token)) (\<lambda>_.
       let accounts = accounts @ [meta_new token_a_reward_custody False] in
       mbind (if (step = 3) then let accounts = accounts @ [meta_new lp_token_custody False] in
         mret accounts
         else mret accounts) (\<lambda>accounts.
       mbind (if (step = 1) then mbind (mok_or (vlt_fees_account_a vault) (ClientProgramError
           UninitializedAccount)) (\<lambda>fees_account_a.
         let accounts = accounts @ [meta_new fees_account_a False] in
         mret accounts)
         else mret accounts) (\<lambda>accounts.
       mbind (if ((step = 2) \<or> (step = 3)) then (case (pl_route pool) of PoolRoute_Orca amm_id amm_authority
           fees_account \<Rightarrow> mbind (mok_or (pl_token_a_account pool) (ClientProgramError UninitializedAccount))
           (\<lambda>token_a_account.
           mbind (mok_or (pl_token_b_account pool) (ClientProgramError UninitializedAccount)) (\<lambda>token_b_account.
           mbind (mok_or lp_token (ClientProgramError UninitializedAccount)) (\<lambda>lp_token'.
           let accounts = accounts @ [meta_new token_a_custody False,
               meta_new (unwrap_or token_b_custody (ce_zero env)) False,
               meta_new_readonly (pl_pool_program_id pool) False, meta_new token_a_account False,
               meta_new token_b_account False, meta_new (tok_mint lp_token') False, meta_new amm_id False,
               meta_new_readonly amm_authority False] in
           (if (step = 2) then let accounts = accounts @ [meta_new fees_account False] in
             mbind (case reward_exchange_pool_ref of Some rdex_pool_ref \<Rightarrow> mbind (get_pool_by_ref env
                 rdex_pool_ref) (\<lambda>rdex_pool.
               mbind (get_token_by_ref_from_cache env (pl_lp_token_ref rdex_pool)) (\<lambda>rdex_lp_token.
               (case (pl_route rdex_pool) of PoolRoute_Orca rdex_amm_id rdex_amm_authority rdex_fees_account \<Rightarrow>
                   mbind (mok_or (pl_token_a_account rdex_pool) (ClientProgramError UninitializedAccount))
                   (\<lambda>token_a_account'.
                 mbind (mok_or (pl_token_b_account rdex_pool) (ClientProgramError UninitializedAccount))
                     (\<lambda>token_b_account'.
                 mbind (mok_or rdex_lp_token (ClientProgramError UninitializedAccount)) (\<lambda>rdex_lp_token'.
                 let accounts = accounts @ [meta_new token_a_account' False, meta_new token_b_account' False,
                     meta_new (tok_mint rdex_lp_token') False, meta_new rdex_amm_id False,
                     meta_new_readonly rdex_amm_authority False, meta_new rdex_fees_account False] in
                 mret accounts)))
                 | _ \<Rightarrow> mpanic)))
               | None \<Rightarrow> let accounts = foldl (\<lambda>accounts _. accounts @ [meta_new_readonly (ce_zero env) False])
                   accounts [0..<6] in
               mret accounts) (\<lambda>accounts.
             let accounts = accounts @ [meta_new_readonly (ce_instructions env) False] in
             mret accounts)
             else mret accounts))))
           | _ \<Rightarrow> mpanic)
         else mret accounts) (\<lambda>accounts.
       (if ((step = 1) \<or> (step = 3)) then (case (frm_route farm) of FarmRoute_Orca farm_id farm_authority
           farm_token_ref base_token_vault reward_token_vault \<Rightarrow> mbind (get_token_by_ref_from_cache env (Some
           farm_token_ref)) (\<lambda>farm_lp_token.
           let accounts = accounts @ [meta_new_readonly (frm_farm_program_id farm) False,
               meta_new vault_stake_info False] in
           mbind (if (step = 3) then mbind (mok_or vault_stake_custody (ClientProgramError
               UninitializedAccount)) (\<lambda>vault_stake_custody'.
             let accounts = accounts @ [meta_new vault_stake_custody' False] in
             mret accounts)
             else mret accounts) (\<lambda>accounts.
           let accounts = accounts @ [meta_new farm_id False, meta_new_readonly farm_authority False] in
           mbind (if (step = 3) then mbind (mok_or farm_lp_token (ClientProgramError UninitializedAccount))
               (\<lambda>farm_lp_token'.
             let accounts = accounts @ [meta_new (tok_mint farm_lp_token') False] in
             mret accounts)
             else mret accounts) (\<lambda>accounts.
           let accounts = accounts @ [meta_new base_token_vault False, meta_new reward_token_vault False] in
           mret accounts)))
           | _ \<Rightarrow> mpanic)
         else mret accounts)))))))))
       | VaultStrategy_DynamicHedge \<Rightarrow> mpanic) (\<lambda>accounts.
     mret (accounts, data)))))"

section \<open>Users\<close>

definition new_instruction_user_init_vault :: "ClientEnv \<Rightarrow> pubkey \<Rightarrow> bytes \<Rightarrow> Instruction client" where
  "new_instruction_user_init_vault env wallet_address vault_name =
     mbind (get_vault env vault_name) (\<lambda>vault.
     mbind (case (vlt_strategy vault) of VaultStrategy_StakeLpCompoundRewards _ _ pool_ref _ _ _ _ _ _ _ _ _ _
         _ _ \<Rightarrow> mbind (get_pool_by_ref env pool_ref) (\<lambda>pool.
       (case (pl_route pool) of PoolRoute_Raydium _ _ _ _ _ _ _ _ _ _ _ _ _ _ \<Rightarrow>
           get_stc_user_init_accounts_raydium env wallet_address vault_name
         | PoolRoute_Orca _ _ _ \<Rightarrow> get_stc_user_init_accounts_orca env wallet_address vault_name))
       | _ \<Rightarrow> mpanic) (\<lambda>(accounts, data).
     mret \<lparr> ins_program_id = (vlt_vault_program_id vault), ins_accounts = accounts, ins_data = data \<rparr>))"

definition new_instruction_add_liquidity_vault ::
  "ClientEnv \<Rightarrow> pubkey \<Rightarrow> bytes \<Rightarrow> f64 \<Rightarrow> f64 \<Rightarrow> Instruction client" where
  "new_instruction_add_liquidity_vault env wallet_address vault_name max_token_a_ui_amount max_token_b_ui_amount =
     mbind (get_vault env vault_name) (\<lambda>vault.
     mbind (case (vlt_strategy vault) of VaultStrategy_StakeLpCompoundRewards _ _ pool_ref _ _ _ _ _ _ _ _ _ _
         _ _ \<Rightarrow> mbind (get_pool_by_ref env pool_ref) (\<lambda>pool.
       (case (pl_route pool) of PoolRoute_Raydium _ _ _ _ _ _ _ _ _ _ _ _ _ _ \<Rightarrow>
           get_stc_add_liquidity_accounts_raydium env wallet_address vault_name max_token_a_ui_amount
           max_token_b_ui_amount
         | PoolRoute_Orca _ _ _ \<Rightarrow> get_stc_add_liquidity_accounts_orca env wallet_address vault_name
             max_token_a_ui_amount max_token_b_ui_amount))
       | _ \<Rightarrow> mpanic) (\<lambda>(accounts, data).
     mret \<lparr> ins_program_id = (vlt_vault_program_id vault), ins_accounts = accounts, ins_data = data \<rparr>))"

definition new_instruction_lock_liquidity_vault ::
  "ClientEnv \<Rightarrow> pubkey \<Rightarrow> bytes \<Rightarrow> f64 \<Rightarrow> Instruction client" where
  "new_instruction_lock_liquidity_vault env wallet_address vault_name ui_amount =
     mbind (get_vault env vault_name) (\<lambda>vault.
     mbind (case (vlt_strategy vault) of VaultStrategy_StakeLpCompoundRewards _ _ pool_ref _ _ _ _ _ _ _ _ _ _
         _ _ \<Rightarrow> mbind (get_pool_by_ref env pool_ref) (\<lambda>pool.
       (case (pl_route pool) of PoolRoute_Raydium _ _ _ _ _ _ _ _ _ _ _ _ _ _ \<Rightarrow>
           get_stc_lock_liquidity_accounts_raydium env wallet_address vault_name ui_amount
         | PoolRoute_Orca _ _ _ \<Rightarrow> get_stc_lock_liquidity_accounts_orca env wallet_address vault_name ui_amount))
       | _ \<Rightarrow> mpanic) (\<lambda>(accounts, data).
     mret \<lparr> ins_program_id = (vlt_vault_program_id vault), ins_accounts = accounts, ins_data = data \<rparr>))"

definition new_instruction_unlock_liquidity_vault ::
  "ClientEnv \<Rightarrow> pubkey \<Rightarrow> bytes \<Rightarrow> f64 \<Rightarrow> Instruction client" where
  "new_instruction_unlock_liquidity_vault env wallet_address vault_name ui_amount =
     mbind (get_vault env vault_name) (\<lambda>vault.
     mbind (case (vlt_strategy vault) of VaultStrategy_StakeLpCompoundRewards _ _ pool_ref _ _ _ _ _ _ _ _ _ _
         _ _ \<Rightarrow> mbind (get_pool_by_ref env pool_ref) (\<lambda>pool.
       (case (pl_route pool) of PoolRoute_Raydium _ _ _ _ _ _ _ _ _ _ _ _ _ _ \<Rightarrow>
           get_stc_unlock_liquidity_accounts_raydium env wallet_address vault_name ui_amount
         | PoolRoute_Orca _ _ _ \<Rightarrow> get_stc_unlock_liquidity_accounts_orca env wallet_address vault_name
             ui_amount))
       | _ \<Rightarrow> mpanic) (\<lambda>(accounts, data).
     mret \<lparr> ins_program_id = (vlt_vault_program_id vault), ins_accounts = accounts, ins_data = data \<rparr>))"

definition new_instruction_remove_liquidity_vault ::
  "ClientEnv \<Rightarrow> pubkey \<Rightarrow> bytes \<Rightarrow> f64 \<Rightarrow> Instruction client" where
  "new_instruction_remove_liquidity_vault env wallet_address vault_name ui_amount =
     mbind (get_vault env vault_name) (\<lambda>vault.
     mbind (case (vlt_strategy vault) of VaultStrategy_StakeLpCompoundRewards _ _ pool_ref _ _ _ _ _ _ _ _ _ _
         _ _ \<Rightarrow> mbind (get_pool_by_ref env pool_ref) (\<lambda>pool.
       (case (pl_route pool) of PoolRoute_Raydium _ _ _ _ _ _ _ _ _ _ _ _ _ _ \<Rightarrow>
           get_stc_remove_liquidity_accounts_raydium env wallet_address vault_name ui_amount
         | PoolRoute_Orca _ _ _ \<Rightarrow> get_stc_remove_liquidity_accounts_orca env wallet_address vault_name
             ui_amount))
       | _ \<Rightarrow> mpanic) (\<lambda>(accounts, data).
     mret \<lparr> ins_program_id = (vlt_vault_program_id vault), ins_accounts = accounts, ins_data = data \<rparr>))"

section \<open>Administration\<close>

definition new_instruction_init_vault :: "ClientEnv \<Rightarrow> pubkey \<Rightarrow> bytes \<Rightarrow> u64 \<Rightarrow> Instruction client" where
  "new_instruction_init_vault env admin_address vault_name step =
     mbind (get_vault env vault_name) (\<lambda>vault.
     mbind (case (vlt_strategy vault) of VaultStrategy_StakeLpCompoundRewards _ _ pool_ref _ _ _ _ _ _ _ _ _ _
         _ _ \<Rightarrow> mbind (get_pool_by_ref env pool_ref) (\<lambda>pool.
       (case (pl_route pool) of PoolRoute_Raydium _ _ _ _ _ _ _ _ _ _ _ _ _ _ \<Rightarrow> get_stc_init_accounts_raydium
           env admin_address vault_name step
         | PoolRoute_Orca _ _ _ \<Rightarrow> get_stc_init_accounts_orca env admin_address vault_name step))
       | _ \<Rightarrow> mpanic) (\<lambda>(accounts, data).
     mret \<lparr> ins_program_id = (vlt_vault_program_id vault), ins_accounts = accounts, ins_data = data \<rparr>))"

definition new_instruction_shutdown_vault :: "ClientEnv \<Rightarrow> pubkey \<Rightarrow> bytes \<Rightarrow> Instruction client" where
  "new_instruction_shutdown_vault env admin_address vault_name =
     mbind (get_vault env vault_name) (\<lambda>vault.
     mbind (case (vlt_strategy vault) of VaultStrategy_StakeLpCompoundRewards _ _ pool_ref _ _ _ _ _ _ _ _ _ _
         _ _ \<Rightarrow> mbind (get_pool_by_ref env pool_ref) (\<lambda>pool.
       (case (pl_route pool) of PoolRoute_Raydium _ _ _ _ _ _ _ _ _ _ _ _ _ _ \<Rightarrow>
           get_stc_shutdown_accounts_raydium env admin_address vault_name
         | PoolRoute_Orca _ _ _ \<Rightarrow> get_stc_shutdown_accounts_orca env admin_address vault_name))
       | _ \<Rightarrow> mpanic) (\<lambda>(accounts, data).
     mret \<lparr> ins_program_id = (vlt_vault_program_id vault), ins_accounts = accounts, ins_data = data \<rparr>))"

definition new_instruction_withdraw_fees_vault ::
  "ClientEnv \<Rightarrow> pubkey \<Rightarrow> bytes \<Rightarrow> TokenSelector \<Rightarrow> f64 \<Rightarrow> pubkey \<Rightarrow> Instruction client" where
  "new_instruction_withdraw_fees_vault env admin_address vault_name fee_token ui_amount receiver =
     mbind (get_vault env vault_name) (\<lambda>vault.
     mbind (get_vault_ref env vault_name) (\<lambda>vault_ref.
     mbind (get_vault_active_multisig_account env vault_name) (\<lambda>vault_active_multisig_account.
     mbind ((if (fee_token = TokenSelector_TokenA) then mbind (mok_or (vlt_fees_account_a vault)
         (ClientProgramError UninitializedAccount)) (\<lambda>fees_account_a.
         mret (meta_new fees_account_a False))
         else mbind (mok_or (vlt_fees_account_b vault) (ClientProgramError UninitializedAccount))
             (\<lambda>fees_account_b.
         mret (meta_new fees_account_b False)))) (\<lambda>v.
     let inst = \<lparr> ins_program_id = (vlt_vault_program_id vault),
         ins_accounts = [meta_new_readonly admin_address True, meta_new_readonly vault_ref False,
         meta_new (vlt_info_account vault) False, meta_new vault_active_multisig_account False,
         meta_new (vlt_vault_authority vault) False, meta_new_readonly (ce_spl_token env) False, v,
         meta_new receiver False], ins_data = [] \<rparr> in
     mbind (case (vlt_strategy vault) of VaultStrategy_StakeLpCompoundRewards _ _ _ _ _ farm_ref _ _ _ _ _ _ _
         _ _ \<Rightarrow> mbind (get_farm_by_ref env farm_ref) (\<lambda>farm.
       (if (fee_token = TokenSelector_TokenA) then mbind (get_token_by_ref_from_cache env
           (frm_first_reward_token_ref farm)) (\<lambda>token_by_ref_from_cache.
         mbind (munwrap token_by_ref_from_cache) (\<lambda>x.
         let token_a_reward = x in
         mret (tok_decimals token_a_reward)))
         else mbind (get_token_by_ref_from_cache env (frm_second_reward_token_ref farm))
             (\<lambda>token_by_ref_from_cache.
         mbind (munwrap token_by_ref_from_cache) (\<lambda>x.
         let token_b_reward = x in
         mret (tok_decimals token_b_reward)))))
       | _ \<Rightarrow> mpanic) (\<lambda>fee_decimals.
     mbind (ui_amount_to_tokens_with_decimals env ui_amount fee_decimals) (\<lambda>ui_amount_to_tokens_with_decimals.
     mbind (mprog (VaultInstruction_to_vec (VaultI_WithdrawFees ui_amount_to_tokens_with_decimals))) (\<lambda>bytes.
     let inst = inst\<lparr> ins_data := bytes \<rparr> in
     mret inst)))))))"

definition new_instruction_crank_vault :: "ClientEnv \<Rightarrow> pubkey \<Rightarrow> bytes \<Rightarrow> u64 \<Rightarrow> Instruction client" where
  "new_instruction_crank_vault env wallet_address vault_name step =
     mbind (get_vault env vault_name) (\<lambda>vault.
     mbind (case (vlt_strategy vault) of VaultStrategy_StakeLpCompoundRewards _ _ pool_ref _ _ _ _ _ _ _ _ _ _
         _ _ \<Rightarrow> mbind (get_pool_by_ref env pool_ref) (\<lambda>pool.
       (case (pl_route pool) of PoolRoute_Raydium _ _ _ _ _ _ _ _ _ _ _ _ _ _ \<Rightarrow> get_stc_crank_accounts_raydium
           env wallet_address vault_name step
         | PoolRoute_Orca _ _ _ \<Rightarrow> get_stc_crank_accounts_orca env wallet_address vault_name step))
       | _ \<Rightarrow> mpanic) (\<lambda>(accounts, data).
     mret \<lparr> ins_program_id = (vlt_vault_program_id vault), ins_accounts = accounts, ins_data = data \<rparr>))"

definition new_instruction_set_vault_admins ::
  "ClientEnv \<Rightarrow> pubkey \<Rightarrow> bytes \<Rightarrow> (pubkey list) \<Rightarrow> u8 \<Rightarrow> Instruction client" where
  "new_instruction_set_vault_admins env admin_address vault_name admin_signers min_signatures =
     (if ((admin_signers = []) \<or> (min_signatures = 0)) then mfail (ValueError (utf8_of
         ''At least one signer is required''))
       else (if (((unat min_signatures) > length admin_signers) \<or> (length admin_signers > MAX_SIGNERS)) then
           mfail (ValueError (utf8_of ''Invalid number of signatures''))
         else mbind (get_vault env vault_name) (\<lambda>vault.
         mbind (get_vault_ref env vault_name) (\<lambda>vault_ref.
         mbind (mprog (VaultInstruction_to_vec (VaultI_SetAdminSigners min_signatures))) (\<lambda>bytes.
         mbind (get_vault_active_multisig_account env vault_name) (\<lambda>vault_active_multisig_account.
         mbind (get_vault_multisig_account env vault_name) (\<lambda>vault_multisig_account.
         let inst = \<lparr> ins_program_id = (vlt_vault_program_id vault),
             ins_accounts = [meta_new_readonly admin_address True, meta_new_readonly vault_ref False,
             meta_new (vlt_info_account vault) False, meta_new vault_active_multisig_account False,
             meta_new vault_multisig_account False, meta_new_readonly (ce_system_program env) False],
             ins_data = bytes \<rparr> in
         let inst = foldl (\<lambda>inst key. inst\<lparr> ins_accounts := ins_accounts inst @ [meta_new_readonly key False]
             \<rparr>) inst admin_signers in
         mret inst)))))))"

definition new_instruction_remove_vault_multisig :: "ClientEnv \<Rightarrow> pubkey \<Rightarrow> bytes \<Rightarrow> Instruction client" where
  "new_instruction_remove_vault_multisig env admin_address vault_name =
     mbind (get_vault env vault_name) (\<lambda>vault.
     mbind (get_vault_ref env vault_name) (\<lambda>vault_ref.
     mbind (mprog (VaultInstruction_to_vec VaultI_RemoveMultisig)) (\<lambda>bytes.
     mbind (get_vault_active_multisig_account env vault_name) (\<lambda>vault_active_multisig_account.
     mbind (get_vault_multisig_account env vault_name) (\<lambda>vault_multisig_account.
     let inst = \<lparr> ins_program_id = (vlt_vault_program_id vault),
         ins_accounts = [meta_new_readonly admin_address True, meta_new_readonly vault_ref False,
         meta_new (vlt_info_account vault) False, meta_new vault_active_multisig_account False,
         meta_new vault_multisig_account False], ins_data = bytes \<rparr> in
     mret inst)))))"

definition new_instruction_set_min_crank_interval_vault ::
  "ClientEnv \<Rightarrow> pubkey \<Rightarrow> bytes \<Rightarrow> u32 \<Rightarrow> Instruction client" where
  "new_instruction_set_min_crank_interval_vault env admin_address vault_name min_crank_interval =
     mbind (get_vault env vault_name) (\<lambda>vault.
     mbind (get_vault_ref env vault_name) (\<lambda>vault_ref.
     mbind (get_vault_active_multisig_account env vault_name) (\<lambda>vault_active_multisig_account.
     let inst = \<lparr> ins_program_id = (vlt_vault_program_id vault),
         ins_accounts = [meta_new_readonly admin_address True, meta_new_readonly vault_ref False,
         meta_new (vlt_info_account vault) False, meta_new vault_active_multisig_account False],
         ins_data = [] \<rparr> in
     mbind (mprog (VaultInstruction_to_vec (VaultI_SetMinCrankInterval min_crank_interval))) (\<lambda>bytes.
     let inst = inst\<lparr> ins_data := bytes \<rparr> in
     mret inst))))"

text \<open>The literal \<open>0.01\<close> as an \<open>f32\<close>.\<close>

definition f32_hundredth :: f32 where "f32_hundredth = 0x3C23D70A"

definition new_instruction_set_fee_vault ::
  "ClientEnv \<Rightarrow> pubkey \<Rightarrow> bytes \<Rightarrow> f32 \<Rightarrow> Instruction client" where
  "new_instruction_set_fee_vault env admin_address vault_name fee_percent =
     mbind (get_vault env vault_name) (\<lambda>vault.
     mbind (get_vault_ref env vault_name) (\<lambda>vault_ref.
     mbind (get_vault_active_multisig_account env vault_name) (\<lambda>vault_active_multisig_account.
     let inst = \<lparr> ins_program_id = (vlt_vault_program_id vault),
         ins_accounts = [meta_new_readonly admin_address True, meta_new_readonly vault_ref False,
         meta_new (vlt_info_account vault) False, meta_new vault_active_multisig_account False],
         ins_data = [] \<rparr> in
     mbind (mprog (VaultInstruction_to_vec (VaultI_SetFee (f32_mul fee_percent f32_hundredth)))) (\<lambda>bytes.
     let inst = inst\<lparr> ins_data := bytes \<rparr> in
     mret inst))))"

definition new_instruction_set_external_fee_vault ::
  "ClientEnv \<Rightarrow> pubkey \<Rightarrow> bytes \<Rightarrow> f32 \<Rightarrow> Instruction client" where
  "new_instruction_set_external_fee_vault env admin_address vault_name external_fee_percent =
     mbind (get_vault env vault_name) (\<lambda>vault.
     mbind (get_vault_ref env vault_name) (\<lambda>vault_ref.
     mbind (get_vault_active_multisig_account env vault_name) (\<lambda>vault_active_multisig_account.
     let inst = \<lparr> ins_program_id = (vlt_vault_program_id vault),
         ins_accounts = [meta_new_readonly admin_address True, meta_new_readonly vault_ref False,
         meta_new (vlt_info_account vault) False, meta_new vault_active_multisig_account False],
         ins_data = [] \<rparr> in
     mbind (mprog (VaultInstruction_to_vec (VaultI_SetExternalFee (f32_mul external_fee_percent f32_hundredth)))) (\<lambda>bytes.
     let inst = inst\<lparr> ins_data := bytes \<rparr> in
     mret inst))))"

definition new_instruction_disable_deposits_vault :: "ClientEnv \<Rightarrow> pubkey \<Rightarrow> bytes \<Rightarrow> Instruction client" where
  "new_instruction_disable_deposits_vault env admin_address vault_name =
     mbind (get_vault env vault_name) (\<lambda>vault.
     mbind (get_vault_ref env vault_name) (\<lambda>vault_ref.
     mbind (get_vault_active_multisig_account env vault_name) (\<lambda>vault_active_multisig_account.
     let inst = \<lparr> ins_program_id = (vlt_vault_program_id vault),
         ins_accounts = [meta_new_readonly admin_address True, meta_new_readonly vault_ref False,
         meta_new (vlt_info_account vault) False, meta_new vault_active_multisig_account False],
         ins_data = [] \<rparr> in
     mbind (mprog (VaultInstruction_to_vec VaultI_DisableDeposits)) (\<lambda>bytes.
     let inst = inst\<lparr> ins_data := bytes \<rparr> in
     mret inst))))"

definition new_instruction_enable_deposits_vault :: "ClientEnv \<Rightarrow> pubkey \<Rightarrow> bytes \<Rightarrow> Instruction client" where
  "new_instruction_enable_deposits_vault env admin_address vault_name =
     mbind (get_vault env vault_name) (\<lambda>vault.
     mbind (get_vault_ref env vault_name) (\<lambda>vault_ref.
     mbind (get_vault_active_multisig_account env vault_name) (\<lambda>vault_active_multisig_account.
     let inst = \<lparr> ins_program_id = (vlt_vault_program_id vault),
         ins_accounts = [meta_new_readonly admin_address True, meta_new_readonly vault_ref False,
         meta_new (vlt_info_account vault) False, meta_new vault_active_multisig_account False],
         ins_data = [] \<rparr> in
     mbind (mprog (VaultInstruction_to_vec VaultI_EnableDeposits)) (\<lambda>bytes.
     let inst = inst\<lparr> ins_data := bytes \<rparr> in
     mret inst))))"

definition new_instruction_disable_withdrawals_vault :: "ClientEnv \<Rightarrow> pubkey \<Rightarrow> bytes \<Rightarrow> Instruction client" where
  "new_instruction_disable_withdrawals_vault env admin_address vault_name =
     mbind (get_vault env vault_name) (\<lambda>vault.
     mbind (get_vault_ref env vault_name) (\<lambda>vault_ref.
     mbind (get_vault_active_multisig_account env vault_name) (\<lambda>vault_active_multisig_account.
     let inst = \<lparr> ins_program_id = (vlt_vault_program_id vault),
         ins_accounts = [meta_new_readonly admin_address True, meta_new_readonly vault_ref False,
         meta_new (vlt_info_account vault) False, meta_new vault_active_multisig_account False],
         ins_data = [] \<rparr> in
     mbind (mprog (VaultInstruction_to_vec VaultI_DisableWithdrawals)) (\<lambda>bytes.
     let inst = inst\<lparr> ins_data := bytes \<rparr> in
     mret inst))))"

definition new_instruction_enable_withdrawals_vault :: "ClientEnv \<Rightarrow> pubkey \<Rightarrow> bytes \<Rightarrow> Instruction client" where
  "new_instruction_enable_withdrawals_vault env admin_address vault_name =
     mbind (get_vault env vault_name) (\<lambda>vault.
     mbind (get_vault_ref env vault_name) (\<lambda>vault_ref.
     mbind (get_vault_active_multisig_account env vault_name) (\<lambda>vault_active_multisig_account.
     let inst = \<lparr> ins_program_id = (vlt_vault_program_id vault),
         ins_accounts = [meta_new_readonly admin_address True, meta_new_readonly vault_ref False,
         meta_new (vlt_info_account vault) False, meta_new vault_active_multisig_account False],
         ins_data = [] \<rparr> in
     mbind (mprog (VaultInstruction_to_vec VaultI_EnableWithdrawals)) (\<lambda>bytes.
     let inst = inst\<lparr> ins_data := bytes \<rparr> in
     mret inst))))"

end
