(* ===== verification/Client_Fund_Pools.thy ===== *)
theory Client_Fund_Pools
  imports Client_Pools Client_Vault Fund_Instruction
begin

text \<open>
  \<open>client/fund_instructions_pools.rs\<close>: a fund trades by wrapping the instruction its authority would send to a pool,
  a farm or a vault. The authority is the first account of the wrapped instruction and its only signer; it is left
  out, since the fund program signs for it.
\<close>

section \<open>Wrapping\<close>

definition build_fund_instruction ::
  "ClientEnv \<Rightarrow> pubkey \<Rightarrow> bytes \<Rightarrow> Instruction \<Rightarrow> bytes \<Rightarrow> FundVaultType \<Rightarrow> Instruction client" where
  "build_fund_instruction env admin_address fund_name pool_instruction pool_or_farm_name vault_type =
     mbind (get_fund env fund_name) (\<lambda>fund.
     mbind (get_fund_ref env fund_name) (\<lambda>fund_ref.
     mbind (mlift (get_protocol pool_or_farm_name)) (\<lambda>protocol.
     mbind (mprog (AmmInstruction_unpack (ins_data pool_instruction))) (\<lambda>unpacked_instruction.
     mbind (case protocol of
              Raydium \<Rightarrow> mprog (FundInstruction_to_vec (FundI_AmmInstructionRaydium unpacked_instruction))
            | Orca \<Rightarrow> mprog (FundInstruction_to_vec (FundI_AmmInstructionOrca unpacked_instruction))
            | _ \<Rightarrow> mfail (ValueError (utf8_of ''Unsupported protocol '' @ Protocol_fmt protocol @
                       utf8_of '' for Fund '' @ fund_name))) (\<lambda>data.
     mbind (get_fund_vault_account env fund_name pool_or_farm_name vault_type) (\<lambda>fund_vault_account.
       let accounts =
         [meta_new_readonly admin_address True, meta_new_readonly fund_ref False,
          meta_new (fnd_info_account fund) False,
          (case unpacked_instruction of
             AmmI_UserInit \<Rightarrow> meta_new (fnd_fund_authority fund) False
           | _ \<Rightarrow> meta_new_readonly (fnd_fund_authority fund) False),
          meta_new_readonly (ins_program_id pool_instruction) False,
          (case unpacked_instruction of
             AmmI_AddLiquidity _ _ \<Rightarrow> meta_new fund_vault_account False
           | AmmI_RemoveLiquidity _ \<Rightarrow> meta_new fund_vault_account False
           | _ \<Rightarrow> meta_new_readonly fund_vault_account False)]
       in
         if ins_accounts pool_instruction = [] then mpanic
         else
           mret \<lparr> ins_program_id = fnd_fund_program_id fund,
                  ins_accounts = accounts @ tl (ins_accounts pool_instruction) @
                    (case unpacked_instruction of
                       AmmI_Swap _ _ _ \<Rightarrow> [meta_new_readonly (ce_instructions env) False]
                     | _ \<Rightarrow> []),
                  ins_data = data \<rparr>))))))"

definition build_fund_vault_instruction ::
  "ClientEnv \<Rightarrow> pubkey \<Rightarrow> bytes \<Rightarrow> Instruction \<Rightarrow> bytes \<Rightarrow> Instruction client" where
  "build_fund_vault_instruction env admin_address fund_name vault_instruction vault_name =
     mbind (get_fund env fund_name) (\<lambda>fund.
     mbind (get_fund_ref env fund_name) (\<lambda>fund_ref.
     mbind (mlift (get_protocol vault_name)) (\<lambda>protocol.
     mbind (mprog (VaultInstruction_unpack (ins_data vault_instruction))) (\<lambda>unpacked_instruction.
     mbind (case protocol of
              Raydium \<Rightarrow> mprog (FundInstruction_to_vec (FundI_VaultInstructionRaydium unpacked_instruction))
            | Orca \<Rightarrow> mprog (FundInstruction_to_vec (FundI_VaultInstructionOrca unpacked_instruction))
            | _ \<Rightarrow> mfail (ValueError (utf8_of ''Unsupported protocol '' @ Protocol_fmt protocol @
                       utf8_of '' for Fund '' @ fund_name))) (\<lambda>data.
     mbind (get_fund_vault_account env fund_name vault_name FundVaultType_Vault) (\<lambda>fund_vault_account.
       let accounts =
         [meta_new_readonly admin_address True, meta_new_readonly fund_ref False,
          meta_new (fnd_info_account fund) False,
          (case unpacked_instruction of
             VaultI_UserInit \<Rightarrow> meta_new (fnd_fund_authority fund) False
           | _ \<Rightarrow> meta_new_readonly (fnd_fund_authority fund) False),
          meta_new_readonly (ins_program_id vault_instruction) False,
          (case unpacked_instruction of
             VaultI_AddLiquidity _ _ \<Rightarrow> meta_new fund_vault_account False
           | VaultI_RemoveLiquidity _ \<Rightarrow> meta_new fund_vault_account False
           | _ \<Rightarrow> meta_new_readonly fund_vault_account False)]
       in
         if ins_accounts vault_instruction = [] then mpanic
         else
           mret \<lparr> ins_program_id = fnd_fund_program_id fund,
                  ins_accounts = accounts @ tl (ins_accounts vault_instruction),
                  ins_data = data \<rparr>))))))"

section \<open>Pools and farms\<close>

definition new_instruction_fund_user_init_farm ::
  "ClientEnv \<Rightarrow> pubkey \<Rightarrow> bytes \<Rightarrow> bytes \<Rightarrow> Instruction client" where
  "new_instruction_fund_user_init_farm env admin_address fund_name farm_name =
     mbind (get_fund env fund_name) (\<lambda>fund.
     mbind (new_instruction_user_init env (fnd_fund_authority fund) farm_name) (\<lambda>farm_inst.
     build_fund_instruction env admin_address fund_name farm_inst farm_name FundVaultType_Farm))"

definition new_instruction_fund_add_liquidity_pool ::
  "ClientEnv \<Rightarrow> pubkey \<Rightarrow> bytes \<Rightarrow> bytes \<Rightarrow> f64 \<Rightarrow> f64 \<Rightarrow> Instruction client" where
  "new_instruction_fund_add_liquidity_pool env admin_address fund_name pool_name max_token_a_ui_amount max_token_b_ui_amount =
     mbind (get_fund env fund_name) (\<lambda>fund.
     mbind (new_instruction_add_liquidity_pool env (fnd_fund_authority fund) pool_name max_token_a_ui_amount
         max_token_b_ui_amount) (\<lambda>pool_inst.
     build_fund_instruction env admin_address fund_name pool_inst pool_name FundVaultType_Pool))"

definition new_instruction_fund_remove_liquidity_pool ::
  "ClientEnv \<Rightarrow> pubkey \<Rightarrow> bytes \<Rightarrow> bytes \<Rightarrow> f64 \<Rightarrow> Instruction client" where
  "new_instruction_fund_remove_liquidity_pool env admin_address fund_name pool_name ui_amount =
     mbind (get_fund env fund_name) (\<lambda>fund.
     mbind (new_instruction_remove_liquidity_pool env (fnd_fund_authority fund) pool_name ui_amount)
         (\<lambda>pool_inst.
     build_fund_instruction env admin_address fund_name pool_inst pool_name FundVaultType_Pool))"

definition new_instruction_fund_swap ::
  "ClientEnv \<Rightarrow> pubkey \<Rightarrow> bytes \<Rightarrow> Protocol \<Rightarrow> bytes \<Rightarrow> bytes \<Rightarrow> f64 \<Rightarrow> f64 \<Rightarrow> Instruction client" where
  "new_instruction_fund_swap env admin_address fund_name protocol from_token to_token ui_amount_in min_ui_amount_out =
     mbind (get_fund env fund_name) (\<lambda>fund.
     mbind (find_pools env protocol from_token to_token) (\<lambda>pools.
     mbind (mindex pools 0) (\<lambda>item.
     let pool = item in
     mbind (new_instruction_swap env (fnd_fund_authority fund) protocol from_token to_token ui_amount_in
         min_ui_amount_out) (\<lambda>pool_inst.
     build_fund_instruction env admin_address fund_name pool_inst (pl_name pool) FundVaultType_Pool))))"

definition new_instruction_fund_stake :: "ClientEnv \<Rightarrow> pubkey \<Rightarrow> bytes \<Rightarrow> bytes \<Rightarrow> f64 \<Rightarrow> Instruction client" where
  "new_instruction_fund_stake env admin_address fund_name farm_name ui_amount =
     mbind (get_fund env fund_name) (\<lambda>fund.
     mbind (new_instruction_stake env (fnd_fund_authority fund) farm_name ui_amount) (\<lambda>farm_inst.
     build_fund_instruction env admin_address fund_name farm_inst farm_name FundVaultType_Farm))"

definition new_instruction_fund_unstake ::
  "ClientEnv \<Rightarrow> pubkey \<Rightarrow> bytes \<Rightarrow> bytes \<Rightarrow> f64 \<Rightarrow> Instruction client" where
  "new_instruction_fund_unstake env admin_address fund_name farm_name ui_amount =
     mbind (get_fund env fund_name) (\<lambda>fund.
     mbind (new_instruction_unstake env (fnd_fund_authority fund) farm_name ui_amount) (\<lambda>farm_inst.
     build_fund_instruction env admin_address fund_name farm_inst farm_name FundVaultType_Farm))"

definition new_instruction_fund_harvest :: "ClientEnv \<Rightarrow> pubkey \<Rightarrow> bytes \<Rightarrow> bytes \<Rightarrow> Instruction client" where
  "new_instruction_fund_harvest env admin_address fund_name farm_name =
     mbind (get_fund env fund_name) (\<lambda>fund.
     mbind (new_instruction_harvest env (fnd_fund_authority fund) farm_name) (\<lambda>farm_inst.
     build_fund_instruction env admin_address fund_name farm_inst farm_name FundVaultType_Farm))"

section \<open>Vaults\<close>

definition new_instruction_fund_user_init_vault ::
  "ClientEnv \<Rightarrow> pubkey \<Rightarrow> bytes \<Rightarrow> bytes \<Rightarrow> Instruction client" where
  "new_instruction_fund_user_init_vault env admin_address fund_name vault_name =
     mbind (get_fund env fund_name) (\<lambda>fund.
     mbind (new_instruction_user_init_vault env (fnd_fund_authority fund) vault_name) (\<lambda>vault_inst.
     build_fund_vault_instruction env admin_address fund_name vault_inst vault_name))"

definition new_instruction_fund_add_liquidity_vault ::
  "ClientEnv \<Rightarrow> pubkey \<Rightarrow> bytes \<Rightarrow> bytes \<Rightarrow> f64 \<Rightarrow> f64 \<Rightarrow> Instruction client" where
  "new_instruction_fund_add_liquidity_vault env admin_address fund_name vault_name max_token_a_ui_amount max_token_b_ui_amount =
     mbind (get_fund env fund_name) (\<lambda>fund.
     mbind (new_instruction_add_liquidity_vault env (fnd_fund_authority fund) vault_name max_token_a_ui_amount
         max_token_b_ui_amount) (\<lambda>vault_inst.
     build_fund_vault_instruction env admin_address fund_name vault_inst vault_name))"

definition new_instruction_fund_lock_liquidity_vault ::
  "ClientEnv \<Rightarrow> pubkey \<Rightarrow> bytes \<Rightarrow> bytes \<Rightarrow> f64 \<Rightarrow> Instruction client" where
  "new_instruction_fund_lock_liquidity_vault env admin_address fund_name vault_name ui_amount =
     mbind (get_fund env fund_name) (\<lambda>fund.
     mbind (new_instruction_lock_liquidity_vault env (fnd_fund_authority fund) vault_name ui_amount)
         (\<lambda>vault_inst.
     build_fund_vault_instruction env admin_address fund_name vault_inst vault_name))"

definition new_instruction_fund_unlock_liquidity_vault ::
  "ClientEnv \<Rightarrow> pubkey \<Rightarrow> bytes \<Rightarrow> bytes \<Rightarrow> f64 \<Rightarrow> Instruction client" where
  "new_instruction_fund_unlock_liquidity_vault env admin_address fund_name vault_name ui_amount =
     mbind (get_fund env fund_name) (\<lambda>fund.
     mbind (new_instruction_unlock_liquidity_vault env (fnd_fund_authority fund) vault_name ui_amount)
         (\<lambda>vault_inst.
     build_fund_vault_instruction env admin_address fund_name vault_inst vault_name))"

definition new_instruction_fund_remove_liquidity_vault ::
  "ClientEnv \<Rightarrow> pubkey \<Rightarrow> bytes \<Rightarrow> bytes \<Rightarrow> f64 \<Rightarrow> Instruction client" where
  "new_instruction_fund_remove_liquidity_vault env admin_address fund_name vault_name ui_amount =
     mbind (get_fund env fund_name) (\<lambda>fund.
     mbind (new_instruction_remove_liquidity_vault env (fnd_fund_authority fund) vault_name ui_amount)
         (\<lambda>vault_inst.
     build_fund_vault_instruction env admin_address fund_name vault_inst vault_name))"

end
