(* ===== verification/Client_Signers.thy ===== *)
theory Client_Signers
  imports Client_Router Client_Fund Client_Fund_Pools
begin

text \<open>
  Who has to sign the instructions the client builds. A fact about the result of a call holds whatever the state of
  the client, the clock and the answers of the node (\<open>returns\<close>); its rules follow the text of a call.
\<close>

section \<open>Results of calls\<close>

definition returns :: "('a \<Rightarrow> bool) \<Rightarrow> 'a client \<Rightarrow> bool" where
  "returns P m \<longleftrightarrow> (\<forall>s x s'. m s = (COk x, s') \<longrightarrow> P x)"

lemma returnsD: "returns P m \<Longrightarrow> m s = (COk x, s') \<Longrightarrow> P x"
  unfolding returns_def by blast

lemma returns_any: "(\<And>x. P x) \<Longrightarrow> returns P m"
  unfolding returns_def by blast

lemma returns_weaken: "returns Q m \<Longrightarrow> (\<And>x. Q x \<Longrightarrow> P x) \<Longrightarrow> returns P m"
  unfolding returns_def by blast

lemma returns_fst: "returns (\<lambda>(a, _). Q a) m \<Longrightarrow> (\<And>a b. Q a \<Longrightarrow> P (a, b)) \<Longrightarrow> returns P m"
  unfolding returns_def by fastforce

named_theorems returns_intros \<open>results of a call from the results of its parts\<close>

lemma returns_mret [returns_intros]: "P x \<Longrightarrow> returns P (mret x)"
  by (simp add: returns_def mret_def)

lemma returns_stop [returns_intros]: "returns P (mfail e)" "returns P mpanic"
  by (simp_all add: returns_def mfail_def mpanic_def mlift_def)

lemma returns_mbind [returns_intros]:
  assumes "returns (\<lambda>x. returns P (f x)) m"
  shows "returns P (mbind m f)"
proof -
  have "P y" if "mbind m f s = (COk y, s')" for s y s'
  proof (cases "m s")
    case (Pair r t)
    with that obtain x where "r = COk x" "f x t = (COk y, s')" by (cases r) (auto simp: mbind_def)
    then show ?thesis using assms Pair unfolding returns_def by blast
  qed
  then show ?thesis unfolding returns_def by blast
qed

text \<open>Control flow.\<close>

lemma returns_Let [returns_intros]: "returns P (f x) \<Longrightarrow> returns P (Let x f)"
  by simp

lemma returns_if [returns_intros]: "returns P m \<Longrightarrow> returns P n \<Longrightarrow> returns P (if b then m else n)"
  by simp

lemma returns_case_prod [returns_intros]:
  "(\<And>a b. p = (a, b) \<Longrightarrow> returns P (f a b)) \<Longrightarrow> returns P (case_prod f p)"
  by (cases p) simp

lemma returns_case_option [returns_intros]:
  "returns P m \<Longrightarrow> (\<And>x. returns P (f x)) \<Longrightarrow> returns P (case_option m f x)"
  by (cases x) simp_all

lemma returns_case_VaultStrategy [returns_intros]:
  "(\<And>a b c d e f g h i j k l m n p. returns P (q a b c d e f g h i j k l m n p)) \<Longrightarrow> returns P r \<Longrightarrow>
    returns P (case_VaultStrategy q r x)"
  by (cases x) simp_all

lemma returns_case_PoolRoute [returns_intros]:
  "(\<And>a b c d e f g h i j k l m n. returns P (q a b c d e f g h i j k l m n)) \<Longrightarrow>
    (\<And>a b c. returns P (r a b c)) \<Longrightarrow> returns P (case_PoolRoute q r x)"
  by (cases x) simp_all

lemma returns_case_FarmRoute [returns_intros]:
  "(\<And>a b c d e. returns P (q a b c d e)) \<Longrightarrow> (\<And>a b c d e. returns P (r a b c d e)) \<Longrightarrow>
    returns P (case_FarmRoute q r x)"
  by (cases x) simp_all

lemma returns_case_FundVaultType [returns_intros]:
  "returns P a \<Longrightarrow> returns P b \<Longrightarrow> returns P c \<Longrightarrow> returns P (case_FundVaultType a b c x)"
  by (cases x) simp_all

lemma returns_case_Protocol [returns_intros]:
  "(x = Raydium \<Longrightarrow> returns P a) \<Longrightarrow> (x = Saber \<Longrightarrow> returns P b) \<Longrightarrow> (x = Orca \<Longrightarrow> returns P c) \<Longrightarrow>
    returns P (case_Protocol a b c x)"
  by (cases x) simp_all

section \<open>Signers\<close>

definition sole_signer :: "pubkey \<Rightarrow> AccountMeta list \<Rightarrow> bool" where
  "sole_signer w accounts \<longleftrightarrow>
     (case accounts of
        [] \<Rightarrow> False
      | a # rest \<Rightarrow> meta_key a = w \<and> meta_is_signer a \<and> list_all (\<lambda>b. \<not> meta_is_signer b) rest)"

lemma sole_signer_Cons [simp]:
  "sole_signer w (a # rest) \<longleftrightarrow> meta_key a = w \<and> meta_is_signer a \<and> list_all (\<lambda>b. \<not> meta_is_signer b) rest"
  by (simp add: sole_signer_def)

lemma sole_signer_append [simp]:
  "sole_signer w xs \<Longrightarrow> sole_signer w (xs @ ys) \<longleftrightarrow> list_all (\<lambda>b. \<not> meta_is_signer b) ys"
  by (cases xs) (auto simp: sole_signer_def)

lemma signers_sole: "sole_signer w (ins_accounts ix) \<Longrightarrow> signers ix = [w]"
  by (cases "ins_accounts ix") (auto simp: sole_signer_def signers_def filter_empty_conv list_all_iff)

lemma list_all_tl: "sole_signer w xs \<Longrightarrow> list_all (\<lambda>b. \<not> meta_is_signer b) (tl xs)"
  by (cases xs) (auto simp: sole_signer_def)

text \<open>Accounts pushed one after the other.\<close>

lemma foldl_push [simp]:
  "foldl (\<lambda>ix k. ix\<lparr> ins_accounts := ins_accounts ix @ [g k] \<rparr>) ix ks =
     ix\<lparr> ins_accounts := ins_accounts ix @ map g ks \<rparr>"
  by (induction ks arbitrary: ix) simp_all

lemma foldl_push_list [simp]: "foldl (\<lambda>xs k. xs @ [g k]) xs ks = xs @ map g ks"
  by (induction ks arbitrary: xs) simp_all

lemma no_signer_map [simp]:
  "(\<And>k. \<not> meta_is_signer (g k)) \<Longrightarrow> list_all (\<lambda>b. \<not> meta_is_signer b) (map g ks)"
  by (induction ks) simp_all

abbreviation signed :: "pubkey \<Rightarrow> Instruction \<Rightarrow> bool" where
  "signed w ix \<equiv> sole_signer w (ins_accounts ix)"

section \<open>The calls\<close>

text \<open>The calls that build one instruction, by the program they are for.\<close>

inductive router_call :: "ClientEnv \<Rightarrow> pubkey \<Rightarrow> Instruction client \<Rightarrow> bool" for env admin where
  "router_call env admin (new_instruction_refdb_write env admin refdb_name record)"
| "router_call env admin (new_instruction_refdb_delete env admin refdb_name record)"
| "router_call env admin (new_instruction_refdb_init env admin refdb_name reference_type max_records init_account)"
| "router_call env admin (new_instruction_refdb_drop env admin refdb_name close_account)"
| "router_call env admin (new_instruction_remove_reference env admin storage_type object_name)"
| "router_call env admin (new_instruction_set_admins env admin admin_signers min_signatures)"
| "router_call env admin (new_instruction_set_program_admins env admin prog_id admin_signers min_signatures)"
| "router_call env admin (new_instruction_set_program_single_authority env admin prog_id upgrade_authority)"
| "router_call env admin (new_instruction_upgrade_program env admin prog_id source_buffer_address)"
| "router_call env admin (new_instruction_add_program_id env admin name program_id program_id_type refdb_index)"
| "router_call env admin (new_instruction_remove_program_id env admin name)"
| "router_call env admin (new_instruction_add_fund env admin fund)"
| "router_call env admin (new_instruction_remove_fund env admin fund_name)"
| "router_call env admin (new_instruction_add_vault env admin vault)"
| "router_call env admin (new_instruction_remove_vault env admin vault_name)"
| "router_call env admin (new_instruction_add_pool env admin pool)"
| "router_call env admin (new_instruction_remove_pool env admin pool_name)"
| "router_call env admin (new_instruction_add_farm env admin farm)"
| "router_call env admin (new_instruction_remove_farm env admin farm_name)"
| "router_call env admin (new_instruction_add_token env admin token)"
| "router_call env admin (new_instruction_remove_token env admin token_name)"

lemmas router_defs =
  new_instruction_refdb_write_def new_instruction_refdb_delete_def new_instruction_refdb_init_def
  new_instruction_refdb_drop_def new_instruction_remove_reference_def new_instruction_set_admins_def
  new_instruction_set_program_admins_def new_instruction_set_program_single_authority_def
  new_instruction_upgrade_program_def new_instruction_add_program_id_def new_instruction_remove_program_id_def
  new_instruction_add_fund_def new_instruction_remove_fund_def new_instruction_add_vault_def
  new_instruction_remove_vault_def new_instruction_add_pool_def new_instruction_remove_pool_def
  new_instruction_add_farm_def new_instruction_remove_farm_def new_instruction_add_token_def
  new_instruction_remove_token_def

inductive fund_call :: "ClientEnv \<Rightarrow> pubkey \<Rightarrow> Instruction client \<Rightarrow> bool" for env signer where
  "fund_call env signer (new_instruction_init_fund env signer fund_name step)"
| "fund_call env signer (new_instruction_user_init_fund env signer fund_name token_name)"
| "fund_call env signer (new_instruction_set_fund_admins env signer fund_name admin_signers min_signatures)"
| "fund_call env signer (new_instruction_remove_fund_multisig env signer fund_name)"
| "fund_call env signer (new_instruction_set_fund_assets_tracking_config env signer fund_name config)"
| "fund_call env signer (new_instruction_add_fund_custody env signer fund_name token_name custody_type)"
| "fund_call env signer (new_instruction_remove_fund_custody env signer fund_name token_name custody_type)"
| "fund_call env signer (new_instruction_add_fund_vault env signer fund_name vault_name vault_type)"
| "fund_call env signer (new_instruction_remove_fund_vault env signer fund_name vault_name vault_type)"
| "fund_call env signer (new_instruction_set_fund_deposit_schedule env signer fund_name schedule)"
| "fund_call env signer (new_instruction_disable_deposits_fund env signer fund_name)"
| "fund_call env signer (new_instruction_request_deposit_fund env signer fund_name token_name ui_amount)"
| "fund_call env signer (new_instruction_cancel_deposit_fund env signer fund_name token_name)"
| "fund_call env signer
     (new_instruction_approve_deposit_fund env signer user_address fund_name token_name ui_amount)"
| "fund_call env signer
     (new_instruction_deny_deposit_fund env signer user_address fund_name token_name deny_reason)"
| "fund_call env signer (new_instruction_set_fund_withdrawal_schedule env signer fund_name schedule)"
| "fund_call env signer (new_instruction_disable_withdrawals_fund env signer fund_name)"
| "fund_call env signer (new_instruction_request_withdrawal_fund env signer fund_name token_name ui_amount)"
| "fund_call env signer (new_instruction_cancel_withdrawal_fund env signer fund_name token_name)"
| "fund_call env signer
     (new_instruction_approve_withdrawal_fund env signer user_address fund_name token_name ui_amount)"
| "fund_call env signer
     (new_instruction_deny_withdrawal_fund env signer user_address fund_name token_name deny_reason)"
| "fund_call env signer (new_instruction_lock_assets_fund env signer fund_name token_name ui_amount)"
| "fund_call env signer (new_instruction_unlock_assets_fund env signer fund_name token_name ui_amount)"
| "fund_call env signer (new_instruction_start_liquidation_fund env signer fund_name)"
| "fund_call env signer (new_instruction_stop_liquidation_fund env signer fund_name)"
| "fund_call env signer
     (new_instruction_withdraw_fees_fund env signer fund_name token_name custody_type ui_amount receiver)"
| "fund_call env signer (new_instruction_update_fund_assets_with_custody env signer fund_name custody_id)"
| "fund_call env signer (new_instruction_update_fund_assets_with_vault env signer fund_name vault_id)"

lemmas fund_defs =
  new_instruction_init_fund_def new_instruction_user_init_fund_def new_instruction_set_fund_admins_def
  new_instruction_remove_fund_multisig_def new_instruction_set_fund_assets_tracking_config_def
  new_instruction_add_fund_custody_def new_instruction_remove_fund_custody_def
  new_instruction_add_fund_vault_def new_instruction_remove_fund_vault_def
  new_instruction_set_fund_deposit_schedule_def new_instruction_disable_deposits_fund_def
  new_instruction_request_deposit_fund_def new_instruction_cancel_deposit_fund_def
  new_instruction_approve_deposit_fund_def new_instruction_deny_deposit_fund_def
  new_instruction_set_fund_withdrawal_schedule_def new_instruction_disable_withdrawals_fund_def
  new_instruction_request_withdrawal_fund_def new_instruction_cancel_withdrawal_fund_def
  new_instruction_approve_withdrawal_fund_def new_instruction_deny_withdrawal_fund_def
  new_instruction_lock_assets_fund_def new_instruction_unlock_assets_fund_def
  new_instruction_start_liquidation_fund_def new_instruction_stop_liquidation_fund_def
  new_instruction_withdraw_fees_fund_def new_instruction_update_fund_assets_with_custody_def
  new_instruction_update_fund_assets_with_vault_def

inductive vault_call :: "ClientEnv \<Rightarrow> pubkey \<Rightarrow> Instruction client \<Rightarrow> bool" for env signer where
  "vault_call env signer (new_instruction_user_init_vault env signer vault_name)"
| "vault_call env signer
     (new_instruction_add_liquidity_vault env signer vault_name max_token_a_ui_amount max_token_b_ui_amount)"
| "vault_call env signer (new_instruction_lock_liquidity_vault env signer vault_name ui_amount)"
| "vault_call env signer (new_instruction_unlock_liquidity_vault env signer vault_name ui_amount)"
| "vault_call env signer (new_instruction_remove_liquidity_vault env signer vault_name ui_amount)"
| "vault_call env signer (new_instruction_init_vault env signer vault_name step)"
| "vault_call env signer (new_instruction_shutdown_vault env signer vault_name)"
| "vault_call env signer (new_instruction_withdraw_fees_vault env signer vault_name fee_token ui_amount receiver)"
| "vault_call env signer (new_instruction_crank_vault env signer vault_name step)"
| "vault_call env signer (new_instruction_set_vault_admins env signer vault_name admin_signers min_signatures)"
| "vault_call env signer (new_instruction_remove_vault_multisig env signer vault_name)"
| "vault_call env signer (new_instruction_set_min_crank_interval_vault env signer vault_name min_crank_interval)"
| "vault_call env signer (new_instruction_set_fee_vault env signer vault_name fee_percent)"
| "vault_call env signer (new_instruction_set_external_fee_vault env signer vault_name external_fee_percent)"
| "vault_call env signer (new_instruction_disable_deposits_vault env signer vault_name)"
| "vault_call env signer (new_instruction_enable_deposits_vault env signer vault_name)"
| "vault_call env signer (new_instruction_disable_withdrawals_vault env signer vault_name)"
| "vault_call env signer (new_instruction_enable_withdrawals_vault env signer vault_name)"

lemmas vault_defs =
  new_instruction_user_init_vault_def new_instruction_add_liquidity_vault_def
  new_instruction_lock_liquidity_vault_def new_instruction_unlock_liquidity_vault_def
  new_instruction_remove_liquidity_vault_def new_instruction_init_vault_def new_instruction_shutdown_vault_def
  new_instruction_withdraw_fees_vault_def new_instruction_crank_vault_def new_instruction_set_vault_admins_def
  new_instruction_remove_vault_multisig_def new_instruction_set_min_crank_interval_vault_def
  new_instruction_set_fee_vault_def new_instruction_set_external_fee_vault_def
  new_instruction_disable_deposits_vault_def new_instruction_enable_deposits_vault_def
  new_instruction_disable_withdrawals_vault_def new_instruction_enable_withdrawals_vault_def

inductive pool_call :: "ClientEnv \<Rightarrow> pubkey \<Rightarrow> Instruction client \<Rightarrow> bool" for env wallet where
  "pool_call env wallet
     (new_instruction_add_liquidity_pool env wallet pool_name max_token_a_ui_amount max_token_b_ui_amount)"
| "pool_call env wallet (new_instruction_remove_liquidity_pool env wallet pool_name ui_amount)"
| "pool_call env wallet
     (new_instruction_swap env wallet protocol from_token to_token ui_amount_in min_ui_amount_out)"
| "pool_call env wallet (new_instruction_wrap_token env wallet pool_name token_to_wrap ui_amount)"
| "pool_call env wallet (new_instruction_unwrap_token env wallet pool_name token_to_unwrap ui_amount)"
| "pool_call env wallet (new_instruction_user_init env wallet farm_name)"
| "pool_call env wallet (new_instruction_stake env wallet farm_name ui_amount)"
| "pool_call env wallet (new_instruction_unstake env wallet farm_name ui_amount)"
| "pool_call env wallet (new_instruction_harvest env wallet farm_name)"

lemmas pool_defs =
  new_instruction_add_liquidity_pool_def new_instruction_remove_liquidity_pool_def new_instruction_swap_def
  new_instruction_wrap_token_def new_instruction_unwrap_token_def new_instruction_user_init_def
  new_instruction_stake_def new_instruction_unstake_def new_instruction_harvest_def

inductive fund_pool_call :: "ClientEnv \<Rightarrow> pubkey \<Rightarrow> Instruction client \<Rightarrow> bool" for env admin where
  "fund_pool_call env admin (new_instruction_fund_user_init_farm env admin fund_name farm_name)"
| "fund_pool_call env admin
     (new_instruction_fund_add_liquidity_pool env admin fund_name pool_name max_token_a_ui_amount max_token_b_ui_amount)"
| "fund_pool_call env admin (new_instruction_fund_remove_liquidity_pool env admin fund_name pool_name ui_amount)"
| "fund_pool_call env admin
     (new_instruction_fund_swap env admin fund_name protocol from_token to_token ui_amount_in min_ui_amount_out)"
| "fund_pool_call env admin (new_instruction_fund_stake env admin fund_name farm_name ui_amount)"
| "fund_pool_call env admin (new_instruction_fund_unstake env admin fund_name farm_name ui_amount)"
| "fund_pool_call env admin (new_instruction_fund_harvest env admin fund_name farm_name)"
| "fund_pool_call env admin (new_instruction_fund_user_init_vault env admin fund_name vault_name)"
| "fund_pool_call env admin
     (new_instruction_fund_add_liquidity_vault env admin fund_name vault_name max_token_a_ui_amount max_token_b_ui_amount)"
| "fund_pool_call env admin (new_instruction_fund_lock_liquidity_vault env admin fund_name vault_name ui_amount)"
| "fund_pool_call env admin (new_instruction_fund_unlock_liquidity_vault env admin fund_name vault_name ui_amount)"
| "fund_pool_call env admin (new_instruction_fund_remove_liquidity_vault env admin fund_name vault_name ui_amount)"

lemmas fund_pool_defs =
  new_instruction_fund_user_init_farm_def new_instruction_fund_add_liquidity_pool_def
  new_instruction_fund_remove_liquidity_pool_def new_instruction_fund_swap_def new_instruction_fund_stake_def
  new_instruction_fund_unstake_def new_instruction_fund_harvest_def new_instruction_fund_user_init_vault_def
  new_instruction_fund_add_liquidity_vault_def new_instruction_fund_lock_liquidity_vault_def
  new_instruction_fund_unlock_liquidity_vault_def new_instruction_fund_remove_liquidity_vault_def

section \<open>Who signs\<close>

lemmas vault_account_defs =
  get_stc_user_init_accounts_raydium_def get_stc_add_liquidity_accounts_raydium_def
  get_stc_lock_liquidity_accounts_raydium_def get_stc_unlock_liquidity_accounts_raydium_def
  get_stc_remove_liquidity_accounts_raydium_def get_stc_init_accounts_raydium_def
  get_stc_shutdown_accounts_raydium_def get_stc_crank_accounts_raydium_def get_stc_user_init_accounts_orca_def
  get_stc_add_liquidity_accounts_orca_def get_stc_lock_liquidity_accounts_orca_def
  get_stc_unlock_liquidity_accounts_orca_def get_stc_remove_liquidity_accounts_orca_def
  get_stc_init_accounts_orca_def get_stc_shutdown_accounts_orca_def get_stc_crank_accounts_orca_def

lemma vault_accounts_sole:
  "returns (\<lambda>(accounts, _). sole_signer wallet accounts)
     (get_stc_user_init_accounts_raydium env wallet vault_name)"
  "returns (\<lambda>(accounts, _). sole_signer wallet accounts)
     (get_stc_add_liquidity_accounts_raydium env wallet vault_name max_token_a_ui_amount max_token_b_ui_amount)"
  "returns (\<lambda>(accounts, _). sole_signer wallet accounts)
     (get_stc_lock_liquidity_accounts_raydium env wallet vault_name ui_amount)"
  "returns (\<lambda>(accounts, _). sole_signer wallet accounts)
     (get_stc_unlock_liquidity_accounts_raydium env wallet vault_name ui_amount)"
  "returns (\<lambda>(accounts, _). sole_signer wallet accounts)
     (get_stc_remove_liquidity_accounts_raydium env wallet vault_name ui_amount)"
  "returns (\<lambda>(accounts, _). sole_signer admin accounts)
     (get_stc_init_accounts_raydium env admin vault_name step)"
  "returns (\<lambda>(accounts, _). sole_signer admin accounts)
     (get_stc_shutdown_accounts_raydium env admin vault_name)"
  "returns (\<lambda>(accounts, _). sole_signer wallet accounts)
     (get_stc_crank_accounts_raydium env wallet vault_name step)"
  "returns (\<lambda>(accounts, _). sole_signer wallet accounts)
     (get_stc_user_init_accounts_orca env wallet vault_name)"
  "returns (\<lambda>(accounts, _). sole_signer wallet accounts)
     (get_stc_add_liquidity_accounts_orca env wallet vault_name max_token_a_ui_amount max_token_b_ui_amount)"
  "returns (\<lambda>(accounts, _). sole_signer wallet accounts)
     (get_stc_lock_liquidity_accounts_orca env wallet vault_name ui_amount)"
  "returns (\<lambda>(accounts, _). sole_signer wallet accounts)
     (get_stc_unlock_liquidity_accounts_orca env wallet vault_name ui_amount)"
  "returns (\<lambda>(accounts, _). sole_signer wallet accounts)
     (get_stc_remove_liquidity_accounts_orca env wallet vault_name ui_amount)"
  "returns (\<lambda>(accounts, _). sole_signer admin accounts)
     (get_stc_init_accounts_orca env admin vault_name step)"
  "returns (\<lambda>(accounts, _). sole_signer admin accounts)
     (get_stc_shutdown_accounts_orca env admin vault_name)"
  "returns (\<lambda>(accounts, _). sole_signer wallet accounts)
     (get_stc_crank_accounts_orca env wallet vault_name step)"
  unfolding vault_account_defs
  by (rule returns_intros | rule returns_any | simp)+

lemmas vault_accounts_signed [returns_intros] = vault_accounts_sole [THEN returns_fst]

lemmas pool_account_defs =
  get_add_liquidity_accounts_raydium_def get_remove_liquidity_accounts_raydium_def
  get_swap_accounts_raydium_def get_user_init_accounts_raydium_def get_stake_accounts_raydium_def
  get_unstake_accounts_raydium_def get_harvest_accounts_raydium_def get_add_liquidity_accounts_orca_def
  get_remove_liquidity_accounts_orca_def get_swap_accounts_orca_def get_user_init_accounts_orca_def
  get_stake_accounts_orca_def get_unstake_accounts_orca_def get_harvest_accounts_orca_def

definition sole_signer_or_none :: "pubkey \<Rightarrow> AccountMeta list \<Rightarrow> bool" where
  "sole_signer_or_none w accounts \<longleftrightarrow> accounts = [] \<or> sole_signer w accounts"

lemma pool_accounts_sole:
  "returns (sole_signer_or_none wallet) (get_add_liquidity_accounts_raydium env wallet pool_name)"
  "returns (sole_signer_or_none wallet) (get_remove_liquidity_accounts_raydium env wallet pool_name)"
  "returns (sole_signer_or_none wallet) (get_swap_accounts_raydium env wallet pool_name)"
  "returns (sole_signer_or_none wallet) (get_user_init_accounts_raydium env wallet farm_name)"
  "returns (sole_signer_or_none wallet) (get_stake_accounts_raydium env wallet farm_name)"
  "returns (sole_signer_or_none wallet) (get_unstake_accounts_raydium env wallet farm_name)"
  "returns (sole_signer_or_none wallet) (get_harvest_accounts_raydium env wallet farm_name)"
  "returns (sole_signer_or_none wallet) (get_add_liquidity_accounts_orca env wallet pool_name)"
  "returns (sole_signer_or_none wallet) (get_remove_liquidity_accounts_orca env wallet pool_name)"
  "returns (sole_signer_or_none wallet) (get_swap_accounts_orca env wallet pool_name)"
  "returns (sole_signer_or_none wallet) (get_user_init_accounts_orca env wallet farm_name)"
  "returns (sole_signer_or_none wallet) (get_stake_accounts_orca env wallet farm_name)"
  "returns (sole_signer_or_none wallet) (get_unstake_accounts_orca env wallet farm_name)"
  "returns (sole_signer_or_none wallet) (get_harvest_accounts_orca env wallet farm_name)"
  unfolding pool_account_defs sole_signer_or_none_def
  by (rule returns_intros | rule returns_any | simp)+

lemmas pool_accounts_signed [returns_intros] = pool_accounts_sole [THEN returns_weaken]

text \<open>Every instruction for the router, for funds and for vaults is signed by the caller alone.\<close>

lemma router_call_signed:
  "router_call env admin m \<Longrightarrow> returns (\<lambda>ix. signed admin ix \<and> ins_program_id ix = ce_main_router env) m"
  by (induction rule: router_call.induct; unfold router_defs;
      (rule returns_intros | rule returns_any | simp)+)

lemma fund_call_signed: "fund_call env signer m \<Longrightarrow> returns (signed signer) m"
  by (induction rule: fund_call.induct; unfold fund_defs; (rule returns_intros | rule returns_any | simp)+)

lemma vault_call_signed: "vault_call env signer m \<Longrightarrow> returns (signed signer) m"
  by (induction rule: vault_call.induct; unfold vault_defs; (rule returns_intros | rule returns_any | simp)+)

text \<open>
  The account lists of pools and farms are empty when the metadata of the pool changes its protocol between two
  requests.
\<close>

lemma pool_call_signed: "pool_call env wallet m \<Longrightarrow> returns (\<lambda>ix. sole_signer_or_none wallet (ins_accounts ix)) m"
  by (induction rule: pool_call.induct; unfold pool_defs; (rule returns_intros | rule returns_any | simp)+)

lemmas wrapped_signed [returns_intros] =
  pool_call.intros [THEN pool_call_signed, THEN returns_weaken]
  vault_call.intros [THEN vault_call_signed, THEN returns_weaken]

lemma sole_signer_or_none_tl: "sole_signer_or_none w xs \<Longrightarrow> list_all (\<lambda>b. \<not> meta_is_signer b) (tl xs)"
  using list_all_tl by (auto simp: sole_signer_or_none_def)

lemma build_fund_instruction_signed:
  assumes tl: "list_all (\<lambda>b. \<not> meta_is_signer b) (tl (ins_accounts ix))"
  shows "returns (signed admin) (build_fund_instruction env admin fund_name ix name t)"
    and "returns (signed admin) (build_fund_vault_instruction env admin fund_name ix name)"
  unfolding build_fund_instruction_def build_fund_vault_instruction_def
  by (rule returns_intros | rule returns_any | simp add: tl split: AmmInstruction.split VaultInstruction.split)+

lemmas fund_wrapper_signed [returns_intros] =
  build_fund_instruction_signed [OF sole_signer_or_none_tl]
  build_fund_instruction_signed [OF list_all_tl]

lemma fund_pool_call_signed: "fund_pool_call env admin m \<Longrightarrow> returns (signed admin) m"
  by (induction rule: fund_pool_call.induct; unfold fund_pool_defs;
      (assumption | rule returns_intros | rule returns_any)+)

end
