(* ===== verification/Client_Properties.thy ===== *)
theory Client_Properties
  imports Client_Chain Client_Signers
begin

text \<open>
  The properties of the client: who signs what it builds, how funds wrap instructions, that its caches are
  transparent and that names and versions are read as they are written.
\<close>

section \<open>A concrete environment\<close>

text \<open>A chain with a database of pools in which one pool is registered.\<close>

definition example_pool_record :: Record where
  "example_pool_record = \<lparr> rec_index = None, rec_counter = 0, rec_tag = 0, rec_name = [80],
     rec_reference = RPubkey (example_key 9) \<rparr>"

definition example_pool_db :: bytes where
  "example_pool_db =
     snd (RefDB_write (\<lambda>_. True)
       (snd (RefDB_init (\<lambda>_. True) (replicate (get_storage_size_for_records TPubkey 2) 0) [68] TPubkey))
       example_pool_record)"

definition example_pool_account :: bytes where
  "example_pool_account = (case Pool_to_vec example_pool of Ok data \<Rightarrow> data | _ \<Rightarrow> [])"

definition example_chain :: "pubkey \<Rightarrow> bytes option" where
  "example_chain = [example_key 7 \<mapsto> example_pool_db, example_key 9 \<mapsto> example_pool_account]"

text \<open>The instructions of the Solana crates, with the accounts they document; the data is left out.\<close>

definition example_instruction :: "AccountMeta list \<Rightarrow> Instruction" where
  "example_instruction accounts = \<lparr> ins_program_id = example_key 0, ins_accounts = accounts, ins_data = [] \<rparr>"

definition example_client_env :: ClientEnv where
  "example_client_env =
     \<lparr> ce_now = int,
       ce_get_account_data = (\<lambda>_ key. case example_chain key of Some data \<Rightarrow> Inr data | None \<Rightarrow> Inl ''not found''),
       ce_get_multiple_accounts = (\<lambda>_ keys. Inr (map example_chain keys)),
       ce_utf8 = (\<lambda>_. True), ce_key_to_string = id,
       ce_find_program_address = (\<lambda>_ _. Some (example_key 8, 255)),
       ce_create_with_seed = (\<lambda>_ _ _. Some (example_key 7)),
       ce_get_associated_token_address = (\<lambda>_ _. example_key 6),
       ce_main_router = example_key 1, ce_main_router_admin = example_key 2, ce_main_router_multisig = example_key 3,
       ce_zero = example_key 0, ce_system_program = example_key 0, ce_spl_token = example_key 10,
       ce_spl_associated_token_account = example_key 11, ce_bpf_loader_upgradeable = example_key 12,
       ce_rent = example_key 13, ce_clock = example_key 14, ce_instructions = example_key 15,
       ce_get_program_accounts = (\<lambda>_ _ _ _. Inr []), ce_hasher = id,
       ce_checked_pow = (\<lambda>b n. if n < 20 then Some (b ^ n) else None), ce_f64_to_string = (\<lambda>_. []),
       ce_get_account = (\<lambda>_ _. Inl ''not found''), ce_get_balance = (\<lambda>_ _. Inr 0),
       ce_get_token_account_balance = (\<lambda>_ _. Inl ''not found''),
       ce_get_minimum_balance = (\<lambda>_ _. Inr 890880), ce_get_fee_for_message = (\<lambda>_ _. Inr 5000),
       ce_get_token_supply = (\<lambda>_ _. Inl ''not found''), ce_get_token_accounts_by_owner = (\<lambda>_ _. Inr []),
       ce_get_slot = (\<lambda>_. Inr 1), ce_get_latest_blockhash = (\<lambda>_. Inr [1]), ce_is_blockhash_valid = (\<lambda>_ _. Inr True),
       ce_send_and_confirm = (\<lambda>_ tx. Inr (tx_blockhash tx)), ce_sign = (\<lambda>tx. Some (tx_blockhash tx)),
       ce_transaction_size = (\<lambda>ixs _. Some (700 * length ixs)), ce_parse_token = (\<lambda>_ _. Inl ''no token''),
       ce_pubkey_from_str = Some, ce_native_decimals = 9,
       ce_transfer = (\<lambda>from to _. example_instruction [meta_new from True, meta_new to False]),
       ce_create_account = (\<lambda>from to _ _ _. example_instruction [meta_new from True, meta_new to True]),
       ce_create_account_with_seed = (\<lambda>from to base _ _ _ _. example_instruction
         ([meta_new from True, meta_new to False] @ (if base = from then [] else [meta_new_readonly base True]))),
       ce_assign = (\<lambda>key _. example_instruction [meta_new key True]),
       ce_create_associated_token_account = (\<lambda>payer wallet mint. example_instruction
         [meta_new payer True, meta_new (example_key 6) False, meta_new_readonly wallet False, meta_new_readonly mint False]),
       ce_token_transfer = (\<lambda>_ from to owner _ _. Ok (example_instruction
         [meta_new from False, meta_new to False, meta_new_readonly owner True])),
       ce_token_sync_native = (\<lambda>_ account. Ok (example_instruction [meta_new account False])),
       ce_token_close_account = (\<lambda>_ account dest owner _. Ok (example_instruction
         [meta_new account False, meta_new dest False, meta_new_readonly owner True])) \<rparr>"

lemma example_keys_distinct: "example_key 7 \<noteq> example_key 9"
  by (simp add: example_key_def replicate_eq_replicate)

lemma example_chain_at [simp]:
  "example_chain (example_key 7) = Some example_pool_db"
  "example_chain (example_key 9) = Some example_pool_account"
  using example_keys_distinct by (simp_all add: example_chain_def)

lemma example_frozen: "frozen example_client_env example_chain"
  by (auto simp: frozen_def example_client_env_def split: option.split)

lemma unpack_any_name: "length xs \<le> 64 \<Longrightarrow> \<exists>nm. unpack_array_string64 (\<lambda>_. True) xs = Ok nm"
  by (auto simp: unpack_array_string64_def try_from_utf8_def ok_or_def split: option.split)

lemma example_pool_db_facts:
  "refdb_inv (\<lambda>_. True) TPubkey example_pool_db"
  "refdb_map TPubkey example_pool_db = [[80] \<mapsto> \<lparr> ent_counter = 1, ent_tag = 0, ent_reference = RPubkey (example_key 9) \<rparr>]"
  "\<exists>nm. RefDB_get_name (\<lambda>_. True) example_pool_db = Ok nm"
proof -
  let ?init = "RefDB_init (\<lambda>_. True) (replicate (get_storage_size_for_records TPubkey 2) 0) [68] TPubkey"
  have "packable_name (\<lambda>_. True) [68]" by (simp add: packable_name_def)
  from init_step [of 2 "\<lambda>_. True", OF _ _ this, of TPubkey] obtain db where
    db: "?init = (Ok (), db)" "refdb_inv (\<lambda>_. True) TPubkey db" "refdb_map TPubkey db = Map.empty" "total_slots TPubkey db = 2"
    by auto
  have "packable_name (\<lambda>_. True) [80]" "wf_reference (rec_reference example_pool_record)"
    "rec_index example_pool_record = None" "rec_name example_pool_record = [80]"
    by (simp_all add: packable_name_def example_pool_record_def example_key_def)
  from write_refines [OF db(2), of example_pool_record] this
  show inv: "refdb_inv (\<lambda>_. True) TPubkey example_pool_db"
    and "refdb_map TPubkey example_pool_db =
       [[80] \<mapsto> \<lparr> ent_counter = 1, ent_tag = 0, ent_reference = RPubkey (example_key 9) \<rparr>]"
    by (auto simp: spec_write_def db spec_put_def spec_counter_def next_record_counter_def example_pool_db_def
        example_pool_record_def)
  then show "\<exists>nm. RefDB_get_name (\<lambda>_. True) example_pool_db = Ok nm"
    using refdb_invD(2) [OF inv] unpack_any_name [of "slice 9 64 example_pool_db"]
    by (simp add: RefDB_get_name_def check_data_len_def array_ref_def Header_LEN_def NAME_OFFSET_def)
qed

section \<open>Lookups\<close>

text \<open>
  C10: A pool is looked up correctly after any history of lookups. While the chain does not change, let a new client make
  any calls that look up funds, vaults, pools, farms and tokens by name or by address, list them, or forget the
  cache. Then \<open>get_pool\<close> answers with a pool exactly when the reference database holds its name, taken to the latest
  version first, and the account at the address decodes to that pool: what the calls have cached and its age do not
  matter. Conditions: the database of pools can be read, the versions of its names can be told without a panic, and
  its counter is not zero, as C11 shows for every database in use. If the history lists all pools (\<open>get_pools\<close>, which
  files a pool under the name in its account), every pool account must carry the name under which it is registered.
\<close>

theorem pool_lookup_correct:
  assumes "frozen env chain"
    and "get_refdb_pubkey_map env (storage_name SPool) (FarmClient_default env) = (COk (header, refs), s0)"
    and "hdr_counter header \<noteq> 0" and "reinsert_latest_versions refs [] = COk latest"
    and "listed \<longrightarrow> carry_names env chain pool_kind refs"
    and "lookups env listed s" and "get_pool env name s = (r, s')"
  shows "r = COk pool \<longleftrightarrow>
    (\<exists>key data. map_of refs (full_name latest name) = Some key \<and> chain key = Some data \<and>
       Pool_unpack (ce_utf8 env) data = Ok pool)"
proof -
  have dir: "directory env chain pool_kind = Some (header, refs)"
    using directory_read [OF assms(1), where kd = pool_kind, unfolded pool_kind_sel, OF assms(2)] .
  have "coherent env chain pool_kind header refs latest s"
    using coherent_lookups [OF assms(1) dir assms(4,3,5,6)] .
  moreover have "latest_names pool_kind refs = COk latest" using assms(4) by (simp add: latest_names_def pool_kind_def)
  ultimately have "r = COk pool \<longleftrightarrow> stored env chain pool_kind refs (full_name latest name) = Some pool"
    using pools.get_object_memo [OF assms(1) dir _ assms(3)] assms(7) by (simp add: get_pool_def)
  then show ?thesis by (auto simp: stored_def pool_kind_def split: option.splits result.splits)
qed

lemma example_pda:
  "find_refdb_pda example_client_env n = COk (example_key 7)" "ce_utf8 example_client_env = (\<lambda>_. True)"
  by (simp_all add: find_refdb_pda_def REFDB_ONCHAIN_INIT_def example_client_env_def)

lemma latest_loop_unversioned:
  "\<forall>n\<in>fst ` set refs. \<exists>e. extract_pool_name_and_version n = CErr e \<Longrightarrow> latest_loop refs acc = COk acc"
  by (induction refs) auto

lemma example_directory:
  "\<exists>header refs. directory example_client_env example_chain pool_kind = Some (header, refs) \<and>
     hdr_counter header \<noteq> 0 \<and> map_of refs = [[80] \<mapsto> example_key 9] \<and> reinsert_latest_versions refs [] = COk []"
proof -
  obtain nm where "RefDB_get_name (\<lambda>_. True) example_pool_db = Ok nm" using example_pool_db_facts(3) by blast
  then obtain header refs s' where read:
      "get_refdb_pubkey_map example_client_env (storage_name SPool) (FarmClient_default example_client_env) = (COk (header, refs), s')"
    and d: "hdr_counter header \<noteq> 0" "\<And>n key. map_of refs n = Some key \<longleftrightarrow>
       (\<exists>e. refdb_map TPubkey example_pool_db n = Some e \<and> ent_reference e = RPubkey key)"
    using refdb_read_by_client [OF example_frozen example_pda(1) example_chain_at(1), unfolded example_pda(2),
        OF example_pool_db_facts(1), of nm] by blast
  then have dir: "directory example_client_env example_chain pool_kind = Some (header, refs)"
    using directory_read [OF example_frozen, where kd = pool_kind, unfolded pool_kind_sel] by blast
  have "map_of refs n = Some key \<longleftrightarrow> n = [80] \<and> key = example_key 9" for n key
    using d(2) [of n key] by (auto simp: example_pool_db_facts(2))
  then have "map_of refs n = [[80] \<mapsto> example_key 9] n" for n
    by (metis (no_types) fun_upd_apply not_None_eq)
  then have m: "map_of refs = [[80] \<mapsto> example_key 9]" by blast
  then have "fst ` set refs = {[80]}" by (metis dom_fun_upd dom_empty dom_map_of_conv_image_fst option.distinct(1))
  then have "latest_loop refs [] = COk []"
    by (intro latest_loop_unversioned)
      (simp add: extract_pool_name_and_version_def is_liquidity_token_def)
  then show ?thesis using d(1) dir m by (simp add: reinsert_latest_versions_def)
qed

lemma example_pool_decodes: "Pool_unpack (\<lambda>_. True) example_pool_account = Ok example_pool"
proof -
  have v: "Pool_valid (\<lambda>_. True) example_pool" by (rule examples_valid)
  then have "Pool_to_vec example_pool = Ok (Pool_enc example_pool)"
    by (simp add: to_vec_defs pool.to_vec_enc [of "\<lambda>_. True"] get_size_max length_Pool_enc [of "\<lambda>_. True"])
  then show ?thesis using pool.unpack_enc [OF v, of "[]"] by (simp add: example_pool_account_def)
qed

theorem pool_lookup_correct_witness:
  "\<exists>s'. get_pool example_client_env [80]
     (snd (get_pools example_client_env (FarmClient_default example_client_env))) = (COk example_pool, s')"
proof -
  obtain header refs where d: "directory example_client_env example_chain pool_kind = Some (header, refs)"
    "hdr_counter header \<noteq> 0" "map_of refs = [[80] \<mapsto> example_key 9]" "reinsert_latest_versions refs [] = COk []"
    using example_directory by blast
  have db: "get_refdb_pubkey_map example_client_env (storage_name SPool) (FarmClient_default example_client_env) =
      (COk (header, refs), (FarmClient_default example_client_env)\<lparr> fc_io := fc_io (FarmClient_default example_client_env) + 1 \<rparr>)"
    using get_refdb_pubkey_map_frozen [OF example_frozen d(1)] by (simp only: pool_kind_sel)
  let ?s = "snd (get_pools example_client_env (FarmClient_default example_client_env))"
  have "lookups example_client_env True ?s"
    by (rule lookups.pool [OF lookups.start kind_lookup.listing]) (simp_all add: get_pools_def prod_eq_iff)
  moreover have "carry_names example_client_env example_chain pool_kind refs"
  proof -
    have at: "name = [80] \<and> key = example_key 9" if "(name, key) \<in> set refs" for name key
    proof -
      have "map_of refs name = Some key" using that directory_distinct [OF d(1)] by simp
      then show ?thesis using d(3) by (simp split: if_splits)
    qed
    have "pl_name x = [80]" if "example_chain (example_key 9) = Some data" "Pool_unpack (\<lambda>_. True) data = Ok x" for data x
      using that example_pool_decodes by (auto simp: example_pool_def)
    then show ?thesis unfolding carry_names_def pool_kind_sel example_pda(2) using at by blast
  qed
  moreover obtain r s' where "get_pool example_client_env [80] ?s = (r, s')" by fastforce
  moreover have "map_of refs (full_name [] [80]) = Some (example_key 9)" using d(3) by (simp add: full_name_def)
  ultimately have "r = COk example_pool"
    using pool_lookup_correct [OF example_frozen db d(2,4)] example_pool_decodes example_pda(2) example_chain_at(2) by metis
  then show ?thesis using \<open>get_pool example_client_env [80] ?s = (r, s')\<close> by blast
qed

text \<open>
  C11: The directory the client reads is the map of names to keys that the operations of the reference database
  maintain. On a chain that does not change, \<open>get_refdb_pubkey_map\<close> reads the bytes of any database of addresses that
  satisfies its invariant, and whose own name in the header is UTF-8, with one request and without an error; the
  header has a counter other than zero, and the result lists exactly the names with an address.
\<close>

theorem client_directory_refines:
  assumes "frozen env chain" and "find_refdb_pda env refdb_name = COk refdb" and "chain refdb = Some data"
    and "refdb_inv (ce_utf8 env) TPubkey data" and "RefDB_get_name (ce_utf8 env) data = Ok nm"
  shows "\<exists>header refs. get_refdb_pubkey_map env refdb_name s = (COk (header, refs), s\<lparr> fc_io := fc_io s + 1 \<rparr>) \<and>
    hdr_counter header \<noteq> 0 \<and> distinct (map fst refs) \<and>
    (\<forall>n key. (n, key) \<in> set refs \<longleftrightarrow>
       (\<exists>e. refdb_map TPubkey data n = Some e \<and> ent_reference e = RPubkey key))"
proof -
  have member: "(n, key) \<in> set refs \<longleftrightarrow> map_of refs n = Some key" if "distinct (map fst refs)" for refs :: "(bytes \<times> pubkey) list" and n key
    using that by simp
  obtain header refs where "get_refdb_pubkey_map env refdb_name s = (COk (header, refs), s\<lparr> fc_io := fc_io s + 1 \<rparr>) \<and>
      hdr_counter header \<noteq> 0 \<and> distinct (map fst refs) \<and>
      (\<forall>n key. map_of refs n = Some key \<longleftrightarrow> (\<exists>e. refdb_map TPubkey data n = Some e \<and> ent_reference e = RPubkey key))"
    using refdb_read_by_client [OF assms, of s] by (elim exE)
  note r = this [THEN conjunct1] this [THEN conjunct2, THEN conjunct1]
    this [THEN conjunct2, THEN conjunct2, THEN conjunct1] this [THEN conjunct2, THEN conjunct2, THEN conjunct2]
  show ?thesis
    by (intro exI [of _ header] exI [of _ refs] conjI r(1-3) allI)
      (simp only: member [OF r(3)] r(4) [rule_format])
qed

theorem client_directory_refines_witness:
  "\<exists>header refs s'. get_refdb_pubkey_map example_client_env [84] (FarmClient_default example_client_env) =
       (COk (header, refs), s') \<and> ([80], example_key 9) \<in> set refs"
proof -
  obtain nm where "RefDB_get_name (\<lambda>_. True) example_pool_db = Ok nm" using example_pool_db_facts(3) by blast
  then show ?thesis
    using client_directory_refines [of example_client_env example_chain "[84]" "example_key 7" example_pool_db nm]
      example_pool_db_facts(1) example_pda example_frozen
    by (fastforce simp: example_pool_db_facts(2))
qed

text \<open>
  C14: A name without version leads to the highest version: if the database holds a versioned name of a base, the
  base resolves to a name of the database with this base and a version that is at least as high.
\<close>

theorem latest_version_found:
  assumes "reinsert_latest_versions refs [] = COk latest" and "(full, key) \<in> set refs"
    and "extract_pool_name_and_version full = COk (base, v)"
  shows "\<exists>v'. full_name latest base \<in> fst ` set refs \<and>
    extract_pool_name_and_version (full_name latest base) = COk (base, v') \<and> v \<le> v'"
proof -
  obtain xs where xs: "latest_inv (fst ` set refs) xs" "map_of latest = map_option fst \<circ> map_of xs"
    using reinsert_latest_inv [OF assms(1)] by blast
  then obtain full' v' where x: "map_of xs base = Some (full', v')" "v \<le> v'"
    using assms(2,3) unfolding latest_inv_def by (metis fst_conv image_eqI)
  then have "full_name latest base = full'" using xs(2) by (simp add: full_name_def)
  then show ?thesis using xs(1) x unfolding latest_inv_def by blast
qed

theorem latest_version_found_witness:
  "\<exists>latest v'. reinsert_latest_versions
       [(utf8_of ''RDM.A-B-V3'', example_key 1), (utf8_of ''RDM.A-B-V4'', example_key 2)] [] = COk latest \<and>
     extract_pool_name_and_version (full_name latest (utf8_of ''RDM.A-B'')) = COk (utf8_of ''RDM.A-B'', v') \<and> 4 \<le> v'"
proof -
  let ?refs = "[(utf8_of ''RDM.A-B-V3'', example_key 1), (utf8_of ''RDM.A-B-V4'', example_key 2)]"
  note eval = extract_pool_name_and_version_def is_liquidity_token_def extract_pool_version_def str_slice_def
    is_char_boundary_def utf8_of_def ascii_upper_def parse_digit_def
  have "\<exists>latest. reinsert_latest_versions ?refs [] = COk latest"
    by (simp add: reinsert_latest_versions_def eval)
  then obtain latest where "reinsert_latest_versions ?refs [] = COk latest" by blast
  moreover have "extract_pool_name_and_version (utf8_of ''RDM.A-B-V4'') = COk (utf8_of ''RDM.A-B'', 4)"
    by (simp add: eval)
  ultimately show ?thesis
    using latest_version_found [of ?refs latest "utf8_of ''RDM.A-B-V4''" "example_key 2" "utf8_of ''RDM.A-B''" 4] by auto
qed

text \<open>
  A name with a version is taken apart into what it was put together from: any base followed by \<open>-V\<close> and a
  digit, of a pool, farm or vault as of a liquidity token, whose prefix is left out.
\<close>

theorem name_version_round_trip:
  assumes "d \<le> 9" and "base \<noteq> []"
    and "is_liquidity_token (base @ [0x2D, 0x56, 0x30 + d]) = COk liquidity"
    and "liquidity \<longrightarrow> 3 < length base"
  shows "extract_pool_name_and_version (base @ [0x2D, 0x56, 0x30 + d]) =
    COk (if liquidity then drop 3 base else base, ucast d)"
proof -
  let ?name = "base @ [0x2D, 0x56, 0x30 + d]"
  have "is_char_boundary ?name (length base)" by (simp add: is_char_boundary_def nth_append)
  moreover have "is_char_boundary ?name 3" if liquidity
    using assms(3) that by (auto simp: is_liquidity_token_def str_slice_def split: if_splits)
  ultimately show ?thesis
    using assms extract_version_of [OF assms(1,2)]
    by (auto simp: extract_pool_name_and_version_def str_slice_def is_char_boundary_def [of _ 0])
qed

theorem name_version_round_trip_witness:
  "extract_pool_name_and_version (utf8_of ''LP.RDM.RAY-SRM-V4'') = COk (utf8_of ''RDM.RAY-SRM'', 4)"
  using name_version_round_trip [of 4 "utf8_of ''LP.RDM.RAY-SRM''" True]
  by (simp add: is_liquidity_token_def str_slice_def is_char_boundary_def utf8_of_def)

section \<open>Instructions\<close>

text \<open>
  C13: Every instruction the client builds for the router, for a fund or for a vault, by itself or on behalf of the
  authority of a fund, asks for one signature, that of the wallet given by the caller; instructions of the router
  are addressed to the router. This holds for all states of the caches and all answers of the node.
\<close>

theorem client_sole_signer:
  assumes "router_call env wallet m \<or> fund_call env wallet m \<or> vault_call env wallet m \<or> fund_pool_call env wallet m"
    and "m s = (COk ix, s')"
  shows "signers ix = [wallet] \<and> (router_call env wallet m \<longrightarrow> ins_program_id ix = ce_main_router env)"
proof -
  have result: "returns P m \<Longrightarrow> P ix" for P using assms(2) by (auto dest: returnsD)
  show ?thesis
    using assms(1) result [OF router_call_signed] result [OF fund_call_signed] result [OF vault_call_signed]
      result [OF fund_pool_call_signed] signers_sole
    by blast
qed

theorem client_sole_signer_witness:
  "\<exists>ix s'. new_instruction_set_admins example_client_env (example_key 2) [example_key 4, example_key 5] 1
       (FarmClient_default example_client_env) = (COk ix, s') \<and>
     signers ix = [example_key 2]"
proof -
  obtain data where "MainInstruction_to_vec (MainI_SetAdminSigners 1) = Ok data"
    using main_instruction.to_vec_decodes [of "\<lambda>_. True" "MainI_SetAdminSigners 1"] main_enc_max [of "\<lambda>_. True" "MainI_SetAdminSigners 1"]
    by (force simp: to_vec_defs)
  then have "\<exists>ix s'. new_instruction_set_admins example_client_env (example_key 2) [example_key 4, example_key 5] 1
       (FarmClient_default example_client_env) = (COk ix, s')"
    by (simp add: new_instruction_set_admins_def client_simps MAX_SIGNERS_def)
  then show ?thesis using client_sole_signer router_call.intros(6) by blast
qed

lemma fund_to_vec_decodes:
  assumes "FundInstruction_valid utf8 x" and "FundInstruction_to_vec x = Ok data"
  shows "FundInstruction_unpack utf8 data = Ok x"
  using assms(2) fund_instruction.to_vec_enc [OF assms(1) fund_enc_max [OF assms(1)]]
    fund_instruction.unpack_enc [OF assms(1), of "[]"]
  by (simp add: to_vec_defs)

lemma returns_mprog: "(\<And>x. r = Ok x \<Longrightarrow> P x) \<Longrightarrow> returns P (mprog r)"
  by (cases r) (auto simp: returns_def mprog_def mlift_def)

lemma returns_mlift: "(\<And>x. r = COk x \<Longrightarrow> P x) \<Longrightarrow> returns P (mlift r)"
  by (auto simp: returns_def mlift_def)

definition wraps :: "ClientEnv \<Rightarrow> pubkey \<Rightarrow> Protocol \<Rightarrow> Instruction \<Rightarrow> Instruction \<Rightarrow> bool" where
  "wraps env admin protocol ix fund_ix \<longleftrightarrow>
     (\<exists>i fund_i. AmmInstruction_unpack (ins_data ix) = Ok i \<and>
        FundInstruction_unpack (ce_utf8 env) (ins_data fund_ix) = Ok fund_i \<and>
        (protocol = Raydium \<and> fund_i = FundI_AmmInstructionRaydium i \<or>
         protocol = Orca \<and> fund_i = FundI_AmmInstructionOrca i)) \<and>
     (\<exists>pre post. ins_accounts fund_ix = pre @ tl (ins_accounts ix) @ post) \<and> signers fund_ix = [admin]"

text \<open>
  C12: A fund wraps an instruction for a pool or a farm without changing it: the instruction data of the
  result decodes to the very instruction that was wrapped, with the protocol its name says, its accounts follow
  in their order except for the first, the authority of the fund, and only the administrator signs.
\<close>

theorem fund_wraps_instruction:
  assumes "sole_signer authority (ins_accounts ix)" and "get_protocol name = COk protocol"
    and "build_fund_instruction env admin fund_name ix name vault_type s = (COk fund_ix, s')"
  shows "wraps env admin protocol ix fund_ix"
proof -
  have tl: "list_all (\<lambda>b. \<not> meta_is_signer b) (tl (ins_accounts ix))" using list_all_tl [OF assms(1)] .
  have built: "wraps env admin protocol ix \<lparr> ins_program_id = p, ins_accounts = pre @ tl (ins_accounts ix) @ post, ins_data = data \<rparr>"
    if "AmmInstruction_unpack (ins_data ix) = Ok i" "FundInstruction_to_vec fund_i = Ok data"
      "protocol = Raydium \<and> fund_i = FundI_AmmInstructionRaydium i \<or> protocol = Orca \<and> fund_i = FundI_AmmInstructionOrca i"
      "sole_signer admin pre" "list_all (\<lambda>b. \<not> meta_is_signer b) post" for p pre post data i fund_i
  proof -
    have "FundInstruction_unpack (ce_utf8 env) data = Ok fund_i"
      using that(2,3) by (intro fund_to_vec_decodes) auto
    moreover have "signed admin \<lparr> ins_program_id = p, ins_accounts = pre @ tl (ins_accounts ix) @ post, ins_data = data \<rparr>"
      using that(4,5) tl by simp
    ultimately show ?thesis using that(1,3) signers_sole unfolding wraps_def by fastforce
  qed
  have "returns (wraps env admin protocol ix) (build_fund_instruction env admin fund_name ix name vault_type)"
    unfolding build_fund_instruction_def assms(2)
    by (rule returns_mlift returns_mprog returns_intros | rule returns_any |
        (rule built, assumption, assumption; simp split: AmmInstruction.split))+
  then show ?thesis using assms(3) by (rule returnsD)
qed

text \<open>A client that has loaded one fund.\<close>

definition example_client :: "nat \<Rightarrow> FarmClient" where
  "example_client n = (FarmClient_default example_client_env)
     \<lparr> fc_funds := \<lparr> c_data = [([70], example_fund)], c_last_load = 0, c_counter = 1 \<rparr>,
       fc_fund_refs := \<lparr> c_data = [([70], example_key 9)], c_last_load = 0, c_counter = 1 \<rparr>, fc_io := n \<rparr>"

lemma example_client_lookup:
  assumes "n < 1000"
  shows "get_fund example_client_env [70] (example_client n) = (COk example_fund, example_client (n + 1))"
    and "get_fund_ref example_client_env [70] (example_client n) = (COk (example_key 9), example_client (n + 1))"
  using assms
  by (simp_all add: get_fund_def get_fund_ref_def get_object_def get_object_ref_def fetch_object_def
      reload_refs_if_stale_def Cache_is_stale_def client_simps fund_kind_def example_client_def resolve_def
      RELOAD_INTERVAL_def example_client_env_def [THEN arg_cong [where f = ce_now]])

theorem fund_wraps_instruction_witness:
  "\<exists>ix fund_ix s'. build_fund_instruction example_client_env (example_key 2) [70] ix (utf8_of ''RDM.A'') FundVaultType_Pool
       (example_client 0) = (COk fund_ix, s') \<and>
     wraps example_client_env (example_key 2) Raydium ix fund_ix"
proof -
  let ?ix = "\<lparr> ins_program_id = example_key 3, ins_accounts = [meta_new_readonly (example_key 5) True],
               ins_data = AmmInstruction_enc AmmI_Harvest \<rparr>"
  have i: "AmmInstruction_unpack (ins_data ?ix) = Ok AmmI_Harvest"
    using amm_instruction.unpack_enc [of AmmI_Harvest "[]"] by simp
  obtain data where d: "FundInstruction_to_vec (FundI_AmmInstructionRaydium AmmI_Harvest) = Ok data"
    using fund_instruction.to_vec_enc [OF _ fund_enc_max] by (force simp: to_vec_defs)
  have p: "get_protocol (utf8_of ''RDM.A'') = COk Raydium" by (simp add: get_protocol_def utf8_of_def)
  have "\<exists>fund_ix s'. build_fund_instruction example_client_env (example_key 2) [70] ?ix (utf8_of ''RDM.A'') FundVaultType_Pool
      (example_client 0) = (COk fund_ix, s')"
    using i d p
    by (simp add: build_fund_instruction_def get_fund_vault_account_def client_simps example_client_lookup
        program_address_def find_program_address_def example_client_env_def [THEN arg_cong [where f = ce_find_program_address]])
  then show ?thesis
    using fund_wraps_instruction [of "example_key 5" ?ix "utf8_of ''RDM.A''" Raydium] p by fastforce
qed

section \<open>Errors\<close>

text \<open>
  \<open>reset_cache\<close> clears the table of the latest farms but neither the farms nor their addresses. Until these are
  stale, which takes six hours, a farm is no longer found under a name without version.
\<close>

theorem reset_loses_latest_farms:
  assumes "reset_cache env s = (r, s')" and "c_data (fc_farm_refs s) \<noteq> []"
    and "\<And>i. ce_now env i - c_last_load (fc_farm_refs s) < RELOAD_INTERVAL"
    and "map_of (c_data (fc_farm_refs s)) name = None" and "map_of (c_data (fc_farms s)) name = None"
  shows "\<exists>what. fst (get_farm env name s') = CErr (RecordNotFound what)"
proof -
  have s': "fc_farms s' = fc_farms s" "fc_farm_refs s' = fc_farm_refs s" "fc_latest_farms s' = []"
    using assms(1) by (auto simp: reset_cache_def client_simps)
  have "reload_refs_if_stale env farm_kind False s' = (COk False, s'\<lparr> fc_io := fc_io s' + 1 \<rparr>)"
    using s' assms(2,3)
    by (simp add: reload_refs_if_stale_def Cache_is_stale_def client_simps farm_kind_def not_le [symmetric])
  moreover have "\<exists>what. fst (fetch_object env farm_kind name t) = CErr (RecordNotFound what)"
    if "fc_farms t = fc_farms s" "fc_farm_refs t = fc_farm_refs s" "fc_latest_farms t = []" for t
    using that assms(4,5) by (simp add: fetch_object_def client_simps farm_kind_def resolve_def not_found_def)
  ultimately show ?thesis using s' by (simp add: get_farm_def get_object_def mbind_def)
qed

text \<open>A client that has loaded one farm, with the clock standing still.\<close>

definition example_env0 :: ClientEnv where
  "example_env0 = example_client_env\<lparr> ce_now := \<lambda>_. 0 \<rparr>"

definition example_farm_client :: FarmClient where
  "example_farm_client = (FarmClient_default example_env0)
     \<lparr> fc_farms := \<lparr> c_data = [([70, 49], example_farm)], c_last_load = 0, c_counter = 1 \<rparr>,
       fc_farm_refs := \<lparr> c_data = [([70, 49], example_key 9)], c_last_load = 0, c_counter = 1 \<rparr>,
       fc_latest_farms := [([70], [70, 49])] \<rparr>"

theorem reset_loses_latest_farms_witness:
  "fst (get_farm example_env0 [70] example_farm_client) = COk example_farm \<and>
   (\<exists>s' what. reset_cache example_env0 example_farm_client = (COk (), s') \<and>
      fst (get_farm example_env0 [70] s') = CErr (RecordNotFound what))"
proof
  show "fst (get_farm example_env0 [70] example_farm_client) = COk example_farm"
    by (simp add: get_farm_def get_object_def reload_refs_if_stale_def Cache_is_stale_def client_simps farm_kind_def
        fetch_object_def resolve_def example_farm_client_def example_env0_def RELOAD_INTERVAL_def)
  obtain s' where r: "reset_cache example_env0 example_farm_client = (COk (), s')"
    by (simp add: reset_cache_def client_simps)
  have "\<exists>what. fst (get_farm example_env0 [70] s') = CErr (RecordNotFound what)"
    using reset_loses_latest_farms [OF r, of "[70]"]
    by (simp add: example_farm_client_def example_env0_def RELOAD_INTERVAL_def)
  with r show "\<exists>s' what. reset_cache example_env0 example_farm_client = (COk (), s') \<and>
      fst (get_farm example_env0 [70] s') = CErr (RecordNotFound what)" by blast
qed

section \<open>Loading everything\<close>

definition object_at :: "ClientEnv \<Rightarrow> (pubkey \<Rightarrow> bytes option) \<Rightarrow> 'a Kind \<Rightarrow> pubkey \<Rightarrow> 'a option" where
  "object_at env chain kd key =
     (case chain key of
        Some data \<Rightarrow> (case kd_unpack kd (ce_utf8 env) data of Ok x \<Rightarrow> Some x | _ \<Rightarrow> None)
      | None \<Rightarrow> None)"

lemma load_accounts_all:
  "\<forall>k\<in>set ks. object_at env chain kd k \<noteq> None \<Longrightarrow>
    load_accounts env kd (zip (map chain ks) ks) acc =
      COk (foldl (\<lambda>m k. let x = the (object_at env chain kd k) in AList.update (kd_name kd x) x m) acc ks)"
  by (induction ks arbitrary: acc)
    (auto simp: object_at_def Let_def split: option.splits result.splits)

lemma load_groups_all:
  assumes "frozen env chain"
  shows "\<forall>k\<in>set ks. object_at env chain kd k \<noteq> None \<Longrightarrow>
    load_groups env kd ks acc s =
      (COk (foldl (\<lambda>m k. let x = the (object_at env chain kd k) in AList.update (kd_name kd x) x m) acc ks),
       s\<lparr> fc_io := fc_io s + (length ks + 99) div 100 \<rparr>)"
proof (induction "length ks" arbitrary: ks acc s rule: less_induct)
  case less
  show ?case
  proof (cases "ks = []")
    case True
    then show ?thesis by (simp add: load_groups.simps mret_def)
  next
    case False
    have here: "\<forall>k\<in>set (take 100 ks). object_at env chain kd k \<noteq> None" and rest: "\<forall>k\<in>set (drop 100 ks). object_at env chain kd k \<noteq> None"
      using less.prems by (auto dest: in_set_takeD in_set_dropD)
    have node: "rpc_get_multiple_accounts env (take 100 ks) s =
        (COk (map chain (take 100 ks)), s\<lparr> fc_io := fc_io s + 1 \<rparr>)"
      using assms by (simp add: rpc_get_multiple_accounts_def frozen_def of_rpc_def)
    let ?upd = "\<lambda>m k. let x = the (object_at env chain kd k) in AList.update (kd_name kd x) x m"
    have count: "1 + (length (drop 100 ks) + 99) div 100 = (length ks + 99) div 100"
      using False by (cases "100 \<le> length ks") (auto simp: div_if)
    have "load_groups env kd ks acc s = load_groups env kd (drop 100 ks) (foldl ?upd acc (take 100 ks)) (s\<lparr> fc_io := fc_io s + 1 \<rparr>)"
      using False here node by (subst load_groups.simps) (simp add: client_simps load_accounts_all)
    also have "\<dots> = (COk (foldl ?upd (foldl ?upd acc (take 100 ks)) (drop 100 ks)),
        s\<lparr> fc_io := fc_io s + (length ks + 99) div 100 \<rparr>)"
      using less.hyps [of "drop 100 ks"] rest False count by (simp add: add.assoc)
    also have "foldl ?upd (foldl ?upd acc (take 100 ks)) (drop 100 ks) = foldl ?upd acc ks"
      by (metis append_take_drop_id foldl_append)
    finally show ?thesis .
  qed
qed

lemma map_of_loaded:
  assumes "distinct (map fst refs)"
    and "\<forall>(n, k)\<in>set refs. \<exists>x. object_at env chain kd k = Some x \<and> kd_name kd x = n"
  shows "map_of (foldl (\<lambda>m k. let x = the (object_at env chain kd k) in AList.update (kd_name kd x) x m) acc (map snd refs)) n =
    (case map_of refs n of Some k \<Rightarrow> object_at env chain kd k | None \<Rightarrow> map_of acc n)"
  using assms
proof (induction refs arbitrary: acc)
  case (Cons p refs)
  obtain n0 k0 where p: "p = (n0, k0)" by (cases p)
  with Cons.prems obtain x0 where x0: "object_at env chain kd k0 = Some x0" "kd_name kd x0 = n0" by auto
  have "map_of refs n0 = None" using Cons.prems(1) p by (simp add: map_of_eq_None_iff)
  then show ?case using Cons p x0 by (simp add: update_conv' split: option.split)
qed simp

text \<open>
  All objects of a kind are loaded in groups of a hundred: for \<open>n\<close> registered names the node is asked
  \<open>n / 100\<close> times, rounded up, and the result holds under every name what is stored for it and nothing else,
  provided the accounts decode and carry the names they are registered under.
\<close>

theorem load_all_bounded:
  assumes "frozen env chain" and "distinct (map fst refs)"
    and "\<forall>(n, k)\<in>set refs. \<exists>x. object_at env chain kd k = Some x \<and> kd_name kd x = n"
  shows "\<exists>objects. load_groups env kd (map snd refs) [] s =
      (COk objects, s\<lparr> fc_io := fc_io s + (length refs + 99) div 100 \<rparr>) \<and>
    map_of objects = stored env chain kd refs"
proof -
  have "\<forall>k\<in>set (map snd refs). object_at env chain kd k \<noteq> None" using assms(3) by force
  from load_groups_all [OF assms(1) this, of "[]" s] show ?thesis
    using map_of_loaded [OF assms(2,3), of "[]"]
    by (simp add: fun_eq_iff stored_def object_at_def split: option.split)
qed

theorem load_all_bounded_witness:
  "\<exists>objects. load_groups example_client_env pool_kind [example_key 9] []
       (FarmClient_default example_client_env) =
       (COk objects, (FarmClient_default example_client_env)\<lparr> fc_io := 12 \<rparr>) \<and>
     map_of objects [80] = Some example_pool"
proof -
  have "object_at example_client_env example_chain pool_kind (example_key 9) = Some example_pool"
    using example_pool_decodes by (simp add: object_at_def pool_kind_def example_client_env_def)
  moreover have "kd_name pool_kind example_pool = [80]" by (simp add: pool_kind_def example_pool_def)
  ultimately show ?thesis
    using load_all_bounded [OF example_frozen, of "[([80], example_key 9)]" pool_kind
      "FarmClient_default example_client_env"]
    by (auto simp: stored_def object_at_def FarmClient_default_def split: option.splits)
qed

end
