(* ===== verification/Client_Wallet.thy ===== *)
theory Client_Wallet
  imports Client_Fund_Pools Client_Fund Client_Router Raydium_Sdk Orca_Pool
begin

text \<open>
  The wallet of the user, \<open>client/system_instructions.rs\<close> and the queries of \<open>client.rs\<close> on balances, prices and
  statistics. Token accounts are read with \<open>parse_token\<close> of the account decoder, an argument of the model, as are the
  instruction constructors of the system and the token program.
\<close>

section \<open>Token accounts\<close>

definition pubkey_from_str :: "ClientEnv \<Rightarrow> bytes \<Rightarrow> pubkey client" where
  "pubkey_from_str env input =
     mok_or (ce_pubkey_from_str env input)
       (ValueError (utf8_of ''Failed to convert the String to a Pubkey '' @ input))"

definition parse_token :: "ClientEnv \<Rightarrow> bytes \<Rightarrow> u8 option \<Rightarrow> TokenAccountType client" where
  "parse_token env data decimals =
     (case ce_parse_token env data decimals of Inl e \<Rightarrow> mfail (ParseAccountError e) | Inr t \<Rightarrow> mret t)"

definition get_token_account_data :: "ClientEnv \<Rightarrow> pubkey \<Rightarrow> bytes \<Rightarrow> UiTokenAccount client" where
  "get_token_account_data env wallet_address token_name =
     mbind (get_associated_token_address env wallet_address token_name) (\<lambda>token_address.
     mbind (rpc_get_account_data env token_address) (\<lambda>data.
     mbind (get_token env token_name) (\<lambda>token.
     mbind (parse_token env data (Some (tok_decimals token))) (\<lambda>res.
       case res of
         TokenAccountType_Account ui_account \<Rightarrow> mret ui_account
       | _ \<Rightarrow> mfail (ValueError (utf8_of ''No account data found for token '' @ token_name))))))"

definition has_active_token_account :: "ClientEnv \<Rightarrow> pubkey \<Rightarrow> bytes \<Rightarrow> bool client" where
  "has_active_token_account env wallet_address token_name =
     mbind (mtry (get_token_account_data env wallet_address token_name)) (\<lambda>r.
       mret (case r of Some account \<Rightarrow> uta_state account = UiAccountState_Initialized | None \<Rightarrow> False))"

definition get_token_with_account :: "ClientEnv \<Rightarrow> pubkey \<Rightarrow> Token client" where
  "get_token_with_account env account =
     mbind (rpc_get_account_data env account) (\<lambda>data.
     mbind (parse_token env data (Some 0)) (\<lambda>res.
       case res of
         TokenAccountType_Account ui_account \<Rightarrow>
           mbind (mok_or (ce_pubkey_from_str env (uta_mint ui_account))
             (ValueError (utf8_of ''Failed to parse mint in token account '' @ ce_key_to_string env account)))
             (\<lambda>mint. get_token_with_mint env mint)
       | _ \<Rightarrow> mfail (ValueError
           (utf8_of ''No account data found in token account '' @ ce_key_to_string env account))))"

definition get_account_balance :: "ClientEnv \<Rightarrow> pubkey \<Rightarrow> f64 client" where
  "get_account_balance env wallet_address =
     mbind (rpc_get_balance env wallet_address) (\<lambda>lamports.
       mlift (client_tokens_to_ui_amount_with_decimals env lamports (ce_native_decimals env)))"

text \<open>A request that fails counts as an empty account.\<close>

definition get_token_account_balance_with_address :: "ClientEnv \<Rightarrow> pubkey \<Rightarrow> f64 client" where
  "get_token_account_balance_with_address env account =
     mbind (mtry (rpc_get_token_account_balance env account)) (\<lambda>r.
       case r of
         Some (_, Some ui_amount) \<Rightarrow> mret ui_amount
       | Some (_, None) \<Rightarrow>
           mfail (ParseError
             (utf8_of ''Failed to parse balance for token address '' @ ce_key_to_string env account))
       | None \<Rightarrow> mret (f64_of_nat 0))"

definition get_token_account_balance :: "ClientEnv \<Rightarrow> pubkey \<Rightarrow> bytes \<Rightarrow> f64 client" where
  "get_token_account_balance env wallet_address token_name =
     (let token_name = (if token_name = utf8_of ''WSOL'' then utf8_of ''SOL'' else token_name) in
      mbind (if length token_name > 4 \<and> take 4 token_name = utf8_of ''B58.''
             then pubkey_from_str env (drop 4 token_name)
             else get_associated_token_address env wallet_address token_name) (\<lambda>token_address.
        get_token_account_balance_with_address env token_address))"

definition get_token_supply :: "ClientEnv \<Rightarrow> bytes \<Rightarrow> f64 client" where
  "get_token_supply env name =
     mbind (get_token env name) (\<lambda>token.
     mbind (rpc_get_token_supply env (tok_mint token)) (\<lambda>ui_amount.
       mok_or ui_amount (ValueError (utf8_of ''Invalid UI token amount''))))"

definition get_wallet_tokens :: "ClientEnv \<Rightarrow> pubkey \<Rightarrow> bytes list client" where
  "get_wallet_tokens env wallet_address =
     mbind (rpc_get_token_accounts_by_owner env wallet_address) (\<lambda>accounts.
       mfoldl (\<lambda>res acc.
         mbind (pubkey_from_str env acc) (\<lambda>token_address.
         mbind (rpc_get_account_data env token_address) (\<lambda>data.
         mbind (parse_token env data (Some 0)) (\<lambda>token_info.
           case token_info of
             TokenAccountType_Account ui_account \<Rightarrow>
               mbind (pubkey_from_str env (uta_mint ui_account)) (\<lambda>token_mint.
               mbind (mtry (get_token_with_mint env token_mint)) (\<lambda>r.
                 case r of
                   Some token \<Rightarrow> mret (res @ [tok_name token])
                 | None \<Rightarrow> mret (res @ [utf8_of ''B58.'' @ acc])))
           | _ \<Rightarrow> mret res)))) [] accounts)"

definition check_ata_owner :: "ClientEnv \<Rightarrow> pubkey \<Rightarrow> bytes \<Rightarrow> bool client" where
  "check_ata_owner env base_wallet token_name =
     mbind (get_associated_token_address env base_wallet token_name) (\<lambda>token_address.
     mbind (rpc_get_account env token_address) (\<lambda>token_account.
       if rac_owner token_account \<noteq> ce_spl_token env then mret False
       else
         mbind (get_token_account_data env base_wallet token_name) (\<lambda>token_data.
         mbind (rpc_get_account env base_wallet) (\<lambda>base_account.
         mbind (pubkey_from_str env (uta_owner token_data)) (\<lambda>owner.
           mret (rac_owner base_account = owner))))))"

section \<open>System and token instructions\<close>

definition new_instruction_create_system_account ::
  "ClientEnv \<Rightarrow> pubkey \<Rightarrow> pubkey \<Rightarrow> u64 \<Rightarrow> usize \<Rightarrow> pubkey \<Rightarrow> Instruction client" where
  "new_instruction_create_system_account env wallet_address new_account_address lamports space owner =
     mbind (if (lamports = 0) then rpc_get_minimum_balance env space
       else mret lamports) (\<lambda>lamports.
     mret (ce_create_account env wallet_address new_account_address lamports (of_nat space) owner))"

definition new_instruction_transfer :: "ClientEnv \<Rightarrow> pubkey \<Rightarrow> pubkey \<Rightarrow> f64 \<Rightarrow> Instruction client" where
  "new_instruction_transfer env wallet_address destination_wallet sol_ui_amount =
     (if (wallet_address = destination_wallet) then mfail (ValueError (utf8_of
         ''Source and destination addresses are the same''))
       else mbind (mbind (mtry (rpc_get_account env destination_wallet)) (\<lambda>r.
         case r of Some account \<Rightarrow> mbind (get_associated_token_address env wallet_address (utf8_of ''SOL''))
             (\<lambda>token_address.
         (if ((destination_wallet \<noteq> token_address) \<and> (((rac_owner account) \<noteq> (ce_system_program env)) \<or> \<not>
             ((rac_data account) = []))) then mfail (ValueError (utf8_of
             ''Destination account is not a SOL wallet''))
           else mret ()))
         | None \<Rightarrow> mret ())) (\<lambda>_.
       mbind (ui_amount_to_tokens_with_decimals env sol_ui_amount (ce_native_decimals env)) (\<lambda>amount.
       mret (ce_transfer env wallet_address destination_wallet amount))))"

definition new_instruction_close_system_account :: "ClientEnv \<Rightarrow> pubkey \<Rightarrow> pubkey \<Rightarrow> Instruction client" where
  "new_instruction_close_system_account env wallet_address target_account_address =
     mbind (get_account_balance env wallet_address) (\<lambda>balance.
       new_instruction_transfer env target_account_address wallet_address balance)"

definition new_instruction_create_system_account_with_seed ::
  "ClientEnv \<Rightarrow> pubkey \<Rightarrow> pubkey \<Rightarrow> bytes \<Rightarrow> u64 \<Rightarrow> usize \<Rightarrow> pubkey \<Rightarrow> Instruction client" where
  "new_instruction_create_system_account_with_seed env wallet_address base_address seed lamports space owner =
     mbind (if (lamports = 0) then rpc_get_minimum_balance env space
       else mret lamports) (\<lambda>lamports.
     mbind (mok_or (ce_create_with_seed env base_address seed owner) (PubkeyError ''create_with_seed''))
         (\<lambda>to_pubkey.
     mret (ce_create_account_with_seed env wallet_address to_pubkey base_address seed lamports (of_nat space)
         owner)))"

definition new_instruction_assign_system_account :: "ClientEnv \<Rightarrow> pubkey \<Rightarrow> pubkey \<Rightarrow> Instruction client" where
  "new_instruction_assign_system_account env wallet_address program =
     mret (ce_assign env wallet_address program)"

definition new_instruction_token_transfer ::
  "ClientEnv \<Rightarrow> pubkey \<Rightarrow> bytes \<Rightarrow> pubkey \<Rightarrow> f64 \<Rightarrow> Instruction client" where
  "new_instruction_token_transfer env wallet_address token_name destination_wallet ui_amount =
     mbind (mbind (mtry (rpc_get_account env destination_wallet)) (\<lambda>r.
       case r of Some account \<Rightarrow> (if (((rac_owner account) \<noteq> (ce_system_program env)) \<or> \<not> ((rac_data account) =
           [])) then mfail (ValueError (utf8_of ''Destination account is not a SOL wallet''))
         else mret ())
       | None \<Rightarrow> mret ())) (\<lambda>_.
     mbind (get_associated_token_address env wallet_address token_name) (\<lambda>token_addr.
     mbind (get_associated_token_address env destination_wallet token_name) (\<lambda>destination_address.
     mbind (ui_amount_to_tokens env ui_amount token_name) (\<lambda>amount.
     mprog (ce_token_transfer env (ce_spl_token env) token_addr destination_address wallet_address []
         amount)))))"

definition new_instruction_sync_token_balance :: "ClientEnv \<Rightarrow> pubkey \<Rightarrow> bytes \<Rightarrow> Instruction client" where
  "new_instruction_sync_token_balance env wallet_address token_name =
     mbind (get_associated_token_address env wallet_address token_name) (\<lambda>token_addr.
     mprog (ce_token_sync_native env (ce_spl_token env) token_addr))"

definition new_instruction_create_token_account :: "ClientEnv \<Rightarrow> pubkey \<Rightarrow> bytes \<Rightarrow> Instruction client" where
  "new_instruction_create_token_account env wallet_address token_name =
     mbind (get_token env token_name) (\<lambda>token.
     mret (ce_create_associated_token_account env wallet_address wallet_address (tok_mint token)))"

definition new_instruction_close_token_account :: "ClientEnv \<Rightarrow> pubkey \<Rightarrow> bytes \<Rightarrow> Instruction client" where
  "new_instruction_close_token_account env wallet_address token_name =
     mbind (get_associated_token_address env wallet_address token_name) (\<lambda>token_addr.
     mprog (ce_token_close_account env (ce_spl_token env) token_addr wallet_address wallet_address []))"

section \<open>Batches\<close>

definition all_instructions_wrap_sol :: "ClientEnv \<Rightarrow> pubkey \<Rightarrow> f64 \<Rightarrow> Instruction list client" where
  "all_instructions_wrap_sol env wallet_address ui_amount =
     mbind (get_associated_token_address env wallet_address (utf8_of ''SOL'')) (\<lambda>target_account.
     let inst = [] in
     mbind (mbind (has_active_token_account env wallet_address (utf8_of ''SOL'')) (\<lambda>b.
       (if \<not> b then mbind (new_instruction_create_token_account env wallet_address (utf8_of ''SOL'')) (\<lambda>ix.
         let inst = inst @ [ix] in
         mret inst)
         else mbind (check_ata_owner env wallet_address (utf8_of ''SOL'')) (\<lambda>_.
         mret inst)))) (\<lambda>inst.
     mbind (new_instruction_transfer env wallet_address target_account ui_amount) (\<lambda>ix.
     let inst = inst @ [ix] in
     mret inst)))"

definition all_instructions_unwrap_sol :: "ClientEnv \<Rightarrow> pubkey \<Rightarrow> Instruction list client" where
  "all_instructions_unwrap_sol env wallet_address =
     mbind (new_instruction_close_token_account env wallet_address (utf8_of ''SOL'')) (\<lambda>ix.
     let inst = [ix] in
     mret inst)"

text \<open>The destination must not be a token account itself.\<close>

definition all_instructions_token_transfer ::
  "ClientEnv \<Rightarrow> pubkey \<Rightarrow> bytes \<Rightarrow> pubkey \<Rightarrow> f64 \<Rightarrow> Instruction list client" where
  "all_instructions_token_transfer env wallet_address token_name destination_wallet ui_amount =
     (if wallet_address = destination_wallet
      then mfail (ValueError (utf8_of ''Source and destination addresses are the same''))
      else
        mbind (has_active_token_account env wallet_address token_name) (\<lambda>active.
          if \<not> active then mfail (RecordNotFound (utf8_of ''Source account with token '' @ token_name))
          else
            mbind (rpc_get_account_data env destination_wallet) (\<lambda>data.
            mbind (mtry (parse_token env data (Some 0))) (\<lambda>res.
              case res of
                Some (TokenAccountType_Account _) \<Rightarrow>
                  mfail (ValueError
                    (utf8_of ''Destination must be a base wallet address, token address will be derived''))
              | _ \<Rightarrow>
                  mbind (has_active_token_account env destination_wallet token_name) (\<lambda>active.
                  mbind (if \<not> active then
                           mbind (get_token env token_name) (\<lambda>token.
                             mret [ce_create_associated_token_account env wallet_address destination_wallet (tok_mint token)])
                         else mbind (check_ata_owner env destination_wallet token_name) (\<lambda>_. mret [])) (\<lambda>inst.
                  mbind (new_instruction_token_transfer env wallet_address token_name destination_wallet ui_amount) (\<lambda>ix.
                    mret (inst @ [ix]))))))))"

end
