(* ===== verification/Client_Checks.thy ===== *)
theory Client_Checks
  imports Client_Wallet
begin

text \<open>
  The checks of \<open>client.rs\<close> before a batch of instructions: the token accounts, the accounts of users and the
  custodies of funds the instructions need. What is missing is created by instructions added to the batch
  (\<open>instruction_vec\<close>), and balances that are too low are errors. The prices that decide how much SOL is wrapped come
  first.
\<close>

section \<open>Prices\<close>

text \<open>\<open>str::parse::<u64>\<close> on the amounts the node reports.\<close>

fun decimal_value :: "bytes \<Rightarrow> nat \<Rightarrow> nat option" where
  "decimal_value [] acc = Some acc"
| "decimal_value (b # s) acc =
     (if 48 \<le> b \<and> b \<le> 57 \<and> acc * 10 + unat (b - 48) < 2 ^ 64 then decimal_value s (acc * 10 + unat (b - 48)) else None)"

definition parse_amount :: "bytes \<Rightarrow> u64 option" where
  "parse_amount s =
     (let digits = (case s of b # t \<Rightarrow> if b = 43 then t else s | [] \<Rightarrow> [])
      in if digits = [] then None else map_option of_nat (decimal_value digits 0))"

definition account_tokens :: "ClientEnv \<Rightarrow> pubkey \<Rightarrow> u64 client" where
  "account_tokens env account =
     mbind (rpc_get_token_account_balance env account) (\<lambda>(amount, _). munwrap (parse_amount amount))"

definition price_of_balances :: "ClientEnv \<Rightarrow> u64 \<Rightarrow> u64 \<Rightarrow> u8 \<Rightarrow> u8 \<Rightarrow> f64 client" where
  "price_of_balances env token_a_balance token_b_balance token_a_decimals token_b_decimals =
     (if token_a_balance = 0 \<or> token_b_balance = 0 then mret (f64_of_nat 0)
      else
        mbind (mlift (client_tokens_to_ui_amount_with_decimals env token_b_balance token_b_decimals)) (\<lambda>b.
        mbind (mlift (client_tokens_to_ui_amount_with_decimals env token_a_balance token_a_decimals)) (\<lambda>a.
          mret (f64_div b a))))"

text \<open>
  The tokens in open orders are added to the reserves (they wrap in the release build), the profit of the pool not yet
  taken is subtracted, at offsets that depend on the size of the account.
\<close>

definition adjust_open_orders :: "bytes \<Rightarrow> u64 \<times> u64 \<Rightarrow> u64 \<times> u64" where
  "adjust_open_orders open_orders_data balances =
     (if length open_orders_data = 3228
      then (fst balances + from_le_bytes (slice 85 8 open_orders_data), snd balances + from_le_bytes (slice 101 8 open_orders_data))
      else balances)"

definition pnl_offsets :: "bytes \<Rightarrow> nat \<times> nat" where
  "pnl_offsets amm_id_data =
     (if length amm_id_data = 624 then (136, 144)
      else if length amm_id_data = 680 then (144, 152)
      else if length amm_id_data = 752 then (192, 200)
      else (0, 0))"

definition adjust_pnl :: "bytes \<Rightarrow> u64 \<times> u64 \<Rightarrow> u64 \<times> u64" where
  "adjust_pnl amm_id_data balances =
     (let (pnl_coin_offset, pnl_pc_offset) = pnl_offsets amm_id_data in
      if pnl_coin_offset > 0 then
        let need_take_pnl_coin = from_le_bytes (slice pnl_coin_offset 8 amm_id_data);
            need_take_pnl_pc = from_le_bytes (slice pnl_pc_offset 8 amm_id_data)
        in (fst balances - (if need_take_pnl_coin < fst balances then need_take_pnl_coin else fst balances),
            snd balances - (if need_take_pnl_pc < snd balances then need_take_pnl_pc else snd balances))
      else balances)"

definition get_pool_price_raydium :: "ClientEnv \<Rightarrow> u64 \<Rightarrow> u64 \<Rightarrow> u8 \<Rightarrow> u8 \<Rightarrow> pubkey \<Rightarrow> pubkey \<Rightarrow> f64 client" where
  "get_pool_price_raydium env token_a_balance token_b_balance token_a_decimals token_b_decimals amm_id amm_open_orders =
     mbind (rpc_get_account_data env amm_open_orders) (\<lambda>open_orders_data.
       let balances = adjust_open_orders open_orders_data (token_a_balance, token_b_balance) in
         mbind (rpc_get_account_data env amm_id) (\<lambda>amm_id_data.
           let (token_a_balance, token_b_balance) = adjust_pnl amm_id_data balances in
             price_of_balances env token_a_balance token_b_balance token_a_decimals token_b_decimals))"

definition get_pool_price_orca :: "ClientEnv \<Rightarrow> u64 \<Rightarrow> u64 \<Rightarrow> u8 \<Rightarrow> u8 \<Rightarrow> f64 client" where
  "get_pool_price_orca env token_a_balance token_b_balance token_a_decimals token_b_decimals =
     price_of_balances env token_a_balance token_b_balance token_a_decimals token_b_decimals"

definition get_pool_price :: "ClientEnv \<Rightarrow> bytes \<Rightarrow> f64 client" where
  "get_pool_price env pool_name =
     mbind (get_pool env pool_name) (\<lambda>pool.
       case (pl_token_a_ref pool, pl_token_b_ref pool) of
         (Some token_a_ref, Some token_b_ref) \<Rightarrow>
           mbind (get_token_by_ref env token_a_ref) (\<lambda>token_a.
           mbind (get_token_by_ref env token_b_ref) (\<lambda>token_b.
           mbind (mok_or (pl_token_a_account pool) (ClientProgramError UninitializedAccount)) (\<lambda>token_a_account.
           mbind (account_tokens env token_a_account) (\<lambda>token_a_balance.
           mbind (mok_or (pl_token_b_account pool) (ClientProgramError UninitializedAccount)) (\<lambda>token_b_account.
           mbind (account_tokens env token_b_account) (\<lambda>token_b_balance.
             case pl_route pool of
               PoolRoute_Raydium amm_id _ amm_open_orders _ _ _ _ _ _ _ _ _ _ _ \<Rightarrow>
                 get_pool_price_raydium env token_a_balance token_b_balance (tok_decimals token_a) (tok_decimals token_b)
                   amm_id amm_open_orders
             | PoolRoute_Orca _ _ _ \<Rightarrow>
                 get_pool_price_orca env token_a_balance token_b_balance (tok_decimals token_a) (tok_decimals token_b)))))))
       | _ \<Rightarrow> mret (f64_of_nat 0))"

definition get_vault_price :: "ClientEnv \<Rightarrow> bytes \<Rightarrow> f64 client" where
  "get_vault_price env vault_name =
     mbind (get_underlying_pool env vault_name) (\<lambda>underlying_pool.
     let pool_name = (pl_name underlying_pool) in
     get_pool_price env pool_name)"

text \<open>The price from the account of a Raydium pool itself.\<close>

definition get_pool_price_lp :: "ClientEnv \<Rightarrow> pubkey \<Rightarrow> f64 client" where
  "get_pool_price_lp env pool_lp =
     mbind (rpc_get_account env pool_lp) (\<lambda>account.
     mbind (mok_or (LiquidityStateV4_try_from_slice (rac_data account))
       (ValueError (utf8_of ''Failed to unpack MarketStateLayoutV3''))) (\<lambda>market.
     mbind (account_tokens env (ls_base_vault market)) (\<lambda>token_a_balance.
     mbind (account_tokens env (ls_quote_vault market)) (\<lambda>token_b_balance.
       get_pool_price_raydium env token_a_balance token_b_balance (ucast (ls_base_decimal market))
         (ucast (ls_quote_decimal market)) (ls_market_id market) (ls_open_orders market)))))"

section \<open>Token accounts of a wallet\<close>

definition send_sol_to_wsol :: "ClientEnv \<Rightarrow> pubkey \<Rightarrow> f64 \<Rightarrow> Instruction list \<Rightarrow> Instruction list client" where
  "send_sol_to_wsol env wallet_address ui_amount instruction_vec =
     mbind (get_associated_token_address env wallet_address (utf8_of ''SOL'')) (\<lambda>token_addr.
     mbind (new_instruction_transfer env wallet_address token_addr ui_amount) (\<lambda>ix.
     mbind (new_instruction_sync_token_balance env wallet_address (utf8_of ''SOL'')) (\<lambda>ix'.
     let instruction_vec = instruction_vec @ [ix, ix'] in
     mret instruction_vec)))"

definition check_token_account ::
  "ClientEnv \<Rightarrow> pubkey \<Rightarrow> (Token option) \<Rightarrow> f64 \<Rightarrow> Instruction list \<Rightarrow> Instruction list client" where
  "check_token_account env wallet_address token ui_amount instruction_vec =
     (case token of Some tkn \<Rightarrow> mbind (has_active_token_account env wallet_address (tok_name tkn)) (\<lambda>b.
       (if \<not> b then mbind (new_instruction_create_token_account env wallet_address (tok_name tkn)) (\<lambda>ix.
         let instruction_vec = instruction_vec @ [ix] in
         (if (f64_gt ui_amount (f64_of_nat 0)) then (if ((tok_token_type tkn) = TokenType_WrappedSol) then
             mbind (get_account_balance env wallet_address) (\<lambda>account_balance.
             (if (f64_lt account_balance ui_amount) then mfail (InsufficientBalance (tok_name tkn))
               else send_sol_to_wsol env wallet_address ui_amount instruction_vec))
             else mfail (InsufficientBalance (tok_name tkn)))
           else mret instruction_vec))
         else (if (f64_gt ui_amount (f64_of_nat 0)) then mbind (get_token_account_balance env wallet_address
             (tok_name tkn)) (\<lambda>balance.
           (if (f64_lt balance ui_amount) then (if ((tok_token_type tkn) = TokenType_WrappedSol) then mbind
               (get_account_balance env wallet_address) (\<lambda>account_balance.
               (if (f64_lt account_balance (f64_sub ui_amount balance)) then mfail (InsufficientBalance
                   (tok_name tkn))
                 else send_sol_to_wsol env wallet_address (f64_sub ui_amount balance) instruction_vec))
               else mfail (InsufficientBalance (tok_name tkn)))
             else mret instruction_vec))
           else mret instruction_vec)))
       | None \<Rightarrow> mret instruction_vec)"

definition check_token_account_with_mint ::
  "ClientEnv \<Rightarrow> pubkey \<Rightarrow> pubkey \<Rightarrow> Instruction list \<Rightarrow> Instruction list client" where
  "check_token_account_with_mint env wallet_address mint instruction_vec =
     mbind (mtry (rpc_get_account_data env (ce_get_associated_token_address env wallet_address mint))) (\<lambda>r.
     mbind (case r of
              Some data \<Rightarrow>
                mbind (mtry (parse_token env data (Some 0))) (\<lambda>t.
                  mret (case t of
                          Some (TokenAccountType_Account ui_account) \<Rightarrow>
                            uta_state ui_account = UiAccountState_Initialized
                        | _ \<Rightarrow> False))
            | None \<Rightarrow> mret False) (\<lambda>initialized.
       if initialized then mret instruction_vec
       else mret (instruction_vec @ [ce_create_associated_token_account env wallet_address wallet_address mint])))"

section \<open>Pools, farms, vaults and funds of a wallet\<close>

definition check_user_stake_account ::
  "ClientEnv \<Rightarrow> pubkey \<Rightarrow> bytes \<Rightarrow> Instruction list \<Rightarrow> Instruction list client" where
  "check_user_stake_account env wallet_address farm_name instruction_vec =
     mbind (get_farm env farm_name) (\<lambda>farm.
     mbind (case (frm_route farm) of FarmRoute_Raydium _ _ _ _ _ \<Rightarrow> get_raydium_stake_account env wallet_address
         farm_name
       | FarmRoute_Orca _ _ _ _ _ \<Rightarrow> get_orca_stake_account env wallet_address farm_name) (\<lambda>acc_address.
     mbind (mtry (rpc_get_account_data env acc_address)) (\<lambda>data.
     mbind (if (data = None) then mret True else mbind (munwrap data) (\<lambda>data'.
       mret (data' = []))) (\<lambda>b. (if b then mbind (new_instruction_user_init env wallet_address farm_name) (\<lambda>ix.
       let instruction_vec = instruction_vec @ [ix] in
       mret instruction_vec)
       else mret instruction_vec)))))"

definition check_pool_accounts ::
  "ClientEnv \<Rightarrow> pubkey \<Rightarrow> bytes \<Rightarrow> f64 \<Rightarrow> f64 \<Rightarrow> f64 \<Rightarrow> bool \<Rightarrow> Instruction list \<Rightarrow> Instruction list client" where
  "check_pool_accounts env wallet_address pool_name ui_amount_token_a ui_amount_token_b ui_amount_lp_token check_lp_token instruction_vec =
     mbind (get_pool env pool_name) (\<lambda>pool.
     mbind (get_token_by_ref_from_cache env (pl_token_a_ref pool)) (\<lambda>token_a.
     mbind (get_token_by_ref_from_cache env (pl_token_b_ref pool)) (\<lambda>token_b.
     mbind (get_token_by_ref_from_cache env (pl_lp_token_ref pool)) (\<lambda>lp_token.
     mbind (if check_lp_token then check_token_account env wallet_address lp_token ui_amount_lp_token
         instruction_vec
       else mret instruction_vec) (\<lambda>instruction_vec.
     mbind (check_token_account env wallet_address token_a ui_amount_token_a instruction_vec) (\<lambda>instruction_vec.
     check_token_account env wallet_address token_b ui_amount_token_b instruction_vec))))))"

definition check_farm_accounts ::
  "ClientEnv \<Rightarrow> pubkey \<Rightarrow> bytes \<Rightarrow> f64 \<Rightarrow> Instruction list \<Rightarrow> Instruction list client" where
  "check_farm_accounts env wallet_address farm_name ui_amount instruction_vec =
     mbind (get_farm env farm_name) (\<lambda>farm.
     mbind (get_token_by_ref_from_cache env (frm_first_reward_token_ref farm)) (\<lambda>token_a.
     mbind (get_token_by_ref_from_cache env (frm_second_reward_token_ref farm)) (\<lambda>token_b.
     mbind (get_token_by_ref_from_cache env (frm_lp_token_ref farm)) (\<lambda>lp_token.
     mbind (check_token_account env wallet_address token_a (f64_of_nat 0) instruction_vec) (\<lambda>instruction_vec.
     mbind (check_token_account env wallet_address token_b (f64_of_nat 0) instruction_vec) (\<lambda>instruction_vec.
     mbind (check_token_account env wallet_address lp_token ui_amount instruction_vec) (\<lambda>instruction_vec.
     mbind (check_user_stake_account env wallet_address farm_name instruction_vec) (\<lambda>instruction_vec.
     (case (frm_route farm) of FarmRoute_Orca _ _ farm_token_ref _ _ \<Rightarrow> mbind (get_token_by_ref env
         farm_token_ref) (\<lambda>farm_lp_token.
       let user_farm_lp_token_account = (ce_get_associated_token_address env wallet_address (tok_mint
           farm_lp_token)) in
       mbind (mtry (rpc_get_account_data env user_farm_lp_token_account)) (\<lambda>data.
       mbind (if (data = None) then mret True else mbind (munwrap data) (\<lambda>data'.
         mret (data' = []))) (\<lambda>b. (if b then let instruction_vec = (ce_create_associated_token_account env
             wallet_address wallet_address (tok_mint farm_lp_token)) # instruction_vec in
         mret instruction_vec
         else mret instruction_vec))))
       | _ \<Rightarrow> mret instruction_vec)))))))))"

text \<open>The reward tokens of the farm of a vault are checked unless the tokens of the pool cover them.\<close>

definition other_token :: "Token option \<Rightarrow> Token \<Rightarrow> bool" where
  "other_token token reward = (case token of Some t \<Rightarrow> tok_name t \<noteq> tok_name reward | None \<Rightarrow> True)"

definition check_vault_accounts ::
  "ClientEnv \<Rightarrow> pubkey \<Rightarrow> bytes \<Rightarrow> f64 \<Rightarrow> f64 \<Rightarrow> f64 \<Rightarrow> bool \<Rightarrow> bool \<Rightarrow> Instruction list \<Rightarrow> Instruction list client" where
  "check_vault_accounts env wallet_address vault_name ui_amount_token_a ui_amount_token_b ui_amount_vt_token
       check_vt_token check_lp_token instruction_vec =
     mbind (get_vault env vault_name) (\<lambda>vault.
     mbind (get_token_by_ref_from_cache env (Some (vlt_vault_token_ref vault))) (\<lambda>vault_token.
     mbind (get_underlying_pool env vault_name) (\<lambda>pool.
     mbind (get_underlying_farm env vault_name) (\<lambda>farm.
     mbind (get_token_by_ref_from_cache env (pl_token_a_ref pool)) (\<lambda>token_a.
     mbind (get_token_by_ref_from_cache env (pl_token_b_ref pool)) (\<lambda>token_b.
     mbind (get_token_by_ref_from_cache env (pl_lp_token_ref pool)) (\<lambda>lp_token.
     mbind (get_token_by_ref_from_cache env (frm_first_reward_token_ref farm)) (\<lambda>token_a_reward.
     mbind (get_token_by_ref_from_cache env (frm_second_reward_token_ref farm)) (\<lambda>token_b_reward.
     mbind (if check_vt_token
            then check_token_account env wallet_address vault_token ui_amount_vt_token instruction_vec
            else mret instruction_vec) (\<lambda>instruction_vec.
     mbind (if check_lp_token then check_token_account env wallet_address lp_token (f64_of_nat 0) instruction_vec
            else mret instruction_vec) (\<lambda>instruction_vec.
     mbind (check_token_account env wallet_address token_a ui_amount_token_a instruction_vec) (\<lambda>instruction_vec.
     mbind (check_token_account env wallet_address token_b ui_amount_token_b instruction_vec) (\<lambda>instruction_vec.
     mbind (case token_a_reward of
              Some reward \<Rightarrow>
                if other_token token_a reward \<and> other_token token_b reward
                then check_token_account env wallet_address token_a_reward (f64_of_nat 0) instruction_vec
                else mret instruction_vec
            | None \<Rightarrow> mret instruction_vec) (\<lambda>instruction_vec.
     mbind (case token_b_reward of
              Some reward \<Rightarrow>
                if other_token token_a reward \<and> other_token token_b reward \<and> other_token token_a_reward reward
                then check_token_account env wallet_address token_b_reward (f64_of_nat 0) instruction_vec
                else mret instruction_vec
            | None \<Rightarrow> mret instruction_vec) (\<lambda>instruction_vec.
     mbind (mtry (get_vault_user_info env wallet_address vault_name)) (\<lambda>user_info.
       if user_info = None then
         mbind (new_instruction_user_init_vault env wallet_address vault_name) (\<lambda>ix. mret (instruction_vec @ [ix]))
       else mret instruction_vec))))))))))))))))"

text \<open>
  A deposit of nothing in SOL means all SOL but the rent and ten fees; the fee is asked for a transfer of the wallet to
  itself.
\<close>

definition sol_to_deposit :: "ClientEnv \<Rightarrow> pubkey \<Rightarrow> f64 client" where
  "sol_to_deposit env wallet_address =
     mbind (get_account_balance env wallet_address) (\<lambda>balance.
     mbind (rpc_get_minimum_balance env 0) (\<lambda>min_balance.
     mbind (new_instruction_transfer env wallet_address wallet_address (f64_of_nat 1)) (\<lambda>ix.
     mbind (rpc_get_fee_for_message env [ix]) (\<lambda>fee.
       let fees = fee * 10 in
         mbind (tokens_to_ui_amount env (min_balance + fees) (utf8_of ''SOL'')) (\<lambda>to_leave.
           mret (if f64_gt balance to_leave then f64_sub balance to_leave else f64_of_nat 0))))))"

definition check_fund_accounts ::
  "ClientEnv \<Rightarrow> pubkey \<Rightarrow> bytes \<Rightarrow> bytes \<Rightarrow> f64 \<Rightarrow> Instruction list \<Rightarrow> Instruction list client" where
  "check_fund_accounts env wallet_address fund_name token_name ui_amount instruction_vec =
     mbind (get_fund env fund_name) (\<lambda>fund.
     mbind (get_token_by_ref env (fnd_fund_token_ref fund)) (\<lambda>fund_token.
     mbind (get_token env token_name) (\<lambda>asset_token.
     mbind (check_token_account env wallet_address (Some fund_token) (f64_of_nat 0) instruction_vec) (\<lambda>instruction_vec.
     mbind (if f64_eq ui_amount (f64_of_nat 0) \<and> token_name = utf8_of ''SOL''
            then sol_to_deposit env wallet_address
            else mret ui_amount) (\<lambda>ui_amount.
     mbind (check_token_account env wallet_address (Some asset_token) ui_amount instruction_vec) (\<lambda>instruction_vec.
     mbind (mtry (get_fund_user_requests env wallet_address fund_name token_name)) (\<lambda>requests.
       if requests = None then
         mbind (new_instruction_user_init_fund env wallet_address fund_name token_name) (\<lambda>ix. mret (instruction_vec @ [ix]))
       else mret instruction_vec)))))))"

section \<open>Custodies of a fund\<close>

definition check_fund_custody ::
  "ClientEnv \<Rightarrow> pubkey \<Rightarrow> bytes \<Rightarrow> bytes \<Rightarrow> f64 \<Rightarrow> Instruction list \<Rightarrow> Instruction list client" where
  "check_fund_custody env wallet_address fund_name token_name ui_amount instruction_vec =
     mbind (mtry (get_fund_custody env fund_name token_name FundCustodyType_Trading)) (\<lambda>failed.
     (if (failed = None) then (if (f64_gt ui_amount (f64_of_nat 0)) then mfail (InsufficientBalance token_name)
         else mbind (is_wallet_single_fund_admin env wallet_address fund_name) (\<lambda>single_admin.
         (if single_admin then mbind (new_instruction_add_fund_custody env wallet_address fund_name token_name
             FundCustodyType_Trading) (\<lambda>ix.
           let instruction_vec = instruction_vec @ [ix] in
           mret instruction_vec)
           else mfail (RecordNotFound (utf8_of ''Custody for token '' @ token_name @ utf8_of '' in the Fund ''
               @ fund_name @ utf8_of '' not found'')))))
       else (if (f64_gt ui_amount (f64_of_nat 0)) then mbind (get_fund_custody_token_account env fund_name
           token_name FundCustodyType_Trading) (\<lambda>token_account.
         mbind (get_token_account_balance_with_address env token_account) (\<lambda>balance.
         (if (f64_lt balance ui_amount) then mfail (InsufficientBalance token_name)
           else mret instruction_vec)))
         else mret instruction_vec)))"

definition check_fund_farm_user_account ::
  "ClientEnv \<Rightarrow> pubkey \<Rightarrow> bytes \<Rightarrow> bytes \<Rightarrow> Instruction list \<Rightarrow> Instruction list client" where
  "check_fund_farm_user_account env wallet_address fund_name farm_name instruction_vec =
     mbind (get_fund env fund_name) (\<lambda>fund.
     mbind (get_stake_account env (fnd_fund_authority fund) farm_name) (\<lambda>stake_account.
     mbind (mtry (rpc_get_account_data env stake_account)) (\<lambda>data.
     mbind (if (data = None) then mret True else mbind (munwrap data) (\<lambda>data'.
       mret (data' = []))) (\<lambda>b. (if b then mbind (if ((fnd_fund_manager fund) = wallet_address) then mret True
           else is_wallet_single_fund_admin env wallet_address fund_name) (\<lambda>b. (if b then mbind
           (new_instruction_fund_user_init_farm env wallet_address fund_name farm_name) (\<lambda>ix.
         let instruction_vec = instruction_vec @ [ix] in
         mret instruction_vec)
         else mfail (RecordNotFound (utf8_of ''User is not initialized for the Farm '' @ farm_name @ utf8_of
             '' in the Fund '' @ fund_name))))
       else mret instruction_vec)))))"

definition check_fund_vault_user_account ::
  "ClientEnv \<Rightarrow> pubkey \<Rightarrow> bytes \<Rightarrow> bytes \<Rightarrow> Instruction list \<Rightarrow> Instruction list client" where
  "check_fund_vault_user_account env wallet_address fund_name vault_name instruction_vec =
     mbind (get_fund env fund_name) (\<lambda>fund.
     mbind (get_vault_user_info_account env (fnd_fund_authority fund) vault_name) (\<lambda>user_info_account.
     mbind (mtry (rpc_get_account_data env user_info_account)) (\<lambda>data.
       if (case data of None \<Rightarrow> True | Some d \<Rightarrow> \<not> RefDB_is_initialized (ce_utf8 env) d) then
         mbind (if fnd_fund_manager fund = wallet_address then mret True
                else is_wallet_single_fund_admin env wallet_address fund_name) (\<lambda>allowed.
           if allowed then
             mbind (new_instruction_fund_user_init_vault env wallet_address fund_name vault_name) (\<lambda>ix.
               mret (instruction_vec @ [ix]))
           else
             mfail (RecordNotFound (utf8_of ''User is not initialized for the Vault '' @ vault_name @
               utf8_of '' in the Fund '' @ fund_name)))
       else mret instruction_vec)))"

definition check_fund_pool_custodies ::
  "ClientEnv \<Rightarrow> pubkey \<Rightarrow> bytes \<Rightarrow> bytes \<Rightarrow> f64 \<Rightarrow> f64 \<Rightarrow> f64 \<Rightarrow> bool \<Rightarrow> Instruction list \<Rightarrow> Instruction list client" where
  "check_fund_pool_custodies env wallet_address fund_name pool_name ui_amount_token_a ui_amount_token_b ui_amount_lp_token check_lp_token instruction_vec =
     mbind (get_pool env pool_name) (\<lambda>pool.
     mbind (get_token_by_ref_from_cache env (pl_token_a_ref pool)) (\<lambda>token_a.
     mbind (get_token_by_ref_from_cache env (pl_token_b_ref pool)) (\<lambda>token_b.
     mbind (get_token_by_ref_from_cache env (pl_lp_token_ref pool)) (\<lambda>lp_token.
     mbind (if check_lp_token then mbind (munwrap lp_token) (\<lambda>lp_token'.
       check_fund_custody env wallet_address fund_name (tok_name lp_token') ui_amount_lp_token instruction_vec)
       else mret instruction_vec) (\<lambda>instruction_vec.
     mbind (if (token_a \<noteq> None) then mbind (munwrap token_a) (\<lambda>token_a'.
       check_fund_custody env wallet_address fund_name (tok_name token_a') ui_amount_token_a instruction_vec)
       else mret instruction_vec) (\<lambda>instruction_vec.
     if (token_b \<noteq> None) then mbind (munwrap token_b) (\<lambda>token_b'.
     check_fund_custody env wallet_address fund_name (tok_name token_b') ui_amount_token_b instruction_vec)
     else mret instruction_vec))))))"

definition check_fund_farm_custodies ::
  "ClientEnv \<Rightarrow> pubkey \<Rightarrow> bytes \<Rightarrow> bytes \<Rightarrow> f64 \<Rightarrow> Instruction list \<Rightarrow> Instruction list client" where
  "check_fund_farm_custodies env wallet_address fund_name farm_name ui_amount instruction_vec =
     mbind (get_farm env farm_name) (\<lambda>farm.
     mbind (get_token_by_ref_from_cache env (frm_first_reward_token_ref farm)) (\<lambda>token_a.
     mbind (get_token_by_ref_from_cache env (frm_second_reward_token_ref farm)) (\<lambda>token_b.
     mbind (get_token_by_ref_from_cache env (frm_lp_token_ref farm)) (\<lambda>lp_token.
     mbind (if (lp_token \<noteq> None) then mbind (munwrap lp_token) (\<lambda>lp_token'.
       check_fund_custody env wallet_address fund_name (tok_name lp_token') ui_amount instruction_vec)
       else mret instruction_vec) (\<lambda>instruction_vec.
     mbind (if (token_a \<noteq> None) then mbind (munwrap token_a) (\<lambda>token_a'.
       check_fund_custody env wallet_address fund_name (tok_name token_a') (f64_of_nat 0) instruction_vec)
       else mret instruction_vec) (\<lambda>instruction_vec.
     mbind (if (token_b \<noteq> None) then mbind (munwrap token_b) (\<lambda>token_b'.
       check_fund_custody env wallet_address fund_name (tok_name token_b') (f64_of_nat 0) instruction_vec)
       else mret instruction_vec) (\<lambda>instruction_vec.
     check_fund_farm_user_account env wallet_address fund_name farm_name instruction_vec)))))))"

definition check_fund_vault_custodies ::
  "ClientEnv \<Rightarrow> pubkey \<Rightarrow> bytes \<Rightarrow> bytes \<Rightarrow> f64 \<Rightarrow> f64 \<Rightarrow> f64 \<Rightarrow> bool \<Rightarrow> bool \<Rightarrow> Instruction list \<Rightarrow> Instruction list client" where
  "check_fund_vault_custodies env wallet_address fund_name vault_name ui_amount_token_a ui_amount_token_b ui_amount_vt_token check_vt_token check_lp_token instruction_vec =
     mbind (get_vault env vault_name) (\<lambda>vault.
     mbind (get_token_by_ref_from_cache env (Some (vlt_vault_token_ref vault))) (\<lambda>vault_token.
     mbind (get_underlying_pool env vault_name) (\<lambda>pool.
     mbind (get_underlying_farm env vault_name) (\<lambda>farm.
     mbind (get_token_by_ref_from_cache env (pl_token_a_ref pool)) (\<lambda>token_a.
     mbind (get_token_by_ref_from_cache env (pl_token_b_ref pool)) (\<lambda>token_b.
     mbind (get_token_by_ref_from_cache env (pl_lp_token_ref pool)) (\<lambda>lp_token.
     mbind (get_token_by_ref_from_cache env (frm_first_reward_token_ref farm)) (\<lambda>token_a_reward.
     mbind (get_token_by_ref_from_cache env (frm_second_reward_token_ref farm)) (\<lambda>token_b_reward.
     mbind (if check_vt_token then mbind (munwrap vault_token) (\<lambda>vault_token'.
       check_fund_custody env wallet_address fund_name (tok_name vault_token') ui_amount_vt_token
           instruction_vec)
       else mret instruction_vec) (\<lambda>instruction_vec.
     mbind (if check_lp_token then mbind (munwrap lp_token) (\<lambda>lp_token'.
       check_fund_custody env wallet_address fund_name (tok_name lp_token') (f64_of_nat 0) instruction_vec)
       else mret instruction_vec) (\<lambda>instruction_vec.
     mbind (if (token_a_reward \<noteq> None) then mbind (munwrap token_a_reward) (\<lambda>token_a_reward'.
       check_fund_custody env wallet_address fund_name (tok_name token_a_reward') (f64_of_nat 0)
           instruction_vec)
       else mret instruction_vec) (\<lambda>instruction_vec.
     mbind (if (token_b_reward \<noteq> None) then mbind (munwrap token_b_reward) (\<lambda>token_b_reward'.
       check_fund_custody env wallet_address fund_name (tok_name token_b_reward') (f64_of_nat 0)
           instruction_vec)
       else mret instruction_vec) (\<lambda>instruction_vec.
     mbind (if (token_a \<noteq> None) then mbind (munwrap token_a) (\<lambda>token_a'.
       check_fund_custody env wallet_address fund_name (tok_name token_a') ui_amount_token_a instruction_vec)
       else mret instruction_vec) (\<lambda>instruction_vec.
     mbind (if (token_b \<noteq> None) then mbind (munwrap token_b) (\<lambda>token_b'.
       check_fund_custody env wallet_address fund_name (tok_name token_b') ui_amount_token_b instruction_vec)
       else mret instruction_vec) (\<lambda>instruction_vec.
     check_fund_vault_user_account env wallet_address fund_name vault_name instruction_vec)))))))))))))))"

end
