(* ===== verification/Client_Batches.thy ===== *)
theory Client_Batches
  imports Client_Checks
begin

text \<open>
  The complete sets of instructions (\<open>all_instructions_*\<close>) of \<open>client/pool_instructions.rs\<close>, \<open>farm_instructions.rs\<close>,
  \<open>vault_instructions.rs\<close>, \<open>fund_instructions.rs\<close> and \<open>fund_instructions_pools.rs\<close>: the checks, the instruction itself, and
  what has to follow it.
\<close>

section \<open>Pools and farms of a wallet\<close>

text \<open>The \<open>f64\<close> nearest to 1.03: three per cent more than the estimate are wrapped.\<close>

definition f64_1_03 :: f64 where "f64_1_03 = 0x3FF07AE147AE147B"

definition all_instructions_add_liquidity_pool ::
  "ClientEnv \<Rightarrow> pubkey \<Rightarrow> bytes \<Rightarrow> f64 \<Rightarrow> f64 \<Rightarrow> Instruction list client" where
  "all_instructions_add_liquidity_pool env wallet_address pool_name max_token_a_ui_amount max_token_b_ui_amount =
     (if (((f64_lt max_token_a_ui_amount (f64_of_nat 0)) \<or> (f64_lt max_token_b_ui_amount (f64_of_nat 0))) \<or>
         ((f64_eq max_token_a_ui_amount (f64_of_nat 0)) \<and> (f64_eq max_token_b_ui_amount (f64_of_nat 0)))) then
         mfail (ValueError (utf8_of ''Invalid add liquidity amounts '' @ ce_f64_to_string env
         max_token_a_ui_amount @ utf8_of '' and '' @ ce_f64_to_string env max_token_b_ui_amount @ utf8_of
         '' specified for Pool '' @ pool_name @ utf8_of
         '': Must be greater or equal to zero and at least one non-zero.''))
       else let is_saber_pool = (take (length (utf8_of ''SBR.'')) pool_name = (utf8_of ''SBR.'')) in
       mbind (pool_has_sol_tokens env pool_name) (\<lambda>(is_token_a_sol, is_token_b_sol).
       mbind (if (((f64_eq max_token_a_ui_amount (f64_of_nat 0)) \<and> is_token_a_sol) \<and> \<not> is_saber_pool) then
           mbind (get_pool_price env pool_name) (\<lambda>pool_price.
         (if (f64_gt pool_price (f64_of_nat 0)) then mret (f64_div (f64_mul max_token_b_ui_amount f64_1_03)
             pool_price)
           else mret (f64_of_nat 0)))
         else mret max_token_a_ui_amount) (\<lambda>token_a_ui_amount.
       mbind (if (((f64_eq max_token_b_ui_amount (f64_of_nat 0)) \<and> is_token_b_sol) \<and> \<not> is_saber_pool) then
           mbind (get_pool_price env pool_name) (\<lambda>pool_price.
         mret (f64_mul (f64_mul max_token_a_ui_amount pool_price) f64_1_03))
         else mret max_token_b_ui_amount) (\<lambda>token_b_ui_amount.
       let inst = [] in
       mbind (check_pool_accounts env wallet_address pool_name token_a_ui_amount token_b_ui_amount (f64_of_nat
           0) True inst) (\<lambda>inst.
       mbind (new_instruction_add_liquidity_pool env wallet_address pool_name max_token_a_ui_amount
           max_token_b_ui_amount) (\<lambda>ix.
       let inst = inst @ [ix] in
       if (is_token_a_sol \<or> is_token_b_sol) then mbind (new_instruction_close_token_account env wallet_address
           (utf8_of ''SOL'')) (\<lambda>ix'.
       let inst = inst @ [ix'] in
       mret inst)
       else mret inst))))))"

definition all_instructions_remove_liquidity_pool ::
  "ClientEnv \<Rightarrow> pubkey \<Rightarrow> bytes \<Rightarrow> f64 \<Rightarrow> Instruction list client" where
  "all_instructions_remove_liquidity_pool env wallet_address pool_name ui_amount =
     (let inst = [] in
       mbind (check_pool_accounts env wallet_address pool_name (f64_of_nat 0) (f64_of_nat 0) ui_amount True
           inst) (\<lambda>inst.
       mbind (new_instruction_remove_liquidity_pool env wallet_address pool_name ui_amount) (\<lambda>ix.
       let inst = inst @ [ix] in
       mbind (pool_has_sol_tokens env pool_name) (\<lambda>(is_token_a_sol, is_token_b_sol).
       mbind (pool_has_saber_wrapped_tokens env pool_name) (\<lambda>(is_token_a_wrapped, is_token_b_wrapped).
       mbind (if is_token_a_wrapped then mbind (new_instruction_unwrap_token env wallet_address pool_name
           TokenSelector_TokenA (f64_of_nat 0)) (\<lambda>ix'.
         let inst = inst @ [ix'] in
         mret inst)
         else mret inst) (\<lambda>inst.
       mbind (if is_token_b_wrapped then mbind (new_instruction_unwrap_token env wallet_address pool_name
           TokenSelector_TokenB (f64_of_nat 0)) (\<lambda>ix'.
         let inst = inst @ [ix'] in
         mret inst)
         else mret inst) (\<lambda>inst.
       if (is_token_a_sol \<or> is_token_b_sol) then mbind (new_instruction_close_token_account env wallet_address
           (utf8_of ''SOL'')) (\<lambda>ix'.
       let inst = inst @ [ix'] in
       mret inst)
       else mret inst)))))))"

definition all_instructions_swap ::
  "ClientEnv \<Rightarrow> pubkey \<Rightarrow> Protocol \<Rightarrow> bytes \<Rightarrow> bytes \<Rightarrow> f64 \<Rightarrow> f64 \<Rightarrow> Instruction list client" where
  "all_instructions_swap env wallet_address protocol from_token to_token ui_amount_in min_ui_amount_out =
     mbind (find_pools env protocol from_token to_token) (\<lambda>pools.
     mbind (mindex pools 0) (\<lambda>item.
     let pool = item in
     (if (f64_lt ui_amount_in (f64_of_nat 0)) then mfail (ValueError (utf8_of ''Invalid token amount '' @
         ce_f64_to_string env ui_amount_in @ utf8_of '' specified for pool '' @ (pl_name pool) @ utf8_of
         '': Must be zero or greater.''))
       else mbind (if (f64_eq ui_amount_in (f64_of_nat 0)) then (if (from_token = (utf8_of ''SOL'')) then mfail
           (ValueError (utf8_of ''Invalid SOL amount '' @ ce_f64_to_string env ui_amount_in @ utf8_of
           '' specified for pool '' @ (pl_name pool) @ utf8_of '': Must be greater than zero.''))
           else mbind (get_token_account_balance env wallet_address from_token) (\<lambda>balance.
           (if (f64_eq balance (f64_of_nat 0)) then mfail (InsufficientBalance from_token)
             else mret balance)))
         else mret ui_amount_in) (\<lambda>ui_amount_in.
       let inst = [] in
       mbind (mlift (pool_has_reverse_tokens (pl_name pool) from_token)) (\<lambda>reverse.
       mbind (if reverse then check_pool_accounts env wallet_address (pl_name pool) (f64_of_nat 0) ui_amount_in
           (f64_of_nat 0) False inst
         else check_pool_accounts env wallet_address (pl_name pool) ui_amount_in (f64_of_nat 0) (f64_of_nat 0)
             False inst) (\<lambda>inst.
       mbind (pool_has_saber_wrapped_tokens env (pl_name pool)) (\<lambda>(is_token_a_wrapped, is_token_b_wrapped).
       mbind (if (is_token_a_wrapped \<and> \<not> reverse) then mbind (new_instruction_wrap_token env wallet_address
           (pl_name pool) TokenSelector_TokenA ui_amount_in) (\<lambda>ix.
         let inst = inst @ [ix] in
         mret inst)
         else mret inst) (\<lambda>inst.
       mbind (if (is_token_b_wrapped \<and> reverse) then mbind (new_instruction_wrap_token env wallet_address
           (pl_name pool) TokenSelector_TokenB ui_amount_in) (\<lambda>ix.
         let inst = inst @ [ix] in
         mret inst)
         else mret inst) (\<lambda>inst.
       mbind (new_instruction_swap env wallet_address protocol from_token to_token ui_amount_in
           min_ui_amount_out) (\<lambda>ix.
       let inst = inst @ [ix] in
       mbind (if (is_token_b_wrapped \<and> \<not> reverse) then mbind (new_instruction_unwrap_token env wallet_address
           (pl_name pool) TokenSelector_TokenB (f64_of_nat 0)) (\<lambda>ix'.
         let inst = inst @ [ix'] in
         mret inst)
         else mret inst) (\<lambda>inst.
       mbind (if (is_token_a_wrapped \<and> reverse) then mbind (new_instruction_unwrap_token env wallet_address
           (pl_name pool) TokenSelector_TokenA (f64_of_nat 0)) (\<lambda>ix'.
         let inst = inst @ [ix'] in
         mret inst)
         else mret inst) (\<lambda>inst.
       if (to_token = (utf8_of ''SOL'')) then mbind (new_instruction_close_token_account env wallet_address
           (utf8_of ''SOL'')) (\<lambda>ix'.
       let inst = inst @ [ix'] in
       mret inst)
       else mret inst))))))))))))"

definition all_instructions_stake :: "ClientEnv \<Rightarrow> pubkey \<Rightarrow> bytes \<Rightarrow> f64 \<Rightarrow> Instruction list client" where
  "all_instructions_stake env wallet_address farm_name ui_amount =
     (let inst = [] in
       mbind (check_farm_accounts env wallet_address farm_name ui_amount inst) (\<lambda>inst.
       mbind (new_instruction_stake env wallet_address farm_name ui_amount) (\<lambda>ix.
       let inst = inst @ [ix] in
       mret inst)))"

definition all_instructions_unstake :: "ClientEnv \<Rightarrow> pubkey \<Rightarrow> bytes \<Rightarrow> f64 \<Rightarrow> Instruction list client" where
  "all_instructions_unstake env wallet_address farm_name ui_amount =
     (let inst = [] in
       mbind (check_farm_accounts env wallet_address farm_name (f64_of_nat 0) inst) (\<lambda>inst.
       mbind (new_instruction_unstake env wallet_address farm_name ui_amount) (\<lambda>ix.
       let inst = inst @ [ix] in
       mret inst)))"

definition all_instructions_harvest :: "ClientEnv \<Rightarrow> pubkey \<Rightarrow> bytes \<Rightarrow> Instruction list client" where
  "all_instructions_harvest env wallet_address farm_name =
     (let inst = [] in
       mbind (check_farm_accounts env wallet_address farm_name (f64_of_nat 0) inst) (\<lambda>inst.
       mbind (new_instruction_harvest env wallet_address farm_name) (\<lambda>ix.
       let inst = inst @ [ix] in
       mret inst)))"

section \<open>Vaults of a wallet\<close>

definition all_instructions_add_liquidity_vault ::
  "ClientEnv \<Rightarrow> pubkey \<Rightarrow> bytes \<Rightarrow> f64 \<Rightarrow> f64 \<Rightarrow> Instruction list client" where
  "all_instructions_add_liquidity_vault env wallet_address vault_name max_token_a_ui_amount max_token_b_ui_amount =
     (if (((f64_lt max_token_a_ui_amount (f64_of_nat 0)) \<or> (f64_lt max_token_b_ui_amount (f64_of_nat 0))) \<or>
         ((f64_eq max_token_a_ui_amount (f64_of_nat 0)) \<and> (f64_eq max_token_b_ui_amount (f64_of_nat 0)))) then
         mfail (ValueError (utf8_of ''Invalid add liquidity amounts '' @ ce_f64_to_string env
         max_token_a_ui_amount @ utf8_of '' and '' @ ce_f64_to_string env max_token_b_ui_amount @ utf8_of
         '' specified for Vault '' @ vault_name @ utf8_of
         '': Must be greater or equal to zero and at least one non-zero.''))
       else let is_saber_vault = (take (length (utf8_of ''SBR.'')) vault_name = (utf8_of ''SBR.'')) in
       mbind (vault_has_sol_tokens env vault_name) (\<lambda>(is_token_a_sol, is_token_b_sol).
       mbind (if (((f64_eq max_token_a_ui_amount (f64_of_nat 0)) \<and> is_token_a_sol) \<and> \<not> is_saber_vault) then
           mbind (get_vault_price env vault_name) (\<lambda>pool_price.
         (if (f64_gt pool_price (f64_of_nat 0)) then mret (f64_div (f64_mul max_token_b_ui_amount f64_1_03)
             pool_price)
           else mret (f64_of_nat 0)))
         else mret max_token_a_ui_amount) (\<lambda>token_a_ui_amount.
       mbind (if (((f64_eq max_token_b_ui_amount (f64_of_nat 0)) \<and> is_token_b_sol) \<and> \<not> is_saber_vault) then
           mbind (get_vault_price env vault_name) (\<lambda>vault_price.
         mret (f64_mul (f64_mul max_token_a_ui_amount vault_price) f64_1_03))
         else mret max_token_b_ui_amount) (\<lambda>token_b_ui_amount.
       let inst = [] in
       mbind (check_vault_accounts env wallet_address vault_name token_a_ui_amount token_b_ui_amount
           (f64_of_nat 0) True True inst) (\<lambda>inst.
       mbind (if is_saber_vault then mbind (get_underlying_pool env vault_name) (\<lambda>underlying_pool.
         let pool_name = (pl_name underlying_pool) in
         mbind (pool_has_saber_wrapped_tokens env pool_name) (\<lambda>(is_token_a_wrapped, is_token_b_wrapped).
         mbind (if (is_token_a_wrapped \<and> (f64_gt max_token_a_ui_amount (f64_of_nat 0))) then mbind
             (new_instruction_wrap_token env wallet_address pool_name TokenSelector_TokenA
             max_token_a_ui_amount) (\<lambda>ix.
           let inst = inst @ [ix] in
           mret inst)
           else mret inst) (\<lambda>inst.
         (if (is_token_b_wrapped \<and> (f64_gt max_token_b_ui_amount (f64_of_nat 0))) then mbind
             (new_instruction_wrap_token env wallet_address pool_name TokenSelector_TokenB
             max_token_b_ui_amount) (\<lambda>ix.
           let inst = inst @ [ix] in
           mret inst)
           else mret inst))))
         else mret inst) (\<lambda>inst.
       mbind (new_instruction_add_liquidity_vault env wallet_address vault_name max_token_a_ui_amount
           max_token_b_ui_amount) (\<lambda>ix.
       let inst = inst @ [ix] in
       mbind (if (is_token_a_sol \<or> is_token_b_sol) then mbind (new_instruction_close_token_account env
           wallet_address (utf8_of ''SOL'')) (\<lambda>ix'.
         let inst = inst @ [ix'] in
         mret inst)
         else mret inst) (\<lambda>inst.
       mbind (get_vault env vault_name) (\<lambda>vault.
       if (vlt_lock_required vault) then mbind (new_instruction_lock_liquidity_vault env wallet_address
           vault_name (f64_of_nat 0)) (\<lambda>lock_inst.
       let inst = inst @ [lock_inst] in
       mret inst)
       else mret inst)))))))))"

definition all_instructions_add_locked_liquidity_vault ::
  "ClientEnv \<Rightarrow> pubkey \<Rightarrow> bytes \<Rightarrow> f64 \<Rightarrow> Instruction list client" where
  "all_instructions_add_locked_liquidity_vault env wallet_address vault_name ui_amount =
     (let inst = [] in
       mbind (check_vault_accounts env wallet_address vault_name (f64_of_nat 0) (f64_of_nat 0) (f64_of_nat 0)
           True False inst) (\<lambda>inst.
       mbind (if (f64_gt ui_amount (f64_of_nat 0)) then mbind (get_vault_user_info env wallet_address
           vault_name) (\<lambda>vault_user_info.
         let lp_debt = (vui_lp_tokens_debt vault_user_info) in
         mbind (get_vault_lp_token_decimals env vault_name) (\<lambda>pool_token_decimals.
         mbind (mlift (client_tokens_to_ui_amount_with_decimals env lp_debt pool_token_decimals)) (\<lambda>ui.
         (if (f64_lt ui ui_amount) then mfail (InsufficientBalance (utf8_of
             ''Not enough locked tokens to deposit''))
           else mret ()))))
         else mret ()) (\<lambda>_.
       mbind (new_instruction_lock_liquidity_vault env wallet_address vault_name ui_amount) (\<lambda>ix.
       let inst = inst @ [ix] in
       mret inst))))"

definition all_instructions_remove_unlocked_liquidity_vault ::
  "ClientEnv \<Rightarrow> pubkey \<Rightarrow> bytes \<Rightarrow> f64 \<Rightarrow> Instruction list client" where
  "all_instructions_remove_unlocked_liquidity_vault env wallet_address vault_name ui_amount =
     (let inst = [] in
       mbind (check_vault_accounts env wallet_address vault_name (f64_of_nat 0) (f64_of_nat 0) (f64_of_nat 0)
           False False inst) (\<lambda>inst.
       mbind (if (f64_gt ui_amount (f64_of_nat 0)) then mbind (get_vault_user_info env wallet_address
           vault_name) (\<lambda>vault_user_info.
         let lp_debt = (vui_lp_tokens_debt vault_user_info) in
         mbind (get_vault_lp_token_decimals env vault_name) (\<lambda>pool_token_decimals.
         mbind (mlift (client_tokens_to_ui_amount_with_decimals env lp_debt pool_token_decimals)) (\<lambda>ui.
         (if (f64_lt ui ui_amount) then mfail (InsufficientBalance (utf8_of
             ''Not enough unlocked tokens to remove''))
           else mret ()))))
         else mret ()) (\<lambda>_.
       mbind (new_instruction_remove_liquidity_vault env wallet_address vault_name ui_amount) (\<lambda>ix.
       let inst = inst @ [ix] in
       mbind (vault_has_sol_tokens env vault_name) (\<lambda>(is_token_a_sol, is_token_b_sol).
       mbind (get_underlying_pool env vault_name) (\<lambda>underlying_pool.
       let pool_name = (pl_name underlying_pool) in
       mbind (pool_has_saber_wrapped_tokens env pool_name) (\<lambda>(is_token_a_wrapped, is_token_b_wrapped).
       mbind (if is_token_a_wrapped then mbind (new_instruction_unwrap_token env wallet_address pool_name
           TokenSelector_TokenA (f64_of_nat 0)) (\<lambda>ix'.
         let inst = inst @ [ix'] in
         mret inst)
         else mret inst) (\<lambda>inst.
       mbind (if is_token_b_wrapped then mbind (new_instruction_unwrap_token env wallet_address pool_name
           TokenSelector_TokenB (f64_of_nat 0)) (\<lambda>ix'.
         let inst = inst @ [ix'] in
         mret inst)
         else mret inst) (\<lambda>inst.
       if (is_token_a_sol \<or> is_token_b_sol) then mbind (new_instruction_close_token_account env wallet_address
           (utf8_of ''SOL'')) (\<lambda>ix'.
       let inst = inst @ [ix'] in
       mret inst)
       else mret inst)))))))))"

definition all_instructions_remove_liquidity_vault ::
  "ClientEnv \<Rightarrow> pubkey \<Rightarrow> bytes \<Rightarrow> f64 \<Rightarrow> Instruction list client" where
  "all_instructions_remove_liquidity_vault env wallet_address vault_name ui_amount =
     mbind (get_vault env vault_name) (\<lambda>vault.
     let inst = [] in
     mbind (check_vault_accounts env wallet_address vault_name (f64_of_nat 0) (f64_of_nat 0) ui_amount True
         False inst) (\<lambda>inst.
     mbind (if (vlt_unlock_required vault) then mbind (new_instruction_unlock_liquidity_vault env
         wallet_address vault_name ui_amount) (\<lambda>ix.
       mbind (new_instruction_remove_liquidity_vault env wallet_address vault_name (f64_of_nat 0)) (\<lambda>ix'.
       let inst = inst @ [ix, ix'] in
       mret inst))
       else mbind (new_instruction_remove_liquidity_vault env wallet_address vault_name ui_amount) (\<lambda>ix.
       let inst = inst @ [ix] in
       mret inst)) (\<lambda>inst.
     mbind (vault_has_sol_tokens env vault_name) (\<lambda>(is_token_a_sol, is_token_b_sol).
     mbind (get_underlying_pool env vault_name) (\<lambda>underlying_pool.
     let pool_name = (pl_name underlying_pool) in
     mbind (pool_has_saber_wrapped_tokens env pool_name) (\<lambda>(is_token_a_wrapped, is_token_b_wrapped).
     mbind (if is_token_a_wrapped then mbind (new_instruction_unwrap_token env wallet_address pool_name
         TokenSelector_TokenA (f64_of_nat 0)) (\<lambda>ix.
       let inst = inst @ [ix] in
       mret inst)
       else mret inst) (\<lambda>inst.
     mbind (if is_token_b_wrapped then mbind (new_instruction_unwrap_token env wallet_address pool_name
         TokenSelector_TokenB (f64_of_nat 0)) (\<lambda>ix.
       let inst = inst @ [ix] in
       mret inst)
       else mret inst) (\<lambda>inst.
     if (is_token_a_sol \<or> is_token_b_sol) then mbind (new_instruction_close_token_account env wallet_address
         (utf8_of ''SOL'')) (\<lambda>ix.
     let inst = inst @ [ix] in
     mret inst)
     else mret inst))))))))"

section \<open>Requests to a fund\<close>

definition all_instructions_request_deposit_fund ::
  "ClientEnv \<Rightarrow> pubkey \<Rightarrow> bytes \<Rightarrow> bytes \<Rightarrow> f64 \<Rightarrow> Instruction list client" where
  "all_instructions_request_deposit_fund env wallet_address fund_name token_name ui_amount =
     (let inst = [] in
       mbind (check_fund_accounts env wallet_address fund_name token_name ui_amount inst) (\<lambda>inst.
       mbind (new_instruction_request_deposit_fund env wallet_address fund_name token_name ui_amount) (\<lambda>ix.
       let inst = inst @ [ix] in
       mret inst)))"

definition all_instructions_request_withdrawal_fund ::
  "ClientEnv \<Rightarrow> pubkey \<Rightarrow> bytes \<Rightarrow> bytes \<Rightarrow> f64 \<Rightarrow> Instruction list client" where
  "all_instructions_request_withdrawal_fund env wallet_address fund_name token_name ui_amount =
     (let inst = [] in
       mbind (get_fund env fund_name) (\<lambda>fund.
       mbind (get_token_by_ref env (fnd_fund_token_ref fund)) (\<lambda>token_by_ref.
       let fund_token = (Some token_by_ref) in
       mbind (get_token env token_name) (\<lambda>token.
       let asset_token = (Some token) in
       mbind (check_token_account env wallet_address fund_token ui_amount inst) (\<lambda>inst.
       mbind (check_token_account env wallet_address asset_token (f64_of_nat 0) inst) (\<lambda>inst.
       mbind (mbind (mtry (get_fund_user_requests env wallet_address fund_name token_name)) (\<lambda>failed.
         (if (failed = None) then mbind (new_instruction_user_init_fund env wallet_address fund_name
             token_name) (\<lambda>ix.
           let inst = inst @ [ix] in
           mret inst)
           else mret inst))) (\<lambda>inst.
       mbind (new_instruction_request_withdrawal_fund env wallet_address fund_name token_name ui_amount) (\<lambda>ix.
       let inst = inst @ [ix] in
       mret inst))))))))"

section \<open>Trades of a fund\<close>

definition all_instructions_fund_add_liquidity_pool ::
  "ClientEnv \<Rightarrow> pubkey \<Rightarrow> bytes \<Rightarrow> bytes \<Rightarrow> f64 \<Rightarrow> f64 \<Rightarrow> Instruction list client" where
  "all_instructions_fund_add_liquidity_pool env admin_address fund_name pool_name max_token_a_ui_amount max_token_b_ui_amount =
     (if (((f64_lt max_token_a_ui_amount (f64_of_nat 0)) \<or> (f64_lt max_token_b_ui_amount (f64_of_nat 0))) \<or>
         ((f64_eq max_token_a_ui_amount (f64_of_nat 0)) \<and> (f64_eq max_token_b_ui_amount (f64_of_nat 0)))) then
         mfail (ValueError (utf8_of ''Invalid add liquidity amounts '' @ ce_f64_to_string env
         max_token_a_ui_amount @ utf8_of '' and '' @ ce_f64_to_string env max_token_b_ui_amount @ utf8_of
         '' specified for Pool '' @ pool_name @ utf8_of
         '': Must be greater or equal to zero and at least one non-zero.''))
       else let inst = [] in
       mbind (check_fund_pool_custodies env admin_address fund_name pool_name max_token_a_ui_amount
           max_token_b_ui_amount (f64_of_nat 0) True inst) (\<lambda>inst.
       mbind (new_instruction_fund_add_liquidity_pool env admin_address fund_name pool_name
           max_token_a_ui_amount max_token_b_ui_amount) (\<lambda>ix.
       let inst = inst @ [ix] in
       mret inst)))"

definition all_instructions_fund_remove_liquidity_pool ::
  "ClientEnv \<Rightarrow> pubkey \<Rightarrow> bytes \<Rightarrow> bytes \<Rightarrow> f64 \<Rightarrow> Instruction list client" where
  "all_instructions_fund_remove_liquidity_pool env admin_address fund_name pool_name ui_amount =
     (let inst = [] in
       mbind (check_fund_pool_custodies env admin_address fund_name pool_name (f64_of_nat 0) (f64_of_nat 0)
           ui_amount True inst) (\<lambda>inst.
       mbind (new_instruction_fund_remove_liquidity_pool env admin_address fund_name pool_name ui_amount) (\<lambda>ix.
       let inst = inst @ [ix] in
       mret inst)))"

definition all_instructions_fund_swap ::
  "ClientEnv \<Rightarrow> pubkey \<Rightarrow> bytes \<Rightarrow> Protocol \<Rightarrow> bytes \<Rightarrow> bytes \<Rightarrow> f64 \<Rightarrow> f64 \<Rightarrow> Instruction list client" where
  "all_instructions_fund_swap env admin_address fund_name protocol from_token to_token ui_amount_in min_ui_amount_out =
     (if (f64_lt ui_amount_in (f64_of_nat 0)) then mfail (ValueError (utf8_of ''Invalid ui_amount_in '' @
         ce_f64_to_string env ui_amount_in @ utf8_of '' specified for swap: Must be zero or greater.''))
       else let inst = [] in
       mbind (check_fund_custody env admin_address fund_name from_token ui_amount_in inst) (\<lambda>inst.
       mbind (check_fund_custody env admin_address fund_name to_token (f64_of_nat 0) inst) (\<lambda>inst.
       mbind (new_instruction_fund_swap env admin_address fund_name protocol from_token to_token ui_amount_in
           min_ui_amount_out) (\<lambda>ix.
       let inst = inst @ [ix] in
       mret inst))))"

definition all_instructions_fund_stake ::
  "ClientEnv \<Rightarrow> pubkey \<Rightarrow> bytes \<Rightarrow> bytes \<Rightarrow> f64 \<Rightarrow> Instruction list client" where
  "all_instructions_fund_stake env admin_address fund_name farm_name ui_amount =
     (let inst = [] in
       mbind (check_fund_farm_custodies env admin_address fund_name farm_name ui_amount inst) (\<lambda>inst.
       mbind (new_instruction_fund_stake env admin_address fund_name farm_name ui_amount) (\<lambda>ix.
       let inst = inst @ [ix] in
       mret inst)))"

definition all_instructions_fund_unstake ::
  "ClientEnv \<Rightarrow> pubkey \<Rightarrow> bytes \<Rightarrow> bytes \<Rightarrow> f64 \<Rightarrow> Instruction list client" where
  "all_instructions_fund_unstake env admin_address fund_name farm_name ui_amount =
     (let inst = [] in
       mbind (check_fund_farm_custodies env admin_address fund_name farm_name (f64_of_nat 0) inst) (\<lambda>inst.
       mbind (new_instruction_fund_unstake env admin_address fund_name farm_name ui_amount) (\<lambda>ix.
       let inst = inst @ [ix] in
       mret inst)))"

definition all_instructions_fund_harvest ::
  "ClientEnv \<Rightarrow> pubkey \<Rightarrow> bytes \<Rightarrow> bytes \<Rightarrow> Instruction list client" where
  "all_instructions_fund_harvest env admin_address fund_name farm_name =
     (let inst = [] in
       mbind (check_fund_farm_custodies env admin_address fund_name farm_name (f64_of_nat 0) inst) (\<lambda>inst.
       mbind (new_instruction_fund_harvest env admin_address fund_name farm_name) (\<lambda>ix.
       let inst = inst @ [ix] in
       mret inst)))"

definition all_instructions_fund_add_liquidity_vault ::
  "ClientEnv \<Rightarrow> pubkey \<Rightarrow> bytes \<Rightarrow> bytes \<Rightarrow> f64 \<Rightarrow> f64 \<Rightarrow> Instruction list client" where
  "all_instructions_fund_add_liquidity_vault env admin_address fund_name vault_name max_token_a_ui_amount max_token_b_ui_amount =
     (if (((f64_lt max_token_a_ui_amount (f64_of_nat 0)) \<or> (f64_lt max_token_b_ui_amount (f64_of_nat 0))) \<or>
         ((f64_eq max_token_a_ui_amount (f64_of_nat 0)) \<and> (f64_eq max_token_b_ui_amount (f64_of_nat 0)))) then
         mfail (ValueError (utf8_of ''Invalid add liquidity amounts '' @ ce_f64_to_string env
         max_token_a_ui_amount @ utf8_of '' and '' @ ce_f64_to_string env max_token_b_ui_amount @ utf8_of
         '' specified for Vault '' @ vault_name @ utf8_of
         '': Must be greater or equal to zero and at least one non-zero.''))
       else let inst = [] in
       mbind (check_fund_vault_custodies env admin_address fund_name vault_name max_token_a_ui_amount
           max_token_b_ui_amount (f64_of_nat 0) True True inst) (\<lambda>inst.
       mbind (new_instruction_fund_add_liquidity_vault env admin_address fund_name vault_name
           max_token_a_ui_amount max_token_b_ui_amount) (\<lambda>ix.
       let inst = inst @ [ix] in
       mbind (get_vault env vault_name) (\<lambda>vault.
       if (vlt_lock_required vault) then mbind (new_instruction_fund_lock_liquidity_vault env admin_address
           fund_name vault_name (f64_of_nat 0)) (\<lambda>lock_inst.
       let inst = inst @ [lock_inst] in
       mret inst)
       else mret inst))))"

definition all_instructions_fund_add_locked_liquidity_vault ::
  "ClientEnv \<Rightarrow> pubkey \<Rightarrow> bytes \<Rightarrow> bytes \<Rightarrow> f64 \<Rightarrow> Instruction list client" where
  "all_instructions_fund_add_locked_liquidity_vault env admin_address fund_name vault_name ui_amount =
     (let inst = [] in
       mbind (check_fund_vault_custodies env admin_address fund_name vault_name (f64_of_nat 0) (f64_of_nat 0)
           (f64_of_nat 0) True False inst) (\<lambda>inst.
       mbind (if (f64_gt ui_amount (f64_of_nat 0)) then mbind (get_fund env fund_name) (\<lambda>fund.
         mbind (get_vault_user_info env (fnd_fund_authority fund) vault_name) (\<lambda>vault_user_info.
         let lp_debt = (vui_lp_tokens_debt vault_user_info) in
         mbind (get_vault_lp_token_decimals env vault_name) (\<lambda>pool_token_decimals.
         mbind (mlift (client_tokens_to_ui_amount_with_decimals env lp_debt pool_token_decimals)) (\<lambda>ui.
         (if (f64_lt ui ui_amount) then mfail (InsufficientBalance (utf8_of
             ''Not enough locked tokens to deposit''))
           else mret ())))))
         else mret ()) (\<lambda>_.
       mbind (new_instruction_fund_lock_liquidity_vault env admin_address fund_name vault_name ui_amount) (\<lambda>ix.
       let inst = inst @ [ix] in
       mret inst))))"

definition all_instructions_fund_remove_liquidity_vault ::
  "ClientEnv \<Rightarrow> pubkey \<Rightarrow> bytes \<Rightarrow> bytes \<Rightarrow> f64 \<Rightarrow> Instruction list client" where
  "all_instructions_fund_remove_liquidity_vault env admin_address fund_name vault_name ui_amount =
     mbind (get_vault env vault_name) (\<lambda>vault.
     let inst = [] in
     mbind (check_fund_vault_custodies env admin_address fund_name vault_name (f64_of_nat 0) (f64_of_nat 0)
         (f64_of_nat 0) True False inst) (\<lambda>inst.
     if (vlt_unlock_required vault) then mbind (new_instruction_fund_unlock_liquidity_vault env admin_address
         fund_name vault_name ui_amount) (\<lambda>ix.
     mbind (new_instruction_fund_remove_liquidity_vault env admin_address fund_name vault_name (f64_of_nat 0))
         (\<lambda>ix'.
     let inst = inst @ [ix, ix'] in
     mret inst))
     else mbind (new_instruction_fund_remove_liquidity_vault env admin_address fund_name vault_name ui_amount)
         (\<lambda>ix.
     let inst = inst @ [ix] in
     mret inst)))"

definition all_instructions_fund_remove_unlocked_liquidity_vault ::
  "ClientEnv \<Rightarrow> pubkey \<Rightarrow> bytes \<Rightarrow> bytes \<Rightarrow> f64 \<Rightarrow> Instruction list client" where
  "all_instructions_fund_remove_unlocked_liquidity_vault env admin_address fund_name vault_name ui_amount =
     (let inst = [] in
       mbind (check_fund_vault_custodies env admin_address fund_name vault_name (f64_of_nat 0) (f64_of_nat 0)
           (f64_of_nat 0) False False inst) (\<lambda>inst.
       mbind (if (f64_gt ui_amount (f64_of_nat 0)) then mbind (get_fund env fund_name) (\<lambda>fund.
         mbind (get_vault_user_info env (fnd_fund_authority fund) vault_name) (\<lambda>vault_user_info.
         let lp_debt = (vui_lp_tokens_debt vault_user_info) in
         mbind (get_vault_lp_token_decimals env vault_name) (\<lambda>pool_token_decimals.
         mbind (mlift (client_tokens_to_ui_amount_with_decimals env lp_debt pool_token_decimals)) (\<lambda>ui.
         (if (f64_lt ui ui_amount) then mfail (InsufficientBalance (utf8_of
             ''Not enough unlocked tokens to remove''))
           else mret ())))))
         else mret ()) (\<lambda>_.
       mbind (new_instruction_fund_remove_liquidity_vault env admin_address fund_name vault_name ui_amount)
           (\<lambda>ix.
       let inst = inst @ [ix] in
       mret inst))))"

end
