(* ===== verification/Client_Send.thy ===== *)
theory Client_Send
  imports Client_Batches
begin

text \<open>
  Sending: \<open>sign_and_send_instructions\<close> with its retries, \<open>create_transaction\<close>, which cuts a list of instructions where a
  transaction gets too large, and \<open>sign_and_send_instructions_in_batches\<close>. Signing, the size of an encoded transaction and
  the node are arguments; the pause of five seconds between two attempts is time that passes in the environment.
\<close>

section \<open>One transaction\<close>

definition Signature_default :: Signature where
  "Signature_default = replicate 64 0"

datatype SendVerdict = TryAgain | AlreadyProcessed | GiveUp

definition string_ends_with :: "string \<Rightarrow> string \<Rightarrow> bool" where
  "string_ends_with s t = (length t \<le> length s \<and> drop (length s - length t) s = t)"

definition string_starts_with :: "string \<Rightarrow> string \<Rightarrow> bool" where
  "string_starts_with s t = (take (length t) s = t)"

text \<open>The codes of the node: preflight failure, block not available, node unhealthy.\<close>

fun send_verdict :: "SendError \<Rightarrow> SendVerdict" where
  "send_verdict (SendError_RpcResponseError code message) =
     (if code = -32005 \<or> code = -32004 \<or> code = -32002 \<and> string_ends_with message ''Blockhash not found'' then TryAgain
      else if code = -32002 \<and> string_ends_with message ''transaction has already been processed'' then AlreadyProcessed
      else GiveUp)"
| "send_verdict (SendError_ForUser msg) =
     (if string_starts_with msg ''unable to confirm transaction'' \<or> string_ends_with msg ''Please retry.'' then TryAgain
      else GiveUp)"
| "send_verdict (SendError_Reqwest timeout) = (if timeout then TryAgain else GiveUp)"
| "send_verdict SendError_Other = GiveUp"

fun send_error_message :: "SendError \<Rightarrow> string" where
  "send_error_message (SendError_RpcResponseError _ message) = message"
| "send_error_message (SendError_ForUser msg) = msg"
| "send_error_message (SendError_Reqwest _) = ''reqwest''"
| "send_error_message SendError_Other = ''other''"

definition send_and_confirm :: "ClientEnv \<Rightarrow> Transaction \<Rightarrow> (SendError + Signature) client" where
  "send_and_confirm env tx s = (COk (ce_send_and_confirm env (fc_io s) tx), s\<lparr> fc_io := fc_io s + 1 \<rparr>)"

text \<open>The attempts that are left, whether this is the first, the blockhash, and the signature of the attempt before.\<close>

fun send_loop ::
  "ClientEnv \<Rightarrow> pubkey list \<Rightarrow> Instruction list \<Rightarrow> nat \<Rightarrow> bool \<Rightarrow> bytes \<Rightarrow> Signature \<Rightarrow> Signature client" where
  "send_loop env keys instructions 0 first recent_blockhash prev_signature = mpanic"
| "send_loop env keys instructions (Suc left) first recent_blockhash prev_signature =
     mbind (if first then mret recent_blockhash
            else
              mbind (rpc_is_blockhash_valid env recent_blockhash) (\<lambda>valid.
                if valid then mret recent_blockhash else rpc_get_latest_blockhash env)) (\<lambda>recent_blockhash.
       let transaction = \<lparr> tx_instructions = instructions, tx_payer = hd keys, tx_signers = keys,
                           tx_blockhash = recent_blockhash \<rparr>
       in
         mbind (munwrap (ce_sign env transaction)) (\<lambda>signature.
         mbind (send_and_confirm env transaction) (\<lambda>result.
           case result of
             Inr confirmed \<Rightarrow> mret confirmed
           | Inl e \<Rightarrow>
               if left = 0 then mfail (RpcClientError (send_error_message e))
               else
                 (case send_verdict e of
                    TryAgain \<Rightarrow> send_loop env keys instructions left False recent_blockhash signature
                  | AlreadyProcessed \<Rightarrow> mret prev_signature
                  | GiveUp \<Rightarrow> mfail (RpcClientError (send_error_message e))))))"

definition sign_and_send_instructions :: "ClientEnv \<Rightarrow> pubkey list \<Rightarrow> Instruction list \<Rightarrow> Signature client" where
  "sign_and_send_instructions env keys instructions =
     (if keys = [] then mfail (ValueError (utf8_of ''No signers provided for instruction''))
      else
        mbind (rpc_get_latest_blockhash env) (\<lambda>recent_blockhash.
          send_loop env keys instructions 20 True recent_blockhash Signature_default))"

section \<open>Several transactions\<close>

definition get_transaction_size :: "ClientEnv \<Rightarrow> Instruction list \<Rightarrow> pubkey \<Rightarrow> nat client" where
  "get_transaction_size env instructions payer =
     mok_or (ce_transaction_size env instructions payer) (ParseError (utf8_of ''Failed to serialize transaction''))"

fun create_transaction_loop :: "ClientEnv \<Rightarrow> Instruction list \<Rightarrow> pubkey \<Rightarrow> nat list \<Rightarrow> (Instruction list \<times> nat) client" where
  "create_transaction_loop env instructions payer [] = mpanic"
| "create_transaction_loop env instructions payer (i # is) =
     mbind (get_transaction_size env (take i instructions) payer) (\<lambda>size.
       if size > 1644 then mret (take (i - 1) instructions, i - 1)
       else create_transaction_loop env instructions payer is)"

definition create_transaction :: "ClientEnv \<Rightarrow> Instruction list \<Rightarrow> pubkey \<Rightarrow> (Instruction list \<times> nat) client" where
  "create_transaction env instructions payer =
     mbind (if length instructions \<le> 1 then mret True
            else mbind (get_transaction_size env instructions payer) (\<lambda>size. mret (size \<le> 1644))) (\<lambda>fits.
       if fits then mret (instructions, length instructions)
       else create_transaction_loop env instructions payer [2..<length instructions + 1])"

lemma create_transaction_loop_range:
  assumes "create_transaction_loop env instructions payer is s = (COk (tx, n), s')"
  shows "\<exists>i\<in>set is. n = i - 1 \<and> tx = take n instructions"
  using assms
  by (induction "is" arbitrary: s)
    (auto simp: mbind_def mret_def mpanic_def mlift_def split: prod.splits cres.splits if_splits)

text \<open>A transaction holds at least one of the instructions that are left, so the batches come to an end.\<close>

lemma create_transaction_range:
  assumes "create_transaction env instructions payer s = (COk (tx, n), s')" and "instructions \<noteq> []"
  shows "0 < n" and "n \<le> length instructions" and "tx = take n instructions"
proof -
  have "tx = instructions \<and> n = length instructions \<or>
      (\<exists>t. create_transaction_loop env instructions payer [2..<length instructions + 1] t = (COk (tx, n), s'))"
    using assms(1)
    by (auto simp: create_transaction_def mbind_def mret_def split: prod.splits cres.splits if_splits)
  then have "0 < n \<and> n \<le> length instructions \<and> tx = take n instructions"
    using assms(2) by (fastforce dest: create_transaction_loop_range)
  then show "0 < n" "n \<le> length instructions" "tx = take n instructions" by simp_all
qed

function send_batches ::
  "ClientEnv \<Rightarrow> pubkey list \<Rightarrow> Instruction list \<Rightarrow> Signature list \<Rightarrow> FarmClient \<Rightarrow> Signature list cres \<times> FarmClient" where
  "send_batches env keys instructions signatures s =
     (if instructions = [] then (COk signatures, s)
      else
        case create_transaction env instructions (hd keys) s of
          (COk (_, batch_size), s') \<Rightarrow>
            (case sign_and_send_instructions env keys (take batch_size instructions) s' of
               (COk signature, s'') \<Rightarrow>
                 send_batches env keys (drop batch_size instructions) (signatures @ [signature]) s''
             | (CErr e, s'') \<Rightarrow> (CErr e, s'')
             | (CPanic, s'') \<Rightarrow> (CPanic, s''))
        | (CErr e, s') \<Rightarrow> (CErr e, s')
        | (CPanic, s') \<Rightarrow> (CPanic, s'))"
  by pat_completeness auto

termination send_batches
  by (relation "measure (\<lambda>(_, _, instructions, _). length instructions)")
    (auto dest!: create_transaction_range(1) [OF sym])

declare send_batches.simps [simp del]

definition sign_and_send_instructions_in_batches ::
  "ClientEnv \<Rightarrow> pubkey list \<Rightarrow> Instruction list \<Rightarrow> Signature list client" where
  "sign_and_send_instructions_in_batches env keys instructions =
     (if keys = [] then mfail (ValueError (utf8_of ''No signers provided for instruction''))
      else send_batches env keys instructions [])"

end
