(* ===== verification/Client_Actions.thy ===== *)
theory Client_Actions
  imports Client_Send
begin

text \<open>
  The calls of \<open>client.rs\<close> that change something on chain: each builds its instructions and sends them signed by the
  wallet it is given (\<open>signer\<close> stands for the key of the \<open>Signer\<close>).
\<close>

section \<open>Programs, accounts and tokens\<close>

definition set_program_admins :: "ClientEnv \<Rightarrow> pubkey \<Rightarrow> pubkey \<Rightarrow> (pubkey list) \<Rightarrow> u8 \<Rightarrow> Signature client" where
  "set_program_admins env admin_signer prog_id admin_signers min_signatures =
     mbind (new_instruction_set_program_admins env admin_signer prog_id admin_signers min_signatures) (\<lambda>inst.
     sign_and_send_instructions env [admin_signer] [inst])"

definition set_program_single_authority :: "ClientEnv \<Rightarrow> pubkey \<Rightarrow> pubkey \<Rightarrow> pubkey \<Rightarrow> Signature client" where
  "set_program_single_authority env admin_signer prog_id upgrade_authority =
     mbind (new_instruction_set_program_single_authority env admin_signer prog_id upgrade_authority) (\<lambda>inst.
     sign_and_send_instructions env [admin_signer] [inst])"

definition upgrade_program :: "ClientEnv \<Rightarrow> pubkey \<Rightarrow> pubkey \<Rightarrow> pubkey \<Rightarrow> Signature client" where
  "upgrade_program env admin_signer prog_id source_buffer_address =
     mbind (new_instruction_upgrade_program env admin_signer prog_id source_buffer_address) (\<lambda>inst.
     sign_and_send_instructions env [admin_signer] [inst])"

definition create_system_account ::
  "ClientEnv \<Rightarrow> pubkey \<Rightarrow> pubkey \<Rightarrow> u64 \<Rightarrow> usize \<Rightarrow> pubkey \<Rightarrow> Signature client" where
  "create_system_account env signer new_account_signer lamports space owner =
     mbind (new_instruction_create_system_account env signer new_account_signer lamports space owner) (\<lambda>inst.
     sign_and_send_instructions env [signer, new_account_signer] [inst])"

definition close_system_account :: "ClientEnv \<Rightarrow> pubkey \<Rightarrow> pubkey \<Rightarrow> Signature client" where
  "close_system_account env signer target_account_signer =
     mbind (new_instruction_close_system_account env signer target_account_signer) (\<lambda>inst.
     sign_and_send_instructions env [signer, target_account_signer] [inst])"

definition create_system_account_with_seed ::
  "ClientEnv \<Rightarrow> pubkey \<Rightarrow> pubkey \<Rightarrow> bytes \<Rightarrow> u64 \<Rightarrow> usize \<Rightarrow> pubkey \<Rightarrow> Signature client" where
  "create_system_account_with_seed env signer base_address seed lamports space owner =
     mbind (new_instruction_create_system_account_with_seed env signer base_address seed lamports space owner)
         (\<lambda>inst.
     sign_and_send_instructions env [signer] [inst])"

definition assign_system_account :: "ClientEnv \<Rightarrow> pubkey \<Rightarrow> pubkey \<Rightarrow> Signature client" where
  "assign_system_account env signer program =
     mbind (new_instruction_assign_system_account env signer program) (\<lambda>inst.
     sign_and_send_instructions env [signer] [inst])"

definition transfer :: "ClientEnv \<Rightarrow> pubkey \<Rightarrow> pubkey \<Rightarrow> f64 \<Rightarrow> Signature client" where
  "transfer env signer destination_wallet sol_ui_amount =
     mbind (new_instruction_transfer env signer destination_wallet sol_ui_amount) (\<lambda>inst.
     sign_and_send_instructions env [signer] [inst])"

definition wrap_sol :: "ClientEnv \<Rightarrow> pubkey \<Rightarrow> f64 \<Rightarrow> Signature client" where
  "wrap_sol env signer ui_amount =
     mbind (all_instructions_wrap_sol env signer ui_amount) (\<lambda>inst.
     sign_and_send_instructions env [signer] inst)"

definition unwrap_sol :: "ClientEnv \<Rightarrow> pubkey \<Rightarrow> Signature client" where
  "unwrap_sol env signer =
     mbind (all_instructions_unwrap_sol env signer) (\<lambda>inst.
     sign_and_send_instructions env [signer] inst)"

definition token_transfer :: "ClientEnv \<Rightarrow> pubkey \<Rightarrow> bytes \<Rightarrow> pubkey \<Rightarrow> f64 \<Rightarrow> Signature client" where
  "token_transfer env signer token_name destination_wallet ui_amount =
     mbind (all_instructions_token_transfer env signer token_name destination_wallet ui_amount) (\<lambda>inst.
     sign_and_send_instructions env [signer] inst)"

definition sync_token_balance :: "ClientEnv \<Rightarrow> pubkey \<Rightarrow> bytes \<Rightarrow> Signature client" where
  "sync_token_balance env signer token_name =
     mbind (new_instruction_sync_token_balance env signer token_name) (\<lambda>inst.
     sign_and_send_instructions env [signer] [inst])"

definition get_or_create_token_account :: "ClientEnv \<Rightarrow> pubkey \<Rightarrow> bytes \<Rightarrow> pubkey client" where
  "get_or_create_token_account env signer token_name =
     (let wallet_address = signer in
       mbind (get_associated_token_address env wallet_address token_name) (\<lambda>token_addr.
       mbind (mbind (has_active_token_account env wallet_address token_name) (\<lambda>b.
         (if \<not> b then mbind (new_instruction_create_token_account env wallet_address token_name) (\<lambda>inst.
           mbind (sign_and_send_instructions env [signer] [inst]) (\<lambda>_.
           mret ()))
           else mbind (check_ata_owner env signer token_name) (\<lambda>_.
           mret ())))) (\<lambda>_.
       mret token_addr)))"

definition close_token_account :: "ClientEnv \<Rightarrow> pubkey \<Rightarrow> bytes \<Rightarrow> Signature client" where
  "close_token_account env signer token_name =
     mbind (new_instruction_close_token_account env signer token_name) (\<lambda>inst.
     sign_and_send_instructions env [signer] [inst])"

section \<open>Vaults, pools and farms of a user\<close>

definition set_vault_admins :: "ClientEnv \<Rightarrow> pubkey \<Rightarrow> bytes \<Rightarrow> (pubkey list) \<Rightarrow> u8 \<Rightarrow> Signature client" where
  "set_vault_admins env admin_signer vault_name admin_signers min_signatures =
     mbind (new_instruction_set_vault_admins env admin_signer vault_name admin_signers min_signatures) (\<lambda>inst.
     sign_and_send_instructions env [admin_signer] [inst])"

definition remove_vault_multisig :: "ClientEnv \<Rightarrow> pubkey \<Rightarrow> bytes \<Rightarrow> Signature client" where
  "remove_vault_multisig env admin_signer vault_name =
     mbind (new_instruction_remove_vault_multisig env admin_signer vault_name) (\<lambda>inst.
     sign_and_send_instructions env [admin_signer] [inst])"

definition user_init_vault :: "ClientEnv \<Rightarrow> pubkey \<Rightarrow> bytes \<Rightarrow> Signature client" where
  "user_init_vault env signer vault_name =
     mbind (new_instruction_user_init_vault env signer vault_name) (\<lambda>inst.
     sign_and_send_instructions env [signer] [inst])"

definition add_liquidity_vault :: "ClientEnv \<Rightarrow> pubkey \<Rightarrow> bytes \<Rightarrow> f64 \<Rightarrow> f64 \<Rightarrow> Signature client" where
  "add_liquidity_vault env signer vault_name max_token_a_ui_amount max_token_b_ui_amount =
     mbind (all_instructions_add_liquidity_vault env signer vault_name max_token_a_ui_amount
         max_token_b_ui_amount) (\<lambda>inst.
     mbind (sign_and_send_instructions_in_batches env [signer] inst) (\<lambda>sign_and_send_instructions_in_batches.
     munwrap (last_of sign_and_send_instructions_in_batches)))"

definition add_locked_liquidity_vault :: "ClientEnv \<Rightarrow> pubkey \<Rightarrow> bytes \<Rightarrow> f64 \<Rightarrow> Signature client" where
  "add_locked_liquidity_vault env signer vault_name ui_amount =
     mbind (all_instructions_add_locked_liquidity_vault env signer vault_name ui_amount) (\<lambda>inst.
     sign_and_send_instructions env [signer] inst)"

definition remove_liquidity_vault :: "ClientEnv \<Rightarrow> pubkey \<Rightarrow> bytes \<Rightarrow> f64 \<Rightarrow> Signature client" where
  "remove_liquidity_vault env signer vault_name ui_amount =
     mbind (all_instructions_remove_liquidity_vault env signer vault_name ui_amount) (\<lambda>inst.
     mbind (sign_and_send_instructions_in_batches env [signer] inst) (\<lambda>sign_and_send_instructions_in_batches.
     munwrap (last_of sign_and_send_instructions_in_batches)))"

definition remove_unlocked_liquidity_vault :: "ClientEnv \<Rightarrow> pubkey \<Rightarrow> bytes \<Rightarrow> f64 \<Rightarrow> Signature client" where
  "remove_unlocked_liquidity_vault env signer vault_name ui_amount =
     mbind (all_instructions_remove_unlocked_liquidity_vault env signer vault_name ui_amount) (\<lambda>inst.
     sign_and_send_instructions env [signer] inst)"

definition add_liquidity_pool :: "ClientEnv \<Rightarrow> pubkey \<Rightarrow> bytes \<Rightarrow> f64 \<Rightarrow> f64 \<Rightarrow> Signature client" where
  "add_liquidity_pool env signer pool_name max_token_a_ui_amount max_token_b_ui_amount =
     mbind (all_instructions_add_liquidity_pool env signer pool_name max_token_a_ui_amount
         max_token_b_ui_amount) (\<lambda>inst.
     sign_and_send_instructions env [signer] inst)"

definition remove_liquidity_pool :: "ClientEnv \<Rightarrow> pubkey \<Rightarrow> bytes \<Rightarrow> f64 \<Rightarrow> Signature client" where
  "remove_liquidity_pool env signer pool_name ui_amount =
     mbind (all_instructions_remove_liquidity_pool env signer pool_name ui_amount) (\<lambda>inst.
     sign_and_send_instructions env [signer] inst)"

definition swap :: "ClientEnv \<Rightarrow> pubkey \<Rightarrow> Protocol \<Rightarrow> bytes \<Rightarrow> bytes \<Rightarrow> f64 \<Rightarrow> f64 \<Rightarrow> Signature client" where
  "swap env signer protocol from_token to_token ui_amount_in min_ui_amount_out =
     mbind (all_instructions_swap env signer protocol from_token to_token ui_amount_in min_ui_amount_out)
         (\<lambda>inst.
     sign_and_send_instructions env [signer] inst)"

definition user_init :: "ClientEnv \<Rightarrow> pubkey \<Rightarrow> bytes \<Rightarrow> Signature client" where
  "user_init env signer farm_name =
     mbind (new_instruction_user_init env signer farm_name) (\<lambda>inst.
     sign_and_send_instructions env [signer] [inst])"

definition stake :: "ClientEnv \<Rightarrow> pubkey \<Rightarrow> bytes \<Rightarrow> f64 \<Rightarrow> Signature client" where
  "stake env signer farm_name ui_amount =
     mbind (all_instructions_stake env signer farm_name ui_amount) (\<lambda>inst.
     sign_and_send_instructions env [signer] inst)"

definition unstake :: "ClientEnv \<Rightarrow> pubkey \<Rightarrow> bytes \<Rightarrow> f64 \<Rightarrow> Signature client" where
  "unstake env signer farm_name ui_amount =
     mbind (all_instructions_unstake env signer farm_name ui_amount) (\<lambda>inst.
     sign_and_send_instructions env [signer] inst)"

definition harvest :: "ClientEnv \<Rightarrow> pubkey \<Rightarrow> bytes \<Rightarrow> Signature client" where
  "harvest env signer farm_name =
     mbind (all_instructions_harvest env signer farm_name) (\<lambda>inst.
     sign_and_send_instructions env [signer] inst)"

definition unwrap_pool_tokens :: "ClientEnv \<Rightarrow> pubkey \<Rightarrow> bytes \<Rightarrow> Signature client" where
  "unwrap_pool_tokens env signer pool_name =
     (let inst = [] in
       mbind (pool_has_sol_tokens env pool_name) (\<lambda>(is_token_a_sol, is_token_b_sol).
       mbind (pool_has_saber_wrapped_tokens env pool_name) (\<lambda>(is_token_a_wrapped, is_token_b_wrapped).
       mbind (if is_token_a_wrapped then mbind (new_instruction_unwrap_token env signer pool_name
           TokenSelector_TokenA (f64_of_nat 0)) (\<lambda>ix.
         let inst = inst @ [ix] in
         mret inst)
         else mret inst) (\<lambda>inst.
       mbind (if is_token_b_wrapped then mbind (new_instruction_unwrap_token env signer pool_name
           TokenSelector_TokenB (f64_of_nat 0)) (\<lambda>ix.
         let inst = inst @ [ix] in
         mret inst)
         else mret inst) (\<lambda>inst.
       mbind (if (is_token_a_sol \<or> is_token_b_sol) then mbind (new_instruction_close_token_account env signer
           (utf8_of ''SOL'')) (\<lambda>ix.
         let inst = inst @ [ix] in
         mret inst)
         else mret inst) (\<lambda>inst.
       sign_and_send_instructions env [signer] inst))))))"

section \<open>The router\<close>

text \<open>Without on-chain initialization the account of a database is created first, by the administrator.\<close>

definition initialize_refdb ::
  "ClientEnv \<Rightarrow> pubkey \<Rightarrow> bytes \<Rightarrow> ReferenceType \<Rightarrow> usize \<Rightarrow> bool \<Rightarrow> Signature client" where
  "initialize_refdb env admin_signer refdb_name reference_type max_records init_account =
     mbind (if init_account \<and> \<not> REFDB_ONCHAIN_INIT then
              mbind (mlift (find_refdb_pda env refdb_name)) (\<lambda>refdb_address.
              mbind (mtry (rpc_get_account env refdb_address)) (\<lambda>r.
                case r of
                  Some refdb_account \<Rightarrow>
                    if rac_owner refdb_account \<noteq> ce_main_router env
                    then mfail (ValueError (utf8_of ''RefDB account owner mismatch '' @ ce_key_to_string env refdb_address))
                    else mret ()
                | None \<Rightarrow>
                    if admin_signer \<noteq> ce_main_router_admin env
                    then mfail (ValueError (utf8_of
                      ''RefDB init must be initially called with main_router_admin::id() if on-chain init is disabled''))
                    else
                      mbind (create_system_account_with_seed env admin_signer admin_signer refdb_name 0
                        (get_storage_size_for_records reference_type max_records) (ce_main_router env)) (\<lambda>_. mret ())))
            else mret ()) (\<lambda>_.
     mbind (new_instruction_refdb_init env admin_signer refdb_name reference_type (of_nat max_records) init_account) (\<lambda>ix.
       sign_and_send_instructions env [admin_signer] [ix]))"

definition set_admins :: "ClientEnv \<Rightarrow> pubkey \<Rightarrow> (pubkey list) \<Rightarrow> u8 \<Rightarrow> Signature client" where
  "set_admins env admin_signer admin_signers min_signatures =
     mbind (new_instruction_set_admins env admin_signer admin_signers min_signatures) (\<lambda>inst.
     sign_and_send_instructions env [admin_signer] [inst])"

definition drop_refdb :: "ClientEnv \<Rightarrow> pubkey \<Rightarrow> bytes \<Rightarrow> bool \<Rightarrow> Signature client" where
  "drop_refdb env admin_signer refdb_name close_account =
     mbind (new_instruction_refdb_drop env admin_signer refdb_name close_account) (\<lambda>inst.
     sign_and_send_instructions env [admin_signer] [inst])"

definition remove_reference :: "ClientEnv \<Rightarrow> pubkey \<Rightarrow> StorageType \<Rightarrow> bytes \<Rightarrow> Signature client" where
  "remove_reference env admin_signer storage_type object_name =
     mbind (new_instruction_remove_reference env admin_signer storage_type object_name) (\<lambda>inst.
     sign_and_send_instructions env [admin_signer] [inst])"

text \<open>What has been recorded or removed on chain is recorded or removed in the caches, once the transaction is confirmed.\<close>

definition send_then :: "ClientEnv \<Rightarrow> pubkey \<Rightarrow> Instruction \<Rightarrow> unit client \<Rightarrow> Signature client" where
  "send_then env admin_signer ix update =
     mbind (sign_and_send_instructions env [admin_signer] [ix]) (\<lambda>res. mbind update (\<lambda>_. mret res))"

definition relearn_latest :: "'a Kind \<Rightarrow> unit client" where
  "relearn_latest kd =
     (if kd_versioned kd then
        mbind (mget (\<lambda>s. reinsert_latest_versions (c_data (kd_refs kd s)) (kd_latest kd s))) (\<lambda>r.
        mbind (mlift r) (\<lambda>latest. mput (kd_map_latest kd (\<lambda>_. latest))))
      else mret ())"

definition learn_object :: "ClientEnv \<Rightarrow> 'a Kind \<Rightarrow> 'a \<Rightarrow> unit client" where
  "learn_object env kd x =
     mbind (mput (kd_map_objects kd (c_data_update (AList.update (kd_name kd x) x)))) (\<lambda>_.
     mbind (mlift (find_target_pda env (kd_storage kd) (kd_name kd x))) (\<lambda>key.
     mbind (mput (kd_map_refs kd (c_data_update (AList.update (kd_name kd x) key)))) (\<lambda>_.
       relearn_latest kd)))"

definition forget_object :: "'a Kind \<Rightarrow> bytes \<Rightarrow> unit client" where
  "forget_object kd name =
     mbind (mput (kd_map_objects kd (c_data_update (AList.delete name)))) (\<lambda>_.
     mbind (mput (kd_map_refs kd (c_data_update (AList.delete name)))) (\<lambda>_.
       relearn_latest kd))"

definition add_program_id ::
  "ClientEnv \<Rightarrow> pubkey \<Rightarrow> bytes \<Rightarrow> pubkey \<Rightarrow> ProgramIDType \<Rightarrow> usize option \<Rightarrow> Signature client" where
  "add_program_id env admin_signer name program_id program_id_type refdb_index =
     mbind (new_instruction_add_program_id env admin_signer name program_id program_id_type refdb_index) (\<lambda>ix.
       send_then env admin_signer ix (mput (fc_official_ids_update (c_data_update (AList.update name program_id)))))"

definition remove_program_id :: "ClientEnv \<Rightarrow> pubkey \<Rightarrow> bytes \<Rightarrow> Signature client" where
  "remove_program_id env admin_signer name =
     mbind (new_instruction_remove_program_id env admin_signer name) (\<lambda>ix.
       send_then env admin_signer ix (mput (fc_official_ids_update (c_data_update (AList.delete name)))))"

definition add_fund :: "ClientEnv \<Rightarrow> pubkey \<Rightarrow> Fund \<Rightarrow> Signature client" where
  "add_fund env admin_signer fund =
     mbind (new_instruction_add_fund env admin_signer fund) (\<lambda>ix.
       send_then env admin_signer ix (learn_object env fund_kind fund))"

definition remove_fund :: "ClientEnv \<Rightarrow> pubkey \<Rightarrow> bytes \<Rightarrow> Signature client" where
  "remove_fund env admin_signer fund_name =
     mbind (new_instruction_remove_fund env admin_signer fund_name) (\<lambda>ix.
       send_then env admin_signer ix (forget_object fund_kind fund_name))"

definition add_vault :: "ClientEnv \<Rightarrow> pubkey \<Rightarrow> Vault \<Rightarrow> Signature client" where
  "add_vault env admin_signer vault =
     mbind (new_instruction_add_vault env admin_signer vault) (\<lambda>ix.
       send_then env admin_signer ix (learn_object env vault_kind vault))"

definition remove_vault :: "ClientEnv \<Rightarrow> pubkey \<Rightarrow> bytes \<Rightarrow> Signature client" where
  "remove_vault env admin_signer vault_name =
     mbind (new_instruction_remove_vault env admin_signer vault_name) (\<lambda>ix.
       send_then env admin_signer ix (forget_object vault_kind vault_name))"

definition add_pool :: "ClientEnv \<Rightarrow> pubkey \<Rightarrow> Pool \<Rightarrow> Signature client" where
  "add_pool env admin_signer pool =
     mbind (new_instruction_add_pool env admin_signer pool) (\<lambda>ix.
       send_then env admin_signer ix (learn_object env pool_kind pool))"

definition remove_pool :: "ClientEnv \<Rightarrow> pubkey \<Rightarrow> bytes \<Rightarrow> Signature client" where
  "remove_pool env admin_signer pool_name =
     mbind (new_instruction_remove_pool env admin_signer pool_name) (\<lambda>ix.
       send_then env admin_signer ix (forget_object pool_kind pool_name))"

definition add_farm :: "ClientEnv \<Rightarrow> pubkey \<Rightarrow> Farm \<Rightarrow> Signature client" where
  "add_farm env admin_signer farm =
     mbind (new_instruction_add_farm env admin_signer farm) (\<lambda>ix.
       send_then env admin_signer ix (learn_object env farm_kind farm))"

definition remove_farm :: "ClientEnv \<Rightarrow> pubkey \<Rightarrow> bytes \<Rightarrow> Signature client" where
  "remove_farm env admin_signer farm_name =
     mbind (new_instruction_remove_farm env admin_signer farm_name) (\<lambda>ix.
       send_then env admin_signer ix (forget_object farm_kind farm_name))"

definition add_token :: "ClientEnv \<Rightarrow> pubkey \<Rightarrow> Token \<Rightarrow> Signature client" where
  "add_token env admin_signer token =
     mbind (new_instruction_add_token env admin_signer token) (\<lambda>ix.
       send_then env admin_signer ix (learn_object env token_kind token))"

definition remove_token :: "ClientEnv \<Rightarrow> pubkey \<Rightarrow> bytes \<Rightarrow> Signature client" where
  "remove_token env admin_signer token_name =
     mbind (new_instruction_remove_token env admin_signer token_name) (\<lambda>ix.
       send_then env admin_signer ix (forget_object token_kind token_name))"

section \<open>Administration of vaults\<close>

definition init_vault :: "ClientEnv \<Rightarrow> pubkey \<Rightarrow> bytes \<Rightarrow> u64 \<Rightarrow> Signature client" where
  "init_vault env admin_signer vault_name step =
     mbind (new_instruction_init_vault env admin_signer vault_name step) (\<lambda>inst.
     sign_and_send_instructions env [admin_signer] [inst])"

definition shutdown_vault :: "ClientEnv \<Rightarrow> pubkey \<Rightarrow> bytes \<Rightarrow> Signature client" where
  "shutdown_vault env admin_signer vault_name =
     mbind (new_instruction_shutdown_vault env admin_signer vault_name) (\<lambda>inst.
     sign_and_send_instructions env [admin_signer] [inst])"

definition crank_vault :: "ClientEnv \<Rightarrow> pubkey \<Rightarrow> bytes \<Rightarrow> u64 \<Rightarrow> Signature client" where
  "crank_vault env signer vault_name step =
     mbind (new_instruction_crank_vault env signer vault_name step) (\<lambda>inst.
     sign_and_send_instructions env [signer] [inst])"

definition crank_vaults :: "ClientEnv \<Rightarrow> pubkey \<Rightarrow> u64 \<Rightarrow> usize client" where
  "crank_vaults env signer step =
     mbind (get_vaults env) (\<lambda>vaults.
     mbind (mmap (\<lambda>vault_name. crank_vault env signer vault_name step) (map fst vaults)) (\<lambda>_.
       mret (length vaults)))"

definition withdraw_fees_vault ::
  "ClientEnv \<Rightarrow> pubkey \<Rightarrow> bytes \<Rightarrow> TokenSelector \<Rightarrow> f64 \<Rightarrow> pubkey \<Rightarrow> Signature client" where
  "withdraw_fees_vault env signer vault_name fee_token ui_amount receiver =
     mbind (new_instruction_withdraw_fees_vault env signer vault_name fee_token ui_amount receiver) (\<lambda>inst.
     sign_and_send_instructions env [signer] [inst])"

definition set_min_crank_interval_vault :: "ClientEnv \<Rightarrow> pubkey \<Rightarrow> bytes \<Rightarrow> u32 \<Rightarrow> Signature client" where
  "set_min_crank_interval_vault env admin_signer vault_name min_crank_interval =
     mbind (new_instruction_set_min_crank_interval_vault env admin_signer vault_name min_crank_interval) (\<lambda>inst.
     sign_and_send_instructions env [admin_signer] [inst])"

definition set_fee_vault :: "ClientEnv \<Rightarrow> pubkey \<Rightarrow> bytes \<Rightarrow> f32 \<Rightarrow> Signature client" where
  "set_fee_vault env admin_signer vault_name fee_percent =
     mbind (new_instruction_set_fee_vault env admin_signer vault_name fee_percent) (\<lambda>inst.
     sign_and_send_instructions env [admin_signer] [inst])"

definition set_external_fee_vault :: "ClientEnv \<Rightarrow> pubkey \<Rightarrow> bytes \<Rightarrow> f32 \<Rightarrow> Signature client" where
  "set_external_fee_vault env admin_signer vault_name external_fee_percent =
     mbind (new_instruction_set_external_fee_vault env admin_signer vault_name external_fee_percent) (\<lambda>inst.
     sign_and_send_instructions env [admin_signer] [inst])"

definition disable_deposits_vault :: "ClientEnv \<Rightarrow> pubkey \<Rightarrow> bytes \<Rightarrow> Signature client" where
  "disable_deposits_vault env admin_signer vault_name =
     mbind (new_instruction_disable_deposits_vault env admin_signer vault_name) (\<lambda>inst.
     sign_and_send_instructions env [admin_signer] [inst])"

definition enable_deposits_vault :: "ClientEnv \<Rightarrow> pubkey \<Rightarrow> bytes \<Rightarrow> Signature client" where
  "enable_deposits_vault env admin_signer vault_name =
     mbind (new_instruction_enable_deposits_vault env admin_signer vault_name) (\<lambda>inst.
     sign_and_send_instructions env [admin_signer] [inst])"

definition disable_withdrawals_vault :: "ClientEnv \<Rightarrow> pubkey \<Rightarrow> bytes \<Rightarrow> Signature client" where
  "disable_withdrawals_vault env admin_signer vault_name =
     mbind (new_instruction_disable_withdrawals_vault env admin_signer vault_name) (\<lambda>inst.
     sign_and_send_instructions env [admin_signer] [inst])"

definition enable_withdrawals_vault :: "ClientEnv \<Rightarrow> pubkey \<Rightarrow> bytes \<Rightarrow> Signature client" where
  "enable_withdrawals_vault env admin_signer vault_name =
     mbind (new_instruction_enable_withdrawals_vault env admin_signer vault_name) (\<lambda>inst.
     sign_and_send_instructions env [admin_signer] [inst])"

section \<open>Funds\<close>

definition set_fund_admins :: "ClientEnv \<Rightarrow> pubkey \<Rightarrow> bytes \<Rightarrow> (pubkey list) \<Rightarrow> u8 \<Rightarrow> Signature client" where
  "set_fund_admins env admin_signer fund_name admin_signers min_signatures =
     mbind (new_instruction_set_fund_admins env admin_signer fund_name admin_signers min_signatures) (\<lambda>inst.
     sign_and_send_instructions env [admin_signer] [inst])"

definition remove_fund_multisig :: "ClientEnv \<Rightarrow> pubkey \<Rightarrow> bytes \<Rightarrow> Signature client" where
  "remove_fund_multisig env admin_signer fund_name =
     mbind (new_instruction_remove_fund_multisig env admin_signer fund_name) (\<lambda>inst.
     sign_and_send_instructions env [admin_signer] [inst])"

definition add_fund_custody :: "ClientEnv \<Rightarrow> pubkey \<Rightarrow> bytes \<Rightarrow> bytes \<Rightarrow> FundCustodyType \<Rightarrow> Signature client" where
  "add_fund_custody env admin_signer fund_name token_name custody_type =
     mbind (new_instruction_add_fund_custody env admin_signer fund_name token_name custody_type) (\<lambda>inst.
     sign_and_send_instructions env [admin_signer] [inst])"

definition remove_fund_custody ::
  "ClientEnv \<Rightarrow> pubkey \<Rightarrow> bytes \<Rightarrow> bytes \<Rightarrow> FundCustodyType \<Rightarrow> Signature client" where
  "remove_fund_custody env admin_signer fund_name token_name custody_type =
     mbind (new_instruction_remove_fund_custody env admin_signer fund_name token_name custody_type) (\<lambda>inst.
     sign_and_send_instructions env [admin_signer] [inst])"

definition add_fund_vault :: "ClientEnv \<Rightarrow> pubkey \<Rightarrow> bytes \<Rightarrow> bytes \<Rightarrow> FundVaultType \<Rightarrow> Signature client" where
  "add_fund_vault env admin_signer fund_name vault_name vault_type =
     mbind (new_instruction_add_fund_vault env admin_signer fund_name vault_name vault_type) (\<lambda>inst.
     sign_and_send_instructions env [admin_signer] [inst])"

definition remove_fund_vault :: "ClientEnv \<Rightarrow> pubkey \<Rightarrow> bytes \<Rightarrow> bytes \<Rightarrow> FundVaultType \<Rightarrow> Signature client" where
  "remove_fund_vault env admin_signer fund_name vault_name vault_type =
     mbind (new_instruction_remove_fund_vault env admin_signer fund_name vault_name vault_type) (\<lambda>inst.
     sign_and_send_instructions env [admin_signer] [inst])"

definition init_fund :: "ClientEnv \<Rightarrow> pubkey \<Rightarrow> bytes \<Rightarrow> u64 \<Rightarrow> Signature client" where
  "init_fund env admin_signer fund_name step =
     mbind (new_instruction_init_fund env admin_signer fund_name step) (\<lambda>inst.
     sign_and_send_instructions env [admin_signer] [inst])"

definition user_init_fund :: "ClientEnv \<Rightarrow> pubkey \<Rightarrow> bytes \<Rightarrow> bytes \<Rightarrow> Signature client" where
  "user_init_fund env signer fund_name token_name =
     mbind (new_instruction_user_init_fund env signer fund_name token_name) (\<lambda>inst.
     sign_and_send_instructions env [signer] [inst])"

definition set_fund_assets_tracking_config ::
  "ClientEnv \<Rightarrow> pubkey \<Rightarrow> bytes \<Rightarrow> FundAssetsTrackingConfig \<Rightarrow> Signature client" where
  "set_fund_assets_tracking_config env admin_signer fund_name config =
     mbind (new_instruction_set_fund_assets_tracking_config env admin_signer fund_name config) (\<lambda>inst.
     sign_and_send_instructions env [admin_signer] [inst])"

definition set_fund_deposit_schedule :: "ClientEnv \<Rightarrow> pubkey \<Rightarrow> bytes \<Rightarrow> FundSchedule \<Rightarrow> Signature client" where
  "set_fund_deposit_schedule env admin_signer fund_name schedule =
     mbind (new_instruction_set_fund_deposit_schedule env admin_signer fund_name schedule) (\<lambda>inst.
     sign_and_send_instructions env [admin_signer] [inst])"

definition disable_deposits_fund :: "ClientEnv \<Rightarrow> pubkey \<Rightarrow> bytes \<Rightarrow> Signature client" where
  "disable_deposits_fund env signer fund_name =
     mbind (new_instruction_disable_deposits_fund env signer fund_name) (\<lambda>inst.
     sign_and_send_instructions env [signer] [inst])"

definition request_deposit_fund :: "ClientEnv \<Rightarrow> pubkey \<Rightarrow> bytes \<Rightarrow> bytes \<Rightarrow> f64 \<Rightarrow> Signature client" where
  "request_deposit_fund env signer fund_name token_name ui_amount =
     mbind (all_instructions_request_deposit_fund env signer fund_name token_name ui_amount) (\<lambda>inst.
     sign_and_send_instructions env [signer] inst)"

definition cancel_deposit_fund :: "ClientEnv \<Rightarrow> pubkey \<Rightarrow> bytes \<Rightarrow> bytes \<Rightarrow> Signature client" where
  "cancel_deposit_fund env signer fund_name token_name =
     mbind (new_instruction_cancel_deposit_fund env signer fund_name token_name) (\<lambda>inst.
     sign_and_send_instructions env [signer] [inst])"

definition approve_deposit_fund :: "ClientEnv \<Rightarrow> pubkey \<Rightarrow> bytes \<Rightarrow> pubkey \<Rightarrow> bytes \<Rightarrow> f64 \<Rightarrow> Signature client" where
  "approve_deposit_fund env admin_signer fund_name user_address token_name ui_amount =
     mbind (new_instruction_approve_deposit_fund env admin_signer user_address fund_name token_name ui_amount)
         (\<lambda>inst.
     sign_and_send_instructions env [admin_signer] [inst])"

definition deny_deposit_fund :: "ClientEnv \<Rightarrow> pubkey \<Rightarrow> bytes \<Rightarrow> pubkey \<Rightarrow> bytes \<Rightarrow> bytes \<Rightarrow> Signature client" where
  "deny_deposit_fund env admin_signer fund_name user_address token_name deny_reason =
     mbind (new_instruction_deny_deposit_fund env admin_signer user_address fund_name token_name deny_reason)
         (\<lambda>inst.
     sign_and_send_instructions env [admin_signer] [inst])"

definition set_fund_withdrawal_schedule :: "ClientEnv \<Rightarrow> pubkey \<Rightarrow> bytes \<Rightarrow> FundSchedule \<Rightarrow> Signature client" where
  "set_fund_withdrawal_schedule env admin_signer fund_name schedule =
     mbind (new_instruction_set_fund_withdrawal_schedule env admin_signer fund_name schedule) (\<lambda>inst.
     sign_and_send_instructions env [admin_signer] [inst])"

definition disable_withdrawals_fund :: "ClientEnv \<Rightarrow> pubkey \<Rightarrow> bytes \<Rightarrow> Signature client" where
  "disable_withdrawals_fund env signer fund_name =
     mbind (new_instruction_disable_withdrawals_fund env signer fund_name) (\<lambda>inst.
     sign_and_send_instructions env [signer] [inst])"

definition request_withdrawal_fund :: "ClientEnv \<Rightarrow> pubkey \<Rightarrow> bytes \<Rightarrow> bytes \<Rightarrow> f64 \<Rightarrow> Signature client" where
  "request_withdrawal_fund env signer fund_name token_name ui_amount =
     mbind (all_instructions_request_withdrawal_fund env signer fund_name token_name ui_amount) (\<lambda>inst.
     sign_and_send_instructions env [signer] inst)"

definition cancel_withdrawal_fund :: "ClientEnv \<Rightarrow> pubkey \<Rightarrow> bytes \<Rightarrow> bytes \<Rightarrow> Signature client" where
  "cancel_withdrawal_fund env signer fund_name token_name =
     mbind (new_instruction_cancel_withdrawal_fund env signer fund_name token_name) (\<lambda>inst.
     sign_and_send_instructions env [signer] [inst])"

definition approve_withdrawal_fund ::
  "ClientEnv \<Rightarrow> pubkey \<Rightarrow> bytes \<Rightarrow> pubkey \<Rightarrow> bytes \<Rightarrow> f64 \<Rightarrow> Signature client" where
  "approve_withdrawal_fund env admin_signer fund_name user_address token_name ui_amount =
     mbind (new_instruction_approve_withdrawal_fund env admin_signer user_address fund_name token_name
         ui_amount) (\<lambda>inst.
     sign_and_send_instructions env [admin_signer] [inst])"

definition deny_withdrawal_fund ::
  "ClientEnv \<Rightarrow> pubkey \<Rightarrow> bytes \<Rightarrow> pubkey \<Rightarrow> bytes \<Rightarrow> bytes \<Rightarrow> Signature client" where
  "deny_withdrawal_fund env admin_signer fund_name user_address token_name deny_reason =
     mbind (new_instruction_deny_withdrawal_fund env admin_signer user_address fund_name token_name
         deny_reason) (\<lambda>inst.
     sign_and_send_instructions env [admin_signer] [inst])"

definition lock_assets_fund :: "ClientEnv \<Rightarrow> pubkey \<Rightarrow> bytes \<Rightarrow> bytes \<Rightarrow> f64 \<Rightarrow> Signature client" where
  "lock_assets_fund env admin_signer fund_name token_name ui_amount =
     mbind (new_instruction_lock_assets_fund env admin_signer fund_name token_name ui_amount) (\<lambda>inst.
     sign_and_send_instructions env [admin_signer] [inst])"

definition unlock_assets_fund :: "ClientEnv \<Rightarrow> pubkey \<Rightarrow> bytes \<Rightarrow> bytes \<Rightarrow> f64 \<Rightarrow> Signature client" where
  "unlock_assets_fund env admin_signer fund_name token_name ui_amount =
     mbind (new_instruction_unlock_assets_fund env admin_signer fund_name token_name ui_amount) (\<lambda>inst.
     sign_and_send_instructions env [admin_signer] [inst])"

definition update_fund_assets_with_custody :: "ClientEnv \<Rightarrow> pubkey \<Rightarrow> bytes \<Rightarrow> u32 \<Rightarrow> Signature client" where
  "update_fund_assets_with_custody env signer fund_name custody_id =
     mbind (new_instruction_update_fund_assets_with_custody env signer fund_name custody_id) (\<lambda>inst.
     sign_and_send_instructions env [signer] [inst])"

definition update_fund_assets_with_custodies :: "ClientEnv \<Rightarrow> pubkey \<Rightarrow> bytes \<Rightarrow> usize client" where
  "update_fund_assets_with_custodies env signer fund_name =
     mbind (get_fund_custodies env fund_name) (\<lambda>custodies.
     mbind (mfoldl (\<lambda>() custody. (if \<not> (fcu_is_vault_token custody) then mbind (update_fund_assets_with_custody
         env signer fund_name (fcu_custody_id custody)) (\<lambda>_.
         mret ())
         else mret ())) () custodies) (\<lambda>().
     mret (length custodies)))"

definition update_fund_assets_with_vault :: "ClientEnv \<Rightarrow> pubkey \<Rightarrow> bytes \<Rightarrow> u32 \<Rightarrow> Signature client" where
  "update_fund_assets_with_vault env signer fund_name vault_id =
     mbind (new_instruction_update_fund_assets_with_vault env signer fund_name vault_id) (\<lambda>inst.
     sign_and_send_instructions env [signer] [inst])"

definition update_fund_assets_with_vaults :: "ClientEnv \<Rightarrow> pubkey \<Rightarrow> bytes \<Rightarrow> usize client" where
  "update_fund_assets_with_vaults env signer fund_name =
     mbind (get_fund_vaults env fund_name) (\<lambda>vaults.
     mbind (mfoldl (\<lambda>() vault. (if ((fva_vault_type vault) \<noteq> FundVaultType_Farm) then mbind
         (update_fund_assets_with_vault env signer fund_name (fva_vault_id vault)) (\<lambda>_.
         mret ())
         else mret ())) () vaults) (\<lambda>().
     mret (length vaults)))"

definition start_liquidation_fund :: "ClientEnv \<Rightarrow> pubkey \<Rightarrow> bytes \<Rightarrow> Signature client" where
  "start_liquidation_fund env signer fund_name =
     mbind (new_instruction_start_liquidation_fund env signer fund_name) (\<lambda>inst.
     sign_and_send_instructions env [signer] [inst])"

definition stop_liquidation_fund :: "ClientEnv \<Rightarrow> pubkey \<Rightarrow> bytes \<Rightarrow> Signature client" where
  "stop_liquidation_fund env admin_signer fund_name =
     mbind (new_instruction_stop_liquidation_fund env admin_signer fund_name) (\<lambda>inst.
     sign_and_send_instructions env [admin_signer] [inst])"

definition withdraw_fees_fund ::
  "ClientEnv \<Rightarrow> pubkey \<Rightarrow> bytes \<Rightarrow> bytes \<Rightarrow> FundCustodyType \<Rightarrow> f64 \<Rightarrow> pubkey \<Rightarrow> Signature client" where
  "withdraw_fees_fund env signer fund_name token_name custody_type ui_amount receiver =
     mbind (new_instruction_withdraw_fees_fund env signer fund_name token_name custody_type ui_amount receiver)
         (\<lambda>inst.
     sign_and_send_instructions env [signer] [inst])"

definition fund_add_liquidity_pool :: "ClientEnv \<Rightarrow> pubkey \<Rightarrow> bytes \<Rightarrow> bytes \<Rightarrow> f64 \<Rightarrow> f64 \<Rightarrow> Signature client" where
  "fund_add_liquidity_pool env admin_signer fund_name pool_name max_token_a_ui_amount max_token_b_ui_amount =
     mbind (all_instructions_fund_add_liquidity_pool env admin_signer fund_name pool_name max_token_a_ui_amount
         max_token_b_ui_amount) (\<lambda>inst.
     mbind (sign_and_send_instructions_in_batches env [admin_signer] inst)
         (\<lambda>sign_and_send_instructions_in_batches.
     munwrap (last_of sign_and_send_instructions_in_batches)))"

definition fund_remove_liquidity_pool :: "ClientEnv \<Rightarrow> pubkey \<Rightarrow> bytes \<Rightarrow> bytes \<Rightarrow> f64 \<Rightarrow> Signature client" where
  "fund_remove_liquidity_pool env admin_signer fund_name pool_name ui_amount =
     mbind (all_instructions_fund_remove_liquidity_pool env admin_signer fund_name pool_name ui_amount) (\<lambda>inst.
     mbind (sign_and_send_instructions_in_batches env [admin_signer] inst)
         (\<lambda>sign_and_send_instructions_in_batches.
     munwrap (last_of sign_and_send_instructions_in_batches)))"

definition fund_swap ::
  "ClientEnv \<Rightarrow> pubkey \<Rightarrow> bytes \<Rightarrow> Protocol \<Rightarrow> bytes \<Rightarrow> bytes \<Rightarrow> f64 \<Rightarrow> f64 \<Rightarrow> Signature client" where
  "fund_swap env admin_signer fund_name protocol from_token to_token ui_amount_in min_ui_amount_out =
     mbind (all_instructions_fund_swap env admin_signer fund_name protocol from_token to_token ui_amount_in
         min_ui_amount_out) (\<lambda>inst.
     mbind (sign_and_send_instructions_in_batches env [admin_signer] inst)
         (\<lambda>sign_and_send_instructions_in_batches.
     munwrap (last_of sign_and_send_instructions_in_batches)))"

definition fund_user_init_farm :: "ClientEnv \<Rightarrow> pubkey \<Rightarrow> bytes \<Rightarrow> bytes \<Rightarrow> Signature client" where
  "fund_user_init_farm env admin_signer fund_name farm_name =
     mbind (new_instruction_fund_user_init_farm env admin_signer fund_name farm_name) (\<lambda>inst.
     sign_and_send_instructions env [admin_signer] [inst])"

definition fund_stake :: "ClientEnv \<Rightarrow> pubkey \<Rightarrow> bytes \<Rightarrow> bytes \<Rightarrow> f64 \<Rightarrow> Signature client" where
  "fund_stake env admin_signer fund_name farm_name ui_amount =
     mbind (all_instructions_fund_stake env admin_signer fund_name farm_name ui_amount) (\<lambda>inst.
     mbind (sign_and_send_instructions_in_batches env [admin_signer] inst)
         (\<lambda>sign_and_send_instructions_in_batches.
     munwrap (last_of sign_and_send_instructions_in_batches)))"

definition fund_unstake :: "ClientEnv \<Rightarrow> pubkey \<Rightarrow> bytes \<Rightarrow> bytes \<Rightarrow> f64 \<Rightarrow> Signature client" where
  "fund_unstake env admin_signer fund_name farm_name ui_amount =
     mbind (all_instructions_fund_unstake env admin_signer fund_name farm_name ui_amount) (\<lambda>inst.
     mbind (sign_and_send_instructions_in_batches env [admin_signer] inst)
         (\<lambda>sign_and_send_instructions_in_batches.
     munwrap (last_of sign_and_send_instructions_in_batches)))"

definition fund_harvest :: "ClientEnv \<Rightarrow> pubkey \<Rightarrow> bytes \<Rightarrow> bytes \<Rightarrow> Signature client" where
  "fund_harvest env admin_signer fund_name farm_name =
     mbind (all_instructions_fund_harvest env admin_signer fund_name farm_name) (\<lambda>inst.
     mbind (sign_and_send_instructions_in_batches env [admin_signer] inst)
         (\<lambda>sign_and_send_instructions_in_batches.
     munwrap (last_of sign_and_send_instructions_in_batches)))"

definition fund_user_init_vault :: "ClientEnv \<Rightarrow> pubkey \<Rightarrow> bytes \<Rightarrow> bytes \<Rightarrow> Signature client" where
  "fund_user_init_vault env admin_signer fund_name vault_name =
     mbind (new_instruction_fund_user_init_vault env admin_signer fund_name vault_name) (\<lambda>inst.
     sign_and_send_instructions env [admin_signer] [inst])"

definition fund_add_liquidity_vault ::
  "ClientEnv \<Rightarrow> pubkey \<Rightarrow> bytes \<Rightarrow> bytes \<Rightarrow> f64 \<Rightarrow> f64 \<Rightarrow> Signature client" where
  "fund_add_liquidity_vault env admin_signer fund_name vault_name max_token_a_ui_amount max_token_b_ui_amount =
     mbind (all_instructions_fund_add_liquidity_vault env admin_signer fund_name vault_name
         max_token_a_ui_amount max_token_b_ui_amount) (\<lambda>inst.
     mbind (sign_and_send_instructions_in_batches env [admin_signer] inst)
         (\<lambda>sign_and_send_instructions_in_batches.
     munwrap (last_of sign_and_send_instructions_in_batches)))"

definition fund_add_locked_liquidity_vault ::
  "ClientEnv \<Rightarrow> pubkey \<Rightarrow> bytes \<Rightarrow> bytes \<Rightarrow> f64 \<Rightarrow> Signature client" where
  "fund_add_locked_liquidity_vault env admin_signer fund_name vault_name ui_amount =
     mbind (all_instructions_fund_add_locked_liquidity_vault env admin_signer fund_name vault_name ui_amount)
         (\<lambda>inst.
     mbind (sign_and_send_instructions_in_batches env [admin_signer] inst)
         (\<lambda>sign_and_send_instructions_in_batches.
     munwrap (last_of sign_and_send_instructions_in_batches)))"

definition fund_remove_liquidity_vault :: "ClientEnv \<Rightarrow> pubkey \<Rightarrow> bytes \<Rightarrow> bytes \<Rightarrow> f64 \<Rightarrow> Signature client" where
  "fund_remove_liquidity_vault env admin_signer fund_name vault_name ui_amount =
     mbind (all_instructions_fund_remove_liquidity_vault env admin_signer fund_name vault_name ui_amount)
         (\<lambda>inst.
     mbind (sign_and_send_instructions_in_batches env [admin_signer] inst)
         (\<lambda>sign_and_send_instructions_in_batches.
     munwrap (last_of sign_and_send_instructions_in_batches)))"

definition fund_remove_unlocked_liquidity_vault ::
  "ClientEnv \<Rightarrow> pubkey \<Rightarrow> bytes \<Rightarrow> bytes \<Rightarrow> f64 \<Rightarrow> Signature client" where
  "fund_remove_unlocked_liquidity_vault env admin_signer fund_name vault_name ui_amount =
     mbind (all_instructions_fund_remove_unlocked_liquidity_vault env admin_signer fund_name vault_name
         ui_amount) (\<lambda>inst.
     mbind (sign_and_send_instructions_in_batches env [admin_signer] inst)
         (\<lambda>sign_and_send_instructions_in_batches.
     munwrap (last_of sign_and_send_instructions_in_batches)))"

end
