(* ===== verification/Client_Batch_Properties.thy ===== *)
theory Client_Batch_Properties
  imports Client_Properties Client_Actions F64_Error
begin

text \<open>
  The properties of batches and of sending: who signs them, that a list of instructions is cut into transactions in
  order and completely, how often the node is asked, and what the checks before a batch guarantee.
\<close>

section \<open>Who signs a batch\<close>

definition only_signer :: "pubkey \<Rightarrow> Instruction \<Rightarrow> bool" where
  "only_signer w ix \<longleftrightarrow> set (signers ix) \<subseteq> {w}"

lemma only_signer_accounts [intro]:
  "sole_signer_or_none w (ins_accounts ix) \<Longrightarrow> only_signer w ix"
  "signed w ix \<Longrightarrow> only_signer w ix"
proof -
  show sole: "only_signer w ix" if "signed w ix" using signers_sole [OF that] by (simp add: only_signer_def)
  show "only_signer w ix" if "sole_signer_or_none w (ins_accounts ix)"
    using that sole by (auto simp: sole_signer_or_none_def only_signer_def signers_def)
qed

lemma returns_case_TokenAccountType [returns_intros]:
  "(\<And>a. returns P (f a)) \<Longrightarrow> returns P m \<Longrightarrow> returns P n \<Longrightarrow> returns P (case_TokenAccountType f m n t)"
  by (cases t) simp_all

text \<open>The accounts that the system and the token program document as signers.\<close>

definition sdk_signers :: "ClientEnv \<Rightarrow> bool" where
  "sdk_signers env \<longleftrightarrow>
     (\<forall>from to n. signers (ce_transfer env from to n) = [from]) \<and>
     (\<forall>payer wallet mint. signers (ce_create_associated_token_account env payer wallet mint) = [payer]) \<and>
     (\<forall>p from to owner n ix. ce_token_transfer env p from to owner [] n = Ok ix \<longrightarrow> signers ix = [owner]) \<and>
     (\<forall>p account ix. ce_token_sync_native env p account = Ok ix \<longrightarrow> signers ix = []) \<and>
     (\<forall>p account to owner ix. ce_token_close_account env p account to owner [] = Ok ix \<longrightarrow> signers ix = [owner])"

lemma returns_of_result: "(\<And>x. r = Ok x \<Longrightarrow> P x) \<Longrightarrow> returns P (mprog r)"
  by (rule returns_mprog)

lemma sdk_signersD:
  assumes "sdk_signers env"
  shows "only_signer from (ce_transfer env from to n)"
    and "only_signer payer (ce_create_associated_token_account env payer wallet mint)"
    and "ce_token_transfer env p from to owner [] n = Ok ix \<Longrightarrow> only_signer owner ix"
    and "ce_token_sync_native env p account = Ok ix \<Longrightarrow> only_signer w ix"
    and "ce_token_close_account env p account to owner [] = Ok ix \<Longrightarrow> only_signer owner ix"
  using assms by (auto simp: sdk_signers_def only_signer_def)

abbreviation batch_signed :: "pubkey \<Rightarrow> Instruction list \<Rightarrow> bool" where
  "batch_signed w \<equiv> list_all (only_signer w)"

lemma wallet_instructions_signed:
  assumes "sdk_signers env"
  shows "returns (only_signer w) (new_instruction_transfer env w to x)"
    and "returns (only_signer w) (new_instruction_token_transfer env w name to x)"
    and "returns (only_signer w) (new_instruction_sync_token_balance env w name)"
    and "returns (only_signer w) (new_instruction_create_token_account env w name)"
    and "returns (only_signer w) (new_instruction_close_token_account env w name)"
  unfolding new_instruction_transfer_def new_instruction_token_transfer_def new_instruction_sync_token_balance_def
    new_instruction_create_token_account_def new_instruction_close_token_account_def
  by (rule returns_intros returns_mprog | rule returns_any | (simp add: sdk_signersD [OF assms]; fail))+

lemmas wallet_signed = wallet_instructions_signed [THEN returns_weaken]

text \<open>The builders of one instruction, in the form in which a batch adds their result.\<close>

lemmas built_signed =
  pool_call.intros [THEN pool_call_signed, THEN returns_weaken]
  vault_call.intros [THEN vault_call_signed, THEN returns_weaken]
  fund_call.intros [THEN fund_call_signed, THEN returns_weaken]
  fund_pool_call.intros [THEN fund_pool_call_signed, THEN returns_weaken]

lemma batch_signed_append [intro]: "batch_signed w xs \<Longrightarrow> only_signer w x \<Longrightarrow> batch_signed w (xs @ [x])"
  by simp

lemma token_accounts_signed:
  assumes "sdk_signers env" and "batch_signed w xs"
  shows "returns (batch_signed w) (send_sol_to_wsol env w x xs)"
    and "returns (batch_signed w) (check_token_account env w token x xs)"
    and "returns (batch_signed w) (check_token_account_with_mint env w mint xs)"
proof -
  have send: "returns (batch_signed w) (send_sol_to_wsol env w x xs)" if "batch_signed w xs" for x xs
    unfolding send_sol_to_wsol_def
    by (rule wallet_signed [OF assms(1)] returns_intros | rule returns_any | (simp add: that; fail))+
  then show "returns (batch_signed w) (send_sol_to_wsol env w x xs)" using assms(2) .
  show "returns (batch_signed w) (check_token_account env w token x xs)"
    unfolding check_token_account_def
    by (rule send wallet_signed [OF assms(1)] returns_intros | rule returns_any | (simp add: assms(2); fail))+
  show "returns (batch_signed w) (check_token_account_with_mint env w mint xs)"
    unfolding check_token_account_with_mint_def
    by (rule returns_intros | rule returns_any | (simp add: assms(2) sdk_signersD [OF assms(1)]; fail))+
qed

lemmas token_accounts_checked = token_accounts_signed [THEN returns_weaken]

lemma wallet_checks_signed:
  assumes sdk: "sdk_signers env" and "batch_signed w xs"
  shows "returns (batch_signed w) (check_user_stake_account env w farm_name xs)"
    and "returns (batch_signed w) (check_pool_accounts env w pool_name a b lp check_lp xs)"
    and "returns (batch_signed w) (check_farm_accounts env w farm_name x xs)"
    and "returns (batch_signed w) (check_vault_accounts env w vault_name a b vt check_vt check_lp xs)"
    and "returns (batch_signed w) (check_fund_accounts env w fund_name token_name x xs)"
proof -
  have stake: "returns (batch_signed w) (check_user_stake_account env w farm_name xs)" if "batch_signed w xs" for xs
    unfolding check_user_stake_account_def
    by (rule built_signed returns_intros | rule returns_any | (simp add: that only_signer_accounts; fail))+
  then show "returns (batch_signed w) (check_user_stake_account env w farm_name xs)" using assms(2) .
  show "returns (batch_signed w) (check_pool_accounts env w pool_name a b lp check_lp xs)"
    unfolding check_pool_accounts_def
    by (assumption | rule assms(2) token_accounts_checked [OF sdk] returns_intros | rule returns_any)+
  show "returns (batch_signed w) (check_farm_accounts env w farm_name x xs)"
    unfolding check_farm_accounts_def
    by (assumption | rule assms(2) token_accounts_checked [OF sdk] stake [THEN returns_weaken] returns_intros
        | rule returns_any | (simp add: sdk_signersD [OF sdk]; fail))+
  show "returns (batch_signed w) (check_vault_accounts env w vault_name a b vt check_vt check_lp xs)"
    unfolding check_vault_accounts_def
    by (assumption | rule assms(2) token_accounts_checked [OF sdk] built_signed returns_intros
        | rule returns_any | (simp add: only_signer_accounts; fail))+
  show "returns (batch_signed w) (check_fund_accounts env w fund_name token_name x xs)"
    unfolding check_fund_accounts_def
    by (assumption | rule assms(2) token_accounts_checked [OF sdk] built_signed returns_intros
        | rule returns_any | (simp add: only_signer_accounts; fail))+
qed

lemma fund_checks_signed:
  assumes "batch_signed w xs"
  shows "returns (batch_signed w) (check_fund_custody env w fund_name token_name x xs)"
    and "returns (batch_signed w) (check_fund_pool_custodies env w fund_name pool_name a b lp check_lp xs)"
    and "returns (batch_signed w) (check_fund_farm_custodies env w fund_name farm_name x xs)"
    and "returns (batch_signed w) (check_fund_vault_custodies env w fund_name vault_name a b vt check_vt check_lp xs)"
proof -
  have custody: "returns (batch_signed w) (check_fund_custody env w fund_name token_name x xs)"
    if "batch_signed w xs" for token_name x xs
    unfolding check_fund_custody_def
    by (rule built_signed returns_intros | rule returns_any | (simp add: that only_signer_accounts; fail))+
  then show "returns (batch_signed w) (check_fund_custody env w fund_name token_name x xs)" using assms .
  have farm: "returns (batch_signed w) (check_fund_farm_user_account env w fund_name farm_name xs)"
    if "batch_signed w xs" for xs
    unfolding check_fund_farm_user_account_def
    by (rule built_signed returns_intros | rule returns_any | (simp add: that only_signer_accounts; fail))+
  have vault: "returns (batch_signed w) (check_fund_vault_user_account env w fund_name vault_name xs)"
    if "batch_signed w xs" for xs
    unfolding check_fund_vault_user_account_def
    by (rule built_signed returns_intros | rule returns_any | (simp add: that only_signer_accounts; fail))+
  show "returns (batch_signed w) (check_fund_pool_custodies env w fund_name pool_name a b lp check_lp xs)"
    unfolding check_fund_pool_custodies_def
    by (assumption | rule assms custody [THEN returns_weaken] returns_intros | rule returns_any)+
  show "returns (batch_signed w) (check_fund_farm_custodies env w fund_name farm_name x xs)"
    unfolding check_fund_farm_custodies_def
    by (assumption | rule assms custody [THEN returns_weaken] farm [THEN returns_weaken] returns_intros | rule returns_any)+
  show "returns (batch_signed w) (check_fund_vault_custodies env w fund_name vault_name a b vt check_vt check_lp xs)"
    unfolding check_fund_vault_custodies_def
    by (assumption | rule assms custody [THEN returns_weaken] vault [THEN returns_weaken] returns_intros | rule returns_any)+
qed

text \<open>The batches.\<close>

inductive batch_call :: "ClientEnv \<Rightarrow> pubkey \<Rightarrow> Instruction list client \<Rightarrow> bool" for env wallet where
  "batch_call env wallet (all_instructions_wrap_sol env wallet ui_amount)"
| "batch_call env wallet (all_instructions_unwrap_sol env wallet)"
| "batch_call env wallet (all_instructions_token_transfer env wallet token_name destination_wallet ui_amount)"
| "batch_call env wallet
     (all_instructions_add_liquidity_pool env wallet pool_name max_token_a_ui_amount max_token_b_ui_amount)"
| "batch_call env wallet (all_instructions_remove_liquidity_pool env wallet pool_name ui_amount)"
| "batch_call env wallet
     (all_instructions_swap env wallet protocol from_token to_token ui_amount_in min_ui_amount_out)"
| "batch_call env wallet (all_instructions_stake env wallet farm_name ui_amount)"
| "batch_call env wallet (all_instructions_unstake env wallet farm_name ui_amount)"
| "batch_call env wallet (all_instructions_harvest env wallet farm_name)"
| "batch_call env wallet
     (all_instructions_add_liquidity_vault env wallet vault_name max_token_a_ui_amount max_token_b_ui_amount)"
| "batch_call env wallet (all_instructions_add_locked_liquidity_vault env wallet vault_name ui_amount)"
| "batch_call env wallet (all_instructions_remove_unlocked_liquidity_vault env wallet vault_name ui_amount)"
| "batch_call env wallet (all_instructions_remove_liquidity_vault env wallet vault_name ui_amount)"
| "batch_call env wallet (all_instructions_request_deposit_fund env wallet fund_name token_name ui_amount)"
| "batch_call env wallet (all_instructions_request_withdrawal_fund env wallet fund_name token_name ui_amount)"
| "batch_call env wallet
     (all_instructions_fund_add_liquidity_pool env wallet fund_name pool_name max_token_a_ui_amount max_token_b_ui_amount)"
| "batch_call env wallet (all_instructions_fund_remove_liquidity_pool env wallet fund_name pool_name ui_amount)"
| "batch_call env wallet
     (all_instructions_fund_swap env wallet fund_name protocol from_token to_token ui_amount_in min_ui_amount_out)"
| "batch_call env wallet (all_instructions_fund_stake env wallet fund_name farm_name ui_amount)"
| "batch_call env wallet (all_instructions_fund_unstake env wallet fund_name farm_name ui_amount)"
| "batch_call env wallet (all_instructions_fund_harvest env wallet fund_name farm_name)"
| "batch_call env wallet
     (all_instructions_fund_add_liquidity_vault env wallet fund_name vault_name max_token_a_ui_amount max_token_b_ui_amount)"
| "batch_call env wallet
     (all_instructions_fund_add_locked_liquidity_vault env wallet fund_name vault_name ui_amount)"
| "batch_call env wallet (all_instructions_fund_remove_liquidity_vault env wallet fund_name vault_name ui_amount)"
| "batch_call env wallet
     (all_instructions_fund_remove_unlocked_liquidity_vault env wallet fund_name vault_name ui_amount)"

lemmas batch_defs =
  all_instructions_wrap_sol_def
  all_instructions_unwrap_sol_def
  all_instructions_token_transfer_def
  all_instructions_add_liquidity_pool_def
  all_instructions_remove_liquidity_pool_def
  all_instructions_swap_def
  all_instructions_stake_def
  all_instructions_unstake_def
  all_instructions_harvest_def
  all_instructions_add_liquidity_vault_def
  all_instructions_add_locked_liquidity_vault_def
  all_instructions_remove_unlocked_liquidity_vault_def
  all_instructions_remove_liquidity_vault_def
  all_instructions_request_deposit_fund_def
  all_instructions_request_withdrawal_fund_def
  all_instructions_fund_add_liquidity_pool_def
  all_instructions_fund_remove_liquidity_pool_def
  all_instructions_fund_swap_def
  all_instructions_fund_stake_def
  all_instructions_fund_unstake_def
  all_instructions_fund_harvest_def
  all_instructions_fund_add_liquidity_vault_def
  all_instructions_fund_add_locked_liquidity_vault_def
  all_instructions_fund_remove_liquidity_vault_def
  all_instructions_fund_remove_unlocked_liquidity_vault_def

lemma batch_call_signed:
  assumes sdk: "sdk_signers env" and "batch_call env w m"
  shows "returns (batch_signed w) m"
  using assms(2)
  by (induction rule: batch_call.induct; unfold batch_defs)
    (assumption | rule token_accounts_checked [OF sdk] wallet_checks_signed [OF sdk, THEN returns_weaken]
       fund_checks_signed [THEN returns_weaken] wallet_signed [OF sdk] built_signed returns_intros
     | rule returns_any | (simp add: only_signer_accounts sdk_signersD [OF sdk]; fail))+

text \<open>
  C18: Every instruction of every batch the client assembles, for a wallet or for a fund, needs no signature but that of
  the wallet given by the caller, provided the instructions of the system and the token program name the signers they
  document. So a transaction made of a batch can be signed by this wallet alone.
\<close>

theorem batch_sole_signer:
  assumes "sdk_signers env" and "batch_call env wallet m" and "m s = (COk instructions, s')" and "ix \<in> set instructions"
  shows "set (signers ix) \<subseteq> {wallet}"
  using batch_call_signed [OF assms(1,2), THEN returnsD, OF assms(3)] assms(4)
  by (simp add: list_all_iff only_signer_def)

lemma example_sdk_signers: "sdk_signers example_client_env"
  by (simp add: sdk_signers_def example_client_env_def example_instruction_def signers_def)

text \<open>A client that has loaded the token SOL.\<close>

definition sol_token :: Token where
  "sol_token = example_token\<lparr> tok_name := utf8_of ''SOL'', tok_token_type := TokenType_WrappedSol, tok_decimals := 9 \<rparr>"

definition token_client :: "nat \<Rightarrow> FarmClient" where
  "token_client n = (FarmClient_default example_client_env)
     \<lparr> fc_tokens := \<lparr> c_data = [(utf8_of ''SOL'', sol_token), ([82, 65, 89], example_token)], c_last_load = 0, c_counter = 1 \<rparr>,
       fc_token_refs := \<lparr> c_data = [(utf8_of ''SOL'', example_key 9), ([82, 65, 89], example_key 8)], c_last_load = 0, c_counter = 1 \<rparr>,
       fc_io := n \<rparr>"

lemma token_client_lookup:
  assumes "n < 1000" and "ce_now env = int"
  shows "get_token env (utf8_of ''SOL'') (token_client n) = (COk sol_token, token_client (n + 1))"
    and "get_token env [82, 65, 89] (token_client n) = (COk example_token, token_client (n + 1))"
  using assms
  by (simp_all add: get_token_def get_object_def fetch_object_def reload_refs_if_stale_def Cache_is_stale_def client_simps
      token_kind_def token_client_def resolve_def RELOAD_INTERVAL_def utf8_of_def)

theorem batch_sole_signer_witness:
  "\<exists>ix s'. all_instructions_unwrap_sol example_client_env (example_key 2) (token_client 0) = (COk [ix], s') \<and>
     set (signers ix) \<subseteq> {example_key 2}"
proof -
  have "ce_now example_client_env = int" by (simp add: example_client_env_def)
  then have "\<exists>ix s'. all_instructions_unwrap_sol example_client_env (example_key 2) (token_client 0) = (COk [ix], s')"
    using token_client_lookup(1) [of 0 example_client_env]
    by (simp add: all_instructions_unwrap_sol_def new_instruction_close_token_account_def get_associated_token_address_def
        client_simps example_client_env_def [THEN arg_cong [where f = ce_token_close_account]])
  then show ?thesis
    using batch_sole_signer [OF example_sdk_signers batch_call.intros(2)] by fastforce
qed


section \<open>Sending\<close>

definition transaction_of :: "pubkey list \<Rightarrow> Instruction list \<Rightarrow> bytes \<Rightarrow> Transaction" where
  "transaction_of keys instructions blockhash =
     \<lparr> tx_instructions = instructions, tx_payer = hd keys, tx_signers = keys, tx_blockhash = blockhash \<rparr>"

text \<open>What a result of sending means: the signature was confirmed, or the node said it had seen the transaction before.\<close>

definition refused ::
  "ClientEnv \<Rightarrow> pubkey list \<Rightarrow> Instruction list \<Rightarrow> SendVerdict \<Rightarrow> nat \<Rightarrow> bytes \<Rightarrow> bool" where
  "refused env keys instructions verdict i blockhash \<longleftrightarrow>
     (\<exists>e. ce_send_and_confirm env i (transaction_of keys instructions blockhash) = Inl e \<and> send_verdict e = verdict)"

definition send_outcome ::
  "ClientEnv \<Rightarrow> pubkey list \<Rightarrow> Instruction list \<Rightarrow> Signature \<Rightarrow> nat \<Rightarrow> nat \<Rightarrow> (nat \<times> bytes \<times> Signature) list
     \<Rightarrow> Signature cres \<Rightarrow> bool" where
  "send_outcome env keys instructions prev from to failed r \<longleftrightarrow>
     sorted_wrt (<) (map fst failed) \<and>
     (\<forall>(i, blockhash, signature) \<in> set failed. from \<le> i \<and> i < to \<and>
        refused env keys instructions TryAgain i blockhash \<and>
        ce_sign env (transaction_of keys instructions blockhash) = Some signature) \<and>
     (case r of
        COk signature \<Rightarrow>
          (\<exists>i blockhash. from \<le> i \<and> i < to \<and> (\<forall>j \<in> fst ` set failed. j < i) \<and>
             (ce_send_and_confirm env i (transaction_of keys instructions blockhash) = Inr signature \<or>
              refused env keys instructions AlreadyProcessed i blockhash \<and>
                signature = (if failed = [] then prev else snd (snd (last failed)))))
      | CErr e \<Rightarrow> \<exists>what. e = RpcClientError what
      | CPanic \<Rightarrow> \<exists>blockhash. ce_sign env (transaction_of keys instructions blockhash) = None)"

lemma send_outcomeI:
  "ce_send_and_confirm env i (transaction_of keys instructions h) = Inr sig \<Longrightarrow> from \<le> i \<Longrightarrow> i < to \<Longrightarrow>
    send_outcome env keys instructions prev from to [] (COk sig)"
  "ce_send_and_confirm env i (transaction_of keys instructions h) = Inl e \<Longrightarrow> send_verdict e = AlreadyProcessed \<Longrightarrow>
    from \<le> i \<Longrightarrow> i < to \<Longrightarrow> send_outcome env keys instructions prev from to [] (COk prev)"
  "send_outcome env keys instructions prev from to [] (CErr (RpcClientError what))"
  unfolding send_outcome_def refused_def by auto

lemma send_outcome_later:
  assumes "send_outcome env keys instructions signature from' to failed r" and "from \<le> i" and "i < from'" and "from' \<le> to"
    and "refused env keys instructions TryAgain i h" and "ce_sign env (transaction_of keys instructions h) = Some signature"
  shows "send_outcome env keys instructions prev from to ((i, h, signature) # failed) r"
proof -
  note old = assms(1) [unfolded send_outcome_def]
  have entries: "from' \<le> j \<and> j < to \<and> refused env keys instructions TryAgain j b \<and>
      ce_sign env (transaction_of keys instructions b) = Some x" if "(j, b, x) \<in> set failed" for j b x
    using old that by blast
  have later: "i < j" if "j \<in> fst ` set failed" for j using that entries assms(3) by fastforce
  have "sorted_wrt (<) (map fst ((i, h, signature) # failed))" using old later by simp
  moreover have "from \<le> j \<and> j < to \<and> refused env keys instructions TryAgain j b \<and>
      ce_sign env (transaction_of keys instructions b) = Some x" if "(j, b, x) \<in> set ((i, h, signature) # failed)" for j b x
    using that entries [of j b x] assms by auto
  moreover have "case r of
        COk sig \<Rightarrow>
          (\<exists>k b. from \<le> k \<and> k < to \<and> (\<forall>j \<in> fst ` set ((i, h, signature) # failed). j < k) \<and>
             (ce_send_and_confirm env k (transaction_of keys instructions b) = Inr sig \<or>
              refused env keys instructions AlreadyProcessed k b \<and>
                sig = (if (i, h, signature) # failed = [] then prev else snd (snd (last ((i, h, signature) # failed))))))
      | CErr e \<Rightarrow> \<exists>what. e = RpcClientError what
      | CPanic \<Rightarrow> \<exists>blockhash. ce_sign env (transaction_of keys instructions blockhash) = None"
  proof (cases r)
    case (COk sig)
    with old obtain k b where k: "from' \<le> k" "k < to" "\<forall>j \<in> fst ` set failed. j < k"
      "ce_send_and_confirm env k (transaction_of keys instructions b) = Inr sig \<or>
       refused env keys instructions AlreadyProcessed k b \<and> sig = (if failed = [] then signature else snd (snd (last failed)))"
      by auto
    then show ?thesis unfolding COk cres.case using assms(2,3) by (intro exI [of _ k] exI [of _ b]) auto
  qed (use old in auto)
  ultimately show ?thesis unfolding send_outcome_def by blast
qed

lemma send_outcome_earlier:
  assumes "send_outcome env keys instructions prev from' to failed r" and "from \<le> from'"
  shows "send_outcome env keys instructions prev from to failed r"
proof -
  note old = assms(1) [unfolded send_outcome_def]
  show ?thesis
  proof (cases r)
    case (COk sig)
    with old obtain k b where "from' \<le> k" "k < to" "\<forall>j \<in> fst ` set failed. j < k"
      "ce_send_and_confirm env k (transaction_of keys instructions b) = Inr sig \<or>
       refused env keys instructions AlreadyProcessed k b \<and> sig = (if failed = [] then prev else snd (snd (last failed)))"
      by auto
    then have "\<exists>k b. from \<le> k \<and> k < to \<and> (\<forall>j \<in> fst ` set failed. j < k) \<and>
      (ce_send_and_confirm env k (transaction_of keys instructions b) = Inr sig \<or>
       refused env keys instructions AlreadyProcessed k b \<and> sig = (if failed = [] then prev else snd (snd (last failed))))"
      using le_trans [OF assms(2)] by (intro exI [of _ k] exI [of _ b]) simp
    moreover have "\<forall>(i, blockhash, signature) \<in> set failed. from \<le> i \<and> i < to \<and>
        refused env keys instructions TryAgain i blockhash \<and>
        ce_sign env (transaction_of keys instructions blockhash) = Some signature"
      using old le_trans [OF assms(2)] by blast
    ultimately show ?thesis unfolding send_outcome_def COk cres.case using old by (intro conjI) blast+
  next
    case (CErr e)
    show ?thesis unfolding send_outcome_def CErr cres.case using old [unfolded CErr cres.case] assms(2) by fastforce
  next
    case CPanic
    show ?thesis unfolding send_outcome_def CPanic cres.case using old [unfolded CPanic cres.case] assms(2) by fastforce
  qed
qed

lemma rpc_blockhash:
  "fst (rpc_get_latest_blockhash env s) = CErr e \<Longrightarrow> \<exists>what. e = RpcClientError what"
  "snd (rpc_get_latest_blockhash env s) = s\<lparr> fc_io := fc_io s + 1 \<rparr>" "fst (rpc_get_latest_blockhash env s) \<noteq> CPanic"
  "fst (rpc_is_blockhash_valid env h s) = CErr e \<Longrightarrow> \<exists>what. e = RpcClientError what"
  "snd (rpc_is_blockhash_valid env h s) = s\<lparr> fc_io := fc_io s + 1 \<rparr>" "fst (rpc_is_blockhash_valid env h s) \<noteq> CPanic"
  by (auto simp: rpc_get_latest_blockhash_def rpc_is_blockhash_valid_def of_rpc_def split: sum.splits)

text \<open>The blockhash of one attempt.\<close>

lemma attempt_blockhash:
  assumes "(if first then mret h
            else mbind (rpc_is_blockhash_valid env h) (\<lambda>valid. if valid then mret h else rpc_get_latest_blockhash env)) s
     = (r, t)"
  shows "fc_io s \<le> fc_io t" and "fc_io t \<le> fc_io s + (if first then 0 else 2)"
    and "r \<noteq> CPanic" and "r = CErr e \<Longrightarrow> \<exists>what. e = RpcClientError what"
  using assms
  by (auto simp: mret_def mbind_def rpc_get_latest_blockhash_def rpc_is_blockhash_valid_def of_rpc_def
      split: if_splits sum.splits prod.splits cres.splits)

lemma send_loop_step:
  assumes "send_loop env keys instructions (Suc left) first h prev s = (r, s')"
  shows "send_outcome env keys instructions prev (fc_io s) (fc_io s') [] r \<and> fc_io s \<le> fc_io s' \<and>
      fc_io s' \<le> fc_io s + (if first then 1 else 3) \<or>
    left \<noteq> 0 \<and> (\<exists>i h' signature t. send_loop env keys instructions left False h' signature t = (r, s') \<and>
      fc_io s \<le> i \<and> i < fc_io t \<and> fc_io t \<le> fc_io s + (if first then 1 else 3) \<and>
      refused env keys instructions TryAgain i h' \<and>
      ce_sign env (transaction_of keys instructions h') = Some signature)"
proof -
  let ?blockhash = "if first then mret h
    else mbind (rpc_is_blockhash_valid env h) (\<lambda>valid. if valid then mret h else rpc_get_latest_blockhash env)"
  obtain rb t where b: "?blockhash s = (rb, t)" by fastforce
  note range = attempt_blockhash(1,2) [OF b]
  show ?thesis
  proof (cases rb)
    case CPanic
    then show ?thesis using attempt_blockhash(3) [OF b] by simp
  next
    case (CErr e)
    then have "r = CErr e \<and> s' = t" using assms b by (simp add: mbind_def [of ?blockhash])
    then show ?thesis using attempt_blockhash(4) [OF b] CErr range by (auto simp: send_outcome_def split: if_splits)
  next
    case (COk h')
    let ?tx = "transaction_of keys instructions h'"
    show ?thesis
    proof (cases "ce_sign env ?tx")
      case None
      then have "r = CPanic \<and> s' = t"
        using assms b COk by (simp add: mbind_def [of ?blockhash] munwrap_def mpanic_def mlift_def mbind_def Let_def transaction_of_def)
      then show ?thesis using None range by (auto simp: send_outcome_def split: if_splits)
    next
      case (Some signature)
      let ?t = "t\<lparr> fc_io := fc_io t + 1 \<rparr>"
      have run: "(case ce_send_and_confirm env (fc_io t) ?tx of
            Inr confirmed \<Rightarrow> mret confirmed
          | Inl e \<Rightarrow> if left = 0 then mfail (RpcClientError (send_error_message e))
              else case send_verdict e of
                     TryAgain \<Rightarrow> send_loop env keys instructions left False h' signature
                   | AlreadyProcessed \<Rightarrow> mret prev
                   | GiveUp \<Rightarrow> mfail (RpcClientError (send_error_message e))) ?t = (r, s')"
        using assms b COk Some
        by (simp add: mbind_def [of ?blockhash] munwrap_def mret_def mbind_def Let_def transaction_of_def send_and_confirm_def)
      show ?thesis
      proof (cases "ce_send_and_confirm env (fc_io t) ?tx")
        case (Inr confirmed)
        then have "r = COk confirmed" "s' = ?t" using run by (simp_all add: mret_def)
        then show ?thesis using send_outcomeI(1) [OF Inr] range by (simp split: if_splits)
      next
        case (Inl e)
        show ?thesis
        proof (cases "left \<noteq> 0 \<and> send_verdict e \<noteq> GiveUp")
          case False
          then have "r = CErr (RpcClientError (send_error_message e))" "s' = ?t"
            using run Inl by (auto simp: mfail_def split: if_splits)
          then show ?thesis using send_outcomeI(3) range by (simp split: if_splits)
        next
          case True
          show ?thesis
          proof (cases "send_verdict e")
            case AlreadyProcessed
            then have "r = COk prev" "s' = ?t" using run Inl True by (simp_all add: mret_def)
            then show ?thesis using send_outcomeI(2) [OF Inl AlreadyProcessed] range by (simp split: if_splits)
          next
            case TryAgain
            then have "send_loop env keys instructions left False h' signature ?t = (r, s')" using run Inl True by simp
            moreover have "fc_io s \<le> fc_io t \<and> fc_io t < fc_io ?t \<and> fc_io ?t \<le> fc_io s + (if first then 1 else 3)"
              using range by (simp split: if_splits)
            moreover have "refused env keys instructions TryAgain (fc_io t) h'" using Inl TryAgain by (simp add: refused_def)
            ultimately show ?thesis using True Some by blast
          qed (use True in simp)
        qed
      qed
    qed
  qed
qed

lemma send_loop_outcome:
  assumes "send_loop env keys instructions (Suc left) first h prev s = (r, s')"
  shows "\<exists>failed. length failed \<le> left \<and> send_outcome env keys instructions prev (fc_io s) (fc_io s') failed r \<and>
    fc_io s \<le> fc_io s' \<and> fc_io s' \<le> fc_io s + (if first then 1 else 3) + 3 * left"
  using assms
proof (induction left arbitrary: first h prev s)
  case 0
  from send_loop_step [OF this] show ?case by (intro exI [of _ "[]"]) simp
next
  case (Suc left)
  from send_loop_step [OF Suc.prems] show ?case
  proof (elim disjE conjE exE)
    fix i h' signature t
    assume "send_loop env keys instructions (Suc left) False h' signature t = (r, s')"
      and t: "fc_io s \<le> i" "i < fc_io t" "fc_io t \<le> fc_io s + (if first then 1 else 3)"
        "refused env keys instructions TryAgain i h'" "ce_sign env (transaction_of keys instructions h') = Some signature"
    from Suc.IH [OF this(1)] obtain failed where failed: "length failed \<le> left" "fc_io t \<le> fc_io s'"
        "fc_io s' \<le> fc_io t + 3 + 3 * left" "send_outcome env keys instructions signature (fc_io t) (fc_io s') failed r"
      by auto
    from send_outcome_later [OF failed(4) t(1,2) failed(2) t(4,5)] failed t show ?thesis
      by (intro exI [of _ "(i, h', signature) # failed"]) (auto split: if_splits)
  qed (intro exI [of _ "[]"], auto)
qed

lemma first_attempt_processed:
  assumes "ce_sign env (transaction_of keys instructions h) = Some signature"
    and "refused env keys instructions AlreadyProcessed (fc_io s) h"
  shows "\<exists>s'. send_loop env keys instructions (Suc (Suc left)) True h prev s = (COk prev, s')"
  using assms
  by (auto simp: refused_def mbind_def mret_def munwrap_def send_and_confirm_def Let_def transaction_of_def)


text \<open>A node that knows every transaction already.\<close>

definition forgetful_env :: ClientEnv where
  "forgetful_env = example_client_env
     \<lparr> ce_send_and_confirm := \<lambda>_ _. Inl (SendError_RpcResponseError (-32002) ''transaction has already been processed'') \<rparr>"


section \<open>Batches\<close>

definition fits :: "ClientEnv \<Rightarrow> pubkey \<Rightarrow> Instruction list \<Rightarrow> bool" where
  "fits env payer instructions \<longleftrightarrow>
     length instructions = 1 \<or> (\<exists>size. ce_transaction_size env instructions payer = Some size \<and> size \<le> 1644)"

lemma create_transaction_loop_fits:
  assumes "create_transaction_loop env instructions payer [k..<m] s = (COk (tx, n), s')" and "2 \<le> k" and "m \<le> length instructions + 1"
    and "fits env payer (take (k - 1) instructions)"
  shows "fits env payer tx"
  using assms
proof (induction "m - k" arbitrary: k s)
  case 0
  then show ?case by (simp add: mpanic_def mlift_def)
next
  case (Suc d)
  then have k: "[k..<m] = k # [Suc k..<m]" by (simp add: upt_rec)
  from Suc.prems(1) obtain size where size: "ce_transaction_size env (take k instructions) payer = Some size"
    unfolding k by (auto simp: get_transaction_size_def mbind_def mok_or_def mfail_def mret_def split: option.splits)
  show ?case
  proof (cases "size > 1644")
    case True
    then show ?thesis using Suc.prems(1,4) size unfolding k
      by (auto simp: get_transaction_size_def mbind_def mok_or_def mret_def)
  next
    case False
    then have "create_transaction_loop env instructions payer [Suc k..<m] s = (COk (tx, n), s')"
      using Suc.prems(1) size unfolding k by (simp add: get_transaction_size_def mbind_def mok_or_def mret_def)
    moreover have "fits env payer (take (Suc k - 1) instructions)" using False size by (simp add: fits_def)
    ultimately show ?thesis using Suc.hyps(1) [of "Suc k" s] Suc.hyps(2) Suc.prems(2,3) by simp
  qed
qed

lemma create_transaction_fits:
  assumes "create_transaction env instructions payer s = (COk (tx, n), s')" and "instructions \<noteq> []"
  shows "fits env payer (take n instructions)"
proof -
  have one: "fits env payer (take 1 instructions)" using assms(2) by (cases instructions) (simp_all add: fits_def)
  have "tx = instructions \<and> fits env payer tx \<or>
      (\<exists>t. create_transaction_loop env instructions payer [2..<length instructions + 1] t = (COk (tx, n), s'))"
    using assms
    by (cases "instructions") (auto simp: create_transaction_def mbind_def mret_def get_transaction_size_def mok_or_def
        mfail_def fits_def split: prod.splits cres.splits if_splits option.splits)
  then have "fits env payer tx"
    using create_transaction_loop_fits [of env instructions payer 2 "length instructions + 1"] one by auto
  then show ?thesis using create_transaction_range(3) [OF assms] by simp
qed

text \<open>
  C19: A list of instructions is sent completely and in order: when \<open>sign_and_send_instructions_in_batches\<close> returns, the list
  is cut into one group for each signature, each group fits into a transaction or is a single instruction, and the
  signature is the result of sending this group. It always returns, since every transaction takes an instruction.
\<close>

theorem batches_partition:
  assumes "sign_and_send_instructions_in_batches env keys instructions s = (COk signatures, s')"
  shows "\<exists>groups. concat groups = instructions \<and>
    list_all2 (\<lambda>group signature. group \<noteq> [] \<and> fits env (hd keys) group \<and>
      (\<exists>t t'. sign_and_send_instructions env keys group t = (COk signature, t'))) groups signatures"
proof -
  let ?sent = "\<lambda>group signature. group \<noteq> [] \<and> fits env (hd keys) group \<and>
      (\<exists>t t'. sign_and_send_instructions env keys group t = (COk signature, t'))"
  have "\<exists>groups new. concat groups = instructions \<and> signatures = before @ new \<and> list_all2 ?sent groups new"
    if "send_batches env keys instructions before t = (COk signatures, s')" for before t
    using that
  proof (induction env keys instructions before t rule: send_batches.induct)
    case (1 env keys instructions before t)
    show ?case
    proof (cases "instructions = []")
      case True
      then show ?thesis using "1.prems" by (intro exI [of _ "[]"]) (simp add: send_batches.simps)
    next
      case False
      with "1.prems" obtain tx n t1 signature t2 where
        created: "create_transaction env instructions (hd keys) t = (COk (tx, n), t1)" and
        sent: "sign_and_send_instructions env keys (take n instructions) t1 = (COk signature, t2)" and
        rest: "send_batches env keys (drop n instructions) (before @ [signature]) t2 = (COk signatures, s')"
        by (subst (asm) send_batches.simps) (auto split: prod.splits cres.splits)
      from "1.IH" [OF False created [symmetric] refl refl sent [symmetric] refl rest]
      obtain groups new where "concat groups = drop n instructions" "signatures = (before @ [signature]) @ new"
        "list_all2 (\<lambda>group signature. group \<noteq> [] \<and> fits env (hd keys) group \<and>
          (\<exists>t t'. sign_and_send_instructions env keys group t = (COk signature, t'))) groups new"
        by blast
      moreover have "take n instructions \<noteq> []" using create_transaction_range [OF created False] False by simp
      ultimately show ?thesis using sent create_transaction_fits [OF created False]
        by (intro exI [of _ "take n instructions # groups"] exI [of _ "signature # new"]) auto
    qed
  qed
  from this [of "[]"] show ?thesis
    using assms by (auto simp: sign_and_send_instructions_in_batches_def mfail_def split: if_splits)
qed


theorem batches_partition_witness:
  "\<exists>signatures s' groups. sign_and_send_instructions_in_batches example_client_env [example_key 2]
       (replicate 3 (example_instruction [])) (FarmClient_default example_client_env) = (COk signatures, s') \<and>
     concat groups = replicate 3 (example_instruction []) \<and> length groups = 2"
proof -
  let ?ix = "example_instruction []"
  have send: "sign_and_send_instructions example_client_env [example_key 2] xs s = (COk [1], s\<lparr> fc_io := fc_io s + 2 \<rparr>)" for xs s
    by (simp add: sign_and_send_instructions_def rpc_get_latest_blockhash_def of_rpc_def example_client_env_def
        eval_nat_numeral client_simps munwrap_def send_and_confirm_def)
  have "create_transaction example_client_env [?ix, ?ix, ?ix] p s = (COk ([?ix, ?ix], 2), s)"
    and "create_transaction example_client_env [?ix] p s = (COk ([?ix], 1), s)" for p s
    by (simp_all add: create_transaction_def get_transaction_size_def client_simps example_client_env_def upt_rec)
  then have "\<exists>s'. sign_and_send_instructions_in_batches example_client_env [example_key 2]
       (replicate 3 ?ix) (FarmClient_default example_client_env) = (COk [[1], [1]], s')"
    using send by (simp add: sign_and_send_instructions_in_batches_def send_batches.simps eval_nat_numeral)
  then obtain s' where run: "sign_and_send_instructions_in_batches example_client_env [example_key 2]
       (replicate 3 ?ix) (FarmClient_default example_client_env) = (COk [[1], [1]], s')" by blast
  from batches_partition [OF this] run show ?thesis by (fastforce dest: list_all2_lengthD)
qed

section \<open>Checks\<close>

text \<open>Computations that never return, and results with the evidence that a part has returned.\<close>

lemma returns_never: "returns (\<lambda>_. False) m \<Longrightarrow> m s = (r, s') \<Longrightarrow> r \<noteq> COk x"
  by (auto simp: returns_def)

lemma never_first: "returns (\<lambda>_. False) m \<Longrightarrow> returns P (mbind m f)"
  by (auto simp: returns_def mbind_def split: prod.splits cres.splits)

lemma never_rest: "(\<And>x. returns (\<lambda>_. False) (f x)) \<Longrightarrow> returns (\<lambda>_. False) (mbind m f)"
  by (rule returns_mbind, rule returns_any)

lemma returns_evidence: "(\<And>x t t'. m t = (COk x, t') \<Longrightarrow> returns P (f x)) \<Longrightarrow> returns P (mbind m f)"
  by (auto simp: returns_def mbind_def split: prod.splits cres.splits)

lemma no_self_transfer: "returns (\<lambda>_. False) (new_instruction_transfer env wallet wallet x)"
  by (simp add: new_instruction_transfer_def returns_stop)

lemma no_sol_to_deposit: "returns (\<lambda>_. False) (sol_to_deposit env wallet)"
  unfolding sol_to_deposit_def by (rule never_first [OF no_self_transfer] | rule never_rest)+

text \<open>
  C22: A deposit of zero SOL should deposit all SOL of the wallet but the rent and the fees. It never succeeds, whatever the
  wallet holds: the fee is estimated for a transfer of the wallet to itself, which \<open>new_instruction_transfer\<close> rejects.
\<close>

theorem deposit_of_all_sol_fails:
  assumes "request_deposit_fund env wallet fund_name (utf8_of ''SOL'') ui_amount s = (r, s')"
    and "f64_eq ui_amount (f64_of_nat 0)"
  shows "r \<noteq> COk signature"
proof -
  have "returns (\<lambda>_. False) (check_fund_accounts env wallet fund_name (utf8_of ''SOL'') ui_amount instructions)" for instructions
    by (simp only: check_fund_accounts_def assms(2) simp_thms if_True)
      (rule never_first [OF no_sol_to_deposit] | rule never_rest)+
  then have "returns (\<lambda>_. False) (all_instructions_request_deposit_fund env wallet fund_name (utf8_of ''SOL'') ui_amount)"
    unfolding all_instructions_request_deposit_fund_def Let_def by (rule never_first)
  then have "returns (\<lambda>_. False) (request_deposit_fund env wallet fund_name (utf8_of ''SOL'') ui_amount)"
    unfolding request_deposit_fund_def by (rule never_first)
  then show ?thesis using assms(1) by (rule returns_never)
qed

theorem deposit_of_all_sol_fails_witness:
  "\<forall>signature. fst (request_deposit_fund example_client_env (example_key 2) [70] (utf8_of ''SOL'') (f64_of_nat 0) (token_client 0)) \<noteq>
     COk signature"
proof -
  have "f64_eq (f64_of_nat 0) (f64_of_nat 0)" using f64_compare_is(2) [OF f64_of_nat_is f64_of_nat_is, of 0 0] by simp
  then show ?thesis
    using deposit_of_all_sol_fails [OF surjective_pairing] by blast
qed

lemma token_check_reads:
  assumes "check_token_account env wallet (Some token) ui_amount instructions s = (COk instructions', s')"
    and "f64_gt ui_amount (f64_of_nat 0)" and "tok_token_type token \<noteq> TokenType_WrappedSol"
  shows "instructions' = instructions \<and>
    (\<exists>t balance. has_active_token_account env wallet (tok_name token) s = (COk True, t) \<and>
       get_token_account_balance env wallet (tok_name token) t = (COk balance, s') \<and> \<not> f64_lt balance ui_amount)"
  using assms
  by (auto simp: check_token_account_def mbind_def mret_def mfail_def Let_def split: prod.splits cres.splits if_splits)

lemma sol_check_extends:
  assumes "tok_token_type token = TokenType_WrappedSol"
  shows "returns (\<lambda>xs. \<exists>new. xs = instructions @ new) (check_token_account env wallet (Some token) ui_amount instructions)"
  unfolding check_token_account_def option.case send_sol_to_wsol_def using assms
  by (intro returns_evidence returns_Let returns_mret returns_if returns_stop | simp)+

text \<open>
  C21: A check of a token account that succeeds for a positive amount of a token other than SOL has asked for the account
  and found it active, has then read its balance, which is not below the amount, and leaves the batch as it is. For SOL
  it may only extend the batch.
\<close>

theorem token_account_covered:
  assumes "check_token_account env wallet (Some token) ui_amount instructions s = (COk instructions', s')"
    and "f64_gt ui_amount (f64_of_nat 0)"
  shows "(\<exists>new. instructions' = instructions @ new) \<and>
    (tok_token_type token \<noteq> TokenType_WrappedSol \<longrightarrow>
      instructions' = instructions \<and>
      (\<exists>t balance. has_active_token_account env wallet (tok_name token) s = (COk True, t) \<and>
         get_token_account_balance env wallet (tok_name token) t = (COk balance, s') \<and> \<not> f64_lt balance ui_amount))"
  using token_check_reads [OF assms] returnsD [OF sol_check_extends assms(1)] by auto

text \<open>A node on which every account is an active token account with a balance of 5.\<close>

definition rich_env :: ClientEnv where
  "rich_env = example_client_env
     \<lparr> ce_get_account_data := \<lambda>_ _. Inr [1],
       ce_parse_token := \<lambda>_ _. Inr (TokenAccountType_Account
         \<lparr> uta_mint = [], uta_owner = [], uta_state = UiAccountState_Initialized \<rparr>),
       ce_get_token_account_balance := \<lambda>_ _. Inr ([53], Some (f64_of_nat 5)) \<rparr>"

theorem token_account_covered_witness:
  "\<exists>s'. check_token_account rich_env (example_key 2) (Some example_token) (f64_of_nat 3) [] (token_client 0) = (COk [], s') \<and>
     (\<exists>t balance. has_active_token_account rich_env (example_key 2) [82, 65, 89] (token_client 0) = (COk True, t) \<and>
        get_token_account_balance rich_env (example_key 2) [82, 65, 89] t = (COk balance, s') \<and> \<not> f64_lt balance (f64_of_nat 3))"
proof -
  have small: "f64_gt (f64_of_nat 3) (f64_of_nat 0)" "\<not> f64_lt (f64_of_nat 5) (f64_of_nat 3)"
    using f64_compare_is(1) [OF f64_of_nat_is f64_of_nat_is, of 0 3] f64_compare_is(1) [OF f64_of_nat_is f64_of_nat_is, of 5 3] by simp_all
  have env: "ce_now rich_env = int" by (simp add: rich_env_def example_client_env_def)
  have io [simp]: "(token_client n)\<lparr> fc_io := m \<rparr> = token_client m" "fc_io (token_client n) = n" for n m
    by (simp_all add: token_client_def)
  let ?account = "\<lparr> uta_mint = [], uta_owner = [], uta_state = UiAccountState_Initialized \<rparr>"
  have node: "rpc_get_account_data rich_env k (token_client n) = (COk [1], token_client (n + 1))"
    "parse_token rich_env d u (token_client n) = (COk (TokenAccountType_Account ?account), token_client n)"
    "rpc_get_token_account_balance rich_env k (token_client n) = (COk ([53], Some (f64_of_nat 5)), token_client (n + 1))" for k d u n
    by (simp_all add: rpc_get_account_data_def of_rpc_def parse_token_def mret_def rpc_get_token_account_balance_def rich_env_def)
  have token: "get_token rich_env (tok_name example_token) (token_client n) = (COk example_token, token_client (n + 1))"
    if "n < 1000" for n
    using token_client_lookup(2) [OF that env] by (simp add: example_token_def)
  have address: "get_associated_token_address rich_env w (tok_name example_token) (token_client n) =
      (COk (ce_get_associated_token_address rich_env w (tok_mint example_token)), token_client (n + 1))" if "n < 1000" for w n
    using token [OF that] by (simp add: get_associated_token_address_def mbind_def mret_def)
  have data: "get_token_account_data rich_env w (tok_name example_token) (token_client 0) = (COk ?account, token_client (Suc (Suc (Suc 0))))" for w
    using address [of 0] token [of "Suc (Suc 0)"] node by (simp add: get_token_account_data_def mbind_def mret_def)
  have balance: "get_token_account_balance rich_env w (tok_name example_token) (token_client (Suc (Suc (Suc 0)))) =
      (COk (f64_of_nat 5), token_client (Suc (Suc (Suc (Suc (Suc 0))))))" for w
    using address [of "Suc (Suc (Suc 0))"] node
    by (simp add: get_token_account_balance_def get_token_account_balance_with_address_def mbind_def mtry_def mret_def
        example_token_def utf8_of_def)
  have "\<exists>s'. check_token_account rich_env (example_key 2) (Some example_token) (f64_of_nat 3) [] (token_client 0) = (COk [], s')"
    using small data balance
    by (simp add: check_token_account_def has_active_token_account_def mbind_def mtry_def mret_def)
  then show ?thesis
    using token_account_covered [OF _ small(1), of rich_env "example_key 2" example_token "[]" "token_client 0"]
    by (fastforce simp: example_token_def)
qed

section \<open>Learning\<close>

text \<open>
  A pool whose record the client has written is found under its name from then on without another request, unless the
  addresses have gone stale or the name is also one that leads to a later version.
\<close>

theorem added_pool_found:
  assumes "add_pool env admin pool s = (COk signature, s')"
    and "\<And>i. ce_now env i - c_last_load (fc_pool_refs s') < RELOAD_INTERVAL"
    and "map_of (fc_latest_pools s') (pl_name pool) = None"
  shows "fst (get_pool env (pl_name pool) s') = COk pool"
proof -
  let ?name = "pl_name pool"
  obtain t key latest where "reinsert_latest_versions (AList.update ?name key (c_data (fc_pool_refs t))) (fc_latest_pools t) = COk latest"
    and s': "s' = t\<lparr> fc_pools := c_data_update (AList.update ?name pool) (fc_pools t),
      fc_pool_refs := c_data_update (AList.update ?name key) (fc_pool_refs t), fc_latest_pools := latest \<rparr>"
    using assms(1)
    by (auto simp: add_pool_def send_then_def learn_object_def relearn_latest_def client_simps pool_kind_def
        split: prod.splits cres.splits)
  have "AList.update ?name key (c_data (fc_pool_refs t)) \<noteq> []" by (metis update_nonempty)
  then have "reload_refs_if_stale env pool_kind False s' = (COk False, s'\<lparr> fc_io := fc_io s' + 1 \<rparr>)"
    using assms(2) s' by (simp add: reload_refs_if_stale_def Cache_is_stale_def client_simps pool_kind_def not_le [symmetric])
  then show ?thesis
    using assms(3) s'
    by (simp add: get_pool_def get_object_def mbind_def fetch_object_def client_simps pool_kind_def resolve_def update_conv')
qed

theorem added_pool_found_witness:
  "\<exists>signature s'. add_pool example_env0 (example_key 2) example_pool
       ((FarmClient_default example_env0)\<lparr> fc_pool_refs := \<lparr> c_data = [], c_last_load = 0, c_counter = 1 \<rparr> \<rparr>) = (COk signature, s') \<and>
     fst (get_pool example_env0 (pl_name example_pool) s') = COk example_pool"
proof -
  let ?s = "(FarmClient_default example_env0)\<lparr> fc_pool_refs := \<lparr> c_data = [], c_last_load = 0, c_counter = 1 \<rparr> \<rparr>"
  obtain data where "MainInstruction_to_vec (MainI_AddPool example_pool) = Ok data"
    using main_instruction.to_vec_decodes [of "\<lambda>_. True" "MainI_AddPool example_pool"]
      main_enc_max [of "\<lambda>_. True" "MainI_AddPool example_pool"] examples_valid
    by (force simp: to_vec_defs)
  moreover have "reinsert_latest_versions [([80], k)] [] = COk []" for k
    by (simp add: reinsert_latest_versions_def extract_pool_name_and_version_def is_liquidity_token_def)
  moreover have "sign_and_send_instructions example_env0 [example_key 2] xs t = (COk [1], t\<lparr> fc_io := fc_io t + 2 \<rparr>)" for xs t
    by (simp add: sign_and_send_instructions_def rpc_get_latest_blockhash_def of_rpc_def example_env0_def example_client_env_def
        eval_nat_numeral client_simps munwrap_def send_and_confirm_def)
  moreover have "find_refdb_pda example_env0 x = COk (example_key 7)" "find_target_pda example_env0 t x = COk (example_key 8)" for t x
    by (simp_all add: find_refdb_pda_def REFDB_ONCHAIN_INIT_def find_target_pda_def find_program_address_def
        example_env0_def example_client_env_def)
  ultimately have "\<exists>signature s'. add_pool example_env0 (example_key 2) example_pool ?s = (COk signature, s') \<and>
      c_last_load (fc_pool_refs s') = 0 \<and> fc_latest_pools s' = []"
    by (simp add: add_pool_def new_instruction_add_pool_def send_then_def learn_object_def relearn_latest_def client_simps
        pool_kind_def example_pool_def FarmClient_default_def)
  then show ?thesis
    using added_pool_found [of example_env0 "example_key 2" example_pool ?s]
    by (fastforce simp: example_env0_def RELOAD_INTERVAL_def)
qed

end
