(* ===== verification/Client_Stats.thy ===== *)
theory Client_Stats
  imports Client_Checks
begin

text \<open>
  What the client reports: the state of vaults and funds, which the programs keep as records of a database in an
  account of their own, staked balances, custodies with their balances, and how many objects each protocol has.
\<close>

section \<open>Staked balances\<close>

definition stake_info_balance :: "u16 \<Rightarrow> bytes \<Rightarrow> u64 result" where
  "stake_info_balance version data =
     (if version \<ge> 4 then bind (RaydiumUserStakeInfoV4_unpack data) (\<lambda>i. Ok (si4_deposit_balance i))
      else bind (RaydiumUserStakeInfo_unpack data) (\<lambda>i. Ok (si_deposit_balance i)))"

definition get_user_stake_balance :: "ClientEnv \<Rightarrow> pubkey \<Rightarrow> bytes \<Rightarrow> f64 client" where
  "get_user_stake_balance env wallet_address farm_name =
     mbind (get_farm env farm_name) (\<lambda>farm.
       case frm_route farm of
         FarmRoute_Raydium _ _ _ _ _ \<Rightarrow>
           mbind (get_stake_account env wallet_address farm_name) (\<lambda>stake_account.
           mbind (mtry (rpc_get_account_data env stake_account)) (\<lambda>r.
             case r of
               Some stake_data \<Rightarrow>
                 if stake_data = [] then mret (f64_of_nat 0)
                 else
                   mbind (mprog (stake_info_balance (frm_version farm) stake_data)) (\<lambda>deposit_balance.
                   mbind (munwrap (frm_lp_token_ref farm)) (\<lambda>lp_token_ref.
                   mbind (get_token_by_ref env lp_token_ref) (\<lambda>farm_token.
                     mlift (client_tokens_to_ui_amount_with_decimals env deposit_balance (tok_decimals farm_token)))))
             | None \<Rightarrow> mret (f64_of_nat 0)))
       | FarmRoute_Orca _ _ farm_token_ref _ _ \<Rightarrow>
           mbind (mtry (get_token_by_ref env farm_token_ref)) (\<lambda>r.
             case r of
               Some farm_token \<Rightarrow> get_token_account_balance env wallet_address (tok_name farm_token)
             | None \<Rightarrow> mret (f64_of_nat 0)))"

definition vault_stake :: "Farm \<Rightarrow> bytes \<Rightarrow> u64 result" where
  "vault_stake farm stake_data =
     (case frm_route farm of
        FarmRoute_Raydium _ _ _ _ _ \<Rightarrow> stake_info_balance (frm_version farm) stake_data
      | FarmRoute_Orca _ _ _ _ _ \<Rightarrow>
          bind (OrcaUserStakeInfo_unpack stake_data) (\<lambda>i. Ok (osi_base_tokens_converted i)))"

definition get_vault_stake_balance :: "ClientEnv \<Rightarrow> bytes \<Rightarrow> f64 client" where
  "get_vault_stake_balance env vault_name =
     mbind (get_vault env vault_name) (\<lambda>vault.
       case vlt_strategy vault of
         VaultStrategy_StakeLpCompoundRewards _ _ _ _ _ farm_ref _ _ _ _ _ vault_stake_info _ _ _ \<Rightarrow>
           mbind (get_farm_by_ref env farm_ref) (\<lambda>farm.
           mbind (munwrap (frm_lp_token_ref farm)) (\<lambda>lp_token_ref.
           mbind (get_token_by_ref env lp_token_ref) (\<lambda>farm_token.
           mbind (mtry (rpc_get_account_data env vault_stake_info)) (\<lambda>r.
           mbind (case r of
                    Some stake_data \<Rightarrow> if stake_data = [] then mret 0 else mprog (vault_stake farm stake_data)
                  | None \<Rightarrow> mret 0) (\<lambda>balance.
             mlift (client_tokens_to_ui_amount_with_decimals env balance (tok_decimals farm_token)))))))
       | _ \<Rightarrow> mret (f64_of_nat 0))"

section \<open>Vaults\<close>

fun read_vault_info :: "Record list \<Rightarrow> VaultInfo \<Rightarrow> VaultInfo" where
  "read_vault_info [] vault_info = vault_info"
| "read_vault_info (r # rs) vault_info =
     read_vault_info rs
       (case rec_reference r of
          RU64 data \<Rightarrow>
            (if rec_name r = utf8_of ''CrankTime'' then vault_info\<lparr> vin_crank_time := data \<rparr>
             else if rec_name r = utf8_of ''CrankStep'' then vault_info\<lparr> vin_crank_step := data \<rparr>
             else if rec_name r = utf8_of ''TokenAAdded'' then vault_info\<lparr> vin_tokens_a_added := data \<rparr>
             else if rec_name r = utf8_of ''TokenBAdded'' then vault_info\<lparr> vin_tokens_b_added := data \<rparr>
             else if rec_name r = utf8_of ''TokenARemoved'' then vault_info\<lparr> vin_tokens_a_removed := data \<rparr>
             else if rec_name r = utf8_of ''TokenBRemoved'' then vault_info\<lparr> vin_tokens_b_removed := data \<rparr>
             else if rec_name r = utf8_of ''TokenARewards'' then vault_info\<lparr> vin_tokens_a_rewards := data \<rparr>
             else if rec_name r = utf8_of ''TokenBRewards'' then vault_info\<lparr> vin_tokens_b_rewards := data \<rparr>
             else if rec_name r = utf8_of ''DepositAllowed'' then vault_info\<lparr> vin_deposit_allowed := data > 0 \<rparr>
             else if rec_name r = utf8_of ''WithdrawalAllowed'' then vault_info\<lparr> vin_withdrawal_allowed := data > 0 \<rparr>
             else if rec_name r = utf8_of ''MinCrankInterval'' then vault_info\<lparr> vin_min_crank_interval := data \<rparr>
             else if rec_name r = utf8_of ''Fee'' then vault_info\<lparr> vin_fee := data \<rparr>
             else if rec_name r = utf8_of ''ExternalFee'' then vault_info\<lparr> vin_external_fee := data \<rparr>
             else vault_info)
        | _ \<Rightarrow> vault_info)"

definition get_vault_info :: "ClientEnv \<Rightarrow> bytes \<Rightarrow> VaultInfo client" where
  "get_vault_info env vault_name =
     mbind (get_vault env vault_name) (\<lambda>vault.
     mbind (rpc_get_account_data env (vlt_info_account vault)) (\<lambda>data.
     mbind (read_records env data) (\<lambda>rec_vec.
     mbind (get_vault_stake_balance env vault_name) (\<lambda>stake_balance.
       mret ((read_vault_info rec_vec
         \<lparr> vin_crank_time = 0, vin_crank_step = 0, vin_tokens_a_added = 0, vin_tokens_b_added = 0,
           vin_tokens_a_removed = 0, vin_tokens_b_removed = 0, vin_tokens_a_rewards = 0, vin_tokens_b_rewards = 0,
           vin_stake_balance = 0, vin_deposit_allowed = False, vin_withdrawal_allowed = False,
           vin_min_crank_interval = 0, vin_fee = 0, vin_external_fee = 0 \<rparr>)\<lparr> vin_stake_balance := stake_balance \<rparr>)))))"

definition get_all_vault_infos :: "ClientEnv \<Rightarrow> VaultInfo list client" where
  "get_all_vault_infos env =
     mbind (get_vaults env) (\<lambda>vaults. mmap (get_vault_info env) (map fst vaults))"

section \<open>Funds\<close>

fun read_fund_info :: "Record list \<Rightarrow> FundInfo \<Rightarrow> FundInfo" where
  "read_fund_info [] fund_info = fund_info"
| "read_fund_info (r # rs) fund_info =
     read_fund_info rs
       (case rec_reference r of
          RU64 data \<Rightarrow>
            (if rec_name r = utf8_of ''DepositStartTime'' then fund_info\<lparr> fin_deposit_schedule := (fin_deposit_schedule fund_info)\<lparr> fsc_start_time := data \<rparr> \<rparr>
             else if rec_name r = utf8_of ''DepositEndTime'' then fund_info\<lparr> fin_deposit_schedule := (fin_deposit_schedule fund_info)\<lparr> fsc_end_time := data \<rparr> \<rparr>
             else if rec_name r = utf8_of ''DepositApprovalRequired'' then fund_info\<lparr> fin_deposit_schedule := (fin_deposit_schedule fund_info)\<lparr> fsc_approval_required := data \<noteq> 0 \<rparr> \<rparr>
             else if rec_name r = utf8_of ''DepositMinAmountUsd'' then fund_info\<lparr> fin_deposit_schedule := (fin_deposit_schedule fund_info)\<lparr> fsc_min_amount_usd := data \<rparr> \<rparr>
             else if rec_name r = utf8_of ''DepositMaxAmountUsd'' then fund_info\<lparr> fin_deposit_schedule := (fin_deposit_schedule fund_info)\<lparr> fsc_max_amount_usd := data \<rparr> \<rparr>
             else if rec_name r = utf8_of ''DepositFee'' then fund_info\<lparr> fin_deposit_schedule := (fin_deposit_schedule fund_info)\<lparr> fsc_fee := data \<rparr> \<rparr>
             else if rec_name r = utf8_of ''WithdrawalStartTime'' then fund_info\<lparr> fin_withdrawal_schedule := (fin_withdrawal_schedule fund_info)\<lparr> fsc_start_time := data \<rparr> \<rparr>
             else if rec_name r = utf8_of ''WithdrawalEndTime'' then fund_info\<lparr> fin_withdrawal_schedule := (fin_withdrawal_schedule fund_info)\<lparr> fsc_end_time := data \<rparr> \<rparr>
             else if rec_name r = utf8_of ''WithdrawalApprovalRequired'' then fund_info\<lparr> fin_withdrawal_schedule := (fin_withdrawal_schedule fund_info)\<lparr> fsc_approval_required := data \<noteq> 0 \<rparr> \<rparr>
             else if rec_name r = utf8_of ''WithdrawalMinAmountUsd'' then fund_info\<lparr> fin_withdrawal_schedule := (fin_withdrawal_schedule fund_info)\<lparr> fsc_min_amount_usd := data \<rparr> \<rparr>
             else if rec_name r = utf8_of ''WithdrawalMaxAmountUsd'' then fund_info\<lparr> fin_withdrawal_schedule := (fin_withdrawal_schedule fund_info)\<lparr> fsc_max_amount_usd := data \<rparr> \<rparr>
             else if rec_name r = utf8_of ''WithdrawalFee'' then fund_info\<lparr> fin_withdrawal_schedule := (fin_withdrawal_schedule fund_info)\<lparr> fsc_fee := data \<rparr> \<rparr>
             else if rec_name r = utf8_of ''AssetsLimitUsd'' then fund_info\<lparr> fin_assets_config := (fin_assets_config fund_info)\<lparr> fac_assets_limit_usd := data \<rparr> \<rparr>
             else if rec_name r = utf8_of ''AssetsMaxUpdateAgeSec'' then fund_info\<lparr> fin_assets_config := (fin_assets_config fund_info)\<lparr> fac_max_update_age_sec := data \<rparr> \<rparr>
             else if rec_name r = utf8_of ''AssetsMaxPriceError'' then fund_info\<lparr> fin_assets_config := (fin_assets_config fund_info)\<lparr> fac_max_price_error := data \<rparr> \<rparr>
             else if rec_name r = utf8_of ''AssetsMaxPriceAgeSec'' then fund_info\<lparr> fin_assets_config := (fin_assets_config fund_info)\<lparr> fac_max_price_age_sec := data \<rparr> \<rparr>
             else if rec_name r = utf8_of ''IssueVirtualTokens'' then fund_info\<lparr> fin_assets_config := (fin_assets_config fund_info)\<lparr> fac_issue_virtual_tokens := data > 0 \<rparr> \<rparr>
             else if rec_name r = utf8_of ''VirtualTokensSupply'' then fund_info\<lparr> fin_virtual_tokens_supply := data \<rparr>
             else if rec_name r = utf8_of ''AmountInvestedUsd'' then fund_info\<lparr> fin_amount_invested_usd := data \<rparr>
             else if rec_name r = utf8_of ''AmountRemovedUsd'' then fund_info\<lparr> fin_amount_removed_usd := data \<rparr>
             else if rec_name r = utf8_of ''CurrentAssetsUsd'' then fund_info\<lparr> fin_current_assets_usd := data \<rparr>
             else if rec_name r = utf8_of ''AssetsUpdateTime'' then fund_info\<lparr> fin_assets_update_time := data \<rparr>
             else if rec_name r = utf8_of ''AdminActionTime'' then fund_info\<lparr> fin_admin_action_time := data \<rparr>
             else if rec_name r = utf8_of ''LastTradeTime'' then fund_info\<lparr> fin_last_trade_time := data \<rparr>
             else if rec_name r = utf8_of ''LiquidationStartTime'' then fund_info\<lparr> fin_liquidation_start_time := data \<rparr>
             else if rec_name r = utf8_of ''LiquidationAmountUsd'' then fund_info\<lparr> fin_liquidation_amount_usd := data \<rparr>
             else if rec_name r = utf8_of ''LiquidationAmountTokens'' then fund_info\<lparr> fin_liquidation_amount_tokens := data \<rparr>
             else fund_info)
        | _ \<Rightarrow> fund_info)"

definition FundSchedule_default :: FundSchedule where
  "FundSchedule_default = \<lparr> fsc_start_time = 0, fsc_end_time = 0, fsc_approval_required = False,
     fsc_min_amount_usd = 0, fsc_max_amount_usd = 0, fsc_fee = 0 \<rparr>"

definition FundInfo_default :: FundInfo where
  "FundInfo_default = \<lparr> fin_deposit_schedule = FundSchedule_default, fin_withdrawal_schedule = FundSchedule_default,
     fin_assets_config = \<lparr> fac_assets_limit_usd = 0, fac_max_update_age_sec = 0, fac_max_price_error = 0,
       fac_max_price_age_sec = 0, fac_issue_virtual_tokens = False \<rparr>,
     fin_virtual_tokens_supply = 0, fin_amount_invested_usd = 0, fin_amount_removed_usd = 0,
     fin_current_assets_usd = 0, fin_assets_update_time = 0, fin_admin_action_time = 0, fin_last_trade_time = 0,
     fin_liquidation_start_time = 0, fin_liquidation_amount_usd = 0, fin_liquidation_amount_tokens = 0 \<rparr>"

definition get_fund_info :: "ClientEnv \<Rightarrow> bytes \<Rightarrow> FundInfo client" where
  "get_fund_info env fund_name =
     mbind (get_fund env fund_name) (\<lambda>fund.
     mbind (rpc_get_account_data env (fnd_info_account fund)) (\<lambda>data.
     mbind (read_records env data) (\<lambda>rec_vec.
       mret (read_fund_info rec_vec FundInfo_default))))"

definition get_all_fund_infos :: "ClientEnv \<Rightarrow> FundInfo list client" where
  "get_all_fund_infos env =
     mbind (get_funds env) (\<lambda>funds. mmap (get_fund_info env) (map fst funds))"

section \<open>Custodies with their balances\<close>

definition with_balance :: "FundCustody \<Rightarrow> bytes \<Rightarrow> bytes \<Rightarrow> f64 \<Rightarrow> f64 \<Rightarrow> FundCustodyWithBalance" where
  "with_balance custody fund_name token_name balance fees_balance =
     \<lparr> fcb_discriminator = fcu_discriminator custody, fcb_fund_ref = fcu_fund_ref custody, fcb_fund_name = fund_name,
       fcb_custody_id = fcu_custody_id custody, fcb_custody_type = fcu_custody_type custody,
       fcb_token_ref = fcu_token_ref custody, fcb_token_name = token_name, fcb_address = fcu_address custody,
       fcb_fees_address = fcu_fees_address custody, fcb_balance = balance, fcb_fees_balance = fees_balance,
       fcb_bump = fcu_bump custody \<rparr>"

definition get_fund_custody_with_balance ::
  "ClientEnv \<Rightarrow> bytes \<Rightarrow> bytes \<Rightarrow> FundCustodyType \<Rightarrow> FundCustodyWithBalance client" where
  "get_fund_custody_with_balance env fund_name token_name custody_type =
     mbind (get_fund_custody env fund_name token_name custody_type) (\<lambda>custody.
     mbind (get_token_by_ref env (fcu_token_ref custody)) (\<lambda>token.
     mbind (get_fund_by_ref env (fcu_fund_ref custody)) (\<lambda>fund.
     mbind (get_token_account_balance_with_address env (fcu_address custody)) (\<lambda>balance.
     mbind (get_token_account_balance_with_address env (fcu_fees_address custody)) (\<lambda>fees_balance.
       mret (with_balance custody (fnd_name fund) (tok_name token) balance fees_balance))))))"

definition get_fund_custodies_with_balance :: "ClientEnv \<Rightarrow> bytes \<Rightarrow> FundCustodyWithBalance list client" where
  "get_fund_custodies_with_balance env fund_name =
     mbind (get_fund env fund_name) (\<lambda>fund.
     mbind (get_fund_custodies env fund_name) (\<lambda>custodies.
       mmap (\<lambda>custody.
         mbind (get_token_by_ref env (fcu_token_ref custody)) (\<lambda>token.
         mbind (get_token_account_balance_with_address env (fcu_address custody)) (\<lambda>balance.
         mbind (get_token_account_balance_with_address env (fcu_fees_address custody)) (\<lambda>fees_balance.
           mret (with_balance custody (fnd_name fund) (tok_name token) balance fees_balance)))))
       custodies))"

section \<open>Protocols\<close>

record ProtocolInfo =
  pri_protocol :: Protocol
  pri_description :: bytes
  pri_link :: bytes
  pri_pools :: u32
  pri_farms :: u32
  pri_vaults :: u32

definition count_names :: "bytes \<Rightarrow> (bytes \<times> 'a) list \<Rightarrow> u32" where
  "count_names protocol objects = of_nat (length (filter (\<lambda>(name, _). str_starts_with name protocol) objects))"

definition get_protocol_stats :: "ClientEnv \<Rightarrow> Protocol \<Rightarrow> (u32 \<times> u32 \<times> u32) client" where
  "get_protocol_stats env protocol =
     mbind (get_pools env) (\<lambda>pools.
     mbind (get_farms env) (\<lambda>farms.
     mbind (get_vaults env) (\<lambda>vaults.
       let prefix = Protocol_id protocol @ utf8_of ''.''
       in mret (count_names prefix pools, count_names prefix farms, count_names prefix vaults))))"

definition protocol_info :: "Protocol \<Rightarrow> string \<Rightarrow> string \<Rightarrow> u32 \<times> u32 \<times> u32 \<Rightarrow> ProtocolInfo" where
  "protocol_info protocol description link stats =
     \<lparr> pri_protocol = protocol, pri_description = utf8_of description, pri_link = utf8_of link,
       pri_pools = fst stats, pri_farms = fst (snd stats), pri_vaults = snd (snd stats) \<rparr>"

definition get_protocols :: "ClientEnv \<Rightarrow> ProtocolInfo list client" where
  "get_protocols env =
     mbind (get_protocol_stats env Raydium) (\<lambda>raydium.
     mbind (get_protocol_stats env Saber) (\<lambda>saber.
     mbind (get_protocol_stats env Orca) (\<lambda>orca.
       mret [protocol_info Raydium ''Raydium protocol'' ''www.raydium.io'' raydium,
             protocol_info Saber ''Saber protocol'' ''www.saber.so'' saber,
             protocol_info Orca ''Orca protocol'' ''www.orca.so'' orca])))"

end
